(* ===== verification/Lab_Prelude.thy ===== *)
theory Lab_Prelude
  imports Complex_Main
begin

text \<open>
  The vocabulary the component theories share.

  \<^item> The Python exceptions the code raises are the constructors of \<open>py_error\<close>; a function that may
    raise returns \<open>'a res\<close>, with \<open>Inl\<close> for the exception and \<open>Inr\<close> for the value. The message
    text of an exception is not modelled. \<open>rbind\<close> sequences two such computations: an exception of
    the first one skips the second, as it does in Python.
  \<^item> \<open>SimulatorUnavailable\<close> and \<open>V3PoolUnavailable\<close> carry their message, which the code shows; \<open>OtherError\<close> is
    an exception of a library the code calls (network, JSON, database), known by its class name.
  \<^item> \<open>Diverges\<close> is no exception of the code: it is the value of a loop that does not return, so no
    handler catches it; a loop that may not return is a \<^theory_text>\<open>partial_function\<close> whose
    \<open>None\<close> becomes \<open>Diverges\<close>.
  \<^item> \<open>res_map\<close> is a loop that collects results and stops at the first exception.
  \<^item> \<open>py_arith_error\<close> and \<open>py_value_error\<close> say which exceptions an \<open>except ArithmeticError\<close> or an
    \<open>except ValueError\<close> clause catches.
\<close>

section \<open>Exceptions as values\<close>

datatype py_error =
    ZeroDivisionError
  | OverflowError
  | ArithmeticError
  | ValueError
  | KeyError
  | IndexError
  | TypeError
  | AttributeError
  | AssertionError
  | RuntimeError
  | WindowExhausted
  | StateGap
  | ReorgDetected
  | RecursionError
  | DecodingError
  | RpcError
  | RpcRefused
  | BudgetExceeded
  | OSError
  | SimulatorUnavailable string
  | V3PoolUnavailable string
  | OtherError string
  | Diverges

type_synonym 'a res = "py_error + 'a"

abbreviation raise_error :: "py_error \<Rightarrow> 'a res" where
  "raise_error e \<equiv> Inl e"

abbreviation ok :: "'a \<Rightarrow> 'a res" where
  "ok x \<equiv> Inr x"

definition rbind :: "'a res \<Rightarrow> ('a \<Rightarrow> 'b res) \<Rightarrow> 'b res" where
  "rbind m f = (case m of Inl e \<Rightarrow> Inl e | Inr x \<Rightarrow> f x)"

definition py_arith_error :: "py_error \<Rightarrow> bool" where
  "py_arith_error e \<longleftrightarrow> e = ArithmeticError \<or> e = ZeroDivisionError \<or> e = OverflowError"

definition py_value_error :: "py_error \<Rightarrow> bool" where
  "py_value_error e \<longleftrightarrow> e = ValueError"

text \<open>\<open>type(error).__name__\<close>; the ABI library raises subclasses of \<open>DecodingError\<close>, named here by their base.\<close>

definition error_name :: "py_error \<Rightarrow> string" where
  "error_name e = (case e of
     ZeroDivisionError \<Rightarrow> ''ZeroDivisionError'' | OverflowError \<Rightarrow> ''OverflowError'' | ArithmeticError \<Rightarrow> ''ArithmeticError''
   | ValueError \<Rightarrow> ''ValueError'' | KeyError \<Rightarrow> ''KeyError'' | IndexError \<Rightarrow> ''IndexError'' | TypeError \<Rightarrow> ''TypeError''
   | AttributeError \<Rightarrow> ''AttributeError'' | AssertionError \<Rightarrow> ''AssertionError'' | RuntimeError \<Rightarrow> ''RuntimeError''
   | WindowExhausted \<Rightarrow> ''WindowExhausted'' | StateGap \<Rightarrow> ''StateGap'' | ReorgDetected \<Rightarrow> ''ReorgDetected''
   | RecursionError \<Rightarrow> ''RecursionError'' | DecodingError \<Rightarrow> ''DecodingError'' | RpcError \<Rightarrow> ''RpcError''
   | RpcRefused \<Rightarrow> ''RpcRefused'' | BudgetExceeded \<Rightarrow> ''BudgetExceeded'' | OSError \<Rightarrow> ''OSError''
   | SimulatorUnavailable message \<Rightarrow> ''SimulatorUnavailable'' | V3PoolUnavailable message \<Rightarrow> ''V3PoolUnavailable''
   | OtherError name \<Rightarrow> name | Diverges \<Rightarrow> [])"

lemma rbind_simps [simp]:
  "rbind (Inl e) f = Inl e"
  "rbind (Inr x) f = f x"
  by (simp_all add: rbind_def)

lemma rbind_eq_Inr_iff [simp]:
  "rbind m f = Inr y \<longleftrightarrow> (\<exists>x. m = Inr x \<and> f x = Inr y)"
  by (cases m) simp_all

lemma rbind_eq_Inl_iff:
  "rbind m f = Inl e \<longleftrightarrow> m = Inl e \<or> (\<exists>x. m = Inr x \<and> f x = Inl e)"
  by (cases m) simp_all

lemma rbind_InrE [elim!]:
  assumes "rbind m f = Inr y"
  obtains x where "m = Inr x" and "f x = Inr y"
  using assms by auto

lemma rbind_cong [fundef_cong]:
  assumes "m = m'" and "\<And>x. m' = Inr x \<Longrightarrow> f x = f' x"
  shows "rbind m f = rbind m' f'"
  using assms by (cases m') simp_all

text \<open>
  An operation on a mutable object returns the object next to its result: what it had assigned before
  an exception stays assigned. \<open>sbind\<close> sequences two of them.
\<close>

definition sbind :: "'s \<times> 'a res \<Rightarrow> ('s \<Rightarrow> 'a \<Rightarrow> 's \<times> 'b res) \<Rightarrow> 's \<times> 'b res" where
  "sbind r f = (case snd r of Inl e \<Rightarrow> (fst r, Inl e) | Inr x \<Rightarrow> f (fst r) x)"

lemma sbind_simps [simp]:
  "sbind (s, Inl e) f = (s, Inl e)"
  "sbind (s, Inr x) f = f s x"
  by (simp_all add: sbind_def)

lemma sbind_Inr: "sbind r f = (s', Inr y) \<longleftrightarrow> (\<exists>x. snd r = Inr x \<and> f (fst r) x = (s', Inr y))"
  by (cases r; cases "snd r") (auto simp: sbind_def)

primrec res_map :: "('a \<Rightarrow> 'b res) \<Rightarrow> 'a list \<Rightarrow> 'b list res" where
  "res_map f [] = Inr []"
| "res_map f (x # xs) = rbind (f x) (\<lambda>y. rbind (res_map f xs) (\<lambda>ys. Inr (y # ys)))"

lemma res_map_length: "res_map f xs = Inr ys \<Longrightarrow> length ys = length xs"
  by (induction xs arbitrary: ys) auto

lemma res_map_Inr_all: "res_map f xs = Inr ys \<Longrightarrow> list_all2 (\<lambda>x y. f x = Inr y) xs ys"
  by (induction xs arbitrary: ys) auto

text \<open>Python's integer floor division raises on a zero divisor.\<close>

definition py_floordiv :: "int \<Rightarrow> int \<Rightarrow> int res" where
  "py_floordiv a b = (if b = 0 then raise_error ZeroDivisionError else ok (a div b))"

lemma py_floordiv_nonzero [simp]: "b \<noteq> 0 \<Longrightarrow> py_floordiv a b = Inr (a div b)"
  by (simp add: py_floordiv_def)

section \<open>Rule collections\<close>

text \<open>
  \<open>int_exact\<close> collects the facts on exact integer arithmetic (floor and ceiling quotients);
  \<open>record_shapes\<close> collects the frame facts of state updates.
\<close>

named_theorems int_exact
named_theorems record_shapes

section \<open>Floor and ceiling quotients\<close>

text \<open>Python's \<open>-(-x // y)\<close> is the ceiling quotient; \<open>x // y\<close> and \<open>x % y\<close> are HOL's \<open>div\<close> and \<open>mod\<close>.\<close>

lemma floor_le_iff:
  fixes x y q :: int
  assumes "0 < y"
  shows "q \<le> x div y \<longleftrightarrow> q * y \<le> x"
proof
  assume "q \<le> x div y"
  then have "q * y \<le> (x div y) * y" using assms by (simp add: mult_right_mono)
  also have "\<dots> \<le> x" using assms by (simp add: div_mult_mod_eq minus_mod_eq_div_mult [symmetric])
  finally show "q * y \<le> x" .
next
  assume "q * y \<le> x"
  then have "q * y div y \<le> x div y" using assms by (rule zdiv_mono1)
  then show "q \<le> x div y" using assms by simp
qed

definition ceil_div :: "int \<Rightarrow> int \<Rightarrow> int" where
  "ceil_div x y = - ((- x) div y)"

lemma ceil_le_iff:
  fixes x y q :: int
  assumes "0 < y"
  shows "ceil_div x y \<le> q \<longleftrightarrow> x \<le> q * y"
  using floor_le_iff [OF assms, of "- q" "- x"] by (simp add: ceil_div_def minus_le_iff)

lemma floor_mult_le [int_exact]: "0 < y \<Longrightarrow> (x div y) * y \<le> (x::int)"
  using floor_le_iff [of y "x div y" x] by simp

lemma floor_mult_gt: "0 < y \<Longrightarrow> x < (x div y + 1) * (y::int)"
  using floor_le_iff [of y "x div y + 1" x] by simp

lemma ceil_mult_ge [int_exact]: "0 < y \<Longrightarrow> x \<le> ceil_div x y * y"
  using ceil_le_iff [of y x "ceil_div x y"] by simp

lemma ceil_mult_lt: "0 < y \<Longrightarrow> (ceil_div x y - 1) * y < x"
  using ceil_le_iff [of y x "ceil_div x y - 1"] by simp

lemma ceil_div_plus [int_exact]: "0 < y \<Longrightarrow> ceil_div x y = x div y + (if x mod y = 0 then 0 else 1)"
  unfolding ceil_div_def by (simp add: zdiv_zminus1_eq_if)
lemma ceil_div_nonneg: "0 < y \<Longrightarrow> 0 \<le> x \<Longrightarrow> 0 \<le> ceil_div x y"
  unfolding ceil_div_def by (simp add: div_nonpos_pos_le0)

lemma floor_le_ceil_div: "0 < y \<Longrightarrow> x div y \<le> ceil_div x y"
  by (simp add: ceil_div_plus)

lemma ceil_div_mono: "0 < y \<Longrightarrow> x \<le> x' \<Longrightarrow> ceil_div x y \<le> ceil_div x' y"
  unfolding ceil_div_def by (simp add: zdiv_mono1)

lemma ceil_div_zero [simp]: "ceil_div 0 y = 0"
  by (simp add: ceil_div_def)

lemma ceil_div_step:
  assumes "0 < y" and "x + y \<le> x'"
  shows "ceil_div x y < ceil_div x' y"
proof -
  have "- x' div y \<le> (- x - y) div y"
    using assms by (intro zdiv_mono1) auto
  also have "\<dots> = - x div y - 1"
    using assms(1) div_add_self2 [of y "- x - y"] by simp
  finally show ?thesis by (simp add: ceil_div_def)
qed

end
