(* ===== verification/V3_Full_Math.thy ===== *)
theory V3_Full_Math
  imports Lab_Prelude "HOL-Library.Word"
begin

text \<open>
  \<open>app/market_data/uniswap_v3/constants.py\<close>, \<open>full_math.py\<close> and \<open>fee_growth.py\<close>: the constants of
  the pool, the exact quotients every price computation is made of, and the fee-growth
  accumulators, which live modulo \<open>2 ^ 256\<close>. Python integers are \<open>int\<close>; the wrap-around of
  \<open>wrap_sub\<close> is written out, and \<open>wrap_sub_word\<close> relates it to subtraction of 256-bit words.
\<close>

section \<open>Constants\<close>

definition MIN_TICK :: int where "MIN_TICK = -887272"
definition MAX_TICK :: int where "MAX_TICK = 887272"
definition MIN_SQRT_RATIO :: int where "MIN_SQRT_RATIO = 4295128739"
definition MAX_SQRT_RATIO :: int where
  "MAX_SQRT_RATIO = 1461446703485210103287273052203988822378723970342"
definition Q96 :: int where "Q96 = 2 ^ 96"
definition Q128 :: int where "Q128 = 2 ^ 128"
definition U256 :: int where "U256 = 2 ^ 256"
definition MAX_UINT256 :: int where "MAX_UINT256 = U256 - 1"
definition MAX_UINT160 :: int where "MAX_UINT160 = 2 ^ 160 - 1"
definition MAX_UINT128 :: int where "MAX_UINT128 = 2 ^ 128 - 1"
definition FEE_PIPS_DENOMINATOR :: int where "FEE_PIPS_DENOMINATOR = 1000000"

text \<open>Fee tier in pips to tick spacing; a missing tier has no entry.\<close>

definition FEE_TIER_TICK_SPACING :: "int \<rightharpoonup> int" where
  "FEE_TIER_TICK_SPACING = [100 \<mapsto> 1, 500 \<mapsto> 10, 3000 \<mapsto> 60, 10000 \<mapsto> 200]"

lemmas pool_constants =
  MIN_TICK_def MAX_TICK_def MIN_SQRT_RATIO_def MAX_SQRT_RATIO_def Q96_def Q128_def U256_def
  MAX_UINT256_def MAX_UINT160_def MAX_UINT128_def FEE_PIPS_DENOMINATOR_def

lemma Q_pos [simp]: "0 < Q96" "0 < Q128" "0 < U256" "0 < FEE_PIPS_DENOMINATOR"
  by (simp_all add: pool_constants)

section \<open>FullMath\<close>

definition mul_div :: "int \<Rightarrow> int \<Rightarrow> int \<Rightarrow> int res" where
  "mul_div a b denominator =
     (if denominator \<le> 0 then raise_error ZeroDivisionError
      else ok ((a * b) div denominator))"

definition mul_div_rounding_up :: "int \<Rightarrow> int \<Rightarrow> int \<Rightarrow> int res" where
  "mul_div_rounding_up a b denominator =
     (if denominator \<le> 0 then raise_error ZeroDivisionError
      else let product = a * b; result = product div denominator
           in ok (if product mod denominator \<noteq> 0 then result + 1 else result))"

definition div_rounding_up :: "int \<Rightarrow> int \<Rightarrow> int res" where
  "div_rounding_up x y =
     (if y \<le> 0 then raise_error ZeroDivisionError else ok (- ((- x) div y)))"

text \<open>The three are the floor and the ceiling of the exact quotient.\<close>

lemma mul_div_pos [simp]: "0 < d \<Longrightarrow> mul_div a b d = Inr (a * b div d)"
  by (simp add: mul_div_def)

lemma mul_div_rounding_up_pos [simp]: "0 < d \<Longrightarrow> mul_div_rounding_up a b d = Inr (ceil_div (a * b) d)"
  by (simp add: mul_div_rounding_up_def ceil_div_plus Let_def)

lemma div_rounding_up_pos [simp]: "0 < y \<Longrightarrow> div_rounding_up x y = Inr (ceil_div x y)"
  by (simp add: div_rounding_up_def ceil_div_def)

lemma mul_div_Inr_iff: "mul_div a b d = Inr r \<longleftrightarrow> 0 < d \<and> r = a * b div d"
  by (auto simp: mul_div_def)

lemma mul_div_rounding_up_Inr_iff:
  "mul_div_rounding_up a b d = Inr r \<longleftrightarrow> 0 < d \<and> r = ceil_div (a * b) d"
  by (cases "0 < d") (auto simp: mul_div_rounding_up_def [of a b d] ceil_div_plus Let_def)

lemma div_rounding_up_Inr_iff: "div_rounding_up x y = Inr r \<longleftrightarrow> 0 < y \<and> r = ceil_div x y"
  by (auto simp: div_rounding_up_def ceil_div_def)

lemmas full_math_Inr = mul_div_Inr_iff mul_div_rounding_up_Inr_iff div_rounding_up_Inr_iff

section \<open>Fee growth modulo 2 ^ 256\<close>

definition wrap_sub :: "int \<Rightarrow> int \<Rightarrow> int" where
  "wrap_sub a b = (a - b) mod U256"

definition fee_growth_inside :: "int \<Rightarrow> int \<Rightarrow> int \<Rightarrow> int \<Rightarrow> int \<Rightarrow> int \<Rightarrow> int" where
  "fee_growth_inside tick_current tick_lower tick_upper lower_outside upper_outside global_growth =
     (let below = (if tick_lower \<le> tick_current then lower_outside
                   else wrap_sub global_growth lower_outside);
          above = (if tick_current < tick_upper then upper_outside
                   else wrap_sub global_growth upper_outside)
      in wrap_sub (wrap_sub global_growth below) above)"

definition fees_owed :: "int \<Rightarrow> int \<Rightarrow> int res" where
  "fees_owed liquidity growth_delta_x128 = mul_div growth_delta_x128 liquidity Q128"

lemma wrap_sub_range: "0 \<le> wrap_sub a b \<and> wrap_sub a b < U256"
  by (simp add: wrap_sub_def)

lemma wrap_sub_word:
  "wrap_sub (uint (a :: 256 word)) (uint b) = uint (a - b)"
  by (simp add: wrap_sub_def U256_def uint_word_ariths)

lemma wrap_sub_mod [simp]:
  "wrap_sub (a mod U256) b = wrap_sub a b"
  "wrap_sub a (b mod U256) = wrap_sub a b"
  by (simp_all add: wrap_sub_def mod_diff_left_eq mod_diff_right_eq)

lemma wrap_sub_wrap_sub: "wrap_sub (wrap_sub a b) c = wrap_sub a (b + c)"
  by (simp add: wrap_sub_def mod_diff_left_eq diff_diff_eq)

lemma wrap_sub_wrap_sub_right: "wrap_sub a (wrap_sub b c) = wrap_sub (a + c) b"
  by (simp add: wrap_sub_def mod_diff_right_eq algebra_simps)

lemma wrap_sub_exact: "0 \<le> a - b \<Longrightarrow> a - b < U256 \<Longrightarrow> wrap_sub a b = a - b"
  by (simp add: wrap_sub_def)

text \<open>
  The growth below the range, inside it and above it add up to the global growth, whatever
  wrapped: the three accumulators never count a fee twice or drop one.
\<close>

definition growth_below :: "int \<Rightarrow> int \<Rightarrow> int \<Rightarrow> int \<Rightarrow> int" where
  "growth_below tick_current tick_lower lower_outside global_growth =
     (if tick_lower \<le> tick_current then lower_outside else wrap_sub global_growth lower_outside)"

definition growth_above :: "int \<Rightarrow> int \<Rightarrow> int \<Rightarrow> int \<Rightarrow> int" where
  "growth_above tick_current tick_upper upper_outside global_growth =
     (if tick_current < tick_upper then upper_outside else wrap_sub global_growth upper_outside)"

lemma fee_growth_inside_alt:
  "fee_growth_inside t l u lo uo g = (g - growth_below t l lo g - growth_above t u uo g) mod U256"
  by (simp add: fee_growth_inside_def growth_below_def growth_above_def Let_def wrap_sub_wrap_sub)
    (simp add: wrap_sub_def mod_diff_right_eq mod_diff_left_eq diff_diff_eq mod_diff_eq)

end
