(* ===== verification/V3_Tick_Math.thy ===== *)
theory V3_Tick_Math
  imports V3_Full_Math
begin

text \<open>
  \<open>app/market_data/uniswap_v3/tick_math.py\<close>: ticks to Q64.96 square-root prices by repeated
  multiplication with a table of constants, and back by binary search. The analysis below shows
  that the table, with all its truncations, is strictly increasing over the whole tick range;
  the binary search is proved in the locale \<open>monotone_table\<close>, interpreted on the table.
\<close>

unbundle bit_operations_syntax

section \<open>getSqrtRatioAtTick\<close>

definition TICK_MULTIPLIERS :: "(int \<times> int) list" where
  "TICK_MULTIPLIERS =
    [(0x2, 0xFFF97272373D413259A46990580E213A),
     (0x4, 0xFFF2E50F5F656932EF12357CF3C7FDCC),
     (0x8, 0xFFE5CACA7E10E4E61C3624EAA0941CD0),
     (0x10, 0xFFCB9843D60F6159C9DB58835C926644),
     (0x20, 0xFF973B41FA98C081472E6896DFB254C0),
     (0x40, 0xFF2EA16466C96A3843EC78B326B52861),
     (0x80, 0xFE5DEE046A99A2A811C461F1969C3053),
     (0x100, 0xFCBE86C7900A88AEDCFFC83B479AA3A4),
     (0x200, 0xF987A7253AC413176F2B074CF7815E54),
     (0x400, 0xF3392B0822B70005940C7A398E4B70F3),
     (0x800, 0xE7159475A2C29B7443B29C7FA6E889D9),
     (0x1000, 0xD097F3BDFD2022B8845AD8F792AA5825),
     (0x2000, 0xA9F746462D870FDF8A65DC1F90E061E5),
     (0x4000, 0x70D869A156D2A1B890BB3DF62BAF32F7),
     (0x8000, 0x31BE135F97D08FD981231505542FCFA6),
     (0x10000, 0x9AA508B5B7A84E1C677DE54F3E99BC9),
     (0x20000, 0x5D6AF8DEDB81196699C329225EE604),
     (0x40000, 0x2216E584F5FA1EA926041BEDFE98),
     (0x80000, 0x48A170391F7DC42444E8FA2)]"

fun apply_multipliers :: "int \<Rightarrow> int \<Rightarrow> (int \<times> int) list \<Rightarrow> int" where
  "apply_multipliers abs_tick ratio [] = ratio"
| "apply_multipliers abs_tick ratio ((b, multiplier) # rest) =
     apply_multipliers abs_tick
       (if abs_tick AND b \<noteq> 0 then drop_bit 128 (ratio * multiplier) else ratio) rest"

definition get_sqrt_ratio_at_tick :: "int \<Rightarrow> int res" where
  "get_sqrt_ratio_at_tick tick =
     (let abs_tick = \<bar>tick\<bar> in
      if abs_tick > MAX_TICK then raise_error ValueError
      else
        let ratio0 = (if abs_tick AND 0x1 \<noteq> 0 then 0xFFFCB933BD6FAD37AA2D162D1A594001
                      else 0x100000000000000000000000000000000);
            ratio1 = apply_multipliers abs_tick ratio0 TICK_MULTIPLIERS;
            ratio = (if tick > 0 then MAX_UINT256 div ratio1 else ratio1)
        in ok (drop_bit 32 ratio + (if ratio mod 2 ^ 32 = 0 then 0 else 1)))"

section \<open>The table as a product\<close>

text \<open>
  \<open>tick_products\<close> is the table with the entry of bit 0 in front. For the analysis, the product
  without truncation is the real number \<open>exact_product\<close>, indexed by the bits of the tick.
\<close>

definition tick_products :: "int list" where
  "tick_products = 0xFFFCB933BD6FAD37AA2D162D1A594001 # map snd TICK_MULTIPLIERS"

fun exact_product :: "int list \<Rightarrow> int \<Rightarrow> real" where
  "exact_product [] a = 1"
| "exact_product (m # ms) a =
     (if odd a then real_of_int m / 2 ^ 128 else 1) * exact_product ms (a div 2)"

fun trunc_product :: "int \<Rightarrow> int list \<Rightarrow> int" where
  "trunc_product x [] = x"
| "trunc_product x (m # ms) = trunc_product (x * m div 2 ^ 128) ms"

fun table_gaps :: "int \<Rightarrow> int list \<Rightarrow> bool" where
  "table_gaps c [] = True"
| "table_gaps c (m # ms) =
     (0 < m \<and> m \<le> 2 ^ 128 \<and> m * 2 ^ 15 \<le> (2 ^ 15 - 1) * c \<and> table_gaps (c * m div 2 ^ 128) ms)"

lemma and_power2_iff_bit: "(a AND 2 ^ n \<noteq> 0) \<longleftrightarrow> bit a n" for a :: int
  by (simp add: and_exp_eq_0_iff_not_bit)

lemma odd_div_power2_iff_bit: "odd (a div 2 ^ n) \<longleftrightarrow> bit a n" for a :: int
  by (simp add: bit_iff_odd)

lemma exact_product_pos: "table_gaps c ms \<Longrightarrow> 0 < exact_product ms a"
  by (induction ms arbitrary: a c) auto

lemma exact_product_le_1: "table_gaps c ms \<Longrightarrow> exact_product ms a \<le> 1"
proof (induction ms arbitrary: a c)
  case (Cons m ms)
  have rest: "0 < exact_product ms (a div 2)" "exact_product ms (a div 2) \<le> 1"
    using Cons.prems Cons.IH exact_product_pos by auto
  moreover have "(if odd a then real_of_int m / 2 ^ 128 else 1) \<le> 1"
    using Cons.prems by (simp add: le_divide_eq divide_le_eq flip: of_int_le_iff)
  ultimately show ?case
    using mult_mono [of "if odd a then real_of_int m / 2 ^ 128 else 1" 1 "exact_product ms (a div 2)" 1]
    by simp
qed simp

lemma factor_bounds:
  assumes "0 < m" and "m \<le> 2 ^ 128"
  shows "real_of_int m / 2 ^ 128 \<le> (if odd (a::int) then real_of_int m / 2 ^ 128 else 1)"
proof -
  have "real_of_int m \<le> real_of_int (2 ^ 128)" using assms(2) by (rule of_int_le_iff [THEN iffD2])
  then show ?thesis by simp
qed

lemma real_div_le: "real_of_int (y div 2 ^ 128) \<le> real_of_int y / 2 ^ 128"
  using real_of_int_div4 [of y "2 ^ 128"] by simp

text \<open>One step up in the tick shrinks the exact product by at least \<open>2 ^ -15\<close> of itself.\<close>

lemma exact_product_step:
  assumes "table_gaps c ms" and "real_of_int c / 2 ^ 128 \<le> g" and "0 \<le> a"
    and "a + 1 < 2 ^ length ms"
  shows "exact_product ms (a + 1) \<le> (1 - 1 / 2 ^ 15) * g * exact_product ms a"
  using assms
proof (induction ms arbitrary: a c g)
  case (Cons m ms)
  let ?u = "real_of_int m / 2 ^ 128"
  have pos: "0 < exact_product ms (a div 2)"
    using Cons.prems(1) exact_product_pos by auto
  show ?case
  proof (cases "even a")
    case True
    have m: "real_of_int m * 2 ^ 15 \<le> (2 ^ 15 - 1) * real_of_int c"
      using Cons.prems(1) by (simp flip: of_int_le_iff)
    have "?u \<le> (1 - 1 / 2 ^ 15) * (real_of_int c / 2 ^ 128)"
      using m by (simp add: field_simps)
    also have "\<dots> \<le> (1 - 1 / 2 ^ 15) * g"
      using Cons.prems(2) by (intro mult_left_mono) auto
    finally have "?u * exact_product ms (a div 2) \<le> (1 - 1 / 2 ^ 15) * g * exact_product ms (a div 2)"
      using pos by (intro mult_right_mono) auto
    with True show ?thesis by simp
  next
    case False
    have "real_of_int (c * m div 2 ^ 128) \<le> real_of_int (c * m) / 2 ^ 128"
      by (rule real_div_le)
    then have "real_of_int (c * m div 2 ^ 128) / 2 ^ 128 \<le> (real_of_int c / 2 ^ 128) * ?u"
      by (simp add: divide_right_mono)
    also have "\<dots> \<le> g * ?u"
      using Cons.prems(1,2) by (intro mult_right_mono) auto
    finally have c: "real_of_int (c * m div 2 ^ 128) / 2 ^ 128 \<le> g * ?u" .
    have "a div 2 + 1 < 2 ^ length ms"
      using False Cons.prems(4) by (elim oddE) simp
    then have "exact_product ms (a div 2 + 1) \<le> (1 - 1 / 2 ^ 15) * (g * ?u) * exact_product ms (a div 2)"
      using Cons.prems c by (intro Cons.IH [where c = "c * m div 2 ^ 128"]) auto
    with False show ?thesis by simp
  qed
qed simp

lemma trunc_product_le:
  assumes "table_gaps c ms" and "0 \<le> x"
  shows "real_of_int (trunc_product x ms) \<le> real_of_int x * exact_product ms a"
  using assms
proof (induction ms arbitrary: a c x)
  case (Cons m ms)
  let ?f = "if odd a then real_of_int m / 2 ^ 128 else 1"
  have pos: "0 < exact_product ms (a div 2)"
    using Cons.prems(1) exact_product_pos by auto
  have "real_of_int (x * m div 2 ^ 128) \<le> real_of_int x * (real_of_int m / 2 ^ 128)"
    using real_div_le [of "x * m"] by simp
  also have "\<dots> \<le> real_of_int x * ?f"
    using Cons.prems by (intro mult_left_mono factor_bounds) auto
  finally have step: "real_of_int (x * m div 2 ^ 128) \<le> real_of_int x * ?f" .
  have "real_of_int (trunc_product (x * m div 2 ^ 128) ms)
      \<le> real_of_int (x * m div 2 ^ 128) * exact_product ms (a div 2)"
    using Cons.prems by (intro Cons.IH [where c = "c * m div 2 ^ 128"]) (auto simp: pos_imp_zdiv_nonneg_iff)
  also have "\<dots> \<le> real_of_int x * ?f * exact_product ms (a div 2)"
    using step pos by (intro mult_right_mono) auto
  finally show ?case by (simp only: exact_product.simps trunc_product.simps mult.assoc)
qed simp


section \<open>Truncation error of the table\<close>

text \<open>
  Each multiplication drops less than one unit and all factors are at most 1, so the computed
  ratio is below the exact one by fewer units than there are table entries.
\<close>

fun apply_products :: "int \<Rightarrow> int \<Rightarrow> int list \<Rightarrow> int" where
  "apply_products a x [] = x"
| "apply_products a x (m # ms) =
     apply_products (a div 2) (if odd a then x * m div 2 ^ 128 else x) ms"

lemma apply_multipliers_eq:
  "apply_multipliers a x (zip (map (\<lambda>i. 2 ^ i) [n..<n + length ms]) ms)
     = apply_products (a div 2 ^ n) x ms"
proof (induction ms arbitrary: n x)
  case (Cons m ms)
  have n: "[n..<n + length (m # ms)] = n # [Suc n..<Suc n + length ms]"
    by (simp add: upt_conv_Cons del: upt_Suc)
  have "(a AND 2 ^ n \<noteq> 0) = odd (a div 2 ^ n)"
    by (simp only: and_power2_iff_bit odd_div_power2_iff_bit)
  moreover have "a div 2 ^ n div 2 = a div 2 ^ Suc n"
    by (subst power_Suc2, subst zdiv_zmult2_eq) simp_all
  ultimately show ?case
    using Cons.IH [where n = "Suc n"] unfolding n
    by (simp only: list.map zip_Cons_Cons apply_multipliers.simps apply_products.simps drop_bit_eq_div)
qed simp

lemma apply_products_bounds:
  assumes "table_gaps c ms" and "0 \<le> x"
  shows "0 \<le> apply_products a x ms
    \<and> real_of_int (apply_products a x ms) \<le> real_of_int x * exact_product ms a
    \<and> real_of_int x * exact_product ms a - length ms \<le> real_of_int (apply_products a x ms)"
  using assms
proof (induction ms arbitrary: a c x)
  case (Cons m ms)
  let ?y = "if odd a then x * m div 2 ^ 128 else x"
  let ?f = "if odd a then real_of_int m / 2 ^ 128 else 1"
  let ?E = "exact_product ms (a div 2)"
  have gaps: "table_gaps (c * m div 2 ^ 128) ms" and m: "0 < m"
    using Cons.prems by auto
  have E: "0 < ?E" "?E \<le> 1"
    using gaps exact_product_pos exact_product_le_1 by auto
  have y: "0 \<le> ?y"
    using Cons.prems m by (simp add: pos_imp_zdiv_nonneg_iff)
  have up: "real_of_int ?y \<le> real_of_int x * ?f"
    using real_div_le [of "x * m"] by simp
  have low: "real_of_int x * ?f - 1 \<le> real_of_int ?y"
    using real_of_int_div3 [of "x * m" "2 ^ 128"] by simp
  have hi: "real_of_int ?y * ?E \<le> real_of_int x * (?f * ?E)"
    using mult_right_mono [OF up, of ?E] E by (simp only: mult.assoc less_imp_le)
  have "(real_of_int x * ?f - 1) * ?E \<le> real_of_int ?y * ?E"
    using mult_right_mono [OF low, of ?E] E by (simp only: less_imp_le)
  then have lo: "real_of_int x * (?f * ?E) - ?E \<le> real_of_int ?y * ?E"
    by (simp only: left_diff_distrib mult.assoc mult_1_left)
  show ?case
    using Cons.IH [OF gaps y, of "a div 2"] hi lo E(2)
    unfolding apply_products.simps exact_product.simps list.size by linarith
qed simp


section \<open>The table is strictly increasing\<close>

definition table_ratio :: "int \<Rightarrow> int" where
  "table_ratio a = apply_products a (2 ^ 128) tick_products"

lemma tick_multipliers_zip:
  "TICK_MULTIPLIERS = zip (map (\<lambda>i. 2 ^ i) [1..<1 + length (map snd TICK_MULTIPLIERS)]) (map snd TICK_MULTIPLIERS)"
  by (simp add: TICK_MULTIPLIERS_def upt_rec)

lemma table_ratio_eq:
  "apply_multipliers a (if a AND 0x1 \<noteq> 0 then 0xFFFCB933BD6FAD37AA2D162D1A594001
      else 0x100000000000000000000000000000000) TICK_MULTIPLIERS = table_ratio a"
proof -
  have "(a AND 1 \<noteq> 0) = odd a"
    using and_power2_iff_bit [of a 0] by (simp add: bit_0)
  then show ?thesis
    by (subst tick_multipliers_zip, subst apply_multipliers_eq)
      (simp add: table_ratio_def tick_products_def)
qed

lemma tick_table_gaps: "table_gaps (2 ^ 128) tick_products"
  by (simp add: tick_products_def TICK_MULTIPLIERS_def)

lemma tick_products_length: "length tick_products = 20"
  by (simp add: tick_products_def TICK_MULTIPLIERS_def)

lemma table_ratio_bounds:
  "real_of_int (table_ratio a) \<le> 2 ^ 128 * exact_product tick_products a"
  "2 ^ 128 * exact_product tick_products a - 20 \<le> real_of_int (table_ratio a)"
  using apply_products_bounds [OF tick_table_gaps, of "2 ^ 128" a]
  by (simp_all add: table_ratio_def tick_products_length)

lemma table_ratio_large: "2 ^ 51 \<le> table_ratio a"
proof -
  have "(2 ^ 52 :: real) \<le> real_of_int (trunc_product (2 ^ 128) tick_products)"
    by (simp add: tick_products_def TICK_MULTIPLIERS_def)
  also have "\<dots> \<le> 2 ^ 128 * exact_product tick_products a"
    using trunc_product_le [OF tick_table_gaps, of "2 ^ 128" a] by simp
  finally have "real_of_int (2 ^ 51) \<le> real_of_int (table_ratio a)"
    using table_ratio_bounds(2) [of a] by simp
  then show ?thesis by (simp only: of_int_le_iff)
qed

lemma table_ratio_le: "table_ratio a \<le> 2 ^ 128"
proof -
  have "real_of_int (table_ratio a) \<le> real_of_int (2 ^ 128)"
    using table_ratio_bounds(1) [of a] exact_product_le_1 [OF tick_table_gaps, of a] by simp
  then show ?thesis by (simp only: of_int_le_iff)
qed

text \<open>The key step: one tick further from zero, the 128-bit ratio is smaller by a factor \<open>1 - 2 ^ -16\<close>.\<close>

lemma table_ratio_step:
  assumes "0 \<le> a" and "a < 2 ^ 20 - 1"
  shows "table_ratio (a + 1) * 2 ^ 16 \<le> table_ratio a * (2 ^ 16 - 1)"
proof -
  let ?P = "exact_product tick_products"
  have "?P (a + 1) \<le> (1 - 1 / 2 ^ 15) * 1 * ?P a"
    using assms by (intro exact_product_step [OF tick_table_gaps]) (simp_all add: tick_products_length)
  moreover have "real_of_int (table_ratio (a + 1)) \<le> 2 ^ 128 * ?P (a + 1)"
    "2 ^ 128 * ?P a \<le> real_of_int (table_ratio a) + 20"
    using table_ratio_bounds(1) [of "a + 1"] table_ratio_bounds(2) [of a] by simp_all
  ultimately have "real_of_int (table_ratio (a + 1)) \<le> (1 - 1 / 2 ^ 15) * (real_of_int (table_ratio a) + 20)"
    by (simp add: field_simps)
  moreover have "real_of_int (2 ^ 51) \<le> real_of_int (table_ratio a)"
    using table_ratio_large [of a] by (simp only: of_int_le_iff)
  ultimately have "real_of_int (table_ratio (a + 1) * 2 ^ 16) \<le> real_of_int (table_ratio a * (2 ^ 16 - 1))"
    by (simp add: field_simps)
  then show ?thesis by (simp only: of_int_le_iff)
qed


section \<open>Behaviour of the conversion\<close>

definition sqrt_ratio :: "int \<Rightarrow> int" where
  "sqrt_ratio tick =
     ceil_div (if tick > 0 then MAX_UINT256 div table_ratio \<bar>tick\<bar> else table_ratio \<bar>tick\<bar>) (2 ^ 32)"

lemma get_sqrt_ratio_at_tick_eq:
  "get_sqrt_ratio_at_tick tick =
     (if \<bar>tick\<bar> > MAX_TICK then raise_error ValueError else ok (sqrt_ratio tick))"
  unfolding get_sqrt_ratio_at_tick_def Let_def table_ratio_eq sqrt_ratio_def
  by (simp add: ceil_div_plus drop_bit_eq_div)

lemma sqrt_ratio_step_neg:
  assumes "0 \<le> a" and "a < MAX_TICK"
  shows "sqrt_ratio (- (a + 1)) < sqrt_ratio (- a)"
proof -
  have step: "table_ratio (a + 1) * 2 ^ 16 \<le> table_ratio a * (2 ^ 16 - 1)"
    using assms by (intro table_ratio_step) (simp_all add: MAX_TICK_def)
  have large: "2 ^ 51 \<le> table_ratio a" by (rule table_ratio_large)
  have le: "table_ratio (a + 1) \<le> table_ratio a - 2 ^ 32"
    using step large by simp
  then have "ceil_div (table_ratio (a + 1)) (2 ^ 32) < ceil_div (table_ratio a) (2 ^ 32)"
    by (intro ceil_div_step) simp_all
  then show ?thesis
    using assms(1) by (simp add: sqrt_ratio_def add.commute)
qed

text \<open>On the positive side the ratio is inverted; \<open>2 ^ 40\<close> is less than one step of the quotient.\<close>

lemma inverse_ratio_step:
  assumes "0 \<le> a" and "a < MAX_TICK"
  shows "MAX_UINT256 div table_ratio a + 2 ^ 40 \<le> MAX_UINT256 div table_ratio (a + 1)"
proof -
  let ?q = "MAX_UINT256 div table_ratio a" and ?r = "table_ratio a" and ?s = "table_ratio (a + 1)"
  have r: "2 ^ 51 \<le> ?r" "?r \<le> 2 ^ 128" and s: "2 ^ 51 \<le> ?s"
    using table_ratio_large table_ratio_le by auto
  have step: "?s * 2 ^ 16 \<le> ?r * (2 ^ 16 - 1)"
    using assms by (intro table_ratio_step) (simp_all add: MAX_TICK_def)
  have q: "0 \<le> ?q"
    using r by (simp add: pos_imp_zdiv_nonneg_iff MAX_UINT256_def U256_def)
  have qr: "?q * ?r \<le> MAX_UINT256"
    using r by (intro floor_mult_le) simp
  have "(?q + 2 ^ 40) * (?s * 2 ^ 16) \<le> (?q + 2 ^ 40) * (?r * (2 ^ 16 - 1))"
    using step q by (intro mult_left_mono) auto
  also have "\<dots> = (?q * ?r) * (2 ^ 16 - 1) + 2 ^ 40 * (2 ^ 16 - 1) * ?r"
    by (simp add: algebra_simps)
  also have "\<dots> \<le> MAX_UINT256 * (2 ^ 16 - 1) + 2 ^ 40 * (2 ^ 16 - 1) * 2 ^ 128"
    using qr r(2) by (intro add_mono mult_right_mono mult_left_mono) auto
  also have "\<dots> \<le> MAX_UINT256 * 2 ^ 16"
    by (simp add: MAX_UINT256_def U256_def)
  finally have "(?q + 2 ^ 40) * ?s \<le> MAX_UINT256" by simp
  then show ?thesis
    using s by (subst floor_le_iff) auto
qed

lemma sqrt_ratio_step_pos:
  assumes "0 \<le> a" and "a < MAX_TICK"
  shows "sqrt_ratio a < sqrt_ratio (a + 1)"
proof -
  have step: "MAX_UINT256 div table_ratio a + 2 ^ 40 \<le> MAX_UINT256 div table_ratio (a + 1)"
    using assms by (rule inverse_ratio_step)
  let ?x = "if a > 0 then MAX_UINT256 div table_ratio a else table_ratio a"
  have "?x \<le> MAX_UINT256 div table_ratio a + 1"
  proof (cases "a > 0")
    case False
    with assms have a: "a = 0" by simp
    have "table_ratio 0 = 2 ^ 128"
      by (simp add: table_ratio_def tick_products_def TICK_MULTIPLIERS_def)
    with a show ?thesis by (simp add: MAX_UINT256_def U256_def)
  qed simp
  with step have le: "?x + 2 ^ 32 \<le> MAX_UINT256 div table_ratio (a + 1)" by simp
  then have "ceil_div ?x (2 ^ 32) < ceil_div (MAX_UINT256 div table_ratio (a + 1)) (2 ^ 32)"
    by (intro ceil_div_step) simp_all
  then show ?thesis
    using assms(1) by (simp add: sqrt_ratio_def)
qed

lemma sqrt_ratio_step:
  assumes "MIN_TICK \<le> t" and "t < MAX_TICK"
  shows "sqrt_ratio t < sqrt_ratio (t + 1)"
proof (cases "0 \<le> t")
  case True
  then show ?thesis using assms(2) by (rule sqrt_ratio_step_pos)
next
  case False
  then show ?thesis
    using sqrt_ratio_step_neg [of "- t - 1"] assms by (simp add: MIN_TICK_def MAX_TICK_def add.commute)
qed

lemma sqrt_ratio_bounds:
  "sqrt_ratio MIN_TICK = MIN_SQRT_RATIO" "sqrt_ratio MAX_TICK = MAX_SQRT_RATIO"
  by (simp_all add: sqrt_ratio_def table_ratio_def tick_products_def TICK_MULTIPLIERS_def
      pool_constants ceil_div_def)


section \<open>Binary search over a monotone table\<close>

text \<open>
  \<open>bisect_tick\<close> is the loop of \<open>get_tick_at_sqrt_ratio\<close> over an arbitrary table; a table lookup
  may raise.
\<close>

function bisect_tick :: "(int \<Rightarrow> int res) \<Rightarrow> int \<Rightarrow> int \<Rightarrow> int \<Rightarrow> int res" where
  "bisect_tick table price low high =
     (if low < high then
        let mid = (low + high + 1) div 2 in
        rbind (table mid) (\<lambda>r.
          if r \<le> price then bisect_tick table price mid high
          else bisect_tick table price low (mid - 1))
      else ok low)"
  by pat_completeness auto
termination
  by (relation "measure (\<lambda>(_, _, low, high). nat (high - low))") auto

declare bisect_tick.simps [simp del]

definition get_tick_at_sqrt_ratio :: "int \<Rightarrow> int res" where
  "get_tick_at_sqrt_ratio sqrt_price_x96 =
     (if \<not> (MIN_SQRT_RATIO \<le> sqrt_price_x96 \<and> sqrt_price_x96 < MAX_SQRT_RATIO)
      then raise_error ValueError
      else bisect_tick get_sqrt_ratio_at_tick sqrt_price_x96 MIN_TICK MAX_TICK)"

locale monotone_table =
  fixes table :: "int \<Rightarrow> int res" and entry :: "int \<Rightarrow> int" and lo hi :: int
  assumes lookup: "lo \<le> t \<Longrightarrow> t \<le> hi \<Longrightarrow> table t = Inr (entry t)"
    and step: "lo \<le> t \<Longrightarrow> t < hi \<Longrightarrow> entry t < entry (t + 1)"
begin

lemma strict_mono: "lo \<le> s \<Longrightarrow> s < t \<Longrightarrow> t \<le> hi \<Longrightarrow> entry s < entry t"
proof (induction "nat (t - s)" arbitrary: t)
  case (Suc n)
  show ?case
  proof (cases "s + 1 = t")
    case True
    then show ?thesis using step [of s] Suc.prems by simp
  next
    case False
    then have "entry s < entry (t - 1)"
      using Suc.hyps(2) Suc.prems by (intro Suc.hyps(1)) auto
    also have "\<dots> < entry t"
      using step [of "t - 1"] Suc.prems by simp
    finally show ?thesis .
  qed
qed simp

lemma mono: "lo \<le> s \<Longrightarrow> s \<le> t \<Longrightarrow> t \<le> hi \<Longrightarrow> entry s \<le> entry t"
  using strict_mono [of s t] by (cases "s = t") auto

lemma less_iff: "lo \<le> s \<Longrightarrow> s \<le> hi \<Longrightarrow> lo \<le> t \<Longrightarrow> t \<le> hi \<Longrightarrow> entry s < entry t \<longleftrightarrow> s < t"
  using strict_mono [of s t] mono [of t s] by (meson leI not_le)

lemma le_iff: "lo \<le> s \<Longrightarrow> s \<le> hi \<Longrightarrow> lo \<le> t \<Longrightarrow> t \<le> hi \<Longrightarrow> entry s \<le> entry t \<longleftrightarrow> s \<le> t"
  using less_iff [of t s] by (meson not_le)

text \<open>The loop keeps \<open>entry low \<le> p\<close> and \<open>p < entry (high + 1)\<close>, and returns where they meet.\<close>

lemma bisect_correct:
  assumes "lo \<le> low" and "low \<le> high" and "high \<le> hi"
    and "entry low \<le> p" and "high = hi \<or> p < entry (high + 1)"
  shows "\<exists>t. bisect_tick table p low high = Inr t \<and> low \<le> t \<and> t \<le> high
      \<and> entry t \<le> p \<and> (t = hi \<or> p < entry (t + 1))"
  using assms
proof (induction "nat (high - low)" arbitrary: low high rule: less_induct)
  case less
  let ?mid = "(low + high + 1) div 2"
  show ?case
  proof (cases "low < high")
    case True
    then have mid: "low < ?mid" "?mid \<le> high" by auto
    then have look: "table ?mid = Inr (entry ?mid)"
      using less.prems by (intro lookup) auto
    show ?thesis
    proof (cases "entry ?mid \<le> p")
      case le: True
      have "\<exists>t. bisect_tick table p ?mid high = Inr t \<and> ?mid \<le> t \<and> t \<le> high
          \<and> entry t \<le> p \<and> (t = hi \<or> p < entry (t + 1))"
        using mid less.prems le by (intro less.hyps) auto
      with True look le mid show ?thesis
        by (subst bisect_tick.simps) (auto simp: Let_def)
    next
      case gt: False
      have "\<exists>t. bisect_tick table p low (?mid - 1) = Inr t \<and> low \<le> t \<and> t \<le> ?mid - 1
          \<and> entry t \<le> p \<and> (t = hi \<or> p < entry (t + 1))"
        using mid less.prems gt by (intro less.hyps) auto
      with True look gt mid show ?thesis
        by (subst bisect_tick.simps) (auto simp: Let_def)
    qed
  next
    case False
    with less.prems show ?thesis
      by (subst bisect_tick.simps) auto
  qed
qed

lemma bisect_greatest:
  assumes "lo \<le> hi" and "entry lo \<le> p"
  shows "\<exists>t. bisect_tick table p lo hi = Inr t \<and> lo \<le> t \<and> t \<le> hi \<and> entry t \<le> p
      \<and> (\<forall>s. lo \<le> s \<and> s \<le> hi \<and> entry s \<le> p \<longrightarrow> s \<le> t)"
proof -
  obtain t where t: "bisect_tick table p lo hi = Inr t" "lo \<le> t" "t \<le> hi" "entry t \<le> p"
      "t = hi \<or> p < entry (t + 1)"
    using bisect_correct [of lo hi p] assms by auto
  have "s \<le> t" if "lo \<le> s" "s \<le> hi" "entry s \<le> p" for s
  proof (rule ccontr)
    assume "\<not> s \<le> t"
    with t that have "entry (t + 1) \<le> entry s" by (intro mono) auto
    with t that \<open>\<not> s \<le> t\<close> show False by auto
  qed
  with t show ?thesis by blast
qed

lemma bisect_inverse:
  assumes "lo \<le> t" and "t \<le> hi"
  shows "bisect_tick table (entry t) lo hi = Inr t"
proof -
  have "entry lo \<le> entry t" using assms by (intro mono) auto
  then obtain s where s: "bisect_tick table (entry t) lo hi = Inr s" "lo \<le> s" "s \<le> hi"
      "entry s \<le> entry t" "\<forall>u. lo \<le> u \<and> u \<le> hi \<and> entry u \<le> entry t \<longrightarrow> u \<le> s"
    using bisect_greatest [of "entry t"] assms by auto
  then have "t \<le> s" "s \<le> t"
    using assms le_iff [of s t] by auto
  with s show ?thesis by simp
qed

end

interpretation ticks: monotone_table get_sqrt_ratio_at_tick sqrt_ratio MIN_TICK MAX_TICK
proof unfold_locales
  fix t
  assume "MIN_TICK \<le> t" and "t \<le> MAX_TICK"
  then show "get_sqrt_ratio_at_tick t = Inr (sqrt_ratio t)"
    by (simp add: get_sqrt_ratio_at_tick_eq MIN_TICK_def MAX_TICK_def)
next
  fix t
  assume "MIN_TICK \<le> t" and "t < MAX_TICK"
  then show "sqrt_ratio t < sqrt_ratio (t + 1)"
    by (rule sqrt_ratio_step)
qed


section \<open>The conversion and its inverse\<close>

lemma sqrt_ratio_range:
  assumes "MIN_TICK \<le> t" and "t \<le> MAX_TICK"
  shows "MIN_SQRT_RATIO \<le> sqrt_ratio t \<and> sqrt_ratio t \<le> MAX_SQRT_RATIO"
  using ticks.mono [of MIN_TICK t] ticks.mono [of t MAX_TICK] assms
  by (simp add: sqrt_ratio_bounds)

lemma sqrt_ratio_pos: "MIN_TICK \<le> t \<Longrightarrow> t \<le> MAX_TICK \<Longrightarrow> 0 < sqrt_ratio t"
  using sqrt_ratio_range [of t] by (simp add: MIN_SQRT_RATIO_def)

lemma tick_range_nonempty [simp]: "MIN_TICK \<le> MAX_TICK" "MIN_TICK < MAX_TICK"
  by (simp_all add: pool_constants)

lemma get_tick_at_sqrt_ratio_Inr:
  assumes "MIN_SQRT_RATIO \<le> p" and "p < MAX_SQRT_RATIO"
  shows "\<exists>t. get_tick_at_sqrt_ratio p = Inr t \<and> MIN_TICK \<le> t \<and> t < MAX_TICK
      \<and> sqrt_ratio t \<le> p \<and> p < sqrt_ratio (t + 1)"
proof -
  obtain t where t: "bisect_tick get_sqrt_ratio_at_tick p MIN_TICK MAX_TICK = Inr t"
      "MIN_TICK \<le> t" "t \<le> MAX_TICK" "sqrt_ratio t \<le> p" "t = MAX_TICK \<or> p < sqrt_ratio (t + 1)"
    using ticks.bisect_correct [of MIN_TICK MAX_TICK p] assms by (auto simp: sqrt_ratio_bounds)
  moreover have "t \<noteq> MAX_TICK"
    using t(4) assms(2) by (auto simp: sqrt_ratio_bounds)
  ultimately show ?thesis
    using assms by (auto simp: get_tick_at_sqrt_ratio_def)
qed

lemma get_tick_at_sqrt_ratio_error_iff:
  "(\<exists>e. get_tick_at_sqrt_ratio p = Inl e) \<longleftrightarrow> \<not> (MIN_SQRT_RATIO \<le> p \<and> p < MAX_SQRT_RATIO)"
  using get_tick_at_sqrt_ratio_Inr [of p]
  by (cases "MIN_SQRT_RATIO \<le> p \<and> p < MAX_SQRT_RATIO") (auto simp: get_tick_at_sqrt_ratio_def)

text \<open>C5. \<open>get_sqrt_ratio_at_tick\<close> is total and strictly increasing on the whole tick range, and its
  values are exactly bounded by the pool's minimum and maximum square-root prices.\<close>

theorem sqrt_ratio_at_tick_strictly_increasing:
  assumes "MIN_TICK \<le> s" and "s < t" and "t \<le> MAX_TICK"
  shows "\<exists>r r'. get_sqrt_ratio_at_tick s = Inr r \<and> get_sqrt_ratio_at_tick t = Inr r'
    \<and> MIN_SQRT_RATIO \<le> r \<and> r < r' \<and> r' \<le> MAX_SQRT_RATIO"
  using assms ticks.lookup [of s] ticks.lookup [of t] ticks.strict_mono [of s t]
    sqrt_ratio_range [of s] sqrt_ratio_range [of t] by simp

theorem sqrt_ratio_at_tick_strictly_increasing_witness:
  "\<exists>r r'. get_sqrt_ratio_at_tick (-887272) = Inr r \<and> get_sqrt_ratio_at_tick 887272 = Inr r'
    \<and> MIN_SQRT_RATIO \<le> r \<and> r < r' \<and> r' \<le> MAX_SQRT_RATIO"
  by (rule sqrt_ratio_at_tick_strictly_increasing) (simp_all add: pool_constants)

text \<open>C3. \<open>get_tick_at_sqrt_ratio\<close> returns, for every price in the pool's range, the greatest tick
  whose square-root price does not exceed it, and raises on every price outside the range.\<close>

theorem tick_at_sqrt_ratio_greatest:
  assumes "MIN_SQRT_RATIO \<le> p" and "p < MAX_SQRT_RATIO"
  shows "\<exists>t r. get_tick_at_sqrt_ratio p = Inr t \<and> MIN_TICK \<le> t \<and> t < MAX_TICK
    \<and> get_sqrt_ratio_at_tick t = Inr r \<and> r \<le> p
    \<and> (\<forall>s r'. get_sqrt_ratio_at_tick s = Inr r' \<and> r' \<le> p \<longrightarrow> s \<le> t)"
proof -
  obtain t where t: "get_tick_at_sqrt_ratio p = Inr t" "MIN_TICK \<le> t" "t < MAX_TICK"
      "sqrt_ratio t \<le> p" "p < sqrt_ratio (t + 1)"
    using get_tick_at_sqrt_ratio_Inr [OF assms] by blast
  have "s \<le> t" if "get_sqrt_ratio_at_tick s = Inr r'" and "r' \<le> p" for s r'
  proof -
    have s: "MIN_TICK \<le> s" "s \<le> MAX_TICK" "sqrt_ratio s = r'"
      using that(1) by (auto simp: get_sqrt_ratio_at_tick_eq pool_constants split: if_splits)
    with that(2) t(5) have "sqrt_ratio s < sqrt_ratio (t + 1)" by simp
    then show ?thesis
      using s t(2,3) ticks.less_iff [of s "t + 1"] by simp
  qed
  with t show ?thesis
    using ticks.lookup [of t] by auto
qed

theorem tick_at_sqrt_ratio_greatest_witness:
  "\<exists>t r. get_tick_at_sqrt_ratio (2 ^ 96 + 1) = Inr t \<and> MIN_TICK \<le> t \<and> t < MAX_TICK
    \<and> get_sqrt_ratio_at_tick t = Inr r \<and> r \<le> 2 ^ 96 + 1
    \<and> (\<forall>s r'. get_sqrt_ratio_at_tick s = Inr r' \<and> r' \<le> 2 ^ 96 + 1 \<longrightarrow> s \<le> t)"
  by (rule tick_at_sqrt_ratio_greatest) (simp_all add: pool_constants)

text \<open>C4. Converting a tick to its square-root price and back gives the tick.\<close>

theorem tick_sqrt_ratio_roundtrip:
  assumes "MIN_TICK \<le> t" and "t < MAX_TICK"
  shows "rbind (get_sqrt_ratio_at_tick t) get_tick_at_sqrt_ratio = Inr t"
proof -
  have "MIN_SQRT_RATIO \<le> sqrt_ratio t" "sqrt_ratio t < MAX_SQRT_RATIO"
    using assms sqrt_ratio_range [of t] ticks.strict_mono [of t MAX_TICK]
    by (simp_all add: sqrt_ratio_bounds)
  then show ?thesis
    using assms ticks.lookup [of t] ticks.bisect_inverse [of t]
    by (simp add: get_tick_at_sqrt_ratio_def)
qed

theorem tick_sqrt_ratio_roundtrip_witness:
  "rbind (get_sqrt_ratio_at_tick 200000) get_tick_at_sqrt_ratio = Inr 200000"
  by (rule tick_sqrt_ratio_roundtrip) (simp_all add: pool_constants)

end
