(* ===== verification/V3_Sqrt_Price.thy ===== *)
theory V3_Sqrt_Price
  imports V3_Tick_Math
begin

text \<open>
  \<open>app/market_data/uniswap_v3/sqrt_price_math.py\<close>: token amounts between two prices and the
  price after an amount is added or removed. The branches that emulate uint256 overflow are kept:
  Solidity uses a differently rounded formula there. What the swap step needs of these functions
  is stated as the locale \<open>price_curve\<close> (one direction of a swap) and proved for both directions.
\<close>

section \<open>Next price\<close>

definition get_next_sqrt_price_from_amount0_rounding_up ::
    "int \<Rightarrow> int \<Rightarrow> int \<Rightarrow> bool \<Rightarrow> int res" where
  "get_next_sqrt_price_from_amount0_rounding_up sqrt_price_x96 liquidity amount add =
     (if amount = 0 then ok sqrt_price_x96
      else
        let numerator1 = push_bit 96 liquidity;
            product = amount * sqrt_price_x96;
            product_fits = product < U256
        in if add then
             (if product_fits \<and> numerator1 + product < U256
              then mul_div_rounding_up numerator1 sqrt_price_x96 (numerator1 + product)
              else rbind (py_floordiv numerator1 sqrt_price_x96) (\<lambda>q.
                     div_rounding_up numerator1 (q + amount)))
           else if \<not> product_fits \<or> numerator1 \<le> product then raise_error ArithmeticError
           else mul_div_rounding_up numerator1 sqrt_price_x96 (numerator1 - product))"

definition get_next_sqrt_price_from_amount1_rounding_down ::
    "int \<Rightarrow> int \<Rightarrow> int \<Rightarrow> bool \<Rightarrow> int res" where
  "get_next_sqrt_price_from_amount1_rounding_down sqrt_price_x96 liquidity amount add =
     (if add then
        rbind (if amount \<le> MAX_UINT160 then py_floordiv (push_bit 96 amount) liquidity
               else mul_div amount Q96 liquidity) (\<lambda>quotient.
          let result = sqrt_price_x96 + quotient
          in if result > MAX_UINT160 then raise_error ArithmeticError else ok result)
      else
        rbind (if amount \<le> MAX_UINT160 then div_rounding_up (push_bit 96 amount) liquidity
               else mul_div_rounding_up amount Q96 liquidity) (\<lambda>quotient.
          if sqrt_price_x96 \<le> quotient then raise_error ArithmeticError
          else ok (sqrt_price_x96 - quotient)))"

definition get_next_sqrt_price_from_input :: "int \<Rightarrow> int \<Rightarrow> int \<Rightarrow> bool \<Rightarrow> int res" where
  "get_next_sqrt_price_from_input sqrt_price_x96 liquidity amount_in zero_for_one =
     (if sqrt_price_x96 \<le> 0 \<or> liquidity \<le> 0 then raise_error ValueError
      else if zero_for_one
      then get_next_sqrt_price_from_amount0_rounding_up sqrt_price_x96 liquidity amount_in True
      else get_next_sqrt_price_from_amount1_rounding_down sqrt_price_x96 liquidity amount_in True)"

definition get_next_sqrt_price_from_output :: "int \<Rightarrow> int \<Rightarrow> int \<Rightarrow> bool \<Rightarrow> int res" where
  "get_next_sqrt_price_from_output sqrt_price_x96 liquidity amount_out zero_for_one =
     (if sqrt_price_x96 \<le> 0 \<or> liquidity \<le> 0 then raise_error ValueError
      else if zero_for_one
      then get_next_sqrt_price_from_amount1_rounding_down sqrt_price_x96 liquidity amount_out False
      else get_next_sqrt_price_from_amount0_rounding_up sqrt_price_x96 liquidity amount_out False)"

section \<open>Amounts between two prices\<close>

definition get_amount0_delta :: "int \<Rightarrow> int \<Rightarrow> int \<Rightarrow> bool \<Rightarrow> int res" where
  "get_amount0_delta sqrt_ratio_a_x96 sqrt_ratio_b_x96 liquidity round_up =
     (let (a, b) = (if sqrt_ratio_a_x96 > sqrt_ratio_b_x96
                    then (sqrt_ratio_b_x96, sqrt_ratio_a_x96)
                    else (sqrt_ratio_a_x96, sqrt_ratio_b_x96))
      in if a \<le> 0 then raise_error ValueError
         else
           let numerator1 = push_bit 96 liquidity; numerator2 = b - a
           in if round_up
              then rbind (mul_div_rounding_up numerator1 numerator2 b) (\<lambda>x. div_rounding_up x a)
              else rbind (mul_div numerator1 numerator2 b) (\<lambda>x. py_floordiv x a))"

definition get_amount1_delta :: "int \<Rightarrow> int \<Rightarrow> int \<Rightarrow> bool \<Rightarrow> int res" where
  "get_amount1_delta sqrt_ratio_a_x96 sqrt_ratio_b_x96 liquidity round_up =
     (let (a, b) = (if sqrt_ratio_a_x96 > sqrt_ratio_b_x96
                    then (sqrt_ratio_b_x96, sqrt_ratio_a_x96)
                    else (sqrt_ratio_a_x96, sqrt_ratio_b_x96));
          diff = b - a
      in if round_up then mul_div_rounding_up liquidity diff Q96
         else mul_div liquidity diff Q96)"

lemma push_bit_96: "push_bit 96 l = l * Q96" for l :: int
  by (simp add: push_bit_eq_mult Q96_def)

text \<open>Closed forms on an ordered, positive pair of prices.\<close>

definition amount0_up :: "int \<Rightarrow> int \<Rightarrow> int \<Rightarrow> int" where
  "amount0_up a b l = ceil_div (ceil_div (l * Q96 * (b - a)) b) a"

definition amount0_down :: "int \<Rightarrow> int \<Rightarrow> int \<Rightarrow> int" where
  "amount0_down a b l = (l * Q96 * (b - a)) div b div a"

definition amount1_up :: "int \<Rightarrow> int \<Rightarrow> int \<Rightarrow> int" where
  "amount1_up a b l = ceil_div (l * (b - a)) Q96"

definition amount1_down :: "int \<Rightarrow> int \<Rightarrow> int \<Rightarrow> int" where
  "amount1_down a b l = (l * (b - a)) div Q96"

lemma get_amount0_delta_eq:
  assumes "0 < a" and "a \<le> b"
  shows "get_amount0_delta a b l up = Inr (if up then amount0_up a b l else amount0_down a b l)"
    and "get_amount0_delta b a l up = Inr (if up then amount0_up a b l else amount0_down a b l)"
  using assms
  by (auto simp: get_amount0_delta_def amount0_up_def amount0_down_def push_bit_96 not_less)

lemma get_amount1_delta_eq:
  assumes "a \<le> b"
  shows "get_amount1_delta a b l up = Inr (if up then amount1_up a b l else amount1_down a b l)"
    and "get_amount1_delta b a l up = Inr (if up then amount1_up a b l else amount1_down a b l)"
  using assms
  by (auto simp: get_amount1_delta_def amount1_up_def amount1_down_def Let_def not_less)

lemma amount0_up_le_iff:
  assumes "0 < a" and "a \<le> b"
  shows "amount0_up a b l \<le> x \<longleftrightarrow> l * Q96 * (b - a) \<le> x * a * b"
  using assms by (simp add: amount0_up_def ceil_le_iff)

lemma le_amount0_down_iff:
  assumes "0 < a" and "a \<le> b"
  shows "x \<le> amount0_down a b l \<longleftrightarrow> x * a * b \<le> l * Q96 * (b - a)"
  using assms by (simp add: amount0_down_def floor_le_iff)

lemma amount1_up_le_iff: "amount1_up a b l \<le> x \<longleftrightarrow> l * (b - a) \<le> x * Q96"
  by (simp add: amount1_up_def ceil_le_iff)

lemma le_amount1_down_iff: "x \<le> amount1_down a b l \<longleftrightarrow> x * Q96 \<le> l * (b - a)"
  by (simp add: amount1_down_def floor_le_iff)

lemmas amount_bounds = amount0_up_le_iff le_amount0_down_iff amount1_up_le_iff le_amount1_down_iff

lemma amount_nonneg:
  assumes "0 \<le> l" and "0 < a" and "a \<le> b"
  shows "0 \<le> amount0_up a b l" "0 \<le> amount0_down a b l" "0 \<le> amount1_up a b l" "0 \<le> amount1_down a b l"
  using assms less_imp_le [OF Q_pos(1)]
  by (auto simp: amount0_up_def amount0_down_def amount1_up_def amount1_down_def
      pos_imp_zdiv_nonneg_iff intro!: ceil_div_nonneg)

lemma amount_down_le_up:
  assumes "0 < a" and "a \<le> b"
  shows "amount0_down a b l \<le> amount0_up a b l" "amount1_down a b l \<le> amount1_up a b l"
proof -
  have "amount0_down a b l * a * b \<le> amount0_up a b l * a * b"
    using assms amount0_up_le_iff [of a b l "amount0_up a b l"]
      le_amount0_down_iff [of a b "amount0_down a b l" l] by (meson order_refl order_trans)
  then show "amount0_down a b l \<le> amount0_up a b l"
    using assms by (simp add: mult_le_cancel_right)
  show "amount1_down a b l \<le> amount1_up a b l"
    by (simp add: amount1_down_def amount1_up_def floor_le_ceil_div)
qed


section \<open>One direction of a swap\<close>

text \<open>
  The interface the swap step uses. \<open>ahead p t\<close> says that \<open>t\<close> lies in the direction the price moves.
  The laws: an input too small for the whole way reaches a price whose rounded-up cost it covers, and
  an output smaller than the whole way reaches a price that delivers at least that output. So the
  pool never receives less, and never pays more, than the amounts at the exact prices.
\<close>

definition valid_price :: "int \<Rightarrow> bool" where
  "valid_price p \<longleftrightarrow> 0 < p \<and> p \<le> MAX_UINT160"

locale price_curve =
  fixes ahead :: "int \<Rightarrow> int \<Rightarrow> bool"
    and cost proceeds :: "int \<Rightarrow> int \<Rightarrow> int \<Rightarrow> int"
    and next_in next_out :: "int \<Rightarrow> int \<Rightarrow> int \<Rightarrow> int res"
  assumes cost_nonneg: "valid_price p \<Longrightarrow> valid_price t \<Longrightarrow> ahead p t \<Longrightarrow> 0 \<le> l \<Longrightarrow> 0 \<le> cost p t l"
    and proceeds_nonneg: "valid_price p \<Longrightarrow> valid_price t \<Longrightarrow> ahead p t \<Longrightarrow> 0 \<le> l \<Longrightarrow> 0 \<le> proceeds p t l"
    and no_liquidity: "cost p t 0 = 0" "proceeds p t 0 = 0"
    and ahead_trans: "ahead p n \<Longrightarrow> ahead n t \<Longrightarrow> ahead p t"
    and ahead_valid: "valid_price p \<Longrightarrow> valid_price t \<Longrightarrow> ahead p n \<Longrightarrow> ahead n t \<Longrightarrow> valid_price n"
    and next_in_law: "valid_price p \<Longrightarrow> valid_price t \<Longrightarrow> ahead p t \<Longrightarrow> 0 < l \<Longrightarrow> 0 \<le> x \<Longrightarrow> x < cost p t l
      \<Longrightarrow> \<exists>n. next_in p l x = Inr n \<and> ahead p n \<and> ahead n t \<and> cost p n l \<le> x"
    and next_out_law: "valid_price p \<Longrightarrow> valid_price t \<Longrightarrow> ahead p t \<Longrightarrow> 0 < l \<Longrightarrow> l \<le> MAX_UINT128 \<Longrightarrow> 0 \<le> x
      \<Longrightarrow> x < proceeds p t l
      \<Longrightarrow> \<exists>n. next_out p l x = Inr n \<and> ahead p n \<and> ahead n t \<and> x \<le> proceeds p n l"

lemma amount_zero_liquidity [simp]:
  "amount0_up a b 0 = 0" "amount0_down a b 0 = 0" "amount1_up a b 0 = 0" "amount1_down a b 0 = 0"
  by (simp_all add: amount0_up_def amount0_down_def amount1_up_def amount1_down_def)

lemma amount_same_price [simp]:
  "amount0_up a a l = 0" "amount0_down a a l = 0" "amount1_up a a l = 0" "amount1_down a a l = 0"
  by (simp_all add: amount0_up_def amount0_down_def amount1_up_def amount1_down_def)

lemma next_from_input0:
  assumes "0 < t" and "t \<le> p" and "0 < l" and "0 \<le> x" and "x < amount0_up t p l"
  shows "\<exists>n. get_next_sqrt_price_from_input p l x True = Inr n \<and> n \<le> p \<and> t \<le> n \<and> amount0_up n p l \<le> x"
proof (cases "x = 0")
  case True
  then show ?thesis
    using assms by (simp add: get_next_sqrt_price_from_input_def
        get_next_sqrt_price_from_amount0_rounding_up_def)
next
  case False
  define N where "N = l * Q96"
  have p: "0 < p" and x: "1 \<le> x" and N: "0 < N"
    using assms False by (auto simp: N_def)
  have xp: "x * t * p < N * (p - t)"
    using assms amount0_up_le_iff [of t p l x] by (simp add: N_def)
  define d where "d = (if x * p < U256 \<and> N + x * p < U256 then N + x * p else (N div p + x) * p)"
  define n where "n = (if x * p < U256 \<and> N + x * p < U256 then ceil_div (N * p) (N + x * p)
    else ceil_div N (N div p + x))"
  have div: "0 \<le> N div p" "N div p * p \<le> N" "N < (N div p + 1) * p"
    using p N floor_mult_le [of p N] floor_mult_gt [of p N] by (auto simp: pos_imp_zdiv_nonneg_iff)
  have xp1: "p \<le> x * p"
    using mult_right_mono [OF x, of p] p by linarith
  have d: "0 < d" "d \<le> N + x * p" "N \<le> d"
    using xp1 p N div unfolding d_def distrib_right by (split if_split; linarith)+
  have n_iff: "n \<le> y \<longleftrightarrow> N * p \<le> y * d" for y
  proof -
    have "0 < N + x * p" "0 < N div p + x"
      using p x N div by (auto intro: add_pos_nonneg add_nonneg_pos)
    then show ?thesis
      using p by (auto simp: n_def d_def ceil_le_iff mult.assoc [symmetric])
  qed
  have "get_next_sqrt_price_from_input p l x True = Inr n"
    using p x assms(3) N div
    by (auto simp: get_next_sqrt_price_from_input_def get_next_sqrt_price_from_amount0_rounding_up_def
        push_bit_96 Let_def N_def [symmetric] n_def intro!: mul_div_rounding_up_pos div_rounding_up_pos
        add_pos_nonneg add_nonneg_pos)
  moreover have "n \<le> p"
    using p d mult_left_mono [of N d p] by (simp add: n_iff mult.commute)
  moreover have t: "t \<le> n"
  proof (rule ccontr)
    assume "\<not> t \<le> n"
    then have "N * p \<le> (t - 1) * d" by (simp add: n_iff [symmetric])
    also have "\<dots> < t * d" using d by (simp add: algebra_simps)
    also have "\<dots> \<le> t * (N + x * p)" using d assms(1) by simp
    also have "\<dots> < N * p" using xp by (simp add: algebra_simps)
    finally show False .
  qed
  moreover have "amount0_up n p l \<le> x"
  proof -
    have "N * p \<le> n * d" by (simp add: n_iff [symmetric])
    also have "\<dots> \<le> n * (N + x * p)" using d t assms(1) by (intro mult_left_mono) auto
    finally have "N * (p - n) \<le> x * n * p" by (simp add: algebra_simps)
    then show ?thesis
      using t assms(1) \<open>n \<le> p\<close> by (simp add: amount0_up_le_iff N_def)
  qed
  ultimately show ?thesis by blast
qed

lemma next_from_input1:
  assumes "0 < p" and "p \<le> t" and "t \<le> MAX_UINT160" and "0 < l" and "0 \<le> x" and "x < amount1_up p t l"
  shows "\<exists>n. get_next_sqrt_price_from_input p l x False = Inr n \<and> p \<le> n \<and> n \<le> t \<and> amount1_up p n l \<le> x"
proof -
  define q where "q = x * Q96 div l"
  have q: "0 \<le> q" "q * l \<le> x * Q96"
    using assms less_imp_le [OF Q_pos(1)] floor_mult_le [of l "x * Q96"]
    by (auto simp: q_def pos_imp_zdiv_nonneg_iff)
  have "x * Q96 < l * (t - p)"
    using assms amount1_up_le_iff [of p t l x] by simp
  with q have "q * l < (t - p) * l" by (simp add: mult.commute)
  then have t: "p + q \<le> t"
    using assms by (simp add: mult_less_cancel_right)
  have "(if x \<le> MAX_UINT160 then py_floordiv (push_bit 96 x) l else mul_div x Q96 l) = Inr q"
    using assms by (simp add: push_bit_96 q_def)
  then have "get_next_sqrt_price_from_input p l x False = Inr (p + q)"
    using assms t by (simp add: get_next_sqrt_price_from_input_def
        get_next_sqrt_price_from_amount1_rounding_down_def Let_def)
  moreover have "amount1_up p (p + q) l \<le> x"
    using q by (simp add: amount1_up_le_iff mult.commute)
  ultimately show ?thesis using q t by auto
qed


lemma next_from_output1:
  assumes "0 < t" and "t \<le> p" and "0 < l" and "0 \<le> x" and "x < amount1_down t p l"
  shows "\<exists>n. get_next_sqrt_price_from_output p l x True = Inr n \<and> n \<le> p \<and> t \<le> n \<and> x \<le> amount1_down n p l"
proof -
  define q where "q = ceil_div (x * Q96) l"
  have q: "0 \<le> q" "x * Q96 \<le> q * l"
    using assms less_imp_le [OF Q_pos(1)] ceil_mult_ge [of l "x * Q96"]
    by (auto simp: q_def intro: ceil_div_nonneg)
  have "x * Q96 \<le> l * (p - t)"
    using assms le_amount1_down_iff [of x t p l] by simp
  then have t: "q \<le> p - t"
    using assms by (simp add: q_def ceil_le_iff mult.commute)
  have "(if x \<le> MAX_UINT160 then div_rounding_up (push_bit 96 x) l else mul_div_rounding_up x Q96 l) = Inr q"
    using assms by (simp add: push_bit_96 q_def)
  then have "get_next_sqrt_price_from_output p l x True = Inr (p - q)"
    using assms t by (simp add: get_next_sqrt_price_from_output_def
        get_next_sqrt_price_from_amount1_rounding_down_def)
  moreover have "x \<le> amount1_down (p - q) p l"
    using q by (simp add: le_amount1_down_iff mult.commute)
  ultimately show ?thesis using q t by auto
qed

lemma next_from_output0:
  assumes "0 < p" and "p \<le> t" and "0 < l" and "l \<le> MAX_UINT128" and "0 \<le> x"
    and "x < amount0_down p t l"
  shows "\<exists>n. get_next_sqrt_price_from_output p l x False = Inr n \<and> p \<le> n \<and> n \<le> t \<and> x \<le> amount0_down p n l"
proof (cases "x = 0")
  case True
  then show ?thesis
    using assms by (simp add: get_next_sqrt_price_from_output_def
        get_next_sqrt_price_from_amount0_rounding_up_def)
next
  case False
  define N where "N = l * Q96"
  have N: "0 < N" "N < U256"
    using assms mult_right_mono [of l MAX_UINT128 Q96] by (auto simp: N_def pool_constants)
  have xt: "x * p * t \<le> N * (t - p)"
    using assms le_amount0_down_iff [of p t x l] by (simp add: N_def)
  also have "\<dots> < N * t" using N assms by simp
  finally have xp: "x * p < N" using assms by (simp add: mult_less_cancel_right)
  define n where "n = ceil_div (N * p) (N - x * p)"
  have n_iff: "n \<le> y \<longleftrightarrow> N * p \<le> y * (N - x * p)" for y
    using xp by (simp add: n_def ceil_le_iff)
  have "get_next_sqrt_price_from_output p l x False = Inr n"
    using assms False N xp by (simp add: get_next_sqrt_price_from_output_def
        get_next_sqrt_price_from_amount0_rounding_up_def push_bit_96 Let_def N_def [symmetric] n_def)
  moreover have t: "n \<le> t"
    using xt by (simp add: n_iff algebra_simps)
  moreover have "p \<le> n"
  proof (rule ccontr)
    assume "\<not> p \<le> n"
    then have "N * p \<le> (p - 1) * (N - x * p)" by (simp add: n_iff [symmetric])
    also have "\<dots> < p * (N - x * p)" using xp by simp
    also have "\<dots> \<le> p * N" using assms by simp
    finally show False by (simp add: mult.commute)
  qed
  moreover from this have "x \<le> amount0_down p n l"
  proof -
    have "N * p \<le> n * (N - x * p)" by (simp add: n_iff [symmetric])
    then have "x * p * n \<le> N * (n - p)" by (simp add: algebra_simps)
    then show ?thesis
      using \<open>p \<le> n\<close> assms(1) by (simp add: le_amount0_down_iff N_def)
  qed
  ultimately show ?thesis by blast
qed

text \<open>Both directions of the code satisfy the interface.\<close>

interpretation zero_for_one: price_curve
  "\<lambda>p t. t \<le> p" "\<lambda>p t l. amount0_up t p l" "\<lambda>p t l. amount1_down t p l"
  "\<lambda>p l x. get_next_sqrt_price_from_input p l x True"
  "\<lambda>p l x. get_next_sqrt_price_from_output p l x True"
proof unfold_locales
  fix p t l x :: int
  assume "valid_price p" "valid_price t" "t \<le> p" "0 < l" "0 \<le> x"
  then show "x < amount0_up t p l \<Longrightarrow> \<exists>n. get_next_sqrt_price_from_input p l x True = Inr n \<and> n \<le> p
      \<and> t \<le> n \<and> amount0_up n p l \<le> x"
    and "x < amount1_down t p l \<Longrightarrow> \<exists>n. get_next_sqrt_price_from_output p l x True = Inr n \<and> n \<le> p
      \<and> t \<le> n \<and> x \<le> amount1_down n p l"
    using next_from_input0 next_from_output1 by (auto simp: valid_price_def)
qed (auto simp: valid_price_def intro: amount_nonneg)

interpretation one_for_zero: price_curve
  "\<lambda>p t. p \<le> t" "\<lambda>p t l. amount1_up p t l" "\<lambda>p t l. amount0_down p t l"
  "\<lambda>p l x. get_next_sqrt_price_from_input p l x False"
  "\<lambda>p l x. get_next_sqrt_price_from_output p l x False"
proof unfold_locales
  fix p t l x :: int
  assume "valid_price p" "valid_price t" "p \<le> t" "0 < l" "0 \<le> x"
  then show "x < amount1_up p t l \<Longrightarrow> \<exists>n. get_next_sqrt_price_from_input p l x False = Inr n \<and> p \<le> n
      \<and> n \<le> t \<and> amount1_up p n l \<le> x"
    and "l \<le> MAX_UINT128 \<Longrightarrow> x < amount0_down p t l \<Longrightarrow> \<exists>n. get_next_sqrt_price_from_output p l x False = Inr n
      \<and> p \<le> n \<and> n \<le> t \<and> x \<le> amount0_down p n l"
    using next_from_input1 next_from_output0 by (auto simp: valid_price_def)
qed (auto simp: valid_price_def intro: amount_nonneg)

end
