(* ===== verification/V3_Swap_Math.thy ===== *)
theory V3_Swap_Math
  imports V3_Sqrt_Price
begin

text \<open>
  \<open>app/market_data/uniswap_v3/swap_math.py\<close>: \<open>compute_swap_step\<close>, one step of a swap toward a target
  price, for exact input (\<open>amount_remaining \<ge> 0\<close>) and exact output (a negative amount).
  \<open>directed_step\<close> is the step of one direction with its amounts in closed form; its specification
  is proved in \<open>price_curve\<close> and carried over to the code's function in both directions.
\<close>

record SwapStep =
  sqrt_price_next_x96 :: int
  amount_in :: int
  amount_out :: int
  fee_amount :: int

definition compute_swap_step :: "int \<Rightarrow> int \<Rightarrow> int \<Rightarrow> int \<Rightarrow> int \<Rightarrow> SwapStep res" where
  "compute_swap_step sqrt_price_current_x96 sqrt_price_target_x96 liquidity amount_remaining fee_pips =
     (let zero_for_one = sqrt_price_current_x96 \<ge> sqrt_price_target_x96;
          exact_in = amount_remaining \<ge> 0
      in rbind
        (if exact_in then
           rbind (mul_div amount_remaining (FEE_PIPS_DENOMINATOR - fee_pips) FEE_PIPS_DENOMINATOR)
             (\<lambda>remaining_less_fee.
           rbind (if zero_for_one
                  then get_amount0_delta sqrt_price_target_x96 sqrt_price_current_x96 liquidity True
                  else get_amount1_delta sqrt_price_current_x96 sqrt_price_target_x96 liquidity True)
             (\<lambda>amt_in.
           rbind (if remaining_less_fee \<ge> amt_in then ok sqrt_price_target_x96
                  else get_next_sqrt_price_from_input sqrt_price_current_x96 liquidity
                         remaining_less_fee zero_for_one)
             (\<lambda>sqrt_price_next. ok (sqrt_price_next, amt_in, 0))))
         else
           rbind (if zero_for_one
                  then get_amount1_delta sqrt_price_target_x96 sqrt_price_current_x96 liquidity False
                  else get_amount0_delta sqrt_price_current_x96 sqrt_price_target_x96 liquidity False)
             (\<lambda>amt_out.
           rbind (if - amount_remaining \<ge> amt_out then ok sqrt_price_target_x96
                  else get_next_sqrt_price_from_output sqrt_price_current_x96 liquidity
                         (- amount_remaining) zero_for_one)
             (\<lambda>sqrt_price_next. ok (sqrt_price_next, 0, amt_out))))
        (\<lambda>(sqrt_price_next, amt_in0, amt_out0).
           let reached_target = (sqrt_price_target_x96 = sqrt_price_next) in
           rbind (if zero_for_one then
                    rbind (if \<not> (reached_target \<and> exact_in)
                           then get_amount0_delta sqrt_price_next sqrt_price_current_x96 liquidity True
                           else ok amt_in0) (\<lambda>amt_in.
                    rbind (if \<not> (reached_target \<and> \<not> exact_in)
                           then get_amount1_delta sqrt_price_next sqrt_price_current_x96 liquidity False
                           else ok amt_out0) (\<lambda>amt_out. ok (amt_in, amt_out)))
                  else
                    rbind (if \<not> (reached_target \<and> exact_in)
                           then get_amount1_delta sqrt_price_current_x96 sqrt_price_next liquidity True
                           else ok amt_in0) (\<lambda>amt_in.
                    rbind (if \<not> (reached_target \<and> \<not> exact_in)
                           then get_amount0_delta sqrt_price_current_x96 sqrt_price_next liquidity False
                           else ok amt_out0) (\<lambda>amt_out. ok (amt_in, amt_out))))
             (\<lambda>(amt_in, amt_out1).
                let amt_out = (if \<not> exact_in \<and> amt_out1 > - amount_remaining
                               then - amount_remaining else amt_out1)
                in rbind (if exact_in \<and> \<not> reached_target then ok (amount_remaining - amt_in)
                          else mul_div_rounding_up amt_in fee_pips (FEE_PIPS_DENOMINATOR - fee_pips))
                     (\<lambda>fee. ok \<lparr> sqrt_price_next_x96 = sqrt_price_next, amount_in = amt_in,
                                 amount_out = amt_out, fee_amount = fee \<rparr>))))"

section \<open>The step of one direction\<close>

definition fee_on :: "int \<Rightarrow> int \<Rightarrow> int" where
  "fee_on amt fee_pips = ceil_div (amt * fee_pips) (FEE_PIPS_DENOMINATOR - fee_pips)"

definition less_fee :: "int \<Rightarrow> int \<Rightarrow> int" where
  "less_fee amt fee_pips = amt * (FEE_PIPS_DENOMINATOR - fee_pips) div FEE_PIPS_DENOMINATOR"

definition directed_step ::
    "(int \<Rightarrow> int \<Rightarrow> int \<Rightarrow> int) \<Rightarrow> (int \<Rightarrow> int \<Rightarrow> int \<Rightarrow> int)
     \<Rightarrow> (int \<Rightarrow> int \<Rightarrow> int \<Rightarrow> int res) \<Rightarrow> (int \<Rightarrow> int \<Rightarrow> int \<Rightarrow> int res)
     \<Rightarrow> int \<Rightarrow> int \<Rightarrow> int \<Rightarrow> int \<Rightarrow> int \<Rightarrow> SwapStep res" where
  "directed_step cost proceeds next_in next_out p t l remaining fee =
     (if 0 \<le> remaining then
        rbind (if less_fee remaining fee \<ge> cost p t l then ok t else next_in p l (less_fee remaining fee))
          (\<lambda>n. ok \<lparr> sqrt_price_next_x96 = n, amount_in = cost p n l, amount_out = proceeds p n l,
                  fee_amount = (if n = t then fee_on (cost p n l) fee else remaining - cost p n l) \<rparr>)
      else
        rbind (if - remaining \<ge> proceeds p t l then ok t else next_out p l (- remaining))
          (\<lambda>n. ok \<lparr> sqrt_price_next_x96 = n, amount_in = cost p n l,
                  amount_out = min (proceeds p n l) (- remaining),
                  fee_amount = fee_on (cost p n l) fee \<rparr>))"

text \<open>What a step promises: the price moves toward the target and not past it, amounts are not
  negative, an exact input never takes more than what remains and takes all of it when it stops short,
  an exact output never delivers more than asked and delivers all of it when it stops short.\<close>

definition step_promise :: "(int \<Rightarrow> int \<Rightarrow> bool) \<Rightarrow> int \<Rightarrow> int \<Rightarrow> int \<Rightarrow> SwapStep \<Rightarrow> bool" where
  "step_promise ahead p t remaining s \<longleftrightarrow>
     ahead p (sqrt_price_next_x96 s) \<and> ahead (sqrt_price_next_x96 s) t
     \<and> 0 \<le> amount_in s \<and> 0 \<le> amount_out s \<and> 0 \<le> fee_amount s
     \<and> (0 \<le> remaining \<longrightarrow> amount_in s + fee_amount s \<le> remaining
          \<and> (sqrt_price_next_x96 s \<noteq> t \<longrightarrow> amount_in s + fee_amount s = remaining))
     \<and> (remaining < 0 \<longrightarrow> amount_out s \<le> - remaining
          \<and> (sqrt_price_next_x96 s \<noteq> t \<longrightarrow> amount_out s = - remaining))"

lemma fee_on_nonneg: "0 \<le> x \<Longrightarrow> 0 \<le> fee \<Longrightarrow> fee < FEE_PIPS_DENOMINATOR \<Longrightarrow> 0 \<le> fee_on x fee"
  by (simp add: fee_on_def ceil_div_nonneg)

lemma less_fee_bounds:
  assumes "0 \<le> x" and "0 \<le> fee" and "fee < FEE_PIPS_DENOMINATOR"
  shows "0 \<le> less_fee x fee" and "less_fee x fee \<le> x"
proof -
  show "0 \<le> less_fee x fee"
    using assms by (simp add: less_fee_def pos_imp_zdiv_nonneg_iff)
  have "less_fee x fee \<le> x * FEE_PIPS_DENOMINATOR div FEE_PIPS_DENOMINATOR"
    using assms unfolding less_fee_def by (intro zdiv_mono1 mult_left_mono) auto
  then show "less_fee x fee \<le> x" by (simp add: FEE_PIPS_DENOMINATOR_def)
qed

text \<open>The fee charged on top of a fully covered input fits in the amount it was taken from.\<close>

lemma fee_on_fits:
  assumes "x \<le> less_fee r fee" and "0 \<le> fee" and "fee < FEE_PIPS_DENOMINATOR"
  shows "x + fee_on x fee \<le> r"
proof -
  have "x * FEE_PIPS_DENOMINATOR \<le> r * (FEE_PIPS_DENOMINATOR - fee)"
    using assms(1) by (simp add: less_fee_def floor_le_iff)
  then have "x * fee \<le> (r - x) * (FEE_PIPS_DENOMINATOR - fee)"
    by (simp add: algebra_simps)
  then have "fee_on x fee \<le> r - x"
    using assms(3) by (simp add: fee_on_def ceil_le_iff)
  then show ?thesis by simp
qed

context price_curve
begin

lemma directed_step_promise:
  assumes p: "valid_price p" and t: "valid_price t" and pt: "ahead p t"
    and l: "0 \<le> l" "remaining < 0 \<Longrightarrow> l \<le> MAX_UINT128" and fee: "0 \<le> fee" "fee < FEE_PIPS_DENOMINATOR"
    and refl: "ahead t t"
  shows "\<exists>s. directed_step cost proceeds next_in next_out p t l remaining fee = Inr s
      \<and> step_promise ahead p t remaining s"
proof (cases "0 \<le> remaining")
  case exact_in: True
  let ?x = "less_fee remaining fee"
  have x: "0 \<le> ?x" "?x \<le> remaining"
    using less_fee_bounds [OF exact_in fee] by auto
  show ?thesis
  proof (cases "cost p t l \<le> ?x")
    case True
    then show ?thesis
      using exact_in p t pt l fee refl fee_on_fits [OF True fee]
      by (simp add: directed_step_def step_promise_def cost_nonneg proceeds_nonneg fee_on_nonneg)
  next
    case False
    then have "l \<noteq> 0" using no_liquidity x by auto
    then obtain n where n: "next_in p l ?x = Inr n" "ahead p n" "ahead n t" "cost p n l \<le> ?x"
      using next_in_law [OF p t pt, of l ?x] l x False by auto
    moreover have "n \<noteq> t" using n(4) False by auto
    moreover have "0 \<le> cost p n l" "0 \<le> proceeds p n l"
      using cost_nonneg proceeds_nonneg ahead_valid [OF p t n(2,3)] p n(2) l by auto
    ultimately show ?thesis
      using exact_in x False by (simp add: directed_step_def step_promise_def)
  qed
next
  case exact_out: False
  show ?thesis
  proof (cases "proceeds p t l \<le> - remaining")
    case True
    then show ?thesis
      using exact_out p t pt l fee refl
      by (simp add: directed_step_def step_promise_def cost_nonneg proceeds_nonneg fee_on_nonneg)
  next
    case False
    then have "l \<noteq> 0" using no_liquidity exact_out by auto
    then obtain n where n: "next_out p l (- remaining) = Inr n" "ahead p n" "ahead n t"
        "- remaining \<le> proceeds p n l"
      using next_out_law [OF p t pt, of l "- remaining"] l exact_out False by auto
    moreover have "0 \<le> cost p n l" "0 \<le> proceeds p n l"
      using cost_nonneg proceeds_nonneg ahead_valid [OF p t n(2,3)] p n(2) l by auto
    ultimately show ?thesis
      using exact_out False fee
      by (simp add: directed_step_def step_promise_def fee_on_nonneg min_absorb2)
  qed
qed

end

section \<open>The code's step is the directed step\<close>

lemma mul_div_less_fee:
  "mul_div r (FEE_PIPS_DENOMINATOR - fee) FEE_PIPS_DENOMINATOR = Inr (less_fee r fee)"
  by (simp add: less_fee_def)

lemma mul_div_fee_on:
  "fee < FEE_PIPS_DENOMINATOR \<Longrightarrow>
   mul_div_rounding_up x fee (FEE_PIPS_DENOMINATOR - fee) = Inr (fee_on x fee)"
  by (simp add: fee_on_def)

lemma directed_step_InrE:
  assumes "directed_step cost proceeds next_in next_out p t l remaining fee = Inr s"
  obtains (exact_in) n where "0 \<le> remaining"
      and "(if less_fee remaining fee \<ge> cost p t l then ok t else next_in p l (less_fee remaining fee)) = Inr n"
      and "s = \<lparr> sqrt_price_next_x96 = n, amount_in = cost p n l, amount_out = proceeds p n l,
                  fee_amount = (if n = t then fee_on (cost p n l) fee else remaining - cost p n l) \<rparr>"
  | (exact_out) n where "remaining < 0"
      and "(if - remaining \<ge> proceeds p t l then ok t else next_out p l (- remaining)) = Inr n"
      and "s = \<lparr> sqrt_price_next_x96 = n, amount_in = cost p n l,
                  amount_out = min (proceeds p n l) (- remaining),
                  fee_amount = fee_on (cost p n l) fee \<rparr>"
  using assms by (cases "0 \<le> remaining") (auto simp: directed_step_def)

lemma compute_swap_step_zero_for_one:
  assumes step: "directed_step (\<lambda>p t l. amount0_up t p l) (\<lambda>p t l. amount1_down t p l)
      (\<lambda>p l x. get_next_sqrt_price_from_input p l x True)
      (\<lambda>p l x. get_next_sqrt_price_from_output p l x True) p t l remaining fee = Inr s"
    and side: "0 < t" "t \<le> p" "0 < sqrt_price_next_x96 s" "sqrt_price_next_x96 s \<le> p"
    and fee: "fee < FEE_PIPS_DENOMINATOR"
  shows "compute_swap_step p t l remaining fee = Inr s"
  using step
proof (cases rule: directed_step_InrE)
  case (exact_in n)
  have deltas: "get_amount0_delta t p l True = Inr (amount0_up t p l)"
    "get_amount0_delta n p l True = Inr (amount0_up n p l)"
    "get_amount1_delta n p l False = Inr (amount1_down n p l)"
    using side exact_in(3) by (simp_all add: get_amount0_delta_eq get_amount1_delta_eq)
  show ?thesis
    using exact_in(1,2) side deltas
    unfolding compute_swap_step_def Let_def exact_in(3)
    by (cases "n = t") (simp_all add: mul_div_less_fee mul_div_fee_on [OF fee] del: mul_div_pos
        mul_div_rounding_up_pos rbind_eq_Inr_iff split: if_splits)
next
  case (exact_out n)
  have deltas: "get_amount1_delta t p l False = Inr (amount1_down t p l)"
    "get_amount0_delta n p l True = Inr (amount0_up n p l)"
    "get_amount1_delta n p l False = Inr (amount1_down n p l)"
    using side exact_out(3) by (simp_all add: get_amount0_delta_eq get_amount1_delta_eq)
  show ?thesis
    using exact_out(1,2) side deltas
    unfolding compute_swap_step_def Let_def exact_out(3)
    by (cases "n = t") (simp_all add: mul_div_fee_on [OF fee] min_def del: mul_div_pos
        mul_div_rounding_up_pos rbind_eq_Inr_iff split: if_splits)
qed

lemma compute_swap_step_one_for_zero:
  assumes step: "directed_step (\<lambda>p t l. amount1_up p t l) (\<lambda>p t l. amount0_down p t l)
      (\<lambda>p l x. get_next_sqrt_price_from_input p l x False)
      (\<lambda>p l x. get_next_sqrt_price_from_output p l x False) p t l remaining fee = Inr s"
    and side: "0 < p" "p < t" "p \<le> sqrt_price_next_x96 s"
    and fee: "fee < FEE_PIPS_DENOMINATOR"
  shows "compute_swap_step p t l remaining fee = Inr s"
  using step
proof (cases rule: directed_step_InrE)
  case (exact_in n)
  have deltas: "get_amount1_delta p t l True = Inr (amount1_up p t l)"
    "get_amount1_delta p n l True = Inr (amount1_up p n l)"
    "get_amount0_delta p n l False = Inr (amount0_down p n l)"
    using side exact_in(3) by (simp_all add: get_amount0_delta_eq get_amount1_delta_eq)
  show ?thesis
    using exact_in(1,2) side deltas
    unfolding compute_swap_step_def Let_def exact_in(3)
    by (cases "n = t") (simp_all add: mul_div_less_fee mul_div_fee_on [OF fee] del: mul_div_pos
        mul_div_rounding_up_pos rbind_eq_Inr_iff split: if_splits)
next
  case (exact_out n)
  have deltas: "get_amount0_delta p t l False = Inr (amount0_down p t l)"
    "get_amount1_delta p n l True = Inr (amount1_up p n l)"
    "get_amount0_delta p n l False = Inr (amount0_down p n l)"
    using side exact_out(3) by (simp_all add: get_amount0_delta_eq get_amount1_delta_eq)
  show ?thesis
    using exact_out(1,2) side deltas
    unfolding compute_swap_step_def Let_def exact_out(3)
    by (cases "n = t") (simp_all add: mul_div_fee_on [OF fee] min_def del: mul_div_pos
        mul_div_rounding_up_pos rbind_eq_Inr_iff split: if_splits)
qed

text \<open>Direction of a step: toward a lower price when the target is not above the current price.\<close>

definition toward :: "int \<Rightarrow> int \<Rightarrow> int \<Rightarrow> bool" where
  "toward p t n \<longleftrightarrow> (if t \<le> p then t \<le> n \<and> n \<le> p else p \<le> n \<and> n \<le> t)"

lemma compute_swap_step_promise:
  assumes p: "valid_price p" and t: "valid_price t"
    and l: "0 \<le> l" "remaining < 0 \<Longrightarrow> l \<le> MAX_UINT128" and fee: "0 \<le> fee" "fee < FEE_PIPS_DENOMINATOR"
  shows "\<exists>s. compute_swap_step p t l remaining fee = Inr s
    \<and> toward p t (sqrt_price_next_x96 s)
    \<and> 0 \<le> amount_in s \<and> 0 \<le> amount_out s \<and> 0 \<le> fee_amount s
    \<and> (0 \<le> remaining \<longrightarrow> amount_in s + fee_amount s \<le> remaining
         \<and> (sqrt_price_next_x96 s \<noteq> t \<longrightarrow> amount_in s + fee_amount s = remaining))
    \<and> (remaining < 0 \<longrightarrow> amount_out s \<le> - remaining
         \<and> (sqrt_price_next_x96 s \<noteq> t \<longrightarrow> amount_out s = - remaining))"
proof (cases "t \<le> p")
  case True
  obtain s where "directed_step (\<lambda>p t l. amount0_up t p l) (\<lambda>p t l. amount1_down t p l)
      (\<lambda>p l x. get_next_sqrt_price_from_input p l x True)
      (\<lambda>p l x. get_next_sqrt_price_from_output p l x True) p t l remaining fee = Inr s"
      and s: "step_promise (\<lambda>p t. t \<le> p) p t remaining s"
    using zero_for_one.directed_step_promise [OF p t True l fee] by auto
  then have "compute_swap_step p t l remaining fee = Inr s"
    using True t fee by (intro compute_swap_step_zero_for_one [where s = s]) (auto simp: step_promise_def valid_price_def)
  with s True show ?thesis by (auto simp: step_promise_def toward_def)
next
  case False
  then have pt: "p \<le> t" by simp
  obtain s where "directed_step (\<lambda>p t l. amount1_up p t l) (\<lambda>p t l. amount0_down p t l)
      (\<lambda>p l x. get_next_sqrt_price_from_input p l x False)
      (\<lambda>p l x. get_next_sqrt_price_from_output p l x False) p t l remaining fee = Inr s"
      and s: "step_promise (\<lambda>p t. p \<le> t) p t remaining s"
    using one_for_zero.directed_step_promise [OF p t pt l fee] by auto
  then have "compute_swap_step p t l remaining fee = Inr s"
    using False p fee by (intro compute_swap_step_one_for_zero [where s = s]) (auto simp: step_promise_def valid_price_def)
  with s False show ?thesis by (auto simp: step_promise_def toward_def)
qed

text \<open>C2. \<open>compute_swap_step\<close> never raises on a valid pool; the price moves toward the target and not past
  it; an exact input is never exceeded and is used up when the step stops short of the target; an
  exact output is never exceeded and is delivered in full when the step stops short.\<close>

theorem compute_swap_step_correct:
  assumes "0 < p" "p \<le> MAX_UINT160" "0 < t" "t \<le> MAX_UINT160"
    and "0 \<le> l" "0 \<le> remaining \<or> l \<le> MAX_UINT128" "0 \<le> fee" "fee < FEE_PIPS_DENOMINATOR"
  shows "\<exists>s. compute_swap_step p t l remaining fee = Inr s
    \<and> (if t \<le> p then t \<le> sqrt_price_next_x96 s \<and> sqrt_price_next_x96 s \<le> p
       else p \<le> sqrt_price_next_x96 s \<and> sqrt_price_next_x96 s \<le> t)
    \<and> 0 \<le> amount_in s \<and> 0 \<le> amount_out s \<and> 0 \<le> fee_amount s
    \<and> (0 \<le> remaining \<longrightarrow> amount_in s + fee_amount s \<le> remaining
         \<and> (sqrt_price_next_x96 s \<noteq> t \<longrightarrow> amount_in s + fee_amount s = remaining))
    \<and> (remaining < 0 \<longrightarrow> amount_out s \<le> - remaining
         \<and> (sqrt_price_next_x96 s \<noteq> t \<longrightarrow> amount_out s = - remaining))"
proof -
  have "remaining < 0 \<Longrightarrow> l \<le> MAX_UINT128" using assms by auto
  then show ?thesis
    using compute_swap_step_promise [of p t l remaining fee] assms
    unfolding valid_price_def toward_def by blast
qed

theorem compute_swap_step_correct_witness:
  "\<exists>s. compute_swap_step (2 ^ 96) (2 ^ 95) (10 ^ 18) 1000000 3000 = Inr s
    \<and> (if (2 ^ 95 :: int) \<le> 2 ^ 96 then 2 ^ 95 \<le> sqrt_price_next_x96 s \<and> sqrt_price_next_x96 s \<le> 2 ^ 96
       else 2 ^ 96 \<le> sqrt_price_next_x96 s \<and> sqrt_price_next_x96 s \<le> 2 ^ 95)
    \<and> 0 \<le> amount_in s \<and> 0 \<le> amount_out s \<and> 0 \<le> fee_amount s
    \<and> (0 \<le> (1000000::int) \<longrightarrow> amount_in s + fee_amount s \<le> 1000000
         \<and> (sqrt_price_next_x96 s \<noteq> 2 ^ 95 \<longrightarrow> amount_in s + fee_amount s = 1000000))
    \<and> ((1000000::int) < 0 \<longrightarrow> amount_out s \<le> - 1000000
         \<and> (sqrt_price_next_x96 s \<noteq> 2 ^ 95 \<longrightarrow> amount_out s = - 1000000))"
  by (rule compute_swap_step_correct) (simp_all add: pool_constants)

end
