(* ===== verification/Py_Dict.thy ===== *)
theory Py_Dict
  imports Lab_Prelude "HOL-Library.AList"
begin

text \<open>
  Python dictionaries keep insertion order and the code relies on it (oldest entry first, latest
  entry last), so a dictionary is an association list with distinct keys: assignment to a present
  key keeps its place, a new key goes to the end. These are \<open>update\<close> and \<open>delete\<close> of the library's
  association lists. The laws a client uses are the locale \<open>ordered_dict\<close>.
\<close>

type_synonym ('k, 'v) dict = "('k \<times> 'v) list"

abbreviation dict_get :: "('k, 'v) dict \<Rightarrow> 'k \<Rightarrow> 'v option" where
  "dict_get d k \<equiv> map_of d k"

definition dict_set :: "'k \<Rightarrow> 'v \<Rightarrow> ('k, 'v) dict \<Rightarrow> ('k, 'v) dict" where
  "dict_set k v d = AList.update k v d"

definition dict_pop :: "'k \<Rightarrow> ('k, 'v) dict \<Rightarrow> ('k, 'v) dict" where
  "dict_pop k d = AList.delete k d"

definition dict_keys :: "('k, 'v) dict \<Rightarrow> 'k list" where
  "dict_keys d = map fst d"

definition dict_get_or :: "('k, 'v) dict \<Rightarrow> 'k \<Rightarrow> 'v \<Rightarrow> 'v" where
  "dict_get_or d k v = (case dict_get d k of None \<Rightarrow> v | Some x \<Rightarrow> x)"

text \<open>\<open>move_to_end\<close> of an \<open>OrderedDict\<close> after an assignment, and \<open>popitem(last=False)\<close> until the size fits.\<close>

definition dict_set_last :: "'k \<Rightarrow> 'v \<Rightarrow> ('k, 'v) dict \<Rightarrow> ('k, 'v) dict" where
  "dict_set_last k v d = dict_pop k d @ [(k, v)]"

definition dict_trim :: "nat \<Rightarrow> ('k, 'v) dict \<Rightarrow> ('k, 'v) dict" where
  "dict_trim limit d = drop (length d - limit) d"

definition wf_dict :: "('k, 'v) dict \<Rightarrow> bool" where
  "wf_dict d \<longleftrightarrow> distinct (dict_keys d)"

lemma wf_dict_Nil [simp]: "wf_dict []"
  by (simp add: wf_dict_def dict_keys_def)

lemma dict_get_set [simp]: "dict_get (dict_set k v d) = (dict_get d)(k \<mapsto> v)"
  by (simp add: dict_set_def update_conv' fun_eq_iff)

lemma dict_get_pop [simp]: "dict_get (dict_pop k d) = (dict_get d)(k := None)"
  by (simp add: dict_pop_def delete_conv' fun_eq_iff)

lemma wf_dict_set [simp]: "wf_dict d \<Longrightarrow> wf_dict (dict_set k v d)"
  by (simp add: wf_dict_def dict_keys_def dict_set_def distinct_update)

lemma wf_dict_pop [simp]: "wf_dict d \<Longrightarrow> wf_dict (dict_pop k d)"
  by (simp add: wf_dict_def dict_keys_def dict_pop_def distinct_delete)

lemma set_dict_keys_pop [simp]: "set (dict_keys (dict_pop k d)) = set (dict_keys d) - {k}"
  by (auto simp: dict_keys_def dict_pop_def delete_keys)

lemma set_dict_keys_set [simp]: "set (dict_keys (dict_set k v d)) = insert k (set (dict_keys d))"
  using dom_update [of k v d] by (simp add: dict_keys_def dict_set_def dom_map_of_conv_image_fst)

lemma dict_get_None_iff: "dict_get d k = None \<longleftrightarrow> k \<notin> set (dict_keys d)"
  by (simp add: dict_keys_def map_of_eq_None_iff)

lemma dict_set_new: "k \<notin> set (dict_keys d) \<Longrightarrow> dict_set k v d = d @ [(k, v)]"
  by (induction d) (auto simp: dict_set_def dict_keys_def)

lemma dict_get_trim:
  "wf_dict d \<Longrightarrow> dict_get (dict_trim n d) k = Some v \<Longrightarrow> dict_get d k = Some v"
proof -
  assume wf: "wf_dict d" and look: "dict_get (dict_trim n d) k = Some v"
  then have "(k, v) \<in> set d"
    using map_of_SomeD [OF look] set_drop_subset [of "length d - n" d] by (auto simp: dict_trim_def)
  with wf show ?thesis by (simp add: wf_dict_def dict_keys_def)
qed

lemma length_dict_trim [simp]: "length (dict_trim n d) = min n (length d)"
  by (simp add: dict_trim_def)

lemma wf_dict_trim [simp]: "wf_dict d \<Longrightarrow> wf_dict (dict_trim n d)"
  by (simp add: wf_dict_def dict_keys_def dict_trim_def drop_map [symmetric])

lemma wf_dict_set_last [simp]: "wf_dict d \<Longrightarrow> wf_dict (dict_set_last k v d)"
  using wf_dict_pop [of d k] set_dict_keys_pop [of k d]
  by (auto simp: wf_dict_def dict_keys_def dict_set_last_def)

lemma dict_get_set_last [simp]: "dict_get (dict_set_last k v d) = (dict_get d)(k \<mapsto> v)"
proof
  fix j
  show "dict_get (dict_set_last k v d) j = ((dict_get d)(k \<mapsto> v)) j"
    by (cases "dict_get d j") (auto simp: dict_set_last_def map_add_def)
qed

text \<open>\<open>list(dict.fromkeys(xs))\<close>: the distinct elements in order of first occurrence.\<close>

definition unique_in_order :: "'a list \<Rightarrow> 'a list" where
  "unique_in_order xs = rev (remdups (rev xs))"

lemma set_unique_in_order [simp]: "set (unique_in_order xs) = set xs"
  by (simp add: unique_in_order_def)

lemma distinct_unique_in_order [simp]: "distinct (unique_in_order xs)"
  by (simp add: unique_in_order_def)

lemma unique_in_order_snoc: "unique_in_order (xs @ [x]) = (if x \<in> set xs then unique_in_order xs else unique_in_order xs @ [x])"
  by (simp add: unique_in_order_def)

text \<open>A size-limited ordered dictionary, as the code's caches are.\<close>

locale ordered_dict =
  fixes lookup :: "'d \<Rightarrow> 'k \<Rightarrow> 'v option" and store :: "'k \<Rightarrow> 'v \<Rightarrow> 'd \<Rightarrow> 'd"
    and shrink :: "nat \<Rightarrow> 'd \<Rightarrow> 'd" and size_of :: "'d \<Rightarrow> nat" and inv :: "'d \<Rightarrow> bool"
  assumes lookup_store: "inv d \<Longrightarrow> lookup (store k v d) = (lookup d)(k \<mapsto> v)"
    and lookup_shrink: "inv d \<Longrightarrow> lookup (shrink n d) j = Some w \<Longrightarrow> lookup d j = Some w"
    and shrink_keeps_latest: "inv d \<Longrightarrow> 0 < n \<Longrightarrow> lookup (shrink n (store k v d)) k = Some v"
    and size_shrink: "size_of (shrink n d) \<le> n"
    and inv_store: "inv d \<Longrightarrow> inv (store k v d)"
    and inv_shrink: "inv d \<Longrightarrow> inv (shrink n d)"
begin

definition remember :: "nat \<Rightarrow> 'k \<Rightarrow> 'v \<Rightarrow> 'd \<Rightarrow> 'd" where
  "remember n k v d = shrink n (store k v d)"

lemma remember_inv: "inv d \<Longrightarrow> inv (remember n k v d)"
  by (simp add: remember_def inv_store inv_shrink)

lemma remember_size: "size_of (remember n k v d) \<le> n"
  by (simp add: remember_def size_shrink)

lemma remember_latest: "inv d \<Longrightarrow> 0 < n \<Longrightarrow> lookup (remember n k v d) k = Some v"
  by (simp add: remember_def shrink_keeps_latest)

lemma remember_others: "inv d \<Longrightarrow> lookup (remember n k v d) j = Some w \<Longrightarrow> j \<noteq> k \<Longrightarrow> lookup d j = Some w"
  using lookup_shrink [of "store k v d" n j w] by (simp add: remember_def inv_store lookup_store)

end

lemma dict_trim_set_last:
  assumes "wf_dict d" and "0 < n"
  shows "dict_get (dict_trim n (dict_set_last k v d)) k = Some v"
proof -
  have "wf_dict (dict_trim n (dict_set_last k v d))" using assms by simp
  moreover have "(k, v) \<in> set (dict_trim n (dict_set_last k v d))"
  proof -
    have "length (dict_set_last k v d) - n \<le> length (dict_pop k d)"
      using assms(2) by (simp add: dict_set_last_def)
    then show ?thesis by (simp add: dict_trim_def dict_set_last_def)
  qed
  ultimately show ?thesis by (simp add: wf_dict_def dict_keys_def)
qed

interpretation lru: ordered_dict "map_of" dict_set_last dict_trim length wf_dict
proof unfold_locales
  fix d :: "('a, 'b) dict" and n :: nat and j :: 'a and k :: 'a and v w :: 'b
  assume wf: "wf_dict d"
  show "map_of (dict_set_last k v d) = (map_of d)(k \<mapsto> v)" by (rule dict_get_set_last)
  show "map_of (dict_trim n d) j = Some w \<Longrightarrow> map_of d j = Some w" by (rule dict_get_trim [OF wf])
  show "0 < n \<Longrightarrow> map_of (dict_trim n (dict_set_last k v d)) k = Some v" by (rule dict_trim_set_last [OF wf])
  show "wf_dict (dict_set_last k v d)" using wf by (rule wf_dict_set_last)
  show "wf_dict (dict_trim n d)" using wf by (rule wf_dict_trim)
qed simp

end
