(* ===== verification/V3_Tick_Bitmap.thy ===== *)
theory V3_Tick_Bitmap
  imports V3_Full_Math Py_Dict
begin

text \<open>
  \<open>TickInfo\<close> and \<open>TickWindow\<close> of \<open>app/models/v3.py\<close>, and \<open>app/market_data/uniswap_v3/tick_bitmap.py\<close>:
  the search for the next initialized tick within one bitmap word. The abstract view of a window is
  the set of compressed ticks whose bit is set (\<open>tick_set\<close>); the search is shown to return the
  nearest such tick, or the end of the word when there is none.
\<close>

unbundle bit_operations_syntax

section \<open>Windows\<close>

record TickInfo =
  ti_tick :: int
  liquidity_gross :: int
  liquidity_net :: int
  fee_growth_outside0_x128 :: int
  fee_growth_outside1_x128 :: int
  initialized :: bool

record TickWindow =
  tw_block_number :: int
  tick_spacing :: int
  bitmap_words :: "(int, int) dict"
  tw_ticks :: "(int, TickInfo) dict"
  min_word :: int
  max_word :: int

definition window_liquidity_net :: "TickWindow \<Rightarrow> int \<Rightarrow> int res" where
  "window_liquidity_net window tick =
     (case dict_get (tw_ticks window) tick of
        None \<Rightarrow> raise_error WindowExhausted
      | Some info \<Rightarrow> ok (liquidity_net info))"

section \<open>Bit positions\<close>

text \<open>\<open>int.bit_length\<close> on a natural number.\<close>

function bit_length :: "int \<Rightarrow> int" where
  "bit_length n = (if n \<le> 0 then 0 else 1 + bit_length (n div 2))"
  by pat_completeness auto
termination by (relation "measure nat") auto

declare bit_length.simps [simp del]

definition WORD_MASK :: int where "WORD_MASK = push_bit 256 1 - 1"

definition bitmap_position :: "int \<Rightarrow> int \<times> int" where
  "bitmap_position compressed = (drop_bit 8 compressed, compressed AND 0xFF)"

definition compress :: "int \<Rightarrow> int \<Rightarrow> int res" where
  "compress tick spacing = py_floordiv tick spacing"

definition word_position_for_tick :: "int \<Rightarrow> int \<Rightarrow> int res" where
  "word_position_for_tick tick spacing =
     rbind (compress tick spacing) (\<lambda>compressed. ok (fst (bitmap_position compressed)))"

definition window_word :: "TickWindow \<Rightarrow> int \<Rightarrow> int res" where
  "window_word window word_pos =
     (if word_pos < min_word window \<or> word_pos > max_word window
      then raise_error WindowExhausted
      else ok (dict_get_or (bitmap_words window) word_pos 0))"

definition next_initialized_tick_within_one_word ::
    "TickWindow \<Rightarrow> int \<Rightarrow> bool \<Rightarrow> (int \<times> bool) res" where
  "next_initialized_tick_within_one_word window tick lte =
     (let spacing = tick_spacing window in
      rbind (compress tick spacing) (\<lambda>compressed.
      if lte then
           let (word_pos, bit_pos) = bitmap_position compressed;
               mask = push_bit (nat bit_pos) 1 - 1 + push_bit (nat bit_pos) 1
           in rbind (window_word window word_pos) (\<lambda>word.
                let masked = word AND mask;
                    is_init = (masked \<noteq> 0);
                    next_compressed = (if is_init then compressed - (bit_pos - (bit_length masked - 1))
                                       else compressed - bit_pos)
                in ok (next_compressed * spacing, is_init))
         else
           let (word_pos, bit_pos) = bitmap_position (compressed + 1);
               mask = WORD_MASK XOR (push_bit (nat bit_pos) 1 - 1)
           in rbind (window_word window word_pos) (\<lambda>word.
                let masked = word AND mask;
                    is_init = (masked \<noteq> 0);
                    least_significant = bit_length (masked AND - masked) - 1;
                    next_compressed = (if is_init then compressed + 1 + (least_significant - bit_pos)
                                       else compressed + 1 + (255 - bit_pos))
                in ok (next_compressed * spacing, is_init))))"

text \<open>The inner loop of \<open>initialized_ticks_in_words\<close>; \<open>None\<close> if it does not return.\<close>

partial_function (option) word_ticks :: "int \<Rightarrow> int \<Rightarrow> int \<Rightarrow> int list \<Rightarrow> int list option" where
  "word_ticks spacing word_pos word ticks =
     (if word = 0 then Some ticks
      else word_ticks spacing word_pos (word AND (word - 1))
             (ticks @ [(push_bit 8 word_pos + (bit_length (word AND - word) - 1)) * spacing]))"

fun words_ticks :: "int \<Rightarrow> (int, int) dict \<Rightarrow> int list \<Rightarrow> int list \<Rightarrow> int list option" where
  "words_ticks spacing words [] ticks = Some ticks"
| "words_ticks spacing words (word_pos # rest) ticks =
     (case word_ticks spacing word_pos (dict_get_or words word_pos 0) ticks of
        None \<Rightarrow> None
      | Some ticks' \<Rightarrow> words_ticks spacing words rest ticks')"

definition initialized_ticks_in_words :: "(int, int) dict \<Rightarrow> int \<Rightarrow> int list option" where
  "initialized_ticks_in_words words spacing =
     words_ticks spacing words (sort (dict_keys words)) []"

section \<open>Bits of a word\<close>

lemma bitmap_position_eq: "bitmap_position c = (c div 256, c mod 256)"
proof -
  have "c AND 255 = take_bit 8 c"
    using take_bit_eq_mask [of 8 c] by (simp add: mask_eq_exp_minus_1)
  then show ?thesis
    by (simp add: bitmap_position_def drop_bit_eq_div take_bit_eq_mod)
qed

lemma bit_length_nonneg: "0 \<le> bit_length n"
  by (induction n rule: bit_length.induct) (subst bit_length.simps, auto)

lemma bit_length_bounds: "0 < n \<Longrightarrow> 1 \<le> bit_length n \<and> 2 ^ nat (bit_length n - 1) \<le> n \<and> n < 2 ^ nat (bit_length n)"
proof (induction n rule: bit_length.induct)
  case (1 n)
  have eq: "bit_length n = 1 + bit_length (n div 2)"
    using "1.prems" by (subst bit_length.simps) simp
  show ?case
  proof (cases "n = 1")
    case True
    have "bit_length 0 = 0" by (simp add: bit_length.simps)
    then have "bit_length n = 1" using eq True by simp
    with True show ?thesis by simp
  next
    case False
    with "1.prems" have half: "0 < n div 2" by auto
    have IH: "1 \<le> bit_length (n div 2)" "2 ^ nat (bit_length (n div 2) - 1) \<le> n div 2"
        "n div 2 < 2 ^ nat (bit_length (n div 2))"
      using "1.IH" "1.prems" half by auto
    define k where "k = nat (bit_length (n div 2) - 1)"
    have k: "bit_length (n div 2) = int (Suc k)"
      using IH(1) by (simp add: k_def)
    have "nat (bit_length n) = Suc (Suc k)" "nat (bit_length n - 1) = Suc k"
      using eq k by simp_all
    moreover have "2 ^ k \<le> n div 2" "n div 2 < 2 ^ Suc k"
      using IH(2,3) unfolding k nat_int by simp_all
    ultimately show ?thesis
      using eq k by (auto simp: power_Suc)
  qed
qed

lemma bit_length_eqI: "2 ^ k \<le> n \<Longrightarrow> n < 2 ^ Suc k \<Longrightarrow> bit_length n = int (Suc k)"
proof -
  assume n: "2 ^ k \<le> n" "n < 2 ^ Suc k"
  have "(0::int) < 2 ^ k" by simp
  with n(1) have pos: "0 < n" by linarith
  define j where "j = nat (bit_length n - 1)"
  have j: "bit_length n = int (Suc j)" "2 ^ j \<le> n" "n < 2 ^ Suc j"
    using bit_length_bounds [OF pos] by (auto simp: j_def nat_diff_distrib Suc_diff_le)
  from j n have "(2::int) ^ k < 2 ^ Suc j" "(2::int) ^ j < 2 ^ Suc k" by linarith+
  then have "k < Suc j" "j < Suc k"
    by (auto simp only: power_strict_increasing_iff [of 2])
  with j show ?thesis by simp
qed

lemma bit_length_power2: "bit_length (2 ^ k) = int (Suc k)"
  by (rule bit_length_eqI) simp_all

lemma highest_bit:
  assumes "0 < n"
  shows "bit n (nat (bit_length n - 1))" and "bit n i \<Longrightarrow> int i \<le> bit_length n - 1"
proof -
  define k where "k = nat (bit_length n - 1)"
  have b: "1 \<le> bit_length n" "2 ^ k \<le> n" "n < 2 ^ nat (bit_length n)"
    using bit_length_bounds [OF assms] by (auto simp: k_def)
  have len: "bit_length n = int (Suc k)" using b(1) by (simp add: k_def)
  then have k: "2 ^ k \<le> n" "n < 2 * 2 ^ k" using b(2,3) by (simp_all add: nat_int_add nat_add_distrib)
  have "n div 2 ^ k = 1"
    using k int_div_pos_eq [of n "2 ^ k" 1 "n - 2 ^ k"] by simp
  then show "bit n (nat (bit_length n - 1))"
    by (simp add: bit_iff_odd k_def [symmetric])
  show "int i \<le> bit_length n - 1" if "bit n i"
  proof (rule ccontr)
    assume "\<not> int i \<le> bit_length n - 1"
    then have "Suc k \<le> i" using len by simp
    then have "(2::int) ^ Suc k \<le> 2 ^ i" by (intro power_increasing) auto
    with k have "n < 2 ^ i" by simp
    with assms have "n div 2 ^ i = 0" by simp
    with that show False by (simp add: bit_iff_odd)
  qed
qed

lemma lowest_bit:
  fixes n :: int
  assumes "0 < n"
  shows "\<exists>k. n AND - n = 2 ^ k \<and> bit n k \<and> (\<forall>i<k. \<not> bit n i)"
  using assms
proof (induction "nat n" arbitrary: n rule: less_induct)
  case less
  show ?case
  proof (cases "even n")
    case True
    then obtain h where h: "n = 2 * h" by (elim evenE)
    with less.prems have "0 < h" "nat h < nat n" by auto
    then obtain k where k: "h AND - h = 2 ^ k" "bit h k" "\<forall>i<k. \<not> bit h i"
      using less.hyps by blast
    have "- n div 2 = - h" using h by simp
    then have "n AND - n = 2 * (h AND - h)"
      using h by (subst and_rec) simp
    moreover have "bit n (Suc k)" "\<forall>i<Suc k. \<not> bit n i"
      using h k(2,3) by (auto simp: bit_double_iff less_Suc_eq_0_disj)
    ultimately show ?thesis using k(1) by (intro exI [of _ "Suc k"]) simp
  next
    case False
    then obtain h where h: "n = 2 * h + 1" by (elim oddE)
    have "n AND - n = 1 + 2 * (h AND (- n) div 2)"
      using h by (subst and_rec) simp
    also have "(- n) div 2 = NOT h"
      using h by (simp add: not_eq_complement)
    finally have "n AND - n = 2 ^ 0" by simp
    moreover have "bit n 0" using False by (simp add: bit_0)
    ultimately show ?thesis by blast
  qed
qed

lemma bit_minus_iff: "bit (- n) i \<longleftrightarrow> \<not> bit (n - 1) i" for n :: int
  by (simp add: minus_eq_not_minus_1 bit_not_int_iff)

lemma clear_lowest_bit:
  fixes n :: int
  assumes "n AND - n = 2 ^ k"
  shows "bit (n AND (n - 1)) i \<longleftrightarrow> bit n i \<and> i \<noteq> k"
proof -
  have "bit (n AND - n) i \<longleftrightarrow> i = k"
    using assms by (auto simp: bit_exp_iff)
  then show ?thesis
    by (auto simp: bit_and_iff bit_minus_iff)
qed

section \<open>The search\<close>

text \<open>\<open>tick_set w c\<close>: the compressed tick \<open>c\<close> is initialized according to the bitmap of the window.\<close>

definition tick_set :: "TickWindow \<Rightarrow> int \<Rightarrow> bool" where
  "tick_set w c \<longleftrightarrow> bit (dict_get_or (bitmap_words w) (c div 256) 0) (nat (c mod 256))"

definition loaded :: "TickWindow \<Rightarrow> int \<Rightarrow> bool" where
  "loaded w c \<longleftrightarrow> min_word w \<le> c div 256 \<and> c div 256 \<le> max_word w"

lemma low_mask: "bit (push_bit (nat b) 1 - 1 + push_bit (nat b) 1 :: int) i \<longleftrightarrow> i \<le> nat b"
proof -
  have "push_bit (nat b) 1 - 1 + push_bit (nat b) 1 = (mask (Suc (nat b)) :: int)"
    by (simp add: mask_eq_exp_minus_1 push_bit_eq_mult)
  then show ?thesis by (simp add: bit_mask_iff less_Suc_eq_le)
qed

lemma high_mask: "bit (WORD_MASK XOR (push_bit (nat b) 1 - 1)) i \<longleftrightarrow> i < 256 \<and> nat b \<le> i \<or> 256 \<le> i \<and> i < nat b"
proof -
  have m: "push_bit n 1 - 1 = (mask n :: int)" for n
    by (simp add: mask_eq_exp_minus_1 push_bit_eq_mult)
  show ?thesis
    unfolding WORD_MASK_def m by (auto simp: bit_xor_iff bit_mask_iff)
qed

lemma tick_set_at:
  "0 \<le> j \<Longrightarrow> j < 256 \<Longrightarrow> tick_set w (256 * p + j) \<longleftrightarrow> bit (dict_get_or (bitmap_words w) p 0) (nat j)"
  by (simp add: tick_set_def)

lemma next_tick_down:
  assumes "loaded w c" and "compress tick (tick_spacing w) = Inr c"
  shows "\<exists>nc. next_initialized_tick_within_one_word w tick True = Inr (nc * tick_spacing w, tick_set w nc)
    \<and> nc \<le> c \<and> nc div 256 = c div 256 \<and> (\<forall>k. nc < k \<and> k \<le> c \<longrightarrow> \<not> tick_set w k)
    \<and> (\<not> tick_set w nc \<longrightarrow> nc mod 256 = 0)"
proof -
  define p b word where "p = c div 256" and "b = c mod 256" and "word = dict_get_or (bitmap_words w) p 0"
  define masked where "masked = word AND (push_bit (nat b) 1 - 1 + push_bit (nat b) 1)"
  define h where "h = bit_length masked - 1"
  have c: "c = 256 * p + b" "0 \<le> b" "b < 256" by (simp_all add: p_def b_def)
  have bits: "bit masked i \<longleftrightarrow> bit word i \<and> i \<le> nat b" for i
    by (simp only: masked_def bit_and_iff low_mask)
  have "(0::int) \<le> push_bit (nat b) 1 - 1 + push_bit (nat b) 1"
    using one_le_power [of "2::int" "nat b"] by (simp add: push_bit_eq_mult)
  then have nonneg: "0 \<le> masked" by (simp add: masked_def)
  have word: "window_word w p = Inr word"
    using assms(1) by (simp add: window_word_def loaded_def p_def word_def)
  have set_iff: "tick_set w (256 * p + j) \<longleftrightarrow> bit word (nat j)" if "0 \<le> j" "j < 256" for j
    using that by (simp add: tick_set_at word_def)
  have h: "bit word (nat h)" "0 \<le> h" "h \<le> b" "\<And>j. h < j \<Longrightarrow> j \<le> b \<Longrightarrow> \<not> bit word (nat j)" if "masked \<noteq> 0"
  proof -
    have pos: "0 < masked" using that nonneg by simp
    show "0 \<le> h" using bit_length_bounds [OF pos] by (simp add: h_def)
    show "bit word (nat h)" "h \<le> b" using highest_bit(1) [OF pos] bits c(2) by (auto simp: h_def)
    fix j assume "h < j" "j \<le> b"
    then show "\<not> bit word (nat j)"
      using highest_bit(2) [OF pos, of "nat j"] bits [of "nat j"] \<open>0 \<le> h\<close> by (auto simp: h_def)
  qed
  define nc where "nc = (if masked \<noteq> 0 then c - (b - h) else c - b)"
  have nc: "nc = 256 * p + (if masked \<noteq> 0 then h else 0)" using c by (simp add: nc_def)
  have none: "\<not> bit word (nat j)" if "masked = 0" "0 \<le> j" "j \<le> b" for j
    using bits [of "nat j"] that nat_mono [of j b] by simp
  have range: "nc \<le> c" "nc div 256 = p"
    using nc c h by (auto split: if_splits)
  have set_nc: "tick_set w nc \<longleftrightarrow> masked \<noteq> 0"
    using nc h none [of 0] c set_iff [of h] set_iff [of 0] by (auto split: if_splits)
  have gap: "\<not> tick_set w k" if "nc < k" "k \<le> c" for k
  proof -
    define j where "j = k - 256 * p"
    have "k = 256 * p + j" "0 \<le> j" "j \<le> b" "masked \<noteq> 0 \<longrightarrow> h < j"
      using that nc c h by (auto simp: j_def split: if_splits)
    then show ?thesis using set_iff [of j] h(4) [of j] none [of j] c by auto
  qed
  have "next_initialized_tick_within_one_word w tick True = Inr (nc * tick_spacing w, masked \<noteq> 0)"
    by (simp only: next_initialized_tick_within_one_word_def Let_def assms(2) if_True
        bitmap_position_eq p_def [symmetric] b_def [symmetric] prod.case word rbind_simps
        masked_def [symmetric] h_def [symmetric] nc_def)
  moreover have "masked = 0 \<longrightarrow> nc mod 256 = 0" using nc by simp
  ultimately show ?thesis
    using range set_nc gap by (intro exI [of _ nc]) (auto simp: p_def)
qed

lemma next_tick_up:
  assumes "loaded w (c + 1)" and "compress tick (tick_spacing w) = Inr c"
  shows "\<exists>nc. next_initialized_tick_within_one_word w tick False = Inr (nc * tick_spacing w, tick_set w nc)
    \<and> c + 1 \<le> nc \<and> nc div 256 = (c + 1) div 256 \<and> (\<forall>k. c + 1 \<le> k \<and> k < nc \<longrightarrow> \<not> tick_set w k)
    \<and> (\<not> tick_set w nc \<longrightarrow> nc mod 256 = 255)"
proof -
  define p b word where "p = (c + 1) div 256" and "b = (c + 1) mod 256"
    and "word = dict_get_or (bitmap_words w) p 0"
  define masked where "masked = word AND (WORD_MASK XOR (push_bit (nat b) 1 - 1))"
  define l where "l = bit_length (masked AND - masked) - 1"
  have c: "c + 1 = 256 * p + b" "0 \<le> b" "b < 256" by (simp_all add: p_def b_def)
  have bits: "bit masked i \<longleftrightarrow> bit word i \<and> nat b \<le> i \<and> i < 256" for i
    using c by (simp only: masked_def bit_and_iff high_mask) auto
  have "(0::int) \<le> WORD_MASK XOR (push_bit (nat b) 1 - 1)"
    by (simp add: WORD_MASK_def push_bit_eq_mult)
  then have nonneg: "0 \<le> masked" by (simp add: masked_def)
  have word: "window_word w p = Inr word"
    using assms(1) by (simp add: window_word_def loaded_def p_def word_def)
  have set_iff: "tick_set w (256 * p + j) \<longleftrightarrow> bit word (nat j)" if "0 \<le> j" "j < 256" for j
    using that by (simp add: tick_set_at word_def)
  have l: "bit word (nat l)" "b \<le> l" "l < 256" "\<And>j. b \<le> j \<Longrightarrow> j < l \<Longrightarrow> \<not> bit word (nat j)" if "masked \<noteq> 0"
  proof -
    have "0 < masked" using that nonneg by simp
    then obtain k where k: "masked AND - masked = 2 ^ k" "bit masked k" "\<forall>i<k. \<not> bit masked i"
      using lowest_bit [of masked] by blast
    then have lk: "l = int k" by (simp add: l_def bit_length_power2)
    have "bit word k" "nat b \<le> k" "k < 256" using k(2) unfolding bits by auto
    then show "bit word (nat l)" "b \<le> l" "l < 256" using lk c(2) by auto
    fix j assume "b \<le> j" "j < l"
    then have "nat j < k" "nat b \<le> nat j" "nat j < 256" using lk c \<open>l < 256\<close> by auto
    then show "\<not> bit word (nat j)" using k(3) unfolding bits by blast
  qed
  define nc where "nc = (if masked \<noteq> 0 then c + 1 + (l - b) else c + 1 + (255 - b))"
  have nc: "nc = 256 * p + (if masked \<noteq> 0 then l else 255)" using c by (simp add: nc_def)
  have none: "\<not> bit word (nat j)" if "masked = 0" "b \<le> j" "j < 256" for j
    using bits [of "nat j"] that c by auto
  have range: "c + 1 \<le> nc" "nc div 256 = p"
    using nc c l by (auto split: if_splits)
  have set_nc: "tick_set w nc \<longleftrightarrow> masked \<noteq> 0"
    using nc l none [of 255] c set_iff [of l] set_iff [of 255] by (auto split: if_splits)
  have gap: "\<not> tick_set w k" if "c + 1 \<le> k" "k < nc" for k
  proof -
    define j where "j = k - 256 * p"
    have "k = 256 * p + j" "b \<le> j" "j < 255 \<or> masked \<noteq> 0" "masked \<noteq> 0 \<longrightarrow> j < l"
      using that nc c by (auto simp: j_def split: if_splits)
    then show ?thesis
      using set_iff [of j] none [of j] c(2) l(3) l(4) [of j] by (cases "masked = 0") auto
  qed
  have "next_initialized_tick_within_one_word w tick False = Inr (nc * tick_spacing w, masked \<noteq> 0)"
    by (simp only: next_initialized_tick_within_one_word_def Let_def assms(2) if_False
        bitmap_position_eq p_def [symmetric] b_def [symmetric] prod.case word rbind_simps
        masked_def [symmetric] l_def [symmetric] nc_def)
  moreover have "masked = 0 \<longrightarrow> nc mod 256 = 255" using nc by simp
  ultimately show ?thesis
    using range set_nc gap by (intro exI [of _ nc]) (auto simp: p_def)
qed

lemma next_tick_not_loaded:
  assumes "compress tick (tick_spacing w) = Inr c" and "\<not> loaded w (if lte then c else c + 1)"
  shows "next_initialized_tick_within_one_word w tick lte = Inl WindowExhausted"
  using assms
  by (auto simp: next_initialized_tick_within_one_word_def Let_def bitmap_position_eq window_word_def
      loaded_def not_le split: if_splits)

definition search_start :: "TickWindow \<Rightarrow> int \<Rightarrow> bool \<Rightarrow> int" where
  "search_start w tick lte = (let c = tick div tick_spacing w in if lte then c else c + 1)"

definition between_ticks :: "bool \<Rightarrow> int \<Rightarrow> int \<Rightarrow> int \<Rightarrow> bool" where
  "between_ticks lte start nc k \<longleftrightarrow> (if lte then nc < k \<and> k \<le> start else start \<le> k \<and> k < nc)"

lemma next_tick_exact:
  assumes "start = search_start w tick lte" and "tick_spacing w \<noteq> 0"
  shows "if loaded w start
    then \<exists>nc. next_initialized_tick_within_one_word w tick lte = Inr (nc * tick_spacing w, tick_set w nc)
        \<and> (if lte then nc \<le> start else start \<le> nc) \<and> nc div 256 = start div 256
        \<and> (\<forall>k. between_ticks lte start nc k \<longrightarrow> \<not> tick_set w k)
        \<and> (\<not> tick_set w nc \<longrightarrow> nc mod 256 = (if lte then 0 else 255))
    else next_initialized_tick_within_one_word w tick lte = Inl WindowExhausted"
proof -
  define c where "c = tick div tick_spacing w"
  have c: "compress tick (tick_spacing w) = Inr c"
    using assms(2) by (simp add: compress_def c_def)
  have start: "start = (if lte then c else c + 1)"
    by (simp add: assms search_start_def c_def Let_def)
  show ?thesis
  proof (cases "loaded w start")
    case True
    show ?thesis
    proof (cases lte)
      case lte: True
      have "loaded w c" using True start lte by simp
      moreover from this have "loaded w (if lte then c else c + 1)" using lte by simp
      moreover have "lte = True" using lte by simp
      ultimately show ?thesis
        using next_tick_down [OF _ c] unfolding start between_ticks_def by (simp only: if_True if_False)
    next
      case gt: False
      have "loaded w (c + 1)" using True start gt by simp
      moreover from this have "loaded w (if lte then c else c + 1)" using gt by simp
      moreover have "lte = False" using gt by simp
      ultimately show ?thesis
        using next_tick_up [OF _ c] unfolding start between_ticks_def by (simp only: if_True if_False)
    qed
  next
    case False
    with next_tick_not_loaded [OF c, of lte] show ?thesis
      unfolding start by (simp only: if_False not_False_eq_True)
  qed
qed

text \<open>C5. The bitmap search is exact: it raises exactly when the word is not loaded, and otherwise returns
  the nearest initialized tick in the direction of the swap within the word, or the last tick of the
  word, flagged uninitialized, when the word has none; no initialized tick is skipped.\<close>

theorem next_initialized_tick_exact:
  assumes "start = search_start w tick lte" and "tick_spacing w \<noteq> 0"
  shows "if loaded w start
    then \<exists>nc. next_initialized_tick_within_one_word w tick lte = Inr (nc * tick_spacing w, tick_set w nc)
        \<and> (if lte then nc \<le> start else start \<le> nc) \<and> nc div 256 = start div 256
        \<and> (\<forall>k. between_ticks lte start nc k \<longrightarrow> \<not> tick_set w k)
        \<and> (\<not> tick_set w nc \<longrightarrow> nc mod 256 = (if lte then 0 else 255))
    else next_initialized_tick_within_one_word w tick lte = Inl WindowExhausted"
  using assms by (rule next_tick_exact)

theorem next_initialized_tick_exact_witness:
  "let w = \<lparr> tw_block_number = 1, tick_spacing = 10, bitmap_words = [(0, 5)], tw_ticks = [],
      min_word = 0, max_word = 0 \<rparr> in
    if loaded w 2
    then \<exists>nc. next_initialized_tick_within_one_word w 25 True = Inr (nc * tick_spacing w, tick_set w nc)
        \<and> (if True then nc \<le> 2 else 2 \<le> nc) \<and> nc div 256 = 2 div 256
        \<and> (\<forall>k. between_ticks True 2 nc k \<longrightarrow> \<not> tick_set w k)
        \<and> (\<not> tick_set w nc \<longrightarrow> nc mod 256 = (if True then 0 else 255))
    else next_initialized_tick_within_one_word w 25 True = Inl WindowExhausted"
  unfolding Let_def
  by (rule next_initialized_tick_exact) (simp_all add: search_start_def)


section \<open>Expanding words into ticks\<close>

lemma word_ticks_result:
  assumes "0 \<le> word"
  shows "\<exists>ks. word_ticks s p word ticks = Some (ticks @ map (\<lambda>k. (256 * p + int k) * s) ks)
    \<and> sorted_wrt (<) ks \<and> set ks = {k. bit word k}"
  using assms
proof (induction "nat word" arbitrary: word ticks rule: less_induct)
  case less
  show ?case
  proof (cases "word = 0")
    case True
    then show ?thesis by (subst word_ticks.simps) (auto intro: exI [of _ "[]"])
  next
    case False
    with less.prems obtain k where k: "word AND - word = 2 ^ k" "bit word k" "\<forall>i<k. \<not> bit word i"
      using lowest_bit [of word] by auto
    let ?rest = "word AND (word - 1)"
    have rest: "0 \<le> ?rest" "?rest \<le> word - 1"
      using less.prems False by (auto intro: AND_upper2)
    then obtain ks where ks: "word_ticks s p ?rest (ticks @ [(256 * p + int k) * s])
          = Some ((ticks @ [(256 * p + int k) * s]) @ map (\<lambda>k. (256 * p + int k) * s) ks)"
        "sorted_wrt (<) ks" "set ks = {i. bit ?rest i}"
      using less.hyps [of ?rest "ticks @ [(256 * p + int k) * s]"] False less.prems by auto
    have "word_ticks s p word ticks = word_ticks s p ?rest (ticks @ [(256 * p + int k) * s])"
      using False k(1) by (subst word_ticks.simps) (simp add: bit_length_power2 push_bit_eq_mult mult.commute)
    moreover have "set (k # ks) = {i. bit word i}" "sorted_wrt (<) (k # ks)"
      using ks k clear_lowest_bit [OF k(1)] by (auto simp: not_less intro: le_neq_trans)
    ultimately show ?thesis using ks(1) by (intro exI [of _ "k # ks"]) simp
  qed
qed

definition words_valid :: "(int, int) dict \<Rightarrow> bool" where
  "words_valid words \<longleftrightarrow> wf_dict words \<and> (\<forall>(p, word) \<in> set words. 0 \<le> word \<and> word < 2 ^ 256)"

definition word_tick_set :: "(int, int) dict \<Rightarrow> int set \<Rightarrow> int set" where
  "word_tick_set words ps = {c. c div 256 \<in> ps \<and> bit (dict_get_or words (c div 256) 0) (nat (c mod 256))}"

lemma bit_below: "0 \<le> word \<Longrightarrow> word < 2 ^ n \<Longrightarrow> bit word k \<Longrightarrow> k < n" for word :: int
proof (rule ccontr)
  assume w: "0 \<le> word" "word < 2 ^ n" "bit word k" "\<not> k < n"
  then have "(2::int) ^ n \<le> 2 ^ k" by (intro power_increasing) auto
  with w show False by (simp add: bit_iff_odd)
qed

lemma words_ticks_result:
  assumes "\<And>p. 0 \<le> dict_get_or words p 0 \<and> dict_get_or words p 0 < 2 ^ 256"
    and "sorted_wrt (<) ps" and "0 < s"
  shows "\<exists>cs. words_ticks s words ps ticks = Some (ticks @ map (\<lambda>c. c * s) cs)
    \<and> sorted_wrt (<) cs \<and> set cs = word_tick_set words (set ps)"
  using assms(2)
proof (induction ps arbitrary: ticks)
  case Nil
  then show ?case by (auto simp: word_tick_set_def intro: exI [of _ "[]"])
next
  case (Cons p ps)
  let ?w = "dict_get_or words p 0"
  have w: "0 \<le> ?w" "?w < 2 ^ 256" using assms(1) by auto
  obtain ks where ks: "word_ticks s p ?w ticks = Some (ticks @ map (\<lambda>k. (256 * p + int k) * s) ks)"
      "sorted_wrt (<) ks" "set ks = {k. bit ?w k}"
    using word_ticks_result [OF w(1)] by blast
  have small: "k < 256" if "k \<in> set ks" for k using bit_below [OF w] ks(3) that by auto
  define here where "here = map (\<lambda>k. 256 * p + int k) ks"
  obtain cs where cs: "words_ticks s words ps (ticks @ map (\<lambda>c. c * s) here)
        = Some ((ticks @ map (\<lambda>c. c * s) here) @ map (\<lambda>c. c * s) cs)"
      "sorted_wrt (<) cs" "set cs = word_tick_set words (set ps)"
    using Cons by fastforce
  have here: "set here = word_tick_set words {p}"
  proof
    show "set here \<subseteq> word_tick_set words {p}"
      using small ks(3) by (auto simp: here_def word_tick_set_def)
    show "word_tick_set words {p} \<subseteq> set here"
    proof
      fix c assume "c \<in> word_tick_set words {p}"
      then have "c = 256 * p + int (nat (c mod 256))" "nat (c mod 256) \<in> set ks"
        using ks(3) by (auto simp: word_tick_set_def)
      then show "c \<in> set here" unfolding here_def set_map by (rule image_eqI)
    qed
  qed
  have "sorted_wrt (<) here"
    using ks(2) by (simp add: here_def sorted_wrt_map)
  moreover have "c < d" if "c \<in> set here" "d \<in> set cs" for c d
  proof -
    have "c div 256 = p" "p < d div 256"
      using that here cs(3) Cons.prems by (auto simp: word_tick_set_def)
    then show ?thesis using zdiv_mono1 [of d c 256] by (cases "c < d") auto
  qed
  ultimately have "sorted_wrt (<) (here @ cs)" using cs(2) by (simp add: sorted_wrt_append)
  moreover have "set (here @ cs) = word_tick_set words (set (p # ps))"
    using here cs(3) by (auto simp: word_tick_set_def)
  moreover have "words_ticks s words (p # ps) ticks = Some (ticks @ map (\<lambda>c. c * s) (here @ cs))"
    using ks(1) cs(1) by (simp add: here_def comp_def)
  ultimately show ?case by blast
qed

lemma listed_ticks:
  assumes "words_valid words" and "0 < s"
  shows "\<exists>cs. initialized_ticks_in_words words s = Some (map (\<lambda>c. c * s) cs) \<and> sorted_wrt (<) cs
    \<and> set cs = {c. c div 256 \<in> set (dict_keys words)
          \<and> bit (dict_get_or words (c div 256) 0) (nat (c mod 256))}"
proof -
  have "0 \<le> dict_get_or words p 0 \<and> dict_get_or words p 0 < 2 ^ 256" for p
    using assms(1) map_of_SomeD [of words p]
    by (fastforce simp: words_valid_def dict_get_or_def split: option.splits)
  moreover have "sorted_wrt (<) (sort (dict_keys words))"
    using assms(1) by (simp add: words_valid_def wf_dict_def strict_sorted_iff)
  ultimately show ?thesis
    using words_ticks_result [of words "sort (dict_keys words)" s "[]"] assms(2)
    by (simp add: initialized_ticks_in_words_def word_tick_set_def)
qed

text \<open>Expanding the bitmap words of a window always returns, and lists exactly the initialized ticks of
  the given words, in increasing order and without duplicates, whatever the dictionary's order.\<close>

theorem initialized_ticks_exact:
  assumes "words_valid words" and "0 < s"
  shows "\<exists>cs. initialized_ticks_in_words words s = Some (map (\<lambda>c. c * s) cs) \<and> sorted_wrt (<) cs
    \<and> set cs = {c. c div 256 \<in> set (dict_keys words)
          \<and> bit (dict_get_or words (c div 256) 0) (nat (c mod 256))}"
  using assms by (rule listed_ticks)

theorem initialized_ticks_exact_witness:
  "\<exists>cs. initialized_ticks_in_words [(1, 5), (-1, 2 ^ 255)] 10 = Some (map (\<lambda>c. c * 10) cs) \<and> sorted_wrt (<) cs
    \<and> set cs = {c. c div 256 \<in> set (dict_keys [(1, 5), (-1, 2 ^ 255 :: int)])
          \<and> bit (dict_get_or [(1, 5), (-1, 2 ^ 255 :: int)] (c div 256) 0) (nat (c mod 256))}"
  by (rule initialized_ticks_exact) (simp_all add: words_valid_def wf_dict_def dict_keys_def)

end
