(* ===== verification/V3_Swap_Simulator.thy ===== *)
theory V3_Swap_Simulator
  imports V3_Swap_Math V3_Tick_Bitmap
begin

text \<open>
  \<open>app/market_data/uniswap_v3/swap_simulator.py\<close>: the pool's swap loop for exact input and exact
  output. The loop state is a record; one pass of the loop body is \<open>swap_iteration\<close>, which says
  whether the body ended with \<open>break\<close>; the loop itself is a \<^theory_text>\<open>partial_function\<close>, so
  that its termination is a theorem and not an assumption.
\<close>

record PoolState =
  ps_sqrt_price_x96 :: int
  ps_tick :: int
  ps_liquidity :: int
  ps_fee_pips :: int
  ps_block_number :: int

datatype LimitReason = window_exhausted | price_limit

record SwapQuote =
  q_zero_for_one :: bool
  q_amount_in :: int
  q_amount_in_consumed :: int
  q_amount_out :: int
  q_fee_paid :: int
  q_sqrt_price_before_x96 :: int
  q_sqrt_price_after_x96 :: int
  q_tick_after :: int
  q_ticks_crossed :: int
  q_limit_reason :: "LimitReason option"
  q_block_number :: int
  q_exact :: bool
  q_liquidity_after :: "int option"

text \<open>The variables of the loop of \<open>_simulate\<close>.\<close>

record SwapRun =
  r_remaining :: int
  r_amount_in_total :: int
  r_amount_out :: int
  r_fee_paid :: int
  r_sqrt_price :: int
  r_tick :: int
  r_liquidity :: int
  r_ticks_crossed :: int
  r_limit_reason :: "LimitReason option"

text \<open>Crossing the tick the step stopped at; the flag is \<open>True\<close> when the body breaks out of the loop.\<close>

definition cross_tick :: "TickWindow \<Rightarrow> bool \<Rightarrow> int \<Rightarrow> bool \<Rightarrow> SwapRun \<Rightarrow> (SwapRun \<times> bool) res" where
  "cross_tick window zfo tick_next is_init run =
     (let moved = run\<lparr> r_tick := (if zfo then tick_next - 1 else tick_next) \<rparr>
      in if is_init then
           (case window_liquidity_net window tick_next of
              Inl WindowExhausted \<Rightarrow> ok (moved\<lparr> r_limit_reason := Some window_exhausted \<rparr>, True)
            | Inl e \<Rightarrow> raise_error e
            | Inr net \<Rightarrow>
                let liquidity = r_liquidity run + (if zfo then - net else net)
                in if liquidity < 0 then raise_error ArithmeticError
                   else ok (moved\<lparr> r_liquidity := liquidity,
                                   r_ticks_crossed := r_ticks_crossed run + 1 \<rparr>, False))
         else ok (moved, False))"

definition swap_iteration ::
    "TickWindow \<Rightarrow> bool \<Rightarrow> int \<Rightarrow> bool \<Rightarrow> int \<Rightarrow> SwapRun \<Rightarrow> (SwapRun \<times> bool) res" where
  "swap_iteration window zfo limit exact_in fee_pips run =
     (case next_initialized_tick_within_one_word window (r_tick run) zfo of
        Inl WindowExhausted \<Rightarrow> ok (run\<lparr> r_limit_reason := Some window_exhausted \<rparr>, True)
      | Inl e \<Rightarrow> raise_error e
      | Inr (found, is_init) \<Rightarrow>
          let tick_next = max MIN_TICK (min MAX_TICK found) in
          rbind (get_sqrt_ratio_at_tick tick_next) (\<lambda>sqrt_price_next.
          let target = (if zfo then max sqrt_price_next limit else min sqrt_price_next limit) in
          rbind (compute_swap_step (r_sqrt_price run) target (r_liquidity run) (r_remaining run) fee_pips)
            (\<lambda>step.
          let paid = amount_in step + fee_amount step;
              run1 = run\<lparr> r_sqrt_price := sqrt_price_next_x96 step,
                          r_remaining := (if exact_in then r_remaining run - paid
                                          else r_remaining run + amount_out step),
                          r_amount_in_total := r_amount_in_total run + paid,
                          r_amount_out := r_amount_out run + amount_out step,
                          r_fee_paid := r_fee_paid run + fee_amount step \<rparr>
          in if r_sqrt_price run1 = sqrt_price_next then cross_tick window zfo tick_next is_init run1
             else if r_sqrt_price run1 \<noteq> r_sqrt_price run then
               rbind (get_tick_at_sqrt_ratio (r_sqrt_price run1)) (\<lambda>t. ok (run1\<lparr> r_tick := t \<rparr>, False))
             else ok (run1, False))))"

partial_function (option) swap_loop ::
    "TickWindow \<Rightarrow> bool \<Rightarrow> int \<Rightarrow> bool \<Rightarrow> int \<Rightarrow> SwapRun \<Rightarrow> SwapRun res option" where
  "swap_loop window zfo limit exact_in fee_pips run =
     (if r_remaining run \<noteq> 0 \<and> r_sqrt_price run \<noteq> limit then
        (case swap_iteration window zfo limit exact_in fee_pips run of
           Inl e \<Rightarrow> Some (Inl e)
         | Inr next_run \<Rightarrow>
             if snd next_run then Some (Inr (fst next_run))
             else swap_loop window zfo limit exact_in fee_pips (fst next_run))
      else Some (Inr run))"

definition initial_run :: "PoolState \<Rightarrow> int \<Rightarrow> SwapRun" where
  "initial_run state amount_specified =
     \<lparr> r_remaining = amount_specified, r_amount_in_total = 0, r_amount_out = 0, r_fee_paid = 0,
       r_sqrt_price = ps_sqrt_price_x96 state, r_tick = ps_tick state,
       r_liquidity = ps_liquidity state, r_ticks_crossed = 0, r_limit_reason = None \<rparr>"

definition swap_quote_of :: "PoolState \<Rightarrow> TickWindow \<Rightarrow> bool \<Rightarrow> int \<Rightarrow> SwapRun \<Rightarrow> SwapQuote" where
  "swap_quote_of state window zfo amount_specified run =
     (let exact_in = amount_specified > 0;
          reason = (if r_limit_reason run = None \<and> r_remaining run \<noteq> 0 then Some price_limit
                    else r_limit_reason run)
      in \<lparr> q_zero_for_one = zfo,
           q_amount_in = (if exact_in then amount_specified else r_amount_in_total run),
           q_amount_in_consumed = (if exact_in then amount_specified - r_remaining run
                                   else r_amount_in_total run),
           q_amount_out = r_amount_out run,
           q_fee_paid = r_fee_paid run,
           q_sqrt_price_before_x96 = ps_sqrt_price_x96 state,
           q_sqrt_price_after_x96 = r_sqrt_price run,
           q_tick_after = r_tick run,
           q_ticks_crossed = r_ticks_crossed run,
           q_limit_reason = reason,
           q_block_number = ps_block_number state,
           q_exact = (tw_block_number window = ps_block_number state),
           q_liquidity_after = Some (r_liquidity run) \<rparr>)"

definition swap_limit :: "bool \<Rightarrow> int option \<Rightarrow> int" where
  "swap_limit zfo limit =
     (case limit of None \<Rightarrow> if zfo then MIN_SQRT_RATIO + 1 else MAX_SQRT_RATIO - 1 | Some l \<Rightarrow> l)"

definition simulate_swap ::
    "PoolState \<Rightarrow> TickWindow \<Rightarrow> bool \<Rightarrow> int \<Rightarrow> int option \<Rightarrow> SwapQuote res" where
  "simulate_swap state window zfo amount_specified sqrt_price_limit_x96 =
     (let limit = swap_limit zfo sqrt_price_limit_x96 in
      if zfo \<and> \<not> (MIN_SQRT_RATIO < limit \<and> limit < ps_sqrt_price_x96 state) then raise_error ValueError
      else if \<not> zfo \<and> \<not> (ps_sqrt_price_x96 state < limit \<and> limit < MAX_SQRT_RATIO)
      then raise_error ValueError
      else
        (case swap_loop window zfo limit (amount_specified > 0) (ps_fee_pips state)
                (initial_run state amount_specified) of
           None \<Rightarrow> raise_error Diverges
         | Some result \<Rightarrow>
             rbind result (\<lambda>run. ok (swap_quote_of state window zfo amount_specified run))))"

definition simulate_exact_input ::
    "PoolState \<Rightarrow> TickWindow \<Rightarrow> bool \<Rightarrow> int \<Rightarrow> int option \<Rightarrow> SwapQuote res" where
  "simulate_exact_input state window zfo amt_in sqrt_price_limit_x96 =
     (if amt_in \<le> 0 then raise_error ValueError
      else simulate_swap state window zfo amt_in sqrt_price_limit_x96)"

definition simulate_exact_output ::
    "PoolState \<Rightarrow> TickWindow \<Rightarrow> bool \<Rightarrow> int \<Rightarrow> int option \<Rightarrow> SwapQuote res" where
  "simulate_exact_output state window zfo amt_out sqrt_price_limit_x96 =
     (if amt_out \<le> 0 then raise_error ValueError
      else simulate_swap state window zfo (- amt_out) sqrt_price_limit_x96)"

section \<open>What the loop keeps\<close>

text \<open>
  \<open>run_inv\<close> is the loop invariant: the tick and the price agree, the price has not passed the limit,
  and the amounts add up to the amount specified. \<open>liquidity_room\<close> is the part only exact output needs: the
  liquidity stays below \<open>2 ^ 128\<close> whatever ticks ahead are still to be crossed, as on chain.
\<close>

definition ahead_of :: "bool \<Rightarrow> int \<Rightarrow> int \<Rightarrow> bool" where
  "ahead_of zfo p q \<longleftrightarrow> (if zfo then q \<le> p else p \<le> q)"

definition tick_matches :: "int \<Rightarrow> int \<Rightarrow> bool" where
  "tick_matches t p \<longleftrightarrow> MIN_TICK \<le> t \<and> t < MAX_TICK \<and> sqrt_ratio t \<le> p \<and> p \<le> sqrt_ratio (t + 1)"

definition run_inv :: "bool \<Rightarrow> int \<Rightarrow> int \<Rightarrow> int \<Rightarrow> SwapRun \<Rightarrow> bool" where
  "run_inv zfo limit start amount run \<longleftrightarrow>
     tick_matches (r_tick run) (r_sqrt_price run)
     \<and> ahead_of zfo start (r_sqrt_price run) \<and> ahead_of zfo (r_sqrt_price run) limit
     \<and> 0 \<le> r_liquidity run \<and> 0 \<le> r_amount_out run
     \<and> 0 \<le> r_fee_paid run \<and> r_fee_paid run \<le> r_amount_in_total run
     \<and> (if 0 < amount then 0 \<le> r_remaining run \<and> r_remaining run + r_amount_in_total run = amount
        else r_remaining run \<le> 0 \<and> r_amount_out run - r_remaining run = - amount)"

definition ticks_to_cross :: "bool \<Rightarrow> int \<Rightarrow> (int, TickInfo) dict \<Rightarrow> int" where
  "ticks_to_cross zfo t ticks =
     sum_list (map (\<lambda>(k, info). if (if zfo then k \<le> t else t < k) then \<bar>liquidity_net info\<bar> else 0) ticks)"

definition liquidity_room :: "TickWindow \<Rightarrow> bool \<Rightarrow> int \<Rightarrow> SwapRun \<Rightarrow> bool" where
  "liquidity_room window zfo amount run \<longleftrightarrow>
     0 < amount \<or> r_liquidity run + ticks_to_cross zfo (r_tick run) (tw_ticks window) \<le> MAX_UINT128"

definition limit_valid :: "int \<Rightarrow> bool" where
  "limit_valid limit \<longleftrightarrow> MIN_SQRT_RATIO < limit \<and> limit < MAX_SQRT_RATIO"

definition distance_left :: "bool \<Rightarrow> SwapRun \<Rightarrow> nat" where
  "distance_left zfo run = nat (if zfo then r_tick run + 1 - MIN_TICK else MAX_TICK - r_tick run)"

lemma ticks_to_cross_nonneg: "0 \<le> ticks_to_cross zfo t ticks"
  by (auto simp: ticks_to_cross_def intro!: sum_list_nonneg)

lemma ticks_to_cross_mono:
  "(if zfo then t' \<le> t else t \<le> t') \<Longrightarrow> ticks_to_cross zfo t' ticks \<le> ticks_to_cross zfo t ticks"
  by (induction ticks) (auto simp: ticks_to_cross_def split: if_splits)

lemma ticks_to_cross_cross:
  assumes "(k, info) \<in> set ticks" and "if zfo then k \<le> t \<and> t' < k else t < k \<and> k \<le> t'"
  shows "ticks_to_cross zfo t' ticks + \<bar>liquidity_net info\<bar> \<le> ticks_to_cross zfo t ticks"
  using assms(1)
proof (induction ticks)
  case (Cons x xs)
  obtain j i where x: "x = (j, i)" by (cases x)
  have mono: "ticks_to_cross zfo t' xs \<le> ticks_to_cross zfo t xs"
    using assms(2) by (intro ticks_to_cross_mono) (auto split: if_splits)
  have unf: "ticks_to_cross zfo u ((j, i) # xs)
      = (if (if zfo then j \<le> u else u < j) then \<bar>liquidity_net i\<bar> else 0) + ticks_to_cross zfo u xs" for u
    by (simp add: ticks_to_cross_def x)
  show ?case
  proof (cases "(k, info) = x")
    case True
    then show ?thesis using mono assms(2) unfolding x unf by (auto split: if_splits)
  next
    case False
    then have "ticks_to_cross zfo t' xs + \<bar>liquidity_net info\<bar> \<le> ticks_to_cross zfo t xs"
      using Cons by auto
    then show ?thesis using assms(2) unfolding x unf by (auto split: if_splits)
  qed
qed simp

lemma next_tick_direction:
  assumes "next_initialized_tick_within_one_word w t zfo = Inr (found, is_init)" and "0 < tick_spacing w"
  shows "if zfo then found \<le> t else t < found"
proof -
  let ?s = "tick_spacing w"
  obtain nc where nc: "found = nc * ?s"
      "if zfo then nc \<le> search_start w t zfo else search_start w t zfo \<le> nc"
    using next_tick_exact [OF refl, of w t zfo] assms by (auto split: if_splits)
  show ?thesis
  proof (cases zfo)
    case True
    then have "nc * ?s \<le> (t div ?s) * ?s"
      using nc(2) assms(2) by (auto simp: search_start_def Let_def intro: mult_right_mono)
    also have "\<dots> \<le> t" using assms(2) by (rule floor_mult_le)
    finally show ?thesis using nc(1) True by simp
  next
    case False
    have "t < (t div ?s + 1) * ?s" using assms(2) by (rule floor_mult_gt)
    also have "\<dots> \<le> nc * ?s"
      using nc(2) assms(2) False by (auto simp: search_start_def Let_def intro: mult_right_mono)
    finally show ?thesis using nc(1) False by simp
  qed
qed

lemma next_tick_error:
  assumes "next_initialized_tick_within_one_word w t zfo = Inl e" and "tick_spacing w \<noteq> 0"
  shows "e = WindowExhausted"
  using next_tick_exact [OF refl, of w t zfo] assms by (auto split: if_splits)

section \<open>One pass of the loop\<close>

text \<open>The target of a step lies between the current price and the limit.\<close>

lemma step_target:
  assumes "tick_matches t p" and "ahead_of zfo p limit" and "limit_valid limit"
    and "if zfo then tick_next \<le> t else t < tick_next" and "MIN_TICK \<le> tick_next" "tick_next \<le> MAX_TICK"
  defines "target \<equiv> (if zfo then max (sqrt_ratio tick_next) limit else min (sqrt_ratio tick_next) limit)"
  shows "ahead_of zfo p target" and "ahead_of zfo target limit" and "valid_price p" and "valid_price target"
proof -
  have t: "MIN_TICK \<le> t" "t < MAX_TICK" "sqrt_ratio t \<le> p" "p \<le> sqrt_ratio (t + 1)"
    using assms(1) by (auto simp: tick_matches_def)
  have range: "MIN_SQRT_RATIO \<le> sqrt_ratio u \<and> sqrt_ratio u \<le> MAX_SQRT_RATIO" if "MIN_TICK \<le> u" "u \<le> MAX_TICK" for u
    using that by (rule sqrt_ratio_range)
  have "if zfo then sqrt_ratio tick_next \<le> sqrt_ratio t else sqrt_ratio (t + 1) \<le> sqrt_ratio tick_next"
    using assms(4-6) t ticks.mono [of tick_next t] ticks.mono [of "t + 1" tick_next] by (auto split: if_splits)
  with t show "ahead_of zfo p target" "ahead_of zfo target limit"
    using assms(2) by (auto simp: ahead_of_def target_def split: if_splits)
  have "MIN_SQRT_RATIO \<le> p" "p \<le> MAX_SQRT_RATIO"
    using t range [of t] range [of "t + 1"] by auto
  then show "valid_price p" by (simp add: valid_price_def pool_constants)
  have "MIN_SQRT_RATIO \<le> target" "target \<le> MAX_SQRT_RATIO"
    using range [of tick_next] assms(3,5,6) by (auto simp: target_def limit_valid_def)
  then show "valid_price target" by (simp add: valid_price_def pool_constants)
qed

lemma toward_ahead:
  assumes "toward p target n" and "ahead_of zfo p target"
  shows "ahead_of zfo p n \<and> ahead_of zfo n target"
  using assms by (auto simp: toward_def ahead_of_def split: if_splits)

lemma ahead_of_trans: "ahead_of zfo p q \<Longrightarrow> ahead_of zfo q r \<Longrightarrow> ahead_of zfo p r"
  by (auto simp: ahead_of_def split: if_splits)

text \<open>The tick after a step that reached the next tick, and after one that stopped in between.\<close>

lemma tick_matches_crossed:
  assumes "ahead_of zfo (sqrt_ratio tick_next) limit" and "limit_valid limit"
    and "MIN_TICK \<le> tick_next" "tick_next \<le> MAX_TICK"
  shows "tick_matches (if zfo then tick_next - 1 else tick_next) (sqrt_ratio tick_next)"
proof (cases zfo)
  case True
  then have "tick_next \<noteq> MIN_TICK"
    using assms(1,2) by (auto simp: ahead_of_def limit_valid_def sqrt_ratio_bounds)
  then show ?thesis
    using True assms(3,4) ticks.step [of "tick_next - 1"] by (simp add: tick_matches_def)
next
  case False
  then have "tick_next \<noteq> MAX_TICK"
    using assms(1,2) by (auto simp: ahead_of_def limit_valid_def sqrt_ratio_bounds)
  then show ?thesis
    using False assms(3,4) ticks.step [of tick_next] by (simp add: tick_matches_def)
qed

lemma tick_matches_between:
  assumes "tick_matches t p" and "ahead_of zfo p n" and "ahead_of zfo n limit" and "limit_valid limit"
    and "n \<noteq> p"
  shows "\<exists>t'. get_tick_at_sqrt_ratio n = Inr t' \<and> tick_matches t' n"
proof -
  have t: "MIN_TICK \<le> t" "t < MAX_TICK" "sqrt_ratio t \<le> p" "p \<le> sqrt_ratio (t + 1)"
    using assms(1) by (auto simp: tick_matches_def)
  then have "MIN_SQRT_RATIO \<le> p" "p \<le> MAX_SQRT_RATIO"
    using sqrt_ratio_range [of t] sqrt_ratio_range [of "t + 1"] by auto
  then have "MIN_SQRT_RATIO \<le> n" "n < MAX_SQRT_RATIO"
    using assms(2-5) by (auto simp: ahead_of_def limit_valid_def split: if_splits)
  then obtain t' where "get_tick_at_sqrt_ratio n = Inr t'" "MIN_TICK \<le> t'" "t' < MAX_TICK"
      "sqrt_ratio t' \<le> n" "n < sqrt_ratio (t' + 1)"
    using get_tick_at_sqrt_ratio_Inr by blast
  then show ?thesis by (auto simp: tick_matches_def)
qed

text \<open>The run after the amounts of a step have been booked, before the tick is updated.\<close>

definition book_step :: "bool \<Rightarrow> SwapStep \<Rightarrow> SwapRun \<Rightarrow> SwapRun" where
  "book_step exact_in step run =
     run\<lparr> r_sqrt_price := sqrt_price_next_x96 step,
          r_remaining := (if exact_in then r_remaining run - (amount_in step + fee_amount step)
                          else r_remaining run + amount_out step),
          r_amount_in_total := r_amount_in_total run + (amount_in step + fee_amount step),
          r_amount_out := r_amount_out run + amount_out step,
          r_fee_paid := r_fee_paid run + fee_amount step \<rparr>"

lemma book_step_inv:
  assumes inv: "run_inv zfo limit start amount run"
    and step: "0 \<le> amount_in s" "0 \<le> amount_out s" "0 \<le> fee_amount s"
      "0 \<le> r_remaining run \<Longrightarrow> amount_in s + fee_amount s \<le> r_remaining run"
      "r_remaining run < 0 \<Longrightarrow> amount_out s \<le> - r_remaining run"
    and rem: "r_remaining run \<noteq> 0"
    and price: "ahead_of zfo (r_sqrt_price run) (sqrt_price_next_x96 s)" "ahead_of zfo (sqrt_price_next_x96 s) limit"
    and t: "tick_matches t (sqrt_price_next_x96 s)" and l: "0 \<le> l"
  shows "run_inv zfo limit start amount (book_step (0 < amount) s run\<lparr> r_tick := t, r_liquidity := l,
      r_ticks_crossed := c, r_limit_reason := reason \<rparr>)"
proof -
  have "ahead_of zfo start (sqrt_price_next_x96 s)"
    using inv price by (auto simp: run_inv_def intro: ahead_of_trans)
  then show ?thesis
    using inv step rem price t l by (auto simp: run_inv_def book_step_def)
qed

text \<open>What one pass of the body promises about its result.\<close>

definition iteration_promise ::
    "TickWindow \<Rightarrow> bool \<Rightarrow> int \<Rightarrow> int \<Rightarrow> int \<Rightarrow> SwapRun \<Rightarrow> (SwapRun \<times> bool) res \<Rightarrow> bool" where
  "iteration_promise window zfo limit start amount run result \<longleftrightarrow>
     result = Inl ArithmeticError \<or>
     (\<exists>next_run stop. result = Inr (next_run, stop) \<and> run_inv zfo limit start amount next_run
        \<and> r_limit_reason next_run = (if stop then Some window_exhausted else None)
        \<and> (\<not> stop \<and> r_remaining next_run \<noteq> 0 \<and> r_sqrt_price next_run \<noteq> limit \<longrightarrow>
             liquidity_room window zfo amount next_run \<and> distance_left zfo next_run < distance_left zfo run))"

lemma iteration_promiseI:
  assumes "run_inv zfo limit start amount next_run"
    and "r_limit_reason next_run = (if stop then Some window_exhausted else None)"
    and "\<not> stop \<Longrightarrow> r_remaining next_run \<noteq> 0 \<Longrightarrow> r_sqrt_price next_run \<noteq> limit \<Longrightarrow>
       liquidity_room window zfo amount next_run \<and> distance_left zfo next_run < distance_left zfo run"
  shows "iteration_promise window zfo limit start amount run (Inr (next_run, stop))"
  using assms unfolding iteration_promise_def by blast

lemma book_step_fields [simp]:
  "r_sqrt_price (book_step e s run) = sqrt_price_next_x96 s" "r_tick (book_step e s run) = r_tick run"
  "r_liquidity (book_step e s run) = r_liquidity run" "r_limit_reason (book_step e s run) = r_limit_reason run"
  "r_ticks_crossed (book_step e s run) = r_ticks_crossed run"
  by (simp_all add: book_step_def)

lemma cross_tick_promise:
  assumes room: "liquidity_room window zfo amount run"
    and reason: "r_limit_reason run = None" and t: "MIN_TICK \<le> r_tick run" "r_tick run < MAX_TICK"
    and next_tick: "if zfo then tick_next \<le> r_tick run else r_tick run < tick_next"
      "MIN_TICK \<le> tick_next" "tick_next \<le> MAX_TICK"
    and inv: "\<And>l c reason. 0 \<le> l \<Longrightarrow> run_inv zfo limit start amount
      (run1\<lparr> r_tick := (if zfo then tick_next - 1 else tick_next), r_liquidity := l,
             r_ticks_crossed := c, r_limit_reason := reason \<rparr>)"
    and run1: "r_tick run1 = r_tick run" "r_liquidity run1 = r_liquidity run" "r_limit_reason run1 = None"
      "0 \<le> r_liquidity run"
  shows "iteration_promise window zfo limit start amount run (cross_tick window zfo tick_next is_init run1)"
proof -
  let ?t = "if zfo then tick_next - 1 else tick_next"
  have dist: "distance_left zfo r < distance_left zfo run" if "r_tick r = ?t" for r :: SwapRun
    using that t next_tick by (auto simp: distance_left_def)
  have mono: "ticks_to_cross zfo ?t (tw_ticks window) \<le> ticks_to_cross zfo (r_tick run) (tw_ticks window)"
    using next_tick by (intro ticks_to_cross_mono) auto
  have upd: "run1\<lparr>r_tick := ?t, r_limit_reason := reason\<rparr>
      = run1\<lparr>r_tick := ?t, r_liquidity := r_liquidity run, r_ticks_crossed := r_ticks_crossed run1, r_limit_reason := reason\<rparr>"
    "run1\<lparr>r_tick := ?t\<rparr>
      = run1\<lparr>r_tick := ?t, r_liquidity := r_liquidity run, r_ticks_crossed := r_ticks_crossed run1, r_limit_reason := None\<rparr>"
    "run1\<lparr>r_tick := ?t, r_liquidity := l, r_ticks_crossed := c\<rparr>
      = run1\<lparr>r_tick := ?t, r_liquidity := l, r_ticks_crossed := c, r_limit_reason := None\<rparr>" for reason l c
    using run1 by simp_all
  show ?thesis
  proof (cases is_init)
    case False
    have "iteration_promise window zfo limit start amount run (Inr (run1\<lparr>r_tick := ?t\<rparr>, False))"
    proof (rule iteration_promiseI)
      show "run_inv zfo limit start amount (run1\<lparr>r_tick := ?t\<rparr>)" by (subst upd(2)) (rule inv, rule run1)
      show "liquidity_room window zfo amount (run1\<lparr>r_tick := ?t\<rparr>)
          \<and> distance_left zfo (run1\<lparr>r_tick := ?t\<rparr>) < distance_left zfo run"
        using room mono run1 dist by (auto simp: liquidity_room_def)
    qed (simp add: run1)
    then show ?thesis by (simp add: cross_tick_def False Let_def)
  next
    case True
    show ?thesis
    proof (cases "dict_get (tw_ticks window) tick_next")
      case None
      have "iteration_promise window zfo limit start amount run
          (Inr (run1\<lparr>r_tick := ?t, r_limit_reason := Some window_exhausted\<rparr>, True))"
      proof (rule iteration_promiseI)
        show "run_inv zfo limit start amount (run1\<lparr>r_tick := ?t, r_limit_reason := Some window_exhausted\<rparr>)"
          by (subst upd(1)) (rule inv, rule run1)
      qed simp_all
      then show ?thesis by (simp add: cross_tick_def True None window_liquidity_net_def Let_def)
    next
      case (Some info)
      let ?l = "r_liquidity run1 + (if zfo then - liquidity_net info else liquidity_net info)"
      have mem: "(tick_next, info) \<in> set (tw_ticks window)"
        using Some by (rule map_of_SomeD)
      have "ticks_to_cross zfo ?t (tw_ticks window) + \<bar>liquidity_net info\<bar> \<le> ticks_to_cross zfo (r_tick run) (tw_ticks window)"
        using next_tick by (intro ticks_to_cross_cross [OF mem]) auto
      then have room': "0 < amount \<or> ?l + ticks_to_cross zfo ?t (tw_ticks window) \<le> MAX_UINT128"
        using room run1(2) by (auto simp: liquidity_room_def)
      let ?run = "run1\<lparr>r_tick := ?t, r_liquidity := ?l, r_ticks_crossed := r_ticks_crossed run1 + 1\<rparr>"
      have ok: "iteration_promise window zfo limit start amount run (Inr (?run, False))" if "0 \<le> ?l"
      proof (rule iteration_promiseI)
        show "run_inv zfo limit start amount ?run" by (subst upd(3)) (rule inv, rule that)
        show "liquidity_room window zfo amount ?run \<and> distance_left zfo ?run < distance_left zfo run"
          using room' dist by (simp add: liquidity_room_def)
      qed (simp add: run1)
      have "cross_tick window zfo tick_next is_init run1
          = (if ?l < 0 then Inl ArithmeticError else Inr (?run, False))"
        by (simp add: cross_tick_def True Some window_liquidity_net_def Let_def)
      then show ?thesis using ok by (auto simp: iteration_promise_def not_less)
    qed
  qed
qed

lemma swap_iteration_promise:
  assumes inv: "run_inv zfo limit start amount run" and reason: "r_limit_reason run = None"
    and room: "liquidity_room window zfo amount run" and limit: "limit_valid limit"
    and spacing: "0 < tick_spacing window" and fee: "0 \<le> fee" "fee < FEE_PIPS_DENOMINATOR"
    and rem: "r_remaining run \<noteq> 0" and price: "r_sqrt_price run \<noteq> limit"
  shows "iteration_promise window zfo limit start amount run
    (swap_iteration window zfo limit (0 < amount) fee run)"
proof (cases "next_initialized_tick_within_one_word window (r_tick run) zfo")
  case (Inl e)
  then have "e = WindowExhausted" using spacing by (intro next_tick_error) auto
  moreover have "run_inv zfo limit start amount (run\<lparr>r_limit_reason := Some window_exhausted\<rparr>)"
    using inv by (simp add: run_inv_def)
  ultimately show ?thesis
    by (auto simp: swap_iteration_def Inl intro!: iteration_promiseI)
next
  case (Inr a)
  then obtain found is_init where next_tick: "next_initialized_tick_within_one_word window (r_tick run) zfo = Inr (found, is_init)"
    by (cases a) auto
  have t: "MIN_TICK \<le> r_tick run" "r_tick run < MAX_TICK"
    and tm: "tick_matches (r_tick run) (r_sqrt_price run)" and l: "0 \<le> r_liquidity run"
    and ahead: "ahead_of zfo (r_sqrt_price run) limit"
    using inv by (auto simp: run_inv_def tick_matches_def)
  define tick_next where "tick_next = max MIN_TICK (min MAX_TICK found)"
  have tn: "if zfo then tick_next \<le> r_tick run else r_tick run < tick_next" "MIN_TICK \<le> tick_next" "tick_next \<le> MAX_TICK"
    using next_tick_direction [OF next_tick spacing] t by (auto simp: tick_next_def split: if_splits)
  let ?target = "if zfo then max (sqrt_ratio tick_next) limit else min (sqrt_ratio tick_next) limit"
  note target = step_target [OF tm ahead limit tn]
  have l_max: "r_remaining run < 0 \<Longrightarrow> r_liquidity run \<le> MAX_UINT128"
    using room inv ticks_to_cross_nonneg [of zfo "r_tick run" "tw_ticks window"]
    by (auto simp: liquidity_room_def run_inv_def split: if_splits)
  obtain s where step: "compute_swap_step (r_sqrt_price run) ?target (r_liquidity run) (r_remaining run) fee = Inr s"
    and toward: "toward (r_sqrt_price run) ?target (sqrt_price_next_x96 s)"
    and amounts: "0 \<le> amount_in s" "0 \<le> amount_out s" "0 \<le> fee_amount s"
    and paid: "0 \<le> r_remaining run \<Longrightarrow> amount_in s + fee_amount s \<le> r_remaining run
        \<and> (sqrt_price_next_x96 s \<noteq> ?target \<longrightarrow> amount_in s + fee_amount s = r_remaining run)"
    and got: "r_remaining run < 0 \<Longrightarrow> amount_out s \<le> - r_remaining run
        \<and> (sqrt_price_next_x96 s \<noteq> ?target \<longrightarrow> amount_out s = - r_remaining run)"
    using compute_swap_step_promise [OF target(3,4) l l_max fee] by blast
  have n: "ahead_of zfo (r_sqrt_price run) (sqrt_price_next_x96 s)" "ahead_of zfo (sqrt_price_next_x96 s) limit"
    using toward_ahead [OF toward target(1)] ahead_of_trans [OF _ target(2)] by blast+
  let ?run1 = "book_step (0 < amount) s run"
  have inv1: "run_inv zfo limit start amount
      (?run1\<lparr> r_tick := t', r_liquidity := l', r_ticks_crossed := c', r_limit_reason := reason' \<rparr>)"
    if "tick_matches t' (sqrt_price_next_x96 s)" "0 \<le> l'" for t' l' c' reason'
    using paid got by (intro book_step_inv [OF inv amounts _ _ rem n that]) auto
  have finished: "r_remaining ?run1 = 0" if "sqrt_price_next_x96 s \<noteq> ?target"
  proof (cases "0 < amount")
    case True
    then have "0 \<le> r_remaining run" using inv by (simp add: run_inv_def)
    then show ?thesis using paid that True by (simp add: book_step_def)
  next
    case False
    then have "r_remaining run < 0" using inv rem by (simp add: run_inv_def)
    then show ?thesis using got that False by (simp add: book_step_def)
  qed
  have unf: "swap_iteration window zfo limit (0 < amount) fee run
      = (if sqrt_price_next_x96 s = sqrt_ratio tick_next then cross_tick window zfo tick_next is_init ?run1
         else if sqrt_price_next_x96 s \<noteq> r_sqrt_price run then
           rbind (get_tick_at_sqrt_ratio (sqrt_price_next_x96 s)) (\<lambda>t. ok (?run1\<lparr> r_tick := t \<rparr>, False))
         else ok (?run1, False))"
    using step by (simp add: swap_iteration_def next_tick tick_next_def [symmetric] ticks.lookup [OF tn(2,3)]
        book_step_def Let_def split del: if_split cong: if_cong)
  show ?thesis
  proof (cases "sqrt_price_next_x96 s = sqrt_ratio tick_next")
    case True
    have "tick_matches (if zfo then tick_next - 1 else tick_next) (sqrt_price_next_x96 s)"
      unfolding True using n(2) True by (intro tick_matches_crossed [OF _ limit tn(2,3)]) simp
    then show ?thesis
      unfolding unf using True inv1 reason l
      by (auto intro!: cross_tick_promise [OF room reason t tn])
  next
    case False
    have stuck: "r_remaining ?run1 = 0 \<or> sqrt_price_next_x96 s = limit"
    proof (cases "sqrt_price_next_x96 s = ?target")
      case True
      with False have "sqrt_price_next_x96 s = limit" by (auto simp: max_def min_def split: if_splits)
      then show ?thesis ..
    qed (simp add: finished)
    show ?thesis
    proof (cases "sqrt_price_next_x96 s = r_sqrt_price run")
      case True
      have "run_inv zfo limit start amount (?run1\<lparr> r_tick := r_tick run, r_liquidity := r_liquidity run,
          r_ticks_crossed := r_ticks_crossed run, r_limit_reason := None \<rparr>)"
        using inv1 tm l True by simp
      then have "run_inv zfo limit start amount ?run1"
        using reason by (cases "0 < amount") (simp_all add: run_inv_def)
      then show ?thesis
        unfolding unf using False True reason stuck by (auto intro!: iteration_promiseI)
    next
      case moved: False
      then obtain t' where t': "get_tick_at_sqrt_ratio (sqrt_price_next_x96 s) = Inr t'"
          "tick_matches t' (sqrt_price_next_x96 s)"
        using tick_matches_between [OF tm n limit moved] by blast
      have "run_inv zfo limit start amount (?run1\<lparr> r_tick := t', r_liquidity := r_liquidity run,
          r_ticks_crossed := r_ticks_crossed run, r_limit_reason := None \<rparr>)"
        using inv1 t' l by simp
      then have "run_inv zfo limit start amount (?run1\<lparr> r_tick := t' \<rparr>)"
        using reason by (cases "0 < amount") (simp_all add: run_inv_def)
      then show ?thesis
        unfolding unf using False moved t' reason stuck by (auto intro!: iteration_promiseI)
    qed
  qed
qed

section \<open>The whole swap\<close>

definition run_finished :: "bool \<Rightarrow> int \<Rightarrow> int \<Rightarrow> int \<Rightarrow> SwapRun \<Rightarrow> bool" where
  "run_finished zfo limit start amount run \<longleftrightarrow>
     run_inv zfo limit start amount run
     \<and> r_limit_reason run \<in> {None, Some window_exhausted}
     \<and> (r_limit_reason run = None \<longrightarrow> r_remaining run = 0 \<or> r_sqrt_price run = limit)"

text \<open>Each pass that goes on moves the tick, so the loop ends after at most \<open>distance_left\<close> passes.\<close>

lemma swap_loop_ends:
  assumes "run_inv zfo limit start amount run" and "r_limit_reason run = None"
    and "liquidity_room window zfo amount run" and "limit_valid limit"
    and "0 < tick_spacing window" and "0 \<le> fee" "fee < FEE_PIPS_DENOMINATOR"
  shows "swap_loop window zfo limit (0 < amount) fee run = Some (Inl ArithmeticError)
    \<or> (\<exists>last_run. swap_loop window zfo limit (0 < amount) fee run = Some (Inr last_run)
        \<and> run_finished zfo limit start amount last_run)"
  using assms
proof (induction "distance_left zfo run" arbitrary: run rule: less_induct)
  case less
  show ?case
  proof (cases "r_remaining run \<noteq> 0 \<and> r_sqrt_price run \<noteq> limit")
    case False
    then show ?thesis
      using less.prems(1,2) by (subst (1 2) swap_loop.simps) (auto simp: run_finished_def)
  next
    case True
    have promise: "iteration_promise window zfo limit start amount run
        (swap_iteration window zfo limit (0 < amount) fee run)"
      using less.prems True by (intro swap_iteration_promise) auto
    consider (error) "swap_iteration window zfo limit (0 < amount) fee run = Inl ArithmeticError"
      | (stopped) last_run where "swap_iteration window zfo limit (0 < amount) fee run = Inr (last_run, True)"
          "run_inv zfo limit start amount last_run" "r_limit_reason last_run = Some window_exhausted"
      | (next_pass) next_run where "swap_iteration window zfo limit (0 < amount) fee run = Inr (next_run, False)"
          "run_inv zfo limit start amount next_run" "r_limit_reason next_run = None"
          "r_remaining next_run \<noteq> 0 \<and> r_sqrt_price next_run \<noteq> limit \<longrightarrow>
             liquidity_room window zfo amount next_run \<and> distance_left zfo next_run < distance_left zfo run"
    proof (cases "swap_iteration window zfo limit (0 < amount) fee run = Inl ArithmeticError")
      case False
      with promise obtain next_run stop where
          "swap_iteration window zfo limit (0 < amount) fee run = Inr (next_run, stop)"
          "run_inv zfo limit start amount next_run"
          "r_limit_reason next_run = (if stop then Some window_exhausted else None)"
          "\<not> stop \<and> r_remaining next_run \<noteq> 0 \<and> r_sqrt_price next_run \<noteq> limit \<longrightarrow>
             liquidity_room window zfo amount next_run \<and> distance_left zfo next_run < distance_left zfo run"
        unfolding iteration_promise_def by blast
      then show ?thesis using stopped next_pass by (cases stop) simp_all
    qed
    then show ?thesis
    proof cases
      case error
      then show ?thesis using True by (subst (1 2) swap_loop.simps) simp
    next
      case stopped
      then show ?thesis using True by (subst (1 2) swap_loop.simps) (simp add: run_finished_def)
    next
      case next_pass
      then have unf: "swap_loop window zfo limit (0 < amount) fee run
          = swap_loop window zfo limit (0 < amount) fee next_run"
        using True by (subst swap_loop.simps) simp
      show ?thesis
      proof (cases "r_remaining next_run \<noteq> 0 \<and> r_sqrt_price next_run \<noteq> limit")
        case True
        then show ?thesis unfolding unf using less next_pass by blast
      next
        case False
        then show ?thesis
          unfolding unf using next_pass by (subst (1 2) swap_loop.simps) (auto simp: run_finished_def)
      qed
    qed
  qed
qed

text \<open>A pool whose tick agrees with its price, as \<open>slot0\<close> of a pool does.\<close>

definition coherent_pool :: "PoolState \<Rightarrow> bool" where
  "coherent_pool state \<longleftrightarrow> tick_matches (ps_tick state) (ps_sqrt_price_x96 state)
     \<and> 0 \<le> ps_liquidity state \<and> 0 \<le> ps_fee_pips state \<and> ps_fee_pips state < FEE_PIPS_DENOMINATOR"

definition limit_accepted :: "PoolState \<Rightarrow> bool \<Rightarrow> int option \<Rightarrow> bool" where
  "limit_accepted state zfo price_bound \<longleftrightarrow>
     (let limit = swap_limit zfo price_bound in
      if zfo then MIN_SQRT_RATIO < limit \<and> limit < ps_sqrt_price_x96 state
      else ps_sqrt_price_x96 state < limit \<and> limit < MAX_SQRT_RATIO)"

lemma simulate_swap_rejected:
  "\<not> limit_accepted state zfo price_bound \<Longrightarrow> simulate_swap state window zfo amount price_bound = Inl ValueError"
  by (cases zfo) (simp_all add: simulate_swap_def limit_accepted_def Let_def)

lemma simulate_swap_ends:
  assumes pool: "coherent_pool state" and spacing: "0 < tick_spacing window" and amount: "amount \<noteq> 0"
    and room: "0 < amount \<or> ps_liquidity state + ticks_to_cross zfo (ps_tick state) (tw_ticks window) \<le> MAX_UINT128"
    and acc: "limit_accepted state zfo price_bound"
  shows "simulate_swap state window zfo amount price_bound = Inl ArithmeticError \<or>
      (\<exists>run. simulate_swap state window zfo amount price_bound = Inr (swap_quote_of state window zfo amount run)
         \<and> run_finished zfo (swap_limit zfo price_bound) (ps_sqrt_price_x96 state) amount run)"
proof -
  let ?limit = "swap_limit zfo price_bound" and ?run = "initial_run state amount"
  have tm: "tick_matches (ps_tick state) (ps_sqrt_price_x96 state)" and l: "0 \<le> ps_liquidity state"
    and fee: "0 \<le> ps_fee_pips state" "ps_fee_pips state < FEE_PIPS_DENOMINATOR"
    using pool by (auto simp: coherent_pool_def)
  have t: "MIN_TICK \<le> ps_tick state" "ps_tick state < MAX_TICK" and p:
      "sqrt_ratio (ps_tick state) \<le> ps_sqrt_price_x96 state" "ps_sqrt_price_x96 state \<le> sqrt_ratio (ps_tick state + 1)"
    using tm by (auto simp: tick_matches_def)
  have "MIN_SQRT_RATIO \<le> ps_sqrt_price_x96 state" "ps_sqrt_price_x96 state \<le> MAX_SQRT_RATIO"
    using t p sqrt_ratio_range [of "ps_tick state"] sqrt_ratio_range [of "ps_tick state + 1"] by auto
  then have valid: "limit_valid ?limit" and ahead: "ahead_of zfo (ps_sqrt_price_x96 state) ?limit"
    using acc by (cases zfo; simp add: limit_accepted_def limit_valid_def ahead_of_def Let_def)+
  have inv: "run_inv zfo ?limit (ps_sqrt_price_x96 state) amount ?run"
    using tm l ahead amount by (auto simp: run_inv_def initial_run_def ahead_of_def)
  have "liquidity_room window zfo amount ?run"
    using room by (simp add: liquidity_room_def initial_run_def)
  then consider (error) "swap_loop window zfo ?limit (0 < amount) (ps_fee_pips state) ?run = Some (Inl ArithmeticError)"
    | (finished) run where "swap_loop window zfo ?limit (0 < amount) (ps_fee_pips state) ?run = Some (Inr run)"
        "run_finished zfo ?limit (ps_sqrt_price_x96 state) amount run"
    using swap_loop_ends [OF inv _ _ valid spacing fee] by (auto simp: initial_run_def)
  then show "simulate_swap state window zfo amount price_bound = Inl ArithmeticError \<or>
      (\<exists>run. simulate_swap state window zfo amount price_bound = Inr (swap_quote_of state window zfo amount run)
         \<and> run_finished zfo ?limit (ps_sqrt_price_x96 state) amount run)"
    using acc by cases (auto simp: simulate_swap_def limit_accepted_def Let_def split: if_splits)
qed

text \<open>C1. Exact input: the call ends, fails only as named, and the quote accounts for every unit of input.\<close>

theorem exact_input_swap_correct:
  assumes "coherent_pool state" and "0 < tick_spacing window"
  shows "case simulate_exact_input state window zfo amt price_bound of
      Inl e \<Rightarrow> e = ArithmeticError \<or> e = ValueError \<and> (amt \<le> 0 \<or> \<not> limit_accepted state zfo price_bound)
    | Inr q \<Rightarrow> 0 < amt \<and> limit_accepted state zfo price_bound
        \<and> q_amount_in q = amt \<and> q_amount_in_consumed q \<le> amt
        \<and> 0 \<le> q_fee_paid q \<and> q_fee_paid q \<le> q_amount_in_consumed q \<and> 0 \<le> q_amount_out q
        \<and> ahead_of zfo (ps_sqrt_price_x96 state) (q_sqrt_price_after_x96 q)
        \<and> ahead_of zfo (q_sqrt_price_after_x96 q) (swap_limit zfo price_bound)
        \<and> tick_matches (q_tick_after q) (q_sqrt_price_after_x96 q)
        \<and> (q_limit_reason q = None \<longrightarrow> q_amount_in_consumed q = amt)
        \<and> (q_limit_reason q = Some price_limit \<longrightarrow> q_sqrt_price_after_x96 q = swap_limit zfo price_bound)"
proof (cases "0 < amt \<and> limit_accepted state zfo price_bound")
  case True
  then have "simulate_exact_input state window zfo amt price_bound = simulate_swap state window zfo amt price_bound"
    by (simp add: simulate_exact_input_def)
  moreover have "run_finished zfo (swap_limit zfo price_bound) (ps_sqrt_price_x96 state) amt run \<Longrightarrow>
      simulate_swap state window zfo amt price_bound = Inr (swap_quote_of state window zfo amt run) \<Longrightarrow> ?thesis" for run
    using True calculation by (auto simp: run_finished_def run_inv_def swap_quote_of_def Let_def split: if_splits)
  ultimately show ?thesis
    using simulate_swap_ends [OF assms, of amt zfo price_bound] True by auto
qed (auto simp: simulate_exact_input_def simulate_swap_rejected)

definition example_pool :: PoolState where
  "example_pool = \<lparr> ps_sqrt_price_x96 = 2 ^ 96, ps_tick = 0, ps_liquidity = 10 ^ 18, ps_fee_pips = 3000,
     ps_block_number = 17 \<rparr>"

definition example_tick :: "int \<Rightarrow> int \<Rightarrow> TickInfo" where
  "example_tick tick net = \<lparr> ti_tick = tick, liquidity_gross = \<bar>net\<bar>, liquidity_net = net,
     fee_growth_outside0_x128 = 0, fee_growth_outside1_x128 = 0, initialized = True \<rparr>"

definition example_window :: TickWindow where
  "example_window = \<lparr> tw_block_number = 17, tick_spacing = 60,
     bitmap_words = [(-1, 2 ^ 255), (0, 2)],
     tw_ticks = [(-60, example_tick (-60) (10 ^ 18)), (60, example_tick 60 (- (10 ^ 18)))],
     min_word = -1, max_word = 0 \<rparr>"

lemma sqrt_ratio_zero: "sqrt_ratio 0 = 2 ^ 96"
proof -
  have "get_sqrt_ratio_at_tick 0 = Inr (2 ^ 96)" by code_simp
  then show ?thesis by (simp add: get_sqrt_ratio_at_tick_eq pool_constants)
qed

lemma example_pool_coherent: "coherent_pool example_pool"
  using ticks.step [of 0]
  by (simp add: coherent_pool_def example_pool_def tick_matches_def pool_constants sqrt_ratio_zero)

theorem exact_input_swap_correct_witness:
  "case simulate_exact_input example_pool example_window True (10 ^ 12) None of
      Inl e \<Rightarrow> e = ArithmeticError \<or> e = ValueError \<and> ((10 ^ 12 :: int) \<le> 0 \<or> \<not> limit_accepted example_pool True None)
    | Inr q \<Rightarrow> 0 < (10 ^ 12 :: int) \<and> limit_accepted example_pool True None
        \<and> q_amount_in q = 10 ^ 12 \<and> q_amount_in_consumed q \<le> 10 ^ 12
        \<and> 0 \<le> q_fee_paid q \<and> q_fee_paid q \<le> q_amount_in_consumed q \<and> 0 \<le> q_amount_out q
        \<and> ahead_of True (ps_sqrt_price_x96 example_pool) (q_sqrt_price_after_x96 q)
        \<and> ahead_of True (q_sqrt_price_after_x96 q) (swap_limit True None)
        \<and> tick_matches (q_tick_after q) (q_sqrt_price_after_x96 q)
        \<and> (q_limit_reason q = None \<longrightarrow> q_amount_in_consumed q = 10 ^ 12)
        \<and> (q_limit_reason q = Some price_limit \<longrightarrow> q_sqrt_price_after_x96 q = swap_limit True None)"
  by (rule exact_input_swap_correct) (rule example_pool_coherent, simp add: example_window_def)

text \<open>C2. Exact output: while the liquidity ahead fits \<open>uint128\<close>, as it does on chain, the call never
  delivers more than asked, and delivers less only when it names the limit that stopped it.
\<close>

theorem exact_output_swap_correct:
  assumes "coherent_pool state" and "0 < tick_spacing window"
    and "ps_liquidity state + ticks_to_cross zfo (ps_tick state) (tw_ticks window) \<le> MAX_UINT128"
  shows "case simulate_exact_output state window zfo amt price_bound of
      Inl e \<Rightarrow> e = ArithmeticError \<or> e = ValueError \<and> (amt \<le> 0 \<or> \<not> limit_accepted state zfo price_bound)
    | Inr q \<Rightarrow> 0 < amt \<and> limit_accepted state zfo price_bound
        \<and> 0 \<le> q_amount_out q \<and> q_amount_out q \<le> amt
        \<and> q_amount_in q = q_amount_in_consumed q
        \<and> 0 \<le> q_fee_paid q \<and> q_fee_paid q \<le> q_amount_in_consumed q
        \<and> ahead_of zfo (ps_sqrt_price_x96 state) (q_sqrt_price_after_x96 q)
        \<and> ahead_of zfo (q_sqrt_price_after_x96 q) (swap_limit zfo price_bound)
        \<and> tick_matches (q_tick_after q) (q_sqrt_price_after_x96 q)
        \<and> (q_amount_out q < amt \<longrightarrow> q_limit_reason q \<noteq> None)
        \<and> (q_limit_reason q = Some price_limit \<longrightarrow> q_sqrt_price_after_x96 q = swap_limit zfo price_bound)"
proof (cases "0 < amt \<and> limit_accepted state zfo price_bound")
  case True
  then have "simulate_exact_output state window zfo amt price_bound = simulate_swap state window zfo (- amt) price_bound"
    by (simp add: simulate_exact_output_def)
  moreover have "run_finished zfo (swap_limit zfo price_bound) (ps_sqrt_price_x96 state) (- amt) run \<Longrightarrow>
      simulate_swap state window zfo (- amt) price_bound = Inr (swap_quote_of state window zfo (- amt) run) \<Longrightarrow> ?thesis" for run
    using True calculation by (auto simp: run_finished_def run_inv_def swap_quote_of_def Let_def split: if_splits)
  ultimately show ?thesis
    using simulate_swap_ends [OF assms(1,2), of "- amt" zfo price_bound] assms(3) True by auto
qed (auto simp: simulate_exact_output_def simulate_swap_rejected)

theorem exact_output_swap_correct_witness:
  "case simulate_exact_output example_pool example_window False (10 ^ 12) (Some (2 ^ 97)) of
      Inl e \<Rightarrow> e = ArithmeticError \<or> e = ValueError \<and> ((10 ^ 12 :: int) \<le> 0 \<or> \<not> limit_accepted example_pool False (Some (2 ^ 97)))
    | Inr q \<Rightarrow> 0 < (10 ^ 12 :: int) \<and> limit_accepted example_pool False (Some (2 ^ 97))
        \<and> 0 \<le> q_amount_out q \<and> q_amount_out q \<le> 10 ^ 12
        \<and> q_amount_in q = q_amount_in_consumed q
        \<and> 0 \<le> q_fee_paid q \<and> q_fee_paid q \<le> q_amount_in_consumed q
        \<and> ahead_of False (ps_sqrt_price_x96 example_pool) (q_sqrt_price_after_x96 q)
        \<and> ahead_of False (q_sqrt_price_after_x96 q) (swap_limit False (Some (2 ^ 97)))
        \<and> tick_matches (q_tick_after q) (q_sqrt_price_after_x96 q)
        \<and> (q_amount_out q < 10 ^ 12 \<longrightarrow> q_limit_reason q \<noteq> None)
        \<and> (q_limit_reason q = Some price_limit \<longrightarrow> q_sqrt_price_after_x96 q = swap_limit False (Some (2 ^ 97)))"
  by (rule exact_output_swap_correct)
    (rule example_pool_coherent, simp add: example_window_def,
     simp add: example_window_def example_pool_def example_tick_def ticks_to_cross_def pool_constants)

end
