(* ===== verification/V3_Liquidity.thy ===== *)
theory V3_Liquidity
  imports V3_Sqrt_Price
begin

text \<open>
  \<open>app/market_data/uniswap_v3/liquidity_amounts.py\<close> (liquidity of a position from token amounts and
  back), the integer helpers of \<open>pricing.py\<close> (ticks rounded to the spacing of a pool), and the
  fee growth a position accrues (\<open>fee_growth.py\<close>, whose definitions are in the full-math theory).
\<close>

section \<open>Liquidity and amounts\<close>

definition sorted_prices :: "int \<Rightarrow> int \<Rightarrow> int \<times> int" where
  "sorted_prices a b = (if a \<le> b then (a, b) else (b, a))"

definition get_liquidity_for_amount0 :: "int \<Rightarrow> int \<Rightarrow> int \<Rightarrow> int res" where
  "get_liquidity_for_amount0 sqrt_a sqrt_b amount0 =
     (let (a, b) = sorted_prices sqrt_a sqrt_b in
      rbind (mul_div a b Q96) (\<lambda>intermediate.
      rbind (mul_div amount0 intermediate (b - a)) (\<lambda>l. ok (min l MAX_UINT128))))"

definition get_liquidity_for_amount1 :: "int \<Rightarrow> int \<Rightarrow> int \<Rightarrow> int res" where
  "get_liquidity_for_amount1 sqrt_a sqrt_b amount1 =
     (let (a, b) = sorted_prices sqrt_a sqrt_b in
      rbind (mul_div amount1 Q96 (b - a)) (\<lambda>l. ok (min l MAX_UINT128)))"

definition get_liquidity_for_amounts :: "int \<Rightarrow> int \<Rightarrow> int \<Rightarrow> int \<Rightarrow> int \<Rightarrow> int res" where
  "get_liquidity_for_amounts sqrt_price sqrt_a sqrt_b amount0 amount1 =
     (let (a, b) = sorted_prices sqrt_a sqrt_b in
      if sqrt_price \<le> a then get_liquidity_for_amount0 a b amount0
      else if sqrt_price < b then
        rbind (get_liquidity_for_amount0 sqrt_price b amount0) (\<lambda>l0.
        rbind (get_liquidity_for_amount1 a sqrt_price amount1) (\<lambda>l1. ok (min l0 l1)))
      else get_liquidity_for_amount1 a b amount1)"

definition get_amounts_for_liquidity :: "int \<Rightarrow> int \<Rightarrow> int \<Rightarrow> int \<Rightarrow> bool \<Rightarrow> (int \<times> int) res" where
  "get_amounts_for_liquidity sqrt_price sqrt_a sqrt_b liquidity round_up =
     (let (a, b) = sorted_prices sqrt_a sqrt_b in
      if liquidity \<le> 0 then ok (0, 0)
      else if sqrt_price \<le> a then
        rbind (get_amount0_delta a b liquidity round_up) (\<lambda>x. ok (x, 0))
      else if sqrt_price < b then
        rbind (get_amount0_delta sqrt_price b liquidity round_up) (\<lambda>x.
        rbind (get_amount1_delta a sqrt_price liquidity round_up) (\<lambda>y. ok (x, y)))
      else rbind (get_amount1_delta a b liquidity round_up) (\<lambda>y. ok (0, y)))"

lemma liquidity0_affordable:
  assumes "0 < a" and "a < b" and "0 \<le> x" and "get_liquidity_for_amount0 a b x = Inr l"
  shows "amount0_up a b l \<le> x"
proof -
  have "l \<le> x * (a * b div Q96) div (b - a)"
    using assms by (auto simp: get_liquidity_for_amount0_def sorted_prices_def)
  then have "l * (b - a) \<le> x * (a * b div Q96)"
    using assms(2) by (simp add: floor_le_iff)
  then have "l * (b - a) * Q96 \<le> x * (a * b div Q96) * Q96"
    by (intro mult_right_mono) (simp_all add: less_imp_le)
  also have "\<dots> \<le> x * (a * b)"
    using assms(3) floor_mult_le [of Q96 "a * b"] by (simp add: mult.assoc mult_left_mono)
  finally show ?thesis using assms(1,2) by (simp add: amount0_up_le_iff algebra_simps)
qed

lemma liquidity1_affordable:
  assumes "a < b" and "get_liquidity_for_amount1 a b x = Inr l"
  shows "amount1_up a b l \<le> x"
proof -
  have "l \<le> x * Q96 div (b - a)"
    using assms by (auto simp: get_liquidity_for_amount1_def sorted_prices_def)
  then show ?thesis using assms(1) by (simp add: amount1_up_le_iff floor_le_iff)
qed

lemma amounts_mono_liquidity:
  assumes "0 < a" "a \<le> b" and "l \<le> l'"
  shows "amount0_up a b l \<le> amount0_up a b l'" "amount1_up a b l \<le> amount1_up a b l'"
  using assms less_imp_le [OF Q_pos(1)]
  by (auto simp: amount0_up_def amount1_up_def intro!: ceil_div_mono mult_right_mono)

lemma mint_affordable:
  assumes "0 < sqrt_a" "0 < sqrt_b" "sqrt_a \<noteq> sqrt_b" and "0 \<le> amount0" "0 \<le> amount1"
  shows "\<exists>l x y x' y'. get_liquidity_for_amounts sqrt_price sqrt_a sqrt_b amount0 amount1 = Inr l
    \<and> l \<le> MAX_UINT128
    \<and> get_amounts_for_liquidity sqrt_price sqrt_a sqrt_b l True = Inr (x, y) \<and> x \<le> amount0 \<and> y \<le> amount1
    \<and> get_amounts_for_liquidity sqrt_price sqrt_a sqrt_b l False = Inr (x', y')
    \<and> 0 \<le> x' \<and> x' \<le> x \<and> 0 \<le> y' \<and> y' \<le> y"
proof -
  define a b where ab: "a = min sqrt_a sqrt_b" "b = max sqrt_a sqrt_b"
  have sorted: "sorted_prices sqrt_a sqrt_b = (a, b)" and pos: "0 < a" "a < b"
    using assms by (auto simp: ab sorted_prices_def min_def max_def)
  have ok0: "\<exists>l. get_liquidity_for_amount0 p b amount0 = Inr l \<and> l \<le> MAX_UINT128 \<and> amount0_up p b l \<le> amount0"
    if "0 < p" "p < b" for p
    using that liquidity0_affordable [OF that assms(4)]
    by (auto simp: get_liquidity_for_amount0_def sorted_prices_def)
  have ok1: "\<exists>l. get_liquidity_for_amount1 a p amount1 = Inr l \<and> l \<le> MAX_UINT128 \<and> amount1_up a p l \<le> amount1"
    if "a < p" for p
    using that liquidity1_affordable [OF that]
    by (auto simp: get_liquidity_for_amount1_def sorted_prices_def)
  have sorted': "sorted_prices a b = (a, b)" using pos by (simp add: sorted_prices_def)
  have amounts: "amount0_up p q l \<le> x \<Longrightarrow> amount1_up r t l \<le> y \<Longrightarrow> 0 < l \<Longrightarrow> 0 < p \<Longrightarrow> p \<le> q \<Longrightarrow> 0 < r \<Longrightarrow> r \<le> t \<Longrightarrow>
      0 \<le> amount0_down p q l \<and> amount0_down p q l \<le> amount0_up p q l
      \<and> 0 \<le> amount1_down r t l \<and> amount1_down r t l \<le> amount1_up r t l" for p q r t l x y
    using amount_nonneg [of l p q] amount_nonneg [of l r t] amount_down_le_up [of p q] amount_down_le_up [of r t]
    by simp
  consider (below) "sqrt_price \<le> a" | (inside) "a < sqrt_price" "sqrt_price < b" | (above) "b \<le> sqrt_price" "a < sqrt_price"
    using pos by linarith
  then show ?thesis
  proof cases
    case below
    obtain l where l: "get_liquidity_for_amount0 a b amount0 = Inr l" "l \<le> MAX_UINT128" "amount0_up a b l \<le> amount0"
      using ok0 [of a] pos by auto
    show ?thesis
    proof (cases "l \<le> 0")
      case True
      then show ?thesis using l below assms(4,5)
        by (auto simp: get_liquidity_for_amounts_def get_amounts_for_liquidity_def sorted)
    next
      case False
      then show ?thesis using l below pos assms(5) amounts [of a b l amount0 a a 0]
        by (auto simp: get_liquidity_for_amounts_def get_amounts_for_liquidity_def sorted get_amount0_delta_eq)
    qed
  next
    case inside
    then obtain l0 l1 where l: "get_liquidity_for_amount0 sqrt_price b amount0 = Inr l0" "l0 \<le> MAX_UINT128"
        "amount0_up sqrt_price b l0 \<le> amount0" "get_liquidity_for_amount1 a sqrt_price amount1 = Inr l1"
        "amount1_up a sqrt_price l1 \<le> amount1"
      using ok0 [of sqrt_price] ok1 [of sqrt_price] pos by auto
    define l where "l = min l0 l1"
    have up: "amount0_up sqrt_price b l \<le> amount0" "amount1_up a sqrt_price l \<le> amount1" "l \<le> MAX_UINT128"
      using inside pos l amounts_mono_liquidity [of sqrt_price b l l0]
        amounts_mono_liquidity [of a sqrt_price l l1] by (auto simp: l_def)
    have liq: "get_liquidity_for_amounts sqrt_price sqrt_a sqrt_b amount0 amount1 = Inr l"
      using inside l by (simp add: get_liquidity_for_amounts_def sorted l_def)
    show ?thesis
    proof (cases "l \<le> 0")
      case True
      then show ?thesis using liq up(3) assms(4,5) by (auto simp: get_amounts_for_liquidity_def sorted)
    next
      case False
      then show ?thesis
        using liq up inside pos amounts [OF up(1,2)]
        by (auto simp: get_amounts_for_liquidity_def sorted get_amount0_delta_eq get_amount1_delta_eq)
    qed
  next
    case above
    obtain l where l: "get_liquidity_for_amount1 a b amount1 = Inr l" "l \<le> MAX_UINT128" "amount1_up a b l \<le> amount1"
      using ok1 [of b] pos by auto
    show ?thesis
    proof (cases "l \<le> 0")
      case True
      then show ?thesis using l above pos assms(4,5)
        by (auto simp: get_liquidity_for_amounts_def get_amounts_for_liquidity_def sorted)
    next
      case False
      then show ?thesis using l above pos assms(4) amounts [of a a l 0 a b amount1]
        by (auto simp: get_liquidity_for_amounts_def get_amounts_for_liquidity_def sorted get_amount1_delta_eq)
    qed
  qed
qed

text \<open>C6. Minting never costs more than the amounts the liquidity was computed from, and burning never
  pays out more than minting took: both hold with the pool's own rounding.
\<close>

theorem mint_within_budget:
  assumes "0 < sqrt_a" "0 < sqrt_b" "sqrt_a \<noteq> sqrt_b" and "0 \<le> amount0" "0 \<le> amount1"
  shows "\<exists>l x y x' y'. get_liquidity_for_amounts sqrt_price sqrt_a sqrt_b amount0 amount1 = Inr l
    \<and> l \<le> MAX_UINT128
    \<and> get_amounts_for_liquidity sqrt_price sqrt_a sqrt_b l True = Inr (x, y) \<and> x \<le> amount0 \<and> y \<le> amount1
    \<and> get_amounts_for_liquidity sqrt_price sqrt_a sqrt_b l False = Inr (x', y')
    \<and> 0 \<le> x' \<and> x' \<le> x \<and> 0 \<le> y' \<and> y' \<le> y"
  using mint_affordable [OF assms] .

theorem mint_within_budget_witness:
  "\<exists>l x y x' y'. get_liquidity_for_amounts (2 ^ 96) (2 ^ 97) (2 ^ 95) 1000000 2000000 = Inr l
    \<and> l \<le> MAX_UINT128
    \<and> get_amounts_for_liquidity (2 ^ 96) (2 ^ 97) (2 ^ 95) l True = Inr (x, y) \<and> x \<le> 1000000 \<and> y \<le> 2000000
    \<and> get_amounts_for_liquidity (2 ^ 96) (2 ^ 97) (2 ^ 95) l False = Inr (x', y')
    \<and> 0 \<le> x' \<and> x' \<le> x \<and> 0 \<le> y' \<and> y' \<le> y"
  by (rule mint_within_budget) simp_all

section \<open>Ticks on the spacing of a pool\<close>

definition floor_to_spacing :: "int \<Rightarrow> int \<Rightarrow> int res" where
  "floor_to_spacing tick spacing = rbind (py_floordiv tick spacing) (\<lambda>q. ok (q * spacing))"

definition ceil_to_spacing :: "int \<Rightarrow> int \<Rightarrow> int res" where
  "ceil_to_spacing tick spacing = rbind (py_floordiv (- tick) spacing) (\<lambda>q. ok (- q * spacing))"

definition usable_tick_bounds :: "int \<Rightarrow> (int \<times> int) res" where
  "usable_tick_bounds spacing =
     rbind (ceil_to_spacing MIN_TICK spacing) (\<lambda>lo.
     rbind (floor_to_spacing MAX_TICK spacing) (\<lambda>hi. ok (lo, hi)))"

lemma floor_to_spacing_pos: "0 < s \<Longrightarrow> floor_to_spacing t s = Inr (t div s * s)"
  by (simp add: floor_to_spacing_def)

lemma ceil_to_spacing_pos: "0 < s \<Longrightarrow> ceil_to_spacing t s = Inr (ceil_div t s * s)"
  by (simp add: ceil_to_spacing_def ceil_div_def)

text \<open>The usable bounds are the outermost multiples of the spacing inside the tick range.\<close>

theorem usable_tick_bounds_tight:
  assumes "0 < spacing"
  shows "\<exists>lo hi. usable_tick_bounds spacing = Inr (lo, hi)
    \<and> spacing dvd lo \<and> spacing dvd hi \<and> MIN_TICK \<le> lo \<and> hi \<le> MAX_TICK \<and> lo \<le> 0 \<and> 0 \<le> hi
    \<and> (\<forall>t. spacing dvd t \<and> MIN_TICK \<le> t \<and> t \<le> MAX_TICK \<longrightarrow> lo \<le> t \<and> t \<le> hi)"
proof (intro exI conjI allI impI)
  let ?lo = "ceil_div MIN_TICK spacing * spacing" and ?hi = "MAX_TICK div spacing * spacing"
  show "usable_tick_bounds spacing = Inr (?lo, ?hi)"
    using assms by (simp add: usable_tick_bounds_def floor_to_spacing_pos ceil_to_spacing_pos)
  show "MIN_TICK \<le> ?lo" "?hi \<le> MAX_TICK" using assms by (simp_all add: ceil_mult_ge floor_mult_le)
  have between: "?lo \<le> t \<and> t \<le> ?hi" if "spacing dvd t" "MIN_TICK \<le> t" "t \<le> MAX_TICK" for t
  proof -
    obtain k where t: "t = k * spacing" using \<open>spacing dvd t\<close> by (auto simp: dvd_def mult.commute)
    have "ceil_div MIN_TICK spacing \<le> k" "k \<le> MAX_TICK div spacing"
      using that(2,3) assms unfolding t by (simp_all add: ceil_le_iff floor_le_iff)
    then show ?thesis unfolding t using assms by (simp add: mult_right_mono)
  qed
  then show "?lo \<le> 0" "0 \<le> ?hi" by (simp_all add: pool_constants)
  fix t assume "spacing dvd t \<and> MIN_TICK \<le> t \<and> t \<le> MAX_TICK"
  with between show "?lo \<le> t" "t \<le> ?hi" by blast+
qed simp_all

theorem usable_tick_bounds_tight_witness:
  "\<exists>lo hi. usable_tick_bounds 60 = Inr (lo, hi)
    \<and> 60 dvd lo \<and> 60 dvd hi \<and> MIN_TICK \<le> lo \<and> hi \<le> MAX_TICK \<and> lo \<le> 0 \<and> 0 \<le> hi
    \<and> (\<forall>t. 60 dvd t \<and> MIN_TICK \<le> t \<and> t \<le> MAX_TICK \<longrightarrow> lo \<le> t \<and> t \<le> hi)"
  by (rule usable_tick_bounds_tight) simp

section \<open>Fees of a position\<close>

lemma wrap_sub_sum:
  "wrap_sub a (wrap_sub b c + e) = wrap_sub (a + c) (b + e)" "wrap_sub a (e + wrap_sub b c) = wrap_sub (a + c) (b + e)"
  using mod_diff_right_eq [of "a - e" "b - c" U256] by (simp_all add: wrap_sub_def algebra_simps)

lemma wrap_sub_same [simp]: "wrap_sub a a = 0"
  by (simp add: wrap_sub_def)

lemma wrap_sub_moved: "wrap_sub (wrap_sub (a + d) k) (wrap_sub a k) = d mod U256"
  using mod_diff_eq [of "a + d - k" U256 "a - k"] by (simp add: wrap_sub_def)

lemma fee_growth_inside_cases:
  assumes "lower < upper"
  shows "fee_growth_inside current lower upper lower_out upper_out global =
    (if current < lower then wrap_sub lower_out upper_out
     else if current < upper then wrap_sub global (lower_out + upper_out)
     else wrap_sub upper_out lower_out)"
  using assms
  by (auto simp: fee_growth_inside_def Let_def wrap_sub_wrap_sub wrap_sub_sum)
    (simp_all add: wrap_sub_def algebra_simps)

text \<open>C8. What a position has earned when the global accumulator moved by \<open>d\<close> while the pool stayed at one
  tick: all of it when the position is in range, none otherwise, and exactly so under the wrap-around
  of \<open>uint256\<close> whatever the values of the accumulators are.
\<close>

theorem fee_growth_inside_tracks_global:
  assumes "lower < upper" and "0 \<le> d" "d < U256"
  shows "wrap_sub (fee_growth_inside current lower upper lower_out upper_out (global + d))
      (fee_growth_inside current lower upper lower_out upper_out global)
    = (if lower \<le> current \<and> current < upper then d else 0)"
  using assms mod_pos_pos_trivial [of d U256]
  by (auto simp: fee_growth_inside_cases wrap_sub_moved)

theorem fee_growth_inside_tracks_global_witness:
  "wrap_sub (fee_growth_inside 5 0 10 (U256 - 3) 7 (2 + 100)) (fee_growth_inside 5 0 10 (U256 - 3) 7 2)
    = (if (0::int) \<le> 5 \<and> (5::int) < 10 then 100 else 0)"
  by (rule fee_growth_inside_tracks_global) (simp_all add: pool_constants)

end
