(* ===== verification/Binary64.thy ===== *)
theory Binary64
  imports Lab_Prelude
begin

text \<open>
  Python's \<open>float\<close>: IEEE 754 binary64 with round to nearest, ties to even. A float is a real number
  that the rounding \<open>fl\<close> leaves fixed, and every operation is the exact operation followed by
  \<open>fl\<close>, so that \<open>x + y\<close>, \<open>x * y\<close> and \<open>x / y\<close> below are the results the interpreter computes.
  A literal is \<open>lit r\<close>, the float nearest to the decimal written in the source.

  The exponent has the lower bound of the format (subnormal numbers included) and no upper bound:
  overflow to infinity, the NaN it leads to, and the sign of zero are not modelled. Division by
  zero, which Python raises as an exception, is \<open>fdiv\<close>; a plain \<open>/\<close> below stands where the code has
  excluded a zero divisor.
\<close>

section \<open>Rounding to a grid\<close>

definition rne :: "real \<Rightarrow> int" where
  "rne y = (let n = \<lfloor>y\<rfloor>; d = y - of_int n in
     if d < 1 / 2 then n else if 1 / 2 < d then n + 1 else if even n then n else n + 1)"

lemma rne_bounds: "real_of_int (rne y) \<le> y + 1 / 2" "y - 1 / 2 \<le> real_of_int (rne y)"
proof -
  define n where "n = \<lfloor>y\<rfloor>"
  have "real_of_int n \<le> y" "y < real_of_int n + 1" unfolding n_def by linarith+
  then show "real_of_int (rne y) \<le> y + 1 / 2" "y - 1 / 2 \<le> real_of_int (rne y)"
    by (auto simp: rne_def Let_def n_def [symmetric])
qed

lemma rne_of_int [simp]: "rne (real_of_int n) = n"
  by (simp add: rne_def)

lemma rne_floor: "\<lfloor>y\<rfloor> \<le> rne y" "rne y \<le> \<lfloor>y\<rfloor> + 1"
  by (simp_all add: rne_def Let_def)

lemma rne_mono: "x \<le> y \<Longrightarrow> rne x \<le> rne y"
proof -
  assume le: "x \<le> y"
  show ?thesis
  proof (cases "\<lfloor>x\<rfloor> = \<lfloor>y\<rfloor>")
    case True
    then show ?thesis using le by (auto simp: rne_def Let_def)
  next
    case False
    then have "\<lfloor>x\<rfloor> + 1 \<le> \<lfloor>y\<rfloor>" using floor_mono [OF le] by simp
    then show ?thesis using rne_floor [of x] rne_floor [of y] by linarith
  qed
qed

lemma rne_minus: "rne (- y) = - rne y"
proof (cases "y \<in> \<int>")
  case True
  then obtain n where "y = of_int n" by (auto elim: Ints_cases)
  then show ?thesis by (metis of_int_minus rne_of_int)
next
  case False
  then have neg: "\<lfloor>- y\<rfloor> = - \<lfloor>y\<rfloor> - 1"
    using ceiling_altdef [of y] by (simp add: floor_minus) (metis Ints_of_int)
  show ?thesis by (auto simp: rne_def Let_def neg)
qed

definition to_grid :: "int \<Rightarrow> real \<Rightarrow> real" where
  "to_grid e x = of_int (rne (x / 2 powi e)) * 2 powi e"

lemma to_grid_mono: "x \<le> y \<Longrightarrow> to_grid e x \<le> to_grid e y"
  unfolding to_grid_def by (intro mult_right_mono) (simp_all add: rne_mono divide_right_mono)

lemma to_grid_minus: "to_grid e (- x) = - to_grid e x"
  by (simp add: to_grid_def rne_minus)

lemma to_grid_exact:
  assumes "e \<le> e'"
  shows "to_grid e (of_int m * 2 powi e') = of_int m * 2 powi e'"
proof -
  have "of_int m * 2 powi e' / 2 powi e = of_int m * (2::real) powi (e' - e)"
    by (simp add: power_int_diff)
  also have "\<dots> = of_int (m * 2 ^ nat (e' - e))"
    using assms by (simp add: power_int_def)
  finally have "to_grid e (of_int m * 2 powi e') = of_int (m * 2 ^ nat (e' - e)) * 2 powi e"
    unfolding to_grid_def by (simp only: rne_of_int)
  also have "\<dots> = of_int m * ((2::real) powi (e' - e) * 2 powi e)"
    using assms by (simp add: power_int_def)
  also have "\<dots> = of_int m * 2 powi e'" by (simp flip: power_int_add)
  finally show ?thesis .
qed

lemma to_grid_error: "\<bar>to_grid e x - x\<bar> \<le> 2 powi e / 2"
proof -
  define s :: real where "s = 2 powi e"
  have s: "0 < s" by (simp add: s_def)
  have "\<bar>of_int (rne (x / s)) - x / s\<bar> \<le> 1 / 2"
    using rne_bounds [of "x / s"] unfolding abs_le_iff by linarith
  then have "\<bar>of_int (rne (x / s)) - x / s\<bar> * s \<le> 1 / 2 * s"
    using s by (intro mult_right_mono) simp_all
  moreover have "to_grid e x - x = (of_int (rne (x / s)) - x / s) * s"
    using s by (simp add: to_grid_def s_def [symmetric] field_simps)
  ultimately show ?thesis using s by (simp add: abs_mult s_def [symmetric])
qed

section \<open>The binade of a number\<close>

function binade :: "real \<Rightarrow> int" where
  "binade x = (if x \<le> 0 then 0 else if 2 \<le> x then binade (x / 2) + 1
     else if x < 1 then binade (2 * x) - 1 else 0)"
  by auto
termination
proof (relation "measure (\<lambda>x. nat \<bar>\<lfloor>log 2 x\<rfloor>\<bar>)")
  fix x :: real
  assume x: "\<not> x \<le> 0" "2 \<le> x"
  then have "log 2 (x / 2) = log 2 x - 1" by (simp add: log_divide)
  moreover have "1 \<le> log 2 x" using x by (simp add: le_log_iff)
  ultimately show "(x / 2, x) \<in> measure (\<lambda>x. nat \<bar>\<lfloor>log 2 x\<rfloor>\<bar>)"
    by (simp add: le_floor_iff)
next
  fix x :: real
  assume x: "\<not> x \<le> 0" "\<not> 2 \<le> x" "x < 1"
  then have "log 2 (2 * x) = log 2 x + 1" by (simp add: log_mult)
  then have "\<lfloor>log 2 (2 * x)\<rfloor> = \<lfloor>log 2 x\<rfloor> + 1" by simp
  moreover have "\<lfloor>log 2 x\<rfloor> < 0" using x by (simp add: floor_less_iff)
  ultimately have "nat \<bar>\<lfloor>log 2 (2 * x)\<rfloor>\<bar> < nat \<bar>\<lfloor>log 2 x\<rfloor>\<bar>" by linarith
  then show "(2 * x, x) \<in> measure (\<lambda>x. nat \<bar>\<lfloor>log 2 x\<rfloor>\<bar>)" by simp
qed simp

declare binade.simps [simp del]

lemma binade_bounds: "0 < x \<Longrightarrow> 2 powi binade x \<le> x \<and> x < 2 powi (binade x + 1)"
proof (induction x rule: binade.induct)
  case (1 x)
  consider "2 \<le> x" | "x < 1" | "1 \<le> x" "x < 2" by linarith
  then show ?case
  proof cases
    case 1
    then show ?thesis
      using "1.IH"(1) "1.prems" by (subst (1 2) binade.simps) (auto simp: power_int_add field_simps)
  next
    case 2
    have b: "binade x = binade (2 * x) - 1" using 2 "1.prems" by (subst binade.simps) simp
    have "2 powi binade (2 * x) \<le> 2 * x" "2 * x < 2 powi (binade (2 * x) + 1)"
      using "1.IH"(2) "1.prems" 2 by auto
    then show ?thesis unfolding b by (simp add: power_int_diff power_int_add)
  next
    case 3
    then show ?thesis by (subst (1 2) binade.simps) simp
  qed
qed

lemma powi_less_cancel: "(2::real) powi a < 2 powi b \<Longrightarrow> a < b"
  by (metis linorder_not_less one_le_numeral power_int_increasing)

lemma binade_less: "0 < x \<Longrightarrow> x < 2 powi k \<Longrightarrow> binade x < k"
  using binade_bounds [of x] powi_less_cancel [of "binade x" k] by simp

lemma binade_mono: "0 < x \<Longrightarrow> x \<le> y \<Longrightarrow> binade x \<le> binade y"
  using binade_less [of x "binade y + 1"] binade_bounds [of y] by simp

section \<open>The rounding of the format\<close>

definition lsb_exponent :: "real \<Rightarrow> int" where
  "lsb_exponent x = max (binade \<bar>x\<bar> - 52) (- 1074)"

definition fl :: "real \<Rightarrow> real" where
  "fl x = (if x = 0 then 0 else to_grid (lsb_exponent x) x)"

lemma fl_zero [simp]: "fl 0 = 0"
  by (simp add: fl_def)

lemma fl_minus [simp]: "fl (- x) = - fl x"
  by (simp add: fl_def lsb_exponent_def to_grid_minus)

lemma lsb_exponent_mono: "0 < x \<Longrightarrow> x \<le> y \<Longrightarrow> lsb_exponent x \<le> lsb_exponent y"
  using binade_mono [of x y] by (simp add: lsb_exponent_def max.coboundedI1)

text \<open>A number with 53 significant bits is its own rounding.\<close>

lemma fl_dyadic:
  assumes "\<bar>m\<bar> \<le> 2 ^ 53" and "- 1074 \<le> e"
  shows "fl (of_int m * 2 powi e) = of_int m * 2 powi e"
proof (cases "m = 0")
  case False
  let ?x = "of_int m * (2::real) powi e"
  show ?thesis
  proof (cases "\<bar>m\<bar> = 2 ^ 53")
    case True
    have "\<bar>?x\<bar> = 2 powi (53 + e)"
      using True by (simp add: abs_mult power_int_add flip: of_int_abs)
    moreover have "(2::real) powi (53 + e) < 2 powi (54 + e)" by (intro power_int_strict_increasing) simp_all
    ultimately have "binade \<bar>?x\<bar> < 54 + e" using False by (intro binade_less) simp_all
    then have "lsb_exponent ?x \<le> e + 1" using assms(2) by (simp add: lsb_exponent_def)
    moreover have "?x = of_int (sgn m * 2 ^ 52) * 2 powi (e + 1)"
    proof -
      have "m = sgn m * 2 ^ 53" using True mult_sgn_abs [of m] by simp
      then have "?x = of_int (sgn m * 2 ^ 53) * 2 powi e" by simp
      then show ?thesis by (simp add: power_int_add)
    qed
    ultimately show ?thesis
      using to_grid_exact [of "lsb_exponent ?x" "e + 1" "sgn m * 2 ^ 52"] by (simp only: fl_def) simp
  next
    case False
    with assms(1) have "\<bar>m\<bar> < 2 ^ 53" by simp
    then have "real_of_int \<bar>m\<bar> < real_of_int (2 ^ 53)" by (simp only: of_int_less_iff)
    then have "\<bar>?x\<bar> < 2 ^ 53 * 2 powi e" by (simp add: abs_mult)
    also have "\<dots> = 2 powi (53 + e)" by (simp add: power_int_add)
    finally have "binade \<bar>?x\<bar> < 53 + e" using \<open>m \<noteq> 0\<close> by (intro binade_less) simp_all
    then have "lsb_exponent ?x \<le> e" using assms(2) by (simp add: lsb_exponent_def)
    then show ?thesis by (simp add: fl_def to_grid_exact)
  qed
qed simp

lemma fl_of_int: "\<bar>m\<bar> \<le> 2 ^ 53 \<Longrightarrow> fl (of_int m) = of_int m"
  using fl_dyadic [of m 0] by simp

text \<open>The rounding of a number has 53 significant bits.\<close>

lemma fl_significand: "\<exists>m e. fl x = of_int m * 2 powi e \<and> \<bar>m\<bar> \<le> 2 ^ 53 \<and> - 1074 \<le> e"
proof (cases "x = 0")
  case True
  then show ?thesis by (intro exI [of _ 0]) auto
next
  case False
  define e where "e = lsb_exponent x"
  have "\<bar>x\<bar> < 2 powi (binade \<bar>x\<bar> + 1)" using False binade_bounds [of "\<bar>x\<bar>"] by simp
  also have "\<dots> \<le> 2 powi (53 + e)"
    by (intro power_int_increasing) (simp_all add: e_def lsb_exponent_def)
  also have "\<dots> = 2 ^ 53 * 2 powi e" by (simp add: power_int_add)
  finally have lt: "\<bar>x\<bar> / 2 powi e \<le> 2 ^ 53" by (simp add: divide_le_eq)
  have "rne (x / 2 powi e) \<le> rne (of_int (2 ^ 53))" "rne (of_int (- (2 ^ 53))) \<le> rne (x / 2 powi e)"
    using lt by (intro rne_mono; simp add: abs_le_iff divide_le_eq le_divide_eq abs_if split: if_splits)+
  then have "\<bar>rne (x / 2 powi e)\<bar> \<le> 2 ^ 53"
    by (simp only: rne_of_int abs_le_iff) simp
  then show ?thesis using False
    by (intro exI [of _ "rne (x / 2 powi e)"] exI [of _ e])
      (simp add: fl_def to_grid_def e_def lsb_exponent_def)
qed

lemma fl_fl [simp]: "fl (fl x) = fl x"
  using fl_significand [of x] fl_dyadic by metis

lemma fl_mono_pos:
  assumes "0 < x" and "x \<le> y"
  shows "fl x \<le> fl y"
proof (cases "lsb_exponent x = lsb_exponent y")
  case True
  then show ?thesis using assms by (simp add: fl_def to_grid_mono)
next
  case False
  define k where "k = binade y"
  have less: "lsb_exponent x < lsb_exponent y" using lsb_exponent_mono [OF assms] False by simp
  then have k: "lsb_exponent x \<le> k" "lsb_exponent y \<le> k" and lt: "binade x < k"
    using assms by (auto simp: lsb_exponent_def k_def max_def split: if_splits)
  have "x < 2 powi (binade x + 1)" using binade_bounds [OF assms(1)] by simp
  also have "\<dots> \<le> 2 powi k" using lt by (intro power_int_increasing) simp_all
  finally have x: "x \<le> 2 powi k" by simp
  have y: "2 powi k \<le> y" using binade_bounds [of y] assms by (simp add: k_def)
  have "fl x \<le> to_grid (lsb_exponent x) (2 powi k)" using assms x by (simp add: fl_def to_grid_mono)
  also have "\<dots> = 2 powi k" using to_grid_exact [OF k(1), of 1] by simp
  also have "\<dots> = to_grid (lsb_exponent y) (2 powi k)" using to_grid_exact [OF k(2), of 1] by simp
  also have "\<dots> \<le> fl y" using assms y by (simp add: fl_def to_grid_mono)
  finally show ?thesis .
qed

lemma fl_nonneg_pos: "0 < x \<Longrightarrow> 0 \<le> fl x"
  using to_grid_mono [of 0 x "lsb_exponent x"] by (simp add: fl_def) (simp add: to_grid_def rne_def)

lemma fl_mono: "x \<le> y \<Longrightarrow> fl x \<le> fl y"
proof -
  assume le: "x \<le> y"
  consider "0 < x" | "x \<le> 0" "0 \<le> y" | "y < 0" by linarith
  then show ?thesis
  proof cases
    case 1
    then show ?thesis using le by (rule fl_mono_pos)
  next
    case 2
    have "0 \<le> fl y" using 2 fl_nonneg_pos [of y] by (cases "y = 0") simp_all
    moreover have "0 \<le> fl (- x)" using 2 fl_nonneg_pos [of "- x"] by (cases "x = 0") simp_all
    ultimately show ?thesis by simp
  next
    case 3
    then show ?thesis using fl_mono_pos [of "- y" "- x"] le by simp
  qed
qed

text \<open>The relative error of a rounding in the normal range is at most \<open>2 ^ (- 53)\<close>.\<close>

lemma fl_relative_error:
  assumes "2 powi (- 1022) \<le> \<bar>x\<bar>"
  shows "\<bar>fl x - x\<bar> \<le> \<bar>x\<bar> * 2 powi (- 53)"
proof -
  have pos: "0 < \<bar>x\<bar>" using assms zero_less_power_int [of "2::real" "- 1022"] by linarith
  have "(2::real) powi (- 1022) < 2 powi (binade \<bar>x\<bar> + 1)" using assms binade_bounds [OF pos] by linarith
  then have "- 1022 < binade \<bar>x\<bar> + 1" by (rule powi_less_cancel)
  then have e: "lsb_exponent x = binade \<bar>x\<bar> - 52" by (simp add: lsb_exponent_def)
  have "\<bar>fl x - x\<bar> \<le> 2 powi (binade \<bar>x\<bar> - 52) / 2"
    using to_grid_error [of "lsb_exponent x" x] pos by (simp add: fl_def e)
  also have "\<dots> = 2 powi binade \<bar>x\<bar> * 2 powi (- 53)" by (simp add: power_int_diff power_int_minus)
  also have "\<dots> \<le> \<bar>x\<bar> * 2 powi (- 53)"
    using binade_bounds [OF pos] by (intro mult_right_mono) simp_all
  finally show ?thesis .
qed

section \<open>What the operations rely on\<close>

text \<open>The laws of a rounding, and the bounds on rounded results that follow from them alone.\<close>

locale rounding =
  fixes rnd :: "real \<Rightarrow> real"
  assumes mono: "x \<le> y \<Longrightarrow> rnd x \<le> rnd y"
    and idem: "rnd (rnd x) = rnd x"
    and odd: "rnd (- x) = - rnd x"
begin

lemma zero: "rnd 0 = 0"
  using odd [of 0] by simp

lemma le_fixed: "rnd y = y \<Longrightarrow> x \<le> y \<Longrightarrow> rnd x \<le> y"
  using mono [of x y] by simp

lemma ge_fixed: "rnd y = y \<Longrightarrow> y \<le> x \<Longrightarrow> y \<le> rnd x"
  using mono [of y x] by simp

lemma nonneg: "0 \<le> x \<Longrightarrow> 0 \<le> rnd x"
  using ge_fixed [of 0 x] zero by simp

lemma nonpos: "x \<le> 0 \<Longrightarrow> rnd x \<le> 0"
  using le_fixed [of 0 x] zero by simp

lemma pos_arg: "0 < rnd x \<Longrightarrow> 0 < x"
  using nonpos [of x] by linarith

lemma neg_arg: "rnd x < 0 \<Longrightarrow> x < 0"
  using nonneg [of x] by linarith

lemma between: "rnd a = a \<Longrightarrow> rnd b = b \<Longrightarrow> a \<le> x \<Longrightarrow> x \<le> b \<Longrightarrow> a \<le> rnd x \<and> rnd x \<le> b"
  using le_fixed ge_fixed by blast

end

interpretation fl: rounding fl
  by unfold_locales (simp_all add: fl_mono)

section \<open>The type of floats\<close>

typedef f64 = "{x :: real. fl x = x}" morphisms val F64
  by (intro exI [of _ 0]) simp

setup_lifting type_definition_f64

lift_definition lit :: "real \<Rightarrow> f64" is fl
  by simp

lemma val_lit: "val (lit x) = fl x"
  by transfer simp

lemma fl_val [simp]: "fl (val x) = val x"
  by transfer simp

lemma lit_val [simp]: "lit (val x) = x"
  by transfer simp

lemma val_inject [simp]: "val x = val y \<longleftrightarrow> x = y"
  by transfer simp

instantiation f64 :: "{zero, one, plus, minus, uminus, times, inverse, abs, linorder, equal}"
begin

definition zero_f64 :: f64 where "0 = lit 0"
definition one_f64 :: f64 where "1 = lit 1"
definition plus_f64 :: "f64 \<Rightarrow> f64 \<Rightarrow> f64" where "x + y = lit (val x + val y)"
definition minus_f64 :: "f64 \<Rightarrow> f64 \<Rightarrow> f64" where "x - y = lit (val x - val y)"
definition uminus_f64 :: "f64 \<Rightarrow> f64" where "- x = lit (- val x)"
definition times_f64 :: "f64 \<Rightarrow> f64 \<Rightarrow> f64" where "x * y = lit (val x * val y)"
definition inverse_f64 :: "f64 \<Rightarrow> f64" where "inverse x = lit (1 / val x)"
definition divide_f64 :: "f64 \<Rightarrow> f64 \<Rightarrow> f64" where "x div y = lit (val x / val y)"
definition abs_f64 :: "f64 \<Rightarrow> f64" where "\<bar>x\<bar> = lit \<bar>val x\<bar>"
definition less_eq_f64 :: "f64 \<Rightarrow> f64 \<Rightarrow> bool" where "x \<le> y \<longleftrightarrow> val x \<le> val y"
definition less_f64 :: "f64 \<Rightarrow> f64 \<Rightarrow> bool" where "x < y \<longleftrightarrow> val x < val y"
definition equal_f64 :: "f64 \<Rightarrow> f64 \<Rightarrow> bool" where "equal_f64 x y \<longleftrightarrow> val x = val y"

instance
  by intro_classes (auto simp: less_eq_f64_def less_f64_def equal_f64_def)

end

text \<open>The exact values behind the operations.\<close>

lemma fl_abs: "fl \<bar>x\<bar> = \<bar>fl x\<bar>"
  using fl.nonneg [of x] fl.nonpos [of x] by (cases "0 \<le> x") simp_all

lemma val_ops:
  "val (x + y) = fl (val x + val y)" "val (x - y) = fl (val x - val y)"
  "val (x * y) = fl (val x * val y)" "val (x / y) = fl (val x / val y)"
  by (simp_all add: plus_f64_def minus_f64_def times_f64_def divide_f64_def val_lit)

lemma val_simps [simp]:
  "val 0 = 0" "val 1 = 1" "val (- x) = - val x" "val \<bar>x\<bar> = \<bar>val x\<bar>"
  using fl_of_int [of 1]
  by (simp_all add: zero_f64_def one_f64_def uminus_f64_def abs_f64_def val_lit fl_abs)

lemma le_val: "x \<le> y \<longleftrightarrow> val x \<le> val y" and less_val: "x < y \<longleftrightarrow> val x < val y"
  by (simp_all add: less_eq_f64_def less_f64_def)

lemma val_max: "val (max x y) = max (val x) (val y)" and val_min: "val (min x y) = min (val x) (val y)"
  by (simp_all add: max_def min_def le_val)

lemmas f64_order = le_val less_val val_max val_min

lemma val_eq_0 [simp]: "val x = 0 \<longleftrightarrow> x = 0"
  using val_inject [of x 0] by simp

lemma lit_mono: "x \<le> y \<Longrightarrow> lit x \<le> lit y"
  by (simp add: le_val val_lit fl_mono)

lemma lit_zero [simp]: "lit 0 = 0" and lit_one [simp]: "lit 1 = 1"
  by (simp_all add: zero_f64_def one_f64_def)

lemma val_lit_int: "\<bar>n\<bar> \<le> 2 ^ 53 \<Longrightarrow> val (lit (real_of_int n)) = real_of_int n"
  by (simp add: val_lit fl_of_int)

lemma val_lit_numeral: "numeral k \<le> (2 ^ 53 :: int) \<Longrightarrow> val (lit (numeral k)) = numeral k"
  using val_lit_int [of "numeral k"] by simp

text \<open>The sign of a literal.\<close>

lemma f64_zero_one [simp]: "0 < (1::f64)" "0 \<le> (1::f64)" "(0::f64) \<noteq> 1" "(1::f64) \<noteq> 0"
  "\<not> (1::f64) < 0" "\<not> (1::f64) \<le> 0"
  by (simp_all add: less_val le_val flip: val_inject)

lemma lit_nonneg: "0 \<le> r \<Longrightarrow> 0 \<le> lit r"
  by (simp add: le_val val_lit fl.nonneg)

lemma lit_pos: "1 / 2 ^ 30 \<le> r \<Longrightarrow> 0 < lit r"
proof -
  assume "1 / 2 ^ 30 \<le> r"
  then have "2 powi (- 30) \<le> r" by (simp add: power_int_minus field_simps)
  moreover have "fl (2 powi (- 30)) = 2 powi (- 30)" using fl_dyadic [of 1 "- 30"] by simp
  ultimately have "2 powi (- 30) \<le> fl r" by (intro fl.ge_fixed)
  then show ?thesis using zero_less_power_int [of "2::real" "- 30"] by (simp add: less_val val_lit)
qed

lemma lit_le_one: "r \<le> 1 \<Longrightarrow> lit r \<le> 1"
  using lit_mono [of r 1] by simp

section \<open>Bounds the code's arithmetic keeps\<close>

lemma f64_add_nonneg: "0 \<le> x \<Longrightarrow> 0 \<le> y \<Longrightarrow> 0 \<le> x + y" for x y :: f64
  by (simp add: le_val val_ops fl.nonneg)

lemma f64_add_mono: "a \<le> b \<Longrightarrow> c \<le> d \<Longrightarrow> a + c \<le> b + d" for a b c d :: f64
  by (simp add: le_val val_ops fl_mono)

lemma f64_le_add: "0 \<le> y \<Longrightarrow> x \<le> x + y" and f64_add_le: "y \<le> 0 \<Longrightarrow> x + y \<le> x" for x y :: f64
  by (simp_all add: le_val val_ops fl.ge_fixed fl.le_fixed)

lemma f64_add_0 [simp]: "x + 0 = x" "0 + x = x" "x - 0 = x" for x :: f64
  by (simp_all add: plus_f64_def minus_f64_def)

lemma f64_add_commute: "x + y = y + x" and f64_mult_commute: "x * y = y * x" for x y :: f64
  by (simp_all add: plus_f64_def times_f64_def add.commute mult.commute)

lemma f64_mult_0 [simp]: "x * 0 = 0" "0 * x = 0" "x * 1 = x" "1 * x = x" "0 / x = 0" "x / 1 = x" for x :: f64
  by (simp_all add: times_f64_def divide_f64_def)

lemma f64_diff_self [simp]: "x - x = 0" for x :: f64
  by (simp add: minus_f64_def)

lemma f64_diff_mono: "a \<le> b \<Longrightarrow> d \<le> c \<Longrightarrow> a - c \<le> b - d" for a b c d :: f64
  by (simp add: le_val val_ops fl_mono)

lemma f64_diff_le: "0 \<le> y \<Longrightarrow> x - y \<le> x" and f64_le_diff: "y \<le> 0 \<Longrightarrow> x \<le> x - y" for x y :: f64
  by (simp_all add: le_val val_ops fl.ge_fixed fl.le_fixed)

lemma f64_mult_nonneg: "0 \<le> x \<Longrightarrow> 0 \<le> y \<Longrightarrow> 0 \<le> x * y" for x y :: f64
  by (simp add: le_val val_ops fl.nonneg)

lemma f64_mult_mono: "0 \<le> a \<Longrightarrow> a \<le> b \<Longrightarrow> 0 \<le> c \<Longrightarrow> c \<le> d \<Longrightarrow> a * c \<le> b * d" for a b c d :: f64
  by (simp add: le_val val_ops fl_mono mult_mono)

lemma f64_mult_le_self: "0 \<le> x \<Longrightarrow> 0 \<le> c \<Longrightarrow> c \<le> 1 \<Longrightarrow> x * c \<le> x" for x c :: f64
  by (simp add: le_val val_ops mult_left_le fl.le_fixed)

lemma f64_self_le_mult: "0 \<le> x \<Longrightarrow> 1 \<le> c \<Longrightarrow> x \<le> x * c" for x c :: f64
  using mult_left_mono [of 1 "val c" "val x"] by (simp add: le_val val_ops fl.ge_fixed)

lemma f64_divide_nonneg: "0 \<le> x \<Longrightarrow> 0 \<le> y \<Longrightarrow> 0 \<le> x / y" for x y :: f64
  by (simp add: le_val val_ops fl.nonneg)

lemma f64_divide_mono: "0 \<le> a \<Longrightarrow> a \<le> b \<Longrightarrow> 0 < d \<Longrightarrow> d \<le> c \<Longrightarrow> a / c \<le> b / d" for a b c d :: f64
  by (simp add: le_val less_val val_ops fl_mono frac_le)

lemma f64_divide_le_1: "0 \<le> x \<Longrightarrow> x \<le> y \<Longrightarrow> x / y \<le> 1" for x y :: f64
  using fl.le_fixed [of 1 "val x / val y"] fl_val [of 1]
  by (cases "val y = 0") (simp_all add: le_val val_ops divide_le_eq_1)

lemma f64_abs_nonneg [simp]: "0 \<le> \<bar>x\<bar>" for x :: f64
  by (simp add: le_val)

lemma f64_abs_le_iff: "\<bar>x\<bar> \<le> y \<longleftrightarrow> x \<le> y \<and> - y \<le> x" for x y :: f64
  by (auto simp: le_val)

lemma f64_abs_of_nonneg [simp]: "0 \<le> x \<Longrightarrow> \<bar>x\<bar> = x" for x :: f64
  by (simp add: le_val abs_f64_def)

lemma f64_minus_minus [simp]: "- (- x) = x" "- (0::f64) = 0" "0 - x = - x" for x :: f64
  by (simp_all add: uminus_f64_def minus_f64_def val_lit)

lemma f64_neg_le_iff [simp]: "- x \<le> - y \<longleftrightarrow> y \<le> x" "- x < - y \<longleftrightarrow> y < x" "0 \<le> - x \<longleftrightarrow> x \<le> 0" "- x \<le> 0 \<longleftrightarrow> 0 \<le> x"
  for x y :: f64
  by (simp_all add: le_val less_val)

text \<open>
  Subtraction keeps the strict order: subnormal numbers make the difference of two different floats
  a multiple of the least positive float.
\<close>

definition least_float :: real where "least_float = 2 powi (- 1074)"

lemma least_float: "0 < least_float" "fl least_float = least_float"
  using fl_dyadic [of 1 "- 1074"] by (simp_all only: least_float_def) simp_all

lemma powi_multiple:
  assumes "b \<le> e"
  shows "\<exists>k. of_int m * (2::real) powi e = of_int k * 2 powi b"
proof -
  have "(2::real) powi e = 2 powi (e - b + b)" by simp
  also have "\<dots> = 2 powi (e - b) * 2 powi b" by (rule power_int_add) simp
  also have "(2::real) powi (e - b) = of_int (2 ^ nat (e - b))" using assms by (simp add: power_int_def)
  finally have "of_int m * (2::real) powi e = of_int (m * 2 ^ nat (e - b)) * 2 powi b" by simp
  then show ?thesis by blast
qed

lemma val_multiple: "\<exists>k. val x = of_int k * least_float"
  using fl_significand [of "val x"] powi_multiple [of "- 1074"] unfolding least_float_def by (metis fl_val)

lemma f64_diff_pos_iff [simp]: "0 < x - y \<longleftrightarrow> y < x" for x y :: f64
proof
  assume "y < x"
  obtain i j where ij: "val x = of_int i * least_float" "val y = of_int j * least_float"
    using val_multiple by metis
  have diff: "val x - val y = of_int (i - j) * least_float" by (simp add: ij left_diff_distrib)
  moreover have "0 < val x - val y" using \<open>y < x\<close> by (simp add: less_val)
  ultimately have "0 < i - j" using least_float(1) by (simp add: zero_less_mult_iff)
  then have "1 \<le> real_of_int (i - j)" by simp
  then have "1 * least_float \<le> real_of_int (i - j) * least_float"
    using least_float(1) by (intro mult_right_mono) simp_all
  then have "least_float \<le> val (x - y)"
    unfolding val_ops diff by (intro fl.ge_fixed least_float) simp
  then show "0 < x - y" using least_float(1) by (simp add: less_val)
next
  assume "0 < x - y"
  then have "0 < val x - val y" using fl.pos_arg [of "val x - val y"] by (simp add: less_val val_ops)
  then show "y < x" by (simp add: less_val)
qed

lemma f64_diff_neg_iff [simp]: "x - y < 0 \<longleftrightarrow> x < y" for x y :: f64
  using f64_diff_pos_iff [of y x] fl_minus [of "val x - val y"]
  by (simp add: less_val val_ops)

lemma f64_diff_nonneg_iff [simp]: "0 \<le> x - y \<longleftrightarrow> y \<le> x" "x - y \<le> 0 \<longleftrightarrow> x \<le> y" for x y :: f64
  using f64_diff_neg_iff [of x y] f64_diff_pos_iff [of x y] by (simp_all flip: not_less)

lemma f64_diff_eq_0_iff [simp]: "x - y = 0 \<longleftrightarrow> x = y" for x y :: f64
  using f64_diff_nonneg_iff [of x y] by (metis antisym f64_diff_self order_refl)

lemma f64_add_pos: "0 < x \<Longrightarrow> 0 \<le> y \<Longrightarrow> 0 < x + y" for x y :: f64
  by (rule less_le_trans) (auto intro: f64_le_add)

section \<open>Python's operations with integers and exceptions\<close>

definition fdiv :: "f64 \<Rightarrow> f64 \<Rightarrow> f64 res" where
  "fdiv x y = (if y = 0 then raise_error ZeroDivisionError else ok (x / y))"

text \<open>\<open>float(n)\<close>, the true division \<open>a / b\<close> of two integers, and \<open>int(x)\<close>, which truncates.\<close>

definition float_of_int :: "int \<Rightarrow> f64" where
  "float_of_int n = lit (real_of_int n)"

definition int_truediv :: "int \<Rightarrow> int \<Rightarrow> f64 res" where
  "int_truediv a b = (if b = 0 then raise_error ZeroDivisionError else ok (lit (real_of_int a / real_of_int b)))"

definition int_of_float :: "f64 \<Rightarrow> int" where
  "int_of_float x = (if val x < 0 then \<lceil>val x\<rceil> else \<lfloor>val x\<rfloor>)"

definition float_floor :: "f64 \<Rightarrow> int" where
  "float_floor x = \<lfloor>val x\<rfloor>"

definition float_ceil :: "f64 \<Rightarrow> int" where
  "float_ceil x = \<lceil>val x\<rceil>"

text \<open>\<open>math.sqrt\<close> is correctly rounded.\<close>

definition fsqrt :: "f64 \<Rightarrow> f64 res" where
  "fsqrt x = (if x < 0 then raise_error ValueError else ok (lit (sqrt (val x))))"

lemma fdiv_nonzero [simp]: "y \<noteq> 0 \<Longrightarrow> fdiv x y = Inr (x / y)"
  by (simp add: fdiv_def)

lemma fdiv_eq_Inr_iff: "fdiv x y = Inr z \<longleftrightarrow> y \<noteq> 0 \<and> z = x / y"
  by (auto simp: fdiv_def)

lemma int_of_float_bounds: "0 \<le> x \<Longrightarrow> 0 \<le> int_of_float x \<and> real_of_int (int_of_float x) \<le> val x"
  by (simp add: int_of_float_def le_val)

end
