(* ===== verification/Lab_Domain.thy ===== *)
theory Lab_Domain
  imports Binary64 "HOL-Library.Multiset"
begin

text \<open>
  The values the trading components exchange: \<open>app/models/domain.py\<close> with the order-book readings of
  \<open>app/market_data/orderbook.py\<close>, the normaliser, the rolling volatility and the fee and gas models.

  A \<open>datetime\<close> is an instant in microseconds since the epoch. The models' \<open>__post_init__\<close> gives a
  naive timestamp the zone UTC, so that every stored timestamp is such an instant. Field names carry
  a prefix of their class where two classes share a name.
\<close>

section \<open>Instants\<close>

type_synonym datetime = int

text \<open>\<open>timedelta.total_seconds()\<close> of a difference of two instants.\<close>

definition total_seconds :: "int \<Rightarrow> f64" where
  "total_seconds delta = lit (real_of_int delta / 10 ^ 6)"

text \<open>\<open>datetime.fromtimestamp\<close>: whole seconds and the fraction rounded half-even to microseconds.\<close>

definition fromtimestamp :: "f64 \<Rightarrow> datetime" where
  "fromtimestamp t =
     (let seconds = int_of_float t
      in seconds * 10 ^ 6 + rne (val ((t - float_of_int seconds) * lit (10 ^ 6))))"

section \<open>Domain records\<close>

datatype QuoteSide = BID | ASK

record OrderBookLevel =
  lv_price :: f64
  lv_size :: f64

record OrderBookSnapshot =
  ob_symbol :: string
  ob_bids :: "OrderBookLevel list"
  ob_asks :: "OrderBookLevel list"
  ob_timestamp :: datetime
  ob_is_stale :: bool
  ob_tick_id :: "string option"

record Quote =
  qt_symbol :: string
  qt_side :: QuoteSide
  qt_price :: f64
  qt_size :: f64
  qt_timestamp :: datetime
  qt_quote_id :: "string option"
  qt_tick_id :: "string option"

record Fill =
  fl_symbol :: string
  fl_side :: QuoteSide
  fl_price :: f64
  fl_size :: f64
  fl_fee :: f64
  fl_timestamp :: datetime
  fl_quote_id :: "string option"
  fl_tick_id :: "string option"

record Position =
  po_symbol :: string
  po_base_amount :: f64
  po_quote_amount :: f64
  po_average_entry_price :: f64
  po_timestamp :: datetime
  po_tick_id :: "string option"

record PnLSnapshot =
  pn_symbol :: string
  pn_realized_pnl :: f64
  pn_unrealized_pnl :: f64
  pn_total_fees :: f64
  pn_total_pnl :: f64
  pn_timestamp :: datetime
  pn_tick_id :: "string option"

record AmmPoolSnapshot =
  am_pool_address :: string
  am_base_reserve :: f64
  am_quote_reserve :: f64
  am_spot_price :: f64
  am_timestamp :: datetime
  am_is_stale :: bool

datatype ArbitrageDirection = BUY_AMM_SELL_CEX | BUY_CEX_SELL_AMM

record Opportunity =
  op_direction :: ArbitrageDirection
  op_cex_mid :: f64
  op_amm_price :: f64
  op_trial_trade_size :: f64
  op_gross_edge :: f64
  op_cex_fee :: f64
  op_amm_fee :: f64
  op_gas_cost :: f64
  op_slippage_cost :: f64
  op_net_edge :: f64
  op_net_edge_bps :: f64
  op_timestamp :: datetime
  op_tick_id :: "string option"
  op_venue :: string
  op_fee_tier_bps :: "f64 option"
  op_optimal_trade_size :: "f64 option"
  op_optimal_net_edge :: "f64 option"

section \<open>Fees and gas\<close>

definition maker_fee :: "f64 \<Rightarrow> f64 \<Rightarrow> f64" where
  "maker_fee notional maker_fee_bps = notional * (maker_fee_bps / lit 10000)"

definition taker_fee :: "f64 \<Rightarrow> f64 \<Rightarrow> f64" where
  "taker_fee notional taker_fee_bps = notional * (taker_fee_bps / lit 10000)"

definition estimate_gas_cost_usd :: "int \<Rightarrow> f64 \<Rightarrow> f64 \<Rightarrow> f64" where
  "estimate_gas_cost_usd gas_limit gas_price_gwei eth_price_usd =
     (let gas_cost_eth = float_of_int gas_limit * gas_price_gwei * lit (1 / 10 ^ 9)
      in gas_cost_eth * eth_price_usd)"

lemma maker_fee_nonneg: "0 \<le> notional \<Longrightarrow> 0 \<le> bps \<Longrightarrow> 0 \<le> maker_fee notional bps"
  unfolding maker_fee_def using lit_pos [of 10000]
  by (intro f64_mult_nonneg f64_divide_nonneg) simp_all

lemma taker_fee_nonneg: "0 \<le> notional \<Longrightarrow> 0 \<le> bps \<Longrightarrow> 0 \<le> taker_fee notional bps"
  unfolding taker_fee_def using lit_pos [of 10000]
  by (intro f64_mult_nonneg f64_divide_nonneg) simp_all

section \<open>Reading an order book\<close>

definition best_bid :: "OrderBookSnapshot \<Rightarrow> f64 option" where
  "best_bid snapshot = (case ob_bids snapshot of [] \<Rightarrow> None | level # _ \<Rightarrow> Some (lv_price level))"

definition best_bid_size :: "OrderBookSnapshot \<Rightarrow> f64 option" where
  "best_bid_size snapshot = (case ob_bids snapshot of [] \<Rightarrow> None | level # _ \<Rightarrow> Some (lv_size level))"

definition best_ask :: "OrderBookSnapshot \<Rightarrow> f64 option" where
  "best_ask snapshot = (case ob_asks snapshot of [] \<Rightarrow> None | level # _ \<Rightarrow> Some (lv_price level))"

definition best_ask_size :: "OrderBookSnapshot \<Rightarrow> f64 option" where
  "best_ask_size snapshot = (case ob_asks snapshot of [] \<Rightarrow> None | level # _ \<Rightarrow> Some (lv_size level))"

definition mid_price :: "OrderBookSnapshot \<Rightarrow> f64 option" where
  "mid_price snapshot =
     (case (best_bid snapshot, best_ask snapshot) of
        (Some bid, Some ask) \<Rightarrow> Some ((bid + ask) / lit 2)
      | _ \<Rightarrow> None)"

definition spread_bps :: "OrderBookSnapshot \<Rightarrow> f64 option" where
  "spread_bps snapshot =
     (case (best_bid snapshot, best_ask snapshot) of
        (Some bid, Some ask) \<Rightarrow>
          let mid = (bid + ask) / lit 2
          in if mid \<le> 0 then None else Some (((ask - bid) / mid) * lit 10000)
      | _ \<Rightarrow> None)"

text \<open>The mid price of an ordered book lies between its best prices.\<close>

lemma val_lit_2: "val (lit 2) = 2"
  by (rule val_lit_numeral) simp

lemma fl_double: "fl (2 * val x) = 2 * val x"
proof -
  obtain m e where "val x = of_int m * 2 powi e" "\<bar>m\<bar> \<le> 2 ^ 53" "- 1074 \<le> e"
    using fl_significand [of "val x"] by auto
  then show ?thesis using fl_dyadic [of m "e + 1"] by (simp add: power_int_add mult_ac)
qed

lemma mid_between:
  assumes "bid \<le> ask"
  shows "bid \<le> (bid + ask) / lit 2 \<and> (bid + ask) / lit 2 \<le> ask"
proof -
  have "fl (2 * val bid) \<le> fl (val bid + val ask)" "fl (val bid + val ask) \<le> fl (2 * val ask)"
    using assms by (auto simp: le_val intro!: fl_mono)
  then have "2 * val bid \<le> val (bid + ask)" "val (bid + ask) \<le> 2 * val ask"
    by (simp_all add: fl_double val_ops)
  then show ?thesis
    by (auto simp: le_val val_ops(4) val_lit_2 intro!: fl.ge_fixed fl.le_fixed)
qed

section \<open>Normalising an exchange's order book\<close>

text \<open>The fields of the raw dictionary the function reads; \<open>None\<close> is an absent key.\<close>

record RawOrderBook =
  raw_bids :: "(f64 \<times> f64) list option"
  raw_asks :: "(f64 \<times> f64) list option"
  raw_timestamp_ms :: "int option"

definition normalize_ccxt_orderbook ::
    "string \<Rightarrow> RawOrderBook \<Rightarrow> bool \<Rightarrow> datetime \<Rightarrow> OrderBookSnapshot" where
  "normalize_ccxt_orderbook symbol raw is_stale now =
     (let level = (\<lambda>(price, size). \<lparr> lv_price = price, lv_size = size \<rparr>);
          bids = map level (case raw_bids raw of None \<Rightarrow> [] | Some xs \<Rightarrow> xs);
          asks = map level (case raw_asks raw of None \<Rightarrow> [] | Some xs \<Rightarrow> xs);
          timestamp = (case raw_timestamp_ms raw of
                         Some ms \<Rightarrow> fromtimestamp (lit (real_of_int ms / 1000))
                       | None \<Rightarrow> now)
      in \<lparr> ob_symbol = symbol,
           ob_bids = rev (sort_key lv_price (rev bids)),
           ob_asks = sort_key lv_price asks,
           ob_timestamp = timestamp, ob_is_stale = is_stale, ob_tick_id = None \<rparr>)"

text \<open>A normalised book has the levels the exchange sent, with the best bid the highest bid and the best
  ask the lowest ask.
\<close>

theorem normalized_book_best_prices:
  "(let book = normalize_ccxt_orderbook symbol raw stale now
    in mset (ob_bids book) = mset (map (\<lambda>(p, s). \<lparr> lv_price = p, lv_size = s \<rparr>) (case raw_bids raw of None \<Rightarrow> [] | Some xs \<Rightarrow> xs))
     \<and> mset (ob_asks book) = mset (map (\<lambda>(p, s). \<lparr> lv_price = p, lv_size = s \<rparr>) (case raw_asks raw of None \<Rightarrow> [] | Some xs \<Rightarrow> xs))
     \<and> sorted (rev (map lv_price (ob_bids book))) \<and> sorted (map lv_price (ob_asks book)))"
  by (simp add: normalize_ccxt_orderbook_def Let_def rev_map)

section \<open>Rolling volatility\<close>

text \<open>
  \<open>statistics.stdev\<close> computes the sample variance exactly and rounds its root once.
\<close>

definition sample_stdev :: "f64 list \<Rightarrow> f64" where
  "sample_stdev xs =
     (let n = real (length xs); mean = sum_list (map val xs) / n
      in lit (sqrt (sum_list (map (\<lambda>x. (val x - mean)\<^sup>2) xs) / (n - 1))))"

fun price_returns :: "f64 \<Rightarrow> f64 list \<Rightarrow> f64 list" where
  "price_returns previous_price [] = []"
| "price_returns previous_price (price # prices) =
     (if previous_price > 0 then [(price - previous_price) / previous_price] else [])
     @ price_returns price prices"

definition return_volatility_bps :: "f64 list \<Rightarrow> f64 option" where
  "return_volatility_bps prices =
     (if length prices < 3 then None
      else
        let returns = price_returns (hd prices) (tl prices)
        in if length returns < 2 then None else Some (sample_stdev returns * lit 10000))"

lemma return_volatility_nonneg: "return_volatility_bps prices = Some v \<Longrightarrow> 0 \<le> v"
  by (auto simp: return_volatility_bps_def sample_stdev_def Let_def split: if_splits
      intro!: f64_mult_nonneg lit_nonneg divide_nonneg_nonneg sum_list_nonneg)

end
