(* ===== verification/Fill_Calibration.thy ===== *)
theory Fill_Calibration
  imports Lab_Domain
begin

text \<open>
  \<open>app/execution/fill_calibration.py\<close>: the realized-volatility tracker and the calibrated chance that
  an uncrossed quote filled between two snapshots.

  \<open>math.exp\<close>, \<open>math.log\<close> and \<open>**\<close> on floats are the C library's functions, whose last bit the platform decides:
  they are the parameter \<open>libm\<close> of the definitions that use them, and \<open>libm_ok\<close> states the few laws
  that every such library documents. \<open>exact_libm\<close> is the correctly rounded instance.
\<close>

record Libm =
  libm_exp :: "f64 \<Rightarrow> f64"
  libm_pow :: "f64 \<Rightarrow> f64 \<Rightarrow> f64"
  libm_log :: "f64 \<Rightarrow> f64"

definition libm_ok :: "Libm \<Rightarrow> bool" where
  "libm_ok m \<longleftrightarrow> libm_exp m 0 = 1 \<and> (\<forall>x y. x \<le> y \<longrightarrow> libm_exp m x \<le> libm_exp m y)
     \<and> (\<forall>x. 0 \<le> libm_exp m x) \<and> (\<forall>x y. 0 \<le> x \<or> y = lit 2 \<longrightarrow> 0 \<le> libm_pow m x y)"

definition exact_libm :: Libm where
  "exact_libm = \<lparr> libm_exp = (\<lambda>x. lit (exp (val x))),
     libm_pow = (\<lambda>x y. lit (if val y = 2 then (val x)\<^sup>2 else val x powr val y)),
     libm_log = (\<lambda>x. lit (ln (val x))) \<rparr>"

lemma exact_libm_ok: "libm_ok exact_libm"
  by (auto simp: libm_ok_def exact_libm_def le_val val_lit_2 intro!: lit_nonneg [unfolded le_val val_simps] lit_mono [unfolded le_val])

section \<open>Volatility\<close>

definition MAX_INTERVAL_SEC :: f64 where "MAX_INTERVAL_SEC = lit 60"
definition VOLATILITY_WINDOW_SEC :: f64 where "VOLATILITY_WINDOW_SEC = lit 60"
definition VOLATILITY_FLOOR_SHARE :: f64 where "VOLATILITY_FLOOR_SHARE = lit (1 / 100)"

record VolatilityTracker =
  vt_window :: f64
  vt_points :: "(datetime \<times> f64) list"

definition volatility_tracker_init :: "f64 \<Rightarrow> VolatilityTracker" where
  "volatility_tracker_init window_sec = \<lparr> vt_window = window_sec, vt_points = [] \<rparr>"

fun squared_moves :: "Libm \<Rightarrow> f64 \<Rightarrow> (datetime \<times> f64) list \<Rightarrow> f64 \<Rightarrow> f64 res" where
  "squared_moves m prev_mid [] squares = ok squares"
| "squared_moves m prev_mid ((_, mid) # points) squares =
     rbind (fdiv (mid - prev_mid) prev_mid) (\<lambda>move.
       squared_moves m mid points (squares + libm_pow m (move * lit 10000) (lit 2)))"

definition volatility_value :: "Libm \<Rightarrow> VolatilityTracker \<Rightarrow> f64 option res" where
  "volatility_value m tracker =
     (if length (vt_points tracker) < 2 then ok None
      else
        rbind (squared_moves m (snd (hd (vt_points tracker))) (tl (vt_points tracker)) 0) (\<lambda>squares.
        let elapsed = total_seconds (fst (last (vt_points tracker)) - fst (hd (vt_points tracker)))
        in if elapsed \<le> 0 then ok None
           else rbind (fsqrt (squares / elapsed)) (\<lambda>v. ok (Some v))))"

definition tracker_with :: "datetime \<Rightarrow> f64 option \<Rightarrow> VolatilityTracker \<Rightarrow> VolatilityTracker" where
  "tracker_with at_time mid tracker =
     (let points = (case mid of
                      Some v \<Rightarrow>
                        if v > 0 then
                          (if vt_points tracker = [] \<or> at_time > fst (last (vt_points tracker))
                           then vt_points tracker @ [(at_time, v)]
                           else if at_time = fst (last (vt_points tracker))
                           then butlast (vt_points tracker) @ [(at_time, v)]
                           else vt_points tracker)
                        else vt_points tracker
                    | None \<Rightarrow> vt_points tracker)
      in tracker\<lparr> vt_points := dropWhile (\<lambda>p. total_seconds (at_time - fst p) > vt_window tracker) points \<rparr>)"

definition volatility_update ::
    "Libm \<Rightarrow> VolatilityTracker \<Rightarrow> datetime \<Rightarrow> f64 option \<Rightarrow> VolatilityTracker \<times> f64 option res" where
  "volatility_update m tracker at_time mid =
     (let tracker1 = tracker_with at_time mid tracker in (tracker1, volatility_value m tracker1))"

text \<open>The points of a tracker are in strictly ascending time, with positive prices.\<close>

definition tracker_ok :: "VolatilityTracker \<Rightarrow> bool" where
  "tracker_ok tracker \<longleftrightarrow> sorted_wrt (<) (map fst (vt_points tracker)) \<and> (\<forall>p\<in>set (vt_points tracker). 0 < snd p)"

lemma sorted_wrt_dropWhile: "sorted_wrt P (map f xs) \<Longrightarrow> sorted_wrt P (map f (dropWhile Q xs))"
  by (induction xs) auto

lemma sorted_wrt_last:
  "sorted_wrt (<) (map fst xs) \<Longrightarrow> xs \<noteq> [] \<Longrightarrow> p \<in> set xs \<Longrightarrow> fst p \<le> fst (last xs)" for xs :: "(int \<times> 'a) list"
  by (induction xs) (auto simp: less_imp_le split: if_splits)

lemma sorted_snoc:
  fixes xs :: "(int \<times> 'a) list"
  assumes "sorted_wrt (<) (map fst xs)" and "xs = [] \<or> fst (last xs) < t"
  shows "sorted_wrt (<) (map fst (xs @ [(t, v)]))"
  using assms sorted_wrt_last [of xs] by (fastforce simp: sorted_wrt_append)

lemma sorted_replace_last:
  fixes xs :: "(int \<times> 'a) list"
  assumes "sorted_wrt (<) (map fst xs)" and "xs \<noteq> []" and "fst (last xs) = t"
  shows "sorted_wrt (<) (map fst (butlast xs @ [(t, v)]))"
proof -
  have "sorted_wrt (<) (map fst (butlast xs @ [last xs]))" using assms by simp
  then show ?thesis using assms(3) by (simp add: sorted_wrt_append)
qed

lemma volatility_update_ok:
  assumes "tracker_ok tracker"
  shows "tracker_ok (fst (volatility_update m tracker t mid))"
proof -
  define points where "points = (case mid of
      Some v \<Rightarrow>
        if v > 0 then
          (if vt_points tracker = [] \<or> t > fst (last (vt_points tracker)) then vt_points tracker @ [(t, v)]
           else if t = fst (last (vt_points tracker)) then butlast (vt_points tracker) @ [(t, v)]
           else vt_points tracker)
        else vt_points tracker
    | None \<Rightarrow> vt_points tracker)"
  have sorted: "sorted_wrt (<) (map fst points)"
    using assms(1) sorted_snoc [of "vt_points tracker" t] sorted_replace_last [of "vt_points tracker" t]
    by (auto simp: points_def tracker_ok_def split: option.split)
  moreover have "\<forall>p\<in>set points. 0 < snd p"
    using assms(1) by (auto simp: points_def tracker_ok_def split: option.split dest: in_set_butlastD)
  moreover have "vt_points (fst (volatility_update m tracker t mid))
      = dropWhile (\<lambda>p. total_seconds (t - fst p) > vt_window tracker) points"
    by (simp add: volatility_update_def tracker_with_def points_def Let_def)
  ultimately show ?thesis
    by (auto simp: tracker_ok_def sorted_wrt_dropWhile dest: set_dropWhileD)
qed

lemma squared_moves_ok:
  assumes "libm_ok m" and "0 < prev" and "\<forall>p\<in>set points. 0 < snd p" and "0 \<le> acc"
  shows "\<exists>squares. squared_moves m prev points acc = Inr squares \<and> 0 \<le> squares"
  using assms
proof (induction m prev points acc rule: squared_moves.induct)
  case (2 m prev uu mid points squares)
  have "0 \<le> libm_pow m ((mid - prev) / prev * lit 10000) (lit 2)"
    using "2.prems"(1) by (simp add: libm_ok_def)
  then show ?case
    using "2.IH" "2.prems" by (auto simp: f64_add_nonneg)
qed simp

section \<open>The calibrated model\<close>

record FillCalibration =
  fc_touch_rate_per_sec :: f64
  fc_decay_bps :: "f64 option"
  fc_distance_range_bps :: "(f64 \<times> f64) option"
  fc_max_interval_sec :: f64
  fc_volatility_exponent :: "f64 option"
  fc_volatility_reference :: "f64 option"

definition uses_volatility :: "FillCalibration \<Rightarrow> bool" where
  "uses_volatility c \<longleftrightarrow>
     (case (fc_volatility_exponent c, fc_volatility_reference c) of
        (Some _, Some ref) \<Rightarrow> ref > 0
      | _ \<Rightarrow> False)"

definition volatility_factor :: "Libm \<Rightarrow> FillCalibration \<Rightarrow> f64 option \<Rightarrow> f64" where
  "volatility_factor m c volatility =
     (case (fc_volatility_exponent c, fc_volatility_reference c, volatility) of
        (Some k, Some ref, Some v) \<Rightarrow>
          if uses_volatility c then libm_pow m (max v (VOLATILITY_FLOOR_SHARE * ref) / ref) k else 1
      | _ \<Rightarrow> 1)"

definition fill_rate :: "Libm \<Rightarrow> FillCalibration \<Rightarrow> f64 \<Rightarrow> f64 option \<Rightarrow> f64 res" where
  "fill_rate m c distance_bps volatility =
     (if fc_touch_rate_per_sec c \<le> 0 then ok 0
      else
        let rate = fc_touch_rate_per_sec c * volatility_factor m c volatility
        in case fc_decay_bps c of
             None \<Rightarrow> ok rate
           | Some decay \<Rightarrow>
               rbind (fdiv (- max 0 distance_bps) decay) (\<lambda>x. ok (rate * libm_exp m x)))"

definition fill_chance :: "Libm \<Rightarrow> FillCalibration \<Rightarrow> f64 \<Rightarrow> f64 \<Rightarrow> f64 option \<Rightarrow> f64 res" where
  "fill_chance m c distance_bps dt_sec volatility =
     (let dt = min (max 0 dt_sec) (fc_max_interval_sec c)
      in rbind (fill_rate m c distance_bps volatility) (\<lambda>rate. ok (1 - libm_exp m (- rate * dt))))"

definition extended :: "FillCalibration \<Rightarrow> f64 \<Rightarrow> bool" where
  "extended c distance_bps =
     (case fc_distance_range_bps c of
        None \<Rightarrow> True
      | Some (low, high) \<Rightarrow> \<not> (low \<le> distance_bps \<and> distance_bps \<le> high))"

section \<open>Reading a calibration\<close>

text \<open>The keys of the parameter dictionary; \<open>None\<close> is an absent key or a JSON null.\<close>

record CalibrationParams =
  cp_format :: "int option"
  cp_model :: "string option"
  cp_touch_rate_per_sec :: "f64 option"
  cp_decay_bps :: "f64 option"
  cp_volatility_exponent :: "f64 option"
  cp_volatility_reference :: "f64 option"
  cp_distance_range_bps :: "(f64 \<times> f64) option"
  cp_max_interval_sec :: "f64 option"

definition calibration_from_params :: "CalibrationParams \<Rightarrow> FillCalibration res" where
  "calibration_from_params data =
     (case cp_touch_rate_per_sec data of
        None \<Rightarrow> raise_error KeyError
      | Some rate \<Rightarrow>
          if rate < 0 then raise_error ValueError
          else if (case cp_decay_bps data of Some d \<Rightarrow> d \<le> 0 | None \<Rightarrow> False) then raise_error ValueError
          else if cp_volatility_exponent data \<noteq> None
                  \<and> (case cp_volatility_reference data of Some r \<Rightarrow> r \<le> 0 | None \<Rightarrow> True)
          then raise_error ValueError
          else ok \<lparr> fc_touch_rate_per_sec = rate,
                    fc_decay_bps = cp_decay_bps data,
                    fc_distance_range_bps = cp_distance_range_bps data,
                    fc_max_interval_sec = (case cp_max_interval_sec data of Some s \<Rightarrow> s | None \<Rightarrow> MAX_INTERVAL_SEC),
                    fc_volatility_exponent = cp_volatility_exponent data,
                    fc_volatility_reference =
                      (if cp_volatility_exponent data = None then None else cp_volatility_reference data) \<rparr>)"

definition READABLE_FORMATS :: "int list" where "READABLE_FORMATS = [1, 2]"

definition calibration_from_dict :: "CalibrationParams \<Rightarrow> FillCalibration res" where
  "calibration_from_dict data =
     (if (case cp_format data of Some f \<Rightarrow> f \<notin> set READABLE_FORMATS | None \<Rightarrow> True)
         \<or> cp_model data \<noteq> Some ''calibrated_fill''
      then raise_error ValueError else calibration_from_params data)"

text \<open>\<open>params\<close> writes the parameters back, without the format and model of a file.\<close>

definition calibration_params :: "FillCalibration \<Rightarrow> CalibrationParams" where
  "calibration_params c =
     \<lparr> cp_format = None, cp_model = None, cp_touch_rate_per_sec = Some (fc_touch_rate_per_sec c),
       cp_decay_bps = fc_decay_bps c, cp_volatility_exponent = fc_volatility_exponent c,
       cp_volatility_reference = fc_volatility_reference c,
       cp_distance_range_bps = fc_distance_range_bps c, cp_max_interval_sec = Some (fc_max_interval_sec c) \<rparr>"

definition calibration_ok :: "FillCalibration \<Rightarrow> bool" where
  "calibration_ok c \<longleftrightarrow> 0 \<le> fc_touch_rate_per_sec c
     \<and> (case fc_decay_bps c of Some d \<Rightarrow> 0 < d | None \<Rightarrow> True)
     \<and> (fc_volatility_exponent c \<noteq> None \<longrightarrow> (case fc_volatility_reference c of Some r \<Rightarrow> 0 < r | None \<Rightarrow> False))
     \<and> (fc_volatility_exponent c = None \<longrightarrow> fc_volatility_reference c = None)"

lemma calibration_from_params_ok: "calibration_from_params data = Inr c \<Longrightarrow> calibration_ok c"
  by (auto simp: calibration_from_params_def calibration_ok_def split: option.splits if_splits)

text \<open>Writing a calibration to a recording and reading it back gives the same calibration.\<close>

theorem calibration_params_roundtrip:
  "calibration_from_params data = Inr c \<Longrightarrow> calibration_from_params (calibration_params c) = Inr c"
  by (cases "cp_touch_rate_per_sec data"; cases "cp_decay_bps data"; cases "cp_volatility_exponent data";
      cases "cp_volatility_reference data")
    (auto simp: calibration_from_params_def calibration_params_def split: if_splits)

definition example_params :: CalibrationParams where
  "example_params = \<lparr> cp_format = Some 2, cp_model = Some ''calibrated_fill'', cp_touch_rate_per_sec = Some 1,
     cp_decay_bps = Some 1, cp_volatility_exponent = Some 1, cp_volatility_reference = Some 1,
     cp_distance_range_bps = None, cp_max_interval_sec = None \<rparr>"

definition example_calibration :: FillCalibration where
  "example_calibration = \<lparr> fc_touch_rate_per_sec = 1, fc_decay_bps = Some 1, fc_distance_range_bps = None,
     fc_max_interval_sec = MAX_INTERVAL_SEC, fc_volatility_exponent = Some 1, fc_volatility_reference = Some 1 \<rparr>"

lemma example_calibration: "calibration_from_params example_params = Inr example_calibration"
  by (simp add: calibration_from_params_def example_params_def example_calibration_def not_le)

theorem calibration_params_roundtrip_witness:
  "calibration_from_params (calibration_params example_calibration) = Inr example_calibration"
  by (rule calibration_params_roundtrip [OF example_calibration])

section \<open>The chance is a probability\<close>

lemma volatility_factor_nonneg:
  assumes "libm_ok m" and "calibration_ok c"
  shows "0 \<le> volatility_factor m c volatility"
proof -
  have "0 \<le> max v (VOLATILITY_FLOOR_SHARE * ref) / ref" if "0 < ref" for v ref :: f64
  proof -
    have "0 \<le> VOLATILITY_FLOOR_SHARE * ref"
      using that by (intro f64_mult_nonneg) (simp_all add: VOLATILITY_FLOOR_SHARE_def lit_nonneg)
    then show ?thesis using that by (intro f64_divide_nonneg) (simp_all add: le_max_iff_disj)
  qed
  then show ?thesis
    using assms(1) by (auto simp: volatility_factor_def uses_volatility_def libm_ok_def split: option.splits)
qed

lemma fill_rate_nonneg:
  assumes "libm_ok m" and "calibration_ok c"
  shows "\<exists>rate. fill_rate m c distance volatility = Inr rate \<and> 0 \<le> rate"
proof -
  have factor: "0 \<le> volatility_factor m c volatility" using assms by (rule volatility_factor_nonneg)
  have "0 \<le> fc_touch_rate_per_sec c" using assms(2) by (simp add: calibration_ok_def)
  moreover have "fc_decay_bps c = Some d \<Longrightarrow> d \<noteq> 0" for d using assms(2) by (auto simp: calibration_ok_def)
  moreover have "0 \<le> libm_exp m x" for x using assms(1) by (simp add: libm_ok_def)
  ultimately show ?thesis
    using factor by (cases "fc_decay_bps c") (auto simp: fill_rate_def Let_def f64_mult_nonneg)
qed

lemma libm_exp_nonpos:
  assumes "libm_ok m" and "x \<le> 0"
  shows "0 \<le> libm_exp m x \<and> libm_exp m x \<le> 1"
  using assms unfolding libm_ok_def by metis

lemma neg_mult_nonpos: "0 \<le> rate \<Longrightarrow> 0 \<le> dt \<Longrightarrow> - rate * dt \<le> 0" for rate dt :: f64
  using fl.nonpos [of "- val rate * val dt"] by (simp add: le_val val_ops)

text \<open>For every calibration the loader accepts the chance exists, is a probability, and does not fall
  when more time passes; with no time passed it is zero.
\<close>

theorem fill_chance_probability:
  assumes "libm_ok m" and "calibration_from_params data = Inr c" and "0 \<le> fc_max_interval_sec c"
    and "dt \<le> dt'"
  shows "\<exists>p p'. fill_chance m c distance dt volatility = Inr p \<and> fill_chance m c distance dt' volatility = Inr p'
    \<and> 0 \<le> p \<and> p \<le> p' \<and> p' \<le> 1 \<and> (dt \<le> 0 \<longrightarrow> p = 0)"
proof -
  have good: "calibration_ok c" using assms(2) by (rule calibration_from_params_ok)
  obtain rate where rate: "fill_rate m c distance volatility = Inr rate" "0 \<le> rate"
    using fill_rate_nonneg [OF assms(1) good] by blast
  define t where "t x = min (max 0 x) (fc_max_interval_sec c)" for x
  have t: "0 \<le> t x" "t dt \<le> t dt'" for x
    using assms(3,4) by (auto simp: t_def min_def max_def)
  have bounds: "0 \<le> libm_exp m (- rate * t x)" "libm_exp m (- rate * t x) \<le> 1" for x
    using libm_exp_nonpos [OF assms(1) neg_mult_nonpos [OF rate(2) t(1)]] by auto
  have "- rate * t dt' \<le> - rate * t dt"
    using rate(2) t by (simp add: le_val val_ops fl_mono mult_left_mono)
  then have mono: "libm_exp m (- rate * t dt') \<le> libm_exp m (- rate * t dt)"
    using assms(1) by (simp add: libm_ok_def)
  have zero: "libm_exp m (- rate * t dt) = 1" if "dt \<le> 0"
    using that assms(1,3) by (simp add: t_def max_absorb1 libm_ok_def)
  show ?thesis
    using bounds mono zero rate f64_diff_le [of "libm_exp m (- rate * t dt')" 1]
    by (auto simp: fill_chance_def t_def [symmetric] intro!: f64_diff_mono)
qed

theorem fill_chance_probability_witness:
  "\<exists>p p'. fill_chance exact_libm example_calibration 1 0 None = Inr p
    \<and> fill_chance exact_libm example_calibration 1 1 None = Inr p'
    \<and> 0 \<le> p \<and> p \<le> p' \<and> p' \<le> 1 \<and> ((0::f64) \<le> 0 \<longrightarrow> p = 0)"
  by (rule fill_chance_probability [OF exact_libm_ok example_calibration])
    (simp_all add: example_calibration_def MAX_INTERVAL_SEC_def lit_nonneg)

end
