(* ===== verification/V3_Models.thy ===== *)
theory V3_Models
  imports V3_Swap_Simulator V3_Liquidity Fill_Calibration
begin

text \<open>
  \<open>app/models/v3.py\<close> and \<open>app/models/flash_arb.py\<close>: the records of the Uniswap V3 reader, the paper
  liquidity book and the V2-against-V3 scanner, and the price conversions of
  \<open>app/market_data/uniswap_v3/pricing.py\<close>. A power of ten with a negative exponent, \<open>1.0001 ** tick\<close>
  and \<open>math.log\<close> are the C library's, hence the argument of type \<open>Libm\<close>.
\<close>

section \<open>Pool records\<close>

datatype DataSource = live | fixture

record PoolMetadata =
  md_pool_address :: string
  md_token0 :: string
  md_token1 :: string
  md_token0_decimals :: int
  md_token1_decimals :: int
  md_fee_pips :: int
  md_tick_spacing :: int
  md_base_is_token0 :: bool

definition fee_tier_bps :: "PoolMetadata \<Rightarrow> f64" where
  "fee_tier_bps meta = lit (real_of_int (md_fee_pips meta) / 100)"

definition base_decimals :: "PoolMetadata \<Rightarrow> int" where
  "base_decimals meta = (if md_base_is_token0 meta then md_token0_decimals meta else md_token1_decimals meta)"

definition quote_decimals :: "PoolMetadata \<Rightarrow> int" where
  "quote_decimals meta = (if md_base_is_token0 meta then md_token1_decimals meta else md_token0_decimals meta)"

record V3PoolSnapshot =
  sn_metadata :: PoolMetadata
  sn_sqrt_price_x96 :: int
  sn_tick :: int
  sn_liquidity :: int
  sn_fee_growth_global0_x128 :: int
  sn_fee_growth_global1_x128 :: int
  sn_block_number :: int
  sn_block_timestamp :: datetime
  sn_price :: f64
  sn_lower_tick_info :: "TickInfo option"
  sn_upper_tick_info :: "TickInfo option"
  sn_base_fee_wei :: "int option"
  sn_window :: "TickWindow option"
  sn_is_stale :: bool
  sn_is_incomplete :: bool
  sn_data_source :: DataSource
  sn_tick_id :: "string option"

definition window_is_current :: "V3PoolSnapshot \<Rightarrow> bool" where
  "window_is_current snapshot =
     (case sn_window snapshot of None \<Rightarrow> False | Some w \<Rightarrow> tw_block_number w = sn_block_number snapshot)"

definition pool_state_from_snapshot :: "V3PoolSnapshot \<Rightarrow> PoolState" where
  "pool_state_from_snapshot snapshot =
     \<lparr> ps_sqrt_price_x96 = sn_sqrt_price_x96 snapshot, ps_tick = sn_tick snapshot,
       ps_liquidity = sn_liquidity snapshot, ps_fee_pips = md_fee_pips (sn_metadata snapshot),
       ps_block_number = sn_block_number snapshot \<rparr>"

section \<open>The paper liquidity book\<close>

datatype LpStatus = not_opened | in_range | out_of_range | frozen
datatype FeeAccounting = exact_fees | approximate_fees | no_fees
datatype RebalanceReason = opened | left_range | drift

record LpPositionState =
  lp_epoch :: int
  lp_status :: LpStatus
  lp_tick_lower :: "int option"
  lp_tick_upper :: "int option"
  lp_price_lower :: "f64 option"
  lp_price_upper :: "f64 option"
  lp_range_center :: "f64 option"
  lp_liquidity :: int
  lp_amount_base :: int
  lp_amount_quote :: int
  lp_idle_base :: int
  lp_idle_quote :: int
  lp_fees_owed_base :: int
  lp_fees_owed_quote :: int
  lp_fee_accounting :: FeeAccounting
  lp_fees_quote :: f64
  lp_il_quote :: f64
  lp_hodl_pnl_quote :: f64
  lp_swap_cost_quote :: f64
  lp_gas_cost_quote :: f64
  lp_value_quote :: f64
  lp_net_pnl_quote :: f64
  lp_capital_quote :: f64
  lp_reconciliation_error_quote :: f64
  lp_time_in_range_sec :: f64
  lp_time_tracked_sec :: f64
  lp_rebalance_count :: int
  lp_pool_share_pct :: f64
  lp_pool_price :: "f64 option"
  lp_block_number :: "int option"
  lp_status_note :: "string option"
  lp_timestamp :: datetime
  lp_tick_id :: "string option"

record RebalanceEvent =
  rb_epoch_from :: int
  rb_epoch_to :: int
  rb_reason :: RebalanceReason
  rb_old_tick_lower :: "int option"
  rb_old_tick_upper :: "int option"
  rb_new_tick_lower :: int
  rb_new_tick_upper :: int
  rb_swap_sells_base :: "bool option"
  rb_swap_amount_in :: int
  rb_swap_amount_out :: int
  rb_swap_cost_quote :: f64
  rb_price_impact_bps :: f64
  rb_gas_units :: int
  rb_gas_price_gwei :: f64
  rb_gas_cost_quote :: f64
  rb_realized_il_quote :: f64
  rb_pool_price :: f64
  rb_block_number :: int
  rb_timestamp :: datetime
  rb_tick_id :: "string option"

section \<open>Prices\<close>

text \<open>\<open>10 ** n\<close>: an exact integer for \<open>n \<ge> 0\<close>, the library's power below.\<close>

definition ten_to :: "Libm \<Rightarrow> int \<Rightarrow> f64" where
  "ten_to m n = (if 0 \<le> n then float_of_int (10 ^ nat n) else libm_pow m (lit 10) (float_of_int n))"

definition raw_price_token1_per_token0 :: "int \<Rightarrow> f64" where
  "raw_price_token1_per_token0 sqrt_price_x96 =
     (let ratio = lit (real_of_int sqrt_price_x96 / real_of_int Q96) in ratio * ratio)"

definition human_from_raw :: "Libm \<Rightarrow> f64 \<Rightarrow> bool \<Rightarrow> int \<Rightarrow> int \<Rightarrow> f64" where
  "human_from_raw m raw base_is_token0 dec0 dec1 =
     (if raw \<le> 0 then 0
      else if base_is_token0 then raw * ten_to m (dec0 - dec1)
      else (1 / raw) * ten_to m (dec1 - dec0))"

definition sqrt_price_x96_to_price :: "Libm \<Rightarrow> int \<Rightarrow> bool \<Rightarrow> int \<Rightarrow> int \<Rightarrow> f64" where
  "sqrt_price_x96_to_price m sqrt_price_x96 base_is_token0 token0_decimals token1_decimals =
     human_from_raw m (raw_price_token1_per_token0 sqrt_price_x96) base_is_token0 token0_decimals token1_decimals"

definition tick_to_price :: "Libm \<Rightarrow> int \<Rightarrow> bool \<Rightarrow> int \<Rightarrow> int \<Rightarrow> f64" where
  "tick_to_price m tick base_is_token0 token0_decimals token1_decimals =
     human_from_raw m (libm_pow m (lit (10001 / 10000)) (float_of_int tick)) base_is_token0
       token0_decimals token1_decimals"

definition flog :: "Libm \<Rightarrow> f64 \<Rightarrow> f64 res" where
  "flog m x = (if x \<le> 0 then raise_error ValueError else ok (libm_log m x))"

definition price_to_tick :: "Libm \<Rightarrow> f64 \<Rightarrow> bool \<Rightarrow> int \<Rightarrow> int \<Rightarrow> int res" where
  "price_to_tick m price base_is_token0 token0_decimals token1_decimals =
     (if price \<le> 0 then raise_error ValueError
      else
        rbind (if base_is_token0 then fdiv price (ten_to m (token0_decimals - token1_decimals))
               else fdiv (ten_to m (token1_decimals - token0_decimals)) price) (\<lambda>raw.
        rbind (flog m raw) (\<lambda>log_raw.
        rbind (flog m (lit (10001 / 10000))) (\<lambda>log_base.
        rbind (fdiv log_raw log_base) (\<lambda>q.
          ok (max MIN_TICK (min MAX_TICK (float_floor q))))))))"

text \<open>A position's bounds computed from a price range are valid ticks, whatever the platform's library
  returns.
\<close>

theorem price_to_tick_in_range:
  "case price_to_tick m price base0 d0 d1 of
     Inl e \<Rightarrow> e = ValueError \<or> e = ZeroDivisionError
   | Inr tick \<Rightarrow> MIN_TICK \<le> tick \<and> tick \<le> MAX_TICK"
proof (cases "price_to_tick m price base0 d0 d1")
  case (Inl e)
  then have "e = ValueError \<or> e = ZeroDivisionError"
    by (auto simp: price_to_tick_def flog_def fdiv_def rbind_def split: if_splits sum.splits)
  with Inl show ?thesis by simp
next
  case (Inr tick)
  then show ?thesis by (auto simp: price_to_tick_def split: if_splits)
qed

section \<open>The V2-against-V3 scanner\<close>

datatype Direction = v3_to_v2 | v2_to_v3
datatype SizeReason = optimal_size | reference_size_used
datatype SimulatorState = sim_disabled | sim_waiting | sim_ok | sim_unavailable

definition DIRECTION_CODES :: "Direction \<Rightarrow> int" where
  "DIRECTION_CODES d = (case d of v3_to_v2 \<Rightarrow> 0 | v2_to_v3 \<Rightarrow> 1)"

record V2Reserves =
  rv_pair_address :: string
  rv_block_number :: int
  rv_reserve_usdc :: int
  rv_reserve_weth :: int

text \<open>\<open>(reserve_usdc / 1e6) / (reserve_weth / 1e18)\<close>, an integer divided by a float.\<close>

definition v2_reserve_price :: "int \<Rightarrow> int \<Rightarrow> f64 res" where
  "v2_reserve_price reserve_usdc reserve_weth =
     fdiv (float_of_int reserve_usdc / lit (10 ^ 6)) (float_of_int reserve_weth / lit (10 ^ 18))"

definition reserves_price :: "V2Reserves \<Rightarrow> f64 res" where
  "reserves_price r = v2_reserve_price (rv_reserve_usdc r) (rv_reserve_weth r)"

record ArbCandidate =
  ac_block_number :: int
  ac_direction :: Direction
  ac_amount_in :: int
  ac_size_reason :: SizeReason
  ac_v3_amount_out :: int
  ac_v2_amount_in :: int
  ac_v2_amount_out :: int
  ac_gross_profit_raw :: int
  ac_gross_profit_quote :: f64
  ac_notional_quote :: f64
  ac_gas_units :: int
  ac_gas_price_gwei :: f64
  ac_gas_cost_quote :: f64
  ac_net_profit_quote :: f64
  ac_exact :: bool
  ac_v2_price :: f64
  ac_v3_price :: f64
  ac_gap_bps :: f64
  ac_fees_bps :: f64

record SimulationResult =
  sr_block_number :: int
  sr_direction :: Direction
  sr_amount_in :: int
  sr_size_reason :: SizeReason
  sr_notional_quote :: f64
  sr_estimate_gross_quote :: f64
  sr_estimate_net_quote :: f64
  sr_exact_estimate :: bool
  sr_sim_v3_amount_in :: "int option"
  sr_sim_v3_amount_out :: "int option"
  sr_sim_v2_amount_in :: "int option"
  sr_sim_v2_amount_out :: "int option"
  sr_sim_gross_profit_raw :: "int option"
  sr_sim_gross_quote :: "f64 option"
  sr_gas_used :: "int option"
  sr_gas_price_gwei :: f64
  sr_gas_cost_quote :: "f64 option"
  sr_sim_net_quote :: "f64 option"
  sr_outcome :: string
  sr_outcome_note :: string
  sr_estimate_error_quote :: "f64 option"
  sr_estimate_error_bps :: "f64 option"
  sr_gap_bps :: f64
  sr_backend :: string
  sr_latency_ms :: f64
  sr_timestamp :: datetime
  sr_tick_id :: "string option"

definition estimate_says_profitable :: "SimulationResult \<Rightarrow> bool" where
  "estimate_says_profitable r \<longleftrightarrow> sr_estimate_net_quote r > 0"

definition simulation_says_profitable :: "SimulationResult \<Rightarrow> bool" where
  "simulation_says_profitable r \<longleftrightarrow> sr_outcome r = ''profitable''"

record SimulatorStatus =
  ss_enabled :: bool
  ss_state :: SimulatorState
  ss_reason :: "string option"
  ss_backend :: "string option"
  ss_skipped_total :: int
  ss_last_success_at :: "datetime option"

end
