(* ===== verification/V2_Math.thy ===== *)
theory V2_Math
  imports Lab_Prelude
begin

text \<open>
  \<open>app/market_data/uniswap_v2_math.py\<close>: the exact swap arithmetic of a Uniswap V2 pair, with the
  constant-product promise both routines keep.
\<close>

definition V2_FEE_NUMERATOR :: int where "V2_FEE_NUMERATOR = 997"
definition V2_FEE_DENOMINATOR :: int where "V2_FEE_DENOMINATOR = 1000"

definition get_amount_out :: "int \<Rightarrow> int \<Rightarrow> int \<Rightarrow> int res" where
  "get_amount_out amt_in reserve_in reserve_out =
     (if amt_in \<le> 0 \<or> reserve_in \<le> 0 \<or> reserve_out \<le> 0 then raise_error ValueError
      else
        let amount_in_with_fee = amt_in * V2_FEE_NUMERATOR
        in py_floordiv (amount_in_with_fee * reserve_out)
             (reserve_in * V2_FEE_DENOMINATOR + amount_in_with_fee))"

definition get_amount_in :: "int \<Rightarrow> int \<Rightarrow> int \<Rightarrow> int res" where
  "get_amount_in amt_out reserve_in reserve_out =
     (if amt_out \<le> 0 \<or> reserve_in \<le> 0 \<or> amt_out \<ge> reserve_out then raise_error ValueError
      else
        let numerator = reserve_in * amt_out * V2_FEE_DENOMINATOR;
            denominator = (reserve_out - amt_out) * V2_FEE_NUMERATOR
        in rbind (py_floordiv numerator denominator) (\<lambda>q. ok (q + 1)))"

lemmas v2_constants = V2_FEE_NUMERATOR_def V2_FEE_DENOMINATOR_def

lemma get_amount_out_Inr_iff:
  "get_amount_out x ri ro = Inr y \<longleftrightarrow>
     0 < x \<and> 0 < ri \<and> 0 < ro \<and> y = x * 997 * ro div (ri * 1000 + x * 997)"
proof -
  have "ri * 1000 + x * 997 \<noteq> 0" if "0 < x" "0 < ri" using that by linarith
  then show ?thesis by (auto simp: get_amount_out_def v2_constants Let_def)
qed

lemma get_amount_in_Inr_iff:
  "get_amount_in y ri ro = Inr x \<longleftrightarrow>
     0 < y \<and> 0 < ri \<and> y < ro \<and> x = ri * y * 1000 div ((ro - y) * 997) + 1"
  by (auto simp: get_amount_in_def v2_constants Let_def)

text \<open>The amount out is the largest one that keeps the fee-adjusted product.\<close>

lemma le_amount_out_iff:
  assumes "get_amount_out x ri ro = Inr y"
  shows "z \<le> y \<longleftrightarrow> ri * ro * 1000 \<le> (ri * 1000 + x * 997) * (ro - z)"
proof -
  have "0 < ri * 1000 + x * 997" using assms by (auto simp: get_amount_out_Inr_iff)
  then have "z \<le> y \<longleftrightarrow> z * (ri * 1000 + x * 997) \<le> x * 997 * ro"
    using assms by (simp add: get_amount_out_Inr_iff floor_le_iff)
  then show ?thesis by (simp add: algebra_simps)
qed

text \<open>A swap never lowers the product of the reserves: the fee-adjusted product the pair contract checks
  is kept exactly, the amount out is below the reserve, and one more unit out would break the check.
\<close>

theorem v2_swap_keeps_product:
  assumes "get_amount_out x ri ro = Inr y"
  shows "0 \<le> y \<and> y < ro
    \<and> ri * ro * 1000 \<le> (ri * 1000 + x * 997) * (ro - y)
    \<and> ri * ro \<le> (ri + x) * (ro - y)
    \<and> (ri * 1000 + x * 997) * (ro - (y + 1)) < ri * ro * 1000"
proof (intro conjI)
  have pos: "0 < x" "0 < ri" "0 < ro" using assms by (auto simp: get_amount_out_Inr_iff)
  show kept: "ri * ro * 1000 \<le> (ri * 1000 + x * 997) * (ro - y)"
    using le_amount_out_iff [OF assms, of y] by simp
  show "(ri * 1000 + x * 997) * (ro - (y + 1)) < ri * ro * 1000"
    using le_amount_out_iff [OF assms, of "y + 1"] by simp
  show "0 \<le> y" using le_amount_out_iff [OF assms, of 0] pos by (simp add: algebra_simps)
  have "0 < ri * ro * 1000" using pos by simp
  then have "0 < (ri * 1000 + x * 997) * (ro - y)" using kept by linarith
  moreover have "0 < ri * 1000 + x * 997" using pos by simp
  ultimately show lt: "y < ro" by (simp add: zero_less_mult_iff)
  have "(ri * 1000 + x * 997) * (ro - y) \<le> (ri * 1000 + x * 1000) * (ro - y)"
    using lt pos by (intro mult_right_mono) simp_all
  with kept have "ri * ro * 1000 \<le> (ri + x) * (ro - y) * 1000" by (simp add: algebra_simps)
  then show "ri * ro \<le> (ri + x) * (ro - y)" by simp
qed

theorem v2_swap_keeps_product_witness:
  "0 \<le> (1665 :: int) \<and> (1665 :: int) < 2000
    \<and> 1000 * 2000 * 1000 \<le> (1000 * 1000 + 5000 * 997) * (2000 - 1665 :: int)
    \<and> 1000 * 2000 \<le> (1000 + 5000) * (2000 - 1665 :: int)
    \<and> (1000 * 1000 + 5000 * 997) * (2000 - (1665 + 1)) < 1000 * 2000 * (1000 :: int)"
proof (rule v2_swap_keeps_product)
  show "get_amount_out 5000 1000 2000 = Inr 1665" by code_simp
qed

lemma get_amount_in_enough:
  assumes "get_amount_in y ri ro = Inr x"
  shows "\<exists>z. get_amount_out x ri ro = Inr z \<and> y \<le> z
    \<and> (\<forall>x' z'. get_amount_out x' ri ro = Inr z' \<and> y \<le> z' \<longrightarrow> x \<le> x' + 1)"
proof -
  have pos: "0 < y" "0 < ri" "y < ro" and x: "x - 1 = ri * y * 1000 div ((ro - y) * 997)"
    using assms by (auto simp: get_amount_in_Inr_iff)
  let ?d = "(ro - y) * 997"
  have d: "0 < ?d" using pos by simp
  have "0 \<le> x - 1" unfolding x using pos d by (simp add: pos_imp_zdiv_nonneg_iff)
  then obtain z where z: "get_amount_out x ri ro = Inr z"
    using pos by (auto simp: get_amount_out_Inr_iff)
  have "ri * y * 1000 < (x - 1 + 1) * ?d" unfolding x using d by (rule floor_mult_gt)
  then have "y \<le> z" unfolding le_amount_out_iff [OF z] by (simp add: algebra_simps)
  moreover have "x \<le> x' + 1" if "get_amount_out x' ri ro = Inr z'" "y \<le> z'" for x' z'
  proof -
    have "ri * y * 1000 \<le> x' * ?d"
      using that(2) unfolding le_amount_out_iff [OF that(1)] by (simp add: algebra_simps)
    moreover have "(x - 1) * ?d \<le> ri * y * 1000" unfolding x using d by (rule floor_mult_le)
    ultimately have "(x - 1) * ?d \<le> x' * ?d" by linarith
    then show ?thesis using d by (simp only: mult_le_cancel_right_pos)
  qed
  ultimately show ?thesis using z by blast
qed

text \<open>The amount in buys at least the amount asked for, and no amount smaller by two or more does.
\<close>

theorem v2_amount_in_sufficient:
  assumes "get_amount_in y ri ro = Inr x"
  shows "\<exists>z. get_amount_out x ri ro = Inr z \<and> y \<le> z
    \<and> (\<forall>x' z'. get_amount_out x' ri ro = Inr z' \<and> y \<le> z' \<longrightarrow> x \<le> x' + 1)"
  using assms by (rule get_amount_in_enough)

theorem v2_amount_in_sufficient_witness:
  "\<exists>z. get_amount_out 5 100 1000 = Inr z \<and> 41 \<le> z
    \<and> (\<forall>x' z'. get_amount_out x' 100 1000 = Inr z' \<and> 41 \<le> z' \<longrightarrow> 5 \<le> x' + 1)"
proof (rule v2_amount_in_sufficient)
  show "get_amount_in 41 100 1000 = Inr 5" by code_simp
qed

end
