(* ===== verification/Dex_Arb.thy ===== *)
theory Dex_Arb
  imports V3_Models V2_Math
begin

text \<open>
  \<open>app/services/dex_arb_scanner.py\<close>: the exact V2-against-V3 candidate of one block. Both legs use
  the integer mathematics of the V2 and V3 theories; the size comes from an integer ternary search.
\<close>

definition USDC_UNIT :: int where "USDC_UNIT = 10 ^ 6"
definition WETH_UNIT :: int where "WETH_UNIT = 10 ^ 18"
definition V2_FEE_BPS :: f64 where "V2_FEE_BPS = lit 30"
definition SEARCH_ITERATIONS :: nat where "SEARCH_ITERATIONS = 200"

record Leg =
  lg_profit :: int
  lg_v3_out :: int
  lg_v2_in :: int
  lg_v2_out :: int
  lg_exact :: bool

text \<open>An \<open>except ValueError\<close> around a computation: the handler's value replaces the exception.\<close>

definition catch_value_error :: "'a res \<Rightarrow> 'a res \<Rightarrow> 'a res" where
  "catch_value_error r handler = (case r of Inl e \<Rightarrow> if py_value_error e then handler else Inl e | Inr x \<Rightarrow> Inr x)"

definition evaluate :: "Direction \<Rightarrow> int \<Rightarrow> V3PoolSnapshot \<Rightarrow> V2Reserves \<Rightarrow> Leg option res" where
  "evaluate direction amt_in snapshot reserves =
     (case sn_window snapshot of
        None \<Rightarrow> ok None
      | Some window \<Rightarrow>
          if amt_in \<le> 0 then ok None
          else
            let usdc_is_token0 = \<not> md_base_is_token0 (sn_metadata snapshot);
                pays_usdc = (direction = v3_to_v2)
            in rbind (simulate_exact_input (pool_state_from_snapshot snapshot) window
                        (pays_usdc = usdc_is_token0) amt_in None) (\<lambda>quote.
               if q_limit_reason quote \<noteq> None \<or> q_amount_in_consumed quote \<noteq> amt_in then ok None
               else catch_value_error
                 (if pays_usdc then
                    let weth_in = q_amount_out quote
                    in rbind (get_amount_out weth_in (rv_reserve_weth reserves) (rv_reserve_usdc reserves)) (\<lambda>usdc_out.
                       ok (Some \<lparr> lg_profit = usdc_out - amt_in, lg_v3_out = weth_in, lg_v2_in = weth_in,
                                  lg_v2_out = usdc_out, lg_exact = q_exact quote \<rparr>))
                  else
                    rbind (get_amount_in amt_in (rv_reserve_usdc reserves) (rv_reserve_weth reserves)) (\<lambda>usdc_cost.
                      ok (Some \<lparr> lg_profit = q_amount_out quote - usdc_cost, lg_v3_out = q_amount_out quote,
                                 lg_v2_in = usdc_cost, lg_v2_out = amt_in, lg_exact = q_exact quote \<rparr>)))
                 (ok None)))"

definition profit_or_floor :: "Direction \<Rightarrow> V3PoolSnapshot \<Rightarrow> V2Reserves \<Rightarrow> int \<Rightarrow> int res" where
  "profit_or_floor direction snapshot reserves amt_in =
     rbind (evaluate direction amt_in snapshot reserves) (\<lambda>leg.
       ok (case leg of Some l \<Rightarrow> lg_profit l | None \<Rightarrow> - (10 ^ 40)))"

text \<open>\<open>max(iterable, key=...)\<close>: the first element with the greatest key, an error when empty.\<close>

fun max_from :: "(int \<Rightarrow> int res) \<Rightarrow> int \<Rightarrow> int \<Rightarrow> int list \<Rightarrow> int res" where
  "max_from key best best_key [] = ok best"
| "max_from key best best_key (x # xs) =
     rbind (key x) (\<lambda>k. if k > best_key then max_from key x k xs else max_from key best best_key xs)"

fun max_by :: "(int \<Rightarrow> int res) \<Rightarrow> int list \<Rightarrow> int res" where
  "max_by key [] = raise_error ValueError"
| "max_by key (x # xs) = rbind (key x) (\<lambda>k. max_from key x k xs)"

fun ternary_search :: "(int \<Rightarrow> int res) \<Rightarrow> nat \<Rightarrow> int \<Rightarrow> int \<Rightarrow> (int \<times> int) res" where
  "ternary_search profit 0 lo hi = ok (lo, hi)"
| "ternary_search profit (Suc n) lo hi =
     (if hi - lo \<le> 2 then ok (lo, hi)
      else
        let third = (hi - lo) div 3; m1 = lo + third; m2 = hi - third
        in rbind (profit m1) (\<lambda>p1. rbind (profit m2) (\<lambda>p2.
           if p1 < p2 then ternary_search profit n m1 hi else ternary_search profit n lo m2)))"

definition search_bounds :: "Direction \<Rightarrow> V2Reserves \<Rightarrow> int \<times> int" where
  "search_bounds direction reserves =
     (if direction = v3_to_v2 then (USDC_UNIT, rv_reserve_usdc reserves div 4)
      else (WETH_UNIT div 1000, rv_reserve_weth reserves div 4))"

definition best_size :: "Direction \<Rightarrow> V3PoolSnapshot \<Rightarrow> V2Reserves \<Rightarrow> int res" where
  "best_size direction snapshot reserves =
     (let profit = profit_or_floor direction snapshot reserves; (lo, hi) = search_bounds direction reserves
      in rbind (ternary_search profit SEARCH_ITERATIONS lo hi) (\<lambda>(lo, hi). max_by profit [lo..hi]))"

definition reference_size :: "Direction \<Rightarrow> f64 \<Rightarrow> f64 \<Rightarrow> int res" where
  "reference_size direction reference_quote v3_price =
     (if direction = v3_to_v2 then ok (int_of_float (reference_quote * float_of_int USDC_UNIT))
      else rbind (fdiv reference_quote v3_price) (\<lambda>q. ok (int_of_float (q * float_of_int WETH_UNIT))))"

definition candidate_of ::
    "V3PoolSnapshot \<Rightarrow> int \<Rightarrow> f64 \<Rightarrow> Direction \<Rightarrow> int \<Rightarrow> SizeReason \<Rightarrow> Leg \<Rightarrow> f64 \<Rightarrow> ArbCandidate" where
  "candidate_of snapshot gas_units gas_price_gwei direction amt_in size_reason leg v2_price =
     (let v3_price = sn_price snapshot;
          gross_quote = lit (real_of_int (lg_profit leg) / real_of_int USDC_UNIT);
          notional = (if direction = v3_to_v2 then lit (real_of_int amt_in / real_of_int USDC_UNIT)
                      else lit (real_of_int amt_in / real_of_int WETH_UNIT) * v3_price);
          gas_cost = float_of_int gas_units * gas_price_gwei * lit (1 / 10 ^ 9) * v3_price
      in \<lparr> ac_block_number = sn_block_number snapshot, ac_direction = direction, ac_amount_in = amt_in,
           ac_size_reason = size_reason, ac_v3_amount_out = lg_v3_out leg, ac_v2_amount_in = lg_v2_in leg,
           ac_v2_amount_out = lg_v2_out leg, ac_gross_profit_raw = lg_profit leg,
           ac_gross_profit_quote = gross_quote, ac_notional_quote = notional, ac_gas_units = gas_units,
           ac_gas_price_gwei = gas_price_gwei, ac_gas_cost_quote = gas_cost,
           ac_net_profit_quote = gross_quote - gas_cost,
           ac_exact = (lg_exact leg \<and> window_is_current snapshot),
           ac_v2_price = v2_price, ac_v3_price = v3_price,
           ac_gap_bps = (v2_price - v3_price) / v3_price * lit 10000,
           ac_fees_bps = fee_tier_bps (sn_metadata snapshot) + V2_FEE_BPS \<rparr>)"

definition pays_better :: "V3PoolSnapshot \<Rightarrow> f64 \<Rightarrow> Direction" where
  "pays_better snapshot v2_price = (if sn_price snapshot < v2_price then v3_to_v2 else v2_to_v3)"

text \<open>The fallback of an unprofitable best size: what the reference size would have made.\<close>

definition reference_candidate ::
    "V3PoolSnapshot \<Rightarrow> V2Reserves \<Rightarrow> f64 \<Rightarrow> int \<Rightarrow> f64 \<Rightarrow> Direction \<Rightarrow> f64 \<Rightarrow> ArbCandidate option res" where
  "reference_candidate snapshot reserves reference_size_quote gas_units gas_price_gwei direction v2_price =
     rbind (reference_size direction reference_size_quote (sn_price snapshot)) (\<lambda>amt_in.
     rbind (evaluate direction amt_in snapshot reserves) (\<lambda>leg.
       ok (map_option (\<lambda>l. candidate_of snapshot gas_units gas_price_gwei direction amt_in
                             reference_size_used l v2_price) leg)))"

definition scan_dex_arb ::
    "V3PoolSnapshot \<Rightarrow> V2Reserves \<Rightarrow> f64 \<Rightarrow> int \<Rightarrow> f64 \<Rightarrow> ArbCandidate option res" where
  "scan_dex_arb snapshot reserves reference_size_quote gas_units gas_price_gwei =
     (if sn_window snapshot = None \<or> sn_is_stale snapshot \<or> sn_price snapshot \<le> 0
         \<or> rv_block_number reserves \<noteq> sn_block_number snapshot
      then ok None
      else
        rbind (reserves_price reserves) (\<lambda>v2_price.
        let direction = pays_better snapshot v2_price in
        rbind (best_size direction snapshot reserves) (\<lambda>amt_in.
        rbind (evaluate direction amt_in snapshot reserves) (\<lambda>leg.
        let fallback = reference_candidate snapshot reserves reference_size_quote gas_units gas_price_gwei
                         direction v2_price in
        case leg of
          None \<Rightarrow> fallback
        | Some l \<Rightarrow>
            if lg_profit l \<le> 0 then fallback
            else ok (Some (candidate_of snapshot gas_units gas_price_gwei direction amt_in optimal_size l v2_price))))))"

section \<open>The search\<close>

text \<open>A profit curve that rises strictly to \<open>p\<close> and falls strictly after it.\<close>

definition peak_at :: "(int \<Rightarrow> int) \<Rightarrow> int \<Rightarrow> int \<Rightarrow> int \<Rightarrow> bool" where
  "peak_at g lo hi p \<longleftrightarrow> lo \<le> p \<and> p \<le> hi
     \<and> (\<forall>x y. lo \<le> x \<longrightarrow> x < y \<longrightarrow> y \<le> p \<longrightarrow> g x < g y)
     \<and> (\<forall>x y. p \<le> x \<longrightarrow> x < y \<longrightarrow> y \<le> hi \<longrightarrow> g y < g x)"

lemma peak_at_left: "peak_at g lo hi p \<Longrightarrow> lo \<le> m \<Longrightarrow> m \<le> p \<Longrightarrow> peak_at g m hi p"
  by (auto simp: peak_at_def)

lemma peak_at_right: "peak_at g lo hi p \<Longrightarrow> m \<le> hi \<Longrightarrow> p \<le> m \<Longrightarrow> peak_at g lo m p"
  by (auto simp: peak_at_def)

lemma peak_at_max: "peak_at g lo hi p \<Longrightarrow> lo \<le> x \<Longrightarrow> x \<le> hi \<Longrightarrow> x \<noteq> p \<Longrightarrow> g x < g p"
  unfolding peak_at_def by (metis linorder_neqE order_refl)

lemma third_facts:
  fixes w :: int
  assumes "2 < w"
  shows "1 \<le> w div 3" "w div 3 < w - w div 3" "3 * (w - w div 3 - 2) \<le> 2 * (w - 2)"
  using assms by presburger+

lemma ternary_search_result:
  assumes total: "\<forall>x. lo0 \<le> x \<and> x \<le> hi0 \<longrightarrow> profit x = Inr (g x)"
    and "lo0 \<le> lo" "lo \<le> hi" "hi \<le> hi0"
  shows "\<exists>lo' hi'. ternary_search profit n lo hi = Inr (lo', hi') \<and> lo \<le> lo' \<and> lo' \<le> hi' \<and> hi' \<le> hi
    \<and> ((hi - lo - 2) * 2 ^ n < 3 ^ n \<longrightarrow> hi' - lo' \<le> 2)
    \<and> (\<forall>p. peak_at g lo hi p \<longrightarrow> peak_at g lo' hi' p)"
  using assms(2-4)
proof (induction n arbitrary: lo hi)
  case (Suc n)
  show ?case
  proof (cases "hi - lo \<le> 2")
    case True
    then show ?thesis using Suc.prems by simp
  next
    case False
    define t where "t = (hi - lo) div 3"
    have t: "1 \<le> t" "lo + t < hi - t" "3 * (hi - t - lo - 2) \<le> 2 * (hi - lo - 2)"
      using third_facts [of "hi - lo"] False by (simp_all add: t_def)
    have vals: "profit (lo + t) = Inr (g (lo + t))" "profit (hi - t) = Inr (g (hi - t))"
      using total Suc.prems t by simp_all
    have small: "(w - 2) * 2 ^ n < 3 ^ n" if "(hi - lo - 2) * 2 ^ Suc n < 3 ^ Suc n" "w = hi - t - lo" for w
    proof -
      have "3 * (w - 2) \<le> 2 * (hi - lo - 2)" using t(3) that(2) by simp
      then have "3 * (w - 2) * 2 ^ n \<le> 2 * (hi - lo - 2) * 2 ^ n" by (rule mult_right_mono) simp
      then have "3 * ((w - 2) * 2 ^ n) \<le> 2 * (hi - lo - 2) * 2 ^ n" by simp
      also have "2 * (hi - lo - 2) * 2 ^ n = (hi - lo - 2) * 2 ^ Suc n" by (simp only: power_Suc mult_ac)
      also have "\<dots> < 3 ^ Suc n" by (rule that(1))
      also have "\<dots> = 3 * 3 ^ n" by simp
      finally show ?thesis by simp
    qed
    show ?thesis
    proof (cases "g (lo + t) < g (hi - t)")
      case True
      have "\<exists>lo' hi'. ternary_search profit n (lo + t) hi = Inr (lo', hi') \<and> lo + t \<le> lo' \<and> lo' \<le> hi' \<and> hi' \<le> hi
          \<and> ((hi - (lo + t) - 2) * 2 ^ n < 3 ^ n \<longrightarrow> hi' - lo' \<le> 2)
          \<and> (\<forall>p. peak_at g (lo + t) hi p \<longrightarrow> peak_at g lo' hi' p)"
        using Suc.prems t by (intro Suc.IH) linarith+
      then obtain lo' hi' where r: "ternary_search profit n (lo + t) hi = Inr (lo', hi')" "lo + t \<le> lo'" "lo' \<le> hi'" "hi' \<le> hi"
          "(hi - (lo + t) - 2) * 2 ^ n < 3 ^ n \<longrightarrow> hi' - lo' \<le> 2"
          "\<forall>p. peak_at g (lo + t) hi p \<longrightarrow> peak_at g lo' hi' p" by blast
      have "peak_at g (lo + t) hi p" if "peak_at g lo hi p" for p
      proof (rule peak_at_left [OF that])
        show "lo + t \<le> p"
        proof (rule ccontr)
          assume "\<not> lo + t \<le> p"
          then have "g (hi - t) < g (lo + t)" using that t Suc.prems unfolding peak_at_def by simp
          with True show False by simp
        qed
      qed (use t in simp)
      moreover have "ternary_search profit (Suc n) lo hi = Inr (lo', hi')"
        using False True vals r(1) by (simp add: t_def [symmetric])
      moreover have "(hi - lo - 2) * 2 ^ Suc n < 3 ^ Suc n \<longrightarrow> hi' - lo' \<le> 2"
        using small [of "hi - (lo + t)"] r(5) by (simp add: algebra_simps)
      ultimately show ?thesis using r t by (intro exI [of _ lo'] exI [of _ hi']) auto
    next
      case ge: False
      have "\<exists>lo' hi'. ternary_search profit n lo (hi - t) = Inr (lo', hi') \<and> lo \<le> lo' \<and> lo' \<le> hi' \<and> hi' \<le> hi - t
          \<and> ((hi - t - lo - 2) * 2 ^ n < 3 ^ n \<longrightarrow> hi' - lo' \<le> 2)
          \<and> (\<forall>p. peak_at g lo (hi - t) p \<longrightarrow> peak_at g lo' hi' p)"
        using Suc.prems t by (intro Suc.IH) linarith+
      then obtain lo' hi' where r: "ternary_search profit n lo (hi - t) = Inr (lo', hi')" "lo \<le> lo'" "lo' \<le> hi'" "hi' \<le> hi - t"
          "(hi - t - lo - 2) * 2 ^ n < 3 ^ n \<longrightarrow> hi' - lo' \<le> 2"
          "\<forall>p. peak_at g lo (hi - t) p \<longrightarrow> peak_at g lo' hi' p" by blast
      have "peak_at g lo (hi - t) p" if "peak_at g lo hi p" for p
      proof (rule peak_at_right [OF that])
        show "p \<le> hi - t"
        proof (rule ccontr)
          assume "\<not> p \<le> hi - t"
          then have "g (lo + t) < g (hi - t)" using that t Suc.prems unfolding peak_at_def by simp
          with ge show False by simp
        qed
      qed (use t in simp)
      moreover have "ternary_search profit (Suc n) lo hi = Inr (lo', hi')"
        using False ge vals r(1) by (simp add: t_def [symmetric])
      moreover have "(hi - lo - 2) * 2 ^ Suc n < 3 ^ Suc n \<longrightarrow> hi' - lo' \<le> 2"
        using small [of "hi - t - lo"] r(5) by simp
      ultimately show ?thesis using r t by (intro exI [of _ lo'] exI [of _ hi']) auto
    qed
  qed
qed simp

lemma max_from_result:
  assumes "\<forall>x\<in>set xs. key x = Inr (g x)" and "k = g b"
  shows "\<exists>y. max_from key b k xs = Inr y \<and> y \<in> insert b (set xs) \<and> (\<forall>x\<in>insert b (set xs). g x \<le> g y)"
  using assms
proof (induction xs arbitrary: b k)
  case (Cons x xs)
  show ?case
  proof (cases "g x > k")
    case True
    then obtain y where "max_from key x (g x) xs = Inr y" "y \<in> insert x (set xs)" "\<forall>z\<in>insert x (set xs). g z \<le> g y"
      using Cons.IH [of "g x" x] Cons.prems(1) by auto
    then show ?thesis using True Cons.prems by force
  next
    case False
    then obtain y where "max_from key b k xs = Inr y" "y \<in> insert b (set xs)" "\<forall>z\<in>insert b (set xs). g z \<le> g y"
      using Cons.IH [of k b] Cons.prems by auto
    then show ?thesis using False Cons.prems by force
  qed
qed simp

lemma max_by_result:
  assumes "\<forall>x\<in>set xs. key x = Inr (g x)" and "xs \<noteq> []"
  shows "\<exists>y. max_by key xs = Inr y \<and> y \<in> set xs \<and> (\<forall>x\<in>set xs. g x \<le> g y)"
proof (cases xs)
  case (Cons x ys)
  then show ?thesis using assms max_from_result [of ys key g "g x" x] by auto
qed (use assms in simp)

lemma best_size_result:
  assumes total: "\<forall>x. fst (search_bounds d r) \<le> x \<and> x \<le> snd (search_bounds d r) \<longrightarrow> profit_or_floor d s r x = Inr (g x)"
    and nonempty: "fst (search_bounds d r) \<le> snd (search_bounds d r)"
    and small: "snd (search_bounds d r) - fst (search_bounds d r) \<le> 2 ^ 112"
  shows "\<exists>x. best_size d s r = Inr x \<and> fst (search_bounds d r) \<le> x \<and> x \<le> snd (search_bounds d r)
    \<and> (\<forall>p. peak_at g (fst (search_bounds d r)) (snd (search_bounds d r)) p \<longrightarrow> x = p)"
proof -
  obtain lo hi where b: "search_bounds d r = (lo, hi)" by (cases "search_bounds d r")
  obtain lo' hi' where t: "ternary_search (profit_or_floor d s r) SEARCH_ITERATIONS lo hi = Inr (lo', hi')"
      "lo \<le> lo'" "lo' \<le> hi'" "hi' \<le> hi" "\<forall>p. peak_at g lo hi p \<longrightarrow> peak_at g lo' hi' p"
    using ternary_search_result [of lo hi "profit_or_floor d s r" g lo hi SEARCH_ITERATIONS] total nonempty
    by (auto simp: b)
  have "\<forall>x\<in>set [lo'..hi']. profit_or_floor d s r x = Inr (g x)" using total t by (simp add: b)
  then obtain x where x: "max_by (profit_or_floor d s r) [lo'..hi'] = Inr x" "lo' \<le> x" "x \<le> hi'"
      "\<forall>y. lo' \<le> y \<and> y \<le> hi' \<longrightarrow> g y \<le> g x"
    using max_by_result [of "[lo'..hi']" "profit_or_floor d s r" g] t by auto
  have "x = p" if "peak_at g lo hi p" for p
  proof (rule ccontr)
    assume "x \<noteq> p"
    have peak: "peak_at g lo' hi' p" using t(5) that by blast
    then have "g x < g p" using x(2,3) \<open>x \<noteq> p\<close> by (rule peak_at_max)
    moreover have "g p \<le> g x" using x(4) peak by (auto simp: peak_at_def)
    ultimately show False by simp
  qed
  then show ?thesis using t x by (auto simp: best_size_def b)
qed

lemma search_width: "w \<le> 2 ^ 112 \<Longrightarrow> (w - 2) * 2 ^ SEARCH_ITERATIONS < 3 ^ SEARCH_ITERATIONS" for w :: int
proof -
  assume "w \<le> 2 ^ 112"
  then have "(w - 2) * 2 ^ 200 \<le> 2 ^ 112 * 2 ^ 200" by (intro mult_right_mono) auto
  also have "\<dots> < (3::int) ^ 200" by simp
  finally show ?thesis by (simp add: SEARCH_ITERATIONS_def)
qed


definition example_metadata :: PoolMetadata where
  "example_metadata = \<lparr> md_pool_address = ''0x88e6'', md_token0 = ''USDC'', md_token1 = ''WETH'', md_token0_decimals = 6,
     md_token1_decimals = 18, md_fee_pips = 500, md_tick_spacing = 10, md_base_is_token0 = False \<rparr>"

definition example_snapshot :: "TickWindow option \<Rightarrow> V3PoolSnapshot" where
  "example_snapshot window = \<lparr> sn_metadata = example_metadata, sn_sqrt_price_x96 = 2 ^ 96, sn_tick = 0, sn_liquidity = 10 ^ 18,
     sn_fee_growth_global0_x128 = 0, sn_fee_growth_global1_x128 = 0, sn_block_number = 17, sn_block_timestamp = 0,
     sn_price = lit 2000, sn_lower_tick_info = None, sn_upper_tick_info = None, sn_base_fee_wei = None,
     sn_window = window, sn_is_stale = False, sn_is_incomplete = False, sn_data_source = fixture, sn_tick_id = None \<rparr>"

definition example_reserves :: V2Reserves where
  "example_reserves = \<lparr> rv_pair_address = ''0xb4e1'', rv_block_number = 17, rv_reserve_usdc = 4 * 10 ^ 6,
     rv_reserve_weth = 10 ^ 18 \<rparr>"


lemma catch_value_error_InrD:
  "catch_value_error (rbind m (\<lambda>x. ok (Some (f x)))) (ok None) = Inr (Some l) \<Longrightarrow> \<exists>x. m = Inr x \<and> l = f x"
  by (cases m) (auto simp: catch_value_error_def split: if_splits)

lemma evaluate_Some:
  assumes "evaluate d amt s r = Inr (Some leg)"
  shows "0 < amt"
    and "d = v3_to_v2 \<Longrightarrow> get_amount_out (lg_v3_out leg) (rv_reserve_weth r) (rv_reserve_usdc r) = Inr (lg_v2_out leg)
          \<and> lg_profit leg = lg_v2_out leg - amt"
    and "d \<noteq> v3_to_v2 \<Longrightarrow> get_amount_in amt (rv_reserve_usdc r) (rv_reserve_weth r) = Inr (lg_v2_in leg)
          \<and> lg_profit leg = lg_v3_out leg - lg_v2_in leg"
  using assms
  by (auto simp: evaluate_def Let_def split: option.splits if_splits dest!: catch_value_error_InrD)

lemma evaluate_error: "evaluate d amt s r = Inl e \<Longrightarrow> sn_window s \<noteq> None \<and> 0 < amt"
  by (auto simp: evaluate_def split: option.splits if_splits)

text \<open>A size the scanner evaluates pays what it says: the V2 leg of a reported profit is exactly what
  the pair's formula gives for the amounts of the V3 leg, and when the V2 leg is bought, the input
  stated buys at least the amount owed, so that the profit is never overstated.
\<close>

theorem evaluated_profit_is_executable:
  "case evaluate d amt s r of
     Inr (Some leg) \<Rightarrow> 0 < amt \<and>
       (if d = v3_to_v2
        then get_amount_out (lg_v3_out leg) (rv_reserve_weth r) (rv_reserve_usdc r) = Inr (lg_v2_out leg)
          \<and> lg_profit leg = lg_v2_out leg - amt
        else (\<exists>bought. get_amount_out (lg_v2_in leg) (rv_reserve_usdc r) (rv_reserve_weth r) = Inr bought \<and> amt \<le> bought)
          \<and> lg_profit leg = lg_v3_out leg - lg_v2_in leg)
   | Inr None \<Rightarrow> True
   | Inl e \<Rightarrow> sn_window s \<noteq> None \<and> 0 < amt"
proof (cases "evaluate d amt s r")
  case (Inl e)
  then show ?thesis using evaluate_error by simp
next
  case (Inr result)
  show ?thesis
  proof (cases result)
    case (Some leg)
    then show ?thesis
      using Inr evaluate_Some [of d amt s r leg] get_amount_in_enough [of amt "rv_reserve_usdc r" "rv_reserve_weth r" "lg_v2_in leg"]
      by (cases "d = v3_to_v2") auto
  qed (simp add: Inr)
qed

lemma candidate_of_simps [simp]:
  "ac_block_number (candidate_of s g gp d a sr l p) = sn_block_number s"
  "ac_direction (candidate_of s g gp d a sr l p) = d"
  "ac_amount_in (candidate_of s g gp d a sr l p) = a"
  "ac_size_reason (candidate_of s g gp d a sr l p) = sr"
  "ac_gross_profit_raw (candidate_of s g gp d a sr l p) = lg_profit l"
  "ac_exact (candidate_of s g gp d a sr l p) = (lg_exact l \<and> window_is_current s)"
  "ac_v2_price (candidate_of s g gp d a sr l p) = p"
  by (simp_all add: candidate_of_def Let_def)

text \<open>A reported candidate compares the two pools at one block, with a window and no stale snapshot; it
  trades from the cheaper pool to the dearer, its raw profit is that of the evaluated size, and it
  is called optimal only when the best size found makes a profit.
\<close>

theorem scan_dex_arb_sound:
  "case scan_dex_arb s r reference gas_units gas_price of
     Inr (Some c) \<Rightarrow>
       rv_block_number r = sn_block_number s \<and> ac_block_number c = sn_block_number s
       \<and> \<not> sn_is_stale s \<and> sn_window s \<noteq> None
       \<and> reserves_price r = Inr (ac_v2_price c)
       \<and> (ac_direction c = v3_to_v2 \<longleftrightarrow> sn_price s < ac_v2_price c)
       \<and> (\<exists>leg. evaluate (ac_direction c) (ac_amount_in c) s r = Inr (Some leg) \<and> ac_gross_profit_raw c = lg_profit leg)
       \<and> (\<exists>best. best_size (ac_direction c) s r = Inr best
            \<and> (if ac_size_reason c = optimal_size then ac_amount_in c = best \<and> 0 < ac_gross_profit_raw c
               else case evaluate (ac_direction c) best s r of Inr (Some leg) \<Rightarrow> lg_profit leg \<le> 0 | _ \<Rightarrow> True))
   | _ \<Rightarrow> True"
proof (cases "\<exists>c. scan_dex_arb s r reference gas_units gas_price = Inr (Some c)")
  case True
  then obtain c where c: "scan_dex_arb s r reference gas_units gas_price = Inr (Some c)" by blast
  have guards: "sn_window s \<noteq> None" "\<not> sn_is_stale s" "rv_block_number r = sn_block_number s"
    using c by (auto simp: scan_dex_arb_def split: if_splits)
  define d where "d = pays_better s"
  obtain p best leg where p: "reserves_price r = Inr p" "best_size (d p) s r = Inr best"
      "evaluate (d p) best s r = Inr leg"
      "(case leg of None \<Rightarrow> reference_candidate s r reference gas_units gas_price (d p) p
        | Some l \<Rightarrow> if lg_profit l \<le> 0 then reference_candidate s r reference gas_units gas_price (d p) p
            else ok (Some (candidate_of s gas_units gas_price (d p) best optimal_size l p))) = Inr (Some c)"
    using c guards unfolding scan_dex_arb_def Let_def d_def by (auto simp del: option.case split: if_split_asm)
  have d: "(d p = v3_to_v2) = (sn_price s < p)" by (simp add: d_def pays_better_def)
  show ?thesis
  proof (cases "\<exists>l. leg = Some l \<and> 0 < lg_profit l")
    case True
    then show ?thesis unfolding c sum.case option.case using p d guards by auto
  next
    case False
    then have "reference_candidate s r reference gas_units gas_price (d p) p = Inr (Some c)"
      using p(4) by (cases leg) auto
    then obtain ref_in l where "evaluate (d p) ref_in s r = Inr (Some l)"
        "c = candidate_of s gas_units gas_price (d p) ref_in reference_size_used l p"
      by (auto simp: reference_candidate_def)
    then show ?thesis unfolding c sum.case option.case using p d guards False by (cases leg) auto
  qed
next
  case False
  then show ?thesis by (auto split: sum.split option.split)
qed

end
