(* ===== verification/Amm_Pool.thy ===== *)
theory Amm_Pool
  imports Lab_Domain
begin

text \<open>
  \<open>app/market_data/amm_pool.py\<close> and \<open>app/market_data/amm_types.py\<close>: the constant-product pool on floats
  that the exchange-against-pool scanner quotes. A division whose divisor the code does not guard
  is \<open>fdiv\<close>, which raises on zero.
\<close>

datatype SwapDirection = BASE_TO_QUOTE | QUOTE_TO_BASE

record AmmPool =
  ap_base_reserve :: f64
  ap_quote_reserve :: f64
  ap_fee_bps :: f64

definition spot_price :: "AmmPool \<Rightarrow> f64" where
  "spot_price pool =
     (if ap_base_reserve pool \<le> 0 then 0 else ap_quote_reserve pool / ap_base_reserve pool)"

definition quote_swap :: "AmmPool \<Rightarrow> f64 \<Rightarrow> SwapDirection \<Rightarrow> f64 res" where
  "quote_swap pool amount_in direction =
     (if amount_in \<le> 0 then ok 0
      else
        let fee_multiplier = 1 - ap_fee_bps pool / lit 10000;
            amount_in_after_fee = amount_in * fee_multiplier;
            (reserve_in, reserve_out) =
              (if direction = BASE_TO_QUOTE then (ap_base_reserve pool, ap_quote_reserve pool)
               else (ap_quote_reserve pool, ap_base_reserve pool))
        in if reserve_in \<le> 0 \<or> reserve_out \<le> 0 then ok 0
           else fdiv (amount_in_after_fee * reserve_out) (reserve_in + amount_in_after_fee))"

definition effective_price :: "AmmPool \<Rightarrow> f64 \<Rightarrow> SwapDirection \<Rightarrow> f64 res" where
  "effective_price pool amount_in direction =
     rbind (quote_swap pool amount_in direction) (\<lambda>amount_out.
       if amount_in \<le> 0 \<or> amount_out \<le> 0 then ok 0
       else if direction = BASE_TO_QUOTE then ok (amount_out / amount_in)
       else ok (amount_in / amount_out))"

definition slippage_bps :: "AmmPool \<Rightarrow> f64 \<Rightarrow> SwapDirection \<Rightarrow> f64 res" where
  "slippage_bps pool amount_in direction =
     (let spot = spot_price pool
      in if spot \<le> 0 then ok 0
         else
           rbind (effective_price pool amount_in direction) (\<lambda>effective.
             if effective \<le> 0 then ok 0
             else if direction = BASE_TO_QUOTE then ok (\<bar>(effective - spot) / spot\<bar> * lit 10000)
             else ok (\<bar>(spot - effective) / spot\<bar> * lit 10000)))"

text \<open>The bisection keeps the largest size seen within the limit in \<open>low\<close>.\<close>

fun slippage_bisection :: "(f64 \<Rightarrow> f64 res) \<Rightarrow> f64 \<Rightarrow> nat \<Rightarrow> f64 \<Rightarrow> f64 \<Rightarrow> f64 res" where
  "slippage_bisection slippage max_slippage_bps 0 low high = ok low"
| "slippage_bisection slippage max_slippage_bps (Suc n) low high =
     (let mid = (low + high) / lit 2
      in if mid \<le> 0 then ok low
         else
           rbind (slippage mid) (\<lambda>slip.
             if slip \<le> max_slippage_bps then slippage_bisection slippage max_slippage_bps n mid high
             else slippage_bisection slippage max_slippage_bps n low mid))"

definition max_trade_size_for_slippage :: "AmmPool \<Rightarrow> SwapDirection \<Rightarrow> f64 \<Rightarrow> f64 res" where
  "max_trade_size_for_slippage pool direction max_slippage_bps =
     (if max_slippage_bps \<le> 0 then ok 0
      else
        let high = (if direction = BASE_TO_QUOTE then ap_base_reserve pool else ap_quote_reserve pool)
        in slippage_bisection (\<lambda>x. slippage_bps pool x direction) max_slippage_bps 50 0 (high * lit (1 / 2)))"

section \<open>What a pool quotes\<close>

lemma fee_multiplier_nonneg: "fee \<le> lit 10000 \<Longrightarrow> 0 \<le> 1 - fee / lit 10000" if "0 \<le> fee" for fee :: f64
  using f64_divide_le_1 [OF that, of "lit 10000"] by simp

lemma quote_swap_nonneg:
  assumes "0 \<le> ap_fee_bps pool" and "ap_fee_bps pool \<le> lit 10000"
  shows "\<exists>y. quote_swap pool x d = Inr y \<and> 0 \<le> y"
proof -
  let ?a = "x * (1 - ap_fee_bps pool / lit 10000)"
  have a: "0 \<le> ?a" if "0 < x"
    using that fee_multiplier_nonneg [OF assms] by (intro f64_mult_nonneg) simp_all
  have "\<exists>y. fdiv (?a * ro) (ri + ?a) = Inr y \<and> 0 \<le> y" if "0 < x" "0 < ri" "0 < ro" for ri ro
    using a [OF that(1)] that f64_add_pos [of ri ?a] by (auto intro!: f64_divide_nonneg f64_mult_nonneg)
  then show ?thesis by (cases d) (auto simp: quote_swap_def Let_def)
qed

lemma slippage_total:
  assumes "0 \<le> ap_fee_bps pool" and "ap_fee_bps pool \<le> lit 10000"
  shows "\<exists>s. slippage_bps pool x d = Inr s"
proof -
  obtain y where y: "quote_swap pool x d = Inr y" using quote_swap_nonneg [OF assms] by blast
  obtain p where "effective_price pool x d = Inr p"
    using y by (cases "x \<le> 0 \<or> y \<le> 0"; cases d) (auto simp: effective_price_def)
  then show ?thesis by (cases "p \<le> 0"; cases d) (auto simp: slippage_bps_def Let_def)
qed

lemma slippage_zero: "slippage_bps pool 0 d = Inr 0"
  by (simp add: slippage_bps_def effective_price_def quote_swap_def Let_def)

lemma slippage_bisection_result:
  assumes "slippage low = Inr s" "s \<le> limit" "0 \<le> low" "low \<le> high"
    and "\<forall>x. low \<le> x \<and> x \<le> high \<longrightarrow> (\<exists>s. slippage x = Inr s)"
  shows "\<exists>x s. slippage_bisection slippage limit n low high = Inr x \<and> low \<le> x \<and> x \<le> high
    \<and> slippage x = Inr s \<and> s \<le> limit"
  using assms
proof (induction n arbitrary: low high s)
  case (Suc n)
  define mid where "mid = (low + high) / lit 2"
  have mid: "low \<le> mid" "mid \<le> high" using mid_between [OF Suc.prems(4)] by (simp_all add: mid_def)
  obtain t where t: "slippage mid = Inr t" using Suc.prems(5) mid by blast
  show ?case
  proof (cases "mid \<le> 0")
    case True
    then show ?thesis using Suc.prems by (simp add: mid_def [symmetric])
  next
    case False
    show ?thesis
    proof (cases "t \<le> limit")
      case True
      have "\<exists>x s. slippage_bisection slippage limit n mid high = Inr x \<and> mid \<le> x \<and> x \<le> high
          \<and> slippage x = Inr s \<and> s \<le> limit"
        using t True mid Suc.prems by (intro Suc.IH [of mid t]) (auto intro: order_trans)
      then show ?thesis using False True t mid by (auto simp: mid_def [symmetric])
    next
      case over: False
      have "\<exists>x s. slippage_bisection slippage limit n low mid = Inr x \<and> low \<le> x \<and> x \<le> mid
          \<and> slippage x = Inr s \<and> s \<le> limit"
        using mid Suc.prems by (intro Suc.IH [of low s]) (auto intro: order_trans)
      then show ?thesis using False over t mid by (auto simp: mid_def [symmetric])
    qed
  qed
qed simp

text \<open>Whatever the reserves, the size returned never exceeds half the reserve it is paid from, and its
  own slippage, evaluated by the same pool, is within the limit; the search raises nothing when the
  fee is between 0 and 100 percent.
\<close>

theorem max_trade_size_within_slippage:
  assumes "0 \<le> ap_fee_bps pool" and "ap_fee_bps pool \<le> lit 10000" and "0 < limit"
    and "0 \<le> ap_base_reserve pool" and "0 \<le> ap_quote_reserve pool"
  shows "\<exists>x s. max_trade_size_for_slippage pool d limit = Inr x \<and> 0 \<le> x
    \<and> x \<le> (if d = BASE_TO_QUOTE then ap_base_reserve pool else ap_quote_reserve pool) * lit (1 / 2)
    \<and> slippage_bps pool x d = Inr s \<and> s \<le> limit"
proof -
  have "0 \<le> lit (1 / 2)" by (rule lit_nonneg) simp
  then show ?thesis
    using slippage_bisection_result [of "\<lambda>x. slippage_bps pool x d" 0 0 limit
        "(if d = BASE_TO_QUOTE then ap_base_reserve pool else ap_quote_reserve pool) * lit (1 / 2)" 50]
      assms slippage_total [OF assms(1,2), of _ d]
    by (auto simp: max_trade_size_for_slippage_def slippage_zero f64_mult_nonneg)
qed

theorem max_trade_size_within_slippage_witness:
  "\<exists>x s. max_trade_size_for_slippage \<lparr> ap_base_reserve = lit 1000, ap_quote_reserve = lit 2000000, ap_fee_bps = lit 30 \<rparr>
      BASE_TO_QUOTE (lit 50) = Inr x \<and> 0 \<le> x
    \<and> x \<le> (if BASE_TO_QUOTE = BASE_TO_QUOTE then lit 1000 else lit 2000000) * lit (1 / 2)
    \<and> slippage_bps \<lparr> ap_base_reserve = lit 1000, ap_quote_reserve = lit 2000000, ap_fee_bps = lit 30 \<rparr> x BASE_TO_QUOTE = Inr s
    \<and> s \<le> lit 50"
  using max_trade_size_within_slippage
    [of "\<lparr> ap_base_reserve = lit 1000, ap_quote_reserve = lit 2000000, ap_fee_bps = lit 30 \<rparr>" "lit 50" BASE_TO_QUOTE]
    lit_mono [of 30 10000] lit_pos [of 50] lit_nonneg [of 30] lit_nonneg [of 1000] lit_nonneg [of 2000000] by simp

end
