(* ===== verification/Arbitrage.thy ===== *)
theory Arbitrage
  imports Amm_Pool V3_Models
begin

text \<open>
  \<open>app/services/arbitrage_scanner.py\<close>: exchange-against-pool opportunities. The V2 scan prices the trial
  size with the float pool; the V3 scan simulates the swap exactly and searches the size with the
  greatest net edge on a logarithmic grid refined by a golden-section search. The instant \<open>now\<close> is an
  argument; \<open>5 ** 0.5\<close> is the C library's power, hence the \<open>Libm\<close> argument.
\<close>

section \<open>The V2 scan\<close>

definition amm_fee_cost_quote :: "AmmPool \<Rightarrow> f64 \<Rightarrow> f64" where
  "amm_fee_cost_quote pool input_quote_notional = input_quote_notional * (ap_fee_bps pool / lit 10000)"

definition slippage_cost_quote :: "AmmPool \<Rightarrow> f64 \<Rightarrow> SwapDirection \<Rightarrow> f64 res" where
  "slippage_cost_quote pool paid direction =
     (let spot = spot_price pool
      in if spot \<le> 0 then ok 0
         else
           rbind (quote_swap pool paid direction) (\<lambda>amount_out.
             if amount_out \<le> 0 then ok 0
             else if direction = BASE_TO_QUOTE then ok (max (paid * spot - amount_out) 0)
             else ok (max ((paid / spot - amount_out) * spot) 0)))"

definition edge_bps :: "f64 \<Rightarrow> f64 \<Rightarrow> f64" where
  "edge_bps net_edge notional = (if 0 < notional then (net_edge / notional) * lit 10000 else 0)"

definition evaluate_buy_amm_sell_cex ::
    "f64 \<Rightarrow> f64 \<Rightarrow> AmmPool \<Rightarrow> f64 \<Rightarrow> f64 \<Rightarrow> f64 \<Rightarrow> f64 \<Rightarrow> datetime \<Rightarrow> Opportunity option res" where
  "evaluate_buy_amm_sell_cex cex_mid amm_price pool trial_trade_size cex_taker_fee_bps gas_cost min_edge_bps timestamp =
     (let quote_spent = trial_trade_size * amm_price
      in rbind (quote_swap pool quote_spent QUOTE_TO_BASE) (\<lambda>base_received.
         if base_received \<le> 0 then ok None
         else
           let cex_proceeds = base_received * cex_mid;
               gross_edge = cex_proceeds - quote_spent;
               cex_fee_cost = taker_fee cex_proceeds cex_taker_fee_bps;
               amm_fee_cost = amm_fee_cost_quote pool quote_spent
           in rbind (slippage_cost_quote pool quote_spent QUOTE_TO_BASE) (\<lambda>slippage_cost.
              let net_edge = gross_edge - cex_fee_cost - gas_cost;
                  net_edge_bps = edge_bps net_edge quote_spent
              in if net_edge_bps \<le> min_edge_bps then ok None
                 else ok (Some
                   \<lparr> op_direction = BUY_AMM_SELL_CEX, op_cex_mid = cex_mid, op_amm_price = amm_price,
                     op_trial_trade_size = trial_trade_size, op_gross_edge = gross_edge, op_cex_fee = cex_fee_cost,
                     op_amm_fee = amm_fee_cost, op_gas_cost = gas_cost, op_slippage_cost = slippage_cost,
                     op_net_edge = net_edge, op_net_edge_bps = net_edge_bps, op_timestamp = timestamp,
                     op_tick_id = None, op_venue = ''uniswap_v2'', op_fee_tier_bps = None,
                     op_optimal_trade_size = None, op_optimal_net_edge = None \<rparr>))))"

definition evaluate_buy_cex_sell_amm ::
    "f64 \<Rightarrow> f64 \<Rightarrow> AmmPool \<Rightarrow> f64 \<Rightarrow> f64 \<Rightarrow> f64 \<Rightarrow> f64 \<Rightarrow> datetime \<Rightarrow> Opportunity option res" where
  "evaluate_buy_cex_sell_amm cex_mid amm_price pool trial_trade_size cex_taker_fee_bps gas_cost min_edge_bps timestamp =
     (let cex_cost = trial_trade_size * cex_mid;
          cex_fee_cost = taker_fee cex_cost cex_taker_fee_bps
      in rbind (quote_swap pool trial_trade_size BASE_TO_QUOTE) (\<lambda>quote_received.
         if quote_received \<le> 0 then ok None
         else
           let gross_edge = quote_received - cex_cost;
               amm_fee_cost = amm_fee_cost_quote pool (trial_trade_size * amm_price)
           in rbind (slippage_cost_quote pool trial_trade_size BASE_TO_QUOTE) (\<lambda>slippage_cost.
              let net_edge = gross_edge - cex_fee_cost - gas_cost;
                  net_edge_bps = edge_bps net_edge cex_cost
              in if net_edge_bps \<le> min_edge_bps then ok None
                 else ok (Some
                   \<lparr> op_direction = BUY_CEX_SELL_AMM, op_cex_mid = cex_mid, op_amm_price = amm_price,
                     op_trial_trade_size = trial_trade_size, op_gross_edge = gross_edge, op_cex_fee = cex_fee_cost,
                     op_amm_fee = amm_fee_cost, op_gas_cost = gas_cost, op_slippage_cost = slippage_cost,
                     op_net_edge = net_edge, op_net_edge_bps = net_edge_bps, op_timestamp = timestamp,
                     op_tick_id = None, op_venue = ''uniswap_v2'', op_fee_tier_bps = None,
                     op_optimal_trade_size = None, op_optimal_net_edge = None \<rparr>))))"

definition scan_arbitrage_opportunities ::
    "f64 \<Rightarrow> AmmPoolSnapshot \<Rightarrow> f64 \<Rightarrow> f64 \<Rightarrow> f64 \<Rightarrow> int \<Rightarrow> f64 \<Rightarrow> f64 \<Rightarrow> f64 \<Rightarrow> datetime \<Rightarrow> Opportunity list res" where
  "scan_arbitrage_opportunities cex_mid pool_snapshot trial_trade_size cex_taker_fee_bps amm_fee_bps gas_limit
       gas_price_gwei eth_price_usd min_edge_bps now =
     (if cex_mid \<le> 0 \<or> am_spot_price pool_snapshot \<le> 0 \<or> trial_trade_size \<le> 0 then ok []
      else
        let pool = \<lparr> ap_base_reserve = am_base_reserve pool_snapshot, ap_quote_reserve = am_quote_reserve pool_snapshot,
                     ap_fee_bps = amm_fee_bps \<rparr>;
            amm_price = am_spot_price pool_snapshot;
            gas_cost = estimate_gas_cost_usd gas_limit gas_price_gwei eth_price_usd
        in rbind (if amm_price < cex_mid
                  then evaluate_buy_amm_sell_cex cex_mid amm_price pool trial_trade_size cex_taker_fee_bps gas_cost min_edge_bps now
                  else ok None) (\<lambda>bought.
           rbind (if amm_price > cex_mid
                  then evaluate_buy_cex_sell_amm cex_mid amm_price pool trial_trade_size cex_taker_fee_bps gas_cost min_edge_bps now
                  else ok None) (\<lambda>sold.
           ok ((case bought of Some x \<Rightarrow> [x] | None \<Rightarrow> []) @ (case sold of Some x \<Rightarrow> [x] | None \<Rightarrow> [])))))"

section \<open>The V3 scan\<close>

record Edge =
  eg_gross_edge :: f64
  eg_cex_fee :: f64
  eg_amm_fee :: f64
  eg_slippage_cost :: f64
  eg_net_edge :: f64
  eg_net_edge_bps :: f64

text \<open>
  Token decimals are a \<open>uint8\<close>, so that \<open>10 ** decimals\<close> is an integer. The window is present here: the
  scan checks it first.
\<close>

definition evaluate_v3 ::
    "ArbitrageDirection \<Rightarrow> f64 \<Rightarrow> f64 \<Rightarrow> V3PoolSnapshot \<Rightarrow> TickWindow \<Rightarrow> f64 \<Rightarrow> f64 \<Rightarrow> Edge option res" where
  "evaluate_v3 direction size_base cex_mid snapshot window cex_taker_fee_bps gas_cost =
     (let meta = sn_metadata snapshot; price = sn_price snapshot;
          base_units = 10 ^ nat (base_decimals meta); quote_units = 10 ^ nat (quote_decimals meta);
          state = pool_state_from_snapshot snapshot;
          edge = (\<lambda>gross_edge cex_fee_cost amm_fee_cost slippage notional.
            let net_edge = gross_edge - cex_fee_cost - gas_cost
            in \<lparr> eg_gross_edge = gross_edge, eg_cex_fee = cex_fee_cost, eg_amm_fee = amm_fee_cost,
                 eg_slippage_cost = slippage, eg_net_edge = net_edge, eg_net_edge_bps = edge_bps net_edge notional \<rparr>)
      in if direction = BUY_AMM_SELL_CEX then
           let quote_in = size_base * price;
               amt_in = int_of_float (quote_in * float_of_int quote_units)
           in if amt_in \<le> 0 then ok None
              else
                rbind (simulate_exact_input state window (\<not> md_base_is_token0 meta) amt_in None) (\<lambda>quote.
                if q_limit_reason quote \<noteq> None then ok None
                else
                  let base_out = lit (real_of_int (q_amount_out quote) / real_of_int base_units);
                      proceeds = base_out * cex_mid;
                      amm_fee_cost = lit (real_of_int (q_fee_paid quote) / real_of_int quote_units)
                  in rbind (fdiv quote_in price) (\<lambda>base_in.
                     ok (Some (edge (proceeds - quote_in) (taker_fee proceeds cex_taker_fee_bps) amm_fee_cost
                                 (max ((base_in - base_out) * price - amm_fee_cost) 0) quote_in))))
         else
           let amt_in = int_of_float (size_base * float_of_int base_units)
           in if amt_in \<le> 0 then ok None
              else
                rbind (simulate_exact_input state window (md_base_is_token0 meta) amt_in None) (\<lambda>quote.
                if q_limit_reason quote \<noteq> None then ok None
                else
                  let cex_cost = size_base * cex_mid;
                      quote_out = lit (real_of_int (q_amount_out quote) / real_of_int quote_units);
                      amm_fee_cost = lit (real_of_int (q_fee_paid quote) / real_of_int base_units) * price
                  in ok (Some (edge (quote_out - cex_cost) (taker_fee cex_cost cex_taker_fee_bps) amm_fee_cost
                                (max (size_base * price - quote_out - amm_fee_cost) 0) cex_cost))))"

text \<open>The scored grid: sizes that evaluate to nothing are left out.\<close>

fun score_sizes :: "(f64 \<Rightarrow> Edge option res) \<Rightarrow> f64 list \<Rightarrow> (f64 \<times> f64) list res" where
  "score_sizes evaluate [] = ok []"
| "score_sizes evaluate (size_base # sizes) =
     rbind (evaluate size_base) (\<lambda>result.
     rbind (score_sizes evaluate sizes) (\<lambda>scored.
       ok (case result of None \<Rightarrow> scored | Some e \<Rightarrow> (size_base, eg_net_edge e) # scored)))"

text \<open>\<open>max(range(len(scored)), key=...)\<close>: the first index with the greatest edge.\<close>

fun best_index :: "(f64 \<times> f64) list \<Rightarrow> nat \<Rightarrow> nat \<Rightarrow> f64 \<Rightarrow> nat" where
  "best_index [] i b best = b"
| "best_index (x # xs) i b best = (if best < snd x then best_index xs (Suc i) i (snd x) else best_index xs (Suc i) b best)"

definition size_grid :: "f64 \<Rightarrow> f64 list" where
  "size_grid trial_size = map (\<lambda>k. trial_size * lit (2 powi k)) [- 10..13]"

text \<open>\<open>None\<close> is \<open>float("-inf")\<close>, the edge of a size without result.\<close>

definition edge_above :: "f64 option \<Rightarrow> f64 \<Rightarrow> bool" where
  "edge_above e best = (case e of None \<Rightarrow> False | Some x \<Rightarrow> best < x)"

definition edge_less :: "f64 option \<Rightarrow> f64 option \<Rightarrow> bool" where
  "edge_less a b = (case b of None \<Rightarrow> False | Some y \<Rightarrow> (case a of None \<Rightarrow> True | Some x \<Rightarrow> x < y))"

fun golden_section ::
    "(f64 \<Rightarrow> Edge option res) \<Rightarrow> f64 \<Rightarrow> nat \<Rightarrow> f64 \<Rightarrow> f64 \<Rightarrow> f64 \<times> f64 \<Rightarrow> (f64 \<times> f64) res" where
  "golden_section evaluate ratio 0 low high best = ok best"
| "golden_section evaluate ratio (Suc n) low high best =
     (let a = high - ratio * (high - low); b = low + ratio * (high - low)
      in rbind (evaluate a) (\<lambda>ra. rbind (evaluate b) (\<lambda>rb.
         let ea = map_option eg_net_edge ra; eb = map_option eg_net_edge rb;
             best = (if edge_above ea (snd best) then (a, the ea) else best);
             best = (if edge_above eb (snd best) then (b, the eb) else best)
         in if edge_less ea eb then golden_section evaluate ratio n a high best
            else golden_section evaluate ratio n low b best)))"

definition golden_ratio :: "Libm \<Rightarrow> f64" where
  "golden_ratio m = (libm_pow m (lit 5) (lit (1 / 2)) - lit 1) / lit 2"

definition optimal_trade :: "Libm \<Rightarrow> (f64 \<Rightarrow> Edge option res) \<Rightarrow> f64 \<Rightarrow> (f64 \<times> f64) option res" where
  "optimal_trade m evaluate trial_size =
     rbind (score_sizes evaluate (size_grid trial_size)) (\<lambda>scored.
       if scored = [] then ok None
       else
         let i = best_index scored 0 0 (snd (hd scored));
             low = fst (scored ! (i - 1));
             high = fst (scored ! min (i + 1) (length scored - 1))
         in rbind (golden_section evaluate (golden_ratio m) 30 low high (scored ! i)) (\<lambda>best. ok (Some best)))"

definition trade_direction :: "f64 \<Rightarrow> f64 \<Rightarrow> ArbitrageDirection option" where
  "trade_direction pool_price cex_mid =
     (if pool_price < cex_mid then Some BUY_AMM_SELL_CEX
      else if pool_price > cex_mid then Some BUY_CEX_SELL_AMM else None)"

definition v3_opportunity ::
    "ArbitrageDirection \<Rightarrow> f64 \<Rightarrow> V3PoolSnapshot \<Rightarrow> f64 \<Rightarrow> f64 \<Rightarrow> datetime \<Rightarrow> Edge \<Rightarrow> f64 \<times> f64 \<Rightarrow> Opportunity" where
  "v3_opportunity direction cex_mid snapshot trial_trade_size gas_cost now trial best =
     \<lparr> op_direction = direction, op_cex_mid = cex_mid, op_amm_price = sn_price snapshot,
       op_trial_trade_size = trial_trade_size, op_gross_edge = eg_gross_edge trial, op_cex_fee = eg_cex_fee trial,
       op_amm_fee = eg_amm_fee trial, op_gas_cost = gas_cost, op_slippage_cost = eg_slippage_cost trial,
       op_net_edge = eg_net_edge trial, op_net_edge_bps = eg_net_edge_bps trial, op_timestamp = now,
       op_tick_id = None, op_venue = ''uniswap_v3'', op_fee_tier_bps = Some (fee_tier_bps (sn_metadata snapshot)),
       op_optimal_trade_size = Some (fst best), op_optimal_net_edge = Some (snd best) \<rparr>"

text \<open>The body of the loop over the direction.\<close>

definition scan_direction ::
    "Libm \<Rightarrow> (f64 \<Rightarrow> Edge option res) \<Rightarrow> f64 \<Rightarrow> f64 \<Rightarrow> (Edge \<Rightarrow> f64 \<times> f64 \<Rightarrow> Opportunity) \<Rightarrow> Opportunity list res" where
  "scan_direction m evaluate trial_trade_size min_edge_bps report =
     rbind (evaluate trial_trade_size) (\<lambda>trial.
     rbind (optimal_trade m evaluate trial_trade_size) (\<lambda>optimal.
     case (trial, optimal) of
       (Some trial_edge, Some best_trade) \<Rightarrow>
         rbind (evaluate (fst best_trade)) (\<lambda>best.
           case best of
             None \<Rightarrow> ok []
           | Some best_edge \<Rightarrow>
               if eg_net_edge_bps best_edge \<le> min_edge_bps then ok [] else ok [report trial_edge best_trade])
     | _ \<Rightarrow> ok []))"

definition usable_window :: "bool \<Rightarrow> f64 \<Rightarrow> f64 \<Rightarrow> V3PoolSnapshot \<Rightarrow> TickWindow option" where
  "usable_window cex_is_stale cex_mid trial_trade_size snapshot =
     (if cex_is_stale \<or> sn_is_stale snapshot \<or> cex_mid \<le> 0 \<or> sn_price snapshot \<le> 0 \<or> trial_trade_size \<le> 0
      then None else sn_window snapshot)"

definition scan_v3_opportunities ::
    "Libm \<Rightarrow> f64 \<Rightarrow> V3PoolSnapshot option \<Rightarrow> f64 \<Rightarrow> f64 \<Rightarrow> int \<Rightarrow> f64 \<Rightarrow> f64 \<Rightarrow> bool \<Rightarrow> datetime \<Rightarrow> Opportunity list res" where
  "scan_v3_opportunities m cex_mid snapshot_option trial_trade_size cex_taker_fee_bps gas_limit gas_price_gwei
       min_edge_bps cex_is_stale now =
     (case snapshot_option of
        None \<Rightarrow> ok []
      | Some snapshot \<Rightarrow>
          (case usable_window cex_is_stale cex_mid trial_trade_size snapshot of
             None \<Rightarrow> ok []
           | Some window \<Rightarrow>
               let gas_cost = estimate_gas_cost_usd gas_limit gas_price_gwei (sn_price snapshot)
               in (case trade_direction (sn_price snapshot) cex_mid of
                     None \<Rightarrow> ok []
                   | Some direction \<Rightarrow>
                       scan_direction m
                         (\<lambda>x. evaluate_v3 direction x cex_mid snapshot window cex_taker_fee_bps gas_cost)
                         trial_trade_size min_edge_bps
                         (v3_opportunity direction cex_mid snapshot trial_trade_size gas_cost now))))"

section \<open>What a reported opportunity is\<close>

lemma edge_bps_threshold:
  "evaluate_buy_amm_sell_cex cex_mid price pool trial fee gas min_edge now = Inr (Some x) \<Longrightarrow>
     op_direction x = BUY_AMM_SELL_CEX \<and> min_edge < op_net_edge_bps x \<and> 0 \<le> op_slippage_cost x
     \<and> op_net_edge x = op_gross_edge x - op_cex_fee x - op_gas_cost x"
  "evaluate_buy_cex_sell_amm cex_mid price pool trial fee gas min_edge now = Inr (Some x) \<Longrightarrow>
     op_direction x = BUY_CEX_SELL_AMM \<and> min_edge < op_net_edge_bps x \<and> 0 \<le> op_slippage_cost x
     \<and> op_net_edge x = op_gross_edge x - op_cex_fee x - op_gas_cost x"
proof -
  have cost: "slippage_cost_quote pool y d = Inr c \<Longrightarrow> 0 \<le> c" for y d c
    by (auto simp: slippage_cost_quote_def Let_def split: if_splits)
  {
    assume "evaluate_buy_amm_sell_cex cex_mid price pool trial fee gas min_edge now = Inr (Some x)"
    then show "op_direction x = BUY_AMM_SELL_CEX \<and> min_edge < op_net_edge_bps x \<and> 0 \<le> op_slippage_cost x
        \<and> op_net_edge x = op_gross_edge x - op_cex_fee x - op_gas_cost x"
      by (auto simp: evaluate_buy_amm_sell_cex_def Let_def cost split: if_splits)
  next
    assume "evaluate_buy_cex_sell_amm cex_mid price pool trial fee gas min_edge now = Inr (Some x)"
    then show "op_direction x = BUY_CEX_SELL_AMM \<and> min_edge < op_net_edge_bps x \<and> 0 \<le> op_slippage_cost x
        \<and> op_net_edge x = op_gross_edge x - op_cex_fee x - op_gas_cost x"
      by (auto simp: evaluate_buy_cex_sell_amm_def Let_def cost split: if_splits)
  }
qed

text \<open>The V2 scan reports at most one opportunity: it buys where the asset is cheaper, clears the
  required edge after the exchange fee and gas, and never reports a negative slippage cost.
\<close>

theorem v2_opportunity_clears_edge:
  "case scan_arbitrage_opportunities cex_mid pool trial taker amm_fee gas_limit gas_price eth_price min_edge now of
     Inl e \<Rightarrow> 0 < trial
   | Inr xs \<Rightarrow> length xs \<le> 1 \<and>
       list_all (\<lambda>x. (if op_direction x = BUY_AMM_SELL_CEX then am_spot_price pool < cex_mid else cex_mid < am_spot_price pool)
         \<and> min_edge < op_net_edge_bps x \<and> 0 \<le> op_slippage_cost x
         \<and> op_net_edge x = op_gross_edge x - op_cex_fee x - op_gas_cost x) xs"
proof (cases "scan_arbitrage_opportunities cex_mid pool trial taker amm_fee gas_limit gas_price eth_price min_edge now")
  case (Inl e)
  then show ?thesis by (auto simp: scan_arbitrage_opportunities_def split: if_splits)
next
  case (Inr xs)
  then show ?thesis
    by (auto simp: scan_arbitrage_opportunities_def Let_def dest!: edge_bps_threshold split: if_splits option.splits)
qed

lemma score_sizes_sound:
  "score_sizes evaluate sizes = Inr scored \<Longrightarrow>
     (x, e) \<in> set scored \<longleftrightarrow> x \<in> set sizes \<and> (\<exists>edge. evaluate x = Inr (Some edge) \<and> eg_net_edge edge = e)"
proof (induction sizes arbitrary: scored)
  case (Cons y sizes)
  obtain result rest where r: "evaluate y = Inr result" "score_sizes evaluate sizes = Inr rest"
      "scored = (case result of None \<Rightarrow> rest | Some e \<Rightarrow> (y, eg_net_edge e) # rest)"
    using Cons.prems by auto
  show ?case using Cons.IH [OF r(2)] r by (cases result) auto
qed simp

lemma best_index_greatest:
  assumes "b < length ys" "best = snd (ys ! b)" "\<forall>y\<in>set ys. snd y \<le> best"
  shows "best_index xs (length ys) b best < length (ys @ xs)
    \<and> (\<forall>y\<in>set (ys @ xs). snd y \<le> snd ((ys @ xs) ! best_index xs (length ys) b best))"
  using assms
proof (induction xs arbitrary: b best ys)
  case (Cons x xs)
  show ?case
  proof (cases "best < snd x")
    case True
    then have "\<forall>y\<in>set ys. snd y \<le> snd x" using Cons.prems(3) by (blast intro: order.trans less_imp_le)
    then show ?thesis using Cons.IH [of "length ys" "ys @ [x]" "snd x"] True by auto
  next
    case False
    then show ?thesis using Cons.IH [of b "ys @ [x]" best] Cons.prems by (auto simp: nth_append)
  qed
qed auto

text \<open>The refinement never loses ground, and the size it returns evaluates to the edge it returns.\<close>

definition scored_by :: "(f64 \<Rightarrow> Edge option res) \<Rightarrow> f64 \<times> f64 \<Rightarrow> bool" where
  "scored_by evaluate best \<longleftrightarrow> (\<exists>edge. evaluate (fst best) = Inr (Some edge) \<and> eg_net_edge edge = snd best)"

lemma golden_section_result:
  "golden_section evaluate ratio n low high best = Inr r \<Longrightarrow> scored_by evaluate best \<Longrightarrow>
     scored_by evaluate r \<and> snd best \<le> snd r"
proof (induction n arbitrary: low high best)
  case (Suc n)
  define a b where "a = high - ratio * (high - low)" and "b = low + ratio * (high - low)"
  obtain ra rb where e: "evaluate a = Inr ra" "evaluate b = Inr rb"
    using Suc.prems(1) by (auto simp: a_def b_def Let_def)
  define best1 where "best1 = (if edge_above (map_option eg_net_edge ra) (snd best) then (a, the (map_option eg_net_edge ra)) else best)"
  define best2 where "best2 = (if edge_above (map_option eg_net_edge rb) (snd best1) then (b, the (map_option eg_net_edge rb)) else best1)"
  have "scored_by evaluate best1 \<and> snd best \<le> snd best1" using Suc.prems(2) e(1)
    by (cases ra) (auto simp: best1_def edge_above_def scored_by_def)
  then have 2: "scored_by evaluate best2 \<and> snd best \<le> snd best2" using e(2)
    by (cases rb) (auto simp: best2_def edge_above_def scored_by_def)
  have "(if edge_less (map_option eg_net_edge ra) (map_option eg_net_edge rb) then golden_section evaluate ratio n a high best2
      else golden_section evaluate ratio n low b best2) = Inr r"
    using Suc.prems(1) e unfolding golden_section.simps Let_def a_def [symmetric] b_def [symmetric] best2_def best1_def
    by (simp split del: if_split)
  then have "scored_by evaluate r \<and> snd best2 \<le> snd r" using Suc.IH 2 by (auto split: if_splits)
  then show ?case using 2 by auto
qed simp

lemma trial_in_grid: "trial \<in> set (size_grid trial)"
proof -
  have "trial = (\<lambda>k. trial * lit (2 powi k)) 0" by simp
  moreover have "(0::int) \<in> {- 10..13}" by simp
  ultimately show ?thesis unfolding size_grid_def set_map set_upto by (rule image_eqI)
qed

lemma optimal_trade_result:
  assumes "optimal_trade m evaluate trial = Inr (Some best)" and "evaluate trial = Inr (Some edge)"
  shows "scored_by evaluate best \<and> eg_net_edge edge \<le> snd best"
proof -
  obtain scored where scored: "score_sizes evaluate (size_grid trial) = Inr scored" "scored \<noteq> []"
    using assms(1) by (auto simp: optimal_trade_def split: if_splits)
  define i where "i = best_index scored 0 0 (snd (hd scored))"
  obtain x xs where xs: "scored = x # xs" using scored(2) by (cases scored) auto
  have i: "i < length scored" "\<forall>y\<in>set scored. snd y \<le> snd (scored ! i)"
    using best_index_greatest [of 0 "[x]" "snd x" xs] by (simp_all add: i_def xs)
  have mem: "scored_by evaluate y" if "y \<in> set scored" for y
    using that score_sizes_sound [OF scored(1), of "fst y" "snd y"] by (auto simp: scored_by_def)
  have "(trial, eg_net_edge edge) \<in> set scored"
    using score_sizes_sound [OF scored(1)] assms(2) trial_in_grid by blast
  then have "eg_net_edge edge \<le> snd (scored ! i)" using i(2) by auto
  moreover obtain low high where "golden_section evaluate (golden_ratio m) 30 low high (scored ! i) = Inr best"
    using assms(1) scored by (auto simp: optimal_trade_def i_def Let_def)
  ultimately show ?thesis
    using golden_section_result mem [OF nth_mem [OF i(1)]] by (meson order_trans)
qed

lemma scan_direction_Cons:
  assumes "scan_direction m ev trial min_edge report = Inr (x # xs)"
  obtains t best where "ev trial = Inr (Some t)" "optimal_trade m ev trial = Inr (Some best)"
    "xs = []" "x = report t best" "\<And>e. ev (fst best) = Inr (Some e) \<Longrightarrow> min_edge < eg_net_edge_bps e"
proof -
  obtain t where t: "ev trial = Inr t" using assms by (auto simp: scan_direction_def)
  obtain b where b: "optimal_trade m ev trial = Inr b" using assms t by (auto simp: scan_direction_def)
  obtain t' b' where some: "t = Some t'" "b = Some b'"
    using assms t b by (cases t; cases b) (auto simp: scan_direction_def)
  obtain r where r: "ev (fst b') = Inr r" using assms t b some by (auto simp: scan_direction_def)
  show ?thesis using assms t b some r
    by (intro that [of t' b']) (auto simp: scan_direction_def split: option.splits if_splits)
qed

text \<open>The V3 scan reports at most one opportunity, from a fresh snapshot and a fresh exchange book. It
  buys on the cheaper venue, the net edge of its optimal size is one the pool's exact simulation
  gives for that size, clears the required edge, and is never below that of the trial size it
  reports beside it.
\<close>

theorem v3_opportunity_beats_trial:
  "case scan_v3_opportunities m cex_mid snapshot trial taker gas_limit gas_price min_edge stale now of
     Inl e \<Rightarrow> snapshot \<noteq> None
   | Inr [] \<Rightarrow> True
   | Inr (x # xs) \<Rightarrow> xs = [] \<and> \<not> stale \<and> (\<exists>s window size_base edge.
       snapshot = Some s \<and> \<not> sn_is_stale s \<and> sn_window s = Some window
       \<and> (if op_direction x = BUY_AMM_SELL_CEX then sn_price s < cex_mid else cex_mid < sn_price s)
       \<and> op_optimal_trade_size x = Some size_base \<and> op_optimal_net_edge x = Some (eg_net_edge edge)
       \<and> evaluate_v3 (op_direction x) size_base cex_mid s window taker (op_gas_cost x) = Inr (Some edge)
       \<and> min_edge < eg_net_edge_bps edge \<and> op_net_edge x \<le> eg_net_edge edge)"
proof (cases "\<exists>x xs. scan_v3_opportunities m cex_mid snapshot trial taker gas_limit gas_price min_edge stale now = Inr (x # xs)")
  case True
  then obtain x xs where scan: "scan_v3_opportunities m cex_mid snapshot trial taker gas_limit gas_price min_edge stale now = Inr (x # xs)"
    by blast
  obtain s where s: "snapshot = Some s" using scan by (cases snapshot) (auto simp: scan_v3_opportunities_def)
  obtain window where w: "usable_window stale cex_mid trial s = Some window"
    using scan by (cases "usable_window stale cex_mid trial s") (auto simp: scan_v3_opportunities_def s)
  obtain d where d: "trade_direction (sn_price s) cex_mid = Some d"
    using scan by (cases "trade_direction (sn_price s) cex_mid") (auto simp: scan_v3_opportunities_def s w Let_def)
  define gas where "gas = estimate_gas_cost_usd gas_limit gas_price (sn_price s)"
  define ev where "ev = (\<lambda>y. evaluate_v3 d y cex_mid s window taker gas)"
  have body: "scan_direction m ev trial min_edge (v3_opportunity d cex_mid s trial gas now) = Inr (x # xs)"
    using scan by (simp add: scan_v3_opportunities_def s w d Let_def gas_def ev_def)
  then obtain t best where t: "ev trial = Inr (Some t)" "optimal_trade m ev trial = Inr (Some best)"
      and x: "xs = []" "x = v3_opportunity d cex_mid s trial gas now t best"
      and clears: "\<And>e. ev (fst best) = Inr (Some e) \<Longrightarrow> min_edge < eg_net_edge_bps e"
    by (rule scan_direction_Cons) blast
  obtain e where e: "ev (fst best) = Inr (Some e)" "eg_net_edge e = snd best" "eg_net_edge t \<le> snd best"
    using optimal_trade_result [OF t(2,1)] by (auto simp: scored_by_def)
  have fresh: "\<not> stale" "\<not> sn_is_stale s" "sn_window s = Some window"
    using w by (auto simp: usable_window_def split: if_splits)
  have side: "if d = BUY_AMM_SELL_CEX then sn_price s < cex_mid else cex_mid < sn_price s"
    using d by (auto simp: trade_direction_def split: if_splits)
  show ?thesis unfolding scan sum.case list.case
    using fresh side e x(1) clears [OF e(1)] s
    by (auto simp: x(2) v3_opportunity_def ev_def intro!: exI [of _ window] exI [of _ e])
next
  case False
  show ?thesis
  proof (cases "scan_v3_opportunities m cex_mid snapshot trial taker gas_limit gas_price min_edge stale now")
    case (Inl e)
    then show ?thesis by (cases snapshot) (auto simp: scan_v3_opportunities_def)
  next
    case (Inr xs)
    then show ?thesis using False by (cases xs) auto
  qed
qed

end
