(* ===== verification/Lab_Settings.thy ===== *)
theory Lab_Settings
  imports Binary64
begin

text \<open>
  \<open>app/config/settings.py\<close>: every setting with its default and its constraint, and the derived
  switches. \<open>settings_valid\<close> is the conjunction of the \<open>Field\<close> constraints that pydantic
  enforces when the settings are read. A \<open>SecretStr\<close> is its text.
\<close>

datatype StrategyName = pure_mm | inventory_skew | volatility_spread
datatype FillMode = FULL_CROSS | PARTIAL | LATENCY_PROB | CALIBRATED
datatype MarketDataMode = Poll | Websocket
datatype MempoolMode = AutoMode | LiveMode | ReplayMode

record Settings =
  s_exchange :: string
  s_symbol :: string
  s_poll_interval_sec :: f64
  s_quote_spread_bps :: f64
  s_quote_size :: f64
  s_max_position_base :: f64
  s_db_url :: string
  s_maker_fee_bps :: f64
  s_taker_fee_bps :: f64
  s_fill_mode :: FillMode
  s_fill_latency_ticks :: int
  s_fill_probability :: f64
  s_fill_calibration_path :: string
  s_strategy :: StrategyName
  s_initial_quote_balance :: f64
  s_max_position_notional :: f64
  s_report_interval_ticks :: int
  s_metrics_enabled :: bool
  s_loop_enabled :: bool
  s_market_data_mode :: MarketDataMode
  s_fixture_fallback_enabled :: bool
  s_market_data_fixture_path :: "string option"
  s_operator_api_token :: "string option"
  s_dex_enabled :: bool
  s_eth_rpc_url :: string
  s_dex_pool_address :: string
  s_cex_compare_symbol :: string
  s_amm_fee_bps :: f64
  s_arbitrage_trial_trade_size :: f64
  s_arbitrage_min_edge_bps :: f64
  s_gas_limit_units :: int
  s_gas_price_gwei :: f64
  s_pool_base_decimals :: int
  s_pool_quote_decimals :: int
  s_inventory_target_base :: f64
  s_inventory_skew_bps :: f64
  s_volatility_window :: int
  s_volatility_spread_multiplier :: f64
  s_v3_enabled :: bool
  s_v3_pool_address :: string
  s_v3_window_words :: int
  s_v3_window_refresh_ticks :: int
  s_v3_rpc_timeout_sec :: f64
  s_eth_archive_rpc_url :: "string option"
  s_lp_enabled :: bool
  s_lp_capital_quote :: f64
  s_lp_range_width_bps :: f64
  s_lp_rebalance_threshold_bps :: f64
  s_lp_rebalance_cooldown_sec :: f64
  s_lp_rebalance_gas_units :: int
  s_lp_priority_fee_gwei :: f64
  s_lp_prefer_initialized_ticks :: bool
  s_lp_snap_tolerance_spacings :: int
  s_arb_sim_enabled :: bool
  s_arb_sim_rpc_url :: "string option"
  s_arb_sim_every_ticks :: int
  s_arb_reference_size_quote :: f64
  s_arb_gas_units :: int
  s_arb_priority_fee_gwei :: f64
  s_arb_sim_subsidy_quote :: f64
  s_arb_sim_timeout_sec :: f64
  s_mempool_enabled :: bool
  s_mempool_mode :: MempoolMode
  s_mempool_replay_alongside :: bool
  s_mempool_ws_url :: "string option"
  s_mempool_rpc_url :: "string option"
  s_mempool_resolve_blocks :: int
  s_mempool_live_grace_sec :: f64
  s_mempool_queue_size :: int
  s_mempool_call_budget_per_block :: int
  s_mempool_seen_hashes :: int
  s_mempool_reanchor_blocks :: int
  s_mempool_v3_window_words :: int
  s_mempool_retention_days :: f64
  s_mempool_rpc_timeout_sec :: f64
  s_testnet_enabled :: bool
  s_binance_testnet_api_key :: "string option"
  s_binance_testnet_api_secret :: "string option"
  s_testnet_poll_interval_sec :: f64
  s_testnet_quote_spread_bps :: "f64 option"
  s_testnet_quote_size :: "f64 option"
  s_testnet_initial_base :: f64
  s_testnet_replace_threshold_bps :: f64
  s_testnet_reconcile_interval_sec :: f64
  s_testnet_timeout_sec :: f64
  s_testnet_recorded_path :: "string option"
  s_lab_enabled :: bool
  s_lab_concurrent_recordings :: int
  s_lab_queue_size :: int
  s_lab_runs_per_hour :: int
  s_lab_bundled_runs_per_hour :: int
  s_lab_keep_hours :: f64
  s_lab_runs_kept :: int
  s_lab_market_cache_sec :: f64

definition default_settings :: Settings where
  "default_settings = \<lparr>
     s_exchange = ''binance'',
     s_symbol = ''BTC/USDT'',
     s_poll_interval_sec = lit 2,
     s_quote_spread_bps = lit 30,
     s_quote_size = lit (1 / 1000),
     s_max_position_base = lit (1 / 100),
     s_db_url = ''sqlite:///./data/mm_lab.db'',
     s_maker_fee_bps = lit 2,
     s_taker_fee_bps = lit 5,
     s_fill_mode = FULL_CROSS,
     s_fill_latency_ticks = 2,
     s_fill_probability = lit (7 / 10),
     s_fill_calibration_path = ''app/execution/fill_calibration.json'',
     s_strategy = pure_mm,
     s_initial_quote_balance = lit 10000,
     s_max_position_notional = lit 1000,
     s_report_interval_ticks = 5,
     s_metrics_enabled = True,
     s_loop_enabled = True,
     s_market_data_mode = Poll,
     s_fixture_fallback_enabled = True,
     s_market_data_fixture_path = None,
     s_operator_api_token = None,
     s_dex_enabled = True,
     s_eth_rpc_url = ''https://ethereum.publicnode.com'',
     s_dex_pool_address = ''0xB4e16d0168e52d35CaCD2c6185b44281Ec28C9Dc'',
     s_cex_compare_symbol = ''ETH/USDT'',
     s_amm_fee_bps = lit 30,
     s_arbitrage_trial_trade_size = lit (1 / 10),
     s_arbitrage_min_edge_bps = lit 5,
     s_gas_limit_units = 200000,
     s_gas_price_gwei = lit 30,
     s_pool_base_decimals = 18,
     s_pool_quote_decimals = 6,
     s_inventory_target_base = lit 0,
     s_inventory_skew_bps = lit 20,
     s_volatility_window = 20,
     s_volatility_spread_multiplier = lit 1,
     s_v3_enabled = True,
     s_v3_pool_address = ''0x88e6A0c2dDD26FEEb64F039a2c41296FcB3f5640'',
     s_v3_window_words = 2,
     s_v3_window_refresh_ticks = 15,
     s_v3_rpc_timeout_sec = lit 10,
     s_eth_archive_rpc_url = None,
     s_lp_enabled = True,
     s_lp_capital_quote = lit 10000,
     s_lp_range_width_bps = lit 200,
     s_lp_rebalance_threshold_bps = lit 80,
     s_lp_rebalance_cooldown_sec = lit 300,
     s_lp_rebalance_gas_units = 450000,
     s_lp_priority_fee_gwei = lit (1 / 20),
     s_lp_prefer_initialized_ticks = True,
     s_lp_snap_tolerance_spacings = 3,
     s_arb_sim_enabled = True,
     s_arb_sim_rpc_url = None,
     s_arb_sim_every_ticks = 1,
     s_arb_reference_size_quote = lit 1000,
     s_arb_gas_units = 160000,
     s_arb_priority_fee_gwei = lit (1 / 20),
     s_arb_sim_subsidy_quote = lit 1000000,
     s_arb_sim_timeout_sec = lit 10,
     s_mempool_enabled = True,
     s_mempool_mode = AutoMode,
     s_mempool_replay_alongside = True,
     s_mempool_ws_url = Some ''wss://ethereum-rpc.publicnode.com'',
     s_mempool_rpc_url = None,
     s_mempool_resolve_blocks = 5,
     s_mempool_live_grace_sec = lit 300,
     s_mempool_queue_size = 500,
     s_mempool_call_budget_per_block = 25,
     s_mempool_seen_hashes = 60000,
     s_mempool_reanchor_blocks = 100,
     s_mempool_v3_window_words = 4,
     s_mempool_retention_days = lit 7,
     s_mempool_rpc_timeout_sec = lit 10,
     s_testnet_enabled = True,
     s_binance_testnet_api_key = None,
     s_binance_testnet_api_secret = None,
     s_testnet_poll_interval_sec = lit 2,
     s_testnet_quote_spread_bps = None,
     s_testnet_quote_size = None,
     s_testnet_initial_base = lit 0,
     s_testnet_replace_threshold_bps = lit 2,
     s_testnet_reconcile_interval_sec = lit 30,
     s_testnet_timeout_sec = lit 10,
     s_testnet_recorded_path = Some ''tests/fixtures/testnet/session.json.gz'',
     s_lab_enabled = True,
     s_lab_concurrent_recordings = 2,
     s_lab_queue_size = 10,
     s_lab_runs_per_hour = 10,
     s_lab_bundled_runs_per_hour = 60,
     s_lab_keep_hours = lit 2,
     s_lab_runs_kept = 10,
     s_lab_market_cache_sec = lit 3600 \<rparr>"

definition settings_valid :: "Settings \<Rightarrow> bool" where
  "settings_valid s \<longleftrightarrow>
     0 < s_poll_interval_sec s
     \<and> 0 \<le> s_quote_spread_bps s
     \<and> 0 < s_quote_size s
     \<and> 0 < s_max_position_base s
     \<and> 0 \<le> s_maker_fee_bps s
     \<and> 0 \<le> s_taker_fee_bps s
     \<and> 1 \<le> s_fill_latency_ticks s
     \<and> 0 \<le> s_fill_probability s \<and> s_fill_probability s \<le> 1
     \<and> 0 < s_initial_quote_balance s
     \<and> 0 < s_max_position_notional s
     \<and> 0 < s_report_interval_ticks s
     \<and> 0 \<le> s_amm_fee_bps s
     \<and> 0 < s_arbitrage_trial_trade_size s
     \<and> 0 < s_gas_limit_units s
     \<and> 0 \<le> s_gas_price_gwei s
     \<and> 0 \<le> s_pool_base_decimals s
     \<and> 0 \<le> s_pool_quote_decimals s
     \<and> 0 \<le> s_inventory_target_base s
     \<and> 0 \<le> s_inventory_skew_bps s
     \<and> 2 \<le> s_volatility_window s
     \<and> 0 \<le> s_volatility_spread_multiplier s
     \<and> 1 \<le> s_v3_window_words s \<and> s_v3_window_words s \<le> 8
     \<and> 1 \<le> s_v3_window_refresh_ticks s
     \<and> 0 < s_v3_rpc_timeout_sec s
     \<and> 0 < s_lp_capital_quote s
     \<and> 0 < s_lp_range_width_bps s
     \<and> 0 < s_lp_rebalance_threshold_bps s
     \<and> 0 \<le> s_lp_rebalance_cooldown_sec s
     \<and> 0 < s_lp_rebalance_gas_units s
     \<and> 0 \<le> s_lp_priority_fee_gwei s
     \<and> 0 \<le> s_lp_snap_tolerance_spacings s
     \<and> 1 \<le> s_arb_sim_every_ticks s
     \<and> 0 < s_arb_reference_size_quote s
     \<and> 0 < s_arb_gas_units s
     \<and> 0 \<le> s_arb_priority_fee_gwei s
     \<and> 0 < s_arb_sim_subsidy_quote s
     \<and> 0 < s_arb_sim_timeout_sec s
     \<and> 1 \<le> s_mempool_resolve_blocks s \<and> s_mempool_resolve_blocks s \<le> 50
     \<and> 0 < s_mempool_live_grace_sec s
     \<and> 1 \<le> s_mempool_queue_size s
     \<and> 1 \<le> s_mempool_call_budget_per_block s
     \<and> 100 \<le> s_mempool_seen_hashes s
     \<and> 1 \<le> s_mempool_reanchor_blocks s
     \<and> 1 \<le> s_mempool_v3_window_words s \<and> s_mempool_v3_window_words s \<le> 8
     \<and> 0 < s_mempool_retention_days s
     \<and> 0 < s_mempool_rpc_timeout_sec s
     \<and> 0 < s_testnet_poll_interval_sec s
     \<and> (case s_testnet_quote_spread_bps s of None \<Rightarrow> True | Some v \<Rightarrow> 0 \<le> v)
     \<and> (case s_testnet_quote_size s of None \<Rightarrow> True | Some v \<Rightarrow> 0 < v)
     \<and> 0 \<le> s_testnet_initial_base s
     \<and> 0 \<le> s_testnet_replace_threshold_bps s
     \<and> 0 < s_testnet_reconcile_interval_sec s
     \<and> 0 < s_testnet_timeout_sec s
     \<and> 1 \<le> s_lab_concurrent_recordings s \<and> s_lab_concurrent_recordings s \<le> 8
     \<and> 1 \<le> s_lab_queue_size s \<and> s_lab_queue_size s \<le> 100
     \<and> 1 \<le> s_lab_runs_per_hour s \<and> s_lab_runs_per_hour s \<le> 1000
     \<and> 1 \<le> s_lab_bundled_runs_per_hour s \<and> s_lab_bundled_runs_per_hour s \<le> 10000
     \<and> 0 < s_lab_keep_hours s
     \<and> 1 \<le> s_lab_runs_kept s \<and> s_lab_runs_kept s \<le> 100
     \<and> 0 < s_lab_market_cache_sec s"

section \<open>Derived switches\<close>

definition v3_active :: "Settings \<Rightarrow> bool" where
  "v3_active s \<longleftrightarrow> s_dex_enabled s \<and> s_v3_enabled s"

definition lp_active :: "Settings \<Rightarrow> bool" where
  "lp_active s \<longleftrightarrow> v3_active s \<and> s_lp_enabled s"

definition arb_sim_active :: "Settings \<Rightarrow> bool" where
  "arb_sim_active s \<longleftrightarrow> v3_active s \<and> s_arb_sim_enabled s"

text \<open>Python's \<open>a or b\<close> on an optional string: the first when it is present and not empty.\<close>

definition str_or :: "string option \<Rightarrow> string \<Rightarrow> string" where
  "str_or a b = (case a of None \<Rightarrow> b | Some x \<Rightarrow> if x = [] then b else x)"

definition arb_sim_url :: "Settings \<Rightarrow> string" where
  "arb_sim_url s = str_or (s_arb_sim_rpc_url s) (s_eth_rpc_url s)"

definition mempool_active :: "Settings \<Rightarrow> bool" where
  "mempool_active s \<longleftrightarrow> v3_active s \<and> s_mempool_enabled s"

definition mempool_http_url :: "Settings \<Rightarrow> string" where
  "mempool_http_url s = str_or (s_mempool_rpc_url s) (s_eth_rpc_url s)"

definition testnet_keys_present :: "Settings \<Rightarrow> bool" where
  "testnet_keys_present s \<longleftrightarrow>
     (case (s_binance_testnet_api_key s, s_binance_testnet_api_secret s) of
        (Some key, Some secret) \<Rightarrow> key \<noteq> [] \<and> secret \<noteq> []
      | _ \<Rightarrow> False)"

definition testnet_active :: "Settings \<Rightarrow> bool" where
  "testnet_active s \<longleftrightarrow> s_testnet_enabled s \<and> testnet_keys_present s"

definition testnet_spread_bps :: "Settings \<Rightarrow> f64" where
  "testnet_spread_bps s =
     (case s_testnet_quote_spread_bps s of None \<Rightarrow> s_quote_spread_bps s | Some x \<Rightarrow> x)"

definition testnet_size :: "Settings \<Rightarrow> f64" where
  "testnet_size s = (case s_testnet_quote_size s of Some x \<Rightarrow> x | None \<Rightarrow> s_quote_size s)"

section \<open>The defaults are valid\<close>

lemma default_settings_good: "settings_valid default_settings"
  by (simp add: settings_valid_def default_settings_def lit_pos lit_nonneg lit_le_one)

text \<open>The settings the program starts with satisfy every constraint it states, and need no key.\<close>

theorem default_settings_valid: "settings_valid default_settings \<and> \<not> testnet_active default_settings
    \<and> 0 < testnet_size default_settings \<and> 0 \<le> testnet_spread_bps default_settings"
  using default_settings_good
  by (simp add: default_settings_def testnet_active_def testnet_keys_present_def
      testnet_size_def testnet_spread_bps_def lit_pos lit_nonneg)

end
