(* ===== verification/Risk_Limits.thy ===== *)
theory Risk_Limits
  imports Lab_Domain "HOL-Library.Sublist"
begin

text \<open>
  \<open>app/risk/kill_switch.py\<close> and \<open>app/risk/limits.py\<close>: the operator's switch, and the filter that
  lets through the quotes the position caps and the paper balances allow.
\<close>

section \<open>Kill switch\<close>

record KillSwitch =
  ks_active :: bool

definition kill_switch_init :: KillSwitch where "kill_switch_init = \<lparr> ks_active = False \<rparr>"
definition kill_switch_enable :: "KillSwitch \<Rightarrow> KillSwitch" where "kill_switch_enable k = k\<lparr> ks_active := True \<rparr>"
definition kill_switch_disable :: "KillSwitch \<Rightarrow> KillSwitch" where "kill_switch_disable k = k\<lparr> ks_active := False \<rparr>"

definition kill_switch_toggle :: "KillSwitch \<Rightarrow> KillSwitch \<times> bool" where
  "kill_switch_toggle k = (let k' = k\<lparr> ks_active := \<not> ks_active k \<rparr> in (k', ks_active k'))"

section \<open>Position limits\<close>

definition bid_required_quote :: "Quote \<Rightarrow> f64 \<Rightarrow> f64" where
  "bid_required_quote quote maker_fee_bps =
     (let notional = qt_price quote * qt_size quote in notional + maker_fee notional maker_fee_bps)"

text \<open>The variables of the loop over the quotes.\<close>

record LimitState =
  ls_approved :: "Quote list"
  ls_projected_base :: f64
  ls_available_base :: f64
  ls_available_quote :: f64

definition next_base :: "f64 \<Rightarrow> Quote \<Rightarrow> f64" where
  "next_base projected quote =
     (if qt_side quote = BID then projected + qt_size quote else projected - qt_size quote)"

definition consider_quote :: "f64 \<Rightarrow> f64 \<Rightarrow> f64 \<Rightarrow> Quote \<Rightarrow> LimitState \<Rightarrow> LimitState" where
  "consider_quote max_position_base max_position_notional maker_fee_bps quote st =
     (let nb = next_base (ls_projected_base st) quote in
      if \<bar>nb\<bar> > max_position_base then st
      else if \<bar>nb * qt_price quote\<bar> > max_position_notional then st
      else if qt_side quote = ASK then
        (if ls_available_base st < qt_size quote then st
         else st\<lparr> ls_available_base := ls_available_base st - qt_size quote,
                  ls_projected_base := nb, ls_approved := ls_approved st @ [quote] \<rparr>)
      else
        let required_quote = bid_required_quote quote maker_fee_bps in
        if ls_available_quote st < required_quote then st
        else st\<lparr> ls_available_quote := ls_available_quote st - required_quote,
                 ls_projected_base := nb, ls_approved := ls_approved st @ [quote] \<rparr>)"

definition filter_quotes_by_position_limit ::
    "Quote list \<Rightarrow> Position \<Rightarrow> f64 \<Rightarrow> f64 \<Rightarrow> f64 \<Rightarrow> Quote list" where
  "filter_quotes_by_position_limit quotes position max_position_base max_position_notional maker_fee_bps =
     ls_approved (fold (consider_quote max_position_base max_position_notional maker_fee_bps) quotes
       \<lparr> ls_approved = [], ls_projected_base = po_base_amount position,
         ls_available_base = po_base_amount position, ls_available_quote = po_quote_amount position \<rparr>)"

text \<open>
  What a list of approved quotes must satisfy, read off the quotes alone: if they fill in order, the
  position stays within both caps at every step, and base and quote balances never go short.
\<close>

fun within_caps :: "f64 \<Rightarrow> f64 \<Rightarrow> f64 \<Rightarrow> Quote list \<Rightarrow> bool" where
  "within_caps max_base max_notional base [] \<longleftrightarrow> True"
| "within_caps max_base max_notional base (q # qs) \<longleftrightarrow>
     \<bar>next_base base q\<bar> \<le> max_base \<and> \<bar>next_base base q * qt_price q\<bar> \<le> max_notional
     \<and> within_caps max_base max_notional (next_base base q) qs"

fun funded :: "f64 \<Rightarrow> f64 \<Rightarrow> f64 \<Rightarrow> Quote list \<Rightarrow> bool" where
  "funded fee base cash [] \<longleftrightarrow> True"
| "funded fee base cash (q # qs) \<longleftrightarrow>
     (if qt_side q = ASK then qt_size q \<le> base \<and> funded fee (base - qt_size q) cash qs
      else bid_required_quote q fee \<le> cash \<and> funded fee base (cash - bid_required_quote q fee) qs)"

definition spend :: "f64 \<Rightarrow> Quote \<Rightarrow> f64 \<times> f64 \<times> f64 \<Rightarrow> f64 \<times> f64 \<times> f64" where
  "spend fee q = (\<lambda>(projected, base, cash).
     (next_base projected q, if qt_side q = ASK then base - qt_size q else base,
      if qt_side q = ASK then cash else cash - bid_required_quote q fee))"

lemma spend_tuple [simp]:
  "spend fee q (projected, base, cash) =
     (next_base projected q, if qt_side q = ASK then base - qt_size q else base,
      if qt_side q = ASK then cash else cash - bid_required_quote q fee)"
  by (simp add: spend_def)

lemma within_caps_snoc:
  "within_caps mb mn (fst s) (qs @ [q]) \<longleftrightarrow>
     within_caps mb mn (fst s) qs \<and> within_caps mb mn (fst (fold (spend fee) qs s)) [q]"
proof (induction qs arbitrary: s)
  case (Cons a qs)
  show ?case using Cons.IH [of "spend fee a s"] by (cases s) simp
qed simp

lemma funded_snoc:
  "funded fee (fst (snd s)) (snd (snd s)) (qs @ [q]) \<longleftrightarrow>
     funded fee (fst (snd s)) (snd (snd s)) qs
     \<and> funded fee (fst (snd (fold (spend fee) qs s))) (snd (snd (fold (spend fee) qs s))) [q]"
proof (induction qs arbitrary: s)
  case (Cons a qs)
  show ?case using Cons.IH [of "spend fee a s"] by (cases s; cases "qt_side a = ASK") simp_all
qed simp

definition limit_inv :: "f64 \<Rightarrow> f64 \<Rightarrow> f64 \<Rightarrow> f64 \<Rightarrow> f64 \<Rightarrow> LimitState \<Rightarrow> bool" where
  "limit_inv mb mn fee base cash st \<longleftrightarrow>
     within_caps mb mn base (ls_approved st) \<and> funded fee base cash (ls_approved st)
     \<and> fold (spend fee) (ls_approved st) (base, base, cash)
       = (ls_projected_base st, ls_available_base st, ls_available_quote st)"

lemma consider_quote_inv:
  assumes "limit_inv mb mn fee base cash st"
  shows "limit_inv mb mn fee base cash (consider_quote mb mn fee q st)"
    and "subseq (ls_approved st) qs \<Longrightarrow> subseq (ls_approved (consider_quote mb mn fee q st)) (qs @ [q])"
proof -
  have fold: "fold (spend fee) (ls_approved st) (base, base, cash)
      = (ls_projected_base st, ls_available_base st, ls_available_quote st)"
    using assms by (simp add: limit_inv_def)
  have other: "qt_side q \<noteq> ASK \<longleftrightarrow> qt_side q = BID" by (cases "qt_side q") simp_all
  show "limit_inv mb mn fee base cash (consider_quote mb mn fee q st)"
    using assms within_caps_snoc [of mb mn "(base, base, cash)" "ls_approved st" q fee]
      funded_snoc [of fee "(base, base, cash)" "ls_approved st" q] fold
    by (auto simp: limit_inv_def consider_quote_def Let_def other not_less)
  show "subseq (ls_approved st) qs \<Longrightarrow> subseq (ls_approved (consider_quote mb mn fee q st)) (qs @ [q])"
    by (auto simp: consider_quote_def Let_def intro: subseq_rev_drop_many)
qed

lemma fold_consider_inv:
  assumes "limit_inv mb mn fee base cash st" and "subseq (ls_approved st) seen"
  shows "limit_inv mb mn fee base cash (fold (consider_quote mb mn fee) qs st)
    \<and> subseq (ls_approved (fold (consider_quote mb mn fee) qs st)) (seen @ qs)"
  using assms
proof (induction qs arbitrary: st seen)
  case (Cons q qs)
  have "limit_inv mb mn fee base cash (fold (consider_quote mb mn fee) qs (consider_quote mb mn fee q st))
    \<and> subseq (ls_approved (fold (consider_quote mb mn fee) qs (consider_quote mb mn fee q st))) ((seen @ [q]) @ qs)"
    using Cons.prems by (intro Cons.IH consider_quote_inv)
  then show ?case by simp
qed simp

lemma filter_invariant:
  "limit_inv mb mn fee (po_base_amount position) (po_quote_amount position)
     (fold (consider_quote mb mn fee) quotes
       \<lparr> ls_approved = [], ls_projected_base = po_base_amount position,
         ls_available_base = po_base_amount position, ls_available_quote = po_quote_amount position \<rparr>)
   \<and> subseq (filter_quotes_by_position_limit quotes position mb mn fee) quotes"
  using fold_consider_inv [of mb mn fee "po_base_amount position" "po_quote_amount position"
      "\<lparr> ls_approved = [], ls_projected_base = po_base_amount position,
         ls_available_base = po_base_amount position, ls_available_quote = po_quote_amount position \<rparr>"
      "[]" quotes]
  by (simp add: filter_quotes_by_position_limit_def limit_inv_def)

lemma filter_subseq: "subseq (filter_quotes_by_position_limit quotes position mb mn fee) quotes"
  using filter_invariant by blast

text \<open>C8. The filter drops quotes and changes none; the ones it keeps respect the caps and are funded when
  they fill in the order submitted.
\<close>

theorem approved_quotes_within_limits:
  "subseq (filter_quotes_by_position_limit quotes position mb mn fee) quotes
   \<and> within_caps mb mn (po_base_amount position) (filter_quotes_by_position_limit quotes position mb mn fee)
   \<and> funded fee (po_base_amount position) (po_quote_amount position)
       (filter_quotes_by_position_limit quotes position mb mn fee)"
  using filter_invariant [of mb mn fee position quotes]
  by (simp add: filter_quotes_by_position_limit_def limit_inv_def)

lemma fold_consider_all:
  assumes "within_caps mb mn (ls_projected_base st) qs"
    and "funded fee (ls_available_base st) (ls_available_quote st) qs"
  shows "ls_approved (fold (consider_quote mb mn fee) qs st) = ls_approved st @ qs"
  using assms
proof (induction qs arbitrary: st)
  case (Cons q qs)
  have other: "qt_side q \<noteq> ASK \<longleftrightarrow> qt_side q = BID" by (cases "qt_side q") simp_all
  have "consider_quote mb mn fee q st = st\<lparr> ls_available_base := (if qt_side q = ASK then ls_available_base st - qt_size q else ls_available_base st),
      ls_available_quote := (if qt_side q = ASK then ls_available_quote st else ls_available_quote st - bid_required_quote q fee),
      ls_projected_base := next_base (ls_projected_base st) q, ls_approved := ls_approved st @ [q] \<rparr>"
    using Cons.prems by (auto simp: consider_quote_def Let_def split: if_splits)
  then show ?case using Cons by (auto split: if_splits)
qed simp

text \<open>A list of quotes that all fit is let through whole.\<close>

theorem affordable_quotes_all_approved:
  assumes "within_caps mb mn (po_base_amount position) quotes"
    and "funded fee (po_base_amount position) (po_quote_amount position) quotes"
  shows "filter_quotes_by_position_limit quotes position mb mn fee = quotes"
  using fold_consider_all [of mb mn "\<lparr> ls_approved = [], ls_projected_base = po_base_amount position,
         ls_available_base = po_base_amount position, ls_available_quote = po_quote_amount position \<rparr>" quotes fee]
    assms
  by (simp add: filter_quotes_by_position_limit_def)

definition example_position :: Position where
  "example_position = \<lparr> po_symbol = ''BTC/USDT'', po_base_amount = lit 2, po_quote_amount = lit 100,
     po_average_entry_price = lit 1, po_timestamp = 0, po_tick_id = None \<rparr>"

definition example_ask :: Quote where
  "example_ask = \<lparr> qt_symbol = ''BTC/USDT'', qt_side = ASK, qt_price = lit 1, qt_size = lit 1, qt_timestamp = 0,
     qt_quote_id = None, qt_tick_id = None \<rparr>"

theorem affordable_quotes_all_approved_witness:
  "filter_quotes_by_position_limit [example_ask] example_position (lit 3) (lit 10) (lit 2) = [example_ask]"
proof (rule affordable_quotes_all_approved)
  have v: "val (lit 2) = 2" "val (lit 3) = 3" "val (lit 10) = 10" by (simp_all add: val_lit_numeral)
  have fl1: "fl 1 = 1" using fl_of_int [of 1] by simp
  have nb: "lit 2 - 1 = 1" by (simp add: v fl1 val_ops flip: val_inject)
  show "within_caps (lit 3) (lit 10) (po_base_amount example_position) [example_ask]"
    by (simp add: example_position_def example_ask_def next_base_def nb le_val v)
  show "funded (lit 2) (po_base_amount example_position) (po_quote_amount example_position) [example_ask]"
    by (simp add: example_position_def example_ask_def le_val v)
qed

end
