(* ===== verification/Quoting.thy ===== *)
theory Quoting
  imports Lab_Domain Lab_Settings Risk_Limits
begin

text \<open>
  \<open>app/strategies/\<close>: the three quoting strategies and the factory that builds the one the settings
  name. The contract \<open>Strategy\<close> of \<open>app/core/protocols.py\<close> is the locale \<open>quoting\<close>: at most one bid
  and one ask, never crossed. Every strategy of the code is an interpretation of it.
\<close>

section \<open>The strategies\<close>

record PureMarketMakingStrategy =
  pm_symbol :: string
  pm_spread_bps :: f64
  pm_quote_size :: f64

record InventorySkewStrategy =
  sk_symbol :: string
  sk_spread_bps :: f64
  sk_quote_size :: f64
  sk_target_base :: f64
  sk_max_position_base :: f64
  sk_skew_bps :: f64

record VolatilitySpreadStrategy =
  vs_symbol :: string
  vs_spread_bps :: f64
  vs_quote_size :: f64
  vs_volatility_spread_multiplier :: f64
  vs_mid_prices :: "f64 list"
  vs_maxlen :: int

text \<open>The two quotes each strategy returns.\<close>

definition quote_pair :: "string \<Rightarrow> f64 \<Rightarrow> f64 \<Rightarrow> f64 \<Rightarrow> datetime \<Rightarrow> Quote list" where
  "quote_pair symbol bid_price ask_price sz timestamp =
     [\<lparr> qt_symbol = symbol, qt_side = BID, qt_price = bid_price, qt_size = sz, qt_timestamp = timestamp,
        qt_quote_id = None, qt_tick_id = None \<rparr>,
      \<lparr> qt_symbol = symbol, qt_side = ASK, qt_price = ask_price, qt_size = sz, qt_timestamp = timestamp,
        qt_quote_id = None, qt_tick_id = None \<rparr>]"

definition pure_mm_quotes :: "PureMarketMakingStrategy \<Rightarrow> OrderBookSnapshot \<Rightarrow> Position \<Rightarrow> Quote list" where
  "pure_mm_quotes st snapshot position =
     (case mid_price snapshot of
        None \<Rightarrow> []
      | Some mid \<Rightarrow>
          if mid \<le> 0 then []
          else
            let half_spread = (pm_spread_bps st / lit 2) / lit 10000;
                bid_price = mid * (1 - half_spread);
                ask_price = mid * (1 + half_spread)
            in quote_pair (pm_symbol st) bid_price ask_price (pm_quote_size st) (ob_timestamp snapshot))"

definition skew_quotes :: "InventorySkewStrategy \<Rightarrow> OrderBookSnapshot \<Rightarrow> Position \<Rightarrow> Quote list" where
  "skew_quotes st snapshot position =
     (case mid_price snapshot of
        None \<Rightarrow> []
      | Some mid \<Rightarrow>
          if mid \<le> 0 then []
          else
            let half_spread = (sk_spread_bps st / lit 2) / lit 10000;
                ratio0 = (if sk_max_position_base st > 0
                          then (po_base_amount position - sk_target_base st) / sk_max_position_base st
                          else 0);
                inventory_ratio = max (- 1) (min 1 ratio0);
                skew = inventory_ratio * (sk_skew_bps st / lit 10000);
                bid_price = mid * (1 - half_spread - skew);
                ask_price = mid * (1 + half_spread - skew)
            in quote_pair (sk_symbol st) bid_price ask_price (sk_quote_size st) (ob_timestamp snapshot))"

text \<open>Appending to a \<open>deque\<close> with \<open>maxlen\<close> drops from the front.\<close>

definition deque_append :: "int \<Rightarrow> 'a \<Rightarrow> 'a list \<Rightarrow> 'a list" where
  "deque_append maxlen x xs = (let ys = xs @ [x] in drop (length ys - nat maxlen) ys)"

definition volatility_quotes ::
    "VolatilitySpreadStrategy \<Rightarrow> OrderBookSnapshot \<Rightarrow> Position \<Rightarrow> VolatilitySpreadStrategy \<times> Quote list" where
  "volatility_quotes st snapshot position =
     (case mid_price snapshot of
        None \<Rightarrow> (st, [])
      | Some mid \<Rightarrow>
          if mid \<le> 0 then (st, [])
          else
            let st1 = st\<lparr> vs_mid_prices := deque_append (vs_maxlen st) mid (vs_mid_prices st) \<rparr>;
                extra_spread_bps = (case return_volatility_bps (vs_mid_prices st1) of
                                      Some vol_bps \<Rightarrow> vs_volatility_spread_multiplier st * vol_bps
                                    | None \<Rightarrow> 0);
                effective_spread_bps = vs_spread_bps st + extra_spread_bps;
                half_spread = (effective_spread_bps / lit 2) / lit 10000;
                bid_price = mid * (1 - half_spread);
                ask_price = mid * (1 + half_spread)
            in (st1, quote_pair (vs_symbol st) bid_price ask_price (vs_quote_size st) (ob_timestamp snapshot)))"

section \<open>The factory\<close>

datatype Strategy =
    PureMM PureMarketMakingStrategy
  | InventorySkew InventorySkewStrategy
  | VolatilitySpread VolatilitySpreadStrategy

fun generate_quotes :: "Strategy \<Rightarrow> OrderBookSnapshot \<Rightarrow> Position \<Rightarrow> Strategy \<times> Quote list" where
  "generate_quotes (PureMM st) snapshot position = (PureMM st, pure_mm_quotes st snapshot position)"
| "generate_quotes (InventorySkew st) snapshot position = (InventorySkew st, skew_quotes st snapshot position)"
| "generate_quotes (VolatilitySpread st) snapshot position =
     (let (st', quotes) = volatility_quotes st snapshot position in (VolatilitySpread st', quotes))"

text \<open>The \<open>Literal\<close> type of the setting leaves no unknown strategy to raise on.\<close>

definition build_strategy :: "Settings \<Rightarrow> Strategy" where
  "build_strategy settings =
     (case s_strategy settings of
        pure_mm \<Rightarrow> PureMM
          \<lparr> pm_symbol = s_symbol settings, pm_spread_bps = s_quote_spread_bps settings,
            pm_quote_size = s_quote_size settings \<rparr>
      | inventory_skew \<Rightarrow> InventorySkew
          \<lparr> sk_symbol = s_symbol settings, sk_spread_bps = s_quote_spread_bps settings,
            sk_quote_size = s_quote_size settings, sk_target_base = s_inventory_target_base settings,
            sk_max_position_base = s_max_position_base settings, sk_skew_bps = s_inventory_skew_bps settings \<rparr>
      | volatility_spread \<Rightarrow> VolatilitySpread
          \<lparr> vs_symbol = s_symbol settings, vs_spread_bps = s_quote_spread_bps settings,
            vs_quote_size = s_quote_size settings,
            vs_volatility_spread_multiplier = s_volatility_spread_multiplier settings,
            vs_mid_prices = [], vs_maxlen = s_volatility_window settings + 1 \<rparr>)"

section \<open>The contract\<close>

definition two_sided :: "datetime \<Rightarrow> Quote list \<Rightarrow> bool" where
  "two_sided ts quotes \<longleftrightarrow> quotes = [] \<or>
     (\<exists>b a. quotes = [b, a] \<and> qt_side b = BID \<and> qt_side a = ASK \<and> qt_price b \<le> qt_price a
        \<and> qt_size b = qt_size a \<and> qt_symbol b = qt_symbol a
        \<and> qt_timestamp b = ts \<and> qt_timestamp a = ts \<and> qt_quote_id b = None \<and> qt_quote_id a = None)"

definition not_crossed :: "Quote list \<Rightarrow> bool" where
  "not_crossed quotes \<longleftrightarrow>
     (\<forall>b\<in>set quotes. \<forall>a\<in>set quotes. qt_side b = BID \<longrightarrow> qt_side a = ASK \<longrightarrow> qt_price b \<le> qt_price a)"

lemma crossed_subseq: "not_crossed quotes \<Longrightarrow> subseq kept quotes \<Longrightarrow> not_crossed kept"
  using list_emb_set [of "(=)" kept quotes] unfolding not_crossed_def by metis

locale quoting =
  fixes generate :: "'st \<Rightarrow> OrderBookSnapshot \<Rightarrow> Position \<Rightarrow> 'st \<times> Quote list"
    and good :: "'st \<Rightarrow> bool"
  assumes two_sided: "good st \<Longrightarrow> two_sided (ob_timestamp snapshot) (snd (generate st snapshot position))"
    and keeps: "good st \<Longrightarrow> good (fst (generate st snapshot position))"
begin

lemma never_crossed: "good st \<Longrightarrow> not_crossed (snd (generate st snapshot position))"
  using two_sided [of st snapshot position] by (auto simp: two_sided_def not_crossed_def)

lemma approved_never_crossed:
  "good st \<Longrightarrow> not_crossed (filter_quotes_by_position_limit (snd (generate st snapshot position)) position mb mn fee)"
  by (rule crossed_subseq [OF never_crossed filter_subseq])

end

section \<open>Every strategy keeps the contract\<close>

lemma f64_mult_left_mono: "0 \<le> c \<Longrightarrow> a \<le> b \<Longrightarrow> c * a \<le> c * b" for a b c :: f64
  by (simp add: le_val val_ops fl_mono mult_left_mono)

lemma spread_order:
  fixes mid h :: f64
  assumes "0 \<le> mid" and "0 \<le> h"
  shows "mid * (1 - h) \<le> mid * (1 + h)" "mid * (1 - h) \<le> mid" "mid \<le> mid * (1 + h)"
proof -
  have "1 - h \<le> 1" "1 \<le> 1 + h" using assms(2) by (simp_all add: f64_diff_le f64_le_add)
  then show "mid * (1 - h) \<le> mid" "mid \<le> mid * (1 + h)" "mid * (1 - h) \<le> mid * (1 + h)"
    using f64_mult_left_mono [OF assms(1), of "1 - h" 1] f64_mult_left_mono [OF assms(1), of 1 "1 + h"]
    by simp_all
qed

lemma skewed_order:
  fixes mid h skew :: f64
  assumes "0 \<le> mid" and "0 \<le> h"
  shows "mid * (1 - h - skew) \<le> mid * (1 + h - skew)"
proof -
  have "1 - h \<le> 1 + h" using f64_diff_le [of h 1] f64_le_add [of h 1] assms(2) by simp
  then show ?thesis using assms(1) by (intro f64_mult_left_mono f64_diff_mono) simp_all
qed

lemma half_spread_nonneg: "0 \<le> bps \<Longrightarrow> 0 \<le> (bps / lit 2) / lit 10000"
  by (intro f64_divide_nonneg lit_nonneg) simp_all

lemma two_sided_pair: "bid \<le> ask \<Longrightarrow> two_sided ts (quote_pair symbol bid ask sz ts)"
  by (simp add: two_sided_def quote_pair_def)

interpretation pure: quoting "\<lambda>st snapshot position. (st, pure_mm_quotes st snapshot position)"
    "\<lambda>st. 0 \<le> pm_spread_bps st"
  by unfold_locales
    (auto simp: pure_mm_quotes_def Let_def two_sided_def [of _ "[]"] split: option.splits
      intro!: two_sided_pair spread_order half_spread_nonneg)

interpretation skew: quoting "\<lambda>st snapshot position. (st, skew_quotes st snapshot position)"
    "\<lambda>st. 0 \<le> sk_spread_bps st"
  by unfold_locales
    (auto simp: skew_quotes_def Let_def two_sided_def [of _ "[]"] split: option.splits
      intro!: two_sided_pair skewed_order spread_order half_spread_nonneg)

interpretation volatility: quoting volatility_quotes
    "\<lambda>st. 0 \<le> vs_spread_bps st \<and> 0 \<le> vs_volatility_spread_multiplier st"
  by unfold_locales
    (auto simp: volatility_quotes_def Let_def two_sided_def [of _ "[]"] split: option.split
      intro!: two_sided_pair spread_order half_spread_nonneg f64_add_nonneg f64_mult_nonneg
      dest: return_volatility_nonneg)

fun good_strategy :: "Strategy \<Rightarrow> bool" where
  "good_strategy (PureMM st) \<longleftrightarrow> 0 \<le> pm_spread_bps st"
| "good_strategy (InventorySkew st) \<longleftrightarrow> 0 \<le> sk_spread_bps st"
| "good_strategy (VolatilitySpread st) \<longleftrightarrow> 0 \<le> vs_spread_bps st \<and> 0 \<le> vs_volatility_spread_multiplier st"

interpretation strategy: quoting generate_quotes good_strategy
proof
  fix st :: Strategy and snapshot :: OrderBookSnapshot and position :: Position
  assume good: "good_strategy st"
  show "two_sided (ob_timestamp snapshot) (snd (generate_quotes st snapshot position))"
  proof (cases st)
    case (PureMM x1)
    then show ?thesis using good pure.two_sided [of x1 snapshot position] by simp
  next
    case (InventorySkew x2)
    then show ?thesis using good skew.two_sided [of x2 snapshot position] by simp
  next
    case (VolatilitySpread x3)
    then show ?thesis using good volatility.two_sided [of x3 snapshot position]
      by (simp add: case_prod_unfold Let_def)
  qed
  show "good_strategy (fst (generate_quotes st snapshot position))"
  proof (cases st)
    case (VolatilitySpread x3)
    then show ?thesis using good volatility.keeps [of x3 snapshot position]
      by (simp add: case_prod_unfold Let_def)
  qed (use good in simp_all)
qed

lemma build_strategy_good: "settings_valid settings \<Longrightarrow> good_strategy (build_strategy settings)"
  by (auto simp: build_strategy_def settings_valid_def split: StrategyName.split)

text \<open>The quotes of successive ticks, each with the position it was made for.\<close>

fun strategy_ticks :: "Strategy \<Rightarrow> (OrderBookSnapshot \<times> Position) list \<Rightarrow> Quote list list" where
  "strategy_ticks st [] = []"
| "strategy_ticks st ((snapshot, position) # rest) =
     (let (st', quotes) = generate_quotes st snapshot position in quotes # strategy_ticks st' rest)"

lemma strategy_ticks_good:
  "good_strategy st \<Longrightarrow> quotes \<in> set (strategy_ticks st history) \<Longrightarrow> \<exists>ts. two_sided ts quotes"
proof (induction st history rule: strategy_ticks.induct)
  case (2 st snapshot position rest)
  obtain st' qs where gen: "generate_quotes st snapshot position = (st', qs)" by (cases "generate_quotes st snapshot position")
  have "two_sided (ob_timestamp snapshot) qs" "good_strategy st'"
    using strategy.two_sided [OF "2.prems"(1), of snapshot position]
      strategy.keeps [OF "2.prems"(1), of snapshot position] gen by simp_all
  then show ?case using "2.prems"(2) "2.IH" [OF gen [symmetric] refl] gen by auto
qed simp

text \<open>C9. With valid settings, whichever strategy is chosen and whatever the market did before, each tick has
  no quotes or one bid and one ask of equal size with the bid not above the ask, and what the risk
  filter lets through is not crossed either.
\<close>

theorem strategy_quotes_never_cross:
  assumes "settings_valid settings" and "quotes \<in> set (strategy_ticks (build_strategy settings) history)"
  shows "(\<exists>ts. two_sided ts quotes)
    \<and> not_crossed (filter_quotes_by_position_limit quotes position mb mn fee)"
proof -
  obtain ts where "two_sided ts quotes"
    using strategy_ticks_good build_strategy_good assms by blast
  moreover from this have "not_crossed quotes" by (auto simp: two_sided_def not_crossed_def)
  ultimately show ?thesis using crossed_subseq filter_subseq by blast
qed

definition example_book :: OrderBookSnapshot where
  "example_book = \<lparr> ob_symbol = ''BTC/USDT'', ob_bids = [\<lparr> lv_price = lit 99, lv_size = 1 \<rparr>],
     ob_asks = [\<lparr> lv_price = lit 101, lv_size = 1 \<rparr>], ob_timestamp = 7, ob_is_stale = False, ob_tick_id = None \<rparr>"

theorem strategy_quotes_never_cross_witness:
  "(\<exists>ts. two_sided ts (pure_mm_quotes \<lparr> pm_symbol = ''BTC/USDT'', pm_spread_bps = lit 30, pm_quote_size = lit (1 / 1000) \<rparr> example_book example_position))
    \<and> not_crossed (filter_quotes_by_position_limit (pure_mm_quotes \<lparr> pm_symbol = ''BTC/USDT'', pm_spread_bps = lit 30,
        pm_quote_size = lit (1 / 1000) \<rparr> example_book example_position) example_position (lit 1) (lit 1000) (lit 2))"
proof (rule strategy_quotes_never_cross)
  show "settings_valid default_settings" using default_settings_good .
  show "pure_mm_quotes \<lparr> pm_symbol = ''BTC/USDT'', pm_spread_bps = lit 30, pm_quote_size = lit (1 / 1000) \<rparr> example_book example_position
      \<in> set (strategy_ticks (build_strategy default_settings) [(example_book, example_position)])"
    by (simp add: build_strategy_def default_settings_def)
qed

end
