(* ===== verification/Inventory.thy ===== *)
theory Inventory
  imports Lab_Domain
begin

text \<open>
  \<open>app/analytics/inventory.py\<close> and \<open>app/analytics/pnl.py\<close>: the paper account of a strategy, the only
  place where base, quote, fees and realized profit change, and the profit-and-loss snapshot read off
  it. The contract a client relies on is the locale \<open>ledger\<close>.
\<close>

record InventoryTracker =
  iv_symbol :: string
  iv_base_amount :: f64
  iv_quote_amount :: f64
  iv_average_entry_price :: f64
  iv_realized_pnl :: f64
  iv_total_fees :: f64
  iv_last_updated :: "datetime option"

definition inventory_init :: "string \<Rightarrow> f64 \<Rightarrow> InventoryTracker" where
  "inventory_init symbol initial_quote_balance =
     \<lparr> iv_symbol = symbol, iv_base_amount = 0, iv_quote_amount = initial_quote_balance,
       iv_average_entry_price = 0, iv_realized_pnl = 0, iv_total_fees = 0, iv_last_updated = None \<rparr>"

definition restore_state ::
    "f64 \<Rightarrow> f64 \<Rightarrow> f64 \<Rightarrow> f64 \<Rightarrow> f64 \<Rightarrow> datetime option \<Rightarrow> InventoryTracker \<Rightarrow> InventoryTracker" where
  "restore_state base_amount quote_amount average_entry_price realized_pnl total_fees last_updated iv =
     iv\<lparr> iv_base_amount := base_amount, iv_quote_amount := quote_amount,
          iv_average_entry_price := average_entry_price, iv_realized_pnl := realized_pnl,
          iv_total_fees := total_fees, iv_last_updated := last_updated \<rparr>"

text \<open>The result says whether the fill was booked; a refused fill changes nothing.\<close>

definition apply_fill :: "InventoryTracker \<Rightarrow> Fill \<Rightarrow> datetime \<Rightarrow> InventoryTracker \<times> bool" where
  "apply_fill iv fill timestamp =
     (let notional = fl_price fill * fl_size fill in
      if fl_side fill = BID then
        let total_cost = notional + fl_fee fill in
        if iv_quote_amount iv < total_cost then (iv, False)
        else
          let new_base = iv_base_amount iv + fl_size fill;
              average = (if new_base > 0
                         then (iv_average_entry_price iv * iv_base_amount iv + notional) / new_base
                         else iv_average_entry_price iv)
          in (iv\<lparr> iv_total_fees := iv_total_fees iv + fl_fee fill,
                   iv_quote_amount := iv_quote_amount iv - total_cost,
                   iv_average_entry_price := average,
                   iv_base_amount := new_base,
                   iv_last_updated := Some timestamp \<rparr>, True)
      else if iv_base_amount iv < fl_size fill then (iv, False)
      else
        let realized = (if iv_base_amount iv > 0
                        then iv_realized_pnl iv + (fl_price fill - iv_average_entry_price iv) * fl_size fill
                        else iv_realized_pnl iv);
            base = iv_base_amount iv - fl_size fill
        in (iv\<lparr> iv_total_fees := iv_total_fees iv + fl_fee fill,
                 iv_quote_amount := iv_quote_amount iv + (notional - fl_fee fill),
                 iv_realized_pnl := realized,
                 iv_base_amount := (if base \<le> 0 then 0 else base),
                 iv_average_entry_price := (if base \<le> 0 then 0 else iv_average_entry_price iv),
                 iv_last_updated := Some timestamp \<rparr>, True))"

definition to_position :: "InventoryTracker \<Rightarrow> datetime \<Rightarrow> Position" where
  "to_position iv timestamp =
     \<lparr> po_symbol = iv_symbol iv, po_base_amount = iv_base_amount iv, po_quote_amount = iv_quote_amount iv,
       po_average_entry_price = iv_average_entry_price iv, po_timestamp = timestamp, po_tick_id = None \<rparr>"

definition compute_pnl_snapshot :: "InventoryTracker \<Rightarrow> OrderBookSnapshot \<Rightarrow> datetime \<Rightarrow> PnLSnapshot" where
  "compute_pnl_snapshot iv snapshot timestamp =
     (let unrealized_pnl = (case mid_price snapshot of
                              Some mid \<Rightarrow> if iv_base_amount iv > 0
                                          then iv_base_amount iv * (mid - iv_average_entry_price iv) else 0
                            | None \<Rightarrow> 0);
          total_pnl = iv_realized_pnl iv + unrealized_pnl - iv_total_fees iv
      in \<lparr> pn_symbol = iv_symbol iv, pn_realized_pnl = iv_realized_pnl iv,
           pn_unrealized_pnl = unrealized_pnl, pn_total_fees = iv_total_fees iv,
           pn_total_pnl = total_pnl, pn_timestamp = timestamp, pn_tick_id = None \<rparr>)"

section \<open>A solvent account\<close>

definition solvent :: "InventoryTracker \<Rightarrow> bool" where
  "solvent iv \<longleftrightarrow> 0 \<le> iv_base_amount iv \<and> 0 \<le> iv_quote_amount iv \<and> 0 \<le> iv_average_entry_price iv
     \<and> 0 \<le> iv_total_fees iv \<and> (iv_base_amount iv = 0 \<longrightarrow> iv_average_entry_price iv = 0)"

text \<open>A fill as the fill models make them: sizes and prices not negative, the fee within the notional.\<close>

definition fair_fill :: "Fill \<Rightarrow> bool" where
  "fair_fill fill \<longleftrightarrow> 0 \<le> fl_price fill \<and> 0 < fl_size fill \<and> 0 \<le> fl_fee fill
     \<and> fl_fee fill \<le> fl_price fill * fl_size fill"

lemma inventory_init_solvent: "0 \<le> balance \<Longrightarrow> solvent (inventory_init symbol balance)"
  by (simp add: solvent_def inventory_init_def)

lemma apply_fill_refused: "apply_fill iv fill ts = (iv', False) \<Longrightarrow> iv' = iv"
  by (auto simp: apply_fill_def Let_def split: if_splits)

lemma apply_fill_accepts_iff:
  "snd (apply_fill iv fill ts) \<longleftrightarrow>
     (if fl_side fill = BID then fl_price fill * fl_size fill + fl_fee fill \<le> iv_quote_amount iv
      else fl_size fill \<le> iv_base_amount iv)"
  by (auto simp: apply_fill_def Let_def not_less)

lemma apply_fill_solvent:
  assumes "solvent iv" and "fair_fill fill"
  shows "solvent (fst (apply_fill iv fill ts))"
proof -
  have pos: "0 < iv_base_amount iv + fl_size fill"
    using f64_add_pos [of "fl_size fill" "iv_base_amount iv"] assms
    by (simp add: fair_fill_def solvent_def f64_add_commute)
  have notional: "0 \<le> fl_price fill * fl_size fill"
    using assms(2) by (auto simp: fair_fill_def intro: f64_mult_nonneg)
  have avg: "0 \<le> (iv_average_entry_price iv * iv_base_amount iv + fl_price fill * fl_size fill)
      / (iv_base_amount iv + fl_size fill)"
    using assms pos notional
    by (auto simp: solvent_def fair_fill_def intro!: f64_divide_nonneg f64_add_nonneg f64_mult_nonneg)
  show ?thesis
    using assms pos notional avg
    by (auto simp: apply_fill_def Let_def solvent_def fair_fill_def not_less not_le
        intro!: f64_add_nonneg)
qed

text \<open>What every operation of the broker relies on.\<close>

locale ledger =
  fixes book :: "'acct \<Rightarrow> Fill \<Rightarrow> datetime \<Rightarrow> 'acct \<times> bool"
    and sound :: "'acct \<Rightarrow> bool"
    and fair :: "Fill \<Rightarrow> bool"
  assumes refused: "book a f ts = (a', False) \<Longrightarrow> a' = a"
    and sound: "sound a \<Longrightarrow> fair f \<Longrightarrow> sound (fst (book a f ts))"
begin

definition book_all :: "'acct \<Rightarrow> datetime \<Rightarrow> Fill list \<Rightarrow> 'acct" where
  "book_all a ts fs = fold (\<lambda>f a. fst (book a f ts)) fs a"

lemma book_all_sound: "sound a \<Longrightarrow> \<forall>f\<in>set fs. fair f \<Longrightarrow> sound (book_all a ts fs)"
  unfolding book_all_def by (induction fs arbitrary: a) (auto simp: sound)

lemma refused_unchanged: "\<not> snd (book a f ts) \<Longrightarrow> fst (book a f ts) = a"
  using refused [of a f ts] by (cases "book a f ts") auto

end

interpretation account: ledger apply_fill solvent fair_fill
  using apply_fill_refused apply_fill_solvent by unfold_locales blast+

text \<open>Booking a fill keeps the account solvent; a fill is refused exactly when the account cannot pay it,
  and then nothing changes; an accepted one adds its fee once and moves the base by its size.
\<close>

theorem apply_fill_keeps_account:
  assumes "solvent iv" and "fair_fill fill"
  shows "case apply_fill iv fill ts of (iv', booked) \<Rightarrow>
      solvent iv'
      \<and> (booked \<longleftrightarrow> (if fl_side fill = BID then fl_price fill * fl_size fill + fl_fee fill \<le> iv_quote_amount iv
                     else fl_size fill \<le> iv_base_amount iv))
      \<and> (\<not> booked \<longrightarrow> iv' = iv)
      \<and> (booked \<longrightarrow> iv_total_fees iv' = iv_total_fees iv + fl_fee fill \<and> iv_last_updated iv' = Some ts
          \<and> (if fl_side fill = BID then iv_base_amount iv' = iv_base_amount iv + fl_size fill
             else iv_base_amount iv' = iv_base_amount iv - fl_size fill))"
proof -
  obtain iv' booked where res: "apply_fill iv fill ts = (iv', booked)" by (cases "apply_fill iv fill ts")
  have "booked \<longrightarrow> iv_total_fees iv' = iv_total_fees iv + fl_fee fill \<and> iv_last_updated iv' = Some ts
      \<and> (if fl_side fill = BID then iv_base_amount iv' = iv_base_amount iv + fl_size fill
         else iv_base_amount iv' = iv_base_amount iv - fl_size fill)"
    using res by (auto simp: apply_fill_def Let_def antisym split: if_splits)
  moreover have "solvent iv'" using account.sound [OF assms, of ts] res by simp
  moreover have "\<not> booked \<longrightarrow> iv' = iv" using account.refused_unchanged [of iv fill ts] res by simp
  ultimately show ?thesis using apply_fill_accepts_iff [of iv fill ts] res by simp
qed

definition example_fill :: Fill where
  "example_fill = \<lparr> fl_symbol = ''BTC/USDT'', fl_side = BID, fl_price = 1, fl_size = 1, fl_fee = 0,
     fl_timestamp = 7, fl_quote_id = Some ''a'', fl_tick_id = None \<rparr>"

theorem apply_fill_keeps_account_witness:
  "case apply_fill (inventory_init ''BTC/USDT'' 1) example_fill 7 of (iv', booked) \<Rightarrow>
      solvent iv'
      \<and> (booked \<longleftrightarrow> (if fl_side example_fill = BID
           then fl_price example_fill * fl_size example_fill + fl_fee example_fill \<le> iv_quote_amount (inventory_init ''BTC/USDT'' 1)
           else fl_size example_fill \<le> iv_base_amount (inventory_init ''BTC/USDT'' 1)))
      \<and> (\<not> booked \<longrightarrow> iv' = inventory_init ''BTC/USDT'' 1)
      \<and> (booked \<longrightarrow> iv_total_fees iv' = iv_total_fees (inventory_init ''BTC/USDT'' 1) + fl_fee example_fill
          \<and> iv_last_updated iv' = Some 7
          \<and> (if fl_side example_fill = BID
             then iv_base_amount iv' = iv_base_amount (inventory_init ''BTC/USDT'' 1) + fl_size example_fill
             else iv_base_amount iv' = iv_base_amount (inventory_init ''BTC/USDT'' 1) - fl_size example_fill))"
  by (rule apply_fill_keeps_account) (auto simp: inventory_init_solvent fair_fill_def example_fill_def)

end
