(* ===== verification/Fill_Model.thy ===== *)
theory Fill_Model
  imports Fill_Calibration Lab_Settings Inventory Py_Dict "HOL-Library.Sublist"
begin

text \<open>
  \<open>app/execution/fill_model.py\<close> and \<open>app/execution/trade_fill.py\<close>: which resting paper quotes a
  new order book, or the public trades since the last one, fill. The pseudo-random draws come from a
  SHA-256 digest: the digest and the text of a float and of a timestamp are the fields of \<open>Draws\<close>,
  a parameter of the definitions, so that every statement holds whatever they return.
\<close>

section \<open>Draws\<close>

record Draws =
  dr_sha256_hex :: "string \<Rightarrow> string"
  dr_repr :: "f64 \<Rightarrow> string"
  dr_isoformat :: "datetime \<Rightarrow> string"

fun dec_digits :: "nat \<Rightarrow> string" where
  "dec_digits n = (if n < 10 then [char_of (48 + n)] else dec_digits (n div 10) @ [char_of (48 + n mod 10)])"

declare dec_digits.simps [simp del]

definition str_of_int :: "int \<Rightarrow> string" where
  "str_of_int n = (if n < 0 then ''-'' @ dec_digits (nat (- n)) else dec_digits (nat n))"

definition hex_value :: "char \<Rightarrow> int option" where
  "hex_value c = (let n = (of_char c :: int) in
     if 48 \<le> n \<and> n \<le> 57 then Some (n - 48)
     else if 97 \<le> n \<and> n \<le> 102 then Some (n - 87)
     else if 65 \<le> n \<and> n \<le> 70 then Some (n - 55) else None)"

fun hex_digits :: "string \<Rightarrow> int \<Rightarrow> int res" where
  "hex_digits [] acc = ok acc"
| "hex_digits (c # cs) acc =
     (case hex_value c of None \<Rightarrow> raise_error ValueError | Some d \<Rightarrow> hex_digits cs (16 * acc + d))"

definition int_of_hex :: "string \<Rightarrow> int res" where
  "int_of_hex s = (if s = [] then raise_error ValueError else hex_digits s 0)"

definition deterministic_unit_random :: "Draws \<Rightarrow> string \<Rightarrow> int \<Rightarrow> f64 res" where
  "deterministic_unit_random dr quote_id tick_index =
     (let digest = dr_sha256_hex dr (quote_id @ '':'' @ str_of_int tick_index)
      in rbind (int_of_hex (take 12 digest)) (\<lambda>n. fdiv (float_of_int n) (float_of_int 0xFFFFFFFFFFFF)))"

lemma hex_value_range: "hex_value c = Some d \<Longrightarrow> 0 \<le> d \<and> d < 16"
  by (auto simp: hex_value_def Let_def split: if_splits)

lemma hex_digits_range:
  "hex_digits s acc = Inr n \<Longrightarrow> 0 \<le> acc \<Longrightarrow> 0 \<le> n \<and> n < (acc + 1) * 16 ^ length s"
proof (induction s acc rule: hex_digits.induct)
  case (2 c cs acc)
  then obtain d where d: "hex_value c = Some d" "hex_digits cs (16 * acc + d) = Inr n"
    by (auto split: option.splits)
  then have n: "0 \<le> n" "n < (16 * acc + d + 1) * 16 ^ length cs"
    using 2 hex_value_range [OF d(1)] by auto
  note n(2)
  also have "(16 * acc + d + 1) * 16 ^ length cs \<le> (16 * (acc + 1)) * 16 ^ length cs"
    using hex_value_range [OF d(1)] by (intro mult_right_mono) auto
  finally show ?case using n(1) by (simp add: algebra_simps)
qed simp

lemma unit_random_range:
  assumes "deterministic_unit_random dr key i = Inr u"
  shows "0 \<le> u \<and> u \<le> 1"
proof -
  obtain n where n: "int_of_hex (take 12 (dr_sha256_hex dr (key @ '':'' @ str_of_int i))) = Inr n"
      and u: "u = float_of_int n / float_of_int 0xFFFFFFFFFFFF"
    using assms by (auto simp: deterministic_unit_random_def Let_def fdiv_eq_Inr_iff)
  let ?s = "take 12 (dr_sha256_hex dr (key @ '':'' @ str_of_int i))"
  have r: "0 \<le> n" "n < 16 ^ length ?s"
    using n hex_digits_range [of ?s 0 n] by (auto simp: int_of_hex_def split: if_splits)
  have "(16::int) ^ length ?s \<le> 16 ^ 12" by (intro power_increasing) simp_all
  with r have "n \<le> 0xFFFFFFFFFFFF" by simp
  then have "float_of_int n \<le> float_of_int 0xFFFFFFFFFFFF"
    unfolding float_of_int_def by (intro lit_mono) (simp only: of_int_le_iff)
  moreover have "0 \<le> float_of_int n" using r by (simp add: float_of_int_def lit_nonneg)
  ultimately show ?thesis unfolding u using f64_divide_le_1 f64_divide_nonneg order_trans by blast
qed

section \<open>Quotes crossed by a snapshot\<close>

record OpenQuote =
  oq_quote_id :: string
  oq_quote :: Quote
  oq_crossed_streak :: int
  oq_last_evaluated_at :: "datetime option"

definition fill_size_for_cross :: "Quote \<Rightarrow> OrderBookSnapshot \<Rightarrow> FillMode \<Rightarrow> f64 option" where
  "fill_size_for_cross quote snapshot fill_mode =
     (let opposing_size = (if qt_side quote = BID then best_ask_size snapshot else best_bid_size snapshot)
      in if fill_mode = PARTIAL \<or> fill_mode = LATENCY_PROB then
           (case opposing_size of
              None \<Rightarrow> None
            | Some sz \<Rightarrow> if sz \<le> 0 then None else Some (min (qt_size quote) sz))
         else Some (qt_size quote))"

definition snapshot_mid :: "OrderBookSnapshot \<Rightarrow> f64 option" where
  "snapshot_mid snapshot =
     (case (best_bid snapshot, best_ask snapshot) of
        (Some bid, Some ask) \<Rightarrow> Some ((bid + ask) / lit 2)
      | _ \<Rightarrow> None)"

definition make_fill :: "OpenQuote \<Rightarrow> f64 \<Rightarrow> f64 \<Rightarrow> datetime \<Rightarrow> Fill" where
  "make_fill open_quote sz maker_fee_bps at_time =
     (let quote = oq_quote open_quote
      in \<lparr> fl_symbol = qt_symbol quote, fl_side = qt_side quote, fl_price = qt_price quote, fl_size = sz,
           fl_fee = maker_fee (qt_price quote * sz) maker_fee_bps, fl_timestamp = at_time,
           fl_quote_id = Some (oq_quote_id open_quote), fl_tick_id = None \<rparr>)"

text \<open>What \<open>detect_fills\<close> is given besides the quotes and the book.\<close>

record FillParams =
  fp_libm :: Libm
  fp_draws :: Draws
  fp_maker_fee_bps :: f64
  fp_fill_mode :: FillMode
  fp_fill_latency_ticks :: int
  fp_fill_probability :: f64
  fp_tick_index :: int
  fp_calibration :: "FillCalibration option"
  fp_volatility :: "f64 option"

definition side_value :: "QuoteSide \<Rightarrow> string" where
  "side_value s = (case s of BID \<Rightarrow> ''bid'' | ASK \<Rightarrow> ''ask'')"

definition is_crossed :: "Quote \<Rightarrow> f64 \<Rightarrow> f64 \<Rightarrow> bool" where
  "is_crossed quote external_bid external_ask \<longleftrightarrow>
     (qt_side quote = BID \<and> external_ask \<le> qt_price quote)
     \<or> (qt_side quote = ASK \<and> external_bid \<ge> qt_price quote)"

text \<open>The chance that the price touched an uncrossed quote and came back.\<close>

definition touched_between :: "FillParams \<Rightarrow> FillCalibration \<Rightarrow> f64 \<Rightarrow> f64 \<Rightarrow> datetime \<Rightarrow> datetime \<Rightarrow> Quote \<Rightarrow> bool res" where
  "touched_between fp calibration external_bid external_ask fill_timestamp since quote =
     rbind (if qt_side quote = BID then fdiv (external_ask - qt_price quote) (qt_price quote)
            else fdiv (qt_price quote - external_bid) (qt_price quote)) (\<lambda>d.
     rbind (fill_chance (fp_libm fp) calibration (d * lit 10000) (total_seconds (fill_timestamp - since)) (fp_volatility fp)) (\<lambda>chance.
     if chance \<le> 0 then ok False
     else
       let draw_key = side_value (qt_side quote) @ '':'' @ dr_repr (fp_draws fp) (qt_price quote) @ '':''
                      @ dr_isoformat (fp_draws fp) (qt_timestamp quote)
       in rbind (deterministic_unit_random (fp_draws fp) draw_key (fp_tick_index fp)) (\<lambda>u. ok (\<not> u \<ge> chance))))"

text \<open>One pass of the loop over the open quotes: the updated quote and its fill, if any.\<close>

definition evaluate_quote ::
    "FillParams \<Rightarrow> OrderBookSnapshot \<Rightarrow> f64 \<Rightarrow> f64 \<Rightarrow> OpenQuote \<Rightarrow> (OpenQuote \<times> Fill option) res" where
  "evaluate_quote fp snapshot external_bid external_ask open_quote =
     (let quote = oq_quote open_quote;
          fill_timestamp = ob_timestamp snapshot;
          required_streak = (if fp_fill_mode fp = LATENCY_PROB then max 1 (fp_fill_latency_ticks fp) else 1);
          probability = min 1 (max 0 (fp_fill_probability fp));
          since = (case oq_last_evaluated_at open_quote of Some t \<Rightarrow> t | None \<Rightarrow> qt_timestamp quote);
          seen = open_quote\<lparr> oq_last_evaluated_at := Some fill_timestamp \<rparr>
      in if \<not> is_crossed quote external_bid external_ask then
           (let rested = seen\<lparr> oq_crossed_streak := 0 \<rparr>
            in case fp_calibration fp of
                 None \<Rightarrow> ok (rested, None)
               | Some calibration \<Rightarrow>
                   if fp_fill_mode fp \<noteq> CALIBRATED then ok (rested, None)
                   else rbind (touched_between fp calibration external_bid external_ask fill_timestamp since quote) (\<lambda>hit.
                     ok (rested, if hit then Some (make_fill open_quote (qt_size quote) (fp_maker_fee_bps fp) fill_timestamp)
                                 else None)))
         else
           let crossed = seen\<lparr> oq_crossed_streak := oq_crossed_streak open_quote + 1 \<rparr>;
               sized = (\<lambda>size_mode.
                 case fill_size_for_cross quote snapshot size_mode of
                   None \<Rightarrow> ok (crossed, None)
                 | Some sz \<Rightarrow>
                     if sz \<le> 0 then ok (crossed, None)
                     else ok (crossed, Some (make_fill open_quote sz (fp_maker_fee_bps fp) fill_timestamp)))
           in case fp_fill_mode fp of
                LATENCY_PROB \<Rightarrow>
                  if oq_crossed_streak crossed < required_streak then ok (crossed, None)
                  else rbind (deterministic_unit_random (fp_draws fp) (oq_quote_id open_quote) (fp_tick_index fp)) (\<lambda>u.
                    if u > probability then ok (crossed, None) else sized PARTIAL)
              | CALIBRATED \<Rightarrow> sized FULL_CROSS
              | m \<Rightarrow> sized m)"

definition detect_fills ::
    "FillParams \<Rightarrow> OpenQuote list \<Rightarrow> OrderBookSnapshot \<Rightarrow> (OpenQuote list \<times> Fill list) res" where
  "detect_fills fp open_quotes snapshot =
     (case (best_bid snapshot, best_ask snapshot) of
        (Some external_bid, Some external_ask) \<Rightarrow>
          rbind (res_map (evaluate_quote fp snapshot external_bid external_ask) open_quotes) (\<lambda>results.
            ok (map fst results, List.map_filter snd results))
      | _ \<Rightarrow> ok (map (\<lambda>oq. oq\<lparr> oq_crossed_streak := 0 \<rparr>) open_quotes, []))"

section \<open>What a detected fill is\<close>

definition fill_of :: "f64 \<Rightarrow> OpenQuote \<Rightarrow> Fill \<Rightarrow> bool" where
  "fill_of fee open_quote fill \<longleftrightarrow>
     fl_quote_id fill = Some (oq_quote_id open_quote) \<and> fl_side fill = qt_side (oq_quote open_quote)
     \<and> fl_symbol fill = qt_symbol (oq_quote open_quote) \<and> fl_price fill = qt_price (oq_quote open_quote)
     \<and> fl_fee fill = maker_fee (fl_price fill * fl_size fill) fee"

lemma make_fill_of: "fill_of fee oq (make_fill oq sz fee ts)"
  by (simp add: fill_of_def make_fill_def Let_def)

lemma make_fill_simps [simp]: "fl_size (make_fill oq sz fee ts) = sz" "fl_timestamp (make_fill oq sz fee ts) = ts"
  by (simp_all add: make_fill_def Let_def)

definition opposing_size :: "OrderBookSnapshot \<Rightarrow> QuoteSide \<Rightarrow> f64 option" where
  "opposing_size snapshot side = (if side = BID then best_ask_size snapshot else best_bid_size snapshot)"

definition sound_fill :: "FillParams \<Rightarrow> OrderBookSnapshot \<Rightarrow> f64 \<Rightarrow> f64 \<Rightarrow> OpenQuote \<Rightarrow> Fill \<Rightarrow> bool" where
  "sound_fill fp snapshot bid ask oq fill \<longleftrightarrow>
     fill_of (fp_maker_fee_bps fp) oq fill \<and> fl_timestamp fill = ob_timestamp snapshot
     \<and> 0 < fl_size fill \<and> fl_size fill \<le> qt_size (oq_quote oq)
     \<and> (fp_fill_mode fp \<noteq> CALIBRATED \<longrightarrow> is_crossed (oq_quote oq) bid ask)
     \<and> (fp_fill_mode fp = PARTIAL \<or> fp_fill_mode fp = LATENCY_PROB \<longrightarrow>
          (\<exists>sz. opposing_size snapshot (qt_side (oq_quote oq)) = Some sz \<and> fl_size fill \<le> sz))"

lemma fill_size_for_cross_bounds:
  "fill_size_for_cross quote snapshot m = Some sz \<Longrightarrow> sz \<le> qt_size quote
    \<and> (m = PARTIAL \<or> m = LATENCY_PROB \<longrightarrow> (\<exists>o_sz. opposing_size snapshot (qt_side quote) = Some o_sz \<and> sz \<le> o_sz))"
  by (auto simp: fill_size_for_cross_def opposing_size_def Let_def split: if_splits option.splits)

lemma sound_fill_crossed:
  assumes "fill_size_for_cross (oq_quote oq) snapshot m = Some sz" and "\<not> sz \<le> 0"
    and "is_crossed (oq_quote oq) bid ask"
    and "fp_fill_mode fp = PARTIAL \<or> fp_fill_mode fp = LATENCY_PROB \<longrightarrow> m = PARTIAL \<or> m = LATENCY_PROB"
  shows "sound_fill fp snapshot bid ask oq (make_fill oq sz (fp_maker_fee_bps fp) (ob_timestamp snapshot))"
  using fill_size_for_cross_bounds [OF assms(1)] assms(2-)
  by (auto simp: sound_fill_def make_fill_of not_le)

lemma evaluate_quote_sound:
  assumes res: "evaluate_quote fp snapshot bid ask oq = Inr (oq', fill)" and size: "0 < qt_size (oq_quote oq)"
  shows "oq_quote oq' = oq_quote oq \<and> oq_quote_id oq' = oq_quote_id oq
    \<and> (case fill of Some f \<Rightarrow> sound_fill fp snapshot bid ask oq f | None \<Rightarrow> True)"
proof (cases "is_crossed (oq_quote oq) bid ask")
  case False
  then show ?thesis
    using res size
    by (auto simp: evaluate_quote_def Let_def sound_fill_def make_fill_of split: option.splits if_splits)
next
  case True
  note crossed = sound_fill_crossed [OF _ _ True]
  show ?thesis
  proof (cases "fp_fill_mode fp")
    case FULL_CROSS
    then show ?thesis using res True crossed [where m = FULL_CROSS]
      by (auto simp: evaluate_quote_def Let_def split: option.splits if_splits)
  next
    case PARTIAL
    then show ?thesis using res True crossed [where m = PARTIAL]
      by (auto simp: evaluate_quote_def Let_def split: option.splits if_splits)
  next
    case LATENCY_PROB
    then show ?thesis using res True crossed [where m = PARTIAL]
      by (auto simp: evaluate_quote_def Let_def split: option.splits if_splits)
  next
    case CALIBRATED
    then show ?thesis using res True crossed [where m = FULL_CROSS]
      by (auto simp: evaluate_quote_def Let_def split: option.splits if_splits)
  qed
qed

lemma evaluate_quotes_sound:
  assumes "res_map (evaluate_quote fp snapshot bid ask) oqs = Inr results"
    and "\<forall>oq\<in>set oqs. 0 < qt_size (oq_quote oq)"
  shows "list_all2 (\<lambda>oq r. oq_quote (fst r) = oq_quote oq \<and> oq_quote_id (fst r) = oq_quote_id oq
    \<and> (case snd r of Some f \<Rightarrow> sound_fill fp snapshot bid ask oq f | None \<Rightarrow> True)) oqs results"
  using assms
proof (induction oqs arbitrary: results)
  case (Cons oq oqs)
  then obtain r rs where r: "evaluate_quote fp snapshot bid ask oq = Inr r"
      "res_map (evaluate_quote fp snapshot bid ask) oqs = Inr rs" "results = r # rs"
    by auto
  then show ?case
    using Cons evaluate_quote_sound [of fp snapshot bid ask oq "fst r" "snd r"] by auto
qed simp

lemma sound_results_fills:
  assumes "list_all2 (\<lambda>oq r. P oq r \<and> (case snd r of Some f \<Rightarrow> Q oq f \<and> fl_quote_id f = Some (oq_quote_id oq) | None \<Rightarrow> True)) oqs results"
  shows "subseq (map fl_quote_id (List.map_filter snd results)) (map (\<lambda>oq. Some (oq_quote_id oq)) oqs)
    \<and> (\<forall>f\<in>set (List.map_filter snd results). \<exists>oq\<in>set oqs. Q oq f)"
  using assms by (induction oqs results rule: list_all2_induct)
    (auto split: option.splits)

lemma detect_fills_facts:
  assumes "detect_fills fp oqs snapshot = Inr (oqs', fills)" and "\<forall>oq\<in>set oqs. 0 < qt_size (oq_quote oq)"
  shows "map oq_quote oqs' = map oq_quote oqs \<and> map oq_quote_id oqs' = map oq_quote_id oqs
    \<and> subseq (map fl_quote_id fills) (map (\<lambda>oq. Some (oq_quote_id oq)) oqs)
    \<and> (\<forall>f\<in>set fills. \<exists>oq\<in>set oqs. \<exists>bid ask. best_bid snapshot = Some bid \<and> best_ask snapshot = Some ask
         \<and> sound_fill fp snapshot bid ask oq f)"
proof (cases "\<exists>bid ask. best_bid snapshot = Some bid \<and> best_ask snapshot = Some ask")
  case False
  then show ?thesis using assms(1) by (auto simp: detect_fills_def split: option.splits)
next
  case True
  then obtain bid ask where best: "best_bid snapshot = Some bid" "best_ask snapshot = Some ask" by blast
  then obtain results where results: "res_map (evaluate_quote fp snapshot bid ask) oqs = Inr results"
      "oqs' = map fst results" "fills = List.map_filter snd results"
    using assms(1) by (auto simp: detect_fills_def)
  have all: "list_all2 (\<lambda>oq r. (oq_quote (fst r) = oq_quote oq \<and> oq_quote_id (fst r) = oq_quote_id oq)
      \<and> (case snd r of Some f \<Rightarrow> sound_fill fp snapshot bid ask oq f \<and> fl_quote_id f = Some (oq_quote_id oq) | None \<Rightarrow> True))
      oqs results"
    using evaluate_quotes_sound [OF results(1) assms(2)]
    by (rule list_all2_mono) (auto simp: sound_fill_def fill_of_def split: option.splits)
  have "map oq_quote (map fst results) = map oq_quote oqs \<and> map oq_quote_id (map fst results) = map oq_quote_id oqs"
    using all by (induction oqs results rule: list_all2_induct) auto
  then show ?thesis
    using sound_results_fills [OF all] best results(2,3) by auto
qed

text \<open>Every fill a snapshot gives belongs to one resting quote, at its price and side, for a positive
  size no larger than the quote's, with the maker fee on its notional; no quote fills twice. Outside the
  calibrated mode the book crossed the quote, and the partial modes never fill more than the best
  opposing size.
\<close>

theorem detect_fills_sound:
  assumes "detect_fills fp oqs snapshot = Inr (oqs', fills)" and "\<forall>oq\<in>set oqs. 0 < qt_size (oq_quote oq)"
  shows "map oq_quote oqs' = map oq_quote oqs \<and> map oq_quote_id oqs' = map oq_quote_id oqs
    \<and> subseq (map fl_quote_id fills) (map (\<lambda>oq. Some (oq_quote_id oq)) oqs)
    \<and> list_all (\<lambda>f. \<exists>oq\<in>set oqs. \<exists>bid ask. best_bid snapshot = Some bid \<and> best_ask snapshot = Some ask
         \<and> sound_fill fp snapshot bid ask oq f) fills"
  using detect_fills_facts [OF assms] by (simp add: list_all_iff)

definition example_params_full :: FillParams where
  "example_params_full = \<lparr> fp_libm = exact_libm,
     fp_draws = \<lparr> dr_sha256_hex = (\<lambda>_. ''000000000000''), dr_repr = (\<lambda>_. []), dr_isoformat = (\<lambda>_. []) \<rparr>,
     fp_maker_fee_bps = lit 2, fp_fill_mode = FULL_CROSS, fp_fill_latency_ticks = 1, fp_fill_probability = 1,
     fp_tick_index = 1, fp_calibration = None, fp_volatility = None \<rparr>"

definition example_open_quote :: OpenQuote where
  "example_open_quote = \<lparr> oq_quote_id = ''q1'', oq_quote = \<lparr> qt_symbol = ''BTC/USDT'', qt_side = BID, qt_price = lit 101,
     qt_size = 1, qt_timestamp = 3, qt_quote_id = Some ''q1'', qt_tick_id = None \<rparr>, oq_crossed_streak = 0,
     oq_last_evaluated_at = None \<rparr>"

definition crossing_book :: OrderBookSnapshot where
  "crossing_book = \<lparr> ob_symbol = ''BTC/USDT'', ob_bids = [\<lparr> lv_price = lit 99, lv_size = 1 \<rparr>],
     ob_asks = [\<lparr> lv_price = lit 101, lv_size = 1 \<rparr>], ob_timestamp = 7, ob_is_stale = False, ob_tick_id = None \<rparr>"

definition example_evaluated :: OpenQuote where
  "example_evaluated = example_open_quote\<lparr> oq_last_evaluated_at := Some 7, oq_crossed_streak := 1 \<rparr>"

theorem detect_fills_sound_witness:
  "map oq_quote [example_evaluated] = map oq_quote [example_open_quote]
    \<and> map oq_quote_id [example_evaluated] = map oq_quote_id [example_open_quote]
    \<and> subseq (map fl_quote_id [make_fill example_open_quote 1 (lit 2) 7]) (map (\<lambda>oq. Some (oq_quote_id oq)) [example_open_quote])
    \<and> list_all (\<lambda>f. \<exists>oq\<in>set [example_open_quote]. \<exists>bid ask.
         best_bid crossing_book = Some bid \<and> best_ask crossing_book = Some ask
         \<and> sound_fill example_params_full crossing_book bid ask oq f) [make_fill example_open_quote 1 (lit 2) 7]"
proof (rule detect_fills_sound)
  show "detect_fills example_params_full [example_open_quote] crossing_book
      = Inr ([example_evaluated], [make_fill example_open_quote 1 (lit 2) 7])"
    by (simp add: detect_fills_def best_bid_def best_ask_def crossing_book_def evaluate_quote_def Let_def
        example_params_full_def example_open_quote_def example_evaluated_def is_crossed_def fill_size_for_cross_def)
qed (simp add: example_open_quote_def)

section \<open>Fills from public trades\<close>

record PrintedTrade =
  tr_timestamp :: datetime
  tr_price :: f64
  tr_amount :: f64

definition trade_through :: "Quote \<Rightarrow> PrintedTrade \<Rightarrow> bool" where
  "trade_through quote trade \<longleftrightarrow>
     (qt_side quote = BID \<and> tr_price trade \<le> qt_price quote)
     \<or> (qt_side quote = ASK \<and> tr_price trade \<ge> qt_price quote)"

record TradeFillState =
  tf_left :: f64
  tf_remaining :: "(string, f64) dict"
  tf_filled :: "(string, f64) dict"

text \<open>The inner loop: one trade against the open quotes in order, until its size is used up.\<close>

fun trade_pass :: "PrintedTrade \<Rightarrow> OpenQuote list \<Rightarrow> TradeFillState \<Rightarrow> TradeFillState res" where
  "trade_pass trade [] st = ok st"
| "trade_pass trade (open_quote # open_quotes) st =
     (if tf_left st \<le> 0 then ok st
      else
        let quote = oq_quote open_quote; k = oq_quote_id open_quote in
        if qt_timestamp quote \<ge> tr_timestamp trade then trade_pass trade open_quotes st
        else
          (case dict_get (tf_remaining st) k of
             None \<Rightarrow> raise_error KeyError
           | Some size_left \<Rightarrow>
               if \<not> trade_through quote trade \<or> size_left \<le> 0 then trade_pass trade open_quotes st
               else
                 let sz = min size_left (tf_left st)
                 in trade_pass trade open_quotes
                      (st\<lparr> tf_remaining := dict_set k (size_left - sz) (tf_remaining st),
                           tf_filled := dict_set k (dict_get_or (tf_filled st) k 0 + sz) (tf_filled st),
                           tf_left := tf_left st - sz \<rparr>)))"

fun trades_pass :: "OpenQuote list \<Rightarrow> PrintedTrade list \<Rightarrow> TradeFillState \<Rightarrow> TradeFillState res" where
  "trades_pass open_quotes [] st = ok st"
| "trades_pass open_quotes (trade # trades) st =
     rbind (trade_pass trade open_quotes (st\<lparr> tf_left := tr_amount trade \<rparr>)) (trades_pass open_quotes trades)"

definition trade_fills_of :: "OpenQuote list \<Rightarrow> (string, f64) dict \<Rightarrow> f64 \<Rightarrow> datetime \<Rightarrow> Fill list" where
  "trade_fills_of open_quotes filled maker_fee_bps at_time =
     List.map_filter (\<lambda>open_quote.
       case dict_get filled (oq_quote_id open_quote) of
         None \<Rightarrow> None
       | Some sz \<Rightarrow> if sz = 0 then None else Some (make_fill open_quote sz maker_fee_bps at_time)) open_quotes"

definition detect_trade_fills :: "OpenQuote list \<Rightarrow> PrintedTrade list \<Rightarrow> f64 \<Rightarrow> datetime \<Rightarrow> Fill list res" where
  "detect_trade_fills open_quotes trades maker_fee_bps at_time =
     (let remaining = fold (\<lambda>oq d. dict_set (oq_quote_id oq) (qt_size (oq_quote oq)) d) open_quotes []
      in rbind (trades_pass open_quotes trades \<lparr> tf_left = 0, tf_remaining = remaining, tf_filled = [] \<rparr>) (\<lambda>st.
         ok (trade_fills_of open_quotes (tf_filled st) maker_fee_bps at_time)))"

text \<open>
  What the passes keep: every open quote has a remaining size, filled sizes are positive, and a
  quote with a filled size was printed through by a trade after it was placed.
\<close>

definition printed_through :: "OpenQuote list \<Rightarrow> PrintedTrade list \<Rightarrow> string \<Rightarrow> bool" where
  "printed_through open_quotes trades k \<longleftrightarrow>
     (\<exists>oq\<in>set open_quotes. \<exists>trade\<in>set trades. oq_quote_id oq = k \<and> trade_through (oq_quote oq) trade
        \<and> qt_timestamp (oq_quote oq) < tr_timestamp trade)"

definition trade_inv :: "OpenQuote list \<Rightarrow> PrintedTrade list \<Rightarrow> TradeFillState \<Rightarrow> bool" where
  "trade_inv open_quotes trades st \<longleftrightarrow>
     (\<forall>oq\<in>set open_quotes. dict_get (tf_remaining st) (oq_quote_id oq) \<noteq> None)
     \<and> (\<forall>k sz. dict_get (tf_filled st) k = Some sz \<longrightarrow> 0 < sz \<and> printed_through open_quotes trades k)"

lemma trade_pass_ends:
  assumes "trade_inv all trades st" and "set open_quotes \<subseteq> set all" and "trade \<in> set trades"
  shows "\<exists>st'. trade_pass trade open_quotes st = Inr st' \<and> trade_inv all trades st'
    \<and> (0 \<le> tf_left st \<longrightarrow> 0 \<le> tf_left st' \<and> tf_left st' \<le> tf_left st)"
  using assms
proof (induction trade open_quotes st rule: trade_pass.induct)
  case (2 trade oq oqs st)
  let ?q = "oq_quote oq" and ?k = "oq_quote_id oq"
  obtain size_left where size_left: "dict_get (tf_remaining st) ?k = Some size_left"
    using "2.prems" by (auto simp: trade_inv_def)
  show ?case
  proof (cases "tf_left st \<le> 0 \<or> qt_timestamp ?q \<ge> tr_timestamp trade \<or> \<not> trade_through ?q trade \<or> size_left \<le> 0")
    case True
    then show ?thesis
      using "2.IH" "2.prems" size_left by (auto simp: Let_def)
  next
    case False
    let ?sz = "min size_left (tf_left st)"
    let ?st = "st\<lparr> tf_remaining := dict_set ?k (size_left - ?sz) (tf_remaining st),
        tf_filled := dict_set ?k (dict_get_or (tf_filled st) ?k 0 + ?sz) (tf_filled st), tf_left := tf_left st - ?sz \<rparr>"
    have pos: "0 < ?sz" using False by auto
    have prev: "0 \<le> dict_get_or (tf_filled st) ?k 0"
      using "2.prems"(1) by (auto simp: dict_get_or_def trade_inv_def less_imp_le split: option.splits)
    then have filled: "0 < dict_get_or (tf_filled st) ?k 0 + ?sz"
      using pos f64_add_pos f64_add_commute by metis
    have "printed_through all trades ?k"
      using False "2.prems"(2,3) unfolding printed_through_def
      by (intro bexI [of _ oq] bexI [of _ trade]) auto
    then have inv: "trade_inv all trades ?st"
      using "2.prems"(1) filled by (auto simp: trade_inv_def)
    have eq: "trade_pass trade (oq # oqs) st = trade_pass trade oqs ?st"
      using False size_left by (simp add: Let_def)
    obtain st' where st': "trade_pass trade oqs ?st = Inr st'" "trade_inv all trades st'"
        "0 \<le> tf_left ?st \<longrightarrow> 0 \<le> tf_left st' \<and> tf_left st' \<le> tf_left ?st"
      using "2.IH"(3) [OF _ refl refl _ size_left _ refl inv] False "2.prems"(2,3) by auto
    have "0 \<le> tf_left ?st" "tf_left ?st \<le> tf_left st"
      using f64_diff_le [of ?sz "tf_left st"] less_imp_le [OF pos] by simp_all
    then show ?thesis unfolding eq using st' by auto
  qed
qed simp

lemma trades_pass_ends:
  assumes "trade_inv oqs all st" and "set trades \<subseteq> set all"
  shows "\<exists>st'. trades_pass oqs trades st = Inr st' \<and> trade_inv oqs all st'"
  using assms
proof (induction trades arbitrary: st)
  case (Cons trade trades)
  have "trade_inv oqs all (st\<lparr> tf_left := tr_amount trade \<rparr>)" using Cons.prems(1) by (simp add: trade_inv_def)
  then obtain st1 where "trade_pass trade oqs (st\<lparr> tf_left := tr_amount trade \<rparr>) = Inr st1" "trade_inv oqs all st1"
    using trade_pass_ends [of oqs all _ oqs trade] Cons.prems(2) by auto
  then show ?case using Cons by simp
qed simp

lemma initial_remaining:
  "dict_get (fold (\<lambda>oq d. dict_set (oq_quote_id oq) (qt_size (oq_quote oq)) d) oqs d) k \<noteq> None
    \<longleftrightarrow> dict_get d k \<noteq> None \<or> k \<in> oq_quote_id ` set oqs"
  by (induction oqs arbitrary: d) auto

lemma trade_fills_of_sound:
  assumes "\<forall>k sz. dict_get filled k = Some sz \<longrightarrow> 0 < sz \<and> P k"
  shows "subseq (map fl_quote_id (trade_fills_of oqs filled fee ts)) (map (\<lambda>oq. Some (oq_quote_id oq)) oqs)
    \<and> (\<forall>f\<in>set (trade_fills_of oqs filled fee ts). \<exists>oq\<in>set oqs. fill_of fee oq f \<and> 0 < fl_size f \<and> P (oq_quote_id oq))"
  using assms unfolding trade_fills_of_def
  by (induction oqs) (auto simp: make_fill_of fill_of_def make_fill_def Let_def split: option.splits)

lemma detect_trade_fills_facts:
  "\<exists>fills. detect_trade_fills oqs trades fee ts = Inr fills
    \<and> subseq (map fl_quote_id fills) (map (\<lambda>oq. Some (oq_quote_id oq)) oqs)
    \<and> (\<forall>f\<in>set fills. \<exists>oq\<in>set oqs. fill_of fee oq f \<and> 0 < fl_size f
         \<and> printed_through oqs trades (oq_quote_id oq))"
proof -
  let ?st = "\<lparr> tf_left = 0, tf_remaining = fold (\<lambda>oq d. dict_set (oq_quote_id oq) (qt_size (oq_quote oq)) d) oqs [],
      tf_filled = [] \<rparr>"
  have "trade_inv oqs trades ?st"
    using initial_remaining [of oqs "[]"] by (simp add: trade_inv_def)
  then obtain st where st: "trades_pass oqs trades ?st = Inr st" "trade_inv oqs trades st"
    using trades_pass_ends [of oqs trades ?st trades] by auto
  then show ?thesis
    using trade_fills_of_sound [of "tf_filled st" "printed_through oqs trades" oqs fee ts]
    by (auto simp: detect_trade_fills_def Let_def trade_inv_def)
qed

text \<open>Fills from trades never raise; each belongs to one quote, at its price, for a positive size, and a
  trade printed at or through that price after the quote was placed.
\<close>

theorem detect_trade_fills_sound:
  "\<exists>fills. detect_trade_fills oqs trades fee ts = Inr fills
    \<and> subseq (map fl_quote_id fills) (map (\<lambda>oq. Some (oq_quote_id oq)) oqs)
    \<and> list_all (\<lambda>f. \<exists>oq\<in>set oqs. fill_of fee oq f \<and> 0 < fl_size f
         \<and> printed_through oqs trades (oq_quote_id oq)) fills"
  using detect_trade_fills_facts [of oqs trades fee ts] by (auto simp: list_all_iff)

end
