(* ===== verification/Paper_Broker.thy ===== *)
theory Paper_Broker
  imports Fill_Model Risk_Limits
begin

text \<open>
  \<open>app/execution/paper_broker.py\<close>: the broker that rests quotes, books detected fills into the paper
  account and can be rolled back to a checkpoint. Ids of unnamed quotes are random UUIDs: the
  argument \<open>uuid\<close> supplies the id drawn for the quote at each position of the submitted list.
\<close>

record BrokerCheckpoint =
  bc_base_amount :: f64
  bc_quote_amount :: f64
  bc_average_entry_price :: f64
  bc_realized_pnl :: f64
  bc_total_fees :: f64
  bc_last_updated :: "datetime option"
  bc_open_quotes :: "OpenQuote list"

record PaperBroker =
  pb_symbol :: string
  pb_maker_fee_bps :: f64
  pb_fill_mode :: FillMode
  pb_fill_latency_ticks :: int
  pb_fill_probability :: f64
  pb_calibration :: "FillCalibration option"
  pb_volatility :: VolatilityTracker
  pb_open_quotes :: "OpenQuote list"
  pb_tick_index :: int
  pb_inventory :: InventoryTracker

definition broker_init ::
    "string \<Rightarrow> f64 \<Rightarrow> f64 \<Rightarrow> FillMode \<Rightarrow> int \<Rightarrow> f64 \<Rightarrow> FillCalibration option \<Rightarrow> PaperBroker" where
  "broker_init symbol initial_quote_balance maker_fee_bps fill_mode latency_ticks probability calibration =
     \<lparr> pb_symbol = symbol, pb_maker_fee_bps = maker_fee_bps, pb_fill_mode = fill_mode,
       pb_fill_latency_ticks = latency_ticks, pb_fill_probability = probability, pb_calibration = calibration,
       pb_volatility = volatility_tracker_init VOLATILITY_WINDOW_SEC, pb_open_quotes = [], pb_tick_index = 0,
       pb_inventory = inventory_init symbol initial_quote_balance \<rparr>"

definition broker_checkpoint :: "PaperBroker \<Rightarrow> BrokerCheckpoint" where
  "broker_checkpoint b =
     (let iv = pb_inventory b
      in \<lparr> bc_base_amount = iv_base_amount iv, bc_quote_amount = iv_quote_amount iv,
           bc_average_entry_price = iv_average_entry_price iv, bc_realized_pnl = iv_realized_pnl iv,
           bc_total_fees = iv_total_fees iv, bc_last_updated = iv_last_updated iv,
           bc_open_quotes = pb_open_quotes b \<rparr>)"

definition restore_checkpoint :: "BrokerCheckpoint \<Rightarrow> PaperBroker \<Rightarrow> PaperBroker" where
  "restore_checkpoint c b =
     b\<lparr> pb_inventory := restore_state (bc_base_amount c) (bc_quote_amount c) (bc_average_entry_price c)
          (bc_realized_pnl c) (bc_total_fees c) (bc_last_updated c) (pb_inventory b),
        pb_open_quotes := bc_open_quotes c \<rparr>"

section \<open>Booking fills\<close>

record BookingState =
  bk_inventory :: InventoryTracker
  bk_updated :: "OpenQuote list"
  bk_accepted :: "Fill list"

definition fills_by_quote_id :: "Fill list \<Rightarrow> (string option, Fill) dict" where
  "fills_by_quote_id fills = fold (\<lambda>f d. dict_set (fl_quote_id f) f d) fills []"

definition book_quote :: "(string option, Fill) dict \<Rightarrow> datetime \<Rightarrow> OpenQuote \<Rightarrow> BookingState \<Rightarrow> BookingState" where
  "book_quote by_id fill_timestamp open_quote st =
     (case dict_get by_id (Some (oq_quote_id open_quote)) of
        None \<Rightarrow> st\<lparr> bk_updated := bk_updated st @ [open_quote] \<rparr>
      | Some fill \<Rightarrow>
          (case apply_fill (bk_inventory st) fill fill_timestamp of
             (iv, False) \<Rightarrow> st\<lparr> bk_inventory := iv, bk_updated := bk_updated st @ [open_quote] \<rparr>
           | (iv, True) \<Rightarrow>
               let remaining_size = qt_size (oq_quote open_quote) - fl_size fill;
                   st1 = st\<lparr> bk_inventory := iv, bk_accepted := bk_accepted st @ [fill] \<rparr>
               in if remaining_size > 0 then
                    st1\<lparr> bk_updated := bk_updated st1 @
                      [\<lparr> oq_quote_id = oq_quote_id open_quote,
                         oq_quote = (oq_quote open_quote)\<lparr> qt_size := remaining_size \<rparr>,
                         oq_crossed_streak = 0, oq_last_evaluated_at = Some fill_timestamp \<rparr>] \<rparr>
                  else st1))"

definition book_fills :: "PaperBroker \<Rightarrow> Fill list \<Rightarrow> datetime \<Rightarrow> PaperBroker \<times> Fill list" where
  "book_fills b fills fill_timestamp =
     (if fills = [] then (b, [])
      else
        let st = fold (book_quote (fills_by_quote_id fills) fill_timestamp) (pb_open_quotes b)
                   \<lparr> bk_inventory = pb_inventory b, bk_updated = [], bk_accepted = [] \<rparr>
        in (b\<lparr> pb_inventory := bk_inventory st, pb_open_quotes := bk_updated st \<rparr>, bk_accepted st))"

definition broker_fill_params :: "Libm \<Rightarrow> Draws \<Rightarrow> PaperBroker \<Rightarrow> f64 option \<Rightarrow> FillParams" where
  "broker_fill_params m dr b volatility =
     \<lparr> fp_libm = m, fp_draws = dr, fp_maker_fee_bps = pb_maker_fee_bps b, fp_fill_mode = pb_fill_mode b,
       fp_fill_latency_ticks = pb_fill_latency_ticks b, fp_fill_probability = pb_fill_probability b,
       fp_tick_index = pb_tick_index b, fp_calibration = pb_calibration b, fp_volatility = volatility \<rparr>"

text \<open>
  Both operations may raise, and then return the broker they leave behind: the tick is counted and the tracker
  holds the new mid price. The crossing streaks of the quotes before the one whose evaluation raised are an
  exception: the model keeps the quotes as they were. Every caller in the loop discards them, since it
  restores its checkpoint of the quotes.
\<close>

definition apply_fills :: "Libm \<Rightarrow> Draws \<Rightarrow> PaperBroker \<Rightarrow> OrderBookSnapshot \<Rightarrow> PaperBroker \<times> Fill list res" where
  "apply_fills m dr b snapshot =
     (let (tracker, volatility) =
            (if pb_fill_mode b = CALIBRATED
             then volatility_update m (pb_volatility b) (ob_timestamp snapshot) (snapshot_mid snapshot)
             else (pb_volatility b, ok None));
          b1 = b\<lparr> pb_tick_index := pb_tick_index b + 1, pb_volatility := tracker \<rparr>
      in sbind (b1, rbind volatility (\<lambda>v. detect_fills (broker_fill_params m dr b1 v) (pb_open_quotes b1) snapshot))
           (\<lambda>b1 (quotes, fills).
             let (b2, accepted) = book_fills (b1\<lparr> pb_open_quotes := quotes \<rparr>) fills (ob_timestamp snapshot)
             in (b2, ok accepted)))"

definition apply_trade_fills :: "PaperBroker \<Rightarrow> PrintedTrade list \<Rightarrow> datetime \<Rightarrow> PaperBroker \<times> Fill list res" where
  "apply_trade_fills b trades at_time =
     (let b1 = b\<lparr> pb_tick_index := pb_tick_index b + 1 \<rparr>
      in sbind (b1, detect_trade_fills (pb_open_quotes b1) trades (pb_maker_fee_bps b1) at_time) (\<lambda>b1 fills.
           let (b2, accepted) = book_fills b1 fills at_time in (b2, ok accepted)))"

section \<open>Resting quotes\<close>

definition assign_quote_id :: "string \<Rightarrow> Quote \<Rightarrow> Quote" where
  "assign_quote_id uuid quote =
     quote\<lparr> qt_quote_id := Some (case qt_quote_id quote of Some k \<Rightarrow> if k = [] then uuid else k | None \<Rightarrow> uuid) \<rparr>"

definition submit_quotes :: "(nat \<Rightarrow> string) \<Rightarrow> PaperBroker \<Rightarrow> Quote list \<Rightarrow> PaperBroker \<times> Quote list" where
  "submit_quotes uuid b quotes =
     (let kept = (if pb_fill_mode b = LATENCY_PROB then filter (\<lambda>q. oq_crossed_streak q > 0) (pb_open_quotes b) else []);
          kept_sides = (\<lambda>q. qt_side (oq_quote q)) ` set kept;
          submitted = map (\<lambda>(i, q). assign_quote_id (uuid i) q)
                        (filter (\<lambda>(i, q). qt_side q \<notin> kept_sides) (enumerate 0 quotes));
          added = map (\<lambda>q. \<lparr> oq_quote_id = the (qt_quote_id q), oq_quote = q, oq_crossed_streak = 0,
                             oq_last_evaluated_at = None \<rparr>) submitted
      in (b\<lparr> pb_open_quotes := kept @ added \<rparr>, submitted))"

definition cancel_all_quotes :: "PaperBroker \<Rightarrow> PaperBroker" where
  "cancel_all_quotes b = b\<lparr> pb_open_quotes := [] \<rparr>"

definition open_quote_count :: "PaperBroker \<Rightarrow> nat" where
  "open_quote_count b = length (pb_open_quotes b)"

section \<open>The invariant of the broker\<close>

definition resting_ok :: "OpenQuote \<Rightarrow> bool" where
  "resting_ok oq \<longleftrightarrow> 0 < qt_size (oq_quote oq) \<and> 0 \<le> qt_price (oq_quote oq)"

definition broker_ok :: "PaperBroker \<Rightarrow> bool" where
  "broker_ok b \<longleftrightarrow> solvent (pb_inventory b) \<and> (\<forall>oq\<in>set (pb_open_quotes b). resting_ok oq)
     \<and> 0 \<le> pb_maker_fee_bps b \<and> pb_maker_fee_bps b \<le> lit 10000"

lemma maker_fee_le:
  assumes "0 \<le> x" "0 \<le> bps" "bps \<le> lit 10000"
  shows "maker_fee x bps \<le> x"
  unfolding maker_fee_def
  using assms lit_nonneg [of 10000] by (intro f64_mult_le_self f64_divide_nonneg f64_divide_le_1) simp_all

lemma fill_of_fair:
  assumes "fill_of fee oq f" and "resting_ok oq" and "0 < fl_size f" and "0 \<le> fee" "fee \<le> lit 10000"
  shows "fair_fill f"
proof -
  have "0 \<le> fl_price f * fl_size f"
    using assms by (intro f64_mult_nonneg) (auto simp: fill_of_def resting_ok_def)
  then show ?thesis
    using assms maker_fee_nonneg maker_fee_le by (auto simp: fair_fill_def fill_of_def resting_ok_def)
qed

lemma fills_by_quote_id_set: "dict_get (fills_by_quote_id fills) k = Some f \<Longrightarrow> f \<in> set fills"
proof -
  have "dict_get (fold (\<lambda>f d. dict_set (fl_quote_id f) f d) fills d) k = Some f
      \<Longrightarrow> f \<in> set fills \<or> dict_get d k = Some f" for d
  proof (induction fills arbitrary: d)
    case (Cons a fills)
    then show ?case using Cons.IH [of "dict_set (fl_quote_id a) a d"] by (auto split: if_splits)
  qed simp
  then show "dict_get (fills_by_quote_id fills) k = Some f \<Longrightarrow> f \<in> set fills"
    unfolding fills_by_quote_id_def by fastforce
qed

definition booking_ok :: "Fill set \<Rightarrow> BookingState \<Rightarrow> bool" where
  "booking_ok fs st \<longleftrightarrow> solvent (bk_inventory st) \<and> (\<forall>oq\<in>set (bk_updated st). resting_ok oq)
     \<and> set (bk_accepted st) \<subseteq> fs"

lemma book_quote_ok:
  assumes st: "booking_ok (set fills) st" and fair: "\<forall>f\<in>set fills. fair_fill f" and oq: "resting_ok oq"
  shows "booking_ok (set fills) (book_quote (fills_by_quote_id fills) ts oq st)"
proof (cases "dict_get (fills_by_quote_id fills) (Some (oq_quote_id oq))")
  case None
  then show ?thesis using st oq by (auto simp: book_quote_def booking_ok_def)
next
  case (Some f)
  then have f: "f \<in> set fills" by (rule fills_by_quote_id_set)
  then have solvent: "solvent (fst (apply_fill (bk_inventory st) f ts))"
    using st fair by (intro account.sound) (auto simp: booking_ok_def)
  obtain iv booked where res: "apply_fill (bk_inventory st) f ts = (iv, booked)"
    by (cases "apply_fill (bk_inventory st) f ts")
  show ?thesis
    using st oq f solvent res Some
    by (cases booked) (auto simp: book_quote_def booking_ok_def resting_ok_def Let_def)
qed

lemma fold_book_quote_ok:
  assumes "booking_ok (set fills) st" and "\<forall>f\<in>set fills. fair_fill f" and "\<forall>oq\<in>set oqs. resting_ok oq"
  shows "booking_ok (set fills) (fold (book_quote (fills_by_quote_id fills) ts) oqs st)"
  using assms by (induction oqs arbitrary: st) (simp_all add: book_quote_ok)

lemma book_fills_ok:
  assumes "broker_ok b" and "\<forall>f\<in>set fills. fair_fill f"
  shows "broker_ok (fst (book_fills b fills ts)) \<and> set (snd (book_fills b fills ts)) \<subseteq> set fills"
  using fold_book_quote_ok [of fills "\<lparr> bk_inventory = pb_inventory b, bk_updated = [], bk_accepted = [] \<rparr>"
      "pb_open_quotes b" ts] assms
  by (auto simp: book_fills_def broker_ok_def booking_ok_def Let_def)

text \<open>What a call of \<open>apply_fills\<close> comes to: it raises after the tick is counted, or it books detected fills.\<close>

lemma apply_fills_cases:
  obtains (raised) tracker e where
      "apply_fills m dr b snapshot = (b\<lparr> pb_tick_index := pb_tick_index b + 1, pb_volatility := tracker \<rparr>, Inl e)"
    | (booked) tracker volatility b1 quotes fills b' accepted where
        "b1 = b\<lparr> pb_tick_index := pb_tick_index b + 1, pb_volatility := tracker \<rparr>"
        "detect_fills (broker_fill_params m dr b1 volatility) (pb_open_quotes b1) snapshot = Inr (quotes, fills)"
        "book_fills (b1\<lparr> pb_open_quotes := quotes \<rparr>) fills (ob_timestamp snapshot) = (b', accepted)"
        "apply_fills m dr b snapshot = (b', Inr accepted)"
proof -
  obtain tracker v where v: "(if pb_fill_mode b = CALIBRATED
      then volatility_update m (pb_volatility b) (ob_timestamp snapshot) (snapshot_mid snapshot)
      else (pb_volatility b, ok None)) = (tracker, v)" by fastforce
  define b1 where "b1 = b\<lparr> pb_tick_index := pb_tick_index b + 1, pb_volatility := tracker \<rparr>"
  let ?detected = "rbind v (\<lambda>v. detect_fills (broker_fill_params m dr b1 v) (pb_open_quotes b1) snapshot)"
  have result: "apply_fills m dr b snapshot = sbind (b1, ?detected) (\<lambda>b1 (quotes, fills).
      let (b2, accepted) = book_fills (b1\<lparr> pb_open_quotes := quotes \<rparr>) fills (ob_timestamp snapshot) in (b2, ok accepted))"
    unfolding apply_fills_def v b1_def by (simp add: Let_def)
  show thesis
  proof (cases ?detected)
    case (Inl e)
    then show thesis using raised [of tracker e] result by (simp add: b1_def)
  next
    case (Inr pair)
    obtain quotes fills where pair: "pair = (quotes, fills)" by fastforce
    obtain b' accepted where "book_fills (b1\<lparr> pb_open_quotes := quotes \<rparr>) fills (ob_timestamp snapshot) = (b', accepted)"
      by fastforce
    then show thesis using booked [of b1 tracker _ quotes fills b' accepted] result Inr pair b1_def by auto
  qed
qed

lemma apply_fills_ok:
  assumes ok: "broker_ok b"
  shows "broker_ok (fst (apply_fills m dr b snapshot))"
    and "snd (apply_fills m dr b snapshot) = Inr accepted \<Longrightarrow> \<forall>f\<in>set accepted. fair_fill f"
proof -
  have "broker_ok (fst (apply_fills m dr b snapshot))
      \<and> (\<forall>accepted. snd (apply_fills m dr b snapshot) = Inr accepted \<longrightarrow> (\<forall>f\<in>set accepted. fair_fill f))"
  proof (rule apply_fills_cases [of m dr b snapshot])
    fix tracker e
    assume "apply_fills m dr b snapshot = (b\<lparr> pb_tick_index := pb_tick_index b + 1, pb_volatility := tracker \<rparr>, Inl e)"
    then show ?thesis using ok by (simp add: broker_ok_def)
  next
    fix tracker volatility b1 quotes fills b' accepted
    assume b1: "b1 = b\<lparr> pb_tick_index := pb_tick_index b + 1, pb_volatility := tracker \<rparr>"
      and detected: "detect_fills (broker_fill_params m dr b1 volatility) (pb_open_quotes b1) snapshot = Inr (quotes, fills)"
      and booked: "book_fills (b1\<lparr> pb_open_quotes := quotes \<rparr>) fills (ob_timestamp snapshot) = (b', accepted)"
      and result: "apply_fills m dr b snapshot = (b', Inr accepted)"
    have ok1: "broker_ok b1" using ok by (simp add: b1 broker_ok_def)
    then have sizes: "\<forall>oq\<in>set (pb_open_quotes b1). 0 < qt_size (oq_quote oq)"
      by (auto simp: broker_ok_def resting_ok_def)
    note sound = detect_fills_facts [OF detected sizes]
    have fair: "\<forall>f\<in>set fills. fair_fill f"
      using sound ok1
      by (fastforce simp: sound_fill_def broker_ok_def broker_fill_params_def intro: fill_of_fair)
    have "oq_quote ` set quotes = oq_quote ` set (pb_open_quotes b1)"
      using sound by (metis list.set_map)
    moreover have "\<forall>q\<in>oq_quote ` set (pb_open_quotes b1). 0 < qt_size q \<and> 0 \<le> qt_price q"
      using ok1 by (auto simp: broker_ok_def resting_ok_def)
    ultimately have "\<forall>q\<in>oq_quote ` set quotes. 0 < qt_size q \<and> 0 \<le> qt_price q" by (simp only:)
    then have "\<forall>oq\<in>set quotes. resting_ok oq" by (auto simp: resting_ok_def)
    then have "broker_ok (b1\<lparr> pb_open_quotes := quotes \<rparr>)" using ok1 by (simp add: broker_ok_def)
    from book_fills_ok [OF this fair, of "ob_timestamp snapshot"] show ?thesis
      using fair by (auto simp: booked result)
  qed
  then show "broker_ok (fst (apply_fills m dr b snapshot))"
    and "snd (apply_fills m dr b snapshot) = Inr accepted \<Longrightarrow> \<forall>f\<in>set accepted. fair_fill f" by blast+
qed

lemma apply_trade_fills_ok:
  assumes ok: "broker_ok b"
  shows "broker_ok (fst (apply_trade_fills b trades ts))"
proof -
  define b1 where "b1 = b\<lparr> pb_tick_index := pb_tick_index b + 1 \<rparr>"
  have ok1: "broker_ok b1" using ok by (simp add: b1_def broker_ok_def)
  show ?thesis
  proof (cases "detect_trade_fills (pb_open_quotes b1) trades (pb_maker_fee_bps b1) ts")
    case (Inr fills)
    have fair: "\<forall>f\<in>set fills. fair_fill f"
      using detect_trade_fills_facts [of "pb_open_quotes b1" trades "pb_maker_fee_bps b1" ts] Inr ok1
      by (fastforce simp: broker_ok_def intro: fill_of_fair)
    have "fst (apply_trade_fills b trades ts) = fst (book_fills b1 fills ts)"
      using Inr by (simp add: apply_trade_fills_def Let_def b1_def [symmetric] case_prod_beta)
    then show ?thesis using book_fills_ok [OF ok1 fair, of ts] by simp
  qed (use ok1 in \<open>simp add: apply_trade_fills_def Let_def b1_def [symmetric]\<close>)
qed

lemma submit_quotes_ok:
  assumes "broker_ok b" and "\<forall>q\<in>set quotes. 0 < qt_size q \<and> 0 \<le> qt_price q"
  shows "broker_ok (fst (submit_quotes uuid b quotes))"
proof -
  have "0 < qt_size (assign_quote_id (uuid i) q) \<and> 0 \<le> qt_price (assign_quote_id (uuid i) q)"
    if "(i, q) \<in> set (enumerate 0 quotes)" for i q
    using assms(2) that by (auto simp: assign_quote_id_def in_set_enumerate_eq)
  then show ?thesis
    using assms(1) by (fastforce simp: submit_quotes_def Let_def broker_ok_def resting_ok_def split: if_splits)
qed

section \<open>Every history of a broker\<close>

inductive broker_step :: "PaperBroker \<Rightarrow> PaperBroker \<Rightarrow> bool" where
  filled: "broker_step b (fst (apply_fills m dr b snapshot))"
| traded: "broker_step b (fst (apply_trade_fills b trades ts))"
| submitted: "\<forall>q\<in>set quotes. 0 < qt_size q \<and> 0 \<le> qt_price q \<Longrightarrow> broker_step b (fst (submit_quotes uuid b quotes))"
| cancelled: "broker_step b (cancel_all_quotes b)"

inductive_cases broker_stepE: "broker_step b b'"

lemma broker_step_ok: "broker_step b b' \<Longrightarrow> broker_ok b \<Longrightarrow> broker_ok b'"
  by (induction rule: broker_step.induct)
    (simp_all add: apply_fills_ok(1) apply_trade_fills_ok submit_quotes_ok, simp add: cancel_all_quotes_def broker_ok_def)

lemma apply_fill_symbol: "iv_symbol (fst (apply_fill iv f ts)) = iv_symbol iv"
  by (simp add: apply_fill_def Let_def)

lemma book_quote_symbol: "iv_symbol (bk_inventory (book_quote d ts oq st)) = iv_symbol (bk_inventory st)"
proof (cases "dict_get d (Some (oq_quote_id oq))")
  case (Some f)
  obtain iv booked where "apply_fill (bk_inventory st) f ts = (iv, booked)"
    by (cases "apply_fill (bk_inventory st) f ts")
  then show ?thesis
    using Some apply_fill_symbol [of "bk_inventory st" f ts]
    by (cases booked) (simp_all add: book_quote_def Let_def)
qed (simp add: book_quote_def)

lemma fold_book_quote_symbol:
  "iv_symbol (bk_inventory (fold (book_quote d ts) oqs st)) = iv_symbol (bk_inventory st)"
  by (induction oqs arbitrary: st) (simp_all add: book_quote_symbol)

text \<open>The settings of a broker: what no operation changes.\<close>

definition same_settings :: "PaperBroker \<Rightarrow> PaperBroker \<Rightarrow> bool" where
  "same_settings b b' \<longleftrightarrow> pb_symbol b' = pb_symbol b \<and> pb_maker_fee_bps b' = pb_maker_fee_bps b
     \<and> pb_fill_mode b' = pb_fill_mode b \<and> pb_fill_latency_ticks b' = pb_fill_latency_ticks b
     \<and> pb_fill_probability b' = pb_fill_probability b \<and> pb_calibration b' = pb_calibration b
     \<and> iv_symbol (pb_inventory b') = iv_symbol (pb_inventory b)"

lemma book_fills_settings: "same_settings b (fst (book_fills b fills ts))"
  by (simp add: book_fills_def same_settings_def Let_def fold_book_quote_symbol)

lemma same_settings_trans: "same_settings a b \<Longrightarrow> same_settings b c \<Longrightarrow> same_settings a c"
  by (simp add: same_settings_def)

lemma apply_fills_settings: "same_settings b (fst (apply_fills m dr b snapshot))"
proof (rule apply_fills_cases [of m dr b snapshot])
  fix tracker e
  assume "apply_fills m dr b snapshot = (b\<lparr> pb_tick_index := pb_tick_index b + 1, pb_volatility := tracker \<rparr>, Inl e)"
  then show ?thesis by (simp add: same_settings_def)
next
  fix tracker volatility b1 quotes fills b' accepted
  assume "b1 = b\<lparr> pb_tick_index := pb_tick_index b + 1, pb_volatility := tracker \<rparr>"
    and "book_fills (b1\<lparr> pb_open_quotes := quotes \<rparr>) fills (ob_timestamp snapshot) = (b', accepted)"
    and "apply_fills m dr b snapshot = (b', Inr accepted)"
  then show ?thesis
    using book_fills_settings [of "b1\<lparr> pb_open_quotes := quotes \<rparr>" fills "ob_timestamp snapshot"]
    by (simp add: same_settings_def)
qed

lemma apply_trade_fills_settings: "same_settings b (fst (apply_trade_fills b trades ts))"
  using book_fills_settings [of "b\<lparr> pb_tick_index := pb_tick_index b + 1 \<rparr>"]
  by (cases "detect_trade_fills (pb_open_quotes b) trades (pb_maker_fee_bps b) ts")
    (simp_all add: apply_trade_fills_def Let_def case_prod_beta same_settings_def)

lemma broker_step_settings: "broker_step b b' \<Longrightarrow> same_settings b b'"
  by (induction rule: broker_step.induct)
    (simp_all add: apply_fills_settings apply_trade_fills_settings,
     simp_all add: submit_quotes_def cancel_all_quotes_def same_settings_def Let_def)

text \<open>C7. From a fresh account, whatever books, trades, submissions and cancellations follow, base, quote and
  fees never go negative and no resting quote has a non-positive size.
\<close>

theorem broker_always_solvent:
  assumes "broker_step\<^sup>*\<^sup>* (broker_init symbol balance fee mode latency probability calibration) b"
    and "0 \<le> balance" and "0 \<le> fee" "fee \<le> lit 10000"
  shows "solvent (pb_inventory b) \<and> list_all (\<lambda>oq. 0 < qt_size (oq_quote oq)) (pb_open_quotes b)"
proof -
  have "broker_ok (broker_init symbol balance fee mode latency probability calibration)"
    using assms by (simp add: broker_ok_def broker_init_def inventory_init_solvent)
  with assms(1) have "broker_ok b" by (induction rule: rtranclp_induct) (auto intro: broker_step_ok)
  then show ?thesis by (auto simp: broker_ok_def resting_ok_def list_all_iff)
qed

definition example_broker :: PaperBroker where
  "example_broker = broker_init ''BTC/USDT'' (lit 10000) (lit 2) FULL_CROSS 1 1 None"

theorem broker_always_solvent_witness:
  "solvent (pb_inventory (cancel_all_quotes example_broker))
    \<and> list_all (\<lambda>oq. 0 < qt_size (oq_quote oq)) (pb_open_quotes (cancel_all_quotes example_broker))"
  unfolding example_broker_def
  by (rule broker_always_solvent [of "''BTC/USDT''" "lit 10000" "lit 2" FULL_CROSS 1 1 None])
    (auto intro: broker_step.cancelled lit_nonneg lit_mono)

text \<open>A tick that fails after any of the broker's operations is undone by its checkpoint: the account and
  the resting quotes are those of before.
\<close>

theorem checkpoint_rolls_back:
  assumes "broker_step\<^sup>*\<^sup>* b b'"
  shows "pb_inventory (restore_checkpoint (broker_checkpoint b) b') = pb_inventory b
    \<and> pb_open_quotes (restore_checkpoint (broker_checkpoint b) b') = pb_open_quotes b
    \<and> same_settings b (restore_checkpoint (broker_checkpoint b) b')"
proof -
  have "same_settings b b'"
    using assms
    by (induction rule: rtranclp_induct)
      (auto simp: same_settings_def dest: broker_step_settings [unfolded same_settings_def])
  then show ?thesis
    by (simp add: same_settings_def restore_checkpoint_def broker_checkpoint_def restore_state_def Let_def)
qed

theorem checkpoint_rolls_back_witness:
  "pb_inventory (restore_checkpoint (broker_checkpoint example_broker) (cancel_all_quotes example_broker)) = pb_inventory example_broker
    \<and> pb_open_quotes (restore_checkpoint (broker_checkpoint example_broker) (cancel_all_quotes example_broker)) = pb_open_quotes example_broker
    \<and> same_settings example_broker (restore_checkpoint (broker_checkpoint example_broker) (cancel_all_quotes example_broker))"
  by (rule checkpoint_rolls_back) (auto intro: broker_step.cancelled)

end
