(* ===== verification/Py_Text.thy ===== *)
theory Py_Text
  imports Lab_Prelude "HOL-Library.Word"
begin

text \<open>
  Python's \<open>str\<close> and \<open>bytes\<close> as the on-chain readers use them: a string is a character list of ASCII
  text (addresses, hashes and hex numbers), a byte is an \<open>8 word\<close>. \<open>hex_int\<close> and \<open>hex_bytes\<close> are those of
  \<open>app/adapters/dex/json_rpc.py\<close>; \<open>py_int16\<close> is \<open>int(text, 16)\<close> and \<open>bytes_fromhex\<close> is
  \<open>bytes.fromhex\<close>, both with the exceptions the interpreter raises.
\<close>

type_synonym bytes = "8 word list"

definition lower_char :: "char \<Rightarrow> char" where
  "lower_char c = (let n = of_char c :: nat in if 65 \<le> n \<and> n \<le> 90 then char_of (n + 32) else c)"

definition py_lower :: "string \<Rightarrow> string" where
  "py_lower = map lower_char"

lemma lower_char_idem [simp]: "lower_char (lower_char c) = lower_char c"
proof -
  have "of_char c < (256 :: nat)" by simp
  then show ?thesis by (auto simp: lower_char_def Let_def)
qed

lemma py_lower_idem [simp]: "py_lower (py_lower s) = py_lower s"
  by (simp add: py_lower_def)

definition is_space :: "char \<Rightarrow> bool" where
  "is_space c = (let n = of_char c :: nat in n = 32 \<or> 9 \<le> n \<and> n \<le> 13)"

definition hex_digit :: "char \<Rightarrow> int option" where
  "hex_digit c =
     (let n = of_char c :: nat
      in if 48 \<le> n \<and> n \<le> 57 then Some (int n - 48)
         else if 97 \<le> n \<and> n \<le> 102 then Some (int n - 87)
         else if 65 \<le> n \<and> n \<le> 70 then Some (int n - 55) else None)"

text \<open>The digits of an integer literal: at least one, single underscores only between digits.\<close>

fun hex_digits :: "int \<Rightarrow> string \<Rightarrow> int option" where
  "hex_digits acc [] = Some acc"
| "hex_digits acc [c] = map_option (\<lambda>d. acc * 16 + d) (hex_digit c)"
| "hex_digits acc (c # d # cs) =
     (if c = CHR ''_'' then (if hex_digit d = None then None else hex_digits acc (d # cs))
      else (case hex_digit c of None \<Rightarrow> None | Some v \<Rightarrow> hex_digits (acc * 16 + v) (d # cs)))"

definition strip :: "string \<Rightarrow> string" where
  "strip s = rev (dropWhile is_space (rev (dropWhile is_space s)))"

definition hex_literal :: "string \<Rightarrow> int option" where
  "hex_literal s =
     (case s of
        c # x # rest \<Rightarrow>
          if c = CHR ''0'' \<and> (x = CHR ''x'' \<or> x = CHR ''X'')
          then (let body = (case rest of u # r \<Rightarrow> if u = CHR ''_'' then r else rest | [] \<Rightarrow> [])
                in if body = [] \<or> hex_digit (hd body) = None then None else hex_digits 0 body)
          else if hex_digit c = None then None else hex_digits 0 s
      | [c] \<Rightarrow> hex_digit c
      | [] \<Rightarrow> None)"

definition py_int16 :: "string \<Rightarrow> int res" where
  "py_int16 text =
     (let s = strip text;
          (sign, body) = (case s of
             c # r \<Rightarrow> if c = CHR ''-'' then (- 1, r) else if c = CHR ''+'' then (1, r) else (1, s)
           | [] \<Rightarrow> (1, s))
      in case hex_literal body of None \<Rightarrow> raise_error ValueError | Some n \<Rightarrow> ok (sign * n))"

text \<open>A JSON number or text, as \<open>hex_int\<close> takes it.\<close>

datatype json_num = JInt int | JText string

definition hex_int :: "json_num \<Rightarrow> int res" where
  "hex_int v = (case v of JInt n \<Rightarrow> ok n | JText s \<Rightarrow> py_int16 s)"

text \<open>\<open>bytes.fromhex\<close> skips white space between bytes.\<close>

fun bytes_fromhex :: "string \<Rightarrow> bytes res" where
  "bytes_fromhex [] = ok []"
| "bytes_fromhex [c] = (if is_space c then ok [] else raise_error ValueError)"
| "bytes_fromhex (c # d # cs) =
     (if is_space c then bytes_fromhex (d # cs)
      else case (hex_digit c, hex_digit d) of
             (Some h, Some l) \<Rightarrow> rbind (bytes_fromhex cs) (\<lambda>bs. ok (word_of_int (h * 16 + l) # bs))
           | _ \<Rightarrow> raise_error ValueError)"

text \<open>\<open>None\<close> stands for a missing or null value.\<close>

definition hex_bytes :: "string option \<Rightarrow> bytes res" where
  "hex_bytes v =
     (let text = (case v of None \<Rightarrow> ''0x'' | Some s \<Rightarrow> if s = [] then ''0x'' else s)
      in bytes_fromhex (if take 2 text = ''0x'' then drop 2 text else text))"

definition nibble_char :: "nat \<Rightarrow> char" where
  "nibble_char n = (if n < 10 then char_of (48 + n) else char_of (87 + n))"

definition bytes_hex :: "bytes \<Rightarrow> string" where
  "bytes_hex bs = concat (map (\<lambda>b. [nibble_char (unat b div 16), nibble_char (unat b mod 16)]) bs)"

lemma hex_digit_nibble: "n < 16 \<Longrightarrow> hex_digit (nibble_char n) = Some (int n) \<and> \<not> is_space (nibble_char n)"
  by (auto simp: hex_digit_def nibble_char_def is_space_def Let_def)

text \<open>Writing bytes as hex and reading them back.\<close>

lemma bytes_hex_fromhex: "bytes_fromhex (bytes_hex bs) = Inr bs"
proof (induction bs)
  case (Cons b bs)
  have b: "unat b < 256" using unsigned_less [where 'a = nat, of b] by simp
  have nibbles: "unat b div 16 < 16" "unat b mod 16 < 16" using b by auto
  have "word_of_int (int (unat b div 16) * 16 + int (unat b mod 16)) = b"
  proof -
    have "int (unat b div 16) * 16 + int (unat b mod 16) = int (unat b)"
      by (metis div_mult_mod_eq of_nat_add of_nat_mult of_nat_numeral)
    then show ?thesis by simp
  qed
  then show ?case
    using Cons.IH hex_digit_nibble [OF nibbles(1)] hex_digit_nibble [OF nibbles(2)]
    by (simp add: bytes_hex_def)
qed (simp add: bytes_hex_def)

lemma hex_bytes_bytes_hex: "hex_bytes (Some (''0x'' @ bytes_hex bs)) = Inr bs"
  by (simp add: hex_bytes_def bytes_hex_fromhex)

end
