(* ===== verification/Mempool_Models.thy ===== *)
theory Mempool_Models
  imports V3_Models Py_Text
begin

text \<open>
  \<open>app/models/mempool.py\<close>: the records of the mempool watcher. String literals of a \<open>Literal\<close> type are
  constructors. The module also stands here for the ABI decoder and Keccak of the packages \<open>eth_abi\<close>
  and \<open>eth_utils\<close>: a record of two functions that every reader of calldata or logs takes as argument.
\<close>

datatype AbiValue =
    AbiInt int
  | AbiBool bool
  | AbiAddress string
  | AbiBytes bytes
  | AbiArray "AbiValue list"
  | AbiTuple "AbiValue list"

record Abi =
  abi_decode :: "string list \<Rightarrow> bytes \<Rightarrow> AbiValue list res"
  abi_keccak :: "string \<Rightarrow> bytes"

text \<open>Reading a decoded value as the code does; a value of another type is a \<open>TypeError\<close>.\<close>

definition abi_int :: "AbiValue \<Rightarrow> int res" where
  "abi_int v = (case v of AbiInt n \<Rightarrow> ok n | AbiBool b \<Rightarrow> ok (if b then 1 else 0) | _ \<Rightarrow> raise_error TypeError)"

definition abi_bytes :: "AbiValue \<Rightarrow> bytes res" where
  "abi_bytes v = (case v of AbiBytes bs \<Rightarrow> ok bs | _ \<Rightarrow> raise_error TypeError)"

definition abi_address :: "AbiValue \<Rightarrow> string res" where
  "abi_address v = (case v of AbiAddress a \<Rightarrow> ok a | _ \<Rightarrow> raise_error TypeError)"

definition abi_bool :: "AbiValue \<Rightarrow> bool res" where
  "abi_bool v = (case v of AbiBool b \<Rightarrow> ok b | AbiInt n \<Rightarrow> ok (n \<noteq> 0) | _ \<Rightarrow> raise_error TypeError)"

definition abi_list :: "AbiValue \<Rightarrow> AbiValue list res" where
  "abi_list v = (case v of AbiArray xs \<Rightarrow> ok xs | AbiTuple xs \<Rightarrow> ok xs | _ \<Rightarrow> raise_error TypeError)"

definition abi_addresses :: "AbiValue \<Rightarrow> string list res" where
  "abi_addresses v = rbind (abi_list v) (res_map abi_address)"

text \<open>
  Unpacking a decoded tuple into variables raises \<open>ValueError\<close> when the number of values differs.
\<close>

definition unpack0 :: "'a list \<Rightarrow> 'b res \<Rightarrow> 'b res" where
  "unpack0 xs r = (if xs = [] then r else raise_error ValueError)"

definition unpack1 :: "'a list \<Rightarrow> ('a \<Rightarrow> 'b res) \<Rightarrow> 'b res" where
  "unpack1 xs f = (case xs of [] \<Rightarrow> raise_error ValueError | x # rest \<Rightarrow> unpack0 rest (f x))"

definition unpack2 :: "'a list \<Rightarrow> ('a \<Rightarrow> 'a \<Rightarrow> 'b res) \<Rightarrow> 'b res" where
  "unpack2 xs f = (case xs of [] \<Rightarrow> raise_error ValueError | x # rest \<Rightarrow> unpack1 rest (f x))"

definition unpack3 :: "'a list \<Rightarrow> ('a \<Rightarrow> 'a \<Rightarrow> 'a \<Rightarrow> 'b res) \<Rightarrow> 'b res" where
  "unpack3 xs f = (case xs of [] \<Rightarrow> raise_error ValueError | x # rest \<Rightarrow> unpack2 rest (f x))"

definition unpack4 :: "'a list \<Rightarrow> ('a \<Rightarrow> 'a \<Rightarrow> 'a \<Rightarrow> 'a \<Rightarrow> 'b res) \<Rightarrow> 'b res" where
  "unpack4 xs f = (case xs of [] \<Rightarrow> raise_error ValueError | x # rest \<Rightarrow> unpack3 rest (f x))"

definition unpack5 :: "'a list \<Rightarrow> ('a \<Rightarrow> 'a \<Rightarrow> 'a \<Rightarrow> 'a \<Rightarrow> 'a \<Rightarrow> 'b res) \<Rightarrow> 'b res" where
  "unpack5 xs f = (case xs of [] \<Rightarrow> raise_error ValueError | x # rest \<Rightarrow> unpack4 rest (f x))"

definition unpack6 :: "'a list \<Rightarrow> ('a \<Rightarrow> 'a \<Rightarrow> 'a \<Rightarrow> 'a \<Rightarrow> 'a \<Rightarrow> 'a \<Rightarrow> 'b res) \<Rightarrow> 'b res" where
  "unpack6 xs f = (case xs of [] \<Rightarrow> raise_error ValueError | x # rest \<Rightarrow> unpack5 rest (f x))"

definition unpack7 :: "'a list \<Rightarrow> ('a \<Rightarrow> 'a \<Rightarrow> 'a \<Rightarrow> 'a \<Rightarrow> 'a \<Rightarrow> 'a \<Rightarrow> 'a \<Rightarrow> 'b res) \<Rightarrow> 'b res" where
  "unpack7 xs f = (case xs of [] \<Rightarrow> raise_error ValueError | x # rest \<Rightarrow> unpack6 rest (f x))"

definition unpack8 :: "'a list \<Rightarrow> ('a \<Rightarrow> 'a \<Rightarrow> 'a \<Rightarrow> 'a \<Rightarrow> 'a \<Rightarrow> 'a \<Rightarrow> 'a \<Rightarrow> 'a \<Rightarrow> 'b res) \<Rightarrow> 'b res" where
  "unpack8 xs f = (case xs of [] \<Rightarrow> raise_error ValueError | x # rest \<Rightarrow> unpack7 rest (f x))"

lemma unpack0_Inr: "unpack0 xs r = Inr y \<longleftrightarrow> xs = [] \<and> r = Inr y"
  by (simp add: unpack0_def)

lemma unpack1_Inr: "unpack1 xs f = Inr y \<longleftrightarrow> (\<exists>a. xs = [a] \<and> f a = Inr y)"
  by (cases xs) (auto simp: unpack1_def unpack0_Inr)

lemma unpack2_Inr: "unpack2 xs f = Inr y \<longleftrightarrow> (\<exists>a b. xs = [a, b] \<and> f a b = Inr y)"
  by (cases xs) (auto simp: unpack2_def unpack1_Inr)

lemma unpack3_Inr: "unpack3 xs f = Inr y \<longleftrightarrow> (\<exists>a b c. xs = [a, b, c] \<and> f a b c = Inr y)"
  by (cases xs) (auto simp: unpack3_def unpack2_Inr)

lemma unpack4_Inr: "unpack4 xs f = Inr y \<longleftrightarrow> (\<exists>a b c d. xs = [a, b, c, d] \<and> f a b c d = Inr y)"
  by (cases xs) (auto simp: unpack4_def unpack3_Inr)

lemma unpack5_Inr: "unpack5 xs f = Inr y \<longleftrightarrow> (\<exists>a b c d e. xs = [a, b, c, d, e] \<and> f a b c d e = Inr y)"
  by (cases xs) (auto simp: unpack5_def unpack4_Inr)

lemma unpack6_Inr: "unpack6 xs f = Inr y \<longleftrightarrow> (\<exists>a b c d e a2. xs = [a, b, c, d, e, a2] \<and> f a b c d e a2 = Inr y)"
  by (cases xs) (auto simp: unpack6_def unpack5_Inr)

lemma unpack7_Inr: "unpack7 xs f = Inr y \<longleftrightarrow> (\<exists>a b c d e a2 b2. xs = [a, b, c, d, e, a2, b2] \<and> f a b c d e a2 b2 = Inr y)"
  by (cases xs) (auto simp: unpack7_def unpack6_Inr)

lemma unpack8_Inr: "unpack8 xs f = Inr y \<longleftrightarrow> (\<exists>a b c d e a2 b2 c2. xs = [a, b, c, d, e, a2, b2, c2] \<and> f a b c d e a2 b2 c2 = Inr y)"
  by (cases xs) (auto simp: unpack8_def unpack7_Inr)

lemmas unpack_Inr [simp] = unpack1_Inr unpack2_Inr unpack3_Inr unpack4_Inr unpack5_Inr unpack6_Inr unpack7_Inr unpack8_Inr

section \<open>Watched swaps\<close>

datatype Mode = live_mode | replay_mode
datatype PoolId = pool_v2 | pool_v3
datatype RouteType =
    route_v2_pair | route_v3_pool | route_v2_router | route_swap_router | route_swap_router02
  | route_universal_router | route_replay
datatype SwapKind = exact_in | exact_out | exact_amounts
datatype LegDirection = sell_weth | buy_weth
datatype LegFlag = would_revert | expired | beyond_range | input_inferred | upstream_quoted | kind_inferred
datatype SwapStatus =
    pending | included | included_reverted | included_no_pool_event | replaced | not_included
  | verification_mismatch | no_state
datatype OpportunityFlag = opens | closes

definition FINAL_STATUSES :: "SwapStatus list" where
  "FINAL_STATUSES = [included, included_reverted, included_no_pool_event, replaced, not_included,
     verification_mismatch, no_state]"

text \<open>The hops ahead of a leg whose input a quoter tells later.\<close>

datatype UpstreamPath = UpstreamV3 bytes int | UpstreamV2 "string list" int

record DecodedLeg =
  dl_pool :: PoolId
  dl_direction :: LegDirection
  dl_kind :: SwapKind
  dl_amount_specified :: "int option"
  dl_limit :: "int option"
  dl_upstream_path :: "UpstreamPath option"
  dl_flags :: "LegFlag list"
  dl_sqrt_price_limit_x96 :: "int option"
  dl_fixed_amount_out :: "int option"

record DecodedSwap =
  ds_route :: RouteType
  ds_legs :: "DecodedLeg list"
  ds_deadline :: "int option"

record PendingTx =
  pt_tx_hash :: string
  pt_sender :: "string option"
  pt_nonce :: "int option"
  pt_to :: "string option"
  pt_input :: bytes
  pt_value :: int
  pt_seen_at :: datetime

record SwapLeg =
  sl_pool :: PoolId
  sl_direction :: LegDirection
  sl_kind :: SwapKind
  sl_amount_specified :: int
  sl_limit :: "int option"
  sl_predicted_amount_in :: "int option"
  sl_predicted_amount_out :: "int option"
  sl_price_before :: "f64 option"
  sl_predicted_price_after :: "f64 option"
  sl_predicted_sqrt_price_after_x96 :: "int option"
  sl_predicted_reserves_after :: "(int \<times> int) option"
  sl_flags :: "LegFlag list"
  sl_sqrt_price_limit_x96 :: "int option"
  sl_fixed_amount_out :: "int option"

record LegOutcome =
  lo_pool :: PoolId
  lo_actual_amount_in :: int
  lo_actual_amount_out :: int
  lo_actual_price_after :: f64
  lo_true_pre_price :: f64
  lo_math_error_bps :: f64
  lo_ordering_effect_bps :: f64
  lo_amount_out_error_raw :: int
  lo_exact :: bool

record SwapOutcome =
  so_block_number :: "int option"
  so_tx_index :: "int option"
  so_blocks_waited :: "int option"
  so_seconds_waited :: "f64 option"
  so_legs :: "LegOutcome list"
  so_appeared :: "bool option"
  so_likely_backrun :: "bool option"
  so_backrun_tx_hash :: "string option"
  so_resolved_at :: datetime

record WatchedSwap =
  ws_tx_hash :: string
  ws_mode :: Mode
  ws_route :: RouteType
  ws_sender :: "string option"
  ws_nonce :: "int option"
  ws_first_seen_at :: datetime
  ws_seen_head_block :: int
  ws_deadline :: "int option"
  ws_legs :: "SwapLeg list"
  ws_gap_before_bps :: "f64 option"
  ws_gap_after_bps :: "f64 option"
  ws_scan_net_before_quote :: "f64 option"
  ws_scan_net_after_quote :: "f64 option"
  ws_opportunity :: "OpportunityFlag option"
  ws_opportunity_direction :: "Direction option"
  ws_status :: SwapStatus
  ws_outcome :: "SwapOutcome option"

definition is_final :: "WatchedSwap \<Rightarrow> bool" where
  "is_final w = (ws_status w \<in> set FINAL_STATUSES)"

record BlockVisibility =
  bv_block_number :: int
  bv_block_hash :: string
  bv_timestamp :: datetime
  bv_mode :: Mode
  bv_pool_swap_txs :: int
  bv_seen_pending :: int
  bv_watched_included :: int
  bv_backruns :: int
  bv_gap_end_bps :: "f64 option"
  bv_scan_net_end_quote :: "f64 option"
  bv_not_decoded :: int

definition visible_share :: "BlockVisibility \<Rightarrow> f64 option" where
  "visible_share v =
     (if bv_mode v \<noteq> live_mode \<or> bv_pool_swap_txs v = 0 then None
      else Some (lit (real_of_int (bv_seen_pending v) / real_of_int (bv_pool_swap_txs v))))"

lemma is_final_iff: "is_final w \<longleftrightarrow> ws_status w \<noteq> pending"
  by (cases "ws_status w") (auto simp: is_final_def FINAL_STATUSES_def)

end
