(* ===== verification/Pool_Events.thy ===== *)
theory Pool_Events
  imports Mempool_Models
begin

text \<open>
  \<open>app/adapters/dex/pool_events.py\<close>: Uniswap V2 and V3 pool logs as typed events. A log is the JSON object of
  \<open>eth_getLogs\<close>; a field the code indexes is an option, \<open>None\<close> when the key is missing.
\<close>

record RawLog =
  rl_removed :: bool
  rl_address :: string
  rl_topics :: "string list"
  rl_block_number :: "json_num option"
  rl_tx_hash :: "string option"
  rl_tx_index :: "json_num option"
  rl_log_index :: "json_num option"
  rl_data :: "string option"

definition V2_SWAP_EVENT :: string where "V2_SWAP_EVENT = ''Swap(address,uint256,uint256,uint256,uint256,address)''"
definition V2_SYNC_EVENT :: string where "V2_SYNC_EVENT = ''Sync(uint112,uint112)''"
definition V3_SWAP_EVENT :: string where "V3_SWAP_EVENT = ''Swap(address,address,int256,int256,uint160,uint128,int24)''"
definition V3_MINT_EVENT :: string where "V3_MINT_EVENT = ''Mint(address,address,int24,int24,uint128,uint256,uint256)''"
definition V3_BURN_EVENT :: string where "V3_BURN_EVENT = ''Burn(address,int24,int24,uint128,uint256,uint256)''"

definition topic :: "Abi \<Rightarrow> string \<Rightarrow> string" where
  "topic abi signature = ''0x'' @ bytes_hex (abi_keccak abi signature)"

record LogRef =
  lr_block_number :: int
  lr_tx_hash :: string
  lr_tx_index :: int
  lr_log_index :: int

datatype PoolEvent =
    V2Sync LogRef int int
  | V2Swap LogRef int int int int
  | V3Swap LogRef int int int int int
  | V3Liquidity LogRef int int int bool

fun event_ref :: "PoolEvent \<Rightarrow> LogRef" where
  "event_ref (V2Sync r _ _) = r"
| "event_ref (V2Swap r _ _ _ _) = r"
| "event_ref (V3Swap r _ _ _ _ _) = r"
| "event_ref (V3Liquidity r _ _ _ _) = r"

definition key :: "'a option \<Rightarrow> 'a res" where
  "key v = (case v of None \<Rightarrow> raise_error KeyError | Some x \<Rightarrow> ok x)"

definition int24_topic :: "Abi \<Rightarrow> string \<Rightarrow> int res" where
  "int24_topic abi value =
     rbind (hex_bytes (Some value)) (\<lambda>bs. rbind (abi_decode abi [''int24''] bs) (\<lambda>vs.
       if vs = [] then raise_error IndexError else abi_int (hd vs)))"

definition parse_ref :: "RawLog \<Rightarrow> LogRef res" where
  "parse_ref entry =
     rbind (rbind (key (rl_block_number entry)) hex_int) (\<lambda>block_number.
     rbind (key (rl_tx_hash entry)) (\<lambda>tx_hash.
     rbind (rbind (key (rl_tx_index entry)) hex_int) (\<lambda>tx_index.
     rbind (rbind (key (rl_log_index entry)) hex_int) (\<lambda>log_index.
       ok \<lparr> lr_block_number = block_number, lr_tx_hash = py_lower tx_hash, lr_tx_index = tx_index,
            lr_log_index = log_index \<rparr>))))"

definition parse_v2_log :: "Abi \<Rightarrow> string \<Rightarrow> LogRef \<Rightarrow> bytes \<Rightarrow> PoolEvent option res" where
  "parse_v2_log abi head ref data =
     (if head = topic abi V2_SYNC_EVENT then
        rbind (abi_decode abi [''uint112'', ''uint112''] data) (\<lambda>vs. unpack2 vs (\<lambda>r0 r1.
          rbind (abi_int r0) (\<lambda>reserve0. rbind (abi_int r1) (\<lambda>reserve1.
            ok (Some (V2Sync ref reserve0 reserve1))))))
      else if head = topic abi V2_SWAP_EVENT then
        rbind (abi_decode abi (replicate 4 ''uint256'') data) (\<lambda>vs. unpack4 vs (\<lambda>a b c d.
          rbind (abi_int a) (\<lambda>a0i. rbind (abi_int b) (\<lambda>a1i. rbind (abi_int c) (\<lambda>a0o. rbind (abi_int d) (\<lambda>a1o.
            ok (Some (V2Swap ref a0i a1i a0o a1o))))))))
      else ok None)"

definition parse_v3_log :: "Abi \<Rightarrow> string list \<Rightarrow> LogRef \<Rightarrow> bytes \<Rightarrow> PoolEvent option res" where
  "parse_v3_log abi topics ref data =
     (let head = hd topics;
          liquidity = (\<lambda>amount is_mint.
            rbind (int24_topic abi (topics ! 2)) (\<lambda>lower. rbind (int24_topic abi (topics ! 3)) (\<lambda>upper.
              rbind (abi_int amount) (\<lambda>n. ok (Some (V3Liquidity ref lower upper n is_mint))))))
      in if head = topic abi V3_SWAP_EVENT then
           rbind (abi_decode abi [''int256'', ''int256'', ''uint160'', ''uint128'', ''int24''] data) (\<lambda>vs.
             unpack5 vs (\<lambda>a b c d e. rbind (abi_int a) (\<lambda>a0. rbind (abi_int b) (\<lambda>a1. rbind (abi_int c) (\<lambda>price.
               rbind (abi_int d) (\<lambda>active. rbind (abi_int e) (\<lambda>tick.
                 ok (Some (V3Swap ref a0 a1 price active tick)))))))))
         else if head = topic abi V3_MINT_EVENT \<and> 4 \<le> length topics then
           rbind (abi_decode abi [''address'', ''uint128'', ''uint256'', ''uint256''] data) (\<lambda>vs.
             unpack4 vs (\<lambda>sender amount a0 a1. liquidity amount True))
         else if head = topic abi V3_BURN_EVENT \<and> 4 \<le> length topics then
           rbind (abi_decode abi [''uint128'', ''uint256'', ''uint256''] data) (\<lambda>vs.
             unpack3 vs (\<lambda>amount a0 a1. liquidity amount False))
         else ok None)"

definition parse_log :: "Abi \<Rightarrow> string \<Rightarrow> string \<Rightarrow> RawLog \<Rightarrow> PoolEvent option res" where
  "parse_log abi v2_pair v3_pool entry =
     (if rl_removed entry then ok None
      else
        let address = py_lower (rl_address entry); topics = map py_lower (rl_topics entry)
        in if topics = [] then ok None
           else
             rbind (parse_ref entry) (\<lambda>ref. rbind (hex_bytes (rl_data entry)) (\<lambda>data.
               if address = py_lower v2_pair then parse_v2_log abi (hd topics) ref data
               else if address = py_lower v3_pool then parse_v3_log abi topics ref data
               else ok None)))"

definition log_index_of :: "PoolEvent \<Rightarrow> int" where
  "log_index_of event = lr_log_index (event_ref event)"

definition parse_logs :: "Abi \<Rightarrow> string \<Rightarrow> string \<Rightarrow> RawLog list \<Rightarrow> PoolEvent list res" where
  "parse_logs abi v2_pair v3_pool logs =
     rbind (res_map (parse_log abi v2_pair v3_pool) logs) (\<lambda>events.
       ok (sort_key log_index_of (List.map_filter (\<lambda>e. e) events)))"

section \<open>What parsing keeps\<close>

lemma parse_v2_log_ref: "parse_v2_log abi head ref data = Inr (Some e) \<Longrightarrow> event_ref e = ref"
  by (auto simp: parse_v2_log_def split: if_split_asm list.split_asm)

lemma parse_v3_log_ref: "parse_v3_log abi topics ref data = Inr (Some e) \<Longrightarrow> event_ref e = ref"
  by (auto simp: parse_v3_log_def Let_def split: if_split_asm list.split_asm)

lemma parse_log_ref:
  "parse_log abi v2 v3 entry = Inr (Some e) \<Longrightarrow> \<not> rl_removed entry \<and> parse_ref entry = Inr (event_ref e)
     \<and> (py_lower (rl_address entry) = py_lower v2 \<or> py_lower (rl_address entry) = py_lower v3)"
  by (auto simp: parse_log_def Let_def dest: parse_v2_log_ref parse_v3_log_ref split: if_split_asm)

text \<open>The events of a block come out in log order, one for each log of the two pools that carries an
  event the watcher knows, and none from a removed log or another contract.
\<close>

theorem parse_logs_ordered:
  "case parse_logs abi v2 v3 logs of
     Inl e \<Rightarrow> True
   | Inr events \<Rightarrow> sorted (map log_index_of events)
       \<and> mset (map Some events) + replicate_mset (length logs - length events) None
           = mset (map (\<lambda>entry. case parse_log abi v2 v3 entry of Inr e \<Rightarrow> e | Inl _ \<Rightarrow> None) logs)
       \<and> list_all (\<lambda>e. \<exists>entry\<in>set logs. \<not> rl_removed entry \<and> parse_ref entry = Inr (event_ref e)
            \<and> (py_lower (rl_address entry) = py_lower v2 \<or> py_lower (rl_address entry) = py_lower v3)) events"
proof (cases "parse_logs abi v2 v3 logs")
  case (Inr events)
  then obtain parsed where p: "res_map (parse_log abi v2 v3) logs = Inr parsed"
      "events = sort_key log_index_of (List.map_filter (\<lambda>e. e) parsed)"
    by (auto simp: parse_logs_def)
  have vals: "parsed = map (\<lambda>entry. case parse_log abi v2 v3 entry of Inr e \<Rightarrow> e | Inl _ \<Rightarrow> None) logs"
    using p(1) by (induction logs arbitrary: parsed) auto
  have filtered: "mset (map Some (List.map_filter (\<lambda>e. e) xs)) + replicate_mset (length xs - length (List.map_filter (\<lambda>e. e) xs)) None
      = mset xs \<and> length (List.map_filter (\<lambda>e. e) xs) \<le> length xs" for xs :: "PoolEvent option list"
    by (induction xs) (auto simp: Suc_diff_le split: option.split)
  have "\<exists>entry\<in>set logs. parse_log abi v2 v3 entry = Inr (Some e)" if "e \<in> set events" for e
    using that p res_map_Inr_all [OF p(1)]
    by (auto simp: List.map_filter_def list_all2_conv_all_nth in_set_conv_nth) (metis nth_mem)
  then have each: "\<exists>entry\<in>set logs. \<not> rl_removed entry \<and> parse_ref entry = Inr (event_ref e)
      \<and> (py_lower (rl_address entry) = py_lower v2 \<or> py_lower (rl_address entry) = py_lower v3)"
    if "e \<in> set events" for e
    using that parse_log_ref by blast
  have len: "length parsed = length logs" "length events = length (List.map_filter (\<lambda>e. e) parsed)"
    using p(2) by (simp_all add: vals)
  have "mset (map Some events) = mset (map Some (List.map_filter (\<lambda>e. e) parsed))" by (simp add: p(2))
  then have "mset (map Some events) + replicate_mset (length logs - length events) None = mset parsed"
    using filtered [of parsed] len by simp
  then show ?thesis unfolding Inr sum.case vals [symmetric] using each p(2) by (simp add: list_all_iff)
qed simp

end
