(* ===== verification/Pool_State.thy ===== *)
theory Pool_State
  imports Pool_Events Dex_Arb
begin

unbundle bit_operations_syntax

text \<open>
  \<open>app/services/mempool/pool_state.py\<close>: the state of the two pools, rolled forward from an anchor read block
  by block. The tracked blocks are an ordered dictionary from block number to an anchor or a rolled
  block; every applied event keeps the state around it.
\<close>

record PoolConfig =
  cf_v2_pair :: string
  cf_v3_pool :: string
  cf_v2_usdc_is_token0 :: bool
  cf_v3_metadata :: PoolMetadata

definition v3_usdc_is_token0 :: "PoolConfig \<Rightarrow> bool" where
  "v3_usdc_is_token0 config = (\<not> md_base_is_token0 (cf_v3_metadata config))"

record V2State =
  st_reserve_usdc :: int
  st_reserve_weth :: int

definition v2_price :: "V2State \<Rightarrow> f64 res" where
  "v2_price s =
     fdiv (lit (real_of_int (st_reserve_usdc s) / real_of_int USDC_UNIT))
       (lit (real_of_int (st_reserve_weth s) / real_of_int WETH_UNIT))"

record V3State =
  st_sqrt_price_x96 :: int
  st_tick :: int
  st_liquidity :: int
  st_window :: TickWindow

record BlockHeader =
  bh_number :: int
  bh_hash :: string
  bh_parent_hash :: string
  bh_timestamp :: datetime
  bh_base_fee_wei :: "int option"
  bh_tx_hashes :: "string list"

record PairState =
  pr_block_number :: int
  pr_block_hash :: string
  pr_timestamp :: datetime
  pr_base_fee_wei :: "int option"
  pr_v2 :: V2State
  pr_v3 :: V3State

record AppliedEvent =
  ae_event :: PoolEvent
  ae_v2_before :: "V2State option"
  ae_v2_after :: "V2State option"
  ae_v3_before :: "V3State option"
  ae_v3_after :: "V3State option"

record BlockState =
  bs_header :: BlockHeader
  bs_start :: PairState
  bs_end :: PairState
  bs_steps :: "AppliedEvent list"

fun is_swap :: "PoolEvent \<Rightarrow> bool" where
  "is_swap (V2Swap _ _ _ _ _) = True"
| "is_swap (V3Swap _ _ _ _ _ _) = True"
| "is_swap _ = False"

definition tx_of :: "AppliedEvent \<Rightarrow> string" where
  "tx_of step = lr_tx_hash (event_ref (ae_event step))"

definition swaps_of :: "BlockState \<Rightarrow> string \<Rightarrow> AppliedEvent list" where
  "swaps_of block tx_hash = filter (\<lambda>step. tx_of step = tx_hash \<and> is_swap (ae_event step)) (bs_steps block)"

fun states_after :: "int \<Rightarrow> V2State \<times> V3State \<Rightarrow> AppliedEvent list \<Rightarrow> V2State \<times> V3State" where
  "states_after log_index (v2, v3) [] = (v2, v3)"
| "states_after log_index (v2, v3) (step # steps) =
     (if log_index_of (ae_event step) > log_index then (v2, v3)
      else states_after log_index
        (case ae_v2_after step of None \<Rightarrow> v2 | Some s \<Rightarrow> s, case ae_v3_after step of None \<Rightarrow> v3 | Some s \<Rightarrow> s) steps)"

definition at_block :: "int \<Rightarrow> V3State \<Rightarrow> V3State" where
  "at_block number v3 = v3\<lparr>st_window := (st_window v3)\<lparr>tw_block_number := number\<rparr>\<rparr>"

definition state_after_log :: "BlockState \<Rightarrow> int \<Rightarrow> PairState" where
  "state_after_log block log_index =
     (let (v2, v3) = states_after log_index (pr_v2 (bs_start block), pr_v3 (bs_start block)) (bs_steps block)
      in (bs_end block)\<lparr>pr_v2 := v2, pr_v3 := at_block (bh_number (bs_header block)) v3\<rparr>)"

text \<open>The distinct transactions that swap, in order of their first swap.\<close>

definition swap_tx_hashes :: "BlockState \<Rightarrow> string list" where
  "swap_tx_hashes block = unique_in_order (map tx_of (filter (\<lambda>step. is_swap (ae_event step)) (bs_steps block)))"

definition v3_price :: "Libm \<Rightarrow> PoolConfig \<Rightarrow> int \<Rightarrow> f64" where
  "v3_price m config sqrt_price_x96 =
     (let meta = cf_v3_metadata config
      in sqrt_price_x96_to_price m sqrt_price_x96 (md_base_is_token0 meta) (md_token0_decimals meta)
           (md_token1_decimals meta))"

definition v2_state_from_reserves :: "PoolConfig \<Rightarrow> int \<Rightarrow> int \<Rightarrow> V2State" where
  "v2_state_from_reserves config reserve0 reserve1 =
     (if cf_v2_usdc_is_token0 config then \<lparr> st_reserve_usdc = reserve0, st_reserve_weth = reserve1 \<rparr>
      else \<lparr> st_reserve_usdc = reserve1, st_reserve_weth = reserve0 \<rparr>)"

section \<open>Liquidity changes\<close>

definition window_with_liquidity :: "TickWindow \<Rightarrow> int \<Rightarrow> int \<Rightarrow> int \<Rightarrow> TickWindow res" where
  "window_with_liquidity window tick gross_delta net_delta =
     rbind (compress tick (tick_spacing window)) (\<lambda>compressed.
     let (word, bit_index) = bitmap_position compressed
     in if \<not> (min_word window \<le> word \<and> word \<le> max_word window) then ok window
        else
          let ticks = tw_ticks window; bitmap = bitmap_words window;
              info = dict_get ticks tick;
              gross = (case info of None \<Rightarrow> 0 | Some i \<Rightarrow> liquidity_gross i) + gross_delta;
              net = (case info of None \<Rightarrow> 0 | Some i \<Rightarrow> liquidity_net i) + net_delta
          in if gross < 0 then raise_error ArithmeticError
             else if gross = 0 then
               ok (window\<lparr>tw_ticks := dict_pop tick ticks,
                          bitmap_words := dict_set word (dict_get_or bitmap word 0 AND NOT (push_bit (nat bit_index) 1)) bitmap\<rparr>)
             else
               ok (window\<lparr>tw_ticks := dict_set tick
                            \<lparr> ti_tick = tick, liquidity_gross = gross, liquidity_net = net,
                              fee_growth_outside0_x128 = (case info of None \<Rightarrow> 0 | Some i \<Rightarrow> fee_growth_outside0_x128 i),
                              fee_growth_outside1_x128 = (case info of None \<Rightarrow> 0 | Some i \<Rightarrow> fee_growth_outside1_x128 i),
                              initialized = True \<rparr> ticks,
                          bitmap_words := dict_set word (dict_get_or bitmap word 0 OR push_bit (nat bit_index) 1) bitmap\<rparr>))"

definition apply_liquidity :: "V3State \<Rightarrow> int \<Rightarrow> int \<Rightarrow> int \<Rightarrow> bool \<Rightarrow> V3State res" where
  "apply_liquidity state tick_lower tick_upper amount is_mint =
     (if amount = 0 then ok state
      else
        let sign = (if is_mint then 1 else - 1)
        in rbind (window_with_liquidity (st_window state) tick_lower (sign * amount) (sign * amount)) (\<lambda>window.
           rbind (window_with_liquidity window tick_upper (sign * amount) (- sign * amount)) (\<lambda>window.
           if tick_lower \<le> st_tick state \<and> st_tick state < tick_upper then
             let active = st_liquidity state + sign * amount
             in if active < 0 then raise_error ArithmeticError
                else ok (state\<lparr>st_liquidity := active, st_window := window\<rparr>)
           else ok (state\<lparr>st_window := window\<rparr>))))"

definition window_is_safe :: "V3State \<Rightarrow> bool res" where
  "window_is_safe state =
     rbind (word_position_for_tick (st_tick state) (tick_spacing (st_window state))) (\<lambda>word.
       ok (min_word (st_window state) < word \<and> word < max_word (st_window state)))"

text \<open>The text of an issue names the part that differs.\<close>

datatype Issue = v2_reserves_differ | v3_slot0_differs | v3_bitmap_differs int | v3_liquidity_net_differs int

definition first_issue :: "(int \<Rightarrow> Issue) \<Rightarrow> (int \<Rightarrow> bool) \<Rightarrow> int list \<Rightarrow> Issue list" where
  "first_issue issue differs xs = map issue (take 1 (filter differs xs))"

definition compare_states :: "PairState \<Rightarrow> PairState \<Rightarrow> Issue list" where
  "compare_states rolled fresh =
     (let a = pr_v3 rolled; b = pr_v3 fresh; wa = st_window a; wb = st_window b;
          lo = max (min_word wa) (min_word wb); hi = min (max_word wa) (max_word wb);
          shared = filter (\<lambda>t. dict_get (tw_ticks wa) t \<noteq> None) (dict_keys (tw_ticks wb))
      in (if pr_v2 rolled \<noteq> pr_v2 fresh then [v2_reserves_differ] else [])
       @ (if (st_sqrt_price_x96 a, st_tick a, st_liquidity a) \<noteq> (st_sqrt_price_x96 b, st_tick b, st_liquidity b)
          then [v3_slot0_differs] else [])
       @ first_issue v3_bitmap_differs
           (\<lambda>word. dict_get_or (bitmap_words wa) word 0 \<noteq> dict_get_or (bitmap_words wb) word 0) [lo..hi]
       @ first_issue v3_liquidity_net_differs
           (\<lambda>t. map_option liquidity_net (dict_get (tw_ticks wa) t) \<noteq> map_option liquidity_net (dict_get (tw_ticks wb) t))
           shared)"

section \<open>The tracker\<close>

datatype TrackedBlock = Anchored PairState | Rolled BlockState

record PoolStateTracker =
  tr_config :: PoolConfig
  tr_max :: nat
  tr_blocks :: "(int, TrackedBlock) dict"
  tr_blocks_since_anchor :: int

definition tracker_init :: "PoolConfig \<Rightarrow> nat \<Rightarrow> PoolStateTracker" where
  "tracker_init config max_checkpoints =
     \<lparr> tr_config = config, tr_max = max_checkpoints, tr_blocks = [], tr_blocks_since_anchor = 0 \<rparr>"

fun tracked_state :: "TrackedBlock \<Rightarrow> PairState" where
  "tracked_state (Anchored state) = state"
| "tracked_state (Rolled block) = bs_end block"

definition latest :: "PoolStateTracker \<Rightarrow> PairState option" where
  "latest tracker =
     (if tr_blocks tracker = [] then None else Some (tracked_state (snd (last (tr_blocks tracker)))))"

definition tracked_block :: "PoolStateTracker \<Rightarrow> int \<Rightarrow> BlockState option" where
  "tracked_block tracker number =
     (case dict_get (tr_blocks tracker) number of Some (Rolled block) \<Rightarrow> Some block | _ \<Rightarrow> None)"

fun tracked_hash :: "TrackedBlock \<Rightarrow> string" where
  "tracked_hash (Anchored state) = pr_block_hash state"
| "tracked_hash (Rolled block) = bh_hash (bs_header block)"

definition hash_at :: "PoolStateTracker \<Rightarrow> int \<Rightarrow> string option" where
  "hash_at tracker number = map_option tracked_hash (dict_get (tr_blocks tracker) number)"

definition tracker_anchor :: "PoolStateTracker \<Rightarrow> PairState \<Rightarrow> PoolStateTracker \<times> Issue list option" where
  "tracker_anchor tracker state =
     (let rolled = map_option tracked_state (dict_get (tr_blocks tracker) (pr_block_number state));
          issues = map_option (\<lambda>r. compare_states r state) rolled;
          kept = filter (\<lambda>(n, b). n < pr_block_number state) (tr_blocks tracker)
      in (tracker\<lparr>tr_blocks := dict_trim (tr_max tracker) (dict_set (pr_block_number state) (Anchored state) kept),
                  tr_blocks_since_anchor := 0\<rparr>, issues))"

definition rewind_to :: "PoolStateTracker \<Rightarrow> int \<Rightarrow> PoolStateTracker" where
  "rewind_to tracker number = tracker\<lparr>tr_blocks := filter (\<lambda>(n, b). \<not> n > number) (tr_blocks tracker)\<rparr>"

definition needs_reanchor :: "PoolStateTracker \<Rightarrow> int \<Rightarrow> bool res" where
  "needs_reanchor tracker every_blocks =
     (case latest tracker of
        None \<Rightarrow> ok True
      | Some state \<Rightarrow>
          if tr_blocks_since_anchor tracker \<ge> every_blocks then ok True
          else rbind (window_is_safe (pr_v3 state)) (\<lambda>safe. ok (\<not> safe)))"

text \<open>The variables of the loop of \<open>apply_block\<close>.\<close>

record BlockRun =
  br_v2 :: V2State
  br_v3 :: V3State
  br_steps :: "AppliedEvent list"
  br_pending_sync :: "(LogRef \<times> V2State) option"

definition v2_step :: "PoolEvent \<Rightarrow> V2State \<Rightarrow> V2State \<Rightarrow> AppliedEvent" where
  "v2_step event before after =
     \<lparr> ae_event = event, ae_v2_before = Some before, ae_v2_after = Some after, ae_v3_before = None, ae_v3_after = None \<rparr>"

definition v3_step :: "PoolEvent \<Rightarrow> V3State \<Rightarrow> V3State \<Rightarrow> AppliedEvent" where
  "v3_step event before after =
     \<lparr> ae_event = event, ae_v2_before = None, ae_v2_after = None, ae_v3_before = Some before, ae_v3_after = Some after \<rparr>"

fun apply_event :: "PoolConfig \<Rightarrow> BlockRun \<Rightarrow> PoolEvent \<Rightarrow> BlockRun res" where
  "apply_event config run (V2Sync ref reserve0 reserve1) =
     (let before = br_v2 run; v2 = v2_state_from_reserves config reserve0 reserve1
      in ok (run\<lparr>br_v2 := v2, br_pending_sync := Some (ref, before),
                 br_steps := br_steps run @ [v2_step (V2Sync ref reserve0 reserve1) before v2]\<rparr>))"
| "apply_event config run (V2Swap ref a0i a1i a0o a1o) =
     (let before = (case br_pending_sync run of
            Some (sync, state) \<Rightarrow>
              if lr_tx_hash sync = lr_tx_hash ref \<and> lr_log_index sync = lr_log_index ref - 1 then state else br_v2 run
          | None \<Rightarrow> br_v2 run)
      in ok (run\<lparr>br_pending_sync := None,
                 br_steps := br_steps run @ [v2_step (V2Swap ref a0i a1i a0o a1o) before (br_v2 run)]\<rparr>))"
| "apply_event config run (V3Swap ref a0 a1 sqrt_price active tick) =
     (let before = br_v3 run;
          v3 = \<lparr> st_sqrt_price_x96 = sqrt_price, st_tick = tick, st_liquidity = active, st_window = st_window before \<rparr>
      in ok (run\<lparr>br_v3 := v3, br_steps := br_steps run @ [v3_step (V3Swap ref a0 a1 sqrt_price active tick) before v3]\<rparr>))"
| "apply_event config run (V3Liquidity ref lower upper amount is_mint) =
     (let before = br_v3 run
      in rbind (apply_liquidity before lower upper amount is_mint) (\<lambda>v3.
         ok (run\<lparr>br_v3 := v3, br_steps := br_steps run @ [v3_step (V3Liquidity ref lower upper amount is_mint) before v3]\<rparr>)))"

fun apply_events :: "PoolConfig \<Rightarrow> BlockRun \<Rightarrow> PoolEvent list \<Rightarrow> BlockRun res" where
  "apply_events config run [] = ok run"
| "apply_events config run (event # events) =
     rbind (apply_event config run event) (\<lambda>run. apply_events config run events)"

definition block_of_run :: "BlockHeader \<Rightarrow> PairState \<Rightarrow> BlockRun \<Rightarrow> BlockState" where
  "block_of_run header start run =
     \<lparr> bs_header = header, bs_start = start,
       bs_end = \<lparr> pr_block_number = bh_number header, pr_block_hash = bh_hash header, pr_timestamp = bh_timestamp header,
                  pr_base_fee_wei = bh_base_fee_wei header, pr_v2 = br_v2 run,
                  pr_v3 = at_block (bh_number header) (br_v3 run) \<rparr>,
       bs_steps = br_steps run \<rparr>"

definition apply_block ::
    "PoolStateTracker \<Rightarrow> BlockHeader \<Rightarrow> PoolEvent list \<Rightarrow> (PoolStateTracker \<times> BlockState) res" where
  "apply_block tracker header events =
     (case latest tracker of
        None \<Rightarrow> raise_error StateGap
      | Some start \<Rightarrow>
          if bh_number header \<noteq> pr_block_number start + 1 then raise_error StateGap
          else if py_lower (bh_parent_hash header) \<noteq> py_lower (pr_block_hash start) then raise_error ReorgDetected
          else
            rbind (apply_events (tr_config tracker)
                     \<lparr> br_v2 = pr_v2 start, br_v3 = pr_v3 start, br_steps = [], br_pending_sync = None \<rparr> events) (\<lambda>run.
              let block = block_of_run header start run
              in ok (tracker\<lparr>tr_blocks := dict_trim (tr_max tracker)
                               (dict_set (bh_number header) (Rolled block) (tr_blocks tracker)),
                             tr_blocks_since_anchor := tr_blocks_since_anchor tracker + 1\<rparr>, block)))"

end
