(* ===== verification/Pool_Liquidity.thy ===== *)
theory Pool_Liquidity
  imports Pool_State
begin

unbundle bit_operations_syntax

text \<open>
  Refinement of \<open>apply_liquidity\<close> of \<open>app/services/mempool/pool_state.py\<close>. The specification is the
  pool's own book: a history of liquidity changes, each to one position (lower tick, upper tick).
  Gross and net liquidity of a tick and the active liquidity are sums over it. The detailed state
  keeps a tick table, a bitmap and a number; it represents a history when they show these sums on
  every tick of the loaded words.
\<close>

section \<open>The book of positions\<close>

type_synonym history = "((int \<times> int) \<times> int) list"

definition weight_sum :: "(int \<times> int \<Rightarrow> int) \<Rightarrow> history \<Rightarrow> int" where
  "weight_sum c h = sum_list (map (\<lambda>(k, a). c k * a) h)"

definition position_of :: "history \<Rightarrow> int \<times> int \<Rightarrow> int" where
  "position_of h k = weight_sum (\<lambda>k'. if k' = k then 1 else 0) h"

definition gross_of :: "history \<Rightarrow> int \<Rightarrow> int" where
  "gross_of h t = weight_sum (\<lambda>(l, u). of_bool (l = t) + of_bool (u = t)) h"

definition net_of :: "history \<Rightarrow> int \<Rightarrow> int" where
  "net_of h t = weight_sum (\<lambda>(l, u). of_bool (l = t) - of_bool (u = t)) h"

definition active_of :: "history \<Rightarrow> int \<Rightarrow> int" where
  "active_of h tick = weight_sum (\<lambda>(l, u). of_bool (l \<le> tick \<and> tick < u)) h"

text \<open>No position owes liquidity: what was burned had been minted.\<close>

definition legal :: "history \<Rightarrow> bool" where
  "legal h \<longleftrightarrow> (\<forall>k. 0 \<le> position_of h k)"

lemma weight_sum_append [simp]: "weight_sum c (h @ h') = weight_sum c h + weight_sum c h'"
  by (simp add: weight_sum_def)

lemma weight_sum_single [simp]: "weight_sum c [(k, a)] = c k * a" and weight_sum_Nil [simp]: "weight_sum c [] = 0"
  by (simp_all add: weight_sum_def)

lemma weight_sum_plus: "weight_sum (\<lambda>k. c k + d k) h = weight_sum c h + weight_sum d h"
  by (induction h) (auto simp: weight_sum_def algebra_simps)

lemma weight_sum_grouped: "weight_sum c h = (\<Sum>k\<in>fst ` set h. c k * position_of h k)"
proof -
  have "weight_sum c h = (\<Sum>k\<in>K. c k * position_of h k)" if "finite K" "fst ` set h \<subseteq> K" for K
    using that(2)
  proof (induction h)
    case (Cons x h)
    obtain k a where x: "x = (k, a)" by (cases x)
    have "(\<Sum>j\<in>K. c j * position_of (x # h) j) = (\<Sum>j\<in>K. c j * position_of h j) + (\<Sum>j\<in>K. if j = k then c k * a else 0)"
      unfolding sum.distrib [symmetric] by (rule sum.cong) (auto simp: position_of_def weight_sum_def x algebra_simps)
    also have "(\<Sum>j\<in>K. if j = k then c k * a else 0) = c k * a"
      using that(1) Cons.prems by (simp add: x)
    finally show ?case using Cons by (simp add: weight_sum_def x)
  qed (simp add: position_of_def)
  then show ?thesis by simp
qed

lemma weight_sum_nonneg: "legal h \<Longrightarrow> \<forall>k. 0 \<le> c k \<Longrightarrow> 0 \<le> weight_sum c h"
  unfolding weight_sum_grouped legal_def by (intro sum_nonneg mult_nonneg_nonneg) auto

lemma gross_nonneg: "legal h \<Longrightarrow> 0 \<le> gross_of h t"
  unfolding gross_of_def by (rule weight_sum_nonneg) auto

lemma active_nonneg: "legal h \<Longrightarrow> 0 \<le> active_of h t"
  unfolding active_of_def by (rule weight_sum_nonneg) auto

lemma net_bounded: "legal h \<Longrightarrow> \<bar>net_of h t\<bar> \<le> gross_of h t"
proof -
  assume h: "legal h"
  have "0 \<le> weight_sum (\<lambda>k. (case k of (l, u) \<Rightarrow> of_bool (l = t) + of_bool (u = t)) + (case k of (l, u) \<Rightarrow> of_bool (l = t) - of_bool (u = t))) h"
    by (rule weight_sum_nonneg [OF h]) auto
  then have "0 \<le> gross_of h t + net_of h t" by (simp add: weight_sum_plus gross_of_def net_of_def)
  moreover have "0 \<le> weight_sum (\<lambda>k. 2 * (case k of (l, u) \<Rightarrow> of_bool (u = t))) h"
    by (rule weight_sum_nonneg [OF h]) auto
  moreover have "weight_sum (\<lambda>k. 2 * (case k of (l, u) \<Rightarrow> of_bool (u = t))) h + net_of h t = gross_of h t"
    unfolding net_of_def gross_of_def weight_sum_plus [symmetric]
    by (rule arg_cong [of _ _ "\<lambda>c. weight_sum c h"]) (auto simp: fun_eq_iff)
  ultimately show ?thesis by linarith
qed

section \<open>The window shows the book\<close>

definition tick_entry :: "TickWindow \<Rightarrow> int \<Rightarrow> (int \<times> int) option" where
  "tick_entry w t = map_option (\<lambda>i. (liquidity_gross i, liquidity_net i)) (dict_get (tw_ticks w) t)"

definition shows_ticks :: "TickWindow \<Rightarrow> (int \<Rightarrow> int) \<Rightarrow> (int \<Rightarrow> int) \<Rightarrow> bool" where
  "shows_ticks w G N \<longleftrightarrow> (\<forall>t. tick_spacing w dvd t \<and> loaded w (t div tick_spacing w) \<longrightarrow>
     tick_entry w t = (if G t = 0 then None else Some (G t, N t)) \<and> tick_set w (t div tick_spacing w) = (G t \<noteq> 0))"

lemma tick_set_update:
  assumes "bitmap_words w' = dict_set (c div 256) word (bitmap_words w)"
    and "\<And>j. bit word j \<longleftrightarrow> (if j = nat (c mod 256) then on else bit (dict_get_or (bitmap_words w) (c div 256) 0) j)"
  shows "tick_set w' k \<longleftrightarrow> (if k = c then on else tick_set w k)"
proof (cases "k div 256 = c div 256")
  case True
  have "k = c" if "nat (k mod 256) = nat (c mod 256)"
    using that True by (metis div_mult_mod_eq eq_nat_nat_iff pos_mod_sign zero_less_numeral)
  then show ?thesis using assms(2) [of "nat (k mod 256)"] True
    by (auto simp: tick_set_def assms(1) dict_get_or_def split: if_splits)
next
  case False
  then show ?thesis by (auto simp: tick_set_def assms(1) dict_get_or_def)
qed

lemma window_with_liquidity_shows:
  assumes "shows_ticks w G N" and "0 < tick_spacing w" and "tick_spacing w dvd t"
    and "0 \<le> G t + g" and "G t = 0 \<longrightarrow> N t = 0"
  shows "\<exists>w'. window_with_liquidity w t g n = Inr w' \<and> shows_ticks w' (G(t := G t + g)) (N(t := N t + n))
    \<and> tick_spacing w' = tick_spacing w \<and> min_word w' = min_word w \<and> max_word w' = max_word w"
proof (cases "loaded w (t div tick_spacing w)")
  case False
  then show ?thesis using assms(1,2)
    by (auto simp: window_with_liquidity_def compress_def bitmap_position_eq loaded_def shows_ticks_def)
next
  case True
  define c where "c = t div tick_spacing w"
  define word where "word = (if G t + g = 0 then dict_get_or (bitmap_words w) (c div 256) 0 AND NOT (push_bit (nat (c mod 256)) 1)
      else dict_get_or (bitmap_words w) (c div 256) 0 OR push_bit (nat (c mod 256)) 1)"
  have entry: "tick_entry w t = (if G t = 0 then None else Some (G t, N t))"
    using assms(1,3) True by (simp add: shows_ticks_def)
  have old: "(case dict_get (tw_ticks w) t of None \<Rightarrow> 0 | Some i \<Rightarrow> liquidity_gross i) = G t"
      "(case dict_get (tw_ticks w) t of None \<Rightarrow> 0 | Some i \<Rightarrow> liquidity_net i) = N t"
    using entry assms(5) by (cases "dict_get (tw_ticks w) t"; auto simp: tick_entry_def split: if_splits)+
  define ticks where "ticks = (if G t + g = 0 then dict_pop t (tw_ticks w)
      else dict_set t \<lparr> ti_tick = t, liquidity_gross = G t + g, liquidity_net = N t + n,
        fee_growth_outside0_x128 = (case dict_get (tw_ticks w) t of None \<Rightarrow> 0 | Some i \<Rightarrow> fee_growth_outside0_x128 i),
        fee_growth_outside1_x128 = (case dict_get (tw_ticks w) t of None \<Rightarrow> 0 | Some i \<Rightarrow> fee_growth_outside1_x128 i),
        initialized = True \<rparr> (tw_ticks w))"
  define w' where "w' = w\<lparr>tw_ticks := ticks, bitmap_words := dict_set (c div 256) word (bitmap_words w)\<rparr>"
  have "window_with_liquidity w t g n = Inr w'"
    using True assms(2,4) unfolding window_with_liquidity_def Let_def old
    by (simp add: compress_def bitmap_position_eq loaded_def c_def [symmetric] word_def ticks_def w'_def)
  moreover have "tick_entry w' t' = (if t' = t then (if G t + g = 0 then None else Some (G t + g, N t + n)) else tick_entry w t')" for t'
    by (auto simp: tick_entry_def w'_def ticks_def)
  ultimately have w': "window_with_liquidity w t g n = Inr w'" "bitmap_words w' = dict_set (c div 256) word (bitmap_words w)"
      "\<And>t'. tick_entry w' t' = (if t' = t then (if G t + g = 0 then None else Some (G t + g, N t + n)) else tick_entry w t')"
      "tick_spacing w' = tick_spacing w" "min_word w' = min_word w" "max_word w' = max_word w"
    by (simp_all add: w'_def)
  have "tick_set w' k \<longleftrightarrow> (if k = c then G t + g \<noteq> 0 else tick_set w k)" for k
    by (rule tick_set_update [OF w'(2)]) (auto simp: word_def bit_or_iff bit_and_iff bit_not_iff bit_exp_iff)
  moreover have "t' = t" if "tick_spacing w dvd t'" "t' div tick_spacing w = c" for t'
    using that assms(3) by (metis c_def dvd_div_mult_self)
  ultimately have "shows_ticks w' (G(t := G t + g)) (N(t := N t + n))"
    using assms(1) w'(3-6) unfolding shows_ticks_def by (auto simp: c_def loaded_def)
  then show ?thesis using w' by auto
qed

definition represents :: "V3State \<Rightarrow> history \<Rightarrow> bool" where
  "represents s h \<longleftrightarrow> legal h \<and> 0 < tick_spacing (st_window s)
     \<and> st_liquidity s = active_of h (st_tick s) \<and> shows_ticks (st_window s) (gross_of h) (net_of h)"

definition liquidity_change :: "int \<Rightarrow> int \<Rightarrow> int \<Rightarrow> bool \<Rightarrow> (int \<times> int) \<times> int" where
  "liquidity_change lower upper amount is_mint = ((lower, upper), (if is_mint then amount else - amount))"

lemma apply_liquidity_represents:
  assumes rep: "represents s h" and legal': "legal (h @ [liquidity_change l u amount is_mint])"
    and ticks: "l < u" "tick_spacing (st_window s) dvd l" "tick_spacing (st_window s) dvd u"
  shows "\<exists>s'. apply_liquidity s l u amount is_mint = Inr s'
    \<and> represents s' (h @ [liquidity_change l u amount is_mint])
    \<and> st_tick s' = st_tick s \<and> st_sqrt_price_x96 s' = st_sqrt_price_x96 s"
proof -
  define a where "a = (if is_mint then amount else - amount)"
  let ?h' = "h @ [((l, u), a)]" and ?w = "st_window s"
  have change: "liquidity_change l u amount is_mint = ((l, u), a)" by (simp add: liquidity_change_def a_def)
  have legal: "legal h" and spacing: "0 < tick_spacing ?w" and active: "st_liquidity s = active_of h (st_tick s)"
      and shows0: "shows_ticks ?w (gross_of h) (net_of h)"
    using rep by (simp_all add: represents_def)
  have G: "gross_of ?h' t = gross_of h t + (if t = l then a else 0) + (if t = u then a else 0)"
    and N: "net_of ?h' t = net_of h t + (if t = l then a else 0) - (if t = u then a else 0)" for t
    using ticks(1) by (auto simp: gross_of_def net_of_def)
  have zero: "gross_of h t = 0 \<longrightarrow> net_of h t = 0" for t using net_bounded [OF legal, of t] by auto
  have pos: "0 \<le> gross_of h l + a" "0 \<le> gross_of h u + a"
    using gross_nonneg [OF legal' [unfolded change], of l] gross_nonneg [OF legal' [unfolded change], of u] ticks(1) G by auto
  obtain w1 where w1: "window_with_liquidity ?w l a a = Inr w1"
      "shows_ticks w1 ((gross_of h)(l := gross_of h l + a)) ((net_of h)(l := net_of h l + a))" "tick_spacing w1 = tick_spacing ?w"
    using window_with_liquidity_shows [OF shows0 spacing ticks(2) pos(1) zero] by blast
  obtain w2 where w2: "window_with_liquidity w1 u a (- a) = Inr w2" "shows_ticks w2 (gross_of ?h') (net_of ?h')"
      "tick_spacing w2 = tick_spacing ?w"
  proof -
    have "\<exists>w2. window_with_liquidity w1 u a (- a) = Inr w2
        \<and> shows_ticks w2 (((gross_of h)(l := gross_of h l + a))(u := ((gross_of h)(l := gross_of h l + a)) u + a))
            (((net_of h)(l := net_of h l + a))(u := ((net_of h)(l := net_of h l + a)) u + - a))
        \<and> tick_spacing w2 = tick_spacing w1 \<and> min_word w2 = min_word w1 \<and> max_word w2 = max_word w1"
      using w1 spacing ticks pos(2) zero [of u] by (intro window_with_liquidity_shows) auto
    moreover have "((gross_of h)(l := gross_of h l + a))(u := ((gross_of h)(l := gross_of h l + a)) u + a) = gross_of ?h'"
        "((net_of h)(l := net_of h l + a))(u := ((net_of h)(l := net_of h l + a)) u + - a) = net_of ?h'"
      using ticks(1) by (auto simp: fun_eq_iff G N)
    ultimately show ?thesis using that w1(3) by auto
  qed
  have active': "active_of ?h' (st_tick s) = active_of h (st_tick s) + (if l \<le> st_tick s \<and> st_tick s < u then a else 0)"
    by (simp add: active_of_def)
  have "0 \<le> active_of ?h' (st_tick s)" using legal' unfolding change by (rule active_nonneg)
  show ?thesis
  proof (cases "amount = 0")
    case True
    then have "a = 0" by (simp add: a_def)
    then have "gross_of ?h' = gross_of h" "net_of ?h' = net_of h" "active_of ?h' (st_tick s) = active_of h (st_tick s)"
      using active' by (auto simp: fun_eq_iff gross_of_def net_of_def)
    then show ?thesis using rep True legal' unfolding change
      by (simp add: apply_liquidity_def represents_def)
  next
    case False
    have "0 \<le> active_of h (st_tick s) + (if l \<le> st_tick s \<and> st_tick s < u then a else 0)"
      using \<open>0 \<le> active_of ?h' (st_tick s)\<close> active' by simp
    then have "apply_liquidity s l u amount is_mint
        = Inr (s\<lparr>st_liquidity := active_of h (st_tick s) + (if l \<le> st_tick s \<and> st_tick s < u then a else 0), st_window := w2\<rparr>)"
      using False w1(1) w2(1) active by (cases is_mint) (auto simp: apply_liquidity_def Let_def a_def)
    then show ?thesis using w2 spacing active' legal' unfolding change by (simp add: represents_def)
  qed
qed

text \<open>C12. The detailed pool simulates the book: on a state that shows a book, a mint or burn the pool allows
  (a burn of no more than its position holds) does not fail, and the new tick table, bitmap and
  active liquidity show the book with the change appended.
\<close>

theorem apply_liquidity_refines_book:
  assumes "represents s h" and "legal (h @ [liquidity_change l u amount is_mint])"
    and "l < u" and "tick_spacing (st_window s) dvd l" and "tick_spacing (st_window s) dvd u"
  shows "\<exists>s'. apply_liquidity s l u amount is_mint = Inr s'
    \<and> represents s' (h @ [liquidity_change l u amount is_mint])
    \<and> st_tick s' = st_tick s \<and> st_sqrt_price_x96 s' = st_sqrt_price_x96 s"
  using assms by (rule apply_liquidity_represents)

definition empty_pool :: V3State where
  "empty_pool = \<lparr> st_sqrt_price_x96 = 2 ^ 96, st_tick = 0, st_liquidity = 0,
     st_window = \<lparr> tw_block_number = 17, tick_spacing = 10, bitmap_words = [], tw_ticks = [], min_word = - 4, max_word = 4 \<rparr> \<rparr>"

lemma empty_pool_represents: "represents empty_pool []"
  by (simp add: represents_def empty_pool_def legal_def position_of_def gross_of_def net_of_def active_of_def
      shows_ticks_def tick_entry_def tick_set_def dict_get_or_def)

lemma first_mint_legal: "0 \<le> amount \<Longrightarrow> legal ([] @ [liquidity_change l u amount True])"
  by (simp add: legal_def position_of_def liquidity_change_def)

theorem apply_liquidity_refines_book_witness:
  "\<exists>s'. apply_liquidity empty_pool (- 20) 30 1000 True = Inr s'
    \<and> represents s' ([] @ [liquidity_change (- 20) 30 1000 True])
    \<and> st_tick s' = st_tick empty_pool \<and> st_sqrt_price_x96 s' = st_sqrt_price_x96 empty_pool"
  by (rule apply_liquidity_refines_book) (rule empty_pool_represents, rule first_mint_legal, simp_all add: empty_pool_def)

end
