(* ===== verification/Predictor.thy ===== *)
theory Predictor
  imports Pool_State
begin

text \<open>
  \<open>app/services/mempool/predictor.py\<close>: the effect of a pending swap, leg by leg on the running state, with
  the scanner on the state before and after it.
\<close>

definition BLOCK_TIME_SEC :: int where "BLOCK_TIME_SEC = 12"

record LegSim =
  ls_amount_in :: int
  ls_amount_out :: int
  ls_v2_after :: "V2State option"
  ls_v3_after :: "V3State option"
  ls_limited :: bool

record ScanParams =
  sp_reference_size_quote :: f64
  sp_gas_units :: int
  sp_priority_fee_gwei :: f64
  sp_fallback_gas_price_gwei :: f64

definition gas_price_gwei :: "ScanParams \<Rightarrow> int option \<Rightarrow> f64" where
  "gas_price_gwei params base_fee_wei =
     (case base_fee_wei of
        None \<Rightarrow> sp_fallback_gas_price_gwei params
      | Some fee \<Rightarrow> float_of_int fee / lit (10 ^ 9) + sp_priority_fee_gwei params)"

definition valid_limit :: "int option \<Rightarrow> bool \<Rightarrow> int \<Rightarrow> int option" where
  "valid_limit limit zero_for_one sqrt_price =
     (case limit of
        None \<Rightarrow> None
      | Some l \<Rightarrow>
          if l = 0 then None
          else if zero_for_one then (if l < sqrt_price then Some l else None)
          else (if l > sqrt_price then Some l else None))"

definition leg_pool_state :: "PoolConfig \<Rightarrow> V3State \<Rightarrow> PoolState" where
  "leg_pool_state config state =
     \<lparr> ps_sqrt_price_x96 = st_sqrt_price_x96 state, ps_tick = st_tick state, ps_liquidity = st_liquidity state,
       ps_fee_pips = md_fee_pips (cf_v3_metadata config), ps_block_number = tw_block_number (st_window state) \<rparr>"

definition simulate_v3_leg ::
    "PoolConfig \<Rightarrow> V3State \<Rightarrow> LegDirection \<Rightarrow> SwapKind \<Rightarrow> int \<Rightarrow> int option \<Rightarrow> LegSim res" where
  "simulate_v3_leg config state direction kind amount sqrt_price_limit_x96 =
     (let pays_usdc = (direction = buy_weth);
          zero_for_one = (pays_usdc = v3_usdc_is_token0 config);
          pool = leg_pool_state config state;
          limit = valid_limit sqrt_price_limit_x96 zero_for_one (st_sqrt_price_x96 state)
      in rbind (if kind = exact_in then simulate_exact_input pool (st_window state) zero_for_one amount limit
                else simulate_exact_output pool (st_window state) zero_for_one amount limit) (\<lambda>quote.
         let stopped = (q_limit_reason quote = Some window_exhausted
                        \<or> q_limit_reason quote = Some price_limit \<and> limit = None);
             after = \<lparr> st_sqrt_price_x96 = q_sqrt_price_after_x96 quote, st_tick = q_tick_after quote,
                       st_liquidity = (case q_liquidity_after quote of Some l \<Rightarrow> l | None \<Rightarrow> st_liquidity state),
                       st_window = st_window state \<rparr>
         in ok \<lparr> ls_amount_in = q_amount_in_consumed quote, ls_amount_out = q_amount_out quote, ls_v2_after = None,
                 ls_v3_after = Some after, ls_limited = stopped \<rparr>))"

definition v2_invariant_holds :: "int \<Rightarrow> int \<Rightarrow> int \<Rightarrow> int \<Rightarrow> bool" where
  "v2_invariant_holds reserve_in reserve_out paid received =
     (if received \<le> 0 \<or> received \<ge> reserve_out \<or> paid \<le> 0 then False
      else
        let balance_in = reserve_in + paid; balance_out = reserve_out - received;
            adjusted_in = balance_in * 1000 - paid * 3
        in adjusted_in * balance_out * 1000 \<ge> reserve_in * reserve_out * 1000 ^ 2)"

definition refused_v2_leg :: "V2State \<Rightarrow> LegSim" where
  "refused_v2_leg state =
     \<lparr> ls_amount_in = 0, ls_amount_out = 0, ls_v2_after = Some state, ls_v3_after = None, ls_limited = True \<rparr>"

definition v2_reserves :: "V2State \<Rightarrow> LegDirection \<Rightarrow> int \<times> int" where
  "v2_reserves state direction =
     (if direction = sell_weth then (st_reserve_weth state, st_reserve_usdc state)
      else (st_reserve_usdc state, st_reserve_weth state))"

definition v2_after :: "V2State \<Rightarrow> LegDirection \<Rightarrow> int \<Rightarrow> int \<Rightarrow> LegSim" where
  "v2_after state direction paid received =
     (let (reserve_in, reserve_out) = v2_reserves state direction;
          new_in = reserve_in + paid; new_out = reserve_out - received;
          after = (if direction = sell_weth then \<lparr> st_reserve_usdc = new_out, st_reserve_weth = new_in \<rparr>
                   else \<lparr> st_reserve_usdc = new_in, st_reserve_weth = new_out \<rparr>)
      in \<lparr> ls_amount_in = paid, ls_amount_out = received, ls_v2_after = Some after, ls_v3_after = None, ls_limited = False \<rparr>)"

definition simulate_v2_leg ::
    "V2State \<Rightarrow> LegDirection \<Rightarrow> SwapKind \<Rightarrow> int \<Rightarrow> int option \<Rightarrow> LegSim res" where
  "simulate_v2_leg state direction kind amount fixed_amount_out =
     (let (reserve_in, reserve_out) = v2_reserves state direction
      in catch_value_error
           (case kind of
              exact_in \<Rightarrow>
                rbind (get_amount_out amount reserve_in reserve_out) (\<lambda>out. ok (v2_after state direction amount out))
            | exact_out \<Rightarrow>
                rbind (get_amount_in amount reserve_in reserve_out) (\<lambda>paid. ok (v2_after state direction paid amount))
            | exact_amounts \<Rightarrow>
                let received = (case fixed_amount_out of None \<Rightarrow> 0 | Some out \<Rightarrow> out)
                in if v2_invariant_holds reserve_in reserve_out amount received
                   then ok (v2_after state direction amount received) else ok (refused_v2_leg state))
           (ok (refused_v2_leg state)))"

definition simulate_leg ::
    "PoolConfig \<Rightarrow> PairState \<Rightarrow> PoolId \<Rightarrow> LegDirection \<Rightarrow> SwapKind \<Rightarrow> int \<Rightarrow> int option \<Rightarrow> int option \<Rightarrow> LegSim res" where
  "simulate_leg config state pool direction kind amount sqrt_price_limit_x96 fixed_amount_out =
     (if pool = pool_v3 then simulate_v3_leg config (pr_v3 state) direction kind amount sqrt_price_limit_x96
      else simulate_v2_leg (pr_v2 state) direction kind amount fixed_amount_out)"

definition gap_bps :: "Libm \<Rightarrow> PoolConfig \<Rightarrow> PairState \<Rightarrow> f64 res" where
  "gap_bps m config state =
     (let v3 = v3_price m config (st_sqrt_price_x96 (pr_v3 state))
      in rbind (v2_price (pr_v2 state)) (\<lambda>v2. rbind (fdiv (v2 - v3) v3) (\<lambda>q. ok (q * lit 10000))))"

definition pool_price :: "Libm \<Rightarrow> PoolConfig \<Rightarrow> PairState \<Rightarrow> PoolId \<Rightarrow> f64 res" where
  "pool_price m config state pool =
     (if pool = pool_v3 then ok (v3_price m config (st_sqrt_price_x96 (pr_v3 state))) else v2_price (pr_v2 state))"

definition scan_snapshot :: "Libm \<Rightarrow> PoolConfig \<Rightarrow> PairState \<Rightarrow> V3PoolSnapshot" where
  "scan_snapshot m config state =
     \<lparr> sn_metadata = cf_v3_metadata config, sn_sqrt_price_x96 = st_sqrt_price_x96 (pr_v3 state),
       sn_tick = st_tick (pr_v3 state), sn_liquidity = st_liquidity (pr_v3 state),
       sn_fee_growth_global0_x128 = 0, sn_fee_growth_global1_x128 = 0, sn_block_number = pr_block_number state,
       sn_block_timestamp = pr_timestamp state, sn_price = v3_price m config (st_sqrt_price_x96 (pr_v3 state)),
       sn_lower_tick_info = None, sn_upper_tick_info = None, sn_base_fee_wei = pr_base_fee_wei state,
       sn_window = Some ((st_window (pr_v3 state))\<lparr>tw_block_number := pr_block_number state\<rparr>),
       sn_is_stale = False, sn_is_incomplete = False, sn_data_source = live, sn_tick_id = None \<rparr>"

definition scan_state :: "Libm \<Rightarrow> PoolConfig \<Rightarrow> PairState \<Rightarrow> ScanParams \<Rightarrow> ArbCandidate option res" where
  "scan_state m config state params =
     (let reserves = \<lparr> rv_pair_address = cf_v2_pair config, rv_block_number = pr_block_number state,
                       rv_reserve_usdc = st_reserve_usdc (pr_v2 state), rv_reserve_weth = st_reserve_weth (pr_v2 state) \<rparr>
      in case scan_dex_arb (scan_snapshot m config state) reserves (sp_reference_size_quote params)
                (sp_gas_units params) (gas_price_gwei params (pr_base_fee_wei state)) of
           Inl e \<Rightarrow> if py_arith_error e \<or> py_value_error e then ok None else Inl e
         | Inr candidate \<Rightarrow> ok candidate)"

definition opportunity_flag :: "f64 option \<Rightarrow> f64 option \<Rightarrow> OpportunityFlag option" where
  "opportunity_flag before after =
     (case (before, after) of
        (Some b, Some a) \<Rightarrow> if b \<le> 0 \<and> 0 < a then Some opens else if a \<le> 0 \<and> 0 < b then Some closes else None
      | _ \<Rightarrow> None)"

section \<open>Predicting a transaction\<close>

definition is_expired :: "PairState \<Rightarrow> int option \<Rightarrow> bool" where
  "is_expired state deadline =
     (case deadline of
        None \<Rightarrow> False
      | Some d \<Rightarrow> real_of_int d < val (lit (real_of_int (pr_timestamp state) / 10 ^ 6) + float_of_int BLOCK_TIME_SEC))"

definition leg_flags :: "bool \<Rightarrow> DecodedLeg \<Rightarrow> LegSim \<Rightarrow> LegFlag list" where
  "leg_flags is_late leg sim =
     unique_in_order (dl_flags leg
       @ (if is_late then [expired] else [])
       @ (if ls_limited sim then [beyond_range]
          else case dl_limit leg of
                 None \<Rightarrow> []
               | Some limit \<Rightarrow>
                   if dl_kind leg = exact_in \<and> ls_amount_out sim < limit
                      \<or> dl_kind leg = exact_out \<and> ls_amount_in sim > limit then [would_revert] else []))"

definition state_after_leg :: "PairState \<Rightarrow> PoolId \<Rightarrow> LegSim \<Rightarrow> PairState" where
  "state_after_leg running pool sim =
     (if ls_limited sim then running
      else if pool = pool_v3 then (case ls_v3_after sim of Some s \<Rightarrow> running\<lparr>pr_v3 := s\<rparr> | None \<Rightarrow> running)
      else (case ls_v2_after sim of Some s \<Rightarrow> running\<lparr>pr_v2 := s\<rparr> | None \<Rightarrow> running))"

definition predict_leg ::
    "Libm \<Rightarrow> PoolConfig \<Rightarrow> bool \<Rightarrow> PairState \<Rightarrow> DecodedLeg \<Rightarrow> (PairState \<times> SwapLeg) res" where
  "predict_leg m config is_late running leg =
     (case dl_amount_specified leg of
        None \<Rightarrow> raise_error ValueError
      | Some amount \<Rightarrow>
          rbind (pool_price m config running (dl_pool leg)) (\<lambda>price_before.
          rbind (simulate_leg config running (dl_pool leg) (dl_direction leg) (dl_kind leg) amount
                   (dl_sqrt_price_limit_x96 leg) (dl_fixed_amount_out leg)) (\<lambda>sim.
          let after = state_after_leg running (dl_pool leg) sim; flags = leg_flags is_late leg sim
          in rbind (if ls_limited sim then ok None
                    else rbind (pool_price m config after (dl_pool leg)) (\<lambda>p. ok (Some p))) (\<lambda>price_after.
             ok (after,
                 \<lparr> sl_pool = dl_pool leg, sl_direction = dl_direction leg, sl_kind = dl_kind leg,
                   sl_amount_specified = amount, sl_limit = dl_limit leg,
                   sl_predicted_amount_in = (if ls_limited sim then None else Some (ls_amount_in sim)),
                   sl_predicted_amount_out = (if ls_limited sim then None else Some (ls_amount_out sim)),
                   sl_price_before = Some price_before, sl_predicted_price_after = price_after,
                   sl_predicted_sqrt_price_after_x96 =
                     (if ls_limited sim then None else map_option st_sqrt_price_x96 (ls_v3_after sim)),
                   sl_predicted_reserves_after =
                     (if ls_limited sim then None
                      else map_option (\<lambda>s. (st_reserve_usdc s, st_reserve_weth s)) (ls_v2_after sim)),
                   sl_flags = flags, sl_sqrt_price_limit_x96 = dl_sqrt_price_limit_x96 leg,
                   sl_fixed_amount_out = dl_fixed_amount_out leg \<rparr>)))))"

fun predict_legs ::
    "Libm \<Rightarrow> PoolConfig \<Rightarrow> bool \<Rightarrow> PairState \<Rightarrow> DecodedLeg list \<Rightarrow> (PairState \<times> SwapLeg list) res" where
  "predict_legs m config is_late running [] = ok (running, [])"
| "predict_legs m config is_late running (leg # legs) =
     rbind (predict_leg m config is_late running leg) (\<lambda>(running, predicted).
     rbind (predict_legs m config is_late running legs) (\<lambda>(running, rest). ok (running, predicted # rest)))"

record Prediction =
  pd_legs :: "SwapLeg list"
  pd_state_after :: PairState
  pd_gap_before_bps :: f64
  pd_gap_after_bps :: f64
  pd_scan_net_before_quote :: "f64 option"
  pd_scan_net_after_quote :: "f64 option"
  pd_opportunity :: "OpportunityFlag option"
  pd_opportunity_direction :: "Direction option"

definition predict ::
    "Libm \<Rightarrow> PoolConfig \<Rightarrow> PairState \<Rightarrow> DecodedLeg list \<Rightarrow> ScanParams \<Rightarrow> int option \<Rightarrow> ArbCandidate option \<Rightarrow> bool
      \<Rightarrow> Prediction res" where
  "predict m config state legs params deadline scan_before run_scanner =
     rbind (predict_legs m config (is_expired state deadline) state legs) (\<lambda>(running, predicted).
     rbind (if \<not> run_scanner then ok (None, None)
            else
              rbind (case scan_before of Some c \<Rightarrow> ok (Some c) | None \<Rightarrow> scan_state m config state params) (\<lambda>before.
              rbind (scan_state m config running params) (\<lambda>after. ok (before, after)))) (\<lambda>(before, after).
     let net_before = map_option ac_net_profit_quote before; net_after = map_option ac_net_profit_quote after;
         direction = map_option ac_direction after; flag = opportunity_flag net_before net_after
     in rbind (gap_bps m config state) (\<lambda>gap_before. rbind (gap_bps m config running) (\<lambda>gap_after.
        ok \<lparr> pd_legs = predicted, pd_state_after = running, pd_gap_before_bps = gap_before, pd_gap_after_bps = gap_after,
             pd_scan_net_before_quote = net_before, pd_scan_net_after_quote = net_after, pd_opportunity = flag,
             pd_opportunity_direction = (if flag \<noteq> None then direction else None) \<rparr>))))"

section \<open>The pair's check and the router's formula\<close>

text \<open>C13. \<open>_v2_invariant_holds\<close> accepts exactly the outputs the formula of the router can pay: for a pair with
  reserves, an output passes the check if and only if it is positive and at most what
  \<open>get_amount_out\<close> gives for the same input.
\<close>

theorem v2_check_equals_formula:
  assumes "0 < reserve_in" and "0 < reserve_out"
  shows "v2_invariant_holds reserve_in reserve_out x y
    \<longleftrightarrow> 0 < x \<and> 0 < y \<and> (\<exists>most. get_amount_out x reserve_in reserve_out = Inr most \<and> y \<le> most)"
proof (cases "0 < x \<and> 0 < y")
  case True
  define most where "most = x * 997 * reserve_out div (reserve_in * 1000 + x * 997)"
  have m: "get_amount_out x reserve_in reserve_out = Inr most"
    using True assms by (simp add: get_amount_out_Inr_iff most_def)
  have "y \<le> most \<longleftrightarrow> reserve_in * reserve_out * 1000 \<le> (reserve_in * 1000 + x * 997) * (reserve_out - y)"
    by (rule le_amount_out_iff [OF m])
  also have "\<dots> \<longleftrightarrow> reserve_in * reserve_out * 1000 ^ 2 \<le> ((reserve_in + x) * 1000 - x * 3) * (reserve_out - y) * 1000"
    by (auto simp: algebra_simps power2_eq_square)
  finally have iff: "y \<le> most \<longleftrightarrow>
      reserve_in * reserve_out * 1000 ^ 2 \<le> ((reserve_in + x) * 1000 - x * 3) * (reserve_out - y) * 1000" .
  have "y < reserve_out" if "y \<le> most"
  proof (rule ccontr)
    assume "\<not> y < reserve_out"
    then have "(reserve_in * 1000 + x * 997) * (reserve_out - y) \<le> 0"
      using True assms by (intro mult_nonneg_nonpos) simp_all
    moreover have "0 < reserve_in * reserve_out * 1000" using assms by simp
    ultimately show False using that unfolding le_amount_out_iff [OF m] by linarith
  qed
  then show ?thesis using True m iff by (auto simp: v2_invariant_holds_def Let_def)
qed (auto simp: v2_invariant_holds_def)

theorem v2_check_equals_formula_witness:
  "v2_invariant_holds 1000 2000 5000 1665
    \<longleftrightarrow> 0 < (5000::int) \<and> 0 < (1665::int) \<and> (\<exists>most. get_amount_out 5000 1000 2000 = Inr most \<and> 1665 \<le> most)"
  by (rule v2_check_equals_formula) simp_all

end
