(* ===== verification/Verifier.thy ===== *)
theory Verifier
  imports Predictor
begin

text \<open>
  \<open>app/services/mempool/verifier.py\<close> and \<open>app/services/mempool/replay.py\<close>: watched swaps checked against the
  block that includes them, and blocks replayed as if their swaps had been seen pending.
\<close>

definition bps_between :: "f64 \<Rightarrow> f64 \<Rightarrow> f64" where
  "bps_between a b = (if b \<noteq> 0 then \<bar>a - b\<bar> / b * lit 10000 else 0)"

definition event_amounts :: "PoolConfig \<Rightarrow> AppliedEvent \<Rightarrow> LegDirection \<Rightarrow> (int \<times> int) res" where
  "event_amounts config step direction =
     (case ae_event step of
        V3Swap _ amount0 amount1 _ _ _ \<Rightarrow>
          (let (usdc, weth) = (if v3_usdc_is_token0 config then (amount0, amount1) else (amount1, amount0))
           in ok (if direction = sell_weth then (weth, - usdc) else (usdc, - weth)))
      | V2Swap _ amount0_in amount1_in amount0_out amount1_out \<Rightarrow>
          (let (usdc_in, weth_in, usdc_out, weth_out) =
             (if cf_v2_usdc_is_token0 config then (amount0_in, amount1_in, amount0_out, amount1_out)
              else (amount1_in, amount0_in, amount1_out, amount0_out))
           in ok (if direction = sell_weth then (weth_in, usdc_out) else (usdc_in, weth_out)))
      | _ \<Rightarrow> raise_error TypeError)"

definition event_direction :: "PoolConfig \<Rightarrow> AppliedEvent \<Rightarrow> LegDirection res" where
  "event_direction config step =
     rbind (event_amounts config step sell_weth) (\<lambda>(paid, received). ok (if paid > 0 then sell_weth else buy_weth))"

definition pair_with :: "PairState \<Rightarrow> V2State option \<Rightarrow> V3State option \<Rightarrow> PairState" where
  "pair_with start v2 v3 =
     start\<lparr>pr_v2 := (case v2 of None \<Rightarrow> pr_v2 start | Some s \<Rightarrow> s), pr_v3 := (case v3 of None \<Rightarrow> pr_v3 start | Some s \<Rightarrow> s)\<rparr>"

definition some_price :: "Libm \<Rightarrow> PoolConfig \<Rightarrow> V2State option \<Rightarrow> V3State option \<Rightarrow> f64 res" where
  "some_price m config v2 v3 =
     (case v3 of
        Some s \<Rightarrow> ok (v3_price m config (st_sqrt_price_x96 s))
      | None \<Rightarrow> (case v2 of Some s \<Rightarrow> v2_price s | None \<Rightarrow> raise_error AttributeError))"

definition post_price :: "Libm \<Rightarrow> PoolConfig \<Rightarrow> AppliedEvent \<Rightarrow> f64 res" where
  "post_price m config step = some_price m config (ae_v2_after step) (ae_v3_after step)"

definition pre_price :: "Libm \<Rightarrow> PoolConfig \<Rightarrow> AppliedEvent \<Rightarrow> f64 res" where
  "pre_price m config step = some_price m config (ae_v2_before step) (ae_v3_before step)"

definition post_state_equal :: "LegSim \<Rightarrow> AppliedEvent \<Rightarrow> bool" where
  "post_state_equal sim step =
     (case (ae_v3_after step, ls_v3_after sim) of
        (Some b, Some a) \<Rightarrow>
          (st_sqrt_price_x96 a, st_tick a, st_liquidity a) = (st_sqrt_price_x96 b, st_tick b, st_liquidity b)
      | _ \<Rightarrow>
        (case (ae_v2_after step, ls_v2_after sim) of (Some b, Some a) \<Rightarrow> a = b | _ \<Rightarrow> False))"

definition reproduces :: "LegSim \<Rightarrow> AppliedEvent \<Rightarrow> int \<Rightarrow> int \<Rightarrow> bool" where
  "reproduces sim step paid received \<longleftrightarrow>
     \<not> ls_limited sim \<and> post_state_equal sim step \<and> ls_amount_in sim = paid \<and> ls_amount_out sim = received"

definition ordering_effect ::
    "Libm \<Rightarrow> PoolConfig \<Rightarrow> PairState \<Rightarrow> SwapLeg \<Rightarrow> f64 res" where
  "ordering_effect m config pre leg =
     (case sl_predicted_price_after leg of
        None \<Rightarrow> ok 0
      | Some predicted \<Rightarrow>
          rbind (simulate_leg config pre (sl_pool leg) (sl_direction leg) (sl_kind leg) (sl_amount_specified leg)
                   (sl_sqrt_price_limit_x96 leg) (sl_fixed_amount_out leg)) (\<lambda>same_amount.
            if ls_limited same_amount then ok 0
            else rbind (some_price m config (ls_v2_after same_amount) (ls_v3_after same_amount)) (\<lambda>same_price.
                   ok (bps_between predicted same_price))))"

definition leg_outcome :: "Libm \<Rightarrow> PoolConfig \<Rightarrow> BlockState \<Rightarrow> SwapLeg \<Rightarrow> AppliedEvent \<Rightarrow> LegOutcome res" where
  "leg_outcome m config block leg step =
     (let pre = pair_with (bs_start block) (ae_v2_before step) (ae_v3_before step) in
      rbind (event_amounts config step (sl_direction leg)) (\<lambda>(actual_in, actual_out).
      rbind (post_price m config step) (\<lambda>actual_price.
      let specified = (if sl_kind leg = exact_out then actual_out else actual_in) in
      rbind (simulate_leg config pre (sl_pool leg) (sl_direction leg) (sl_kind leg) specified
               (sl_sqrt_price_limit_x96 leg) (if sl_kind leg = exact_amounts then Some actual_out else None)) (\<lambda>from_true_pre.
      rbind (some_price m config (ls_v2_after from_true_pre) (ls_v3_after from_true_pre)) (\<lambda>sim_price.
      let exact = reproduces from_true_pre step actual_in actual_out in
      rbind (ordering_effect m config pre leg) (\<lambda>ordering.
      rbind (pre_price m config step) (\<lambda>true_pre_price.
      ok \<lparr> lo_pool = sl_pool leg, lo_actual_amount_in = actual_in, lo_actual_amount_out = actual_out,
           lo_actual_price_after = actual_price, lo_true_pre_price = true_pre_price,
           lo_math_error_bps = (if exact then 0 else bps_between sim_price actual_price),
           lo_ordering_effect_bps = ordering, lo_amount_out_error_raw = ls_amount_out from_true_pre - actual_out,
           lo_exact = exact \<rparr>)))))))"

definition pool_of_event :: "PoolEvent \<Rightarrow> PoolId" where
  "pool_of_event event = (case event of V3Swap _ _ _ _ _ _ \<Rightarrow> pool_v3 | _ \<Rightarrow> pool_v2)"

text \<open>Each leg takes the next event of its pool; \<open>None\<close> when the counts differ.\<close>

fun take_in_order :: "SwapLeg list \<Rightarrow> AppliedEvent list \<Rightarrow> AppliedEvent list \<Rightarrow> (SwapLeg \<times> AppliedEvent) list" where
  "take_in_order (leg # legs) (s2 # q2) (s3 # q3) =
     (if sl_pool leg = pool_v2 then (leg, s2) # take_in_order legs q2 (s3 # q3)
      else (leg, s3) # take_in_order legs (s2 # q2) q3)"
| "take_in_order (leg # legs) (s2 # q2) [] = (leg, s2) # take_in_order legs q2 []"
| "take_in_order (leg # legs) [] (s3 # q3) = (leg, s3) # take_in_order legs [] q3"
| "take_in_order _ _ _ = []"

definition match_legs :: "SwapLeg list \<Rightarrow> AppliedEvent list \<Rightarrow> (SwapLeg \<times> AppliedEvent) list option" where
  "match_legs legs steps =
     (let q2 = filter (\<lambda>s. pool_of_event (ae_event s) = pool_v2) steps;
          q3 = filter (\<lambda>s. pool_of_event (ae_event s) = pool_v3) steps
      in if length (filter (\<lambda>l. sl_pool l = pool_v2) legs) \<noteq> length q2 then None
         else if length (filter (\<lambda>l. sl_pool l = pool_v3) legs) \<noteq> length q3 then None
         else Some (take_in_order legs q2 q3))"

definition wanted_directions :: "Direction \<Rightarrow> LegDirection \<times> LegDirection" where
  "wanted_directions direction = (if direction = v3_to_v2 then (buy_weth, sell_weth) else (sell_weth, buy_weth))"

definition trades_both :: "PoolConfig \<Rightarrow> Direction \<Rightarrow> AppliedEvent list \<Rightarrow> bool res" where
  "trades_both config direction steps =
     (let (want_v3, want_v2) = wanted_directions direction in
      rbind (res_map (event_direction config) (filter (\<lambda>s. pool_of_event (ae_event s) = pool_v3) steps)) (\<lambda>v3_dirs.
      rbind (res_map (event_direction config) (filter (\<lambda>s. pool_of_event (ae_event s) = pool_v2) steps)) (\<lambda>v2_dirs.
        ok (want_v3 \<in> set v3_dirs \<and> want_v2 \<in> set v2_dirs))))"

fun first_trading :: "PoolConfig \<Rightarrow> Direction \<Rightarrow> (string \<times> AppliedEvent list) list \<Rightarrow> string option res" where
  "first_trading config direction [] = ok None"
| "first_trading config direction ((tx_hash, steps) # rest) =
     rbind (trades_both config direction steps) (\<lambda>both.
       if both then ok (Some tx_hash) else first_trading config direction rest)"

definition find_backrun :: "PoolConfig \<Rightarrow> BlockState \<Rightarrow> int \<Rightarrow> Direction \<Rightarrow> string option res" where
  "find_backrun config block after_tx_index direction =
     (let later = filter (\<lambda>s. is_swap (ae_event s) \<and> lr_tx_index (event_ref (ae_event s)) > after_tx_index) (bs_steps block);
          by_tx = map (\<lambda>tx. (tx, filter (\<lambda>s. tx_of s = tx) later)) (unique_in_order (map tx_of later))
      in first_trading config direction (sort_key (\<lambda>(tx, steps). lr_tx_index (event_ref (ae_event (hd steps)))) by_tx))"

definition net_positive :: "ArbCandidate option \<Rightarrow> bool" where
  "net_positive candidate = (case candidate of None \<Rightarrow> False | Some c \<Rightarrow> ac_net_profit_quote c > 0)"

text \<open>Did the flagged opportunity appear, and was it taken by a later transaction of the block?\<close>

definition check_opportunity ::
    "Libm \<Rightarrow> PoolConfig \<Rightarrow> ScanParams \<Rightarrow> WatchedSwap \<Rightarrow> BlockState \<Rightarrow> int \<Rightarrow> AppliedEvent list
      \<Rightarrow> (bool option \<times> bool option \<times> string option) res" where
  "check_opportunity m config params watched block tx_index steps =
     (case (ws_opportunity watched, ws_opportunity_direction watched) of
        (Some opens, Some direction) \<Rightarrow>
          (let last_log = Max (set (map (\<lambda>s. log_index_of (ae_event s)) steps)) in
           rbind (scan_state m config (state_after_log block last_log) params) (\<lambda>after_tx.
             if net_positive after_tx then
               rbind (find_backrun config block tx_index direction) (\<lambda>candidate.
               rbind (scan_state m config (bs_end block) params) (\<lambda>end_scan.
                 if candidate \<noteq> None \<and> \<not> net_positive end_scan then ok (Some True, Some True, candidate)
                 else ok (Some True, Some False, None)))
             else ok (Some False, Some False, None)))
      | _ \<Rightarrow> ok (None, None, None))"

definition block_outcome ::
    "WatchedSwap \<Rightarrow> BlockState \<Rightarrow> int \<Rightarrow> datetime \<Rightarrow> LegOutcome list \<Rightarrow> bool option \<times> bool option \<times> string option \<Rightarrow> SwapOutcome" where
  "block_outcome watched block tx_index now legs opportunity =
     (let blocks_waited = max 0 (bh_number (bs_header block) - ws_seen_head_block watched);
          seconds = (if ws_mode watched = live_mode
                     then Some (max 0 (total_seconds (bh_timestamp (bs_header block) - ws_first_seen_at watched))) else None)
      in \<lparr> so_block_number = Some (bh_number (bs_header block)), so_tx_index = Some tx_index,
           so_blocks_waited = Some blocks_waited, so_seconds_waited = seconds, so_legs = legs,
           so_appeared = fst opportunity, so_likely_backrun = fst (snd opportunity),
           so_backrun_tx_hash = snd (snd opportunity), so_resolved_at = now \<rparr>)"

definition verify_included ::
    "Libm \<Rightarrow> WatchedSwap \<Rightarrow> BlockState \<Rightarrow> int \<Rightarrow> PoolConfig \<Rightarrow> ScanParams \<Rightarrow> int option \<Rightarrow> datetime \<Rightarrow> WatchedSwap res" where
  "verify_included m watched block tx_index config params receipt_status now =
     (let steps = swaps_of block (ws_tx_hash watched); outcome = block_outcome watched block tx_index now
      in if steps = [] then
           ok (watched\<lparr>ws_status := (if receipt_status = Some 0 then included_reverted else included_no_pool_event),
                       ws_outcome := Some (outcome [] (None, None, None))\<rparr>)
         else
           case match_legs (ws_legs watched) steps of
             None \<Rightarrow> ok (watched\<lparr>ws_status := verification_mismatch, ws_outcome := Some (outcome [] (None, None, None))\<rparr>)
           | Some matched \<Rightarrow>
               rbind (res_map (\<lambda>(leg, step). leg_outcome m config block leg step) matched) (\<lambda>legs.
               rbind (check_opportunity m config params watched block tx_index steps) (\<lambda>opportunity.
                 ok (watched\<lparr>ws_status := included, ws_outcome := Some (outcome legs opportunity)\<rparr>))))"

definition resolve_unincluded :: "WatchedSwap \<Rightarrow> int \<Rightarrow> int option \<Rightarrow> datetime \<Rightarrow> WatchedSwap" where
  "resolve_unincluded watched block_number nonce_now now =
     (let status = (case (ws_nonce watched, nonce_now) of
            (Some n, Some k) \<Rightarrow> if k > n then replaced else not_included
          | _ \<Rightarrow> not_included)
      in watched\<lparr>ws_status := status,
           ws_outcome := Some \<lparr> so_block_number = None, so_tx_index = None,
             so_blocks_waited = Some (block_number - ws_seen_head_block watched), so_seconds_waited = None, so_legs = [],
             so_appeared = None, so_likely_backrun = None, so_backrun_tx_hash = None, so_resolved_at = now \<rparr>\<rparr>)"

definition block_visibility ::
    "Libm \<Rightarrow> PoolConfig \<Rightarrow> BlockState \<Rightarrow> Mode \<Rightarrow> string list option \<Rightarrow> int \<Rightarrow> int \<Rightarrow> ScanParams \<Rightarrow> BlockVisibility res" where
  "block_visibility m config block mode seen_hashes watched_included backruns params =
     (let swap_txs = swap_tx_hashes block;
          seen = (case seen_hashes of None \<Rightarrow> 0 | Some hs \<Rightarrow> int (length (filter (\<lambda>h. h \<in> set hs) swap_txs)))
      in rbind (scan_state m config (bs_end block) params) (\<lambda>end_scan.
         rbind (gap_bps m config (bs_end block)) (\<lambda>gap.
         ok \<lparr> bv_block_number = bh_number (bs_header block), bv_block_hash = bh_hash (bs_header block),
              bv_timestamp = bh_timestamp (bs_header block), bv_mode = mode, bv_pool_swap_txs = int (length swap_txs),
              bv_seen_pending = (if mode = live_mode then seen else 0), bv_watched_included = watched_included,
              bv_backruns = backruns, bv_gap_end_bps = Some gap,
              bv_scan_net_end_quote = map_option ac_net_profit_quote end_scan, bv_not_decoded = 0 \<rparr>)))"

section \<open>Replay of a block\<close>

definition kind_candidates :: "AppliedEvent \<Rightarrow> int \<Rightarrow> int \<Rightarrow> (SwapKind \<times> int \<times> int option) list" where
  "kind_candidates step paid received =
     [(exact_in, paid, None), (exact_out, received, None)]
     @ (if pool_of_event (ae_event step) = pool_v3 then
          (let limit = map_option st_sqrt_price_x96 (ae_v3_after step)
           in [(exact_in, paid, limit), (exact_out, received, limit)])
        else [(exact_amounts, paid, None)])"

fun first_reproducing ::
    "PoolConfig \<Rightarrow> PairState \<Rightarrow> AppliedEvent \<Rightarrow> LegDirection \<Rightarrow> int \<Rightarrow> int \<Rightarrow> (SwapKind \<times> int \<times> int option) list
      \<Rightarrow> (SwapKind \<times> int option) res" where
  "first_reproducing config pre step direction paid received [] = ok (exact_in, None)"
| "first_reproducing config pre step direction paid received ((kind, amount, limit) # rest) =
     (if amount \<le> 0 then first_reproducing config pre step direction paid received rest
      else
        rbind (simulate_leg config pre (pool_of_event (ae_event step)) direction kind amount limit
                 (if kind = exact_amounts then Some received else None)) (\<lambda>sim.
          if reproduces sim step paid received then ok (kind, limit)
          else first_reproducing config pre step direction paid received rest))"

definition infer_kind ::
    "PoolConfig \<Rightarrow> BlockState \<Rightarrow> AppliedEvent \<Rightarrow> LegDirection \<Rightarrow> (SwapKind \<times> int option) res" where
  "infer_kind config block step direction =
     (let pre = pair_with (bs_start block) (ae_v2_before step) (ae_v3_before step) in
      rbind (event_amounts config step direction) (\<lambda>(paid, received).
        first_reproducing config pre step direction paid received (kind_candidates step paid received)))"

definition replay_leg :: "PoolConfig \<Rightarrow> BlockState \<Rightarrow> AppliedEvent \<Rightarrow> DecodedLeg res" where
  "replay_leg config block step =
     rbind (event_direction config step) (\<lambda>direction.
     rbind (infer_kind config block step direction) (\<lambda>(kind, limit).
     rbind (event_amounts config step direction) (\<lambda>(paid, received).
     ok \<lparr> dl_pool = pool_of_event (ae_event step), dl_direction = direction, dl_kind = kind,
          dl_amount_specified = Some (if kind = exact_out then received else paid), dl_limit = None,
          dl_upstream_path = None, dl_flags = [kind_inferred], dl_sqrt_price_limit_x96 = limit,
          dl_fixed_amount_out = (if kind = exact_amounts then Some received else None) \<rparr>)))"

definition replay_record :: "BlockState \<Rightarrow> string \<Rightarrow> Prediction \<Rightarrow> WatchedSwap" where
  "replay_record block tx_hash prediction =
     \<lparr> ws_tx_hash = tx_hash, ws_mode = replay_mode, ws_route = route_replay, ws_sender = None, ws_nonce = None,
       ws_first_seen_at = bh_timestamp (bs_header block), ws_seen_head_block = bh_number (bs_header block) - 1,
       ws_deadline = None, ws_legs = pd_legs prediction, ws_gap_before_bps = Some (pd_gap_before_bps prediction),
       ws_gap_after_bps = Some (pd_gap_after_bps prediction),
       ws_scan_net_before_quote = pd_scan_net_before_quote prediction,
       ws_scan_net_after_quote = pd_scan_net_after_quote prediction, ws_opportunity = pd_opportunity prediction,
       ws_opportunity_direction = pd_opportunity_direction prediction, ws_status = pending, ws_outcome = None \<rparr>"

definition replay_tx ::
    "Libm \<Rightarrow> PoolConfig \<Rightarrow> BlockState \<Rightarrow> ScanParams \<Rightarrow> datetime \<Rightarrow> bool \<Rightarrow> ArbCandidate option \<Rightarrow> string \<Rightarrow> WatchedSwap res" where
  "replay_tx m config block params now run_scanner scan_before tx_hash =
     (let steps = swaps_of block tx_hash in
      rbind (res_map (replay_leg config block) steps) (\<lambda>legs.
      rbind (predict m config (bs_start block) legs params None scan_before run_scanner) (\<lambda>prediction.
      let tx_index = lr_tx_index (event_ref (ae_event (hd steps)))
      in verify_included m (replay_record block tx_hash prediction) block tx_index config params (Some 1) now)))"

definition replay_block ::
    "Libm \<Rightarrow> PoolConfig \<Rightarrow> BlockState \<Rightarrow> ScanParams \<Rightarrow> datetime \<Rightarrow> bool \<Rightarrow> WatchedSwap list res" where
  "replay_block m config block params now run_scanner =
     rbind (if run_scanner then scan_state m config (bs_start block) params else ok None) (\<lambda>scan_before.
       res_map (replay_tx m config block params now run_scanner scan_before) (swap_tx_hashes block))"

end
