(* ===== verification/Pool_Chain.thy ===== *)
theory Pool_Chain
  imports Pool_State
begin

text \<open>
  What the tracker of \<open>app/services/mempool/pool_state.py\<close> keeps: the tracked blocks form an unbroken
  chain, and the steps of a block lead from its start to its end.
\<close>

section \<open>The chain of tracked blocks\<close>

fun follows :: "int \<times> TrackedBlock \<Rightarrow> int \<times> TrackedBlock \<Rightarrow> bool" where
  "follows (n, b) (k, Anchored state) \<longleftrightarrow> n < k"
| "follows (n, b) (k, Rolled block) \<longleftrightarrow> k = n + 1 \<and> bs_start block = tracked_state b
     \<and> py_lower (bh_parent_hash (bs_header block)) = py_lower (pr_block_hash (tracked_state b))"

fun entry_ok :: "int \<times> TrackedBlock \<Rightarrow> bool" where
  "entry_ok (n, Anchored state) \<longleftrightarrow> pr_block_number state = n"
| "entry_ok (n, Rolled block) \<longleftrightarrow> bh_number (bs_header block) = n \<and> pr_block_number (bs_end block) = n
     \<and> pr_block_hash (bs_end block) = bh_hash (bs_header block) \<and> tw_block_number (st_window (pr_v3 (bs_end block))) = n"

definition chained :: "(int, TrackedBlock) dict \<Rightarrow> bool" where
  "chained blocks \<longleftrightarrow> list_all entry_ok blocks \<and> successively follows blocks"

lemma follows_less: "follows x y \<Longrightarrow> fst x < fst y"
  by (cases "(x, y)" rule: follows.cases) auto

lemma chained_sorted: "chained blocks \<Longrightarrow> sorted_wrt (<) (map fst blocks)"
proof -
  assume "chained blocks"
  then have "successively (\<lambda>x y. fst x < fst y) blocks"
    by (auto simp: chained_def intro: successively_mono follows_less)
  then have "successively (<) (map fst blocks)" by (simp add: successively_map)
  then show ?thesis by (subst (asm) successively_conv_sorted_wrt) auto
qed

lemma chained_append: "chained (xs @ ys) \<Longrightarrow> chained xs \<and> chained ys"
  by (auto simp: chained_def successively_append_iff)

lemma chained_trim: "chained blocks \<Longrightarrow> chained (dict_trim n blocks)"
  using chained_append [of "take (length blocks - n) blocks" "drop (length blocks - n) blocks"]
  by (simp add: dict_trim_def)

lemma sorted_filter_prefix:
  fixes n :: int
  assumes "sorted_wrt (<) (map fst blocks)"
    and down: "\<And>i j. i < j \<Longrightarrow> P j \<Longrightarrow> P i"
  shows "filter (\<lambda>(k, b). P k) blocks = takeWhile (\<lambda>(k, b). P k) blocks"
  using assms(1)
proof (induction blocks)
  case (Cons x xs)
  show ?case
  proof (cases "P (fst x)")
    case False
    then have "\<forall>y\<in>set xs. \<not> P (fst y)" using Cons.prems down by auto
    then show ?thesis using False by (auto simp: case_prod_beta filter_empty_conv)
  qed (use Cons in \<open>auto simp: case_prod_beta\<close>)
qed simp

lemma chained_filter:
  assumes "chained blocks" and "\<And>i j. i < j \<Longrightarrow> P j \<Longrightarrow> P i"
  shows "chained (filter (\<lambda>(k, b). P k) blocks)"
proof -
  have "filter (\<lambda>(k, b). P k) blocks = takeWhile (\<lambda>(k, b). P k) blocks"
    by (rule sorted_filter_prefix [OF chained_sorted [OF assms(1)] assms(2)])
  moreover have "chained (takeWhile (\<lambda>(k, b). P k) blocks)"
    using chained_append [of "takeWhile (\<lambda>(k, b). P k) blocks" "dropWhile (\<lambda>(k, b). P k) blocks"] assms(1) by simp
  ultimately show ?thesis by simp
qed

lemma chained_snoc:
  assumes "chained blocks" and "entry_ok x" and "blocks \<noteq> [] \<Longrightarrow> follows (last blocks) x"
  shows "chained (blocks @ [x])"
  using assms by (auto simp: chained_def successively_append_iff)

lemma chained_keys_less:
  assumes "chained blocks" and "blocks \<noteq> []" and "fst (last blocks) < k"
  shows "k \<notin> set (dict_keys blocks)"
proof -
  obtain xs x where b: "blocks = xs @ [x]" using assms(2) by (metis rev_exhaust)
  have "\<forall>y\<in>set xs. fst y < fst x" using chained_sorted [OF assms(1)] by (auto simp: b sorted_wrt_append)
  then show ?thesis using assms(3) by (auto simp: b dict_keys_def)
qed

lemma chained_anchor: "chained (tr_blocks t) \<Longrightarrow> chained (tr_blocks (fst (tracker_anchor t state)))"
proof -
  assume chain: "chained (tr_blocks t)"
  let ?n = "pr_block_number state" and ?kept = "filter (\<lambda>(n, b). n < pr_block_number state) (tr_blocks t)"
  have kept: "chained ?kept" by (rule chained_filter [OF chain]) simp
  have "?n \<notin> set (dict_keys ?kept)" by (auto simp: dict_keys_def)
  then have "dict_set ?n (Anchored state) ?kept = ?kept @ [(?n, Anchored state)]" by (rule dict_set_new)
  moreover have "chained (?kept @ [(?n, Anchored state)])"
  proof (rule chained_snoc [OF kept])
    assume "?kept \<noteq> []"
    then have "last ?kept \<in> set ?kept" by (rule last_in_set)
    then have "fst (last ?kept) < ?n" unfolding set_filter by (auto simp: case_prod_beta)
    then show "follows (last ?kept) (?n, Anchored state)" by (metis follows.simps(1) prod.collapse)
  qed simp
  ultimately show ?thesis by (simp add: tracker_anchor_def Let_def chained_trim)
qed

lemma chained_rewind: "chained (tr_blocks t) \<Longrightarrow> chained (tr_blocks (rewind_to t n))"
  unfolding rewind_to_def by simp (rule chained_filter, auto)

lemma latest_of: "latest t = Some s \<Longrightarrow> tr_blocks t \<noteq> [] \<and> s = tracked_state (snd (last (tr_blocks t)))"
  by (auto simp: latest_def split: if_splits)

lemma chained_last: "chained blocks \<Longrightarrow> blocks \<noteq> [] \<Longrightarrow> fst (last blocks) = pr_block_number (tracked_state (snd (last blocks)))"
  using last_in_set [of blocks] by (cases "last blocks" rule: entry_ok.cases) (auto simp: chained_def list_all_iff)

lemma apply_block_Inr:
  assumes "apply_block t header events = Inr (t', block)"
  obtains start run where "latest t = Some start" "bh_number header = pr_block_number start + 1"
    "py_lower (bh_parent_hash header) = py_lower (pr_block_hash start)"
    "apply_events (tr_config t) \<lparr> br_v2 = pr_v2 start, br_v3 = pr_v3 start, br_steps = [], br_pending_sync = None \<rparr> events = Inr run"
    "block = block_of_run header start run"
    "t' = t\<lparr>tr_blocks := dict_trim (tr_max t) (dict_set (bh_number header) (Rolled block) (tr_blocks t)),
            tr_blocks_since_anchor := tr_blocks_since_anchor t + 1\<rparr>"
  using assms by (auto simp: apply_block_def Let_def split: option.splits if_splits)

lemma chained_apply:
  assumes "chained (tr_blocks t)" and "apply_block t header events = Inr (t', block)"
  shows "chained (tr_blocks t')"
    and "dict_set (bh_number header) (Rolled block) (tr_blocks t) = tr_blocks t @ [(bh_number header, Rolled block)]"
proof -
  obtain start run where s: "latest t = Some start" "bh_number header = pr_block_number start + 1"
      "py_lower (bh_parent_hash header) = py_lower (pr_block_hash start)" "block = block_of_run header start run"
      and t': "t' = t\<lparr>tr_blocks := dict_trim (tr_max t) (dict_set (bh_number header) (Rolled block) (tr_blocks t)),
            tr_blocks_since_anchor := tr_blocks_since_anchor t + 1\<rparr>"
    using assms(2) by (rule apply_block_Inr)
  have last: "tr_blocks t \<noteq> []" "start = tracked_state (snd (last (tr_blocks t)))" using latest_of [OF s(1)] by auto
  have less: "fst (last (tr_blocks t)) + 1 = bh_number header"
    using chained_last [OF assms(1) last(1)] s(2) last(2) by simp
  then show new: "dict_set (bh_number header) (Rolled block) (tr_blocks t) = tr_blocks t @ [(bh_number header, Rolled block)]"
    using chained_keys_less [OF assms(1) last(1), of "bh_number header"] by (intro dict_set_new) simp
  have "chained (tr_blocks t @ [(bh_number header, Rolled block)])"
  proof (rule chained_snoc [OF assms(1)])
    show "entry_ok (bh_number header, Rolled block)" by (simp add: s(4) block_of_run_def at_block_def)
    show "follows (last (tr_blocks t)) (bh_number header, Rolled block)"
      using less s last(2) by (cases "last (tr_blocks t)") (simp add: block_of_run_def)
  qed
  then show "chained (tr_blocks t')" by (simp add: t' new chained_trim)
qed

text \<open>One call on the tracker; a call that raises leaves it unchanged.\<close>

inductive tracker_step :: "PoolStateTracker \<Rightarrow> PoolStateTracker \<Rightarrow> bool" where
  anchored: "tracker_step t (fst (tracker_anchor t state))"
| rewound: "tracker_step t (rewind_to t number)"
| applied: "apply_block t header events = Inr (t', block) \<Longrightarrow> tracker_step t t'"

inductive_cases tracker_stepE: "tracker_step t t'"

definition tracker_inv :: "nat \<Rightarrow> PoolStateTracker \<Rightarrow> bool" where
  "tracker_inv n t \<longleftrightarrow> tr_max t = n \<and> chained (tr_blocks t) \<and> length (tr_blocks t) \<le> n"

lemma tracker_step_inv: "tracker_step t t' \<Longrightarrow> tracker_inv n t \<Longrightarrow> tracker_inv n t'"
proof (erule tracker_stepE)
  fix state
  assume "t' = fst (tracker_anchor t state)" "tracker_inv n t"
  then show ?thesis using chained_anchor [of t state] by (simp add: tracker_inv_def) (simp add: tracker_anchor_def Let_def)
next
  fix number
  assume "t' = rewind_to t number" "tracker_inv n t"
  then show ?thesis using chained_rewind [of t number]
    by (simp add: tracker_inv_def) (simp add: rewind_to_def le_trans [OF length_filter_le])
next
  fix header events block
  assume step: "apply_block t header events = Inr (t', block)" and "tracker_inv n t"
  moreover have "tr_max t' = tr_max t \<and> length (tr_blocks t') \<le> tr_max t"
    using step by (rule apply_block_Inr) simp
  ultimately show ?thesis using chained_apply(1) [OF _ step] by (simp add: tracker_inv_def)
qed

lemma tracker_reachable_inv: "tracker_step\<^sup>*\<^sup>* (tracker_init config n) t \<Longrightarrow> tracker_inv n t"
proof (induction rule: rtranclp_induct)
  case base
  then show ?case by (simp add: tracker_init_def tracker_inv_def chained_def)
next
  case (step t t')
  then show ?case by (blast intro: tracker_step_inv)
qed


definition example_config :: PoolConfig where
  "example_config = \<lparr> cf_v2_pair = ''0xb4e1'', cf_v3_pool = ''0x88e6'', cf_v2_usdc_is_token0 = True,
     cf_v3_metadata = example_metadata \<rparr>"

definition example_pair :: PairState where
  "example_pair = \<lparr> pr_block_number = 17, pr_block_hash = ''0xA'', pr_timestamp = 0, pr_base_fee_wei = None,
     pr_v2 = \<lparr> st_reserve_usdc = 4 * 10 ^ 12, st_reserve_weth = 10 ^ 21 \<rparr>,
     pr_v3 = \<lparr> st_sqrt_price_x96 = 2 ^ 96, st_tick = 0, st_liquidity = 10 ^ 18, st_window = example_window \<rparr> \<rparr>"

definition example_tracker :: PoolStateTracker where
  "example_tracker = fst (tracker_anchor (tracker_init example_config 16) example_pair)"

lemma example_tracker_reachable: "tracker_step\<^sup>*\<^sup>* (tracker_init example_config 16) example_tracker"
  unfolding example_tracker_def by (rule r_into_rtranclp) (rule anchored)


section \<open>The steps of a block\<close>

lemma apply_event_step:
  "apply_event config run event = Inr run' \<Longrightarrow> \<exists>step. br_steps run' = br_steps run @ [step] \<and> ae_event step = event
     \<and> (case ae_v2_after step of None \<Rightarrow> br_v2 run | Some s \<Rightarrow> s, case ae_v3_after step of None \<Rightarrow> br_v3 run | Some s \<Rightarrow> s)
         = (br_v2 run', br_v3 run')"
  by (cases event) (auto simp: v2_step_def v3_step_def Let_def)

lemma apply_events_steps:
  "apply_events config run events = Inr run' \<Longrightarrow> \<exists>steps. br_steps run' = br_steps run @ steps \<and> map ae_event steps = events
     \<and> (list_all (\<lambda>e. log_index_of e \<le> i) events
         \<longrightarrow> states_after i (br_v2 run, br_v3 run) steps = (br_v2 run', br_v3 run'))"
proof (induction events arbitrary: run)
  case (Cons event events)
  obtain mid where mid: "apply_event config run event = Inr mid" "apply_events config mid events = Inr run'"
    using Cons.prems by auto
  obtain step where step: "br_steps mid = br_steps run @ [step]" "ae_event step = event"
      "(case ae_v2_after step of None \<Rightarrow> br_v2 run | Some s \<Rightarrow> s, case ae_v3_after step of None \<Rightarrow> br_v3 run | Some s \<Rightarrow> s)
         = (br_v2 mid, br_v3 mid)"
    using apply_event_step [OF mid(1)] by blast
  obtain steps where steps: "br_steps run' = br_steps mid @ steps" "map ae_event steps = events"
      "list_all (\<lambda>e. log_index_of e \<le> i) events \<longrightarrow> states_after i (br_v2 mid, br_v3 mid) steps = (br_v2 run', br_v3 run')"
    using Cons.IH [OF mid(2)] by blast
  show ?case using step steps by (intro exI [of _ "step # steps"]) simp
qed simp

lemma window_with_liquidity_error:
  "window_with_liquidity w tick g n = Inl e \<Longrightarrow> e = ArithmeticError \<or> e = ZeroDivisionError"
  by (auto simp: window_with_liquidity_def compress_def py_floordiv_def Let_def rbind_eq_Inl_iff split: if_splits prod.splits)

lemma apply_liquidity_error:
  "apply_liquidity s l u a mint = Inl e \<Longrightarrow> e = ArithmeticError \<or> e = ZeroDivisionError"
  unfolding apply_liquidity_def
  by (auto simp: Let_def rbind_eq_Inl_iff dest!: window_with_liquidity_error split: if_split_asm)

lemma apply_events_error: "apply_events config run events = Inl e \<Longrightarrow> e = ArithmeticError \<or> e = ZeroDivisionError"
proof (induction events arbitrary: run)
  case (Cons event events)
  have "apply_event config run event = Inl e \<Longrightarrow> e = ArithmeticError \<or> e = ZeroDivisionError"
    using apply_liquidity_error by (cases event) (auto simp: Let_def rbind_eq_Inl_iff)
  then show ?case using Cons by (auto simp: rbind_eq_Inl_iff)
qed simp

text \<open>Rolling a block forward fails only as named: a gap when the number is not the next one, a reorg
  when the parent hash differs, an arithmetic error when a burn exceeds the liquidity. Otherwise
  every event is one step, in order, and reading the state after the last log gives the end state.
\<close>

theorem apply_block_outcome:
  "case apply_block t header events of
     Inl e \<Rightarrow> (case latest t of
         None \<Rightarrow> e = StateGap
       | Some start \<Rightarrow>
           if bh_number header \<noteq> pr_block_number start + 1 then e = StateGap
           else if py_lower (bh_parent_hash header) \<noteq> py_lower (pr_block_hash start) then e = ReorgDetected
           else e = ArithmeticError \<or> e = ZeroDivisionError)
   | Inr (t', block) \<Rightarrow>
       latest t = Some (bs_start block) \<and> bs_header block = header
       \<and> bh_number header = pr_block_number (bs_start block) + 1
       \<and> py_lower (bh_parent_hash header) = py_lower (pr_block_hash (bs_start block))
       \<and> map ae_event (bs_steps block) = events
       \<and> (if list_all (\<lambda>e. log_index_of e \<le> i) events then state_after_log block i = bs_end block else True)"
proof (cases "apply_block t header events")
  case (Inl e)
  then show ?thesis
    using apply_events_error by (auto simp: apply_block_def rbind_eq_Inl_iff Let_def split: option.splits if_splits)
next
  case (Inr result)
  obtain t' block where r: "result = (t', block)" by (cases result)
  obtain start run where s: "latest t = Some start" "bh_number header = pr_block_number start + 1"
      "py_lower (bh_parent_hash header) = py_lower (pr_block_hash start)" "block = block_of_run header start run"
      and run: "apply_events (tr_config t) \<lparr> br_v2 = pr_v2 start, br_v3 = pr_v3 start, br_steps = [], br_pending_sync = None \<rparr>
        events = Inr run"
    using Inr unfolding r by (rule apply_block_Inr)
  show ?thesis
    using apply_events_steps [OF run, of i] s
    by (auto simp: Inr r block_of_run_def state_after_log_def at_block_def)
qed

end
