(* ===== verification/Replay_Check.thy ===== *)
theory Replay_Check
  imports Verifier Pool_Chain
begin

text \<open>
  What replay and verification guarantee (\<open>app/services/mempool/replay.py\<close> and \<open>verifier.py\<close>): every
  swapping transaction of a block becomes one verified record, and the two error measures are zero
  where they should be.
\<close>

section \<open>Replay matches every event\<close>

lemma predict_leg_pool: "predict_leg m config late running leg = Inr (after, p) \<Longrightarrow> sl_pool p = dl_pool leg"
  by (auto simp: predict_leg_def Let_def split: option.splits)

lemma predict_legs_pools: "predict_legs m config late running legs = Inr (after, ps) \<Longrightarrow> map sl_pool ps = map dl_pool legs"
  by (induction legs arbitrary: running after ps) (auto dest!: predict_leg_pool split: prod.splits)

lemma replay_leg_pool: "replay_leg config block step = Inr leg \<Longrightarrow> dl_pool leg = pool_of_event (ae_event step)"
  by (auto simp: replay_leg_def split: prod.splits)

lemma replay_legs_pools:
  "res_map (replay_leg config block) steps = Inr legs \<Longrightarrow> map dl_pool legs = map (\<lambda>s. pool_of_event (ae_event s)) steps"
  by (induction steps arbitrary: legs) (auto dest!: replay_leg_pool)

lemma take_in_order_zip:
  "map sl_pool legs = map (\<lambda>s. pool_of_event (ae_event s)) steps \<Longrightarrow>
     take_in_order legs (filter (\<lambda>s. pool_of_event (ae_event s) = pool_v2) steps)
       (filter (\<lambda>s. pool_of_event (ae_event s) = pool_v3) steps) = zip legs steps"
proof (induction steps arbitrary: legs)
  case (Cons step steps)
  obtain leg rest where legs: "legs = leg # rest" "sl_pool leg = pool_of_event (ae_event step)"
      "map sl_pool rest = map (\<lambda>s. pool_of_event (ae_event s)) steps"
    using Cons.prems by auto
  let ?q = "\<lambda>p. filter (\<lambda>s. pool_of_event (ae_event s) = p) steps"
  show ?case
  proof (cases "pool_of_event (ae_event step)")
    case pool_v2
    then show ?thesis using Cons.IH [OF legs(3)] legs(1,2) by (cases "?q pool_v3") simp_all
  next
    case pool_v3
    then show ?thesis using Cons.IH [OF legs(3)] legs(1,2) by (cases "?q pool_v2") simp_all
  qed
qed simp

lemma match_legs_zip:
  assumes "map sl_pool legs = map (\<lambda>s. pool_of_event (ae_event s)) steps"
  shows "match_legs legs steps = Some (zip legs steps)"
proof -
  have "length (filter (\<lambda>l. sl_pool l = p) legs) = length (filter (\<lambda>s. pool_of_event (ae_event s) = p) steps)" for p
  proof -
    have "length (filter (\<lambda>l. sl_pool l = p) legs) = length (filter (\<lambda>x. x = p) (map sl_pool legs))"
      by (simp add: filter_map o_def)
    also have "\<dots> = length (filter (\<lambda>s. pool_of_event (ae_event s) = p) steps)"
      unfolding assms by (simp add: filter_map o_def)
    finally show ?thesis .
  qed
  then show ?thesis by (simp add: match_legs_def Let_def take_in_order_zip [OF assms])
qed

lemma swap_tx_has_steps: "tx \<in> set (swap_tx_hashes block) \<Longrightarrow> swaps_of block tx \<noteq> []"
  by (auto simp: swap_tx_hashes_def swaps_of_def filter_empty_conv)

lemma replay_tx_included:
  assumes "replay_tx m config block params now run before tx = Inr w" and "tx \<in> set (swap_tx_hashes block)"
  shows "ws_tx_hash w = tx \<and> ws_status w = included
    \<and> (\<exists>outcome. ws_outcome w = Some outcome \<and> so_block_number outcome = Some (bh_number (bs_header block))
        \<and> so_blocks_waited outcome = Some 1 \<and> length (so_legs outcome) = length (swaps_of block tx)
        \<and> length (ws_legs w) = length (swaps_of block tx))"
proof -
  obtain legs prediction where legs: "res_map (replay_leg config block) (swaps_of block tx) = Inr legs"
      and pred: "predict m config (bs_start block) legs params None before run = Inr prediction"
      and ver: "verify_included m (replay_record block tx prediction) block
        (lr_tx_index (event_ref (ae_event (hd (swaps_of block tx))))) config params (Some 1) now = Inr w"
    using assms(1) by (auto simp: replay_tx_def Let_def)
  have pools: "map sl_pool (pd_legs prediction) = map (\<lambda>s. pool_of_event (ae_event s)) (swaps_of block tx)"
    using pred replay_legs_pools [OF legs] by (auto simp: predict_def Let_def dest!: predict_legs_pools split: prod.splits)
  have some: "swaps_of block tx \<noteq> []" by (rule swap_tx_has_steps [OF assms(2)])
  obtain outcomes opportunity where "res_map (\<lambda>(leg, step). leg_outcome m config block leg step)
        (zip (pd_legs prediction) (swaps_of block tx)) = Inr outcomes"
      "w = (replay_record block tx prediction)\<lparr>ws_status := included,
         ws_outcome := Some (block_outcome (replay_record block tx prediction) block
           (lr_tx_index (event_ref (ae_event (hd (swaps_of block tx))))) now outcomes opportunity)\<rparr>"
    using ver some match_legs_zip [OF pools] by (auto simp: verify_included_def Let_def replay_record_def)
  moreover have "length (pd_legs prediction) = length (swaps_of block tx)" using pools by (metis length_map)
  ultimately show ?thesis
    using res_map_length by (fastforce simp: replay_record_def block_outcome_def Let_def)
qed

lemma res_map_in_set: "res_map f xs = Inr ys \<Longrightarrow> y \<in> set ys \<Longrightarrow> \<exists>x\<in>set xs. f x = Inr y"
  by (induction xs arbitrary: ys) auto


section \<open>The error measures\<close>

lemma simulate_leg_pools:
  "(pr_v2 s, pr_v3 s) = (pr_v2 s', pr_v3 s') \<Longrightarrow>
     simulate_leg config s pool d k a limit fixed = simulate_leg config s' pool d k a limit fixed"
  by (simp add: simulate_leg_def)

lemma v2_sim_after:
  "simulate_v2_leg state d k a fixed = Inr sim \<Longrightarrow> \<not> ls_limited sim \<Longrightarrow> \<exists>after. ls_v2_after sim = Some after \<and> ls_v3_after sim = None"
  by (auto simp: simulate_v2_leg_def catch_value_error_def v2_after_def refused_v2_leg_def v2_reserves_def Let_def
      split: SwapKind.splits if_splits sum.splits prod.splits)

lemma v3_sim_after: "simulate_v3_leg config state d k a limit = Inr sim \<Longrightarrow> \<exists>after. ls_v3_after sim = Some after"
  by (auto simp: simulate_v3_leg_def Let_def)

lemma price_after_leg:
  assumes sim: "simulate_leg config running pool d k a limit fixed = Inr sim" and "\<not> ls_limited sim"
  shows "pool_price m config (state_after_leg running pool sim) pool = some_price m config (ls_v2_after sim) (ls_v3_after sim)"
proof (cases "pool = pool_v3")
  case True
  then show ?thesis using sim assms(2) v3_sim_after
    by (fastforce simp: simulate_leg_def pool_price_def state_after_leg_def some_price_def)
next
  case False
  then show ?thesis using sim assms(2) v2_sim_after
    by (fastforce simp: simulate_leg_def pool_price_def state_after_leg_def some_price_def)
qed

lemma bps_between_self [simp]: "bps_between p p = 0"
  by (simp add: bps_between_def)

text \<open>A leg predicted on the state its event really met has no ordering effect, and an exact leg has no
  mathematical error and no output error.
\<close>

theorem undisturbed_leg_has_no_ordering_effect:
  assumes "predict_leg m config late running decoded = Inr (after, leg)"
    and "(pr_v2 running, pr_v3 running)
      = (let pre = pair_with (bs_start block) (ae_v2_before step) (ae_v3_before step) in (pr_v2 pre, pr_v3 pre))"
    and "leg_outcome m config block leg step = Inr outcome"
  shows "lo_ordering_effect_bps outcome = 0
    \<and> (if lo_exact outcome then lo_math_error_bps outcome = 0 \<and> lo_amount_out_error_raw outcome = 0 else True)"
proof -
  let ?pre = "pair_with (bs_start block) (ae_v2_before step) (ae_v3_before step)"
  obtain amount sim where a: "dl_amount_specified decoded = Some amount"
      and sim: "simulate_leg config running (dl_pool decoded) (dl_direction decoded) (dl_kind decoded) amount
        (dl_sqrt_price_limit_x96 decoded) (dl_fixed_amount_out decoded) = Inr sim"
      and fields: "sl_pool leg = dl_pool decoded" "sl_direction leg = dl_direction decoded" "sl_kind leg = dl_kind decoded"
        "sl_amount_specified leg = amount" "sl_sqrt_price_limit_x96 leg = dl_sqrt_price_limit_x96 decoded"
        "sl_fixed_amount_out leg = dl_fixed_amount_out decoded"
      and price: "if ls_limited sim then sl_predicted_price_after leg = None
        else \<exists>p. pool_price m config (state_after_leg running (dl_pool decoded) sim) (dl_pool decoded) = Inr p
          \<and> sl_predicted_price_after leg = Some p"
    using assms(1) by (auto simp: predict_leg_def Let_def split: option.splits if_splits)
  have same: "simulate_leg config ?pre (sl_pool leg) (sl_direction leg) (sl_kind leg) (sl_amount_specified leg)
      (sl_sqrt_price_limit_x96 leg) (sl_fixed_amount_out leg) = Inr sim"
    using sim simulate_leg_pools [of running ?pre] assms(2) by (simp add: fields Let_def)
  have "ordering_effect m config ?pre leg = Inr 0"
  proof (cases "ls_limited sim")
    case True
    then show ?thesis using price by (simp add: ordering_effect_def)
  next
    case False
    then obtain p where p: "some_price m config (ls_v2_after sim) (ls_v3_after sim) = Inr p" "sl_predicted_price_after leg = Some p"
      using price price_after_leg [OF sim False] by auto
    then show ?thesis using False by (simp add: ordering_effect_def same)
  qed
  then show ?thesis using assms(3)
    by (auto simp: leg_outcome_def Let_def reproduces_def split: prod.splits)
qed

definition example_sale :: DecodedLeg where
  "example_sale = \<lparr> dl_pool = pool_v2, dl_direction = sell_weth, dl_kind = exact_in, dl_amount_specified = Some 1000000000000000000,
     dl_limit = None, dl_upstream_path = None, dl_flags = [], dl_sqrt_price_limit_x96 = None, dl_fixed_amount_out = None \<rparr>"

definition example_sold :: V2State where
  "example_sold = \<lparr> st_reserve_usdc = 4 * 10 ^ 12 - 3984027924, st_reserve_weth = 10 ^ 21 + 10 ^ 18 \<rparr>"

definition example_sale_ref :: LogRef where
  "example_sale_ref = \<lparr> lr_block_number = 18, lr_tx_hash = ''0xF'', lr_tx_index = 0, lr_log_index = 1 \<rparr>"

definition example_sale_step :: AppliedEvent where
  "example_sale_step = v2_step (V2Swap example_sale_ref 0 (10 ^ 18) 3984027924 0) (pr_v2 example_pair) example_sold"

definition example_block :: BlockState where
  "example_block = \<lparr> bs_header = \<lparr> bh_number = 18, bh_hash = ''0xB'', bh_parent_hash = ''0xA'', bh_timestamp = 12,
       bh_base_fee_wei = None, bh_tx_hashes = [''0xF''] \<rparr>,
     bs_start = example_pair, bs_end = example_pair\<lparr>pr_v2 := example_sold\<rparr>, bs_steps = [example_sale_step] \<rparr>"

lemma example_v2_leg:
  "simulate_v2_leg (pr_v2 example_pair) sell_weth exact_in 1000000000000000000 None = Inr
     \<lparr> ls_amount_in = 1000000000000000000, ls_amount_out = 3984027924, ls_v2_after = Some example_sold,
       ls_v3_after = None, ls_limited = False \<rparr>"
  by code_simp

lemma example_leg_sim:
  "simulate_leg example_config example_pair pool_v2 sell_weth exact_in 1000000000000000000 None None = Inr
     \<lparr> ls_amount_in = 1000000000000000000, ls_amount_out = 3984027924, ls_v2_after = Some example_sold,
       ls_v3_after = None, ls_limited = False \<rparr>"
  by (simp add: simulate_leg_def example_v2_leg)

lemma example_prices: "\<exists>p. v2_price (pr_v2 example_pair) = Inr p" "\<exists>p. v2_price example_sold = Inr p"
proof -
  have "lit (real_of_int (10 ^ 21) / real_of_int WETH_UNIT) \<noteq> 0"
    using lit_pos [of "real_of_int (10 ^ 21) / real_of_int WETH_UNIT"] by (auto simp: WETH_UNIT_def)
  then show "\<exists>p. v2_price (pr_v2 example_pair) = Inr p" by (simp add: v2_price_def example_pair_def)
  have "lit (real_of_int (10 ^ 21 + 10 ^ 18) / real_of_int WETH_UNIT) \<noteq> 0"
    using lit_pos [of "real_of_int (10 ^ 21 + 10 ^ 18) / real_of_int WETH_UNIT"] by (auto simp: WETH_UNIT_def)
  then show "\<exists>p. v2_price example_sold = Inr p" by (simp add: v2_price_def example_sold_def)
qed

theorem undisturbed_leg_has_no_ordering_effect_witness:
  "\<exists>after leg outcome. predict_leg exact_libm example_config False example_pair example_sale = Inr (after, leg)
    \<and> leg_outcome exact_libm example_config example_block leg example_sale_step = Inr outcome
    \<and> lo_ordering_effect_bps outcome = 0
    \<and> (if lo_exact outcome then lo_math_error_bps outcome = 0 \<and> lo_amount_out_error_raw outcome = 0 else True)"
proof -
  obtain p q where pq: "v2_price (pr_v2 example_pair) = Inr p" "v2_price example_sold = Inr q" using example_prices by blast
  have config0: "cf_v2_usdc_is_token0 example_config = True" by (simp add: example_config_def)
  have pre: "pair_with (bs_start example_block) (ae_v2_before example_sale_step) (ae_v3_before example_sale_step) = example_pair"
    by (simp add: pair_with_def example_block_def example_sale_step_def v2_step_def)
  obtain after leg where leg: "predict_leg exact_libm example_config False example_pair example_sale = Inr (after, leg)"
      "sl_pool leg = pool_v2" "sl_direction leg = sell_weth" "sl_kind leg = exact_in" "sl_amount_specified leg = 1000000000000000000"
      "sl_sqrt_price_limit_x96 leg = None" "sl_fixed_amount_out leg = None" "sl_predicted_price_after leg = Some q"
    using pq by (simp add: predict_leg_def example_sale_def pool_price_def example_leg_sim Let_def state_after_leg_def)
  have "\<exists>outcome. leg_outcome exact_libm example_config example_block leg example_sale_step = Inr outcome"
    using pq leg(2-8) unfolding leg_outcome_def pre Let_def
    by (simp add: event_amounts_def example_sale_step_def v2_step_def config0 post_price_def pre_price_def
        some_price_def example_leg_sim ordering_effect_def)
  then obtain outcome where outcome: "leg_outcome exact_libm example_config example_block leg example_sale_step = Inr outcome" by blast
  show ?thesis
    using undisturbed_leg_has_no_ordering_effect [OF leg(1) _ outcome] leg(1) outcome by (auto simp: pre Let_def)
qed

end
