(* ===== verification/Router_Decoder.thy ===== *)
theory Router_Decoder
  imports Mempool_Models Py_Dict
begin

text \<open>
  \<open>app/services/mempool/router_decoder.py\<close>: pending transactions decoded into trades on the two pools. The
  ABI decoder and Keccak are the argument \<open>abi\<close>. A multicall decodes its calls recursively; \<open>depth\<close>
  is the number of nested calls the interpreter's stack has room for, beyond which Python raises
  \<open>RecursionError\<close>. The builder that collects the legs is passed along; a call whose \<open>KeyError\<close> the
  multicall swallows has not changed it, and every other exception discards it.
\<close>

definition UR_CONTRACT_BALANCE :: int where "UR_CONTRACT_BALANCE = push_bit 255 1"
definition SR02_CONTRACT_BALANCE :: int where "SR02_CONTRACT_BALANCE = 0"
definition UR_MASK :: int where "UR_MASK = 0x3F"
definition UR_V3_EXACT_IN :: int where "UR_V3_EXACT_IN = 0"
definition UR_V3_EXACT_OUT :: int where "UR_V3_EXACT_OUT = 1"
definition UR_V2_EXACT_IN :: int where "UR_V2_EXACT_IN = 8"
definition UR_V2_EXACT_OUT :: int where "UR_V2_EXACT_OUT = 9"
definition UR_WRAP_ETH :: int where "UR_WRAP_ETH = 0x0B"

definition WETH_ADDRESS :: string where "WETH_ADDRESS = ''0xC02aaA39b223FE8D0A0e5C4F27eAD9083C756Cc2''"
definition USDC_ADDRESS :: string where "USDC_ADDRESS = ''0xA0b86991c6218b36c1d19D4a2e9Eb0cE3606eB48''"
definition V2_ROUTER02_ADDRESS :: string where "V2_ROUTER02_ADDRESS = ''0x7a250d5630B4cF539739dF2C5dAcb4c659F2488D''"
definition SWAP_ROUTER_ADDRESS :: string where "SWAP_ROUTER_ADDRESS = ''0xE592427A0AEce92De3Edee1F18E0157C05861564''"
definition SWAP_ROUTER02_ADDRESS :: string where "SWAP_ROUTER02_ADDRESS = ''0x68b3465833fb72A70ecDF485E0e4C7bD8665Fc45''"
definition UNIVERSAL_ROUTER_ADDRESSES :: "string list" where
  "UNIVERSAL_ROUTER_ADDRESSES =
     [''0x3fC91A3afd70395Cd496C647d5a6CC9D4B2b7FAD'', ''0x66a9893cC07D91D95644AEDD05D03f95e1dBA8Af'',
      ''0xEf1c6E67703c7BD7107eed8303Fbe6EC2554BF6B'']"

definition USDC :: string where "USDC = py_lower USDC_ADDRESS"
definition WETH :: string where "WETH = py_lower WETH_ADDRESS"

record DecoderConfig =
  dc_v2_pair :: string
  dc_v3_pool :: string
  dc_v3_fee :: int

definition pool_bytes :: "DecoderConfig \<Rightarrow> (bytes \<times> bytes) res" where
  "pool_bytes config =
     rbind (bytes_fromhex (py_lower (drop 2 (dc_v2_pair config)))) (\<lambda>v2.
     rbind (bytes_fromhex (py_lower (drop 2 (dc_v3_pool config)))) (\<lambda>v3. ok (v2, v3)))"

datatype DecodeResult = Decoded DecodedSwap | NotDecoded string | Unrelated

definition sel :: "Abi \<Rightarrow> string \<Rightarrow> bytes" where
  "sel abi signature = take 4 (abi_keccak abi signature)"

definition is_pair :: "string \<Rightarrow> string \<Rightarrow> bool" where
  "is_pair a b \<longleftrightarrow> {py_lower a, py_lower b} = {USDC, WETH}"

definition swap_direction :: "string \<Rightarrow> LegDirection" where
  "swap_direction token_in = (if py_lower token_in = WETH then sell_weth else buy_weth)"

definition int_from_bytes :: "bytes \<Rightarrow> int" where
  "int_from_bytes bs = foldl (\<lambda>acc b. acc * 256 + uint b) 0 bs"

type_synonym segment = "string \<times> int \<times> string"

function path_segments :: "bytes \<Rightarrow> segment list" where
  "path_segments path =
     (if length path < 43 then []
      else (''0x'' @ bytes_hex (take 20 path), int_from_bytes (take 3 (drop 20 path)), ''0x'' @ bytes_hex (take 20 (drop 23 path)))
           # path_segments (drop 23 path))"
  by pat_completeness auto
termination by (relation "measure length") auto

declare path_segments.simps [simp del]

definition split_v3_path :: "bytes \<Rightarrow> segment list res" where
  "split_v3_path path =
     (if length path < 43 \<or> (int (length path) - 20) mod 23 \<noteq> 0 then raise_error ValueError
      else ok (path_segments path))"

section \<open>The builder\<close>

record Builder =
  bd_config :: DecoderConfig
  bd_legs :: "DecodedLeg list"
  bd_undecodable :: "string option"

definition ours_v3 :: "Builder \<Rightarrow> segment \<Rightarrow> bool" where
  "ours_v3 b segment = (case segment of (token_a, fee, token_b) \<Rightarrow> fee = dc_v3_fee (bd_config b) \<and> is_pair token_a token_b)"

definition add_leg :: "Builder \<Rightarrow> DecodedLeg \<Rightarrow> Builder" where
  "add_leg b leg = b\<lparr>bd_legs := bd_legs b @ [leg]\<rparr>"

definition give_up :: "Builder \<Rightarrow> string \<Rightarrow> Builder" where
  "give_up b reason = b\<lparr>bd_undecodable := Some reason\<rparr>"

definition nonzero :: "int option \<Rightarrow> int option" where
  "nonzero v = (case v of Some n \<Rightarrow> if n = 0 then None else Some n | None \<Rightarrow> None)"

definition plain_leg :: "PoolId \<Rightarrow> LegDirection \<Rightarrow> SwapKind \<Rightarrow> int \<Rightarrow> int option \<Rightarrow> int option \<Rightarrow> DecodedLeg" where
  "plain_leg pool direction kind amount limit sqrt_limit =
     \<lparr> dl_pool = pool, dl_direction = direction, dl_kind = kind, dl_amount_specified = Some amount, dl_limit = limit,
       dl_upstream_path = None, dl_flags = [], dl_sqrt_price_limit_x96 = sqrt_limit, dl_fixed_amount_out = None \<rparr>"

definition upstream_leg :: "PoolId \<Rightarrow> LegDirection \<Rightarrow> int option \<Rightarrow> UpstreamPath \<Rightarrow> DecodedLeg" where
  "upstream_leg pool direction limit path =
     \<lparr> dl_pool = pool, dl_direction = direction, dl_kind = exact_in, dl_amount_specified = None, dl_limit = limit,
       dl_upstream_path = Some path, dl_flags = [upstream_quoted], dl_sqrt_price_limit_x96 = None, dl_fixed_amount_out = None \<rparr>"

fun v3_in_hops ::
    "bytes \<Rightarrow> int option \<Rightarrow> int option \<Rightarrow> int option \<Rightarrow> nat \<Rightarrow> Builder \<Rightarrow> segment list \<Rightarrow> Builder" where
  "v3_in_hops path paid min_out sqrt_limit index b [] = b"
| "v3_in_hops path paid min_out sqrt_limit index b (segment # rest) =
     (if \<not> ours_v3 b segment then v3_in_hops path paid min_out sqrt_limit (Suc index) b rest
      else
        let limit = (if rest = [] then min_out else None); direction = swap_direction (fst segment)
        in if index = 0 then
             (case paid of
                None \<Rightarrow> give_up b ''amount from contract balance''
              | Some amount \<Rightarrow> v3_in_hops path paid min_out sqrt_limit (Suc index)
                  (add_leg b (plain_leg pool_v3 direction exact_in amount limit (nonzero sqrt_limit))) rest)
           else
             (case paid of
                None \<Rightarrow> give_up b ''upstream amount from contract balance''
              | Some amount \<Rightarrow> v3_in_hops path paid min_out sqrt_limit (Suc index)
                  (add_leg b (upstream_leg pool_v3 direction limit (UpstreamV3 (take (20 + 23 * index) path) amount))) rest))"

definition v3_exact_in :: "Builder \<Rightarrow> bytes \<Rightarrow> int option \<Rightarrow> int option \<Rightarrow> int option \<Rightarrow> Builder res" where
  "v3_exact_in b path paid min_out sqrt_limit =
     rbind (split_v3_path path) (\<lambda>segments. ok (v3_in_hops path paid min_out sqrt_limit 0 b segments))"

fun v3_out_hops :: "int \<Rightarrow> int option \<Rightarrow> int option \<Rightarrow> nat \<Rightarrow> nat \<Rightarrow> Builder \<Rightarrow> segment list \<Rightarrow> Builder" where
  "v3_out_hops received max_in sqrt_limit hops index b [] = b"
| "v3_out_hops received max_in sqrt_limit hops index b (segment # rest) =
     (if \<not> ours_v3 b segment then v3_out_hops received max_in sqrt_limit hops (Suc index) b rest
      else if index \<noteq> 0 then give_up b ''exact-output hop away from the fixed amount''
      else v3_out_hops received max_in sqrt_limit hops (Suc index)
             (add_leg b (plain_leg pool_v3 (swap_direction (snd (snd segment))) exact_out received
                           (if hops = 1 then max_in else None) (nonzero sqrt_limit))) rest)"

definition v3_exact_out :: "Builder \<Rightarrow> bytes \<Rightarrow> int \<Rightarrow> int option \<Rightarrow> int option \<Rightarrow> Builder res" where
  "v3_exact_out b path received max_in sqrt_limit =
     rbind (split_v3_path path) (\<lambda>segments. ok (v3_out_hops received max_in sqrt_limit (length segments) 0 b segments))"

fun v2_in_hops :: "string list \<Rightarrow> int option \<Rightarrow> int option \<Rightarrow> Builder \<Rightarrow> nat list \<Rightarrow> Builder" where
  "v2_in_hops path paid min_out b [] = b"
| "v2_in_hops path paid min_out b (index # rest) =
     (if \<not> is_pair (path ! index) (path ! (index + 1)) then v2_in_hops path paid min_out b rest
      else
        let limit = (if int index = int (length path) - 2 then min_out else None)
        in case paid of
             None \<Rightarrow> give_up b ''amount from contract balance''
           | Some amount \<Rightarrow> v2_in_hops path paid min_out
               (add_leg b (if index = 0 then plain_leg pool_v2 (swap_direction (path ! 0)) exact_in amount limit None
                           else upstream_leg pool_v2 (swap_direction (path ! index)) limit
                                  (UpstreamV2 (map py_lower (take (index + 1) path)) amount))) rest)"

definition v2_exact_in :: "Builder \<Rightarrow> string list \<Rightarrow> int option \<Rightarrow> int option \<Rightarrow> Builder" where
  "v2_exact_in b path paid min_out = v2_in_hops path paid min_out b [0..<length path - 1]"

fun v2_out_hops :: "string list \<Rightarrow> int \<Rightarrow> int option \<Rightarrow> Builder \<Rightarrow> nat list \<Rightarrow> Builder" where
  "v2_out_hops path received max_in b [] = b"
| "v2_out_hops path received max_in b (index # rest) =
     (if \<not> is_pair (path ! index) (path ! (index + 1)) then v2_out_hops path received max_in b rest
      else if int index \<noteq> int (length path) - 2 then give_up b ''exact-output hop away from the fixed amount''
      else v2_out_hops path received max_in
             (add_leg b (plain_leg pool_v2 (swap_direction (path ! index)) exact_out received
                           (if length path = 2 then max_in else None) None)) rest)"

definition v2_exact_out :: "Builder \<Rightarrow> string list \<Rightarrow> int \<Rightarrow> int option \<Rightarrow> Builder" where
  "v2_exact_out b path received max_in = v2_out_hops path received max_in b [0..<length path - 1]"

section \<open>Uniswap V2 Router02\<close>

datatype V2Call = call_in | call_out | call_eth_in | call_eth_out

definition V2_ROUTER_CALLS :: "(string \<times> V2Call) list" where
  "V2_ROUTER_CALLS =
     [(''swapExactTokensForTokens(uint256,uint256,address[],address,uint256)'', call_in),
      (''swapTokensForExactTokens(uint256,uint256,address[],address,uint256)'', call_out),
      (''swapExactETHForTokens(uint256,address[],address,uint256)'', call_eth_in),
      (''swapTokensForExactETH(uint256,uint256,address[],address,uint256)'', call_out),
      (''swapExactTokensForETH(uint256,uint256,address[],address,uint256)'', call_in),
      (''swapETHForExactTokens(uint256,address[],address,uint256)'', call_eth_out),
      (''swapExactTokensForTokensSupportingFeeOnTransferTokens(uint256,uint256,address[],address,uint256)'', call_in),
      (''swapExactETHForTokensSupportingFeeOnTransferTokens(uint256,address[],address,uint256)'', call_eth_in),
      (''swapExactTokensForETHSupportingFeeOnTransferTokens(uint256,uint256,address[],address,uint256)'', call_in)]"

text \<open>A table keyed by selector; the last entry of equal selectors counts, as in a Python dictionary.\<close>

definition by_selector :: "Abi \<Rightarrow> (string \<times> 'a) list \<Rightarrow> bytes \<Rightarrow> 'a option" where
  "by_selector abi table selector = map_of (rev (map (\<lambda>(signature, entry). (sel abi signature, entry)) table)) selector"

definition U5 :: "string list" where "U5 = [''uint256'', ''uint256'', ''address[]'', ''address'', ''uint256'']"
definition U4 :: "string list" where "U4 = [''uint256'', ''address[]'', ''address'', ''uint256'']"

definition decode_v2_router :: "Abi \<Rightarrow> Builder \<Rightarrow> bytes \<Rightarrow> int \<Rightarrow> (Builder \<times> int option) res" where
  "decode_v2_router abi b data value =
     (case by_selector abi V2_ROUTER_CALLS (take 4 data) of
        None \<Rightarrow> ok (b, None)
      | Some kind \<Rightarrow>
          if kind = call_in \<or> kind = call_out then
            rbind (abi_decode abi U5 (drop 4 data)) (\<lambda>args. unpack5 args (\<lambda>first second path to_address deadline.
            rbind (abi_int first) (\<lambda>x. rbind (abi_int second) (\<lambda>y. rbind (abi_addresses path) (\<lambda>tokens.
            rbind (abi_int deadline) (\<lambda>d.
              ok (if kind = call_in then v2_exact_in b tokens (Some x) (Some y) else v2_exact_out b tokens x (Some y),
                  Some d)))))))
          else
            rbind (abi_decode abi U4 (drop 4 data)) (\<lambda>args. unpack4 args (\<lambda>first path to_address deadline.
            rbind (abi_int first) (\<lambda>x. rbind (abi_addresses path) (\<lambda>tokens. rbind (abi_int deadline) (\<lambda>d.
              ok (if kind = call_eth_in then v2_exact_in b tokens (Some value) (Some x)
                  else v2_exact_out b tokens x (Some value), Some d)))))))"

section \<open>SwapRouter and SwapRouter02\<close>

datatype RouterCall = in_single | in_path | out_single | out_path | v2_in | v2_out

definition SR1 :: "(string \<times> string \<times> RouterCall) list" where
  "SR1 =
     [(''exactInputSingle((address,address,uint24,address,uint256,uint256,uint256,uint160))'',
       ''(address,address,uint24,address,uint256,uint256,uint256,uint160)'', in_single),
      (''exactInput((bytes,address,uint256,uint256,uint256))'', ''(bytes,address,uint256,uint256,uint256)'', in_path),
      (''exactOutputSingle((address,address,uint24,address,uint256,uint256,uint256,uint160))'',
       ''(address,address,uint24,address,uint256,uint256,uint256,uint160)'', out_single),
      (''exactOutput((bytes,address,uint256,uint256,uint256))'', ''(bytes,address,uint256,uint256,uint256)'', out_path)]"

definition SR2 :: "(string \<times> string \<times> RouterCall) list" where
  "SR2 =
     [(''exactInputSingle((address,address,uint24,address,uint256,uint256,uint160))'',
       ''(address,address,uint24,address,uint256,uint256,uint160)'', in_single),
      (''exactInput((bytes,address,uint256,uint256))'', ''(bytes,address,uint256,uint256)'', in_path),
      (''exactOutputSingle((address,address,uint24,address,uint256,uint256,uint160))'',
       ''(address,address,uint24,address,uint256,uint256,uint160)'', out_single),
      (''exactOutput((bytes,address,uint256,uint256))'', ''(bytes,address,uint256,uint256)'', out_path),
      (''swapExactTokensForTokens(uint256,uint256,address[],address)'', '''', v2_in),
      (''swapTokensForExactTokens(uint256,uint256,address[],address)'', '''', v2_out)]"

definition MULTICALL :: string where "MULTICALL = ''multicall(bytes[])''"
definition MULTICALL_DEADLINE :: string where "MULTICALL_DEADLINE = ''multicall(uint256,bytes[])''"
definition MULTICALL_BLOCKHASH :: string where "MULTICALL_BLOCKHASH = ''multicall(bytes32,bytes[])''"

text \<open>\<open>fee.to_bytes(3, "big")\<close> raises \<open>OverflowError\<close> outside 24 bits.\<close>

definition fee_bytes :: "int \<Rightarrow> bytes res" where
  "fee_bytes fee =
     (if 0 \<le> fee \<and> fee < 2 ^ 24
      then ok [word_of_int (fee div 65536), word_of_int (fee div 256 mod 256), word_of_int (fee mod 256)]
      else raise_error OverflowError)"

definition single_path :: "string \<Rightarrow> int \<Rightarrow> string \<Rightarrow> bytes res" where
  "single_path token_in fee token_out =
     rbind (bytes_fromhex (drop 2 token_in)) (\<lambda>a. rbind (fee_bytes fee) (\<lambda>f. rbind (bytes_fromhex (drop 2 token_out)) (\<lambda>b.
       ok (a @ f @ b))))"

definition sr_amount :: "int \<Rightarrow> string \<Rightarrow> int \<Rightarrow> bool \<Rightarrow> int option" where
  "sr_amount amount token_in value router02 =
     (if router02 \<and> amount = SR02_CONTRACT_BALANCE
      then (if value > 0 \<and> py_lower token_in = WETH then Some value else None)
      else Some amount)"

text \<open>The parameters of a single-pool swap: tokens, fee, two amounts, price limit and the deadline of v1.\<close>

definition single_params :: "bool \<Rightarrow> AbiValue list \<Rightarrow> (string \<times> string \<times> int \<times> int \<times> int \<times> int \<times> int option) res" where
  "single_params router02 params =
     (let build = (\<lambda>token_in token_out fee deadline first second limit.
        rbind (abi_address token_in) (\<lambda>t_in. rbind (abi_address token_out) (\<lambda>t_out. rbind (abi_int fee) (\<lambda>f.
        rbind (abi_int first) (\<lambda>x. rbind (abi_int second) (\<lambda>y. rbind (abi_int limit) (\<lambda>l.
          ok (t_in, t_out, f, x, y, l, deadline))))))))
      in if router02 then
           unpack7 params (\<lambda>token_in token_out fee recipient first second limit.
             build token_in token_out fee None first second limit)
         else
           unpack8 params (\<lambda>token_in token_out fee recipient deadline first second limit.
             rbind (abi_int deadline) (\<lambda>d. build token_in token_out fee (Some d) first second limit)))"

definition path_params :: "bool \<Rightarrow> AbiValue list \<Rightarrow> (bytes \<times> int \<times> int \<times> int option) res" where
  "path_params router02 params =
     (let build = (\<lambda>path deadline first second.
        rbind (abi_bytes path) (\<lambda>p. rbind (abi_int first) (\<lambda>x. rbind (abi_int second) (\<lambda>y. ok (p, x, y, deadline)))))
      in if router02 then unpack4 params (\<lambda>path recipient first second. build path None first second)
         else unpack5 params (\<lambda>path recipient deadline first second.
                rbind (abi_int deadline) (\<lambda>d. build path (Some d) first second)))"

definition decode_router_swap :: "Abi \<Rightarrow> Builder \<Rightarrow> bytes \<Rightarrow> int \<Rightarrow> bool \<Rightarrow> (Builder \<times> int option) res" where
  "decode_router_swap abi b data value router02 =
     (case by_selector abi (if router02 then SR2 else SR1) (take 4 data) of
        None \<Rightarrow> raise_error KeyError
      | Some (types, kind) \<Rightarrow>
          if kind = v2_in \<or> kind = v2_out then
            rbind (abi_decode abi [''uint256'', ''uint256'', ''address[]'', ''address''] (drop 4 data)) (\<lambda>args.
            unpack4 args (\<lambda>first second path to_address.
            rbind (abi_int first) (\<lambda>x. rbind (abi_int second) (\<lambda>y. rbind (abi_addresses path) (\<lambda>tokens.
              if kind = v2_out then ok (v2_exact_out b tokens x (Some y), None)
              else if tokens = [] then raise_error IndexError
              else ok (v2_exact_in b tokens (sr_amount x (tokens ! 0) value router02) (Some y), None))))))
          else
            rbind (abi_decode abi [types] (drop 4 data)) (\<lambda>decoded. unpack1 decoded (\<lambda>tuple.
            rbind (abi_list tuple) (\<lambda>params.
            if kind = in_single \<or> kind = out_single then
              rbind (single_params router02 params) (\<lambda>(token_in, token_out, fee, x, y, limit, deadline).
                if kind = in_single then
                  rbind (single_path token_in fee token_out) (\<lambda>path.
                  rbind (v3_exact_in b path (sr_amount x token_in value router02) (Some y) (Some limit)) (\<lambda>b. ok (b, deadline)))
                else
                  rbind (single_path token_out fee token_in) (\<lambda>path.
                  rbind (v3_exact_out b path x (Some y) (Some limit)) (\<lambda>b. ok (b, deadline))))
            else
              rbind (path_params router02 params) (\<lambda>(path, x, y, deadline).
                if kind = in_path then
                  rbind (v3_exact_in b path (sr_amount x (''0x'' @ bytes_hex (take 20 path)) value router02) (Some y) None)
                    (\<lambda>b. ok (b, deadline))
                else rbind (v3_exact_out b path x (Some y) None) (\<lambda>b. ok (b, deadline)))))))"

text \<open>The calls of a multicall: an unknown selector is skipped, a deadline of an inner call replaces the outer one.\<close>

fun decode_calls ::
    "(Builder \<Rightarrow> bytes \<Rightarrow> (Builder \<times> int option) res) \<Rightarrow> Builder \<Rightarrow> int option \<Rightarrow> AbiValue list \<Rightarrow> (Builder \<times> int option) res" where
  "decode_calls run b deadline [] = ok (b, deadline)"
| "decode_calls run b deadline (call # calls) =
     rbind (abi_bytes call) (\<lambda>data.
       case run b data of
         Inl e \<Rightarrow> if e = KeyError then decode_calls run b deadline calls else Inl e
       | Inr (b', inner) \<Rightarrow> decode_calls run b' (if inner = None then deadline else inner) calls)"

definition multicall_parts :: "Abi \<Rightarrow> bytes \<Rightarrow> (int option \<times> AbiValue list) option res" where
  "multicall_parts abi data =
     (let selector = take 4 data; body = drop 4 data
      in if selector = sel abi MULTICALL then
           rbind (abi_decode abi [''bytes[]''] body) (\<lambda>vs. unpack1 vs (\<lambda>calls.
             rbind (abi_list calls) (\<lambda>cs. ok (Some (None, cs)))))
         else if selector = sel abi MULTICALL_DEADLINE then
           rbind (abi_decode abi [''uint256'', ''bytes[]''] body) (\<lambda>vs. unpack2 vs (\<lambda>deadline calls.
             rbind (abi_int deadline) (\<lambda>d. rbind (abi_list calls) (\<lambda>cs. ok (Some (Some d, cs))))))
         else if selector = sel abi MULTICALL_BLOCKHASH then
           rbind (abi_decode abi [''bytes32'', ''bytes[]''] body) (\<lambda>vs. unpack2 vs (\<lambda>h calls.
             rbind (abi_list calls) (\<lambda>cs. ok (Some (None, cs)))))
         else ok None)"

fun decode_swap_router ::
    "nat \<Rightarrow> Abi \<Rightarrow> int \<Rightarrow> bool \<Rightarrow> Builder \<Rightarrow> bytes \<Rightarrow> (Builder \<times> int option) res" where
  "decode_swap_router 0 abi value router02 b data = raise_error RecursionError"
| "decode_swap_router (Suc depth) abi value router02 b data =
     rbind (multicall_parts abi data) (\<lambda>parts.
       case parts of
         None \<Rightarrow> decode_router_swap abi b data value router02
       | Some (deadline, calls) \<Rightarrow> decode_calls (decode_swap_router depth abi value router02) b deadline calls)"

section \<open>Universal Router\<close>

definition UR_EXECUTE_DEADLINE :: string where "UR_EXECUTE_DEADLINE = ''execute(bytes,bytes[],uint256)''"
definition UR_EXECUTE :: string where "UR_EXECUTE = ''execute(bytes,bytes[])''"

text \<open>One command; the amount wrapped from ETH is the second component of the state.\<close>

definition ur_command :: "Abi \<Rightarrow> int \<Rightarrow> Builder \<times> int option \<Rightarrow> 8 word \<times> AbiValue \<Rightarrow> (Builder \<times> int option) res" where
  "ur_command abi value state command =
     (let (b, wrapped) = state; kind = and (uint (fst command)) UR_MASK
      in rbind (abi_bytes (snd command)) (\<lambda>raw.
         if kind = UR_WRAP_ETH then
           rbind (abi_decode abi [''address'', ''uint256''] raw) (\<lambda>vs. unpack2 vs (\<lambda>recipient amount_min.
             rbind (abi_int amount_min) (\<lambda>n. ok (b, Some (if n = UR_CONTRACT_BALANCE then value else n)))))
         else if kind = UR_V3_EXACT_IN \<or> kind = UR_V2_EXACT_IN then
           rbind (abi_decode abi [''address'', ''uint256'', ''uint256'',
                    if kind = UR_V3_EXACT_IN then ''bytes'' else ''address[]'', ''bool''] raw) (\<lambda>vs.
           unpack5 vs (\<lambda>recipient first second path payer.
           rbind (abi_int first) (\<lambda>x. rbind (abi_int second) (\<lambda>min_out.
           let from_balance = (x = UR_CONTRACT_BALANCE);
               amount = (if from_balance then wrapped else Some x);
               wrapped = (if from_balance then None else wrapped)
           in if kind = UR_V3_EXACT_IN then
                rbind (abi_bytes path) (\<lambda>p. rbind (v3_exact_in b p amount (Some min_out) None) (\<lambda>b. ok (b, wrapped)))
              else rbind (abi_addresses path) (\<lambda>tokens. ok (v2_exact_in b tokens amount (Some min_out), wrapped))))))
         else if kind = UR_V3_EXACT_OUT \<or> kind = UR_V2_EXACT_OUT then
           rbind (abi_decode abi [''address'', ''uint256'', ''uint256'',
                    if kind = UR_V3_EXACT_OUT then ''bytes'' else ''address[]'', ''bool''] raw) (\<lambda>vs.
           unpack5 vs (\<lambda>recipient first second path payer.
           rbind (abi_int first) (\<lambda>received. rbind (abi_int second) (\<lambda>max_in.
             if kind = UR_V3_EXACT_OUT then
               rbind (abi_bytes path) (\<lambda>p. rbind (v3_exact_out b p received (Some max_in) None) (\<lambda>b. ok (b, wrapped)))
             else rbind (abi_addresses path) (\<lambda>tokens. ok (v2_exact_out b tokens received (Some max_in), wrapped))))))
         else ok (b, wrapped)))"

fun ur_commands :: "Abi \<Rightarrow> int \<Rightarrow> Builder \<times> int option \<Rightarrow> (8 word \<times> AbiValue) list \<Rightarrow> (Builder \<times> int option) res" where
  "ur_commands abi value state [] = ok state"
| "ur_commands abi value state (command # commands) =
     rbind (ur_command abi value state command) (\<lambda>state.
       if bd_undecodable (fst state) \<noteq> None then ok state else ur_commands abi value state commands)"

definition decode_universal_router :: "Abi \<Rightarrow> Builder \<Rightarrow> bytes \<Rightarrow> int \<Rightarrow> (Builder \<times> int option) res" where
  "decode_universal_router abi b data value =
     rbind (if take 4 data = sel abi UR_EXECUTE_DEADLINE then
              rbind (abi_decode abi [''bytes'', ''bytes[]'', ''uint256''] (drop 4 data)) (\<lambda>vs.
              unpack3 vs (\<lambda>commands inputs deadline. rbind (abi_int deadline) (\<lambda>d. ok (commands, inputs, Some d))))
            else if take 4 data = sel abi UR_EXECUTE then
              rbind (abi_decode abi [''bytes'', ''bytes[]''] (drop 4 data)) (\<lambda>vs.
              unpack2 vs (\<lambda>commands inputs. ok (commands, inputs, None)))
            else raise_error KeyError) (\<lambda>(commands, inputs, deadline).
     rbind (abi_bytes commands) (\<lambda>cs. rbind (abi_list inputs) (\<lambda>raws.
     rbind (ur_commands abi value (b, None) (zip cs raws)) (\<lambda>(b, wrapped). ok (b, deadline)))))"

section \<open>Direct pool calls\<close>

definition V2_PAIR_SWAP :: string where "V2_PAIR_SWAP = ''swap(uint256,uint256,address,bytes)''"
definition V3_POOL_SWAP :: string where "V3_POOL_SWAP = ''swap(address,bool,int256,uint160,bytes)''"

definition decode_v2_pair :: "Abi \<Rightarrow> Builder \<Rightarrow> bytes \<Rightarrow> bool \<Rightarrow> Builder res" where
  "decode_v2_pair abi b data usdc_is_token0 =
     (if take 4 data \<noteq> sel abi V2_PAIR_SWAP then raise_error KeyError
      else
        rbind (abi_decode abi [''uint256'', ''uint256'', ''address'', ''bytes''] (drop 4 data)) (\<lambda>vs.
        unpack4 vs (\<lambda>first second to_address payload.
        rbind (abi_int first) (\<lambda>amount0_out. rbind (abi_int second) (\<lambda>amount1_out. rbind (abi_bytes payload) (\<lambda>bs.
        if bs \<noteq> [] \<or> amount0_out \<noteq> 0 \<and> amount1_out \<noteq> 0 \<or> \<not> (amount0_out \<noteq> 0 \<or> amount1_out \<noteq> 0)
        then ok (give_up b ''flash swap or two-sided output'')
        else
          let out_is_usdc = ((amount0_out > 0) = usdc_is_token0);
              received = (if amount0_out \<noteq> 0 then amount0_out else amount1_out);
              direction = (if out_is_usdc then sell_weth else buy_weth)
          in ok (add_leg b ((plain_leg pool_v2 direction exact_out received None None)\<lparr>dl_flags := [input_inferred]\<rparr>))))))))"

definition decode_v3_pool :: "Abi \<Rightarrow> Builder \<Rightarrow> bytes \<Rightarrow> bool \<Rightarrow> Builder res" where
  "decode_v3_pool abi b data usdc_is_token0 =
     (if take 4 data \<noteq> sel abi V3_POOL_SWAP then raise_error KeyError
      else
        rbind (abi_decode abi [''address'', ''bool'', ''int256'', ''uint160'', ''bytes''] (drop 4 data)) (\<lambda>vs.
        unpack5 vs (\<lambda>recipient side specified limit payload.
        rbind (abi_bool side) (\<lambda>zero_for_one. rbind (abi_int specified) (\<lambda>amount. rbind (abi_int limit) (\<lambda>l.
          let direction = (if zero_for_one = usdc_is_token0 then buy_weth else sell_weth);
              kind = (if amount > 0 then exact_in else exact_out)
          in ok (add_leg b (plain_leg pool_v3 direction kind \<bar>amount\<bar> None (nonzero (Some l))))))))))"

section \<open>Entry point\<close>

definition decoder_routes :: "DecoderConfig \<Rightarrow> (string \<times> RouteType) list" where
  "decoder_routes config =
     [(py_lower V2_ROUTER02_ADDRESS, route_v2_router), (py_lower SWAP_ROUTER_ADDRESS, route_swap_router),
      (py_lower SWAP_ROUTER02_ADDRESS, route_swap_router02), (py_lower (dc_v2_pair config), route_v2_pair),
      (py_lower (dc_v3_pool config), route_v3_pool)]
     @ map (\<lambda>address. (py_lower address, route_universal_router)) UNIVERSAL_ROUTER_ADDRESSES"

definition run_decoder ::
    "nat \<Rightarrow> Abi \<Rightarrow> RouteType \<Rightarrow> PendingTx \<Rightarrow> bool \<Rightarrow> bool \<Rightarrow> Builder \<Rightarrow> (Builder \<times> int option) res" where
  "run_decoder depth abi route tx v2_usdc_is_token0 v3_usdc_is_token0 b =
     (case route of
        route_v2_router \<Rightarrow> decode_v2_router abi b (pt_input tx) (pt_value tx)
      | route_swap_router \<Rightarrow> decode_swap_router depth abi (pt_value tx) False b (pt_input tx)
      | route_swap_router02 \<Rightarrow> decode_swap_router depth abi (pt_value tx) True b (pt_input tx)
      | route_v2_pair \<Rightarrow> rbind (decode_v2_pair abi b (pt_input tx) v2_usdc_is_token0) (\<lambda>b. ok (b, None))
      | route_v3_pool \<Rightarrow> rbind (decode_v3_pool abi b (pt_input tx) v3_usdc_is_token0) (\<lambda>b. ok (b, None))
      | _ \<Rightarrow> decode_universal_router abi b (pt_input tx) (pt_value tx))"

fun contains_bytes :: "bytes \<Rightarrow> bytes \<Rightarrow> bool" where
  "contains_bytes needle [] \<longleftrightarrow> needle = []"
| "contains_bytes needle (x # xs) \<longleftrightarrow> take (length needle) (x # xs) = needle \<or> contains_bytes needle xs"

definition mentions_pool :: "bytes \<Rightarrow> DecoderConfig \<Rightarrow> bool res" where
  "mentions_pool data config =
     rbind (pool_bytes config) (\<lambda>(v2, v3). ok (contains_bytes v2 data \<or> contains_bytes v3 data))"

definition if_mentioned :: "string \<Rightarrow> bytes \<Rightarrow> DecoderConfig \<Rightarrow> DecodeResult res" where
  "if_mentioned reason data config =
     rbind (mentions_pool data config) (\<lambda>ours. ok (if ours then NotDecoded reason else Unrelated))"

definition decode_transaction ::
    "nat \<Rightarrow> Abi \<Rightarrow> PendingTx \<Rightarrow> DecoderConfig \<Rightarrow> bool \<Rightarrow> bool \<Rightarrow> DecodeResult res" where
  "decode_transaction depth abi tx config v2_usdc_is_token0 v3_usdc_is_token0 =
     (let target = py_lower (case pt_to tx of None \<Rightarrow> '''' | Some a \<Rightarrow> a); data = pt_input tx;
          builder = \<lparr> bd_config = config, bd_legs = [], bd_undecodable = None \<rparr>
      in case map_of (rev (decoder_routes config)) target of
           None \<Rightarrow> if_mentioned ''unknown contract'' data config
         | Some route \<Rightarrow>
             (case run_decoder depth abi route tx v2_usdc_is_token0 v3_usdc_is_token0 builder of
                Inl e \<Rightarrow> if_mentioned (if e = KeyError then ''unsupported call'' else ''malformed calldata'') data config
              | Inr (b, deadline) \<Rightarrow>
                  (case bd_undecodable b of
                     Some reason \<Rightarrow> ok (NotDecoded reason)
                   | None \<Rightarrow> if bd_legs b = [] then ok Unrelated
                             else ok (Decoded \<lparr> ds_route = route, ds_legs = bd_legs b, ds_deadline = deadline \<rparr>))))"

definition decoded_targets :: "DecoderConfig \<Rightarrow> string list" where
  "decoded_targets config = map fst (decoder_routes config)"

definition is_candidate :: "PendingTx \<Rightarrow> DecoderConfig \<Rightarrow> string list \<Rightarrow> bool res" where
  "is_candidate tx config targets =
     (if py_lower (case pt_to tx of None \<Rightarrow> '''' | Some a \<Rightarrow> a) \<in> set targets then ok True
      else mentions_pool (pt_input tx) config)"

definition with_amount :: "DecodedLeg \<Rightarrow> int \<Rightarrow> DecodedLeg" where
  "with_amount leg amount = leg\<lparr>dl_amount_specified := Some amount\<rparr>"

end
