(* ===== verification/Router_Facts.thy ===== *)
theory Router_Facts
  imports Router_Decoder
begin

text \<open>
  What decoding guarantees (\<open>app/services/mempool/router_decoder.py\<close>): the shape of every decoded leg, the
  packed path format, and that nested multicalls end.
\<close>

section \<open>The shape of a leg\<close>

text \<open>
  A leg has an amount or the upstream hops that will tell it, never both; a leg quoted upstream is
  exact-input and flagged; a price limit is for V3 only and never the zero that means none.
\<close>

definition leg_ok :: "DecodedLeg \<Rightarrow> bool" where
  "leg_ok leg \<longleftrightarrow> (dl_amount_specified leg = None) = (dl_upstream_path leg \<noteq> None)
     \<and> (if dl_upstream_path leg = None then True else dl_kind leg = exact_in \<and> dl_flags leg = [upstream_quoted])
     \<and> dl_kind leg \<noteq> exact_amounts \<and> dl_fixed_amount_out leg = None \<and> dl_sqrt_price_limit_x96 leg \<noteq> Some 0
     \<and> (if dl_pool leg = pool_v2 then dl_sqrt_price_limit_x96 leg = None else True)"

definition builder_ok :: "Builder \<Rightarrow> bool" where
  "builder_ok b \<longleftrightarrow> list_all leg_ok (bd_legs b)"

lemma add_leg_ok [simp]: "builder_ok (add_leg b leg) \<longleftrightarrow> builder_ok b \<and> leg_ok leg"
  by (simp add: builder_ok_def add_leg_def)

lemma give_up_ok [simp]: "builder_ok (give_up b reason) \<longleftrightarrow> builder_ok b"
  by (simp add: builder_ok_def give_up_def)

lemma nonzero_not_zero [simp]: "nonzero v \<noteq> Some 0"
  by (auto simp: nonzero_def split: option.splits)

lemma plain_leg_ok [simp]:
  "leg_ok (plain_leg pool d kind amount limit sqrt_limit) \<longleftrightarrow> kind \<noteq> exact_amounts \<and> sqrt_limit \<noteq> Some 0 \<and> (pool = pool_v2 \<longrightarrow> sqrt_limit = None)"
  by (auto simp: leg_ok_def plain_leg_def)

lemma upstream_leg_ok [simp]: "leg_ok (upstream_leg pool d limit path)"
  by (simp add: leg_ok_def upstream_leg_def)

named_theorems keeps_legs

lemma v3_in_hops_ok: "builder_ok b \<Longrightarrow> builder_ok (v3_in_hops path paid min_out sqrt_limit index b segments)"
  by (induction path paid min_out sqrt_limit index b segments rule: v3_in_hops.induct)
    (auto simp: Let_def split: option.splits)

lemma v3_out_hops_ok: "builder_ok b \<Longrightarrow> builder_ok (v3_out_hops received max_in sqrt_limit hops index b segments)"
  by (induction received max_in sqrt_limit hops index b segments rule: v3_out_hops.induct) auto

lemma v2_in_hops_ok: "builder_ok b \<Longrightarrow> builder_ok (v2_in_hops path paid min_out b indices)"
  by (induction path paid min_out b indices rule: v2_in_hops.induct) (auto simp: Let_def split: option.splits)

lemma v2_out_hops_ok: "builder_ok b \<Longrightarrow> builder_ok (v2_out_hops path received max_in b indices)"
  by (induction path received max_in b indices rule: v2_out_hops.induct) auto

lemma v2_builder_ok [keeps_legs]:
  "builder_ok b \<Longrightarrow> builder_ok (v2_exact_in b tokens paid min_out)"
  "builder_ok b \<Longrightarrow> builder_ok (v2_exact_out b tokens received max_in)"
  by (simp_all add: v2_exact_in_def v2_exact_out_def v2_in_hops_ok v2_out_hops_ok)

lemma v3_builder_ok [keeps_legs]:
  "v3_exact_in b path paid min_out sqrt_limit = Inr b' \<Longrightarrow> builder_ok b \<Longrightarrow> builder_ok b'"
  "v3_exact_out b path received max_in sqrt_limit = Inr b' \<Longrightarrow> builder_ok b \<Longrightarrow> builder_ok b'"
  by (auto simp: v3_exact_in_def v3_exact_out_def v3_in_hops_ok v3_out_hops_ok)

lemma decode_v2_router_ok: "decode_v2_router abi b data value = Inr (b', d) \<Longrightarrow> builder_ok b \<Longrightarrow> builder_ok b'"
  by (auto simp: decode_v2_router_def keeps_legs split: option.split_asm if_split_asm)

lemma decode_router_swap_ok: "decode_router_swap abi b data value router02 = Inr (b', d) \<Longrightarrow> builder_ok b \<Longrightarrow> builder_ok b'"
  by (auto simp: decode_router_swap_def split: option.split_asm if_split_asm prod.split_asm
      intro: keeps_legs)

lemma decode_calls_ok:
  assumes run: "\<And>b data b' d. run b data = Inr (b', d) \<Longrightarrow> builder_ok b \<Longrightarrow> builder_ok b'"
  shows "decode_calls run b deadline calls = Inr (b', d) \<Longrightarrow> builder_ok b \<Longrightarrow> builder_ok b'"
proof (induction calls arbitrary: b deadline)
  case (Cons call calls)
  obtain data where data: "abi_bytes call = Inr data" using Cons.prems(1) by auto
  show ?case
  proof (cases "run b data")
    case (Inl e)
    then show ?thesis using Cons data by (auto split: if_splits)
  next
    case (Inr r)
    then show ?thesis using Cons data run [of b data] by (cases r) auto
  qed
qed simp

lemma decode_swap_router_ok:
  "decode_swap_router depth abi value router02 b data = Inr (b', d) \<Longrightarrow> builder_ok b \<Longrightarrow> builder_ok b'"
proof (induction depth arbitrary: b data b' d)
  case (Suc depth)
  obtain parts where parts: "multicall_parts abi data = Inr parts" using Suc.prems by auto
  show ?case
  proof (cases parts)
    case None
    then show ?thesis using Suc.prems parts by (auto intro: decode_router_swap_ok)
  next
    case (Some calls)
    then have "decode_calls (decode_swap_router depth abi value router02) b (fst calls) (snd calls) = Inr (b', d)"
      using Suc.prems parts by (cases calls) simp
    then show ?thesis using Suc.prems(2) by (rule decode_calls_ok [rotated]) (erule Suc.IH)
  qed
qed simp

lemma ur_command_ok: "ur_command abi value (b, w) command = Inr (b', w') \<Longrightarrow> builder_ok b \<Longrightarrow> builder_ok b'"
  by (auto simp: ur_command_def Let_def split: if_split_asm intro: keeps_legs)

lemma ur_commands_ok: "ur_commands abi value state commands = Inr state' \<Longrightarrow> builder_ok (fst state) \<Longrightarrow> builder_ok (fst state')"
proof (induction commands arbitrary: state)
  case (Cons command commands)
  obtain mid where mid: "ur_command abi value state command = Inr mid" using Cons.prems(1) by auto
  then have "builder_ok (fst mid)" using Cons.prems(2) ur_command_ok [of abi "value" "fst state" "snd state" command "fst mid" "snd mid"] by simp
  then show ?case using Cons mid by (auto split: if_splits)
qed simp

lemma run_decoder_ok:
  "run_decoder depth abi route tx v2_first v3_first b = Inr (b', d) \<Longrightarrow> builder_ok b \<Longrightarrow> builder_ok b'"
proof -
  have universal: "decode_universal_router abi b data paid = Inr (b', d) \<Longrightarrow> builder_ok b \<Longrightarrow> builder_ok b'" for data paid
    by (auto simp: decode_universal_router_def split: prod.split_asm dest!: ur_commands_ok)
  have pools: "decode_v2_pair abi b data first = Inr b' \<Longrightarrow> builder_ok b \<Longrightarrow> builder_ok b'"
    "decode_v3_pool abi b data first = Inr b' \<Longrightarrow> builder_ok b \<Longrightarrow> builder_ok b'" for data first
    by (auto simp: decode_v2_pair_def decode_v3_pool_def Let_def leg_ok_def plain_leg_def split: if_split_asm)
  assume "run_decoder depth abi route tx v2_first v3_first b = Inr (b', d)" "builder_ok b"
  then show "builder_ok b'"
    by (cases route) (auto simp: run_decoder_def dest: decode_v2_router_ok decode_swap_router_ok universal pools)
qed

text \<open>C14. A decoded transaction has at least one leg, and each of them is well formed: an amount or an
  upstream path to quote it from, never both nor neither. No calldata makes the decoder raise:
  only an invalid pool address in its configuration does.
\<close>

theorem decoded_legs_well_formed:
  "case decode_transaction depth abi tx config v2_first v3_first of
     Inl e \<Rightarrow> pool_bytes config = Inl e
   | Inr (Decoded d) \<Rightarrow> ds_legs d \<noteq> [] \<and> list_all leg_ok (ds_legs d)
   | Inr _ \<Rightarrow> True"
proof -
  have mention: "if_mentioned reason data config = Inl e \<Longrightarrow> pool_bytes config = Inl e"
    "if_mentioned reason data config \<noteq> Inr (Decoded d)" for reason data e d
    by (auto simp: if_mentioned_def mentions_pool_def rbind_eq_Inl_iff)
  show ?thesis
    using run_decoder_ok [of depth abi _ tx v2_first v3_first "\<lparr> bd_config = config, bd_legs = [], bd_undecodable = None \<rparr>"] mention
    by (auto simp: decode_transaction_def Let_def builder_ok_def
        split: sum.split DecodeResult.split option.split_asm sum.split_asm if_split_asm prod.split_asm)
qed

section \<open>Nested multicalls end\<close>

text \<open>
  What ABI decoding documents: the byte strings it returns are slices of its input. A Keccak hash has
  32 bytes.
\<close>

fun longest :: "AbiValue \<Rightarrow> nat" where
  "longest (AbiBytes bs) = length bs"
| "longest (AbiArray vs) = foldr max (map longest vs) 0"
| "longest (AbiTuple vs) = foldr max (map longest vs) 0"
| "longest _ = 0"

definition slices_input :: "Abi \<Rightarrow> bool" where
  "slices_input abi \<longleftrightarrow> (\<forall>types bs vs. abi_decode abi types bs = Inr vs \<longrightarrow> (\<forall>v\<in>set vs. longest v \<le> length bs))
     \<and> (\<forall>signature. length (abi_keccak abi signature) = 32)"

lemma longest_in_list: "v \<in> set vs \<Longrightarrow> longest v \<le> foldr max (map longest vs) 0"
  by (induction vs) auto

lemma abi_list_longest: "abi_list v = Inr vs \<Longrightarrow> x \<in> set vs \<Longrightarrow> longest x \<le> longest v"
  by (cases v) (auto simp: abi_list_def longest_in_list)

lemma selector_long: "slices_input abi \<Longrightarrow> take 4 data = sel abi signature \<Longrightarrow> 4 \<le> length data"
proof -
  assume abi: "slices_input abi" and eq: "take 4 data = sel abi signature"
  have "length (sel abi signature) = 4" using abi by (simp add: sel_def slices_input_def)
  then show "4 \<le> length data" unfolding eq [symmetric] by simp
qed

lemma decoded_short:
  assumes "slices_input abi" and "4 \<le> length data" and "abi_decode abi types (drop 4 data) = Inr vs"
    and "v \<in> set vs" and "abi_list v = Inr calls" and "call \<in> set calls" and "abi_bytes call = Inr inner"
  shows "length inner < length data"
proof -
  have "longest call \<le> longest v" using abi_list_longest assms(5,6) .
  also have "\<dots> \<le> length (drop 4 data)" using assms(1,3,4) unfolding slices_input_def by blast
  finally have "longest call < length data" using assms(2) by simp
  then show ?thesis using assms(7) by (cases call) (auto simp: abi_bytes_def)
qed

lemma multicall_calls_short:
  assumes abi: "slices_input abi" and parts: "multicall_parts abi data = Inr (Some (d, calls))"
    and call: "call \<in> set calls" "abi_bytes call = Inr inner"
  shows "length inner < length data"
proof -
  obtain signature where "take 4 data = sel abi signature"
    using parts by (auto simp: multicall_parts_def Let_def split: if_split_asm)
  then have four: "4 \<le> length data" by (rule selector_long [OF abi])
  obtain types vs v where "abi_decode abi types (drop 4 data) = Inr vs" "v \<in> set vs" "abi_list v = Inr calls"
  proof -
    have "\<exists>types vs v. abi_decode abi types (drop 4 data) = Inr vs \<and> v \<in> set vs \<and> abi_list v = Inr calls"
      using parts by (auto simp: multicall_parts_def Let_def split: if_split_asm) (metis list.set_intros)+
    then show ?thesis using that by blast
  qed
  then show ?thesis using decoded_short [OF abi four] call by blast
qed

lemma decode_calls_cong:
  assumes "\<And>b call inner. call \<in> set calls \<Longrightarrow> abi_bytes call = Inr inner \<Longrightarrow> run b inner = run' b inner"
  shows "decode_calls run b d calls = decode_calls run' b d calls"
  using assms
proof (induction calls arbitrary: b d)
  case (Cons call calls)
  have rest: "decode_calls run b d calls = decode_calls run' b d calls" for b d
    by (rule Cons.IH) (rule Cons.prems, simp_all)
  show ?case
  proof (cases "abi_bytes call")
    case (Inr inner)
    then have "run b inner = run' b inner" using Cons.prems [of call inner b] by simp
    then show ?thesis using rest Inr by (simp split: sum.split)
  qed simp
qed simp

lemma decode_swap_router_depth:
  assumes "slices_input abi"
  shows "length data < depth \<Longrightarrow> length data < depth' \<Longrightarrow>
    decode_swap_router depth abi value router02 b data = decode_swap_router depth' abi value router02 b data"
proof (induction "length data" arbitrary: data b depth depth' rule: less_induct)
  case less
  obtain n n' where n: "depth = Suc n" "depth' = Suc n'" using less.prems by (cases depth; cases depth'; simp)
  show ?case
  proof (cases "multicall_parts abi data")
    case (Inr parts)
    show ?thesis
    proof (cases parts)
      case (Some p)
      obtain d calls where p: "p = (d, calls)" by (cases p)
      have "decode_swap_router n abi value router02 b' inner = decode_swap_router n' abi value router02 b' inner"
        if "call \<in> set calls" "abi_bytes call = Inr inner" for b' call inner
      proof -
        have "length inner < length data"
          using multicall_calls_short [OF assms _ that] Inr by (simp add: Some p)
        then show ?thesis using less.prems n by (intro less.hyps) simp_all
      qed
      then show ?thesis using Inr by (simp add: n Some p cong: decode_calls_cong)
    qed (simp add: n Inr)
  qed (simp add: n)
qed

text \<open>A multicall inside a multicall is shorter than the one around it, so decoding ends: with room for
  as many nested calls as the calldata has bytes, the result no longer depends on the stack.
\<close>

theorem nested_multicalls_end:
  assumes "slices_input abi" and "length (pt_input tx) < depth"
  shows "decode_transaction depth abi tx config v2_first v3_first
    = decode_transaction (Suc (length (pt_input tx))) abi tx config v2_first v3_first"
proof -
  have "run_decoder depth abi route tx v2_first v3_first b
      = run_decoder (Suc (length (pt_input tx))) abi route tx v2_first v3_first b" for route b
    using decode_swap_router_depth [OF assms, of "Suc (length (pt_input tx))"]
    by (cases route) (auto simp: run_decoder_def simp del: decode_swap_router.simps)
  then show ?thesis unfolding decode_transaction_def Let_def by (simp split: option.split)
qed

text \<open>A decoder of one-call multicalls: the payload is what follows the selector.\<close>

definition one_call_abi :: Abi where
  "one_call_abi = \<lparr> abi_decode = (\<lambda>types bs. if types = [''bytes[]''] then Inr [AbiArray [AbiBytes (drop 1 bs)]] else Inl DecodingError),
     abi_keccak = (\<lambda>signature. replicate 32 (of_nat (length signature))) \<rparr>"

lemma one_call_abi_slices: "slices_input one_call_abi"
  by (simp add: slices_input_def one_call_abi_def)

theorem nested_multicalls_end_witness:
  "let tx = \<lparr> pt_tx_hash = ''0x1'', pt_sender = None, pt_nonce = None, pt_to = Some SWAP_ROUTER02_ADDRESS,
        pt_input = replicate 4 18 @ [0] @ replicate 4 18 @ [0, 1], pt_value = 0, pt_seen_at = 0 \<rparr>;
      config = \<lparr> dc_v2_pair = ''0xb4'', dc_v3_pool = ''0x88'', dc_v3_fee = 500 \<rparr>
    in decode_transaction 1000 one_call_abi tx config True True
      = decode_transaction (Suc (length (pt_input tx))) one_call_abi tx config True True"
  unfolding Let_def by (rule nested_multicalls_end) (rule one_call_abi_slices, simp)

section \<open>Packed paths\<close>

lemma fee_bytes_roundtrip: "fee_bytes fee = Inr bs \<Longrightarrow> length bs = 3 \<and> int_from_bytes bs = fee"
proof -
  assume fee: "fee_bytes fee = Inr bs"
  then have range: "0 \<le> fee" "fee < 2 ^ 24" by (auto simp: fee_bytes_def split: if_splits)
  have small: "uint (word_of_int x :: 8 word) = x" if "0 \<le> x" "x < 256" for x
    using that by (simp add: uint_word_of_int take_bit_eq_mod)
  have "0 \<le> fee div 65536" "fee div 65536 < 256" using range by (simp_all add: pos_imp_zdiv_nonneg_iff div_less_iff_less_mult)
  then have words: "uint (word_of_int (fee div 65536) :: 8 word) = fee div 65536"
      "uint (word_of_int (fee div 256 mod 256) :: 8 word) = fee div 256 mod 256"
      "uint (word_of_int (fee mod 256) :: 8 word) = fee mod 256"
    by (simp_all only: small pos_mod_sign pos_mod_bound zero_less_numeral)
  have "fee div 65536 = fee div 256 div 256" by (simp add: zdiv_zmult2_eq [symmetric])
  then have "(fee div 65536 * 256 + fee div 256 mod 256) * 256 + fee mod 256 = fee" by simp
  moreover have "bs = [word_of_int (fee div 65536), word_of_int (fee div 256 mod 256), word_of_int (fee mod 256)]"
    using fee by (simp only: fee_bytes_def split: if_split_asm) simp_all
  ultimately show ?thesis by (simp only: int_from_bytes_def foldl.simps words) simp
qed

text \<open>A single-pool path splits into the one segment it was packed from.\<close>

theorem single_path_roundtrip:
  assumes "length a = 20" and "length b = 20" and "0 \<le> fee" and "fee < 2 ^ 24"
  shows "\<exists>path. single_path (''0x'' @ bytes_hex a) fee (''0x'' @ bytes_hex b) = Inr path
    \<and> split_v3_path path = Inr [(''0x'' @ bytes_hex a, fee, ''0x'' @ bytes_hex b)]"
proof -
  obtain f where f: "fee_bytes fee = Inr f" using assms by (simp add: fee_bytes_def)
  have len: "length f = 3" and val: "int_from_bytes f = fee" using fee_bytes_roundtrip [OF f] by simp_all
  have "single_path (''0x'' @ bytes_hex a) fee (''0x'' @ bytes_hex b) = Inr (a @ f @ b)"
    by (simp add: single_path_def f bytes_hex_fromhex)
  moreover have "path_segments (a @ f @ b) = [(''0x'' @ bytes_hex a, fee, ''0x'' @ bytes_hex b)]"
    using assms len val by (subst path_segments.simps) (simp add: path_segments.simps)
  ultimately show ?thesis using assms len by (simp add: split_v3_path_def)
qed

theorem single_path_roundtrip_witness:
  "\<exists>path. single_path (''0x'' @ bytes_hex (replicate 20 160)) 500 (''0x'' @ bytes_hex (replicate 20 192)) = Inr path
    \<and> split_v3_path path = Inr [(''0x'' @ bytes_hex (replicate 20 160), 500, ''0x'' @ bytes_hex (replicate 20 192))]"
  by (rule single_path_roundtrip) simp_all

end
