(* ===== verification/Lp_Strategy.thy ===== *)
theory Lp_Strategy
  imports V3_Models
begin

text \<open>
  \<open>app/strategies/concentrated_lp.py\<close>: where the paper liquidity book puts its range and when it moves
  it. The logarithm behind \<open>price_to_tick\<close> is the C library's, hence the argument of type \<open>Libm\<close>.
\<close>

record RangeTarget =
  rt_tick_lower :: int
  rt_tick_upper :: int
  rt_center_price :: f64
  rt_snapped_to_initialized :: bool

text \<open>\<open>in_range\<close> of the source; the bare name is a status of a position here.\<close>

definition in_tick_range :: "int \<Rightarrow> int \<Rightarrow> int \<Rightarrow> bool" where
  "in_tick_range tick tick_lower tick_upper \<longleftrightarrow> tick_lower \<le> tick \<and> tick < tick_upper"

record ConcentratedLpStrategy =
  st_range_width_bps :: f64
  st_rebalance_threshold_bps :: f64
  st_cooldown_sec :: f64
  st_prefer_initialized_ticks :: bool
  st_snap_tolerance_spacings :: int

definition validate_width :: "ConcentratedLpStrategy \<Rightarrow> int \<Rightarrow> unit res" where
  "validate_width strategy spacing =
     (if val (st_range_width_bps strategy) < real_of_int spacing then raise_error ValueError else ok ())"

section \<open>The range\<close>

text \<open>\<open>min(candidates, key=lambda t: (abs(t - tick), t))\<close>, with \<open>best\<close> the smallest seen so far.\<close>

definition nearer :: "int \<Rightarrow> int \<Rightarrow> int \<Rightarrow> bool" where
  "nearer tick t best \<longleftrightarrow> \<bar>t - tick\<bar> < \<bar>best - tick\<bar> \<or> \<bar>t - tick\<bar> = \<bar>best - tick\<bar> \<and> t < best"

fun nearest :: "int \<Rightarrow> int \<Rightarrow> int list \<Rightarrow> int" where
  "nearest tick best [] = best"
| "nearest tick best (t # ts) = nearest tick (if nearer tick t best then t else best) ts"

definition snap_candidates ::
    "ConcentratedLpStrategy \<Rightarrow> int \<Rightarrow> TickWindow \<Rightarrow> int \<Rightarrow> int option \<Rightarrow> int option \<Rightarrow> int list" where
  "snap_candidates strategy spacing window tick lower_bound upper_bound =
     map fst (filter (\<lambda>(t, info). initialized info
         \<and> \<bar>t - tick\<bar> \<le> st_snap_tolerance_spacings strategy * spacing
         \<and> (case lower_bound of None \<Rightarrow> True | Some b \<Rightarrow> t > b)
         \<and> (case upper_bound of None \<Rightarrow> True | Some b \<Rightarrow> t < b)) (tw_ticks window))"

definition nearest_initialized ::
    "ConcentratedLpStrategy \<Rightarrow> int \<Rightarrow> TickWindow \<Rightarrow> int \<Rightarrow> int option \<Rightarrow> int option \<Rightarrow> int" where
  "nearest_initialized strategy spacing window tick lower_bound upper_bound =
     (case snap_candidates strategy spacing window tick lower_bound upper_bound of
        [] \<Rightarrow> tick
      | t # ts \<Rightarrow> nearest tick t ts)"

text \<open>The bounds on the spacing around two ticks, kept inside the usable range.\<close>

definition spaced_bounds :: "int \<Rightarrow> int \<Rightarrow> int \<Rightarrow> (int \<times> int) res" where
  "spaced_bounds spacing tick_a tick_b =
     rbind (floor_to_spacing (min tick_a tick_b) spacing) (\<lambda>lower.
     rbind (ceil_to_spacing (max tick_a tick_b) spacing) (\<lambda>upper.
     rbind (usable_tick_bounds spacing) (\<lambda>(min_usable, max_usable).
       ok (max lower min_usable, min (if upper \<le> lower then lower + spacing else upper) max_usable))))"

text \<open>Snapping the bounds to initialized ticks, when that leaves the current tick inside.\<close>

definition snap_bounds ::
    "ConcentratedLpStrategy \<Rightarrow> V3PoolSnapshot \<Rightarrow> TickWindow \<Rightarrow> int \<times> int \<Rightarrow> (int \<times> int) \<times> bool" where
  "snap_bounds strategy snapshot window bounds =
     (let spacing = md_tick_spacing (sn_metadata snapshot);
          new_lower = nearest_initialized strategy spacing window (fst bounds) None (Some (snd bounds));
          new_upper = nearest_initialized strategy spacing window (snd bounds) (Some new_lower) None
      in if new_lower < new_upper \<and> (new_lower, new_upper) \<noteq> bounds
            \<and> in_tick_range (sn_tick snapshot) new_lower new_upper
         then ((new_lower, new_upper), new_lower \<noteq> fst bounds \<or> new_upper \<noteq> snd bounds)
         else (bounds, False))"

definition maybe_snapped :: "ConcentratedLpStrategy \<Rightarrow> V3PoolSnapshot \<Rightarrow> int \<times> int \<Rightarrow> (int \<times> int) \<times> bool" where
  "maybe_snapped strategy snapshot bounds =
     (case sn_window snapshot of
        None \<Rightarrow> (bounds, False)
      | Some window \<Rightarrow>
          if st_prefer_initialized_ticks strategy then snap_bounds strategy snapshot window bounds
          else (bounds, False))"

definition range_around ::
    "Libm \<Rightarrow> ConcentratedLpStrategy \<Rightarrow> f64 \<Rightarrow> V3PoolSnapshot \<Rightarrow> RangeTarget res" where
  "range_around m strategy center_price snapshot =
     (let meta = sn_metadata snapshot;
          half = st_range_width_bps strategy / lit 20000;
          to_tick = (\<lambda>price. price_to_tick m price (md_base_is_token0 meta) (md_token0_decimals meta) (md_token1_decimals meta))
      in rbind (to_tick (center_price * (1 - half))) (\<lambda>tick_a.
         rbind (to_tick (center_price * (1 + half))) (\<lambda>tick_b.
         rbind (spaced_bounds (md_tick_spacing meta) tick_a tick_b) (\<lambda>bounds.
         let (final, snapped) = maybe_snapped strategy snapshot bounds
         in ok \<lparr> rt_tick_lower = fst final, rt_tick_upper = snd final, rt_center_price = center_price,
                 rt_snapped_to_initialized = snapped \<rparr>))))"

definition target_range ::
    "Libm \<Rightarrow> ConcentratedLpStrategy \<Rightarrow> f64 \<Rightarrow> V3PoolSnapshot \<Rightarrow> RangeTarget res" where
  "target_range m strategy center_price snapshot =
     rbind (range_around m strategy center_price snapshot) (\<lambda>target.
       if \<not> in_tick_range (sn_tick snapshot) (rt_tick_lower target) (rt_tick_upper target)
       then range_around m strategy (sn_price snapshot) snapshot
       else ok target)"

section \<open>The rebalance rule\<close>

definition rebalance_reason ::
    "ConcentratedLpStrategy \<Rightarrow> bool \<Rightarrow> int option \<Rightarrow> int option \<Rightarrow> f64 option \<Rightarrow> V3PoolSnapshot \<Rightarrow>
     datetime option \<Rightarrow> datetime \<Rightarrow> bool \<Rightarrow> RebalanceReason option res" where
  "rebalance_reason strategy has_position tick_lower tick_upper range_center snapshot last_rebalance_at now
       kill_switch_active =
     (if kill_switch_active \<or> sn_is_stale snapshot then ok None
      else if \<not> has_position then ok (Some opened)
      else if (case last_rebalance_at of None \<Rightarrow> False
               | Some t \<Rightarrow> total_seconds (now - t) < st_cooldown_sec strategy) then ok None
      else
        (case (tick_lower, tick_upper) of
           (Some lower, Some upper) \<Rightarrow>
             if \<not> in_tick_range (sn_tick snapshot) lower upper then ok (Some left_range)
             else
               (case range_center of
                  None \<Rightarrow> ok None
                | Some center \<Rightarrow>
                    if center > 0
                       \<and> \<bar>sn_price snapshot - center\<bar> / center * lit 10000 > st_rebalance_threshold_bps strategy
                    then ok (Some drift) else ok None)
         | _ \<Rightarrow> raise_error AssertionError))"

section \<open>Where the range lies\<close>

lemma nearest_in: "nearest tick best ts \<in> insert best (set ts)"
  by (induction ts arbitrary: best) auto

lemma nearest_initialized_cases:
  "nearest_initialized strategy spacing window tick lower upper = tick
    \<or> nearest_initialized strategy spacing window tick lower upper \<in> set (snap_candidates strategy spacing window tick lower upper)"
proof (cases "snap_candidates strategy spacing window tick lower upper")
  case (Cons t ts)
  then show ?thesis using nearest_in [of tick t ts] by (simp add: nearest_initialized_def)
qed (simp add: nearest_initialized_def)

lemma spaced_bounds_usable:
  assumes s: "0 < spacing" and ticks: "MIN_TICK \<le> a" "a \<le> MAX_TICK" "MIN_TICK \<le> b" "b \<le> MAX_TICK"
  shows "\<exists>lower upper. spaced_bounds spacing a b = Inr (lower, upper) \<and> lower \<le> upper
    \<and> MIN_TICK \<le> lower \<and> upper \<le> MAX_TICK \<and> spacing dvd lower \<and> spacing dvd upper"
proof -
  define lo up min_usable max_usable where defs: "lo = min a b div spacing * spacing"
    "up = ceil_div (max a b) spacing * spacing" "min_usable = ceil_div MIN_TICK spacing * spacing"
    "max_usable = MAX_TICK div spacing * spacing"
  define up' where "up' = (if up \<le> lo then lo + spacing else up)"
  have run: "spaced_bounds spacing a b = Inr (max lo min_usable, min up' max_usable)"
    using s by (simp add: spaced_bounds_def floor_to_spacing_pos ceil_to_spacing_pos usable_tick_bounds_def defs up'_def)
  have dvd: "spacing dvd lo" "spacing dvd up" "spacing dvd min_usable" "spacing dvd max_usable" by (simp_all add: defs)
  have "min a b div spacing \<le> MAX_TICK div spacing" using s ticks by (intro zdiv_mono1) auto
  then have lo: "lo \<le> max_usable" using s by (simp add: mult_right_mono defs)
  have "ceil_div MIN_TICK spacing \<le> ceil_div (max a b) spacing" using s ticks by (intro ceil_div_mono) auto
  then have up: "min_usable \<le> up" using s by (simp add: mult_right_mono defs)
  have "ceil_div MIN_TICK spacing \<le> 0" "0 \<le> MAX_TICK div spacing"
    using s ceil_le_iff [of spacing MIN_TICK 0] floor_le_iff [of spacing 0 MAX_TICK] by (simp_all add: pool_constants)
  then have "ceil_div MIN_TICK spacing \<le> MAX_TICK div spacing" by linarith
  then have minmax: "min_usable \<le> max_usable" unfolding defs using s by (simp only: mult_right_mono less_imp_le)
  have ends: "MIN_TICK \<le> min_usable" "max_usable \<le> MAX_TICK"
    unfolding defs using s by (simp_all add: ceil_mult_ge floor_mult_le)
  have "lo \<le> up'" "min_usable \<le> up'" "spacing dvd up'" using s up dvd by (auto simp: up'_def)
  then have "max lo min_usable \<le> min up' max_usable" "MIN_TICK \<le> max lo min_usable" "min up' max_usable \<le> MAX_TICK"
      "spacing dvd max lo min_usable" "spacing dvd min up' max_usable"
    using lo minmax ends dvd by (simp_all add: min_def max_def)
  then show ?thesis using run by blast
qed

lemma price_to_tick_range: "price_to_tick m price base0 d0 d1 = Inr tick \<Longrightarrow> MIN_TICK \<le> tick \<and> tick \<le> MAX_TICK"
  by (auto simp: price_to_tick_def split: if_split_asm)

lemma price_to_tick_error: "price_to_tick m price base0 d0 d1 = Inl e \<Longrightarrow> e = ValueError \<or> e = ZeroDivisionError"
  by (auto simp: price_to_tick_def flog_def fdiv_def rbind_def split: if_splits sum.splits)

text \<open>The ticks a pool holds are multiples of its spacing inside the range, as on chain.\<close>

definition window_on_spacing :: "int \<Rightarrow> TickWindow \<Rightarrow> bool" where
  "window_on_spacing spacing window \<longleftrightarrow>
     (\<forall>t \<in> set (dict_keys (tw_ticks window)). spacing dvd t \<and> MIN_TICK \<le> t \<and> t \<le> MAX_TICK)"

definition bounds_placed :: "int \<Rightarrow> int \<times> int \<Rightarrow> bool" where
  "bounds_placed spacing bounds \<longleftrightarrow> fst bounds \<le> snd bounds \<and> MIN_TICK \<le> fst bounds \<and> snd bounds \<le> MAX_TICK
     \<and> spacing dvd fst bounds \<and> spacing dvd snd bounds"

lemma snapped_tick_placed:
  assumes "window_on_spacing spacing window" and "spacing dvd tick" "MIN_TICK \<le> tick" "tick \<le> MAX_TICK"
  shows "spacing dvd nearest_initialized strategy spacing' window tick lower upper
    \<and> MIN_TICK \<le> nearest_initialized strategy spacing' window tick lower upper
    \<and> nearest_initialized strategy spacing' window tick lower upper \<le> MAX_TICK"
  using nearest_initialized_cases [of strategy spacing' window tick lower upper] assms
  by (force simp: window_on_spacing_def snap_candidates_def dict_keys_def)

lemma snap_bounds_placed:
  assumes "window_on_spacing spacing window" and "bounds_placed spacing bounds"
  shows "bounds_placed spacing (fst (snap_bounds strategy snapshot window bounds))"
proof -
  have "MIN_TICK \<le> snd bounds" "fst bounds \<le> MAX_TICK" using assms(2) by (auto simp: bounds_placed_def)
  then show ?thesis
    using assms(2) snapped_tick_placed [OF assms(1)]
    by (auto simp: snap_bounds_def Let_def bounds_placed_def)
qed

lemma range_around_placed:
  assumes "0 < md_tick_spacing (sn_metadata snapshot)"
    and "\<And>w. sn_window snapshot = Some w \<Longrightarrow> window_on_spacing (md_tick_spacing (sn_metadata snapshot)) w"
    and "range_around m strategy center snapshot = Inr target"
  shows "bounds_placed (md_tick_spacing (sn_metadata snapshot)) (rt_tick_lower target, rt_tick_upper target)
    \<and> rt_center_price target = center"
proof -
  let ?s = "md_tick_spacing (sn_metadata snapshot)"
  obtain a b bounds where range: "MIN_TICK \<le> a" "a \<le> MAX_TICK" "MIN_TICK \<le> b" "b \<le> MAX_TICK"
      and bounds: "spaced_bounds ?s a b = Inr bounds"
      and target: "(rt_tick_lower target, rt_tick_upper target) = fst (maybe_snapped strategy snapshot bounds)"
        "rt_center_price target = center"
    using assms(3) by (auto simp: range_around_def Let_def case_prod_beta dest!: price_to_tick_range)
  have placed: "bounds_placed ?s bounds"
    using spaced_bounds_usable [OF assms(1) range] bounds by (auto simp: bounds_placed_def)
  have "bounds_placed ?s (fst (maybe_snapped strategy snapshot bounds))"
    using placed snap_bounds_placed [OF assms(2) placed] by (auto simp: maybe_snapped_def split: option.split)
  then show ?thesis using target by simp
qed

text \<open>A range is placed on the spacing of the pool, inside the ticks the pool accepts and in ascending
  order, whatever the center price and the platform's logarithm are.
\<close>

theorem target_range_placed:
  assumes "0 < md_tick_spacing (sn_metadata snapshot)"
    and "case sn_window snapshot of None \<Rightarrow> True | Some w \<Rightarrow> window_on_spacing (md_tick_spacing (sn_metadata snapshot)) w"
  shows "case target_range m strategy center snapshot of
      Inl e \<Rightarrow> e = ValueError \<or> e = ZeroDivisionError
    | Inr target \<Rightarrow> bounds_placed (md_tick_spacing (sn_metadata snapshot)) (rt_tick_lower target, rt_tick_upper target)
        \<and> rt_center_price target \<in> {center, sn_price snapshot}"
proof (cases "target_range m strategy center snapshot")
  case (Inl e)
  have around: "range_around m strategy c snapshot = Inl e' \<Longrightarrow> e' = ValueError \<or> e' = ZeroDivisionError" for c e'
    by (auto simp: range_around_def Let_def rbind_eq_Inl_iff case_prod_beta spaced_bounds_def usable_tick_bounds_def
        floor_to_spacing_def ceil_to_spacing_def py_floordiv_def dest!: price_to_tick_error split: if_split_asm)
  with Inl have "e = ValueError \<or> e = ZeroDivisionError"
    by (auto simp: target_range_def rbind_eq_Inl_iff split: if_split_asm)
  with Inl show ?thesis by simp
next
  case (Inr target)
  have windows: "\<And>w. sn_window snapshot = Some w \<Longrightarrow> window_on_spacing (md_tick_spacing (sn_metadata snapshot)) w"
    using assms(2) by simp
  obtain c where c: "c \<in> {center, sn_price snapshot}" "range_around m strategy c snapshot = Inr target"
    using Inr by (auto simp: target_range_def split: if_split_asm)
  then show ?thesis using Inr range_around_placed [OF assms(1) windows c(2)] by simp
qed

definition example_metadata :: PoolMetadata where
  "example_metadata = \<lparr> md_pool_address = ''0x88'', md_token0 = ''0xa0'', md_token1 = ''0xc0'', md_token0_decimals = 6,
     md_token1_decimals = 18, md_fee_pips = 500, md_tick_spacing = 10, md_base_is_token0 = False \<rparr>"

definition example_snapshot :: V3PoolSnapshot where
  "example_snapshot = \<lparr> sn_metadata = example_metadata, sn_sqrt_price_x96 = 2 ^ 96, sn_tick = 0, sn_liquidity = 10 ^ 18,
     sn_fee_growth_global0_x128 = 0, sn_fee_growth_global1_x128 = 0, sn_block_number = 1, sn_block_timestamp = 0,
     sn_price = lit 2000, sn_lower_tick_info = None, sn_upper_tick_info = None, sn_base_fee_wei = Some 1,
     sn_window = Some example_window, sn_is_stale = False, sn_is_incomplete = False, sn_data_source = live, sn_tick_id = None \<rparr>"

definition example_strategy :: ConcentratedLpStrategy where
  "example_strategy = \<lparr> st_range_width_bps = lit 500, st_rebalance_threshold_bps = lit 100, st_cooldown_sec = lit 300,
     st_prefer_initialized_ticks = True, st_snap_tolerance_spacings = 3 \<rparr>"

theorem target_range_placed_witness:
  "case target_range exact_libm example_strategy (lit 2001) example_snapshot of
      Inl e \<Rightarrow> e = ValueError \<or> e = ZeroDivisionError
    | Inr target \<Rightarrow> bounds_placed (md_tick_spacing (sn_metadata example_snapshot)) (rt_tick_lower target, rt_tick_upper target)
        \<and> rt_center_price target \<in> {lit 2001, sn_price example_snapshot}"
  by (rule target_range_placed)
    (simp_all add: example_snapshot_def example_metadata_def window_on_spacing_def example_window_def example_tick_def
      dict_keys_def pool_constants)

end
