(* ===== verification/Lp_Book.thy ===== *)
theory Lp_Book
  imports Lp_Strategy
begin

text \<open>
  \<open>app/execution/lp_paper_book.py\<close>: the paper concentrated-liquidity position and its ledger. The book is
  mutable, so an operation returns the book next to its result, with everything it had assigned before
  an exception; what \<open>_rebalance\<close> computes before its commit block touches local variables only.

  Token balances are exact integers. The valuations are floats; a power of ten with a negative exponent
  (a token of negative decimals, which no token has) is the C library's.
\<close>

definition UNIT_LIQUIDITY :: int where "UNIT_LIQUIDITY = 10 ^ 18"
definition MIN_SWAP_VALUE_FRACTION :: f64 where "MIN_SWAP_VALUE_FRACTION = lit (1 / 10 ^ 6)"

record Ledger =
  lg_idle_base :: int
  lg_idle_quote :: int
  lg_liquidity :: int
  lg_tick_lower :: "int option"
  lg_tick_upper :: "int option"
  lg_range_center :: "f64 option"
  lg_open_base :: int
  lg_open_quote :: int
  lg_fees_base :: int
  lg_fees_quote_raw :: int
  lg_fees_quote :: f64
  lg_il_realized :: f64
  lg_hodl_pnl :: f64
  lg_swap_cost :: f64
  lg_gas_cost :: f64
  lg_epoch :: int
  lg_rebalance_count :: int
  lg_last_rebalance_at :: "datetime option"
  lg_time_in_range :: f64
  lg_time_tracked :: f64
  lg_fee_accounting :: FeeAccounting
  lg_pool_share :: f64
  lg_status_note :: "string option"
  lg_last :: "V3PoolSnapshot option"

definition empty_ledger :: Ledger where
  "empty_ledger =
     \<lparr> lg_idle_base = 0, lg_idle_quote = 0, lg_liquidity = 0, lg_tick_lower = None, lg_tick_upper = None,
       lg_range_center = None, lg_open_base = 0, lg_open_quote = 0, lg_fees_base = 0, lg_fees_quote_raw = 0,
       lg_fees_quote = 0, lg_il_realized = 0, lg_hodl_pnl = 0, lg_swap_cost = 0, lg_gas_cost = 0, lg_epoch = 0,
       lg_rebalance_count = 0, lg_last_rebalance_at = None, lg_time_in_range = 0, lg_time_tracked = 0,
       lg_fee_accounting = no_fees, lg_pool_share = 0, lg_status_note = None, lg_last = None \<rparr>"

record LpPaperBook =
  bk_strategy :: ConcentratedLpStrategy
  bk_capital :: f64
  bk_gas_units :: int
  bk_priority_fee_wei :: int
  bk_fallback_gas_price_wei :: int
  bk_meta :: "PoolMetadata option"
  bk_ledger :: Ledger
  bk_last_state :: "LpPositionState option"

definition book_init :: "ConcentratedLpStrategy \<Rightarrow> f64 \<Rightarrow> int \<Rightarrow> f64 \<Rightarrow> f64 \<Rightarrow> LpPaperBook" where
  "book_init strategy capital_quote gas_units priority_fee_gwei fallback_gas_price_gwei =
     \<lparr> bk_strategy = strategy, bk_capital = capital_quote, bk_gas_units = gas_units,
       bk_priority_fee_wei = int_of_float (priority_fee_gwei * lit (10 ^ 9)),
       bk_fallback_gas_price_wei = int_of_float (fallback_gas_price_gwei * lit (10 ^ 9)),
       bk_meta = None, bk_ledger = empty_ledger, bk_last_state = None \<rparr>"

definition book_bounds :: "LpPaperBook \<Rightarrow> (int \<times> int) option" where
  "book_bounds book =
     (if lg_liquidity (bk_ledger book) \<le> 0 then None
      else
        (case (lg_tick_lower (bk_ledger book), lg_tick_upper (bk_ledger book)) of
           (Some lower, Some upper) \<Rightarrow> Some (lower, upper)
         | _ \<Rightarrow> None))"

type_synonym LpCheckpoint = "Ledger \<times> LpPositionState option \<times> PoolMetadata option"

definition lp_checkpoint :: "LpPaperBook \<Rightarrow> LpCheckpoint" where
  "lp_checkpoint book = (bk_ledger book, bk_last_state book, bk_meta book)"

definition lp_restore :: "LpPaperBook \<Rightarrow> LpCheckpoint \<Rightarrow> LpPaperBook" where
  "lp_restore book checkpoint =
     (case checkpoint of (ledger, state, meta) \<Rightarrow>
        book\<lparr> bk_ledger := ledger, bk_last_state := state, bk_meta := meta \<rparr>)"

section \<open>Valuation\<close>

definition human :: "Libm \<Rightarrow> int \<Rightarrow> int \<Rightarrow> f64" where
  "human m raw decimals =
     (if 0 \<le> decimals then lit (real_of_int raw / 10 ^ nat decimals)
      else float_of_int raw / libm_pow m (lit 10) (float_of_int decimals))"

definition human_base :: "Libm \<Rightarrow> PoolMetadata \<Rightarrow> int \<Rightarrow> f64" where
  "human_base m meta raw = human m raw (base_decimals meta)"

definition human_quote :: "Libm \<Rightarrow> PoolMetadata \<Rightarrow> int \<Rightarrow> f64" where
  "human_quote m meta raw = human m raw (quote_decimals meta)"

definition value_of :: "Libm \<Rightarrow> PoolMetadata \<Rightarrow> int \<Rightarrow> int \<Rightarrow> f64 \<Rightarrow> f64" where
  "value_of m meta base_raw quote_raw price = human_base m meta base_raw * price + human_quote m meta quote_raw"

definition to_base_quote :: "PoolMetadata \<Rightarrow> int \<times> int \<Rightarrow> int \<times> int" where
  "to_base_quote meta amounts = (if md_base_is_token0 meta then amounts else (snd amounts, fst amounts))"

definition to_tokens :: "PoolMetadata \<Rightarrow> int \<times> int \<Rightarrow> int \<times> int" where
  "to_tokens meta balances = (if md_base_is_token0 meta then balances else (snd balances, fst balances))"

text \<open>\<open>int(round(capital * 10**decimals))\<close>: half-even, and a range narrower than a spacing is refused.\<close>

definition initialize_book :: "Libm \<Rightarrow> LpPaperBook \<Rightarrow> PoolMetadata \<Rightarrow> LpPaperBook res" where
  "initialize_book m book meta =
     rbind (validate_width (bk_strategy book) (md_tick_spacing meta)) (\<lambda>_.
       ok (book\<lparr> bk_meta := Some meta,
                 bk_ledger := (bk_ledger book)\<lparr> lg_idle_quote := rne (val (bk_capital book * ten_to m (quote_decimals meta))) \<rparr> \<rparr>))"

definition principal :: "PoolMetadata \<Rightarrow> Ledger \<Rightarrow> V3PoolSnapshot \<Rightarrow> (int \<times> int) res" where
  "principal meta ledger snapshot =
     (if lg_liquidity ledger \<le> 0 then ok (0, 0)
      else
        (case (lg_tick_lower ledger, lg_tick_upper ledger) of
           (Some lower, Some upper) \<Rightarrow>
             rbind (get_sqrt_ratio_at_tick lower) (\<lambda>sqrt_a. rbind (get_sqrt_ratio_at_tick upper) (\<lambda>sqrt_b.
             rbind (get_amounts_for_liquidity (sn_sqrt_price_x96 snapshot) sqrt_a sqrt_b (lg_liquidity ledger) False)
               (\<lambda>amounts. ok (to_base_quote meta amounts))))
         | _ \<Rightarrow> ok (0, 0)))"

section \<open>Fees\<close>

definition bound_infos :: "Ledger \<Rightarrow> V3PoolSnapshot \<Rightarrow> (TickInfo \<times> TickInfo) option" where
  "bound_infos ledger snapshot =
     (case (sn_lower_tick_info snapshot, sn_upper_tick_info snapshot) of
        (Some lower, Some upper) \<Rightarrow>
          if Some (ti_tick lower) \<noteq> lg_tick_lower ledger \<or> Some (ti_tick upper) \<noteq> lg_tick_upper ledger
             \<or> \<not> initialized lower \<or> \<not> initialized upper then None
          else Some (lower, upper)
      | _ \<Rightarrow> None)"

definition growth_inside :: "int \<Rightarrow> int \<Rightarrow> V3PoolSnapshot \<Rightarrow> TickInfo \<times> TickInfo \<Rightarrow> int \<times> int" where
  "growth_inside tick_lower tick_upper snapshot infos =
     (fee_growth_inside (sn_tick snapshot) tick_lower tick_upper (fee_growth_outside0_x128 (fst infos))
        (fee_growth_outside0_x128 (snd infos)) (sn_fee_growth_global0_x128 snapshot),
      fee_growth_inside (sn_tick snapshot) tick_lower tick_upper (fee_growth_outside1_x128 (fst infos))
        (fee_growth_outside1_x128 (snd infos)) (sn_fee_growth_global1_x128 snapshot))"

text \<open>The growth since the last observation: the global one, and inside the range when it is known and plausible.\<close>

definition global_growth :: "V3PoolSnapshot \<Rightarrow> V3PoolSnapshot \<Rightarrow> int \<times> int" where
  "global_growth prev cur =
     (wrap_sub (sn_fee_growth_global0_x128 cur) (sn_fee_growth_global0_x128 prev),
      wrap_sub (sn_fee_growth_global1_x128 cur) (sn_fee_growth_global1_x128 prev))"

definition range_growth :: "Ledger \<Rightarrow> int \<Rightarrow> int \<Rightarrow> V3PoolSnapshot \<Rightarrow> V3PoolSnapshot \<Rightarrow> (int \<times> int) option" where
  "range_growth ledger tick_lower tick_upper prev cur =
     (case (bound_infos ledger prev, bound_infos ledger cur) of
        (Some prev_infos, Some cur_infos) \<Rightarrow>
          let before = growth_inside tick_lower tick_upper prev prev_infos;
              after = growth_inside tick_lower tick_upper cur cur_infos;
              d0 = wrap_sub (fst after) (fst before); d1 = wrap_sub (snd after) (snd before)
          in if d0 \<le> fst (global_growth prev cur) \<and> d1 \<le> snd (global_growth prev cur) then Some (d0, d1) else None
      | _ \<Rightarrow> None)"

definition earned_fees :: "int \<Rightarrow> (int \<times> int) option \<Rightarrow> int \<times> int \<Rightarrow> f64 \<Rightarrow> (FeeAccounting \<times> int \<times> int) res" where
  "earned_fees liquidity growth global weight =
     (case growth of
        Some (delta0, delta1) \<Rightarrow>
          rbind (fees_owed liquidity delta0) (\<lambda>fee0. rbind (fees_owed liquidity delta1) (\<lambda>fee1.
            ok (exact_fees, fee0, fee1)))
      | None \<Rightarrow>
          rbind (fees_owed liquidity (fst global)) (\<lambda>owed0. rbind (fees_owed liquidity (snd global)) (\<lambda>owed1.
            ok (approximate_fees, int_of_float (float_of_int owed0 * weight), int_of_float (float_of_int owed1 * weight)))))"

text \<open>The liquidity the fees were shared among: the mean over the end points at which the range was active.\<close>

definition sharing_liquidity :: "bool \<Rightarrow> bool \<Rightarrow> V3PoolSnapshot \<Rightarrow> V3PoolSnapshot \<Rightarrow> int" where
  "sharing_liquidity was_in now_in prev cur =
     (let active = (if was_in then [sn_liquidity prev] else []) @ (if now_in then [sn_liquidity cur] else [])
      in if active \<noteq> [] then sum_list active div int (length active)
         else (sn_liquidity prev + sn_liquidity cur) div 2)"

definition range_weight :: "bool \<Rightarrow> bool \<Rightarrow> f64" where
  "range_weight was_in now_in = (if was_in \<and> now_in then 1 else if was_in \<noteq> now_in then lit (1 / 2) else 0)"

definition diluted :: "int \<Rightarrow> int \<Rightarrow> int \<Rightarrow> int" where
  "diluted pool_liquidity denominator fee = (if denominator > 0 then fee * pool_liquidity div denominator else fee)"

definition accrue_fees ::
    "Libm \<Rightarrow> PoolMetadata \<Rightarrow> int \<Rightarrow> int \<Rightarrow> V3PoolSnapshot \<Rightarrow> V3PoolSnapshot \<Rightarrow> f64 \<Rightarrow> Ledger \<Rightarrow> Ledger res" where
  "accrue_fees m meta tick_lower tick_upper prev cur dt ledger =
     (let was_in = in_tick_range (sn_tick prev) tick_lower tick_upper;
          now_in = in_tick_range (sn_tick cur) tick_lower tick_upper;
          weight = range_weight was_in now_in
      in rbind (earned_fees (lg_liquidity ledger) (range_growth ledger tick_lower tick_upper prev cur)
                  (global_growth prev cur) weight) (\<lambda>(accounting, fee0, fee1).
         let pool_liquidity = sharing_liquidity was_in now_in prev cur;
             denominator = pool_liquidity + lg_liquidity ledger;
             (fee_base, fee_quote) = to_base_quote meta (diluted pool_liquidity denominator fee0, diluted pool_liquidity denominator fee1)
         in ok (ledger\<lparr> lg_time_tracked := lg_time_tracked ledger + dt,
                        lg_time_in_range := lg_time_in_range ledger + dt * weight,
                        lg_fee_accounting := accounting,
                        lg_pool_share := (if denominator \<noteq> 0
                          then lit (real_of_int (lg_liquidity ledger) / real_of_int denominator) else 0),
                        lg_fees_base := lg_fees_base ledger + fee_base,
                        lg_fees_quote_raw := lg_fees_quote_raw ledger + fee_quote,
                        lg_fees_quote := lg_fees_quote ledger + value_of m meta fee_base fee_quote (sn_price cur) \<rparr>)))"

definition accrue ::
    "Libm \<Rightarrow> PoolMetadata \<Rightarrow> V3PoolSnapshot \<Rightarrow> V3PoolSnapshot \<Rightarrow> Ledger \<Rightarrow> Ledger res" where
  "accrue m meta prev cur ledger =
     (let dt = max (total_seconds (sn_block_timestamp cur - sn_block_timestamp prev)) 0;
          held_base = lg_open_base ledger + lg_idle_base ledger + lg_fees_base ledger;
          held = ledger\<lparr> lg_hodl_pnl := lg_hodl_pnl ledger + human_base m meta held_base * (sn_price cur - sn_price prev) \<rparr>
      in if lg_liquidity ledger \<le> 0 then ok (held\<lparr> lg_fee_accounting := no_fees \<rparr>)
         else
           (case (lg_tick_lower ledger, lg_tick_upper ledger) of
              (Some lower, Some upper) \<Rightarrow> accrue_fees m meta lower upper prev cur dt held
            | _ \<Rightarrow> ok (held\<lparr> lg_fee_accounting := no_fees \<rparr>)))"

section \<open>Rebalancing\<close>

definition gas_cost_quote :: "LpPaperBook \<Rightarrow> V3PoolSnapshot \<Rightarrow> f64 \<times> f64" where
  "gas_cost_quote book snapshot =
     (let gas_price_wei = (case sn_base_fee_wei snapshot of
            Some fee \<Rightarrow> fee + bk_priority_fee_wei book
          | None \<Rightarrow> bk_fallback_gas_price_wei book);
          cost_eth = float_of_int (bk_gas_units book * gas_price_wei) / lit (10 ^ 18)
      in (cost_eth * sn_price snapshot, float_of_int gas_price_wei / lit (10 ^ 9)))"

text \<open>What a swap leaves: the idle balances, its direction and size, and the price impact.\<close>

record SwapLegs =
  sl_idle_base :: int
  sl_idle_quote :: int
  sl_sells_base :: "bool option"
  sl_swap_in :: int
  sl_swap_out :: int
  sl_impact_bps :: f64

definition no_swap :: "int \<Rightarrow> int \<Rightarrow> bool option \<Rightarrow> SwapLegs" where
  "no_swap idle_base idle_quote sells_base =
     \<lparr> sl_idle_base = idle_base, sl_idle_quote = idle_quote, sl_sells_base = sells_base, sl_swap_in = 0, sl_swap_out = 0,
       sl_impact_bps = 0 \<rparr>"

definition limit_name :: "LimitReason \<Rightarrow> string" where
  "limit_name reason = (case reason of window_exhausted \<Rightarrow> ''window_exhausted'' | price_limit \<Rightarrow> ''price_limit'')"

text \<open>A step that may skip the rebalance leaves the note it sets.\<close>

datatype 'a outcome = Skipped string | Continue 'a

definition unless_skipped :: "'a outcome res \<Rightarrow> ('a \<Rightarrow> 'b outcome res) \<Rightarrow> 'b outcome res" where
  "unless_skipped r f = rbind r (\<lambda>x. case x of Skipped note \<Rightarrow> ok (Skipped note) | Continue y \<Rightarrow> f y)"

lemma unless_skipped_Continue [simp]:
  "unless_skipped r f = Inr (Continue y) \<longleftrightarrow> (\<exists>x. r = Inr (Continue x) \<and> f x = Inr (Continue y))"
proof (cases r)
  case (Inr x)
  then show ?thesis by (cases x) (auto simp: unless_skipped_def)
qed (simp add: unless_skipped_def)

definition planned_swap_in :: "Libm \<Rightarrow> PoolMetadata \<Rightarrow> f64 \<Rightarrow> f64 \<Rightarrow> int \<Rightarrow> int \<Rightarrow> int res" where
  "planned_swap_in m meta excess price idle_base idle_quote =
     (if excess > 0 then
        rbind (fdiv excess price) (\<lambda>q. ok (min (int_of_float (q * ten_to m (base_decimals meta))) idle_base))
      else ok (min (int_of_float (- excess * ten_to m (quote_decimals meta))) idle_quote))"

definition swap_to_ratio ::
    "Libm \<Rightarrow> V3PoolSnapshot \<Rightarrow> TickWindow \<Rightarrow> f64 \<Rightarrow> f64 \<Rightarrow> int \<Rightarrow> int \<Rightarrow> SwapLegs outcome res" where
  "swap_to_ratio m snapshot window value_before excess idle_base idle_quote =
     (let meta = sn_metadata snapshot; price = sn_price snapshot; sells_base = excess > 0;
          zero_for_one = (if sells_base then md_base_is_token0 meta else \<not> md_base_is_token0 meta)
      in if \<not> \<bar>excess\<bar> > value_before * MIN_SWAP_VALUE_FRACTION then ok (Continue (no_swap idle_base idle_quote None))
         else
           rbind (planned_swap_in m meta excess price idle_base idle_quote) (\<lambda>swap_in.
           if swap_in \<le> 0 then ok (Continue ((no_swap idle_base idle_quote (Some sells_base))\<lparr> sl_swap_in := swap_in \<rparr>))
           else
             rbind (simulate_exact_input (pool_state_from_snapshot snapshot) window zero_for_one swap_in None) (\<lambda>quote.
             case q_limit_reason quote of
               Some reason \<Rightarrow> ok (Skipped (''rebalance skipped: swap hit '' @ limit_name reason))
             | None \<Rightarrow>
                 let after_price = tick_to_price m (q_tick_after quote) (md_base_is_token0 meta)
                       (md_token0_decimals meta) (md_token1_decimals meta)
                 in rbind (fdiv \<bar>after_price - price\<bar> price) (\<lambda>impact.
                    ok (Continue \<lparr> sl_idle_base = (if sells_base then idle_base - swap_in else idle_base + q_amount_out quote),
                                   sl_idle_quote = (if sells_base then idle_quote + q_amount_out quote else idle_quote - swap_in),
                                   sl_sells_base = Some sells_base, sl_swap_in = swap_in,
                                   sl_swap_out = q_amount_out quote, sl_impact_bps = impact * lit 10000 \<rparr>)))))"

text \<open>The loop that lowers the liquidity until its mint is affordable; \<open>None\<close> when its four tries fail.\<close>

fun mint_loop :: "nat \<Rightarrow> int \<Rightarrow> int \<Rightarrow> int \<Rightarrow> int \<times> int \<Rightarrow> int \<Rightarrow> (int \<times> int \<times> int) option res" where
  "mint_loop 0 sqrt_price sqrt_a sqrt_b avail liquidity = ok None"
| "mint_loop (Suc n) sqrt_price sqrt_a sqrt_b avail liquidity =
     rbind (get_amounts_for_liquidity sqrt_price sqrt_a sqrt_b liquidity True) (\<lambda>(need0, need1).
       if need0 \<le> fst avail \<and> need1 \<le> snd avail then ok (Some (liquidity, need0, need1))
       else mint_loop n sqrt_price sqrt_a sqrt_b avail (liquidity - max 1 (liquidity div 10 ^ 9)))"

definition mint_position ::
    "int \<Rightarrow> int \<Rightarrow> int \<Rightarrow> int \<times> int \<Rightarrow> (int \<times> (int \<times> int) \<times> (int \<times> int)) outcome res" where
  "mint_position sqrt_price sqrt_a sqrt_b avail =
     rbind (get_liquidity_for_amounts sqrt_price sqrt_a sqrt_b (fst avail) (snd avail)) (\<lambda>l.
     rbind (mint_loop 4 sqrt_price sqrt_a sqrt_b avail l) (\<lambda>minted.
     case minted of
       None \<Rightarrow> ok (Skipped ''mint rounding could not be satisfied'')
     | Some (liquidity, need) \<Rightarrow>
         if liquidity \<le> 0 then ok (Skipped ''position size below minimum'')
         else rbind (get_amounts_for_liquidity sqrt_price sqrt_a sqrt_b liquidity False) (\<lambda>opened_amounts.
                ok (Continue (liquidity, need, opened_amounts)))))"

text \<open>
  The whole computation before the commit block: what is burned, swapped and minted.
\<close>

record RebalancePlan =
  pl_target :: RangeTarget
  pl_realized_il :: f64
  pl_legs :: SwapLegs
  pl_swap_cost :: f64
  pl_liquidity :: int
  pl_need :: "int \<times> int"
  pl_opened :: "int \<times> int"

definition rebalance_plan ::
    "Libm \<Rightarrow> LpPaperBook \<Rightarrow> PoolMetadata \<Rightarrow> Ledger \<Rightarrow> V3PoolSnapshot \<Rightarrow> f64 \<Rightarrow> RebalancePlan outcome res" where
  "rebalance_plan m book meta ledger snapshot center =
     (case sn_window snapshot of
        None \<Rightarrow> ok (Skipped ''waiting for tick window before opening a range'')
      | Some window \<Rightarrow>
          let price = sn_price snapshot; sqrt_price = sn_sqrt_price_x96 snapshot in
          rbind (target_range m (bk_strategy book) center snapshot) (\<lambda>target.
          rbind (get_sqrt_ratio_at_tick (rt_tick_lower target)) (\<lambda>sqrt_a.
          rbind (get_sqrt_ratio_at_tick (rt_tick_upper target)) (\<lambda>sqrt_b.
          rbind (principal meta ledger snapshot) (\<lambda>(principal_base, principal_quote).
          let realized_il = value_of m meta principal_base principal_quote price
                - value_of m meta (lg_open_base ledger) (lg_open_quote ledger) price;
              idle_base = lg_idle_base ledger + principal_base + lg_fees_base ledger;
              idle_quote = lg_idle_quote ledger + principal_quote + lg_fees_quote_raw ledger;
              value_before = value_of m meta idle_base idle_quote price in
          rbind (get_amounts_for_liquidity sqrt_price sqrt_a sqrt_b UNIT_LIQUIDITY True) (\<lambda>unit_tokens.
          let (unit_base, unit_quote) = to_base_quote meta unit_tokens;
              unit_base_value = human_base m meta unit_base * price;
              unit_total = unit_base_value + human_quote m meta unit_quote in
          if unit_total \<le> 0 \<or> value_before \<le> 0 then ok (Skipped ''position size below minimum'')
          else
            let target_base_value = value_before * unit_base_value / unit_total;
                excess = human_base m meta idle_base * price - target_base_value in
            unless_skipped (swap_to_ratio m snapshot window value_before excess idle_base idle_quote) (\<lambda>legs.
            let swap_cost = value_before - value_of m meta (sl_idle_base legs) (sl_idle_quote legs) price in
            unless_skipped (mint_position sqrt_price sqrt_a sqrt_b (to_tokens meta (sl_idle_base legs, sl_idle_quote legs)))
              (\<lambda>(liquidity, need, opened_amounts).
                ok (Continue \<lparr> pl_target = target, pl_realized_il = realized_il, pl_legs = legs, pl_swap_cost = swap_cost,
                  pl_liquidity = liquidity, pl_need = to_base_quote meta need,
                  pl_opened = to_base_quote meta opened_amounts \<rparr>)))))))))"

definition commit_plan :: "LpPaperBook \<Rightarrow> Ledger \<Rightarrow> V3PoolSnapshot \<Rightarrow> RebalanceReason \<Rightarrow> RebalancePlan \<Rightarrow> Ledger" where
  "commit_plan book ledger snapshot reason plan =
     ledger\<lparr> lg_il_realized := lg_il_realized ledger + (if lg_liquidity ledger > 0 then pl_realized_il plan else 0),
             lg_idle_base := sl_idle_base (pl_legs plan) - fst (pl_need plan),
             lg_idle_quote := sl_idle_quote (pl_legs plan) - snd (pl_need plan),
             lg_fees_base := 0, lg_fees_quote_raw := 0,
             lg_liquidity := pl_liquidity plan,
             lg_tick_lower := Some (rt_tick_lower (pl_target plan)), lg_tick_upper := Some (rt_tick_upper (pl_target plan)),
             lg_range_center := Some (rt_center_price (pl_target plan)),
             lg_open_base := fst (pl_opened plan), lg_open_quote := snd (pl_opened plan),
             lg_swap_cost := lg_swap_cost ledger + pl_swap_cost plan,
             lg_gas_cost := lg_gas_cost ledger + fst (gas_cost_quote book snapshot),
             lg_epoch := lg_epoch ledger + 1,
             lg_rebalance_count := lg_rebalance_count ledger + (if reason \<noteq> opened then 1 else 0),
             lg_last_rebalance_at := Some (sn_block_timestamp snapshot) \<rparr>"

definition rebalance_event :: "LpPaperBook \<Rightarrow> Ledger \<Rightarrow> V3PoolSnapshot \<Rightarrow> RebalanceReason \<Rightarrow> RebalancePlan \<Rightarrow> RebalanceEvent" where
  "rebalance_event book ledger snapshot reason plan =
     \<lparr> rb_epoch_from = lg_epoch ledger, rb_epoch_to = lg_epoch ledger + 1, rb_reason = reason,
       rb_old_tick_lower = lg_tick_lower ledger, rb_old_tick_upper = lg_tick_upper ledger,
       rb_new_tick_lower = rt_tick_lower (pl_target plan), rb_new_tick_upper = rt_tick_upper (pl_target plan),
       rb_swap_sells_base = sl_sells_base (pl_legs plan), rb_swap_amount_in = sl_swap_in (pl_legs plan),
       rb_swap_amount_out = sl_swap_out (pl_legs plan), rb_swap_cost_quote = pl_swap_cost plan,
       rb_price_impact_bps = sl_impact_bps (pl_legs plan), rb_gas_units = bk_gas_units book,
       rb_gas_price_gwei = snd (gas_cost_quote book snapshot), rb_gas_cost_quote = fst (gas_cost_quote book snapshot),
       rb_realized_il_quote = (if lg_liquidity ledger > 0 then pl_realized_il plan else 0),
       rb_pool_price = sn_price snapshot, rb_block_number = sn_block_number snapshot,
       rb_timestamp = sn_block_timestamp snapshot, rb_tick_id = None \<rparr>"

definition rebalance ::
    "Libm \<Rightarrow> LpPaperBook \<Rightarrow> PoolMetadata \<Rightarrow> Ledger \<Rightarrow> V3PoolSnapshot \<Rightarrow> f64 \<Rightarrow> RebalanceReason \<Rightarrow>
     Ledger \<times> RebalanceEvent option res" where
  "rebalance m book meta ledger snapshot center reason =
     (case rebalance_plan m book meta ledger snapshot center of
        Inl e \<Rightarrow> (ledger, Inl e)
      | Inr (Skipped note) \<Rightarrow> (ledger\<lparr> lg_status_note := Some note \<rparr>, ok None)
      | Inr (Continue plan) \<Rightarrow>
          (commit_plan book ledger snapshot reason plan, ok (Some (rebalance_event book ledger snapshot reason plan))))"

section \<open>Observations\<close>

definition lp_status_of :: "Ledger \<Rightarrow> bool \<Rightarrow> V3PoolSnapshot \<Rightarrow> LpStatus" where
  "lp_status_of ledger kill_switch_active mark =
     (if lg_liquidity ledger \<le> 0 then not_opened
      else if kill_switch_active then frozen
      else if in_tick_range (sn_tick mark) (case lg_tick_lower ledger of None \<Rightarrow> 0 | Some t \<Rightarrow> t)
                (case lg_tick_upper ledger of None \<Rightarrow> 0 | Some t \<Rightarrow> t) then in_range
      else out_of_range)"

definition price_bounds :: "Libm \<Rightarrow> PoolMetadata \<Rightarrow> Ledger \<Rightarrow> f64 option \<times> f64 option" where
  "price_bounds m meta ledger =
     (case (lg_tick_lower ledger, lg_tick_upper ledger) of
        (Some lower, Some upper) \<Rightarrow>
          let price = (\<lambda>t. tick_to_price m t (md_base_is_token0 meta) (md_token0_decimals meta) (md_token1_decimals meta))
          in (Some (min (price lower) (price upper)), Some (max (price lower) (price upper)))
      | _ \<Rightarrow> (None, None))"

definition position_state ::
    "Libm \<Rightarrow> LpPaperBook \<Rightarrow> PoolMetadata \<Rightarrow> Ledger \<Rightarrow> V3PoolSnapshot \<Rightarrow> bool \<Rightarrow> V3PoolSnapshot \<Rightarrow> LpPositionState res" where
  "position_state m book meta ledger mark kill_switch_active current =
     rbind (principal meta ledger mark) (\<lambda>(principal_base, principal_quote).
     let price = sn_price mark;
         principal_value = value_of m meta principal_base principal_quote price;
         il_current = principal_value - value_of m meta (lg_open_base ledger) (lg_open_quote ledger) price;
         il_total = lg_il_realized ledger + (if lg_liquidity ledger > 0 then il_current else 0);
         total = principal_value + value_of m meta (lg_idle_base ledger) (lg_idle_quote ledger) price
           + value_of m meta (lg_fees_base ledger) (lg_fees_quote_raw ledger) price - lg_gas_cost ledger;
         expected = bk_capital book + lg_fees_quote ledger + il_total + lg_hodl_pnl ledger
           - lg_swap_cost ledger - lg_gas_cost ledger;
         (price_lower, price_upper) = price_bounds m meta ledger
     in ok \<lparr> lp_epoch = lg_epoch ledger, lp_status = lp_status_of ledger kill_switch_active mark,
             lp_tick_lower = lg_tick_lower ledger, lp_tick_upper = lg_tick_upper ledger,
             lp_price_lower = price_lower, lp_price_upper = price_upper, lp_range_center = lg_range_center ledger,
             lp_liquidity = lg_liquidity ledger, lp_amount_base = principal_base, lp_amount_quote = principal_quote,
             lp_idle_base = lg_idle_base ledger, lp_idle_quote = lg_idle_quote ledger,
             lp_fees_owed_base = lg_fees_base ledger, lp_fees_owed_quote = lg_fees_quote_raw ledger,
             lp_fee_accounting = lg_fee_accounting ledger, lp_fees_quote = lg_fees_quote ledger, lp_il_quote = il_total,
             lp_hodl_pnl_quote = lg_hodl_pnl ledger, lp_swap_cost_quote = lg_swap_cost ledger,
             lp_gas_cost_quote = lg_gas_cost ledger, lp_value_quote = total, lp_net_pnl_quote = total - bk_capital book,
             lp_capital_quote = bk_capital book, lp_reconciliation_error_quote = total - expected,
             lp_time_in_range_sec = lg_time_in_range ledger, lp_time_tracked_sec = lg_time_tracked ledger,
             lp_rebalance_count = lg_rebalance_count ledger, lp_pool_share_pct = lg_pool_share ledger * lit 100,
             lp_pool_price = Some price, lp_block_number = Some (sn_block_number current),
             lp_status_note = lg_status_note ledger, lp_timestamp = sn_block_timestamp current, lp_tick_id = None \<rparr>)"

definition position_in_range :: "LpPositionState \<Rightarrow> bool" where
  "position_in_range state \<longleftrightarrow> lp_status state = in_range"

text \<open>A fresh observation: accrual, then the rebalance rule. The ledger is returned also after an exception.\<close>

definition or_price :: "f64 option \<Rightarrow> V3PoolSnapshot \<Rightarrow> f64" where
  "or_price center_price snapshot =
     (case center_price of None \<Rightarrow> sn_price snapshot | Some c \<Rightarrow> if c = 0 then sn_price snapshot else c)"

definition accrue_since_last :: "Libm \<Rightarrow> PoolMetadata \<Rightarrow> Ledger \<Rightarrow> V3PoolSnapshot \<Rightarrow> Ledger res" where
  "accrue_since_last m meta ledger snapshot =
     (case lg_last ledger of None \<Rightarrow> ok ledger | Some prev \<Rightarrow> accrue m meta prev snapshot ledger)"

definition advance_ledger ::
    "Libm \<Rightarrow> LpPaperBook \<Rightarrow> PoolMetadata \<Rightarrow> Ledger \<Rightarrow> V3PoolSnapshot \<Rightarrow> f64 option \<Rightarrow> bool \<Rightarrow>
     Ledger \<times> RebalanceEvent option res" where
  "advance_ledger m book meta ledger snapshot center_price kill_switch_active =
     (case accrue_since_last m meta ledger snapshot of
        Inl e \<Rightarrow> (ledger, Inl e)
      | Inr accrued \<Rightarrow>
          (case rebalance_reason (bk_strategy book) (lg_liquidity accrued > 0) (lg_tick_lower accrued) (lg_tick_upper accrued)
                  (lg_range_center accrued) snapshot (lg_last_rebalance_at accrued) (sn_block_timestamp snapshot)
                  kill_switch_active of
             Inl e \<Rightarrow> (accrued, Inl e)
           | Inr None \<Rightarrow> (accrued, ok None)
           | Inr (Some reason) \<Rightarrow> rebalance m book meta accrued snapshot (or_price center_price snapshot) reason))"

definition record_state ::
    "Libm \<Rightarrow> LpPaperBook \<Rightarrow> PoolMetadata \<Rightarrow> V3PoolSnapshot \<Rightarrow> bool \<Rightarrow> V3PoolSnapshot \<Rightarrow> RebalanceEvent list \<Rightarrow>
     LpPaperBook \<times> (LpPositionState \<times> RebalanceEvent list) res" where
  "record_state m book meta mark kill_switch_active snapshot events =
     (case position_state m book meta (bk_ledger book) mark kill_switch_active snapshot of
        Inl e \<Rightarrow> (book, Inl e)
      | Inr state \<Rightarrow> (book\<lparr> bk_last_state := Some state \<rparr>, ok (state, events)))"

definition observe ::
    "Libm \<Rightarrow> LpPaperBook \<Rightarrow> PoolMetadata \<Rightarrow> V3PoolSnapshot \<Rightarrow> f64 option \<Rightarrow> bool \<Rightarrow>
     LpPaperBook \<times> (LpPositionState \<times> RebalanceEvent list) res" where
  "observe m book meta snapshot center_price kill_switch_active =
     (let ledger = (bk_ledger book)\<lparr> lg_status_note := None \<rparr>
      in if sn_is_stale snapshot then
           record_state m (book\<lparr> bk_ledger := ledger\<lparr> lg_status_note := Some ''stale pool data: no accrual, no rebalance'' \<rparr> \<rparr>)
             meta (case lg_last ledger of None \<Rightarrow> snapshot | Some seen \<Rightarrow> seen) kill_switch_active snapshot []
         else
           (case advance_ledger m book meta ledger snapshot center_price kill_switch_active of
              (after, Inl e) \<Rightarrow> (book\<lparr> bk_ledger := after \<rparr>, Inl e)
            | (after, Inr event) \<Rightarrow>
                record_state m (book\<lparr> bk_ledger := after\<lparr> lg_last := Some snapshot \<rparr> \<rparr>) meta snapshot kill_switch_active
                  snapshot (case event of None \<Rightarrow> [] | Some ev \<Rightarrow> [ev])))"

definition lp_step ::
    "Libm \<Rightarrow> LpPaperBook \<Rightarrow> V3PoolSnapshot \<Rightarrow> f64 option \<Rightarrow> bool \<Rightarrow>
     LpPaperBook \<times> (LpPositionState \<times> RebalanceEvent list) res" where
  "lp_step m book snapshot center_price kill_switch_active =
     (case bk_meta book of
        Some meta \<Rightarrow> observe m book meta snapshot center_price kill_switch_active
      | None \<Rightarrow>
          (case initialize_book m book (sn_metadata snapshot) of
             Inl e \<Rightarrow> (book, Inl e)
           | Inr started \<Rightarrow> observe m started (sn_metadata snapshot) snapshot center_price kill_switch_active))"

end
