(* ===== verification/Lp_Facts.thy ===== *)
theory Lp_Facts
  imports Lp_Book
begin

text \<open>
  What the paper liquidity book keeps (\<open>app/execution/lp_paper_book.py\<close>): no balance ever falls below zero,
  a rebalance neither makes nor loses tokens, its mint never needs the rounding loop, and it happens
  only when the rule of the strategy allows it.
\<close>

section \<open>Amounts of a position\<close>

lemma sqrt_ratio_result: "get_sqrt_ratio_at_tick t = Inr p \<Longrightarrow> 0 < p \<and> MIN_TICK \<le> t \<and> t \<le> MAX_TICK"
  using sqrt_ratio_pos [of t] by (auto simp: get_sqrt_ratio_at_tick_eq pool_constants split: if_split_asm)

lemma amounts_nonneg:
  assumes "0 < a" "0 < b" and "get_amounts_for_liquidity p a b l up = Inr (x, y)"
  shows "0 \<le> x \<and> 0 \<le> y"
proof -
  define lo hi where lohi: "lo = min a b" "hi = max a b"
  have sorted: "sorted_prices a b = (lo, hi)" and pos: "0 < lo" "lo \<le> hi"
    using assms by (auto simp: lohi sorted_prices_def min_def max_def)
  show ?thesis
    using assms(3) pos amount_nonneg [of l lo hi] amount_nonneg [of l p hi] amount_nonneg [of l lo p]
    by (auto simp: get_amounts_for_liquidity_def sorted get_amount0_delta_eq get_amount1_delta_eq split: if_split_asm)
qed

lemma to_base_quote_nonneg [simp]:
  "0 \<le> fst (to_base_quote meta p) \<and> 0 \<le> snd (to_base_quote meta p) \<longleftrightarrow> 0 \<le> fst p \<and> 0 \<le> snd p"
  by (auto simp: to_base_quote_def)

lemma principal_nonneg:
  assumes "principal meta ledger snapshot = Inr (b, q)"
  shows "0 \<le> b \<and> 0 \<le> q"
proof -
  consider (none) "b = 0" "q = 0" | (some) sa sb amounts where "0 < sa" "0 < sb"
      "get_amounts_for_liquidity (sn_sqrt_price_x96 snapshot) sa sb (lg_liquidity ledger) False = Inr amounts"
      "(b, q) = to_base_quote meta amounts"
    using assms by (auto simp: principal_def split: if_split_asm option.split_asm dest!: sqrt_ratio_result)
  then show ?thesis
  proof cases
    case some
    have "0 \<le> fst amounts \<and> 0 \<le> snd amounts"
      using amounts_nonneg [OF some(1,2), of _ _ False "fst amounts" "snd amounts"] some(3) by simp
    then show ?thesis using some(4) to_base_quote_nonneg [of meta amounts] by (metis fst_conv snd_conv)
  qed simp
qed

section \<open>The sound ledger\<close>

definition good_snapshot :: "V3PoolSnapshot \<Rightarrow> bool" where
  "good_snapshot s \<longleftrightarrow> coherent_pool (pool_state_from_snapshot s) \<and> 0 < sn_price s
     \<and> (case sn_window s of None \<Rightarrow> True | Some w \<Rightarrow> 0 < tick_spacing w)"

text \<open>
  No debt in either token, the position open exactly with bounds the pool accepts, and one epoch per
  rebalance and opening.
\<close>

definition balances_sound :: "Ledger \<Rightarrow> bool" where
  "balances_sound l \<longleftrightarrow> 0 \<le> lg_idle_base l \<and> 0 \<le> lg_idle_quote l \<and> 0 \<le> lg_open_base l \<and> 0 \<le> lg_open_quote l
     \<and> 0 \<le> lg_fees_base l \<and> 0 \<le> lg_fees_quote_raw l \<and> 0 \<le> lg_liquidity l"

definition bounds_set :: "int option \<Rightarrow> int option \<Rightarrow> bool" where
  "bounds_set lower upper \<longleftrightarrow>
     (case (lower, upper) of
        (Some l, Some u) \<Rightarrow> MIN_TICK \<le> l \<and> l \<le> MAX_TICK \<and> MIN_TICK \<le> u \<and> u \<le> MAX_TICK
      | _ \<Rightarrow> False)"

definition position_sound :: "Ledger \<Rightarrow> bool" where
  "position_sound l \<longleftrightarrow> (if lg_liquidity l > 0 then bounds_set (lg_tick_lower l) (lg_tick_upper l) else True)
     \<and> 0 \<le> lg_rebalance_count l \<and> lg_rebalance_count l \<le> lg_epoch l"

definition ledger_sound :: "Ledger \<Rightarrow> bool" where
  "ledger_sound l \<longleftrightarrow> balances_sound l \<and> position_sound l
     \<and> (case lg_last l of None \<Rightarrow> True | Some s \<Rightarrow> good_snapshot s)"

lemma ledger_sound_frame [simp]:
  "ledger_sound (l\<lparr> lg_status_note := n \<rparr>) = ledger_sound l"
  "ledger_sound (l\<lparr> lg_hodl_pnl := x \<rparr>) = ledger_sound l"
  "ledger_sound (l\<lparr> lg_fee_accounting := a \<rparr>) = ledger_sound l"
  by (simp_all add: ledger_sound_def balances_sound_def position_sound_def)

lemma ledger_sound_last: "ledger_sound l \<Longrightarrow> good_snapshot s \<Longrightarrow> ledger_sound (l\<lparr> lg_last := Some s \<rparr>)"
  by (simp add: ledger_sound_def balances_sound_def position_sound_def)

section \<open>Accrual\<close>

lemma fees_owed_nonneg: "0 \<le> l \<Longrightarrow> 0 \<le> d \<Longrightarrow> \<exists>fee. fees_owed l d = Inr fee \<and> 0 \<le> fee"
  by (simp add: fees_owed_def mul_div_def pool_constants pos_imp_zdiv_nonneg_iff)

lemma weighted_nonneg: "0 \<le> n \<Longrightarrow> 0 \<le> w \<Longrightarrow> 0 \<le> int_of_float (float_of_int n * w)"
proof -
  assume "0 \<le> n" "0 \<le> w"
  then have "0 \<le> float_of_int n * w"
    using lit_nonneg [of "real_of_int n"] by (intro f64_mult_nonneg) (simp_all add: float_of_int_def)
  then show ?thesis using int_of_float_bounds by blast
qed

lemma range_growth_nonneg: "range_growth l lower upper prev cur = Some (d0, d1) \<Longrightarrow> 0 \<le> d0 \<and> 0 \<le> d1"
  by (auto simp: range_growth_def Let_def wrap_sub_range split: option.split_asm if_split_asm)

lemma earned_fees_nonneg:
  assumes "0 \<le> l" and "0 \<le> w"
    and "\<And>d0 d1. growth = Some (d0, d1) \<Longrightarrow> 0 \<le> d0 \<and> 0 \<le> d1" and "0 \<le> fst global" "0 \<le> snd global"
  shows "\<exists>accounting fee0 fee1. earned_fees l growth global w = Inr (accounting, fee0, fee1) \<and> 0 \<le> fee0 \<and> 0 \<le> fee1"
proof (cases growth)
  case None
  obtain x y where "fees_owed l (fst global) = Inr x" "0 \<le> x" "fees_owed l (snd global) = Inr y" "0 \<le> y"
    using fees_owed_nonneg [OF assms(1)] assms(4,5) by meson
  then show ?thesis using None assms(2) by (simp add: earned_fees_def weighted_nonneg)
next
  case (Some d)
  obtain d0 d1 where d: "d = (d0, d1)" by (cases d)
  then have "0 \<le> d0" "0 \<le> d1" using assms(3) [of d0 d1] Some by simp_all
  then obtain x y where "fees_owed l d0 = Inr x" "0 \<le> x" "fees_owed l d1 = Inr y" "0 \<le> y"
    using fees_owed_nonneg [OF assms(1)] by meson
  then show ?thesis using Some d by (simp add: earned_fees_def)
qed

lemma sharing_nonneg: "0 \<le> sn_liquidity prev \<Longrightarrow> 0 \<le> sn_liquidity cur \<Longrightarrow> 0 \<le> sharing_liquidity a b prev cur"
  by (auto simp: sharing_liquidity_def Let_def pos_imp_zdiv_nonneg_iff)

lemma good_snapshot_liquidity: "good_snapshot s \<Longrightarrow> 0 \<le> sn_liquidity s"
  by (simp add: good_snapshot_def coherent_pool_def pool_state_from_snapshot_def)

text \<open>Accrual succeeds, adds fees that are not negative, and leaves the position as it was.\<close>

definition same_position :: "Ledger \<Rightarrow> Ledger \<Rightarrow> bool" where
  "same_position l l' \<longleftrightarrow> lg_liquidity l' = lg_liquidity l \<and> lg_tick_lower l' = lg_tick_lower l \<and> lg_tick_upper l' = lg_tick_upper l
     \<and> lg_range_center l' = lg_range_center l \<and> lg_last_rebalance_at l' = lg_last_rebalance_at l"

lemma accrue_fees_sound:
  assumes "ledger_sound l" and "good_snapshot prev" "good_snapshot cur"
  shows "\<exists>l'. accrue_fees m meta lower upper prev cur dt l = Inr l' \<and> ledger_sound l' \<and> same_position l l'"
proof -
  define was now pool where defs: "was = in_tick_range (sn_tick prev) lower upper" "now = in_tick_range (sn_tick cur) lower upper"
    "pool = sharing_liquidity was now prev cur"
  have liq: "0 \<le> lg_liquidity l" using assms(1) by (simp add: ledger_sound_def balances_sound_def)
  have w: "0 \<le> range_weight was now" by (simp add: range_weight_def lit_nonneg)
  have global: "0 \<le> fst (global_growth prev cur)" "0 \<le> snd (global_growth prev cur)"
    by (simp_all add: global_growth_def wrap_sub_range)
  obtain accounting fee0 fee1 where fees: "earned_fees (lg_liquidity l) (range_growth l lower upper prev cur) (global_growth prev cur)
      (range_weight was now) = Inr (accounting, fee0, fee1)" "0 \<le> fee0" "0 \<le> fee1"
    using earned_fees_nonneg [OF liq w _ global, of "range_growth l lower upper prev cur"] range_growth_nonneg by blast
  have pool: "0 \<le> pool" unfolding defs(3) using assms(2,3) by (intro sharing_nonneg good_snapshot_liquidity)
  let ?share = "\<lambda>fee. diluted pool (pool + lg_liquidity l) fee"
  have share: "0 \<le> ?share fee" if "0 \<le> fee" for fee
    using that pool by (simp add: diluted_def pos_imp_zdiv_nonneg_iff)
  obtain fb fq where split: "to_base_quote meta (?share fee0, ?share fee1) = (fb, fq)" by fastforce
  have pos: "0 \<le> fb" "0 \<le> fq"
    using share [OF fees(2)] share [OF fees(3)] to_base_quote_nonneg [of meta "(?share fee0, ?share fee1)"]
    by (simp_all add: split)
  show ?thesis
    using assms(1) pos fees(1) split
    by (simp add: accrue_fees_def Let_def defs [symmetric] ledger_sound_def balances_sound_def position_sound_def same_position_def)
qed

lemma accrue_sound:
  assumes "ledger_sound l" and "good_snapshot prev" "good_snapshot cur"
  shows "\<exists>l'. accrue m meta prev cur l = Inr l' \<and> ledger_sound l' \<and> same_position l l'"
proof -
  define held where "held = l\<lparr> lg_hodl_pnl := lg_hodl_pnl l + human_base m meta (lg_open_base l + lg_idle_base l + lg_fees_base l)
    * (sn_price cur - sn_price prev) \<rparr>"
  have held: "ledger_sound held" "same_position l held" "same_position l (held\<lparr> lg_fee_accounting := no_fees \<rparr>)"
      "ledger_sound (held\<lparr> lg_fee_accounting := no_fees \<rparr>)"
    using assms(1) by (simp_all add: held_def same_position_def)
  have "same_position held l' \<Longrightarrow> same_position l l'" for l'
    using held(2) by (simp add: same_position_def)
  then show ?thesis
    using held accrue_fees_sound [OF held(1) assms(2,3)]
    by (simp add: accrue_def Let_def held_def [symmetric] split: option.split) blast
qed

lemma accrue_since_last_sound:
  assumes "ledger_sound l" and "good_snapshot snapshot"
  shows "\<exists>l'. accrue_since_last m meta l snapshot = Inr l' \<and> ledger_sound l' \<and> same_position l l'"
proof (cases "lg_last l")
  case (Some prev)
  then have "good_snapshot prev" using assms(1) by (simp add: ledger_sound_def)
  then show ?thesis using accrue_sound [OF assms(1) _ assms(2)] Some by (simp add: accrue_since_last_def)
qed (simp add: accrue_since_last_def assms same_position_def)

section \<open>Rebalancing\<close>

text \<open>
  The first try of the mint loop succeeds: the liquidity computed from the balances is affordable with
  the pool's own rounding.
\<close>

lemma mint_first_try:
  assumes "0 < sqrt_a" "0 < sqrt_b" "sqrt_a \<noteq> sqrt_b" and "0 \<le> fst avail" "0 \<le> snd avail"
    and "get_liquidity_for_amounts sqrt_price sqrt_a sqrt_b (fst avail) (snd avail) = Inr l"
  shows "\<exists>need. mint_loop (Suc n) sqrt_price sqrt_a sqrt_b avail l = Inr (Some (l, need))"
  using mint_affordable [OF assms(1-5), of sqrt_price] assms(6) by auto

lemma mint_loop_affordable:
  "mint_loop n sqrt_price sqrt_a sqrt_b avail l = Inr (Some (l', need)) \<Longrightarrow>
    fst need \<le> fst avail \<and> snd need \<le> snd avail \<and> get_amounts_for_liquidity sqrt_price sqrt_a sqrt_b l' True = Inr need"
  by (induction n arbitrary: l) (auto split: if_split_asm)

lemma mint_position_sound:
  assumes "0 < sqrt_a" "0 < sqrt_b"
    and "mint_position sqrt_price sqrt_a sqrt_b avail = Inr (Continue (l, need, opened_amounts))"
  shows "0 < l \<and> fst need \<le> fst avail \<and> snd need \<le> snd avail \<and> 0 \<le> fst need \<and> 0 \<le> snd need
    \<and> 0 \<le> fst opened_amounts \<and> 0 \<le> snd opened_amounts
    \<and> get_amounts_for_liquidity sqrt_price sqrt_a sqrt_b l True = Inr need"
proof -
  obtain l0 minted where loop: "mint_loop 4 sqrt_price sqrt_a sqrt_b avail l0 = Inr minted"
      and rest: "(case minted of None \<Rightarrow> ok (Skipped ''mint rounding could not be satisfied'')
        | Some (liquidity, need) \<Rightarrow> if liquidity \<le> 0 then ok (Skipped ''position size below minimum'')
            else rbind (get_amounts_for_liquidity sqrt_price sqrt_a sqrt_b liquidity False) (\<lambda>amounts.
              ok (Continue (liquidity, need, amounts)))) = Inr (Continue (l, need, opened_amounts))"
    using assms(3) unfolding mint_position_def by blast
  obtain liquidity n where "minted = Some (liquidity, n)" using rest by (cases minted) auto
  then have "minted = Some (l, need)" "0 < l"
      and opened: "get_amounts_for_liquidity sqrt_price sqrt_a sqrt_b l False = Inr opened_amounts"
    using rest by (auto split: if_split_asm)
  moreover from this have "fst need \<le> fst avail \<and> snd need \<le> snd avail"
      and need: "get_amounts_for_liquidity sqrt_price sqrt_a sqrt_b l True = Inr need"
    using mint_loop_affordable loop by blast+
  ultimately show ?thesis
    using amounts_nonneg [OF assms(1,2), of sqrt_price l True "fst need" "snd need"]
      amounts_nonneg [OF assms(1,2), of sqrt_price l False "fst opened_amounts" "snd opened_amounts"] opened by simp
qed

lemma exact_input_output:
  assumes "coherent_pool state" and "0 < tick_spacing window" and "simulate_exact_input state window zfo amt None = Inr q"
  shows "0 \<le> q_amount_out q"
proof -
  have amt: "0 < amt" and run: "simulate_swap state window zfo amt None = Inr q"
    using assms(3) by (auto simp: simulate_exact_input_def split: if_split_asm)
  then have "limit_accepted state zfo None" using simulate_swap_rejected by fastforce
  then obtain r where "q = swap_quote_of state window zfo amt r" "run_finished zfo (swap_limit zfo None) (ps_sqrt_price_x96 state) amt r"
    using simulate_swap_ends [OF assms(1,2), of amt zfo None] amt run by auto
  then show ?thesis by (simp add: swap_quote_of_def Let_def run_finished_def run_inv_def)
qed

text \<open>What a swap leaves is never negative, and moves exactly the reported amounts.\<close>

definition swapped_from :: "int \<Rightarrow> int \<Rightarrow> SwapLegs \<Rightarrow> bool" where
  "swapped_from idle_base idle_quote legs \<longleftrightarrow> 0 \<le> sl_swap_in legs \<and> 0 \<le> sl_swap_out legs
     \<and> 0 \<le> sl_idle_base legs \<and> 0 \<le> sl_idle_quote legs
     \<and> (if sl_sells_base legs = Some True
         then sl_idle_base legs = idle_base - sl_swap_in legs \<and> sl_idle_quote legs = idle_quote + sl_swap_out legs
         else sl_idle_base legs = idle_base + sl_swap_out legs \<and> sl_idle_quote legs = idle_quote - sl_swap_in legs)"

lemma planned_swap_in_bounds:
  assumes "libm_ok m" and "0 < price" and "0 \<le> idle_base" "0 \<le> idle_quote"
    and "planned_swap_in m meta excess price idle_base idle_quote = Inr n"
  shows "0 \<le> n \<and> (if excess > 0 then n \<le> idle_base else n \<le> idle_quote)"
proof -
  have ten: "0 \<le> ten_to m d" for d
    using assms(1) lit_nonneg [of "10 ^ nat d"] lit_nonneg [of 10]
    by (auto simp: ten_to_def float_of_int_def libm_ok_def)
  have size: "0 \<le> int_of_float (x * ten_to m d)" if "0 \<le> x" for x d
    using int_of_float_bounds [OF f64_mult_nonneg [OF that ten]] by blast
  show ?thesis
  proof (cases "excess > 0")
    case True
    then have "0 \<le> excess / price" using assms(2) by (intro f64_divide_nonneg) simp_all
    then show ?thesis using assms(2,3,5) True size by (auto simp: planned_swap_in_def)
  next
    case False
    then have "0 \<le> - excess" by simp
    then show ?thesis using assms(4,5) False size [of "- excess"] by (auto simp: planned_swap_in_def)
  qed
qed

lemma swap_to_ratio_sound:
  assumes "libm_ok m" and "good_snapshot snapshot" and "sn_window snapshot = Some window"
    and "0 \<le> idle_base" "0 \<le> idle_quote"
    and "swap_to_ratio m snapshot window value_before excess idle_base idle_quote = Inr (Continue legs)"
  shows "swapped_from idle_base idle_quote legs"
proof -
  let ?meta = "sn_metadata snapshot" and ?price = "sn_price snapshot"
  let ?zfo = "if excess > 0 then md_base_is_token0 ?meta else \<not> md_base_is_token0 ?meta"
  have price: "0 < ?price" and pool: "coherent_pool (pool_state_from_snapshot snapshot)" "0 < tick_spacing window"
    using assms(2,3) by (simp_all add: good_snapshot_def)
  show ?thesis
  proof (cases "\<bar>excess\<bar> > value_before * MIN_SWAP_VALUE_FRACTION")
    case False
    then show ?thesis using assms(4-6) by (auto simp: swap_to_ratio_def Let_def no_swap_def swapped_from_def)
  next
    case True
    then obtain n where n: "planned_swap_in m ?meta excess ?price idle_base idle_quote = Inr n"
      using assms(6) by (auto simp: swap_to_ratio_def Let_def)
    note bounds = planned_swap_in_bounds [OF assms(1) price assms(4,5) n]
    show ?thesis
    proof (cases "n \<le> 0")
      case True
      then show ?thesis using \<open>\<bar>excess\<bar> > _\<close> assms(4-6) n bounds
        by (auto simp: swap_to_ratio_def Let_def no_swap_def swapped_from_def)
    next
      case False
      then obtain quote impact where quote: "simulate_exact_input (pool_state_from_snapshot snapshot) window ?zfo n None = Inr quote"
          and legs: "legs = \<lparr> sl_idle_base = (if excess > 0 then idle_base - n else idle_base + q_amount_out quote),
              sl_idle_quote = (if excess > 0 then idle_quote + q_amount_out quote else idle_quote - n),
              sl_sells_base = Some (excess > 0), sl_swap_in = n, sl_swap_out = q_amount_out quote, sl_impact_bps = impact \<rparr>"
        using \<open>\<bar>excess\<bar> > _\<close> assms(6) n by (auto simp: swap_to_ratio_def Let_def split: option.split_asm)
      then show ?thesis
        using exact_input_output [OF pool quote] bounds assms(4,5) by (auto simp: swapped_from_def split: if_splits)
    qed
  qed
qed

text \<open>What a new position costs, in base and quote, with the pool's rounding.\<close>

definition minting_cost :: "PoolMetadata \<Rightarrow> V3PoolSnapshot \<Rightarrow> int \<Rightarrow> int \<Rightarrow> int \<Rightarrow> (int \<times> int) res" where
  "minting_cost meta snapshot lower upper liquidity =
     rbind (get_sqrt_ratio_at_tick lower) (\<lambda>a. rbind (get_sqrt_ratio_at_tick upper) (\<lambda>b.
     rbind (get_amounts_for_liquidity (sn_sqrt_price_x96 snapshot) a b liquidity True) (\<lambda>need. ok (to_base_quote meta need))))"

lemma rebalance_plan_parts:
  assumes "rebalance_plan m book meta ledger snapshot center = Inr (Continue plan)"
  shows "\<exists>window a b pb pq vb ex need opened_amounts. sn_window snapshot = Some window
    \<and> get_sqrt_ratio_at_tick (rt_tick_lower (pl_target plan)) = Inr a
    \<and> get_sqrt_ratio_at_tick (rt_tick_upper (pl_target plan)) = Inr b
    \<and> principal meta ledger snapshot = Inr (pb, pq)
    \<and> swap_to_ratio m snapshot window vb ex (lg_idle_base ledger + pb + lg_fees_base ledger)
        (lg_idle_quote ledger + pq + lg_fees_quote_raw ledger) = Inr (Continue (pl_legs plan))
    \<and> mint_position (sn_sqrt_price_x96 snapshot) a b (to_tokens meta (sl_idle_base (pl_legs plan), sl_idle_quote (pl_legs plan)))
        = Inr (Continue (pl_liquidity plan, need, opened_amounts))
    \<and> pl_need plan = to_base_quote meta need \<and> pl_opened plan = to_base_quote meta opened_amounts"
proof -
  obtain window where window: "sn_window snapshot = Some window"
    using assms by (cases "sn_window snapshot") (simp_all add: rebalance_plan_def)
  show ?thesis
    using assms unfolding rebalance_plan_def window option.case Let_def
    by (elim rbind_InrE, auto simp: case_prod_beta split: if_split_asm, blast)
qed

lemma rebalance_plan_sound:
  assumes "libm_ok m" and "good_snapshot snapshot" and "balances_sound ledger"
    and "rebalance_plan m book meta ledger snapshot center = Inr (Continue plan)"
  shows "\<exists>pb pq. principal meta ledger snapshot = Inr (pb, pq)
    \<and> swapped_from (lg_idle_base ledger + pb + lg_fees_base ledger) (lg_idle_quote ledger + pq + lg_fees_quote_raw ledger) (pl_legs plan)
    \<and> 0 < pl_liquidity plan
    \<and> minting_cost meta snapshot (rt_tick_lower (pl_target plan)) (rt_tick_upper (pl_target plan)) (pl_liquidity plan) = Inr (pl_need plan)
    \<and> fst (pl_need plan) \<le> sl_idle_base (pl_legs plan) \<and> snd (pl_need plan) \<le> sl_idle_quote (pl_legs plan)
    \<and> 0 \<le> fst (pl_opened plan) \<and> 0 \<le> snd (pl_opened plan)
    \<and> bounds_set (Some (rt_tick_lower (pl_target plan))) (Some (rt_tick_upper (pl_target plan)))"
proof -
  obtain window a b pb pq vb ex need opened_amounts where window: "sn_window snapshot = Some window"
    and a: "get_sqrt_ratio_at_tick (rt_tick_lower (pl_target plan)) = Inr a"
    and b: "get_sqrt_ratio_at_tick (rt_tick_upper (pl_target plan)) = Inr b"
    and burned: "principal meta ledger snapshot = Inr (pb, pq)"
    and swap: "swap_to_ratio m snapshot window vb ex (lg_idle_base ledger + pb + lg_fees_base ledger)
        (lg_idle_quote ledger + pq + lg_fees_quote_raw ledger) = Inr (Continue (pl_legs plan))"
    and mint: "mint_position (sn_sqrt_price_x96 snapshot) a b (to_tokens meta (sl_idle_base (pl_legs plan), sl_idle_quote (pl_legs plan)))
        = Inr (Continue (pl_liquidity plan, need, opened_amounts))"
    and pair: "pl_need plan = to_base_quote meta need" "pl_opened plan = to_base_quote meta opened_amounts"
    using rebalance_plan_parts [OF assms(4)] by blast
  have "0 \<le> lg_idle_base ledger + pb + lg_fees_base ledger" "0 \<le> lg_idle_quote ledger + pq + lg_fees_quote_raw ledger"
    using principal_nonneg [OF burned] assms(3) by (simp_all add: balances_sound_def)
  note legs = swap_to_ratio_sound [OF assms(1,2) window this swap]
  have ab: "0 < a" "0 < b" using sqrt_ratio_result a b by blast+
  note minted = mint_position_sound [OF ab mint]
  have "bounds_set (Some (rt_tick_lower (pl_target plan))) (Some (rt_tick_upper (pl_target plan)))"
    using sqrt_ratio_result [OF a] sqrt_ratio_result [OF b] by (simp add: bounds_set_def)
  moreover have "minting_cost meta snapshot (rt_tick_lower (pl_target plan)) (rt_tick_upper (pl_target plan)) (pl_liquidity plan) = Inr (pl_need plan)"
    using a b minted pair by (cases need) (simp add: minting_cost_def)
  moreover have "fst (pl_need plan) \<le> sl_idle_base (pl_legs plan)" "snd (pl_need plan) \<le> sl_idle_quote (pl_legs plan)"
      "0 \<le> fst (pl_opened plan)" "0 \<le> snd (pl_opened plan)"
    using minted pair by (simp_all add: to_base_quote_def to_tokens_def split: if_splits)
  ultimately show ?thesis using legs minted burned by blast
qed

lemma rebalance_sound:
  assumes "libm_ok m" and "good_snapshot snapshot" and "ledger_sound ledger"
  shows "ledger_sound (fst (rebalance m book meta ledger snapshot center reason))"
proof (cases "rebalance_plan m book meta ledger snapshot center")
  case (Inr r)
  show ?thesis
  proof (cases r)
    case (Continue plan)
    have "balances_sound ledger" using assms(3) by (simp add: ledger_sound_def)
    from rebalance_plan_sound [OF assms(1,2) this] Inr Continue
    show ?thesis using assms(3)
      by (auto simp: rebalance_def commit_plan_def ledger_sound_def balances_sound_def position_sound_def)
  qed (simp add: rebalance_def Inr assms)
qed (simp add: rebalance_def assms)

section \<open>Observations\<close>

lemma advance_ledger_sound:
  assumes "libm_ok m" and "good_snapshot snapshot" and "ledger_sound ledger"
  shows "ledger_sound (fst (advance_ledger m book meta ledger snapshot center kill))"
proof -
  obtain accrued where "accrue_since_last m meta ledger snapshot = Inr accrued" "ledger_sound accrued"
    using accrue_since_last_sound [OF assms(3,2)] by blast
  then show ?thesis
    using rebalance_sound [OF assms(1,2)] by (auto simp: advance_ledger_def split: sum.split option.split)
qed

lemma record_state_ledger [simp]: "bk_ledger (fst (record_state m book meta mark kill s events)) = bk_ledger book"
  by (auto simp: record_state_def split: sum.split)

lemma observe_sound:
  assumes "libm_ok m" and "good_snapshot snapshot" and "ledger_sound (bk_ledger book)"
  shows "ledger_sound (bk_ledger (fst (observe m book meta snapshot center kill)))"
proof -
  have "ledger_sound (fst (advance_ledger m book meta ((bk_ledger book)\<lparr> lg_status_note := None \<rparr>) snapshot center kill))"
    using advance_ledger_sound [OF assms(1,2)] assms(3) by simp
  then show ?thesis
    using assms(2,3) ledger_sound_last by (auto simp: observe_def Let_def split: prod.split sum.split)
qed

lemma initialize_book_sound:
  assumes "libm_ok m" and "0 \<le> bk_capital book" and "ledger_sound (bk_ledger book)"
    and "initialize_book m book meta = Inr started"
  shows "ledger_sound (bk_ledger started)"
proof -
  have "0 \<le> ten_to m d" for d
    using assms(1) lit_nonneg [of "10 ^ nat d"] lit_nonneg [of 10] by (auto simp: ten_to_def float_of_int_def libm_ok_def)
  then have "0 \<le> bk_capital book * ten_to m (quote_decimals meta)" by (rule f64_mult_nonneg [OF assms(2)])
  then have "rne (val 0) \<le> rne (val (bk_capital book * ten_to m (quote_decimals meta)))" by (intro rne_mono) (simp only: le_val)
  then have "0 \<le> rne (val (bk_capital book * ten_to m (quote_decimals meta)))"
    using rne_of_int [of 0] by (simp del: val_simps add: val_simps(1))
  then show ?thesis using assms(3,4)
    by (auto simp: initialize_book_def ledger_sound_def balances_sound_def position_sound_def)
qed

text \<open>The parts of a book no observation changes.\<close>

definition same_config :: "LpPaperBook \<Rightarrow> LpPaperBook \<Rightarrow> bool" where
  "same_config b b' \<longleftrightarrow> bk_strategy b' = bk_strategy b \<and> bk_capital b' = bk_capital b \<and> bk_gas_units b' = bk_gas_units b
     \<and> bk_priority_fee_wei b' = bk_priority_fee_wei b \<and> bk_fallback_gas_price_wei b' = bk_fallback_gas_price_wei b"

lemma observe_config: "same_config book (fst (observe m book meta snapshot center kill))"
proof -
  have "same_config b (fst (record_state m b meta mark kill s events))" for b mark s events
    by (auto simp: record_state_def same_config_def split: sum.split)
  then show ?thesis by (auto simp: observe_def Let_def same_config_def split: prod.split sum.split)
qed

lemma initialize_book_config: "initialize_book m book meta = Inr started \<Longrightarrow> same_config book started"
  by (auto simp: initialize_book_def same_config_def)

lemma same_config_trans: "same_config a b \<Longrightarrow> same_config b c \<Longrightarrow> same_config a c"
  by (simp add: same_config_def)

lemma lp_step_config: "same_config book (fst (lp_step m book snapshot center kill))"
proof -
  have "same_config book book" by (simp add: same_config_def)
  then show ?thesis
    using observe_config same_config_trans [OF initialize_book_config observe_config]
    by (auto simp: lp_step_def split: option.split sum.split)
qed

definition book_sound :: "LpPaperBook \<Rightarrow> bool" where
  "book_sound book \<longleftrightarrow> ledger_sound (bk_ledger book) \<and> 0 \<le> bk_capital book"

lemma lp_step_sound:
  assumes "libm_ok m" and "book_sound book" and "good_snapshot snapshot"
  shows "book_sound (fst (lp_step m book snapshot center kill))"
proof -
  have "ledger_sound (bk_ledger (fst (lp_step m book snapshot center kill)))"
    using observe_sound [OF assms(1,3)] initialize_book_sound [OF assms(1)] assms(2)
    by (auto simp: lp_step_def book_sound_def split: option.split sum.split)
  then show ?thesis using lp_step_config [of book m snapshot center kill] assms(2)
    by (simp add: book_sound_def same_config_def)
qed

section \<open>Histories\<close>

text \<open>A machine fed with inputs one after the other, each of which keeps what is promised and what is configured.\<close>

locale fed_machine =
  fixes step :: "'s \<Rightarrow> 'i \<Rightarrow> 's" and sound :: "'s \<Rightarrow> bool" and good :: "'i \<Rightarrow> bool" and same :: "'s \<Rightarrow> 's \<Rightarrow> bool"
  assumes keeps: "sound s \<Longrightarrow> good i \<Longrightarrow> sound (step s i)"
    and configured: "same s (step s i)" "same s s"
    and trans: "same s t \<Longrightarrow> same t u \<Longrightarrow> same s u"
begin

lemma run_keeps: "sound s \<Longrightarrow> list_all good is \<Longrightarrow> sound (foldl step s is)"
  by (induction "is" arbitrary: s) (auto simp: keeps)

lemma run_configured: "same s (foldl step s is)"
proof (induction "is" arbitrary: s)
  case (Cons i js)
  then show ?case using configured(1) [of s i] trans by fastforce
qed (simp add: configured)

end

type_synonym Observation = "V3PoolSnapshot \<times> f64 option \<times> bool"

definition lp_observe :: "Libm \<Rightarrow> LpPaperBook \<Rightarrow> Observation \<Rightarrow> LpPaperBook" where
  "lp_observe m book obs = fst (lp_step m book (fst obs) (fst (snd obs)) (snd (snd obs)))"

text \<open>The library the claims quantify over behaves as documented; every such library gives one instance.\<close>

typedef documented_libm = "{m. libm_ok m}" morphisms libm_of to_libm
  using exact_libm_ok by blast

interpretation lp: fed_machine "lp_observe (libm_of m)" book_sound "good_snapshot \<circ> fst" same_config
proof unfold_locales
  fix s t u :: LpPaperBook and i :: Observation
  have m: "libm_ok (libm_of m)" using libm_of [of m] by simp
  show "book_sound s \<Longrightarrow> (good_snapshot \<circ> fst) i \<Longrightarrow> book_sound (lp_observe (libm_of m) s i)"
    by (simp add: lp_observe_def lp_step_sound [OF m])
  show "same_config s (lp_observe (libm_of m) s i)" by (simp add: lp_observe_def lp_step_config)
  show "same_config s s" by (simp add: same_config_def)
  show "same_config s t \<Longrightarrow> same_config t u \<Longrightarrow> same_config s u" by (rule same_config_trans)
qed

text \<open>C15. From a book opened with capital that is not negative, whatever pool states are observed and whatever
  the kill switch does, no token balance, no fee and no liquidity of the ledger is ever negative, an
  open position has bounds the pool accepts, and the book has had at least as many epochs as
  rebalances; its configuration never changes.
\<close>

theorem lp_book_never_overdrawn:
  assumes "libm_ok m" and "0 \<le> capital" and "list_all (good_snapshot \<circ> fst) observations"
  shows "let book = book_init strategy capital gas_units priority_fee fallback_price;
      end = foldl (lp_observe m) book observations in ledger_sound (bk_ledger end) \<and> same_config book end"
proof -
  obtain m' where m: "libm_of m' = m" using assms(1) libm_of_cases [of m] by auto
  have "book_sound (book_init strategy capital gas_units priority_fee fallback_price)"
    using assms(2) by (simp add: book_sound_def book_init_def empty_ledger_def ledger_sound_def balances_sound_def position_sound_def)
  then show ?thesis using lp.run_keeps [of _ observations m'] lp.run_configured [of _ m' observations] assms(3)
    unfolding m Let_def by (simp add: book_sound_def)
qed

lemma example_snapshot_good: "good_snapshot example_snapshot"
  using example_pool_coherent
  by (simp add: good_snapshot_def example_snapshot_def example_metadata_def example_pool_def example_window_def
      pool_state_from_snapshot_def coherent_pool_def less_val val_lit_numeral)

theorem lp_book_never_overdrawn_witness:
  "let book = book_init example_strategy (lit 10000) 400000 (lit 1) (lit 10);
      end = foldl (lp_observe exact_libm) book [(example_snapshot, None, False), (example_snapshot, Some (lit 2001), True)]
    in ledger_sound (bk_ledger end) \<and> same_config book end"
  by (rule lp_book_never_overdrawn) (simp_all add: exact_libm_ok example_snapshot_good lit_nonneg)

section \<open>What a rebalance does\<close>

text \<open>C16. A rebalance neither makes nor loses a token: what was idle, burned and collected is what is idle
  afterwards, what the mint of the new range costs and what the reported swap moved. It collects all
  fees, starts the next epoch and reports the range it opened.
\<close>

theorem rebalance_conserves_tokens:
  assumes "libm_ok m" and "good_snapshot snapshot" and "ledger_sound ledger"
  shows "case rebalance m book meta ledger snapshot center reason of
      (ledger', Inr (Some ev)) \<Rightarrow>
        (\<exists>pb pq cost_base cost_quote. principal meta ledger snapshot = Inr (pb, pq)
          \<and> minting_cost meta snapshot (rb_new_tick_lower ev) (rb_new_tick_upper ev) (lg_liquidity ledger') = Inr (cost_base, cost_quote)
          \<and> lg_idle_base ledger' + cost_base = lg_idle_base ledger + pb + lg_fees_base ledger
              + (if rb_swap_sells_base ev = Some True then - rb_swap_amount_in ev else rb_swap_amount_out ev)
          \<and> lg_idle_quote ledger' + cost_quote = lg_idle_quote ledger + pq + lg_fees_quote_raw ledger
              + (if rb_swap_sells_base ev = Some True then rb_swap_amount_out ev else - rb_swap_amount_in ev))
        \<and> 0 \<le> rb_swap_amount_in ev \<and> 0 \<le> rb_swap_amount_out ev
        \<and> lg_fees_base ledger' = 0 \<and> lg_fees_quote_raw ledger' = 0 \<and> 0 < lg_liquidity ledger'
        \<and> lg_tick_lower ledger' = Some (rb_new_tick_lower ev) \<and> lg_tick_upper ledger' = Some (rb_new_tick_upper ev)
        \<and> rb_epoch_to ev = lg_epoch ledger' \<and> lg_epoch ledger' = lg_epoch ledger + 1
    | (ledger', _) \<Rightarrow> ledger' = ledger\<lparr> lg_status_note := lg_status_note ledger' \<rparr>"
proof (cases "rebalance_plan m book meta ledger snapshot center")
  case (Inr r)
  show ?thesis
  proof (cases r)
    case (Continue plan)
    have "balances_sound ledger" using assms(3) by (simp add: ledger_sound_def)
    from rebalance_plan_sound [OF assms(1,2) this] obtain pb pq where
      plan: "principal meta ledger snapshot = Inr (pb, pq)" "0 < pl_liquidity plan"
        "swapped_from (lg_idle_base ledger + pb + lg_fees_base ledger) (lg_idle_quote ledger + pq + lg_fees_quote_raw ledger) (pl_legs plan)"
        "minting_cost meta snapshot (rt_tick_lower (pl_target plan)) (rt_tick_upper (pl_target plan)) (pl_liquidity plan) = Inr (pl_need plan)"
      using Inr Continue by blast
    moreover obtain cb cq where "pl_need plan = (cb, cq)" by fastforce
    ultimately show ?thesis using Inr Continue
      by (auto simp: rebalance_def commit_plan_def rebalance_event_def swapped_from_def)
  qed (simp add: rebalance_def Inr)
qed (simp add: rebalance_def)

theorem rebalance_conserves_tokens_witness:
  "case rebalance exact_libm (book_init example_strategy (lit 10000) 400000 (lit 1) (lit 10)) example_metadata
      (empty_ledger\<lparr> lg_idle_quote := 10 ^ 10 \<rparr>) example_snapshot (lit 2000) opened of
      (ledger', Inr (Some ev)) \<Rightarrow>
        (\<exists>pb pq cost_base cost_quote. principal example_metadata (empty_ledger\<lparr> lg_idle_quote := 10 ^ 10 \<rparr>) example_snapshot = Inr (pb, pq)
          \<and> minting_cost example_metadata example_snapshot (rb_new_tick_lower ev) (rb_new_tick_upper ev) (lg_liquidity ledger') = Inr (cost_base, cost_quote)
          \<and> lg_idle_base ledger' + cost_base = lg_idle_base (empty_ledger\<lparr> lg_idle_quote := 10 ^ 10 \<rparr>) + pb + lg_fees_base (empty_ledger\<lparr> lg_idle_quote := 10 ^ 10 \<rparr>)
              + (if rb_swap_sells_base ev = Some True then - rb_swap_amount_in ev else rb_swap_amount_out ev)
          \<and> lg_idle_quote ledger' + cost_quote = lg_idle_quote (empty_ledger\<lparr> lg_idle_quote := 10 ^ 10 \<rparr>) + pq + lg_fees_quote_raw (empty_ledger\<lparr> lg_idle_quote := 10 ^ 10 \<rparr>)
              + (if rb_swap_sells_base ev = Some True then rb_swap_amount_out ev else - rb_swap_amount_in ev))
        \<and> 0 \<le> rb_swap_amount_in ev \<and> 0 \<le> rb_swap_amount_out ev
        \<and> lg_fees_base ledger' = 0 \<and> lg_fees_quote_raw ledger' = 0 \<and> 0 < lg_liquidity ledger'
        \<and> lg_tick_lower ledger' = Some (rb_new_tick_lower ev) \<and> lg_tick_upper ledger' = Some (rb_new_tick_upper ev)
        \<and> rb_epoch_to ev = lg_epoch ledger' \<and> lg_epoch ledger' = lg_epoch (empty_ledger\<lparr> lg_idle_quote := 10 ^ 10 \<rparr>) + 1
    | (ledger', _) \<Rightarrow> ledger' = (empty_ledger\<lparr> lg_idle_quote := 10 ^ 10 \<rparr>)\<lparr> lg_status_note := lg_status_note ledger' \<rparr>"
  by (rule rebalance_conserves_tokens)
    (simp_all add: exact_libm_ok example_snapshot_good ledger_sound_def balances_sound_def position_sound_def empty_ledger_def)

text \<open>C20. The loop that lowers the liquidity never runs a second time: what \<open>get_liquidity_for_amounts\<close> returns
  is affordable at once, so a rebalance is never skipped for mint rounding.
\<close>

theorem mint_needs_no_adjustment:
  assumes "0 < sqrt_a" "0 < sqrt_b" "sqrt_a \<noteq> sqrt_b" and "0 \<le> fst avail" "0 \<le> snd avail"
  shows "mint_position sqrt_price sqrt_a sqrt_b avail = Inr (Skipped ''position size below minimum'')
    \<or> (\<exists>l need opened_amounts. mint_position sqrt_price sqrt_a sqrt_b avail = Inr (Continue (l, need, opened_amounts))
        \<and> get_liquidity_for_amounts sqrt_price sqrt_a sqrt_b (fst avail) (snd avail) = Inr l \<and> 0 < l)"
proof -
  obtain l opened_amounts where l: "get_liquidity_for_amounts sqrt_price sqrt_a sqrt_b (fst avail) (snd avail) = Inr l"
      "get_amounts_for_liquidity sqrt_price sqrt_a sqrt_b l False = Inr opened_amounts"
    using mint_affordable [OF assms, of sqrt_price] by auto
  moreover from this obtain need where "mint_loop (Suc 3) sqrt_price sqrt_a sqrt_b avail l = Inr (Some (l, need))"
    using mint_first_try [OF assms] by blast
  then have "mint_loop 4 sqrt_price sqrt_a sqrt_b avail l = Inr (Some (l, need))" by (simp only: numeral_3_eq_3 [symmetric] Suc_numeral semiring_norm)
  ultimately show ?thesis by (cases opened_amounts) (auto simp: mint_position_def)
qed

theorem mint_needs_no_adjustment_witness:
  "mint_position (2 ^ 96) (2 ^ 95) (2 ^ 97) (10 ^ 9, 10 ^ 9) = Inr (Skipped ''position size below minimum'')
    \<or> (\<exists>l need opened_amounts. mint_position (2 ^ 96) (2 ^ 95) (2 ^ 97) (10 ^ 9, 10 ^ 9) = Inr (Continue (l, need, opened_amounts))
        \<and> get_liquidity_for_amounts (2 ^ 96) (2 ^ 95) (2 ^ 97) (fst (10 ^ 9, 10 ^ 9 :: int)) (snd (10 ^ 9 :: int, 10 ^ 9)) = Inr l \<and> 0 < l)"
  by (rule mint_needs_no_adjustment) simp_all

definition rebalance_allowed ::
    "ConcentratedLpStrategy \<Rightarrow> Ledger \<Rightarrow> V3PoolSnapshot \<Rightarrow> bool \<Rightarrow> RebalanceReason \<Rightarrow> bool" where
  "rebalance_allowed strategy l snapshot kill reason \<longleftrightarrow> \<not> kill \<and> \<not> sn_is_stale snapshot
     \<and> (if lg_liquidity l > 0 then
          (case lg_last_rebalance_at l of None \<Rightarrow> True
           | Some t \<Rightarrow> st_cooldown_sec strategy \<le> total_seconds (sn_block_timestamp snapshot - t))
          \<and> (case (lg_tick_lower l, lg_tick_upper l, lg_range_center l) of
               (Some lower, Some upper, Some c) \<Rightarrow>
                 if in_tick_range (sn_tick snapshot) lower upper
                 then reason = drift \<and> 0 < c
                   \<and> st_rebalance_threshold_bps strategy < \<bar>sn_price snapshot - c\<bar> / c * lit 10000
                 else reason = left_range
             | (Some lower, Some upper, None) \<Rightarrow> \<not> in_tick_range (sn_tick snapshot) lower upper \<and> reason = left_range
             | _ \<Rightarrow> False)
        else reason = opened)"

lemma rebalance_reason_rule:
  assumes "rebalance_reason strategy (lg_liquidity l > 0) (lg_tick_lower l) (lg_tick_upper l) (lg_range_center l) snapshot
      (lg_last_rebalance_at l) (sn_block_timestamp snapshot) kill = Inr (Some reason)"
  shows "rebalance_allowed strategy l snapshot kill reason"
  using assms by (auto simp: rebalance_reason_def rebalance_allowed_def not_less split: option.splits if_splits)

lemma rebalance_allowed_same: "same_position l l' \<Longrightarrow> rebalance_allowed strategy l' s kill r = rebalance_allowed strategy l s kill r"
  by (simp add: rebalance_allowed_def same_position_def)

lemma rebalance_event_reason: "rebalance m book meta l s c reason = (l', Inr (Some ev)) \<Longrightarrow> rb_reason ev = reason"
  by (auto simp: rebalance_def rebalance_event_def split: sum.split_asm outcome.split_asm)

lemma advance_ledger_allowed:
  assumes "ledger_sound l" and "good_snapshot snapshot"
    and "advance_ledger m book meta l snapshot center kill = (l', Inr (Some ev))"
  shows "rebalance_allowed (bk_strategy book) l snapshot kill (rb_reason ev)"
proof -
  obtain accrued where accrued: "accrue_since_last m meta l snapshot = Inr accrued" "same_position l accrued"
    using accrue_since_last_sound [OF assms(1,2)] by blast
  obtain reason where "rebalance_reason (bk_strategy book) (lg_liquidity accrued > 0) (lg_tick_lower accrued) (lg_tick_upper accrued)
        (lg_range_center accrued) snapshot (lg_last_rebalance_at accrued) (sn_block_timestamp snapshot) kill = Inr (Some reason)"
      and "rb_reason ev = reason"
    using assms(3) accrued(1) rebalance_event_reason
    by (auto simp: advance_ledger_def split: sum.split_asm option.split_asm)
  then show ?thesis
    using rebalance_reason_rule [of "bk_strategy book" accrued] rebalance_allowed_same [OF accrued(2)] by simp
qed

lemma observe_events:
  assumes "ledger_sound (bk_ledger book)" and "good_snapshot snapshot"
    and "observe m book meta snapshot center kill = (book', Inr (state, events))"
  shows "list_all (\<lambda>ev. rebalance_allowed (bk_strategy book) (bk_ledger book) snapshot kill (rb_reason ev)) events"
proof -
  let ?l = "(bk_ledger book)\<lparr> lg_status_note := None \<rparr>"
  have l: "ledger_sound ?l" "same_position (bk_ledger book) ?l" using assms(1) by (simp_all add: same_position_def)
  have recorded: "record_state m b meta mark kill s evs = (b', Inr (st, evs')) \<Longrightarrow> evs' = evs" for b mark s evs b' st evs'
    by (auto simp: record_state_def split: sum.split_asm)
  show ?thesis
  proof (cases "sn_is_stale snapshot")
    case True
    then have "events = []" using assms(3) recorded by (auto simp: observe_def Let_def)
    then show ?thesis by simp
  next
    case False
    then obtain after event where adv: "advance_ledger m book meta ?l snapshot center kill = (after, Inr event)"
        and events: "events = (case event of None \<Rightarrow> [] | Some ev \<Rightarrow> [ev])"
      using assms(3) recorded by (auto simp: observe_def Let_def split: prod.split_asm sum.split_asm)
    show ?thesis
    proof (cases event)
      case (Some ev)
      then show ?thesis
        using advance_ledger_allowed [OF l(1) assms(2)] adv events rebalance_allowed_same [OF l(2)] by simp
    qed (simp add: events)
  qed
qed

text \<open>C17. A position is only ever moved on a fresh observation with the kill switch off: to open one when there
  is none, and otherwise after the cooldown, when the pool left the range or drifted from its center
  by more than the threshold.
\<close>

theorem rebalances_only_when_allowed:
  assumes "libm_ok m" and "book_sound book" and "good_snapshot snapshot"
  shows "case lp_step m book snapshot center kill of
      (_, Inl e) \<Rightarrow> True
    | (_, Inr (state, events)) \<Rightarrow>
        list_all (\<lambda>ev. rebalance_allowed (bk_strategy book) (bk_ledger book) snapshot kill (rb_reason ev)) events"
proof (cases "lp_step m book snapshot center kill")
  case (Pair book' result)
  show ?thesis
  proof (cases result)
    case (Inr out)
    obtain state events where out: "out = (state, events)" by (cases out)
    have sound: "ledger_sound (bk_ledger book)" "0 \<le> bk_capital book" using assms(2) by (simp_all add: book_sound_def)
    show ?thesis
    proof (cases "bk_meta book")
      case (Some meta)
      then show ?thesis using Pair Inr out observe_events [OF sound(1) assms(3)] by (auto simp: lp_step_def)
    next
      case None
      then obtain started where started: "initialize_book m book (sn_metadata snapshot) = Inr started"
          and run: "observe m started (sn_metadata snapshot) snapshot center kill = (book', Inr (state, events))"
        using Pair Inr out by (auto simp: lp_step_def split: sum.split_asm)
      have moved: "same_position (bk_ledger book) (bk_ledger started)" "bk_strategy started = bk_strategy book"
        using started by (auto simp: initialize_book_def same_position_def)
      have "ledger_sound (bk_ledger started)" using initialize_book_sound [OF assms(1) sound(2,1) started] .
      then show ?thesis
        using Pair Inr out observe_events [OF _ assms(3) run] moved(2) rebalance_allowed_same [OF moved(1)] by simp
    qed
  qed (simp add: Pair)
qed

theorem rebalances_only_when_allowed_witness:
  "case lp_step exact_libm (book_init example_strategy (lit 10000) 400000 (lit 1) (lit 10)) example_snapshot None False of
      (_, Inl e) \<Rightarrow> True
    | (_, Inr (state, events)) \<Rightarrow>
        list_all (\<lambda>ev. rebalance_allowed (bk_strategy (book_init example_strategy (lit 10000) 400000 (lit 1) (lit 10)))
          (bk_ledger (book_init example_strategy (lit 10000) 400000 (lit 1) (lit 10))) example_snapshot False (rb_reason ev)) events"
  by (rule rebalances_only_when_allowed)
    (simp_all add: exact_libm_ok example_snapshot_good book_sound_def book_init_def lit_nonneg ledger_sound_def
      balances_sound_def position_sound_def empty_ledger_def)

section \<open>Checkpoints\<close>

text \<open>
  A checkpoint taken before any observations and restored after them gives back the same book: the loop
  can drop a tick that failed half way.
\<close>

theorem lp_checkpoint_rolls_back:
  "lp_restore (foldl (lp_observe m) book observations) (lp_checkpoint book) = book"
proof -
  have "same_config book (foldl (lp_observe m) book observations)"
  proof (induction observations arbitrary: book)
    case (Cons obs rest)
    show ?case using same_config_trans [OF lp_step_config Cons.IH] by (simp add: lp_observe_def)
  qed (simp add: same_config_def)
  then show ?thesis by (simp add: lp_restore_def lp_checkpoint_def same_config_def)
qed

end
