(* ===== verification/Executor_Simulator.thy ===== *)
theory Executor_Simulator
  imports Mempool_Models Py_Dict
begin

text \<open>
  \<open>app/adapters/dex/executor_simulator.py\<close> and \<open>app/adapters/dex/v2_reserves.py\<close>: what is sent to the node
  and what is read from its answer. The node is the argument \<open>node\<close> (a function of the call, the block and the
  state overrides); the ABI codec, Keccak and the EIP-55 checksum are those of \<open>eth_abi\<close> and
  \<open>eth_utils\<close>; the compiled contract is read from a JSON artifact.
\<close>

record EthTx =
  tx_from :: "string option"
  tx_to :: "string option"
  tx_data :: string

record AccountOverride =
  ao_code :: "string option"
  ao_state_diff :: "(string, string) dict"

type_synonym Overrides = "(string, AccountOverride) dict"

record Codec =
  cd_abi :: Abi
  cd_encode :: "string list \<Rightarrow> AbiValue list \<Rightarrow> bytes res"
  cd_checksum :: "string \<Rightarrow> string res"
  cd_keccak_bytes :: "bytes \<Rightarrow> bytes"

type_synonym Node = "EthTx \<Rightarrow> int \<Rightarrow> Overrides \<Rightarrow> (bool \<times> bytes) res"

record Artifact =
  af_bytecode :: string
  af_errors :: "(string \<times> string list) list"

record RawSimulation =
  rs_reverted_with_result :: bool
  rs_profit :: "int option"
  rs_v3_amount_in :: "int option"
  rs_v3_amount_out :: "int option"
  rs_v2_amount_in :: "int option"
  rs_v2_amount_out :: "int option"
  rs_contract_gas :: "int option"
  rs_total_gas :: "int option"
  rs_error_name :: "string option"

definition EXECUTE_OVERHEAD_GAS :: int where "EXECUTE_OVERHEAD_GAS = 5200"
definition TX_BASE_GAS :: int where "TX_BASE_GAS = 21000"
definition OWNER_SLOT :: int where "OWNER_SLOT = 0"
definition SIMULATE_SIGNATURE :: string where "SIMULATE_SIGNATURE = ''simulate((uint8,uint256,uint256,uint256))''"
definition SLOT_PROBE_RANGE :: "int list" where "SLOT_PROBE_RANGE = [0..31]"
definition SLOT_MARKER :: int where "SLOT_MARKER = 0x5EED0000000000000000000000000042"
definition ERC20_BALANCE_OF :: string where "ERC20_BALANCE_OF = ''balanceOf(address)''"

definition selector :: "Codec \<Rightarrow> string \<Rightarrow> bytes" where
  "selector c signature = take 4 (abi_keccak (cd_abi c) signature)"

definition last_bytes :: "nat \<Rightarrow> bytes \<Rightarrow> bytes" where
  "last_bytes n bs = drop (length bs - n) bs"

definition derived_address :: "Codec \<Rightarrow> string \<Rightarrow> string res" where
  "derived_address c text = cd_checksum c (''0x'' @ bytes_hex (last_bytes 20 (abi_keccak (cd_abi c) text)))"

definition EXECUTOR_ADDRESS :: "Codec \<Rightarrow> string res" where
  "EXECUTOR_ADDRESS c = derived_address c ''crypto-mm-lab/flash-arb/executor''"

definition OWNER_ADDRESS :: "Codec \<Rightarrow> string res" where
  "OWNER_ADDRESS c = derived_address c ''crypto-mm-lab/flash-arb/owner''"

definition intrinsic_gas :: "bytes \<Rightarrow> int" where
  "intrinsic_gas calldata = TX_BASE_GAS + sum_list (map (\<lambda>b. if b \<noteq> 0 then 16 else 4) calldata)"

text \<open>\<open>value.to_bytes(32, "big")\<close>, most significant byte first.\<close>

definition to_bytes32 :: "int \<Rightarrow> bytes res" where
  "to_bytes32 n =
     (if 0 \<le> n \<and> n < 2 ^ 256 then ok (map (\<lambda>i. word_of_int (n div 256 ^ i)) (rev [0..<32])) else raise_error OverflowError)"

definition hex32 :: "int \<Rightarrow> string res" where
  "hex32 n = rbind (to_bytes32 n) (\<lambda>bs. ok (''0x'' @ bytes_hex bs))"

definition mapping_slot :: "Codec \<Rightarrow> string \<Rightarrow> int \<Rightarrow> string res" where
  "mapping_slot c key slot =
     rbind (cd_checksum c key) (\<lambda>address.
     rbind (cd_encode c [''address'', ''uint256''] [AbiAddress address, AbiInt slot]) (\<lambda>encoded.
       ok (''0x'' @ bytes_hex (cd_keccak_bytes c encoded))))"

definition join_types :: "string list \<Rightarrow> string" where
  "join_types ts = (case ts of [] \<Rightarrow> '''' | t # rest \<Rightarrow> t @ concat (map (\<lambda>s. '','' @ s) rest))"

definition error_selectors :: "Codec \<Rightarrow> Artifact \<Rightarrow> (bytes, string \<times> string list) dict" where
  "error_selectors c artifact =
     fold (\<lambda>(name, types). dict_set (selector c (name @ ''('' @ join_types types @ '')'')) (name, types)) (af_errors artifact) []"

section \<open>The simulator\<close>

record ExecutorSimulator =
  es_codec :: Codec
  es_artifact :: Artifact
  es_usdc :: string
  es_constructor_args :: bytes
  es_subsidy_raw :: int
  es_runtime_code :: "bytes option"
  es_usdc_balance_slot :: "int option"

definition simulator_init ::
    "Codec \<Rightarrow> Artifact \<Rightarrow> string \<Rightarrow> string \<Rightarrow> string \<Rightarrow> string \<Rightarrow> int \<Rightarrow> ExecutorSimulator res" where
  "simulator_init c artifact v3_pool v2_pair usdc weth subsidy_raw =
     rbind (cd_checksum c usdc) (\<lambda>usdc_address.
     rbind (res_map (cd_checksum c) [v3_pool, v2_pair]) (\<lambda>pools.
     rbind (cd_checksum c weth) (\<lambda>weth_address.
     rbind (OWNER_ADDRESS c) (\<lambda>owner.
     rbind (cd_encode c (replicate 5 ''address'') (map AbiAddress (pools @ [usdc_address, weth_address, owner]))) (\<lambda>args.
       ok \<lparr> es_codec = c, es_artifact = artifact, es_usdc = usdc_address, es_constructor_args = args,
            es_subsidy_raw = subsidy_raw, es_runtime_code = None, es_usdc_balance_slot = None \<rparr>)))))"

definition remove_0x :: "string \<Rightarrow> string" where
  "remove_0x s = (if take 2 s = ''0x'' then drop 2 s else s)"

definition creation_code :: "ExecutorSimulator \<Rightarrow> bytes res" where
  "creation_code sim =
     rbind (bytes_fromhex (remove_0x (af_bytecode (es_artifact sim)))) (\<lambda>code. ok (code @ es_constructor_args sim))"

text \<open>\<open>message_text\<close> is the decoding of a revert string; the name of an error that the artifact knows.\<close>

definition decode_known :: "Abi \<Rightarrow> string \<Rightarrow> string list \<Rightarrow> bytes \<Rightarrow> string option \<times> AbiValue list" where
  "decode_known abi name types body =
     (Some name, if types = [] then [] else case abi_decode abi types body of Inl e \<Rightarrow> [] | Inr vs \<Rightarrow> vs)"

definition decode_revert :: "(bytes \<Rightarrow> string res) \<Rightarrow> ExecutorSimulator \<Rightarrow> bytes \<Rightarrow> (string option \<times> AbiValue list) res" where
  "decode_revert message_text sim data =
     (if length data < 4 then ok (None, [])
      else
        (case dict_get (error_selectors (es_codec sim) (es_artifact sim)) (take 4 data) of
           Some (name, types) \<Rightarrow> ok (decode_known (cd_abi (es_codec sim)) name types (drop 4 data))
         | None \<Rightarrow>
             if take 4 data = selector (es_codec sim) ''Error(string)''
             then rbind (message_text (drop 4 data)) (\<lambda>message. ok (Some (''Error('' @ message @ '')''), []))
             else ok (None, [])))"

definition or_text :: "string \<Rightarrow> string option \<Rightarrow> string" where
  "or_text fallback name = (case name of None \<Rightarrow> fallback | Some n \<Rightarrow> if n = '''' then fallback else n)"

definition fetch_runtime_code :: "Node \<Rightarrow> (bytes \<Rightarrow> string res) \<Rightarrow> ExecutorSimulator \<Rightarrow> int \<Rightarrow> bytes res" where
  "fetch_runtime_code node message_text sim block =
     rbind (creation_code sim) (\<lambda>code.
     rbind (node \<lparr> tx_from = None, tx_to = None, tx_data = ''0x'' @ bytes_hex code \<rparr> block []) (\<lambda>(succeeded, data).
       if \<not> succeeded \<or> data = [] then
         rbind (decode_revert message_text sim data) (\<lambda>(name, _).
           raise_error (SimulatorUnavailable (''the RPC endpoint could not run the executor's constructor ('' @
             or_text ''empty result'' name @ '')'')))
       else ok data))"

definition runtime_code :: "Node \<Rightarrow> (bytes \<Rightarrow> string res) \<Rightarrow> int \<Rightarrow> ExecutorSimulator \<Rightarrow> ExecutorSimulator \<times> bytes res" where
  "runtime_code node message_text block sim =
     (case es_runtime_code sim of
        Some code \<Rightarrow> (sim, ok code)
      | None \<Rightarrow>
          (case fetch_runtime_code node message_text sim block of
             Inl e \<Rightarrow> (sim, Inl e)
           | Inr code \<Rightarrow> (sim\<lparr> es_runtime_code := Some code \<rparr>, ok code)))"

text \<open>Whether the endpoint sees a marker written to the balance slot of the executor under \<open>slot\<close>.\<close>

definition probe_slot :: "Node \<Rightarrow> ExecutorSimulator \<Rightarrow> int \<Rightarrow> bytes \<Rightarrow> int \<Rightarrow> bool res" where
  "probe_slot node sim block probe slot =
     (let c = es_codec sim in
      rbind (EXECUTOR_ADDRESS c) (\<lambda>executor. rbind (mapping_slot c executor slot) (\<lambda>key. rbind (hex32 SLOT_MARKER) (\<lambda>marker.
      rbind (node \<lparr> tx_from = None, tx_to = Some (es_usdc sim), tx_data = ''0x'' @ bytes_hex probe \<rparr> block
               [(es_usdc sim, \<lparr> ao_code = None, ao_state_diff = [(key, marker)] \<rparr>)]) (\<lambda>(succeeded, data).
        ok (succeeded \<and> 32 \<le> length data \<and> foldl (\<lambda>acc b. acc * 256 + uint b) 0 (take 32 data) = SLOT_MARKER))))))"

fun first_slot :: "(int \<Rightarrow> bool res) \<Rightarrow> int list \<Rightarrow> int res" where
  "first_slot probe [] = raise_error (SimulatorUnavailable
     ''the RPC endpoint ignored state overrides, so a simulation would not be meaningful'')"
| "first_slot probe (slot # slots) =
     rbind (probe slot) (\<lambda>hit. if hit then ok slot else first_slot probe slots)"

definition find_balance_slot :: "Node \<Rightarrow> ExecutorSimulator \<Rightarrow> int \<Rightarrow> int res" where
  "find_balance_slot node sim block =
     (let c = es_codec sim in
      rbind (EXECUTOR_ADDRESS c) (\<lambda>executor.
      rbind (cd_encode c [''address''] [AbiAddress executor]) (\<lambda>encoded.
        first_slot (probe_slot node sim block (selector c ERC20_BALANCE_OF @ encoded)) SLOT_PROBE_RANGE)))"

definition usdc_balance_slot :: "Node \<Rightarrow> int \<Rightarrow> ExecutorSimulator \<Rightarrow> ExecutorSimulator \<times> int res" where
  "usdc_balance_slot node block sim =
     (case es_usdc_balance_slot sim of
        Some slot \<Rightarrow> (sim, ok slot)
      | None \<Rightarrow>
          (case find_balance_slot node sim block of
             Inl e \<Rightarrow> (sim, Inl e)
           | Inr slot \<Rightarrow> (sim\<lparr> es_usdc_balance_slot := Some slot \<rparr>, ok slot)))"

definition simulate_calldata :: "Codec \<Rightarrow> int \<Rightarrow> int \<Rightarrow> bytes res" where
  "simulate_calldata c direction_code amt_in =
     rbind (cd_encode c [''(uint8,uint256,uint256,uint256)'']
              [AbiTuple [AbiInt direction_code, AbiInt amt_in, AbiInt 0, AbiInt 0]]) (\<lambda>encoded.
       ok (selector c SIMULATE_SIGNATURE @ encoded))"

text \<open>
  \<open>overrides\<close> evaluates its dictionary from left to right: the runtime code first, then the balance slot.
\<close>

definition override_entries ::
    "ExecutorSimulator \<Rightarrow> bytes \<Rightarrow> int \<Rightarrow> Overrides res" where
  "override_entries sim code slot =
     (let c = es_codec sim in
      rbind (EXECUTOR_ADDRESS c) (\<lambda>executor. rbind (OWNER_ADDRESS c) (\<lambda>owner.
      rbind (hex32 OWNER_SLOT) (\<lambda>owner_slot. rbind (py_int16 owner) (\<lambda>owner_int. rbind (hex32 owner_int) (\<lambda>owner_word.
      rbind (mapping_slot c executor slot) (\<lambda>key. rbind (hex32 (es_subsidy_raw sim)) (\<lambda>subsidy.
        ok (dict_set (es_usdc sim) \<lparr> ao_code = None, ao_state_diff = [(key, subsidy)] \<rparr>
              [(executor, \<lparr> ao_code = Some (''0x'' @ bytes_hex code), ao_state_diff = [(owner_slot, owner_word)] \<rparr>)])))))))))"

definition state_overrides ::
    "Node \<Rightarrow> (bytes \<Rightarrow> string res) \<Rightarrow> int \<Rightarrow> ExecutorSimulator \<Rightarrow> ExecutorSimulator \<times> Overrides res" where
  "state_overrides node message_text block sim =
     sbind (runtime_code node message_text block sim) (\<lambda>sim code.
     sbind (usdc_balance_slot node block sim) (\<lambda>sim slot. (sim, override_entries sim code slot)))"

definition raw_failure :: "string \<Rightarrow> RawSimulation" where
  "raw_failure name =
     \<lparr> rs_reverted_with_result = False, rs_profit = None, rs_v3_amount_in = None, rs_v3_amount_out = None,
       rs_v2_amount_in = None, rs_v2_amount_out = None, rs_contract_gas = None, rs_total_gas = None,
       rs_error_name = Some name \<rparr>"

definition raw_result :: "bytes \<Rightarrow> AbiValue list \<Rightarrow> RawSimulation res" where
  "raw_result calldata values =
     unpack6 values (\<lambda>profit v3_in v3_out v2_in v2_out contract_gas.
     rbind (abi_int profit) (\<lambda>p. rbind (abi_int v3_in) (\<lambda>a. rbind (abi_int v3_out) (\<lambda>b. rbind (abi_int v2_in) (\<lambda>c.
     rbind (abi_int v2_out) (\<lambda>d. rbind (abi_int contract_gas) (\<lambda>g.
       ok \<lparr> rs_reverted_with_result = True, rs_profit = Some p, rs_v3_amount_in = Some a, rs_v3_amount_out = Some b,
            rs_v2_amount_in = Some c, rs_v2_amount_out = Some d, rs_contract_gas = Some g,
            rs_total_gas = Some (g + EXECUTE_OVERHEAD_GAS + intrinsic_gas calldata), rs_error_name = None \<rparr>)))))))"

definition send_simulation ::
    "Node \<Rightarrow> (bytes \<Rightarrow> string res) \<Rightarrow> int \<Rightarrow> bytes \<Rightarrow> ExecutorSimulator \<Rightarrow> Overrides \<Rightarrow> RawSimulation res" where
  "send_simulation node message_text block calldata sim overrides =
     rbind (OWNER_ADDRESS (es_codec sim)) (\<lambda>owner. rbind (EXECUTOR_ADDRESS (es_codec sim)) (\<lambda>executor.
     rbind (node \<lparr> tx_from = Some owner, tx_to = Some executor, tx_data = ''0x'' @ bytes_hex calldata \<rparr> block overrides)
       (\<lambda>(succeeded, result).
     if succeeded then
       raise_error (SimulatorUnavailable ''simulate() returned instead of reverting; the artifact is wrong'')
     else
       rbind (decode_revert message_text sim result) (\<lambda>(name, values).
         if name \<noteq> Some ''SimulationResult'' then ok (raw_failure (or_text ''unknown'' name))
         else raw_result calldata values))))"

definition simulate_trade ::
    "Node \<Rightarrow> (bytes \<Rightarrow> string res) \<Rightarrow> int \<Rightarrow> int \<Rightarrow> int \<Rightarrow> ExecutorSimulator \<Rightarrow> ExecutorSimulator \<times> RawSimulation res" where
  "simulate_trade node message_text direction_code amt_in block sim =
     (case simulate_calldata (es_codec sim) direction_code amt_in of
        Inl e \<Rightarrow> (sim, Inl e)
      | Inr calldata \<Rightarrow>
          sbind (state_overrides node message_text block sim) (\<lambda>sim overrides.
            (sim, send_simulation node message_text block calldata sim overrides)))"

section \<open>Reserves of the V2 pair\<close>

text \<open>\<open>call\<close> is one call of a contract at a block through the multicall contract.\<close>

record V2ReservesReader =
  vr_pair :: string
  vr_usdc :: string
  vr_weth :: string
  vr_usdc_is_token0 :: "bool option"

definition reserves_reader_init :: "Codec \<Rightarrow> string \<Rightarrow> string \<Rightarrow> string \<Rightarrow> V2ReservesReader res" where
  "reserves_reader_init c pair_address usdc_address weth_address =
     rbind (cd_checksum c pair_address) (\<lambda>pair.
       ok \<lparr> vr_pair = pair, vr_usdc = py_lower usdc_address, vr_weth = py_lower weth_address, vr_usdc_is_token0 = None \<rparr>)"

type_synonym ContractCall = "string \<Rightarrow> string \<Rightarrow> string list \<Rightarrow> int \<Rightarrow> AbiValue list res"

definition read_orientation :: "ContractCall \<Rightarrow> V2ReservesReader \<Rightarrow> int \<Rightarrow> bool res" where
  "read_orientation call reader block =
     (case vr_usdc_is_token0 reader of
        Some known \<Rightarrow> ok known
      | None \<Rightarrow>
          rbind (call (vr_pair reader) ''token0()'' [''address''] block) (\<lambda>vs. unpack1 vs (\<lambda>token.
          rbind (abi_address token) (\<lambda>token0.
            if py_lower token0 \<notin> {vr_usdc reader, vr_weth reader} then raise_error ValueError
            else ok (py_lower token0 = vr_usdc reader)))))"

definition read_pair :: "ContractCall \<Rightarrow> V2ReservesReader \<Rightarrow> bool \<Rightarrow> int \<Rightarrow> V2Reserves res" where
  "read_pair call reader usdc_is_token0 block =
     rbind (call (vr_pair reader) ''getReserves()'' [''uint112'', ''uint112'', ''uint32''] block) (\<lambda>vs.
     unpack3 vs (\<lambda>first second timestamp.
     rbind (abi_int first) (\<lambda>reserve0. rbind (abi_int second) (\<lambda>reserve1.
       let (usdc, weth) = (if usdc_is_token0 then (reserve0, reserve1) else (reserve1, reserve0))
       in if usdc \<le> 0 \<or> weth \<le> 0 then raise_error ValueError
          else ok \<lparr> rv_pair_address = vr_pair reader, rv_block_number = block, rv_reserve_usdc = usdc,
                    rv_reserve_weth = weth \<rparr>))))"

definition read_reserves :: "ContractCall \<Rightarrow> int \<Rightarrow> V2ReservesReader \<Rightarrow> V2ReservesReader \<times> V2Reserves res" where
  "read_reserves call block reader =
     (case read_orientation call reader block of
        Inl e \<Rightarrow> (reader, Inl e)
      | Inr usdc_is_token0 \<Rightarrow>
          let known = reader\<lparr> vr_usdc_is_token0 := Some usdc_is_token0 \<rparr>
          in (known, read_pair call known usdc_is_token0 block))"

section \<open>What a simulation stands on\<close>

lemma first_slot_least:
  "first_slot probe slots = Inr slot \<longleftrightarrow>
    (\<exists>before after. slots = before @ slot # after \<and> probe slot = Inr True \<and> list_all (\<lambda>s. probe s = Inr False) before)"
proof (induction slots)
  case (Cons s slots)
  show ?case
  proof (cases "probe s")
    case (Inl e)
    then show ?thesis by (auto simp: Cons_eq_append_conv)
  next
    case (Inr hit)
    show ?thesis
    proof (cases hit)
      case True
      then show ?thesis using Inr by (auto simp: Cons_eq_append_conv)
    next
      case False
      then have "first_slot probe (s # slots) = Inr slot \<longleftrightarrow>
          (\<exists>before after. slots = before @ slot # after \<and> probe slot = Inr True \<and> list_all (\<lambda>s. probe s = Inr False) before)"
        using Inr Cons.IH by simp
      also have "\<dots> \<longleftrightarrow> (\<exists>before after. s # slots = before @ slot # after \<and> probe slot = Inr True
          \<and> list_all (\<lambda>s. probe s = Inr False) before)"
        (is "?L \<longleftrightarrow> ?R")
      proof
        assume ?L
        then obtain before after where "slots = before @ slot # after" "probe slot = Inr True" "list_all (\<lambda>s. probe s = Inr False) before"
          by blast
        then have "s # slots = (s # before) @ slot # after" "probe slot = Inr True" "list_all (\<lambda>s. probe s = Inr False) (s # before)"
          using Inr False by simp_all
        then show ?R by blast
      next
        assume ?R
        then show ?L using Inr False by (auto simp: Cons_eq_append_conv)
      qed
      finally show ?thesis .
    qed
  qed
qed simp

lemma intrinsic_gas_bounds:
  "TX_BASE_GAS + 4 * int (length data) \<le> intrinsic_gas data \<and> intrinsic_gas data \<le> TX_BASE_GAS + 16 * int (length data)"
  by (induction data) (auto simp: intrinsic_gas_def)

lemma usdc_balance_slot_found:
  assumes "usdc_balance_slot node block sim = (sim', Inr slot)"
  shows "es_usdc_balance_slot sim' = Some slot \<and> es_codec sim' = es_codec sim
    \<and> (es_usdc_balance_slot sim = Some slot \<or> find_balance_slot node sim block = Inr slot)"
  using assms by (auto simp: usdc_balance_slot_def split: option.split_asm sum.split_asm)

lemma runtime_code_frame:
  assumes "runtime_code node text block sim = (sim', result)"
  shows "es_usdc_balance_slot sim' = es_usdc_balance_slot sim \<and> es_codec sim' = es_codec sim \<and> es_usdc sim' = es_usdc sim"
  using assms by (auto simp: runtime_code_def split: option.split_asm sum.split_asm)

definition complete_result :: "bytes \<Rightarrow> RawSimulation \<Rightarrow> bool" where
  "complete_result calldata raw \<longleftrightarrow>
     (case (rs_profit raw, rs_contract_gas raw, rs_total_gas raw) of
        (Some profit, Some gas, Some all_gas) \<Rightarrow> all_gas = gas + EXECUTE_OVERHEAD_GAS + intrinsic_gas calldata
      | _ \<Rightarrow> False)"

lemma raw_result_complete: "raw_result calldata values = Inr raw \<Longrightarrow> rs_reverted_with_result raw \<and> complete_result calldata raw"
  by (auto simp: raw_result_def complete_result_def)

lemma send_simulation_complete:
  assumes "send_simulation node text block calldata sim overrides = Inr raw" and "rs_reverted_with_result raw"
  shows "complete_result calldata raw"
proof -
  have "\<not> rs_reverted_with_result (raw_failure name)" for name by (simp add: raw_failure_def)
  then show ?thesis using assms raw_result_complete
    by (auto simp: send_simulation_def case_prod_beta split: if_split_asm)
qed

definition slot_was_probed :: "Node \<Rightarrow> int \<Rightarrow> ExecutorSimulator \<Rightarrow> int \<Rightarrow> bool" where
  "slot_was_probed node block sim slot \<longleftrightarrow>
     (\<exists>probe before after. SLOT_PROBE_RANGE = before @ slot # after
        \<and> probe_slot node sim block probe slot = Inr True
        \<and> list_all (\<lambda>s. probe_slot node sim block probe s = Inr False) before)"

lemma find_balance_slot_probed: "find_balance_slot node sim block = Inr slot \<Longrightarrow> slot_was_probed node block sim slot"
  by (auto simp: find_balance_slot_def Let_def first_slot_least slot_was_probed_def)

text \<open>A measured result stands on an endpoint that honours state overrides: the balance slot it used was
  found by a probe, as the least one whose marker came back, and its numbers are complete, with the
  gas of the call itself added to what the contract measured.
\<close>

theorem simulation_on_probed_slot:
  "case simulate_trade node text direction_code amt_in block sim of
     (sim', Inr raw) \<Rightarrow>
       (\<exists>calldata slot. simulate_calldata (es_codec sim) direction_code amt_in = Inr calldata
          \<and> es_usdc_balance_slot sim' = Some slot
          \<and> (es_usdc_balance_slot sim = Some slot
             \<or> slot_was_probed node block (sim\<lparr> es_runtime_code := es_runtime_code sim' \<rparr>) slot)
          \<and> (if rs_reverted_with_result raw then complete_result calldata raw else True))
   | (sim', Inl e) \<Rightarrow> es_codec sim' = es_codec sim"
proof (cases "simulate_calldata (es_codec sim) direction_code amt_in")
  case (Inr calldata)
  obtain sim1 code where code: "runtime_code node text block sim = (sim1, code)" by fastforce
  have sim1: "es_codec sim1 = es_codec sim" "es_usdc_balance_slot sim1 = es_usdc_balance_slot sim"
      "sim1 = sim\<lparr> es_runtime_code := es_runtime_code sim1 \<rparr>"
    using code by (auto simp: runtime_code_def split: option.split_asm sum.split_asm)
  obtain sim2 slot where slot: "usdc_balance_slot node block sim1 = (sim2, slot)" by fastforce
  have sim2: "es_codec sim2 = es_codec sim" "es_runtime_code sim2 = es_runtime_code sim1"
    using slot sim1(1) by (auto simp: usdc_balance_slot_def split: option.split_asm sum.split_asm)
  show ?thesis
  proof (cases code)
    case code': (Inr c)
    show ?thesis
    proof (cases slot)
      case slot': (Inr s)
      have found: "es_usdc_balance_slot sim2 = Some s"
          "es_usdc_balance_slot sim = Some s \<or> slot_was_probed node block (sim\<lparr> es_runtime_code := es_runtime_code sim2 \<rparr>) s"
        using usdc_balance_slot_found slot slot' sim1 sim2(2) find_balance_slot_probed by metis+
      have "simulate_trade node text direction_code amt_in block sim
          = sbind (sim2, override_entries sim2 c s) (\<lambda>sim overrides. (sim, send_simulation node text block calldata sim overrides))"
        using Inr code code' slot slot' by (simp add: simulate_trade_def state_overrides_def)
      then show ?thesis
        using found sim2(1) Inr send_simulation_complete
        by (cases "override_entries sim2 c s") (auto split: sum.split)
    qed (use Inr code code' slot sim2 in \<open>simp add: simulate_trade_def state_overrides_def\<close>)
  qed (use Inr code sim1 in \<open>simp add: simulate_trade_def state_overrides_def\<close>)
qed (simp add: simulate_trade_def)

end
