(* ===== verification/Py_Format.thy ===== *)
theory Py_Format
  imports Binary64
begin

text \<open>
  The format specifications the code uses in messages: \<open>f"{x:.1f}"\<close> and \<open>f"{x:,.2f}"\<close>. Python rounds the exact
  binary value half-even to the digits asked for; a number that rounds to zero keeps its sign.
\<close>

definition digit_char :: "nat \<Rightarrow> char" where
  "digit_char n = char_of (48 + n)"

fun nat_str :: "nat \<Rightarrow> string" where
  "nat_str n = (if n < 10 then [digit_char n] else nat_str (n div 10) @ [digit_char (n mod 10)])"

declare nat_str.simps [simp del]

definition int_str :: "int \<Rightarrow> string" where
  "int_str n = (if n < 0 then ''-'' @ nat_str (nat (- n)) else nat_str (nat n))"

text \<open>Thousands separators, on the reversed digits.\<close>

fun group_digits :: "string \<Rightarrow> string" where
  "group_digits (a # b # c # d # rest) = a # b # c # CHR '','' # group_digits (d # rest)"
| "group_digits ds = ds"

definition grouped :: "string \<Rightarrow> string" where
  "grouped ds = rev (group_digits (rev ds))"

definition padded :: "nat \<Rightarrow> string \<Rightarrow> string" where
  "padded k ds = replicate (k - length ds) (CHR ''0'') @ ds"

definition fixed_with :: "(string \<Rightarrow> string) \<Rightarrow> nat \<Rightarrow> f64 \<Rightarrow> string" where
  "fixed_with whole k x =
     (let n = nat (rne (\<bar>val x\<bar> * 10 ^ k))
      in (if val x < 0 then ''-'' else '''') @ whole (nat_str (n div 10 ^ k))
         @ (if k = 0 then '''' else ''.'' @ padded k (nat_str (n mod 10 ^ k))))"

definition fixed :: "nat \<Rightarrow> f64 \<Rightarrow> string" where
  "fixed k x = fixed_with (\<lambda>ds. ds) k x"

definition fixed_grouped :: "nat \<Rightarrow> f64 \<Rightarrow> string" where
  "fixed_grouped k x = fixed_with grouped k x"

section \<open>Digits read back\<close>

fun read_digits :: "nat \<Rightarrow> string \<Rightarrow> nat" where
  "read_digits acc [] = acc"
| "read_digits acc (c # cs) = read_digits (acc * 10 + (of_char c - 48)) cs"

lemma read_digits_append: "read_digits acc (xs @ ys) = read_digits (read_digits acc xs) ys"
  by (induction xs arbitrary: acc) auto

lemma digit_char_value: "n < 10 \<Longrightarrow> (of_char (digit_char n) :: nat) = 48 + n"
  by (simp add: digit_char_def of_char_of)

lemma read_nat_str [simp]: "read_digits 0 (nat_str n) = n"
proof (induction n rule: nat_str.induct)
  case (1 n)
  then show ?case by (subst nat_str.simps) (auto simp: read_digits_append digit_char_value)
qed

lemma nat_str_inject: "nat_str m = nat_str n \<longleftrightarrow> m = n"
  using read_nat_str by metis

end
