(* ===== verification/Flash_Arb.thy ===== *)
theory Flash_Arb
  imports Dex_Arb Executor_Simulator Py_Format "HOL-Library.List_Lexorder" "HOL-Library.Char_ord"
begin

text \<open>
  \<open>app/services/flash_arb_service.py\<close>: one scan and one read-only simulation per new block, the status that
  says why there is none, the plain-language note of a result, and the accuracy summary of stored
  results. What the node answers is the argument \<open>an\<close>; the clock and the measured latency are arguments.
\<close>

record ArbNode =
  an_node :: Node
  an_call :: ContractCall
  an_message_text :: "bytes \<Rightarrow> string res"

definition WAITING_REASON :: string where "WAITING_REASON = ''Waiting for the first live V3 snapshot.''"
definition DISABLED_REASON :: string where "DISABLED_REASON = ''The simulator is turned off (ARB_SIM_ENABLED=false).''"
definition FIXTURE_REASON :: string where
  "FIXTURE_REASON = ''The V3 pool is replaying recorded data because the live endpoint is unreachable, '' @
     ''so there is no live state to simulate against. Nothing is invented in the meantime.''"
definition STALE_REASON :: string where
  "STALE_REASON = ''The latest V3 snapshot is stale, so a simulation would not reflect current state.''"

section \<open>Outcomes\<close>

definition outcome_for :: "RawSimulation \<Rightarrow> f64 option \<Rightarrow> string" where
  "outcome_for raw net_quote =
     (if \<not> rs_reverted_with_result raw
      then ''reverted:'' @ or_text ''unknown'' (rs_error_name raw)
      else case net_quote of
        Some net \<Rightarrow> if net > 0 then ''profitable'' else ''unprofitable''
      | None \<Rightarrow> ''unprofitable'')"

definition outcome_note :: "ArbCandidate \<Rightarrow> string \<Rightarrow> f64 option \<Rightarrow> f64 option \<Rightarrow> f64 option \<Rightarrow> string res" where
  "outcome_note candidate outcome gross gas net =
     (let gap = \<bar>ac_gap_bps candidate\<bar>;
          (cheap, dear) = (if ac_direction candidate = v3_to_v2 then (''V3'', ''V2'') else (''V2'', ''V3''))
      in if take 9 outcome = ''reverted:'' then
           ok (''The simulated transaction reverted ('' @ drop 9 outcome @
             ''), so on-chain nothing would have happened and no gas would have bought anything.'')
         else
           case (gross, gas, net) of
             (Some g, Some c, Some n) \<Rightarrow>
               if outcome = ''profitable'' then
                 ok (''WETH was '' @ fixed 1 gap @ '' bps cheaper on '' @ cheap @ '' than on '' @ dear @
                   '', enough to clear both pools' fees ('' @ fixed 0 (ac_fees_bps candidate) @
                   '' bps) and gas: the trade would make $'' @ fixed_grouped 2 n @
                   ''. A real bot would have to win this block against others; this lab only simulates it.'')
               else if g \<le> 0 then
                 ok (''The price gap ('' @ fixed 1 gap @ '' bps) is smaller than both pools' fees ('' @
                   fixed 0 (ac_fees_bps candidate) @ '' bps), so even before gas the trade would lose $'' @
                   fixed_grouped 2 (- g) @
                   ''. Gaps wider than the fees are usually closed by bots before a block is published.'')
               else
                 ok (''The gap pays $'' @ fixed_grouped 2 g @ '' before gas, but gas costs $'' @ fixed_grouped 2 c @
                   '', so the trade would lose $'' @ fixed_grouped 2 (- n) @ ''.'')
           | _ \<Rightarrow> raise_error AssertionError)"

section \<open>The service\<close>

record FlashArbService =
  fa_reader :: V2ReservesReader
  fa_simulator :: ExecutorSimulator
  fa_backend :: string
  fa_reference_size_quote :: f64
  fa_gas_units :: int
  fa_priority_fee_gwei :: f64
  fa_fallback_gas_price_gwei :: f64
  fa_every_ticks :: int
  fa_state :: SimulatorState
  fa_reason :: "string option"
  fa_skipped :: "(string, int) dict"
  fa_last_success_at :: "datetime option"
  fa_calls :: int
  fa_last_block :: "int option"

definition flash_arb_init :: "V2ReservesReader \<Rightarrow> ExecutorSimulator \<Rightarrow> string \<Rightarrow> f64 \<Rightarrow> int \<Rightarrow> f64 \<Rightarrow> f64 \<Rightarrow> int \<Rightarrow> FlashArbService" where
  "flash_arb_init reader simulator backend reference_size_quote gas_units priority_fee_gwei fallback_gas_price_gwei every_ticks =
     \<lparr> fa_reader = reader, fa_simulator = simulator, fa_backend = backend, fa_reference_size_quote = reference_size_quote, fa_gas_units = gas_units,
       fa_priority_fee_gwei = priority_fee_gwei, fa_fallback_gas_price_gwei = fallback_gas_price_gwei,
       fa_every_ticks = max 1 every_ticks, fa_state = sim_waiting, fa_reason = Some WAITING_REASON, fa_skipped = [],
       fa_last_success_at = None, fa_calls = 0, fa_last_block = None \<rparr>"

definition simulator_status :: "FlashArbService \<Rightarrow> SimulatorStatus" where
  "simulator_status service =
     \<lparr> ss_enabled = True, ss_state = fa_state service, ss_reason = fa_reason service, ss_backend = Some (fa_backend service),
       ss_skipped_total = sum_list (map snd (fa_skipped service)), ss_last_success_at = fa_last_success_at service \<rparr>"

definition disabled_status :: SimulatorStatus where
  "disabled_status = \<lparr> ss_enabled = False, ss_state = sim_disabled, ss_reason = Some DISABLED_REASON, ss_backend = None,
     ss_skipped_total = 0, ss_last_success_at = None \<rparr>"

definition skip_tick :: "string \<Rightarrow> string \<Rightarrow> FlashArbService \<Rightarrow> FlashArbService" where
  "skip_tick reason_key reason service =
     service\<lparr> fa_skipped := dict_set reason_key (dict_get_or (fa_skipped service) reason_key 0 + 1) (fa_skipped service),
              fa_state := sim_unavailable, fa_reason := Some reason \<rparr>"

definition arb_gas_price_gwei :: "FlashArbService \<Rightarrow> V3PoolSnapshot \<Rightarrow> f64" where
  "arb_gas_price_gwei service snapshot =
     (case sn_base_fee_wei snapshot of
        None \<Rightarrow> fa_fallback_gas_price_gwei service
      | Some fee \<Rightarrow> float_of_int fee / lit (10 ^ 9) + fa_priority_fee_gwei service)"

text \<open>The measured numbers: gross, gas cost, net, and the error of the estimate.\<close>

definition measured ::
    "ArbCandidate \<Rightarrow> RawSimulation \<Rightarrow> (f64 \<times> f64 \<times> f64 \<times> f64 \<times> f64 option) option" where
  "measured candidate raw =
     (case (rs_reverted_with_result raw, rs_profit raw, rs_total_gas raw) of
        (True, Some profit, Some gas) \<Rightarrow>
          let gross = lit (real_of_int profit / real_of_int USDC_UNIT);
              gas_cost = float_of_int gas * ac_gas_price_gwei candidate * lit (1 / 10 ^ 9) * ac_v3_price candidate;
              error_quote = gross - ac_gross_profit_quote candidate
          in Some (gross, gas_cost, gross - gas_cost, error_quote,
               if ac_notional_quote candidate \<noteq> 0 then Some (error_quote / ac_notional_quote candidate * lit 10000) else None)
      | _ \<Rightarrow> None)"

definition build_result ::
    "string \<Rightarrow> ArbCandidate \<Rightarrow> RawSimulation \<Rightarrow> f64 \<Rightarrow> datetime \<Rightarrow> SimulationResult res" where
  "build_result backend candidate raw latency_ms now =
     (let numbers = measured candidate raw;
          gross = map_option fst numbers; gas_cost = map_option (fst \<circ> snd) numbers;
          net = map_option (fst \<circ> snd \<circ> snd) numbers;
          outcome = outcome_for raw net
      in rbind (outcome_note candidate outcome gross gas_cost net) (\<lambda>note.
         ok \<lparr> sr_block_number = ac_block_number candidate, sr_direction = ac_direction candidate,
              sr_amount_in = ac_amount_in candidate, sr_size_reason = ac_size_reason candidate,
              sr_notional_quote = ac_notional_quote candidate, sr_estimate_gross_quote = ac_gross_profit_quote candidate,
              sr_estimate_net_quote = ac_net_profit_quote candidate, sr_exact_estimate = ac_exact candidate,
              sr_sim_v3_amount_in = rs_v3_amount_in raw, sr_sim_v3_amount_out = rs_v3_amount_out raw,
              sr_sim_v2_amount_in = rs_v2_amount_in raw, sr_sim_v2_amount_out = rs_v2_amount_out raw,
              sr_sim_gross_profit_raw = rs_profit raw, sr_sim_gross_quote = gross, sr_gas_used = rs_total_gas raw,
              sr_gas_price_gwei = ac_gas_price_gwei candidate, sr_gas_cost_quote = gas_cost, sr_sim_net_quote = net,
              sr_outcome = outcome, sr_outcome_note = note,
              sr_estimate_error_quote = map_option (fst \<circ> snd \<circ> snd \<circ> snd) numbers,
              sr_estimate_error_bps = (case numbers of Some (_, _, _, _, e) \<Rightarrow> e | None \<Rightarrow> None),
              sr_gap_bps = ac_gap_bps candidate, sr_backend = backend, sr_latency_ms = latency_ms,
              sr_timestamp = now, sr_tick_id = None \<rparr>))"

text \<open>The guarded part of \<open>run\<close>: a candidate and its simulation, no candidate, or an exception.\<close>

definition attempt ::
    "ArbNode \<Rightarrow> V3PoolSnapshot \<Rightarrow> FlashArbService \<Rightarrow> FlashArbService \<times> (ArbCandidate \<times> RawSimulation) option res" where
  "attempt an snapshot service0 =
     (let block = sn_block_number snapshot; (reader, reserves) = read_reserves (an_call an) block (fa_reader service0) in
      sbind (service0\<lparr> fa_reader := reader \<rparr>, reserves) (\<lambda>service reserves.
      sbind (service, scan_dex_arb snapshot reserves (fa_reference_size_quote service) (fa_gas_units service)
                        (arb_gas_price_gwei service snapshot)) (\<lambda>service found.
      case found of
        None \<Rightarrow> (service, ok None)
      | Some candidate \<Rightarrow>
          let (simulator, raw) = simulate_trade (an_node an) (an_message_text an) (DIRECTION_CODES (ac_direction candidate))
                (ac_amount_in candidate) block (fa_simulator service)
          in sbind (service\<lparr> fa_simulator := simulator \<rparr>, raw) (\<lambda>service raw. (service, ok (Some (candidate, raw)))))))"

definition run_attempt ::
    "ArbNode \<Rightarrow> f64 \<Rightarrow> datetime \<Rightarrow> V3PoolSnapshot \<Rightarrow> FlashArbService \<Rightarrow> FlashArbService \<times> SimulationResult option res" where
  "run_attempt an latency_ms now snapshot service0 =
     (case attempt an snapshot service0 of
        (service, Inl e) \<Rightarrow>
          (case e of
             SimulatorUnavailable message \<Rightarrow>
               (skip_tick ''backend'' (''The simulation endpoint can't run it: '' @ message @ ''.'') service, ok None)
           | Diverges \<Rightarrow> (service, Inl Diverges)
           | _ \<Rightarrow> (skip_tick ''error'' (''The last simulation failed ('' @ error_name e @ ''); retrying next tick.'') service,
                   ok None))
      | (service, Inr None) \<Rightarrow>
          (skip_tick ''no_candidate'' ''No exact V2-vs-V3 quote was possible at this block.'' service, ok None)
      | (service, Inr (Some (candidate, raw))) \<Rightarrow>
          (case build_result (fa_backend service) candidate raw latency_ms now of
             Inl e \<Rightarrow> (service, Inl e)
           | Inr result \<Rightarrow>
               (service\<lparr> fa_state := sim_ok, fa_reason := None, fa_last_success_at := Some (sr_timestamp result),
                         fa_last_block := Some (sn_block_number snapshot) \<rparr>, ok (Some result))))"

definition flash_arb_run ::
    "ArbNode \<Rightarrow> f64 \<Rightarrow> datetime \<Rightarrow> V3PoolSnapshot option \<Rightarrow> FlashArbService \<Rightarrow> FlashArbService \<times> SimulationResult option res" where
  "flash_arb_run an latency_ms now snapshot called =
     (let service = called\<lparr> fa_calls := fa_calls called + 1 \<rparr>
      in if (fa_calls service - 1) mod fa_every_ticks service \<noteq> 0 then (service, ok None)
         else
           case snapshot of
             None \<Rightarrow> (service, ok None)
           | Some sn \<Rightarrow>
               if sn_data_source sn = fixture then (skip_tick ''fixture'' FIXTURE_REASON service, ok None)
               else if sn_is_stale sn then (skip_tick ''stale'' STALE_REASON service, ok None)
               else if Some (sn_block_number sn) = fa_last_block service then (service, ok None)
               else run_attempt an latency_ms now sn service)"

section \<open>Accuracy of the estimates\<close>

record AccuracySummary =
  as_window_start :: "datetime option"
  as_window_end :: "datetime option"
  as_total :: nat
  as_outcome_counts :: "(string, int) dict"
  as_estimate_says_profitable :: nat
  as_simulation_says_profitable :: nat
  as_agreement_rate :: "f64 option"
  as_median_abs_error_bps :: "f64 option"
  as_p95_abs_error_bps :: "f64 option"
  as_exact_match_rate :: "f64 option"

definition percentile :: "f64 list \<Rightarrow> f64 \<Rightarrow> f64" where
  "percentile values pct =
     (let ordered = sort values
      in if length ordered = 1 then ordered ! 0
         else
           let rank = float_of_int (int (length ordered) - 1) * pct;
               low = nat (int_of_float rank); high = min (low + 1) (length ordered - 1)
           in ordered ! low + (ordered ! high - ordered ! low) * (rank - float_of_int (int low)))"

text \<open>\<open>statistics.median\<close>.\<close>

definition median_of :: "f64 list \<Rightarrow> f64" where
  "median_of values =
     (let ordered = sort values; n = length ordered
      in if odd n then ordered ! (n div 2) else (ordered ! (n div 2 - 1) + ordered ! (n div 2)) / lit 2)"

definition share_of :: "nat \<Rightarrow> nat \<Rightarrow> f64 option" where
  "share_of part whole = (if whole = 0 then None else Some (lit (real part / real whole)))"

definition count_outcomes :: "SimulationResult list \<Rightarrow> (string, int) dict" where
  "count_outcomes rows = fold (\<lambda>row counts. dict_set (sr_outcome row) (dict_get_or counts (sr_outcome row) 0 + 1) counts) rows []"

definition agrees :: "SimulationResult \<Rightarrow> bool" where
  "agrees row \<longleftrightarrow> estimate_says_profitable row = simulation_says_profitable row"

definition matches_exactly :: "SimulationResult \<Rightarrow> bool" where
  "matches_exactly row =
     (case sr_estimate_error_quote row of None \<Rightarrow> False | Some e \<Rightarrow> \<bar>e\<bar> < lit (1 / 10 ^ 9))"

definition accuracy_summary :: "SimulationResult list \<Rightarrow> AccuracySummary" where
  "accuracy_summary rows =
     (if rows = [] then
        \<lparr> as_window_start = None, as_window_end = None, as_total = 0, as_outcome_counts = [],
          as_estimate_says_profitable = 0, as_simulation_says_profitable = 0, as_agreement_rate = None,
          as_median_abs_error_bps = None, as_p95_abs_error_bps = None, as_exact_match_rate = None \<rparr>
      else
        let measured_rows = filter (\<lambda>row. sr_sim_net_quote row \<noteq> None) rows;
            errors = map abs (List.map_filter sr_estimate_error_bps measured_rows);
            exact = filter (\<lambda>row. sr_exact_estimate row \<and> sr_sim_gross_profit_raw row \<noteq> None) measured_rows;
            timestamps = map sr_timestamp rows
        in \<lparr> as_window_start = Some (Min (set timestamps)), as_window_end = Some (Max (set timestamps)),
             as_total = length rows, as_outcome_counts = sort_key fst (count_outcomes rows),
             as_estimate_says_profitable = length (filter estimate_says_profitable rows),
             as_simulation_says_profitable = length (filter simulation_says_profitable rows),
             as_agreement_rate = share_of (length (filter agrees measured_rows)) (length measured_rows),
             as_median_abs_error_bps = (if errors = [] then None else Some (median_of errors)),
             as_p95_abs_error_bps = (if errors = [] then None else Some (percentile errors (lit (95 / 100)))),
             as_exact_match_rate = share_of (length (filter matches_exactly exact)) (length exact) \<rparr>)"

end
