(* ===== verification/Flash_Arb_Facts.thy ===== *)
theory Flash_Arb_Facts
  imports Flash_Arb
begin

text \<open>
  What the flash-arbitrage service guarantees (\<open>app/services/flash_arb_service.py\<close>): it never fails a tick, its
  status always says why there is no result, and a block is simulated at most once.
\<close>

section \<open>A result can always be built\<close>

lemma simulate_trade_complete:
  assumes "simulate_trade node text code amt_in block sim = (sim', Inr raw)" and "rs_reverted_with_result raw"
  shows "\<exists>profit gas. rs_profit raw = Some profit \<and> rs_total_gas raw = Some gas"
proof -
  obtain calldata ready overrides where "send_simulation node text block calldata ready overrides = Inr raw"
    using assms(1) by (auto simp: simulate_trade_def sbind_Inr split: sum.split_asm)
  then have "complete_result calldata raw" using assms(2) by (rule send_simulation_complete)
  then show ?thesis by (auto simp: complete_result_def split: option.split_asm)
qed

lemma build_result_total:
  assumes "rs_reverted_with_result raw \<Longrightarrow> \<exists>profit gas. rs_profit raw = Some profit \<and> rs_total_gas raw = Some gas"
  shows "\<exists>result. build_result backend candidate raw latency now = Inr result \<and> sr_block_number result = ac_block_number candidate
    \<and> sr_timestamp result = now"
proof (cases "rs_reverted_with_result raw")
  case True
  then obtain profit gas where "rs_profit raw = Some profit" "rs_total_gas raw = Some gas" using assms by blast
  then obtain g c n e b where numbers: "measured candidate raw = Some (g, c, n, e, b)"
    using True by (simp add: measured_def Let_def)
  have "outcome_note candidate (outcome_for raw (Some n)) (Some g) (Some c) (Some n) \<noteq> Inl err" for err
    using True by (simp add: outcome_note_def Let_def case_prod_beta)
  then obtain msg where "outcome_note candidate (outcome_for raw (Some n)) (Some g) (Some c) (Some n) = Inr msg"
    by (cases "outcome_note candidate (outcome_for raw (Some n)) (Some g) (Some c) (Some n)") auto
  then show ?thesis by (simp add: build_result_def numbers Let_def)
next
  case False
  then have numbers: "measured candidate raw = None" by (simp add: measured_def)
  have "take 9 (outcome_for raw None) = ''reverted:''" using False by (simp add: outcome_for_def)
  then have "\<exists>msg. outcome_note candidate (outcome_for raw None) None None None = Inr msg"
    by (simp add: outcome_note_def Let_def case_prod_beta)
  then show ?thesis by (auto simp: build_result_def numbers Let_def)
qed

lemma scan_dex_arb_block:
  "scan_dex_arb snapshot reserves reference gas_units gas_price = Inr (Some candidate) \<Longrightarrow> ac_block_number candidate = sn_block_number snapshot"
  by (auto simp: scan_dex_arb_def reference_candidate_def candidate_of_def Let_def split: if_split_asm option.split_asm)

lemma attempt_result:
  assumes "attempt an snapshot service = (service', Inr (Some (candidate, raw)))"
  shows "ac_block_number candidate = sn_block_number snapshot
    \<and> (\<exists>result. build_result backend candidate raw latency now = Inr result \<and> sr_block_number result = ac_block_number candidate
         \<and> sr_timestamp result = now)"
proof -
  let ?reader = "read_reserves (an_call an) (sn_block_number snapshot) (fa_reader service)"
  let ?s = "service\<lparr> fa_reader := fst ?reader \<rparr>"
  obtain reserves where reserves: "snd ?reader = Inr reserves"
    using assms by (cases "snd ?reader") (simp_all add: attempt_def Let_def case_prod_beta)
  let ?scan = "scan_dex_arb snapshot reserves (fa_reference_size_quote ?s) (fa_gas_units ?s) (arb_gas_price_gwei ?s snapshot)"
  obtain c where c: "?scan = Inr (Some c)"
    using assms reserves by (auto simp: attempt_def Let_def case_prod_beta sbind_Inr split: option.split_asm)
  let ?sim = "simulate_trade (an_node an) (an_message_text an) (DIRECTION_CODES (ac_direction c)) (ac_amount_in c)
    (sn_block_number snapshot) (fa_simulator ?s)"
  have sim: "snd ?sim = Inr raw" and "candidate = c"
    using assms reserves c by (auto simp: attempt_def Let_def case_prod_beta sbind_Inr)
  then have "ac_block_number candidate = sn_block_number snapshot" using scan_dex_arb_block c by blast
  moreover have "?sim = (fst ?sim, Inr raw)" using sim by (metis prod.collapse)
  note sim = this
  ultimately show ?thesis using build_result_total [of raw] simulate_trade_complete [OF sim] by blast
qed

section \<open>The status\<close>

definition status_sound :: "FlashArbService \<Rightarrow> bool" where
  "status_sound s \<longleftrightarrow> (fa_state s = sim_ok) = (fa_reason s = None) \<and> fa_state s \<noteq> sim_disabled
     \<and> (fa_last_block s = None) = (fa_last_success_at s = None)
     \<and> wf_dict (fa_skipped s) \<and> list_all (\<lambda>entry. 1 \<le> snd entry) (fa_skipped s)"

definition same_status :: "FlashArbService \<Rightarrow> FlashArbService \<Rightarrow> bool" where
  "same_status s s' \<longleftrightarrow> fa_state s' = fa_state s \<and> fa_reason s' = fa_reason s \<and> fa_last_block s' = fa_last_block s
     \<and> fa_last_success_at s' = fa_last_success_at s \<and> fa_skipped s' = fa_skipped s"

lemma attempt_same_status: "same_status s (fst (attempt an snapshot s))"
  by (auto simp: attempt_def Let_def case_prod_beta sbind_def same_status_def split: option.split sum.split)

lemma status_sound_same: "same_status s s' \<Longrightarrow> status_sound s \<Longrightarrow> status_sound s'"
  by (simp add: same_status_def status_sound_def)

lemma update_positive: "list_all (\<lambda>entry. 1 \<le> snd entry) d \<Longrightarrow> (1::int) \<le> n \<Longrightarrow> list_all (\<lambda>entry. 1 \<le> snd entry) (dict_set k n d)"
  unfolding dict_set_def by (induction d) auto

lemma get_positive: "list_all (\<lambda>entry. (1::int) \<le> snd entry) d \<Longrightarrow> 0 \<le> dict_get_or d k 0"
  by (induction d) (auto simp: dict_get_or_def)

lemma skip_tick_sound: "status_sound s \<Longrightarrow> status_sound (skip_tick key reason s)"
  using get_positive [of "fa_skipped s" key] update_positive [of "fa_skipped s" "dict_get_or (fa_skipped s) key 0 + 1" key]
  by (auto simp: status_sound_def skip_tick_def)

lemma skip_tick_fields [simp]: "fa_last_block (skip_tick key reason s) = fa_last_block s"
  by (simp add: skip_tick_def)

definition run_promise :: "V3PoolSnapshot option \<Rightarrow> FlashArbService \<Rightarrow> FlashArbService \<times> SimulationResult option res \<Rightarrow> bool" where
  "run_promise snapshot s outcome \<longleftrightarrow>
     (case outcome of
        (s', Inl e) \<Rightarrow> e = Diverges
      | (s', Inr None) \<Rightarrow> status_sound s' \<and> fa_last_block s' = fa_last_block s
      | (s', Inr (Some result)) \<Rightarrow> status_sound s' \<and> fa_state s' = sim_ok
          \<and> fa_last_block s' = Some (sr_block_number result) \<and> fa_last_block s \<noteq> Some (sr_block_number result)
          \<and> (case snapshot of None \<Rightarrow> False
             | Some sn \<Rightarrow> sn_block_number sn = sr_block_number result \<and> sn_data_source sn = live \<and> \<not> sn_is_stale sn))"

lemma run_attempt_promise:
  assumes "status_sound s" and "Some (sn_block_number sn) \<noteq> fa_last_block s" and "sn_data_source sn = live" "\<not> sn_is_stale sn"
  shows "run_promise (Some sn) s (run_attempt an latency now sn s)"
proof -
  obtain s' r where attempt: "attempt an sn s = (s', r)" by fastforce
  have same: "same_status s s'" using attempt_same_status [of s an sn] by (simp add: attempt)
  then have sound: "status_sound s'" "fa_last_block s' = fa_last_block s"
    using status_sound_same assms(1) by (auto simp: same_status_def)
  have skipped: "run_promise (Some sn) s (skip_tick key reason s', Inr None)" for key reason
    using sound skip_tick_sound by (simp add: run_promise_def)
  show ?thesis
  proof (cases r)
    case (Inl e)
    have "run_promise (Some sn) s (s', Inl Diverges)" by (simp add: run_promise_def)
    then show ?thesis using skipped by (cases e) (simp_all add: run_attempt_def attempt Inl)
  next
    case (Inr found)
    show ?thesis
    proof (cases found)
      case None
      then show ?thesis using skipped by (simp add: run_attempt_def attempt Inr)
    next
      case (Some pair)
      obtain candidate raw where pair: "pair = (candidate, raw)" by fastforce
      then obtain result where "build_result (fa_backend s') candidate raw latency now = Inr result"
          "sr_block_number result = sn_block_number sn"
        using attempt_result [of an sn s s' candidate raw] attempt Inr Some by metis
      then show ?thesis using sound assms
        by (auto simp: run_attempt_def attempt Inr Some pair run_promise_def status_sound_def)
    qed
  qed
qed

text \<open>C18. A tick of the service raises nothing (only a swap loop that does not return could stop it, and that is
  excluded for a coherent pool). Its status stays sound: a state other than \<open>ok\<close> carries its reason. A
  result is for a fresh live block that was not simulated before, which is then remembered.
\<close>

theorem flash_arb_never_raises:
  assumes "status_sound service"
  shows "run_promise snapshot service (flash_arb_run an latency now snapshot service)"
proof -
  let ?called = "service\<lparr> fa_calls := fa_calls service + 1 \<rparr>"
  have called: "status_sound ?called" "fa_last_block ?called = fa_last_block service"
    using assms by (simp_all add: status_sound_def)
  have promise: "run_promise sn ?called outcome \<Longrightarrow> run_promise sn service outcome" for sn outcome
    unfolding run_promise_def called(2) .
  have quiet: "run_promise snapshot service (?called, Inr None)" "run_promise snapshot service (skip_tick key reason ?called, Inr None)"
    for key reason using called skip_tick_sound by (simp_all add: run_promise_def)
  have live: "sn_data_source sn \<noteq> fixture \<Longrightarrow> sn_data_source sn = live" for sn :: V3PoolSnapshot
    by (cases "sn_data_source sn") simp_all
  show ?thesis
    using quiet live promise [OF run_attempt_promise [OF called(1)]] by (auto simp: flash_arb_run_def Let_def split: option.split DataSource.split)
qed


text \<open>A service on an endpoint that answers nothing, fed with a live snapshot.\<close>

definition silent_node :: ArbNode where
  "silent_node = \<lparr> an_node = (\<lambda>tx block overrides. Inl (OtherError ''ConnectionError'')),
     an_call = (\<lambda>target signature types block. Inl (OtherError ''ConnectionError'')), an_message_text = (\<lambda>bs. Inr []) \<rparr>"

definition example_service :: FlashArbService where
  "example_service = flash_arb_init
     \<lparr> vr_pair = ''0xb4'', vr_usdc = ''0xa0'', vr_weth = ''0xc0'', vr_usdc_is_token0 = None \<rparr>
     \<lparr> es_codec = \<lparr> cd_abi = \<lparr> abi_decode = (\<lambda>types bs. Inl DecodingError), abi_keccak = (\<lambda>s. replicate 32 0) \<rparr>,
         cd_encode = (\<lambda>types vs. Inr []), cd_checksum = (\<lambda>a. Inr a), cd_keccak_bytes = (\<lambda>bs. replicate 32 0) \<rparr>,
       es_artifact = \<lparr> af_bytecode = ''0x'', af_errors = [] \<rparr>, es_usdc = ''0xa0'', es_constructor_args = [], es_subsidy_raw = 0,
       es_runtime_code = None, es_usdc_balance_slot = None \<rparr>
     ''public-rpc'' (lit 10000) 300000 (lit 1) (lit 10) 1"

theorem flash_arb_never_raises_witness:
  "run_promise (Some (Dex_Arb.example_snapshot None)) example_service
     (flash_arb_run silent_node (lit 5) 0 (Some (Dex_Arb.example_snapshot None)) example_service)"
  by (rule flash_arb_never_raises)
    (simp add: status_sound_def example_service_def flash_arb_init_def)

end
