(* ===== verification/Pool_Reader.thy ===== *)
theory Pool_Reader
  imports Executor_Simulator
begin

text \<open>
  \<open>app/adapters/dex/multicall.py\<close> and \<open>app/adapters/dex/v3_pool_adapter.py\<close>: batched calls of contracts, and the
  reader that turns their answers into pool snapshots with a tick window, retries and a stale fallback. The node is
  the argument: \<open>ep_call\<close> answers a call at a block, \<open>ep_base_fee\<close> is the transport's optional header
  reader. Retries see later states of the chain, so each attempt has an endpoint of its own.
\<close>

section \<open>Batched calls\<close>

datatype BlockId = Latest | AtBlock int

type_synonym EthCall = "string \<Rightarrow> bytes \<Rightarrow> BlockId \<Rightarrow> bytes res"

record Endpoint =
  ep_call :: EthCall
  ep_base_fee :: "(int \<Rightarrow> int option res) option"
  ep_clock :: datetime

record Call =
  ca_target :: string
  ca_signature :: string
  ca_args :: "AbiValue list"
  ca_output_types :: "string list"

fun split_from :: "int \<Rightarrow> string \<Rightarrow> string \<Rightarrow> string list" where
  "split_from depth current [] = [current]"
| "split_from depth current (ch # rest) =
     (if ch = CHR '','' \<and> depth = 0 then current # split_from depth [] rest
      else split_from (depth + (if ch = CHR ''('' then 1 else 0) - (if ch = CHR '')'' then 1 else 0)) (current @ [ch]) rest)"

definition split_types :: "string \<Rightarrow> string list" where
  "split_types inner = split_from 0 [] inner"

definition input_types :: "Call \<Rightarrow> string list res" where
  "input_types call =
     (case dropWhile (\<lambda>ch. ch \<noteq> CHR ''('') (ca_signature call) of
        [] \<Rightarrow> raise_error ValueError
      | _ # inner \<Rightarrow> ok (filter (\<lambda>part. part \<noteq> []) (split_types (butlast inner))))"

definition call_data :: "Codec \<Rightarrow> Call \<Rightarrow> bytes res" where
  "call_data c call =
     rbind (input_types call) (\<lambda>types. rbind (cd_encode c types (ca_args call)) (\<lambda>encoded.
       ok (selector c (ca_signature call) @ encoded)))"

definition call_decode :: "Codec \<Rightarrow> Call \<Rightarrow> bytes \<Rightarrow> AbiValue list res" where
  "call_decode c call data = abi_decode (cd_abi c) (ca_output_types call) data"

record CallResult =
  cr_success :: bool
  cr_value :: "AbiValue list option"

definition MULTICALL3_ADDRESS :: string where "MULTICALL3_ADDRESS = ''0xcA11bde05977b3631167028862bE2a173976CA11''"
definition AGGREGATE_ARG :: string where "AGGREGATE_ARG = ''(address,bytes)[]''"
definition RESULT_TYPE :: string where "RESULT_TYPE = ''(bool,bytes)[]''"

definition pack_calls :: "Codec \<Rightarrow> Call list \<Rightarrow> AbiValue list res" where
  "pack_calls c calls =
     res_map (\<lambda>call. rbind (cd_checksum c (ca_target call)) (\<lambda>target. rbind (call_data c call) (\<lambda>data.
       ok (AbiTuple [AbiAddress target, AbiBytes data])))) calls"

definition failed_call :: CallResult where
  "failed_call = \<lparr> cr_success = False, cr_value = None \<rparr>"

definition unpack_result :: "Codec \<Rightarrow> Call \<Rightarrow> AbiValue \<Rightarrow> CallResult res" where
  "unpack_result c call raw =
     rbind (abi_list raw) (\<lambda>pair. unpack2 pair (\<lambda>flag payload.
     rbind (abi_bool flag) (\<lambda>success. rbind (abi_bytes payload) (\<lambda>data.
       if \<not> success \<or> ca_output_types call \<noteq> [] \<and> data = [] then ok failed_call
       else (case call_decode c call data of
               Inl e \<Rightarrow> ok failed_call
             | Inr values \<Rightarrow> ok \<lparr> cr_success = True, cr_value = Some values \<rparr>)))))"

definition unpack_results :: "Codec \<Rightarrow> Call list \<Rightarrow> AbiValue list \<Rightarrow> CallResult list res" where
  "unpack_results c calls raws =
     (if length calls = length raws then res_map (\<lambda>(call, raw). unpack_result c call raw) (zip calls raws)
      else raise_error ValueError)"

definition try_block_and_aggregate :: "Codec \<Rightarrow> EthCall \<Rightarrow> string \<Rightarrow> Call list \<Rightarrow> BlockId \<Rightarrow> (int \<times> CallResult list) res" where
  "try_block_and_aggregate c eth_call address calls block =
     rbind (pack_calls c calls) (\<lambda>packed.
     rbind (cd_encode c [''bool'', AGGREGATE_ARG] [AbiBool False, AbiArray packed]) (\<lambda>encoded.
     rbind (eth_call address (selector c (''tryBlockAndAggregate(bool,'' @ AGGREGATE_ARG @ '')'') @ encoded) block) (\<lambda>raw.
     rbind (abi_decode (cd_abi c) [''uint256'', ''bytes32'', RESULT_TYPE] raw) (\<lambda>values.
     unpack3 values (\<lambda>number block_hash results.
       rbind (abi_int number) (\<lambda>block_number. rbind (abi_list results) (\<lambda>items.
       rbind (unpack_results c calls items) (\<lambda>rs. ok (block_number, rs)))))))))"

function chunked :: "nat \<Rightarrow> 'a list \<Rightarrow> 'a list list" where
  "chunked n xs = (if xs = [] \<or> n = 0 then [] else take n xs # chunked n (drop n xs))"
  by pat_completeness auto
termination by (relation "measure (\<lambda>(n, xs). length xs)") auto

declare chunked.simps [simp del]

definition CHUNK_SIZE :: nat where "CHUNK_SIZE = 200"

definition aggregate_chunk :: "Codec \<Rightarrow> EthCall \<Rightarrow> string \<Rightarrow> BlockId \<Rightarrow> Call list \<Rightarrow> CallResult list res" where
  "aggregate_chunk c eth_call address block chunk =
     rbind (pack_calls c chunk) (\<lambda>packed.
     rbind (cd_encode c [''bool'', AGGREGATE_ARG] [AbiBool False, AbiArray packed]) (\<lambda>encoded.
     rbind (eth_call address (selector c (''tryAggregate(bool,'' @ AGGREGATE_ARG @ '')'') @ encoded) block) (\<lambda>raw.
     rbind (abi_decode (cd_abi c) [RESULT_TYPE] raw) (\<lambda>values.
     unpack1 values (\<lambda>decoded. rbind (abi_list decoded) (unpack_results c chunk))))))"

definition try_aggregate :: "Codec \<Rightarrow> EthCall \<Rightarrow> string \<Rightarrow> Call list \<Rightarrow> BlockId \<Rightarrow> CallResult list res" where
  "try_aggregate c eth_call address calls block =
     rbind (res_map (aggregate_chunk c eth_call address block) (chunked CHUNK_SIZE calls)) (\<lambda>results. ok (concat results))"

definition multicall_call :: "Codec \<Rightarrow> EthCall \<Rightarrow> Call \<Rightarrow> BlockId \<Rightarrow> AbiValue list res" where
  "multicall_call c eth_call call block =
     rbind (cd_checksum c (ca_target call)) (\<lambda>target. rbind (call_data c call) (\<lambda>data.
     rbind (eth_call target data block) (call_decode c call)))"

text \<open>The calls of the V2 reserves reader, answered by the node.\<close>

definition contract_call :: "Codec \<Rightarrow> EthCall \<Rightarrow> ContractCall" where
  "contract_call c eth_call target signature types block =
     multicall_call c eth_call \<lparr> ca_target = target, ca_signature = signature, ca_args = [], ca_output_types = types \<rparr> (AtBlock block)"

section \<open>The calls of the reader\<close>

type_synonym CallSpec = "string \<times> string list"

definition V3_SLOT0 :: CallSpec where
  "V3_SLOT0 = (''slot0()'', [''uint160'', ''int24'', ''uint16'', ''uint16'', ''uint16'', ''uint8'', ''bool''])"
definition V3_LIQUIDITY :: CallSpec where "V3_LIQUIDITY = (''liquidity()'', [''uint128''])"
definition V3_FEE_GROWTH_GLOBAL0 :: CallSpec where "V3_FEE_GROWTH_GLOBAL0 = (''feeGrowthGlobal0X128()'', [''uint256''])"
definition V3_FEE_GROWTH_GLOBAL1 :: CallSpec where "V3_FEE_GROWTH_GLOBAL1 = (''feeGrowthGlobal1X128()'', [''uint256''])"
definition V3_TICKS :: CallSpec where
  "V3_TICKS = (''ticks(int24)'',
     [''uint128'', ''int128'', ''uint256'', ''uint256'', ''int56'', ''uint160'', ''uint32'', ''bool''])"
definition V3_TICK_BITMAP :: CallSpec where "V3_TICK_BITMAP = (''tickBitmap(int16)'', [''uint256''])"
definition V3_FEE :: CallSpec where "V3_FEE = (''fee()'', [''uint24''])"
definition V3_TICK_SPACING :: CallSpec where "V3_TICK_SPACING = (''tickSpacing()'', [''int24''])"
definition V3_TOKEN0 :: CallSpec where "V3_TOKEN0 = (''token0()'', [''address''])"
definition V3_TOKEN1 :: CallSpec where "V3_TOKEN1 = (''token1()'', [''address''])"
definition ERC20_DECIMALS :: CallSpec where "ERC20_DECIMALS = (''decimals()'', [''uint8''])"
definition MULTICALL3_GET_BLOCK_TIMESTAMP :: CallSpec where
  "MULTICALL3_GET_BLOCK_TIMESTAMP = (''getCurrentBlockTimestamp()'', [''uint256''])"

definition call_of :: "string \<Rightarrow> CallSpec \<Rightarrow> AbiValue list \<Rightarrow> Call" where
  "call_of target spec args =
     \<lparr> ca_target = target, ca_signature = fst spec, ca_args = args, ca_output_types = snd spec \<rparr>"

text \<open>\<open>values[0]\<close>, and \<open>result.value[0]\<close> of a call that may have failed.\<close>

definition first_value :: "AbiValue list \<Rightarrow> AbiValue res" where
  "first_value vs = (case vs of [] \<Rightarrow> raise_error IndexError | v # _ \<Rightarrow> ok v)"

definition result_int :: "nat \<Rightarrow> CallResult \<Rightarrow> int res" where
  "result_int i r =
     (case cr_value r of
        None \<Rightarrow> raise_error TypeError
      | Some vs \<Rightarrow> if i < length vs then abi_int (vs ! i) else raise_error IndexError)"

definition tick_info_from_result :: "int \<Rightarrow> CallResult \<Rightarrow> TickInfo option res" where
  "tick_info_from_result tick result =
     (if \<not> cr_success result then ok None
      else (case cr_value result of
              None \<Rightarrow> ok None
            | Some values \<Rightarrow> unpack8 values (\<lambda>gross net outside0 outside1 cum spl secs init.
                rbind (abi_int gross) (\<lambda>g. rbind (abi_int net) (\<lambda>n. rbind (abi_int outside0) (\<lambda>o0.
                rbind (abi_int outside1) (\<lambda>o1. rbind (abi_bool init) (\<lambda>i.
                  ok (Some \<lparr> ti_tick = tick, liquidity_gross = g, liquidity_net = n, fee_growth_outside0_x128 = o0,
                             fee_growth_outside1_x128 = o1, initialized = i \<rparr>)))))))))"

section \<open>The reader\<close>

record V3PoolAdapter =
  va_multicall :: string
  va_pool :: string
  va_window_words :: int
  va_window_refresh_ticks :: int
  va_max_retries :: int
  va_weth :: string
  va_metadata :: "PoolMetadata option"
  va_window :: "TickWindow option"
  va_window_incomplete :: bool
  va_reads_since_refresh :: int
  va_last_good :: "V3PoolSnapshot option"
  va_base_fee_wei :: "int option"
  va_failures_total :: int

definition pool_adapter_init :: "Codec \<Rightarrow> string \<Rightarrow> int \<Rightarrow> int \<Rightarrow> int \<Rightarrow> string \<Rightarrow> V3PoolAdapter res" where
  "pool_adapter_init c pool_address window_words window_refresh_ticks max_retries weth_address =
     rbind (cd_checksum c MULTICALL3_ADDRESS) (\<lambda>multicall. rbind (cd_checksum c pool_address) (\<lambda>pool.
       ok \<lparr> va_multicall = multicall, va_pool = pool, va_window_words = window_words,
            va_window_refresh_ticks = window_refresh_ticks, va_max_retries = max_retries, va_weth = py_lower weth_address,
            va_metadata = None, va_window = None, va_window_incomplete = False, va_reads_since_refresh = 0,
            va_last_good = None, va_base_fee_wei = None, va_failures_total = 0 \<rparr>))"

definition call_first :: "Codec \<Rightarrow> EthCall \<Rightarrow> string \<Rightarrow> CallSpec \<Rightarrow> AbiValue res" where
  "call_first c eth_call target spec = rbind (multicall_call c eth_call (call_of target spec []) Latest) first_value"

definition fetch_metadata :: "Codec \<Rightarrow> EthCall \<Rightarrow> V3PoolAdapter \<Rightarrow> PoolMetadata res" where
  "fetch_metadata c eth_call a =
     (let pool = va_pool a; first = call_first c eth_call in
      rbind (first pool V3_TOKEN0) (\<lambda>raw0. rbind (first pool V3_TOKEN1) (\<lambda>raw1.
      rbind (first pool V3_FEE) (\<lambda>fee. rbind (first pool V3_TICK_SPACING) (\<lambda>spacing.
      rbind (rbind (abi_address raw0) (cd_checksum c)) (\<lambda>token0. rbind (rbind (abi_address raw1) (cd_checksum c)) (\<lambda>token1.
      rbind (first token0 ERC20_DECIMALS) (\<lambda>dec0. rbind (first token1 ERC20_DECIMALS) (\<lambda>dec1.
      rbind (abi_int dec0) (\<lambda>d0. rbind (abi_int dec1) (\<lambda>d1. rbind (abi_int fee) (\<lambda>f. rbind (abi_int spacing) (\<lambda>s.
        ok \<lparr> md_pool_address = pool, md_token0 = token0, md_token1 = token1, md_token0_decimals = d0,
             md_token1_decimals = d1, md_fee_pips = f, md_tick_spacing = s,
             md_base_is_token0 = (py_lower token0 = va_weth a) \<rparr>)))))))))))))"

definition load_metadata :: "Codec \<Rightarrow> EthCall \<Rightarrow> V3PoolAdapter \<Rightarrow> V3PoolAdapter \<times> PoolMetadata res" where
  "load_metadata c eth_call a =
     (case va_metadata a of
        Some known \<Rightarrow> (a, ok known)
      | None \<Rightarrow> sbind (a, fetch_metadata c eth_call a) (\<lambda>a meta. (a\<lparr> va_metadata := Some meta \<rparr>, ok meta)))"

subsection \<open>The tick window\<close>

text \<open>The ends of the contiguous run of loaded words around a word.\<close>

function run_start :: "(int, int) dict \<Rightarrow> int \<Rightarrow> int" where
  "run_start words w = (if w - 1 \<in> set (dict_keys words) then run_start words (w - 1) else w)"
  by pat_completeness simp
termination
proof (relation "measure (\<lambda>(words, w). card {k \<in> set (dict_keys words). k < w})")
  fix words :: "(int, int) dict" and w
  define S where "S = set (dict_keys words)"
  assume "w - 1 \<in> set (dict_keys words)"
  then have "w - 1 \<in> {k \<in> S. k < w}" by (simp add: S_def)
  moreover have "w - 1 \<notin> {k \<in> S. k < w - 1}" by simp
  moreover have "{k \<in> S. k < w - 1} \<subseteq> {k \<in> S. k < w}" by (rule Collect_mono) simp
  ultimately have "{k \<in> S. k < w - 1} \<subset> {k \<in> S. k < w}" by blast
  moreover have "finite {k \<in> S. k < w}" by (simp add: S_def)
  ultimately have "card {k \<in> S. k < w - 1} < card {k \<in> S. k < w}" by (rule psubset_card_mono [rotated])
  then show "((words, w - 1), (words, w)) \<in> measure (\<lambda>(words, w). card {k \<in> set (dict_keys words). k < w})"
    unfolding S_def by (simp only: in_measure prod.case)
qed simp

function run_end :: "(int, int) dict \<Rightarrow> int \<Rightarrow> int" where
  "run_end words w = (if w + 1 \<in> set (dict_keys words) then run_end words (w + 1) else w)"
  by pat_completeness simp
termination
proof (relation "measure (\<lambda>(words, w). card {k \<in> set (dict_keys words). w < k})")
  fix words :: "(int, int) dict" and w
  define S where "S = set (dict_keys words)"
  assume "w + 1 \<in> set (dict_keys words)"
  then have "w + 1 \<in> {k \<in> S. w < k}" by (simp add: S_def)
  moreover have "w + 1 \<notin> {k \<in> S. w + 1 < k}" by simp
  moreover have "{k \<in> S. w + 1 < k} \<subseteq> {k \<in> S. w < k}" by (rule Collect_mono) simp
  ultimately have "{k \<in> S. w + 1 < k} \<subset> {k \<in> S. w < k}" by blast
  moreover have "finite {k \<in> S. w < k}" by (simp add: S_def)
  ultimately have "card {k \<in> S. w + 1 < k} < card {k \<in> S. w < k}" by (rule psubset_card_mono [rotated])
  then show "((words, w + 1), (words, w)) \<in> measure (\<lambda>(words, w). card {k \<in> set (dict_keys words). w < k})"
    unfolding S_def by (simp only: in_measure prod.case)
qed simp

declare run_start.simps [simp del] run_end.simps [simp del]

definition collect_words :: "int list \<Rightarrow> CallResult list \<Rightarrow> (int, int) dict res" where
  "collect_words positions results =
     rbind (res_map (\<lambda>(word, r). if cr_success r then rbind (result_int 0 r) (\<lambda>v. ok (Some (word, v))) else ok None)
              (zip positions results)) (\<lambda>found. ok (List.map_filter id found))"

definition collect_ticks :: "int list \<Rightarrow> CallResult list \<Rightarrow> ((int, TickInfo) dict \<times> bool) res" where
  "collect_ticks ticks results =
     rbind (res_map (\<lambda>(t, r). rbind (tick_info_from_result t r) (\<lambda>info. ok (map_option (Pair t) info)))
              (zip ticks results)) (\<lambda>found.
       ok (fold (\<lambda>(t, info). dict_set t info) (List.map_filter id found) [], None \<in> set found))"

definition load_words :: "Codec \<Rightarrow> EthCall \<Rightarrow> V3PoolAdapter \<Rightarrow> int \<Rightarrow> int \<Rightarrow> ((int, int) dict \<times> bool) res" where
  "load_words c eth_call a block center =
     (let positions = [center - va_window_words a .. center + va_window_words a] in
      rbind (try_aggregate c eth_call (va_multicall a) (map (\<lambda>word. call_of (va_pool a) V3_TICK_BITMAP [AbiInt word]) positions)
               (AtBlock block)) (\<lambda>results.
      rbind (collect_words positions results) (\<lambda>words. ok (words, \<not> list_all cr_success results))))"

definition window_around :: "int \<Rightarrow> (int, int) dict \<Rightarrow> (int, int) dict \<times> int \<times> int" where
  "window_around center words =
     (let low = run_start words center; high = run_end words center
      in (filter (\<lambda>(w, v). low \<le> w \<and> w \<le> high) words, low, high))"

definition load_window :: "Codec \<Rightarrow> EthCall \<Rightarrow> V3PoolAdapter \<Rightarrow> int \<Rightarrow> int \<Rightarrow> int \<Rightarrow> (TickWindow \<times> bool) res" where
  "load_window c eth_call a block tick spacing =
     rbind (word_position_for_tick tick spacing) (\<lambda>center.
     rbind (load_words c eth_call a block center) (\<lambda>(words, missing).
     if words = [] then raise_error RuntimeError
     else if center \<notin> set (dict_keys words) then raise_error RuntimeError
     else
       let (kept, low, high) = window_around center words in
       (case initialized_ticks_in_words kept spacing of
          None \<Rightarrow> raise_error Diverges
        | Some listed \<Rightarrow>
            rbind (try_aggregate c eth_call (va_multicall a) (map (\<lambda>t. call_of (va_pool a) V3_TICKS [AbiInt t]) listed)
                     (AtBlock block)) (\<lambda>results.
            rbind (collect_ticks listed results) (\<lambda>(ticks, absent).
              ok (\<lparr> tw_block_number = block, tick_spacing = spacing, bitmap_words = kept, tw_ticks = ticks,
                    min_word = low, max_word = high \<rparr>,
                  missing \<or> absent))))))"

definition window_needs_refresh :: "V3PoolAdapter \<Rightarrow> int \<Rightarrow> int \<Rightarrow> bool res" where
  "window_needs_refresh a tick spacing =
     (case va_window a of
        None \<Rightarrow> ok True
      | Some w \<Rightarrow>
          if va_reads_since_refresh a \<ge> va_window_refresh_ticks a then ok True
          else rbind (word_position_for_tick tick spacing) (\<lambda>word. ok (\<not> (min_word w < word \<and> word < max_word w))))"

definition maybe_refresh_window ::
    "Codec \<Rightarrow> EthCall \<Rightarrow> int \<Rightarrow> int \<Rightarrow> int \<Rightarrow> V3PoolAdapter \<Rightarrow> V3PoolAdapter \<times> TickWindow option res" where
  "maybe_refresh_window c eth_call block tick spacing a =
     (let a = a\<lparr> va_reads_since_refresh := va_reads_since_refresh a + 1 \<rparr> in
      sbind (a, window_needs_refresh a tick spacing) (\<lambda>a refresh.
        if \<not> refresh then (a, ok (va_window a))
        else (case load_window c eth_call a block tick spacing of
                Inr (w, incomplete) \<Rightarrow>
                  (a\<lparr> va_window := Some w, va_window_incomplete := incomplete, va_reads_since_refresh := 0 \<rparr>, ok (Some w))
              | Inl e \<Rightarrow> if e = Diverges then (a, Inl Diverges)
                         else (a\<lparr> va_window_incomplete := True \<rparr>, ok (va_window a)))))"

subsection \<open>A read\<close>

text \<open>\<open>datetime.fromtimestamp\<close> of whole seconds in UTC: years after 9999 are refused.\<close>

definition utc_of_seconds :: "int \<Rightarrow> datetime res" where
  "utc_of_seconds seconds =
     (if seconds \<ge> 2 ^ 63 then raise_error OverflowError
      else if seconds > 253402300799 then raise_error ValueError
      else ok (seconds * 10 ^ 6))"

definition read_base_fee :: "Endpoint \<Rightarrow> V3PoolAdapter \<Rightarrow> int \<Rightarrow> int option" where
  "read_base_fee ep a block =
     (case ep_base_fee ep of
        None \<Rightarrow> None
      | Some reader \<Rightarrow> (case reader block of Inl e \<Rightarrow> va_base_fee_wei a | Inr fee \<Rightarrow> fee))"

definition state_calls :: "V3PoolAdapter \<Rightarrow> string \<Rightarrow> (int \<times> int) option \<Rightarrow> Call list" where
  "state_calls a pool bounds =
     [call_of pool V3_SLOT0 [], call_of pool V3_LIQUIDITY [], call_of pool V3_FEE_GROWTH_GLOBAL0 [],
      call_of pool V3_FEE_GROWTH_GLOBAL1 [], call_of (va_multicall a) MULTICALL3_GET_BLOCK_TIMESTAMP []]
     @ (case bounds of
          None \<Rightarrow> []
        | Some (lower, upper) \<Rightarrow> [call_of pool V3_TICKS [AbiInt lower], call_of pool V3_TICKS [AbiInt upper]])"

record CoreState =
  co_block :: int
  co_sqrt_price :: int
  co_tick :: int
  co_bounds :: "(TickInfo option \<times> TickInfo option) option"
  co_results :: "CallResult list"

definition bound_results :: "(int \<times> int) option \<Rightarrow> CallResult list \<Rightarrow> (TickInfo option \<times> TickInfo option) option res" where
  "bound_results bounds results =
     (case bounds of
        None \<Rightarrow> ok None
      | Some (lower, upper) \<Rightarrow>
          rbind (tick_info_from_result lower (results ! 5)) (\<lambda>lower_info.
          rbind (tick_info_from_result upper (results ! 6)) (\<lambda>upper_info. ok (Some (lower_info, upper_info)))))"

definition read_core :: "Codec \<Rightarrow> EthCall \<Rightarrow> V3PoolAdapter \<Rightarrow> PoolMetadata \<Rightarrow> (int \<times> int) option \<Rightarrow> CoreState res" where
  "read_core c eth_call a meta bounds =
     rbind (try_block_and_aggregate c eth_call (va_multicall a) (state_calls a (md_pool_address meta) bounds) Latest)
       (\<lambda>(block_number, results).
     if \<not> list_all cr_success (take 4 results) then raise_error RuntimeError
     else
       rbind (result_int 0 (results ! 0)) (\<lambda>sqrt_price. rbind (result_int 1 (results ! 0)) (\<lambda>tick.
       rbind (bound_results bounds results) (\<lambda>infos.
         ok \<lparr> co_block = block_number, co_sqrt_price = sqrt_price, co_tick = tick, co_bounds = infos,
              co_results = results \<rparr>))))"

definition bounds_incomplete :: "(TickInfo option \<times> TickInfo option) option \<Rightarrow> bool" where
  "bounds_incomplete infos = (case infos of None \<Rightarrow> False | Some (lower, upper) \<Rightarrow> lower = None \<or> upper = None)"

definition snapshot_of ::
    "Libm \<Rightarrow> Endpoint \<Rightarrow> V3PoolAdapter \<Rightarrow> PoolMetadata \<Rightarrow> CoreState \<Rightarrow> TickWindow option \<Rightarrow> V3PoolSnapshot res" where
  "snapshot_of m ep a meta core window =
     (let results = co_results core in
      rbind (if cr_success (results ! 4) then rbind (result_int 0 (results ! 4)) utc_of_seconds else ok (ep_clock ep)) (\<lambda>timestamp.
      rbind (result_int 0 (results ! 1)) (\<lambda>liquidity. rbind (result_int 0 (results ! 2)) (\<lambda>fg0. rbind (result_int 0 (results ! 3)) (\<lambda>fg1.
        ok \<lparr> sn_metadata = meta, sn_sqrt_price_x96 = co_sqrt_price core, sn_tick = co_tick core, sn_liquidity = liquidity,
             sn_fee_growth_global0_x128 = fg0, sn_fee_growth_global1_x128 = fg1, sn_block_number = co_block core,
             sn_block_timestamp = timestamp,
             sn_price = sqrt_price_x96_to_price m (co_sqrt_price core) (md_base_is_token0 meta) (md_token0_decimals meta)
               (md_token1_decimals meta),
             sn_lower_tick_info = Option.bind (co_bounds core) fst, sn_upper_tick_info = Option.bind (co_bounds core) snd,
             sn_base_fee_wei = va_base_fee_wei a, sn_window = window, sn_is_stale = False,
             sn_is_incomplete = (bounds_incomplete (co_bounds core) \<or> va_window_incomplete a),
             sn_data_source = live, sn_tick_id = None \<rparr>)))))"

definition refresh_base_fee :: "Endpoint \<Rightarrow> int \<Rightarrow> V3PoolAdapter \<Rightarrow> V3PoolAdapter" where
  "refresh_base_fee ep block a =
     (if va_base_fee_wei a = None \<or> va_reads_since_refresh a = 0 then a\<lparr> va_base_fee_wei := read_base_fee ep a block \<rparr> else a)"

definition read_once ::
    "Libm \<Rightarrow> Codec \<Rightarrow> Endpoint \<Rightarrow> (int \<times> int) option \<Rightarrow> V3PoolAdapter \<Rightarrow> V3PoolAdapter \<times> V3PoolSnapshot res" where
  "read_once m c ep bounds a =
     sbind (load_metadata c (ep_call ep) a) (\<lambda>a meta.
     sbind (a, read_core c (ep_call ep) a meta bounds) (\<lambda>a core.
     sbind (maybe_refresh_window c (ep_call ep) (co_block core) (co_tick core) (md_tick_spacing meta) a) (\<lambda>a window.
       let a = refresh_base_fee ep (co_block core) a
       in (a, snapshot_of m ep a meta core window))))"

text \<open>
  The attempts, each on its endpoint: \<open>Inl\<close> the last error when all have failed (\<open>None\<close> when there was none to make).
\<close>

fun read_attempts ::
    "(nat \<Rightarrow> V3PoolAdapter \<Rightarrow> V3PoolAdapter \<times> V3PoolSnapshot res) \<Rightarrow> nat list \<Rightarrow> py_error option \<Rightarrow> V3PoolAdapter
      \<Rightarrow> V3PoolAdapter \<times> (py_error option + V3PoolSnapshot)" where
  "read_attempts once [] last_error a = (a, Inl last_error)"
| "read_attempts once (attempt # rest) last_error a =
     (case once attempt a of
        (a, Inr snapshot) \<Rightarrow> (a\<lparr> va_last_good := Some snapshot \<rparr>, Inr snapshot)
      | (a, Inl e) \<Rightarrow> if e = Diverges then (a, Inl (Some Diverges)) else read_attempts once rest (Some e) a)"

definition fall_back :: "py_error option \<Rightarrow> V3PoolAdapter \<Rightarrow> V3PoolAdapter \<times> V3PoolSnapshot res" where
  "fall_back last_error a =
     (let a = a\<lparr> va_failures_total := va_failures_total a + 1 \<rparr> in
      (a, case va_last_good a of
            None \<Rightarrow> raise_error (V3PoolUnavailable (''V3 pool read failed: '' @
                      (case last_error of None \<Rightarrow> ''NoneType'' | Some e \<Rightarrow> error_name e)))
          | Some snapshot \<Rightarrow> ok (snapshot\<lparr> sn_is_stale := True \<rparr>)))"

definition read_snapshot ::
    "Libm \<Rightarrow> Codec \<Rightarrow> (nat \<Rightarrow> Endpoint) \<Rightarrow> (int \<times> int) option \<Rightarrow> V3PoolAdapter \<Rightarrow> V3PoolAdapter \<times> V3PoolSnapshot res" where
  "read_snapshot m c endpoints bounds a =
     (case read_attempts (\<lambda>attempt. read_once m c (endpoints attempt) bounds) [1..<nat (va_max_retries a) + 1] None a of
        (a, Inr snapshot) \<Rightarrow> (a, ok snapshot)
      | (a, Inl last_error) \<Rightarrow>
          if last_error = Some Diverges then (a, Inl Diverges) else fall_back last_error a)"

end
