(* ===== verification/Pool_Reader_Facts.thy ===== *)
theory Pool_Reader_Facts
  imports Pool_Reader
begin

text \<open>
  What the pool reader guarantees: the shape of a loaded tick window, that a window reported complete has every
  initialized tick of its words, and that a snapshot says truly whether it is fresh and complete.
\<close>

section \<open>Batches answer call by call\<close>

lemma unpack_results_length: "unpack_results c calls raws = Inr rs \<Longrightarrow> length rs = length calls"
  by (auto simp: unpack_results_def split: if_split_asm dest: res_map_length)

lemma aggregate_chunk_length: "aggregate_chunk c eth_call address block chunk = Inr rs \<Longrightarrow> length rs = length chunk"
  by (auto simp: aggregate_chunk_def unpack_results_length)

lemma concat_chunked: "0 < n \<Longrightarrow> concat (chunked n xs) = xs"
proof (induction n xs rule: chunked.induct)
  case (1 n xs)
  show ?case
  proof (cases "xs = []")
    case False
    then have "concat (chunked n xs) = take n xs @ concat (chunked n (drop n xs))"
      using "1.prems" by (subst chunked.simps) simp
    then show ?thesis using 1 False by simp
  qed (subst chunked.simps, simp)
qed

lemma res_map_concat_length:
  "res_map f chunks = Inr rss \<Longrightarrow> (\<And>chunk rs. f chunk = Inr rs \<Longrightarrow> length rs = length chunk)
    \<Longrightarrow> length (concat rss) = length (concat chunks)"
  by (induction chunks arbitrary: rss) auto

lemma try_aggregate_length:
  assumes "try_aggregate c eth_call address calls block = Inr rs"
  shows "length rs = length calls"
proof -
  from assms obtain rss where "res_map (aggregate_chunk c eth_call address block) (chunked CHUNK_SIZE calls) = Inr rss" "rs = concat rss"
    by (auto simp: try_aggregate_def)
  then have "length rs = length (concat (chunked CHUNK_SIZE calls))"
    using res_map_concat_length aggregate_chunk_length by metis
  then show ?thesis by (simp add: concat_chunked CHUNK_SIZE_def)
qed

section \<open>The window\<close>

lemma run_start_run:
  "run_start words w \<le> w \<and> {run_start words w ..< w} \<subseteq> set (dict_keys words) \<and> run_start words w - 1 \<notin> set (dict_keys words)"
proof (induction words w rule: run_start.induct)
  case (1 words w)
  show ?case
  proof (cases "w - 1 \<in> set (dict_keys words)")
    case True
    then have "run_start words w = run_start words (w - 1)" by (subst run_start.simps) simp
    moreover have "{run_start words (w - 1) ..< w} = insert (w - 1) {run_start words (w - 1) ..< w - 1}"
      using 1 True by auto
    ultimately show ?thesis using 1 True by auto
  next
    case False
    then have "run_start words w = w" by (subst run_start.simps) simp
    then show ?thesis using False by simp
  qed
qed

lemma run_end_run:
  "w \<le> run_end words w \<and> {w <.. run_end words w} \<subseteq> set (dict_keys words) \<and> run_end words w + 1 \<notin> set (dict_keys words)"
proof (induction words w rule: run_end.induct)
  case (1 words w)
  show ?case
  proof (cases "w + 1 \<in> set (dict_keys words)")
    case True
    then have "run_end words w = run_end words (w + 1)" by (subst run_end.simps) simp
    moreover have "{w <.. run_end words (w + 1)} = insert (w + 1) {w + 1 <.. run_end words (w + 1)}"
      using 1 True by auto
    ultimately show ?thesis using 1 True by auto
  next
    case False
    then have "run_end words w = w" by (subst run_end.simps) simp
    then show ?thesis using False by simp
  qed
qed

definition found_words :: "int \<times> CallResult \<Rightarrow> (int \<times> int) option res" where
  "found_words = (\<lambda>(word, r). if cr_success r then rbind (result_int 0 r) (\<lambda>v. ok (Some (word, v))) else ok None)"

lemma collect_words_keys:
  "res_map found_words (zip positions results) = Inr found \<Longrightarrow> distinct positions
    \<Longrightarrow> distinct (map fst (List.map_filter id found)) \<and> set (map fst (List.map_filter id found)) \<subseteq> set positions
       \<and> (length results = length positions \<and> list_all cr_success results \<longrightarrow> map fst (List.map_filter id found) = positions)"
proof (induction positions arbitrary: results found)
  case (Cons p ps)
  show ?case
  proof (cases results)
    case (Cons r rs)
    then obtain y ys where head: "found_words (p, r) = Inr y" and found: "found = y # ys"
        and tail: "res_map found_words (zip ps rs) = Inr ys"
      using Cons.prems(1) by auto
    define ws where "ws = map fst (List.map_filter id ys)"
    note IH = Cons.IH [OF tail, folded ws_def]
    have "y = None \<and> \<not> cr_success r \<or> (\<exists>v. y = Some (p, v)) \<and> cr_success r"
      using head by (auto simp: found_words_def split: if_split_asm)
    then show ?thesis
    proof
      assume "y = None \<and> \<not> cr_success r"
      then have step: "map fst (List.map_filter id found) = ws" and fails: "\<not> cr_success r"
        by (simp_all add: found ws_def)
      show ?thesis unfolding step using IH Cons.prems(2) Cons fails by auto
    next
      assume "(\<exists>v. y = Some (p, v)) \<and> cr_success r"
      then obtain v where y: "y = Some (p, v)" "cr_success r" by blast
      have step: "map fst (List.map_filter id found) = p # ws"
        by (simp add: found y ws_def)
      show ?thesis unfolding step using IH Cons.prems(2) Cons y(2) by auto
    qed
  qed (use Cons.prems in \<open>auto\<close>)
qed auto

definition found_tick :: "int \<times> CallResult \<Rightarrow> (int \<times> TickInfo) option res" where
  "found_tick = (\<lambda>(t, r). rbind (tick_info_from_result t r) (\<lambda>info. ok (map_option (Pair t) info)))"

lemma tick_info_tick: "tick_info_from_result t r = Inr (Some info) \<Longrightarrow> ti_tick info = t"
  by (auto simp: tick_info_from_result_def split: if_split_asm option.split_asm)

lemma found_ticks:
  "res_map found_tick (zip listed results) = Inr found
    \<Longrightarrow> (\<forall>x\<in>set (List.map_filter id found). fst x \<in> set listed \<and> ti_tick (snd x) = fst x)
       \<and> (length results = length listed \<and> None \<notin> set found \<longrightarrow> fst ` set (List.map_filter id found) = set listed)"
proof (induction listed arbitrary: results found)
  case (Cons t ts)
  show ?case
  proof (cases results)
    case (Cons r rs)
    then obtain y ys where head: "found_tick (t, r) = Inr y" and found: "found = y # ys"
        and tail: "res_map found_tick (zip ts rs) = Inr ys"
      using Cons.prems(1) by auto
    define ws where "ws = List.map_filter id ys"
    note IH = Cons.IH [OF tail, folded ws_def]
    show ?thesis
    proof (cases y)
      case None
      then have step: "List.map_filter id found = ws" and "None \<in> set found"
        by (simp_all add: found ws_def)
      then show ?thesis unfolding step using IH by auto
    next
      case (Some pair)
      then obtain info where y: "y = Some (t, info)" "ti_tick info = t"
        using head by (auto simp: found_tick_def dest: tick_info_tick)
      have step: "List.map_filter id found = (t, info) # ws"
        by (simp add: found y ws_def)
      show ?thesis unfolding step using IH Cons y found by auto
    qed
  qed (use Cons.prems in \<open>auto\<close>)
qed auto

abbreviation set_all :: "('k \<times> 'v) list \<Rightarrow> ('k, 'v) dict \<Rightarrow> ('k, 'v) dict" where
  "set_all xs d \<equiv> fold (\<lambda>(t, x). dict_set t x) xs d"

lemma set_all_wf: "wf_dict d \<Longrightarrow> wf_dict (set_all xs d)"
  by (induction xs arbitrary: d) auto

lemma set_all_keys: "set (dict_keys (set_all xs d)) = fst ` set xs \<union> set (dict_keys d)"
  by (induction xs arbitrary: d) auto

lemma set_all_get: "dict_get (set_all xs d) k = Some y \<Longrightarrow> (k, y) \<in> set xs \<or> dict_get d k = Some y"
proof (induction xs arbitrary: d)
  case (Cons a xs)
  obtain t x where a: "a = (t, x)" by fastforce
  then show ?case using Cons.IH [of "dict_set t x d"] Cons.prems by (auto split: if_split_asm)
qed simp

text \<open>
  The shape of every window the reader keeps: a contiguous run of words, and tick records only for ticks that
  the words list. A complete window has a record for each of them.
\<close>

definition window_sound :: "TickWindow \<Rightarrow> bool" where
  "window_sound w \<longleftrightarrow>
     min_word w \<le> max_word w \<and> wf_dict (bitmap_words w) \<and> set (dict_keys (bitmap_words w)) = {min_word w..max_word w}
     \<and> wf_dict (tw_ticks w) \<and> (\<forall>t info. dict_get (tw_ticks w) t = Some info \<longrightarrow> ti_tick info = t)
     \<and> (case initialized_ticks_in_words (bitmap_words w) (tick_spacing w) of
          None \<Rightarrow> False | Some listed \<Rightarrow> set (dict_keys (tw_ticks w)) \<subseteq> set listed)"

definition window_complete :: "TickWindow \<Rightarrow> bool" where
  "window_complete w \<longleftrightarrow>
     (case initialized_ticks_in_words (bitmap_words w) (tick_spacing w) of
        None \<Rightarrow> False | Some listed \<Rightarrow> set (dict_keys (tw_ticks w)) = set listed)"

lemma collect_ticks_result:
  assumes "collect_ticks listed results = Inr (ticks, absent)" and "length results = length listed"
  shows "wf_dict ticks" "\<And>t info. dict_get ticks t = Some info \<Longrightarrow> ti_tick info = t" "set (dict_keys ticks) \<subseteq> set listed"
    "\<not> absent \<Longrightarrow> set (dict_keys ticks) = set listed"
proof -
  from assms obtain found where found: "res_map found_tick (zip listed results) = Inr found"
      and ticks: "ticks = fold (\<lambda>(t, info). dict_set t info) (List.map_filter id found) []" and absent: "absent = (None \<in> set found)"
    by (auto simp: collect_ticks_def found_tick_def)
  note facts = found_ticks [OF found]
  have keys: "set (dict_keys ticks) = fst ` set (List.map_filter id found)"
    unfolding ticks set_all_keys by (simp add: dict_keys_def)
  show "wf_dict ticks" unfolding ticks by (rule set_all_wf) simp
  show "set (dict_keys ticks) \<subseteq> set listed" using facts keys by auto
  show "ti_tick info = t" if "dict_get ticks t = Some info" for t info
    using facts set_all_get that unfolding ticks by fastforce
  show "set (dict_keys ticks) = set listed" if "\<not> absent" using facts keys absent that assms(2) by auto
qed

lemma window_around_facts:
  assumes words: "distinct (map fst words)" "set (map fst words) \<subseteq> {lo..hi}" and center: "center \<in> set (dict_keys words)"
    and around: "window_around center words = (kept, low, high)"
  shows "low \<le> center" "center \<le> high" "lo \<le> low" "high \<le> hi" "wf_dict kept" "set (dict_keys kept) = {low..high}"
    and "set (map fst words) = {lo..hi} \<Longrightarrow> low = lo \<and> high = hi"
proof -
  let ?keys = "set (dict_keys words)"
  have low: "low \<le> center \<and> {low ..< center} \<subseteq> ?keys \<and> low - 1 \<notin> ?keys"
    and high: "center \<le> high \<and> {center <.. high} \<subseteq> ?keys \<and> high + 1 \<notin> ?keys"
    and kept: "kept = filter (\<lambda>(w, v). low \<le> w \<and> w \<le> high) words"
    using around run_start_run [of words center] run_end_run [of center words] by (auto simp: window_around_def Let_def)
  show bounds: "low \<le> center" "center \<le> high" using low high by auto
  have "{low..high} = {low ..< center} \<union> {center} \<union> {center <.. high}" using low high by auto
  then have run: "{low..high} \<subseteq> ?keys" using low high center by auto
  show ends: "lo \<le> low" "high \<le> hi" using subsetD [OF run, of low] subsetD [OF run, of high] words bounds
    by (auto simp: dict_keys_def)
  show "wf_dict kept" using words(1) unfolding kept wf_dict_def dict_keys_def by (rule distinct_map_filter)
  have "set (dict_keys kept) = {w \<in> ?keys. low \<le> w \<and> w \<le> high}" unfolding kept dict_keys_def by force
  then show "set (dict_keys kept) = {low..high}" using run by auto
  assume all: "set (map fst words) = {lo..hi}"
  then have keys: "?keys = {lo..hi}" by (simp add: dict_keys_def)
  then have "low - 1 \<notin> {lo..hi}" "high + 1 \<notin> {lo..hi}" using low high by auto
  then show "low = lo \<and> high = hi" using bounds ends by auto
qed

text \<open>What a successful load returns.\<close>

definition load_promise :: "V3PoolAdapter \<Rightarrow> int \<Rightarrow> int \<Rightarrow> int \<Rightarrow> TickWindow \<Rightarrow> bool \<Rightarrow> bool" where
  "load_promise a block center spacing w incomplete \<longleftrightarrow>
     window_sound w \<and> tick_spacing w = spacing \<and> tw_block_number w = block
     \<and> center - va_window_words a \<le> min_word w \<and> min_word w \<le> center \<and> center \<le> max_word w \<and> max_word w \<le> center + va_window_words a
     \<and> (incomplete \<or> window_complete w \<and> min_word w = center - va_window_words a \<and> max_word w = center + va_window_words a)"

lemma load_window_facts:
  assumes "load_window c eth_call a block tick spacing = Inr (w, incomplete)"
  shows "\<exists>center. word_position_for_tick tick spacing = Inr center \<and> load_promise a block center spacing w incomplete"
proof -
  from assms obtain center words missing where center: "word_position_for_tick tick spacing = Inr center"
    and words: "load_words c eth_call a block center = Inr (words, missing)" and mem: "center \<in> set (dict_keys words)"
    by (auto simp: load_window_def split: if_split_asm)
  obtain kept low high where around: "window_around center words = (kept, low, high)" by (rule prod_cases3)
  from assms obtain listed results ticks absent where
      listed: "initialized_ticks_in_words kept spacing = Some listed"
      and results: "try_aggregate c eth_call (va_multicall a) (map (\<lambda>t. call_of (va_pool a) V3_TICKS [AbiInt t]) listed) (AtBlock block) = Inr results"
      and ticks: "collect_ticks listed results = Inr (ticks, absent)"
      and w: "w = \<lparr> tw_block_number = block, tick_spacing = spacing, bitmap_words = kept, tw_ticks = ticks, min_word = low, max_word = high \<rparr>"
      and incomplete: "incomplete \<longleftrightarrow> missing \<or> absent"
    by (auto simp: load_window_def center words around Let_def split: if_split_asm option.split_asm)
  define positions where "positions = [center - va_window_words a .. center + va_window_words a]"
  from words obtain word_results where
      word_results: "try_aggregate c eth_call (va_multicall a) (map (\<lambda>word. call_of (va_pool a) V3_TICK_BITMAP [AbiInt word]) positions) (AtBlock block) = Inr word_results"
      and collected: "collect_words positions word_results = Inr words" and missing: "missing \<longleftrightarrow> \<not> list_all cr_success word_results"
    by (auto simp: load_words_def Let_def positions_def)
  have lengths: "length word_results = length positions" "length results = length listed"
    using try_aggregate_length [OF word_results] try_aggregate_length [OF results] by simp_all
  from collected obtain found where found: "res_map found_words (zip positions word_results) = Inr found"
      and words_eq: "words = List.map_filter id found"
    by (auto simp: collect_words_def found_words_def)
  have keys: "distinct (map fst words)" "set (map fst words) \<subseteq> {center - va_window_words a .. center + va_window_words a}"
      "\<not> missing \<Longrightarrow> set (map fst words) = {center - va_window_words a .. center + va_window_words a}"
    using collect_words_keys [OF found] lengths missing words_eq by (auto simp: positions_def)
  note run = window_around_facts [OF keys(1,2) mem around]
  note tick_facts = collect_ticks_result [OF ticks lengths(2)]
  have "window_sound w"
    using run tick_facts listed by (auto simp: window_sound_def w)
  moreover have "window_complete w" if "\<not> incomplete"
    using that tick_facts(4) listed incomplete by (simp add: window_complete_def w)
  moreover have "low = center - va_window_words a \<and> high = center + va_window_words a" if "\<not> incomplete"
    using that run(7) keys(3) incomplete by blast
  ultimately show ?thesis
    using center run by (auto simp: load_promise_def w)
qed

text \<open>
  A window that loads without a warning answers every search of the swap loop inside it: each initialized tick it
  finds has its record, so a swap never stops for a missing tick. The words are those of a chain, below \<open>2 ^ 256\<close>.
\<close>

lemma complete_window_has_tick:
  assumes complete: "window_complete w" and valid: "words_valid (bitmap_words w)" and spacing: "0 < tick_spacing w"
    and span: "{min_word w..max_word w} \<subseteq> set (dict_keys (bitmap_words w))"
    and found: "next_initialized_tick_within_one_word w tick lte = Inr (next_tick, True)"
  shows "\<exists>info. dict_get (tw_ticks w) next_tick = Some info"
proof -
  define start where "start = search_start w tick lte"
  have loaded: "loaded w start"
    using next_tick_exact [OF start_def] found spacing by (auto split: if_split_asm)
  then obtain nc where nc: "next_tick = nc * tick_spacing w" "tick_set w nc" "nc div 256 = start div 256"
    using next_tick_exact [OF start_def] found spacing by fastforce
  obtain cs where cs: "initialized_ticks_in_words (bitmap_words w) (tick_spacing w) = Some (map (\<lambda>c. c * tick_spacing w) cs)"
      "set cs = {c. c div 256 \<in> set (dict_keys (bitmap_words w)) \<and> bit (dict_get_or (bitmap_words w) (c div 256) 0) (nat (c mod 256))}"
    using listed_ticks [OF valid spacing] by blast
  have "nc div 256 \<in> set (dict_keys (bitmap_words w))" using loaded nc(3) span by (auto simp: loaded_def)
  then have "nc \<in> set cs" using nc(2) cs(2) by (simp add: tick_set_def)
  then have "next_tick \<in> set (dict_keys (tw_ticks w))"
    using complete cs(1) nc(1) by (auto simp: window_complete_def)
  then show ?thesis using dict_get_None_iff [of "tw_ticks w" next_tick] by (cases "dict_get (tw_ticks w) next_tick") auto
qed

definition answers_search :: "TickWindow \<Rightarrow> int \<Rightarrow> bool \<Rightarrow> bool" where
  "answers_search w tick lte \<longleftrightarrow>
     (case next_initialized_tick_within_one_word w tick lte of
        Inl e \<Rightarrow> e = WindowExhausted
      | Inr (next_tick, False) \<Rightarrow> True
      | Inr (next_tick, True) \<Rightarrow>
          (case dict_get (tw_ticks w) next_tick of None \<Rightarrow> False | Some info \<Rightarrow> ti_tick info = next_tick))"

lemma complete_window_answers:
  assumes "window_sound w" "window_complete w" "words_valid (bitmap_words w)" "0 < tick_spacing w"
  shows "answers_search w tick lte"
proof (cases "next_initialized_tick_within_one_word w tick lte")
  case (Inl e)
  have "e = WindowExhausted"
    using next_tick_exact [of _ w tick lte, OF refl] Inl assms(4) by (auto split: if_split_asm)
  then show ?thesis by (simp add: answers_search_def Inl)
next
  case (Inr pair)
  obtain next_tick hit where pair: "pair = (next_tick, hit)" by fastforce
  have span: "{min_word w..max_word w} \<subseteq> set (dict_keys (bitmap_words w))" using assms(1) by (simp add: window_sound_def)
  show ?thesis
  proof (cases hit)
    case True
    then obtain info where "dict_get (tw_ticks w) next_tick = Some info"
      using complete_window_has_tick [OF assms(2-4) span] Inr pair by fastforce
    moreover from this have "ti_tick info = next_tick" using assms(1) by (simp add: window_sound_def)
    ultimately show ?thesis by (simp add: answers_search_def Inr pair True)
  qed (simp add: answers_search_def Inr pair)
qed

text \<open>C19. Loading a window: it is the contiguous run of loaded words around the word of the tick, within the distance
  asked for, and holds records only for ticks its words list. When it is not flagged incomplete it has all the
  words and all their ticks, so every search a swap makes in it finds the record of the tick it hits, or leaves
  the window; with words below \<open>2 ^ 256\<close>, as those of a chain are.
\<close>

theorem loaded_window_answers_swaps:
  "case load_window c eth_call a block tick spacing of
     Inl e \<Rightarrow> True
   | Inr (w, incomplete) \<Rightarrow>
       (\<exists>center. word_position_for_tick tick spacing = Inr center \<and> load_promise a block center spacing w incomplete)
       \<and> (if \<not> incomplete \<and> words_valid (bitmap_words w) \<and> 0 < spacing then \<forall>search_from lte. answers_search w search_from lte else True)"
proof (cases "load_window c eth_call a block tick spacing")
  case (Inr pair)
  obtain w incomplete where pair: "pair = (w, incomplete)" by fastforce
  obtain center where center: "word_position_for_tick tick spacing = Inr center" "load_promise a block center spacing w incomplete"
    using load_window_facts Inr pair by blast
  then have "answers_search w search_from lte" if "\<not> incomplete" "words_valid (bitmap_words w)" "0 < spacing" for search_from lte
    using that complete_window_answers by (auto simp: load_promise_def)
  then show ?thesis using center by (auto simp: Inr pair)
qed simp

section \<open>Snapshots say what they are\<close>

text \<open>A snapshot of a successful read, and the state of a reader.\<close>

definition snapshot_honest :: "V3PoolSnapshot \<Rightarrow> bool" where
  "snapshot_honest s \<longleftrightarrow>
     \<not> sn_is_stale s \<and> sn_data_source s = live
     \<and> (case sn_window s of None \<Rightarrow> sn_is_incomplete s
        | Some w \<Rightarrow> window_sound w \<and> (sn_is_incomplete s \<or> window_complete w))"

definition reader_sound :: "V3PoolAdapter \<Rightarrow> bool" where
  "reader_sound a \<longleftrightarrow>
     (case va_window a of None \<Rightarrow> True | Some w \<Rightarrow> window_sound w \<and> (va_window_incomplete a \<or> window_complete w))
     \<and> (case va_last_good a of None \<Rightarrow> True | Some s \<Rightarrow> snapshot_honest s)"

lemma reader_sound_frame [simp]:
  "reader_sound (a\<lparr> va_metadata := x \<rparr>) = reader_sound a"
  "reader_sound (a\<lparr> va_base_fee_wei := y \<rparr>) = reader_sound a"
  "reader_sound (a\<lparr> va_reads_since_refresh := z \<rparr>) = reader_sound a"
  "reader_sound (a\<lparr> va_failures_total := n \<rparr>) = reader_sound a"
  by (simp_all add: reader_sound_def split: option.split)

definition kept_by_read :: "V3PoolAdapter \<Rightarrow> V3PoolAdapter \<Rightarrow> bool" where
  "kept_by_read a a' \<longleftrightarrow> va_last_good a' = va_last_good a \<and> va_failures_total a' = va_failures_total a
     \<and> (reader_sound a \<longrightarrow> reader_sound a')"

lemma kept_by_read_trans: "kept_by_read a b \<Longrightarrow> kept_by_read b d \<Longrightarrow> kept_by_read a d"
  by (simp add: kept_by_read_def)

lemma load_metadata_keeps: "kept_by_read a (fst (load_metadata c eth_call a))"
  by (cases "fetch_metadata c eth_call a") (auto simp: load_metadata_def kept_by_read_def split: option.split)

lemma maybe_refresh_keeps:
  assumes "maybe_refresh_window c eth_call block tick spacing a = (a', result)"
  shows "kept_by_read a a'"
    and "result = Inr window \<Longrightarrow> window = va_window a' \<and> (va_window a' = None \<longrightarrow> va_window_incomplete a')"
proof -
  define b where "b = a\<lparr> va_reads_since_refresh := va_reads_since_refresh a + 1 \<rparr>"
  have b: "kept_by_read a b" by (simp add: b_def kept_by_read_def)
  have result: "(a', result) = sbind (b, window_needs_refresh b tick spacing) (\<lambda>a refresh.
        if \<not> refresh then (a, ok (va_window a))
        else (case load_window c eth_call a block tick spacing of
                Inr (w, incomplete) \<Rightarrow>
                  (a\<lparr> va_window := Some w, va_window_incomplete := incomplete, va_reads_since_refresh := 0 \<rparr>, ok (Some w))
              | Inl e \<Rightarrow> if e = Diverges then (a, Inl Diverges)
                         else (a\<lparr> va_window_incomplete := True \<rparr>, ok (va_window a))))"
    using assms by (simp add: maybe_refresh_window_def b_def Let_def)
  have needs: "window_needs_refresh b tick spacing = Inr False \<Longrightarrow> va_window b \<noteq> None"
    by (auto simp: window_needs_refresh_def split: option.split_asm)
  have loaded: "window_sound w \<and> (incomplete \<or> window_complete w)"
    if "load_window c eth_call b block tick spacing = Inr (w, incomplete)" for w incomplete
    using load_window_facts [OF that] by (auto simp: load_promise_def)
  have "kept_by_read b a' \<and> (\<forall>window. result = Inr window \<longrightarrow> window = va_window a' \<and> (va_window a' = None \<longrightarrow> va_window_incomplete a'))"
  proof (cases "window_needs_refresh b tick spacing")
    case (Inl e)
    then show ?thesis using result by (simp add: kept_by_read_def)
  next
    case (Inr refresh)
    show ?thesis
    proof (cases refresh)
      case False
      then show ?thesis using result Inr needs by (auto simp: kept_by_read_def)
    next
      case True
      show ?thesis
      proof (cases "load_window c eth_call b block tick spacing")
        case (Inl e)
        then show ?thesis using result Inr True
          by (auto simp: kept_by_read_def reader_sound_def split: if_split_asm option.split)
      next
        case load: (Inr pair)
        then show ?thesis using result Inr True loaded
          by (cases pair) (auto simp: kept_by_read_def reader_sound_def split: option.split_asm)
      qed
    qed
  qed
  then show "kept_by_read a a'" and "result = Inr window \<Longrightarrow> window = va_window a' \<and> (va_window a' = None \<longrightarrow> va_window_incomplete a')"
    using kept_by_read_trans b by blast+
qed

lemma snapshot_of_honest:
  assumes "snapshot_of m ep a meta core (va_window a) = Inr s" and "reader_sound a" and "va_window a = None \<longrightarrow> va_window_incomplete a"
  shows "snapshot_honest s"
  using assms by (auto simp: snapshot_of_def Let_def snapshot_honest_def reader_sound_def split: option.split option.split_asm)

lemma refresh_base_fee_fields [simp]:
  "va_window (refresh_base_fee ep block a) = va_window a"
  "va_window_incomplete (refresh_base_fee ep block a) = va_window_incomplete a"
  "kept_by_read a (refresh_base_fee ep block a)"
  by (simp_all add: refresh_base_fee_def kept_by_read_def)

lemma read_once_keeps:
  assumes "read_once m c ep bounds a = (a', result)"
  shows "kept_by_read a a'" and "reader_sound a \<Longrightarrow> result = Inr s \<Longrightarrow> snapshot_honest s"
proof -
  obtain b meta_result where meta: "load_metadata c (ep_call ep) a = (b, meta_result)" by fastforce
  have b: "kept_by_read a b" using load_metadata_keeps [of a c "ep_call ep"] by (simp add: meta)
  have "kept_by_read a a' \<and> (reader_sound a \<longrightarrow> (\<forall>s. result = Inr s \<longrightarrow> snapshot_honest s))"
  proof (cases meta_result)
    case (Inl e)
    then show ?thesis using assms b by (auto simp: read_once_def meta)
  next
    case meta_ok: (Inr md)
    show ?thesis
    proof (cases "read_core c (ep_call ep) b md bounds")
      case (Inl e)
      then show ?thesis using assms b by (auto simp: read_once_def meta meta_ok)
    next
      case core_ok: (Inr core)
      obtain d window_result where window: "maybe_refresh_window c (ep_call ep) (co_block core) (co_tick core) (md_tick_spacing md) b
          = (d, window_result)" by fastforce
      have d: "kept_by_read a d" using kept_by_read_trans [OF b] maybe_refresh_keeps(1) [OF window] by blast
      show ?thesis
      proof (cases window_result)
        case (Inl e)
        then show ?thesis using assms d by (auto simp: read_once_def meta meta_ok core_ok window)
      next
        case (Inr w)
        let ?e = "refresh_base_fee ep (co_block core) d"
        have w: "w = va_window ?e" "va_window ?e = None \<longrightarrow> va_window_incomplete ?e"
          using maybe_refresh_keeps(2) [OF window Inr] by simp_all
        have e: "kept_by_read a ?e" using kept_by_read_trans [OF d] by simp
        have out: "a' = ?e" "result = snapshot_of m ep ?e md core w"
          using assms by (auto simp: read_once_def meta meta_ok core_ok window Inr Let_def)
        have "snapshot_honest s" if "reader_sound a" "result = Inr s" for s
          using snapshot_of_honest [of m ep ?e md core s] that e w out by (auto simp: kept_by_read_def)
        then show ?thesis using e out by blast
      qed
    qed
  qed
  then show "kept_by_read a a'" and "reader_sound a \<Longrightarrow> result = Inr s \<Longrightarrow> snapshot_honest s" by blast+
qed

definition same_outcome :: "V3PoolAdapter \<Rightarrow> V3PoolAdapter \<times> (py_error option + V3PoolSnapshot) \<Rightarrow> bool" where
  "same_outcome a outcome \<longleftrightarrow>
     (case outcome of
        (a', Inr s) \<Rightarrow> reader_sound a' \<and> snapshot_honest s \<and> va_last_good a' = Some s \<and> va_failures_total a' = va_failures_total a
      | (a', Inl e) \<Rightarrow> reader_sound a' \<and> va_last_good a' = va_last_good a \<and> va_failures_total a' = va_failures_total a)"

lemma read_attempts_outcome:
  assumes "\<And>k b b' r. once k b = (b', r) \<Longrightarrow> kept_by_read b b' \<and> (reader_sound b \<longrightarrow> (\<forall>s. r = Inr s \<longrightarrow> snapshot_honest s))"
    and "reader_sound a"
  shows "same_outcome a (read_attempts once attempts last_error a)"
  using assms(2)
proof (induction attempts arbitrary: a last_error)
  case Nil
  then show ?case by (simp add: same_outcome_def)
next
  case (Cons k rest)
  obtain b r where once: "once k a = (b, r)" by fastforce
  note step = assms(1) [OF once]
  show ?case
  proof (cases r)
    case (Inr s)
    then show ?thesis using step Cons.prems
      by (simp add: once same_outcome_def kept_by_read_def reader_sound_def split: option.split_asm)
  next
    case (Inl e)
    have "same_outcome b (read_attempts once rest (Some e) b)" using Cons.IH step Cons.prems by (simp add: kept_by_read_def)
    then have "same_outcome a (read_attempts once rest (Some e) b)"
      using step by (auto simp: same_outcome_def kept_by_read_def split: prod.split sum.split)
    then show ?thesis using step Cons.prems by (auto simp: once Inl same_outcome_def kept_by_read_def)
  qed
qed

text \<open>C28. Reading a snapshot: a fresh one comes from a read that succeeded, is remembered, and is called complete only
  with a window that has every tick of its words. When all attempts fail, the last good snapshot is returned,
  flagged stale and otherwise unchanged, and the failure is counted; \<open>V3PoolUnavailable\<close> is raised only when no read
  ever succeeded. (\<open>Diverges\<close>: a bitmap word below zero, which no chain has.)
\<close>

theorem snapshot_freshness_honest:
  assumes "reader_sound a"
  shows "case read_snapshot m c endpoints bounds a of
      (a', Inr s) \<Rightarrow> reader_sound a' \<and>
        (if sn_is_stale s
         then va_failures_total a' = va_failures_total a + 1 \<and> va_last_good a' = va_last_good a
           \<and> map_option (\<lambda>good. good\<lparr> sn_is_stale := True \<rparr>) (va_last_good a) = Some s
         else va_failures_total a' = va_failures_total a \<and> va_last_good a' = Some s \<and> snapshot_honest s)
    | (a', Inl e) \<Rightarrow> reader_sound a' \<and> va_last_good a' = va_last_good a
        \<and> (e = Diverges \<or> (\<exists>message. e = V3PoolUnavailable message) \<and> va_last_good a = None
              \<and> va_failures_total a' = va_failures_total a + 1)"
proof -
  let ?once = "\<lambda>attempt. read_once m c (endpoints attempt) bounds"
  obtain b outcome where attempts: "read_attempts ?once [1..<nat (va_max_retries a) + 1] None a = (b, outcome)" by fastforce
  have same: "same_outcome a (b, outcome)"
    unfolding attempts [symmetric] using read_once_keeps assms by (intro read_attempts_outcome) blast+
  have result: "read_snapshot m c endpoints bounds a = (case outcome of
        Inr snapshot \<Rightarrow> (b, ok snapshot)
      | Inl last_error \<Rightarrow> if last_error = Some Diverges then (b, Inl Diverges) else fall_back last_error b)"
    unfolding read_snapshot_def attempts by simp
  show ?thesis
  proof (cases outcome)
    case (Inr s)
    then show ?thesis using same unfolding result by (simp add: same_outcome_def snapshot_honest_def)
  next
    case (Inl err)
    show ?thesis
    proof (cases "err = Some Diverges")
      case True
      then show ?thesis using same unfolding result by (simp add: Inl same_outcome_def)
    next
      case False
      then show ?thesis using same unfolding result
        by (cases "va_last_good a") (simp_all add: Inl same_outcome_def fall_back_def Let_def)
    qed
  qed
qed

text \<open>A reader that was just made, on a node that answers nothing.\<close>

definition example_codec :: Codec where
  "example_codec = \<lparr> cd_abi = \<lparr> abi_decode = (\<lambda>types bs. Inl DecodingError), abi_keccak = (\<lambda>s. replicate 32 0) \<rparr>,
     cd_encode = (\<lambda>types vs. Inr []), cd_checksum = (\<lambda>a. Inr a), cd_keccak_bytes = (\<lambda>bs. replicate 32 0) \<rparr>"

definition dead_endpoint :: Endpoint where
  "dead_endpoint = \<lparr> ep_call = (\<lambda>target data block. Inl (OtherError ''ConnectionError'')), ep_base_fee = None, ep_clock = 0 \<rparr>"

definition example_reader :: V3PoolAdapter where
  "example_reader = \<lparr> va_multicall = MULTICALL3_ADDRESS, va_pool = ''0x88e6'', va_window_words = 2,
     va_window_refresh_ticks = 15, va_max_retries = 2, va_weth = ''0xc02a'', va_metadata = None, va_window = None,
     va_window_incomplete = False, va_reads_since_refresh = 0, va_last_good = None, va_base_fee_wei = None, va_failures_total = 0 \<rparr>"

lemma pool_adapter_init_sound: "pool_adapter_init c pool words refresh retries weth = Inr a \<Longrightarrow> reader_sound a"
  by (auto simp: pool_adapter_init_def reader_sound_def)

theorem snapshot_freshness_honest_witness:
  "case read_snapshot exact_libm example_codec (\<lambda>attempt. dead_endpoint) None example_reader of
      (a', Inr s) \<Rightarrow> reader_sound a' \<and>
        (if sn_is_stale s
         then va_failures_total a' = va_failures_total example_reader + 1 \<and> va_last_good a' = va_last_good example_reader
           \<and> map_option (\<lambda>good. good\<lparr> sn_is_stale := True \<rparr>) (va_last_good example_reader) = Some s
         else va_failures_total a' = va_failures_total example_reader \<and> va_last_good a' = Some s \<and> snapshot_honest s)
    | (a', Inl e) \<Rightarrow> reader_sound a' \<and> va_last_good a' = va_last_good example_reader
        \<and> (e = Diverges \<or> (\<exists>message. e = V3PoolUnavailable message) \<and> va_last_good example_reader = None
              \<and> va_failures_total a' = va_failures_total example_reader + 1)"
  by (rule snapshot_freshness_honest) (simp add: reader_sound_def example_reader_def)

end
