(* ===== verification/Py_Number.thy ===== *)
theory Py_Number
  imports Py_Text Py_Format
begin

text \<open>
  \<open>int(text)\<close> and \<open>float(text)\<close> on decimal text, as the fixture readers use them: white space around the number, a
  sign, and for integers single underscores between digits. The texts of infinity and NaN are refused, since the
  floats of the model have neither; underscores in the text of a float are refused too.
\<close>

definition dec_digit :: "char \<Rightarrow> int option" where
  "dec_digit c = (let n = of_char c :: nat in if 48 \<le> n \<and> n \<le> 57 then Some (int n - 48) else None)"

fun dec_digits :: "int \<Rightarrow> string \<Rightarrow> int option" where
  "dec_digits acc [] = Some acc"
| "dec_digits acc [c] = map_option (\<lambda>d. acc * 10 + d) (dec_digit c)"
| "dec_digits acc (c # d # cs) =
     (if c = CHR ''_'' then (if dec_digit d = None then None else dec_digits acc (d # cs))
      else (case dec_digit c of None \<Rightarrow> None | Some v \<Rightarrow> dec_digits (acc * 10 + v) (d # cs)))"

definition split_sign :: "string \<Rightarrow> int \<times> string" where
  "split_sign s =
     (case s of
        c # r \<Rightarrow> if c = CHR ''-'' then (- 1, r) else if c = CHR ''+'' then (1, r) else (1, s)
      | [] \<Rightarrow> (1, s))"

definition py_int :: "string \<Rightarrow> int res" where
  "py_int text =
     (let (sign, body) = split_sign (strip text)
      in if body = [] \<or> dec_digit (hd body) = None then raise_error ValueError
         else (case dec_digits 0 body of None \<Rightarrow> raise_error ValueError | Some n \<Rightarrow> ok (sign * n)))"

definition is_dec :: "char \<Rightarrow> bool" where
  "is_dec c \<longleftrightarrow> dec_digit c \<noteq> None"

text \<open>The exponent part of a float: nothing, or \<open>e\<close> and a signed number.\<close>

definition exponent_of :: "string \<Rightarrow> int option" where
  "exponent_of s =
     (case s of
        [] \<Rightarrow> Some 0
      | c # r \<Rightarrow>
          if c = CHR ''e'' \<or> c = CHR ''E''
          then (let (sign, ds) = split_sign r
                in if ds = [] \<or> \<not> list_all is_dec ds then None else map_option (\<lambda>n. sign * n) (dec_digits 0 ds))
          else None)"

definition py_float :: "string \<Rightarrow> f64 res" where
  "py_float text =
     (let (sign, body) = split_sign (strip text);
          whole = takeWhile is_dec body;
          after = dropWhile is_dec body;
          (part, tail) = (case after of
                            c # r \<Rightarrow> if c = CHR ''.'' then (takeWhile is_dec r, dropWhile is_dec r) else ([], after)
                          | [] \<Rightarrow> ([], after))
      in if whole = [] \<and> part = [] then raise_error ValueError
         else (case (dec_digits 0 (whole @ part), exponent_of tail) of
                 (Some n, Some e) \<Rightarrow> ok (lit (real_of_int (sign * n) * 10 powi (e - int (length part))))
               | _ \<Rightarrow> raise_error ValueError))"

section \<open>Integers read back\<close>

lemma dec_digit_char: "n < 10 \<Longrightarrow> dec_digit (digit_char n) = Some (int n)"
  by (simp add: dec_digit_def digit_char_value)

lemma digit_char_not: "n < 10 \<Longrightarrow> digit_char n \<noteq> CHR ''_'' \<and> digit_char n \<noteq> CHR ''-'' \<and> digit_char n \<noteq> CHR ''+'' \<and> \<not> is_space (digit_char n)"
proof -
  assume n: "n < 10"
  have "(of_char (CHR ''_'') :: nat) = 95" "(of_char (CHR ''-'') :: nat) = 45" "(of_char (CHR ''+'') :: nat) = 43" by simp_all
  moreover have "(of_char (digit_char n) :: nat) \<noteq> 95 \<and> (of_char (digit_char n) :: nat) \<noteq> 45 \<and> (of_char (digit_char n) :: nat) \<noteq> 43"
    "(of_char (digit_char n) :: nat) \<noteq> 32 \<and> 13 < (of_char (digit_char n) :: nat)"
    unfolding digit_char_value [OF n] using n by auto
  ultimately show ?thesis unfolding is_space_def Let_def by (metis not_le)
qed

lemma nat_str_digits: "nat_str n \<noteq> [] \<and> (\<forall>c\<in>set (nat_str n). \<exists>d<10. c = digit_char d)"
proof (induction n rule: nat_str.induct)
  case (1 n)
  show ?case
  proof (cases "n < 10")
    case True
    then show ?thesis by (subst (1 2) nat_str.simps) auto
  next
    case False
    then have "nat_str n = nat_str (n div 10) @ [digit_char (n mod 10)]" by (subst nat_str.simps) simp
    moreover have "\<exists>d<10. digit_char (n mod 10) = digit_char d" by (rule exI [of _ "n mod 10"]) simp
    ultimately show ?thesis using 1 False by auto
  qed
qed

lemma dec_digits_snoc:
  "list_all (\<lambda>c. \<exists>d<10. c = digit_char d) cs \<Longrightarrow> d < 10
    \<Longrightarrow> dec_digits acc (cs @ [digit_char d]) = map_option (\<lambda>v. v * 10 + int d) (dec_digits acc cs)"
proof (induction acc cs rule: dec_digits.induct)
  case (2 acc c)
  then show ?case using digit_char_not by (auto simp: dec_digit_char)
next
  case (3 acc c d' cs)
  then show ?case using digit_char_not by (auto simp: dec_digit_char)
qed (simp add: dec_digit_char)

lemma dec_digits_nat_str: "dec_digits 0 (nat_str n) = Some (int n)"
proof (induction n rule: nat_str.induct)
  case (1 n)
  show ?case
  proof (cases "n < 10")
    case True
    then show ?thesis by (subst nat_str.simps) (simp add: dec_digit_char)
  next
    case False
    then have "nat_str n = nat_str (n div 10) @ [digit_char (n mod 10)]" by (subst nat_str.simps) simp
    moreover have "list_all (\<lambda>c. \<exists>d<10. c = digit_char d) (nat_str (n div 10))"
      using nat_str_digits by (auto simp: list_all_iff)
    ultimately show ?thesis
      using 1 False dec_digits_snoc [of "nat_str (n div 10)" "n mod 10" 0] by (simp add: zdiv_int zmod_int)
  qed
qed

lemma strip_no_space: "s \<noteq> [] \<Longrightarrow> \<not> is_space (hd s) \<Longrightarrow> \<not> is_space (List.last s) \<Longrightarrow> strip s = s"
proof -
  assume s: "s \<noteq> []" "\<not> is_space (hd s)" "\<not> is_space (List.last s)"
  then have "dropWhile is_space s = s" by (cases s) auto
  moreover have "dropWhile is_space (rev s) = rev s" using s by (cases "rev s") (auto simp: last_rev hd_rev [symmetric])
  ultimately show ?thesis by (simp add: strip_def)
qed

lemma py_int_str [simp]: "py_int (int_str n) = Inr n"
proof -
  have digits: "nat_str k \<noteq> []" "hd (nat_str k) \<in> set (nat_str k)" "List.last (nat_str k) \<in> set (nat_str k)" for k
    using nat_str_digits [of k] by auto
  have ends: "\<exists>d<10. hd (nat_str k) = digit_char d" "\<exists>d<10. List.last (nat_str k) = digit_char d" for k
    using digits nat_str_digits [of k] by blast+
  show ?thesis
  proof (cases "n < 0")
    case True
    let ?k = "nat (- n)"
    have "\<not> is_space (CHR ''-'')" by (simp add: is_space_def)
    then have "strip (int_str n) = CHR ''-'' # nat_str ?k"
      using True ends(2) [of ?k] digit_char_not digits(1) by (auto simp: int_str_def intro!: strip_no_space)
    then show ?thesis
      using True ends(1) [of ?k] digits(1)
      by (auto simp: py_int_def split_sign_def dec_digits_nat_str dec_digit_char)
  next
    case False
    let ?k = "nat n"
    have "strip (int_str n) = nat_str ?k"
      using False ends [of ?k] digit_char_not digits(1) by (auto simp: int_str_def intro!: strip_no_space)
    moreover obtain d rest where "nat_str ?k = digit_char d # rest" "d < 10"
      using ends(1) [of ?k] digits(1) [of ?k] by (cases "nat_str ?k") auto
    ultimately show ?thesis
      using False dec_digits_nat_str [of ?k] digit_char_not [of d]
      by (simp add: py_int_def split_sign_def dec_digit_char)
  qed
qed

end
