(* ===== verification/Market_Sources.thy ===== *)
theory Market_Sources
  imports Arbitrage Router_Decoder Py_Number
begin

text \<open>
  Where market data comes from: \<open>app/adapters/cex/\<close> (the polling and the websocket adapter, the fixture replay and
  the source that falls back to it), \<open>app/adapters/dex/web3_pool_adapter.py\<close>, and the V3 fixture replay with the
  rows of \<open>app/adapters/dex/v3_fixtures.py\<close>. What an exchange or a node answers is an argument of each fetch; a row
  of a CSV file is the dictionary \<open>csv.DictReader\<close> makes of it. The text of an exception is the parameter \<open>err_text\<close>.
\<close>

type_synonym Row = "(string, string) dict"

definition row_get :: "Row \<Rightarrow> string \<Rightarrow> string res" where
  "row_get row key = (case dict_get row key of None \<Rightarrow> raise_error KeyError | Some v \<Rightarrow> ok v)"

definition is_true_text :: "string \<Rightarrow> bool" where
  "is_true_text s \<longleftrightarrow> py_lower s \<in> {''1'', ''true'', ''yes''}"

section \<open>Replayed order books\<close>

definition DEFAULT_FIXTURE_BY_SYMBOL :: "(string, string) dict" where
  "DEFAULT_FIXTURE_BY_SYMBOL =
     [(''BTC/USDT'', ''tests/fixtures/orderbook_snapshots.csv''), (''ETH/USDT'', ''tests/fixtures/eth_orderbook_snapshots.csv'')]"

definition resolve_fixture_path :: "string \<Rightarrow> string option \<Rightarrow> string" where
  "resolve_fixture_path symbol override =
     (let fallback = dict_get_or DEFAULT_FIXTURE_BY_SYMBOL symbol ''tests/fixtures/orderbook_snapshots.csv''
      in case override of None \<Rightarrow> fallback | Some path \<Rightarrow> if path = [] then fallback else path)"

definition snapshot_from_prices :: "string \<Rightarrow> f64 \<Rightarrow> f64 \<Rightarrow> bool \<Rightarrow> datetime \<Rightarrow> OrderBookSnapshot" where
  "snapshot_from_prices symbol bid ask is_stale now =
     (let spread = max (ask - bid) (lit (1 / 100))
      in \<lparr> ob_symbol = symbol,
           ob_bids = [\<lparr> lv_price = bid, lv_size = 1 \<rparr>, \<lparr> lv_price = bid - spread * lit (1 / 10), lv_size = 1 \<rparr>],
           ob_asks = [\<lparr> lv_price = ask, lv_size = 1 \<rparr>, \<lparr> lv_price = ask + spread * lit (1 / 10), lv_size = 1 \<rparr>],
           ob_timestamp = now, ob_is_stale = is_stale, ob_tick_id = None \<rparr>)"

definition fixture_row :: "Row \<Rightarrow> (f64 \<times> f64) option res" where
  "fixture_row row =
     (if is_true_text (dict_get_or row ''is_stale'' ''false'') then ok None
      else rbind (rbind (row_get row ''best_bid'') py_float) (\<lambda>bid.
           rbind (rbind (row_get row ''best_ask'') py_float) (\<lambda>ask. ok (Some (bid, ask)))))"

definition load_fixture_rows :: "Row list \<Rightarrow> (f64 \<times> f64) list res" where
  "load_fixture_rows file =
     rbind (res_map fixture_row file) (\<lambda>found.
       let rows = List.map_filter id found in if rows = [] then raise_error ValueError else ok rows)"

definition snapshot_is_usable :: "OrderBookSnapshot option \<Rightarrow> bool" where
  "snapshot_is_usable snapshot =
     (case snapshot of
        None \<Rightarrow> False
      | Some s \<Rightarrow>
          (case (ob_bids s, ob_asks s) of
             (bid # _, ask # _) \<Rightarrow> \<not> ob_is_stale s \<and> lv_price bid > 0 \<and> lv_price ask > lv_price bid
           | _ \<Rightarrow> False))"

record FixtureReplayAdapter =
  fx_symbol :: string
  fx_path :: string
  fx_rows :: "(f64 \<times> f64) list"
  fx_index :: nat

definition fixture_replay_init :: "string \<Rightarrow> string \<Rightarrow> Row list \<Rightarrow> FixtureReplayAdapter res" where
  "fixture_replay_init symbol path file =
     rbind (load_fixture_rows file) (\<lambda>rows. ok \<lparr> fx_symbol = symbol, fx_path = path, fx_rows = rows, fx_index = 0 \<rparr>)"

definition fixture_fetch :: "datetime \<Rightarrow> FixtureReplayAdapter \<Rightarrow> FixtureReplayAdapter \<times> OrderBookSnapshot" where
  "fixture_fetch now a =
     (let (bid, ask) = fx_rows a ! fx_index a
      in (a\<lparr> fx_index := (fx_index a + 1) mod length (fx_rows a) \<rparr>, snapshot_from_prices (fx_symbol a) bid ask False now))"

section \<open>Live order books\<close>

record CcxtAdapter =
  cx_symbol :: string
  cx_max_retries :: nat
  cx_last_good :: "OrderBookSnapshot option"
  cx_last_error :: "string option"

definition ccxt_init :: "string \<Rightarrow> nat \<Rightarrow> CcxtAdapter" where
  "ccxt_init symbol max_retries =
     \<lparr> cx_symbol = symbol, cx_max_retries = max_retries, cx_last_good = None, cx_last_error = None \<rparr>"

text \<open>\<open>answer\<close> is what the exchange gives to each attempt: loading its markets, if needed, and then the book.\<close>

fun ccxt_attempts :: "(py_error \<Rightarrow> string) \<Rightarrow> (nat \<Rightarrow> RawOrderBook res) \<Rightarrow> datetime \<Rightarrow> nat list \<Rightarrow> CcxtAdapter
    \<Rightarrow> CcxtAdapter \<times> OrderBookSnapshot option" where
  "ccxt_attempts err_text answer now [] a = (a, None)"
| "ccxt_attempts err_text answer now (attempt # rest) a =
     (case answer attempt of
        Inr raw \<Rightarrow>
          let snapshot = normalize_ccxt_orderbook (cx_symbol a) raw False now
          in (a\<lparr> cx_last_good := Some snapshot, cx_last_error := None \<rparr>, Some snapshot)
      | Inl e \<Rightarrow> ccxt_attempts err_text answer now rest (a\<lparr> cx_last_error := Some (err_text e) \<rparr>))"

definition stale_book :: "datetime \<Rightarrow> CcxtAdapter \<Rightarrow> OrderBookSnapshot" where
  "stale_book now a =
     (case cx_last_good a of
        Some g \<Rightarrow> \<lparr> ob_symbol = ob_symbol g, ob_bids = ob_bids g, ob_asks = ob_asks g, ob_timestamp = now,
                   ob_is_stale = True, ob_tick_id = None \<rparr>
      | None \<Rightarrow> \<lparr> ob_symbol = cx_symbol a, ob_bids = [], ob_asks = [], ob_timestamp = now, ob_is_stale = True,
                  ob_tick_id = None \<rparr>)"

definition ccxt_fetch :: "(py_error \<Rightarrow> string) \<Rightarrow> (nat \<Rightarrow> RawOrderBook res) \<Rightarrow> datetime \<Rightarrow> CcxtAdapter \<Rightarrow> CcxtAdapter \<times> OrderBookSnapshot" where
  "ccxt_fetch err_text answer now a =
     (case ccxt_attempts err_text answer now [1..<cx_max_retries a + 1] a of
        (a, Some snapshot) \<Rightarrow> (a, snapshot)
      | (a, None) \<Rightarrow> (a, stale_book now a))"

record WebsocketCcxtAdapter =
  ws_poll :: CcxtAdapter
  ws_supports_watch :: bool
  ws_using_fallback :: bool
  ws_last_error :: "string option"

definition websocket_init :: "string \<Rightarrow> bool \<Rightarrow> WebsocketCcxtAdapter" where
  "websocket_init symbol supports_watch =
     \<lparr> ws_poll = ccxt_init symbol 3, ws_supports_watch = supports_watch, ws_using_fallback = (\<not> supports_watch),
       ws_last_error = None \<rparr>"

text \<open>\<open>some_text\<close> is the truth value of a message: the empty text counts as none.\<close>

definition some_text :: "string option \<Rightarrow> string option" where
  "some_text t = (case t of None \<Rightarrow> None | Some s \<Rightarrow> if s = [] then None else Some s)"

record BookFeed =
  bf_answer :: "nat \<Rightarrow> RawOrderBook res"
  bf_watch :: "RawOrderBook res"
  bf_now :: datetime

definition websocket_fetch :: "(py_error \<Rightarrow> string) \<Rightarrow> BookFeed \<Rightarrow> WebsocketCcxtAdapter \<Rightarrow> WebsocketCcxtAdapter \<times> OrderBookSnapshot" where
  "websocket_fetch err_text feed w =
     (let (poll, polled) = ccxt_fetch err_text (bf_answer feed) (bf_now feed) (ws_poll w) in
      if \<not> ws_supports_watch w then
        (w\<lparr> ws_using_fallback := True, ws_poll := poll,
            ws_last_error := Some (case some_text (cx_last_error poll) of
                                     Some e \<Rightarrow> e | None \<Rightarrow> ''watch_order_book unavailable; using REST poll fallback'') \<rparr>, polled)
      else
        (case bf_watch feed of
           Inr raw \<Rightarrow> (w\<lparr> ws_using_fallback := False, ws_last_error := None \<rparr>,
                        normalize_ccxt_orderbook (cx_symbol (ws_poll w)) raw False (bf_now feed))
         | Inl e \<Rightarrow>
             (w\<lparr> ws_using_fallback := True, ws_poll := poll,
                 ws_last_error := Some (case some_text (cx_last_error poll) of
                                          Some p \<Rightarrow> p
                                        | None \<Rightarrow> ''websocket failed: '' @ err_text e @ ''; using REST poll fallback'') \<rparr>, polled)))"

datatype PrimarySource = Polling CcxtAdapter | Watching WebsocketCcxtAdapter

definition primary_fetch :: "(py_error \<Rightarrow> string) \<Rightarrow> BookFeed \<Rightarrow> PrimarySource \<Rightarrow> PrimarySource \<times> OrderBookSnapshot" where
  "primary_fetch err_text feed p =
     (case p of
        Polling a \<Rightarrow> (case ccxt_fetch err_text (bf_answer feed) (bf_now feed) a of (a, s) \<Rightarrow> (Polling a, s))
      | Watching w \<Rightarrow> (case websocket_fetch err_text feed w of (w, s) \<Rightarrow> (Watching w, s)))"

definition primary_error :: "PrimarySource \<Rightarrow> string option" where
  "primary_error p = (case p of Polling a \<Rightarrow> cx_last_error a | Watching w \<Rightarrow> ws_last_error w)"

section \<open>The source of the loop\<close>

record FallbackMarketDataSource =
  fb_primary :: PrimarySource
  fb_fallback :: FixtureReplayAdapter
  fb_using_fallback :: bool
  fb_last_error :: "string option"

text \<open>
  The primaries above never raise, so the handler of \<open>fetch_orderbook\<close> for an exception of the primary has no
  occasion here and the fetch starts with the primary's book.
\<close>

definition fallback_fetch :: "(py_error \<Rightarrow> string) \<Rightarrow> BookFeed \<Rightarrow> FallbackMarketDataSource \<Rightarrow> FallbackMarketDataSource \<times> OrderBookSnapshot" where
  "fallback_fetch err_text feed f =
     (let (primary, snapshot) = primary_fetch err_text feed (fb_primary f) in
      if snapshot_is_usable (Some snapshot) then
        (f\<lparr> fb_primary := primary, fb_using_fallback := False, fb_last_error := primary_error primary \<rparr>, snapshot)
      else
        let reason = (case some_text (primary_error primary) of Some e \<Rightarrow> e | None \<Rightarrow> ''empty or stale book'');
            (fallback, replayed) = fixture_fetch (bf_now feed) (fb_fallback f)
        in (f\<lparr> fb_primary := primary, fb_fallback := fallback, fb_using_fallback := True,
               fb_last_error := Some (''live CEX book unavailable ('' @ reason @ ''); replaying paper fixture '' @ fx_path (fb_fallback f)) \<rparr>,
            replayed))"

datatype MarketDataSource = Direct PrimarySource | WithFallback FallbackMarketDataSource

definition build_market_data_source ::
    "string \<Rightarrow> bool \<Rightarrow> bool \<Rightarrow> bool \<Rightarrow> string option \<Rightarrow> (string \<Rightarrow> Row list res) \<Rightarrow> MarketDataSource res" where
  "build_market_data_source symbol websocket supports_watch fixture_fallback_enabled fixture_path read_csv =
     (let primary = (if websocket then Watching (websocket_init symbol supports_watch) else Polling (ccxt_init symbol 3))
      in if \<not> fixture_fallback_enabled then ok (Direct primary)
         else
           let path = resolve_fixture_path symbol fixture_path
           in rbind (rbind (read_csv path) (fixture_replay_init symbol path)) (\<lambda>fallback.
                ok (WithFallback \<lparr> fb_primary = primary, fb_fallback = fallback, fb_using_fallback = False, fb_last_error = None \<rparr>)))"

definition fetch_orderbook :: "(py_error \<Rightarrow> string) \<Rightarrow> BookFeed \<Rightarrow> MarketDataSource \<Rightarrow> MarketDataSource \<times> OrderBookSnapshot" where
  "fetch_orderbook err_text feed source =
     (case source of
        Direct p \<Rightarrow> (case primary_fetch err_text feed p of (p, s) \<Rightarrow> (Direct p, s))
      | WithFallback f \<Rightarrow> (case fallback_fetch err_text feed f of (f, s) \<Rightarrow> (WithFallback f, s)))"

section \<open>The V2 pool behind a node\<close>

record Web3PoolAdapter =
  wp_pool_address :: string
  wp_base_decimals :: nat
  wp_quote_decimals :: nat
  wp_amm_fee_bps :: f64
  wp_max_retries :: nat
  wp_last_good :: "AmmPoolSnapshot option"
  wp_weth_is_token0 :: "bool option"

text \<open>What the node answers to one attempt: the address of token 0 and the two reserves.\<close>

record PairAnswer =
  pa_token0 :: "string res"
  pa_reserves :: "(int \<times> int) res"

definition pair_orientation :: "PairAnswer \<Rightarrow> Web3PoolAdapter \<Rightarrow> Web3PoolAdapter \<times> bool res" where
  "pair_orientation answer a =
     (case wp_weth_is_token0 a of
        Some known \<Rightarrow> (a, ok known)
      | None \<Rightarrow> sbind (a, pa_token0 answer) (\<lambda>a token0.
          let weth_first = (py_lower token0 = py_lower WETH_ADDRESS) in (a\<lparr> wp_weth_is_token0 := Some weth_first \<rparr>, ok weth_first)))"

definition pool_from_reserves :: "Web3PoolAdapter \<Rightarrow> bool \<Rightarrow> int \<times> int \<Rightarrow> datetime \<Rightarrow> AmmPoolSnapshot res" where
  "pool_from_reserves a weth_is_token0 reserves now =
     (let (raw_base, raw_quote) = (if weth_is_token0 then reserves else (snd reserves, fst reserves)) in
      rbind (int_truediv raw_base (10 ^ wp_base_decimals a)) (\<lambda>base_reserve.
      rbind (int_truediv raw_quote (10 ^ wp_quote_decimals a)) (\<lambda>quote_reserve.
        ok \<lparr> am_pool_address = wp_pool_address a, am_base_reserve = base_reserve, am_quote_reserve = quote_reserve,
             am_spot_price = spot_price \<lparr> ap_base_reserve = base_reserve, ap_quote_reserve = quote_reserve, ap_fee_bps = wp_amm_fee_bps a \<rparr>,
             am_timestamp = now, am_is_stale = False \<rparr>)))"

definition read_pool_snapshot :: "PairAnswer \<Rightarrow> datetime \<Rightarrow> Web3PoolAdapter \<Rightarrow> Web3PoolAdapter \<times> AmmPoolSnapshot res" where
  "read_pool_snapshot answer now a =
     sbind (pair_orientation answer a) (\<lambda>a weth_first.
       (a, rbind (pa_reserves answer) (\<lambda>reserves. pool_from_reserves a weth_first reserves now)))"

fun pool_attempts :: "(nat \<Rightarrow> PairAnswer) \<Rightarrow> datetime \<Rightarrow> nat list \<Rightarrow> Web3PoolAdapter \<Rightarrow> Web3PoolAdapter \<times> AmmPoolSnapshot option" where
  "pool_attempts answer now [] a = (a, None)"
| "pool_attempts answer now (attempt # rest) a =
     (case read_pool_snapshot (answer attempt) now a of
        (a, Inr snapshot) \<Rightarrow> (a\<lparr> wp_last_good := Some snapshot \<rparr>, Some snapshot)
      | (a, Inl e) \<Rightarrow> pool_attempts answer now rest a)"

definition stale_pool :: "datetime \<Rightarrow> Web3PoolAdapter \<Rightarrow> AmmPoolSnapshot" where
  "stale_pool now a =
     (case wp_last_good a of
        Some g \<Rightarrow> g\<lparr> am_timestamp := now, am_is_stale := True \<rparr>
      | None \<Rightarrow> \<lparr> am_pool_address = wp_pool_address a, am_base_reserve = 0, am_quote_reserve = 0, am_spot_price = 0,
                  am_timestamp = now, am_is_stale = True \<rparr>)"

definition fetch_pool_snapshot :: "(nat \<Rightarrow> PairAnswer) \<Rightarrow> datetime \<Rightarrow> Web3PoolAdapter \<Rightarrow> Web3PoolAdapter \<times> AmmPoolSnapshot" where
  "fetch_pool_snapshot answer now a =
     (case pool_attempts answer now [1..<wp_max_retries a + 1] a of
        (a, Some snapshot) \<Rightarrow> (a, snapshot)
      | (a, None) \<Rightarrow> (a, stale_pool now a))"

section \<open>Recorded V3 observations\<close>

text \<open>\<open>isoformat\<close> and \<open>fromisoformat\<close> are \<open>datetime.isoformat\<close> and \<open>datetime.fromisoformat\<close> (to UTC).\<close>

definition observation_row :: "(datetime \<Rightarrow> string) \<Rightarrow> V3PoolSnapshot \<Rightarrow> Row" where
  "observation_row isoformat s =
     [(''block_number'', int_str (sn_block_number s)), (''block_timestamp'', isoformat (sn_block_timestamp s)),
      (''sqrt_price_x96'', int_str (sn_sqrt_price_x96 s)), (''tick'', int_str (sn_tick s)),
      (''liquidity'', int_str (sn_liquidity s)),
      (''fee_growth_global0_x128'', int_str (sn_fee_growth_global0_x128 s)),
      (''fee_growth_global1_x128'', int_str (sn_fee_growth_global1_x128 s)),
      (''base_fee_wei'', case sn_base_fee_wei s of None \<Rightarrow> [] | Some fee \<Rightarrow> int_str fee),
      (''is_stale'', if sn_is_stale s then ''true'' else ''false'')]"

definition row_int :: "Row \<Rightarrow> string \<Rightarrow> int res" where
  "row_int row key = rbind (row_get row key) py_int"

definition snapshot_from_observation ::
    "Libm \<Rightarrow> (string \<Rightarrow> datetime res) \<Rightarrow> Row \<Rightarrow> PoolMetadata \<Rightarrow> TickWindow option \<Rightarrow> V3PoolSnapshot res" where
  "snapshot_from_observation m fromisoformat row meta window =
     rbind (row_int row ''sqrt_price_x96'') (\<lambda>sqrt_price.
     rbind (rbind (row_get row ''block_timestamp'') fromisoformat) (\<lambda>timestamp.
     rbind (row_int row ''tick'') (\<lambda>tick. rbind (row_int row ''liquidity'') (\<lambda>liquidity.
     rbind (row_int row ''fee_growth_global0_x128'') (\<lambda>fg0. rbind (row_int row ''fee_growth_global1_x128'') (\<lambda>fg1.
     rbind (row_int row ''block_number'') (\<lambda>block.
     rbind (case some_text (dict_get row ''base_fee_wei'') of None \<Rightarrow> ok None | Some t \<Rightarrow> rbind (py_int t) (\<lambda>f. ok (Some f))) (\<lambda>base_fee.
       ok \<lparr> sn_metadata = meta, sn_sqrt_price_x96 = sqrt_price, sn_tick = tick, sn_liquidity = liquidity,
            sn_fee_growth_global0_x128 = fg0, sn_fee_growth_global1_x128 = fg1, sn_block_number = block,
            sn_block_timestamp = timestamp,
            sn_price = sqrt_price_x96_to_price m sqrt_price (md_base_is_token0 meta) (md_token0_decimals meta) (md_token1_decimals meta),
            sn_lower_tick_info = None, sn_upper_tick_info = None, sn_base_fee_wei = base_fee, sn_window = window,
            sn_is_stale = is_true_text (dict_get_or row ''is_stale'' ''false''), sn_is_incomplete = False,
            sn_data_source = fixture, sn_tick_id = None \<rparr>))))))))"

record V3FixtureReplay =
  vf_metadata :: PoolMetadata
  vf_window :: "TickWindow option"
  vf_rows :: "Row list"
  vf_index :: nat
  vf_cycle :: nat
  vf_started :: datetime
  vf_growth_span :: "int \<times> int"
  vf_block_span :: int

definition row_span :: "Row list \<Rightarrow> string \<Rightarrow> int res" where
  "row_span rows key = rbind (row_int (List.last rows) key) (\<lambda>b. rbind (row_int (hd rows) key) (\<lambda>a. ok (b - a)))"

definition v3_replay_init ::
    "PoolMetadata \<Rightarrow> TickWindow option \<Rightarrow> Row list \<Rightarrow> datetime \<Rightarrow> V3FixtureReplay res" where
  "v3_replay_init meta window file now =
     rbind (res_map (\<lambda>row. rbind (row_get row ''is_stale'') (\<lambda>t. ok (if t \<noteq> ''true'' then Some row else None))) file) (\<lambda>found.
     let rows = List.map_filter id found in
     if rows = [] then raise_error ValueError
     else
       rbind (row_span rows ''fee_growth_global0_x128'') (\<lambda>span0. rbind (row_span rows ''fee_growth_global1_x128'') (\<lambda>span1.
       rbind (row_span rows ''block_number'') (\<lambda>blocks.
         ok \<lparr> vf_metadata = meta, vf_window = window, vf_rows = rows, vf_index = 0, vf_cycle = 0, vf_started = now,
              vf_growth_span = (span0 mod U256, span1 mod U256), vf_block_span = blocks + 1 \<rparr>))))"

definition rebased :: "V3FixtureReplay \<Rightarrow> V3PoolSnapshot \<Rightarrow> V3PoolSnapshot" where
  "rebased r s =
     s\<lparr> sn_fee_growth_global0_x128 := (sn_fee_growth_global0_x128 s + fst (vf_growth_span r) * int (vf_cycle r)) mod U256,
        sn_fee_growth_global1_x128 := (sn_fee_growth_global1_x128 s + snd (vf_growth_span r) * int (vf_cycle r)) mod U256,
        sn_block_number := sn_block_number s + vf_block_span r * int (vf_cycle r),
        sn_block_timestamp := vf_started r + 12 * 10 ^ 6 * int (vf_index r + vf_cycle r * length (vf_rows r)) \<rparr>"

definition advance_replay :: "V3FixtureReplay \<Rightarrow> V3FixtureReplay" where
  "advance_replay r =
     (if vf_index r + 1 \<ge> length (vf_rows r) then r\<lparr> vf_index := 0, vf_cycle := vf_cycle r + 1 \<rparr>
      else r\<lparr> vf_index := vf_index r + 1 \<rparr>)"

definition replay_read :: "Libm \<Rightarrow> (string \<Rightarrow> datetime res) \<Rightarrow> V3FixtureReplay \<Rightarrow> V3FixtureReplay \<times> V3PoolSnapshot res" where
  "replay_read m fromisoformat r =
     sbind (r, snapshot_from_observation m fromisoformat (vf_rows r ! vf_index r) (vf_metadata r) (vf_window r)) (\<lambda>r s.
       (advance_replay r, ok (rebased r s)))"

section \<open>What a source promises\<close>

text \<open>
  The contract of a market data source, as the loop uses it: it has a state, and every fetch keeps it good and
  returns a usable book.
\<close>

locale usable_source =
  fixes good :: "'s \<Rightarrow> bool"
    and fetch :: "'i \<Rightarrow> 's \<Rightarrow> 's \<times> OrderBookSnapshot"
  assumes keeps: "good s \<Longrightarrow> good (fst (fetch i s))"
    and usable: "good s \<Longrightarrow> snapshot_is_usable (Some (snd (fetch i s)))"
begin

primrec fetches :: "'i list \<Rightarrow> 's \<Rightarrow> OrderBookSnapshot list" where
  "fetches [] s = []"
| "fetches (i # is) s = snd (fetch i s) # fetches is (fst (fetch i s))"

lemma all_usable: "good s \<Longrightarrow> list_all (\<lambda>book. snapshot_is_usable (Some book)) (fetches is s)"
  by (induction "is" arbitrary: s) (simp_all add: keeps usable)

lemma usable_mid: "good s \<Longrightarrow> \<exists>mid>0. mid_price (snd (fetch i s)) = Some mid"
proof -
  assume "good s"
  from usable [OF this, of i] obtain bid bids ask asks where sides: "ob_bids (snd (fetch i s)) = bid # bids"
      "ob_asks (snd (fetch i s)) = ask # asks" "0 < lv_price bid" "lv_price bid < lv_price ask"
    by (auto simp: snapshot_is_usable_def split: list.split_asm)
  then have "lv_price bid \<le> (lv_price bid + lv_price ask) / lit 2" using mid_between by simp
  then show ?thesis using sides by (auto simp: mid_price_def best_bid_def best_ask_def)
qed

end

definition good_row :: "f64 \<times> f64 \<Rightarrow> bool" where
  "good_row row \<longleftrightarrow> 0 < fst row \<and> fst row < snd row"

definition replay_good :: "FixtureReplayAdapter \<Rightarrow> bool" where
  "replay_good a \<longleftrightarrow> fx_index a < length (fx_rows a) \<and> list_all good_row (fx_rows a)"

definition fallback_good :: "FallbackMarketDataSource \<Rightarrow> bool" where
  "fallback_good f \<longleftrightarrow> replay_good (fb_fallback f)"

lemma fixture_fetch_good:
  assumes "replay_good a"
  shows "replay_good (fst (fixture_fetch now a))" and "snapshot_is_usable (Some (snd (fixture_fetch now a)))"
proof -
  obtain bid ask where row: "fx_rows a ! fx_index a = (bid, ask)" by fastforce
  have "good_row (bid, ask)" using assms row by (auto simp: replay_good_def list_all_length)
  then show "snapshot_is_usable (Some (snd (fixture_fetch now a)))"
    by (simp add: fixture_fetch_def row snapshot_from_prices_def snapshot_is_usable_def good_row_def Let_def)
  show "replay_good (fst (fixture_fetch now a))"
    using assms by (auto simp: fixture_fetch_def row replay_good_def intro!: mod_less_divisor)
qed

lemma fallback_fetch_good:
  assumes "fallback_good f"
  shows "fallback_good (fst (fallback_fetch err_text feed f)) \<and> snapshot_is_usable (Some (snd (fallback_fetch err_text feed f)))"
proof -
  obtain p s where primary: "primary_fetch err_text feed (fb_primary f) = (p, s)" by fastforce
  show ?thesis
  proof (cases "snapshot_is_usable (Some s)")
    case True
    then show ?thesis using assms by (simp add: fallback_fetch_def primary Let_def fallback_good_def)
  next
    case False
    then show ?thesis
      using assms fixture_fetch_good [of "fb_fallback f" "bf_now feed"]
      by (cases "fixture_fetch (bf_now feed) (fb_fallback f)") (simp add: fallback_fetch_def primary Let_def fallback_good_def)
  qed
qed

interpretation replayed: usable_source replay_good fixture_fetch
  by unfold_locales (rule fixture_fetch_good, assumption)+

interpretation fallback: usable_source fallback_good "fallback_fetch err_text" for err_text
  by unfold_locales (simp_all add: fallback_fetch_good)

text \<open>Whatever the exchange answers or fails to, a source with a replay behind it gives a usable book at every fetch:
  two sides, not stale, a positive bid below the ask; so the loop always has a mid price.
\<close>

theorem fallback_always_usable:
  assumes "fx_index (fb_fallback f) < length (fx_rows (fb_fallback f))" and "list_all good_row (fx_rows (fb_fallback f))"
  shows "list_all (\<lambda>book. snapshot_is_usable (Some book)) (fallback.fetches err_text feeds f)
    \<and> (\<exists>mid>0. mid_price (snd (fallback_fetch err_text feed f)) = Some mid)"
  using fallback.all_usable fallback.usable_mid assms by (simp add: fallback_good_def replay_good_def)

definition example_source :: FallbackMarketDataSource where
  "example_source = \<lparr> fb_primary = Polling (ccxt_init ''BTC/USDT'' 3),
     fb_fallback = \<lparr> fx_symbol = ''BTC/USDT'', fx_path = ''rows.csv'', fx_rows = [(lit 100, lit 101)], fx_index = 0 \<rparr>,
     fb_using_fallback = False, fb_last_error = None \<rparr>"

definition silent_feed :: BookFeed where
  "silent_feed = \<lparr> bf_answer = (\<lambda>attempt. Inl (OtherError ''NetworkError'')), bf_watch = Inl (OtherError ''NetworkError''), bf_now = 0 \<rparr>"

theorem fallback_always_usable_witness:
  "list_all (\<lambda>book. snapshot_is_usable (Some book)) (fallback.fetches error_name [silent_feed, silent_feed] example_source)
    \<and> (\<exists>mid>0. mid_price (snd (fallback_fetch error_name silent_feed example_source)) = Some mid)"
  by (rule fallback_always_usable) (simp_all add: example_source_def good_row_def less_val val_lit_numeral)

section \<open>What the replay of observations promises\<close>

lemma read_observation:
  assumes "\<And>t. fromisoformat (isoformat t) = Inr t"
  shows "snapshot_from_observation m fromisoformat (observation_row isoformat s) meta window =
    Inr (s\<lparr> sn_metadata := meta, sn_window := window, sn_price := sqrt_price_x96_to_price m (sn_sqrt_price_x96 s)
               (md_base_is_token0 meta) (md_token0_decimals meta) (md_token1_decimals meta),
            sn_lower_tick_info := None, sn_upper_tick_info := None, sn_is_incomplete := False, sn_data_source := fixture,
            sn_tick_id := None \<rparr>)"
proof -
  have "int_str n \<noteq> []" for n using nat_str_digits by (simp add: int_str_def)
  then have fee: "(case some_text (Some (case sn_base_fee_wei s of None \<Rightarrow> [] | Some fee \<Rightarrow> int_str fee)) of
      None \<Rightarrow> ok None | Some t \<Rightarrow> rbind (py_int t) (\<lambda>f. ok (Some f))) = Inr (sn_base_fee_wei s)"
    by (simp add: some_text_def split: option.split)
  have stale: "is_true_text (if b then ''true'' else ''false'') = b" for b
    by (simp add: is_true_text_def py_lower_def lower_char_def)
  show ?thesis
    using fee assms stale
    by (simp add: snapshot_from_observation_def observation_row_def row_int_def row_get_def dict_get_or_def)
qed

text \<open>Writing a snapshot as a row and reading it back gives the same pool state. The price is computed again, as
  it was from the same square root.
\<close>

theorem observation_roundtrip:
  assumes "\<And>t. fromisoformat (isoformat t) = Inr t"
  shows "snapshot_from_observation m fromisoformat (observation_row isoformat s) (sn_metadata s) (sn_window s) =
    Inr (s\<lparr> sn_price := sqrt_price_x96_to_price m (sn_sqrt_price_x96 s) (md_base_is_token0 (sn_metadata s))
               (md_token0_decimals (sn_metadata s)) (md_token1_decimals (sn_metadata s)),
            sn_lower_tick_info := None, sn_upper_tick_info := None, sn_is_incomplete := False, sn_data_source := fixture,
            sn_tick_id := None \<rparr>)"
  by (simp add: read_observation [OF assms])

definition recorded_pool :: PoolMetadata where
  "recorded_pool = \<lparr> md_pool_address = ''0x88e6'', md_token0 = ''0xa0b8'', md_token1 = ''0xc02a'', md_token0_decimals = 6,
     md_token1_decimals = 18, md_fee_pips = 500, md_tick_spacing = 10, md_base_is_token0 = False \<rparr>"

definition recorded_snapshot :: V3PoolSnapshot where
  "recorded_snapshot = \<lparr> sn_metadata = recorded_pool, sn_sqrt_price_x96 = 2 ^ 96, sn_tick = 0, sn_liquidity = 10 ^ 18,
     sn_fee_growth_global0_x128 = 5, sn_fee_growth_global1_x128 = 6, sn_block_number = 17, sn_block_timestamp = 0,
     sn_price = 1, sn_lower_tick_info = None, sn_upper_tick_info = None, sn_base_fee_wei = Some 9,
     sn_window = None, sn_is_stale = False, sn_is_incomplete = False, sn_data_source = live, sn_tick_id = None \<rparr>"

theorem observation_roundtrip_witness:
  "snapshot_from_observation exact_libm py_int (observation_row int_str recorded_snapshot) (sn_metadata recorded_snapshot)
      (sn_window recorded_snapshot) =
    Inr (recorded_snapshot\<lparr> sn_price := sqrt_price_x96_to_price exact_libm (sn_sqrt_price_x96 recorded_snapshot)
               (md_base_is_token0 (sn_metadata recorded_snapshot)) (md_token0_decimals (sn_metadata recorded_snapshot))
               (md_token1_decimals (sn_metadata recorded_snapshot)),
            sn_lower_tick_info := None, sn_upper_tick_info := None, sn_is_incomplete := False, sn_data_source := fixture,
            sn_tick_id := None \<rparr>)"
  by (rule observation_roundtrip) simp

text \<open>The columns of the rows a replay cycles through.\<close>

definition column :: "Row list \<Rightarrow> string \<Rightarrow> int list res" where
  "column rows key = res_map (\<lambda>row. row_int row key) rows"

lemma column_nth: "column rows key = Inr vs \<Longrightarrow> i < length rows \<Longrightarrow> row_int (rows ! i) key = Inr (vs ! i)"
  by (auto simp: column_def dest!: res_map_Inr_all simp: list_all2_conv_all_nth)

lemma column_length: "column rows key = Inr vs \<Longrightarrow> length vs = length rows"
  by (auto simp: column_def dest: res_map_length)

definition replay_columns :: "V3FixtureReplay \<Rightarrow> int list \<Rightarrow> int list \<Rightarrow> int list \<Rightarrow> bool" where
  "replay_columns r blocks growth0 growth1 \<longleftrightarrow>
     column (vf_rows r) ''block_number'' = Inr blocks \<and> column (vf_rows r) ''fee_growth_global0_x128'' = Inr growth0
     \<and> column (vf_rows r) ''fee_growth_global1_x128'' = Inr growth1 \<and> vf_index r < length (vf_rows r)
     \<and> vf_block_span r = List.last blocks - hd blocks + 1
     \<and> vf_growth_span r = ((List.last growth0 - hd growth0) mod U256, (List.last growth1 - hd growth1) mod U256)"

lemma advance_columns: "replay_columns r b g h \<Longrightarrow> replay_columns (advance_replay r) b g h"
  by (auto simp: replay_columns_def advance_replay_def)

lemma advances_columns: "replay_columns r b g h \<Longrightarrow> replay_columns ((advance_replay ^^ n) r) b g h"
  by (induction n) (simp_all add: advance_columns)

lemma init_columns:
  assumes "v3_replay_init meta window file now = Inr r" and "column (vf_rows r) ''block_number'' = Inr b"
    and "column (vf_rows r) ''fee_growth_global0_x128'' = Inr g" and "column (vf_rows r) ''fee_growth_global1_x128'' = Inr h"
  shows "replay_columns r b g h"
proof -
  have ends: "row_span rows key = Inr v \<Longrightarrow> column rows key = Inr vs \<Longrightarrow> rows \<noteq> [] \<Longrightarrow> v = List.last vs - hd vs" for rows key v vs
    using column_nth [of rows key vs "length rows - 1"] column_nth [of rows key vs 0] column_length [of rows key vs]
    by (cases "vs = []") (auto simp: row_span_def last_conv_nth hd_conv_nth)
  from assms show ?thesis
    by (auto simp: v3_replay_init_def replay_columns_def Let_def split: if_split_asm dest: ends)
qed

lemma replay_read_result:
  assumes "replay_read m fromisoformat r = (r', Inr s)" and columns: "replay_columns r b g h"
  shows "r' = advance_replay r" "sn_block_number s = b ! vf_index r + vf_block_span r * int (vf_cycle r)"
    "sn_fee_growth_global0_x128 s = (g ! vf_index r + fst (vf_growth_span r) * int (vf_cycle r)) mod U256"
    "sn_fee_growth_global1_x128 s = (h ! vf_index r + snd (vf_growth_span r) * int (vf_cycle r)) mod U256"
    "sn_block_timestamp s = vf_started r + 12 * 10 ^ 6 * int (vf_index r + vf_cycle r * length (vf_rows r))"
proof -
  obtain raw where raw: "snapshot_from_observation m fromisoformat (vf_rows r ! vf_index r) (vf_metadata r) (vf_window r) = Inr raw"
      and result: "r' = advance_replay r" "s = rebased r raw"
    using assms(1) by (auto simp: replay_read_def sbind_Inr)
  have "row_int (vf_rows r ! vf_index r) ''block_number'' = Inr (b ! vf_index r)"
      "row_int (vf_rows r ! vf_index r) ''fee_growth_global0_x128'' = Inr (g ! vf_index r)"
      "row_int (vf_rows r ! vf_index r) ''fee_growth_global1_x128'' = Inr (h ! vf_index r)"
    using columns column_nth by (auto simp: replay_columns_def)
  then have "sn_block_number raw = b ! vf_index r" "sn_fee_growth_global0_x128 raw = g ! vf_index r"
      "sn_fee_growth_global1_x128 raw = h ! vf_index r"
    using raw by (auto simp: snapshot_from_observation_def)
  then show "r' = advance_replay r" "sn_block_number s = b ! vf_index r + vf_block_span r * int (vf_cycle r)"
    "sn_fee_growth_global0_x128 s = (g ! vf_index r + fst (vf_growth_span r) * int (vf_cycle r)) mod U256"
    "sn_fee_growth_global1_x128 s = (h ! vf_index r + snd (vf_growth_span r) * int (vf_cycle r)) mod U256"
    "sn_block_timestamp s = vf_started r + 12 * 10 ^ 6 * int (vf_index r + vf_cycle r * length (vf_rows r))"
    using result by (simp_all add: rebased_def)
qed

lemma seam_growth: "wrap_sub (a + (z - a) mod U256 * (1 + c)) (z + (z - a) mod U256 * c) = 0"
proof -
  have difference: "a + (z - a) mod U256 * (1 + c) - (z + (z - a) mod U256 * c) = (z - a) mod U256 - (z - a)"
    by (simp add: algebra_simps)
  have "((z - a) mod U256 - (z - a)) mod U256 = 0" by (simp add: mod_diff_left_eq)
  then show ?thesis unfolding wrap_sub_def difference .
qed

lemma list_ends: "length xs = n \<Longrightarrow> 0 < n \<Longrightarrow> xs ! 0 = hd xs \<and> xs ! (n - 1) = List.last xs"
  by (cases "xs = []") (auto simp: hd_conv_nth last_conv_nth)

lemma wrap_sub_mods: "wrap_sub (x mod U256) (y mod U256) = wrap_sub x y"
  by (simp add: wrap_sub_def mod_diff_eq)

lemma wrap_sub_shift: "wrap_sub (x + k) (y + k) = wrap_sub x y"
  by (simp add: wrap_sub_def)

text \<open>A replay runs for ever without a seam: at any point of it, two reads in a row go on in time by twelve seconds and to a
  later block, and the fee growth between them is that of the recording, or nothing where the recording starts
  over; so a liquidity position accrues the recorded fees and no others. The recorded blocks ascend.
\<close>

theorem replay_is_seamless:
  assumes "v3_replay_init meta window file now = Inr r0"
    and "column (vf_rows r0) ''block_number'' = Inr blocks" and "sorted_wrt (<) blocks"
    and "column (vf_rows r0) ''fee_growth_global0_x128'' = Inr growth0" and "column (vf_rows r0) ''fee_growth_global1_x128'' = Inr growth1"
    and "r = (advance_replay ^^ n) r0"
    and "replay_read m fromisoformat r = (r', Inr s)" and "replay_read m fromisoformat r' = (r'', Inr s')"
  shows "sn_block_number s < sn_block_number s' \<and> sn_block_timestamp s' = sn_block_timestamp s + 12 * 10 ^ 6
    \<and> wrap_sub (sn_fee_growth_global0_x128 s') (sn_fee_growth_global0_x128 s)
        = (if vf_index r + 1 < length blocks then wrap_sub (growth0 ! (vf_index r + 1)) (growth0 ! vf_index r) else 0)
    \<and> wrap_sub (sn_fee_growth_global1_x128 s') (sn_fee_growth_global1_x128 s)
        = (if vf_index r + 1 < length blocks then wrap_sub (growth1 ! (vf_index r + 1)) (growth1 ! vf_index r) else 0)"
proof -
  have columns: "replay_columns r blocks growth0 growth1"
    using advances_columns init_columns assms(1,2,4,5) unfolding assms(6) by blast
  note first = replay_read_result [OF assms(7) columns]
  have next_columns: "replay_columns r' blocks growth0 growth1" unfolding first(1) using columns by (rule advance_columns)
  note then_ = replay_read_result [OF assms(8) next_columns]
  have len: "length blocks = length (vf_rows r)" "length growth0 = length (vf_rows r)" "length growth1 = length (vf_rows r)"
      "vf_index r < length (vf_rows r)"
    using columns column_length by (auto simp: replay_columns_def)
  have kept: "vf_block_span r' = vf_block_span r" "vf_growth_span r' = vf_growth_span r" "vf_started r' = vf_started r" "vf_rows r' = vf_rows r"
    by (simp_all add: first(1) advance_replay_def)
  show ?thesis
  proof (cases "vf_index r + 1 < length (vf_rows r)")
    case True
    then have pos: "vf_index r' = vf_index r + 1" "vf_cycle r' = vf_cycle r" by (simp_all add: first(1) advance_replay_def)
    have "blocks ! vf_index r < blocks ! (vf_index r + 1)" using assms(3) True len by (simp add: sorted_wrt_nth_less)
    then show ?thesis using True len first then_ kept pos by (simp add: wrap_sub_shift wrap_sub_mods)
  next
    case False
    then have at_end: "vf_index r = length (vf_rows r) - 1" and nonempty: "0 < length (vf_rows r)" using len by auto
    have pos: "vf_index r' = 0" "vf_cycle r' = vf_cycle r + 1" using False by (simp_all add: first(1) advance_replay_def)
    have ends: "blocks ! 0 = hd blocks" "blocks ! vf_index r = List.last blocks" "growth0 ! 0 = hd growth0"
        "growth0 ! vf_index r = List.last growth0" "growth1 ! 0 = hd growth1" "growth1 ! vf_index r = List.last growth1"
      using list_ends [OF len(1)] list_ends [OF len(2)] list_ends [OF len(3)] nonempty by (simp_all add: at_end)
    have spans: "vf_block_span r = List.last blocks - hd blocks + 1"
        "vf_growth_span r = ((List.last growth0 - hd growth0) mod U256, (List.last growth1 - hd growth1) mod U256)"
      using columns by (simp_all add: replay_columns_def)
    have "sn_block_timestamp s' = sn_block_timestamp s + 12 * 10 ^ 6"
      using first(5) then_(5) kept pos at_end nonempty by (simp add: of_nat_diff algebra_simps)
    moreover have "sn_block_number s < sn_block_number s'"
      using first(2) then_(2) kept pos ends spans by (simp add: algebra_simps)
    ultimately show ?thesis
      using False len first(3,4) then_(3,4) kept(2) pos ends spans by (simp add: seam_growth wrap_sub_mods)
  qed
qed

definition recorded_rows :: "Row list" where
  "recorded_rows = map (\<lambda>(block, growth). observation_row int_str
     (recorded_snapshot\<lparr> sn_block_number := block, sn_fee_growth_global0_x128 := growth, sn_fee_growth_global1_x128 := 0 \<rparr>))
     [(7, 100), (9, 250)]"

definition example_replay :: V3FixtureReplay where
  "example_replay = \<lparr> vf_metadata = sn_metadata recorded_snapshot, vf_window = None, vf_rows = recorded_rows, vf_index = 0,
     vf_cycle = 0, vf_started = 0, vf_growth_span = (150 mod U256, 0), vf_block_span = 3 \<rparr>"

lemma recorded_columns:
  "column recorded_rows ''block_number'' = Inr [7, 9]" "column recorded_rows ''fee_growth_global0_x128'' = Inr [100, 250]"
  "column recorded_rows ''fee_growth_global1_x128'' = Inr [0, 0]"
  by (simp_all add: column_def recorded_rows_def observation_row_def row_int_def row_get_def)

lemma example_replay_init: "v3_replay_init (sn_metadata recorded_snapshot) None recorded_rows 0 = Inr example_replay"
  by (simp add: v3_replay_init_def recorded_rows_def observation_row_def row_int_def row_get_def row_span_def
      example_replay_def recorded_snapshot_def Let_def)

lemma example_replay_reads:
  assumes "r = example_replay \<or> r = advance_replay example_replay"
  shows "\<exists>s. replay_read exact_libm py_int r = (advance_replay r, Inr s)"
proof -
  have "vf_rows r ! vf_index r \<in> set recorded_rows"
    using assms by (auto simp: advance_replay_def example_replay_def recorded_rows_def)
  then obtain s where "vf_rows r ! vf_index r = observation_row int_str s" by (auto simp: recorded_rows_def)
  then show ?thesis
    using read_observation [of py_int int_str exact_libm s "vf_metadata r" "vf_window r"] by (simp add: replay_read_def)
qed

theorem replay_is_seamless_witness:
  "\<exists>(s :: V3PoolSnapshot) (s' :: V3PoolSnapshot). sn_block_number s < sn_block_number s' \<and> sn_block_timestamp s' = sn_block_timestamp s + 12 * 10 ^ 6
    \<and> wrap_sub (sn_fee_growth_global0_x128 s') (sn_fee_growth_global0_x128 s)
        = (if vf_index example_replay + 1 < length [7, 9 :: int]
           then wrap_sub ([100, 250] ! (vf_index example_replay + 1)) ([100, 250] ! vf_index example_replay) else 0)
    \<and> wrap_sub (sn_fee_growth_global1_x128 s') (sn_fee_growth_global1_x128 s)
        = (if vf_index example_replay + 1 < length [7, 9 :: int]
           then wrap_sub ([0, 0] ! (vf_index example_replay + 1)) ([0, 0] ! vf_index example_replay) else 0)"
proof -
  obtain s s' where reads: "replay_read exact_libm py_int example_replay = (advance_replay example_replay, Inr s)"
      "replay_read exact_libm py_int (advance_replay example_replay) = (advance_replay (advance_replay example_replay), Inr s')"
    using example_replay_reads by blast
  have rows: "vf_rows example_replay = recorded_rows" by (simp add: example_replay_def)
  have start: "example_replay = (advance_replay ^^ 0) example_replay" by simp
  have ascending: "sorted_wrt (<) [7, 9 :: int]" by simp
  show ?thesis
    by (rule exI, rule exI,
        rule replay_is_seamless [OF example_replay_init, unfolded rows, OF recorded_columns(1) ascending recorded_columns(2,3) start reads])
qed

end
