(* ===== verification/Market_Loop.thy ===== *)
theory Market_Loop
  imports Market_Sources Pool_Reader Paper_Broker Quoting Lp_Book Flash_Arb
begin

text \<open>
  \<open>app/services/market_maker_loop.py\<close>: one tick of the lab, which reads the markets, advances the paper liquidity
  book and the flash-arbitrage simulation, books fills, quotes, persists everything in one record and only then
  shows it; and the loop around the tick, with its back-off and its stop after repeated errors.

  What the world answers during a tick is the record \<open>TickFeed\<close>; what never changes, \<open>LoopEnv\<close>. The data base is the
  function \<open>tf_persist\<close>, which may raise. Metrics, logging and the periodic report are not modelled.
\<close>

section \<open>State and surroundings\<close>

datatype V3Source = LiveV3 V3PoolAdapter | RecordedV3 V3FixtureReplay

record MarketMakerLoop =
  ml_settings :: Settings
  ml_data_source :: MarketDataSource
  ml_compare_source :: MarketDataSource
  ml_pool_adapter :: "Web3PoolAdapter option"
  ml_strategy :: Strategy
  ml_broker :: PaperBroker
  ml_kill_switch :: KillSwitch
  ml_running :: bool
  ml_tick :: int
  ml_last_snapshot :: "OrderBookSnapshot option"
  ml_last_pool_snapshot :: "AmmPoolSnapshot option"
  ml_last_compare_mid :: "f64 option"
  ml_last_opportunities :: "Opportunity list"
  ml_last_position :: "Position option"
  ml_last_pnl :: "PnLSnapshot option"
  ml_last_tick_at :: "datetime option"
  ml_last_tick_id :: "string option"
  ml_last_error :: "string option"
  ml_consecutive_errors :: int
  ml_max_consecutive_errors :: int
  ml_v3_source :: "V3Source option"
  ml_lp_book :: "LpPaperBook option"
  ml_v3_fixture_mode :: bool
  ml_v3_status_note :: "string option"
  ml_last_v3_snapshot :: "V3PoolSnapshot option"
  ml_last_lp_state :: "LpPositionState option"
  ml_started_at :: "datetime option"
  ml_flash_arb :: "FlashArbService option"
  ml_last_arb_simulation :: "SimulationResult option"

record LoopEnv =
  le_libm :: Libm
  le_draws :: Draws
  le_codec :: Codec
  le_fromisoformat :: "string \<Rightarrow> datetime res"
  le_err_text :: "py_error \<Rightarrow> string"

text \<open>The arguments of \<open>persist_tick\<close>.\<close>

record TickRecord =
  tr_tick_id :: string
  tr_snapshot :: OrderBookSnapshot
  tr_fills :: "Fill list"
  tr_quotes :: "Quote list"
  tr_position :: Position
  tr_pnl :: PnLSnapshot
  tr_opportunities :: "Opportunity list"
  tr_v3_snapshot :: "V3PoolSnapshot option"
  tr_lp_state :: "LpPositionState option"
  tr_lp_rebalances :: "RebalanceEvent list"
  tr_arb_simulation :: "SimulationResult option"

record TickFeed =
  tf_now :: datetime
  tf_book :: BookFeed
  tf_compare :: BookFeed
  tf_pool :: "nat \<Rightarrow> PairAnswer"
  tf_v3 :: "nat \<Rightarrow> Endpoint"
  tf_v3_fixture :: "V3FixtureReplay res"
  tf_arb_node :: ArbNode
  tf_arb_latency_ms :: f64
  tf_uuid :: "nat \<Rightarrow> string"
  tf_tick_id :: string
  tf_persist :: "TickRecord \<Rightarrow> unit res"

definition V3_FIXTURE_NOTE :: string where
  "V3_FIXTURE_NOTE = ''live V3 RPC unavailable; replaying recorded mainnet observations''"

definition build_lp_book :: "Settings \<Rightarrow> LpPaperBook" where
  "build_lp_book settings =
     book_init \<lparr> st_range_width_bps = s_lp_range_width_bps settings,
                 st_rebalance_threshold_bps = s_lp_rebalance_threshold_bps settings,
                 st_cooldown_sec = s_lp_rebalance_cooldown_sec settings,
                 st_prefer_initialized_ticks = s_lp_prefer_initialized_ticks settings,
                 st_snap_tolerance_spacings = s_lp_snap_tolerance_spacings settings \<rparr>
       (s_lp_capital_quote settings) (s_lp_rebalance_gas_units settings) (s_lp_priority_fee_gwei settings) (s_gas_price_gwei settings)"

definition broker_of :: "Settings \<Rightarrow> FillCalibration option \<Rightarrow> PaperBroker" where
  "broker_of settings calibration =
     broker_init (s_symbol settings) (s_initial_quote_balance settings) (s_maker_fee_bps settings) (s_fill_mode settings)
       (s_fill_latency_ticks settings) (s_fill_probability settings) calibration"

definition loop_init ::
    "Settings \<Rightarrow> MarketDataSource \<Rightarrow> MarketDataSource \<Rightarrow> Web3PoolAdapter \<Rightarrow> V3Source \<Rightarrow> FlashArbService \<Rightarrow>
     FillCalibration option \<Rightarrow> MarketMakerLoop" where
  "loop_init settings data_source compare_source pool_adapter v3_source flash_arb calibration =
     \<lparr> ml_settings = settings, ml_data_source = data_source, ml_compare_source = compare_source,
       ml_pool_adapter = (if s_dex_enabled settings then Some pool_adapter else None),
       ml_strategy = build_strategy settings, ml_broker = broker_of settings calibration, ml_kill_switch = kill_switch_init,
       ml_running = False, ml_tick = 0, ml_last_snapshot = None, ml_last_pool_snapshot = None, ml_last_compare_mid = None,
       ml_last_opportunities = [], ml_last_position = None, ml_last_pnl = None, ml_last_tick_at = None, ml_last_tick_id = None,
       ml_last_error = None, ml_consecutive_errors = 0, ml_max_consecutive_errors = 3,
       ml_v3_source = (if v3_active settings then Some v3_source else None),
       ml_lp_book = (if v3_active settings \<and> lp_active settings then Some (build_lp_book settings) else None),
       ml_v3_fixture_mode = False, ml_v3_status_note = None, ml_last_v3_snapshot = None, ml_last_lp_state = None,
       ml_started_at = None, ml_flash_arb = (if arb_sim_active settings then Some flash_arb else None),
       ml_last_arb_simulation = None \<rparr>"

section \<open>Reading the markets\<close>

definition loop_scan_opportunities ::
    "Settings \<Rightarrow> f64 option \<Rightarrow> bool \<Rightarrow> bool \<Rightarrow> AmmPoolSnapshot \<Rightarrow> f64 \<Rightarrow> datetime \<Rightarrow> Opportunity list res" where
  "loop_scan_opportunities settings cex_mid primary_is_stale compare_is_stale pool_snapshot eth_price_usd now =
     (case cex_mid of
        None \<Rightarrow> ok []
      | Some mid \<Rightarrow>
          if mid \<le> 0 \<or> primary_is_stale \<or> compare_is_stale \<or> am_is_stale pool_snapshot then ok []
          else scan_arbitrage_opportunities mid pool_snapshot (s_arbitrage_trial_trade_size settings) (s_taker_fee_bps settings)
                 (s_amm_fee_bps settings) (s_gas_limit_units settings) (s_gas_price_gwei settings) eth_price_usd
                 (s_arbitrage_min_edge_bps settings) now)"

text \<open>The comparison market and the V2 pool; the snapshot of the former, and the opportunities between them.\<close>

definition compare_stage ::
    "LoopEnv \<Rightarrow> TickFeed \<Rightarrow> OrderBookSnapshot \<Rightarrow> MarketMakerLoop \<Rightarrow>
     MarketMakerLoop \<times> (OrderBookSnapshot option \<times> Opportunity list) res" where
  "compare_stage env feed snapshot l =
     (case ml_pool_adapter l of
        None \<Rightarrow> (l, ok (None, []))
      | Some adapter \<Rightarrow>
          if \<not> s_dex_enabled (ml_settings l) then (l, ok (None, []))
          else
            let (source, compare) = fetch_orderbook (le_err_text env) (tf_compare feed) (ml_compare_source l);
                (adapter, pool) = fetch_pool_snapshot (tf_pool feed) (tf_now feed) adapter;
                mid = mid_price compare;
                l1 = l\<lparr> ml_compare_source := source, ml_pool_adapter := Some adapter, ml_last_pool_snapshot := Some pool,
                        ml_last_compare_mid := mid \<rparr>
            in sbind (l1, loop_scan_opportunities (ml_settings l1) mid (ob_is_stale snapshot) (ob_is_stale compare) pool
                            (case mid of None \<Rightarrow> 0 | Some price \<Rightarrow> price) (tf_now feed))
                 (\<lambda>l found. (l\<lparr> ml_last_opportunities := found \<rparr>, ok (Some compare, found))))"

definition v3_read :: "LoopEnv \<Rightarrow> TickFeed \<Rightarrow> (int \<times> int) option \<Rightarrow> V3Source \<Rightarrow> V3Source \<times> V3PoolSnapshot res" where
  "v3_read env feed bounds source =
     (case source of
        LiveV3 a \<Rightarrow> (case read_snapshot (le_libm env) (le_codec env) (tf_v3 feed) bounds a of (a, r) \<Rightarrow> (LiveV3 a, r))
      | RecordedV3 replay \<Rightarrow> (case replay_read (le_libm env) (le_fromisoformat env) replay of (replay, r) \<Rightarrow> (RecordedV3 replay, r)))"

definition replayed_snapshot ::
    "LoopEnv \<Rightarrow> TickFeed \<Rightarrow> (int \<times> int) option \<Rightarrow> V3Source \<Rightarrow> MarketMakerLoop \<Rightarrow> MarketMakerLoop \<times> V3PoolSnapshot option res" where
  "replayed_snapshot env feed bounds source l =
     (let (source, r) = v3_read env feed bounds source
      in sbind (l\<lparr> ml_v3_status_note := Some V3_FIXTURE_NOTE, ml_v3_source := Some source \<rparr>, r) (\<lambda>l s. (l, ok (Some s))))"

text \<open>
  The fixture replaces the live source for the rest of the process. Loading it may fail; only \<open>OSError\<close> and
  \<open>ValueError\<close> are caught there.
\<close>

definition fixture_fallback ::
    "LoopEnv \<Rightarrow> TickFeed \<Rightarrow> (int \<times> int) option \<Rightarrow> MarketMakerLoop \<Rightarrow> MarketMakerLoop \<times> V3PoolSnapshot option res" where
  "fixture_fallback env feed bounds l =
     (if \<not> s_fixture_fallback_enabled (ml_settings l) then (l, ok None)
      else
        (case tf_v3_fixture feed of
           Inl e \<Rightarrow> (l, if e = OSError \<or> e = ValueError then ok None else Inl e)
         | Inr replay \<Rightarrow> replayed_snapshot env feed bounds (RecordedV3 replay)
                          (l\<lparr> ml_v3_source := Some (RecordedV3 replay), ml_v3_fixture_mode := True \<rparr>)))"

definition fetch_v3_snapshot ::
    "LoopEnv \<Rightarrow> TickFeed \<Rightarrow> V3Source \<Rightarrow> MarketMakerLoop \<Rightarrow> MarketMakerLoop \<times> V3PoolSnapshot option res" where
  "fetch_v3_snapshot env feed source l =
     (let bounds = Option.bind (ml_lp_book l) book_bounds in
      if ml_v3_fixture_mode l then replayed_snapshot env feed bounds source l
      else
        let (source, r) = v3_read env feed bounds source; l = l\<lparr> ml_v3_source := Some source \<rparr> in
        (case r of
           Inr s \<Rightarrow> (l\<lparr> ml_v3_status_note := None \<rparr>, ok (Some s))
         | Inl (V3PoolUnavailable message) \<Rightarrow> fixture_fallback env feed bounds (l\<lparr> ml_v3_status_note := Some message \<rparr>)
         | Inl e \<Rightarrow> (l, Inl e)))"

section \<open>The V3 pool, the liquidity book and the simulated arbitrage\<close>

record V3Outcome =
  vo_snapshot :: "V3PoolSnapshot option"
  vo_lp_state :: "LpPositionState option"
  vo_lp_events :: "RebalanceEvent list"
  vo_opportunities :: "Opportunity list"
  vo_checkpoint :: "LpCheckpoint option"

definition no_v3 :: V3Outcome where
  "no_v3 = \<lparr> vo_snapshot = None, vo_lp_state = None, vo_lp_events = [], vo_opportunities = [], vo_checkpoint = None \<rparr>"

definition lp_stage ::
    "LoopEnv \<Rightarrow> V3PoolSnapshot \<Rightarrow> f64 option \<Rightarrow> MarketMakerLoop \<Rightarrow>
     MarketMakerLoop \<times> (LpPositionState option \<times> RebalanceEvent list \<times> LpCheckpoint option) res" where
  "lp_stage env s compare_mid l =
     (case ml_lp_book l of
        None \<Rightarrow> (l, ok (None, [], None))
      | Some book \<Rightarrow>
          let (after, r) = lp_step (le_libm env) book s compare_mid (ks_active (ml_kill_switch l))
          in sbind (l\<lparr> ml_lp_book := Some after \<rparr>, r) (\<lambda>l (state, events). (l, ok (Some state, events, Some (lp_checkpoint book)))))"

definition v3_gas_price_gwei :: "Settings \<Rightarrow> V3PoolSnapshot \<Rightarrow> f64" where
  "v3_gas_price_gwei settings s =
     (case sn_base_fee_wei s of
        None \<Rightarrow> s_gas_price_gwei settings
      | Some fee \<Rightarrow> float_of_int fee / lit (10 ^ 9) + s_lp_priority_fee_gwei settings)"

definition v3_opportunities ::
    "LoopEnv \<Rightarrow> TickFeed \<Rightarrow> Settings \<Rightarrow> V3PoolSnapshot \<Rightarrow> f64 option \<Rightarrow> bool \<Rightarrow> Opportunity list res" where
  "v3_opportunities env feed settings s compare_mid cex_is_stale =
     (case compare_mid of
        None \<Rightarrow> ok []
      | Some mid \<Rightarrow>
          scan_v3_opportunities (le_libm env) mid (Some s) (s_arbitrage_trial_trade_size settings) (s_taker_fee_bps settings)
            (s_gas_limit_units settings) (v3_gas_price_gwei settings s) (s_arbitrage_min_edge_bps settings) cex_is_stale (tf_now feed))"

definition loop_v3_step ::
    "LoopEnv \<Rightarrow> TickFeed \<Rightarrow> f64 option \<Rightarrow> bool \<Rightarrow> MarketMakerLoop \<Rightarrow> MarketMakerLoop \<times> V3Outcome res" where
  "loop_v3_step env feed compare_mid cex_is_stale l =
     (case ml_v3_source l of
        None \<Rightarrow> (l, ok no_v3)
      | Some source \<Rightarrow>
          sbind (fetch_v3_snapshot env feed source l) (\<lambda>l fetched.
          case fetched of
            None \<Rightarrow> (l, ok no_v3)
          | Some s \<Rightarrow>
              sbind (lp_stage env s compare_mid l) (\<lambda>l (state, events, checkpoint).
              sbind (l, v3_opportunities env feed (ml_settings l) s compare_mid cex_is_stale) (\<lambda>l found.
                (l, ok \<lparr> vo_snapshot = Some s, vo_lp_state = state, vo_lp_events = events, vo_opportunities = found,
                         vo_checkpoint = checkpoint \<rparr>)))))"

definition flash_arb_step ::
    "TickFeed \<Rightarrow> V3PoolSnapshot option \<Rightarrow> MarketMakerLoop \<Rightarrow> MarketMakerLoop \<times> SimulationResult option res" where
  "flash_arb_step feed snapshot l =
     (case (ml_flash_arb l, snapshot) of
        (Some service, Some s) \<Rightarrow>
          let (service, r) = flash_arb_run (tf_arb_node feed) (tf_arb_latency_ms feed) (tf_now feed) (Some s) service
          in (l\<lparr> ml_flash_arb := Some service \<rparr>, r)
      | _ \<Rightarrow> (l, ok None))"

section \<open>The trading part of a tick\<close>

text \<open>What the stages before it have found.\<close>

record TickFindings =
  fd_snapshot :: OrderBookSnapshot
  fd_opportunities :: "Opportunity list"
  fd_v3 :: V3Outcome
  fd_arb :: "SimulationResult option"

definition tick_record ::
    "TickFeed \<Rightarrow> TickFindings \<Rightarrow> Fill list \<Rightarrow> Quote list \<Rightarrow> Position \<Rightarrow> PnLSnapshot \<Rightarrow> TickRecord" where
  "tick_record feed fd fills quotes position pnl =
     \<lparr> tr_tick_id = tf_tick_id feed, tr_snapshot = fd_snapshot fd, tr_fills = fills, tr_quotes = quotes, tr_position = position,
       tr_pnl = pnl, tr_opportunities = fd_opportunities fd, tr_v3_snapshot = vo_snapshot (fd_v3 fd),
       tr_lp_state = vo_lp_state (fd_v3 fd), tr_lp_rebalances = vo_lp_events (fd_v3 fd), tr_arb_simulation = fd_arb fd \<rparr>"

definition persisted :: "TickFeed \<Rightarrow> TickRecord \<Rightarrow> MarketMakerLoop \<Rightarrow> MarketMakerLoop \<times> TickRecord res" where
  "persisted feed record l = sbind (l, tf_persist feed record) (\<lambda>l done. (l, ok record))"

definition stale_body :: "TickFeed \<Rightarrow> TickFindings \<Rightarrow> MarketMakerLoop \<Rightarrow> MarketMakerLoop \<times> TickRecord res" where
  "stale_body feed fd l =
     (let l = l\<lparr> ml_broker := cancel_all_quotes (ml_broker l) \<rparr>; account = pb_inventory (ml_broker l)
      in persisted feed (tick_record feed fd [] [] (to_position account (tf_now feed))
                           (compute_pnl_snapshot account (fd_snapshot fd) (tf_now feed))) l)"

definition place_quotes ::
    "TickFeed \<Rightarrow> OrderBookSnapshot \<Rightarrow> Position \<Rightarrow> MarketMakerLoop \<Rightarrow> MarketMakerLoop \<times> Quote list" where
  "place_quotes feed snapshot position l =
     (if \<not> ks_active (ml_kill_switch l) then
        let (strategy, quotes) = generate_quotes (ml_strategy l) snapshot position;
            st = ml_settings l;
            approved = filter_quotes_by_position_limit quotes position (s_max_position_base st) (s_max_position_notional st)
                         (s_maker_fee_bps st);
            (broker, submitted) = submit_quotes (tf_uuid feed) (ml_broker l) approved
        in (l\<lparr> ml_strategy := strategy, ml_broker := broker \<rparr>, submitted)
      else (l\<lparr> ml_broker := cancel_all_quotes (ml_broker l) \<rparr>, []))"

definition live_body :: "LoopEnv \<Rightarrow> TickFeed \<Rightarrow> TickFindings \<Rightarrow> MarketMakerLoop \<Rightarrow> MarketMakerLoop \<times> TickRecord res" where
  "live_body env feed fd l =
     (let (broker, filled) = apply_fills (le_libm env) (le_draws env) (ml_broker l) (fd_snapshot fd)
      in sbind (l\<lparr> ml_broker := broker \<rparr>, filled) (\<lambda>l fills.
         let account = pb_inventory (ml_broker l);
             position = to_position account (tf_now feed);
             pnl = compute_pnl_snapshot account (fd_snapshot fd) (tf_now feed);
             (l, submitted) = place_quotes feed (fd_snapshot fd) position l
         in persisted feed (tick_record feed fd fills submitted position pnl) l))"

section \<open>Rolling back and committing\<close>

definition restore_lp :: "LpCheckpoint option \<Rightarrow> MarketMakerLoop \<Rightarrow> MarketMakerLoop" where
  "restore_lp checkpoint l =
     (case (checkpoint, ml_lp_book l) of
        (Some c, Some book) \<Rightarrow> l\<lparr> ml_lp_book := Some (lp_restore book c) \<rparr>
      | _ \<Rightarrow> l)"

definition trade :: "LoopEnv \<Rightarrow> TickFeed \<Rightarrow> TickFindings \<Rightarrow> MarketMakerLoop \<Rightarrow> MarketMakerLoop \<times> TickRecord res" where
  "trade env feed fd l =
     (let checkpoint = broker_checkpoint (ml_broker l) in
      case (if ob_is_stale (fd_snapshot fd) then stale_body feed fd l else live_body env feed fd l) of
        (l', Inl e) \<Rightarrow> (restore_lp (vo_checkpoint (fd_v3 fd)) (l'\<lparr> ml_broker := restore_checkpoint checkpoint (ml_broker l') \<rparr>), Inl e)
      | (l', Inr record) \<Rightarrow> (l', ok record))"

definition commit_v3_state :: "TickRecord \<Rightarrow> MarketMakerLoop \<Rightarrow> MarketMakerLoop" where
  "commit_v3_state r l =
     (let l1 = (case tr_arb_simulation r of None \<Rightarrow> l
                | Some s \<Rightarrow> l\<lparr> ml_last_arb_simulation := Some (s\<lparr> sr_tick_id := Some (tr_tick_id r) \<rparr>) \<rparr>);
          l2 = (case tr_v3_snapshot r of None \<Rightarrow> l1
                | Some s \<Rightarrow> l1\<lparr> ml_last_v3_snapshot := Some (s\<lparr> sn_tick_id := Some (tr_tick_id r) \<rparr>) \<rparr>)
      in (case tr_lp_state r of None \<Rightarrow> l2
          | Some s \<Rightarrow> l2\<lparr> ml_last_lp_state := Some (s\<lparr> lp_tick_id := Some (tr_tick_id r) \<rparr>) \<rparr>))"

definition commit_tick_state :: "datetime \<Rightarrow> TickRecord \<Rightarrow> MarketMakerLoop \<Rightarrow> MarketMakerLoop" where
  "commit_tick_state now r l =
     (let tick_id = Some (tr_tick_id r)
      in l\<lparr> ml_last_snapshot := Some ((tr_snapshot r)\<lparr> ob_tick_id := tick_id \<rparr>),
            ml_last_position := Some ((tr_position r)\<lparr> po_tick_id := tick_id \<rparr>),
            ml_last_pnl := Some ((tr_pnl r)\<lparr> pn_tick_id := tick_id \<rparr>),
            ml_last_opportunities := map (\<lambda>o'. o'\<lparr> op_tick_id := tick_id \<rparr>) (tr_opportunities r),
            ml_last_tick_id := tick_id, ml_tick := ml_tick l + 1, ml_last_tick_at := Some now \<rparr>)"

section \<open>A tick\<close>

text \<open>Everything before the trading part: what it leaves behind also when it raises.\<close>

definition observe_markets ::
    "LoopEnv \<Rightarrow> TickFeed \<Rightarrow> MarketMakerLoop \<Rightarrow> MarketMakerLoop \<times> TickFindings res" where
  "observe_markets env feed l =
     (let (source, snapshot) = fetch_orderbook (le_err_text env) (tf_book feed) (ml_data_source l);
          l = l\<lparr> ml_data_source := source, ml_last_snapshot := Some snapshot \<rparr>
      in sbind (compare_stage env feed snapshot l) (\<lambda>l (compare, opportunities).
         let compare_is_stale = (case compare of None \<Rightarrow> True | Some c \<Rightarrow> ob_is_stale c)
         in sbind (loop_v3_step env feed (if compare_is_stale then None else ml_last_compare_mid l)
                     (ob_is_stale snapshot \<or> compare_is_stale) l) (\<lambda>l v3.
            let found = opportunities @ vo_opportunities v3;
                l = (if vo_opportunities v3 \<noteq> [] then l\<lparr> ml_last_opportunities := found \<rparr> else l)
            in sbind (flash_arb_step feed (vo_snapshot v3) l) (\<lambda>l arb.
                 (l\<lparr> ml_started_at := (case ml_started_at l of None \<Rightarrow> Some (tf_now feed) | Some t \<Rightarrow> Some t) \<rparr>,
                  ok \<lparr> fd_snapshot = snapshot, fd_opportunities = found, fd_v3 = v3, fd_arb = arb \<rparr>)))))"

definition tick_once :: "LoopEnv \<Rightarrow> TickFeed \<Rightarrow> MarketMakerLoop \<Rightarrow> MarketMakerLoop \<times> TickRecord res" where
  "tick_once env feed l =
     sbind (observe_markets env feed l) (\<lambda>l fd.
     sbind (trade env feed fd l) (\<lambda>l r.
       (commit_tick_state (tf_now feed) r (commit_v3_state r l), ok r)))"

section \<open>The loop\<close>

text \<open>One turn of \<open>_run\<close>: the seconds to sleep, or \<open>None\<close> when the loop has stopped.\<close>

definition run_turn :: "LoopEnv \<Rightarrow> TickFeed \<Rightarrow> MarketMakerLoop \<Rightarrow> MarketMakerLoop \<times> f64 option" where
  "run_turn env feed l =
     (case tick_once env feed l of
        (l, Inr r) \<Rightarrow> (l\<lparr> ml_consecutive_errors := 0, ml_last_error := None \<rparr>, Some (s_poll_interval_sec (ml_settings l)))
      | (l, Inl e) \<Rightarrow>
          let errors = ml_consecutive_errors l + 1;
              l = l\<lparr> ml_consecutive_errors := errors, ml_last_error := Some (le_err_text env e) \<rparr>
          in if errors \<ge> ml_max_consecutive_errors l then (l\<lparr> ml_running := False \<rparr>, None)
             else (l, Some (float_of_int (min (2 ^ nat errors) 30))))"

fun run_loop :: "LoopEnv \<Rightarrow> TickFeed list \<Rightarrow> MarketMakerLoop \<Rightarrow> MarketMakerLoop" where
  "run_loop env [] l = l"
| "run_loop env (feed # feeds) l = (if ml_running l then run_loop env feeds (fst (run_turn env feed l)) else l)"

definition start_loop :: "MarketMakerLoop \<Rightarrow> MarketMakerLoop" where
  "start_loop l = (if ml_running l then l else l\<lparr> ml_running := True \<rparr>)"

definition stop_task :: "MarketMakerLoop \<Rightarrow> MarketMakerLoop" where
  "stop_task l = l\<lparr> ml_running := False \<rparr>"

definition loop_cancel_all_quotes :: "MarketMakerLoop \<Rightarrow> MarketMakerLoop" where
  "loop_cancel_all_quotes l = l\<lparr> ml_broker := cancel_all_quotes (ml_broker l) \<rparr>"

text \<open>
  Switching the pair: a fresh paper account, sizes scaled by the ratio of the mid prices. \<open>read_csv\<close> opens the
  fixture files, \<open>probe\<close> is what the new exchange market answers and \<open>calibration\<close> what loading the calibration
  file gives. The task is stopped first, so an exception on the way leaves the loop stopped.
\<close>

definition price_scale :: "f64 option \<Rightarrow> f64 option \<Rightarrow> f64" where
  "price_scale old_mid new_mid =
     (case (old_mid, new_mid) of
        (Some a, Some b) \<Rightarrow> if a \<noteq> 0 \<and> b \<noteq> 0 then a / b else 1
      | _ \<Rightarrow> 1)"

definition switched_settings :: "string \<Rightarrow> f64 \<Rightarrow> Settings \<Rightarrow> Settings" where
  "switched_settings symbol scale settings =
     settings\<lparr> s_symbol := symbol, s_quote_size := s_quote_size settings * scale,
               s_max_position_base := s_max_position_base settings * scale, s_market_data_fixture_path := None \<rparr>"

definition source_for :: "Settings \<Rightarrow> string \<Rightarrow> bool \<Rightarrow> (string \<Rightarrow> Row list res) \<Rightarrow> MarketDataSource res" where
  "source_for settings symbol supports_watch read_csv =
     build_market_data_source symbol (s_market_data_mode settings = Websocket) supports_watch
       (s_fixture_fallback_enabled settings \<and> dict_get DEFAULT_FIXTURE_BY_SYMBOL symbol \<noteq> None) None read_csv"

definition fresh_pair ::
    "Settings \<Rightarrow> MarketDataSource \<Rightarrow> FillCalibration option res \<Rightarrow> MarketMakerLoop \<Rightarrow> MarketMakerLoop \<times> unit res" where
  "fresh_pair settings source calibration l =
     (let l = l\<lparr> ml_settings := settings, ml_data_source := source, ml_strategy := build_strategy settings \<rparr>
      in sbind (l, calibration) (\<lambda>l c.
           (l\<lparr> ml_broker := broker_of settings c, ml_last_snapshot := None, ml_last_position := None,
               ml_last_pnl := None, ml_last_tick_id := None, ml_last_error := None \<rparr>, ok ())))"

definition switch_symbol ::
    "LoopEnv \<Rightarrow> BookFeed \<Rightarrow> bool \<Rightarrow> (string \<Rightarrow> Row list res) \<Rightarrow> FillCalibration option res \<Rightarrow> string \<Rightarrow>
     MarketMakerLoop \<Rightarrow> MarketMakerLoop \<times> unit res" where
  "switch_symbol env probe supports_watch read_csv calibration symbol l0 =
     (if symbol = s_symbol (ml_settings l0) then (l0, ok ())
      else
        let l = stop_task l0 in
        sbind (l, source_for (ml_settings l) symbol supports_watch read_csv) (\<lambda>l source.
        let (source, book) = fetch_orderbook (le_err_text env) probe source;
            scale = price_scale (Option.bind (ml_last_snapshot l) mid_price) (mid_price book)
        in sbind (fresh_pair (switched_settings symbol scale (ml_settings l)) source calibration l) (\<lambda>l done.
             (if ml_running l0 then start_loop l else l, ok ()))))"

end
