(* ===== verification/State_Frames.thy ===== *)
theory State_Frames
  imports Lab_Prelude
begin

text \<open>
  What a sequence of operations on an object leaves alone. A relation between the object before and after that is
  reflexive and transitive is kept by \<open>sbind\<close> when both parts keep it, whichever of them raises.
\<close>

locale frame_condition =
  fixes frame :: "'s \<Rightarrow> 's \<Rightarrow> bool"
  assumes reflexive: "frame s s"
    and transitive: "frame s t \<Longrightarrow> frame t u \<Longrightarrow> frame s u"
begin

lemma sequence:
  assumes "frame s (fst r)" and "\<And>t x. r = (t, Inr x) \<Longrightarrow> frame t (fst (f t x))"
  shows "frame s (fst (sbind r f))"
proof (cases "snd r")
  case (Inl e)
  then show ?thesis using assms(1) by (simp add: sbind_def)
next
  case (Inr x)
  then have "r = (fst r, Inr x)" by (simp add: prod_eq_iff)
  with assms(2) have "frame (fst r) (fst (f (fst r) x))" by blast
  then show ?thesis using assms(1) Inr transitive by (simp add: sbind_def)
qed

lemma history: "(\<And>s i. frame s (step s i)) \<Longrightarrow> frame s (foldl step s is)"
proof (induction "is" arbitrary: s)
  case (Cons i js)
  have "frame (step s i) (foldl step (step s i) js)" using Cons by blast
  then show ?case using Cons.prems transitive by simp blast
qed (simp add: reflexive)

end

end
