(* ===== verification/Market_Loop_Facts.thy ===== *)
theory Market_Loop_Facts
  imports Market_Loop Lp_Facts State_Frames
begin

text \<open>
  What a tick of the loop promises: what it shows is what it has persisted, a failed tick is undone, nothing rests on
  a market it cannot see, and the loop does not fail for ever.
\<close>

section \<open>Reading the markets disturbs nothing that trades\<close>

definition untouched :: "MarketMakerLoop \<Rightarrow> MarketMakerLoop \<Rightarrow> bool" where
  "untouched l l' \<longleftrightarrow> ml_broker l' = ml_broker l \<and> ml_kill_switch l' = ml_kill_switch l \<and> ml_settings l' = ml_settings l
     \<and> ml_running l' = ml_running l \<and> ml_tick l' = ml_tick l \<and> ml_last_position l' = ml_last_position l
     \<and> ml_last_pnl l' = ml_last_pnl l \<and> ml_last_tick_at l' = ml_last_tick_at l \<and> ml_last_tick_id l' = ml_last_tick_id l
     \<and> ml_consecutive_errors l' = ml_consecutive_errors l \<and> ml_max_consecutive_errors l' = ml_max_consecutive_errors l
     \<and> ml_last_v3_snapshot l' = ml_last_v3_snapshot l \<and> ml_last_lp_state l' = ml_last_lp_state l
     \<and> ml_last_arb_simulation l' = ml_last_arb_simulation l"

interpretation reading: frame_condition untouched
  by unfold_locales (simp_all add: untouched_def)

lemma untouched_updates [simp, intro]:
  "untouched l (l\<lparr> ml_data_source := d, ml_last_snapshot := s \<rparr>)"
  "untouched l (l\<lparr> ml_compare_source := c, ml_pool_adapter := p, ml_last_pool_snapshot := q, ml_last_compare_mid := m \<rparr>)"
  "untouched l (l\<lparr> ml_last_opportunities := os \<rparr>)"
  "untouched l (l\<lparr> ml_v3_source := v \<rparr>)"
  "untouched l (l\<lparr> ml_v3_status_note := n \<rparr>)"
  "untouched l (l\<lparr> ml_v3_status_note := n, ml_v3_source := v \<rparr>)"
  "untouched l (l\<lparr> ml_v3_source := v, ml_v3_fixture_mode := f \<rparr>)"
  "untouched l (l\<lparr> ml_lp_book := b \<rparr>)"
  "untouched l (l\<lparr> ml_flash_arb := a \<rparr>)"
  "untouched l (l\<lparr> ml_started_at := t \<rparr>)"
  "untouched l l"
  by (simp_all add: untouched_def)

lemma compare_stage_untouched: "untouched l (fst (compare_stage env feed snapshot l))"
  by (auto simp: compare_stage_def Let_def case_prod_beta intro!: reading.sequence split: option.split)

lemma replayed_snapshot_untouched:
  "untouched l (fst (replayed_snapshot env feed bounds source l)) \<and> ml_lp_book (fst (replayed_snapshot env feed bounds source l)) = ml_lp_book l"
  by (cases "v3_read env feed bounds source"; cases "snd (v3_read env feed bounds source)")
    (auto simp: replayed_snapshot_def)

lemma fixture_fallback_untouched:
  "untouched l (fst (fixture_fallback env feed bounds l)) \<and> ml_lp_book (fst (fixture_fallback env feed bounds l)) = ml_lp_book l"
proof (cases "tf_v3_fixture feed")
  case (Inr replay)
  let ?l = "l\<lparr> ml_v3_source := Some (RecordedV3 replay), ml_v3_fixture_mode := True \<rparr>"
  have "untouched l ?l" by simp
  then show ?thesis
    using Inr replayed_snapshot_untouched [of ?l env feed bounds "RecordedV3 replay"]
    by (auto simp: fixture_fallback_def intro: reading.transitive)
qed (simp add: fixture_fallback_def)

lemma fetch_v3_snapshot_untouched:
  "untouched l (fst (fetch_v3_snapshot env feed source l)) \<and> ml_lp_book (fst (fetch_v3_snapshot env feed source l)) = ml_lp_book l"
proof (cases "ml_v3_fixture_mode l")
  case True
  then show ?thesis by (simp add: fetch_v3_snapshot_def Let_def replayed_snapshot_untouched)
next
  case False
  obtain source' r where read: "v3_read env feed (Option.bind (ml_lp_book l) book_bounds) source = (source', r)" by fastforce
  have fallback: "untouched l (fst (fixture_fallback env feed bounds (l\<lparr> ml_v3_source := Some source', ml_v3_status_note := note' \<rparr>)))
      \<and> ml_lp_book (fst (fixture_fallback env feed bounds (l\<lparr> ml_v3_source := Some source', ml_v3_status_note := note' \<rparr>)))
        = ml_lp_book l" for bounds note'
    using fixture_fallback_untouched [of "l\<lparr> ml_v3_source := Some source', ml_v3_status_note := note' \<rparr>" env feed bounds]
    by (auto simp: untouched_def)
  show ?thesis
  proof (cases r)
    case (Inr s)
    then show ?thesis using False read by (simp add: fetch_v3_snapshot_def Let_def untouched_def)
  next
    case (Inl e)
    then show ?thesis using False read fallback by (cases e) (simp_all add: fetch_v3_snapshot_def Let_def)
  qed
qed

lemma lp_stage_untouched: "untouched l (fst (lp_stage env s mid l))"
  by (auto simp: lp_stage_def case_prod_beta intro!: reading.sequence split: option.split)

text \<open>The checkpoint handed on takes the book back to before its step.\<close>

lemma lp_stage_checkpoint:
  assumes "lp_stage env s mid l = (l', Inr (state, events, checkpoint))"
  shows "ml_lp_book (restore_lp checkpoint l') = ml_lp_book l"
proof (cases "ml_lp_book l")
  case None
  then show ?thesis using assms by (auto simp: lp_stage_def restore_lp_def)
next
  case (Some book)
  obtain after r where step: "lp_step (le_libm env) book s mid (ks_active (ml_kill_switch l)) = (after, r)" by fastforce
  have "same_config book after" using lp_step_config [of book "le_libm env" s mid "ks_active (ml_kill_switch l)"] step by simp
  then have "lp_restore after (lp_checkpoint book) = book"
    by (simp add: lp_restore_def lp_checkpoint_def same_config_def)
  then show ?thesis using assms Some step by (cases r) (auto simp: lp_stage_def restore_lp_def)
qed

lemma loop_v3_step_untouched: "untouched l (fst (loop_v3_step env feed mid stale l))"
proof (cases "ml_v3_source l")
  case (Some source)
  have "untouched l' (fst (case fetched of None \<Rightarrow> (l', ok no_v3) | Some s \<Rightarrow>
      sbind (lp_stage env s mid l') (\<lambda>l (state, events, checkpoint).
      sbind (l, v3_opportunities env feed (ml_settings l) s mid stale) (\<lambda>l found.
        (l, ok \<lparr> vo_snapshot = Some s, vo_lp_state = state, vo_lp_events = events, vo_opportunities = found,
                 vo_checkpoint = checkpoint \<rparr>)))))" for l' fetched
    by (cases fetched) (auto simp: lp_stage_untouched intro!: reading.sequence)
  then show ?thesis
    using Some fetch_v3_snapshot_untouched by (auto simp: loop_v3_step_def intro!: reading.sequence)
qed (simp add: loop_v3_step_def)

lemma loop_v3_step_checkpoint:
  assumes "loop_v3_step env feed mid stale l = (l', Inr v3)"
  shows "ml_lp_book (restore_lp (vo_checkpoint v3) l') = ml_lp_book l"
proof (cases "ml_v3_source l")
  case None
  then show ?thesis using assms by (auto simp: loop_v3_step_def no_v3_def restore_lp_def)
next
  case (Some source)
  obtain l1 r where fetch: "fetch_v3_snapshot env feed source l = (l1, r)" by fastforce
  then have book: "ml_lp_book l1 = ml_lp_book l" using fetch_v3_snapshot_untouched [of l env feed source] by simp
  from assms Some fetch obtain fetched where r: "r = Inr fetched" by (cases r) (auto simp: loop_v3_step_def)
  show ?thesis
  proof (cases fetched)
    case None
    then show ?thesis using assms Some fetch r book by (auto simp: loop_v3_step_def no_v3_def restore_lp_def)
  next
    case (Some s)
    obtain l2 found where lp: "lp_stage env s mid l1 = (l2, Inr found)"
      using assms \<open>ml_v3_source l = Some source\<close> fetch r Some
      by (cases "lp_stage env s mid l1"; cases "snd (lp_stage env s mid l1)") (auto simp: loop_v3_step_def)
    obtain state events checkpoint where found: "found = (state, events, checkpoint)" by (cases found)
    have "l' = l2 \<and> vo_checkpoint v3 = checkpoint"
      using assms \<open>ml_v3_source l = Some source\<close> fetch r Some lp found
      by (cases "v3_opportunities env feed (ml_settings l2) s mid stale") (auto simp: loop_v3_step_def)
    then show ?thesis using lp_stage_checkpoint lp found book by simp
  qed
qed

lemma flash_arb_step_untouched:
  "untouched l (fst (flash_arb_step feed s l)) \<and> ml_lp_book (fst (flash_arb_step feed s l)) = ml_lp_book l"
  by (auto simp: flash_arb_step_def case_prod_beta split: option.split)

lemma flash_arb_step_reported:
  "untouched l (fst (flash_arb_step feed s (l\<lparr> ml_last_opportunities := found \<rparr>)))"
  by (rule reading.transitive [OF untouched_updates(3) flash_arb_step_untouched [THEN conjunct1]])

lemma observe_markets_untouched: "untouched l (fst (observe_markets env feed l))"
proof -
  have "untouched l (l\<lparr> ml_data_source := d, ml_last_snapshot := s \<rparr>)" for d s by simp
  then show ?thesis
    unfolding observe_markets_def Let_def case_prod_beta
    by (rule reading.transitive)
      (auto intro!: reading.sequence compare_stage_untouched loop_v3_step_untouched flash_arb_step_reported
        flash_arb_step_untouched [THEN conjunct1])
qed

lemma restore_lp_frame:
  "ml_lp_book l' = ml_lp_book l \<Longrightarrow> ml_lp_book (restore_lp c l') = ml_lp_book (restore_lp c l)"
  by (simp add: restore_lp_def split: option.split)

lemma compare_stage_book: "ml_lp_book (fst (compare_stage env feed snapshot l)) = ml_lp_book l"
proof -
  have "ml_lp_book (fst (sbind (l1, r) (\<lambda>l found. (l\<lparr> ml_last_opportunities := found \<rparr>, ok (c, found))))) = ml_lp_book l1"
    for l1 :: MarketMakerLoop and r :: "Opportunity list res" and c :: "OrderBookSnapshot option"
    by (cases r) simp_all
  then show ?thesis by (simp add: compare_stage_def Let_def case_prod_beta split: option.split)
qed

lemma observe_markets_checkpoint:
  assumes "observe_markets env feed l = (l', Inr fd)"
  shows "ml_lp_book (restore_lp (vo_checkpoint (fd_v3 fd)) l') = ml_lp_book l"
proof -
  obtain source snapshot where book: "fetch_orderbook (le_err_text env) (tf_book feed) (ml_data_source l) = (source, snapshot)"
    by fastforce
  define l0 where "l0 = l\<lparr> ml_data_source := source, ml_last_snapshot := Some snapshot \<rparr>"
  obtain l1 compare opportunities where c: "compare_stage env feed snapshot l0 = (l1, Inr (compare, opportunities))"
    using assms book by (cases "compare_stage env feed snapshot l0"; cases "snd (compare_stage env feed snapshot l0)")
      (auto simp: observe_markets_def l0_def)
  define stale where "stale = (case compare of None \<Rightarrow> True | Some c \<Rightarrow> ob_is_stale c)"
  let ?v3 = "loop_v3_step env feed (if stale then None else ml_last_compare_mid l1) (ob_is_stale snapshot \<or> stale) l1"
  obtain l2 v3 where v: "?v3 = (l2, Inr v3)"
    using assms book c by (cases ?v3; cases "snd ?v3") (auto simp: observe_markets_def l0_def [symmetric] stale_def [symmetric])
  define found where "found = opportunities @ vo_opportunities v3"
  define l3 where "l3 = (if vo_opportunities v3 \<noteq> [] then l2\<lparr> ml_last_opportunities := found \<rparr> else l2)"
  obtain l4 arb where f: "flash_arb_step feed (vo_snapshot v3) l3 = (l4, Inr arb)"
    using assms book c v
    by (cases "flash_arb_step feed (vo_snapshot v3) l3"; cases "snd (flash_arb_step feed (vo_snapshot v3) l3)")
      (auto simp: observe_markets_def l0_def [symmetric] stale_def [symmetric] found_def [symmetric] l3_def [symmetric])
  have "fd_v3 fd = v3" and "ml_lp_book l' = ml_lp_book l4"
    using assms book c v f
    by (auto simp: observe_markets_def l0_def [symmetric] stale_def [symmetric] found_def [symmetric] l3_def [symmetric])
  moreover have "ml_lp_book l4 = ml_lp_book l2"
    using flash_arb_step_untouched [of l3 feed "vo_snapshot v3"] f by (simp add: l3_def split: if_splits)
  moreover have "ml_lp_book l1 = ml_lp_book l"
    using compare_stage_book [of env feed snapshot l0] c by (simp add: l0_def)
  ultimately show ?thesis
    using loop_v3_step_checkpoint [OF v] restore_lp_frame [of l' l2 "vo_checkpoint v3"] by simp
qed

section \<open>The trading part\<close>

text \<open>What the trading part may change: the broker and the strategy.\<close>

definition trades_only :: "MarketMakerLoop \<Rightarrow> MarketMakerLoop \<Rightarrow> bool" where
  "trades_only l l' \<longleftrightarrow> (\<exists>broker strategy. l' = l\<lparr> ml_strategy := strategy, ml_broker := broker \<rparr> \<and> same_settings (ml_broker l) broker)"

lemma same_settings_refl [simp]: "same_settings b b"
  by (simp add: same_settings_def)

interpretation trading: frame_condition trades_only
proof unfold_locales
  fix l :: MarketMakerLoop
  show "trades_only l l" unfolding trades_only_def
    by (rule exI [of _ "ml_broker l"], rule exI [of _ "ml_strategy l"]) simp
next
  fix l l' l'' assume "trades_only l l'" and "trades_only l' l''"
  then obtain b1 s1 b2 s2 where "l' = l\<lparr> ml_strategy := s1, ml_broker := b1 \<rparr>" and "same_settings (ml_broker l) b1"
      and "l'' = l'\<lparr> ml_strategy := s2, ml_broker := b2 \<rparr>" and "same_settings (ml_broker l') b2"
    unfolding trades_only_def by auto
  then have "l'' = l\<lparr> ml_strategy := s2, ml_broker := b2 \<rparr>" and "same_settings (ml_broker l) b2"
    by (auto intro: same_settings_trans)
  then show "trades_only l l''" unfolding trades_only_def by blast
qed

lemma trades_only_broker [intro]:
  assumes "same_settings (ml_broker l) b"
  shows "trades_only l (l\<lparr> ml_broker := b \<rparr>)"
  unfolding trades_only_def using assms by (intro exI [of _ b] exI [of _ "ml_strategy l"]) simp

lemma persisted_loop [simp]: "fst (persisted feed r l) = l"
  by (cases "tf_persist feed r") (simp_all add: persisted_def)

lemma persisted_Inr: "persisted feed r l = (l', Inr r') \<longleftrightarrow> l' = l \<and> r' = r \<and> (tf_persist feed r = Inr ())"
  by (cases "tf_persist feed r") (auto simp: persisted_def)

lemma cancel_settings [simp]: "same_settings b (cancel_all_quotes b)"
  by (simp add: cancel_all_quotes_def same_settings_def)

lemma submit_settings: "same_settings b (fst (submit_quotes uuid b quotes))"
  by (simp add: submit_quotes_def same_settings_def Let_def)

lemma place_quotes_trades: "trades_only l (fst (place_quotes feed snapshot position l))"
proof (cases "ks_active (ml_kill_switch l)")
  case False
  define generated where "generated = generate_quotes (ml_strategy l) snapshot position"
  define sent where "sent = submit_quotes (tf_uuid feed) (ml_broker l) (filter_quotes_by_position_limit (snd generated) position
      (s_max_position_base (ml_settings l)) (s_max_position_notional (ml_settings l)) (s_maker_fee_bps (ml_settings l)))"
  have "fst (place_quotes feed snapshot position l) = l\<lparr> ml_strategy := fst generated, ml_broker := fst sent \<rparr>"
    using False by (simp add: place_quotes_def generated_def [symmetric] sent_def [symmetric] case_prod_beta Let_def)
  moreover have "same_settings (ml_broker l) (fst sent)" unfolding sent_def by (rule submit_settings)
  ultimately show ?thesis unfolding trades_only_def by blast
qed (simp add: place_quotes_def trades_only_broker)

lemma stale_body_trades: "trades_only l (fst (stale_body feed fd l))"
  by (auto simp: stale_body_def Let_def)

lemma live_body_trades: "trades_only l (fst (live_body env feed fd l))"
proof -
  have "same_settings (ml_broker l) (fst (apply_fills (le_libm env) (le_draws env) (ml_broker l) (fd_snapshot fd)))"
    by (rule apply_fills_settings)
  then show ?thesis
    by (auto simp: live_body_def Let_def case_prod_beta place_quotes_trades intro!: trading.sequence)
qed

lemma restored_broker:
  "same_settings b b' \<Longrightarrow> pb_inventory (restore_checkpoint (broker_checkpoint b) b') = pb_inventory b
     \<and> pb_open_quotes (restore_checkpoint (broker_checkpoint b) b') = pb_open_quotes b"
  by (simp add: same_settings_def restore_checkpoint_def broker_checkpoint_def restore_state_def Let_def)

lemma restore_lp_others:
  "\<exists>book. restore_lp c l = l\<lparr> ml_lp_book := book \<rparr>"
proof (cases "c = None \<or> ml_lp_book l = None")
  case True
  then have "restore_lp c l = l" by (auto simp: restore_lp_def split: option.split)
  then have "restore_lp c l = l\<lparr> ml_lp_book := ml_lp_book l \<rparr>" by simp
  then show ?thesis by blast
qed (auto simp: restore_lp_def)

text \<open>A failed trading part leaves the account, the quotes and the liquidity book of before it.\<close>

lemma trade_failed:
  assumes "trade env feed fd l = (l', Inl e)"
  shows "pb_inventory (ml_broker l') = pb_inventory (ml_broker l) \<and> pb_open_quotes (ml_broker l') = pb_open_quotes (ml_broker l)
    \<and> same_settings (ml_broker l) (ml_broker l') \<and> ml_lp_book l' = ml_lp_book (restore_lp (vo_checkpoint (fd_v3 fd)) l)
    \<and> untouched (l\<lparr> ml_broker := ml_broker l' \<rparr>) l'"
proof -
  define body where "body = (if ob_is_stale (fd_snapshot fd) then stale_body feed fd l else live_body env feed fd l)"
  have body: "trades_only l (fst body)" by (simp add: body_def stale_body_trades live_body_trades)
  obtain m where m: "body = (m, Inl e)"
      and l': "l' = restore_lp (vo_checkpoint (fd_v3 fd)) (m\<lparr> ml_broker := restore_checkpoint (broker_checkpoint (ml_broker l)) (ml_broker m) \<rparr>)"
    using assms unfolding trade_def Let_def body_def [symmetric] by (cases body; cases "snd body") auto
  from body m obtain broker strategy where form: "m = l\<lparr> ml_strategy := strategy, ml_broker := broker \<rparr>"
      and settings: "same_settings (ml_broker l) broker" unfolding trades_only_def by auto
  obtain book where restored: "l' = m\<lparr> ml_broker := restore_checkpoint (broker_checkpoint (ml_broker l)) (ml_broker m), ml_lp_book := book \<rparr>"
    using restore_lp_others [of "vo_checkpoint (fd_v3 fd)"] l' by (metis (no_types))
  have "ml_lp_book l' = ml_lp_book (restore_lp (vo_checkpoint (fd_v3 fd)) l)"
    unfolding l' by (rule restore_lp_frame) (simp add: form)
  moreover have "same_settings (ml_broker l) (restore_checkpoint (broker_checkpoint (ml_broker l)) broker)"
    using settings by (simp add: same_settings_def restore_checkpoint_def restore_state_def)
  moreover have "ml_broker l' = restore_checkpoint (broker_checkpoint (ml_broker l)) broker" by (simp add: restored form)
  ultimately show ?thesis using restored_broker [OF settings] by (simp add: restored form untouched_def)
qed

lemma commit_frame:
  "ml_broker (commit_tick_state now r (commit_v3_state r l)) = ml_broker l"
  "ml_consecutive_errors (commit_tick_state now r (commit_v3_state r l)) = ml_consecutive_errors l"
  "ml_max_consecutive_errors (commit_tick_state now r (commit_v3_state r l)) = ml_max_consecutive_errors l"
  "ml_running (commit_tick_state now r (commit_v3_state r l)) = ml_running l"
  "ml_settings (commit_tick_state now r (commit_v3_state r l)) = ml_settings l"
  "ml_kill_switch (commit_tick_state now r (commit_v3_state r l)) = ml_kill_switch l"
  "ml_tick (commit_tick_state now r (commit_v3_state r l)) = ml_tick l + 1"
  by (simp_all add: commit_tick_state_def commit_v3_state_def Let_def split: option.split)

lemma commit_shown:
  "ml_last_tick_id (commit_tick_state now r l) = Some (tr_tick_id r)"
  "ml_last_position (commit_tick_state now r l) = Some ((tr_position r)\<lparr> po_tick_id := Some (tr_tick_id r) \<rparr>)"
  "ml_last_pnl (commit_tick_state now r l) = Some ((tr_pnl r)\<lparr> pn_tick_id := Some (tr_tick_id r) \<rparr>)"
  "ml_last_snapshot (commit_tick_state now r l) = Some ((tr_snapshot r)\<lparr> ob_tick_id := Some (tr_tick_id r) \<rparr>)"
  by (simp_all add: commit_tick_state_def Let_def)

text \<open>The ways a tick ends.\<close>

lemma tick_once_cases:
  obtains (blind) l' e where "observe_markets env feed l = (l', Inl e)" "tick_once env feed l = (l', Inl e)"
    | (undone) m fd l' e where "observe_markets env feed l = (m, Inr fd)" "trade env feed fd m = (l', Inl e)"
        "tick_once env feed l = (l', Inl e)"
    | (committed) m fd m' r where "observe_markets env feed l = (m, Inr fd)" "trade env feed fd m = (m', Inr r)"
        "tick_once env feed l = (commit_tick_state (tf_now feed) r (commit_v3_state r m'), Inr r)"
proof -
  obtain m found where observed: "observe_markets env feed l = (m, found)" by fastforce
  show thesis
  proof (cases found)
    case (Inl e)
    then show thesis using observed by (intro blind [of m e]) (simp_all add: tick_once_def)
  next
    case (Inr fd)
    obtain m' traded where "trade env feed fd m = (m', traded)" by fastforce
    then show thesis
      using observed Inr undone [of m fd m'] committed [of m fd m'] by (cases traded) (simp_all add: tick_once_def)
  qed
qed

lemma place_quotes_facts:
  assumes "place_quotes feed snapshot position l = (l', quotes)"
  shows "pb_inventory (ml_broker l') = pb_inventory (ml_broker l)" and "ml_kill_switch l' = ml_kill_switch l"
    and "set quotes \<subseteq> oq_quote ` set (pb_open_quotes (ml_broker l'))"
    and "ks_active (ml_kill_switch l) \<Longrightarrow> quotes = [] \<and> pb_open_quotes (ml_broker l') = []"
  using assms
  by (auto simp: place_quotes_def submit_quotes_def cancel_all_quotes_def Let_def case_prod_beta image_Un image_image
      split: if_split_asm)

text \<open>What a trading part that succeeds has done.\<close>

lemma trade_done:
  assumes "trade env feed fd l = (l', Inr r)"
  shows "tf_persist feed r = Inr () \<and> trades_only l l' \<and> tr_snapshot r = fd_snapshot fd \<and> tr_tick_id r = tf_tick_id feed
    \<and> tr_position r = to_position (pb_inventory (ml_broker l')) (tf_now feed)
    \<and> tr_pnl r = compute_pnl_snapshot (pb_inventory (ml_broker l')) (fd_snapshot fd) (tf_now feed)
    \<and> set (tr_quotes r) \<subseteq> oq_quote ` set (pb_open_quotes (ml_broker l'))
    \<and> (ks_active (ml_kill_switch l) \<or> ob_is_stale (fd_snapshot fd) \<longrightarrow> tr_quotes r = [] \<and> pb_open_quotes (ml_broker l') = [])
    \<and> (ob_is_stale (fd_snapshot fd) \<longrightarrow> tr_fills r = [] \<and> pb_inventory (ml_broker l') = pb_inventory (ml_broker l))"
proof (cases "ob_is_stale (fd_snapshot fd)")
  case True
  then have body: "stale_body feed fd l = (l', Inr r)"
    using assms by (cases "stale_body feed fd l"; cases "snd (stale_body feed fd l)") (auto simp: trade_def Let_def)
  then have "trades_only l l'" using stale_body_trades [of l feed fd] by simp
  then show ?thesis using body True
    by (auto simp: stale_body_def Let_def persisted_Inr tick_record_def cancel_all_quotes_def)
next
  case False
  then have body: "live_body env feed fd l = (l', Inr r)"
    using assms by (cases "live_body env feed fd l"; cases "snd (live_body env feed fd l)") (auto simp: trade_def Let_def)
  then have frame: "trades_only l l'" using live_body_trades [of l env feed fd] by simp
  define filled where "filled = apply_fills (le_libm env) (le_draws env) (ml_broker l) (fd_snapshot fd)"
  define l1 where "l1 = l\<lparr> ml_broker := fst filled \<rparr>"
  obtain fills where fills: "snd filled = Inr fills"
    using body by (cases "snd filled") (auto simp: live_body_def Let_def case_prod_beta filled_def)
  define position where "position = to_position (pb_inventory (ml_broker l1)) (tf_now feed)"
  obtain l2 quotes where placed: "place_quotes feed (fd_snapshot fd) position l1 = (l2, quotes)" by fastforce
  have r: "l' = l2" "tf_persist feed r = Inr ()" "r = tick_record feed fd fills quotes position
      (compute_pnl_snapshot (pb_inventory (ml_broker l1)) (fd_snapshot fd) (tf_now feed))"
    using body placed fills
    by (auto simp: live_body_def Let_def case_prod_beta filled_def [symmetric] l1_def [symmetric] position_def [symmetric] persisted_Inr)
  have "tr_quotes r = quotes" "tr_fills r = fills" "tr_position r = position" "tr_tick_id r = tf_tick_id feed"
      "tr_snapshot r = fd_snapshot fd"
      "tr_pnl r = compute_pnl_snapshot (pb_inventory (ml_broker l1)) (fd_snapshot fd) (tf_now feed)"
    by (simp_all add: r(3) tick_record_def)
  moreover have "pb_inventory (ml_broker l') = pb_inventory (ml_broker l1)"
    using place_quotes_facts(1) [OF placed] by (simp add: r(1))
  moreover have "ks_active (ml_kill_switch l) \<Longrightarrow> quotes = [] \<and> pb_open_quotes (ml_broker l') = []"
    using place_quotes_facts(4) [OF placed] by (simp add: r(1) l1_def)
  moreover have "set quotes \<subseteq> oq_quote ` set (pb_open_quotes (ml_broker l'))"
    using place_quotes_facts(3) [OF placed] by (simp add: r(1))
  ultimately show ?thesis using frame False r(2) by (auto simp: position_def)
qed


text \<open>What a tick shows is what it has persisted, under one tick id: the position and the profit shown are those of
  the account the loop goes on with, every quote of the record rests at the broker, and the tick counts once.
\<close>

theorem shown_tick_is_persisted:
  "case tick_once env feed l of
     (l', Inl e) \<Rightarrow> True
   | (l', Inr r) \<Rightarrow> tf_persist feed r = Inr () \<and> ml_tick l' = ml_tick l + 1 \<and> ml_last_tick_id l' = Some (tr_tick_id r)
       \<and> ml_last_position l' = Some ((to_position (pb_inventory (ml_broker l')) (tf_now feed))\<lparr> po_tick_id := Some (tr_tick_id r) \<rparr>)
       \<and> ml_last_position l' = Some ((tr_position r)\<lparr> po_tick_id := Some (tr_tick_id r) \<rparr>)
       \<and> ml_last_pnl l' = Some ((tr_pnl r)\<lparr> pn_tick_id := Some (tr_tick_id r) \<rparr>)
       \<and> ml_last_snapshot l' = Some ((tr_snapshot r)\<lparr> ob_tick_id := Some (tr_tick_id r) \<rparr>)
       \<and> set (tr_quotes r) \<subseteq> oq_quote ` set (pb_open_quotes (ml_broker l'))
       \<and> same_settings (ml_broker l) (ml_broker l') \<and> ml_running l' = ml_running l"
proof (cases rule: tick_once_cases [of env feed l])
  case (committed m fd m' r)
  then have "untouched l m" using observe_markets_untouched [of l env feed] by simp
  note facts = trade_done [OF committed(2)]
  have "same_settings (ml_broker m) (ml_broker m')" "ml_running m' = ml_running m" "ml_tick m' = ml_tick m"
    using facts by (auto simp: trades_only_def)
  then show ?thesis using facts \<open>untouched l m\<close> by (simp add: committed(3) commit_frame commit_shown untouched_def)
qed simp_all


section \<open>The loop\<close>

lemma tick_once_frame:
  "ml_running (fst (tick_once env feed l)) = ml_running l
    \<and> ml_consecutive_errors (fst (tick_once env feed l)) = ml_consecutive_errors l
    \<and> ml_max_consecutive_errors (fst (tick_once env feed l)) = ml_max_consecutive_errors l
    \<and> ml_settings (fst (tick_once env feed l)) = ml_settings l
    \<and> ml_tick (fst (tick_once env feed l)) = (if isl (snd (tick_once env feed l)) then ml_tick l else ml_tick l + 1)"
proof (cases rule: tick_once_cases [of env feed l])
  case (blind l' e)
  then show ?thesis using observe_markets_untouched [of l env feed] by (simp add: untouched_def)
next
  case (undone m fd l' e)
  then have "untouched l m" using observe_markets_untouched [of l env feed] by simp
  then show ?thesis using trade_failed [OF undone(2)] undone(3) by (simp add: untouched_def)
next
  case (committed m fd m' r)
  then have "untouched l m" using observe_markets_untouched [of l env feed] by simp
  then show ?thesis using trade_done [OF committed(2)] committed(3) by (auto simp: untouched_def trades_only_def commit_frame)
qed

text \<open>How the turns of a run ended, as long as the loop was running.\<close>

fun turn_results :: "LoopEnv \<Rightarrow> TickFeed list \<Rightarrow> MarketMakerLoop \<Rightarrow> bool list" where
  "turn_results env [] l = []"
| "turn_results env (feed # feeds) l =
     (if ml_running l then (\<not> isl (snd (tick_once env feed l))) # turn_results env feeds (fst (run_turn env feed l)) else [])"

text \<open>The failures in a row at the end of a run that began with \<open>n\<close> of them.\<close>

fun failures :: "int \<Rightarrow> bool list \<Rightarrow> int" where
  "failures n [] = n"
| "failures n (good # rest) = failures (if good then 0 else n + 1) rest"

lemma run_turn_cases:
  shows "ml_consecutive_errors (fst (run_turn env feed l)) = (if isl (snd (tick_once env feed l)) then ml_consecutive_errors l + 1 else 0)"
    and "ml_max_consecutive_errors (fst (run_turn env feed l)) = ml_max_consecutive_errors l"
    and "ml_running (fst (run_turn env feed l)) \<longleftrightarrow> ml_running l
      \<and> \<not> (isl (snd (tick_once env feed l)) \<and> ml_max_consecutive_errors l \<le> ml_consecutive_errors l + 1)"
    and "ml_tick (fst (run_turn env feed l)) = (if isl (snd (tick_once env feed l)) then ml_tick l else ml_tick l + 1)"
    and "snd (run_turn env feed l) =
      (if \<not> isl (snd (tick_once env feed l)) then Some (s_poll_interval_sec (ml_settings l))
       else if ml_max_consecutive_errors l \<le> ml_consecutive_errors l + 1 then None
       else Some (float_of_int (min (2 ^ nat (ml_consecutive_errors l + 1)) 30)))"
  using tick_once_frame [of env feed l]
  by (cases "tick_once env feed l"; cases "snd (tick_once env feed l)"; auto simp: run_turn_def Let_def)+

lemma run_loop_counts:
  assumes "ml_max_consecutive_errors l = 3"
    and "ml_running l \<Longrightarrow> 0 \<le> ml_consecutive_errors l \<and> ml_consecutive_errors l < 3"
    and "\<not> ml_running l \<Longrightarrow> ml_consecutive_errors l = 3"
  shows "let l' = run_loop env feeds l; results = turn_results env feeds l in
      ml_consecutive_errors l' = failures (ml_consecutive_errors l) results
      \<and> ml_tick l' = ml_tick l + int (length (filter id results))
      \<and> (ml_running l' \<longleftrightarrow> ml_consecutive_errors l' < 3)
      \<and> 0 \<le> ml_consecutive_errors l' \<and> ml_consecutive_errors l' \<le> 3
      \<and> (ml_running l' \<longrightarrow> length results = length feeds)"
  using assms
proof (induction feeds arbitrary: l)
  case Nil
  then show ?case by (cases "ml_running l") simp_all
next
  case (Cons feed feeds)
  show ?case
  proof (cases "ml_running l")
    case False
    then show ?thesis using Cons.prems by simp
  next
    case True
    let ?l = "fst (run_turn env feed l)"
    have "ml_max_consecutive_errors ?l = 3" using Cons.prems by (simp add: run_turn_cases)
    moreover have "ml_running ?l \<Longrightarrow> 0 \<le> ml_consecutive_errors ?l \<and> ml_consecutive_errors ?l < 3"
      and "\<not> ml_running ?l \<Longrightarrow> ml_consecutive_errors ?l = 3"
      using Cons.prems True by (auto simp: run_turn_cases split: if_splits)
    ultimately have later: "let l' = run_loop env feeds ?l; results = turn_results env feeds ?l in
      ml_consecutive_errors l' = failures (ml_consecutive_errors ?l) results
      \<and> ml_tick l' = ml_tick ?l + int (length (filter id results))
      \<and> (ml_running l' \<longleftrightarrow> ml_consecutive_errors l' < 3)
      \<and> 0 \<le> ml_consecutive_errors l' \<and> ml_consecutive_errors l' \<le> 3
      \<and> (ml_running l' \<longrightarrow> length results = length feeds)" by (rule Cons.IH)
    have "ml_consecutive_errors ?l = (if isl (snd (tick_once env feed l)) then ml_consecutive_errors l + 1 else 0)"
      and "ml_tick ?l = (if isl (snd (tick_once env feed l)) then ml_tick l else ml_tick l + 1)" by (simp_all add: run_turn_cases)
    with later True show ?thesis by (simp add: Let_def id_def)
  qed
qed

text \<open>C22. A started loop runs until three ticks in a row have failed, and then stops for good: it runs exactly while
  fewer than three have, every tick that succeeds resets the count and is counted once, and between failures it
  waits 2 and then 4 seconds.
\<close>

theorem loop_stops_after_three_failures:
  "let l = start_loop (loop_init settings source compare adapter v3 arb calibration);
       l' = run_loop env feeds l; results = turn_results env feeds l;
       (next, wait) = run_turn env feed l' in
   ml_consecutive_errors l' = failures 0 results
   \<and> (ml_running l' \<longleftrightarrow> failures 0 results < 3) \<and> failures 0 results \<le> 3
   \<and> ml_tick l' = int (length (filter id results))
   \<and> (if ml_running l' then length results = length feeds else run_loop env further l' = l')
   \<and> (if ml_running l' \<and> isl (snd (tick_once env feed l')) \<and> ml_running next
      then wait = Some (if failures 0 results = 0 then lit 2 else lit 4) else True)"
proof -
  define l where "l = start_loop (loop_init settings source compare adapter v3 arb calibration)"
  have l: "ml_max_consecutive_errors l = 3" "ml_running l" "ml_consecutive_errors l = 0" "ml_tick l = 0"
    by (simp_all add: l_def start_loop_def loop_init_def)
  define l' where "l' = run_loop env feeds l"
  note counts = run_loop_counts [OF l(1), of env feeds, simplified l l'_def [symmetric] Let_def, simplified]
  have "ml_max_consecutive_errors (run_loop env feeds k) = ml_max_consecutive_errors k" for k
    by (induction feeds arbitrary: k) (simp_all add: run_turn_cases)
  then have limit: "ml_max_consecutive_errors l' = 3" using l by (simp add: l'_def)
  have stopped: "\<not> ml_running l' \<Longrightarrow> run_loop env further l' = l'" by (cases further) simp_all
  have waits: "snd (run_turn env feed l') = Some (if ml_consecutive_errors l' = 0 then lit 2 else lit 4)"
    if "ml_running l'" "isl (snd (tick_once env feed l'))" "ml_running (fst (run_turn env feed l'))"
  proof -
    have "ml_consecutive_errors l' = 0 \<or> ml_consecutive_errors l' = 1"
      using that counts limit by (auto simp: run_turn_cases)
    then show ?thesis using that limit by (auto simp: run_turn_cases float_of_int_def)
  qed
  show ?thesis
    unfolding l_def [symmetric] l'_def [symmetric] Let_def case_prod_beta
    using counts stopped waits by auto
qed

end
