(* ===== verification/Lab_Markets.thy ===== *)
theory Lab_Markets
  imports Lab_Domain Py_Dict Lab_Prelude
begin

text \<open>
  \<open>app/simlab/markets.py\<close>: the pairs the simulation lab offers, the market rules of a pair, rounding to them, and
  the catalogue with its cache. What the exchange client answers is an argument; \<open>log10\<close> is the C library's.
  Serialising the shared clients with locks is not modelled.
\<close>

section \<open>The offer\<close>

definition ALLOWED_BASES :: "string list" where
  "ALLOWED_BASES = [''BTC'', ''ETH'', ''SOL'', ''XRP'', ''DOGE'', ''ADA'', ''LTC'', ''LINK'']"

definition QUOTE_NOTIONAL :: f64 where "QUOTE_NOTIONAL = lit 100"

record LabExchange =
  lx_id :: string
  lx_label :: string
  lx_interval_sec :: f64
  lx_trades_limit :: int
  lx_quotes :: "string list"

definition LAB_EXCHANGES :: "(string, LabExchange) dict" where
  "LAB_EXCHANGES =
     [(''binance'', \<lparr> lx_id = ''binance'', lx_label = ''Binance'', lx_interval_sec = 1, lx_trades_limit = 1000, lx_quotes = [''USDT''] \<rparr>),
      (''kraken'', \<lparr> lx_id = ''kraken'', lx_label = ''Kraken'', lx_interval_sec = lit 2, lx_trades_limit = 1000, lx_quotes = [''USD'', ''USDT''] \<rparr>),
      (''coinbase'', \<lparr> lx_id = ''coinbase'', lx_label = ''Coinbase'', lx_interval_sec = 1, lx_trades_limit = 100, lx_quotes = [''USD''] \<rparr>)]"

definition allowlisted_symbols :: "string \<Rightarrow> string list res" where
  "allowlisted_symbols exchange_id =
     (case dict_get LAB_EXCHANGES exchange_id of
        None \<Rightarrow> raise_error KeyError
      | Some exchange \<Rightarrow> ok (concat (map (\<lambda>base. map (\<lambda>quote. base @ ''/'' @ quote) (lx_quotes exchange)) ALLOWED_BASES)))"

section \<open>Rules of a market\<close>

record MarketRules =
  mr_exchange :: string
  mr_symbol :: string
  mr_price_step :: "f64 option"
  mr_amount_step :: "f64 option"
  mr_min_amount :: "f64 option"
  mr_min_cost :: "f64 option"
  mr_verified :: bool

text \<open>\<open>round(x, n)\<close> of a float: the exact value rounded half-even to \<open>n\<close> decimals.\<close>

definition round_digits :: "nat \<Rightarrow> f64 \<Rightarrow> f64" where
  "round_digits n x = lit (real_of_int (rne (val x * 10 ^ n)) / 10 ^ n)"

datatype Rounder = Floor | Ceil

definition apply_rounder :: "Rounder \<Rightarrow> f64 \<Rightarrow> int" where
  "apply_rounder r x = (case r of Floor \<Rightarrow> float_floor x | Ceil \<Rightarrow> float_ceil x)"

text \<open>\<open>math.log10\<close> of a step that is not positive raises.\<close>

definition step_decimals :: "(f64 \<Rightarrow> f64) \<Rightarrow> f64 \<Rightarrow> nat res" where
  "step_decimals log10 step =
     (if step \<le> 0 then raise_error ValueError else ok (nat (max 0 (float_ceil (- log10 step))) + 2))"

definition snap :: "(f64 \<Rightarrow> f64) \<Rightarrow> f64 \<Rightarrow> f64 \<Rightarrow> Rounder \<Rightarrow> f64 res" where
  "snap log10 v step rounder =
     rbind (fdiv v step) (\<lambda>units.
       let epsilon = max (lit (1 / 10 ^ 9)) (\<bar>units\<bar> * lit (1 / 10 ^ 12));
           nudged = (case rounder of Floor \<Rightarrow> units + epsilon | Ceil \<Rightarrow> units - epsilon)
       in rbind (step_decimals log10 step) (\<lambda>digits.
            ok (round_digits digits (float_of_int (apply_rounder rounder nudged) * step))))"

text \<open>A step of \<open>None\<close> or zero is no step.\<close>

definition truthy :: "f64 option \<Rightarrow> f64 option" where
  "truthy x = (case x of None \<Rightarrow> None | Some v \<Rightarrow> if v = 0 then None else Some v)"

definition round_quote_price :: "(f64 \<Rightarrow> f64) \<Rightarrow> f64 \<Rightarrow> QuoteSide \<Rightarrow> MarketRules \<Rightarrow> f64 res" where
  "round_quote_price log10 price side rules =
     (case truthy (mr_price_step rules) of
        None \<Rightarrow> ok price
      | Some step \<Rightarrow> snap log10 price step (if side = BID then Floor else Ceil))"

definition quote_size_for :: "(f64 \<Rightarrow> f64) \<Rightarrow> f64 \<Rightarrow> MarketRules \<Rightarrow> f64 \<Rightarrow> f64 res" where
  "quote_size_for log10 mid rules notional =
     rbind (fdiv notional mid) (\<lambda>raw.
     rbind (case truthy (mr_amount_step rules) of None \<Rightarrow> ok raw | Some step \<Rightarrow> snap log10 raw step Floor) (\<lambda>snapped.
       let sz = (case truthy (mr_min_amount rules) of None \<Rightarrow> snapped | Some least \<Rightarrow> if snapped < least then least else snapped)
       in (case truthy (mr_min_cost rules) of
             None \<Rightarrow> ok sz
           | Some cost \<Rightarrow>
               if sz * mid < cost then
                 (case truthy (mr_amount_step rules) of
                    None \<Rightarrow> ok (cost / mid)
                  | Some step \<Rightarrow> snap log10 (cost / mid) step Ceil)
               else ok sz)))"

section \<open>The catalogue\<close>

text \<open>A market entry of the exchange client, its missing keys as \<open>None\<close>.\<close>

record Market =
  mk_symbol :: string
  mk_spot :: "bool option"
  mk_active :: "bool option"
  mk_price :: "f64 option"
  mk_amount :: "f64 option"
  mk_amount_min :: "f64 option"
  mk_cost_min :: "f64 option"

definition rules_from_market :: "string \<Rightarrow> Market \<Rightarrow> MarketRules" where
  "rules_from_market exchange_id market =
     \<lparr> mr_exchange = exchange_id, mr_symbol = mk_symbol market, mr_price_step = truthy (mk_price market),
       mr_amount_step = truthy (mk_amount market), mr_min_amount = truthy (mk_amount_min market),
       mr_min_cost = truthy (mk_cost_min market), mr_verified = True \<rparr>"

definition offered_market :: "Market option \<Rightarrow> Market option" where
  "offered_market market =
     (case market of
        None \<Rightarrow> None
      | Some e \<Rightarrow> if mk_spot e = Some False \<or> mk_active e = Some False then None else Some e)"

record MarketCatalog =
  mc_cache_sec :: f64
  mc_cache :: "(string, f64 \<times> MarketRules list) dict"

definition catalog_init :: "f64 \<Rightarrow> MarketCatalog" where
  "catalog_init cache_sec = \<lparr> mc_cache_sec = cache_sec, mc_cache = [] \<rparr>"

definition load_pairs :: "(string, Market) dict res \<Rightarrow> string \<Rightarrow> MarketRules list res" where
  "load_pairs answer exchange_id =
     rbind (allowlisted_symbols exchange_id) (\<lambda>allowed.
       case answer of
         Inl e \<Rightarrow> ok (map (\<lambda>symbol. \<lparr> mr_exchange = exchange_id, mr_symbol = symbol, mr_price_step = None, mr_amount_step = None,
                                       mr_min_amount = None, mr_min_cost = None, mr_verified = False \<rparr>) allowed)
       | Inr markets \<Rightarrow>
           ok (List.map_filter (\<lambda>symbol. map_option (rules_from_market exchange_id) (offered_market (dict_get markets symbol))) allowed))"

text \<open>\<open>before\<close> and \<open>after\<close> are the two readings of the monotonic clock around the load.\<close>

definition catalog_pairs ::
    "(string, Market) dict res \<Rightarrow> f64 \<Rightarrow> f64 \<Rightarrow> string \<Rightarrow> MarketCatalog \<Rightarrow> MarketCatalog \<times> MarketRules list res" where
  "catalog_pairs answer before after exchange_id c =
     (let fresh = (case dict_get (mc_cache c) exchange_id of
                     None \<Rightarrow> None
                   | Some (stored_at, pairs) \<Rightarrow> if before - stored_at < mc_cache_sec c then Some pairs else None)
      in (case fresh of
            Some pairs \<Rightarrow> (c, ok pairs)
          | None \<Rightarrow>
              sbind (c, load_pairs answer exchange_id) (\<lambda>c pairs.
                (case pairs of
                   [] \<Rightarrow> c
                 | first # _ \<Rightarrow> if mr_verified first then c\<lparr> mc_cache := dict_set exchange_id (after, pairs) (mc_cache c) \<rparr> else c,
                 ok pairs))))"

definition catalog_rules ::
    "(string, Market) dict res \<Rightarrow> f64 \<Rightarrow> f64 \<Rightarrow> string \<Rightarrow> string \<Rightarrow> MarketCatalog \<Rightarrow> MarketCatalog \<times> MarketRules option res" where
  "catalog_rules answer before after exchange_id symbol c =
     sbind (catalog_pairs answer before after exchange_id c) (\<lambda>c pairs. (c, ok (find (\<lambda>r. mr_symbol r = symbol) pairs)))"

end
