(* ===== verification/Lab_Engine.thy ===== *)
theory Lab_Engine
  imports Lab_Markets Paper_Broker Quoting Py_Format Py_Text
begin

text \<open>
  \<open>app/simlab/engine.py\<close> and \<open>app/simlab/explain.py\<close>: the paper simulation of one recording with the lab's strategies, the
  paper broker and its fill models, and the sentences that sum it up. The recording is the record of
  \<open>app/simlab/recording.py\<close>. The calibration file and the \<open>g\<close> format of a number are parameters.
\<close>

section \<open>Recordings and settings\<close>

definition MIN_SNAPSHOTS :: nat where "MIN_SNAPSHOTS = 10"

record TradePrint = PrintedTrade +
  tr_side :: "string option"

record Recording =
  rc_exchange :: string
  rc_symbol :: string
  rc_rules :: MarketRules
  rc_started_at :: datetime
  rc_ended_at :: datetime
  rc_live :: bool
  rc_label :: string
  rc_snapshots :: "OrderBookSnapshot list"
  rc_trades :: "TradePrint list"

datatype LabFillModel = BookFill FillMode | TradeFill

definition START_VALUE :: f64 where "START_VALUE = lit 10000"
definition MAKER_FEE_BPS :: f64 where "MAKER_FEE_BPS = lit 2"
definition MAX_SERIES_POINTS :: nat where "MAX_SERIES_POINTS = 300"
definition MAX_FILLS_LISTED :: nat where "MAX_FILLS_LISTED = 500"

record SimSettings =
  ss_strategy :: StrategyName
  ss_spread_bps :: f64
  ss_fill_model :: LabFillModel

record SimEnv =
  se_libm :: Libm
  se_draws :: Draws
  se_log10 :: "f64 \<Rightarrow> f64"
  se_calibration :: "FillCalibration option res"
  se_format_g :: "f64 \<Rightarrow> string"

record SeriesPoint =
  sp_t :: f64
  sp_value_pnl :: f64
  sp_hold_pnl :: f64
  sp_base :: f64

record ListedFill =
  lf_t :: f64
  lf_buy :: bool
  lf_price :: f64
  lf_size :: f64
  lf_fee :: f64

record LabResult =
  lr_start_value :: f64
  lr_final_value :: f64
  lr_hold_value :: f64
  lr_edge_vs_hold :: f64
  lr_fees :: f64
  lr_fill_count :: nat
  lr_buy_count :: nat
  lr_sell_count :: nat
  lr_quote_size :: f64
  lr_snapshot_count :: nat
  lr_trade_count :: nat
  lr_duration_sec :: f64
  lr_start_mid :: f64
  lr_end_mid :: f64
  lr_start_base :: f64
  lr_final_base :: f64
  lr_series :: "SeriesPoint list"
  lr_fills :: "ListedFill list"
  lr_notes :: "string list"
  lr_summary :: "string list"

abbreviation simulation_failed :: py_error where
  "simulation_failed \<equiv> OtherError ''SimulationFailed''"

text \<open>The strategy name is one of the three of its type, so the branch for an unknown one has no occasion.\<close>

definition lab_strategy :: "SimSettings \<Rightarrow> string \<Rightarrow> f64 \<Rightarrow> f64 \<Rightarrow> Strategy" where
  "lab_strategy settings symbol sz base0 =
     (case ss_strategy settings of
        pure_mm \<Rightarrow> PureMM \<lparr> pm_symbol = symbol, pm_spread_bps = ss_spread_bps settings, pm_quote_size = sz \<rparr>
      | inventory_skew \<Rightarrow> InventorySkew
          \<lparr> sk_symbol = symbol, sk_spread_bps = ss_spread_bps settings, sk_quote_size = sz, sk_target_base = base0,
            sk_max_position_base = lit 2 * base0, sk_skew_bps = lit 20 \<rparr>
      | volatility_spread \<Rightarrow> VolatilitySpread
          \<lparr> vs_symbol = symbol, vs_spread_bps = ss_spread_bps settings, vs_quote_size = sz,
            vs_volatility_spread_multiplier = 1, vs_mid_prices = [], vs_maxlen = 20 + 1 \<rparr>)"

definition downsample :: "nat \<Rightarrow> 'a list \<Rightarrow> 'a list" where
  "downsample limit points =
     (if length points \<le> limit then points
      else
        let step = float_of_int (int (length points) - 1) / float_of_int (int limit - 1)
        in map (\<lambda>i. points ! nat (rne (val (float_of_int (int i) * step)))) [0..<limit])"

text \<open>\<open>bisect_right\<close> of the standard library.\<close>

function bisect_between :: "int list \<Rightarrow> int \<Rightarrow> nat \<Rightarrow> nat \<Rightarrow> nat" where
  "bisect_between xs x lo hi =
     (if lo < hi then
        let m = (lo + hi) div 2 in if x < xs ! m then bisect_between xs x lo m else bisect_between xs x (m + 1) hi
      else lo)"
  by pat_completeness simp
termination by (relation "measure (\<lambda>(xs, x, lo, hi). hi - lo)") auto

declare bisect_between.simps [simp del]

definition bisect_right :: "int list \<Rightarrow> int \<Rightarrow> nat" where
  "bisect_right xs x = bisect_between xs x 0 (length xs)"

section \<open>The run\<close>

record SimRun =
  ru_broker :: PaperBroker
  ru_strategy :: Strategy
  ru_fills :: "Fill list"
  ru_series :: "SeriesPoint list"
  ru_previous_at :: "datetime option"

text \<open>What stays fixed during a run.\<close>

record SimFrame =
  sf_recording :: Recording
  sf_trade_mode :: bool
  sf_t0 :: datetime
  sf_base0 :: f64
  sf_quote0 :: f64

definition lab_fills :: "SimEnv \<Rightarrow> SimFrame \<Rightarrow> OrderBookSnapshot \<Rightarrow> SimRun \<Rightarrow> PaperBroker \<times> Fill list res" where
  "lab_fills env fr snapshot run =
     (if sf_trade_mode fr then
        (case ru_previous_at run of
           None \<Rightarrow> (ru_broker run, ok [])
         | Some previous_at \<Rightarrow>
             let trades = rc_trades (sf_recording fr); times = map tr_timestamp trades;
                 lo = bisect_right times previous_at; hi = bisect_right times (ob_timestamp snapshot)
             in apply_trade_fills (ru_broker run) (map PrintedTrade.truncate (drop lo (take hi trades))) (ob_timestamp snapshot))
      else apply_fills (se_libm env) (se_draws env) (ru_broker run) snapshot)"

definition series_point :: "SimFrame \<Rightarrow> InventoryTracker \<Rightarrow> f64 \<Rightarrow> datetime \<Rightarrow> SeriesPoint" where
  "series_point fr account mid at_time =
     \<lparr> sp_t = round_digits 3 (total_seconds (at_time - sf_t0 fr)),
       sp_value_pnl = (iv_base_amount account * mid + iv_quote_amount account) - START_VALUE,
       sp_hold_pnl = (sf_base0 fr * mid + sf_quote0 fr) - START_VALUE, sp_base = iv_base_amount account \<rparr>"

definition lab_quotes :: "SimEnv \<Rightarrow> MarketRules \<Rightarrow> nat \<Rightarrow> Quote list \<Rightarrow> Quote list res" where
  "lab_quotes env rules i quotes =
     res_map (\<lambda>q. rbind (round_quote_price (se_log10 env) (qt_price q) (qt_side q) rules) (\<lambda>price.
       ok (q\<lparr> qt_price := price, qt_quote_id := Some (''q'' @ nat_str i @ ''-'' @ side_value (qt_side q)) \<rparr>))) quotes"

text \<open>Every quote is named by the engine, so the broker draws no id.\<close>

definition place_lab_quotes :: "SimFrame \<Rightarrow> Quote list \<Rightarrow> Position \<Rightarrow> SimRun \<Rightarrow> SimRun" where
  "place_lab_quotes fr quotes position run =
     run\<lparr> ru_broker := fst (submit_quotes (\<lambda>i. []) (ru_broker run)
            (filter_quotes_by_position_limit quotes position (lit 2 * sf_base0 fr) (lit 2 * START_VALUE) MAKER_FEE_BPS)) \<rparr>"

definition sim_step :: "SimEnv \<Rightarrow> SimFrame \<Rightarrow> nat \<times> OrderBookSnapshot \<Rightarrow> SimRun \<Rightarrow> SimRun res" where
  "sim_step env fr i_snapshot run =
     (let (i, snapshot) = i_snapshot; at_time = ob_timestamp snapshot;
          (broker, filled) = lab_fills env fr snapshot run
      in rbind filled (\<lambda>fills.
         let account = pb_inventory broker; position = to_position account at_time;
             mid = the (mid_price snapshot);
             (strategy, quotes) = generate_quotes (ru_strategy run) snapshot position
         in rbind (lab_quotes env (rc_rules (sf_recording fr)) i quotes) (\<lambda>named.
              ok (place_lab_quotes fr named position
                    \<lparr> ru_broker = broker, ru_strategy = strategy, ru_fills = ru_fills run @ fills,
                      ru_series = ru_series run @ [series_point fr account mid at_time], ru_previous_at = Some at_time \<rparr>))))"

primrec sim_steps :: "SimEnv \<Rightarrow> SimFrame \<Rightarrow> (nat \<times> OrderBookSnapshot) list \<Rightarrow> SimRun \<Rightarrow> SimRun res" where
  "sim_steps env fr [] run = ok run"
| "sim_steps env fr (s # ss) run = rbind (sim_step env fr s run) (sim_steps env fr ss)"

definition usable_snapshots :: "Recording \<Rightarrow> OrderBookSnapshot list" where
  "usable_snapshots recording =
     sort_key ob_timestamp (filter (\<lambda>s. \<not> ob_is_stale s \<and> truthy (mid_price s) \<noteq> None) (rc_snapshots recording))"

definition lab_broker :: "SimSettings \<Rightarrow> Recording \<Rightarrow> f64 \<Rightarrow> f64 \<Rightarrow> f64 \<Rightarrow> FillCalibration option \<Rightarrow> PaperBroker" where
  "lab_broker settings recording base0 quote0 start_mid calibration =
     (let b = broker_init (rc_symbol recording) quote0 MAKER_FEE_BPS
                (case ss_fill_model settings of BookFill mode \<Rightarrow> mode | TradeFill \<Rightarrow> FULL_CROSS) 2 (lit (7 / 10)) calibration
      in b\<lparr> pb_inventory := restore_state base0 quote0 start_mid 0 0 None (pb_inventory b) \<rparr>)"

definition listed_fill :: "datetime \<Rightarrow> Fill \<Rightarrow> ListedFill" where
  "listed_fill t0 f =
     \<lparr> lf_t = round_digits 3 (total_seconds (fl_timestamp f - t0)), lf_buy = (fl_side f = BID), lf_price = fl_price f,
       lf_size = round_digits 12 (fl_size f), lf_fee = fl_fee f \<rparr>"

definition lab_result :: "SimFrame \<Rightarrow> f64 \<Rightarrow> OrderBookSnapshot list \<Rightarrow> SimRun \<Rightarrow> LabResult" where
  "lab_result fr sz snapshots run =
     (let account = pb_inventory (ru_broker run); trades = rc_trades (sf_recording fr);
          start_mid = the (mid_price (hd snapshots)); end_mid = the (mid_price (List.last snapshots));
          final_value = iv_base_amount account * end_mid + iv_quote_amount account;
          hold_value = sf_base0 fr * end_mid + sf_quote0 fr
      in \<lparr> lr_start_value = START_VALUE, lr_final_value = final_value, lr_hold_value = hold_value,
           lr_edge_vs_hold = final_value - hold_value, lr_fees = iv_total_fees account,
           lr_fill_count = length (ru_fills run), lr_buy_count = length (filter (\<lambda>f. fl_side f = BID) (ru_fills run)),
           lr_sell_count = length (filter (\<lambda>f. fl_side f = ASK) (ru_fills run)), lr_quote_size = sz,
           lr_snapshot_count = length snapshots, lr_trade_count = length trades,
           lr_duration_sec = round_digits 1 (total_seconds (ob_timestamp (List.last snapshots) - sf_t0 fr)),
           lr_start_mid = start_mid, lr_end_mid = end_mid, lr_start_base = sf_base0 fr, lr_final_base = iv_base_amount account,
           lr_series = downsample MAX_SERIES_POINTS (ru_series run),
           lr_fills = map (listed_fill (sf_t0 fr)) (take MAX_FILLS_LISTED (ru_fills run)),
           lr_notes = (if sf_trade_mode fr \<and> trades = []
                       then [''No public trades were recorded, so the trade-driven model could not fill.''] else []),
           lr_summary = [] \<rparr>)"

definition simulate :: "SimEnv \<Rightarrow> Recording \<Rightarrow> SimSettings \<Rightarrow> LabResult res" where
  "simulate env recording settings =
     (let snapshots = usable_snapshots recording in
      if length snapshots < MIN_SNAPSHOTS then raise_error simulation_failed
      else
        let start_mid = the (mid_price (hd snapshots));
            base0 = (START_VALUE / lit 2) / start_mid; quote0 = START_VALUE / lit 2
        in rbind (quote_size_for (se_log10 env) start_mid (rc_rules recording) QUOTE_NOTIONAL) (\<lambda>sz.
           rbind (if ss_fill_model settings = BookFill CALIBRATED then se_calibration env else ok None) (\<lambda>calibration.
           let fr = \<lparr> sf_recording = recording, sf_trade_mode = (ss_fill_model settings = TradeFill),
                      sf_t0 = ob_timestamp (hd snapshots), sf_base0 = base0, sf_quote0 = quote0 \<rparr>
           in rbind (sim_steps env fr (enumerate 0 snapshots)
                       \<lparr> ru_broker = lab_broker settings recording base0 quote0 start_mid calibration,
                         ru_strategy = lab_strategy settings (rc_symbol recording) sz base0,
                         ru_fills = [], ru_series = [], ru_previous_at = None \<rparr>) (\<lambda>run.
                ok (lab_result fr sz snapshots run)))))"

section \<open>The summary\<close>

definition FILL_MODEL_LABELS :: "LabFillModel \<Rightarrow> string" where
  "FILL_MODEL_LABELS fm =
     (case fm of
        BookFill FULL_CROSS \<Rightarrow> ''Full cross''
      | BookFill PARTIAL \<Rightarrow> ''Partial (top-of-book size)''
      | BookFill LATENCY_PROB \<Rightarrow> ''Latency + probability''
      | BookFill CALIBRATED \<Rightarrow> ''Calibrated (fitted on testnet)''
      | TradeFill \<Rightarrow> ''Trade-driven (real trades)'')"

definition counted :: "nat \<Rightarrow> string \<Rightarrow> string" where
  "counted n word = nat_str n @ '' '' @ (if n = 1 then word else word @ ''s'')"

definition move_line :: "LabResult \<Rightarrow> string" where
  "move_line r =
     (let move = (lr_end_mid r - lr_start_mid r) / lr_start_mid r * lit 10000;
          direction = (if move > 0 then ''rose'' else if move < 0 then ''fell'' else ''did not move'')
      in ''Over '' @ fixed 0 (lr_duration_sec r) @ '' seconds the mid price '' @ direction
         @ (if move \<noteq> 0 then '' '' @ fixed 1 \<bar>move\<bar> @ '' bps.'' else ''.''))"

definition fill_line :: "SimEnv \<Rightarrow> LabResult \<Rightarrow> SimSettings \<Rightarrow> string \<Rightarrow> string" where
  "fill_line env r settings quote_ccy =
     (if lr_fill_count r = 0 then
        ''No quote filled at a '' @ se_format_g env (ss_spread_bps settings) @ '' bps spread with the ''
        @ py_lower (FILL_MODEL_LABELS (ss_fill_model settings)) @ '' model, so the result is just holding the start.''
      else
        counted (lr_fill_count r) ''fill'' @ '' ('' @ counted (lr_buy_count r) ''buy'' @ '', '' @ counted (lr_sell_count r) ''sell''
        @ ''), paying '' @ fixed_grouped 2 (lr_fees r) @ '' '' @ quote_ccy @ '' in fees.'')"

definition edge_line :: "LabResult \<Rightarrow> string \<Rightarrow> string" where
  "edge_line r quote_ccy =
     (let edge = lr_edge_vs_hold r;
          final = ''(final '' @ fixed_grouped 2 (lr_final_value r) @ '' against '' @ fixed_grouped 2 (lr_hold_value r) @ '')''
      in if \<bar>edge\<bar> < lit (5 / 1000) then ''The strategy matched holding '' @ final @ ''.''
         else ''The strategy '' @ (if edge > 0 then ''beat'' else ''trailed'') @ '' holding by '' @ fixed_grouped 2 \<bar>edge\<bar>
              @ '' '' @ quote_ccy @ '' '' @ final @ ''.'')"

definition inventory_line :: "LabResult \<Rightarrow> string list" where
  "inventory_line r =
     (let base_change = lr_final_base r - lr_start_base r in
      if lr_start_base r \<noteq> 0 \<and> \<bar>base_change\<bar> / lr_start_base r > lit (5 / 100) then
        [''It ended holding '' @ fixed 0 (\<bar>base_change\<bar> / lr_start_base r * lit 100) @ ''% ''
         @ (if base_change > 0 then ''more'' else ''less'')
         @ '' of the coin than at the start, so part of the result is the price move on that inventory.'']
      else [])"

definition summarize :: "SimEnv \<Rightarrow> LabResult \<Rightarrow> SimSettings \<Rightarrow> string \<Rightarrow> string list" where
  "summarize env r settings quote_ccy =
     [move_line r, fill_line env r settings quote_ccy, edge_line r quote_ccy] @ inventory_line r @ lr_notes r"

end
