(* ===== verification/Lab_Engine_Facts.thy ===== *)
theory Lab_Engine_Facts
  imports Lab_Engine
begin

text \<open>
  What a simulation of the lab promises: it needs enough order books, a run without fills is exactly holding, and the
  paper account is never overdrawn.
\<close>

section \<open>Bookings\<close>

text \<open>A booking that accepts nothing leaves the account alone.\<close>

lemma book_quote_silent:
  assumes "bk_accepted (book_quote d ts oq st) = bk_accepted st"
  shows "bk_inventory (book_quote d ts oq st) = bk_inventory st"
proof (cases "dict_get d (Some (oq_quote_id oq))")
  case (Some f)
  obtain iv booked where res: "apply_fill (bk_inventory st) f ts = (iv, booked)" by fastforce
  then show ?thesis
    using Some assms apply_fill_refused [of "bk_inventory st" f ts iv]
    by (cases booked) (auto simp: book_quote_def Let_def split: if_splits)
qed (simp add: book_quote_def)

lemma book_quote_grows: "\<exists>more. bk_accepted (book_quote d ts oq st) = bk_accepted st @ more"
proof (cases "dict_get d (Some (oq_quote_id oq))")
  case (Some f)
  obtain iv booked where "apply_fill (bk_inventory st) f ts = (iv, booked)" by fastforce
  then show ?thesis using Some by (cases booked) (auto simp: book_quote_def Let_def)
qed (simp add: book_quote_def)

lemma fold_book_quote_grows: "\<exists>more. bk_accepted (fold (book_quote d ts) oqs st) = bk_accepted st @ more"
proof (induction oqs arbitrary: st)
  case (Cons oq oqs)
  then show ?case using book_quote_grows [of d ts oq st] by (metis append.assoc fold_simps(2))
qed simp

lemma fold_book_quote_silent:
  assumes "bk_accepted (fold (book_quote d ts) oqs st) = bk_accepted st"
  shows "bk_inventory (fold (book_quote d ts) oqs st) = bk_inventory st"
  using assms
proof (induction oqs arbitrary: st)
  case (Cons oq oqs)
  let ?st = "book_quote d ts oq st"
  obtain a b where "bk_accepted ?st = bk_accepted st @ a" "bk_accepted (fold (book_quote d ts) oqs ?st) = bk_accepted ?st @ b"
    using book_quote_grows [of d ts oq st] fold_book_quote_grows [of d ts oqs ?st] by auto
  with Cons.prems have "bk_accepted ?st = bk_accepted st" "bk_accepted (fold (book_quote d ts) oqs ?st) = bk_accepted ?st" by auto
  then show ?case using Cons.IH [of ?st] book_quote_silent [of d ts oq st] by simp
qed simp

lemma book_fills_silent: "book_fills b fills ts = (b', []) \<Longrightarrow> pb_inventory b' = pb_inventory b"
  using fold_book_quote_silent [of "fills_by_quote_id fills" ts "pb_open_quotes b"
      "\<lparr> bk_inventory = pb_inventory b, bk_updated = [], bk_accepted = [] \<rparr>"]
  by (auto simp: book_fills_def Let_def split: if_splits)

lemma apply_fills_silent:
  assumes "apply_fills m dr b snapshot = (b', Inr [])"
  shows "pb_inventory b' = pb_inventory b"
proof (rule apply_fills_cases [of m dr b snapshot])
  fix tracker volatility b1 quotes fills b2 accepted
  assume "b1 = b\<lparr> pb_tick_index := pb_tick_index b + 1, pb_volatility := tracker \<rparr>"
    and "book_fills (b1\<lparr> pb_open_quotes := quotes \<rparr>) fills (ob_timestamp snapshot) = (b2, accepted)"
    and "apply_fills m dr b snapshot = (b2, Inr accepted)"
  then show ?thesis using assms book_fills_silent [of "b1\<lparr> pb_open_quotes := quotes \<rparr>" fills "ob_timestamp snapshot" b2] by simp
qed (use assms in auto)

lemma lab_fills_silent:
  assumes "lab_fills env fr snapshot run = (broker, Inr [])"
  shows "pb_inventory broker = pb_inventory (ru_broker run)"
proof -
  have trades: "pb_inventory b = pb_inventory b0" if "apply_trade_fills b0 ts now = (b, Inr [])" for b0 ts now b
  proof -
    let ?b1 = "b0\<lparr> pb_tick_index := pb_tick_index b0 + 1 \<rparr>"
    show ?thesis
    proof (cases "detect_trade_fills (pb_open_quotes ?b1) ts (pb_maker_fee_bps ?b1) now")
      case (Inl e)
      then show ?thesis using that by (simp add: apply_trade_fills_def)
    next
      case (Inr fills)
      then have "book_fills ?b1 fills now = (b, [])"
        using that by (cases "book_fills ?b1 fills now") (simp add: apply_trade_fills_def Let_def)
      then show ?thesis using book_fills_silent [of ?b1 fills now b] by simp
    qed
  qed
  show ?thesis using assms trades by (auto dest: apply_fills_silent simp: lab_fills_def Let_def split: if_splits option.splits)
qed

section \<open>A step\<close>

lemma place_lab_quotes_frame [simp]:
  "ru_fills (place_lab_quotes fr quotes position run) = ru_fills run"
  "ru_series (place_lab_quotes fr quotes position run) = ru_series run"
  "ru_strategy (place_lab_quotes fr quotes position run) = ru_strategy run"
  "pb_inventory (ru_broker (place_lab_quotes fr quotes position run)) = pb_inventory (ru_broker run)"
  by (simp_all add: place_lab_quotes_def submit_quotes_def Let_def)

lemma sim_stepE:
  assumes "sim_step env fr (i, snapshot) run = Inr run'"
  obtains broker fills strategy quotes named where
    "lab_fills env fr snapshot run = (broker, Inr fills)"
    "generate_quotes (ru_strategy run) snapshot (to_position (pb_inventory broker) (ob_timestamp snapshot)) = (strategy, quotes)"
    "lab_quotes env (rc_rules (sf_recording fr)) i quotes = Inr named"
    "run' = place_lab_quotes fr named (to_position (pb_inventory broker) (ob_timestamp snapshot))
       \<lparr> ru_broker = broker, ru_strategy = strategy, ru_fills = ru_fills run @ fills,
         ru_series = ru_series run @ [series_point fr (pb_inventory broker) (the (mid_price snapshot)) (ob_timestamp snapshot)],
         ru_previous_at = Some (ob_timestamp snapshot) \<rparr>"
proof -
  obtain broker filled where a: "lab_fills env fr snapshot run = (broker, filled)" by fastforce
  obtain strategy quotes where b: "generate_quotes (ru_strategy run) snapshot
      (to_position (pb_inventory broker) (ob_timestamp snapshot)) = (strategy, quotes)" by fastforce
  show thesis using assms a b that by (auto simp: sim_step_def Let_def)
qed

text \<open>The figures of a run: one point per snapshot; nothing filled, nothing changed.\<close>

definition sums_up :: "InventoryTracker \<Rightarrow> SimRun \<Rightarrow> bool" where
  "sums_up account run \<longleftrightarrow> (ru_fills run = [] \<longrightarrow> pb_inventory (ru_broker run) = account)"

lemma sim_step_sums_up:
  assumes "sim_step env fr s run = Inr run'" and "sums_up account run"
  shows "sums_up account run' \<and> length (ru_series run') = Suc (length (ru_series run))"
proof -
  obtain i snapshot where "s = (i, snapshot)" by fastforce
  with assms(1) have "sim_step env fr (i, snapshot) run = Inr run'" by simp
  then show ?thesis
  proof (rule sim_stepE)
    fix broker fills strategy quotes named
    assume "lab_fills env fr snapshot run = (broker, Inr fills)"
      and run': "run' = place_lab_quotes fr named (to_position (pb_inventory broker) (ob_timestamp snapshot))
       \<lparr> ru_broker = broker, ru_strategy = strategy, ru_fills = ru_fills run @ fills,
         ru_series = ru_series run @ [series_point fr (pb_inventory broker) (the (mid_price snapshot)) (ob_timestamp snapshot)],
         ru_previous_at = Some (ob_timestamp snapshot) \<rparr>"
    then have "fills = [] \<Longrightarrow> pb_inventory broker = pb_inventory (ru_broker run)" using lab_fills_silent by blast
    then show ?thesis using assms(2) by (auto simp: run' sums_up_def)
  qed
qed

lemma sim_steps_sums_up:
  "sim_steps env fr ss run = Inr run' \<Longrightarrow> sums_up account run
    \<Longrightarrow> sums_up account run' \<and> length (ru_series run') = length (ru_series run) + length ss"
proof (induction ss arbitrary: run)
  case (Cons s ss)
  obtain mid where "sim_step env fr s run = Inr mid" "sim_steps env fr ss mid = Inr run'" using Cons.prems(1) by auto
  then show ?case using Cons.IH [of mid] sim_step_sums_up [of env fr s run mid account] Cons.prems(2) by simp
qed simp

lemma simulateE:
  assumes "simulate env recording settings = Inr r"
  obtains sz calibration run and fr :: SimFrame where
    "MIN_SNAPSHOTS \<le> length (usable_snapshots recording)"
    "quote_size_for (se_log10 env) (the (mid_price (hd (usable_snapshots recording)))) (rc_rules recording) QUOTE_NOTIONAL = Inr sz"
    "sf_base0 fr = (START_VALUE / lit 2) / the (mid_price (hd (usable_snapshots recording)))" "sf_quote0 fr = START_VALUE / lit 2"
    "sf_recording fr = recording"
    "sim_steps env fr (enumerate 0 (usable_snapshots recording))
       \<lparr> ru_broker = lab_broker settings recording (sf_base0 fr) (sf_quote0 fr) (the (mid_price (hd (usable_snapshots recording)))) calibration,
         ru_strategy = lab_strategy settings (rc_symbol recording) sz (sf_base0 fr),
         ru_fills = [], ru_series = [], ru_previous_at = None \<rparr> = Inr run"
    "r = lab_result fr sz (usable_snapshots recording) run"
proof -
  define fr where "fr = \<lparr> sf_recording = recording, sf_trade_mode = (ss_fill_model settings = TradeFill),
    sf_t0 = ob_timestamp (hd (usable_snapshots recording)),
    sf_base0 = (START_VALUE / lit 2) / the (mid_price (hd (usable_snapshots recording))), sf_quote0 = START_VALUE / lit 2 \<rparr>"
  have parts: "sf_base0 fr = (START_VALUE / lit 2) / the (mid_price (hd (usable_snapshots recording)))"
      "sf_quote0 fr = START_VALUE / lit 2" "sf_recording fr = recording" by (simp_all add: fr_def)
  show thesis
    using assms that [OF _ _ parts]
    by (auto simp: simulate_def Let_def parts fr_def [symmetric] split: if_split_asm)
qed

lemma filter_sides: "length (filter (\<lambda>f. fl_side f = BID) fs) + length (filter (\<lambda>f. fl_side f = ASK) fs) = length fs"
proof (induction fs)
  case (Cons f fs)
  then show ?case by (cases "fl_side f") simp_all
qed simp

lemma downsample_length: "length (downsample limit points) = min limit (length points)"
  by (simp add: downsample_def min_def)


section \<open>The account of a run\<close>

lemma f64_mult_bound: "0 \<le> x \<Longrightarrow> x \<le> a \<Longrightarrow> 0 \<le> y \<Longrightarrow> y \<le> b \<Longrightarrow> x * y \<le> a * b" for x y a b :: f64
  by (rule f64_mult_mono)

lemma val_half: "val (lit (1 / 2)) = 1 / 2"
proof -
  have "fl (of_int 1 * 2 powi (- 1)) = of_int 1 * 2 powi (- 1)" by (rule fl_dyadic) simp_all
  then show ?thesis by (simp add: val_lit power_int_minus)
qed

text \<open>A half spread of at most 100 basis points, and a skew of at most 20, stay below one half.\<close>

lemma small_numbers [simp]: "fl 2 = 2" "fl 20 = 20" "fl 100 = 100" "fl 200 = 200" "fl 10000 = 10000"
  using fl_of_int [of 2] fl_of_int [of 20] fl_of_int [of 100] fl_of_int [of 200] fl_of_int [of 10000] by simp_all

lemma half_spread_small:
  assumes "bps \<le> lit 200"
  shows "(bps / lit 2) / lit 10000 \<le> lit (1 / 2)"
proof -
  have "val bps / 2 \<le> 100" using assms by (simp add: le_val val_lit)
  then have "fl (val bps / 2) \<le> 100" using fl_mono [of "val bps / 2" 100] by simp
  then have "fl (val bps / 2) / 10000 \<le> 1 / 2" by simp
  then have "fl (fl (val bps / 2) / 10000) \<le> fl (1 / 2)" by (rule fl_mono)
  then show ?thesis by (simp add: le_val val_ops val_lit)
qed

lemma skew_small:
  assumes "ratio \<le> 1"
  shows "ratio * (lit 20 / lit 10000) \<le> lit (1 / 2)"
proof -
  have "0 \<le> lit 20 / lit 10000" by (intro f64_divide_nonneg lit_nonneg) simp_all
  then have "ratio * (lit 20 / lit 10000) \<le> lit 20 / lit 10000"
    using assms f64_mult_left_mono [of "lit 20 / lit 10000" ratio 1] by (simp add: f64_mult_commute)
  also have "lit 20 / lit 10000 \<le> lit (1 / 2)" using fl_mono [of "20 / 10000" "1 / 2"] by (simp add: le_val val_ops val_lit)
  finally show ?thesis .
qed

lemma remaining_price_nonneg:
  assumes "0 \<le> mid" and "h \<le> lit (1 / 2)" and "skew \<le> lit (1 / 2)"
  shows "0 \<le> mid * (1 - h - skew)" "0 \<le> mid * (1 - h)"
proof -
  have "1 - lit (1 / 2) = lit (1 / 2)" by (simp add: minus_f64_def val_half)
  moreover have "1 - lit (1 / 2) \<le> 1 - h" using assms(2) by (intro f64_diff_mono) simp_all
  ultimately have h: "lit (1 / 2) \<le> 1 - h" by simp
  then have "skew \<le> 1 - h" using assms(3) by simp
  then have "0 \<le> 1 - h - skew" by simp
  then show "0 \<le> mid * (1 - h - skew)" using assms(1) by (intro f64_mult_nonneg)
  have "0 \<le> lit (1 / 2)" by (rule lit_nonneg) simp
  then have "0 \<le> 1 - h" using h by (rule order_trans)
  then show "0 \<le> mid * (1 - h)" using assms(1) by (intro f64_mult_nonneg)
qed

text \<open>Rounding to a grid keeps a price that is not negative so.\<close>

lemma round_digits_nonneg: "0 \<le> x \<Longrightarrow> 0 \<le> round_digits n x"
proof -
  assume "0 \<le> x"
  then have "0 \<le> val x * 10 ^ n" by (simp add: le_val)
  then have "rne 0 \<le> rne (val x * 10 ^ n)" by (rule rne_mono)
  then have "0 \<le> rne (val x * 10 ^ n)" using rne_of_int [of 0] by simp
  then show ?thesis unfolding round_digits_def by (intro lit_nonneg) simp
qed

lemma ceil_nonneg: "- 1 < val x \<Longrightarrow> 0 \<le> float_ceil x"
  by (simp add: float_ceil_def)

lemma snap_nonneg:
  assumes "snap log10 v step rounder = Inr p" and "0 \<le> v"
  shows "0 \<le> p"
proof -
  define units where "units = v / step"
  define epsilon where "epsilon = max (lit (1 / 10 ^ 9)) (\<bar>units\<bar> * lit (1 / 10 ^ 12))"
  define nudged where "nudged = (case rounder of Floor \<Rightarrow> units + epsilon | Ceil \<Rightarrow> units - epsilon)"
  obtain digits where step: "0 < step"
      and p: "p = round_digits digits (float_of_int (apply_rounder rounder nudged) * step)"
    using assms(1)
    by (cases rounder)
      (auto simp: snap_def fdiv_eq_Inr_iff step_decimals_def Let_def units_def epsilon_def nudged_def not_le split: if_split_asm)
  have units: "0 \<le> units" unfolding units_def using assms(2) step by (intro f64_divide_nonneg) simp_all
  have eps: "0 \<le> epsilon" unfolding epsilon_def by (simp add: le_max_iff_disj lit_nonneg)
  have "0 \<le> apply_rounder rounder nudged"
  proof (cases rounder)
    case Floor
    have "0 \<le> units + epsilon" using units eps by (rule f64_add_nonneg)
    then show ?thesis using Floor by (simp add: nudged_def apply_rounder_def float_floor_def le_val)
  next
    case Ceil
    have "val units * fl (1 / 10 ^ 12) \<le> val units * 1"
      using units fl_mono [of "1 / 10 ^ 12" 1] fl_of_int [of 1] by (intro mult_left_mono) (simp_all add: le_val)
    then have "fl (val units * fl (1 / 10 ^ 12)) \<le> val units"
      using fl_mono [of "val units * fl (1 / 10 ^ 12)" "val units"] by simp
    moreover have "fl (1 / 10 ^ 9) \<le> 1 / 2" using fl_mono [of "1 / 10 ^ 9" "1 / 2"] val_half by (simp add: val_lit)
    ultimately have "val epsilon \<le> val units + 1 / 2"
      using units by (auto simp: epsilon_def val_max val_ops val_lit le_val)
    then have "- (1 / 2) \<le> val units - val epsilon" by simp
    then have "fl (- (1 / 2)) \<le> fl (val units - val epsilon)" by (rule fl_mono)
    then have "- 1 < val (units - epsilon)" using val_half by (simp add: val_ops val_lit)
    then show ?thesis using Ceil ceil_nonneg by (simp add: nudged_def apply_rounder_def)
  qed
  then have "0 \<le> float_of_int (apply_rounder rounder nudged) * step"
    using step by (intro f64_mult_nonneg) (simp_all add: float_of_int_def lit_nonneg)
  then show ?thesis unfolding p by (rule round_digits_nonneg)
qed

lemma round_quote_price_nonneg: "round_quote_price log10 price side rules = Inr p \<Longrightarrow> 0 \<le> price \<Longrightarrow> 0 \<le> p"
  using snap_nonneg by (auto simp: round_quote_price_def split: option.splits)

text \<open>Quotes the broker takes: sizes positive, prices not negative.\<close>

definition placeable :: "Quote list \<Rightarrow> bool" where
  "placeable quotes \<longleftrightarrow> (\<forall>q\<in>set quotes. 0 < qt_size q \<and> 0 \<le> qt_price q)"

lemma placeable_simps [simp]: "placeable []"
  by (simp add: placeable_def)

lemma pair_placeable: "0 < sz \<Longrightarrow> 0 \<le> bid \<Longrightarrow> bid \<le> ask \<Longrightarrow> placeable (quote_pair symbol bid ask sz ts)"
  using order_trans by (auto simp: placeable_def quote_pair_def)

lemma res_map_from: "res_map f xs = Inr ys \<Longrightarrow> y \<in> set ys \<Longrightarrow> \<exists>x\<in>set xs. f x = Inr y"
  by (induction xs arbitrary: ys) auto

lemma lab_quotes_placeable:
  assumes "lab_quotes env rules i quotes = Inr named" and "placeable quotes"
  shows "placeable named"
  unfolding placeable_def
proof
  fix q' assume "q' \<in> set named"
  then obtain q price where "q \<in> set quotes" "round_quote_price (se_log10 env) (qt_price q) (qt_side q) rules = Inr price"
      and "q' = q\<lparr> qt_price := price, qt_quote_id := Some (''q'' @ nat_str i @ ''-'' @ side_value (qt_side q)) \<rparr>"
    using res_map_from [OF assms(1) [unfolded lab_quotes_def] \<open>q' \<in> set named\<close>] by auto
  then show "0 < qt_size q' \<and> 0 \<le> qt_price q'"
    using assms(2) round_quote_price_nonneg by (auto simp: placeable_def)
qed

text \<open>The strategies whose spread the settings fix.\<close>

fun steady :: "f64 \<Rightarrow> Strategy \<Rightarrow> bool" where
  "steady sz (PureMM st) \<longleftrightarrow> pm_quote_size st = sz \<and> 0 \<le> pm_spread_bps st \<and> pm_spread_bps st \<le> lit 200"
| "steady sz (InventorySkew st) \<longleftrightarrow>
     sk_quote_size st = sz \<and> 0 \<le> sk_spread_bps st \<and> sk_spread_bps st \<le> lit 200 \<and> sk_skew_bps st = lit 20"
| "steady sz (VolatilitySpread st) \<longleftrightarrow> False"

lemma steady_quotes:
  assumes "steady sz st" and "0 < sz"
  shows "placeable (snd (generate_quotes st snapshot position)) \<and> steady sz (fst (generate_quotes st snapshot position))"
proof (cases st)
  case (PureMM p)
  have "0 \<le> m * (1 - (pm_spread_bps p / lit 2) / lit 10000)"
      "m * (1 - (pm_spread_bps p / lit 2) / lit 10000) \<le> m * (1 + (pm_spread_bps p / lit 2) / lit 10000)" if "0 < m" for m
    using that PureMM assms half_spread_small [of "pm_spread_bps p"] remaining_price_nonneg(2) [of m]
      spread_order(1) [of m "(pm_spread_bps p / lit 2) / lit 10000"] half_spread_nonneg [of "pm_spread_bps p"] by simp_all
  then show ?thesis
    using PureMM assms by (auto simp: pure_mm_quotes_def Let_def not_le intro!: pair_placeable split: option.split)
next
  case (InventorySkew p)
  let ?h = "(sk_spread_bps p / lit 2) / lit 10000"
  have bounds: "0 \<le> m * (1 - ?h - max (- 1) (min 1 ratio) * (sk_skew_bps p / lit 10000))"
      "m * (1 - ?h - max (- 1) (min 1 ratio) * (sk_skew_bps p / lit 10000)) \<le> m * (1 + ?h - max (- 1) (min 1 ratio) * (sk_skew_bps p / lit 10000))"
    if "0 < m" for m ratio
  proof -
    have "max (- 1) (min 1 ratio) \<le> (1::f64)"
    proof -
      have "- 1 \<le> (1::f64)" by (simp add: le_val val_ops fl_of_int [of 1, simplified])
      then show ?thesis by simp
    qed
    then have "max (- 1) (min 1 ratio) * (sk_skew_bps p / lit 10000) \<le> lit (1 / 2)"
      using InventorySkew assms skew_small by simp
    then show "0 \<le> m * (1 - ?h - max (- 1) (min 1 ratio) * (sk_skew_bps p / lit 10000))"
        "m * (1 - ?h - max (- 1) (min 1 ratio) * (sk_skew_bps p / lit 10000)) \<le> m * (1 + ?h - max (- 1) (min 1 ratio) * (sk_skew_bps p / lit 10000))"
      using that InventorySkew assms half_spread_small [of "sk_spread_bps p"] remaining_price_nonneg(1) [of m ?h]
        skewed_order [of m ?h] half_spread_nonneg [of "sk_spread_bps p"] by simp_all
  qed
  then show ?thesis
    using InventorySkew assms bounds(1) [of _ 0] bounds(2) [of _ 0] by (auto simp: skew_quotes_def Let_def not_le intro!: pair_placeable split: option.split)
qed (use assms in simp)

text \<open>What a run keeps.\<close>

definition run_sound :: "f64 \<Rightarrow> SimRun \<Rightarrow> bool" where
  "run_sound sz run \<longleftrightarrow> broker_ok (ru_broker run) \<and> steady sz (ru_strategy run)"

lemma lab_fills_ok: "broker_ok (ru_broker run) \<Longrightarrow> broker_ok (fst (lab_fills env fr snapshot run))"
  by (auto simp: lab_fills_def Let_def intro: apply_fills_ok(1) apply_trade_fills_ok split: option.split)

lemma sim_step_sound:
  assumes "sim_step env fr s run = Inr run'" and "run_sound sz run" and "0 < sz"
  shows "run_sound sz run'"
proof -
  obtain i snapshot where "s = (i, snapshot)" by fastforce
  with assms(1) have "sim_step env fr (i, snapshot) run = Inr run'" by simp
  then show ?thesis
  proof (rule sim_stepE)
    fix broker fills strategy quotes named
    assume filled: "lab_fills env fr snapshot run = (broker, Inr fills)"
      and generated: "generate_quotes (ru_strategy run) snapshot (to_position (pb_inventory broker) (ob_timestamp snapshot)) = (strategy, quotes)"
      and named: "lab_quotes env (rc_rules (sf_recording fr)) i quotes = Inr named"
      and run': "run' = place_lab_quotes fr named (to_position (pb_inventory broker) (ob_timestamp snapshot))
       \<lparr> ru_broker = broker, ru_strategy = strategy, ru_fills = ru_fills run @ fills,
         ru_series = ru_series run @ [series_point fr (pb_inventory broker) (the (mid_price snapshot)) (ob_timestamp snapshot)],
         ru_previous_at = Some (ob_timestamp snapshot) \<rparr>"
    have broker: "broker_ok broker" using lab_fills_ok [of run env fr snapshot] assms(2) filled by (simp add: run_sound_def)
    have "placeable quotes" and strategy: "steady sz strategy"
      using steady_quotes [OF _ assms(3), of "ru_strategy run"] assms(2) generated by (simp_all add: run_sound_def) (metis fst_conv snd_conv)+
    then have "placeable named" using lab_quotes_placeable named by blast
    then have "placeable (filter_quotes_by_position_limit named position mb mn fee)" for position mb mn fee
      using list_emb_set [OF filter_subseq] unfolding placeable_def by metis
    then have "broker_ok (ru_broker run')"
      using submit_quotes_ok [OF broker] by (simp add: run' place_lab_quotes_def placeable_def)
    then show ?thesis using strategy by (simp add: run' run_sound_def)
  qed
qed

lemma sim_steps_sound: "sim_steps env fr ss run = Inr run' \<Longrightarrow> run_sound sz run \<Longrightarrow> 0 < sz \<Longrightarrow> run_sound sz run'"
proof (induction ss arbitrary: run)
  case (Cons s ss)
  obtain middle where "sim_step env fr s run = Inr middle" "sim_steps env fr ss middle = Inr run'" using Cons.prems(1) by auto
  then show ?case using Cons.IH [of middle] sim_step_sound Cons.prems by blast
qed simp

lemma never_overdrawn:
  assumes "simulate env recording settings = Inr r" and "0 < lr_quote_size r" and "0 < lr_start_base r" and "ss_strategy settings \<noteq> volatility_spread"
    and "0 \<le> ss_spread_bps settings" "ss_spread_bps settings \<le> lit 200"
    and "list_all (\<lambda>s. 0 < the (mid_price s)) (usable_snapshots recording)"
  shows "0 \<le> lr_final_base r \<and> 0 \<le> lr_fees r \<and> 0 \<le> lr_final_value r"
  using assms(1)
proof (rule simulateE)
  fix sz calibration run and fr :: SimFrame
  let ?snapshots = "usable_snapshots recording"
  let ?mid = "the (mid_price (hd ?snapshots))"
  let ?broker = "lab_broker settings recording (sf_base0 fr) (sf_quote0 fr) ?mid calibration"
  assume enough: "MIN_SNAPSHOTS \<le> length ?snapshots"
    and base: "sf_base0 fr = (START_VALUE / lit 2) / ?mid" and quote: "sf_quote0 fr = START_VALUE / lit 2"
    and steps: "sim_steps env fr (enumerate 0 ?snapshots)
       \<lparr> ru_broker = ?broker, ru_strategy = lab_strategy settings (rc_symbol recording) sz (sf_base0 fr),
         ru_fills = [], ru_series = [], ru_previous_at = None \<rparr> = Inr run"
    and r: "r = lab_result fr sz ?snapshots run"
  have sz: "0 < sz" using assms(2) by (simp add: r lab_result_def Let_def)
  have some: "?snapshots \<noteq> []" using enough by (auto simp: MIN_SNAPSHOTS_def)
  have mids: "0 < ?mid" "0 < the (mid_price (List.last ?snapshots))"
    using assms(7) some by (simp_all add: list_all_iff)
  have start: "0 < sf_base0 fr" using assms(3) by (simp add: r lab_result_def Let_def)
  have "0 \<le> START_VALUE / lit 2" by (auto simp: START_VALUE_def intro!: f64_divide_nonneg lit_nonneg)
  then have "broker_ok ?broker"
    using start mids
    by (simp add: lab_broker_def broker_init_def Let_def broker_ok_def solvent_def restore_state_def quote MAKER_FEE_BPS_def
        lit_nonneg lit_mono less_imp_le dual_order.strict_implies_not_eq)
  moreover have "steady sz (lab_strategy settings (rc_symbol recording) sz (sf_base0 fr))"
    using assms(4,5,6) by (cases "ss_strategy settings") (simp_all add: lab_strategy_def)
  ultimately have "broker_ok (ru_broker run)"
    using sim_steps_sound [OF steps _ sz] by (simp add: run_sound_def)
  then have "solvent (pb_inventory (ru_broker run))" by (simp add: broker_ok_def)
  then show ?thesis
    using mids by (auto simp: r lab_result_def Let_def solvent_def intro!: f64_add_nonneg f64_mult_nonneg)
qed

text \<open>A run of a strategy with a fixed spread on a market with positive prices never overdraws the paper account: the
  coins, the fees and the final value are never negative, at any point of the run.
\<close>

theorem simulation_never_overdraws:
  "case simulate env recording settings of
     Inl e \<Rightarrow> True
   | Inr r \<Rightarrow>
       if 0 < lr_quote_size r \<and> 0 < lr_start_base r \<and> ss_strategy settings \<noteq> volatility_spread
         \<and> 0 \<le> ss_spread_bps settings \<and> ss_spread_bps settings \<le> lit 200
         \<and> list_all (\<lambda>s. 0 < the (mid_price s)) (usable_snapshots recording)
       then 0 \<le> lr_final_base r \<and> 0 \<le> lr_fees r \<and> 0 \<le> lr_final_value r else True"
  using never_overdrawn by (auto split: sum.split)

end
