(* ===== verification/Lab_Service.thy ===== *)
theory Lab_Service
  imports Lab_Engine
begin

text \<open>
  \<open>app/simlab/service.py\<close>: the visitors' runs, the waiting line and the limits. The service is one thread of
  coroutines; a definition is what runs between two suspensions, so any interleaving of the coroutines is a sequence of
  these steps. Run ids are random: each submission is given the id it draws. Times come from the service's clock.
  The texts of refusals, the thread pool and the options page are not modelled.
\<close>

section \<open>Requests and runs\<close>

definition DURATION_RANGE :: "int \<times> int" where "DURATION_RANGE = (30, 120)"
definition SPREAD_RANGE :: "f64 \<times> f64" where "SPREAD_RANGE = (1, lit 200)"
definition HOUR :: f64 where "HOUR = lit 3600"

datatype Stage = WaitingStage | RecordingStage | SimulatingStage | DoneStage | FailedStage
datatype LabSource = LiveSource | BundledSource

text \<open>\<open>normalize_visitor_id\<close>: 32 hexadecimal digits, dashes allowed.\<close>

definition is_lower_hex :: "char \<Rightarrow> bool" where
  "is_lower_hex c = (let n = (of_char c :: int) in (48 \<le> n \<and> n \<le> 57) \<or> (97 \<le> n \<and> n \<le> 102))"

definition normalize_visitor_id :: "string option \<Rightarrow> string option" where
  "normalize_visitor_id raw =
     (case raw of
        None \<Rightarrow> None
      | Some text \<Rightarrow>
          let v = filter (\<lambda>c. c \<noteq> CHR ''-'') (py_lower (strip text))
          in if length v = 32 \<and> list_all is_lower_hex v then Some v else None)"

record LabRefused =
  rf_status :: int
  rf_limit :: string
  rf_retry_after_sec :: "f64 option"
  rf_run_id :: "string option"

definition refuse :: "int \<Rightarrow> string \<Rightarrow> LabRefused" where
  "refuse status limit = \<lparr> rf_status = status, rf_limit = limit, rf_retry_after_sec = None, rf_run_id = None \<rparr>"

definition invalid :: LabRefused where
  "invalid = refuse 422 ''invalid''"

record SimulationRequest =
  rq_source :: LabSource
  rq_strategy :: string
  rq_spread_bps :: f64
  rq_fill_model :: string
  rq_exchange :: "string option"
  rq_symbol :: "string option"
  rq_bundle_id :: "string option"
  rq_duration_sec :: "int option"

text \<open>The result as the API hands it out: the engine's, with what it was recorded on.\<close>

record LabPayload =
  py_result :: LabResult
  py_exchange :: string
  py_symbol :: string
  py_live :: bool
  py_label :: string
  py_started_at :: datetime
  py_price_step :: "f64 option"
  py_amount_step :: "f64 option"

record SimulationRun =
  rn_run_id :: string
  rn_visitor_id :: string
  rn_request :: SimulationRequest
  rn_created_at :: f64
  rn_stage :: Stage
  rn_started_at :: "f64 option"
  rn_finished_at :: "f64 option"
  rn_seconds_left :: "f64 option"
  rn_error :: "string option"
  rn_result :: "LabPayload option"
  rn_label :: string
  rn_rules :: "MarketRules option"

definition run_active :: "SimulationRun \<Rightarrow> bool" where
  "run_active run \<longleftrightarrow> rn_stage run \<in> {WaitingStage, RecordingStage, SimulatingStage}"

type_synonym CacheKey = "string option \<times> string \<times> f64 \<times> string"
type_synonym LimitKey = "string \<times> string"

record SimLab =
  sl_settings :: Settings
  sl_catalog :: MarketCatalog
  sl_library :: "(string, string) dict"
  sl_runs :: "(string, SimulationRun) dict"
  sl_waiting :: "string list"
  sl_history :: "(LimitKey, f64 list) dict"
  sl_cache :: "(CacheKey, LabPayload) dict"
  sl_queue :: "string list"
  sl_stopping :: bool

definition simlab_init :: "Settings \<Rightarrow> (string, string) dict \<Rightarrow> SimLab" where
  "simlab_init settings library =
     \<lparr> sl_settings = settings, sl_catalog = catalog_init (s_lab_market_cache_sec settings), sl_library = library, sl_runs = [],
       sl_waiting = [], sl_history = [], sl_cache = [], sl_queue = [], sl_stopping = False \<rparr>"

section \<open>Validation\<close>

definition strategy_of :: "string \<Rightarrow> StrategyName option" where
  "strategy_of s = dict_get [(''pure_mm'', pure_mm), (''inventory_skew'', inventory_skew), (''volatility_spread'', volatility_spread)] s"

definition fill_model_of :: "string \<Rightarrow> LabFillModel option" where
  "fill_model_of s =
     dict_get [(''full_cross_fill'', BookFill FULL_CROSS), (''partial_fill'', BookFill PARTIAL),
               (''latency_prob_fill'', BookFill LATENCY_PROB), (''calibrated_fill'', BookFill CALIBRATED), (''trade_fill'', TradeFill)] s"

text \<open>What the exchange client answers when the market list has to be loaded, and the clock around it.\<close>

record MarketAnswer =
  ma_markets :: "(string, Market) dict res"
  ma_before :: f64
  ma_after :: f64

definition or_empty :: "string option \<Rightarrow> string" where
  "or_empty s = (case s of None \<Rightarrow> [] | Some t \<Rightarrow> t)"

definition validate_live :: "MarketAnswer \<Rightarrow> SimulationRequest \<Rightarrow> SimLab \<Rightarrow> SimLab \<times> (LabRefused + MarketRules option \<times> string)" where
  "validate_live answer request lab =
     (case (rq_duration_sec request, Option.bind (rq_exchange request) (dict_get LAB_EXCHANGES)) of
        (Some duration, Some exchange) \<Rightarrow>
          if \<not> (fst DURATION_RANGE \<le> duration \<and> duration \<le> snd DURATION_RANGE) then (lab, Inl invalid)
          else
            (case catalog_rules (ma_markets answer) (ma_before answer) (ma_after answer) (lx_id exchange)
                    (or_empty (rq_symbol request)) (sl_catalog lab) of
               (catalog, found) \<Rightarrow>
                 (lab\<lparr> sl_catalog := catalog \<rparr>,
                  case found of
                    Inr (Some rules) \<Rightarrow> Inr (Some rules, lx_label exchange @ '' '' @ or_empty (rq_symbol request) @ '', live'')
                  | _ \<Rightarrow> Inl invalid))
      | _ \<Rightarrow> (lab, Inl invalid))"

definition validate :: "MarketAnswer \<Rightarrow> SimulationRequest \<Rightarrow> SimLab \<Rightarrow> SimLab \<times> (LabRefused + MarketRules option \<times> string)" where
  "validate answer request lab =
     (if strategy_of (rq_strategy request) = None \<or> fill_model_of (rq_fill_model request) = None
         \<or> \<not> (fst SPREAD_RANGE \<le> rq_spread_bps request \<and> rq_spread_bps request \<le> snd SPREAD_RANGE)
      then (lab, Inl invalid)
      else
        (case rq_source request of
           BundledSource \<Rightarrow>
             (lab, case dict_get (sl_library lab) (or_empty (rq_bundle_id request)) of
                     None \<Rightarrow> Inl invalid
                   | Some label \<Rightarrow> Inr (None, label))
         | LiveSource \<Rightarrow> validate_live answer request lab))"

section \<open>Limits\<close>

text \<open>\<open>run.finished_at or run.created_at\<close>: a finishing time of zero counts as none.\<close>

definition kept_since :: "SimulationRun \<Rightarrow> f64" where
  "kept_since run = (case truthy (rn_finished_at run) of Some t \<Rightarrow> t | None \<Rightarrow> rn_created_at run)"

definition prune :: "f64 \<Rightarrow> SimLab \<Rightarrow> SimLab" where
  "prune now lab =
     (let keep_sec = s_lab_keep_hours (sl_settings lab) * HOUR
      in lab\<lparr> sl_runs := filter (\<lambda>(k, run). run_active run \<or> \<not> now - kept_since run > keep_sec) (sl_runs lab),
              sl_history := filter (\<lambda>(k, stamps). stamps \<noteq> [])
                (map (\<lambda>(k, stamps). (k, dropWhile (\<lambda>t. now - t > HOUR) stamps)) (sl_history lab)) \<rparr>)"

fun check_hourly :: "(LimitKey, f64 list) dict \<Rightarrow> LimitKey list \<Rightarrow> int \<Rightarrow> f64 \<Rightarrow> LabRefused option" where
  "check_hourly history [] limit now = None"
| "check_hourly history (k # ks) limit now =
     (case dict_get_or history k [] of
        [] \<Rightarrow> check_hourly history ks limit now
      | first # rest \<Rightarrow>
          if int (length (first # rest)) \<ge> limit
          then Some \<lparr> rf_status = 429, rf_limit = ''per_hour'', rf_retry_after_sec = Some (first + HOUR - now), rf_run_id = None \<rparr>
          else check_hourly history ks limit now)"

fun oldest_finished :: "int \<Rightarrow> SimulationRun list \<Rightarrow> string list" where
  "oldest_finished excess [] = []"
| "oldest_finished excess (run # runs) =
     (if excess \<le> 0 then []
      else if \<not> run_active run then rn_run_id run # oldest_finished (excess - 1) runs
      else oldest_finished excess runs)"

definition own_runs :: "string \<Rightarrow> SimLab \<Rightarrow> SimulationRun list" where
  "own_runs visitor_id lab = filter (\<lambda>run. rn_visitor_id run = visitor_id) (map snd (sl_runs lab))"

definition keep_newest :: "string \<Rightarrow> SimLab \<Rightarrow> SimLab" where
  "keep_newest visitor_id lab =
     (let own = sort_key rn_created_at (own_runs visitor_id lab);
          dropped = oldest_finished (int (length own) - s_lab_runs_kept (sl_settings lab)) own
      in lab\<lparr> sl_runs := filter (\<lambda>(k, run). k \<notin> set dropped) (sl_runs lab) \<rparr>)"

section \<open>Submitting\<close>

definition limit_keys :: "string \<Rightarrow> string \<Rightarrow> LabSource \<Rightarrow> LimitKey list" where
  "limit_keys visitor_id address source =
     (case source of
        LiveSource \<Rightarrow> [(''visitor-live'', visitor_id), (''address-live'', address)]
      | BundledSource \<Rightarrow> [(''visitor-bundled'', visitor_id), (''address-bundled'', address)])"

definition hourly_limit :: "Settings \<Rightarrow> LabSource \<Rightarrow> int" where
  "hourly_limit st source =
     (case source of LiveSource \<Rightarrow> s_lab_runs_per_hour st | BundledSource \<Rightarrow> s_lab_bundled_runs_per_hour st)"

definition record_stamps :: "LimitKey list \<Rightarrow> f64 \<Rightarrow> SimLab \<Rightarrow> SimLab" where
  "record_stamps ks now lab =
     lab\<lparr> sl_history := fold (\<lambda>k history. dict_set k (dict_get_or history k [] @ [now]) history) ks (sl_history lab) \<rparr>"

definition active_run :: "string \<Rightarrow> SimLab \<Rightarrow> SimulationRun option" where
  "active_run visitor_id lab = find (\<lambda>run. rn_visitor_id run = visitor_id \<and> run_active run) (map snd (sl_runs lab))"

definition new_run :: "string \<Rightarrow> string \<Rightarrow> SimulationRequest \<Rightarrow> f64 \<Rightarrow> MarketRules option \<Rightarrow> string \<Rightarrow> SimulationRun" where
  "new_run run_id visitor_id request now rules label =
     \<lparr> rn_run_id = run_id, rn_visitor_id = visitor_id, rn_request = request, rn_created_at = now, rn_stage = WaitingStage,
       rn_started_at = None, rn_finished_at = None, rn_seconds_left = None, rn_error = None, rn_result = None,
       rn_label = label, rn_rules = rules \<rparr>"

text \<open>The critical section: the checks in their order, then the new run.\<close>

definition refusal :: "string \<Rightarrow> string \<Rightarrow> LabSource \<Rightarrow> f64 \<Rightarrow> SimLab \<Rightarrow> LabRefused option" where
  "refusal visitor_id address source now lab =
     (case active_run visitor_id lab of
        Some run \<Rightarrow> Some ((refuse 409 ''active_run'')\<lparr> rf_run_id := Some (rn_run_id run) \<rparr>)
      | None \<Rightarrow>
          (case check_hourly (sl_history lab) (limit_keys visitor_id address source) (hourly_limit (sl_settings lab) source) now of
             Some refused \<Rightarrow> Some refused
           | None \<Rightarrow>
               if source = LiveSource \<and> int (length (sl_waiting lab)) \<ge> s_lab_queue_size (sl_settings lab)
               then Some ((refuse 429 ''queue_full'')\<lparr> rf_retry_after_sec := Some (lit 120) \<rparr>)
               else None))"

definition enter_run :: "string \<Rightarrow> string \<Rightarrow> SimulationRun \<Rightarrow> f64 \<Rightarrow> SimLab \<Rightarrow> SimLab" where
  "enter_run visitor_id address run now lab =
     (let source = rq_source (rn_request run);
          lab = lab\<lparr> sl_runs := dict_set (rn_run_id run) run (sl_runs lab) \<rparr>;
          lab = keep_newest visitor_id (record_stamps (limit_keys visitor_id address source) now lab)
      in if source = LiveSource
         then lab\<lparr> sl_waiting := sl_waiting lab @ [rn_run_id run], sl_queue := sl_queue lab @ [rn_run_id run] \<rparr>
         else lab)"

definition update_run :: "string \<Rightarrow> (SimulationRun \<Rightarrow> SimulationRun) \<Rightarrow> SimLab \<Rightarrow> SimLab" where
  "update_run run_id f lab =
     (case dict_get (sl_runs lab) run_id of
        None \<Rightarrow> lab
      | Some run \<Rightarrow> lab\<lparr> sl_runs := dict_set run_id (f run) (sl_runs lab) \<rparr>)"

definition complete_run :: "f64 \<Rightarrow> LabPayload \<Rightarrow> SimulationRun \<Rightarrow> SimulationRun" where
  "complete_run now payload run =
     run\<lparr> rn_result := Some payload, rn_stage := DoneStage, rn_seconds_left := None, rn_finished_at := Some now \<rparr>"

definition fail_run :: "f64 \<Rightarrow> string \<Rightarrow> SimulationRun \<Rightarrow> SimulationRun" where
  "fail_run now message run =
     run\<lparr> rn_error := Some message, rn_stage := FailedStage, rn_seconds_left := None, rn_finished_at := Some now \<rparr>"

definition cache_key :: "SimulationRequest \<Rightarrow> CacheKey" where
  "cache_key r = (rq_bundle_id r, rq_strategy r, rq_spread_bps r, rq_fill_model r)"

text \<open>The start of \<open>_finish_bundled\<close>, up to the work in the pool.\<close>

definition begin_bundled :: "f64 \<Rightarrow> string \<Rightarrow> SimulationRequest \<Rightarrow> SimLab \<Rightarrow> SimLab" where
  "begin_bundled now run_id request lab =
     update_run run_id (\<lambda>run.
       let run = run\<lparr> rn_started_at := Some now \<rparr>
       in (case dict_get (sl_cache lab) (cache_key request) of
             Some payload \<Rightarrow> complete_run now payload run
           | None \<Rightarrow> run\<lparr> rn_stage := SimulatingStage \<rparr>)) lab"

definition admit :: "string \<Rightarrow> string \<Rightarrow> SimulationRequest \<Rightarrow> MarketRules option \<Rightarrow> string \<Rightarrow> f64 \<Rightarrow> string \<Rightarrow>
    SimLab \<Rightarrow> SimLab \<times> (LabRefused + string)" where
  "admit visitor_id address request rules label now run_id lab0 =
     (let lab = prune now lab0 in
      case refusal visitor_id address (rq_source request) now lab of
        Some refused \<Rightarrow> (lab, Inl refused)
      | None \<Rightarrow>
          let lab = enter_run visitor_id address (new_run run_id visitor_id request now rules label) now lab
          in (if rq_source request = BundledSource then begin_bundled now run_id request lab else lab, Inr run_id))"

definition submit :: "string \<Rightarrow> string \<Rightarrow> SimulationRequest \<Rightarrow> MarketAnswer \<Rightarrow> f64 \<Rightarrow> string \<Rightarrow> SimLab \<Rightarrow> SimLab \<times> (LabRefused + string)" where
  "submit visitor_id address request answer now run_id lab =
     (case validate answer request lab of
        (lab, Inl refused) \<Rightarrow> (lab, Inl refused)
      | (lab, Inr (rules, label)) \<Rightarrow> admit visitor_id address request rules label now run_id lab)"

section \<open>Running\<close>

text \<open>What the service is given: the engine's surroundings, the recordings shipped with it, the text of an exception.\<close>

record ServiceEnv =
  sv_sim :: SimEnv
  sv_load :: "string option \<Rightarrow> Recording res"
  sv_err_text :: "py_error \<Rightarrow> string"

definition quote_currency :: "string \<Rightarrow> string res" where
  "quote_currency symbol =
     (case dropWhile (\<lambda>c. c \<noteq> CHR ''/'') symbol of
        [] \<Rightarrow> raise_error IndexError
      | slash # rest \<Rightarrow> ok (takeWhile (\<lambda>c. c \<noteq> CHR ''/'') rest))"

definition simulate_dict :: "ServiceEnv \<Rightarrow> Recording \<Rightarrow> SimulationRequest \<Rightarrow> LabPayload res" where
  "simulate_dict env recording request =
     (case (strategy_of (rq_strategy request), fill_model_of (rq_fill_model request)) of
        (Some strategy, Some fm) \<Rightarrow>
          let settings = \<lparr> ss_strategy = strategy, ss_spread_bps = rq_spread_bps request, ss_fill_model = fm \<rparr>
          in rbind (simulate (sv_sim env) recording settings) (\<lambda>r.
             rbind (quote_currency (rc_symbol recording)) (\<lambda>quote_ccy.
               ok \<lparr> py_result = r\<lparr> lr_summary := summarize (sv_sim env) r settings quote_ccy \<rparr>,
                    py_exchange = rc_exchange recording, py_symbol = rc_symbol recording, py_live = rc_live recording,
                    py_label = rc_label recording, py_started_at = rc_started_at recording,
                    py_price_step = mr_price_step (rc_rules recording), py_amount_step = mr_amount_step (rc_rules recording) \<rparr>))
      | _ \<Rightarrow> raise_error simulation_failed)"

definition bundled_payload :: "ServiceEnv \<Rightarrow> SimulationRequest \<Rightarrow> LabPayload res" where
  "bundled_payload env request = rbind (sv_load env (rq_bundle_id request)) (\<lambda>recording. simulate_dict env recording request)"

definition end_bundled :: "ServiceEnv \<Rightarrow> f64 \<Rightarrow> string \<Rightarrow> SimLab \<Rightarrow> SimLab" where
  "end_bundled env now run_id lab =
     (case dict_get (sl_runs lab) run_id of
        None \<Rightarrow> lab
      | Some run \<Rightarrow>
          (case bundled_payload env (rn_request run) of
             Inl e \<Rightarrow> update_run run_id (fail_run now (sv_err_text env e)) lab
           | Inr payload \<Rightarrow>
               update_run run_id (complete_run now payload)
                 (lab\<lparr> sl_cache := dict_set (cache_key (rn_request run)) payload (sl_cache lab) \<rparr>)))"

definition duration_of :: "SimulationRequest \<Rightarrow> f64" where
  "duration_of r = (case rq_duration_sec r of None \<Rightarrow> 0 | Some d \<Rightarrow> float_of_int d)"

text \<open>A worker takes the next id from the queue.\<close>

definition worker_take :: "f64 \<Rightarrow> SimLab \<Rightarrow> SimLab" where
  "worker_take now lab =
     (case sl_queue lab of
        [] \<Rightarrow> lab
      | run_id # rest \<Rightarrow>
          let lab = lab\<lparr> sl_queue := rest, sl_waiting := remove1 run_id (sl_waiting lab) \<rparr>
          in (case dict_get (sl_runs lab) run_id of
                None \<Rightarrow> lab
              | Some run \<Rightarrow>
                  if \<not> run_active run then lab
                  else update_run run_id (\<lambda>run. run\<lparr> rn_stage := RecordingStage, rn_started_at := Some now,
                                                     rn_seconds_left := Some (duration_of (rn_request run)) \<rparr>) lab))"

definition progress_run :: "f64 \<Rightarrow> string \<Rightarrow> SimLab \<Rightarrow> SimLab" where
  "progress_run seconds_left run_id lab = update_run run_id (\<lambda>run. run\<lparr> rn_seconds_left := Some seconds_left \<rparr>) lab"

definition end_recording :: "ServiceEnv \<Rightarrow> f64 \<Rightarrow> string \<Rightarrow> Recording res \<Rightarrow> SimLab \<Rightarrow> SimLab" where
  "end_recording env now run_id recorded lab =
     (case recorded of
        Inl e \<Rightarrow> update_run run_id (fail_run now (sv_err_text env e)) lab
      | Inr recording \<Rightarrow> update_run run_id (\<lambda>run. run\<lparr> rn_stage := SimulatingStage, rn_seconds_left := None \<rparr>) lab)"

definition end_live :: "ServiceEnv \<Rightarrow> f64 \<Rightarrow> string \<Rightarrow> Recording \<Rightarrow> SimLab \<Rightarrow> SimLab" where
  "end_live env now run_id recording lab =
     (case dict_get (sl_runs lab) run_id of
        None \<Rightarrow> lab
      | Some run \<Rightarrow>
          (case simulate_dict env recording (rn_request run) of
             Inl e \<Rightarrow> update_run run_id (fail_run now (sv_err_text env e)) lab
           | Inr payload \<Rightarrow> update_run run_id (complete_run now payload) lab))"

section \<open>Reading\<close>

record RunSummary =
  su_run :: SimulationRun
  su_queue_position :: "nat option"
  su_seconds_left :: "f64 option"

fun index_of :: "'a \<Rightarrow> 'a list \<Rightarrow> nat option" where
  "index_of x [] = None"
| "index_of x (y # ys) = (if x = y then Some 0 else map_option Suc (index_of x ys))"

definition summary :: "SimLab \<Rightarrow> SimulationRun \<Rightarrow> RunSummary" where
  "summary lab run =
     \<lparr> su_run = run,
       su_queue_position = (if rn_stage run = WaitingStage then map_option Suc (index_of (rn_run_id run) (sl_waiting lab)) else None),
       su_seconds_left = map_option (round_digits 1) (rn_seconds_left run) \<rparr>"

definition list_runs :: "f64 \<Rightarrow> string \<Rightarrow> SimLab \<Rightarrow> SimLab \<times> RunSummary list" where
  "list_runs now visitor_id lab0 =
     (let lab = prune now lab0
      in (lab, map (summary lab) (rev (sort_key rn_created_at (rev (own_runs visitor_id lab))))))"

definition get_run :: "f64 \<Rightarrow> string \<Rightarrow> string \<Rightarrow> SimLab \<Rightarrow> SimLab \<times> RunSummary option" where
  "get_run now visitor_id run_id lab0 =
     (let lab = prune now lab0
      in (lab, case dict_get (sl_runs lab) run_id of
                 None \<Rightarrow> None
               | Some run \<Rightarrow> if rn_visitor_id run \<noteq> visitor_id then None else Some (summary lab run)))"

end
