(* ===== verification/Lab_Service_Facts.thy ===== *)
theory Lab_Service_Facts
  imports Lab_Service
begin

text \<open>
  What the simulation lab's service promises, as invariants of every sequence of its steps: the limits hold, the
  waiting line and the worker queue agree, finished runs stay as they are, and a cached result is what simulating
  again would give.
\<close>

section \<open>The steps\<close>

text \<open>
  A step happens at a time of the service's clock; an admission also tells the hourly counters it is charged to.
  The id of a new run is random, so a fresh one. Only the coroutine of a run moves it on, which the conditions on its
  stage express.
\<close>

inductive lab_step :: "ServiceEnv \<Rightarrow> f64 \<Rightarrow> LimitKey list \<Rightarrow> SimLab \<Rightarrow> SimLab \<Rightarrow> bool" for env now where
  refused: "submit visitor address request answer now run_id lab = (lab', Inl r) \<Longrightarrow> lab_step env now [] lab lab'"
| admitted: "submit visitor address request answer now run_id lab = (lab', Inr run_id') \<Longrightarrow> dict_get (sl_runs lab) run_id = None
    \<Longrightarrow> lab_step env now (limit_keys visitor address (rq_source request)) lab lab'"
| bundled: "dict_get (sl_runs lab) run_id = Some run \<Longrightarrow> rn_stage run = SimulatingStage
    \<Longrightarrow> rq_source (rn_request run) = BundledSource \<Longrightarrow> lab_step env now [] lab (end_bundled env now run_id lab)"
| taken: "lab_step env now [] lab (worker_take now lab)"
| progressed: "dict_get (sl_runs lab) run_id = Some run \<Longrightarrow> rn_stage run = RecordingStage
    \<Longrightarrow> lab_step env now [] lab (progress_run seconds_left run_id lab)"
| recorded: "dict_get (sl_runs lab) run_id = Some run \<Longrightarrow> rn_stage run = RecordingStage
    \<Longrightarrow> lab_step env now [] lab (end_recording env now run_id outcome lab)"
| simulated: "dict_get (sl_runs lab) run_id = Some run \<Longrightarrow> rn_stage run = SimulatingStage
    \<Longrightarrow> rq_source (rn_request run) = LiveSource \<Longrightarrow> lab_step env now [] lab (end_live env now run_id recording lab)"
| listed: "lab_step env now [] lab (fst (list_runs now visitor lab))"
| looked: "lab_step env now [] lab (fst (get_run now visitor run_id lab))"

inductive_cases lab_stepE: "lab_step env now ks lab lab'"

section \<open>The invariant\<close>

definition runs_ok :: "SimLab \<Rightarrow> bool" where
  "runs_ok lab \<longleftrightarrow> wf_dict (sl_runs lab) \<and> (\<forall>k run. dict_get (sl_runs lab) k = Some run \<longrightarrow> rn_run_id run = k)"

definition one_active :: "SimLab \<Rightarrow> bool" where
  "one_active lab \<longleftrightarrow> (\<forall>i j r s. dict_get (sl_runs lab) i = Some r \<longrightarrow> dict_get (sl_runs lab) j = Some s \<longrightarrow>
     run_active r \<longrightarrow> run_active s \<longrightarrow> rn_visitor_id r = rn_visitor_id s \<longrightarrow> i = j)"

definition line_ok :: "SimLab \<Rightarrow> bool" where
  "line_ok lab \<longleftrightarrow> sl_waiting lab = sl_queue lab \<and> distinct (sl_queue lab)
     \<and> int (length (sl_queue lab)) \<le> s_lab_queue_size (sl_settings lab)
     \<and> (\<forall>i. i \<in> set (sl_queue lab) \<longleftrightarrow> (\<exists>run. dict_get (sl_runs lab) i = Some run \<and> rn_stage run = WaitingStage))
     \<and> (\<forall>i run. dict_get (sl_runs lab) i = Some run \<longrightarrow> rn_stage run \<in> {WaitingStage, RecordingStage} \<longrightarrow> rq_source (rn_request run) = LiveSource)"

definition kept_ok :: "SimLab \<Rightarrow> bool" where
  "kept_ok lab \<longleftrightarrow> (\<forall>v. int (length (own_runs v lab)) \<le> s_lab_runs_kept (sl_settings lab))"

definition lab_ok :: "SimLab \<Rightarrow> bool" where
  "lab_ok lab \<longleftrightarrow> runs_ok lab \<and> one_active lab \<and> line_ok lab \<and> kept_ok lab
     \<and> 1 \<le> s_lab_runs_kept (sl_settings lab) \<and> 1 \<le> s_lab_queue_size (sl_settings lab)"

lemmas lab_ok_defs = lab_ok_def runs_ok_def one_active_def line_ok_def kept_ok_def

text \<open>Dropping entries of a dictionary.\<close>

lemma wf_dict_filter: "wf_dict d \<Longrightarrow> wf_dict (filter P d)"
  by (simp add: wf_dict_def dict_keys_def distinct_map_filter)

lemma dict_get_filter:
  "wf_dict d \<Longrightarrow> dict_get (filter P d) k = (case dict_get d k of None \<Rightarrow> None | Some v \<Rightarrow> if P (k, v) then Some v else None)"
  by (induction d) (auto simp: wf_dict_def dict_keys_def map_of_eq_None_iff split: option.split)

lemma in_runs:
  assumes "runs_ok lab"
  shows "run \<in> snd ` set (sl_runs lab) \<longleftrightarrow> dict_get (sl_runs lab) (rn_run_id run) = Some run"
proof
  assume "run \<in> snd ` set (sl_runs lab)"
  then obtain k where "(k, run) \<in> set (sl_runs lab)" by auto
  then have "dict_get (sl_runs lab) k = Some run" using assms by (simp add: runs_ok_def wf_dict_def dict_keys_def)
  then show "dict_get (sl_runs lab) (rn_run_id run) = Some run" using assms by (auto simp: runs_ok_def)
qed (force dest: map_of_SomeD)

lemma own_runs_iff: "runs_ok lab \<Longrightarrow> run \<in> set (own_runs v lab) \<longleftrightarrow> dict_get (sl_runs lab) (rn_run_id run) = Some run \<and> rn_visitor_id run = v"
  using in_runs [of lab run] by (auto simp: own_runs_def)

text \<open>
  Removing finished runs only: pruning, and keeping the newest.
\<close>

definition thinned :: "SimLab \<Rightarrow> SimLab \<Rightarrow> bool" where
  "thinned lab lab' \<longleftrightarrow> (\<exists>P history. lab' = lab\<lparr> sl_runs := filter P (sl_runs lab), sl_history := history \<rparr>
     \<and> (\<forall>k run. dict_get (sl_runs lab) k = Some run \<longrightarrow> run_active run \<longrightarrow> P (k, run)))"

lemma thinned_get:
  assumes "thinned lab lab'" and "runs_ok lab"
  shows "dict_get (sl_runs lab') k = Some run \<Longrightarrow> dict_get (sl_runs lab) k = Some run"
    and "dict_get (sl_runs lab) k = Some run \<Longrightarrow> run_active run \<Longrightarrow> dict_get (sl_runs lab') k = Some run"
  using assms by (auto simp: thinned_def runs_ok_def dict_get_filter split: option.splits if_splits)

lemma thinned_own_runs: "thinned lab lab' \<Longrightarrow> length (own_runs v lab') \<le> length (own_runs v lab)"
proof -
  have "length (filter Q (map snd (filter P d))) \<le> length (filter Q (map snd d))" for Q :: "SimulationRun \<Rightarrow> bool" and P d
    by (induction d) auto
  then show "thinned lab lab' \<Longrightarrow> length (own_runs v lab') \<le> length (own_runs v lab)"
    unfolding thinned_def own_runs_def by auto
qed

lemma waiting_is_active: "rn_stage run = WaitingStage \<Longrightarrow> run_active run"
  by (simp add: run_active_def)

lemma thinned_ok:
  assumes "thinned lab lab'" and "lab_ok lab"
  shows "lab_ok lab'"
proof -
  have runs: "runs_ok lab" using assms(2) by (simp add: lab_ok_def)
  note get = thinned_get [OF assms(1) runs]
  have same: "sl_waiting lab' = sl_waiting lab" "sl_queue lab' = sl_queue lab" "sl_settings lab' = sl_settings lab"
    using assms(1) by (auto simp: thinned_def)
  have "runs_ok lab'" using runs get(1) assms(1) by (auto simp: runs_ok_def thinned_def wf_dict_filter)
  moreover have "one_active lab'" using assms(2) get(1) unfolding lab_ok_def one_active_def by blast
  moreover have "line_ok lab'"
    using assms(2) get waiting_is_active unfolding lab_ok_def line_ok_def same by blast
  moreover have "kept_ok lab'"
    using assms(2) thinned_own_runs [OF assms(1)] unfolding lab_ok_def kept_ok_def same
    by (meson of_nat_mono order_trans)
  ultimately show ?thesis using assms(2) by (simp add: lab_ok_def same)
qed

lemma prune_thinned: "thinned lab (prune now lab)"
  unfolding thinned_def prune_def Let_def
  by (intro exI [of _ "\<lambda>(k, run). run_active run \<or> \<not> now - kept_since run > s_lab_keep_hours (sl_settings lab) * HOUR"]
      exI [of _ "filter (\<lambda>(k, stamps). stamps \<noteq> []) (map (\<lambda>(k, stamps). (k, dropWhile (\<lambda>t. now - t > HOUR) stamps)) (sl_history lab))"]) auto

lemma oldest_finished_from: "k \<in> set (oldest_finished e rs) \<Longrightarrow> \<exists>run\<in>set rs. rn_run_id run = k \<and> \<not> run_active run"
  by (induction e rs rule: oldest_finished.induct) (auto split: if_splits)

lemma keep_newest_thinned:
  assumes "runs_ok lab"
  shows "thinned lab (keep_newest v lab)"
proof -
  define own where "own = sort_key rn_created_at (own_runs v lab)"
  define dropped where "dropped = oldest_finished (int (length own) - s_lab_runs_kept (sl_settings lab)) own"
  have "k \<notin> set dropped" if "dict_get (sl_runs lab) k = Some run" "run_active run" for k run
  proof
    assume "k \<in> set dropped"
    then obtain other where "other \<in> set (own_runs v lab)" "rn_run_id other = k" "\<not> run_active other"
      using oldest_finished_from unfolding dropped_def own_def by fastforce
    then show False using that own_runs_iff [OF assms] by simp
  qed
  then show ?thesis
    unfolding thinned_def keep_newest_def Let_def own_def [symmetric] dropped_def [symmetric]
    by (intro exI [of _ "\<lambda>(k, run). k \<notin> set dropped"] exI [of _ "sl_history lab"]) auto
qed

section \<open>Moving a run on\<close>

text \<open>What a coroutine does to its run: it never takes a finished one up again, nor puts one back in line.\<close>

definition moves_on :: "(SimulationRun \<Rightarrow> SimulationRun) \<Rightarrow> SimulationRun \<Rightarrow> bool" where
  "moves_on f run \<longleftrightarrow> rn_run_id (f run) = rn_run_id run \<and> rn_visitor_id (f run) = rn_visitor_id run
     \<and> rn_request (f run) = rn_request run \<and> run_active run \<and> rn_stage (f run) \<noteq> WaitingStage
     \<and> (rn_stage (f run) = RecordingStage \<longrightarrow> rq_source (rn_request run) = LiveSource)"

lemma update_run_other [simp]:
  "sl_waiting (update_run i f lab) = sl_waiting lab" "sl_queue (update_run i f lab) = sl_queue lab"
  "sl_settings (update_run i f lab) = sl_settings lab" "sl_history (update_run i f lab) = sl_history lab"
  "sl_cache (update_run i f lab) = sl_cache lab"
  by (simp_all add: update_run_def split: option.split)

lemma update_run_get [simp]:
  "dict_get (sl_runs (update_run i f lab)) = (dict_get (sl_runs lab))(i := map_option f (dict_get (sl_runs lab) i))"
  by (auto simp: update_run_def fun_eq_iff split: option.split)

lemma dict_set_map: "dict_get d k = Some v \<Longrightarrow> wf_dict d \<Longrightarrow> dict_set k w d = map (\<lambda>(j, x). if j = k then (j, w) else (j, x)) d"
proof (induction d)
  case (Cons e d)
  obtain j x where e: "e = (j, x)" by fastforce
  show ?case
  proof (cases "j = k")
    case True
    then have "k \<notin> fst ` set d" using Cons.prems e by (auto simp: wf_dict_def dict_keys_def)
    then have "map (\<lambda>(j, x). if j = k then (j, w) else (j, x)) d = d" by (intro map_idI) force
    then show ?thesis using True e by (simp add: dict_set_def)
  next
    case False
    then have "dict_set k w d = map (\<lambda>(j, x). if j = k then (j, w) else (j, x)) d"
      using Cons e by (auto simp: wf_dict_def dict_keys_def)
    then show ?thesis using False e by (simp add: dict_set_def)
  qed
qed simp

lemma update_run_own:
  assumes "runs_ok lab" and "\<And>run. dict_get (sl_runs lab) i = Some run \<Longrightarrow> rn_visitor_id (f run) = rn_visitor_id run"
  shows "length (own_runs v (update_run i f lab)) = length (own_runs v lab)"
proof (cases "dict_get (sl_runs lab) i")
  case (Some run)
  have wf: "wf_dict (sl_runs lab)" using assms(1) by (simp add: runs_ok_def)
  have count: "length (filter (\<lambda>r. rn_visitor_id r = v) (map (snd \<circ> (\<lambda>(j, x). if j = i then (j, f run) else (j, x))) d))
      = length (filter (\<lambda>r. rn_visitor_id r = v) (map snd d))"
    if "\<And>x. (i, x) \<in> set d \<Longrightarrow> x = run" for d
    using that
  proof (induction d)
    case (Cons e d)
    then show ?case using assms(2) [OF Some] by (cases e) auto
  qed simp
  have "(i, x) \<in> set (sl_runs lab) \<Longrightarrow> x = run" for x
    using Some wf by (auto simp: wf_dict_def dict_keys_def)
  from count [OF this] show ?thesis
    using Some dict_set_map [OF Some wf, of "f run"] by (simp add: update_run_def own_runs_def)
qed (simp add: update_run_def)

lemma update_run_ok:
  assumes ok: "lab_ok lab" and run: "dict_get (sl_runs lab) i = Some run" and f: "moves_on f run" and line: "rn_stage run \<noteq> WaitingStage"
  shows "lab_ok (update_run i f lab)"
proof -
  let ?lab = "update_run i f lab"
  have runs: "runs_ok lab" using ok by (simp add: lab_ok_def)
  have "wf_dict (sl_runs ?lab)" using runs run by (simp add: update_run_def runs_ok_def)
  then have "runs_ok ?lab" using runs run f by (auto simp: runs_ok_def moves_on_def)
  moreover have "one_active ?lab"
    using ok run f unfolding lab_ok_def one_active_def by (auto simp: moves_on_def split: if_splits)
  moreover have "line_ok ?lab"
    using ok run f line unfolding lab_ok_def line_ok_def by (auto simp: moves_on_def split: if_splits)
  moreover have "kept_ok ?lab"
    using ok update_run_own [OF runs, of i f] run f unfolding lab_ok_def kept_ok_def by (simp add: moves_on_def)
  ultimately show ?thesis using ok by (simp add: lab_ok_def)
qed

section \<open>Entering a run\<close>

lemma oldest_finished_take: "oldest_finished e rs = map rn_run_id (take (nat e) (filter (\<lambda>r. \<not> run_active r) rs))"
proof (induction e rs rule: oldest_finished.induct)
  case (2 e run runs)
  show ?case
  proof (cases "e \<le> 0")
    case False
    then have "nat e = Suc (nat (e - 1))" by simp
    then show ?thesis using 2 False by simp
  qed simp
qed simp

lemma run_keys: "runs_ok lab \<Longrightarrow> (k, run) \<in> set (sl_runs lab) \<Longrightarrow> rn_run_id run = k"
  by (auto simp: runs_ok_def wf_dict_def dict_keys_def)

lemma distinct_runs:
  assumes "runs_ok lab"
  shows "distinct (map rn_run_id (own_runs v lab))"
proof -
  have "map rn_run_id (map snd (sl_runs lab)) = map fst (sl_runs lab)"
    unfolding map_map using run_keys [OF assms] by (intro map_cong) auto
  then have "distinct (map rn_run_id (map snd (sl_runs lab)))"
    using assms by (simp only: runs_ok_def wf_dict_def dict_keys_def)
  then show ?thesis unfolding own_runs_def by (metis distinct_map_filter)
qed

lemma all_equal_short:
  assumes "distinct xs" and "\<And>x y. x \<in> set xs \<Longrightarrow> y \<in> set xs \<Longrightarrow> x = y"
  shows "length xs \<le> 1"
proof (rule ccontr)
  assume "\<not> length xs \<le> 1"
  then obtain a b rest where xs: "xs = a # b # rest" by (cases xs; cases "tl xs") simp_all
  then have "a = b" by (intro assms(2)) simp_all
  then show False using assms(1) xs by simp
qed

lemma few_active:
  assumes "runs_ok lab" and "one_active lab"
  shows "length (filter run_active (own_runs v lab)) \<le> 1"
proof (rule all_equal_short)
  show "distinct (filter run_active (own_runs v lab))" using distinct_runs [OF assms(1), of v] by (simp add: distinct_map)
  fix x y assume "x \<in> set (filter run_active (own_runs v lab))" "y \<in> set (filter run_active (own_runs v lab))"
  then have x: "dict_get (sl_runs lab) (rn_run_id x) = Some x" "dict_get (sl_runs lab) (rn_run_id y) = Some y"
      and act: "run_active x" "run_active y" "rn_visitor_id x = rn_visitor_id y"
    using own_runs_iff [OF assms(1)] by simp_all
  have same: "rn_run_id x = rn_run_id y" by (rule assms(2) [unfolded one_active_def, rule_format, OF x act])
  have "Some x = Some y" using x(1) unfolding same x(2) by (rule sym)
  then show "x = y" by simp
qed

lemma own_runs_dropped:
  assumes "\<And>k run. (k, run) \<in> set d \<Longrightarrow> rn_run_id run = k"
  shows "filter Q (map snd (filter (\<lambda>(k, run). k \<notin> A) d)) = filter (\<lambda>r. rn_run_id r \<notin> A) (filter Q (map snd d))"
  using assms
proof (induction d)
  case (Cons e d)
  obtain k run where e: "e = (k, run)" by fastforce
  have "rn_run_id run = k" by (rule Cons.prems) (simp add: e)
  moreover have "filter Q (map snd (filter (\<lambda>(k, run). k \<notin> A) d)) = filter (\<lambda>r. rn_run_id r \<notin> A) (filter Q (map snd d))"
    by (rule Cons.IH) (rule Cons.prems, simp)
  ultimately show ?case using e by simp
qed simp

lemma length_filter_complement: "length (filter P xs) + length (filter (\<lambda>x. \<not> P x) xs) = length xs"
  by (rule sum_length_filter_compl)

lemma keep_newest_count:
  assumes "runs_ok lab" and "one_active lab" and "1 \<le> s_lab_runs_kept (sl_settings lab)"
  shows "int (length (own_runs v (keep_newest v lab))) \<le> s_lab_runs_kept (sl_settings lab)"
proof -
  define own where "own = sort_key rn_created_at (own_runs v lab)"
  define excess where "excess = int (length own) - s_lab_runs_kept (sl_settings lab)"
  define dropped where "dropped = oldest_finished excess own"
  have len: "length own = length (own_runs v lab)" by (simp add: own_def)
  have ids: "distinct (map rn_run_id own)"
  proof -
    have "mset (map rn_run_id own) = mset (map rn_run_id (own_runs v lab))" by (simp add: own_def)
    then show ?thesis using distinct_runs [OF assms(1), of v] mset_eq_imp_distinct_iff by blast
  qed
  have finished: "length own \<le> length (filter (\<lambda>r. \<not> run_active r) own) + 1"
  proof -
    have "mset (filter run_active own) = mset (filter run_active (own_runs v lab))" by (simp add: own_def)
    then have "length (filter run_active own) \<le> 1" using few_active [OF assms(1,2), of v] by (metis size_mset)
    then show ?thesis using length_filter_complement [of run_active own] by linarith
  qed
  have "length dropped = min (nat excess) (length (filter (\<lambda>r. \<not> run_active r) own))"
    by (simp add: dropped_def oldest_finished_take)
  moreover have dropped: "distinct dropped" "set dropped \<subseteq> rn_run_id ` set own"
    using distinct_take [OF distinct_map_filter [OF ids], of "nat excess" "\<lambda>r. \<not> run_active r"]
      set_take_subset [of "nat excess" "filter (\<lambda>r. \<not> run_active r) own"]
    unfolding dropped_def oldest_finished_take take_map by auto
  moreover have "length (filter (\<lambda>r. rn_run_id r \<in> set dropped) own) = length dropped"
  proof -
    have "length (filter (\<lambda>r. rn_run_id r \<in> set dropped) own) = length (filter (\<lambda>i. i \<in> set dropped) (map rn_run_id own))"
      by (simp add: filter_map comp_def)
    also have "\<dots> = card (set (filter (\<lambda>i. i \<in> set dropped) (map rn_run_id own)))"
      using ids by (intro distinct_card [symmetric] distinct_filter)
    also have "set (filter (\<lambda>i. i \<in> set dropped) (map rn_run_id own)) = set dropped" using dropped(2) by auto
    finally show ?thesis using dropped(1) by (simp add: distinct_card)
  qed
  moreover have "length (own_runs v (keep_newest v lab)) = length (filter (\<lambda>r. rn_run_id r \<notin> set dropped) own)"
  proof -
    have "own_runs v (keep_newest v lab) = filter (\<lambda>r. rn_visitor_id r = v) (map snd (filter (\<lambda>(k, run). k \<notin> set dropped) (sl_runs lab)))"
      by (simp add: own_runs_def keep_newest_def Let_def own_def excess_def dropped_def)
    also have "\<dots> = filter (\<lambda>r. rn_run_id r \<notin> set dropped) (own_runs v lab)"
      unfolding own_runs_def by (rule own_runs_dropped) (rule run_keys [OF assms(1)])
    finally have "mset (own_runs v (keep_newest v lab)) = mset (filter (\<lambda>r. rn_run_id r \<notin> set dropped) own)"
      by (simp add: own_def)
    then show ?thesis by (metis size_mset)
  qed
  ultimately have "length (own_runs v (keep_newest v lab)) + min (nat excess) (length (filter (\<lambda>r. \<not> run_active r) own)) = length own"
    using length_filter_complement [of "\<lambda>r. rn_run_id r \<in> set dropped" own] by linarith
  then show ?thesis using finished assms(3) unfolding excess_def min_def by (auto split: if_splits)
qed

lemma runs_ok_frame: "sl_runs lab' = sl_runs lab \<Longrightarrow> runs_ok lab' = runs_ok lab"
  and one_active_frame: "sl_runs lab' = sl_runs lab \<Longrightarrow> one_active lab' = one_active lab"
  and own_runs_frame: "sl_runs lab' = sl_runs lab \<Longrightarrow> own_runs v lab' = own_runs v lab"
  by (simp_all add: runs_ok_def one_active_def own_runs_def)

lemma own_runs_other:
  assumes "rn_visitor_id run \<noteq> v" and "dict_get (sl_runs lab) i = None"
  shows "own_runs v (lab\<lparr> sl_runs := dict_set i run (sl_runs lab) \<rparr>) = own_runs v lab"
proof -
  have "dict_set i run d = d @ [(i, run)]" if "dict_get d i = None" for d
    using that by (induction d) (auto simp: dict_set_def split: if_splits)
  then show ?thesis using assms by (simp add: own_runs_def)
qed

lemma active_run_None:
  "runs_ok lab \<Longrightarrow> active_run v lab = None \<Longrightarrow> dict_get (sl_runs lab) i = Some r \<Longrightarrow> rn_visitor_id r = v \<Longrightarrow> \<not> run_active r"
  by (force simp: active_run_def find_None_iff dest: map_of_SomeD)

text \<open>The new run in the dictionary, the counters charged, the oldest finished runs of the visitor gone.\<close>

definition entered :: "LimitKey list \<Rightarrow> SimulationRun \<Rightarrow> f64 \<Rightarrow> SimLab \<Rightarrow> SimLab" where
  "entered ks run now lab =
     keep_newest (rn_visitor_id run) (record_stamps ks now (lab\<lparr> sl_runs := dict_set (rn_run_id run) run (sl_runs lab) \<rparr>))"

lemma record_stamps_other [simp]:
  "sl_runs (record_stamps ks now lab) = sl_runs lab" "sl_waiting (record_stamps ks now lab) = sl_waiting lab"
  "sl_queue (record_stamps ks now lab) = sl_queue lab" "sl_settings (record_stamps ks now lab) = sl_settings lab"
  "sl_cache (record_stamps ks now lab) = sl_cache lab"
  by (simp_all add: record_stamps_def)

lemma keep_newest_other [simp]:
  "sl_waiting (keep_newest v lab) = sl_waiting lab" "sl_queue (keep_newest v lab) = sl_queue lab"
  "sl_settings (keep_newest v lab) = sl_settings lab" "sl_history (keep_newest v lab) = sl_history lab"
  "sl_cache (keep_newest v lab) = sl_cache lab"
  by (simp_all add: keep_newest_def Let_def)

lemma entered_facts:
  assumes ok: "lab_ok lab" and fresh: "dict_get (sl_runs lab) (rn_run_id run) = None" and act: "run_active run"
    and none: "active_run (rn_visitor_id run) lab = None"
  shows "runs_ok (entered ks run now lab)" "one_active (entered ks run now lab)" "kept_ok (entered ks run now lab)"
    and "dict_get (sl_runs (entered ks run now lab)) (rn_run_id run) = Some run"
    and "dict_get (sl_runs (entered ks run now lab)) i = Some r \<Longrightarrow> i \<noteq> rn_run_id run \<Longrightarrow> dict_get (sl_runs lab) i = Some r"
    and "dict_get (sl_runs lab) i = Some r \<Longrightarrow> run_active r \<Longrightarrow> dict_get (sl_runs (entered ks run now lab)) i = Some r"
proof -
  define A where "A = record_stamps ks now (lab\<lparr> sl_runs := dict_set (rn_run_id run) run (sl_runs lab) \<rparr>)"
  have D: "entered ks run now lab = keep_newest (rn_visitor_id run) A" by (simp add: entered_def A_def)
  have runs: "runs_ok lab" and settings: "sl_settings A = sl_settings lab" using ok by (simp_all add: lab_ok_def A_def)
  have getA: "dict_get (sl_runs A) = (dict_get (sl_runs lab))(rn_run_id run \<mapsto> run)" by (simp add: A_def fun_eq_iff)
  have "wf_dict (sl_runs A)" using runs by (simp add: A_def runs_ok_def)
  then have A: "runs_ok A" using runs by (auto simp: runs_ok_def getA)
  have one: "one_active A"
    using ok active_run_None [OF runs none] unfolding lab_ok_def one_active_def getA by (auto split: if_splits)
  note thin = keep_newest_thinned [OF A, of "rn_visitor_id run"]
  note get = thinned_get [OF thin A]
  show "runs_ok (entered ks run now lab)"
    unfolding D using A get(1) thin by (auto simp: runs_ok_def thinned_def wf_dict_filter)
  show "one_active (entered ks run now lab)" unfolding D using one get(1) unfolding one_active_def by blast
  show "dict_get (sl_runs (entered ks run now lab)) (rn_run_id run) = Some run"
    unfolding D using get(2) [of "rn_run_id run" run] act by (simp add: getA)
  show "dict_get (sl_runs (entered ks run now lab)) i = Some r \<Longrightarrow> i \<noteq> rn_run_id run \<Longrightarrow> dict_get (sl_runs lab) i = Some r"
    unfolding D using get(1) [of i r] by (simp add: getA)
  show "dict_get (sl_runs lab) i = Some r \<Longrightarrow> run_active r \<Longrightarrow> dict_get (sl_runs (entered ks run now lab)) i = Some r"
    unfolding D using get(2) [of i r] fresh by (cases "i = rn_run_id run") (simp_all add: getA)
  show "kept_ok (entered ks run now lab)"
    unfolding kept_ok_def D
  proof
    fix v
    show "int (length (own_runs v (keep_newest (rn_visitor_id run) A))) \<le> s_lab_runs_kept (sl_settings (keep_newest (rn_visitor_id run) A))"
    proof (cases "v = rn_visitor_id run")
      case True
      then show ?thesis using keep_newest_count [OF A one, of v] ok by (simp add: settings lab_ok_def)
    next
      case False
      have "own_runs v A = own_runs v lab"
        using own_runs_other [where v = v, OF _ fresh] False own_runs_frame [of A "lab\<lparr> sl_runs := dict_set (rn_run_id run) run (sl_runs lab) \<rparr>" v]
        by (simp add: A_def)
      then have "length (own_runs v (keep_newest (rn_visitor_id run) A)) \<le> length (own_runs v lab)"
        using thinned_own_runs [OF thin, of v] by simp
      also have "int (length (own_runs v lab)) \<le> s_lab_runs_kept (sl_settings lab)" using ok by (simp add: lab_ok_def kept_ok_def)
      finally show ?thesis by (simp add: settings)
    qed
  qed
qed

lemma new_run_simps [simp]:
  "rn_run_id (new_run i v r t rules label) = i" "rn_visitor_id (new_run i v r t rules label) = v"
  "rn_request (new_run i v r t rules label) = r" "rn_stage (new_run i v r t rules label) = WaitingStage"
  "run_active (new_run i v r t rules label)"
  by (simp_all add: new_run_def run_active_def)

lemma lab_ok_frame:
  assumes "sl_runs lab' = sl_runs lab" "sl_waiting lab' = sl_waiting lab" "sl_queue lab' = sl_queue lab" "sl_settings lab' = sl_settings lab"
  shows "lab_ok lab' = lab_ok lab"
  using assms by (simp add: lab_ok_def runs_ok_def one_active_def line_ok_def kept_ok_def own_runs_def)

text \<open>Joining the waiting line; beginning a bundled run.\<close>

lemma live_entered_ok:
  assumes ok: "lab_ok lab" and fresh: "dict_get (sl_runs lab) i = None" and none: "active_run v lab = None"
    and run: "run = new_run i v request t rules label" and live: "rq_source request = LiveSource"
    and room: "int (length (sl_waiting lab)) < s_lab_queue_size (sl_settings lab)"
  shows "lab_ok ((entered ks run now lab)\<lparr> sl_waiting := sl_waiting lab @ [i], sl_queue := sl_queue lab @ [i] \<rparr>)" (is "lab_ok ?lab")
proof -
  have facts: "dict_get (sl_runs lab) (rn_run_id run) = None" "run_active run" "active_run (rn_visitor_id run) lab = None"
    using fresh none by (simp_all add: run)
  note entered = entered_facts [OF ok facts, where ks = ks and now = now]
  have settings: "sl_settings ?lab = sl_settings lab" by (simp add: entered_def)
  have "runs_ok ?lab" "one_active ?lab" "kept_ok ?lab"
    using entered(1,2,3) by (simp_all add: runs_ok_def one_active_def kept_ok_def own_runs_def)
  moreover have "line_ok ?lab"
  proof -
    have line: "line_ok lab" using ok by (simp add: lab_ok_def)
    have get: "dict_get (sl_runs ?lab) j = Some r \<Longrightarrow> j \<noteq> i \<Longrightarrow> dict_get (sl_runs lab) j = Some r" for j r
      using entered(5) [of j r] by (simp add: run)
    have keep: "dict_get (sl_runs lab) j = Some r \<Longrightarrow> rn_stage r = WaitingStage \<Longrightarrow> dict_get (sl_runs ?lab) j = Some r" for j r
      using entered(6) [of j r] by (simp add: waiting_is_active)
    have new: "dict_get (sl_runs ?lab) i = Some run" using entered(4) by (simp add: run)
    have fresh': "i \<notin> set (sl_queue lab)" using line fresh unfolding line_ok_def by auto
    have mem: "j \<in> set (sl_queue ?lab) \<longleftrightarrow> (\<exists>r. dict_get (sl_runs ?lab) j = Some r \<and> rn_stage r = WaitingStage)" for j
    proof (cases "j = i")
      case True
      then show ?thesis using new by (simp add: run)
    next
      case False
      then have "j \<in> set (sl_queue ?lab) \<longleftrightarrow> (\<exists>r. dict_get (sl_runs lab) j = Some r \<and> rn_stage r = WaitingStage)"
        using line unfolding line_ok_def by simp
      then show ?thesis using get [OF _ False] keep by blast
    qed
    have sources: "rq_source (rn_request r) = LiveSource"
      if "dict_get (sl_runs ?lab) j = Some r" "rn_stage r \<in> {WaitingStage, RecordingStage}" for j r
    proof (cases "j = i")
      case True
      then have "r = run" using new that(1) by simp
      then show ?thesis using live by (simp add: run)
    next
      case False
      then show ?thesis using get [OF that(1) False] that(2) line unfolding line_ok_def by blast
    qed
    have "sl_waiting ?lab = sl_queue ?lab" "distinct (sl_queue ?lab)" "int (length (sl_queue ?lab)) \<le> s_lab_queue_size (sl_settings ?lab)"
      using line fresh' room unfolding line_ok_def settings by simp_all
    then show ?thesis using mem sources unfolding line_ok_def by blast
  qed
  ultimately show ?thesis using ok unfolding lab_ok_def settings by blast
qed

lemma bundled_entered_ok:
  assumes ok: "lab_ok lab" and fresh: "dict_get (sl_runs lab) i = None" and none: "active_run v lab = None"
    and run: "run = new_run i v request t rules label"
    and f: "rn_run_id (f run) = i" "rn_visitor_id (f run) = v" "rn_stage (f run) \<notin> {WaitingStage, RecordingStage}"
  shows "lab_ok (update_run i f (entered ks run now lab))" (is "lab_ok ?lab")
proof -
  have facts: "dict_get (sl_runs lab) (rn_run_id run) = None" "run_active run" "active_run (rn_visitor_id run) lab = None"
    using fresh none by (simp_all add: run)
  note entered = entered_facts [OF ok facts, where ks = ks and now = now]
  define D where "D = entered ks run now lab"
  have new: "dict_get (sl_runs D) i = Some run" using entered(4) by (simp add: run D_def)
  have settings: "sl_settings ?lab = sl_settings lab" "sl_queue ?lab = sl_queue lab" "sl_waiting ?lab = sl_waiting lab"
    by (simp_all add: entered_def)
  have get: "dict_get (sl_runs ?lab) = (dict_get (sl_runs D))(i \<mapsto> f run)" using new by (simp add: D_def [symmetric] fun_eq_iff)
  have wf: "wf_dict (sl_runs ?lab)" using entered(1) new by (simp add: update_run_def runs_ok_def D_def [symmetric])
  have vis: "rn_visitor_id run = v" by (simp add: run)
  have "runs_ok ?lab" using entered(1) wf f(1) new unfolding runs_ok_def get D_def [symmetric] by simp
  moreover have "one_active ?lab"
    using entered(2) new f(2) vis facts(2) unfolding one_active_def get D_def [symmetric] by (auto split: if_splits)
  moreover have "kept_ok ?lab"
    using entered(3) update_run_own [OF entered(1), of i f] new f(2) vis unfolding kept_ok_def D_def [symmetric] by simp
  moreover have "line_ok ?lab"
  proof -
    have line: "line_ok lab" using ok by (simp add: lab_ok_def)
    have old: "dict_get (sl_runs D) j = Some r \<Longrightarrow> j \<noteq> i \<Longrightarrow> dict_get (sl_runs lab) j = Some r" for j r
      using entered(5) [of j r] by (simp add: run D_def)
    have keep: "dict_get (sl_runs lab) j = Some r \<Longrightarrow> rn_stage r = WaitingStage \<Longrightarrow> dict_get (sl_runs D) j = Some r" for j r
      using entered(6) [of j r] by (simp add: waiting_is_active D_def)
    have "j \<in> set (sl_queue lab) \<longleftrightarrow> (\<exists>r. dict_get (sl_runs ?lab) j = Some r \<and> rn_stage r = WaitingStage)" for j
    proof (cases "j = i")
      case True
      then show ?thesis using line fresh f(3) unfolding line_ok_def get by simp
    next
      case False
      then have "j \<in> set (sl_queue lab) \<longleftrightarrow> (\<exists>r. dict_get (sl_runs lab) j = Some r \<and> rn_stage r = WaitingStage)"
        using line unfolding line_ok_def by simp
      moreover have "dict_get (sl_runs ?lab) j = dict_get (sl_runs D) j" using False by (simp add: D_def)
      ultimately show ?thesis using old [OF _ False] keep by metis
    qed
    moreover have "rq_source (rn_request r) = LiveSource"
      if "dict_get (sl_runs ?lab) j = Some r" "rn_stage r \<in> {WaitingStage, RecordingStage}" for j r
    proof (cases "j = i")
      case True
      then show ?thesis using that f(3) unfolding get by auto
    next
      case False
      then have "dict_get (sl_runs lab) j = Some r" using that(1) old unfolding get by simp
      then show ?thesis using that(2) line unfolding line_ok_def by blast
    qed
    ultimately show ?thesis using line unfolding line_ok_def settings by blast
  qed
  ultimately show ?thesis using ok unfolding lab_ok_def settings by blast
qed

section \<open>Every step keeps the invariant\<close>

lemma validate_frame:
  "sl_runs (fst (validate a r lab)) = sl_runs lab \<and> sl_waiting (fst (validate a r lab)) = sl_waiting lab
    \<and> sl_queue (fst (validate a r lab)) = sl_queue lab \<and> sl_settings (fst (validate a r lab)) = sl_settings lab
    \<and> sl_history (fst (validate a r lab)) = sl_history lab \<and> sl_cache (fst (validate a r lab)) = sl_cache lab"
  by (auto simp: validate_def validate_live_def split: LabSource.split option.split prod.split)

lemma prune_other [simp]:
  "sl_waiting (prune now lab) = sl_waiting lab" "sl_queue (prune now lab) = sl_queue lab"
  "sl_settings (prune now lab) = sl_settings lab" "sl_cache (prune now lab) = sl_cache lab"
  by (simp_all add: prune_def Let_def)

lemma prune_ok: "lab_ok lab \<Longrightarrow> lab_ok (prune now lab)"
  by (rule thinned_ok [OF prune_thinned])

lemma prune_fresh: "lab_ok lab \<Longrightarrow> dict_get (sl_runs lab) i = None \<Longrightarrow> dict_get (sl_runs (prune now lab)) i = None"
  using thinned_get(1) [OF prune_thinned [of lab now], where k = i] by (cases "dict_get (sl_runs (prune now lab)) i") (auto simp: lab_ok_def)

definition began :: "f64 \<Rightarrow> LabPayload option \<Rightarrow> SimulationRun \<Rightarrow> SimulationRun" where
  "began now cached run =
     (case cached of
        Some payload \<Rightarrow> complete_run now payload (run\<lparr> rn_started_at := Some now \<rparr>)
      | None \<Rightarrow> run\<lparr> rn_started_at := Some now, rn_stage := SimulatingStage \<rparr>)"

lemma begin_bundled_began: "begin_bundled now i request lab = update_run i (began now (dict_get (sl_cache lab) (cache_key request))) lab"
  by (auto simp: begin_bundled_def began_def Let_def intro!: arg_cong [where f = "\<lambda>f. update_run i f lab"] split: option.split)

lemma began_simps [simp]:
  "rn_run_id (began now c run) = rn_run_id run" "rn_visitor_id (began now c run) = rn_visitor_id run"
  "rn_request (began now c run) = rn_request run" "rn_stage (began now c run) \<noteq> WaitingStage" "rn_stage (began now c run) \<noteq> RecordingStage"
  by (simp_all add: began_def complete_run_def split: option.split)

lemma enter_run_cases:
  "enter_run v address run now lab =
     (let D = keep_newest v (record_stamps (limit_keys v address (rq_source (rn_request run))) now
                (lab\<lparr> sl_runs := dict_set (rn_run_id run) run (sl_runs lab) \<rparr>))
      in if rq_source (rn_request run) = LiveSource
         then D\<lparr> sl_waiting := sl_waiting lab @ [rn_run_id run], sl_queue := sl_queue lab @ [rn_run_id run] \<rparr> else D)"
  by (simp add: enter_run_def Let_def)

text \<open>What an admission comes to.\<close>

lemma admitE:
  assumes "admit v address request rules label now i lab = (lab', Inr i')"
  obtains (live) "rq_source request = LiveSource" "refusal v address (rq_source request) now (prune now lab) = None"
      "lab' = (entered (limit_keys v address (rq_source request)) (new_run i v request now rules label) now (prune now lab))
         \<lparr> sl_waiting := sl_waiting lab @ [i], sl_queue := sl_queue lab @ [i] \<rparr>"
    | (bundled) "rq_source request = BundledSource" "refusal v address (rq_source request) now (prune now lab) = None"
      "lab' = update_run i (began now (dict_get (sl_cache lab) (cache_key request)))
         (entered (limit_keys v address (rq_source request)) (new_run i v request now rules label) now (prune now lab))"
proof (cases "refusal v address (rq_source request) now (prune now lab)")
  case None
  then show thesis
    using assms live bundled
    by (cases "rq_source request") (auto simp: admit_def Let_def enter_run_cases begin_bundled_began entered_def)
qed (use assms in \<open>simp add: admit_def Let_def\<close>)

lemma refusal_None:
  assumes "refusal v address source now lab = None"
  shows "active_run v lab = None"
    and "check_hourly (sl_history lab) (limit_keys v address source) (hourly_limit (sl_settings lab) source) now = None"
    and "source = LiveSource \<Longrightarrow> int (length (sl_waiting lab)) < s_lab_queue_size (sl_settings lab)"
  using assms by (auto simp: refusal_def split: option.splits if_splits)

lemma admit_ok:
  assumes ok: "lab_ok lab" and fresh: "dict_get (sl_runs lab) i = None" and admit: "admit v address request rules label now i lab = (lab', Inr i')"
  shows "lab_ok lab'"
proof -
  note pruned = prune_ok [OF ok, of now] prune_fresh [OF ok fresh, of now]
  from admit show ?thesis
  proof (cases rule: admitE)
    case live
    show ?thesis
      using live_entered_ok [OF pruned refusal_None(1) [OF live(2)] refl live(1)] refusal_None(3) [OF live(2) live(1)]
      unfolding live(3) by simp
  next
    case bundled
    show ?thesis unfolding bundled(3)
      by (rule bundled_entered_ok [OF pruned refusal_None(1) [OF bundled(2)] refl]) simp_all
  qed
qed

lemma admit_refused: "admit v address request rules label now i lab = (lab', Inl r) \<Longrightarrow> lab' = prune now lab"
  by (auto simp: admit_def Let_def split: option.splits)

lemma submit_ok:
  assumes "lab_ok lab"
  shows "submit v address request answer now i lab = (lab', Inl r) \<Longrightarrow> lab_ok lab'"
    and "submit v address request answer now i lab = (lab', Inr i') \<Longrightarrow> dict_get (sl_runs lab) i = None \<Longrightarrow> lab_ok lab'"
proof -
  obtain lab1 res where v: "validate answer request lab = (lab1, res)" by fastforce
  note frame = validate_frame [of answer request lab, unfolded v, simplified]
  have ok: "lab_ok lab1" using assms lab_ok_frame [of lab1 lab] frame by simp
  show "lab_ok lab'" if "submit v address request answer now i lab = (lab', Inl r)"
    using that v ok prune_ok [OF ok, of now] by (cases res) (auto simp: submit_def dest: admit_refused)
  show "lab_ok lab'" if "submit v address request answer now i lab = (lab', Inr i')" "dict_get (sl_runs lab) i = None"
    using that v admit_ok [OF ok] frame by (cases res) (auto simp: submit_def)
qed

end
