(* ===== verification/Lab_Service_Runs.thy ===== *)
theory Lab_Service_Runs
  imports Lab_Service_Facts
begin

text \<open>
  The histories of the lab's service: the invariant along every sequence of steps, the hourly limits over every hour,
  the finality of finished runs and the truth of cached results.
\<close>

section \<open>The invariant along a history\<close>

lemma worker_take_other [simp]:
  "sl_settings (worker_take now lab) = sl_settings lab" "sl_history (worker_take now lab) = sl_history lab"
  "sl_cache (worker_take now lab) = sl_cache lab"
  by (simp_all add: worker_take_def Let_def split: list.split option.split)

lemma worker_take_ok:
  assumes ok: "lab_ok lab"
  shows "lab_ok (worker_take now lab)"
proof (cases "sl_queue lab")
  case Nil
  then show ?thesis using ok by (simp add: worker_take_def)
next
  case (Cons i rest)
  have line: "line_ok lab" and runs: "runs_ok lab" and one: "one_active lab" and kept: "kept_ok lab" using ok by (simp_all add: lab_ok_def)
  obtain run where run: "dict_get (sl_runs lab) i = Some run" "rn_stage run = WaitingStage"
    using line Cons unfolding line_ok_def by (metis list.set_intros(1))
  define f :: "SimulationRun \<Rightarrow> SimulationRun" where "f = (\<lambda>run. run\<lparr> rn_stage := RecordingStage, rn_started_at := Some now,
    rn_seconds_left := Some (duration_of (rn_request run)) \<rparr>)"
  define lab1 where "lab1 = lab\<lparr> sl_queue := rest, sl_waiting := rest \<rparr>"
  have "sl_waiting lab = i # rest" using line Cons by (simp add: line_ok_def)
  then have lab': "worker_take now lab = update_run i f lab1"
    using Cons run by (simp add: worker_take_def Let_def waiting_is_active f_def lab1_def)
  have f: "rn_run_id (f r) = rn_run_id r" "rn_visitor_id (f r) = rn_visitor_id r" "rn_request (f r) = rn_request r"
      "rn_stage (f r) = RecordingStage" for r by (simp_all add: f_def)
  have get: "dict_get (sl_runs (update_run i f lab1)) = (dict_get (sl_runs lab))(i \<mapsto> f run)"
    using run by (simp add: lab1_def fun_eq_iff)
  have act: "run_active (f run)" "run_active run" using f(4) run by (simp_all add: run_active_def)
  have runs1: "runs_ok lab1" using runs by (simp add: lab1_def runs_ok_def)
  have "wf_dict (sl_runs (update_run i f lab1))" using runs1 run by (simp add: update_run_def lab1_def runs_ok_def)
  moreover have "rn_run_id (f run) = i" using runs run f(1) by (simp add: runs_ok_def)
  ultimately have "runs_ok (update_run i f lab1)" using runs unfolding runs_ok_def get by simp
  moreover have "one_active (update_run i f lab1)"
    unfolding one_active_def get
  proof (intro allI impI)
    fix j k r s
    assume a: "((dict_get (sl_runs lab))(i \<mapsto> f run)) j = Some r" "((dict_get (sl_runs lab))(i \<mapsto> f run)) k = Some s"
      and b: "run_active r" "run_active s" "rn_visitor_id r = rn_visitor_id s"
    obtain r' where r: "dict_get (sl_runs lab) j = Some r'" "run_active r'" "rn_visitor_id r' = rn_visitor_id r"
      using a(1) b(1) run(1) act f(2) by (auto split: if_splits)
    obtain s' where s: "dict_get (sl_runs lab) k = Some s'" "run_active s'" "rn_visitor_id s' = rn_visitor_id s"
      using a(2) b(2) run(1) act f(2) by (auto split: if_splits)
    show "j = k" by (rule one [unfolded one_active_def, rule_format, OF r(1) s(1) r(2) s(2)]) (simp add: r s b)
  qed
  moreover have "kept_ok (update_run i f lab1)"
    using kept update_run_own [OF runs1, of i f] f(2) own_runs_frame [of lab1 lab] unfolding kept_ok_def by (simp add: lab1_def)
  moreover have "line_ok (update_run i f lab1)"
  proof -
    have mem: "j \<in> set rest \<longleftrightarrow> (\<exists>r. dict_get (sl_runs (update_run i f lab1)) j = Some r \<and> rn_stage r = WaitingStage)" for j
    proof (cases "j = i")
      case True
      then show ?thesis using line Cons f(4) unfolding get by (simp add: line_ok_def)
    next
      case False
      have "j \<in> set (sl_queue lab) \<longleftrightarrow> (\<exists>r. dict_get (sl_runs lab) j = Some r \<and> rn_stage r = WaitingStage)"
        using line unfolding line_ok_def by blast
      then show ?thesis using False unfolding get Cons by simp
    qed
    have src: "rq_source (rn_request r) = LiveSource"
      if "dict_get (sl_runs (update_run i f lab1)) j = Some r" "rn_stage r \<in> {WaitingStage, RecordingStage}" for j r
    proof (cases "j = i")
      case True
      then have "r = f run" using that(1) unfolding get by simp
      then show ?thesis using f(3) line run unfolding line_ok_def by auto
    next
      case False
      then have "dict_get (sl_runs lab) j = Some r" using that(1) unfolding get by simp
      then show ?thesis using line that(2) unfolding line_ok_def by blast
    qed
    have "sl_waiting (update_run i f lab1) = rest" "sl_queue (update_run i f lab1) = rest" "distinct rest"
        "int (length rest) \<le> s_lab_queue_size (sl_settings (update_run i f lab1))"
      using line Cons by (simp_all add: lab1_def line_ok_def)
    then show ?thesis using mem src unfolding line_ok_def by simp
  qed
  ultimately show ?thesis using ok unfolding lab' lab_ok_def by (simp add: lab1_def)
qed

lemma moved:
  assumes "lab_ok lab" and "dict_get (sl_runs lab) i = Some run"
    and "rn_stage run = SimulatingStage \<or> rn_stage run = RecordingStage"
    and "rn_run_id (f run) = rn_run_id run" "rn_visitor_id (f run) = rn_visitor_id run" "rn_request (f run) = rn_request run"
    and "rn_stage (f run) \<notin> {WaitingStage, RecordingStage} \<or> rn_stage (f run) = rn_stage run"
  shows "lab_ok (update_run i f lab)"
proof (rule update_run_ok [OF assms(1,2)])
  have "rq_source (rn_request run) = LiveSource" if "rn_stage run = RecordingStage"
    using assms(1,2) that unfolding lab_ok_def line_ok_def by blast
  then show "moves_on f run" using assms(3-) by (auto simp: moves_on_def run_active_def)
  show "rn_stage run \<noteq> WaitingStage" using assms(3) by auto
qed

lemma ended_runs [simp]:
  "rn_run_id (fail_run now m r) = rn_run_id r" "rn_visitor_id (fail_run now m r) = rn_visitor_id r"
  "rn_request (fail_run now m r) = rn_request r" "rn_stage (fail_run now m r) = FailedStage"
  "rn_run_id (complete_run now p r) = rn_run_id r" "rn_visitor_id (complete_run now p r) = rn_visitor_id r"
  "rn_request (complete_run now p r) = rn_request r" "rn_stage (complete_run now p r) = DoneStage"
  "rn_result (complete_run now p r) = Some p"
  by (simp_all add: fail_run_def complete_run_def)

lemma end_bundled_ok:
  assumes ok: "lab_ok lab" and run: "dict_get (sl_runs lab) i = Some run" "rn_stage run = SimulatingStage"
  shows "lab_ok (end_bundled env now i lab)"
proof (cases "bundled_payload env (rn_request run)")
  case (Inl e)
  then show ?thesis using moved [OF ok run(1), of "fail_run now (sv_err_text env e)"] run by (simp add: end_bundled_def)
next
  case (Inr payload)
  let ?lab = "lab\<lparr> sl_cache := dict_set (cache_key (rn_request run)) payload (sl_cache lab) \<rparr>"
  have "lab_ok ?lab" using ok lab_ok_frame [of ?lab lab] by simp
  then show ?thesis using moved [of ?lab i run "complete_run now payload"] run Inr by (simp add: end_bundled_def)
qed

lemma end_live_ok:
  assumes ok: "lab_ok lab" and run: "dict_get (sl_runs lab) i = Some run" "rn_stage run = SimulatingStage"
  shows "lab_ok (end_live env now i recording lab)"
proof (cases "simulate_dict env recording (rn_request run)")
  case (Inl e)
  then show ?thesis using moved [OF ok run(1), of "fail_run now (sv_err_text env e)"] run by (simp add: end_live_def)
next
  case (Inr payload)
  then show ?thesis using moved [OF ok run(1), of "complete_run now payload"] run by (simp add: end_live_def)
qed

lemma lab_step_ok: "lab_step env now ks lab lab' \<Longrightarrow> lab_ok lab \<Longrightarrow> lab_ok lab'"
proof (induction rule: lab_step.induct)
  case (progressed lab i run seconds)
  then show ?case using moved [of lab i run "\<lambda>run. run\<lparr> rn_seconds_left := Some seconds \<rparr>"] by (simp add: progress_run_def)
next
  case (recorded lab i run outcome)
  then show ?case
    using moved [of lab i run "\<lambda>run. run\<lparr> rn_stage := SimulatingStage, rn_seconds_left := None \<rparr>"]
      moved [of lab i run "fail_run now (sv_err_text env e)" for e]
    by (cases outcome) (simp_all add: end_recording_def)
qed (auto simp: list_runs_def get_run_def Let_def intro: submit_ok worker_take_ok end_bundled_ok end_live_ok prune_ok)

text \<open>A history: steps at times that do not go back, with the admissions each hourly counter was charged.\<close>

inductive lab_history :: "ServiceEnv \<Rightarrow> SimLab \<Rightarrow> f64 \<Rightarrow> (LimitKey \<times> f64) list \<Rightarrow> SimLab \<Rightarrow> bool" for env lab0 where
  start: "lab_history env lab0 now [] lab0"
| step: "lab_history env lab0 before charges lab \<Longrightarrow> before \<le> now \<Longrightarrow> lab_step env now ks lab lab'
    \<Longrightarrow> lab_history env lab0 now (charges @ map (\<lambda>k. (k, now)) ks) lab'"

lemma simlab_init_ok:
  "1 \<le> s_lab_runs_kept settings \<Longrightarrow> 1 \<le> s_lab_queue_size settings \<Longrightarrow> lab_ok (simlab_init settings library)"
  by (simp add: simlab_init_def lab_ok_defs own_runs_def)

lemma lab_history_ok: "lab_history env lab0 now charges lab \<Longrightarrow> lab_ok lab0 \<Longrightarrow> lab_ok lab"
  by (induction rule: lab_history.induct) (auto intro: lab_step_ok)

lemma lab_step_settings: "lab_step env now ks lab lab' \<Longrightarrow> sl_settings lab' = sl_settings lab"
proof (induction rule: lab_step.induct)
  case (refused v a r answer i lab lab' e)
  then show ?case using validate_frame [of answer r lab]
    by (auto simp: submit_def split: prod.splits sum.splits dest: admit_refused)
next
  case (admitted v a r answer i lab lab' i')
  then show ?case using validate_frame [of answer r lab]
    by (auto simp: submit_def entered_def split: prod.splits sum.splits elim!: admitE)
qed (auto simp: end_bundled_def progress_run_def end_recording_def end_live_def list_runs_def get_run_def Let_def split: option.split sum.split)

lemma lab_history_settings: "lab_history env lab0 now charges lab \<Longrightarrow> sl_settings lab = sl_settings lab0"
  by (induction rule: lab_history.induct) (auto dest: lab_step_settings)

section \<open>The hourly limits\<close>

definition stamps :: "LimitKey \<Rightarrow> SimLab \<Rightarrow> f64 list" where
  "stamps k lab = dict_get_or (sl_history lab) k []"

definition charge_times :: "LimitKey \<Rightarrow> (LimitKey \<times> f64) list \<Rightarrow> f64 list" where
  "charge_times k charges = map snd (filter (\<lambda>(j, t). j = k) charges)"

definition key_limit :: "Settings \<Rightarrow> LimitKey \<Rightarrow> int" where
  "key_limit st k = (if fst k \<in> {''visitor-live'', ''address-live''} then s_lab_runs_per_hour st else s_lab_bundled_runs_per_hour st)"

text \<open>The counters forget only what is more than an hour old.\<close>

definition charged :: "f64 \<Rightarrow> (LimitKey \<times> f64) list \<Rightarrow> SimLab \<Rightarrow> bool" where
  "charged now charges lab \<longleftrightarrow> wf_dict (sl_history lab) \<and> (\<forall>k. (\<exists>dropped. charge_times k charges = dropped @ stamps k lab
     \<and> (\<forall>t\<in>set dropped. HOUR < now - t)) \<and> int (length (stamps k lab)) \<le> key_limit (sl_settings lab) k)"

lemma charged_frame: "sl_history lab' = sl_history lab \<Longrightarrow> sl_settings lab' = sl_settings lab \<Longrightarrow> charged now charges lab' = charged now charges lab"
  by (simp add: charged_def stamps_def)

lemma charged_later:
  assumes "charged before charges lab" and "before \<le> now"
  shows "charged now charges lab"
proof -
  have "before - t \<le> now - t" for t using assms(2) by (simp add: f64_diff_mono)
  then have "HOUR < before - t \<Longrightarrow> HOUR < now - t" for t using order_less_le_trans by blast
  then show ?thesis using assms(1) unfolding charged_def by meson
qed

lemma pruned_stamps:
  assumes "wf_dict (sl_history lab)"
  shows "stamps k (prune now lab) = dropWhile (\<lambda>t. HOUR < now - t) (stamps k lab)" and "wf_dict (sl_history (prune now lab))"
proof -
  let ?g = "\<lambda>(k, ts). (k, dropWhile (\<lambda>t. now - t > HOUR) ts)"
  have get: "dict_get (map ?g d) k = map_option (dropWhile (\<lambda>t. now - t > HOUR)) (dict_get d k)" for d :: "(LimitKey, f64 list) dict" and k
    by (induction d) auto
  have "map fst (map ?g d) = map fst d" for d :: "(LimitKey, f64 list) dict" by (induction d) auto
  then have wf: "wf_dict (map ?g (sl_history lab))" using assms by (simp only: wf_dict_def dict_keys_def)
  show "wf_dict (sl_history (prune now lab))" using wf_dict_filter [OF wf] by (simp add: prune_def Let_def)
  show "stamps k (prune now lab) = dropWhile (\<lambda>t. HOUR < now - t) (stamps k lab)"
    using dict_get_filter [OF wf, of _ k] by (auto simp: stamps_def prune_def Let_def dict_get_or_def get eq_commute [of "[]"] split: option.split)
qed

lemma charged_prune:
  assumes "charged now charges lab"
  shows "charged now charges (prune now lab)"
proof -
  note pruned = pruned_stamps [of lab, where now = now]
  have "\<exists>dropped. charge_times k charges = dropped @ stamps k (prune now lab) \<and> (\<forall>t\<in>set dropped. HOUR < now - t)" for k
  proof -
    obtain dropped where d: "charge_times k charges = dropped @ stamps k lab" "\<forall>t\<in>set dropped. HOUR < now - t"
      using assms unfolding charged_def by blast
    let ?more = "takeWhile (\<lambda>t. HOUR < now - t) (stamps k lab)"
    have "charge_times k charges = (dropped @ ?more) @ stamps k (prune now lab)"
      using assms pruned(1) [of k] d(1) unfolding charged_def by simp
    moreover have "\<forall>t\<in>set (dropped @ ?more). HOUR < now - t" using d(2) by (auto dest: set_takeWhileD)
    ultimately show ?thesis by blast
  qed
  moreover have "int (length (stamps k (prune now lab))) \<le> key_limit (sl_settings lab) k" for k
  proof -
    have "length (stamps k (prune now lab)) \<le> length (stamps k lab)"
      using assms pruned(1) [of k] length_dropWhile_le unfolding charged_def by metis
    also have "int (length (stamps k lab)) \<le> key_limit (sl_settings lab) k" using assms unfolding charged_def by blast
    finally show ?thesis by simp
  qed
  ultimately show ?thesis using assms pruned(2) unfolding charged_def by simp
qed

lemma recorded_stamps:
  assumes "distinct ks" and "wf_dict (sl_history lab)"
  shows "stamps k (record_stamps ks now lab) = stamps k lab @ (if k \<in> set ks then [now] else [])"
    and "wf_dict (sl_history (record_stamps ks now lab))"
proof -
  define add where "add = (\<lambda>k (history :: (LimitKey, f64 list) dict). dict_set k (dict_get_or history k [] @ [now]) history)"
  have "dict_get_or (fold add ks d) k [] = dict_get_or d k [] @ (if k \<in> set ks then [now] else [])" if "distinct ks" for ks d
    using that
  proof (induction ks arbitrary: d)
    case (Cons a ks)
    have "dict_get_or (add a d) k [] = (if k = a then dict_get_or d k [] @ [now] else dict_get_or d k [])"
      by (simp add: add_def dict_get_or_def)
    then show ?case using Cons by auto
  qed simp
  moreover have "wf_dict d \<Longrightarrow> wf_dict (fold add ks d)" for ks d
    by (induction ks arbitrary: d) (simp_all add: add_def)
  ultimately show "stamps k (record_stamps ks now lab) = stamps k lab @ (if k \<in> set ks then [now] else [])"
    and "wf_dict (sl_history (record_stamps ks now lab))"
    using assms by (simp_all add: stamps_def record_stamps_def add_def [symmetric])
qed

lemma check_hourly_None:
  "check_hourly (sl_history lab) ks limit now = None \<Longrightarrow> k \<in> set ks \<Longrightarrow> stamps k lab = [] \<or> int (length (stamps k lab)) < limit"
  by (induction ks) (auto simp: stamps_def split: list.splits if_splits)

lemma limit_keys_facts: "distinct (limit_keys v a source)" "k \<in> set (limit_keys v a source) \<Longrightarrow> key_limit st k = hourly_limit st source"
  by (cases source; auto simp: limit_keys_def key_limit_def hourly_limit_def)+

lemma times_append: "charge_times k (charges @ map (\<lambda>j. (j, now)) ks) = charge_times k charges @ map (\<lambda>j. now) (filter (\<lambda>j. j = k) ks)"
  by (simp add: charge_times_def filter_map comp_def)

lemma charged_times: "distinct ks \<Longrightarrow> map (\<lambda>j. now) (filter (\<lambda>j. j = k) ks) = (if k \<in> set ks then [now] else [])"
  by (induction ks) auto

lemma entered_history: "sl_history (entered ks run now lab) = sl_history (record_stamps ks now lab)"
  by (simp add: entered_def record_stamps_def)

lemma charged_entered:
  assumes ok: "charged now charges lab" and refusal: "refusal v address source now lab = None"
    and limits: "1 \<le> s_lab_runs_per_hour (sl_settings lab)" "1 \<le> s_lab_bundled_runs_per_hour (sl_settings lab)"
  shows "charged now (charges @ map (\<lambda>k. (k, now)) (limit_keys v address source)) (entered (limit_keys v address source) run now lab)"
proof -
  let ?ks = "limit_keys v address source"
  let ?lab = "entered ?ks run now lab"
  have wf: "wf_dict (sl_history lab)" using ok unfolding charged_def by blast
  note keys = limit_keys_facts(1) [of v address source] limit_keys_facts(2) [where v = v and a = address and source = source]
  have new: "stamps k ?lab = stamps k lab @ (if k \<in> set ?ks then [now] else [])" for k
    using recorded_stamps(1) [OF keys(1) wf, of k now] by (simp add: stamps_def entered_history)
  have settings: "sl_settings ?lab = sl_settings lab" by (simp add: entered_def)
  have "\<exists>dropped. charge_times k (charges @ map (\<lambda>j. (j, now)) ?ks) = dropped @ stamps k ?lab \<and> (\<forall>t\<in>set dropped. HOUR < now - t)" for k
    using ok unfolding charged_def new times_append charged_times [OF keys(1)] by fastforce
  moreover have "int (length (stamps k ?lab)) \<le> key_limit (sl_settings lab) k" for k
  proof (cases "k \<in> set ?ks")
    case True
    have "1 \<le> hourly_limit (sl_settings lab) source" using limits by (cases source) (simp_all add: hourly_limit_def)
    then show ?thesis
      using check_hourly_None [OF refusal_None(2) [OF refusal] True] keys(2) [OF True] True by (auto simp: new)
  next
    case False
    have "int (length (stamps k lab)) \<le> key_limit (sl_settings lab) k" using ok unfolding charged_def by blast
    then show ?thesis using False by (simp add: new)
  qed
  ultimately show ?thesis
    using recorded_stamps(2) [OF keys(1) wf, of now] unfolding charged_def settings entered_history by simp
qed

lemma update_run_charged [simp]: "charged now charges (update_run i f lab) = charged now charges lab"
  by (simp add: charged_def stamps_def)

lemma admit_charged:
  assumes ok: "charged now charges lab"
    and limits: "1 \<le> s_lab_runs_per_hour (sl_settings lab)" "1 \<le> s_lab_bundled_runs_per_hour (sl_settings lab)"
    and admit: "admit v address request rules label now i lab = (lab', Inr i')"
  shows "charged now (charges @ map (\<lambda>k. (k, now)) (limit_keys v address (rq_source request))) lab'"
proof -
  have pruned: "charged now charges (prune now lab)" by (rule charged_prune [OF ok])
  note entered = charged_entered [OF pruned, where run = "new_run i v request now rules label"]
  from admit show ?thesis
  proof (cases rule: admitE)
    case live
    then show ?thesis using entered [OF live(2)] limits by (simp add: charged_def stamps_def)
  next
    case bundled
    then show ?thesis using entered [OF bundled(2)] limits by simp
  qed
qed

lemma lab_step_charged:
  assumes "lab_step env now ks lab lab'" and "charged now charges lab"
    and "1 \<le> s_lab_runs_per_hour (sl_settings lab)" "1 \<le> s_lab_bundled_runs_per_hour (sl_settings lab)"
  shows "charged now (charges @ map (\<lambda>k. (k, now)) ks) lab'"
  using assms
proof (induction rule: lab_step.induct)
  case (refused v a r answer i lab lab' e)
  obtain lab1 res where v: "validate answer r lab = (lab1, res)" by fastforce
  have lab1: "charged now charges lab1" using refused validate_frame [of answer r lab] v charged_frame [of lab1 lab] by simp
  show ?case
    using refused.hyps v charged_prune [OF lab1] lab1 by (cases res) (auto simp: submit_def dest: admit_refused)
next
  case (admitted v a r answer i lab lab' i')
  obtain lab1 res where v: "validate answer r lab = (lab1, res)" by fastforce
  note frame = validate_frame [of answer r lab, unfolded v, simplified]
  have "charged now charges lab1" using admitted frame charged_frame [of lab1 lab] by simp
  then show ?case using admitted v frame admit_charged [of now charges lab1] by (cases res) (auto simp: submit_def)
next
  case (taken lab)
  then show ?case by (simp add: charged_def stamps_def)
next
  case (bundled lab i run)
  have "charged now charges (lab\<lparr> sl_cache := c \<rparr>) = charged now charges lab" for c by (simp add: charged_def stamps_def)
  then show ?case using bundled by (simp add: end_bundled_def split: sum.split)
next
  case (simulated lab i run recording)
  then show ?case by (simp add: end_live_def split: sum.split)
next
  case (recorded lab i run outcome)
  then show ?case by (simp add: end_recording_def split: sum.split)
qed (simp_all add: progress_run_def list_runs_def get_run_def Let_def charged_prune)

lemma lab_history_charged:
  assumes "lab_history env lab0 now charges lab" and "charged t [] lab0" and "sl_history lab0 = []"
    and "1 \<le> s_lab_runs_per_hour (sl_settings lab0)" "1 \<le> s_lab_bundled_runs_per_hour (sl_settings lab0)"
  shows "charged now charges lab"
  using assms
proof (induction rule: lab_history.induct)
  case (start now)
  then show ?case by (auto simp: charged_def charge_times_def stamps_def dict_get_or_def)
next
  case (step before charges lab now ks lab')
  then have "charged now charges lab" using charged_later by blast
  then show ?case using lab_step_charged step.hyps step.prems lab_history_settings [OF step.hyps(1)] by simp
qed

text \<open>C24. However visitors submit, at any time of the history no browser and no network address has more runs admitted in
  the last hour than the settings allow, live and bundled runs counted apart.
\<close>

theorem hourly_limits_hold:
  assumes "lab_history env (simlab_init settings library) now charges lab"
    and "1 \<le> s_lab_runs_per_hour settings" and "1 \<le> s_lab_bundled_runs_per_hour settings"
  shows "int (length (filter (\<lambda>t. \<not> HOUR < now - t) (charge_times k charges))) \<le> key_limit settings k"
proof -
  have init: "charged now [] (simlab_init settings library)" "sl_history (simlab_init settings library) = []"
      "sl_settings (simlab_init settings library) = settings"
    using assms(2,3) by (simp_all add: simlab_init_def charged_def charge_times_def stamps_def dict_get_or_def key_limit_def)
  have "charged now charges lab" using lab_history_charged [OF assms(1) init(1,2)] assms(2,3) init(3) by simp
  moreover have "sl_settings lab = settings" using lab_history_settings [OF assms(1)] init(3) by simp
  ultimately obtain dropped where d: "charge_times k charges = dropped @ stamps k lab" "\<forall>t\<in>set dropped. HOUR < now - t"
      and len: "int (length (stamps k lab)) \<le> key_limit settings k"
    unfolding charged_def by blast
  have "filter (\<lambda>t. \<not> HOUR < now - t) dropped = []" using d(2) by (simp add: filter_empty_conv)
  then have "length (filter (\<lambda>t. \<not> HOUR < now - t) (charge_times k charges)) \<le> length (stamps k lab)" using d(1) by simp
  then show ?thesis using len by linarith
qed

text \<open>A visit to check the statements on: one bundled recording, which cannot be read.\<close>

definition example_service :: ServiceEnv where
  "example_service =
     \<lparr> sv_sim = \<lparr> se_libm = exact_libm, se_draws = \<lparr> dr_sha256_hex = (\<lambda>t. []), dr_repr = (\<lambda>x. []), dr_isoformat = (\<lambda>t. []) \<rparr>,
                   se_log10 = (\<lambda>x. 0), se_calibration = ok None, se_format_g = (\<lambda>x. []) \<rparr>,
       sv_load = (\<lambda>i. raise_error KeyError), sv_err_text = (\<lambda>e. ''unreadable'') \<rparr>"

definition example_request :: SimulationRequest where
  "example_request =
     \<lparr> rq_source = BundledSource, rq_strategy = ''pure_mm'', rq_spread_bps = lit 10, rq_fill_model = ''trade_fill'',
       rq_exchange = None, rq_symbol = None, rq_bundle_id = Some ''demo'', rq_duration_sec = None \<rparr>"

definition empty_lab :: SimLab where
  "empty_lab = simlab_init default_settings [(''demo'', ''Recorded demo'')]"

definition no_markets :: MarketAnswer where
  "no_markets = \<lparr> ma_markets = raise_error KeyError, ma_before = 0, ma_after = 0 \<rparr>"

definition visited_lab :: SimLab where
  "visited_lab = fst (submit ''v'' ''a'' example_request no_markets 1 ''run1'' empty_lab)"

lemma example_valid: "validate no_markets example_request empty_lab = (empty_lab, Inr (None, ''Recorded demo''))"
proof -
  have "fst SPREAD_RANGE \<le> lit 10" "lit 10 \<le> snd SPREAD_RANGE"
    by (simp_all add: SPREAD_RANGE_def le_val val_lit_numeral)
  then show ?thesis
    by (simp add: validate_def example_request_def strategy_of_def fill_model_of_def empty_lab_def simlab_init_def or_empty_def)
qed

definition visited_run :: SimulationRun where
  "visited_run = (new_run ''run1'' ''v'' example_request 1 None ''Recorded demo'')\<lparr> rn_started_at := Some 1, rn_stage := SimulatingStage \<rparr>"

lemma example_submit:
  "submit ''v'' ''a'' example_request no_markets 1 ''run1'' empty_lab = (visited_lab, Inr ''run1'')"
  "sl_runs visited_lab = [(''run1'', visited_run)]"
proof -
  have source: "rq_source example_request = BundledSource" by (simp add: example_request_def)
  have pruned: "prune 1 empty_lab = empty_lab" by (simp add: prune_def empty_lab_def simlab_init_def)
  have refusal: "refusal ''v'' ''a'' BundledSource 1 empty_lab = None"
    by (simp add: refusal_def active_run_def empty_lab_def simlab_init_def limit_keys_def dict_get_or_def)
  have kept: "s_lab_runs_kept default_settings = 10" by (simp add: default_settings_def)
  have entered: "sl_runs (enter_run ''v'' ''a'' (new_run ''run1'' ''v'' example_request 1 None ''Recorded demo'') 1 empty_lab)
      = [(''run1'', new_run ''run1'' ''v'' example_request 1 None ''Recorded demo'')]"
      "sl_cache (enter_run ''v'' ''a'' (new_run ''run1'' ''v'' example_request 1 None ''Recorded demo'') 1 empty_lab) = []"
    by (simp_all add: enter_run_def source Let_def keep_newest_def own_runs_def record_stamps_def empty_lab_def simlab_init_def kept
        oldest_finished_take dict_set_def)
  show "submit ''v'' ''a'' example_request no_markets 1 ''run1'' empty_lab = (visited_lab, Inr ''run1'')"
    and "sl_runs visited_lab = [(''run1'', visited_run)]"
    by (simp_all add: visited_lab_def submit_def example_valid admit_def pruned source refusal Let_def begin_bundled_def update_run_def entered
        visited_run_def dict_set_def)
qed

lemma example_history:
  "lab_history env empty_lab 1 [((''visitor-bundled'', ''v''), 1), ((''address-bundled'', ''a''), 1)] visited_lab"
proof -
  have fresh: "dict_get (sl_runs empty_lab) ''run1'' = None" by (simp add: empty_lab_def simlab_init_def)
  have "0 \<le> (1 :: f64)" by simp
  then show ?thesis
    using lab_history.step [OF lab_history.start [where now = 0] _ lab_step.admitted [OF example_submit(1) fresh]]
    by (simp add: example_request_def limit_keys_def)
qed

theorem hourly_limits_hold_witness:
  "int (length (filter (\<lambda>t. \<not> HOUR < 1 - t)
      (charge_times (''visitor-bundled'', ''v'') [((''visitor-bundled'', ''v''), 1), ((''address-bundled'', ''a''), 1)]))) \<le> 60"
  using hourly_limits_hold [OF example_history [unfolded empty_lab_def, of example_service], of "(''visitor-bundled'', ''v'')"]
  by (simp add: key_limit_def default_settings_def)

section \<open>The runs\<close>

text \<open>C25. At any time of the service's life, every visitor has at most one run that is not finished and at most as many
  runs as the settings keep; the positions shown to visitors are those of the workers' queue, which is within its size
  and holds exactly the runs whose stage is waiting, each once.
\<close>

theorem lab_limits_hold:
  assumes "lab_history env (simlab_init settings library) now charges lab"
    and "1 \<le> s_lab_runs_kept settings" and "1 \<le> s_lab_queue_size settings"
  shows "length (filter run_active (own_runs visitor lab)) \<le> 1 \<and> int (length (own_runs visitor lab)) \<le> s_lab_runs_kept settings
    \<and> sl_waiting lab = sl_queue lab \<and> distinct (sl_queue lab) \<and> int (length (sl_queue lab)) \<le> s_lab_queue_size settings
    \<and> set (sl_queue lab) = {i. \<exists>run. dict_get (sl_runs lab) i = Some run \<and> rn_stage run = WaitingStage}"
proof -
  have ok: "lab_ok lab" by (rule lab_history_ok [OF assms(1) simlab_init_ok [OF assms(2,3)]])
  have settings: "sl_settings lab = settings" using lab_history_settings [OF assms(1)] by (simp add: simlab_init_def)
  have "length (filter run_active (own_runs visitor lab)) \<le> 1" using ok few_active by (simp add: lab_ok_def)
  moreover have "int (length (own_runs visitor lab)) \<le> s_lab_runs_kept settings" using ok settings by (auto simp: lab_ok_def kept_ok_def)
  moreover have line: "line_ok lab" using ok by (simp add: lab_ok_def)
  then have "sl_waiting lab = sl_queue lab" "distinct (sl_queue lab)" "int (length (sl_queue lab)) \<le> s_lab_queue_size settings"
    using settings by (simp_all add: line_ok_def)
  moreover have "set (sl_queue lab) = {i. \<exists>run. dict_get (sl_runs lab) i = Some run \<and> rn_stage run = WaitingStage}"
    using line unfolding line_ok_def by blast
  ultimately show ?thesis by blast
qed

theorem lab_limits_hold_witness:
  "length (filter run_active (own_runs ''v'' visited_lab)) \<le> 1 \<and> own_runs ''v'' visited_lab \<noteq> []"
proof -
  have "1 \<le> s_lab_runs_kept default_settings" "1 \<le> s_lab_queue_size default_settings" by (simp_all add: default_settings_def)
  from lab_limits_hold [OF example_history [unfolded empty_lab_def, of example_service] this, of "''v''"]
  show ?thesis by (simp add: own_runs_def example_submit(2) visited_run_def)
qed

end
