(* ===== verification/Lab_Service_Results.thy ===== *)
theory Lab_Service_Results
  imports Lab_Service_Runs
begin

text \<open>
  What a visitor can rely on for one run: it only moves forward, it stays as it is once it has finished, and a bundled
  run ends with what simulating its recording gives, whether or not the result came from the cache.
\<close>

section \<open>One run along a step\<close>

definition stage_rank :: "Stage \<Rightarrow> nat" where
  "stage_rank stage = (case stage of WaitingStage \<Rightarrow> 0 | RecordingStage \<Rightarrow> 1 | SimulatingStage \<Rightarrow> 2 | DoneStage \<Rightarrow> 3 | FailedStage \<Rightarrow> 3)"

text \<open>What may become of a run in a step.\<close>

definition runs_on :: "SimulationRun \<Rightarrow> SimulationRun option \<Rightarrow> bool" where
  "runs_on run found \<longleftrightarrow>
     (case found of
        None \<Rightarrow> \<not> run_active run
      | Some run' \<Rightarrow> run' = run \<or> run_active run \<and> rn_run_id run' = rn_run_id run \<and> rn_visitor_id run' = rn_visitor_id run
          \<and> rn_request run' = rn_request run \<and> rn_created_at run' = rn_created_at run
          \<and> stage_rank (rn_stage run) \<le> stage_rank (rn_stage run'))"

lemma runs_on_same [simp]: "runs_on run (Some run)"
  by (simp add: runs_on_def)

lemma runs_on_thinned:
  assumes "thinned lab lab'" and "runs_ok lab" and "dict_get (sl_runs lab) i = Some run"
  shows "runs_on run (dict_get (sl_runs lab') i)"
proof (cases "dict_get (sl_runs lab') i")
  case None
  then show ?thesis using thinned_get(2) [OF assms(1,2,3)] by (auto simp: runs_on_def)
next
  case (Some run')
  then show ?thesis using thinned_get(1) [OF assms(1,2)] assms(3) by fastforce
qed

lemma runs_on_entered:
  assumes ok: "lab_ok lab" and fresh: "dict_get (sl_runs lab) (rn_run_id new) = None" and act: "run_active new"
    and none: "active_run (rn_visitor_id new) lab = None" and run: "dict_get (sl_runs lab) i = Some run"
  shows "runs_on run (dict_get (sl_runs (entered ks new now lab)) i)" and "i \<noteq> rn_run_id new"
proof -
  note entered = entered_facts [OF ok fresh act none, where ks = ks and now = now]
  show other: "i \<noteq> rn_run_id new" using run fresh by auto
  show "runs_on run (dict_get (sl_runs (entered ks new now lab)) i)"
  proof (cases "dict_get (sl_runs (entered ks new now lab)) i")
    case None
    then show ?thesis using entered(6) [OF run] by (auto simp: runs_on_def)
  next
    case (Some run')
    then show ?thesis using entered(5) [OF Some other] run by simp
  qed
qed

lemma runs_on_pruned:
  assumes "lab_ok lab" and "dict_get (sl_runs lab) i = Some run"
    and "\<And>run. dict_get (sl_runs (prune now lab)) i = Some run \<Longrightarrow> runs_on run (dict_get (sl_runs lab') i)"
    and "dict_get (sl_runs (prune now lab)) i = None \<Longrightarrow> dict_get (sl_runs lab') i = None"
  shows "runs_on run (dict_get (sl_runs lab') i)"
proof -
  have runs: "runs_ok lab" using assms(1) by (simp add: lab_ok_def)
  have pruned: "runs_on run (dict_get (sl_runs (prune now lab)) i)" by (rule runs_on_thinned [OF prune_thinned runs assms(2)])
  show ?thesis
  proof (cases "dict_get (sl_runs (prune now lab)) i")
    case None
    then show ?thesis using pruned assms(4) by (simp add: runs_on_def)
  next
    case (Some run')
    then have "run' = run" using thinned_get(1) [OF prune_thinned runs Some] assms(2) by simp
    then show ?thesis using assms(3) Some by simp
  qed
qed

lemma admit_runs_on:
  assumes ok: "lab_ok lab" and fresh: "dict_get (sl_runs lab) i = None"
    and admit: "admit v address request rules label now i lab = (lab', Inr i')"
    and run: "dict_get (sl_runs lab) j = Some run"
  shows "runs_on run (dict_get (sl_runs lab') j)"
proof (rule runs_on_pruned [OF ok run, where now = now])
  note pruned = prune_ok [OF ok, of now] prune_fresh [OF ok fresh, of now]
  have other: "j \<noteq> i" using run fresh by auto
  let ?new = "new_run i v request now rules label"
  have none: "active_run v (prune now lab) = None" using admit refusal_None(1) by (cases rule: admitE) auto
  have runs: "dict_get (sl_runs lab') j = dict_get (sl_runs (entered (limit_keys v address (rq_source request)) ?new now (prune now lab))) j"
    using admit other by (cases rule: admitE) simp_all
  have facts: "dict_get (sl_runs (prune now lab)) (rn_run_id ?new) = None" "run_active ?new" "active_run (rn_visitor_id ?new) (prune now lab) = None"
    using pruned(2) none by simp_all
  show "runs_on r (dict_get (sl_runs lab') j)" if "dict_get (sl_runs (prune now lab)) j = Some r" for r
    unfolding runs by (rule runs_on_entered(1) [OF pruned(1) facts that])
  show "dict_get (sl_runs lab') j = None" if "dict_get (sl_runs (prune now lab)) j = None"
    using entered_facts(5) [OF pruned(1) facts, of _ now j] that other
    unfolding runs by (cases "dict_get (sl_runs (entered (limit_keys v address (rq_source request)) ?new now (prune now lab))) j") auto
qed

lemma lab_step_runs_on:
  assumes "lab_step env now ks lab lab'" and "lab_ok lab" and "dict_get (sl_runs lab) j = Some run"
  shows "runs_on run (dict_get (sl_runs lab') j)"
  using assms
proof (induction rule: lab_step.induct)
  case (refused v a r answer i lab lab' e)
  obtain lab1 res where v: "validate answer r lab = (lab1, res)" by fastforce
  have frame: "sl_runs lab1 = sl_runs lab" "lab_ok lab1"
    using validate_frame [of answer r lab] v refused lab_ok_frame [of lab1 lab] by simp_all
  have "runs_on run (dict_get (sl_runs (prune now lab1)) j)"
    using runs_on_thinned [OF prune_thinned, of lab1] frame refused by (simp add: lab_ok_def)
  then show ?case using refused v frame by (cases res) (auto simp: submit_def dest: admit_refused)
next
  case (admitted v a r answer i lab lab' i')
  obtain lab1 res where v: "validate answer r lab = (lab1, res)" by fastforce
  have frame: "sl_runs lab1 = sl_runs lab" "lab_ok lab1"
    using validate_frame [of answer r lab] v admitted lab_ok_frame [of lab1 lab] by simp_all
  show ?case using admitted v frame admit_runs_on [of lab1] by (cases res) (auto simp: submit_def)
next
  case (bundled lab i r)
  then have "runs_on r (Some (fail_run now m r))" "runs_on r (Some (complete_run now p r))" for m p
    by (simp_all add: runs_on_def run_active_def stage_rank_def fail_run_def complete_run_def)
  then show ?case using bundled by (cases "j = i") (simp_all add: end_bundled_def split: sum.split)
next
  case (simulated lab i r recording)
  then have "runs_on r (Some (fail_run now m r))" "runs_on r (Some (complete_run now p r))" for m p
    by (simp_all add: runs_on_def run_active_def stage_rank_def fail_run_def complete_run_def)
  then show ?case using simulated by (cases "j = i") (simp_all add: end_live_def split: sum.split)
next
  case (recorded lab i r outcome)
  then show ?case
    by (cases outcome; cases "j = i") (simp_all add: end_recording_def runs_on_def run_active_def stage_rank_def fail_run_def)
next
  case (progressed lab i r s)
  then show ?case by (cases "j = i") (simp_all add: progress_run_def runs_on_def run_active_def stage_rank_def)
next
  case (taken lab)
  show ?case
  proof (cases "sl_queue lab")
    case Nil
    then show ?thesis using taken by (simp add: worker_take_def)
  next
    case (Cons i rest)
    then obtain r where r: "dict_get (sl_runs lab) i = Some r" "rn_stage r = WaitingStage"
      using taken(1) unfolding lab_ok_def line_ok_def by (metis list.set_intros(1))
    then show ?thesis using taken Cons
      by (cases "j = i") (simp_all add: worker_take_def Let_def waiting_is_active runs_on_def stage_rank_def)
  qed
qed (simp_all add: list_runs_def get_run_def Let_def runs_on_thinned [OF prune_thinned] lab_ok_def)

text \<open>C26. A visitor's run only moves forward: from one moment of the service's life to the next it keeps its id, visitor,
  request and time of submission and never goes back to an earlier stage, a finished run stays exactly as it is, and only
  finished runs are ever forgotten.
\<close>

theorem runs_only_move_forward:
  assumes "lab_history env (simlab_init settings library) now charges lab" and "lab_step env later ks lab lab'"
    and "1 \<le> s_lab_runs_kept settings" and "1 \<le> s_lab_queue_size settings"
    and "dict_get (sl_runs lab) i = Some run"
  shows "case dict_get (sl_runs lab') i of
      None \<Rightarrow> \<not> run_active run
    | Some run' \<Rightarrow> rn_run_id run' = i \<and> rn_visitor_id run' = rn_visitor_id run \<and> rn_request run' = rn_request run
        \<and> rn_created_at run' = rn_created_at run \<and> stage_rank (rn_stage run) \<le> stage_rank (rn_stage run')
        \<and> (if run_active run then True else run' = run)"
proof -
  have ok: "lab_ok lab" by (rule lab_history_ok [OF assms(1) simlab_init_ok [OF assms(3,4)]])
  then have "rn_run_id run = i" using assms(5) by (simp add: lab_ok_def runs_ok_def)
  then show ?thesis using lab_step_runs_on [OF assms(2) ok assms(5)] by (auto simp: runs_on_def split: option.split)
qed

lemma visited_get: "dict_get (sl_runs visited_lab) ''run1'' = Some visited_run"
  by (simp add: example_submit(2))

lemma visited_failed:
  "dict_get (sl_runs (end_bundled example_service t ''run1'' visited_lab)) ''run1'' = Some (fail_run t ''unreadable'' visited_run)"
  by (simp add: end_bundled_def visited_get bundled_payload_def example_service_def)

lemma visited_step: "lab_step example_service t [] visited_lab (end_bundled example_service t ''run1'' visited_lab)"
  by (rule lab_step.bundled [OF visited_get]) (simp_all add: visited_run_def example_request_def)

theorem runs_only_move_forward_witness:
  "rn_stage visited_run = SimulatingStage
    \<and> (\<exists>run. dict_get (sl_runs (end_bundled example_service (lit 2) ''run1'' visited_lab)) ''run1'' = Some run
         \<and> rn_stage run = FailedStage \<and> rn_visitor_id run = rn_visitor_id visited_run)"
proof -
  have "1 \<le> s_lab_runs_kept default_settings" "1 \<le> s_lab_queue_size default_settings" by (simp_all add: default_settings_def)
  from runs_only_move_forward [OF example_history [unfolded empty_lab_def] visited_step [of "lit 2"] this visited_get]
  show ?thesis by (simp add: visited_failed) (simp add: visited_run_def)
qed

section \<open>Bundled results\<close>

lemma bundled_payload_key:
  assumes "cache_key r = cache_key r'"
  shows "bundled_payload env r = bundled_payload env r'"
proof -
  have same: "rq_bundle_id r = rq_bundle_id r'" "rq_strategy r = rq_strategy r'" "rq_spread_bps r = rq_spread_bps r'"
      "rq_fill_model r = rq_fill_model r'"
    using assms by (simp_all add: cache_key_def)
  show ?thesis unfolding bundled_payload_def simulate_dict_def same ..
qed

definition cache_true :: "ServiceEnv \<Rightarrow> SimLab \<Rightarrow> bool" where
  "cache_true env lab \<longleftrightarrow> (\<forall>request payload. dict_get (sl_cache lab) (cache_key request) = Some payload
     \<longrightarrow> bundled_payload env request = Inr payload)"

definition bundled_true :: "ServiceEnv \<Rightarrow> SimulationRun \<Rightarrow> bool" where
  "bundled_true env run \<longleftrightarrow> rq_source (rn_request run) = BundledSource \<longrightarrow>
     (case rn_stage run of
        DoneStage \<Rightarrow> \<exists>payload. bundled_payload env (rn_request run) = Inr payload \<and> rn_result run = Some payload
      | FailedStage \<Rightarrow> \<exists>e. bundled_payload env (rn_request run) = Inl e \<and> rn_error run = Some (sv_err_text env e)
      | stage \<Rightarrow> stage = SimulatingStage)"

definition results_true :: "ServiceEnv \<Rightarrow> SimLab \<Rightarrow> bool" where
  "results_true env lab \<longleftrightarrow> cache_true env lab \<and> (\<forall>i run. dict_get (sl_runs lab) i = Some run \<longrightarrow> bundled_true env run)"

lemma results_trueD: "results_true env lab \<Longrightarrow> dict_get (sl_runs lab) i = Some run \<Longrightarrow> bundled_true env run"
  unfolding results_true_def by blast

text \<open>Runs that stay are true by assumption, so what is left is the run that moves.\<close>

lemma results_true_from:
  assumes "results_true env lab" and "cache_true env lab'"
    and "\<And>i run. dict_get (sl_runs lab') i = Some run \<Longrightarrow> dict_get (sl_runs lab) i = Some run \<or> bundled_true env run"
  shows "results_true env lab'"
  using assms unfolding results_true_def by blast

lemma results_true_update:
  assumes "results_true env lab" and "dict_get (sl_runs lab) i = Some r" and "bundled_true env (f r)"
  shows "results_true env (update_run i f lab)"
proof (rule results_true_from [OF assms(1)])
  show "cache_true env (update_run i f lab)" using assms(1) by (simp add: results_true_def cache_true_def)
  show "dict_get (sl_runs lab) j = Some run \<or> bundled_true env run" if "dict_get (sl_runs (update_run i f lab)) j = Some run" for j run
    using that assms(2,3) by (cases "j = i") auto
qed

lemma results_true_cache:
  assumes "results_true env lab" and "bundled_payload env request = Inr payload"
  shows "results_true env (lab\<lparr> sl_cache := dict_set (cache_key request) payload (sl_cache lab) \<rparr>)"
proof -
  have "bundled_payload env r = Inr p"
    if "dict_get (dict_set (cache_key request) payload (sl_cache lab)) (cache_key r) = Some p" for r p
  proof (cases "cache_key r = cache_key request")
    case True
    then show ?thesis using that assms(2) bundled_payload_key [OF True] by simp
  next
    case False
    then show ?thesis using that assms(1) by (simp add: results_true_def cache_true_def)
  qed
  then show ?thesis using assms(1) unfolding results_true_def cache_true_def by simp
qed

lemma results_true_pruned:
  assumes "results_true env lab" and "lab_ok lab"
  shows "results_true env (prune now lab)"
proof (rule results_true_from [OF assms(1)])
  show "cache_true env (prune now lab)" using assms(1) by (simp add: results_true_def cache_true_def)
qed (use thinned_get(1) [OF prune_thinned] assms(2) in \<open>auto simp: lab_ok_def\<close>)

lemma admit_results_true:
  assumes true: "results_true env lab" and ok: "lab_ok lab" and fresh: "dict_get (sl_runs lab) i = None"
    and admit: "admit v address request rules label now i lab = (lab', Inr i')"
  shows "results_true env lab'"
proof -
  note pruned = prune_ok [OF ok, of now] prune_fresh [OF ok fresh, of now] results_true_pruned [OF true ok, of now]
  let ?new = "new_run i v request now rules label"
  let ?entered = "entered (limit_keys v address (rq_source request)) ?new now (prune now lab)"
  have none: "active_run v (prune now lab) = None" using admit refusal_None(1) by (cases rule: admitE) auto
  have facts: "dict_get (sl_runs (prune now lab)) (rn_run_id ?new) = None" "run_active ?new" "active_run (rn_visitor_id ?new) (prune now lab) = None"
    using pruned(2) none by simp_all
  have old: "bundled_true env r" if "dict_get (sl_runs ?entered) j = Some r" "j \<noteq> i" for j r
    using entered_facts(5) [OF pruned(1) facts that(1)] that(2) results_trueD [OF pruned(3)] by simp
  have new: "dict_get (sl_runs ?entered) i = Some ?new" using entered_facts(4) [OF pruned(1) facts] by simp
  have cache: "sl_cache ?entered = sl_cache lab" by (simp add: entered_def)
  from admit show ?thesis
  proof (cases rule: admitE)
    case live
    have started: "bundled_true env ?new" by (simp add: bundled_true_def live(1))
    have "bundled_true env r" if "dict_get (sl_runs ?entered) j = Some r" for j r
    proof (cases "j = i")
      case True
      then have "r = ?new" using new that by simp
      then show ?thesis using started by blast
    qed (rule old [OF that])
    then show ?thesis using true unfolding live(3) results_true_def cache_true_def by (simp add: cache)
  next
    case bundled
    have "bundled_true env (began now (dict_get (sl_cache lab) (cache_key request)) ?new)"
    proof (cases "dict_get (sl_cache lab) (cache_key request)")
      case (Some payload)
      then have "bundled_payload env request = Inr payload" using true by (simp add: results_true_def cache_true_def)
      then show ?thesis using Some by (simp add: bundled_true_def began_def)
    qed (simp add: bundled_true_def began_def)
    then have "bundled_true env r" if "dict_get (sl_runs lab') j = Some r" for j r
      using old [of j r] new that unfolding bundled(3) by (cases "j = i") auto
    then show ?thesis using true unfolding bundled(3) results_true_def cache_true_def by (simp add: cache)
  qed
qed

lemma lab_step_results_true:
  assumes "lab_step env now ks lab lab'" and "lab_ok lab" and "results_true env lab"
  shows "results_true env lab'"
  using assms
proof (induction rule: lab_step.induct)
  case (refused v a r answer i lab lab' e)
  obtain lab1 res where v: "validate answer r lab = (lab1, res)" by fastforce
  have frame: "results_true env lab1" "lab_ok lab1"
    using validate_frame [of answer r lab] v refused lab_ok_frame [of lab1 lab] by (simp_all add: results_true_def cache_true_def)
  then show ?case using refused.hyps v results_true_pruned [of env lab1 now] by (cases res) (auto simp: submit_def dest: admit_refused)
next
  case (admitted v a r answer i lab lab' i')
  obtain lab1 res where v: "validate answer r lab = (lab1, res)" by fastforce
  have frame: "results_true env lab1" "lab_ok lab1" "sl_runs lab1 = sl_runs lab"
    using validate_frame [of answer r lab] v admitted lab_ok_frame [of lab1 lab] by (simp_all add: results_true_def cache_true_def)
  then show ?case using admitted v admit_results_true [OF frame(1,2)] by (cases res) (auto simp: submit_def)
next
  case (bundled lab i r)
  show ?case
  proof (cases "bundled_payload env (rn_request r)")
    case (Inl e)
    then show ?thesis using bundled results_true_update [OF bundled(5,1)]
      by (simp add: end_bundled_def bundled_true_def) (simp add: fail_run_def)
  next
    case (Inr payload)
    then show ?thesis
      using bundled results_true_update [OF results_true_cache [OF bundled(5) Inr], of i r]
      by (simp add: end_bundled_def bundled_true_def)
  qed
next
  case (simulated lab i r recording)
  then show ?case using results_true_update [OF simulated(5,1)]
    by (simp add: end_live_def bundled_true_def split: sum.split)
next
  case (recorded lab i r outcome)
  then have "rq_source (rn_request r) = LiveSource" unfolding lab_ok_def line_ok_def by blast
  then show ?case using results_true_update [OF recorded(4,1)]
    by (cases outcome) (simp_all add: end_recording_def bundled_true_def)
next
  case (progressed lab i r s)
  then have "rq_source (rn_request r) = LiveSource" unfolding lab_ok_def line_ok_def by blast
  then show ?case using results_true_update [OF progressed(4,1)] by (simp add: progress_run_def bundled_true_def)
next
  case (taken lab)
  show ?case
  proof (cases "sl_queue lab")
    case Nil
    then show ?thesis using taken by (simp add: worker_take_def)
  next
    case (Cons i rest)
    then obtain r where r: "dict_get (sl_runs lab) i = Some r" "rn_stage r = WaitingStage"
      using taken(1) unfolding lab_ok_def line_ok_def by (metis list.set_intros(1))
    then have "rq_source (rn_request r) = LiveSource" using taken(1) unfolding lab_ok_def line_ok_def by blast
    moreover define lab1 where "lab1 = lab\<lparr> sl_queue := rest, sl_waiting := remove1 i (sl_waiting lab) \<rparr>"
    moreover have "results_true env lab1" "dict_get (sl_runs lab1) i = Some r"
      using taken(2) r by (simp_all add: lab1_def results_true_def cache_true_def)
    ultimately show ?thesis using Cons r results_true_update [of env lab1 i r]
      by (simp add: worker_take_def Let_def waiting_is_active bundled_true_def)
  qed
qed (simp_all add: list_runs_def get_run_def Let_def results_true_pruned)

lemma lab_history_results_true:
  "lab_history env lab0 now charges lab \<Longrightarrow> lab_ok lab0 \<Longrightarrow> results_true env lab0 \<Longrightarrow> results_true env lab"
  by (induction rule: lab_history.induct) (auto intro: lab_step_results_true lab_history_ok)

text \<open>C27. A bundled run ends the way simulating its recording with its settings ends, whether the service simulated it for
  this run or took the result of an earlier one from its cache: a run that is done has exactly that result, a failed one
  has the message of the error simulating raises, and until then it is being simulated.
\<close>

theorem bundled_runs_end_as_simulated:
  assumes "lab_history env (simlab_init settings library) now charges lab"
    and "1 \<le> s_lab_runs_kept settings" and "1 \<le> s_lab_queue_size settings"
    and "dict_get (sl_runs lab) i = Some run" and "rq_source (rn_request run) = BundledSource"
  shows "case rn_stage run of
      DoneStage \<Rightarrow> \<exists>payload. bundled_payload env (rn_request run) = Inr payload \<and> rn_result run = Some payload
    | FailedStage \<Rightarrow> \<exists>e. bundled_payload env (rn_request run) = Inl e \<and> rn_error run = Some (sv_err_text env e)
    | stage \<Rightarrow> stage = SimulatingStage"
proof -
  have "results_true env (simlab_init settings library)" by (simp add: simlab_init_def results_true_def cache_true_def)
  then have "results_true env lab" using lab_history_results_true [OF assms(1) simlab_init_ok [OF assms(2,3)]] by blast
  then have "bundled_true env run" by (rule results_trueD [OF _ assms(4)])
  then show ?thesis unfolding bundled_true_def by (rule mp) (rule assms(5))
qed

theorem bundled_runs_end_as_simulated_witness:
  "\<exists>e run. dict_get (sl_runs (end_bundled example_service (lit 2) ''run1'' visited_lab)) ''run1'' = Some run
     \<and> bundled_payload example_service (rn_request run) = Inl e \<and> rn_error run = Some (sv_err_text example_service e)"
proof -
  have kept: "1 \<le> s_lab_runs_kept default_settings" "1 \<le> s_lab_queue_size default_settings" by (simp_all add: default_settings_def)
  have "1 \<le> lit 2" by (simp add: le_val val_lit_numeral)
  note history = lab_history.step [OF example_history [unfolded empty_lab_def] this visited_step]
  have "rq_source (rn_request (fail_run (lit 2) ''unreadable'' visited_run)) = BundledSource"
    by (simp add: visited_run_def example_request_def)
  from bundled_runs_end_as_simulated [OF history kept visited_failed this]
  have "\<exists>e. bundled_payload example_service (rn_request (fail_run (lit 2) ''unreadable'' visited_run)) = Inl e
      \<and> rn_error (fail_run (lit 2) ''unreadable'' visited_run) = Some (sv_err_text example_service e)" by simp
  then show ?thesis using visited_failed [of "lit 2"] by blast
qed

end
