(* ===== verification/Testnet_Models.thy ===== *)
theory Testnet_Models
  imports Lab_Domain Lab_Settings Py_Number Py_Dict
begin

text \<open>
  The testnet trader's records (\<open>app/models/testnet.py\<close>), the exchange's trading rules
  (\<open>app/services/testnet/rules.py\<close>) and the errors its client raises (\<open>app/adapters/cex/binance_testnet.py\<close>).
\<close>

section \<open>Records\<close>

datatype OrderState = NewOrder | OpenOrder | PartiallyFilled | FilledOrder | CancelledOrder | RejectedOrder | ExpiredOrder | UnknownState
datatype RejectReason = PostOnly | MinSize | MinNotional | Unfundable | OtherReason
datatype TraderState = TraderDisabled | TraderNoKeys | TraderStarting | TraderRunning | TraderPaused | CancelPending
  | TraderRateLimited | TraderUnavailable | TraderAuthFailed | TraderStopped
datatype TraderSource = SourceLive | SourceRecorded | SourceNone

definition FINAL_ORDER_STATES :: "OrderState set" where
  "FINAL_ORDER_STATES = {FilledOrder, CancelledOrder, RejectedOrder, ExpiredOrder}"

definition OPEN_ORDER_STATES :: "OrderState set" where
  "OPEN_ORDER_STATES = {NewOrder, OpenOrder, PartiallyFilled, UnknownState}"

definition FILL_MODELS :: "FillMode list" where
  "FILL_MODELS = [FULL_CROSS, PARTIAL, LATENCY_PROB, CALIBRATED]"

definition TAG_PREFIX :: string where "TAG_PREFIX = ''mmlab-''"

definition COUNTER_NAMES :: "string list" where
  "COUNTER_NAMES = [''placed'', ''cancelled'', ''filled'', ''partially_filled'', ''rejected_post_only'', ''rejected_other'',
     ''skipped_min_size'', ''skipped_min_notional'', ''skipped_unfundable'', ''cancel_too_late'', ''unexplained'',
     ''leftovers_cancelled'', ''resets'', ''errors'']"

record SymbolRules =
  sy_symbol :: string
  sy_tick_size :: f64
  sy_step_size :: f64
  sy_min_qty :: f64
  sy_min_notional :: f64

record OrderEvent =
  oe_at :: datetime
  oe_kind :: string
  oe_detail :: "string option"

record TestnetOrder =
  to_client_order_id :: string
  to_session_id :: string
  to_side :: QuoteSide
  to_price :: f64
  to_size :: f64
  to_placed_at :: datetime
  to_quote_id :: "string option"
  to_exchange_order_id :: "int option"
  to_state :: OrderState
  to_filled_size :: f64
  to_filled_notional :: f64
  to_reject_reason :: "RejectReason option"
  to_acked_at :: "datetime option"
  to_ended_at :: "datetime option"
  to_events :: "OrderEvent list"

definition order_is_final :: "TestnetOrder \<Rightarrow> bool" where
  "order_is_final order \<longleftrightarrow> to_state order \<in> FINAL_ORDER_STATES"

definition order_is_open :: "TestnetOrder \<Rightarrow> bool" where
  "order_is_open order \<longleftrightarrow> to_state order \<in> OPEN_ORDER_STATES"

definition accepted :: "TestnetOrder \<Rightarrow> bool" where
  "accepted order \<longleftrightarrow> to_acked_at order \<noteq> None"

definition avg_fill_price :: "TestnetOrder \<Rightarrow> f64 option" where
  "avg_fill_price order = (if to_filled_size order > 0 then Some (to_filled_notional order / to_filled_size order) else None)"

definition add_event :: "datetime \<Rightarrow> string \<Rightarrow> string option \<Rightarrow> TestnetOrder \<Rightarrow> TestnetOrder" where
  "add_event t kind detail order =
     order\<lparr> to_events := to_events order @ [\<lparr> oe_at = t, oe_kind = kind, oe_detail = detail \<rparr>] \<rparr>"

record TestnetFill =
  tf_trade_id :: int
  tf_client_order_id :: string
  tf_session_id :: string
  tf_side :: QuoteSide
  tf_price :: f64
  tf_size :: f64
  tf_fee :: f64
  tf_fee_asset :: string
  tf_at :: datetime
  tf_is_maker :: bool

record ShadowFill =
  sf_fill_model :: FillMode
  sf_client_order_id :: string
  sf_session_id :: string
  sf_side :: QuoteSide
  sf_price :: f64
  sf_size :: f64
  sf_fee :: f64
  sf_at :: datetime
  sf_tick_seq :: int

record TestnetTick =
  tk_session_id :: string
  tk_seq :: int
  tk_at :: datetime
  tk_best_bid :: "f64 option"
  tk_bid_size :: "f64 option"
  tk_best_ask :: "f64 option"
  tk_ask_size :: "f64 option"
  tk_open_orders :: "string list"

record TestnetSession =
  se_session_id :: string
  se_live :: bool
  se_started_at :: datetime
  se_start_base :: f64
  se_start_quote :: f64
  se_maker_commission_bps :: f64
  se_account_base :: "f64 option"
  se_account_quote :: "f64 option"
  se_ended_at :: "datetime option"
  se_end_reason :: "string option"

record ReconcileState =
  rs_last_at :: "datetime option"
  rs_ok :: "bool option"
  rs_unexplained :: int

record TraderStatus =
  st_state :: TraderState
  st_reason :: "string option"
  st_keys_present :: bool
  st_source :: TraderSource
  st_session_id :: "string option"
  st_started_at :: "datetime option"
  st_last_iteration_at :: "datetime option"
  st_open_orders :: nat
  st_kill_switch_active :: bool
  st_weight_used_ratio :: "f64 option"
  st_counters :: "(string, int) dict"
  st_reconcile :: ReconcileState

record FillComparison =
  fc_fill_model :: FillMode
  fc_orders :: nat
  fc_real_filled :: nat
  fc_paper_filled :: nat
  fc_matched :: nat
  fc_paper_only :: nat
  fc_real_only :: nat
  fc_neither :: int
  fc_real_fill_rate :: "f64 option"
  fc_paper_fill_rate :: "f64 option"
  fc_median_time_to_fill_real_sec :: "f64 option"
  fc_median_time_to_fill_paper_sec :: "f64 option"
  fc_mean_size_diff :: "f64 option"
  fc_mean_price_diff_bps :: "f64 option"
  fc_real_pnl :: f64
  fc_paper_pnl :: f64
  fc_pnl_gap :: f64

section \<open>Decimal numbers\<close>

text \<open>
  \<open>Decimal(repr(x))\<close>: the decimal fraction in the shortest text that reads back as the float, which the interpreter
  chooses; \<open>dec\<close> gives it. Arithmetic on decimals rounds half-even to 28 significant digits.
\<close>

definition digits_of :: "int \<Rightarrow> int" where
  "digits_of n = int (length (nat_str (nat \<bar>n\<bar>)))"

definition rat_rne :: "rat \<Rightarrow> int" where
  "rat_rne y = (let n = \<lfloor>y\<rfloor>; d = y - of_int n
                in if d < 1 / 2 then n else if 1 / 2 < d then n + 1 else if even n then n else n + 1)"

text \<open>The decimal exponent of the leading digit of a rational number.\<close>

definition leading_exponent :: "rat \<Rightarrow> int" where
  "leading_exponent x =
     (let (p, q) = quotient_of \<bar>x\<bar>; k = digits_of p - digits_of q
      in if \<bar>x\<bar> < 10 powi k then k - 1 else k)"

definition round28 :: "rat \<Rightarrow> rat" where
  "round28 x = (if x = 0 then 0
                else let e = leading_exponent x - 27 in of_int (rat_rne (x / 10 powi e)) * 10 powi e)"

definition dec_div :: "rat \<Rightarrow> rat \<Rightarrow> rat res" where
  "dec_div a b = (if b = 0 then raise_error (if a = 0 then OtherError ''InvalidOperation'' else ZeroDivisionError)
                  else ok (round28 (a / b)))"

datatype DecRounding = ROUND_FLOOR | ROUND_CEILING

definition to_integral_value :: "DecRounding \<Rightarrow> rat \<Rightarrow> int" where
  "to_integral_value way x = (case way of ROUND_FLOOR \<Rightarrow> \<lfloor>x\<rfloor> | ROUND_CEILING \<Rightarrow> \<lceil>x\<rceil>)"

definition quantize :: "(f64 \<Rightarrow> rat) \<Rightarrow> f64 \<Rightarrow> f64 \<Rightarrow> DecRounding \<Rightarrow> rat res" where
  "quantize dec x grid way =
     rbind (dec_div (dec x) (dec grid)) (\<lambda>units. ok (round28 (of_int (to_integral_value way units) * dec grid)))"

definition float_of_rat :: "rat \<Rightarrow> f64" where
  "float_of_rat x = lit (of_rat x)"

section \<open>Trading rules\<close>

definition round_price :: "(f64 \<Rightarrow> rat) \<Rightarrow> f64 \<Rightarrow> QuoteSide \<Rightarrow> SymbolRules \<Rightarrow> f64 res" where
  "round_price dec price side rules =
     rbind (quantize dec price (sy_tick_size rules) (if side = BID then ROUND_FLOOR else ROUND_CEILING)) (\<lambda>d. ok (float_of_rat d))"

definition round_size :: "(f64 \<Rightarrow> rat) \<Rightarrow> f64 \<Rightarrow> SymbolRules \<Rightarrow> f64 res" where
  "round_size dec sz rules = rbind (quantize dec sz (sy_step_size rules) ROUND_FLOOR) (\<lambda>d. ok (float_of_rat d))"

text \<open>The number of decimals of a decimal fraction in lowest terms: the digits after the point of \<open>normalize\<close>.\<close>

function decimals_from :: "nat \<Rightarrow> nat \<Rightarrow> rat \<Rightarrow> nat" where
  "decimals_from k fuel x = (if fuel \<le> k \<or> x * 10 ^ k = of_int \<lfloor>x * 10 ^ k\<rfloor> then k else decimals_from (k + 1) fuel x)"
  by auto
termination by (relation "measure (\<lambda>(k, fuel, x). fuel - k)") auto

text \<open>A float has at most 341 decimals in its shortest text: 17 digits down to the exponent of the least double.\<close>

definition MAX_DECIMALS :: nat where "MAX_DECIMALS = 341"

definition step_places :: "(f64 \<Rightarrow> rat) \<Rightarrow> f64 \<Rightarrow> nat" where
  "step_places dec grid = decimals_from 0 MAX_DECIMALS (dec grid)"

definition dec_fixed :: "nat \<Rightarrow> rat \<Rightarrow> string" where
  "dec_fixed k x =
     (let n = nat (rat_rne (\<bar>x\<bar> * 10 ^ k))
      in (if x < 0 then ''-'' else '''') @ nat_str (n div 10 ^ k)
         @ (if k = 0 then '''' else ''.'' @ padded k (nat_str (n mod 10 ^ k))))"

definition format_step :: "(f64 \<Rightarrow> rat) \<Rightarrow> f64 \<Rightarrow> f64 \<Rightarrow> string" where
  "format_step dec x grid = dec_fixed (step_places dec grid) (dec x)"

definition check_minimums :: "f64 \<Rightarrow> f64 \<Rightarrow> SymbolRules \<Rightarrow> RejectReason option" where
  "check_minimums price sz rules =
     (if sz \<le> 0 \<or> sz < sy_min_qty rules then Some MinSize
      else if price * sz < sy_min_notional rules then Some MinNotional
      else None)"

text \<open>The exchange's description of a symbol: its filters, each a dictionary of texts.\<close>

record SymbolInfo =
  yi_symbol :: "string option"
  yi_filters :: "(string, string) dict list"

definition filters_of :: "SymbolInfo \<Rightarrow> (string option, (string, string) dict) dict" where
  "filters_of entry = foldl (\<lambda>d f. dict_set (dict_get f ''filterType'') f d) [] (yi_filters entry)"

definition filter_number :: "(string, string) dict \<Rightarrow> string \<Rightarrow> string \<Rightarrow> f64 res" where
  "filter_number f key missing = py_float (dict_get_or f key missing)"

fun rules_from_exchange_info :: "SymbolInfo list \<Rightarrow> string \<Rightarrow> SymbolRules res" where
  "rules_from_exchange_info [] symbol = raise_error ValueError"
| "rules_from_exchange_info (entry # entries) symbol =
     (if yi_symbol entry \<noteq> Some symbol then rules_from_exchange_info entries symbol
      else
        let filters = filters_of entry;
            price_filter = dict_get_or filters (Some ''PRICE_FILTER'') [];
            lot = dict_get_or filters (Some ''LOT_SIZE'') [];
            notional = (case dict_get filters (Some ''NOTIONAL'') of
                          Some (f # fs) \<Rightarrow> f # fs
                        | _ \<Rightarrow> dict_get_or filters (Some ''MIN_NOTIONAL'') [])
        in rbind (filter_number price_filter ''tickSize'' ''0.01'') (\<lambda>tick_size.
           rbind (filter_number lot ''stepSize'' ''0.00001'') (\<lambda>step_size.
           rbind (filter_number lot ''minQty'' ''0'') (\<lambda>min_qty.
           rbind (filter_number notional ''minNotional'' ''0'') (\<lambda>min_notional.
             ok \<lparr> sy_symbol = symbol, sy_tick_size = tick_size, sy_step_size = step_size,
                  sy_min_qty = min_qty, sy_min_notional = min_notional \<rparr>)))))"

end
