(* ===== verification/Testnet_Client.thy ===== *)
theory Testnet_Client
  imports Testnet_Models
begin

text \<open>
  The client of the exchange's test network (\<open>app/adapters/cex/binance_testnet.py\<close>): its exceptions, how an answer of
  the server becomes one, the parameters of its requests, the weight and clock it keeps. The HTTP exchange itself is an
  argument: what the library returned for the request. Signing and URL encoding are not modelled.
\<close>

section \<open>Exceptions\<close>

text \<open>
  The exceptions the trader meets: those of the client, its own signal after a reset, and any other one. The exceptions
  of the client are subclasses of \<open>TestnetError\<close> and siblings of each other; \<open>HostNotAllowed\<close> is a \<open>RuntimeError\<close>.
\<close>

datatype TraderError =
    PlainTestnetError
  | TestnetUnavailable bool
  | AuthFailed
  | RateLimited f64
  | OrderRejected RejectReason
  | UnknownOrder
  | TimestampOutOfWindow
  | HostNotAllowed
  | SessionReset
  | OtherException py_error

definition is_testnet_error :: "TraderError \<Rightarrow> bool" where
  "is_testnet_error e \<longleftrightarrow> (case e of HostNotAllowed \<Rightarrow> False | SessionReset \<Rightarrow> False | OtherException _ \<Rightarrow> False | _ \<Rightarrow> True)"

definition lift_error :: "'a res \<Rightarrow> TraderError + 'a" where
  "lift_error r = (case r of Inl e \<Rightarrow> Inl (OtherException e) | Inr x \<Rightarrow> Inr x)"

definition has_text :: "string \<Rightarrow> string \<Rightarrow> bool" where
  "has_text needle text = list_ex (\<lambda>i. take (length needle) (drop i text) = needle) [0..<length text + 1]"

definition retry_wait :: "string option \<Rightarrow> f64" where
  "retry_wait retry_after =
     (case retry_after of
        None \<Rightarrow> lit 60
      | Some text \<Rightarrow> if text = [] then lit 60 else (case py_float text of Inl e \<Rightarrow> lit 60 | Inr t \<Rightarrow> t))"

definition classify_error :: "int \<Rightarrow> int option \<Rightarrow> string \<Rightarrow> string option \<Rightarrow> TraderError" where
  "classify_error http_status code msg retry_after =
     (let lowered = py_lower msg in
      if http_status \<in> {418, 429} then RateLimited (retry_wait retry_after)
      else if code \<in> {Some (- 2014), Some (- 2015), Some (- 1022), Some (- 2008)} \<or> http_status = 401 then AuthFailed
      else if code = Some (- 2010)
      then OrderRejected (if has_text ''immediately match'' lowered then PostOnly
                          else if has_text ''insufficient balance'' lowered then Unfundable else OtherReason)
      else if code = Some (- 1013)
      then OrderRejected (if has_text ''notional'' lowered then MinNotional
                          else if has_text ''lot_size'' lowered \<or> has_text ''quantity'' lowered then MinSize else OtherReason)
      else if code \<in> {Some (- 2011), Some (- 2013)} then UnknownOrder
      else if code = Some (- 1021) then TimestampOutOfWindow
      else if 500 \<le> http_status then TestnetUnavailable False
      else PlainTestnetError)"

section \<open>Requests\<close>

definition TESTNET_HOST :: string where "TESTNET_HOST = ''testnet.binance.vision''"
definition WEIGHT_LIMIT_1M :: int where "WEIGHT_LIMIT_1M = 6000"

text \<open>The check of a URL, on the scheme and the host that \<open>urlsplit\<close> finds in it.\<close>

definition check_host :: "string \<Rightarrow> string option \<Rightarrow> TraderError + unit" where
  "check_host scheme hostname = (if scheme \<noteq> ''https'' \<or> hostname \<noteq> Some TESTNET_HOST then Inl HostNotAllowed else Inr ())"

record TestnetClient =
  tc_time_offset_ms :: int
  tc_weight_used :: "int option"
  tc_weight_limit :: int

definition testnet_client_init :: "string \<Rightarrow> string option \<Rightarrow> TraderError + TestnetClient" where
  "testnet_client_init scheme hostname =
     (case check_host scheme hostname of
        Inl e \<Rightarrow> Inl e
      | Inr _ \<Rightarrow> Inr \<lparr> tc_time_offset_ms = 0, tc_weight_used = None, tc_weight_limit = WEIGHT_LIMIT_1M \<rparr>)"

definition weight_used_ratio :: "TestnetClient \<Rightarrow> f64 option" where
  "weight_used_ratio c = map_option (\<lambda>used. lit (real_of_int used / real_of_int (tc_weight_limit c))) (tc_weight_used c)"

datatype HttpMethod = GET | POST | DELETE

record 'b HttpAnswer =
  ha_status :: int
  ha_used_weight :: "string option"
  ha_retry_after :: "string option"
  ha_error :: "(int option \<times> string) option"
  ha_body :: 'b

datatype 'b HttpOutcome = WrongHost | HttpTimeout | HttpFailure | Answered "'b HttpAnswer"

text \<open>\<open>ha_error\<close> is the code and message of the body of an error, \<open>None\<close> when the body is no JSON.\<close>

definition note_weight :: "string option \<Rightarrow> TestnetClient \<Rightarrow> TestnetClient" where
  "note_weight used c =
     (case used of
        None \<Rightarrow> c
      | Some text \<Rightarrow>
          if text = [] \<or> \<not> list_all is_dec text then c
          else (case py_int text of Inl e \<Rightarrow> c | Inr n \<Rightarrow> c\<lparr> tc_weight_used := Some n \<rparr>))"

definition send :: "HttpMethod \<Rightarrow> 'b HttpOutcome \<Rightarrow> TestnetClient \<Rightarrow> TestnetClient \<times> (TraderError + 'b)" where
  "send verb outcome c =
     (case outcome of
        WrongHost \<Rightarrow> (c, Inl HostNotAllowed)
      | HttpTimeout \<Rightarrow> (c, Inl (TestnetUnavailable (verb \<noteq> GET)))
      | HttpFailure \<Rightarrow> (c, Inl (TestnetUnavailable False))
      | Answered a \<Rightarrow>
          (let c = note_weight (ha_used_weight a) c in
           if ha_status a \<ge> 400
           then (let (code, msg) = (case ha_error a of None \<Rightarrow> (None, []) | Some e \<Rightarrow> e)
                 in (c, Inl (classify_error (ha_status a) code msg (ha_retry_after a))))
           else (c, Inr (ha_body a))))"

definition client_sync_time :: "int \<Rightarrow> int HttpOutcome \<Rightarrow> int \<Rightarrow> TestnetClient \<Rightarrow> TestnetClient \<times> (TraderError + int)" where
  "client_sync_time before outcome later c =
     (case send GET outcome c of
        (c, Inl e) \<Rightarrow> (c, Inl e)
      | (c, Inr server_time) \<Rightarrow>
          let offset = server_time - (before + later) div 2 in (c\<lparr> tc_time_offset_ms := offset \<rparr>, Inr offset))"

text \<open>A signed request is tried again once, after the clock has been set by the server's.\<close>

definition signed :: "HttpMethod \<Rightarrow> 'b HttpOutcome \<Rightarrow> int \<Rightarrow> int HttpOutcome \<Rightarrow> int \<Rightarrow> 'b HttpOutcome \<Rightarrow>
    TestnetClient \<Rightarrow> TestnetClient \<times> (TraderError + 'b)" where
  "signed verb first before time_outcome later second c =
     (case send verb first c of
        (c, Inl TimestampOutOfWindow) \<Rightarrow>
          (case client_sync_time before time_outcome later c of
             (c, Inl e) \<Rightarrow> (c, Inl e)
           | (c, Inr _) \<Rightarrow> send verb second c)
      | r \<Rightarrow> r)"

definition place_limit_maker_params :: "string \<Rightarrow> QuoteSide \<Rightarrow> string \<Rightarrow> string \<Rightarrow> string \<Rightarrow> (string \<times> string) list" where
  "place_limit_maker_params symbol side price quantity client_order_id =
     [(''symbol'', symbol), (''side'', if side = BID then ''BUY'' else ''SELL''), (''type'', ''LIMIT_MAKER''),
      (''price'', price), (''quantity'', quantity), (''newClientOrderId'', client_order_id), (''newOrderRespType'', ''RESULT'')]"

end
