(* ===== verification/Testnet_Shadow.thy ===== *)
theory Testnet_Shadow
  imports Testnet_Models Fill_Model
begin

text \<open>
  The paper books that shadow the real orders (\<open>app/services/testnet/shadow.py\<close>) and the comparison of their fills with
  the real ones (\<open>app/services/testnet/comparison.py\<close>).
\<close>

definition EPS :: f64 where "EPS = lit (1 / 10 ^ 12)"

section \<open>The window of an order\<close>

definition in_window :: "TestnetOrder \<Rightarrow> datetime \<Rightarrow> datetime option \<Rightarrow> bool" where
  "in_window order snap_at prev_snap_at =
     (case to_acked_at order of
        None \<Rightarrow> False
      | Some acked \<Rightarrow>
          if acked > snap_at then False
          else (case to_ended_at order of
                  None \<Rightarrow> True
                | Some ended \<Rightarrow>
                    if to_state order = FilledOrder
                    then (case prev_snap_at of None \<Rightarrow> True | Some prev \<Rightarrow> ended > prev)
                    else ended > snap_at))"

section \<open>A shadow book\<close>

record ShadowBook =
  sb_fill_model :: FillMode
  sb_maker_fee_bps :: f64
  sb_latency :: int
  sb_probability :: f64
  sb_calibration :: "FillCalibration option"
  sb_volatility :: VolatilityTracker
  sb_quotes :: "(string, OpenQuote) dict"
  sb_filled :: "(string, f64) dict"

definition shadow_init :: "FillMode \<Rightarrow> f64 \<Rightarrow> int \<Rightarrow> f64 \<Rightarrow> FillCalibration option \<Rightarrow> ShadowBook" where
  "shadow_init fill_model maker_fee_bps latency probability calibration =
     \<lparr> sb_fill_model = fill_model, sb_maker_fee_bps = maker_fee_bps, sb_latency = latency, sb_probability = probability,
       sb_calibration = calibration, sb_volatility = volatility_tracker_init VOLATILITY_WINDOW_SEC, sb_quotes = [],
       sb_filled = [] \<rparr>"

definition shadow_open_quote :: "OrderBookSnapshot \<Rightarrow> TestnetOrder \<Rightarrow> f64 \<Rightarrow> OpenQuote" where
  "shadow_open_quote snapshot order remaining =
     \<lparr> oq_quote_id = to_client_order_id order,
       oq_quote = \<lparr> qt_symbol = ob_symbol snapshot, qt_side = to_side order, qt_price = to_price order, qt_size = remaining,
                    qt_timestamp = (case to_acked_at order of Some t \<Rightarrow> t | None \<Rightarrow> ob_timestamp snapshot),
                    qt_quote_id = Some (to_client_order_id order), qt_tick_id = None \<rparr>,
       oq_crossed_streak = 0, oq_last_evaluated_at = None \<rparr>"

text \<open>One pass of the loop over the orders: the quote of the order joins the batch, made anew when there is none.\<close>

definition shadow_quote :: "OrderBookSnapshot \<Rightarrow> TestnetOrder \<Rightarrow> ShadowBook \<times> OpenQuote list \<Rightarrow> ShadowBook \<times> OpenQuote list" where
  "shadow_quote snapshot order st =
     (case st of (book, batch) \<Rightarrow>
       let cid = to_client_order_id order in
       (case dict_get (sb_quotes book) cid of
          Some open_quote \<Rightarrow> (book, batch @ [open_quote])
        | None \<Rightarrow>
            let remaining = to_size order - dict_get_or (sb_filled book) cid 0
            in if remaining \<le> EPS then (book, batch)
               else let open_quote = shadow_open_quote snapshot order remaining
                    in (book\<lparr> sb_quotes := dict_set cid open_quote (sb_quotes book) \<rparr>, batch @ [open_quote])))"

definition shadow_fill_params :: "Libm \<Rightarrow> Draws \<Rightarrow> ShadowBook \<Rightarrow> int \<Rightarrow> f64 option \<Rightarrow> FillParams" where
  "shadow_fill_params m dr book tick_seq volatility =
     \<lparr> fp_libm = m, fp_draws = dr, fp_maker_fee_bps = sb_maker_fee_bps book, fp_fill_mode = sb_fill_model book,
       fp_fill_latency_ticks = sb_latency book, fp_fill_probability = sb_probability book, fp_tick_index = tick_seq,
       fp_calibration = sb_calibration book, fp_volatility = volatility \<rparr>"

text \<open>
  The quotes of the batch are the book's own objects, so what evaluating changes in them is in the book too. When
  evaluating raises, the quotes stay as they were made, as in the paper broker.
\<close>

definition keep_evaluated :: "OpenQuote list \<Rightarrow> ShadowBook \<Rightarrow> ShadowBook" where
  "keep_evaluated quotes book = book\<lparr> sb_quotes := fold (\<lambda>oq. dict_set (oq_quote_id oq) oq) quotes (sb_quotes book) \<rparr>"

definition book_shadow_fill ::
    "OrderBookSnapshot \<Rightarrow> int \<Rightarrow> string \<Rightarrow> Fill \<Rightarrow> ShadowBook \<times> ShadowFill list \<Rightarrow> ShadowBook \<times> ShadowFill list" where
  "book_shadow_fill snapshot tick_seq session_id fill st =
     (case st of (book, out) \<Rightarrow>
       let cid = the (fl_quote_id fill);
           open_quote = the (dict_get (sb_quotes book) cid);
           remaining = qt_size (oq_quote open_quote) - fl_size fill;
           filled = dict_set cid (dict_get_or (sb_filled book) cid 0 + fl_size fill) (sb_filled book);
           quotes = (if remaining > EPS
                     then dict_set cid \<lparr> oq_quote_id = cid, oq_quote = (oq_quote open_quote)\<lparr> qt_size := remaining \<rparr>,
                                         oq_crossed_streak = 0, oq_last_evaluated_at = Some (ob_timestamp snapshot) \<rparr> (sb_quotes book)
                     else dict_pop cid (sb_quotes book))
       in (book\<lparr> sb_filled := filled, sb_quotes := quotes \<rparr>,
           out @ [\<lparr> sf_fill_model = sb_fill_model book, sf_client_order_id = cid, sf_session_id = session_id,
                    sf_side = fl_side fill, sf_price = fl_price fill, sf_size = fl_size fill, sf_fee = fl_fee fill,
                    sf_at = ob_timestamp snapshot, sf_tick_seq = tick_seq \<rparr>]))"

definition shadow_evaluate :: "Libm \<Rightarrow> Draws \<Rightarrow> OrderBookSnapshot \<Rightarrow> TestnetOrder list \<Rightarrow> int \<Rightarrow> string \<Rightarrow> ShadowBook \<Rightarrow>
    ShadowBook \<times> ShadowFill list res" where
  "shadow_evaluate m dr snapshot orders tick_seq session_id book =
     (case volatility_update m (sb_volatility book) (ob_timestamp snapshot) (snapshot_mid snapshot) of
        (tracker, measured) \<Rightarrow>
          sbind (book\<lparr> sb_volatility := tracker \<rparr>, measured) (\<lambda>book volatility.
            let live_ids = set (map to_client_order_id orders);
                book = book\<lparr> sb_quotes := filter (\<lambda>(cid, q). cid \<in> live_ids) (sb_quotes book) \<rparr>;
                (book, batch) = fold (shadow_quote snapshot) orders (book, [])
            in if batch = [] then (book, ok [])
               else sbind (book, detect_fills (shadow_fill_params m dr book tick_seq volatility) batch snapshot)
                      (\<lambda>book (quotes, fills).
                        case fold (book_shadow_fill snapshot tick_seq session_id) fills (keep_evaluated quotes book, []) of
                          (book, out) \<Rightarrow> (book, ok out))))"

section \<open>Sums and medians\<close>

text \<open>
  \<open>sum\<close> of floats, with the compensation of the interpreter the application runs on (Python 3.12), and
  \<open>statistics.median\<close>.
\<close>

fun compensated_sum :: "f64 \<Rightarrow> f64 \<Rightarrow> f64 list \<Rightarrow> f64" where
  "compensated_sum so_far carry [] = (if carry = 0 then so_far else so_far + carry)"
| "compensated_sum so_far carry (x # xs) =
     (let t = so_far + x
      in compensated_sum t (if \<bar>so_far\<bar> \<ge> \<bar>x\<bar> then carry + ((so_far - t) + x) else carry + ((x - t) + so_far)) xs)"

definition py_sum :: "f64 list \<Rightarrow> f64" where
  "py_sum xs = (case xs of [] \<Rightarrow> 0 | x # rest \<Rightarrow> compensated_sum x 0 rest)"

definition median :: "f64 list \<Rightarrow> f64" where
  "median xs =
     (let data = sort xs; n = length xs
      in if odd n then data ! (n div 2) else (data ! (n div 2 - 1) + data ! (n div 2)) / lit 2)"

definition mean_of :: "f64 list \<Rightarrow> f64 option" where
  "mean_of values = (if values = [] then None else Some (py_sum values / float_of_int (int (length values))))"

section \<open>Comparing paper with real fills\<close>

definition fee_in_quote :: "TestnetFill \<Rightarrow> string \<Rightarrow> string \<Rightarrow> f64" where
  "fee_in_quote fill base_asset quote_asset =
     (if tf_fee_asset fill = quote_asset then tf_fee fill
      else if tf_fee_asset fill = base_asset then tf_fee fill * tf_price fill
      else 0)"

text \<open>A flow is the side, price, size and fee of a fill.\<close>

type_synonym Flow = "QuoteSide \<times> f64 \<times> f64 \<times> f64"

fun flow_step :: "Flow \<Rightarrow> f64 \<times> f64 \<Rightarrow> f64 \<times> f64" where
  "flow_step (side, price, sz, fee) (base, quote) =
     (if side = BID then (base + sz, quote - (price * sz + fee)) else (base - sz, quote + (price * sz - fee)))"

definition flows_pnl :: "Flow list \<Rightarrow> f64 option \<Rightarrow> f64" where
  "flows_pnl flows last_mid =
     (case fold flow_step flows (0, 0) of
        (base, quote) \<Rightarrow> quote + base * (case last_mid of Some mid \<Rightarrow> mid | None \<Rightarrow> 0))"

record FillTally =
  ft_size :: "(string, f64) dict"
  ft_notional :: "(string, f64) dict"
  ft_first :: "(string, f64) dict"
  ft_flows :: "Flow list"

definition empty_tally :: FillTally where
  "empty_tally = \<lparr> ft_size = [], ft_notional = [], ft_first = [], ft_flows = [] \<rparr>"

definition tally_fill :: "string \<Rightarrow> TestnetOrder \<Rightarrow> datetime \<Rightarrow> Flow \<Rightarrow> FillTally \<Rightarrow> FillTally" where
  "tally_fill cid order filled_at flow t =
     (case flow of (side, price, sz, fee) \<Rightarrow>
       \<lparr> ft_size = dict_set cid (dict_get_or (ft_size t) cid 0 + sz) (ft_size t),
         ft_notional = dict_set cid (dict_get_or (ft_notional t) cid 0 + sz * price) (ft_notional t),
         ft_first = (case dict_get (ft_first t) cid of
                       Some _ \<Rightarrow> ft_first t
                     | None \<Rightarrow> dict_set cid (total_seconds (filled_at - the (to_acked_at order))) (ft_first t)),
         ft_flows = ft_flows t @ [flow] \<rparr>)"

definition accepted_orders :: "TestnetOrder list \<Rightarrow> (string, TestnetOrder) dict" where
  "accepted_orders orders = fold (\<lambda>o'. dict_set (to_client_order_id o') o') (filter accepted orders) []"

definition tally_real :: "(string, TestnetOrder) dict \<Rightarrow> string \<Rightarrow> string \<Rightarrow> TestnetFill \<Rightarrow> FillTally \<Rightarrow> FillTally" where
  "tally_real known base_asset quote_asset fill t =
     (case dict_get known (tf_client_order_id fill) of
        None \<Rightarrow> t
      | Some order \<Rightarrow>
          tally_fill (tf_client_order_id fill) order (tf_at fill)
            (tf_side fill, tf_price fill, tf_size fill, fee_in_quote fill base_asset quote_asset) t)"

definition tally_paper :: "(string, TestnetOrder) dict \<Rightarrow> ShadowFill \<Rightarrow> FillTally \<Rightarrow> FillTally" where
  "tally_paper known fill t =
     tally_fill (sf_client_order_id fill) (the (dict_get known (sf_client_order_id fill))) (sf_at fill)
       (sf_side fill, sf_price fill, sf_size fill, sf_fee fill) t"

definition filled_ids :: "FillTally \<Rightarrow> string list" where
  "filled_ids t = map fst (filter (\<lambda>(cid, sz). sz > EPS) (ft_size t))"

definition price_diff :: "FillTally \<Rightarrow> FillTally \<Rightarrow> string \<Rightarrow> f64 res" where
  "price_diff real_tally paper_tally c =
     rbind (fdiv (dict_get_or (ft_notional real_tally) c 0) (dict_get_or (ft_size real_tally) c 0)) (\<lambda>real_avg.
     rbind (fdiv (dict_get_or (ft_notional paper_tally) c 0) (dict_get_or (ft_size paper_tally) c 0)) (\<lambda>paper_avg.
     rbind (fdiv (paper_avg - real_avg) real_avg) (\<lambda>d. ok (d * lit 10000))))"

definition rate_of :: "nat \<Rightarrow> nat \<Rightarrow> f64 option" where
  "rate_of k n = (if n = 0 then None else Some (lit (real k / real n)))"

definition median_of :: "f64 list \<Rightarrow> f64 option" where
  "median_of xs = (if xs = [] then None else Some (median xs))"

text \<open>
  The line of one model. Matched ids are a set of Python, whose order is not fixed: \<open>arrange\<close> is the order it is
  iterated in.
\<close>

definition compare_model :: "(string list \<Rightarrow> string list) \<Rightarrow> (string, TestnetOrder) dict \<Rightarrow> FillTally \<Rightarrow> ShadowFill list \<Rightarrow>
    f64 option \<Rightarrow> FillMode \<Rightarrow> FillComparison res" where
  "compare_model arrange known real_tally paper_fills last_mid model =
     (let paper_tally = fold (tally_paper known)
            (sort_key sf_tick_seq (sort_key sf_at (filter (\<lambda>f. sf_fill_model f = model) paper_fills))) empty_tally;
          n = length known;
          real_ids = filled_ids real_tally;
          paper_ids = filled_ids paper_tally;
          matched = arrange (filter (\<lambda>c. c \<in> set paper_ids) real_ids);
          size_diffs = map (\<lambda>c. dict_get_or (ft_size paper_tally) c 0 - dict_get_or (ft_size real_tally) c 0) matched;
          real_pnl = flows_pnl (ft_flows real_tally) last_mid;
          paper_pnl = flows_pnl (ft_flows paper_tally) last_mid
      in rbind (res_map (price_diff real_tally paper_tally) matched) (\<lambda>price_diffs.
         ok \<lparr> fc_fill_model = model, fc_orders = n, fc_real_filled = length real_ids, fc_paper_filled = length paper_ids,
              fc_matched = length matched,
              fc_paper_only = length (filter (\<lambda>c. c \<notin> set real_ids) paper_ids),
              fc_real_only = length (filter (\<lambda>c. c \<notin> set paper_ids) real_ids),
              fc_neither = int n - int (card (set real_ids \<union> set paper_ids)),
              fc_real_fill_rate = rate_of (length real_ids) n, fc_paper_fill_rate = rate_of (length paper_ids) n,
              fc_median_time_to_fill_real_sec = median_of (map snd (ft_first real_tally)),
              fc_median_time_to_fill_paper_sec = median_of (map snd (ft_first paper_tally)),
              fc_mean_size_diff = mean_of size_diffs, fc_mean_price_diff_bps = mean_of price_diffs,
              fc_real_pnl = real_pnl, fc_paper_pnl = paper_pnl, fc_pnl_gap = paper_pnl - real_pnl \<rparr>))"

definition compare :: "(string list \<Rightarrow> string list) \<Rightarrow> TestnetOrder list \<Rightarrow> TestnetFill list \<Rightarrow> ShadowFill list \<Rightarrow> f64 option \<Rightarrow>
    string \<Rightarrow> string \<Rightarrow> FillMode list \<Rightarrow> FillComparison list res" where
  "compare arrange orders real_fills shadow_fills last_mid base_asset quote_asset fill_models =
     (let known = accepted_orders orders;
          real_tally = fold (tally_real known base_asset quote_asset) (sort_key tf_at real_fills) empty_tally;
          paper_fills = filter (\<lambda>f. dict_get known (sf_client_order_id f) \<noteq> None) shadow_fills
      in res_map (compare_model arrange known real_tally paper_fills last_mid) fill_models)"

end
