(* ===== verification/Actions.thy ===== *)
theory Actions
  imports State_Frames
begin

text \<open>
  The coroutines of the testnet trader: an action takes the state of its object and of the surroundings, and returns the
  new state next to the exception it raised or the value it returned. What an action had assigned before an exception
  stays assigned. \<open>then_do\<close> sequences two actions, \<open>catching\<close> is \<open>try\<close> with \<open>except\<close> clauses that see the exception,
  \<open>each_do\<close> is a loop over a list.

  \<open>along\<close> says that an action keeps a relation between the states before and after it. For a reflexive and
  transitive relation it is proved construct by construct.
\<close>

type_synonym ('s, 'e, 'a) action = "'s \<Rightarrow> 's \<times> ('e + 'a)"

definition pure :: "'a \<Rightarrow> ('s, 'e, 'a) action" where
  "pure x = (\<lambda>s. (s, Inr x))"

definition throw :: "'e \<Rightarrow> ('s, 'e, 'a) action" where
  "throw e = (\<lambda>s. (s, Inl e))"

definition then_do :: "('s, 'e, 'a) action \<Rightarrow> ('a \<Rightarrow> ('s, 'e, 'b) action) \<Rightarrow> ('s, 'e, 'b) action" where
  "then_do m f = (\<lambda>s. case m s of (s', Inl e) \<Rightarrow> (s', Inl e) | (s', Inr x) \<Rightarrow> f x s')"

definition catching :: "('s, 'e, 'a) action \<Rightarrow> ('e \<Rightarrow> ('s, 'e, 'a) action) \<Rightarrow> ('s, 'e, 'a) action" where
  "catching m handler = (\<lambda>s. case m s of (s', Inl e) \<Rightarrow> handler e s' | (s', Inr x) \<Rightarrow> (s', Inr x))"

definition reading :: "('s \<Rightarrow> 'a) \<Rightarrow> ('s, 'e, 'a) action" where
  "reading f = (\<lambda>s. (s, Inr (f s)))"

definition updating :: "('s \<Rightarrow> 's) \<Rightarrow> ('s, 'e, unit) action" where
  "updating f = (\<lambda>s. (f s, Inr ()))"

primrec each_do :: "('a \<Rightarrow> ('s, 'e, unit) action) \<Rightarrow> 'a list \<Rightarrow> ('s, 'e, unit) action" where
  "each_do f [] = pure ()"
| "each_do f (x # xs) = then_do (f x) (\<lambda>_. each_do f xs)"

abbreviation after :: "('s, 'e, unit) action \<Rightarrow> ('s, 'e, 'b) action \<Rightarrow> ('s, 'e, 'b) action" where
  "after m n \<equiv> then_do m (\<lambda>_. n)"

abbreviation on_condition :: "bool \<Rightarrow> ('s, 'e, unit) action \<Rightarrow> ('s, 'e, unit) action" where
  "on_condition b m \<equiv> if b then m else pure ()"

section \<open>Running\<close>

lemma action_simps [simp]:
  "pure x s = (s, Inr x)" "throw e s = (s, Inl e)" "reading f s = (s, Inr (f s))" "updating g s = (g s, Inr ())"
  by (simp_all add: pure_def throw_def reading_def updating_def)

lemma then_do_simps:
  "m s = (s', Inr x) \<Longrightarrow> then_do m f s = f x s'"
  "m s = (s', Inl e) \<Longrightarrow> then_do m f s = (s', Inl e)"
  by (simp_all add: then_do_def)

lemma then_pure [simp]: "then_do (pure x) f = f x" "then_do (throw e) f = throw e"
  by (simp_all add: then_do_def fun_eq_iff)

lemma then_reading [simp]: "then_do (reading f) g s = g (f s) s" "then_do (updating h) k s = k () (h s)"
  by (simp_all add: then_do_def)

lemma then_doE:
  assumes "then_do m f s = (s', r)"
  obtains (raised) e where "m s = (s', Inl e)" "r = Inl e" | (went_on) t x where "m s = (t, Inr x)" "f x t = (s', r)"
  using assms by (auto simp: then_do_def split: prod.splits sum.splits)

lemma catchingE:
  assumes "catching m h s = (s', r)"
  obtains (caught) t e where "m s = (t, Inl e)" "h e t = (s', r)" | (returned) x where "m s = (s', Inr x)" "r = Inr x"
  using assms by (auto simp: catching_def split: prod.splits sum.splits)

section \<open>Relations kept\<close>

definition along :: "('s \<Rightarrow> 's \<Rightarrow> bool) \<Rightarrow> ('s, 'e, 'a) action \<Rightarrow> bool" where
  "along R m \<longleftrightarrow> (\<forall>s. R s (fst (m s)))"

lemma alongD: "along R m \<Longrightarrow> R s (fst (m s))"
  by (simp add: along_def)

lemma along_apply: "along R m \<Longrightarrow> m s = (s', r) \<Longrightarrow> R s s'"
  unfolding along_def by (metis fst_conv)

lemma along_updating: "(\<And>s. R s (f s)) \<Longrightarrow> along R (updating f)"
  by (simp add: along_def)

context frame_condition
begin

lemma along_pure: "along frame (pure x)"
  and along_throw: "along frame (throw e)"
  and along_reading: "along frame (reading f)"
  by (simp_all add: along_def reflexive)

lemma along_then: "along frame m \<Longrightarrow> (\<And>x. along frame (f x)) \<Longrightarrow> along frame (then_do m f)"
  unfolding along_def then_do_def
  by (auto split: prod.split sum.split) (metis fst_conv transitive)+

text \<open>At one state, where the second action may rely on what the first has found.\<close>

lemma at_then: "frame s (fst (m s)) \<Longrightarrow> (\<And>t x. m s = (t, Inr x) \<Longrightarrow> frame t (fst (f x t))) \<Longrightarrow> frame s (fst (then_do m f s))"
  unfolding then_do_def by (auto split: prod.split sum.split) (metis fst_conv transitive)

lemma at_along: "along frame m \<Longrightarrow> frame s (fst (m s))"
  by (rule alongD)

lemma along_catching: "along frame m \<Longrightarrow> (\<And>e. along frame (h e)) \<Longrightarrow> along frame (catching m h)"
  unfolding along_def catching_def
  by (auto split: prod.split sum.split) (metis fst_conv transitive)+

lemma along_each: "(\<And>x. along frame (f x)) \<Longrightarrow> along frame (each_do f xs)"
  by (induction xs) (auto intro: along_pure along_then)

lemma along_if: "(b \<Longrightarrow> along frame m) \<Longrightarrow> (\<not> b \<Longrightarrow> along frame n) \<Longrightarrow> along frame (if b then m else n)"
  by simp

lemma along_option: "(x = None \<Longrightarrow> along frame m) \<Longrightarrow> (\<And>y. x = Some y \<Longrightarrow> along frame (n y))
    \<Longrightarrow> along frame (case x of None \<Rightarrow> m | Some y \<Rightarrow> n y)"
  by (cases x) simp_all

lemma along_sum: "(\<And>e. x = Inl e \<Longrightarrow> along frame (m e)) \<Longrightarrow> (\<And>y. x = Inr y \<Longrightarrow> along frame (n y))
    \<Longrightarrow> along frame (case x of Inl e \<Rightarrow> m e | Inr y \<Rightarrow> n y)"
  by (cases x) simp_all

lemmas along_rules = along_pure along_throw along_reading along_then along_catching along_each along_if along_option along_sum

end

end
