(* ===== verification/Testnet_Trader.thy ===== *)
theory Testnet_Trader
  imports Testnet_Client Testnet_Shadow Quoting Inventory Risk_Limits Actions
begin

text \<open>
  The testnet trader (\<open>app/services/testnet/trader.py\<close>): its session, its orders and their life, the fills, the quotes,
  the kill switch and the reconciliation with the exchange.

  The trader's surroundings are a state \<open>'x\<close> of any type: the exchange behind the client, the repository, the clocks,
  the random session ids and the kill switch. \<open>TraderEnv\<close> gives the operations on it, so a property of a step holds
  for every exchange, honest or not. The answers of the exchange are read as Binance documents them, numbers already
  parsed; a missing optional field is \<open>None\<close>. An order object is shared by the dictionaries that hold it, so the
  model names it by its client order id, and \<open>_dirty\<close> is the list of the ids to be written. Metrics and logging are
  left out, and with them the comparison that only the metrics read.
\<close>

section \<open>Surroundings\<close>

record ExchangeOrder =
  eo_client_order_id :: string
  eo_order_id :: "int option"
  eo_status :: string
  eo_executed_qty :: "f64 option"
  eo_time :: "int option"
  eo_update_time :: "int option"

record ExchangeTrade =
  et_id :: int
  et_order_id :: int
  et_price :: f64
  et_qty :: f64
  et_commission :: "f64 option"
  et_commission_asset :: "string option"
  et_time :: int
  et_is_maker :: "bool option"

record ExchangeAccount =
  ac_balances :: "(string \<times> f64 \<times> f64) list"
  ac_maker_rate :: "f64 option"
  ac_maker_commission :: "f64 option"

type_synonym ('x, 'a) effect = "'x \<Rightarrow> 'x \<times> (TraderError + 'a)"

record 'x TraderEnv =
  te_settings :: Settings
  te_dec :: "f64 \<Rightarrow> rat"
  te_format_g :: "f64 \<Rightarrow> string"
  te_error_text :: "TraderError \<Rightarrow> string"
  te_error_type :: "TraderError \<Rightarrow> string"
  te_libm :: Libm
  te_draws :: Draws
  te_calibration :: "FillCalibration option res"
  cl_sync_time :: "('x, int) effect"
  cl_exchange_info :: "string \<Rightarrow> ('x, SymbolInfo list) effect"
  cl_depth :: "string \<Rightarrow> int \<Rightarrow> ('x, RawOrderBook) effect"
  cl_account :: "('x, ExchangeAccount) effect"
  cl_open_orders :: "string \<Rightarrow> ('x, ExchangeOrder list) effect"
  cl_get_order :: "string \<Rightarrow> string \<Rightarrow> ('x, ExchangeOrder) effect"
  cl_place_limit_maker :: "string \<Rightarrow> QuoteSide \<Rightarrow> string \<Rightarrow> string \<Rightarrow> string \<Rightarrow> ('x, int) effect"
  cl_cancel_order :: "string \<Rightarrow> string \<Rightarrow> ('x, unit) effect"
  cl_my_trades :: "string \<Rightarrow> int option \<Rightarrow> int \<Rightarrow> ('x, ExchangeTrade list) effect"
  cl_weight_used_ratio :: "'x \<Rightarrow> f64 option"
  rp_save_session :: "TestnetSession \<Rightarrow> ('x, unit) effect"
  rp_get_sessions :: "int \<Rightarrow> ('x, TestnetSession list) effect"
  rp_get_order :: "string \<Rightarrow> ('x, TestnetOrder option) effect"
  rp_upsert_orders :: "TestnetOrder list \<Rightarrow> ('x, unit) effect"
  rp_save_fills :: "TestnetFill list \<Rightarrow> ('x, unit) effect"
  rp_save_tick :: "TestnetTick \<Rightarrow> ('x, unit) effect"
  rp_save_shadow_fills :: "ShadowFill list \<Rightarrow> ('x, unit) effect"
  te_clock :: "'x \<Rightarrow> 'x \<times> datetime"
  te_monotonic :: "'x \<Rightarrow> 'x \<times> f64"
  te_token_hex :: "'x \<Rightarrow> 'x \<times> string"
  te_sleep :: "f64 \<Rightarrow> 'x \<Rightarrow> 'x"
  te_kill_active :: "'x \<Rightarrow> bool"

record 'x TestnetTrader =
  tt_world :: 'x
  tt_strategy :: Strategy
  tt_state :: TraderState
  tt_reason :: "string option"
  tt_rules :: "SymbolRules option"
  tt_session :: "TestnetSession option"
  tt_orders :: "(string, TestnetOrder) dict"
  tt_by_exchange_id :: "(int, string) dict"
  tt_seq :: nat
  tt_tick_seq :: int
  tt_last_trade_id :: "int option"
  tt_first_trade_id :: "int option"
  tt_inventory :: "InventoryTracker option"
  tt_shadows :: "ShadowBook list"
  tt_last_snapshot_at :: "datetime option"
  tt_last_mid :: "f64 option"
  tt_account_free :: "(string, f64) dict"
  tt_account_total :: "(string, f64) dict"
  tt_maker_bps :: f64
  tt_counters :: "(string, int) dict"
  tt_reconcile :: ReconcileState
  tt_last_reconcile_mono :: "f64 option"
  tt_need_reconcile :: bool
  tt_started_at :: "datetime option"
  tt_last_iteration_at :: "datetime option"
  tt_stopping :: bool
  tt_dirty :: "string list"

type_synonym ('x, 'a) task = "('x TestnetTrader, TraderError, 'a) action"

definition KILL_POLL_SEC :: f64 where "KILL_POLL_SEC = lit (2 / 10)"
definition MAX_BACKOFF_SEC :: f64 where "MAX_BACKOFF_SEC = lit 30"
definition WEIGHT_SLOWDOWN_RATIO :: f64 where "WEIGHT_SLOWDOWN_RATIO = lit (7 / 10)"
definition CANCEL_CONFIRM_ATTEMPTS :: nat where "CANCEL_CONFIRM_ATTEMPTS = 5"

definition STATUS_FINAL :: "(string, OrderState) dict" where
  "STATUS_FINAL = [(''FILLED'', FilledOrder), (''CANCELED'', CancelledOrder), (''EXPIRED'', ExpiredOrder),
     (''EXPIRED_IN_MATCH'', ExpiredOrder), (''REJECTED'', RejectedOrder)]"

section \<open>Names\<close>

definition upper_char :: "char \<Rightarrow> char" where
  "upper_char c = (let n = of_char c :: nat in if 97 \<le> n \<and> n \<le> 122 then char_of (n - 32) else c)"

definition exchange_symbol :: "Settings \<Rightarrow> string" where
  "exchange_symbol st = map upper_char (filter (\<lambda>c. c \<noteq> CHR ''/'') (s_symbol st))"

definition base_asset :: "Settings \<Rightarrow> string" where
  "base_asset st = takeWhile (\<lambda>c. c \<noteq> CHR ''/'') (map upper_char (s_symbol st))"

definition quote_asset :: "Settings \<Rightarrow> string" where
  "quote_asset st = drop 1 (dropWhile (\<lambda>c. c \<noteq> CHR ''/'') (map upper_char (s_symbol st)))"

definition is_tagged :: "string \<Rightarrow> bool" where
  "is_tagged cid \<longleftrightarrow> take (length TAG_PREFIX) cid = TAG_PREFIX"

definition session_of :: "string \<Rightarrow> string option" where
  "session_of cid =
     (if \<not> is_tagged cid then None
      else let rest = drop (length TAG_PREFIX) cid
           in if CHR ''-'' \<in> set rest then Some (takeWhile (\<lambda>c. c \<noteq> CHR ''-'') rest) else None)"

definition order_tag :: "string \<Rightarrow> nat \<Rightarrow> string" where
  "order_tag session_id seq = TAG_PREFIX @ session_id @ ''-'' @ nat_str seq"

definition ms_datetime :: "int \<Rightarrow> datetime" where
  "ms_datetime ms = fromtimestamp (lit (real_of_int ms / 1000))"

text \<open>\<open>_ms(entry[key]) if entry.get(key) else self._clock()\<close> keeps a time that is given and not zero.\<close>

definition given_time :: "int option \<Rightarrow> datetime option" where
  "given_time ms = (case ms of None \<Rightarrow> None | Some n \<Rightarrow> if n = 0 then None else Some (ms_datetime n))"

section \<open>Elementary steps\<close>

definition ask :: "('x, 'a) effect \<Rightarrow> ('x, 'a) task" where
  "ask op = (\<lambda>t. case op (tt_world t) of (w, r) \<Rightarrow> (t\<lparr> tt_world := w \<rparr>, r))"

definition time_now :: "'x TraderEnv \<Rightarrow> ('x, datetime) task" where
  "time_now env = ask (\<lambda>x. case te_clock env x of (x', d) \<Rightarrow> (x', Inr d))"

definition monotonic_now :: "'x TraderEnv \<Rightarrow> ('x, f64) task" where
  "monotonic_now env = ask (\<lambda>x. case te_monotonic env x of (x', d) \<Rightarrow> (x', Inr d))"

definition attempt :: "('x, 'a) task \<Rightarrow> ('x, TraderError + 'a) task" where
  "attempt m = (\<lambda>t. case m t of (t', r) \<Rightarrow> (t', Inr r))"

definition lifted :: "'a res \<Rightarrow> ('x, 'a) task" where
  "lifted r = (case r of Inl e \<Rightarrow> throw (OtherException e) | Inr x \<Rightarrow> pure x)"

definition present :: "py_error \<Rightarrow> ('x TestnetTrader \<Rightarrow> 'a option) \<Rightarrow> ('x, 'a) task" where
  "present e f = (\<lambda>t. case f t of None \<Rightarrow> (t, Inl (OtherException e)) | Some x \<Rightarrow> (t, Inr x))"

abbreviation the_session :: "('x, TestnetSession) task" where
  "the_session \<equiv> present AttributeError tt_session"

abbreviation the_order :: "string \<Rightarrow> ('x, TestnetOrder) task" where
  "the_order cid \<equiv> present KeyError (\<lambda>t. dict_get (tt_orders t) cid)"

definition set_state :: "TraderState \<Rightarrow> string option \<Rightarrow> ('x, unit) task" where
  "set_state state reason = updating (\<lambda>t. t\<lparr> tt_state := state, tt_reason := reason \<rparr>)"

definition count_event :: "string \<Rightarrow> ('x, unit) task" where
  "count_event name = updating (\<lambda>t. t\<lparr> tt_counters := dict_set name (dict_get_or (tt_counters t) name 0 + 1) (tt_counters t) \<rparr>)"

definition mark :: "string \<Rightarrow> ('x, unit) task" where
  "mark cid = updating (\<lambda>t. t\<lparr> tt_dirty := (if cid \<in> set (tt_dirty t) then tt_dirty t else tt_dirty t @ [cid]) \<rparr>)"

definition with_order :: "string \<Rightarrow> (TestnetOrder \<Rightarrow> TestnetOrder) \<Rightarrow> ('x, unit) task" where
  "with_order cid f = updating (\<lambda>t.
     case dict_get (tt_orders t) cid of
       None \<Rightarrow> t
     | Some order \<Rightarrow> t\<lparr> tt_orders := dict_set cid (f order) (tt_orders t) \<rparr>)"

definition ask_reconcile :: "('x, unit) task" where
  "ask_reconcile = updating (\<lambda>t. t\<lparr> tt_need_reconcile := True \<rparr>)"

definition open_ids :: "'x TestnetTrader \<Rightarrow> string list" where
  "open_ids t = map fst (filter (\<lambda>(cid, order). order_is_open order) (tt_orders t))"

definition flush :: "'x TraderEnv \<Rightarrow> ('x, unit) task" where
  "flush env =
     then_do (reading tt_dirty) (\<lambda>dirty.
       if dirty = [] then pure ()
       else then_do (reading (\<lambda>t. List.map_filter (\<lambda>cid. dict_get (tt_orders t) cid) dirty)) (\<lambda>batch.
            after (updating (\<lambda>t. t\<lparr> tt_dirty := [] \<rparr>)) (ask (rp_upsert_orders env batch))))"

section \<open>Sessions\<close>

definition read_account :: "ExchangeAccount \<Rightarrow> ('x, unit) task" where
  "read_account account = updating (\<lambda>t. t\<lparr>
     tt_account_free := fold (\<lambda>(asset, free, locked). dict_set asset free) (ac_balances account) [],
     tt_account_total := fold (\<lambda>(asset, free, locked). dict_set asset (free + locked)) (ac_balances account) [],
     tt_maker_bps := (case ac_maker_rate account of
                        Some r \<Rightarrow> r * lit 10000
                      | None \<Rightarrow> (case ac_maker_commission account of Some c \<Rightarrow> c | None \<Rightarrow> tt_maker_bps t)) \<rparr>)"

definition close_previous_sessions :: "'x TraderEnv \<Rightarrow> ('x, unit) task" where
  "close_previous_sessions env =
     then_do (time_now env) (\<lambda>now.
     then_do (ask (rp_get_sessions env 50)) (each_do (\<lambda>session.
       if se_live session \<and> se_ended_at session = None
       then ask (rp_save_session env (session\<lparr> se_ended_at := Some now, se_end_reason := Some ''restart'' \<rparr>))
       else pure ())))"

text \<open>\<open>try: cancel_order ... except UnknownOrder\<close>: whether the exchange knew the order.\<close>

definition cancel_known :: "'x TraderEnv \<Rightarrow> string \<Rightarrow> ('x, bool) task" where
  "cancel_known env cid =
     then_do (attempt (ask (cl_cancel_order env (exchange_symbol (te_settings env)) cid))) (\<lambda>r.
       case r of Inl e \<Rightarrow> if e = UnknownOrder then pure False else throw e | Inr _ \<Rightarrow> pure True)"

definition cancel_leftover :: "'x TraderEnv \<Rightarrow> ExchangeOrder \<Rightarrow> ('x, unit) task" where
  "cancel_leftover env entry =
     (let cid = eo_client_order_id entry in
      if \<not> is_tagged cid then pure ()
      else then_do (cancel_known env cid) (\<lambda>known.
        if \<not> known then pure ()
        else after (count_event ''leftovers_cancelled'')
          (then_do (time_now env) (\<lambda>now.
           then_do (ask (rp_get_order env cid)) (\<lambda>found.
             case found of
               None \<Rightarrow> pure ()
             | Some record \<Rightarrow>
                 ask (rp_upsert_orders env
                   [add_event now ''leftover_cancelled'' None (record\<lparr> to_state := CancelledOrder, to_ended_at := Some now \<rparr>)]))))))"

definition cancel_leftovers :: "'x TraderEnv \<Rightarrow> ('x, unit) task" where
  "cancel_leftovers env =
     then_do (ask (cl_open_orders env (exchange_symbol (te_settings env)))) (each_do (cancel_leftover env))"

definition max_id :: "ExchangeTrade list \<Rightarrow> int option" where
  "max_id trades = (case map et_id trades of [] \<Rightarrow> None | i # is \<Rightarrow> Some (fold max is i))"

definition new_session :: "Settings \<Rightarrow> string \<Rightarrow> datetime \<Rightarrow> 'x TestnetTrader \<Rightarrow> TestnetSession" where
  "new_session st session_id now t =
     \<lparr> se_session_id = session_id, se_live = True, se_started_at = now, se_start_base = s_testnet_initial_base st,
       se_start_quote = s_initial_quote_balance st, se_maker_commission_bps = tt_maker_bps t,
       se_account_base = dict_get (tt_account_total t) (base_asset st),
       se_account_quote = dict_get (tt_account_total t) (quote_asset st), se_ended_at = None, se_end_reason = None \<rparr>"

definition begin_session :: "Settings \<Rightarrow> TestnetSession \<Rightarrow> 'x TestnetTrader \<Rightarrow> 'x TestnetTrader" where
  "begin_session st session t = t\<lparr>
     tt_session := Some session, tt_orders := [], tt_by_exchange_id := [], tt_dirty := [], tt_seq := 0, tt_tick_seq := 0,
     tt_last_snapshot_at := None,
     tt_inventory := Some (restore_state (se_start_base session) (se_start_quote session) 0 0 0 None
                             (inventory_init (s_symbol st) (se_start_quote session))) \<rparr>"

definition new_shadows :: "Settings \<Rightarrow> f64 \<Rightarrow> FillCalibration option \<Rightarrow> ShadowBook list" where
  "new_shadows st maker_bps calibration =
     map (\<lambda>model. shadow_init model maker_bps (s_fill_latency_ticks st) (s_fill_probability st)
                    (if model = CALIBRATED then calibration else None)) FILL_MODELS"

definition open_session :: "'x TraderEnv \<Rightarrow> ('x, unit) task" where
  "open_session env =
     (let st = te_settings env in
      then_do (time_now env) (\<lambda>now.
      then_do (ask (cl_my_trades env (exchange_symbol st) None 1)) (\<lambda>recent.
      after (updating (\<lambda>t. t\<lparr> tt_last_trade_id := max_id recent, tt_first_trade_id := None \<rparr>))
      (then_do (ask (\<lambda>x. case te_token_hex env x of (x', s) \<Rightarrow> (x', Inr s))) (\<lambda>session_id.
      then_do (reading (new_session st session_id now)) (\<lambda>session.
      after (updating (begin_session st session))
      (then_do (lifted (te_calibration env)) (\<lambda>calibration.
      after (updating (\<lambda>t. t\<lparr> tt_shadows := new_shadows st (tt_maker_bps t) calibration \<rparr>))
            (ask (rp_save_session env session))))))))))"

definition startup :: "'x TraderEnv \<Rightarrow> ('x, unit) task" where
  "startup env =
     after (set_state TraderStarting None)
     (then_do (attempt (after (then_do (ask (cl_sync_time env)) (\<lambda>_. pure ()))
                        (then_do (ask (cl_exchange_info env (exchange_symbol (te_settings env)))) (\<lambda>info.
                         then_do (lifted (rules_from_exchange_info info (exchange_symbol (te_settings env)))) (\<lambda>rules.
                         after (updating (\<lambda>t. t\<lparr> tt_rules := Some rules \<rparr>)) (ask (cl_account env))))))) (\<lambda>r.
      case r of
        Inl e \<Rightarrow>
          after (on_condition (e = AuthFailed)
                   (set_state TraderAuthFailed (Some ''authentication failed: check the testnet keys''))) (throw e)
      | Inr account \<Rightarrow>
          after (read_account account)
          (after (close_previous_sessions env)
          (after (cancel_leftovers env)
          (after (open_session env)
          (after (then_do (reading tt_started_at) (\<lambda>started.
                    if started \<noteq> None then pure ()
                    else then_do (time_now env) (\<lambda>now. updating (\<lambda>t. t\<lparr> tt_started_at := Some now \<rparr>))))
           (then_do (monotonic_now env) (\<lambda>mono.
            then_do (time_now env) (\<lambda>at_time.
            after (updating (\<lambda>t. t\<lparr> tt_last_reconcile_mono := Some mono,
                       tt_reconcile := \<lparr> rs_last_at = Some at_time, rs_ok = Some True, rs_unexplained = 0 \<rparr> \<rparr>))
                  (set_state TraderRunning None))))))))))"

text \<open>The exchange was reset: the session ends, a new one begins, and the step in hand stops.\<close>

definition lose_order :: "datetime \<Rightarrow> string \<Rightarrow> TestnetOrder \<Rightarrow> TestnetOrder" where
  "lose_order now reason order =
     add_event now ''testnet_reset'' (Some reason)
       (order\<lparr> to_state := CancelledOrder,
               to_ended_at := (case to_ended_at order of Some e \<Rightarrow> Some e | None \<Rightarrow> Some now) \<rparr>)"

definition testnet_reset :: "'x TraderEnv \<Rightarrow> string \<Rightarrow> ('x, 'a) task" where
  "testnet_reset env reason =
     then_do (time_now env) (\<lambda>now.
     then_do (reading open_ids) (\<lambda>ids.
     after (each_do (\<lambda>cid. after (with_order cid (lose_order now reason)) (mark cid)) ids)
     (after (flush env)
     (after (count_event ''resets'')
     (then_do the_session (\<lambda>session.
      let ended = session\<lparr> se_ended_at := Some now, se_end_reason := Some ''reset'' \<rparr> in
      after (updating (\<lambda>t. t\<lparr> tt_session := Some ended \<rparr>))
      (after (ask (rp_save_session env ended))
      (then_do (ask (cl_account env)) (\<lambda>account.
       after (read_account account)
       (after (open_session env) (throw SessionReset)))))))))))"

section \<open>Fills and order states\<close>

definition filled_order :: "'x TraderEnv \<Rightarrow> TestnetFill \<Rightarrow> TestnetOrder \<Rightarrow> TestnetOrder" where
  "filled_order env fill order =
     (let o1 = add_event (tf_at fill) ''fill'' (Some (te_format_g env (tf_size fill) @ '' @ '' @ fixed 2 (tf_price fill)))
                 (order\<lparr> to_filled_size := to_filled_size order + tf_size fill,
                         to_filled_notional := to_filled_notional order + tf_size fill * tf_price fill \<rparr>);
          o2 = (if to_state o1 \<in> {OpenOrder, UnknownState} then o1\<lparr> to_state := PartiallyFilled \<rparr> else o1)
      in if to_filled_size o2 \<ge> to_size o2 - EPS
         then o2\<lparr> to_state := FilledOrder,
                  to_ended_at := (case to_ended_at o2 of Some e \<Rightarrow> Some e | None \<Rightarrow> Some (tf_at fill)) \<rparr>
         else o2)"

definition fill_of_order :: "Settings \<Rightarrow> TestnetOrder \<Rightarrow> TestnetFill \<Rightarrow> Fill" where
  "fill_of_order st order fill =
     \<lparr> fl_symbol = s_symbol st, fl_side = tf_side fill, fl_price = tf_price fill, fl_size = tf_size fill,
       fl_fee = (if tf_fee_asset fill = quote_asset st then tf_fee fill
                 else if tf_fee_asset fill = base_asset st then tf_fee fill * tf_price fill else 0),
       fl_timestamp = tf_at fill, fl_quote_id = to_quote_id order, fl_tick_id = None \<rparr>"

definition apply_testnet_fill :: "'x TraderEnv \<Rightarrow> string \<Rightarrow> TestnetFill \<Rightarrow> ('x, unit) task" where
  "apply_testnet_fill env cid fill =
     after (with_order cid (filled_order env fill))
     (then_do (the_order cid) (\<lambda>order.
      then_do (present AttributeError tt_inventory) (\<lambda>inventory.
      after (updating (\<lambda>t. t\<lparr> tt_inventory :=
               Some (fst (apply_fill inventory (fill_of_order (te_settings env) order fill) (tf_at fill))) \<rparr>))
      (after (count_event (if to_state order = FilledOrder then ''filled'' else ''partially_filled''))
             (mark cid)))))"

definition fill_from_trade :: "Settings \<Rightarrow> string \<Rightarrow> TestnetOrder \<Rightarrow> ExchangeTrade \<Rightarrow> TestnetFill" where
  "fill_from_trade st session_id order trade =
     \<lparr> tf_trade_id = et_id trade, tf_client_order_id = to_client_order_id order, tf_session_id = session_id,
       tf_side = to_side order, tf_price = et_price trade, tf_size = et_qty trade,
       tf_fee = (case et_commission trade of Some c \<Rightarrow> c | None \<Rightarrow> 0),
       tf_fee_asset = (case et_commission_asset trade of Some a \<Rightarrow> a | None \<Rightarrow> quote_asset st),
       tf_at = ms_datetime (et_time trade),
       tf_is_maker = (case et_is_maker trade of Some b \<Rightarrow> b | None \<Rightarrow> True) \<rparr>"

text \<open>One pass of the loop of \<open>_read_fills\<close>: the fill of the trade, if it is a new one of an order of the session.\<close>

definition take_trade :: "'x TraderEnv \<Rightarrow> ExchangeTrade \<Rightarrow> ('x, TestnetFill option) task" where
  "take_trade env trade =
     then_do (reading tt_last_trade_id) (\<lambda>before.
       if (case before of None \<Rightarrow> False | Some last_id \<Rightarrow> et_id trade \<le> last_id) then pure None
       else after (updating (\<lambda>t. t\<lparr> tt_last_trade_id := Some (et_id trade) \<rparr>))
         (then_do (reading (\<lambda>t. dict_get (tt_by_exchange_id t) (et_order_id trade))) (\<lambda>known.
          case known of
            None \<Rightarrow> pure None
          | Some cid \<Rightarrow>
              then_do (the_order cid) (\<lambda>order.
              then_do the_session (\<lambda>session.
              let fill = fill_from_trade (te_settings env) (se_session_id session) order trade in
              after (updating (\<lambda>t. t\<lparr> tt_first_trade_id :=
                       (case tt_first_trade_id t of Some f \<Rightarrow> Some f | None \<Rightarrow> Some (et_id trade)) \<rparr>))
              (after (apply_testnet_fill env cid fill) (pure (Some fill))))))))"

primrec take_trades :: "'x TraderEnv \<Rightarrow> ExchangeTrade list \<Rightarrow> ('x, TestnetFill list) task" where
  "take_trades env [] = pure []"
| "take_trades env (trade # trades) =
     then_do (take_trade env trade) (\<lambda>fill.
     then_do (take_trades env trades) (\<lambda>fills.
       pure (case fill of None \<Rightarrow> fills | Some f \<Rightarrow> f # fills)))"

definition read_fills :: "'x TraderEnv \<Rightarrow> ('x, unit) task" where
  "read_fills env =
     then_do (reading (\<lambda>t. map_option (\<lambda>i. i + 1) (tt_last_trade_id t))) (\<lambda>from_id.
     then_do (ask (cl_my_trades env (exchange_symbol (te_settings env)) from_id 500)) (\<lambda>trades.
     then_do (take_trades env (sort_key et_id trades)) (\<lambda>new_fills.
       ask (rp_save_fills env new_fills))))"

text \<open>\<open>exchange_order_id\<close> and \<open>acked_at\<close> are set once.\<close>

definition note_exchange_id :: "string \<Rightarrow> ExchangeOrder \<Rightarrow> ('x, bool) task" where
  "note_exchange_id cid entry =
     then_do (the_order cid) (\<lambda>order.
       case (to_exchange_order_id order, eo_order_id entry) of
         (None, Some xid) \<Rightarrow>
           after (updating (\<lambda>t. t\<lparr> tt_by_exchange_id := dict_set xid cid (tt_by_exchange_id t) \<rparr>))
             (after (with_order cid (\<lambda>o'. o'\<lparr> to_exchange_order_id := Some xid \<rparr>)) (pure True))
       | _ \<Rightarrow> pure False)"

definition ack_time :: "'x TraderEnv \<Rightarrow> TestnetOrder \<Rightarrow> ExchangeOrder \<Rightarrow> ('x, datetime) task" where
  "ack_time env order entry =
     (case to_acked_at order of
        Some acked \<Rightarrow> pure acked
      | None \<Rightarrow> (case given_time (eo_time entry) of Some acked \<Rightarrow> pure acked | None \<Rightarrow> time_now env))"

definition found_open :: "'x TraderEnv \<Rightarrow> string \<Rightarrow> ExchangeOrder \<Rightarrow> TestnetOrder \<Rightarrow> ('x, unit) task" where
  "found_open env cid entry order =
     then_do (ack_time env order entry) (\<lambda>acked.
     after (with_order cid (\<lambda>o'. o'\<lparr>
       to_state := (if (case eo_executed_qty entry of Some q \<Rightarrow> q | None \<Rightarrow> 0) > 0 then PartiallyFilled else OpenOrder),
       to_acked_at := Some acked \<rparr>))
     (then_do (time_now env) (\<lambda>now.
      after (with_order cid (add_event now ''reconciled'' (Some ''found open on the exchange''))) (mark cid))))"

definition adopt :: "'x TraderEnv \<Rightarrow> string \<Rightarrow> ExchangeOrder \<Rightarrow> ('x, unit) task" where
  "adopt env cid entry =
     then_do (the_order cid) (\<lambda>order.
     then_do (note_exchange_id cid entry) (\<lambda>changed.
       if to_state order = UnknownState then found_open env cid entry order else on_condition changed (mark cid)))"

definition reconciled_as :: "'x TraderEnv \<Rightarrow> string \<Rightarrow> ExchangeOrder \<Rightarrow> ('x, unit) task" where
  "reconciled_as env cid entry =
     then_do (time_now env) (\<lambda>now.
       with_order cid (add_event now ''reconciled'' (Some (''exchange status '' @ eo_status entry))))"

text \<open>What the status of the exchange means for the order.\<close>

definition take_status :: "'x TraderEnv \<Rightarrow> string \<Rightarrow> ExchangeOrder \<Rightarrow> TestnetOrder \<Rightarrow> ('x, unit) task" where
  "take_status env cid entry order =
     (case dict_get STATUS_FINAL (eo_status entry) of
        None \<Rightarrow>
          if to_state order = UnknownState
          then after (with_order cid (\<lambda>o'. o'\<lparr> to_state := OpenOrder \<rparr>)) (after (reconciled_as env cid entry) (mark cid))
          else pure ()
      | Some final_state \<Rightarrow>
          if final_state = FilledOrder \<and> to_filled_size order < to_size order - EPS then pure ()
          else
            then_do (case to_ended_at order of
                       Some e \<Rightarrow> pure e
                     | None \<Rightarrow> (case given_time (eo_update_time entry) of Some e \<Rightarrow> pure e | None \<Rightarrow> time_now env)) (\<lambda>ended.
            after (with_order cid (\<lambda>o'. o'\<lparr> to_state := final_state, to_ended_at := Some ended \<rparr>))
            (after (reconciled_as env cid entry)
            (after (on_condition (final_state = CancelledOrder) (count_event ''cancelled''))
                   (mark cid)))))"

definition apply_exchange_state :: "'x TraderEnv \<Rightarrow> string \<Rightarrow> ExchangeOrder \<Rightarrow> ('x, unit) task" where
  "apply_exchange_state env cid entry =
     then_do (the_order cid) (\<lambda>order.
     then_do (note_exchange_id cid entry) (\<lambda>_.
     then_do (ack_time env order entry) (\<lambda>acked.
     after (with_order cid (\<lambda>o'. o'\<lparr> to_acked_at := Some acked \<rparr>))
           (take_status env cid entry order))))"

text \<open>A recorded open order is no longer listed.\<close>

definition resolve_missing :: "'x TraderEnv \<Rightarrow> string \<Rightarrow> ('x, unit) task" where
  "resolve_missing env cid =
     then_do (attempt (ask (cl_get_order env (exchange_symbol (te_settings env)) cid))) (\<lambda>r.
       case r of
         Inr entry \<Rightarrow> apply_exchange_state env cid entry
       | Inl e \<Rightarrow>
           if e \<noteq> UnknownOrder then throw e
           else
             then_do (time_now env) (\<lambda>now.
             then_do (the_order cid) (\<lambda>order.
               if to_state order = UnknownState \<and> to_acked_at order = None
               then
                 after (with_order cid (\<lambda>o'. add_event now ''reconciled'' (Some ''never reached the exchange'')
                          (o'\<lparr> to_state := RejectedOrder, to_reject_reason := Some OtherReason, to_ended_at := Some now \<rparr>)))
                   (mark cid)
               else testnet_reset env ''a recorded order no longer exists on the exchange'')))"

text \<open>The two loops of \<open>_sync_orders\<close>: tagged orders nobody here placed, and the orders on record.\<close>

definition cancel_stranger :: "'x TraderEnv \<Rightarrow> TestnetSession \<Rightarrow> string \<Rightarrow> ('x, unit) task" where
  "cancel_stranger env session cid =
     then_do (reading (\<lambda>t. dict_get (tt_orders t) cid)) (\<lambda>known.
       if \<not> is_tagged cid \<or> known \<noteq> None then pure ()
       else then_do (cancel_known env cid) (\<lambda>cancelled.
         on_condition cancelled
           (count_event (if session_of cid = Some (se_session_id session) then ''unexplained'' else ''leftovers_cancelled''))))"

definition follow_order :: "'x TraderEnv \<Rightarrow> (string, ExchangeOrder) dict \<Rightarrow> string \<Rightarrow> ('x, unit) task" where
  "follow_order env exchange_open cid =
     then_do (the_order cid) (\<lambda>order.
       if \<not> order_is_open order \<or> to_state order = NewOrder then pure ()
       else (case dict_get exchange_open cid of
               Some entry \<Rightarrow> adopt env cid entry
             | None \<Rightarrow> resolve_missing env cid))"

definition by_client_id :: "ExchangeOrder list \<Rightarrow> (string, ExchangeOrder) dict" where
  "by_client_id entries = fold (\<lambda>e. dict_set (eo_client_order_id e) e) entries []"

definition sync_orders :: "'x TraderEnv \<Rightarrow> ('x, unit) task" where
  "sync_orders env =
     then_do the_session (\<lambda>session.
     after (read_fills env)
     (then_do (ask (cl_open_orders env (exchange_symbol (te_settings env)))) (\<lambda>entries.
      let exchange_open = by_client_id entries in
      after (each_do (cancel_stranger env session) (dict_keys exchange_open))
      (then_do (reading (\<lambda>t. dict_keys (tt_orders t))) (each_do (follow_order env exchange_open))))))"

section \<open>Shadows\<close>

text \<open>The books one after the other; an exception of one leaves the later ones unasked.\<close>

fun evaluate_books :: "'x TraderEnv \<Rightarrow> OrderBookSnapshot \<Rightarrow> TestnetOrder list \<Rightarrow> int \<Rightarrow> string \<Rightarrow> ShadowBook list \<Rightarrow>
    ShadowBook list \<times> ShadowFill list res" where
  "evaluate_books env snapshot orders tick_seq session_id [] = ([], ok [])"
| "evaluate_books env snapshot orders tick_seq session_id (book # books) =
     (case shadow_evaluate (te_libm env) (te_draws env) snapshot orders tick_seq session_id book of
        (book, Inl e) \<Rightarrow> (book # books, Inl e)
      | (book, Inr fills) \<Rightarrow>
          (case evaluate_books env snapshot orders tick_seq session_id books of
             (books, more_fills) \<Rightarrow> (book # books, rbind more_fills (\<lambda>fs. ok (fills @ fs)))))"

definition orders_in_window :: "datetime \<Rightarrow> 'x TestnetTrader \<Rightarrow> TestnetOrder list" where
  "orders_in_window snap_at t = filter (\<lambda>order. in_window order snap_at (tt_last_snapshot_at t)) (map snd (tt_orders t))"

definition testnet_tick :: "string \<Rightarrow> int \<Rightarrow> OrderBookSnapshot \<Rightarrow> TestnetOrder list \<Rightarrow> TestnetTick" where
  "testnet_tick session_id seq snapshot orders =
     \<lparr> tk_session_id = session_id, tk_seq = seq, tk_at = ob_timestamp snapshot,
       tk_best_bid = best_bid snapshot, tk_bid_size = best_bid_size snapshot,
       tk_best_ask = best_ask snapshot, tk_ask_size = best_ask_size snapshot,
       tk_open_orders = map to_client_order_id orders \<rparr>"

definition evaluate_shadows :: "'x TraderEnv \<Rightarrow> OrderBookSnapshot \<Rightarrow> ('x, TestnetTick \<times> ShadowFill list) task" where
  "evaluate_shadows env snapshot =
     after (updating (\<lambda>t. t\<lparr> tt_tick_seq := tt_tick_seq t + 1 \<rparr>))
     (then_do (reading (orders_in_window (ob_timestamp snapshot))) (\<lambda>orders.
      then_do the_session (\<lambda>session.
      then_do (reading tt_tick_seq) (\<lambda>seq.
      then_do (\<lambda>t. case evaluate_books env snapshot orders seq (se_session_id session) (tt_shadows t) of
                     (books, r) \<Rightarrow> (t\<lparr> tt_shadows := books \<rparr>, Inr r)) (\<lambda>r.
      then_do (lifted r) (\<lambda>fills.
      after (updating (\<lambda>t. t\<lparr> tt_last_snapshot_at := Some (ob_timestamp snapshot), tt_last_mid := mid_price snapshot \<rparr>))
            (pure (testnet_tick (se_session_id session) seq snapshot orders, fills))))))))"

section \<open>Placing and cancelling\<close>

definition new_order :: "'x TraderEnv \<Rightarrow> string \<Rightarrow> string \<Rightarrow> QuoteSide \<Rightarrow> f64 \<Rightarrow> f64 \<Rightarrow> Quote \<Rightarrow> datetime \<Rightarrow> TestnetOrder" where
  "new_order env cid session_id side price sz quote now =
     add_event now ''placed'' (Some (side_value side @ '' '' @ te_format_g env sz @ '' @ '' @ fixed 2 price))
       \<lparr> to_client_order_id = cid, to_session_id = session_id, to_side = side, to_price = price, to_size = sz,
         to_placed_at = now, to_quote_id = qt_quote_id quote, to_exchange_order_id = None, to_state = NewOrder,
         to_filled_size = 0, to_filled_notional = 0, to_reject_reason = None, to_acked_at = None, to_ended_at = None,
         to_events = [] \<rparr>"

definition reason_text :: "RejectReason \<Rightarrow> string" where
  "reason_text reason =
     (case reason of PostOnly \<Rightarrow> ''post_only'' | MinSize \<Rightarrow> ''min_size'' | MinNotional \<Rightarrow> ''min_notional''
      | Unfundable \<Rightarrow> ''unfundable'' | OtherReason \<Rightarrow> ''other'')"

text \<open>What the answer to a new order does to it.\<close>

definition place_answered :: "'x TraderEnv \<Rightarrow> string \<Rightarrow> TraderError + int \<Rightarrow> ('x, unit) task" where
  "place_answered env cid answer =
     (case answer of
        Inl (OrderRejected reason) \<Rightarrow>
          then_do (time_now env) (\<lambda>rejected_at.
          after (with_order cid (\<lambda>order. add_event rejected_at ''reject'' (Some (reason_text reason))
                   (order\<lparr> to_state := RejectedOrder, to_reject_reason := Some reason, to_ended_at := Some rejected_at \<rparr>)))
          (after (count_event (if reason = PostOnly then ''rejected_post_only'' else ''rejected_other''))
                 (on_condition (reason = Unfundable) ask_reconcile)))
      | Inl (TestnetUnavailable maybe_executed) \<Rightarrow>
          after (with_order cid (\<lambda>order. order\<lparr> to_state := UnknownState \<rparr>))
          (then_do (time_now env) (\<lambda>now.
           after (with_order cid (add_event now ''request_lost'' (Some ''no answer; reconciling'')))
           (after ask_reconcile
           (after (if maybe_executed then pure ()
                   else then_do (time_now env) (\<lambda>ended.
                     with_order cid (\<lambda>order. order\<lparr> to_state := RejectedOrder, to_reject_reason := Some OtherReason,
                                                     to_ended_at := Some ended \<rparr>)))
                  (throw (TestnetUnavailable maybe_executed))))))
      | Inl e \<Rightarrow> throw e
      | Inr exchange_id \<Rightarrow>
          after (count_event ''placed'')
          (then_do (time_now env) (\<lambda>acked.
           updating (\<lambda>t. case dict_get (tt_orders t) cid of
                           None \<Rightarrow> t
                         | Some order \<Rightarrow> t\<lparr> tt_by_exchange_id := dict_set exchange_id cid (tt_by_exchange_id t),
                             tt_orders := dict_set cid (add_event acked ''ack'' None
                               (order\<lparr> to_exchange_order_id := Some exchange_id, to_acked_at := Some acked,
                                       to_state := OpenOrder \<rparr>)) (tt_orders t) \<rparr>))))"

definition place_order :: "'x TraderEnv \<Rightarrow> QuoteSide \<Rightarrow> f64 \<times> f64 \<times> Quote \<Rightarrow> ('x, unit) task" where
  "place_order env side target =
     (case target of (price, sz, quote) \<Rightarrow>
      then_do (present AttributeError tt_rules) (\<lambda>rules.
      after (updating (\<lambda>t. t\<lparr> tt_seq := tt_seq t + 1 \<rparr>))
      (then_do the_session (\<lambda>session.
       then_do (reading (\<lambda>t. order_tag (se_session_id session) (tt_seq t))) (\<lambda>cid.
       then_do (time_now env) (\<lambda>now.
       after (updating (\<lambda>t. t\<lparr> tt_orders :=
                dict_set cid (new_order env cid (se_session_id session) side price sz quote now) (tt_orders t) \<rparr>))
       (after (mark cid)
       (then_do (attempt (ask (cl_place_limit_maker env (exchange_symbol (te_settings env)) side
                  (format_step (te_dec env) price (sy_tick_size rules))
                  (format_step (te_dec env) sz (sy_step_size rules)) cid)))
          (place_answered env cid)))))))))"

text \<open>An order that filled or went before the cancel arrived.\<close>

definition cancel_missed :: "'x TraderEnv \<Rightarrow> string \<Rightarrow> ('x, unit) task" where
  "cancel_missed env cid =
     then_do (attempt (ask (cl_get_order env (exchange_symbol (te_settings env)) cid))) (\<lambda>r.
       case r of
         Inl e \<Rightarrow>
           if e = UnknownOrder then testnet_reset env ''a recorded order no longer exists on the exchange'' else throw e
       | Inr entry \<Rightarrow>
           after (if eo_status entry = ''FILLED''
                  then then_do (time_now env) (\<lambda>now.
                       after (with_order cid (add_event now ''cancel_too_late'' (Some ''filled before the cancel'')))
                       (after (count_event ''cancel_too_late'') (read_fills env)))
                  else pure ())
             (apply_exchange_state env cid entry))"

definition cancel_order :: "'x TraderEnv \<Rightarrow> string \<Rightarrow> ('x, unit) task" where
  "cancel_order env cid =
     then_do (time_now env) (\<lambda>now.
     after (with_order cid (add_event now ''cancel_requested'' None))
     (after (mark cid)
     (then_do (attempt (ask (cl_cancel_order env (exchange_symbol (te_settings env)) cid))) (\<lambda>r.
       case r of
         Inl UnknownOrder \<Rightarrow> cancel_missed env cid
       | Inl (TestnetUnavailable maybe_executed) \<Rightarrow> after ask_reconcile (throw (TestnetUnavailable maybe_executed))
       | Inl e \<Rightarrow> throw e
       | Inr _ \<Rightarrow>
           then_do (time_now env) (\<lambda>cancelled_at.
           after (with_order cid (\<lambda>order. add_event cancelled_at ''cancelled'' None
                    (order\<lparr> to_state := CancelledOrder, to_ended_at := Some cancelled_at \<rparr>)))
             (count_event ''cancelled''))))))"

section \<open>Quoting\<close>

definition fundable :: "'x TraderEnv \<Rightarrow> QuoteSide \<Rightarrow> f64 \<Rightarrow> f64 \<Rightarrow> 'x TestnetTrader \<Rightarrow> bool" where
  "fundable env side price sz t =
     (if tt_account_free t = [] then True
      else
        let locked_by_us = py_sum (map (\<lambda>order. (to_size order - to_filled_size order) * (if side = BID then to_price order else 1))
              (filter (\<lambda>order. order_is_open order \<and> to_side order = side) (map snd (tt_orders t))))
        in if side = BID
           then dict_get_or (tt_account_free t) (quote_asset (te_settings env)) 0 + locked_by_us \<ge> price * sz
           else dict_get_or (tt_account_free t) (base_asset (te_settings env)) 0 + locked_by_us \<ge> sz)"

type_synonym Targets = "(QuoteSide, f64 \<times> f64 \<times> Quote) dict"

text \<open>What the approved quotes come to on the exchange's grid; the last quote of a side counts.\<close>

primrec choose_targets :: "'x TraderEnv \<Rightarrow> SymbolRules \<Rightarrow> Quote list \<Rightarrow> Targets \<Rightarrow> ('x, Targets) task" where
  "choose_targets env rules [] targets = pure targets"
| "choose_targets env rules (quote # quotes) targets =
     then_do (lifted (round_price (te_dec env) (qt_price quote) (qt_side quote) rules)) (\<lambda>price.
     then_do (lifted (round_size (te_dec env) (qt_size quote) rules)) (\<lambda>sz.
       case check_minimums price sz rules of
         Some reason \<Rightarrow>
           after (count_event (''skipped_'' @ reason_text reason)) (choose_targets env rules quotes targets)
       | None \<Rightarrow>
           then_do (reading (fundable env (qt_side quote) price sz)) (\<lambda>can_fund.
             if can_fund then choose_targets env rules quotes (dict_set (qt_side quote) (price, sz, quote) targets)
             else after (count_event ''skipped_unfundable'') (choose_targets env rules quotes targets))))"

definition moved_away :: "'x TraderEnv \<Rightarrow> TestnetOrder \<Rightarrow> (f64 \<times> f64 \<times> Quote) option \<Rightarrow> bool res" where
  "moved_away env order target =
     (case target of
        None \<Rightarrow> ok True
      | Some (price, sz, quote) \<Rightarrow>
          rbind (fdiv \<bar>to_price order - price\<bar> price) (\<lambda>d.
            ok (d * lit 10000 > s_testnet_replace_threshold_bps (te_settings env))))"

text \<open>The resting orders of one side: the first that has not moved away stays, unknown ones wait, the others are cancelled.\<close>

primrec sweep_side :: "'x TraderEnv \<Rightarrow> (f64 \<times> f64 \<times> Quote) option \<Rightarrow> string option \<Rightarrow> string list \<Rightarrow> ('x, string option) task" where
  "sweep_side env target keep [] = pure keep"
| "sweep_side env target keep (cid # cids) =
     then_do (the_order cid) (\<lambda>order.
       if to_state order = UnknownState then sweep_side env target keep cids
       else
         then_do (lifted (moved_away env order target)) (\<lambda>moved.
           if keep = None \<and> \<not> moved then sweep_side env target (Some cid) cids
           else after (cancel_order env cid) (sweep_side env target keep cids)))"

definition side_ids :: "QuoteSide \<Rightarrow> 'x TestnetTrader \<Rightarrow> string list" where
  "side_ids side t = map fst (filter (\<lambda>(cid, order). order_is_open order \<and> to_side order = side) (tt_orders t))"

definition is_unknown :: "'x TestnetTrader \<Rightarrow> string \<Rightarrow> bool" where
  "is_unknown t cid \<longleftrightarrow> (case dict_get (tt_orders t) cid of None \<Rightarrow> False | Some order \<Rightarrow> to_state order = UnknownState)"

definition quote_side :: "'x TraderEnv \<Rightarrow> Targets \<Rightarrow> QuoteSide \<Rightarrow> ('x, unit) task" where
  "quote_side env targets side =
     then_do (reading (side_ids side)) (\<lambda>resting.
     then_do (sweep_side env (dict_get targets side) None resting) (\<lambda>keep.
     then_do (reading (\<lambda>t. list_ex (is_unknown t) resting)) (\<lambda>waiting.
       case dict_get targets side of
         None \<Rightarrow> pure ()
       | Some target \<Rightarrow> on_condition (keep = None \<and> \<not> waiting) (place_order env side target))))"

definition make_quotes :: "OrderBookSnapshot \<Rightarrow> Position \<Rightarrow> ('x, Quote list) task" where
  "make_quotes snapshot position = (\<lambda>t.
     case generate_quotes (tt_strategy t) snapshot position of
       (strategy, quotes) \<Rightarrow> (t\<lparr> tt_strategy := strategy \<rparr>, Inr quotes))"

definition quote_step :: "'x TraderEnv \<Rightarrow> OrderBookSnapshot \<Rightarrow> ('x, unit) task" where
  "quote_step env snapshot =
     then_do (time_now env) (\<lambda>now.
     then_do (present AttributeError tt_inventory) (\<lambda>inventory.
     let position = to_position inventory now in
     then_do (make_quotes snapshot position) (\<lambda>quotes.
     then_do (reading tt_maker_bps) (\<lambda>maker_bps.
     let approved = filter_quotes_by_position_limit quotes position (s_max_position_base (te_settings env))
           (s_max_position_notional (te_settings env)) maker_bps in
     then_do (if approved = [] then pure []
              else then_do (present AttributeError tt_rules) (\<lambda>rules. choose_targets env rules approved [])) (\<lambda>targets.
       each_do (quote_side env targets) [BID, ASK])))))"

section \<open>Stopping\<close>

definition cancel_unless_unknown :: "'x TraderEnv \<Rightarrow> string \<Rightarrow> ('x, unit) task" where
  "cancel_unless_unknown env cid =
     then_do (the_order cid) (\<lambda>order. if to_state order = UnknownState then pure () else cancel_order env cid)"

definition cancel_listed :: "'x TraderEnv \<Rightarrow> ExchangeOrder \<Rightarrow> ('x, unit) task" where
  "cancel_listed env entry =
     (let cid = eo_client_order_id entry in
      then_do (reading (\<lambda>t. dict_get (tt_orders t) cid)) (\<lambda>known.
        if known \<noteq> None then cancel_order env cid
        else then_do (cancel_known env cid) (\<lambda>_. pure ())))"

text \<open>
  The exchange is asked for its list until it shows no tagged order, five times at most.
\<close>

primrec confirm_cancelled :: "'x TraderEnv \<Rightarrow> nat \<Rightarrow> ('x, bool) task" where
  "confirm_cancelled env 0 = pure False"
| "confirm_cancelled env (Suc n) =
     then_do (ask (cl_open_orders env (exchange_symbol (te_settings env)))) (\<lambda>entries.
     let remaining = filter (\<lambda>e. is_tagged (eo_client_order_id e)) entries in
     if remaining = []
     then then_do (reading open_ids) (\<lambda>ids.
          after (each_do (resolve_missing env) ids)
          (then_do (time_now env) (\<lambda>now.
           after (updating (\<lambda>t. t\<lparr> tt_reconcile :=
                    \<lparr> rs_last_at = Some now, rs_ok = Some True, rs_unexplained = rs_unexplained (tt_reconcile t) \<rparr> \<rparr>))
                 (pure True))))
     else after (each_do (cancel_listed env) remaining) (confirm_cancelled env n))"

definition cancel_all_once :: "'x TraderEnv \<Rightarrow> ('x, bool) task" where
  "cancel_all_once env =
     then_do (attempt (then_do (reading open_ids) (\<lambda>ids.
                       after (each_do (cancel_unless_unknown env) ids) (confirm_cancelled env CANCEL_CONFIRM_ATTEMPTS)))) (\<lambda>r.
       let pending = (\<lambda>e. after ask_reconcile
             (after (set_state CancelPending (Some (''cancel pending: '' @ te_error_text env e))) (pure False)))
       in (case r of
             Inl (TestnetUnavailable m) \<Rightarrow> pending (TestnetUnavailable m)
           | Inl (RateLimited s) \<Rightarrow> pending (RateLimited s)
           | Inl e \<Rightarrow> throw e
           | Inr cleared \<Rightarrow>
               if cleared then pure True
               else after (set_state CancelPending (Some ''orders still open after cancelling'')) (pure False)))"

definition cancel_all :: "'x TraderEnv \<Rightarrow> ('x, bool) task" where
  "cancel_all env =
     then_do (attempt (cancel_all_once env)) (\<lambda>r.
       case r of Inl e \<Rightarrow> if e = SessionReset then cancel_all_once env else throw e | Inr cleared \<Rightarrow> pure cleared)"

primrec cancel_repeatedly :: "'x TraderEnv \<Rightarrow> nat \<Rightarrow> ('x, unit) task" where
  "cancel_repeatedly env 0 = pure ()"
| "cancel_repeatedly env (Suc n) =
     then_do (cancel_all env) (\<lambda>cleared.
       if cleared then pure ()
       else after (updating (\<lambda>t. t\<lparr> tt_world := te_sleep env 1 (tt_world t) \<rparr>)) (cancel_repeatedly env n))"

definition shutdown :: "'x TraderEnv \<Rightarrow> ('x, unit) task" where
  "shutdown env =
     then_do (reading tt_session) (\<lambda>found.
     case found of
       None \<Rightarrow> updating (\<lambda>t. if tt_state t \<noteq> TraderAuthFailed then t\<lparr> tt_state := TraderStopped \<rparr> else t)
     | Some _ \<Rightarrow>
         after (cancel_repeatedly env 3)
         (after (flush env)
         (then_do (time_now env) (\<lambda>now.
          then_do the_session (\<lambda>session.
          let ended = session\<lparr> se_ended_at := Some now, se_end_reason := Some ''stopped'' \<rparr> in
          after (updating (\<lambda>t. t\<lparr> tt_session := Some ended \<rparr>))
          (after (ask (rp_save_session env ended))
          (then_do (reading tt_state) (\<lambda>state.
             on_condition (state \<noteq> CancelPending) (set_state TraderStopped None)))))))))"

section \<open>Reconciliation\<close>

definition resolve_doubtful :: "'x TraderEnv \<Rightarrow> string \<Rightarrow> ('x, unit) task" where
  "resolve_doubtful env cid =
     then_do (the_order cid) (\<lambda>order.
       if to_state order = UnknownState \<or> to_exchange_order_id order = None then resolve_missing env cid else pure ())"

definition check_history :: "'x TraderEnv \<Rightarrow> ('x, unit) task" where
  "check_history env =
     then_do (reading tt_first_trade_id) (\<lambda>found.
       case found of
         None \<Rightarrow> pure ()
       | Some first_id \<Rightarrow>
           then_do (ask (cl_my_trades env (exchange_symbol (te_settings env)) (Some first_id) 1)) (\<lambda>history.
             if map et_id (take 1 history) \<noteq> [first_id]
             then testnet_reset env ''the session's trade history disappeared'' else pure ()))"

definition reconcile_once :: "'x TraderEnv \<Rightarrow> ('x, unit) task" where
  "reconcile_once env =
     after (updating (\<lambda>t. t\<lparr> tt_need_reconcile := False \<rparr>))
     (then_do (monotonic_now env) (\<lambda>mono.
      after (updating (\<lambda>t. t\<lparr> tt_last_reconcile_mono := Some mono \<rparr>))
      (then_do (ask (cl_sync_time env)) (\<lambda>_.
       then_do (ask (cl_account env)) (\<lambda>account.
       after (read_account account)
       (then_do (reading open_ids) (\<lambda>ids.
        after (each_do (resolve_doubtful env) ids)
        (after (check_history env)
        (then_do (reading (\<lambda>t. length (filter (is_unknown t) (open_ids t)))) (\<lambda>unknown.
         then_do (time_now env) (\<lambda>now.
           updating (\<lambda>t. t\<lparr> tt_reconcile := \<lparr> rs_last_at = Some now, rs_ok = Some (unknown = 0),
             rs_unexplained = dict_get_or (tt_counters t) ''unexplained'' 0 \<rparr> \<rparr>))))))))))))"

definition reconcile :: "'x TraderEnv \<Rightarrow> ('x, unit) task" where
  "reconcile env =
     then_do (attempt (reconcile_once env)) (\<lambda>r.
       case r of Inl e \<Rightarrow> if e = SessionReset then flush env else throw e | Inr _ \<Rightarrow> pure ())"

section \<open>One iteration\<close>

definition iteration_done :: "datetime \<Rightarrow> ('x, unit) task" where
  "iteration_done at_time = updating (\<lambda>t. t\<lparr> tt_last_iteration_at := Some at_time \<rparr>)"

definition reconcile_due :: "'x TraderEnv \<Rightarrow> ('x, bool) task" where
  "reconcile_due env =
     then_do (reading (\<lambda>t. (tt_need_reconcile t, tt_last_reconcile_mono t))) (\<lambda>(needed, last_mono).
       case last_mono of
         None \<Rightarrow> pure True
       | Some m \<Rightarrow>
           if needed then pure True
           else then_do (monotonic_now env) (\<lambda>now. pure (now - m \<ge> s_testnet_reconcile_interval_sec (te_settings env))))"

definition hold_still :: "'x TraderEnv \<Rightarrow> datetime \<Rightarrow> ('x, unit) task" where
  "hold_still env now =
     then_do (cancel_all env) (\<lambda>cleared.
     then_do (reading (\<lambda>t. te_kill_active env (tt_world t))) (\<lambda>killed.
     after (on_condition killed (set_state (if cleared then TraderPaused else CancelPending) (Some ''kill switch on'')))
     (after (flush env) (iteration_done now))))"

definition trade_once :: "'x TraderEnv \<Rightarrow> ('x, unit) task" where
  "trade_once env =
     then_do (ask (cl_depth env (exchange_symbol (te_settings env)) 20)) (\<lambda>raw.
     then_do (time_now env) (\<lambda>now.
     let snapshot = (normalize_ccxt_orderbook (s_symbol (te_settings env)) (raw\<lparr> raw_timestamp_ms := None \<rparr>) False now)
           \<lparr> ob_timestamp := now \<rparr> in
     after (sync_orders env)
     (then_do (evaluate_shadows env snapshot) (\<lambda>(tick, fills).
      after (ask (rp_save_tick env tick))
      (after (quote_step env snapshot)
      (then_do (reconcile_due env) (\<lambda>due.
       after (if due then reconcile env else pure ())
       (after (ask (rp_save_shadow_fills env fills))
       (after (flush env)
       (then_do (time_now env) (\<lambda>finished.
        after (iteration_done finished)
          (then_do (reading tt_state) (\<lambda>state. on_condition (state \<noteq> TraderRunning) (set_state TraderRunning None))))))))))))))"

definition iterate_session :: "'x TraderEnv \<Rightarrow> ('x, unit) task" where
  "iterate_session env =
     then_do (time_now env) (\<lambda>now.
     then_do (reading (\<lambda>t. te_kill_active env (tt_world t) \<or> tt_stopping t)) (\<lambda>held.
       if held then hold_still env now else trade_once env))"

definition iterate :: "'x TraderEnv \<Rightarrow> ('x, unit) task" where
  "iterate env =
     then_do (reading tt_session) (\<lambda>session.
     after (if session = None then startup env else pure ())
     (then_do (attempt (iterate_session env)) (\<lambda>r.
        case r of
          Inl e \<Rightarrow> if e = SessionReset then after (flush env) (then_do (time_now env) iteration_done) else throw e
        | Inr _ \<Rightarrow> pure ())))"

section \<open>The loop\<close>

definition interval :: "'x TraderEnv \<Rightarrow> 'x TestnetTrader \<Rightarrow> f64" where
  "interval env t =
     (case cl_weight_used_ratio env (tt_world t) of
        None \<Rightarrow> s_testnet_poll_interval_sec (te_settings env)
      | Some ratio \<Rightarrow>
          if ratio > WEIGHT_SLOWDOWN_RATIO then s_testnet_poll_interval_sec (te_settings env) * lit 2
          else s_testnet_poll_interval_sec (te_settings env))"

text \<open>One pass of the loop: the seconds to wait and the next back-off, or \<open>None\<close> when the loop returns.\<close>

definition run_pass :: "'x TraderEnv \<Rightarrow> f64 \<Rightarrow> ('x, (f64 \<times> f64) option) task" where
  "run_pass env backoff =
     then_do (attempt (then_do (reading tt_session) (\<lambda>session.
                       after (if session = None then startup env else pure ()) (iterate env)))) (\<lambda>r.
       let doubled = min MAX_BACKOFF_SEC (backoff * lit 2) in
       case r of
         Inr _ \<Rightarrow> then_do (reading (interval env)) (\<lambda>wait. pure (Some (wait, s_testnet_poll_interval_sec (te_settings env))))
       | Inl e \<Rightarrow>
           (case e of
              AuthFailed \<Rightarrow> pure None
            | RateLimited retry_after \<Rightarrow>
                after (set_state TraderRateLimited (Some (''exchange asked to wait '' @ fixed 0 retry_after @ '' s'')))
                  (pure (Some (retry_after, backoff)))
            | _ \<Rightarrow>
                after (count_event ''errors'')
                (after (on_condition (is_testnet_error e \<or> e = OtherException OSError) ask_reconcile)
                (after (set_state TraderUnavailable (Some
                          (if is_testnet_error e \<or> e = OtherException OSError then te_error_text env e
                           else ''internal error: '' @ te_error_type env e)))
                       (pure (Some (backoff, doubled)))))))"

text \<open>One look of \<open>_wait\<close> at the switch and the clock: the seconds to sleep before the next, or \<open>None\<close> when it returns.\<close>

definition wait_look :: "'x TraderEnv \<Rightarrow> f64 \<Rightarrow> bool \<Rightarrow> ('x, f64 option) task" where
  "wait_look env deadline paused =
     then_do (reading (\<lambda>t. (tt_stopping t, te_kill_active env (tt_world t), tt_session t \<noteq> None))) (\<lambda>(stopping, killed, in_session).
       if stopping then pure None
       else if killed \<and> \<not> paused \<and> in_session then pure None
       else if \<not> killed \<and> paused then pure None
       else then_do (monotonic_now env) (\<lambda>now.
         if deadline - now \<le> 0 then pure None else pure (Some (min KILL_POLL_SEC (deadline - now)))))"

definition wait_paused :: "'x TestnetTrader \<Rightarrow> bool" where
  "wait_paused t \<longleftrightarrow> tt_state t \<in> {TraderPaused, CancelPending}"

section \<open>The trader\<close>

definition trader_init :: "Settings \<Rightarrow> 'x \<Rightarrow> 'x TestnetTrader" where
  "trader_init st world =
     \<lparr> tt_world = world,
       tt_strategy = build_strategy (st\<lparr> s_quote_spread_bps := testnet_spread_bps st, s_quote_size := testnet_size st \<rparr>),
       tt_state = TraderStarting, tt_reason = None, tt_rules = None, tt_session = None, tt_orders = [],
       tt_by_exchange_id = [], tt_seq = 0, tt_tick_seq = 0, tt_last_trade_id = None, tt_first_trade_id = None,
       tt_inventory = None, tt_shadows = [], tt_last_snapshot_at = None, tt_last_mid = None, tt_account_free = [],
       tt_account_total = [], tt_maker_bps = 0, tt_counters = map (\<lambda>name. (name, 0)) COUNTER_NAMES,
       tt_reconcile = \<lparr> rs_last_at = None, rs_ok = None, rs_unexplained = 0 \<rparr>, tt_last_reconcile_mono = None,
       tt_need_reconcile = False, tt_started_at = None, tt_last_iteration_at = None, tt_stopping = False, tt_dirty = [] \<rparr>"

definition disabled_status :: "Settings \<Rightarrow> TraderStatus" where
  "disabled_status st =
     (let none = \<lparr> st_state = TraderNoKeys, st_reason = Some ''no testnet keys'', st_keys_present = False,
                   st_source = SourceNone, st_session_id = None, st_started_at = None, st_last_iteration_at = None,
                   st_open_orders = 0, st_kill_switch_active = False, st_weight_used_ratio = None, st_counters = [],
                   st_reconcile = \<lparr> rs_last_at = None, rs_ok = None, rs_unexplained = 0 \<rparr> \<rparr>
      in if \<not> s_testnet_enabled st
         then none\<lparr> st_state := TraderDisabled, st_reason := Some ''TESTNET_ENABLED=false'' \<rparr> else none)"

definition trader_status :: "'x TraderEnv \<Rightarrow> 'x TestnetTrader \<Rightarrow> TraderStatus" where
  "trader_status env t =
     \<lparr> st_state = tt_state t, st_reason = tt_reason t, st_keys_present = True, st_source = SourceLive,
       st_session_id = map_option se_session_id (tt_session t), st_started_at = tt_started_at t,
       st_last_iteration_at = tt_last_iteration_at t, st_open_orders = length (open_ids t),
       st_kill_switch_active = te_kill_active env (tt_world t),
       st_weight_used_ratio = cl_weight_used_ratio env (tt_world t), st_counters = tt_counters t,
       st_reconcile = tt_reconcile t \<rparr>"

definition virtual_balances :: "'x TestnetTrader \<Rightarrow> f64 \<times> f64" where
  "virtual_balances t =
     (case tt_inventory t of None \<Rightarrow> (0, 0) | Some iv \<Rightarrow> (iv_base_amount iv, iv_quote_amount iv))"

definition shadow_filled :: "'x TestnetTrader \<Rightarrow> (FillMode \<times> (string, f64) dict) list" where
  "shadow_filled t = map (\<lambda>book. (sb_fill_model book, sb_filled book)) (tt_shadows t)"

end
