(* ===== verification/Testnet_Trader_Facts.thy ===== *)
theory Testnet_Trader_Facts
  imports Testnet_Trader
begin

text \<open>
  Who sends orders: whatever the exchange answers, the steps of the testnet trader other than placing run as they would
  if placing did anything else, and a stopped or killed iteration never places.
\<close>

section \<open>Who sends orders\<close>

text \<open>A step that never asks for a new order is the same whatever placing does.\<close>

abbreviation other_placing :: "(string \<Rightarrow> QuoteSide \<Rightarrow> string \<Rightarrow> string \<Rightarrow> string \<Rightarrow> ('x, int) effect) \<Rightarrow> 'x TraderEnv \<Rightarrow> 'x TraderEnv" where
  "other_placing place env \<equiv> env\<lparr> cl_place_limit_maker := place \<rparr>"

lemmas branch_congs = if_cong option.case_cong sum.case_cong TraderError.case_cong prod.case_cong

lemma filled_order_placing [simp]: "filled_order (other_placing place env) = filled_order env"
  by (simp add: filled_order_def fun_eq_iff Let_def)

lemma take_trade_placing [simp]: "take_trade (other_placing place env) trade = take_trade env trade"
  by (simp add: take_trade_def apply_testnet_fill_def Let_def cong: branch_congs)

lemma take_trades_placing [simp]: "take_trades (other_placing place env) trades = take_trades env trades"
  by (induction trades) simp_all

lemma elementary_placing [simp]:
  "flush (other_placing place env) = flush env" "time_now (other_placing place env) = time_now env"
  "monotonic_now (other_placing place env) = monotonic_now env"
  "cancel_known (other_placing place env) cid = cancel_known env cid"
  "close_previous_sessions (other_placing place env) = close_previous_sessions env"
  "read_fills (other_placing place env) = read_fills env"
  "ack_time (other_placing place env) order entry = ack_time env order entry"
  by (simp_all add: flush_def time_now_def monotonic_now_def cancel_known_def close_previous_sessions_def
      read_fills_def ack_time_def Let_def cong: branch_congs)

lemma leftover_placing [simp]: "cancel_leftover (other_placing place env) = cancel_leftover env"
  by (simp add: cancel_leftover_def fun_eq_iff Let_def cong: branch_congs)

lemma sessions_placing [simp]:
  "cancel_leftovers (other_placing place env) = cancel_leftovers env"
  "open_session (other_placing place env) = open_session env"
  "startup (other_placing place env) = startup env"
  "(testnet_reset (other_placing place env) :: string \<Rightarrow> ('x, 'a) task) = testnet_reset env" for env :: "'x TraderEnv"
  by (simp_all add: cancel_leftovers_def open_session_def startup_def testnet_reset_def Let_def fun_eq_iff cong: branch_congs)

lemma statuses_placing [simp]:
  "found_open (other_placing place env) = found_open env" "take_status (other_placing place env) = take_status env"
  by (simp_all add: found_open_def take_status_def reconciled_as_def fun_eq_iff cong: branch_congs)

lemma orders_placing [simp]:
  "adopt (other_placing place env) = adopt env"
  "apply_exchange_state (other_placing place env) = apply_exchange_state env"
  "resolve_missing (other_placing place env) = resolve_missing env"
  "cancel_missed (other_placing place env) = cancel_missed env"
  "cancel_order (other_placing place env) = cancel_order env"
  by (simp_all add: adopt_def apply_exchange_state_def reconciled_as_def resolve_missing_def cancel_missed_def cancel_order_def fun_eq_iff cong: branch_congs)

lemma stopping_placing [simp]:
  "cancel_unless_unknown (other_placing place env) = cancel_unless_unknown env"
  "cancel_listed (other_placing place env) = cancel_listed env"
  by (simp_all add: cancel_unless_unknown_def cancel_listed_def fun_eq_iff Let_def cong: branch_congs)

lemma confirm_placing [simp]: "confirm_cancelled (other_placing place env) n = confirm_cancelled env n"
  by (induction n) (simp_all add: Let_def cong: branch_congs)

lemma cancel_all_placing [simp]:
  "cancel_all_once (other_placing place env) = cancel_all_once env" "cancel_all (other_placing place env) = cancel_all env"
  by (simp_all add: cancel_all_once_def cancel_all_def cong: branch_congs)

lemma cancel_repeatedly_placing [simp]: "cancel_repeatedly (other_placing place env) n = cancel_repeatedly env n"
  by (induction n) (simp_all cong: branch_congs)

lemma reconcile_placing [simp]:
  "resolve_doubtful (other_placing place env) = resolve_doubtful env" "check_history (other_placing place env) = check_history env"
  by (simp_all add: resolve_doubtful_def check_history_def fun_eq_iff cong: branch_congs)

lemma iterate_in_session:
  "tt_session t = Some session \<Longrightarrow> iterate env t =
     (case iterate_session env t of
        (t', Inl e) \<Rightarrow> (if e = SessionReset then after (flush env) (then_do (time_now env) iteration_done) else throw e) t'
      | (t', Inr _) \<Rightarrow> (t', Inr ()))"
  by (cases "iterate_session env t"; cases "snd (iterate_session env t)") (simp_all add: iterate_def then_do_def attempt_def)

text \<open>C28. Only an iteration that is neither stopped by the kill switch nor told to stop ever sends an order: starting up,
  reconciling, cancelling and shutting down come out the same whatever the exchange does with new orders, and so does an
  iteration with the switch on. 
\<close>

theorem orders_sent_only_when_quoting:
  fixes env :: "'x TraderEnv" and t :: "'x TestnetTrader"
  shows "startup (other_placing place env) = startup env \<and> reconcile (other_placing place env) = reconcile env
    \<and> cancel_all (other_placing place env) = cancel_all env \<and> shutdown (other_placing place env) = shutdown env
    \<and> (if tt_session t \<noteq> None \<and> (te_kill_active env (fst (te_clock env (tt_world t))) \<or> tt_stopping t)
       then iterate (other_placing place env) t = iterate env t else True)"
proof -
  have "reconcile (other_placing place env) = reconcile env"
    by (simp add: reconcile_def reconcile_once_def cong: branch_congs)
  moreover have "shutdown (other_placing place env) = shutdown env"
    by (simp add: shutdown_def Let_def cong: branch_congs)
  moreover have "iterate (other_placing place env) t = iterate env t"
    if "tt_session t \<noteq> None" "te_kill_active env (fst (te_clock env (tt_world t))) \<or> tt_stopping t"
  proof -
    have "iterate_session (other_placing place env) t = iterate_session env t"
      using that(2) by (auto simp: iterate_session_def time_now_def then_do_def ask_def hold_still_def split: prod.split)
    moreover from that(1) obtain session where "tt_session t = Some session" by blast
    ultimately show ?thesis by (simp only: iterate_in_session elementary_placing)
  qed
  ultimately show ?thesis by simp
qed

end
