(* ===== verification/Testnet_Orders.thy ===== *)
theory Testnet_Orders
  imports Testnet_Trader
begin

text \<open>
  The life of the trader's orders. \<open>life\<close> relates two states of the trader: the records stay consistent, and unless the
  session was replaced, every order is still there and has only moved forward. Each step of the trader keeps it,
  whatever the exchange and the repository answer and wherever an exception cuts the step short.
\<close>

section \<open>Orders\<close>

definition state_rank :: "OrderState \<Rightarrow> nat" where
  "state_rank state = (case state of NewOrder \<Rightarrow> 0 | UnknownState \<Rightarrow> 1 | OpenOrder \<Rightarrow> 2 | PartiallyFilled \<Rightarrow> 3 | _ \<Rightarrow> 4)"

definition same_order :: "TestnetOrder \<Rightarrow> TestnetOrder \<Rightarrow> bool" where
  "same_order o1 o2 \<longleftrightarrow> to_client_order_id o2 = to_client_order_id o1 \<and> to_session_id o2 = to_session_id o1
     \<and> to_side o2 = to_side o1 \<and> to_price o2 = to_price o1 \<and> to_size o2 = to_size o1
     \<and> to_placed_at o2 = to_placed_at o1 \<and> to_quote_id o2 = to_quote_id o1"

definition forward :: "TestnetOrder \<Rightarrow> TestnetOrder \<Rightarrow> bool" where
  "forward o1 o2 \<longleftrightarrow> same_order o1 o2 \<and> state_rank (to_state o1) \<le> state_rank (to_state o2)
     \<and> (\<exists>later. to_events o2 = to_events o1 @ later)
     \<and> (to_acked_at o1 \<noteq> None \<longrightarrow> to_acked_at o2 = to_acked_at o1)
     \<and> (to_exchange_order_id o1 \<noteq> None \<longrightarrow> to_exchange_order_id o2 = to_exchange_order_id o1)"

lemma forward_refl [simp]: "forward o1 o1"
  by (simp add: forward_def same_order_def)

lemma forward_trans: "forward o1 o2 \<Longrightarrow> forward o2 o3 \<Longrightarrow> forward o1 o3"
  by (auto simp: forward_def same_order_def)

definition ends_timed :: "TestnetOrder \<Rightarrow> bool" where
  "ends_timed order \<longleftrightarrow> (order_is_final order \<longrightarrow> to_ended_at order \<noteq> None)"

lemma add_event_simps [simp]:
  "to_state (add_event t k d order) = to_state order" "to_ended_at (add_event t k d order) = to_ended_at order"
  "to_client_order_id (add_event t k d order) = to_client_order_id order"
  "to_acked_at (add_event t k d order) = to_acked_at order"
  "to_exchange_order_id (add_event t k d order) = to_exchange_order_id order"
  "same_order o1 (add_event t k d order) = same_order o1 order"
  "ends_timed (add_event t k d order) = ends_timed order"
  "to_events (add_event t k d order) = to_events order @ [\<lparr> oe_at = t, oe_kind = k, oe_detail = d \<rparr>]"
  by (simp_all add: add_event_def same_order_def ends_timed_def order_is_final_def)

lemma forward_event: "forward o1 o2 \<Longrightarrow> forward o1 (add_event t k d o2)"
  by (auto simp: forward_def)

section \<open>The records\<close>

definition resets :: "'x TestnetTrader \<Rightarrow> int" where
  "resets t = dict_get_or (tt_counters t) ''resets'' 0"

definition session_id_of :: "'x TestnetTrader \<Rightarrow> string option" where
  "session_id_of t = map_option se_session_id (tt_session t)"

definition order_ok :: "string option \<Rightarrow> nat \<Rightarrow> string \<Rightarrow> TestnetOrder \<Rightarrow> bool" where
  "order_ok sid seq cid order \<longleftrightarrow> to_client_order_id order = cid \<and> ends_timed order
     \<and> sid = Some (to_session_id order) \<and> (\<exists>n. 1 \<le> n \<and> n \<le> seq \<and> cid = order_tag (to_session_id order) n)"

definition records_ok :: "'x TestnetTrader \<Rightarrow> bool" where
  "records_ok t \<longleftrightarrow> wf_dict (tt_orders t)
     \<and> (\<forall>cid order. dict_get (tt_orders t) cid = Some order \<longrightarrow> order_ok (session_id_of t) (tt_seq t) cid order)
     \<and> (\<forall>xid cid. dict_get (tt_by_exchange_id t) xid = Some cid \<longrightarrow> dict_get (tt_orders t) cid \<noteq> None)"

definition orders_forward :: "'x TestnetTrader \<Rightarrow> 'x TestnetTrader \<Rightarrow> bool" where
  "orders_forward t t' \<longleftrightarrow>
     (\<forall>cid order. dict_get (tt_orders t) cid = Some order \<longrightarrow>
        (\<exists>order'. dict_get (tt_orders t') cid = Some order' \<and> forward order order'))"

definition life :: "'x TestnetTrader \<Rightarrow> 'x TestnetTrader \<Rightarrow> bool" where
  "life t t' \<longleftrightarrow> (records_ok t \<longrightarrow> records_ok t' \<and> resets t \<le> resets t' \<and> (resets t' = resets t \<longrightarrow> orders_forward t t'))"

lemma orders_forward_trans: "orders_forward s t \<Longrightarrow> orders_forward t u \<Longrightarrow> orders_forward s u"
  unfolding orders_forward_def using forward_trans by blast

interpretation alive: frame_condition "life :: 'x TestnetTrader \<Rightarrow> 'x TestnetTrader \<Rightarrow> bool"
proof
  show "life s s" for s :: "'x TestnetTrader" by (auto simp: life_def orders_forward_def)
  show "life s u" if "life s t" "life t u" for s t u :: "'x TestnetTrader"
  proof -
    have "records_ok s \<Longrightarrow> resets u = resets s \<Longrightarrow> resets t = resets s \<and> resets u = resets t" using that by (simp add: life_def)
    then show ?thesis using that orders_forward_trans [of s t u] by (auto simp: life_def)
  qed
qed

text \<open>What \<open>life\<close> looks at.\<close>

definition same_records :: "'x TestnetTrader \<Rightarrow> 'x TestnetTrader \<Rightarrow> bool" where
  "same_records t t' \<longleftrightarrow> tt_orders t' = tt_orders t \<and> tt_by_exchange_id t' = tt_by_exchange_id t \<and> tt_seq t' = tt_seq t
     \<and> session_id_of t' = session_id_of t \<and> resets t' = resets t"

lemma life_same: "same_records t t' \<Longrightarrow> life t t'"
  by (auto simp: same_records_def life_def records_ok_def orders_forward_def)

interpretation recorded: frame_condition "same_records :: 'x TestnetTrader \<Rightarrow> 'x TestnetTrader \<Rightarrow> bool"
  by unfold_locales (auto simp: same_records_def)

lemma along_life: "along same_records m \<Longrightarrow> along life m"
  by (simp add: along_def life_same)

section \<open>Steps that leave the records alone\<close>

lemma record_view [simp]:
  "resets (t\<lparr> tt_world := w \<rparr>) = resets t" "session_id_of (t\<lparr> tt_world := w \<rparr>) = session_id_of t"
  "resets (t\<lparr> tt_orders := d \<rparr>) = resets t" "session_id_of (t\<lparr> tt_orders := d \<rparr>) = session_id_of t"
  "resets (t\<lparr> tt_by_exchange_id := b \<rparr>) = resets t" "session_id_of (t\<lparr> tt_by_exchange_id := b \<rparr>) = session_id_of t"
  "resets (t\<lparr> tt_dirty := l \<rparr>) = resets t" "session_id_of (t\<lparr> tt_dirty := l \<rparr>) = session_id_of t"
  "resets (t\<lparr> tt_seq := n \<rparr>) = resets t" "session_id_of (t\<lparr> tt_seq := n \<rparr>) = session_id_of t"
  by (simp_all add: resets_def session_id_of_def)

lemma along_ask: "along same_records (ask op)"
  by (auto simp: along_def ask_def same_records_def split: prod.split)

lemma along_time: "along same_records (time_now env)" "along same_records (monotonic_now env)"
  by (simp_all add: time_now_def monotonic_now_def along_ask)

lemma along_attempt: "along R m \<Longrightarrow> along R (attempt m)"
  by (auto simp: along_def attempt_def split: prod.split) (metis fst_conv)

lemma along_lifted: "along same_records (lifted r)"
  by (auto simp: along_def lifted_def same_records_def split: sum.split)

lemma along_present: "along same_records (present e f)"
  by (auto simp: along_def present_def same_records_def split: option.split)

lemma along_small:
  "along same_records (set_state s r)" "along same_records (mark cid)" "along same_records ask_reconcile"
  "along same_records (read_account a)" "along same_records (iteration_done d)" "along same_records (make_quotes snap position)"
  by (auto simp: along_def set_state_def mark_def ask_reconcile_def read_account_def iteration_done_def make_quotes_def
      same_records_def resets_def session_id_of_def split: prod.split)

lemma along_count: "name \<noteq> ''resets'' \<Longrightarrow> along same_records (count_event name)"
  by (auto simp: along_def count_event_def same_records_def resets_def session_id_of_def dict_get_or_def)

lemmas quiet_rules = recorded.along_rules along_ask along_time along_attempt along_lifted along_present along_small along_count

lemma flush_quiet: "along same_records (flush env)"
  unfolding flush_def
  by (intro quiet_rules along_updating) (auto simp: same_records_def resets_def session_id_of_def)

lemma cancel_known_quiet: "along same_records (cancel_known env cid)"
  unfolding cancel_known_def by (intro quiet_rules)

section \<open>Steps on one order\<close>

lemma time_now_run [simp]:
  "time_now env t = (t\<lparr> tt_world := fst (te_clock env (tt_world t)) \<rparr>, Inr (snd (te_clock env (tt_world t))))"
  by (simp add: time_now_def ask_def split: prod.split)

lemma then_time [simp]:
  "then_do (time_now env) f t = f (snd (te_clock env (tt_world t))) (t\<lparr> tt_world := fst (te_clock env (tt_world t)) \<rparr>)"
  by (simp add: then_do_def)

lemma then_present [simp]:
  "then_do (present e g) f t = (case g t of None \<Rightarrow> (t, Inl (OtherException e)) | Some x \<Rightarrow> f x t)"
  by (simp add: then_do_def present_def split: option.split)

lemma life_trans: "life s t \<Longrightarrow> life t u \<Longrightarrow> life s u"
  by (rule alive.transitive)

lemma life_world [simp]: "life t (t\<lparr> tt_world := w \<rparr>)"
  by (simp add: life_same same_records_def)

lemma life_order:
  assumes "dict_get (tt_orders t) cid = Some order" and "forward order order'" and "ends_timed order \<Longrightarrow> ends_timed order'"
  shows "life t (t\<lparr> tt_orders := dict_set cid order' (tt_orders t) \<rparr>)"
proof -
  have "order_ok sid n cid order'" if "order_ok sid n cid order" for sid n
    using that assms(2,3) by (auto simp: order_ok_def forward_def same_order_def)
  then show ?thesis
    using assms(1,2) by (auto simp: life_def records_ok_def orders_forward_def)
qed

lemma with_order_run: "with_order cid f t =
    (case dict_get (tt_orders t) cid of None \<Rightarrow> t | Some order \<Rightarrow> t\<lparr> tt_orders := dict_set cid (f order) (tt_orders t) \<rparr>, Inr ())"
  by (simp add: with_order_def)

lemma life_with_order:
  assumes "\<And>order. dict_get (tt_orders t) cid = Some order \<Longrightarrow> forward order (f order) \<and> (ends_timed order \<longrightarrow> ends_timed (f order))"
  shows "life t (fst (with_order cid f t))"
  using assms life_order by (cases "dict_get (tt_orders t) cid") (auto simp: with_order_run alive.reflexive)

lemma along_with_order:
  "(\<And>order. forward order (f order)) \<Longrightarrow> (\<And>order. ends_timed order \<Longrightarrow> ends_timed (f order)) \<Longrightarrow> along life (with_order cid f)"
  by (simp add: along_def life_with_order)

lemma along_event: "along life (with_order cid (add_event d k text))"
  by (rule along_with_order) (simp_all add: forward_event)

text \<open>Orders that end, with the time of their end.\<close>

lemma forward_end:
  assumes "s \<in> FINAL_ORDER_STATES"
  shows "forward order (order\<lparr> to_state := s, to_ended_at := Some e \<rparr>)"
    and "forward order (order\<lparr> to_state := s, to_reject_reason := r, to_ended_at := Some e \<rparr>)"
    and "ends_timed (order\<lparr> to_state := s, to_ended_at := Some e \<rparr>)"
    and "ends_timed (order\<lparr> to_state := s, to_reject_reason := r, to_ended_at := Some e \<rparr>)"
  using assms by (auto simp: forward_def same_order_def ends_timed_def state_rank_def FINAL_ORDER_STATES_def split: OrderState.split)

lemma final_states [simp]:
  "FilledOrder \<in> FINAL_ORDER_STATES" "CancelledOrder \<in> FINAL_ORDER_STATES" "RejectedOrder \<in> FINAL_ORDER_STATES"
  "ExpiredOrder \<in> FINAL_ORDER_STATES" "OpenOrder \<notin> FINAL_ORDER_STATES" "PartiallyFilled \<notin> FINAL_ORDER_STATES"
  "NewOrder \<notin> FINAL_ORDER_STATES" "UnknownState \<notin> FINAL_ORDER_STATES"
  by (simp_all add: FINAL_ORDER_STATES_def)

lemma lose_order_forward: "forward order (lose_order d r order)" "ends_timed (lose_order d r order)"
  by (auto simp: lose_order_def ends_timed_def order_is_final_def forward_def same_order_def state_rank_def add_event_def
      split: option.split OrderState.split)

lemma filled_order_forward: "forward order (filled_order env fill order)"
  and filled_order_ends: "ends_timed order \<Longrightarrow> ends_timed (filled_order env fill order)"
  by (auto simp: filled_order_def Let_def forward_def same_order_def state_rank_def add_event_def ends_timed_def order_is_final_def
      split: OrderState.split option.split)

section \<open>Reading fills\<close>

lemma along_updating_quiet: "(\<And>t. same_records t (f t)) \<Longrightarrow> along life (updating f)"
  by (simp add: along_def life_same)

lemmas life_rules = alive.along_rules along_attempt along_life [OF along_ask] along_life [OF along_lifted] along_life [OF along_present]
  along_life [OF along_time(1)] along_life [OF along_time(2)] along_life [OF along_small(1)] along_life [OF along_small(2)]
  along_life [OF along_small(3)] along_life [OF along_small(4)] along_life [OF along_small(5)] along_life [OF along_small(6)]
  along_life [OF along_count] along_life [OF flush_quiet] along_life [OF cancel_known_quiet] along_event along_updating_quiet

lemma quiet_update [simp]:
  "same_records t (t\<lparr> tt_inventory := i \<rparr>)" "same_records t (t\<lparr> tt_last_trade_id := n \<rparr>)"
  "same_records t (t\<lparr> tt_first_trade_id := n \<rparr>)" "same_records t (t\<lparr> tt_reconcile := r \<rparr>)"
  "same_records t (t\<lparr> tt_last_reconcile_mono := m \<rparr>)" "same_records t (t\<lparr> tt_need_reconcile := b \<rparr>)"
  "same_records t (t\<lparr> tt_shadows := s \<rparr>)" "same_records t (t\<lparr> tt_tick_seq := k \<rparr>)" "same_records t (t\<lparr> tt_rules := u \<rparr>)"
  "same_records t (t\<lparr> tt_last_snapshot_at := sn, tt_last_mid := mi \<rparr>)" "same_records t (t\<lparr> tt_started_at := st \<rparr>)"
  "same_records t (t\<lparr> tt_world := w \<rparr>)"
  "same_records t (t\<lparr> tt_last_trade_id := n, tt_first_trade_id := n' \<rparr>)"
  "same_records t (t\<lparr> tt_last_reconcile_mono := m, tt_reconcile := r \<rparr>)"
  by (simp_all add: same_records_def resets_def session_id_of_def)

lemma apply_testnet_fill_life: "along life (apply_testnet_fill env cid fill)"
  unfolding apply_testnet_fill_def
  by (intro life_rules along_with_order filled_order_forward filled_order_ends) auto

lemma take_trade_life: "along life (take_trade env trade)"
  unfolding take_trade_def Let_def
  by (intro life_rules apply_testnet_fill_life) auto

lemma take_trades_life: "along life (take_trades env trades)"
proof (induction trades)
  case (Cons trade trades)
  then show ?case by (auto intro!: life_rules take_trade_life split: option.split)
qed (simp only: take_trades.simps alive.along_pure)

lemma read_fills_life: "along life (read_fills env)"
  unfolding read_fills_def by (intro life_rules take_trades_life)

section \<open>Following the exchange\<close>

lemma then_with_order [simp]: "then_do (with_order cid f) k t = k () (fst (with_order cid f t))"
  by (simp add: then_do_def with_order_run split: option.split)

lemma note_run:
  "dict_get (tt_orders t) cid = Some order \<Longrightarrow> note_exchange_id cid entry t =
     (case (to_exchange_order_id order, eo_order_id entry) of
        (None, Some xid) \<Rightarrow> (t\<lparr> tt_by_exchange_id := dict_set xid cid (tt_by_exchange_id t),
                               tt_orders := dict_set cid (order\<lparr> to_exchange_order_id := Some xid \<rparr>) (tt_orders t) \<rparr>, Inr True)
      | _ \<Rightarrow> (t, Inr False))"
  by (cases "to_exchange_order_id order"; cases "eo_order_id entry") (simp_all add: note_exchange_id_def with_order_run)

lemma note_life:
  assumes order: "dict_get (tt_orders t) cid = Some order"
  obtains t' changed order' where "note_exchange_id cid entry t = (t', Inr changed)" "life t t'"
    "dict_get (tt_orders t') cid = Some order'" "to_state order' = to_state order" "to_acked_at order' = to_acked_at order"
    "to_ended_at order' = to_ended_at order"
proof (cases "to_exchange_order_id order = None \<and> eo_order_id entry \<noteq> None")
  case True
  then obtain xid where x: "to_exchange_order_id order = None" "eo_order_id entry = Some xid" by blast
  let ?o = "order\<lparr> to_exchange_order_id := Some xid \<rparr>"
  let ?s = "t\<lparr> tt_by_exchange_id := dict_set xid cid (tt_by_exchange_id t) \<rparr>"
  have "life t ?s" using order by (auto simp: life_def records_ok_def orders_forward_def)
  moreover have "life ?s (?s\<lparr> tt_orders := dict_set cid ?o (tt_orders ?s) \<rparr>)"
    using order x by (intro life_order [of _ _ order]) (simp_all add: forward_def same_order_def ends_timed_def order_is_final_def)
  ultimately have "life t (?s\<lparr> tt_orders := dict_set cid ?o (tt_orders ?s) \<rparr>)" by (rule life_trans)
  then show thesis
    by (intro that [of "?s\<lparr> tt_orders := dict_set cid ?o (tt_orders ?s) \<rparr>" True ?o]) (simp_all add: note_run [OF order] x)
next
  case False
  then have "note_exchange_id cid entry t = (t, Inr False)" by (auto simp: note_run [OF order] split: option.split)
  then show thesis using order that alive.reflexive by blast
qed

lemma ack_run:
  obtains w acked where "ack_time env order entry t = (t\<lparr> tt_world := w \<rparr>, Inr acked)"
    "to_acked_at order \<noteq> None \<longrightarrow> to_acked_at order = Some acked"
proof (cases "to_acked_at order")
  case (Some acked)
  then show thesis by (intro that [of "tt_world t" acked]) (simp_all add: ack_time_def)
next
  case None
  show thesis
  proof (cases "given_time (eo_time entry)")
    case (Some acked)
    then show thesis using None by (intro that [of "tt_world t" acked]) (simp_all add: ack_time_def)
  next
    case later: None
    show thesis by (rule that) (simp_all add: ack_time_def None later)
  qed
qed

lemma found_open_life:
  assumes "dict_get (tt_orders t) cid = Some o1" and "to_state o1 = UnknownState" and "to_acked_at o1 = to_acked_at order"
  shows "life t (fst (found_open env cid entry order t))"
proof -
  obtain w acked where a: "ack_time env order entry t = (t\<lparr> tt_world := w \<rparr>, Inr acked)"
      "to_acked_at order \<noteq> None \<longrightarrow> to_acked_at order = Some acked" by (rule ack_run)
  show ?thesis unfolding found_open_def then_do_simps(1) [where m = "ack_time env order entry" and s = t, OF a(1)]
  proof (rule life_trans [OF life_world], rule alive.at_then)
    show "life (t\<lparr> tt_world := w \<rparr>) (fst (with_order cid (\<lambda>o'. o'\<lparr>
       to_state := (if (case eo_executed_qty entry of Some q \<Rightarrow> q | None \<Rightarrow> 0) > 0 then PartiallyFilled else OpenOrder),
       to_acked_at := Some acked \<rparr>) (t\<lparr> tt_world := w \<rparr>)))"
      using assms a(2) by (intro life_with_order)
        (auto simp: forward_def same_order_def state_rank_def ends_timed_def order_is_final_def)
  qed (rule alive.at_along, intro life_rules)
qed

lemma adopt_life: "along life (adopt env cid entry)"
  unfolding along_def
proof
  fix t :: "'a TestnetTrader"
  show "life t (fst (adopt env cid entry t))"
  proof (cases "dict_get (tt_orders t) cid")
    case None
    then show ?thesis by (simp add: adopt_def alive.reflexive)
  next
    case (Some order)
    then obtain t1 changed o1 where n: "note_exchange_id cid entry t = (t1, Inr changed)" "life t t1"
        "dict_get (tt_orders t1) cid = Some o1" "to_state o1 = to_state order" "to_acked_at o1 = to_acked_at order"
      by (rule note_life)
    have "life t1 (fst ((if to_state order = UnknownState then found_open env cid entry order else on_condition changed (mark cid)) t1))"
      using found_open_life [OF n(3), of order] n(4,5) alive.at_along [of "mark cid" t1] along_life [OF along_small(2)] alive.reflexive
      by auto
    then have "life t1 (fst (adopt env cid entry t))"
      by (simp only: adopt_def then_present Some option.case then_do_simps(1) [where m = "note_exchange_id cid entry" and s = t, OF n(1)])
    then show ?thesis using n(2) life_trans by blast
  qed
qed

lemma reconciled_as_life: "along life (reconciled_as env cid entry)"
  unfolding reconciled_as_def by (intro life_rules)

lemma status_final: "dict_get STATUS_FINAL status = Some s \<Longrightarrow> s \<in> FINAL_ORDER_STATES"
  by (auto simp: STATUS_FINAL_def split: if_splits)

lemma take_status_life:
  assumes "dict_get (tt_orders t) cid = Some o1" and "to_state o1 = to_state order"
  shows "life t (fst (take_status env cid entry order t))"
proof (cases "dict_get STATUS_FINAL (eo_status entry)")
  case None
  have "life t (fst (after (with_order cid (\<lambda>o'. o'\<lparr> to_state := OpenOrder \<rparr>)) (after (reconciled_as env cid entry) (mark cid)) t))"
    if "to_state order = UnknownState"
  proof (rule alive.at_then)
    show "life t (fst (with_order cid (\<lambda>o'. o'\<lparr> to_state := OpenOrder \<rparr>) t))"
      using that assms by (intro life_with_order)
        (auto simp: forward_def same_order_def state_rank_def ends_timed_def order_is_final_def)
  qed (rule alive.at_along, intro life_rules reconciled_as_life)
  then show ?thesis using None alive.reflexive [of t] by (simp only: take_status_def option.case if_distribR action_simps fst_conv) simp
next
  case (Some s)
  then have ended: "along life (with_order cid (\<lambda>o'. o'\<lparr> to_state := s, to_ended_at := Some e \<rparr>))" for e
    using forward_end status_final by (intro along_with_order) blast+
  show ?thesis unfolding take_status_def Some option.case
    by (intro alive.at_along life_rules reconciled_as_life ended) auto
qed

lemma apply_exchange_state_life: "along life (apply_exchange_state env cid entry)"
  unfolding along_def
proof
  fix t :: "'a TestnetTrader"
  show "life t (fst (apply_exchange_state env cid entry t))"
  proof (cases "dict_get (tt_orders t) cid")
    case None
    then show ?thesis by (simp add: apply_exchange_state_def alive.reflexive)
  next
    case (Some order)
    then obtain t1 changed o1 where n: "note_exchange_id cid entry t = (t1, Inr changed)" "life t t1"
        "dict_get (tt_orders t1) cid = Some o1" "to_state o1 = to_state order" "to_acked_at o1 = to_acked_at order"
      by (rule note_life)
    obtain w acked where a: "ack_time env order entry t1 = (t1\<lparr> tt_world := w \<rparr>, Inr acked)"
        "to_acked_at order \<noteq> None \<longrightarrow> to_acked_at order = Some acked" by (rule ack_run)
    define o2 where "o2 = o1\<lparr> to_acked_at := Some acked \<rparr>"
    define t2 where "t2 = t1\<lparr> tt_world := w, tt_orders := dict_set cid o2 (tt_orders t1) \<rparr>"
    have "forward o1 o2" "ends_timed o1 \<Longrightarrow> ends_timed o2"
      using n(4,5) a(2) by (auto simp: o2_def forward_def same_order_def ends_timed_def order_is_final_def)
    then have "life (t1\<lparr> tt_world := w \<rparr>) t2" using life_order [of "t1\<lparr> tt_world := w \<rparr>" cid o1 o2] n(3) by (simp add: t2_def)
    then have "life t t2" by (rule life_trans [OF n(2) life_trans [OF life_world]])
    moreover have "life t2 (fst (take_status env cid entry order t2))"
      using n(4) by (intro take_status_life [where ?o1.0 = o2]) (simp_all add: t2_def o2_def)
    moreover have "fst (with_order cid (\<lambda>o'. o'\<lparr> to_acked_at := Some acked \<rparr>) (t1\<lparr> tt_world := w \<rparr>)) = t2"
      using n(3) by (simp add: with_order_run t2_def o2_def)
    then have "apply_exchange_state env cid entry t = take_status env cid entry order t2"
      by (simp only: apply_exchange_state_def then_present Some option.case then_do_simps(1) [where m = "note_exchange_id cid entry" and s = t, OF n(1)] then_do_simps(1) [where m = "ack_time env order entry" and s = t1, OF a(1)] then_with_order)
    ultimately show ?thesis using life_trans [of t t2] by simp
  qed
qed

section \<open>A new session\<close>

text \<open>What is left of \<open>life\<close> when the session is replaced.\<close>

definition sound :: "'x TestnetTrader \<Rightarrow> 'x TestnetTrader \<Rightarrow> bool" where
  "sound t t' \<longleftrightarrow> (records_ok t \<longrightarrow> records_ok t' \<and> resets t \<le> resets t')"

interpretation renewed: frame_condition "sound :: 'x TestnetTrader \<Rightarrow> 'x TestnetTrader \<Rightarrow> bool"
  by unfold_locales (auto simp: sound_def)

lemma life_sound: "life t t' \<Longrightarrow> sound t t'"
  by (simp add: life_def sound_def)

lemma along_sound: "along life m \<Longrightarrow> along sound m"
  by (simp add: along_def life_sound)

lemma begin_session_sound: "sound t (begin_session st session t)"
  by (simp add: sound_def records_ok_def begin_session_def resets_def)

lemma open_session_sound: "along sound (open_session env)"
  unfolding open_session_def Let_def
  by (intro renewed.along_rules along_sound [OF along_life [OF along_ask]] along_sound [OF along_life [OF along_time(1)]]
      along_sound [OF along_life [OF along_lifted]] along_updating begin_session_sound) 
    (simp_all add: sound_def records_ok_def resets_def session_id_of_def)

lemma end_session_sound:
  assumes "tt_session t = Some session" and "se_session_id ended = se_session_id session"
  shows "same_records t (t\<lparr> tt_session := Some ended \<rparr>)"
  using assms by (simp add: same_records_def resets_def session_id_of_def)

lemma reset_counted:
  assumes rest: "\<And>t. sound t (fst (m t))"
  shows "life t (fst (after (count_event ''resets'') m t))"
proof -
  define t1 where "t1 = t\<lparr> tt_counters := dict_set ''resets'' (dict_get_or (tt_counters t) ''resets'' 0 + 1) (tt_counters t) \<rparr>"
  have "resets t1 = resets t + 1" "session_id_of t1 = session_id_of t"
    by (simp_all add: t1_def resets_def session_id_of_def dict_get_or_def)
  moreover from this have "records_ok t \<Longrightarrow> records_ok t1" by (simp add: records_ok_def) (simp add: t1_def)
  moreover have "after (count_event ''resets'') m t = m t1" by (simp add: count_event_def t1_def)
  ultimately show ?thesis using rest [of t1] by (auto simp: life_def sound_def)
qed

lemma testnet_reset_life: "along life (testnet_reset env reason)"
proof -
  have mark_lost: "along life (each_do (\<lambda>cid. after (with_order cid (lose_order now reason)) (mark cid)) ids)" for now ids
    by (intro life_rules along_with_order lose_order_forward)
  have ended: "sound t (fst (then_do the_session (\<lambda>session.
      let ended = session\<lparr> se_ended_at := Some now, se_end_reason := Some ''reset'' \<rparr> in
      after (updating (\<lambda>t. t\<lparr> tt_session := Some ended \<rparr>))
      (after (ask (rp_save_session env ended))
      (then_do (ask (cl_account env)) (\<lambda>account.
       after (read_account account)
       (after (open_session env) (throw SessionReset)))))) t))" for now and t :: "'a TestnetTrader"
  proof (cases "tt_session t")
    case (Some session)
    define ended where "ended = session\<lparr> se_ended_at := Some now, se_end_reason := Some ''reset'' \<rparr>"
    have "sound t (t\<lparr> tt_session := Some ended \<rparr>)"
      by (rule life_sound [OF life_same [OF end_session_sound [OF Some]]]) (simp add: ended_def)
    moreover have "sound u (fst (after (ask (rp_save_session env ended))
      (then_do (ask (cl_account env)) (\<lambda>account.
       after (read_account account) (after (open_session env) (throw SessionReset)))) u))" for u :: "'a TestnetTrader"
      by (intro renewed.at_along renewed.along_rules open_session_sound along_sound [OF along_life [OF along_ask]]
          along_sound [OF along_life [OF along_small(4)]])
    ultimately show ?thesis using Some renewed.transitive by (simp add: Let_def ended_def [symmetric]) blast
  qed (simp add: renewed.reflexive)
  show ?thesis unfolding testnet_reset_def
    by (rule alive.along_then [OF along_life [OF along_time(1)]], rule alive.along_then [OF alive.along_reading],
        rule alive.along_then [OF mark_lost], rule alive.along_then [OF along_life [OF flush_quiet]])
      (simp only: along_def, intro allI reset_counted ended)
qed

lemma resolve_missing_life: "along life (resolve_missing env cid)"
proof -
  have rejected: "along life (with_order cid (\<lambda>o'. add_event now k d (o'\<lparr> to_state := RejectedOrder, to_reject_reason := r, to_ended_at := Some now \<rparr>)))"
    for now k d r using forward_end [of RejectedOrder] by (intro along_with_order) (simp_all add: forward_event)
  show ?thesis unfolding resolve_missing_def
    by (auto intro!: life_rules rejected testnet_reset_life apply_exchange_state_life split: sum.split)
qed

lemma cancel_stranger_life: "along life (cancel_stranger env session cid)"
  unfolding cancel_stranger_def by (intro life_rules) auto

lemma follow_order_life: "along life (follow_order env exchange_open cid)"
  unfolding follow_order_def by (intro life_rules adopt_life resolve_missing_life)

lemma sync_orders_life: "along life (sync_orders env)"
  unfolding sync_orders_def Let_def
  by (intro life_rules read_fills_life cancel_stranger_life follow_order_life)

section \<open>Placing and cancelling\<close>

lemma place_answered_life:
  assumes order: "dict_get (tt_orders t) cid = Some order" "to_state order = NewOrder" "to_acked_at order = None"
      "to_exchange_order_id order = None"
  shows "life t (fst (place_answered env cid answer t))"
proof -
  have rejected: "along life (with_order cid (\<lambda>o'. add_event now k d (o'\<lparr> to_state := RejectedOrder, to_reject_reason := r, to_ended_at := Some now \<rparr>)))"
    "along life (with_order cid (\<lambda>o'. o'\<lparr> to_state := RejectedOrder, to_reject_reason := r, to_ended_at := Some now \<rparr>))"
    for now k d r using forward_end [of RejectedOrder] by (auto intro!: along_with_order simp: forward_event)
  have refused: "along life (place_answered env cid (Inl (OrderRejected reason)))" for reason
    unfolding place_answered_def by (auto intro!: life_rules rejected)
  have lost: "life t (fst (place_answered env cid (Inl (TestnetUnavailable maybe)) t))" for maybe
    unfolding place_answered_def sum.case TraderError.case
  proof (rule alive.at_then)
    show "life t (fst (with_order cid (\<lambda>order. order\<lparr> to_state := UnknownState \<rparr>) t))"
      using order by (intro life_with_order) (auto simp: forward_def same_order_def state_rank_def ends_timed_def order_is_final_def)
  qed (rule alive.at_along, intro life_rules rejected)
  have taken: "life t (fst (place_answered env cid (Inr xid) t))" for xid
    unfolding place_answered_def sum.case
  proof (rule alive.at_then)
    show "life t (fst (count_event ''placed'' t))" by (rule alive.at_along, intro life_rules) simp
    fix u x assume "count_event ''placed'' t = (u, Inr x)"
    then have u: "tt_orders u = tt_orders t" by (auto simp: count_event_def)
    define v where "v = u\<lparr> tt_world := fst (te_clock env (tt_world u)) \<rparr>"
    define now where "now = snd (te_clock env (tt_world u))"
    define acked where "acked = add_event now ''ack'' None (order\<lparr> to_exchange_order_id := Some xid, to_acked_at := Some now, to_state := OpenOrder \<rparr>)"
    define v1 where "v1 = v\<lparr> tt_by_exchange_id := dict_set xid cid (tt_by_exchange_id v) \<rparr>"
    have get: "dict_get (tt_orders v) cid = Some order" using order(1) u by (simp add: v_def)
    have "life u v" by (simp add: v_def)
    moreover have "life v v1" using get by (auto simp: v1_def life_def records_ok_def orders_forward_def)
    moreover have "life v1 (v1\<lparr> tt_orders := dict_set cid acked (tt_orders v1) \<rparr>)"
      using get order by (intro life_order [of _ _ order])
        (auto simp: v1_def acked_def add_event_def forward_def same_order_def state_rank_def ends_timed_def order_is_final_def)
    ultimately have "life u (v1\<lparr> tt_orders := dict_set cid acked (tt_orders v1) \<rparr>)" using life_trans by blast
    then show "life u (fst (then_do (time_now env) (\<lambda>acked.
           updating (\<lambda>t. case dict_get (tt_orders t) cid of
                           None \<Rightarrow> t
                         | Some order \<Rightarrow> t\<lparr> tt_by_exchange_id := dict_set xid cid (tt_by_exchange_id t),
                             tt_orders := dict_set cid (add_event acked ''ack'' None
                               (order\<lparr> to_exchange_order_id := Some xid, to_acked_at := Some acked,
                                       to_state := OpenOrder \<rparr>)) (tt_orders t) \<rparr>)) u))"
      using get by (simp add: v_def [symmetric] now_def [symmetric] acked_def v1_def)
  qed
  show ?thesis
  proof (cases answer)
    case (Inl e)
    then show ?thesis using refused lost alive.at_along [OF alive.along_throw]
      by (cases e) (auto simp: place_answered_def alive.reflexive along_def)
  qed (simp add: taken)
qed

lemma order_tag_inject: "order_tag s m = order_tag s n \<longleftrightarrow> m = n"
  by (simp add: order_tag_def nat_str_inject)

lemma new_order_simps [simp]:
  "to_client_order_id (new_order env cid s side price sz q now) = cid" "to_session_id (new_order env cid s side price sz q now) = s"
  "to_state (new_order env cid s side price sz q now) = NewOrder" "to_acked_at (new_order env cid s side price sz q now) = None"
  "to_exchange_order_id (new_order env cid s side price sz q now) = None" "ends_timed (new_order env cid s side price sz q now)"
  "to_side (new_order env cid s side price sz q now) = side" "to_price (new_order env cid s side price sz q now) = price"
  "to_size (new_order env cid s side price sz q now) = sz"
  by (simp_all add: new_order_def ends_timed_def order_is_final_def) (simp_all add: add_event_def)

text \<open>A new order takes a number of its own.\<close>

lemma fresh_order_life:
  assumes "tt_session t = Some session" and "tt_seq t' = tt_seq t + 1" and "session_id_of t' = session_id_of t" "resets t' = resets t"
    and "tt_by_exchange_id t' = tt_by_exchange_id t"
    and "tt_orders t' = dict_set (order_tag (se_session_id session) (tt_seq t + 1))
           (new_order env (order_tag (se_session_id session) (tt_seq t + 1)) (se_session_id session) side price sz q now) (tt_orders t)"
  shows "life t t'"
  unfolding life_def
proof (intro impI conjI)
  let ?s = "se_session_id session" let ?cid = "order_tag ?s (tt_seq t + 1)"
  assume ok: "records_ok t"
  have sid: "session_id_of t = Some ?s" using assms(1) by (simp add: session_id_of_def)
  have "order_ok (Some ?s) (tt_seq t) cid order" if "dict_get (tt_orders t) cid = Some order" for cid order
    using ok that sid by (simp add: records_ok_def)
  moreover have "dict_get (tt_orders t) ?cid = None"
  proof (rule ccontr)
    assume "dict_get (tt_orders t) ?cid \<noteq> None"
    then obtain order where "order_ok (Some ?s) (tt_seq t) ?cid order" using ok sid by (auto simp: records_ok_def)
    then show False by (auto simp: order_ok_def order_tag_inject)
  qed
  ultimately show "orders_forward t t'" using assms(6) by (auto simp: orders_forward_def)
  have "order_ok (Some ?s) (tt_seq t + 1) cid order" if "order_ok (Some ?s) (tt_seq t) cid order" for cid order
    using that unfolding order_ok_def by (metis trans_le_add1)
  moreover have "order_ok (Some ?s) (tt_seq t + 1) ?cid (new_order env ?cid ?s side price sz q now)"
    unfolding order_ok_def by (intro conjI exI [of _ "tt_seq t + 1"]) simp_all
  ultimately show "records_ok t'" using ok assms sid unfolding records_ok_def by auto
qed (simp add: assms)

lemma place_order_life: "along life (place_order env side target)"
  unfolding along_def
proof
  fix t :: "'a TestnetTrader"
  obtain price sz quote where target: "target = (price, sz, quote)" by (cases target)
  show "life t (fst (place_order env side target t))"
  proof (cases "tt_rules t")
    case None
    then show ?thesis by (simp add: place_order_def target alive.reflexive)
  next
    case (Some rules)
    show ?thesis
    proof (cases "tt_session t")
      case None
      have "life t (t\<lparr> tt_seq := tt_seq t + 1 \<rparr>)"
        unfolding life_def
      proof (intro impI conjI)
        assume "records_ok t"
        then have "tt_orders t = []" using None
          by (cases "tt_orders t") (auto simp: records_ok_def session_id_of_def order_ok_def split: if_splits)
        then show "records_ok (t\<lparr> tt_seq := tt_seq t + 1 \<rparr>)" using \<open>records_ok t\<close> by (simp add: records_ok_def)
      qed (simp_all add: orders_forward_def)
      then show ?thesis using Some None by (simp add: place_order_def target)
    next
      case session: (Some session)
      define cid where "cid = order_tag (se_session_id session) (tt_seq t + 1)"
      define now where "now = snd (te_clock env (tt_world t))"
      define order where "order = new_order env cid (se_session_id session) side price sz quote now"
      define t1 where "t1 = t\<lparr> tt_seq := tt_seq t + 1, tt_world := fst (te_clock env (tt_world t)), tt_orders := dict_set cid order (tt_orders t) \<rparr>"
      have "life t t1"
        by (rule fresh_order_life [OF session]) (simp_all add: t1_def resets_def session_id_of_def order_def cid_def)
      moreover have "life t1 (fst (after (mark cid) (then_do (attempt (ask (cl_place_limit_maker env (exchange_symbol (te_settings env)) side
                  (format_step (te_dec env) price (sy_tick_size rules)) (format_step (te_dec env) sz (sy_step_size rules)) cid)))
          (place_answered env cid)) t1))"
      proof (rule alive.at_then)
        show "life t1 (fst (mark cid t1))" by (rule alive.at_along, intro life_rules)
        fix u x assume "mark cid t1 = (u, Inr x)"
        then have u: "tt_orders u = tt_orders t1" by (auto simp: mark_def)
        show "life u (fst (then_do (attempt (ask (cl_place_limit_maker env (exchange_symbol (te_settings env)) side
                  (format_step (te_dec env) price (sy_tick_size rules)) (format_step (te_dec env) sz (sy_step_size rules)) cid)))
          (place_answered env cid) u))"
        proof (rule alive.at_then)
          fix v answer assume v: "attempt (ask (cl_place_limit_maker env (exchange_symbol (te_settings env)) side
                  (format_step (te_dec env) price (sy_tick_size rules)) (format_step (te_dec env) sz (sy_step_size rules)) cid)) u = (v, Inr answer)"
          have "same_records u v" using along_apply [OF along_attempt [OF along_ask] v] .
          then have "dict_get (tt_orders v) cid = Some order" using u by (simp add: same_records_def t1_def)
          then show "life v (fst (place_answered env cid answer v))" by (rule place_answered_life) (simp_all add: order_def)
        qed (rule alive.at_along, intro life_rules)
      qed
      ultimately have "life t (fst (after (mark cid) (then_do (attempt (ask (cl_place_limit_maker env (exchange_symbol (te_settings env)) side
                  (format_step (te_dec env) price (sy_tick_size rules)) (format_step (te_dec env) sz (sy_step_size rules)) cid)))
          (place_answered env cid)) t1))" by (rule life_trans)
      then show ?thesis using Some session
        by (simp add: place_order_def target t1_def order_def cid_def now_def)
    qed
  qed
qed

lemma cancel_missed_life: "along life (cancel_missed env cid)"
  unfolding cancel_missed_def
  by (auto intro!: life_rules testnet_reset_life read_fills_life apply_exchange_state_life split: sum.split)

lemma cancel_order_life: "along life (cancel_order env cid)"
proof -
  have cancelled: "along life (with_order cid (\<lambda>order. add_event now k d (order\<lparr> to_state := CancelledOrder, to_ended_at := Some now \<rparr>)))"
    for now k d using forward_end [of CancelledOrder] by (intro along_with_order) (simp_all add: forward_event)
  show ?thesis unfolding cancel_order_def
    by (auto intro!: life_rules cancelled cancel_missed_life split: sum.split TraderError.split)
qed

section \<open>Whole steps\<close>

lemma choose_targets_life: "along life (choose_targets env rules quotes targets)"
proof (induction quotes arbitrary: targets)
  case (Cons quote quotes)
  then show ?case by (auto intro!: life_rules simp: reason_text_def split: option.split RejectReason.split)
qed (simp only: choose_targets.simps alive.along_pure)

lemma sweep_side_life: "along life (sweep_side env target keep cids)"
proof (induction cids arbitrary: keep)
  case (Cons cid cids)
  show ?case unfolding sweep_side.simps by (intro life_rules cancel_order_life Cons)
qed (simp only: sweep_side.simps alive.along_pure)

lemma quote_side_life: "along life (quote_side env targets side)"
  unfolding quote_side_def by (intro life_rules sweep_side_life place_order_life)

lemma quote_step_life: "along life (quote_step env snapshot)"
  unfolding quote_step_def Let_def
  by (intro life_rules choose_targets_life quote_side_life)

lemma confirm_cancelled_life: "along life (confirm_cancelled env n)"
proof (induction n)
  case (Suc n)
  have listed: "along life (cancel_listed env entry)" for entry
    unfolding cancel_listed_def Let_def by (intro life_rules cancel_order_life)
  show ?case unfolding confirm_cancelled.simps Let_def
    by (intro life_rules resolve_missing_life listed Suc) simp
qed (simp only: confirm_cancelled.simps alive.along_pure)

lemma cancel_all_once_life: "along life (cancel_all_once env)"
proof -
  have "along life (cancel_unless_unknown env cid)" for cid
    unfolding cancel_unless_unknown_def by (intro life_rules cancel_order_life)
  then show ?thesis unfolding cancel_all_once_def Let_def
    by (auto intro!: life_rules confirm_cancelled_life split: sum.split TraderError.split)
qed

lemma cancel_all_life: "along life (cancel_all env)"
  unfolding cancel_all_def by (auto intro!: life_rules cancel_all_once_life split: sum.split)

lemma sleep_life: "along life (updating (\<lambda>t. t\<lparr> tt_world := w t \<rparr>))"
  by (rule along_updating_quiet) simp

lemma cancel_repeatedly_life: "along life (cancel_repeatedly env n)"
proof (induction n)
  case (Suc n)
  then show ?case unfolding cancel_repeatedly.simps by (intro life_rules cancel_all_life sleep_life)
qed (simp only: cancel_repeatedly.simps alive.along_pure)

lemma evaluate_shadows_life: "along life (evaluate_shadows env snapshot)"
proof -
  have books: "along life (\<lambda>t. case evaluate_books env snapshot orders seq sid (tt_shadows t) of
      (books, r) \<Rightarrow> (t\<lparr> tt_shadows := books \<rparr>, Inr r))" for orders seq sid
    by (auto simp: along_def life_same split: prod.split)
  show ?thesis unfolding evaluate_shadows_def by (intro life_rules books) simp_all
qed

lemma check_history_life: "along life (check_history env)"
  unfolding check_history_def by (intro life_rules testnet_reset_life)

lemma reconcile_once_life: "along life (reconcile_once env)"
proof -
  have doubtful: "along life (resolve_doubtful env cid)" for cid
    unfolding resolve_doubtful_def by (intro life_rules resolve_missing_life)
  show ?thesis unfolding reconcile_once_def
    by (intro life_rules doubtful check_history_life) simp_all
qed

lemma reconcile_life: "along life (reconcile env)"
  unfolding reconcile_def by (auto intro!: life_rules reconcile_once_life split: sum.split)

lemma iterate_session_life: "along life (iterate_session env)"
proof -
  have due: "along life (reconcile_due env)"
    unfolding reconcile_due_def by (auto intro!: life_rules split: option.split)
  have hold: "along life (hold_still env now)" for now
    unfolding hold_still_def by (intro life_rules cancel_all_life)
  have trade: "along life (trade_once env)"
    unfolding trade_once_def Let_def
    by (auto intro!: life_rules sync_orders_life evaluate_shadows_life quote_step_life reconcile_life due)
  show ?thesis unfolding iterate_session_def by (intro life_rules hold trade)
qed

lemmas sound_rules = renewed.along_rules along_attempt along_sound [OF along_life [OF along_ask]]
  along_sound [OF along_life [OF along_lifted]] along_sound [OF along_life [OF along_time(1)]]
  along_sound [OF along_life [OF along_time(2)]] along_sound [OF along_life [OF along_small(1)]]
  along_sound [OF along_life [OF along_small(4)]] along_sound [OF along_updating_quiet]

lemma startup_sound: "along sound (startup env)"
proof -
  have leftover: "along sound (cancel_leftover env entry)" for entry
    unfolding cancel_leftover_def Let_def
    by (rule along_sound) (intro life_rules, simp)
  have "along sound (close_previous_sessions env)"
    unfolding close_previous_sessions_def by (rule along_sound) (intro life_rules)
  moreover have "along sound (cancel_leftovers env)"
    unfolding cancel_leftovers_def by (intro sound_rules leftover)
  ultimately show ?thesis
    unfolding startup_def by (intro sound_rules open_session_sound) simp_all
qed

lemma startup_life:
  assumes "tt_session t = None"
  shows "life t (fst (startup env t))"
proof -
  have "tt_orders t = []" if "records_ok t"
    using that assms by (cases "tt_orders t") (auto simp: records_ok_def session_id_of_def order_ok_def split: if_splits)
  then have "records_ok t \<Longrightarrow> orders_forward t (fst (startup env t))" by (simp add: orders_forward_def)
  then show ?thesis using alongD [OF startup_sound, of t env] by (simp add: life_def sound_def)
qed

lemma iterate_life: "life t (fst (iterate env t))"
proof -
  have begun: "life t (fst (on_condition (tt_session t = None) (startup env) t))"
    using startup_life alive.reflexive by auto
  have rest: "along life (then_do (attempt (iterate_session env)) (\<lambda>r.
        case r of
          Inl e \<Rightarrow> if e = SessionReset then after (flush env) (then_do (time_now env) iteration_done) else throw e
        | Inr _ \<Rightarrow> pure ()))"
    by (intro life_rules iterate_session_life)
  show ?thesis unfolding iterate_def then_reading(1)
    by (rule alive.at_then [where m = "on_condition (tt_session t = None) (startup env)", OF begun]) (rule alive.at_along [OF rest])
qed

lemma shutdown_life: "life t (fst (shutdown env t))"
proof (cases "tt_session t")
  case None
  have "same_records t (if tt_state t \<noteq> TraderAuthFailed then t\<lparr> tt_state := TraderStopped \<rparr> else t)"
    by (simp add: same_records_def resets_def session_id_of_def)
  from life_same [OF this] show ?thesis using None by (simp add: shutdown_def updating_def)
next
  case (Some s)
  have closing: "life u (fst (then_do the_session (\<lambda>session.
          let ended = session\<lparr> se_ended_at := Some now, se_end_reason := Some ''stopped'' \<rparr> in
          after (updating (\<lambda>t. t\<lparr> tt_session := Some ended \<rparr>))
          (after (ask (rp_save_session env ended))
          (then_do (reading tt_state) (\<lambda>state.
             on_condition (state \<noteq> CancelPending) (set_state TraderStopped None))))) u))" for u :: "'a TestnetTrader" and now
  proof (cases "tt_session u")
    case (Some session)
    define ended where "ended = session\<lparr> se_ended_at := Some now, se_end_reason := Some ''stopped'' \<rparr>"
    have "life u (u\<lparr> tt_session := Some ended \<rparr>)"
      by (rule life_same [OF end_session_sound [OF Some]]) (simp add: ended_def)
    moreover have "along life (after (ask (rp_save_session env ended)) (then_do (reading tt_state) (\<lambda>state.
             on_condition (state \<noteq> CancelPending) (set_state TraderStopped None))))"
      by (intro life_rules)
    ultimately show ?thesis using Some life_trans by (simp add: Let_def ended_def [symmetric] along_def) blast
  qed (simp add: alive.reflexive)
  have "along life (after (cancel_repeatedly env 3) (after (flush env)
         (then_do (time_now env) (\<lambda>now. then_do the_session (\<lambda>session.
          let ended = session\<lparr> se_ended_at := Some now, se_end_reason := Some ''stopped'' \<rparr> in
          after (updating (\<lambda>t. t\<lparr> tt_session := Some ended \<rparr>))
          (after (ask (rp_save_session env ended))
          (then_do (reading tt_state) (\<lambda>state.
             on_condition (state \<noteq> CancelPending) (set_state TraderStopped None)))))))))"
    by (rule alive.along_then [OF cancel_repeatedly_life], rule alive.along_then [OF along_life [OF flush_quiet]],
        rule alive.along_then [OF along_life [OF along_time(1)]]) (simp only: along_def, intro allI closing)
  then show ?thesis using Some by (simp add: shutdown_def along_def)
qed

text \<open>A trader with one order, on an exchange that does not answer.\<close>

definition silent_env :: "unit TraderEnv" where
  "silent_env =
     \<lparr> te_settings = default_settings, te_dec = (\<lambda>x. 0), te_format_g = (\<lambda>x. []), te_error_text = (\<lambda>e. []), te_error_type = (\<lambda>e. []),
       te_libm = exact_libm, te_draws = \<lparr> dr_sha256_hex = (\<lambda>t. []), dr_repr = (\<lambda>x. []), dr_isoformat = (\<lambda>t. []) \<rparr>,
       te_calibration = ok None,
       cl_sync_time = (\<lambda>w. (w, Inl PlainTestnetError)), cl_exchange_info = (\<lambda>s w. (w, Inl PlainTestnetError)),
       cl_depth = (\<lambda>s n w. (w, Inl PlainTestnetError)), cl_account = (\<lambda>w. (w, Inl PlainTestnetError)),
       cl_open_orders = (\<lambda>s w. (w, Inl PlainTestnetError)), cl_get_order = (\<lambda>s c w. (w, Inl PlainTestnetError)),
       cl_place_limit_maker = (\<lambda>s q p z c w. (w, Inl PlainTestnetError)), cl_cancel_order = (\<lambda>s c w. (w, Inl PlainTestnetError)),
       cl_my_trades = (\<lambda>s f n w. (w, Inl PlainTestnetError)), cl_weight_used_ratio = (\<lambda>w. None),
       rp_save_session = (\<lambda>s w. (w, Inr ())), rp_get_sessions = (\<lambda>n w. (w, Inr [])), rp_get_order = (\<lambda>c w. (w, Inr None)),
       rp_upsert_orders = (\<lambda>os w. (w, Inr ())), rp_save_fills = (\<lambda>fs w. (w, Inr ())), rp_save_tick = (\<lambda>k w. (w, Inr ())),
       rp_save_shadow_fills = (\<lambda>fs w. (w, Inr ())), te_clock = (\<lambda>w. (w, 7)), te_monotonic = (\<lambda>w. (w, 0)),
       te_token_hex = (\<lambda>w. (w, ''abc'')), te_sleep = (\<lambda>s w. w), te_kill_active = (\<lambda>w. False) \<rparr>"

definition lone_order :: TestnetOrder where
  "lone_order =
     \<lparr> to_client_order_id = ''mmlab-abc-1'', to_session_id = ''abc'', to_side = BID, to_price = 1, to_size = 1, to_placed_at = 5,
       to_quote_id = None, to_exchange_order_id = Some 9, to_state = OpenOrder, to_filled_size = 0, to_filled_notional = 0,
       to_reject_reason = None, to_acked_at = Some 6, to_ended_at = None, to_events = [] \<rparr>"

definition lone_trader :: "unit TestnetTrader" where
  "lone_trader = (trader_init default_settings ())\<lparr>
     tt_session := Some (new_session default_settings ''abc'' 4 (trader_init default_settings ())),
     tt_seq := 1, tt_orders := [(''mmlab-abc-1'', lone_order)], tt_by_exchange_id := [(9, ''mmlab-abc-1'')],
     tt_inventory := Some (inventory_init ''BTC/USDT'' 1) \<rparr>"

lemma lone_trader_ok: "records_ok lone_trader"
proof -
  have "nat_str 1 = ''1''" by code_simp
  then have "order_ok (Some ''abc'') 1 ''mmlab-abc-1'' lone_order"
    unfolding order_ok_def by (auto simp: lone_order_def ends_timed_def order_is_final_def order_tag_def TAG_PREFIX_def)
  then show ?thesis
    by (auto simp: records_ok_def lone_trader_def session_id_of_def new_session_def trader_init_def wf_dict_def dict_keys_def)
qed

text \<open>C29. Whatever the exchange answers and wherever an exception cuts a step short, the records of the trader stay consistent:
  every order has its own number of the session, and one that has ended has the time of its end. Unless the step found the
  test network reset and began a new session, every order is still there and its life has only moved forward: the same
  order with the same price and size, in a state that is not an earlier one, with its history extended, and with the
  acknowledgement and the exchange id it had.
\<close>

theorem orders_only_move_forward:
  assumes "records_ok t" and "step = iterate env \<or> step = reconcile env \<or> step = shutdown env"
    and "dict_get (tt_orders t) cid = Some order"
  shows "records_ok (fst (step t)) \<and> (\<exists>n. 1 \<le> n \<and> n \<le> tt_seq t \<and> cid = order_tag (to_session_id order) n)
    \<and> (if order_is_final order then to_ended_at order \<noteq> None else True)
    \<and> (if resets (fst (step t)) = resets t
       then \<exists>order'. dict_get (tt_orders (fst (step t))) cid = Some order' \<and> forward order order'
       else resets t < resets (fst (step t)))"
proof -
  have "order_ok (session_id_of t) (tt_seq t) cid order" using assms(1,3) by (simp add: records_ok_def)
  then have order: "(\<exists>n. 1 \<le> n \<and> n \<le> tt_seq t \<and> cid = order_tag (to_session_id order) n)"
    "order_is_final order \<longrightarrow> to_ended_at order \<noteq> None" by (simp_all add: order_ok_def ends_timed_def)
  have "life t (fst (step t))"
    using assms(2) iterate_life shutdown_life alongD [OF reconcile_life] by metis
  then have "records_ok (fst (step t))" "resets t \<le> resets (fst (step t))"
    "resets (fst (step t)) = resets t \<Longrightarrow> orders_forward t (fst (step t))"
    using assms(1) by (simp_all add: life_def)
  then show ?thesis using order assms(3) by (auto simp: orders_forward_def)
qed

theorem orders_only_move_forward_witness:
  "records_ok (fst (iterate silent_env lone_trader))
    \<and> (\<exists>n. 1 \<le> n \<and> n \<le> tt_seq lone_trader \<and> ''mmlab-abc-1'' = order_tag (to_session_id lone_order) n)
    \<and> (if order_is_final lone_order then to_ended_at lone_order \<noteq> None else True)
    \<and> (if resets (fst (iterate silent_env lone_trader)) = resets lone_trader
       then \<exists>order'. dict_get (tt_orders (fst (iterate silent_env lone_trader))) ''mmlab-abc-1'' = Some order'
              \<and> forward lone_order order'
       else resets lone_trader < resets (fst (iterate silent_env lone_trader)))"
proof (rule orders_only_move_forward [OF lone_trader_ok])
  show "iterate silent_env = iterate silent_env \<or> iterate silent_env = reconcile silent_env \<or> iterate silent_env = shutdown silent_env"
    by simp
  show "dict_get (tt_orders lone_trader) ''mmlab-abc-1'' = Some lone_order" by (simp add: lone_trader_def)
qed

lemma records_ok_init: "records_ok (trader_init st w)"
  by (simp add: records_ok_def trader_init_def wf_dict_def dict_keys_def)

end
