(* ===== verification/Testnet_Fills.thy ===== *)
theory Testnet_Fills
  imports Testnet_Orders
begin

text \<open>
  What the testnet trader makes of the trades the exchange reports: a pass of \<open>_read_fills\<close> in trader.py counts every
  new trade of its orders once, in the order of their ids, and counts no trade again when it is reported again.
\<close>

section \<open>One trade\<close>

definition newer :: "int option \<Rightarrow> int \<Rightarrow> bool" where
  "newer last_id i = (case last_id of None \<Rightarrow> True | Some l \<Rightarrow> l < i)"

lemma newer_simps [simp]: "newer None i" "newer (Some l) i \<longleftrightarrow> l < i"
  by (simp_all add: newer_def)

definition same_quotes :: "'x TestnetTrader \<Rightarrow> 'x TestnetTrader \<Rightarrow> bool" where
  "same_quotes t t' \<longleftrightarrow> (\<forall>cid. map_option to_quote_id (dict_get (tt_orders t') cid) = map_option to_quote_id (dict_get (tt_orders t) cid))"

definition filled_so_far :: "'x TestnetTrader \<Rightarrow> string \<Rightarrow> f64 option" where
  "filled_so_far t cid = map_option to_filled_size (dict_get (tt_orders t) cid)"

definition own_size :: "string \<Rightarrow> TestnetFill \<Rightarrow> f64 \<Rightarrow> f64" where
  "own_size cid fill s = (if tf_client_order_id fill = cid then s + tf_size fill else s)"

definition book_fill :: "Settings \<Rightarrow> 'x TestnetTrader \<Rightarrow> TestnetFill \<Rightarrow> InventoryTracker \<Rightarrow> InventoryTracker" where
  "book_fill st t fill iv =
     fst (apply_fill iv (fill_of_order st (the (dict_get (tt_orders t) (tf_client_order_id fill))) fill) (tf_at fill))"

lemma filled_order_simps [simp]:
  "to_quote_id (filled_order env fill order) = to_quote_id order"
  "to_filled_size (filled_order env fill order) = to_filled_size order + tf_size fill"
  by (simp_all add: filled_order_def add_event_def Let_def)

lemma take_trade_old: "\<not> newer (tt_last_trade_id t) (et_id trade) \<Longrightarrow> take_trade env trade t = (t, Inr None)"
  by (auto simp: take_trade_def newer_def not_less split: option.splits)

lemma take_trade_foreign:
  assumes "newer (tt_last_trade_id t) (et_id trade)" "dict_get (tt_by_exchange_id t) (et_order_id trade) = None"
  shows "take_trade env trade t = (t\<lparr> tt_last_trade_id := Some (et_id trade) \<rparr>, Inr None)"
  using assms by (auto simp: take_trade_def newer_def split: option.splits)

lemma take_trade_own:
  assumes "newer (tt_last_trade_id t) (et_id trade)" "dict_get (tt_by_exchange_id t) (et_order_id trade) = Some cid"
    and "records_ok t" and "take_trade env trade t = (t', Inr taken)"
  obtains fill where "taken = Some fill" "tf_trade_id fill = et_id trade" "tf_client_order_id fill = cid"
    "tt_last_trade_id t' = Some (et_id trade)" "tt_by_exchange_id t' = tt_by_exchange_id t" "same_quotes t t'"
    "tt_inventory t' = map_option (book_fill (te_settings env) t fill) (tt_inventory t)"
    "\<And>c. filled_so_far t' c = map_option (own_size c fill) (filled_so_far t c)"
proof -
  obtain order where order: "dict_get (tt_orders t) cid = Some order"
    using assms(2,3) unfolding records_ok_def by fast
  then have cid: "to_client_order_id order = cid" using assms(3) by (auto simp: records_ok_def order_ok_def)
  obtain session where session: "tt_session t = Some session"
    using order assms(3) unfolding records_ok_def order_ok_def session_id_of_def by blast
  define fill where "fill = fill_from_trade (te_settings env) (se_session_id session) order trade"
  have run: "take_trade env trade t =
      then_do (after (updating (\<lambda>t. t\<lparr> tt_first_trade_id :=
                 (case tt_first_trade_id t of Some f \<Rightarrow> Some f | None \<Rightarrow> Some (et_id trade)) \<rparr>))
               (apply_testnet_fill env cid fill)) (\<lambda>_. pure (Some fill)) (t\<lparr> tt_last_trade_id := Some (et_id trade) \<rparr>)"
    using assms(1,2) order session
    by (auto simp: take_trade_def newer_def fill_def then_do_def present_def Let_def split: option.splits)
  obtain iv where iv: "tt_inventory t = Some iv"
    using run assms(4) order
    by (cases "tt_inventory t") (auto simp: apply_testnet_fill_def with_order_def then_do_def present_def split: option.splits)
  have parts: "tf_trade_id fill = et_id trade" "tf_client_order_id fill = cid"
    by (simp_all add: fill_def fill_from_trade_def cid)
  have "fill_of_order (te_settings env) (filled_order env fill order) fill = fill_of_order (te_settings env) order fill"
    by (simp add: fill_of_order_def)
  then have "taken = Some fill" "tt_last_trade_id t' = Some (et_id trade)" "tt_by_exchange_id t' = tt_by_exchange_id t"
    "tt_inventory t' = Some (book_fill (te_settings env) t fill iv)"
    "tt_orders t' = dict_set cid (filled_order env fill order) (tt_orders t)"
    using run assms(4) order iv parts
    by (auto simp: apply_testnet_fill_def with_order_def then_do_def present_def count_event_def mark_def book_fill_def
        split: option.splits)
  moreover from this have "same_quotes t t'" "filled_so_far t' c = map_option (own_size c fill) (filled_so_far t c)" for c
    using parts order by (simp_all add: same_quotes_def filled_so_far_def own_size_def option.map_comp o_def option.map_ident)
  ultimately show ?thesis using that parts iv by simp
qed

section \<open>A list of trades\<close>

lemma same_quotes_trans: "same_quotes s t \<Longrightarrow> same_quotes t u \<Longrightarrow> same_quotes s u"
  by (simp add: same_quotes_def)

lemma book_fill_same_quotes: "same_quotes t t' \<Longrightarrow> book_fill st t' = book_fill st t"
proof
  fix fill :: TestnetFill
  assume "same_quotes t t'"
  then have "map_option to_quote_id (dict_get (tt_orders t') (tf_client_order_id fill))
      = map_option to_quote_id (dict_get (tt_orders t) (tf_client_order_id fill))" by (simp add: same_quotes_def)
  then show "book_fill st t' fill = book_fill st t fill"
    by (cases "dict_get (tt_orders t) (tf_client_order_id fill)") (auto simp: book_fill_def fill_of_order_def)
qed

lemma same_view: "same_quotes t (t\<lparr> tt_last_trade_id := i \<rparr>)" "filled_so_far (t\<lparr> tt_last_trade_id := i \<rparr>) = filled_so_far t"
  by (simp_all add: same_quotes_def filled_so_far_def fun_eq_iff)

lemma newer_trans: "newer l i \<Longrightarrow> i < j \<Longrightarrow> newer l j"
  by (cases l) auto

lemma newer_mono: "\<not> newer (tt_last_trade_id t) i \<Longrightarrow> tt_last_trade_id t' = tt_last_trade_id t \<or> (\<exists>j. tt_last_trade_id t' = Some j \<and> newer (tt_last_trade_id t) j)
    \<Longrightarrow> \<not> newer (tt_last_trade_id t') i"
  by (cases "tt_last_trade_id t") auto

lemma take_trades_old: "list_all (\<lambda>trade. \<not> newer (tt_last_trade_id t) (et_id trade)) trades \<Longrightarrow> take_trades env trades t = (t, Inr [])"
  by (induction trades) (simp_all add: take_trade_old then_do_def)

definition counted_from :: "'x TraderEnv \<Rightarrow> ExchangeTrade list \<Rightarrow> 'x TestnetTrader \<Rightarrow> 'x TestnetTrader \<Rightarrow> TestnetFill list \<Rightarrow> bool" where
  "counted_from env trades t t' fills \<longleftrightarrow>
     records_ok t' \<and> same_quotes t t' \<and> tt_by_exchange_id t' = tt_by_exchange_id t
     \<and> (tt_last_trade_id t' = tt_last_trade_id t \<or> (\<exists>j. tt_last_trade_id t' = Some j \<and> newer (tt_last_trade_id t) j))
     \<and> list_all (\<lambda>trade. \<not> newer (tt_last_trade_id t') (et_id trade)) trades
     \<and> list_all (\<lambda>fill. newer (tt_last_trade_id t) (tf_trade_id fill)) fills \<and> sorted_wrt (<) (map tf_trade_id fills)
     \<and> tt_inventory t' = map_option (fold (book_fill (te_settings env) t) fills) (tt_inventory t)
     \<and> (\<forall>c. filled_so_far t' c = map_option (fold (own_size c) fills) (filled_so_far t c))
     \<and> (sorted_wrt (<) (map et_id trades) \<longrightarrow> map tf_trade_id fills =
          map et_id (filter (\<lambda>trade. newer (tt_last_trade_id t) (et_id trade)
            \<and> dict_get (tt_by_exchange_id t) (et_order_id trade) \<noteq> None) trades))"

lemma counted_step:
  assumes new: "newer (tt_last_trade_id t) (et_id trade)" and last1: "tt_last_trade_id t1 = Some (et_id trade)"
    and known: "tt_by_exchange_id t1 = tt_by_exchange_id t" and quotes: "same_quotes t t1"
    and inventory: "tt_inventory t1 = map_option (fold (book_fill (te_settings env) t) now) (tt_inventory t)"
    and sizes: "\<And>c. filled_so_far t1 c = map_option (fold (own_size c) now) (filled_so_far t c)"
    and ids: "map tf_trade_id now = (if dict_get (tt_by_exchange_id t) (et_order_id trade) = None then [] else [et_id trade])"
    and rest: "counted_from env trades t1 t' later"
  shows "counted_from env (trade # trades) t t' (now @ later)"
proof -
  have next_ids: "newer (tt_last_trade_id t) j" if "et_id trade < j" for j using newer_trans [OF new] that by blast
  have now_ids: "list_all (\<lambda>fill. tf_trade_id fill = et_id trade) now"
    using ids by (cases now) (auto split: if_splits)
  have "book_fill st t1 = book_fill st t" for st by (rule book_fill_same_quotes [OF quotes])
  then have "tt_inventory t' = map_option (fold (book_fill (te_settings env) t) (now @ later)) (tt_inventory t)"
    using rest inventory by (simp add: counted_from_def option.map_comp o_def)
  moreover have "filled_so_far t' c = map_option (fold (own_size c) (now @ later)) (filled_so_far t c)" for c
    using rest sizes [of c] by (simp add: counted_from_def option.map_comp o_def)
  moreover have "list_all (\<lambda>fill. newer (tt_last_trade_id t) (tf_trade_id fill)) (now @ later)"
    using rest now_ids last1 new next_ids by (auto simp: counted_from_def list_all_iff)
  moreover have "sorted_wrt (<) (map tf_trade_id (now @ later))"
    using rest ids last1 by (auto simp: counted_from_def list_all_iff sorted_wrt_append)
  moreover have "\<exists>j. tt_last_trade_id t' = Some j \<and> et_id trade \<le> j"
    using rest last1 by (auto simp: counted_from_def)
  moreover have "map tf_trade_id (now @ later) = map et_id (filter (\<lambda>trade. newer (tt_last_trade_id t) (et_id trade)
      \<and> dict_get (tt_by_exchange_id t) (et_order_id trade) \<noteq> None) (trade # trades))"
    if sorted: "sorted_wrt (<) (map et_id (trade # trades))"
  proof -
    have "filter (\<lambda>tr. newer (Some (et_id trade)) (et_id tr) \<and> dict_get (tt_by_exchange_id t) (et_order_id tr) \<noteq> None) trades
        = filter (\<lambda>tr. newer (tt_last_trade_id t) (et_id tr) \<and> dict_get (tt_by_exchange_id t) (et_order_id tr) \<noteq> None) trades"
      using sorted next_ids by (intro filter_cong) auto
    then show ?thesis using rest sorted ids new last1 known by (simp add: counted_from_def)
  qed
  ultimately show ?thesis
    using rest quotes known last1 next_ids new same_quotes_trans [of t t1 t'] unfolding counted_from_def
    by (auto simp: newer_trans)
qed

lemma take_trades_counted:
  "records_ok t \<Longrightarrow> take_trades env trades t = (t', Inr fills) \<Longrightarrow> counted_from env trades t t' fills"
proof (induction trades arbitrary: t fills)
  case Nil
  then show ?case by (auto simp: counted_from_def same_quotes_def option.map_id)
next
  case (Cons trade trades)
  obtain t1 taken where one: "take_trade env trade t = (t1, Inr taken)"
    using Cons.prems(2) by (cases "take_trade env trade t"; cases "snd (take_trade env trade t)") (auto simp: then_do_def)
  then obtain later where rest: "take_trades env trades t1 = (t', Inr later)"
    and fills: "fills = (case taken of None \<Rightarrow> later | Some f \<Rightarrow> f # later)"
    using Cons.prems(2) by (auto simp: then_do_def split: prod.splits sum.splits)
  have ok: "records_ok t1"
    using alongD [OF take_trade_life, of t env trade] one Cons.prems(1) by (simp add: life_def)
  note IH = Cons.IH [OF ok rest]
  let ?i = "et_id trade" and ?last = "tt_last_trade_id t"
  consider (old) "\<not> newer ?last ?i" | (foreign) "newer ?last ?i" "dict_get (tt_by_exchange_id t) (et_order_id trade) = None"
    | (own) cid where "newer ?last ?i" "dict_get (tt_by_exchange_id t) (et_order_id trade) = Some cid" by blast
  then show ?case
  proof cases
    case old
    then show ?thesis using one IH fills newer_mono [of t ?i t'] by (auto simp: take_trade_old counted_from_def)
  next
    case foreign
    have t1: "t1 = t\<lparr> tt_last_trade_id := Some ?i \<rparr>" "taken = None" using one take_trade_foreign [OF foreign] by simp_all
    have "counted_from env (trade # trades) t t' ([] @ later)"
      by (rule counted_step [OF foreign(1) _ _ _ _ _ _ IH]) (simp_all add: t1(1) same_view foreign(2) option.map_id)
    then show ?thesis using fills t1(2) by simp
  next
    case own
    obtain fill where fill:
      "taken = Some fill" "tf_trade_id fill = ?i" "tf_client_order_id fill = cid"
      "tt_last_trade_id t1 = Some ?i" "tt_by_exchange_id t1 = tt_by_exchange_id t" "same_quotes t t1"
      "tt_inventory t1 = map_option (book_fill (te_settings env) t fill) (tt_inventory t)"
      "\<And>c. filled_so_far t1 c = map_option (own_size c fill) (filled_so_far t c)"
      by (rule take_trade_own [OF own Cons.prems(1) one]) metis
    have "counted_from env (trade # trades) t t' ([fill] @ later)"
      by (rule counted_step [OF own(1) fill(4-6) _ _ _ IH]) (simp_all add: fill own(2))
    then show ?thesis using fills fill(1) by simp
  qed
qed

text \<open>C30. Reading the trades of the exchange counts every new trade of a known order exactly once: the fills have the ids of
  those trades in ascending order, each is added to the filled size of its own order and offered to the inventory in
  that order, and reading the same trades again gives no fill and changes nothing.
\<close>

theorem trades_counted_once:
  assumes "records_ok t"
  shows "case take_trades env (sort_key et_id trades) t of
      (t', Inl e) \<Rightarrow> records_ok t'
    | (t', Inr fills) \<Rightarrow>
        records_ok t' \<and> sorted_wrt (<) (map tf_trade_id fills)
        \<and> list_all (\<lambda>fill. newer (tt_last_trade_id t) (tf_trade_id fill)) fills
        \<and> (if distinct (map et_id trades)
           then map tf_trade_id fills = map et_id (filter (\<lambda>trade. newer (tt_last_trade_id t) (et_id trade)
                  \<and> dict_get (tt_by_exchange_id t) (et_order_id trade) \<noteq> None) (sort_key et_id trades)) else True)
        \<and> filled_so_far t' cid = map_option (fold (own_size cid) fills) (filled_so_far t cid)
        \<and> tt_inventory t' = map_option (fold (book_fill (te_settings env) t) fills) (tt_inventory t)
        \<and> take_trades env (sort_key et_id trades) t' = (t', Inr [])"
proof (cases "take_trades env (sort_key et_id trades) t")
  case (Pair t' r)
  show ?thesis
  proof (cases r)
    case Inl
    then show ?thesis using Pair alongD [OF take_trades_life, of t env "sort_key et_id trades"] assms by (simp add: life_def)
  next
    case (Inr fills)
    have "sorted_wrt (<) (map et_id (sort_key et_id trades))" if "distinct (map et_id trades)"
    proof -
      have "mset (map et_id (sort_key et_id trades)) = mset (map et_id trades)" by simp
      then have "distinct (map et_id (sort_key et_id trades))" using that by (metis mset_eq_imp_distinct_iff)
      then show ?thesis by (simp add: strict_sorted_iff)
    qed
    moreover have "counted_from env (sort_key et_id trades) t t' fills"
      by (rule take_trades_counted [OF assms]) (use Pair Inr in simp)
    ultimately show ?thesis using Pair Inr by (auto simp: counted_from_def take_trades_old)
  qed
qed

text \<open>The exchange reports one trade of the order on record.\<close>

definition lone_trade :: ExchangeTrade where
  "lone_trade = \<lparr> et_id = 3, et_order_id = 9, et_price = 1, et_qty = 1, et_commission = None, et_commission_asset = None,
                  et_time = 7000, et_is_maker = Some True \<rparr>"

theorem trades_counted_once_witness:
  "case take_trades silent_env (sort_key et_id [lone_trade]) lone_trader of
      (t', Inl e) \<Rightarrow> records_ok t'
    | (t', Inr fills) \<Rightarrow>
        records_ok t' \<and> sorted_wrt (<) (map tf_trade_id fills)
        \<and> list_all (\<lambda>fill. newer (tt_last_trade_id lone_trader) (tf_trade_id fill)) fills
        \<and> (if distinct (map et_id [lone_trade])
           then map tf_trade_id fills = map et_id (filter (\<lambda>trade. newer (tt_last_trade_id lone_trader) (et_id trade)
                  \<and> dict_get (tt_by_exchange_id lone_trader) (et_order_id trade) \<noteq> None) (sort_key et_id [lone_trade])) else True)
        \<and> filled_so_far t' ''mmlab-abc-1'' = map_option (fold (own_size ''mmlab-abc-1'') fills) (filled_so_far lone_trader ''mmlab-abc-1'')
        \<and> tt_inventory t' = map_option (fold (book_fill (te_settings silent_env) lone_trader) fills) (tt_inventory lone_trader)
        \<and> take_trades silent_env (sort_key et_id [lone_trade]) t' = (t', Inr [])"
  by (rule trades_counted_once [OF lone_trader_ok])

end
