(* ===== verification/Testnet_Cancel.thy ===== *)
theory Testnet_Cancel
  imports Testnet_Trader
begin

text \<open>
  What \<open>cancel_all\<close> of trader.py promises to its callers: \<open>True\<close> only with an answer of the exchange that lists no order
  of the trader, \<open>False\<close> only with the trader left in the state that blocks quoting.
\<close>

definition listed_empty :: "'x TraderEnv \<Rightarrow> bool" where
  "listed_empty env \<longleftrightarrow> (\<exists>w w' entries. cl_open_orders env (exchange_symbol (te_settings env)) w = (w', Inr entries)
     \<and> filter (\<lambda>e. is_tagged (eo_client_order_id e)) entries = [])"

lemma confirm_cancelled_true:
  "confirm_cancelled env n t = (t', Inr True) \<Longrightarrow> listed_empty env \<and> rs_ok (tt_reconcile t') = Some True"
proof (induction n arbitrary: t)
  case (Suc n)
  obtain w r where answer: "cl_open_orders env (exchange_symbol (te_settings env)) (tt_world t) = (w, r)" by fastforce
  then obtain entries where entries: "r = Inr entries"
    using Suc.prems by (cases r) (auto simp: ask_def then_do_def)
  show ?case
  proof (cases "filter (\<lambda>e. is_tagged (eo_client_order_id e)) entries = []")
    case True
    then have "listed_empty env" using answer entries unfolding listed_empty_def by blast
    moreover have "rs_ok (tt_reconcile t') = Some True"
      using Suc.prems answer entries True
      by (auto simp: ask_def Let_def elim!: then_doE split: prod.splits)
    ultimately show ?thesis ..
  next
    case False
    then show ?thesis using Suc answer entries
      by (auto simp: ask_def Let_def elim!: then_doE split: prod.splits)
  qed
qed simp

lemma cancel_all_once_cases:
  "cancel_all_once env t = (t', Inr cleared) \<Longrightarrow>
     (if cleared then listed_empty env \<and> rs_ok (tt_reconcile t') = Some True
      else tt_state t' = CancelPending \<and> tt_reason t' \<noteq> None)"
  unfolding cancel_all_once_def attempt_def Let_def
  by (auto simp: ask_reconcile_def set_state_def then_do_def dest!: confirm_cancelled_true
      split: prod.splits sum.splits TraderError.splits if_splits)


section \<open>A placement the exchange refuses for its rate\<close>

text \<open>
  \<open>_place\<close> has no clause for \<open>RateLimited\<close>: the order stays on record as \<open>new\<close>. The next reconciliation asks for it, and
  an exchange that never took it answers \<open>UnknownOrder\<close>, which for an order that is not \<open>unknown\<close> counts as a reset of
  the test network.
\<close>

lemma rate_limited_order_left_new:
  assumes "tt_rules t = Some rules" "tt_session t = Some session"
    and "\<And>q p z c w. snd (cl_place_limit_maker env (exchange_symbol (te_settings env)) q p z c w) = Inl (RateLimited s)"
  shows "case place_order env side (price, sz, quote) t of (t', r) \<Rightarrow>
      r = Inl (RateLimited s)
      \<and> (\<exists>order. dict_get (tt_orders t') (order_tag (se_session_id session) (tt_seq t + 1)) = Some order
           \<and> to_state order = NewOrder \<and> to_exchange_order_id order = None)"
proof -
  have answer: "(case cl_place_limit_maker env (exchange_symbol (te_settings env)) q p z c w of (w', r) \<Rightarrow> (u\<lparr> tt_world := w' \<rparr>, r))
      = (u\<lparr> tt_world := fst (cl_place_limit_maker env (exchange_symbol (te_settings env)) q p z c w) \<rparr>, Inl (RateLimited s))"
    for q p z c w and u :: "'a TestnetTrader"
    using assms(3) [of q p z c w] by (simp add: prod.case_eq_if)
  show ?thesis using assms(1,2)
    by (simp add: place_order_def present_def then_do_def mark_def attempt_def ask_def time_now_def answer place_answered_def
        new_order_def add_event_def split: prod.split)
qed

lemma new_order_taken_for_reset:
  assumes "dict_get (tt_orders t) cid = Some order" "to_state order = NewOrder" "to_exchange_order_id order = None"
    and "cl_get_order env (exchange_symbol (te_settings env)) cid (tt_world t) = (w, Inl UnknownOrder)"
  shows "resolve_doubtful env cid t
      = testnet_reset env ''a recorded order no longer exists on the exchange'' (t\<lparr> tt_world := fst (te_clock env w) \<rparr>)"
  using assms by (simp add: resolve_doubtful_def present_def then_do_def resolve_missing_def attempt_def ask_def time_now_def
      split: prod.split)

end
