(* ===== verification/Testnet_Comparison.thy ===== *)
theory Testnet_Comparison
  imports Testnet_Shadow
begin

text \<open>
  What the comparison of paper with real fills (comparison.py) counts: for every fill model the accepted orders fall into
  four disjoint groups, those filled by both, by the paper model only, by the exchange only, and by neither.
\<close>

section \<open>The tallies\<close>

definition tally_of :: "(string, TestnetOrder) dict \<Rightarrow> FillTally \<Rightarrow> bool" where
  "tally_of known t \<longleftrightarrow> wf_dict (ft_size t) \<and> set (dict_keys (ft_size t)) \<subseteq> set (dict_keys known)"

lemma in_dict_keys: "k \<in> set (dict_keys d) \<longleftrightarrow> dict_get d k \<noteq> None"
  by (induction d) (auto simp: dict_keys_def)

lemma tally_of_empty: "tally_of known empty_tally"
  by (simp add: tally_of_def empty_tally_def dict_keys_def)

lemma tally_of_fill: "tally_of known t \<Longrightarrow> dict_get known cid \<noteq> None \<Longrightarrow> tally_of known (tally_fill cid order d flow t)"
  by (cases flow) (simp add: tally_of_def tally_fill_def in_dict_keys)

lemma tally_of_real: "tally_of known t \<Longrightarrow> tally_of known (tally_real known b q fill t)"
  by (simp add: tally_real_def tally_of_fill split: option.split)

lemma tally_of_reals: "tally_of known t \<Longrightarrow> tally_of known (fold (tally_real known b q) fills t)"
  by (induction fills arbitrary: t) (simp_all add: tally_of_real)

lemma tally_of_papers:
  "tally_of known t \<Longrightarrow> list_all (\<lambda>f. dict_get known (sf_client_order_id f) \<noteq> None) fills \<Longrightarrow> tally_of known (fold (tally_paper known) fills t)"
  by (induction fills arbitrary: t) (simp_all add: tally_paper_def tally_of_fill)

lemma filled_ids_of: "tally_of known t \<Longrightarrow> distinct (filled_ids t) \<and> set (filled_ids t) \<subseteq> set (dict_keys known)"
  by (auto simp: tally_of_def filled_ids_def wf_dict_def dict_keys_def distinct_map_filter)

lemma wf_accepted: "wf_dict (accepted_orders orders)"
proof -
  have "wf_dict d \<Longrightarrow> wf_dict (fold (\<lambda>o'. dict_set (to_client_order_id o') o') os d)" for os :: "TestnetOrder list" and d
    by (induction os arbitrary: d) simp_all
  then show ?thesis by (simp add: accepted_orders_def)
qed

lemma accepted_keys: "set (dict_keys (accepted_orders orders)) = to_client_order_id ` set (filter accepted orders)"
proof -
  have "set (dict_keys (fold (\<lambda>o'. dict_set (to_client_order_id o') o') os d)) = set (dict_keys d) \<union> to_client_order_id ` set os"
    for os :: "TestnetOrder list" and d
    by (induction os arbitrary: d) auto
  from this [of "filter accepted orders" "[]"] show ?thesis by (simp add: accepted_orders_def dict_keys_def)
qed

lemma accepted_count: "length (accepted_orders orders) = card (to_client_order_id ` set (filter accepted orders))"
  using distinct_card [of "dict_keys (accepted_orders orders)"] wf_accepted [of orders]
  by (simp add: wf_dict_def accepted_keys) (simp add: dict_keys_def)

section \<open>The four groups\<close>

definition four_groups :: "nat \<Rightarrow> FillComparison \<Rightarrow> bool" where
  "four_groups n line \<longleftrightarrow> fc_orders line = n
     \<and> fc_matched line + fc_paper_only line = fc_paper_filled line
     \<and> fc_matched line + fc_real_only line = fc_real_filled line
     \<and> 0 \<le> fc_neither line
     \<and> int (fc_matched line + fc_paper_only line + fc_real_only line) + fc_neither line = int n"

lemma group_counts:
  assumes "distinct xs" "distinct ys" "set xs \<subseteq> A" "set ys \<subseteq> A" "finite A"
  shows "length (filter (\<lambda>c. c \<in> set ys) xs) + length (filter (\<lambda>c. c \<notin> set xs) ys) = length ys"
    "length (filter (\<lambda>c. c \<in> set ys) xs) + length (filter (\<lambda>c. c \<notin> set ys) xs) = length xs"
    "card (set xs \<union> set ys) \<le> card A"
    "length (filter (\<lambda>c. c \<in> set ys) xs) + length (filter (\<lambda>c. c \<notin> set xs) ys) + length (filter (\<lambda>c. c \<notin> set ys) xs)
      = card (set xs \<union> set ys)"
proof -
  have len: "length (filter P zs) = card {z \<in> set zs. P z}" if "distinct zs" for P and zs :: "'a list"
    using distinct_card [of "filter P zs"] that by simp
  have same: "{z \<in> set xs. z \<in> set ys} = {z \<in> set ys. z \<in> set xs}" by blast
  show both: "length (filter (\<lambda>c. c \<in> set ys) xs) + length (filter (\<lambda>c. c \<notin> set xs) ys) = length ys"
    using sum_length_filter_compl [of "\<lambda>c. c \<in> set xs" ys] assms(1,2) by (simp add: len same)
  show one: "length (filter (\<lambda>c. c \<in> set ys) xs) + length (filter (\<lambda>c. c \<notin> set ys) xs) = length xs"
    by (rule sum_length_filter_compl)
  show "card (set xs \<union> set ys) \<le> card A" using assms by (intro card_mono) auto
  have "card (set xs \<union> set ys) = card (set ys) + card {z \<in> set xs. z \<notin> set ys}"
    by (subst card_Un_disjoint [symmetric]) (auto intro!: arg_cong [of _ _ card])
  then show "length (filter (\<lambda>c. c \<in> set ys) xs) + length (filter (\<lambda>c. c \<notin> set xs) ys) + length (filter (\<lambda>c. c \<notin> set ys) xs)
      = card (set xs \<union> set ys)"
    using both assms(1,2) by (simp add: len distinct_card)
qed

lemma compare_model_groups:
  assumes "\<And>ids. length (arrange ids) = length ids" and "wf_dict known" and "tally_of known real_tally"
    and "list_all (\<lambda>f. dict_get known (sf_client_order_id f) \<noteq> None) paper_fills"
    and "compare_model arrange known real_tally paper_fills last_mid model = Inr line"
  shows "fc_fill_model line = model \<and> four_groups (length known) line"
proof -
  define paper_tally where "paper_tally = fold (tally_paper known)
    (sort_key sf_tick_seq (sort_key sf_at (filter (\<lambda>f. sf_fill_model f = model) paper_fills))) empty_tally"
  have "tally_of known paper_tally" unfolding paper_tally_def
    by (rule tally_of_papers [OF tally_of_empty]) (use assms(4) in \<open>auto simp: list_all_iff\<close>)
  note ids = filled_ids_of [OF this] filled_ids_of [OF assms(3)]
  have "card (set (dict_keys known)) = length known"
    using assms(2) distinct_card [of "dict_keys known"] by (simp add: wf_dict_def) (simp add: dict_keys_def)
  then show ?thesis
    using group_counts [of "filled_ids real_tally" "filled_ids paper_tally" "set (dict_keys known)"] ids assms(1,5)
    by (auto simp: compare_model_def Let_def four_groups_def rbind_def paper_tally_def [symmetric] split: sum.splits)
qed

text \<open>C32. The comparison of paper with real fills gives one line per fill model, and in every line the accepted orders fall
  into four disjoint groups: the counts of the orders filled by both, by paper only, by the exchange only and by neither
  add up to the number of accepted orders, and the filled ones to the fills of each side.
\<close>

theorem comparison_partitions_orders:
  assumes "\<And>ids. mset (arrange ids) = mset ids"
  shows "case compare arrange orders real_fills shadow_fills last_mid base quote models of
      Inl e \<Rightarrow> True
    | Inr lines \<Rightarrow> map fc_fill_model lines = models
        \<and> list_all (four_groups (card (to_client_order_id ` set (filter accepted orders)))) lines"
proof -
  have len: "length (arrange ids) = length ids" for ids using mset_eq_length [OF assms] .
  define known where "known = accepted_orders orders"
  define real_tally where "real_tally = fold (tally_real known base quote) (sort_key tf_at real_fills) empty_tally"
  define paper_fills where "paper_fills = filter (\<lambda>f. dict_get known (sf_client_order_id f) \<noteq> None) shadow_fills"
  have parts: "wf_dict known" "tally_of known real_tally"
    "list_all (\<lambda>f. dict_get known (sf_client_order_id f) \<noteq> None) paper_fills"
    by (simp_all add: known_def wf_accepted real_tally_def tally_of_reals tally_of_empty paper_fills_def list_all_iff)
  have "res_map (compare_model arrange known real_tally paper_fills last_mid) ms = Inr lines \<Longrightarrow>
      map fc_fill_model lines = ms \<and> list_all (four_groups (length known)) lines" for ms lines
  proof (induction ms arbitrary: lines)
    case (Cons m ms)
    then show ?case using compare_model_groups [OF len parts]
      by (auto simp: rbind_def split: sum.splits)
  qed simp
  moreover have "compare arrange orders real_fills shadow_fills last_mid base quote models
      = res_map (compare_model arrange known real_tally paper_fills last_mid) models"
    by (simp only: compare_def Let_def known_def real_tally_def paper_fills_def)
  moreover have "length known = card (to_client_order_id ` set (filter accepted orders))"
    unfolding known_def by (rule accepted_count)
  ultimately show ?thesis by (simp split: sum.split)
qed

text \<open>An acknowledged order, filled at the exchange.\<close>

definition compared_order :: TestnetOrder where
  "compared_order =
     \<lparr> to_client_order_id = ''mmlab-abc-1'', to_session_id = ''abc'', to_side = BID, to_price = 1, to_size = 1, to_placed_at = 5,
       to_quote_id = None, to_exchange_order_id = Some 9, to_state = FilledOrder, to_filled_size = 1, to_filled_notional = 1,
       to_reject_reason = None, to_acked_at = Some 6, to_ended_at = Some 8, to_events = [] \<rparr>"

definition compared_fill :: TestnetFill where
  "compared_fill =
     \<lparr> tf_trade_id = 3, tf_client_order_id = ''mmlab-abc-1'', tf_session_id = ''abc'', tf_side = BID, tf_price = 1, tf_size = 1,
       tf_fee = 0, tf_fee_asset = ''USDT'', tf_at = 7, tf_is_maker = True \<rparr>"

theorem comparison_partitions_orders_witness:
  "case compare id [compared_order] [compared_fill] [] (Some 1) ''BTC'' ''USDT'' FILL_MODELS of
      Inl e \<Rightarrow> True
    | Inr lines \<Rightarrow> map fc_fill_model lines = FILL_MODELS
        \<and> list_all (four_groups (card (to_client_order_id ` set (filter accepted [compared_order])))) lines"
  by (rule comparison_partitions_orders) simp

end
