(* ===== verification/Testnet_Replay.thy ===== *)
theory Testnet_Replay
  imports Testnet_Trader Lab_Markets "HOL-Library.List_Lexorder" "HOL-Library.Char_ord" "HOL-Library.Product_Lexorder"
begin

text \<open>
  The replay of a recorded testnet session (\<open>app/services/testnet/replay.py\<close>, the record of \<open>recorded.py\<close>): one-level
  snapshots rebuilt from the recorded ticks run through the shadow books, the looks at every order, the intervals the
  calibration is fitted on. Of the settings and notes of a recording the model keeps the entries the code reads.
\<close>

section \<open>Recordings\<close>

record RecordedSession =
  rd_session :: TestnetSession
  rd_symbol :: "string option"
  rd_fill_latency_ticks :: "int option"
  rd_fill_probability :: "f64 option"
  rd_orders :: "TestnetOrder list"
  rd_fills :: "TestnetFill list"
  rd_shadow_fills :: "ShadowFill list"
  rd_ticks :: "TestnetTick list"
  rd_last_mid :: "f64 option"
  rd_shadow_models :: "FillMode list option"
  rd_calibration :: "CalibrationParams option option"
  rd_replayed_models :: "FillMode list"

definition rd_minutes :: "RecordedSession \<Rightarrow> f64" where
  "rd_minutes rec =
     (case rd_ticks rec of
        [] \<Rightarrow> 0
      | first # _ \<Rightarrow> total_seconds (tk_at (last (rd_ticks rec)) - tk_at first) / lit 60)"

definition CALIBRATED_MODEL :: FillMode where "CALIBRATED_MODEL = CALIBRATED"
definition LEGACY_SHADOW_MODELS :: "FillMode list" where "LEGACY_SHADOW_MODELS = [FULL_CROSS, PARTIAL, LATENCY_PROB]"

definition stored_models :: "RecordedSession \<Rightarrow> FillMode list" where
  "stored_models rec =
     (case rd_shadow_models rec of None \<Rightarrow> LEGACY_SHADOW_MODELS | Some models \<Rightarrow> if models = [] then LEGACY_SHADOW_MODELS else models)"

section \<open>Replaying the shadow books\<close>

definition tick_level :: "f64 option \<Rightarrow> f64 option \<Rightarrow> OrderBookLevel list" where
  "tick_level price sz =
     (case price of None \<Rightarrow> [] | Some p \<Rightarrow> [\<lparr> lv_price = p, lv_size = (case sz of Some s \<Rightarrow> s | None \<Rightarrow> 0) \<rparr>])"

definition tick_snapshot :: "TestnetTick \<Rightarrow> string \<Rightarrow> OrderBookSnapshot" where
  "tick_snapshot tick symbol =
     \<lparr> ob_symbol = symbol, ob_bids = tick_level (tk_best_bid tick) (tk_bid_size tick),
       ob_asks = tick_level (tk_best_ask tick) (tk_ask_size tick), ob_timestamp = tk_at tick, ob_is_stale = False,
       ob_tick_id = None \<rparr>"

definition orders_by_id :: "TestnetOrder list \<Rightarrow> (string, TestnetOrder) dict" where
  "orders_by_id orders = fold (\<lambda>o'. dict_set (to_client_order_id o') o') orders []"

definition tick_window :: "(string, TestnetOrder) dict \<Rightarrow> TestnetTick \<Rightarrow> TestnetOrder list" where
  "tick_window orders tick = List.map_filter (dict_get orders) (tk_open_orders tick)"

text \<open>The books one after the other; an exception ends the replay.\<close>

fun run_books :: "Libm \<Rightarrow> Draws \<Rightarrow> OrderBookSnapshot \<Rightarrow> TestnetOrder list \<Rightarrow> int \<Rightarrow> string \<Rightarrow> ShadowBook list \<Rightarrow>
    ShadowBook list \<times> ShadowFill list res" where
  "run_books m dr snapshot orders tick_seq session_id [] = ([], ok [])"
| "run_books m dr snapshot orders tick_seq session_id (book # books) =
     (case shadow_evaluate m dr snapshot orders tick_seq session_id book of
        (book, Inl e) \<Rightarrow> (book # books, Inl e)
      | (book, Inr fills) \<Rightarrow>
          (case run_books m dr snapshot orders tick_seq session_id books of
             (books, more_fills) \<Rightarrow> (book # books, rbind more_fills (\<lambda>fs. ok (fills @ fs)))))"

fun replay_ticks :: "Libm \<Rightarrow> Draws \<Rightarrow> string \<Rightarrow> string \<Rightarrow> (string, TestnetOrder) dict \<Rightarrow> ShadowBook list \<Rightarrow> TestnetTick list
    \<Rightarrow> ShadowFill list res" where
  "replay_ticks m dr symbol session_id orders books [] = ok []"
| "replay_ticks m dr symbol session_id orders books (tick # ticks) =
     (case run_books m dr (tick_snapshot tick symbol) (tick_window orders tick) (tk_seq tick) session_id books of
        (books, fills) \<Rightarrow>
          rbind fills (\<lambda>fs. rbind (replay_ticks m dr symbol session_id orders books ticks) (\<lambda>later. ok (fs @ later))))"

definition replay_books :: "RecordedSession \<Rightarrow> FillMode list \<Rightarrow> FillCalibration option \<Rightarrow> ShadowBook list" where
  "replay_books rec models calibration =
     map (\<lambda>model. shadow_init model (se_maker_commission_bps (rd_session rec))
            (case rd_fill_latency_ticks rec of Some n \<Rightarrow> n | None \<Rightarrow> 2)
            (case rd_fill_probability rec of Some p \<Rightarrow> p | None \<Rightarrow> lit (7 / 10))
            (if model = CALIBRATED_MODEL then calibration else None)) models"

definition replay_shadows :: "Libm \<Rightarrow> Draws \<Rightarrow> RecordedSession \<Rightarrow> FillMode list \<Rightarrow> FillCalibration option \<Rightarrow> ShadowFill list res" where
  "replay_shadows m dr rec models calibration =
     replay_ticks m dr (case rd_symbol rec of Some s \<Rightarrow> s | None \<Rightarrow> ''BTCUSDT'') (se_session_id (rd_session rec))
       (orders_by_id (rd_orders rec)) (replay_books rec models calibration) (sort_key tk_seq (rd_ticks rec))"

section \<open>Stored against replayed\<close>

definition mode_text :: "FillMode \<Rightarrow> string" where
  "mode_text model =
     (case model of FULL_CROSS \<Rightarrow> ''full_cross_fill'' | PARTIAL \<Rightarrow> ''partial_fill'' | LATENCY_PROB \<Rightarrow> ''latency_prob_fill''
      | CALIBRATED \<Rightarrow> ''calibrated_fill'')"

type_synonym FillKey = "string \<times> string \<times> int \<times> f64 \<times> f64"

definition fill_key :: "ShadowFill \<Rightarrow> FillKey" where
  "fill_key f = (mode_text (sf_fill_model f), sf_client_order_id f, sf_tick_seq f, round_digits 12 (sf_size f), sf_price f)"

text \<open>The calibration a recording used: \<open>None\<close> when it is not known, \<open>known\<close> for sessions recorded before it was noted.\<close>

definition used_calibration :: "RecordedSession \<Rightarrow> (string \<Rightarrow> CalibrationParams option option) \<Rightarrow> FillCalibration option option res" where
  "used_calibration rec known =
     (let params = (case rd_calibration rec of Some p \<Rightarrow> Some p | None \<Rightarrow> known (se_session_id (rd_session rec)))
      in case params of
           None \<Rightarrow> ok None
         | Some None \<Rightarrow> ok (Some None)
         | Some (Some p) \<Rightarrow> rbind (calibration_from_params p) (\<lambda>c. ok (Some (Some c))))"

definition checked_models :: "RecordedSession \<Rightarrow> (string \<Rightarrow> CalibrationParams option option) \<Rightarrow> FillMode list res" where
  "checked_models rec known =
     (let models = stored_models rec in
      if CALIBRATED_MODEL \<in> set models
      then rbind (used_calibration rec known) (\<lambda>c.
             ok (if c = None then filter (\<lambda>m. m \<noteq> CALIBRATED_MODEL) models else models))
      else ok models)"

datatype Mismatch = StoredOnly FillKey | ReplayedOnly FillKey

definition replay_mismatches :: "Libm \<Rightarrow> Draws \<Rightarrow> RecordedSession \<Rightarrow> (string \<Rightarrow> CalibrationParams option option) \<Rightarrow> Mismatch list res" where
  "replay_mismatches m dr rec known =
     rbind (checked_models rec known) (\<lambda>models.
     rbind (used_calibration rec known) (\<lambda>used.
     let calibration = (case used of None \<Rightarrow> None | Some c \<Rightarrow> c);
         stored = sort (map fill_key (filter (\<lambda>f. sf_fill_model f \<in> set models) (rd_shadow_fills rec)))
     in rbind (replay_shadows m dr rec models calibration) (\<lambda>fills.
        let replayed = sort (map fill_key fills)
        in ok (if stored = replayed then []
               else map StoredOnly (remdups (filter (\<lambda>k. k \<notin> set replayed) stored))
                  @ map ReplayedOnly (remdups (filter (\<lambda>k. k \<notin> set stored) replayed))))))"

section \<open>Looks and intervals\<close>

record Evaluation =
  ev_client_order_id :: string
  ev_tick_seq :: int
  ev_at :: datetime
  ev_crossed :: bool
  ev_distance_bps :: f64
  ev_dt_sec :: f64
  ev_event :: "bool option"
  ev_volatility :: "f64 option"

record CalibrationInterval =
  ci_session_id :: string
  ci_client_order_id :: string
  ci_dt_sec :: f64
  ci_distance_bps :: f64
  ci_event :: bool
  ci_volatility :: "f64 option"

definition first_fills :: "TestnetFill list \<Rightarrow> (string, datetime) dict" where
  "first_fills fills =
     fold (\<lambda>fill d.
       case dict_get d (tf_client_order_id fill) of
         None \<Rightarrow> dict_set (tf_client_order_id fill) (tf_at fill) d
       | Some t \<Rightarrow> if tf_at fill < t then dict_set (tf_client_order_id fill) (tf_at fill) d else d) fills []"

text \<open>The looks so far: when an order was last looked at, and the evaluations by order.\<close>

type_synonym Looks = "(string, datetime) dict \<times> (string, Evaluation list) dict"

definition look_at :: "(string, datetime) dict \<Rightarrow> TestnetTick \<Rightarrow> f64 \<Rightarrow> f64 \<Rightarrow> f64 option \<Rightarrow> TestnetOrder \<Rightarrow> datetime \<Rightarrow> Looks \<Rightarrow> Looks res" where
  "look_at fills_at tick bid ask_price volatility order acked looks =
     (case looks of (last_look, out) \<Rightarrow>
       let cid = to_client_order_id order; since = dict_get_or last_look cid acked in
       rbind (if to_side order = BID then fdiv (ask_price - to_price order) (to_price order)
              else fdiv (to_price order - bid) (to_price order)) (\<lambda>d.
       let distance = d * lit 10000;
           fill_at = dict_get fills_at cid;
           event = (case fill_at of
                      None \<Rightarrow> Some False
                    | Some t \<Rightarrow> if t \<le> since then None else Some (t \<le> tk_at tick));
           look = \<lparr> ev_client_order_id = cid, ev_tick_seq = tk_seq tick, ev_at = tk_at tick, ev_crossed = (distance \<le> 0),
                    ev_distance_bps = distance, ev_dt_sec = min MAX_INTERVAL_SEC (max 0 (total_seconds (tk_at tick - since))),
                    ev_event = event, ev_volatility = volatility \<rparr>
       in ok (dict_set cid (tk_at tick) last_look, dict_set cid (dict_get_or out cid [] @ [look]) out)))"

primrec looks_of_tick :: "(string, TestnetOrder) dict \<Rightarrow> (string, datetime) dict \<Rightarrow> TestnetTick \<Rightarrow> f64 \<Rightarrow> f64 \<Rightarrow> f64 option \<Rightarrow> string list
    \<Rightarrow> Looks \<Rightarrow> Looks res" where
  "looks_of_tick orders fills_at tick bid ask_price volatility [] looks = ok looks"
| "looks_of_tick orders fills_at tick bid ask_price volatility (cid # cids) looks =
     rbind (case dict_get orders cid of
              None \<Rightarrow> ok looks
            | Some order \<Rightarrow>
                (case to_acked_at order of
                   None \<Rightarrow> ok looks
                 | Some acked \<Rightarrow> look_at fills_at tick bid ask_price volatility order acked looks))
       (looks_of_tick orders fills_at tick bid ask_price volatility cids)"

fun looks_of_ticks :: "Libm \<Rightarrow> (string, TestnetOrder) dict \<Rightarrow> (string, datetime) dict \<Rightarrow> VolatilityTracker \<Rightarrow> TestnetTick list \<Rightarrow> Looks \<Rightarrow> Looks res" where
  "looks_of_ticks m orders fills_at tracker [] looks = ok looks"
| "looks_of_ticks m orders fills_at tracker (tick # ticks) looks =
     (let both = (case (tk_best_bid tick, tk_best_ask tick) of (Some b, Some a) \<Rightarrow> Some (b, a) | _ \<Rightarrow> None) in
      case volatility_update m tracker (tk_at tick) (map_option (\<lambda>(b, a). (b + a) / lit 2) both) of
        (tracker, measured) \<Rightarrow>
          rbind measured (\<lambda>volatility.
          rbind (case both of
                   None \<Rightarrow> ok looks
                 | Some (b, a) \<Rightarrow> looks_of_tick orders fills_at tick b a volatility (tk_open_orders tick) looks)
            (looks_of_ticks m orders fills_at tracker ticks)))"

definition evaluations :: "Libm \<Rightarrow> RecordedSession \<Rightarrow> (string, Evaluation list) dict res" where
  "evaluations m rec =
     rbind (looks_of_ticks m (orders_by_id (rd_orders rec)) (first_fills (rd_fills rec))
              (volatility_tracker_init VOLATILITY_WINDOW_SEC) (sort_key tk_seq (rd_ticks rec)) ([], []))
       (\<lambda>(last_look, out). ok out)"

definition interval_of :: "string \<Rightarrow> string \<Rightarrow> Evaluation \<Rightarrow> CalibrationInterval option" where
  "interval_of sid cid look =
     (if ev_crossed look then None
      else case ev_event look of
             None \<Rightarrow> None
           | Some event \<Rightarrow> Some \<lparr> ci_session_id = sid, ci_client_order_id = cid, ci_dt_sec = ev_dt_sec look,
               ci_distance_bps = ev_distance_bps look, ci_event = event, ci_volatility = ev_volatility look \<rparr>)"

definition calibration_intervals :: "Libm \<Rightarrow> RecordedSession \<Rightarrow> CalibrationInterval list res" where
  "calibration_intervals m rec =
     rbind (evaluations m rec) (\<lambda>out.
       ok (concat (map (\<lambda>(cid, looks). List.map_filter (interval_of (se_session_id (rd_session rec)) cid) looks)
             (sort_key fst out))))"

definition complete_recording :: "Libm \<Rightarrow> Draws \<Rightarrow> RecordedSession \<Rightarrow> FillCalibration option \<Rightarrow> RecordedSession res" where
  "complete_recording m dr rec calibration =
     (let stored = stored_models rec; missing = filter (\<lambda>m. m \<notin> set stored) FILL_MODELS in
      if missing = [] then ok rec
      else rbind (replay_shadows m dr rec missing calibration) (\<lambda>extra.
        ok (rec\<lparr> rd_shadow_fills := rd_shadow_fills rec @ extra, rd_shadow_models := Some (stored @ missing),
                 rd_replayed_models := missing \<rparr>)))"

end
