(* ===== verification/Testnet_Replay_Facts.thy ===== *)
theory Testnet_Replay_Facts
  imports Testnet_Replay Testnet_Orders
begin

text \<open>
  Replaying the recording of a session reproduces the shadow fills of the live session. Evaluating a shadow book commutes
  with forgetting what a recording does not keep: the depth and the symbol of the order book, and of an order everything
  but its identifier, side, price, size and acknowledgement.
\<close>

section \<open>What a recording keeps\<close>

definition plain_snapshot :: "OrderBookSnapshot \<Rightarrow> OrderBookSnapshot" where
  "plain_snapshot s =
     \<lparr> ob_symbol = [], ob_bids = tick_level (best_bid s) (best_bid_size s), ob_asks = tick_level (best_ask s) (best_ask_size s),
       ob_timestamp = ob_timestamp s, ob_is_stale = False, ob_tick_id = None \<rparr>"

definition plain_order :: "TestnetOrder \<Rightarrow> TestnetOrder" where
  "plain_order order =
     order\<lparr> to_session_id := [], to_placed_at := 0, to_quote_id := None, to_exchange_order_id := None, to_state := NewOrder,
       to_filled_size := 0, to_filled_notional := 0, to_reject_reason := None, to_ended_at := None, to_events := [] \<rparr>"

definition plain_quote :: "OpenQuote \<Rightarrow> OpenQuote" where
  "plain_quote q = q\<lparr> oq_quote := (oq_quote q)\<lparr> qt_symbol := [] \<rparr> \<rparr>"

definition plain_book :: "ShadowBook \<Rightarrow> ShadowBook" where
  "plain_book book = book\<lparr> sb_quotes := map (\<lambda>(cid, q). (cid, plain_quote q)) (sb_quotes book) \<rparr>"

definition plain_fill :: "Fill \<Rightarrow> Fill" where
  "plain_fill f = f\<lparr> fl_symbol := [] \<rparr>"

lemma plain_snapshot_simps [simp]:
  "best_bid (plain_snapshot s) = best_bid s" "best_ask (plain_snapshot s) = best_ask s"
  "best_bid_size (plain_snapshot s) = best_bid_size s" "best_ask_size (plain_snapshot s) = best_ask_size s"
  "ob_timestamp (plain_snapshot s) = ob_timestamp s" "ob_symbol (plain_snapshot s) = []"
  "snapshot_mid (plain_snapshot s) = snapshot_mid s"
  by (cases "ob_bids s"; cases "ob_asks s";
      simp add: plain_snapshot_def tick_level_def best_bid_def best_ask_def best_bid_size_def best_ask_size_def snapshot_mid_def)+

lemma plain_order_simps [simp]:
  "to_client_order_id (plain_order o1) = to_client_order_id o1" "to_side (plain_order o1) = to_side o1"
  "to_price (plain_order o1) = to_price o1" "to_size (plain_order o1) = to_size o1"
  "to_acked_at (plain_order o1) = to_acked_at o1"
  by (simp_all add: plain_order_def)

lemma plain_order_eqI:
  assumes "to_client_order_id o1 = to_client_order_id o2" "to_side o1 = to_side o2" "to_price o1 = to_price o2"
    "to_size o1 = to_size o2" "to_acked_at o1 = to_acked_at o2"
  shows "plain_order o1 = plain_order o2"
  using assms by (cases o1, cases o2) (simp add: plain_order_def)

lemma plain_quote_simps [simp]:
  "oq_quote_id (plain_quote q) = oq_quote_id q" "oq_crossed_streak (plain_quote q) = oq_crossed_streak q"
  "oq_last_evaluated_at (plain_quote q) = oq_last_evaluated_at q" "qt_side (oq_quote (plain_quote q)) = qt_side (oq_quote q)"
  "qt_price (oq_quote (plain_quote q)) = qt_price (oq_quote q)" "qt_size (oq_quote (plain_quote q)) = qt_size (oq_quote q)"
  "qt_timestamp (oq_quote (plain_quote q)) = qt_timestamp (oq_quote q)"
  "qt_symbol (oq_quote (plain_quote q)) = []"
  by (simp_all add: plain_quote_def)

lemma plain_quote_updates [simp]:
  "plain_quote (q\<lparr> oq_crossed_streak := n \<rparr>) = (plain_quote q)\<lparr> oq_crossed_streak := n \<rparr>"
  "plain_quote (q\<lparr> oq_last_evaluated_at := t \<rparr>) = (plain_quote q)\<lparr> oq_last_evaluated_at := t \<rparr>"
  by (simp_all add: plain_quote_def)

lemma plain_fill_simps [simp]:
  "fl_quote_id (plain_fill f) = fl_quote_id f" "fl_side (plain_fill f) = fl_side f" "fl_price (plain_fill f) = fl_price f"
  "fl_size (plain_fill f) = fl_size f" "fl_fee (plain_fill f) = fl_fee f"
  by (simp_all add: plain_fill_def)

lemma plain_book_simps [simp]:
  "sb_fill_model (plain_book b) = sb_fill_model b" "sb_filled (plain_book b) = sb_filled b"
  "sb_volatility (plain_book b) = sb_volatility b" "sb_quotes (plain_book b) = map (\<lambda>(cid, q). (cid, plain_quote q)) (sb_quotes b)"
  "plain_book (b\<lparr> sb_volatility := v \<rparr>) = (plain_book b)\<lparr> sb_volatility := v \<rparr>"
  "plain_book (b\<lparr> sb_filled := d \<rparr>) = (plain_book b)\<lparr> sb_filled := d \<rparr>"
  "shadow_fill_params m dr (plain_book b) seq x = shadow_fill_params m dr b seq x"
  by (simp_all add: plain_book_def shadow_fill_params_def)

section \<open>Evaluating commutes with forgetting\<close>

lemma dict_map_simps:
  "dict_set k (f v) (map (\<lambda>(k, v). (k, f v)) d) = map (\<lambda>(k, v). (k, f v)) (dict_set k v d)"
  "dict_pop k (map (\<lambda>(k, v). (k, f v)) d) = map (\<lambda>(k, v). (k, f v)) (dict_pop k d)"
  "dict_get (map (\<lambda>(k, v). (k, f v)) d) k = map_option f (dict_get d k)"
  by (induction d) (auto simp: dict_set_def dict_pop_def)

lemma map_sum_rbind: "map_sum id g (rbind r k) = rbind r (\<lambda>x. map_sum id g (k x))"
  by (cases r) (simp_all add: rbind_simps)

lemma make_fill_plain: "make_fill (plain_quote q) sz fee t = plain_fill (make_fill q sz fee t)"
  by (simp add: make_fill_def plain_fill_def Let_def)

lemma evaluate_quote_plain:
  "evaluate_quote fp (plain_snapshot s) b a (plain_quote q)
     = map_sum id (map_prod plain_quote (map_option plain_fill)) (evaluate_quote fp s b a q)"
proof -
  have same: "is_crossed (oq_quote (plain_quote q)) b a = is_crossed (oq_quote q) b a"
    "fill_size_for_cross (oq_quote (plain_quote q)) (plain_snapshot s) mode = fill_size_for_cross (oq_quote q) s mode"
    "touched_between fp c b a t since (oq_quote (plain_quote q)) = touched_between fp c b a t since (oq_quote q)"
    for mode c t since
    unfolding is_crossed_def fill_size_for_cross_def touched_between_def plain_quote_simps plain_snapshot_simps by (rule refl)+
  note parts = evaluate_quote_def Let_def same plain_snapshot_simps plain_quote_simps make_fill_plain
  show ?thesis
  proof (cases "is_crossed (oq_quote q) b a")
    case False
    then show ?thesis unfolding parts by (simp add: rbind_def split: option.split sum.split)
  next
    case True
    show ?thesis
      by (cases "fp_fill_mode fp") (simp_all only: parts True, auto simp: rbind_def split: option.split sum.split)
  qed
qed

lemma res_map_plain: "(\<And>x. g (p x) = map_sum id h (f x)) \<Longrightarrow> res_map g (map p xs) = map_sum id (map h) (res_map f xs)"
  by (induction xs) (simp_all add: rbind_def split: sum.split)

lemma detect_fills_plain:
  "detect_fills fp (map plain_quote quotes) (plain_snapshot s)
     = map_sum id (map_prod (map plain_quote) (map plain_fill)) (detect_fills fp quotes s)"
proof -
  have fills: "List.map_filter snd (map (map_prod plain_quote (map_option plain_fill)) rs)
      = map plain_fill (List.map_filter snd rs)" for rs
    by (induction rs) (auto simp: List.map_filter_def)
  have quotes: "res_map (evaluate_quote fp (plain_snapshot s) b a) (map plain_quote quotes)
      = map_sum id (map (map_prod plain_quote (map_option plain_fill))) (res_map (evaluate_quote fp s b a) quotes)" for b a
    by (rule res_map_plain) (rule evaluate_quote_plain)
  show ?thesis
    unfolding detect_fills_def plain_snapshot_simps
    by (cases "best_bid s"; cases "best_ask s")
      (simp_all add: quotes rbind_def fills o_def split: sum.split)
qed

lemma shadow_quote_plain:
  "shadow_quote (plain_snapshot s) (plain_order order) (plain_book b, map plain_quote batch)
     = map_prod plain_book (map plain_quote) (shadow_quote s order (b, batch))"
proof -
  have new: "shadow_open_quote (plain_snapshot s) (plain_order order) r = plain_quote (shadow_open_quote s order r)" for r
    by (simp add: shadow_open_quote_def plain_quote_def cong: option.case_cong)
  show ?thesis
    by (simp add: shadow_quote_def Let_def new dict_map_simps plain_book_def split: option.split)
qed

lemma shadow_quotes_plain:
  "fold (shadow_quote (plain_snapshot s)) (map plain_order orders) (plain_book b, map plain_quote batch)
     = map_prod plain_book (map plain_quote) (fold (shadow_quote s) orders (b, batch))"
proof (induction orders arbitrary: b batch)
  case (Cons order orders)
  obtain b' batch' where "shadow_quote s order (b, batch) = (b', batch')" by fastforce
  then show ?case using Cons.IH [of b' batch'] shadow_quote_plain [of s order b batch] by simp
qed simp

section \<open>Quotes of a book\<close>

text \<open>A quote is filed under its own identifier and still has something to fill.\<close>

definition book_ok :: "ShadowBook \<Rightarrow> bool" where
  "book_ok book \<longleftrightarrow> (\<forall>(cid, q)\<in>set (sb_quotes book). oq_quote_id q = cid \<and> 0 < qt_size (oq_quote q))"

definition batch_ok :: "ShadowBook \<Rightarrow> OpenQuote list \<Rightarrow> bool" where
  "batch_ok book batch \<longleftrightarrow> (\<forall>q\<in>set batch. dict_get (sb_quotes book) (oq_quote_id q) \<noteq> None \<and> 0 < qt_size (oq_quote q))"

lemma dict_set_subset: "set (dict_set k v d) \<subseteq> insert (k, v) (set d)"
  unfolding dict_set_def by (induction d) auto

lemma dict_pop_subset: "set (dict_pop k d) \<subseteq> set d"
  unfolding dict_pop_def by (induction d) auto

lemma subseq_keeps_distinct: "subseq xs ys \<Longrightarrow> distinct ys \<Longrightarrow> distinct xs"
  by (induction xs ys rule: list_emb.induct) (auto dest: list_emb_set)

lemma EPS_pos: "0 < EPS"
proof -
  have "2 powi (- 40) \<le> (1 / 10 ^ 12 :: real)" by (simp add: power_int_minus)
  moreover have "fl (2 powi (- 40)) = 2 powi (- 40)" using fl_dyadic [of 1 "- 40"] by simp
  ultimately have "2 powi (- 40) \<le> fl (1 / 10 ^ 12)" by (intro fl.ge_fixed)
  then show ?thesis using zero_less_power_int [of "2::real" "- 40"] by (simp add: EPS_def less_val val_lit)
qed

lemma book_ok_set:
  "book_ok b \<Longrightarrow> oq_quote_id q = cid \<Longrightarrow> 0 < qt_size (oq_quote q) \<Longrightarrow> book_ok (b\<lparr> sb_quotes := dict_set cid q (sb_quotes b) \<rparr>)"
  using dict_set_subset [of cid q "sb_quotes b"] by (fastforce simp: book_ok_def)

lemma book_ok_pop: "book_ok b \<Longrightarrow> book_ok (b\<lparr> sb_quotes := dict_pop cid (sb_quotes b) \<rparr>)"
  using dict_pop_subset [of cid "sb_quotes b"] by (fastforce simp: book_ok_def)

lemma book_ok_other [simp]:
  "book_ok (b\<lparr> sb_volatility := v \<rparr>) = book_ok b" "book_ok (b\<lparr> sb_filled := d \<rparr>) = book_ok b"
  by (simp_all add: book_ok_def)

lemma shadow_quote_ok:
  assumes "book_ok b" "batch_ok b batch" "shadow_quote s order (b, batch) = (b', batch')"
  shows "book_ok b' \<and> batch_ok b' batch'
    \<and> (batch' = batch \<or> (\<exists>q. batch' = batch @ [q] \<and> oq_quote_id q = to_client_order_id order))"
proof (cases "dict_get (sb_quotes b) (to_client_order_id order)")
  case (Some q)
  then have "oq_quote_id q = to_client_order_id order \<and> 0 < qt_size (oq_quote q)"
    using assms(1) map_of_SomeD [OF Some] by (auto simp: book_ok_def)
  then show ?thesis using assms Some by (auto simp: shadow_quote_def batch_ok_def)
next
  case None
  let ?left = "to_size order - dict_get_or (sb_filled b) (to_client_order_id order) 0"
  show ?thesis
  proof (cases "?left \<le> EPS")
    case False
    then have "0 < ?left" using less_trans [OF EPS_pos, of ?left] by (simp only: not_le)
    then have "book_ok (b\<lparr> sb_quotes := dict_set (to_client_order_id order) (shadow_open_quote s order ?left) (sb_quotes b) \<rparr>)"
      using assms(1) by (intro book_ok_set) (simp_all add: shadow_open_quote_def)
    then show ?thesis using assms None False \<open>0 < ?left\<close>
      by (auto simp: shadow_quote_def Let_def batch_ok_def shadow_open_quote_def)
  qed (use assms None in \<open>auto simp: shadow_quote_def Let_def\<close>)
qed

lemma shadow_quotes_ok:
  assumes "book_ok b" "batch_ok b batch" "fold (shadow_quote s) orders (b, batch) = (b', batch')"
  shows "book_ok b' \<and> batch_ok b' batch'
    \<and> (\<exists>later. batch' = batch @ later \<and> subseq (map oq_quote_id later) (map to_client_order_id orders))"
  using assms
proof (induction orders arbitrary: b batch)
  case (Cons order orders)
  obtain b1 batch1 where one: "shadow_quote s order (b, batch) = (b1, batch1)" by fastforce
  note step = shadow_quote_ok [OF Cons.prems(1,2) one]
  with Cons.IH [of b1 batch1] Cons.prems(3) one obtain later where
    "book_ok b'" "batch_ok b' batch'" "batch' = batch1 @ later" "subseq (map oq_quote_id later) (map to_client_order_id orders)"
    by auto
  with step show ?case by (auto intro: list_emb_Cons)
qed simp

lemma keep_evaluated_simps:
  "keep_evaluated [] b = b"
  "keep_evaluated (q # quotes) b = keep_evaluated quotes (b\<lparr> sb_quotes := dict_set (oq_quote_id q) q (sb_quotes b) \<rparr>)"
  by (simp_all add: keep_evaluated_def)

lemma keep_evaluated_ok:
  "book_ok b \<Longrightarrow> \<forall>q\<in>set quotes. 0 < qt_size (oq_quote q) \<Longrightarrow> book_ok (keep_evaluated quotes b)
    \<and> (\<forall>cid. dict_get (sb_quotes b) cid \<noteq> None \<longrightarrow> dict_get (sb_quotes (keep_evaluated quotes b)) cid \<noteq> None)"
proof (induction quotes arbitrary: b)
  case (Cons q quotes)
  have "book_ok (b\<lparr> sb_quotes := dict_set (oq_quote_id q) q (sb_quotes b) \<rparr>)" using Cons.prems by (intro book_ok_set) auto
  with Cons show ?case by (auto simp: keep_evaluated_simps fun_upd_apply split: if_splits)
qed (simp add: keep_evaluated_simps)

lemma keep_evaluated_plain: "keep_evaluated (map plain_quote quotes) (plain_book b) = plain_book (keep_evaluated quotes b)"
proof (induction quotes arbitrary: b)
  case (Cons q quotes)
  have "(plain_book b)\<lparr> sb_quotes := dict_set (oq_quote_id q) (plain_quote q) (sb_quotes (plain_book b)) \<rparr>
      = plain_book (b\<lparr> sb_quotes := dict_set (oq_quote_id q) q (sb_quotes b) \<rparr>)"
    by (simp add: plain_book_def dict_map_simps)
  then show ?case using Cons by (simp add: keep_evaluated_simps)
qed (simp add: keep_evaluated_simps)

text \<open>Booking one fill: the quote is there, and every other quote stays.\<close>

lemma book_shadow_fill_ok:
  assumes "book_ok b" "fl_quote_id fill = Some cid" "dict_get (sb_quotes b) cid \<noteq> None"
  shows "book_shadow_fill (plain_snapshot s) seq sid (plain_fill fill) (plain_book b, out)
      = apfst plain_book (book_shadow_fill s seq sid fill (b, out))"
    and "book_ok (fst (book_shadow_fill s seq sid fill (b, out)))"
    and "other \<noteq> cid \<Longrightarrow> dict_get (sb_quotes (fst (book_shadow_fill s seq sid fill (b, out)))) other = dict_get (sb_quotes b) other"
proof -
  obtain q where q: "dict_get (sb_quotes b) cid = Some q" using assms(3) by blast
  have look: "dict_get (map (\<lambda>(cid, q). (cid, plain_quote q)) (sb_quotes b)) cid = Some (plain_quote q)"
    by (simp add: dict_map_simps q)
  have rest: "\<lparr> oq_quote_id = cid, oq_quote = (oq_quote (plain_quote q))\<lparr> qt_size := r \<rparr>, oq_crossed_streak = 0,
      oq_last_evaluated_at = t \<rparr>
      = plain_quote \<lparr> oq_quote_id = cid, oq_quote = (oq_quote q)\<lparr> qt_size := r \<rparr>, oq_crossed_streak = 0,
      oq_last_evaluated_at = t \<rparr>" for r t
    by (simp add: plain_quote_def)
  show "book_shadow_fill (plain_snapshot s) seq sid (plain_fill fill) (plain_book b, out)
      = apfst plain_book (book_shadow_fill s seq sid fill (b, out))"
    by (simp add: book_shadow_fill_def Let_def assms(2) q look rest dict_map_simps plain_book_def)
  show "book_ok (fst (book_shadow_fill s seq sid fill (b, out)))"
  proof -
    let ?b = "b\<lparr> sb_filled := dict_set cid (dict_get_or (sb_filled b) cid 0 + fl_size fill) (sb_filled b) \<rparr>"
    have b: "book_ok ?b" using assms(1) by simp
    let ?left = "qt_size (oq_quote q) - fl_size fill"
    have "0 < ?left" if "EPS < ?left" using EPS_pos that by (rule less_trans)
    with book_ok_set [OF b, of "\<lparr> oq_quote_id = cid, oq_quote = (oq_quote q)\<lparr> qt_size := ?left \<rparr>, oq_crossed_streak = 0,
      oq_last_evaluated_at = Some (ob_timestamp s) \<rparr>" cid] book_ok_pop [OF b, of cid]
    show ?thesis by (simp add: book_shadow_fill_def Let_def assms(2) q)
  qed
  show "dict_get (sb_quotes (fst (book_shadow_fill s seq sid fill (b, out)))) other = dict_get (sb_quotes b) other"
    if "other \<noteq> cid"
    using that by (simp add: book_shadow_fill_def Let_def assms(2) q)
qed

lemma book_shadow_fills_plain:
  assumes "book_ok b" "distinct (map fl_quote_id fills)"
    and "\<forall>f\<in>set fills. \<exists>cid. fl_quote_id f = Some cid \<and> dict_get (sb_quotes b) cid \<noteq> None"
  shows "fold (book_shadow_fill (plain_snapshot s) seq sid) (map plain_fill fills) (plain_book b, out)
      = apfst plain_book (fold (book_shadow_fill s seq sid) fills (b, out))
    \<and> book_ok (fst (fold (book_shadow_fill s seq sid) fills (b, out)))"
  using assms
proof (induction fills arbitrary: b out)
  case (Cons f fills)
  then obtain cid where cid: "fl_quote_id f = Some cid" "dict_get (sb_quotes b) cid \<noteq> None" by auto
  obtain b' out' where one: "book_shadow_fill s seq sid f (b, out) = (b', out')" by fastforce
  note step = book_shadow_fill_ok [OF Cons.prems(1) cid, where s = s and seq = seq and sid = sid and out = out, unfolded one]
  have "\<exists>c. fl_quote_id g = Some c \<and> dict_get (sb_quotes b') c \<noteq> None" if g: "g \<in> set fills" for g
  proof -
    obtain c where c: "fl_quote_id g = Some c" "dict_get (sb_quotes b) c \<noteq> None" using Cons.prems(3) g by auto
    moreover have "c \<noteq> cid" using Cons.prems(2) g c(1) cid(1) by force
    ultimately show ?thesis using step(3) [of c] by simp
  qed
  then show ?case using Cons.IH [of b' out'] Cons.prems(2) step(1,2) one by simp
qed simp

lemma shadow_evaluate_plain:
  assumes ok: "book_ok b" and ids: "distinct (map to_client_order_id orders)"
  shows "map_prod plain_book id (shadow_evaluate m dr s orders seq sid b)
      = shadow_evaluate m dr (plain_snapshot s) (map plain_order orders) seq sid (plain_book b)
    \<and> book_ok (fst (shadow_evaluate m dr s orders seq sid b))"
proof -
  obtain tracker measured where v: "volatility_update m (sb_volatility b) (ob_timestamp s) (snapshot_mid s) = (tracker, measured)"
    by fastforce
  show ?thesis
  proof (cases measured)
    case (Inl e)
    then show ?thesis using v ok by (simp add: shadow_evaluate_def)
  next
    case (Inr volatility)
    define live where "live = set (map to_client_order_id orders)"
    define b1 where "b1 = b\<lparr> sb_volatility := tracker, sb_quotes := filter (\<lambda>(cid, q). cid \<in> live) (sb_quotes b) \<rparr>"
    obtain b2 batch where two: "fold (shadow_quote s) orders (b1, []) = (b2, batch)" by fastforce
    have "book_ok b1" using ok by (auto simp: book_ok_def b1_def)
    from shadow_quotes_ok [OF this _ two] have b2: "book_ok b2" "batch_ok b2 batch"
      "subseq (map oq_quote_id batch) (map to_client_order_id orders)" by (auto simp: batch_ok_def)
    have plain1: "(plain_book b)\<lparr> sb_volatility := tracker, sb_quotes := filter (\<lambda>(cid, q). cid \<in> live) (sb_quotes (plain_book b)) \<rparr>
        = plain_book b1"
      by (simp add: plain_book_def b1_def filter_map o_def case_prod_unfold)
    have two': "fold (shadow_quote (plain_snapshot s)) (map plain_order orders) (plain_book b1, []) = (plain_book b2, map plain_quote batch)"
      using shadow_quotes_plain [of s orders b1 "[]"] two by simp
    have live: "set (map to_client_order_id (map plain_order orders)) = live" by (simp add: live_def image_image)
    let ?fp = "shadow_fill_params m dr b2 seq volatility"
    have run: "shadow_evaluate m dr s orders seq sid b =
       (if batch = [] then (b2, ok [])
        else sbind (b2, detect_fills ?fp batch s) (\<lambda>b2 (quotes, fills).
          case fold (book_shadow_fill s seq sid) fills (keep_evaluated quotes b2, []) of (b3, out) \<Rightarrow> (b3, ok out)))"
      using two by (simp add: shadow_evaluate_def v Inr Let_def b1_def live_def)
    have run': "shadow_evaluate m dr (plain_snapshot s) (map plain_order orders) seq sid (plain_book b) =
       (if batch = [] then (plain_book b2, ok [])
        else sbind (plain_book b2, map_sum id (map_prod (map plain_quote) (map plain_fill)) (detect_fills ?fp batch s)) (\<lambda>b2 (quotes, fills).
          case fold (book_shadow_fill (plain_snapshot s) seq sid) fills (keep_evaluated quotes b2, []) of (b3, out) \<Rightarrow> (b3, ok out)))"
      using two' plain1 by (simp add: shadow_evaluate_def v Inr Let_def live del: set_map map_map plain_book_simps(4) add: detect_fills_plain)
    show ?thesis
    proof (cases "detect_fills ?fp batch s")
      case (Inl e)
      then show ?thesis using b2(1) by (simp add: run run')
    next
      case (Inr r)
      then obtain quotes fills where r: "detect_fills ?fp batch s = Inr (quotes, fills)" by (cases r) simp
      have size: "\<forall>q\<in>set batch. 0 < qt_size (oq_quote q)" using b2(2) by (simp add: batch_ok_def)
      note facts = detect_fills_facts [OF r size]
      from facts have "oq_quote ` set quotes = oq_quote ` set batch" by (metis list.set_map)
      then have "\<forall>q\<in>set quotes. 0 < qt_size (oq_quote q)" using size by (metis (no_types, opaque_lifting) image_iff)
      note kept = keep_evaluated_ok [OF b2(1) this]
      have sub: "subseq (map fl_quote_id fills) (map Some (map oq_quote_id batch))" using facts by (simp add: o_def)
      have "distinct (map oq_quote_id batch)" using b2(3) ids subseq_keeps_distinct by blast
      then have "distinct (map Some (map oq_quote_id batch))" by (simp only: distinct_map [of Some] inj_Some inj_on_def) simp
      with sub have dist: "distinct (map fl_quote_id fills)" using subseq_keeps_distinct by blast
      have there: "\<exists>cid. fl_quote_id f = Some cid \<and> dict_get (sb_quotes (keep_evaluated quotes b2)) cid \<noteq> None" if f: "f \<in> set fills" for f
      proof -
        have "fl_quote_id f \<in> set (map Some (map oq_quote_id batch))" using list_emb_set [OF sub, of "fl_quote_id f"] f by auto
        then obtain q where "q \<in> set batch" "fl_quote_id f = Some (oq_quote_id q)" by auto
        then show ?thesis using kept b2(2) by (auto simp: batch_ok_def)
      qed
      note booked = book_shadow_fills_plain [OF conjunct1 [OF kept] dist, of s seq sid "[]"]
      obtain b3 out where three: "fold (book_shadow_fill s seq sid) fills (keep_evaluated quotes b2, []) = (b3, out)" by fastforce
      with booked there have "fold (book_shadow_fill (plain_snapshot s) seq sid) (map plain_fill fills) (plain_book (keep_evaluated quotes b2), [])
          = (plain_book b3, out)" "book_ok b3" by auto
      with three b2(1) show ?thesis by (simp add: run run' r keep_evaluated_plain)
    qed
  qed
qed

lemma run_books_plain:
  assumes "distinct (map to_client_order_id orders)"
  shows "list_all book_ok books \<Longrightarrow> map_prod (map plain_book) id (run_books m dr s orders seq sid books)
      = run_books m dr (plain_snapshot s) (map plain_order orders) seq sid (map plain_book books)
    \<and> list_all book_ok (fst (run_books m dr s orders seq sid books))"
proof (induction books)
  case (Cons b books)
  obtain b' r where one: "shadow_evaluate m dr s orders seq sid b = (b', r)" by fastforce
  obtain books' rs where rest: "run_books m dr s orders seq sid books = (books', rs)" by fastforce
  have "shadow_evaluate m dr (plain_snapshot s) (map plain_order orders) seq sid (plain_book b) = (plain_book b', r)" "book_ok b'"
    using shadow_evaluate_plain [OF _ assms, of b m dr s seq sid] Cons.prems one by auto
  moreover have "run_books m dr (plain_snapshot s) (map plain_order orders) seq sid (map plain_book books) = (map plain_book books', rs)"
      "list_all book_ok books'"
    using Cons rest by auto
  ultimately show ?case using Cons.prems one rest by (cases r) simp_all
qed simp

section \<open>A session being recorded\<close>

text \<open>
  A session from the state \<open>t0\<close> on, with the ticks and the shadow fills its looks have produced: between two looks the
  trader does whatever keeps \<open>life\<close>, the session, and the shadow books.
\<close>

inductive session_watched :: "'x TraderEnv \<Rightarrow> 'x TestnetTrader \<Rightarrow> TestnetTick list \<Rightarrow> ShadowFill list \<Rightarrow> 'x TestnetTrader \<Rightarrow> bool"
  for env t0 where
  watch_start: "session_watched env t0 [] [] t0"
| watch_look: "session_watched env t0 ticks fills t \<Longrightarrow> evaluate_shadows env snapshot t = (t', Inr (tick, new_fills))
    \<Longrightarrow> session_watched env t0 (ticks @ [tick]) (fills @ new_fills) t'"
| watch_other: "session_watched env t0 ticks fills t \<Longrightarrow> life t t' \<Longrightarrow> resets t' = resets t \<Longrightarrow> session_id_of t' = session_id_of t
    \<Longrightarrow> tt_shadows t' = tt_shadows t \<Longrightarrow> tt_tick_seq t' = tt_tick_seq t \<Longrightarrow> session_watched env t0 ticks fills t'"

text \<open>The record of every acknowledged order shows it as it was looked at.\<close>

definition explains :: "(string, TestnetOrder) dict \<Rightarrow> 'x TestnetTrader \<Rightarrow> bool" where
  "explains known t \<longleftrightarrow> (\<forall>cid order. dict_get (tt_orders t) cid = Some order \<and> to_acked_at order \<noteq> None
     \<longrightarrow> (\<exists>order'. dict_get known cid = Some order' \<and> plain_order order' = plain_order order))"

lemma forward_plain: "forward o1 o2 \<Longrightarrow> to_acked_at o1 \<noteq> None \<Longrightarrow> to_acked_at o2 \<noteq> None \<and> plain_order o2 = plain_order o1"
  by (auto simp: forward_def same_order_def intro!: plain_order_eqI)

lemma explains_earlier:
  assumes "explains known t'" "orders_forward t t'"
  shows "explains known t"
  unfolding explains_def
proof (intro allI impI, elim conjE)
  fix cid order assume order: "dict_get (tt_orders t) cid = Some order" "to_acked_at order \<noteq> None"
  with assms(2) obtain order' where later: "dict_get (tt_orders t') cid = Some order'" "forward order order'"
    by (auto simp: orders_forward_def)
  note same = forward_plain [OF later(2) order(2)]
  with assms(1) later(1) obtain known_order where "dict_get known cid = Some known_order" "plain_order known_order = plain_order order'"
    unfolding explains_def by blast
  with same show "\<exists>order'. dict_get known cid = Some order' \<and> plain_order order' = plain_order order" by auto
qed

lemma evaluate_books_run: "evaluate_books env = run_books (te_libm env) (te_draws env)"
proof (intro ext)
  fix s orders seq sid books
  show "evaluate_books env s orders seq sid books = run_books (te_libm env) (te_draws env) s orders seq sid books"
    by (induction books) (auto split: prod.split sum.split)
qed

lemma evaluate_shadowsE:
  assumes "evaluate_shadows env snapshot t = (t', Inr (tick, fills))" "session_id_of t = Some sid"
  obtains orders where "orders = orders_in_window (ob_timestamp snapshot) t"
    "tick = testnet_tick sid (tt_tick_seq t + 1) snapshot orders"
    "run_books (te_libm env) (te_draws env) snapshot orders (tt_tick_seq t + 1) sid (tt_shadows t) = (tt_shadows t', Inr fills)"
    "tt_tick_seq t' = tt_tick_seq t + 1" "same_records t t'"
proof -
  from assms(2) obtain session where session: "tt_session t = Some session" "se_session_id session = sid"
    by (auto simp: session_id_of_def)
  then show ?thesis using that assms(1)
    by (auto simp: evaluate_shadows_def evaluate_books_run present_def then_do_def lifted_def
        orders_in_window_def same_records_def session_id_of_def resets_def split: prod.splits sum.splits)
qed

section \<open>Replaying it\<close>

lemma tick_of_look:
  "plain_snapshot (tick_snapshot (testnet_tick sid seq s orders) symbol) = plain_snapshot s"
  by (auto simp: plain_snapshot_def tick_snapshot_def testnet_tick_def tick_level_def best_bid_def best_ask_def best_bid_size_def
      best_ask_size_def split: list.split)

lemma window_of_look:
  assumes "records_ok t" "explains known t"
  shows "map plain_order (tick_window known (testnet_tick sid seq s (orders_in_window at_time t)))
      = map plain_order (orders_in_window at_time t)"
    and "distinct (map to_client_order_id (orders_in_window at_time t))"
proof -
  have keys: "map to_client_order_id (map snd (tt_orders t)) = map fst (tt_orders t)"
    using assms(1) by (auto simp: records_ok_def order_ok_def wf_dict_def dict_keys_def)
  have known: "\<exists>order'. dict_get known (to_client_order_id order) = Some order' \<and> plain_order order' = plain_order order"
    if "order \<in> set (orders_in_window at_time t)" for order
  proof -
    from that obtain cid where "(cid, order) \<in> set (tt_orders t)" "to_acked_at order \<noteq> None"
      by (auto simp: orders_in_window_def in_window_def split: option.splits)
    moreover from this have "dict_get (tt_orders t) cid = Some order" "to_client_order_id order = cid"
      using assms(1) by (auto simp: records_ok_def order_ok_def wf_dict_def dict_keys_def)
    ultimately show ?thesis using assms(2) by (auto simp: explains_def)
  qed
  have "map plain_order (List.map_filter (dict_get known) (map to_client_order_id orders)) = map plain_order orders"
    if "set orders \<subseteq> set (orders_in_window at_time t)" for orders
    using that known by (induction orders) (fastforce simp: List.map_filter_def)+
  then show "map plain_order (tick_window known (testnet_tick sid seq s (orders_in_window at_time t)))
      = map plain_order (orders_in_window at_time t)"
    by (simp add: tick_window_def testnet_tick_def)
  have "subseq (map to_client_order_id (orders_in_window at_time t)) (map fst (tt_orders t))"
    unfolding orders_in_window_def keys [symmetric] by (intro subseq_map subseq_filter_left)
  moreover have "distinct (map fst (tt_orders t))" using assms(1) by (simp add: records_ok_def wf_dict_def dict_keys_def)
  ultimately show "distinct (map to_client_order_id (orders_in_window at_time t))" using subseq_keeps_distinct by blast
qed

lemma orders_by_id_get:
  "distinct (map to_client_order_id orders) \<Longrightarrow> order \<in> set orders
     \<Longrightarrow> dict_get (orders_by_id orders) (to_client_order_id order) = Some order"
  unfolding orders_by_id_def by (induction orders rule: rev_induct) (auto simp: image_iff)

lemma recorded_orders_explain:
  assumes "records_ok t" "mset orders = mset (map snd (tt_orders t))"
  shows "explains (orders_by_id orders) t"
proof -
  have keys: "map to_client_order_id (map snd (tt_orders t)) = map fst (tt_orders t)"
    using assms(1) by (auto simp: records_ok_def order_ok_def wf_dict_def dict_keys_def)
  have "mset (map to_client_order_id orders) = mset (map to_client_order_id (map snd (tt_orders t)))"
    using assms(2) by (metis mset_map)
  from mset_eq_imp_distinct_iff [OF this] have "distinct (map to_client_order_id orders)"
    unfolding keys using assms(1) by (simp add: records_ok_def wf_dict_def dict_keys_def)
  note get = orders_by_id_get [OF this]
  have "set orders = set (map snd (tt_orders t))" using assms(2) by (rule mset_eq_setD)
  then have "dict_get (orders_by_id orders) cid = Some order" if "dict_get (tt_orders t) cid = Some order" for cid order
  proof -
    have "to_client_order_id order = cid" using assms(1) that by (simp add: records_ok_def order_ok_def)
    moreover have "order \<in> set (map snd (tt_orders t))" using map_of_SomeD [OF that] by force
    ultimately show ?thesis using get [of order] \<open>set orders = _\<close> by simp
  qed
  then show ?thesis by (auto simp: explains_def)
qed

lemma session_kept:
  assumes "session_watched env t0 ticks fills t" "records_ok t0" "session_id_of t0 = Some sid"
  shows "records_ok t \<and> session_id_of t = Some sid \<and> sorted_wrt (<) (map tk_seq ticks) \<and> (\<forall>tk\<in>set ticks. tk_seq tk \<le> tt_tick_seq t)"
  using assms
proof (induction rule: session_watched.induct)
  case (watch_look ticks fills t snapshot t' tick new_fills)
  then have kept: "records_ok t" "session_id_of t = Some sid" "sorted_wrt (<) (map tk_seq ticks)" "\<forall>tk\<in>set ticks. tk_seq tk \<le> tt_tick_seq t"
    by auto
  obtain orders where "tick = testnet_tick sid (tt_tick_seq t + 1) snapshot orders" "tt_tick_seq t' = tt_tick_seq t + 1"
      and same: "same_records t t'"
    by (rule evaluate_shadowsE [OF watch_look.hyps(2) kept(2)])
  then have "tk_seq tick = tt_tick_seq t + 1" "tt_tick_seq t' = tt_tick_seq t + 1" by (simp_all add: testnet_tick_def)
  moreover from same have "records_ok t'" "session_id_of t' = Some sid"
    using kept life_same [of t t'] by (auto simp: life_def same_records_def)
  moreover have "tk_seq tk < tt_tick_seq t + 1" "tk_seq tk \<le> tt_tick_seq t + 1" if "tk \<in> set ticks" for tk
    using kept(4) that by fastforce+
  ultimately show ?case using kept(3) by (simp add: sorted_wrt_append)
qed (auto simp: life_def)

lemma session_replayed:
  assumes "session_watched env t0 ticks fills t" "records_ok t0" "session_id_of t0 = Some sid" "explains known t"
    and "list_all book_ok (tt_shadows t0)"
  shows "\<exists>books. list_all book_ok books \<and> list_all book_ok (tt_shadows t) \<and> map plain_book books = map plain_book (tt_shadows t)
    \<and> (\<forall>later. replay_ticks (te_libm env) (te_draws env) symbol sid known (tt_shadows t0) (ticks @ later)
         = rbind (replay_ticks (te_libm env) (te_draws env) symbol sid known books later) (\<lambda>fs. ok (fills @ fs)))"
  using assms
proof (induction rule: session_watched.induct)
  case watch_start
  then show ?case by (intro exI [of _ "tt_shadows t0"]) (simp add: rbind_def split: sum.split)
next
  case (watch_look ticks fills t snapshot t' tick new_fills)
  note kept = session_kept [OF watch_look.hyps(1) watch_look.prems(1,2)]
  obtain orders where look: "orders = orders_in_window (ob_timestamp snapshot) t"
      "tick = testnet_tick sid (tt_tick_seq t + 1) snapshot orders"
      "run_books (te_libm env) (te_draws env) snapshot orders (tt_tick_seq t + 1) sid (tt_shadows t) = (tt_shadows t', Inr new_fills)"
      "same_records t t'"
    by (rule evaluate_shadowsE [OF watch_look.hyps(2) conjunct1 [OF conjunct2 [OF kept]]])
  have known: "explains known t" using watch_look.prems(3) look(4) by (simp add: explains_def same_records_def)
  then obtain books where books: "list_all book_ok books" "list_all book_ok (tt_shadows t)"
      "map plain_book books = map plain_book (tt_shadows t)"
      "\<And>later. replay_ticks (te_libm env) (te_draws env) symbol sid known (tt_shadows t0) (ticks @ later)
         = rbind (replay_ticks (te_libm env) (te_draws env) symbol sid known books later) (\<lambda>fs. ok (fills @ fs))"
    using watch_look.IH watch_look.prems by blast
  let ?window = "tick_window known tick"
  have window: "map plain_order ?window = map plain_order orders" "distinct (map to_client_order_id orders)"
    using window_of_look [of t known] kept known unfolding look(1,2) by blast+
  have "map to_client_order_id ?window = map to_client_order_id orders"
    using arg_cong [OF window(1), of "map to_client_order_id"] by (simp add: o_def)
  with window(2) have ids: "distinct (map to_client_order_id ?window)" by simp
  obtain books' r where run: "run_books (te_libm env) (te_draws env) (tick_snapshot tick symbol) ?window (tk_seq tick) sid books = (books', r)"
    by fastforce
  have seq: "tk_seq tick = tt_tick_seq t + 1" by (simp add: look(2) testnet_tick_def)
  have "plain_snapshot (tick_snapshot tick symbol) = plain_snapshot snapshot" unfolding look(2) by (rule tick_of_look)
  then have "(map plain_book books', r) = (map plain_book (tt_shadows t'), Inr new_fills)" "list_all book_ok books'" "list_all book_ok (tt_shadows t')"
    using run_books_plain [OF ids books(1), of "te_libm env" "te_draws env" "tick_snapshot tick symbol" "tk_seq tick" sid]
      run_books_plain [OF window(2) books(2), of "te_libm env" "te_draws env" snapshot "tk_seq tick" sid]
    unfolding window(1) books(3) run by (simp_all add: look(3) seq)
  moreover have "replay_ticks (te_libm env) (te_draws env) symbol sid known (tt_shadows t0) ((ticks @ [tick]) @ later)
      = rbind (replay_ticks (te_libm env) (te_draws env) symbol sid known books' later) (\<lambda>fs. ok ((fills @ new_fills) @ fs))"
    if "r = Inr new_fills" for later
    using books(4) [of "tick # later"] run that by (simp add: rbind_def split: sum.split)
  ultimately show ?case by (intro exI [of _ books']) simp
next
  case (watch_other ticks fills t t')
  have "records_ok t" using session_kept [OF watch_other.hyps(1) watch_other.prems(1,2)] by blast
  then have "explains known t" using watch_other explains_earlier by (auto simp: life_def)
  then show ?case using watch_other by simp
qed

lemma new_books_ok: "list_all book_ok (replay_books rec models calibration)"
  by (simp add: replay_books_def list_all_iff book_ok_def shadow_init_def)

lemma new_shadows_replayed:
  assumes "se_maker_commission_bps (rd_session rec) = bps" "rd_fill_latency_ticks rec = Some (s_fill_latency_ticks st)"
    and "rd_fill_probability rec = Some (s_fill_probability st)"
  shows "new_shadows st bps calibration = replay_books rec FILL_MODELS calibration"
  using assms by (simp add: new_shadows_def replay_books_def CALIBRATED_MODEL_def)

text \<open>C37. The recording of a session replays to exactly the shadow fills of the live session, in the same order, although it
  keeps only the best level of each order book and the last state of each order; and checking such a recording against the
  fills it stores finds no mismatch. The ticks and the orders may be stored in any order.
\<close>

theorem replay_reproduces_live:
  assumes "records_ok t0" "session_id_of t0 = Some (se_session_id (rd_session rec))"
    and "tt_shadows t0 = replay_books rec models calibration" "session_watched env t0 ticks fills t"
    and "mset (rd_ticks rec) = mset ticks" "mset (rd_orders rec) = mset (map snd (tt_orders t))"
  shows "replay_shadows (te_libm env) (te_draws env) rec models calibration = ok fills
    \<and> (if rd_shadow_models rec = Some models \<and> models \<noteq> [] \<and> used_calibration rec known = ok (Some calibration)
          \<and> mset (filter (\<lambda>f. sf_fill_model f \<in> set models) (rd_shadow_fills rec)) = mset fills
       then replay_mismatches (te_libm env) (te_draws env) rec known = ok [] else True)"
proof -
  note kept = session_kept [OF assms(4,1,2)]
  have "sorted (map tk_seq ticks)" "distinct (map tk_seq ticks)"
    using kept strict_sorted_iff [of "map tk_seq ticks"] by auto
  moreover have "inj_on tk_seq (set (rd_ticks rec))"
    using calculation(2) mset_eq_setD [OF assms(5)] by (simp add: distinct_map)
  ultimately have ticks: "sort_key tk_seq (rd_ticks rec) = ticks"
    using sort_key_inj_key_eq [OF assms(5)] by blast
  have "explains (orders_by_id (rd_orders rec)) t" using kept assms(6) by (intro recorded_orders_explain) auto
  from session_replayed [OF assms(4,1,2) this, of "case rd_symbol rec of Some s \<Rightarrow> s | None \<Rightarrow> ''BTCUSDT''"]
  obtain books where "\<And>later. replay_ticks (te_libm env) (te_draws env) (case rd_symbol rec of Some s \<Rightarrow> s | None \<Rightarrow> ''BTCUSDT'')
        (se_session_id (rd_session rec)) (orders_by_id (rd_orders rec)) (tt_shadows t0) (ticks @ later)
      = rbind (replay_ticks (te_libm env) (te_draws env) (case rd_symbol rec of Some s \<Rightarrow> s | None \<Rightarrow> ''BTCUSDT'')
        (se_session_id (rd_session rec)) (orders_by_id (rd_orders rec)) books later) (\<lambda>fs. ok (fills @ fs))"
    using new_books_ok [of rec models calibration] assms(3) by auto
  from this [of "[]"] have fills: "replay_shadows (te_libm env) (te_draws env) rec models calibration = ok fills"
    by (simp add: replay_shadows_def ticks assms(3))
  moreover have "replay_mismatches (te_libm env) (te_draws env) rec known = ok []"
    if "rd_shadow_models rec = Some models \<and> models \<noteq> [] \<and> used_calibration rec known = ok (Some calibration)
          \<and> mset (filter (\<lambda>f. sf_fill_model f \<in> set models) (rd_shadow_fills rec)) = mset fills"
  proof -
    have "sort (map fill_key (filter (\<lambda>f. sf_fill_model f \<in> set models) (rd_shadow_fills rec))) = sort (map fill_key fills)"
      using that by (intro properties_for_sort) (simp_all add: mset_map)
    moreover have "checked_models rec known = ok models" "stored_models rec = models"
      using that by (simp_all add: checked_models_def stored_models_def)
    ultimately show ?thesis using that fills by (simp add: replay_mismatches_def Let_def)
  qed
  ultimately show ?thesis by simp
qed

text \<open>A session of one look: the book's ask has reached the order's price.\<close>

definition lone_look :: OrderBookSnapshot where
  "lone_look = \<lparr> ob_symbol = ''BTC/USDT'', ob_bids = [\<lparr> lv_price = 1, lv_size = 1 \<rparr>], ob_asks = [\<lparr> lv_price = 1, lv_size = 1 \<rparr>],
     ob_timestamp = 8, ob_is_stale = False, ob_tick_id = None \<rparr>"

definition lone_recording :: "TestnetTick list \<Rightarrow> RecordedSession" where
  "lone_recording ticks =
     \<lparr> rd_session = new_session default_settings ''abc'' 4 (trader_init default_settings ()), rd_symbol = None,
       rd_fill_latency_ticks = None, rd_fill_probability = None, rd_orders = [lone_order], rd_fills = [], rd_shadow_fills = [],
       rd_ticks = ticks, rd_last_mid = None, rd_shadow_models = Some [FULL_CROSS], rd_calibration = Some None,
       rd_replayed_models = [] \<rparr>"

definition shadowed_trader :: "unit TestnetTrader" where
  "shadowed_trader = lone_trader\<lparr> tt_shadows := replay_books (lone_recording []) [FULL_CROSS] None \<rparr>"

lemma EPS_less_1: "EPS < 1"
proof -
  have half: "fl (2 powi (- 1)) = 2 powi (- 1)" using fl_dyadic [of 1 "- 1"] by simp
  have "(1 / 10 ^ 12 :: real) \<le> 2 powi (- 1)" by (simp add: power_int_minus)
  then have "fl (1 / 10 ^ 12) \<le> 2 powi (- 1)" using half by (metis fl.mono)
  then show ?thesis by (simp add: EPS_def less_val val_lit power_int_minus)
qed

lemma first_volatility: "\<exists>tracker. volatility_update m (volatility_tracker_init w) t mid = (tracker, ok None)"
  by (auto simp: volatility_update_def volatility_tracker_init_def tracker_with_def volatility_value_def Let_def split: option.split)

lemma lone_look_fills: "\<exists>t' tick fill. evaluate_shadows silent_env lone_look shadowed_trader = (t', Inr (tick, [fill]))"
proof -
  have window: "orders_in_window 8 shadowed_trader = [lone_order]"
    by (simp add: orders_in_window_def in_window_def shadowed_trader_def lone_trader_def lone_order_def trader_init_def)
  have book: "best_bid lone_look = Some 1" "best_ask lone_look = Some 1" "ob_timestamp lone_look = 8"
    by (simp_all add: best_bid_def best_ask_def lone_look_def)
  have eps: "\<not> (1 \<le> EPS)" "\<not> (EPS < 0)" using EPS_pos EPS_less_1 by (simp_all add: not_le)
  have one: "\<exists>b f. shadow_evaluate m dr lone_look [lone_order] seq sid (shadow_init FULL_CROSS bps n p None) = (b, ok [f])" for m dr seq sid bps n p
  proof -
    obtain tracker where "volatility_update m (volatility_tracker_init VOLATILITY_WINDOW_SEC) 8 (snapshot_mid lone_look) = (tracker, ok None)"
      using first_volatility by blast
    then show ?thesis
      by (simp add: shadow_evaluate_def shadow_init_def book eps shadow_quote_def shadow_open_quote_def dict_get_or_def lone_order_def
          detect_fills_def evaluate_quote_def is_crossed_def fill_size_for_cross_def shadow_fill_params_def Let_def
          book_shadow_fill_def make_fill_def keep_evaluated_def)
  qed
  have books: "\<exists>bs f. run_books m dr lone_look [lone_order] seq sid (tt_shadows shadowed_trader) = (bs, ok [f])" for m dr seq sid
  proof -
    have "\<exists>bps n p. tt_shadows shadowed_trader = [shadow_init FULL_CROSS bps n p None]"
      by (auto simp: shadowed_trader_def replay_books_def)
    then obtain bps n p where shadows: "tt_shadows shadowed_trader = [shadow_init FULL_CROSS bps n p None]" by blast
    obtain b f where "shadow_evaluate m dr lone_look [lone_order] seq sid (shadow_init FULL_CROSS bps n p None) = (b, ok [f])"
      using one by blast
    then show ?thesis by (simp add: shadows)
  qed
  have session: "tt_session shadowed_trader = tt_session lone_trader" "tt_session lone_trader \<noteq> None"
    by (simp_all add: shadowed_trader_def lone_trader_def)
  have window': "orders_in_window 8 (shadowed_trader\<lparr> tt_tick_seq := n \<rparr>) = [lone_order]" for n
    using window by (simp add: orders_in_window_def)
  from session obtain session where "tt_session shadowed_trader = Some session" by auto
  then show ?thesis
    using books [of "te_libm silent_env" "te_draws silent_env" "tt_tick_seq shadowed_trader + 1" "se_session_id session"]
    by (auto simp: evaluate_shadows_def evaluate_books_run present_def then_do_def lifted_def window' book)
qed

theorem replay_reproduces_live_witness:
  "case evaluate_shadows silent_env lone_look shadowed_trader of
      (t', Inl e) \<Rightarrow> False
    | (t', Inr (tick, fills)) \<Rightarrow>
        length fills = 1
        \<and> replay_shadows (te_libm silent_env) (te_draws silent_env) (lone_recording [tick]) [FULL_CROSS] None = ok fills"
proof -
  obtain t' tick fill where run: "evaluate_shadows silent_env lone_look shadowed_trader = (t', Inr (tick, [fill]))"
    using lone_look_fills by blast
  have sid: "session_id_of shadowed_trader = Some (se_session_id (rd_session (lone_recording [tick])))"
    by (simp add: session_id_of_def shadowed_trader_def lone_trader_def lone_recording_def)
  have ok: "records_ok shadowed_trader" using lone_trader_ok by (simp add: records_ok_def shadowed_trader_def session_id_of_def)
  have "same_records shadowed_trader t'" by (rule evaluate_shadowsE [OF run sid])
  then have "mset (rd_orders (lone_recording [tick])) = mset (map snd (tt_orders t'))"
    by (simp add: same_records_def shadowed_trader_def lone_trader_def lone_recording_def)
  moreover have "session_watched silent_env shadowed_trader ([] @ [tick]) ([] @ [fill]) t'"
    using watch_start run by (rule watch_look)
  moreover have "tt_shadows shadowed_trader = replay_books (lone_recording [tick]) [FULL_CROSS] None"
    by (simp add: shadowed_trader_def replay_books_def lone_recording_def)
  ultimately have "replay_shadows (te_libm silent_env) (te_draws silent_env) (lone_recording [tick]) [FULL_CROSS] None = ok [fill]"
    using replay_reproduces_live [OF ok sid, of "[FULL_CROSS]" None silent_env "[tick]" "[fill]" t'] by (simp add: lone_recording_def)
  with run show ?thesis by simp
qed

end
