(* ===== verification/Mempool_Watcher.thy ===== *)
theory Mempool_Watcher
  imports Router_Decoder Verifier Actions Lab_Settings Py_Format
begin

text \<open>
  The mempool watcher (\<open>app/services/mempool/watcher.py\<close>): pending swaps are decoded and queued, predicted on the latest
  tracked block, and settled block by block, with the rolling of the pool state, reorganisations and replay. Each step
  method is an action on the watcher's state; the node, the loader of anchors, the repository and the clocks are
  arguments that act on a world of their own. Metrics, logging and the tasks themselves are not modelled.
\<close>

section \<open>Records\<close>

datatype SourceName = ws | http_filter | replay_source
datatype WatcherState = disabled_state | starting_state | ok_state | degraded_state | unavailable_state

record ModeChange =
  mc_at :: datetime
  mc_from_mode :: "Mode option"
  mc_to_mode :: Mode
  mc_source :: SourceName
  mc_reason :: string

definition COUNTER_NAMES :: "string list" where
  "COUNTER_NAMES =
     [''seen'', ''kept'', ''decoded'', ''not_decoded'', ''dropped_queue'', ''dropped_budget'', ''pending_watched'',
      ''blocks_processed'', ''reanchors'', ''state_mismatches'', ''reorgs'']"

record WatcherStatus =
  wt_enabled :: bool
  wt_mode :: "Mode option"
  wt_state :: WatcherState
  wt_reason :: "string option"
  wt_backend :: "string option"
  wt_source :: "SourceName option"
  wt_counters :: "(string, int) dict"
  wt_last_block :: "int option"
  wt_last_switch :: "ModeChange option"
  wt_started_at :: "datetime option"
  wt_replay_alongside :: bool

text \<open>A block and a receipt as the node sends them: the status is \<open>None\<close> when the receipt or the field is missing.\<close>

record RpcBlock =
  rb_number :: json_num
  rb_hash :: string
  rb_parent_hash :: string
  rb_timestamp :: json_num
  rb_base_fee :: "json_num option"
  rb_tx_hashes :: "string list"

text \<open>A call to the outside: it acts on the world and returns a value or raises.\<close>

type_synonym ('x, 'a) call = "'x \<Rightarrow> 'x \<times> 'a res"

record 'x WatcherEnv =
  we_settings :: Settings
  we_libm :: Libm
  we_abi :: Abi
  we_abi_encode :: "string list \<Rightarrow> AbiValue list \<Rightarrow> bytes res"
  we_decode_depth :: nat
  rpc_block_number :: "('x, json_num) call"
  rpc_get_block :: "int \<Rightarrow> ('x, RpcBlock option) call"
  rpc_get_logs :: "string \<Rightarrow> string list \<Rightarrow> ('x, RawLog list option) call"
  rpc_eth_call :: "string \<Rightarrow> bytes \<Rightarrow> ('x, string option) call"
  rpc_receipt_status :: "string \<Rightarrow> ('x, json_num option) call"
  rpc_transaction_count :: "string \<Rightarrow> int \<Rightarrow> ('x, json_num) call"
  we_load_anchor :: "BlockHeader \<Rightarrow> ('x, PoolConfig \<times> PairState) call"
  rep_get_pending :: "('x, WatchedSwap list) call"
  rep_upsert_swaps :: "WatchedSwap list \<Rightarrow> ('x, unit) call"
  rep_save_block :: "BlockVisibility \<Rightarrow> ('x, unit) call"
  rep_save_mode_change :: "ModeChange \<Rightarrow> ('x, unit) call"
  rep_purge :: "datetime \<Rightarrow> ('x, unit) call"
  we_now :: "'x \<Rightarrow> 'x \<times> datetime"
  we_monotonic :: "'x \<Rightarrow> 'x \<times> f64"
  we_head_poll_sec :: f64
  we_head_lag :: int

record 'x MempoolWatcher =
  mw_world :: 'x
  mw_tracker :: "PoolStateTracker option"
  mw_budget_used :: int
  mw_queue :: "(PendingTx \<times> DecodedSwap) list"
  mw_watched :: "(string, WatchedSwap) dict"
  mw_by_nonce :: "(string \<times> int, string) dict"
  mw_recorded :: "(string, unit) dict"
  mw_seen :: "(string, unit) dict"
  mw_resolved_by_block :: "(int, WatchedSwap list) dict"
  mw_not_decoded_since_block :: int
  mw_scan_cache :: "(int \<times> ArbCandidate option) option"
  mw_counters :: "(string, int) dict"
  mw_mode :: Mode
  mw_source :: "SourceName option"
  mw_state :: WatcherState
  mw_reason :: "string option"
  mw_last_switch :: "ModeChange option"
  mw_last_pending_at :: "datetime option"
  mw_live_refused :: bool
  mw_last_block :: "int option"
  mw_block_errors :: nat
  mw_started_at :: "datetime option"
  mw_last_retention :: f64
  mw_running :: bool

type_synonym ('x, 'a) step = "('x MempoolWatcher, py_error, 'a) action"

definition REFUSED_REASON :: string where "REFUSED_REASON = ''endpoint does not share pending transactions''"
definition RETENTION_EVERY_SEC :: f64 where "RETENTION_EVERY_SEC = lit 3600"
definition MAX_REORG_DEPTH :: nat where "MAX_REORG_DEPTH = 12"
definition MAX_CATCH_UP :: int where "MAX_CATCH_UP = 16"
definition BlockNotReady :: py_error where "BlockNotReady = OtherError ''BlockNotReady''"

definition PUBLIC_RPC_HOSTS :: "string list" where
  "PUBLIC_RPC_HOSTS = [''ethereum.publicnode.com'', ''ethereum-rpc.publicnode.com'']"

text \<open>\<open>hostname\<close> is what \<open>urlsplit\<close> finds in the URL, \<open>None\<close> for a missing URL.\<close>

definition endpoint_label :: "string option \<Rightarrow> string option" where
  "endpoint_label hostname =
     (case hostname of
        None \<Rightarrow> None
      | Some host \<Rightarrow>
          if host \<in> {''127.0.0.1'', ''localhost'', ''0.0.0.0'', ''anvil''} then Some ''local-fork''
          else Some (if host \<in> set PUBLIC_RPC_HOSTS then ''public-rpc'' else ''custom-rpc''))"

definition decoder_config :: "Settings \<Rightarrow> DecoderConfig" where
  "decoder_config st =
     \<lparr> dc_v2_pair = py_lower (s_dex_pool_address st), dc_v3_pool = py_lower (s_v3_pool_address st), dc_v3_fee = 500 \<rparr>"

definition scan_params :: "Settings \<Rightarrow> ScanParams" where
  "scan_params st =
     \<lparr> sp_reference_size_quote = s_arb_reference_size_quote st, sp_gas_units = s_arb_gas_units st,
       sp_priority_fee_gwei = s_arb_priority_fee_gwei st, sp_fallback_gas_price_gwei = s_gas_price_gwei st \<rparr>"

definition watcher_init :: "Settings \<Rightarrow> 'x \<Rightarrow> 'x MempoolWatcher" where
  "watcher_init st world =
     \<lparr> mw_world = world, mw_tracker = None, mw_budget_used = 0, mw_queue = [], mw_watched = [], mw_by_nonce = [],
       mw_recorded = [], mw_seen = [], mw_resolved_by_block = [], mw_not_decoded_since_block = 0, mw_scan_cache = None,
       mw_counters = map (\<lambda>name. (name, 0)) COUNTER_NAMES,
       mw_mode = (if s_mempool_mode st = ReplayMode then replay_mode else live_mode),
       mw_source = (if s_mempool_mode st = ReplayMode then Some replay_source else None),
       mw_state = starting_state, mw_reason = None, mw_last_switch = None, mw_last_pending_at = None,
       mw_live_refused = False, mw_last_block = None, mw_block_errors = 0, mw_started_at = None, mw_last_retention = 0,
       mw_running = False \<rparr>"

section \<open>Elements of a step\<close>

definition ask_node :: "('x, 'a) call \<Rightarrow> ('x, 'a) step" where
  "ask_node op = (\<lambda>s. case op (mw_world s) of (w, r) \<Rightarrow> (s\<lparr> mw_world := w \<rparr>, r))"

definition now_of :: "'x WatcherEnv \<Rightarrow> ('x, datetime) step" where
  "now_of env = ask_node (\<lambda>w. case we_now env w of (w', t) \<Rightarrow> (w', ok t))"

definition raised :: "'a res \<Rightarrow> ('x, 'a) step" where
  "raised r = (\<lambda>s. (s, r))"

text \<open>\<open>try ... except Exception\<close> around a call whose result is not used.\<close>

definition quietly :: "('x, unit) step \<Rightarrow> ('x, unit) step" where
  "quietly m = catching m (\<lambda>e. pure ())"

definition bump :: "string \<Rightarrow> ('x, unit) step" where
  "bump name = updating (\<lambda>s. s\<lparr> mw_counters := dict_set name (dict_get_or (mw_counters s) name 0 + 1) (mw_counters s) \<rparr>)"

definition is_rpc_error :: "py_error \<Rightarrow> bool" where
  "is_rpc_error e \<longleftrightarrow> e \<in> {RpcError, RpcRefused, BudgetExceeded}"

definition spend_call :: "'x WatcherEnv \<Rightarrow> ('x, unit) step" where
  "spend_call env = (\<lambda>s.
     if mw_budget_used s + 1 > s_mempool_call_budget_per_block (we_settings env) then (s, Inl BudgetExceeded)
     else (s\<lparr> mw_budget_used := mw_budget_used s + 1 \<rparr>, Inr ()))"

definition remember_hash :: "string \<Rightarrow> int \<Rightarrow> (string, unit) dict \<Rightarrow> (string, unit) dict" where
  "remember_hash k limit store = dict_trim (nat limit) (dict_set_last k () store)"

definition persist_swaps :: "'x WatcherEnv \<Rightarrow> WatchedSwap list \<Rightarrow> ('x, unit) step" where
  "persist_swaps env swaps = quietly (ask_node (rep_upsert_swaps env swaps))"

definition persist_block :: "'x WatcherEnv \<Rightarrow> WatchedSwap list \<Rightarrow> BlockVisibility \<Rightarrow> ('x, unit) step" where
  "persist_block env swaps visibility =
     after (persist_swaps env swaps) (quietly (ask_node (rep_save_block env visibility)))"

section \<open>Status and mode\<close>

definition replays_alongside :: "'x WatcherEnv \<Rightarrow> 'x MempoolWatcher \<Rightarrow> bool" where
  "replays_alongside env s \<longleftrightarrow> mw_mode s = live_mode \<and> s_mempool_replay_alongside (we_settings env)"

definition pending_swaps :: "'x MempoolWatcher \<Rightarrow> WatchedSwap list" where
  "pending_swaps s = rev (sort_key ws_first_seen_at (rev (map snd (mw_watched s))))"

definition watcher_status :: "'x WatcherEnv \<Rightarrow> (string \<Rightarrow> string) \<Rightarrow> 'x MempoolWatcher \<Rightarrow> WatcherStatus" where
  "watcher_status env hostname s =
     (let st = we_settings env;
          url = (if mw_source s = Some ws then s_mempool_ws_url st
                 else Some (case s_mempool_rpc_url st of Some u \<Rightarrow> if u = [] then s_eth_rpc_url st else u | None \<Rightarrow> s_eth_rpc_url st))
      in \<lparr> wt_enabled = True, wt_mode = Some (mw_mode s), wt_state = mw_state s, wt_reason = mw_reason s,
           wt_backend = endpoint_label (case url of None \<Rightarrow> None | Some u \<Rightarrow> if u = [] then None else Some (hostname u)),
           wt_source = mw_source s,
           wt_counters = dict_set ''pending_watched'' (int (length (mw_watched s))) (mw_counters s),
           wt_last_block = mw_last_block s, wt_last_switch = mw_last_switch s, wt_started_at = mw_started_at s,
           wt_replay_alongside = replays_alongside env s \<rparr>)"

definition disabled_watcher_status :: "string \<Rightarrow> WatcherStatus" where
  "disabled_watcher_status reason =
     \<lparr> wt_enabled = False, wt_mode = None, wt_state = disabled_state, wt_reason = Some reason, wt_backend = None,
       wt_source = None, wt_counters = map (\<lambda>name. (name, 0)) COUNTER_NAMES, wt_last_block = None, wt_last_switch = None,
       wt_started_at = None, wt_replay_alongside = False \<rparr>"

definition set_mode :: "'x WatcherEnv \<Rightarrow> Mode \<Rightarrow> SourceName option \<Rightarrow> string \<Rightarrow> ('x, unit) step" where
  "set_mode env mode given reason =
     then_do (reading (\<lambda>s. case given of
        Some source \<Rightarrow> source
      | None \<Rightarrow> if mode = replay_mode then replay_source else (case mw_source s of Some source \<Rightarrow> source | None \<Rightarrow> ws))) (\<lambda>source.
     then_do (reading (\<lambda>s. mode \<noteq> mw_mode s \<or> mw_last_switch s = None)) (\<lambda>changed.
     after (updating (\<lambda>s. s\<lparr> mw_source := Some source \<rparr>))
     (if \<not> changed then pure ()
      else
        then_do (reading (\<lambda>s. if mw_last_switch s = None then None else Some (mw_mode s))) (\<lambda>from_mode.
        then_do (now_of env) (\<lambda>now.
        let change = \<lparr> mc_at = now, mc_from_mode = from_mode, mc_to_mode = mode, mc_source = source, mc_reason = reason \<rparr> in
        after (updating (\<lambda>s. s\<lparr> mw_mode := mode, mw_last_switch := Some change \<rparr>))
              (quietly (ask_node (rep_save_mode_change env change))))))))"

text \<open>Pending records of an earlier run; a failing read ends the step, a failing write raises.\<close>

definition close_stale_records :: "'x WatcherEnv \<Rightarrow> ('x, unit) step" where
  "close_stale_records env =
     then_do (catching (ask_node (rep_get_pending env)) (\<lambda>e. pure [])) (\<lambda>stale.
       if stale = [] then pure ()
       else ask_node (rep_upsert_swaps env (map (\<lambda>w. w\<lparr> ws_status := no_state \<rparr>) stale)))"

definition start_watcher :: "'x WatcherEnv \<Rightarrow> ('x, unit) step" where
  "start_watcher env =
     then_do (reading mw_running) (\<lambda>running.
       if running then pure ()
       else
         after (updating (\<lambda>s. s\<lparr> mw_running := True \<rparr>))
         (then_do (now_of env) (\<lambda>now.
          after (updating (\<lambda>s. s\<lparr> mw_started_at := Some now \<rparr>))
          (after (close_stale_records env)
                 (if s_mempool_mode (we_settings env) = ReplayMode
                  then set_mode env replay_mode (Some replay_source) ''forced by MEMPOOL_MODE=replay'' else pure ())))))"

definition stop_watcher :: "('x, unit) step" where
  "stop_watcher = updating (\<lambda>s. s\<lparr> mw_running := False \<rparr>)"

section \<open>Intake\<close>

definition replace_same_nonce :: "'x WatcherEnv \<Rightarrow> PendingTx \<Rightarrow> ('x, unit) step" where
  "replace_same_nonce env tx =
     (case (pt_sender tx, pt_nonce tx) of
        (Some sender, Some nonce) \<Rightarrow>
          then_do (reading (\<lambda>s. dict_get (mw_by_nonce s) (sender, nonce))) (\<lambda>old_hash.
            case old_hash of
              None \<Rightarrow> pure ()
            | Some old_hash \<Rightarrow>
                if old_hash = pt_tx_hash tx then pure ()
                else
                  then_do (reading (\<lambda>s. dict_get (mw_watched s) old_hash)) (\<lambda>old.
                    case old of
                      None \<Rightarrow> pure ()
                    | Some old \<Rightarrow>
                        after (updating (\<lambda>s. s\<lparr> mw_watched := dict_pop old_hash (mw_watched s) \<rparr>))
                        (then_do (raised (case ws_nonce old of None \<Rightarrow> raise_error TypeError | Some n \<Rightarrow> ok n)) (\<lambda>n.
                         then_do (now_of env) (\<lambda>now.
                           persist_swaps env [resolve_unincluded old (ws_seen_head_block old) (Some (n + 1)) now])))))
      | _ \<Rightarrow> pure ())"

text \<open>The swap of a transaction that trades on our pools is queued, unless the queue is full.\<close>

definition enqueue :: "'x WatcherEnv \<Rightarrow> PendingTx \<Rightarrow> DecodedSwap \<Rightarrow> ('x, unit) step" where
  "enqueue env tx decoded =
     then_do (reading (\<lambda>s. int (length (mw_queue s)) \<ge> s_mempool_queue_size (we_settings env))) (\<lambda>full.
       if full then bump ''dropped_queue'' else updating (\<lambda>s. s\<lparr> mw_queue := mw_queue s @ [(tx, decoded)] \<rparr>))"

definition take_decoded :: "'x WatcherEnv \<Rightarrow> PendingTx \<Rightarrow> DecodeResult \<Rightarrow> ('x, unit) step" where
  "take_decoded env tx result =
     (case result of
        Unrelated \<Rightarrow> pure ()
      | NotDecoded reason \<Rightarrow>
          after (bump ''kept'')
          (after (bump ''not_decoded'')
                 (updating (\<lambda>s. s\<lparr> mw_not_decoded_since_block := mw_not_decoded_since_block s + 1 \<rparr>)))
      | Decoded decoded \<Rightarrow>
          after (bump ''kept'')
          (after (bump ''decoded'')
          (after (replace_same_nonce env tx)
          (after (updating (\<lambda>s. s\<lparr> mw_recorded :=
                    remember_hash (pt_tx_hash tx) (s_mempool_seen_hashes (we_settings env)) (mw_recorded s) \<rparr>))
                 (enqueue env tx decoded)))))"

definition on_pending :: "'x WatcherEnv \<Rightarrow> PendingTx \<Rightarrow> SourceName option \<Rightarrow> ('x, unit) step" where
  "on_pending env tx source =
     (let st = we_settings env; config = decoder_config st in
      after (bump ''seen'')
      (after (updating (\<lambda>s. s\<lparr> mw_seen := remember_hash (pt_tx_hash tx) (s_mempool_seen_hashes st) (mw_seen s) \<rparr>))
      (then_do (now_of env) (\<lambda>now.
       after (updating (\<lambda>s. s\<lparr> mw_last_pending_at := Some now \<rparr>))
       (then_do (reading mw_mode) (\<lambda>mode.
        after (if s_mempool_mode st = AutoMode \<and> mode = replay_mode
               then set_mode env live_mode source ''pending feed available again'' else pure ())
        (after (updating (\<lambda>s. if mw_state s \<in> {unavailable_state, starting_state} \<and> mw_last_block s \<noteq> None
                              then s\<lparr> mw_state := ok_state, mw_reason := None \<rparr> else s))
        (then_do (raised (is_candidate tx config (decoded_targets config))) (\<lambda>candidate.
         then_do (reading (\<lambda>s. dict_get (mw_watched s) (pt_tx_hash tx) \<noteq> None
                             \<or> dict_get (mw_recorded s) (pt_tx_hash tx) \<noteq> None)) (\<lambda>known.
           if \<not> candidate \<or> known then pure ()
           else
             then_do (reading (\<lambda>s. case mw_tracker s of
                        None \<Rightarrow> (True, True)
                      | Some tracker \<Rightarrow> (cf_v2_usdc_is_token0 (tr_config tracker), v3_usdc_is_token0 (tr_config tracker)))) (\<lambda>(v2_first, v3_first).
             then_do (raised (decode_transaction (we_decode_depth env) (we_abi env) tx config v2_first v3_first))
                     (take_decoded env tx))))))))))))"

section \<open>Prediction\<close>

definition QUOTER_V2_ADDRESS :: string where
  "QUOTER_V2_ADDRESS = ''0x61fFE014bA17989E743c5F6cB21bF9697530B21e''"

definition QUOTER_V2_EXACT_INPUT :: "string \<times> string list" where
  "QUOTER_V2_EXACT_INPUT = (''quoteExactInput(bytes,uint256)'', [''uint256'', ''uint160[]'', ''uint32[]'', ''uint256''])"

definition V2_ROUTER_GET_AMOUNTS_OUT :: "string \<times> string list" where
  "V2_ROUTER_GET_AMOUNTS_OUT = (''getAmountsOut(uint256,address[])'', [''uint256[]''])"

text \<open>What a decoded answer says: the first value, and the last one of a list.\<close>

definition first_amount :: "AbiValue list \<Rightarrow> int res" where
  "first_amount values = (case values of [] \<Rightarrow> raise_error IndexError | v # _ \<Rightarrow> abi_int v)"

definition last_amount :: "AbiValue list \<Rightarrow> int res" where
  "last_amount values =
     (case values of
        [] \<Rightarrow> raise_error IndexError
      | v # _ \<Rightarrow> rbind (abi_list v) (\<lambda>xs. if xs = [] then raise_error IndexError else abi_int (last xs)))"

definition resolve_upstream :: "'x WatcherEnv \<Rightarrow> DecodedLeg \<Rightarrow> ('x, DecodedLeg) step" where
  "resolve_upstream env leg =
     (if dl_amount_specified leg \<noteq> None then pure leg
      else
        (case dl_upstream_path leg of
           None \<Rightarrow> throw TypeError
         | Some upstream \<Rightarrow>
             after (spend_call env)
             (let (signature, types, values, target, outputs) =
                (case upstream of
                   UpstreamV3 path paid \<Rightarrow>
                     (fst QUOTER_V2_EXACT_INPUT, [''bytes'', ''uint256''], [AbiBytes path, AbiInt paid], QUOTER_V2_ADDRESS,
                      snd QUOTER_V2_EXACT_INPUT)
                 | UpstreamV2 path paid \<Rightarrow>
                     (fst V2_ROUTER_GET_AMOUNTS_OUT, [''uint256'', ''address[]''], [AbiInt paid, AbiArray (map AbiAddress path)],
                      V2_ROUTER02_ADDRESS, snd V2_ROUTER_GET_AMOUNTS_OUT))
              in then_do (raised (we_abi_encode env types values)) (\<lambda>arguments.
                 then_do (ask_node (rpc_eth_call env (py_lower target) (sel (we_abi env) signature @ arguments))) (\<lambda>raw.
                 then_do (raised (rbind (hex_bytes raw) (\<lambda>answer. rbind (abi_decode (we_abi env) outputs answer) (\<lambda>values.
                    case upstream of UpstreamV3 _ _ \<Rightarrow> first_amount values | UpstreamV2 _ _ \<Rightarrow> last_amount values)))) (\<lambda>amount.
                   pure (leg\<lparr> dl_amount_specified := Some amount, dl_upstream_path := None \<rparr>)))))))"

primrec resolve_legs :: "'x WatcherEnv \<Rightarrow> DecodedLeg list \<Rightarrow> ('x, DecodedLeg list) step" where
  "resolve_legs env [] = pure []"
| "resolve_legs env (leg # legs) =
     then_do (resolve_upstream env leg) (\<lambda>first. then_do (resolve_legs env legs) (\<lambda>others. pure (first # others)))"

text \<open>The scan of a state is kept for the other predictions on the same block.\<close>

definition scan_before_of :: "'x WatcherEnv \<Rightarrow> PoolConfig \<Rightarrow> PairState \<Rightarrow> ('x, ArbCandidate option) step" where
  "scan_before_of env config state =
     then_do (reading mw_scan_cache) (\<lambda>cache.
     let fresh = then_do (raised (scan_state (we_libm env) config state (scan_params (we_settings env)))) (\<lambda>candidate.
           after (updating (\<lambda>s. s\<lparr> mw_scan_cache := Some (pr_block_number state, candidate) \<rparr>)) (pure candidate))
     in case cache of
          Some (number, candidate) \<Rightarrow> if number = pr_block_number state then pure candidate else fresh
        | None \<Rightarrow> fresh)"

definition unpredicted_leg :: "DecodedLeg \<Rightarrow> SwapLeg" where
  "unpredicted_leg leg =
     \<lparr> sl_pool = dl_pool leg, sl_direction = dl_direction leg, sl_kind = dl_kind leg,
       sl_amount_specified = (case dl_amount_specified leg of None \<Rightarrow> 0 | Some n \<Rightarrow> n), sl_limit = dl_limit leg,
       sl_predicted_amount_in = None, sl_predicted_amount_out = None, sl_price_before = None, sl_predicted_price_after = None,
       sl_predicted_sqrt_price_after_x96 = None, sl_predicted_reserves_after = None, sl_flags = dl_flags leg,
       sl_sqrt_price_limit_x96 = None, sl_fixed_amount_out = None \<rparr>"

definition unpredicted :: "PendingTx \<Rightarrow> DecodedSwap \<Rightarrow> int \<Rightarrow> WatchedSwap" where
  "unpredicted tx decoded head_block =
     \<lparr> ws_tx_hash = pt_tx_hash tx, ws_mode = live_mode, ws_route = ds_route decoded, ws_sender = pt_sender tx,
       ws_nonce = pt_nonce tx, ws_first_seen_at = pt_seen_at tx, ws_seen_head_block = head_block,
       ws_deadline = ds_deadline decoded, ws_legs = map unpredicted_leg (ds_legs decoded), ws_gap_before_bps = None,
       ws_gap_after_bps = None, ws_scan_net_before_quote = None, ws_scan_net_after_quote = None, ws_opportunity = None,
       ws_opportunity_direction = None, ws_status = no_state, ws_outcome = None \<rparr>"

definition predicted_swap :: "PendingTx \<Rightarrow> DecodedSwap \<Rightarrow> int \<Rightarrow> Prediction \<Rightarrow> WatchedSwap" where
  "predicted_swap tx decoded head_block p =
     \<lparr> ws_tx_hash = pt_tx_hash tx, ws_mode = live_mode, ws_route = ds_route decoded, ws_sender = pt_sender tx,
       ws_nonce = pt_nonce tx, ws_first_seen_at = pt_seen_at tx, ws_seen_head_block = head_block,
       ws_deadline = ds_deadline decoded, ws_legs = pd_legs p, ws_gap_before_bps = Some (pd_gap_before_bps p),
       ws_gap_after_bps = Some (pd_gap_after_bps p), ws_scan_net_before_quote = pd_scan_net_before_quote p,
       ws_scan_net_after_quote = pd_scan_net_after_quote p, ws_opportunity = pd_opportunity p,
       ws_opportunity_direction = pd_opportunity_direction p, ws_status = pending, ws_outcome = None \<rparr>"

definition watch :: "'x WatcherEnv \<Rightarrow> WatchedSwap \<Rightarrow> ('x, unit) step" where
  "watch env watched =
     after (updating (\<lambda>s. s\<lparr> mw_watched := dict_set (ws_tx_hash watched) watched (mw_watched s),
              mw_by_nonce := (case (ws_sender watched, ws_nonce watched) of
                                (Some sender, Some nonce) \<Rightarrow> dict_set (sender, nonce) (ws_tx_hash watched) (mw_by_nonce s)
                              | _ \<Rightarrow> mw_by_nonce s) \<rparr>))
           (persist_swaps env [watched])"

text \<open>
  One item of the queue, on the state that is tracked when its turn has come. The code waits up to fifteen seconds for a
  first state before that.
\<close>

definition predict_item :: "'x WatcherEnv \<Rightarrow> PendingTx \<Rightarrow> DecodedSwap \<Rightarrow> ('x, unit) step" where
  "predict_item env tx decoded =
     then_do (reading (\<lambda>s. case mw_tracker s of
                None \<Rightarrow> None | Some tracker \<Rightarrow> map_option (\<lambda>state. (tr_config tracker, state)) (latest tracker))) (\<lambda>found.
     case found of
       None \<Rightarrow> persist_swaps env [unpredicted tx decoded 0]
     | Some (config, state) \<Rightarrow>
         then_do (catching (then_do (resolve_legs env (ds_legs decoded)) (\<lambda>legs. pure (Some legs))) (\<lambda>e.
             if e = BudgetExceeded then after (bump ''dropped_budget'') (pure None)
             else if is_rpc_error e \<or> py_value_error e
             then after (persist_swaps env [unpredicted tx decoded (pr_block_number state)]) (pure None)
             else throw e)) (\<lambda>resolved.
         case resolved of
           None \<Rightarrow> pure ()
         | Some legs \<Rightarrow>
             then_do (scan_before_of env config state) (\<lambda>scan_before.
             then_do (raised (predict (we_libm env) config state legs (scan_params (we_settings env)) (ds_deadline decoded)
                                scan_before True)) (\<lambda>prediction.
               watch env (predicted_swap tx decoded (pr_block_number state) prediction)))))"

text \<open>\<open>drain\<close> takes the items one by one; the loop of the task does the same and lets no exception through.\<close>

primrec drain_items :: "'x WatcherEnv \<Rightarrow> nat \<Rightarrow> ('x, unit) step" where
  "drain_items env 0 = pure ()"
| "drain_items env (Suc n) =
     then_do (reading mw_queue) (\<lambda>queue.
     case queue of
       [] \<Rightarrow> pure ()
     | (tx, decoded) # rest \<Rightarrow>
         after (updating (\<lambda>s. s\<lparr> mw_queue := rest \<rparr>))
         (after (predict_item env tx decoded) (drain_items env n)))"

definition drain :: "'x WatcherEnv \<Rightarrow> ('x, unit) step" where
  "drain env = then_do (reading mw_queue) (\<lambda>queue. drain_items env (length queue))"

definition predict_pass :: "'x WatcherEnv \<Rightarrow> ('x, unit) step" where
  "predict_pass env =
     then_do (reading mw_queue) (\<lambda>queue.
     case queue of
       [] \<Rightarrow> pure ()
     | (tx, decoded) # rest \<Rightarrow>
         after (updating (\<lambda>s. s\<lparr> mw_queue := rest \<rparr>)) (quietly (predict_item env tx decoded)))"

section \<open>Following the chain\<close>

definition header_from_block :: "RpcBlock \<Rightarrow> BlockHeader res" where
  "header_from_block block =
     rbind (hex_int (rb_number block)) (\<lambda>number.
     rbind (hex_int (rb_timestamp block)) (\<lambda>seconds.
     rbind (case rb_base_fee block of
              None \<Rightarrow> ok None
            | Some fee \<Rightarrow> if fee = JInt 0 \<or> fee = JText [] then ok None else rbind (hex_int fee) (\<lambda>n. ok (Some n))) (\<lambda>base_fee.
       ok \<lparr> bh_number = number, bh_hash = py_lower (rb_hash block), bh_parent_hash = py_lower (rb_parent_hash block),
            bh_timestamp = seconds * 10 ^ 6, bh_base_fee_wei = base_fee, bh_tx_hashes = map py_lower (rb_tx_hashes block) \<rparr>)))"

definition get_header :: "'x WatcherEnv \<Rightarrow> int \<Rightarrow> ('x, BlockHeader) step" where
  "get_header env number =
     then_do (ask_node (rpc_get_block env number)) (\<lambda>found.
       case found of None \<Rightarrow> throw BlockNotReady | Some block \<Rightarrow> raised (header_from_block block))"

definition anchor_at :: "'x WatcherEnv \<Rightarrow> int \<Rightarrow> ('x, unit) step" where
  "anchor_at env number =
     then_do (get_header env number) (\<lambda>header.
     then_do (ask_node (we_load_anchor env header)) (\<lambda>(config, fresh).
     then_do (\<lambda>s. case tracker_anchor (case mw_tracker s of Some t \<Rightarrow> t | None \<Rightarrow> tracker_init config 16) fresh of
                    (tracker, issues) \<Rightarrow> (s\<lparr> mw_tracker := Some tracker \<rparr>, Inr issues)) (\<lambda>issues.
     after (bump ''reanchors'')
           (if issues \<noteq> None \<and> issues \<noteq> Some [] then bump ''state_mismatches'' else pure ()))))"

text \<open>A reorganisation dropped the blocks from \<open>number\<close> on: their live swaps are pending again.\<close>

definition restored_swaps :: "int \<Rightarrow> (int, WatchedSwap list) dict \<Rightarrow> WatchedSwap list" where
  "restored_swaps number resolved =
     filter (\<lambda>w. ws_mode w = live_mode) (concat (map snd (filter (\<lambda>(n, swaps). n \<ge> number) resolved)))"

definition restore_from :: "int \<Rightarrow> 'x MempoolWatcher \<Rightarrow> 'x MempoolWatcher" where
  "restore_from number s =
     s\<lparr> mw_watched := fold (\<lambda>w. dict_set (ws_tx_hash w) w) (restored_swaps number (mw_resolved_by_block s)) (mw_watched s),
        mw_resolved_by_block := filter (\<lambda>(n, swaps). \<not> n \<ge> number) (mw_resolved_by_block s) \<rparr>"

section \<open>Settling a block\<close>

datatype NonceAnswer = Defer | NonceIs "int option"

definition receipt_status :: "'x WatcherEnv \<Rightarrow> string \<Rightarrow> ('x, int option) step" where
  "receipt_status env tx_hash =
     then_do (catching (after (spend_call env) (then_do (ask_node (rpc_receipt_status env tx_hash)) (\<lambda>status. pure status)))
                (\<lambda>e. if is_rpc_error e then pure None else throw e)) (\<lambda>status.
       case status of
         None \<Rightarrow> pure None
       | Some v \<Rightarrow> if v = JInt 0 \<or> v = JText [] then pure None
                   else raised (rbind (hex_int v) (\<lambda>n. ok (Some n))))"

definition nonce_of :: "'x WatcherEnv \<Rightarrow> WatchedSwap \<Rightarrow> int \<Rightarrow> ('x, NonceAnswer) step" where
  "nonce_of env watched number =
     (case ws_sender watched of
        None \<Rightarrow> pure (NonceIs None)
      | Some sender \<Rightarrow>
          let overdue = number - ws_seen_head_block watched \<ge> s_mempool_resolve_blocks (we_settings env) + 3
          in catching
               (after (spend_call env)
                (then_do (ask_node (rpc_transaction_count env sender number)) (\<lambda>v.
                 then_do (raised (hex_int v)) (\<lambda>n. pure (NonceIs (Some n))))))
               (\<lambda>e. if e = BudgetExceeded
                    then if overdue then after (bump ''dropped_budget'') (pure (NonceIs None)) else pure Defer
                    else if is_rpc_error e then pure (if overdue then NonceIs None else Defer)
                    else throw e))"

text \<open>The index of a transaction in the block, the last one if it is listed twice.\<close>

definition tx_index_in :: "BlockState \<Rightarrow> string \<Rightarrow> nat option" where
  "tx_index_in block tx_hash =
     (let hashes = bh_tx_hashes (bs_header block) in map_of (rev (zip hashes [0..<length hashes])) tx_hash)"

text \<open>How a watched swap is settled at a block: \<open>None\<close> when it stays watched.\<close>

definition settlement :: "'x WatcherEnv \<Rightarrow> PoolConfig \<Rightarrow> BlockState \<Rightarrow> datetime \<Rightarrow> WatchedSwap \<Rightarrow> ('x, WatchedSwap option) step" where
  "settlement env config block now watched =
     (let number = bh_number (bs_header block) in
      case tx_index_in block (ws_tx_hash watched) of
        Some tx_index \<Rightarrow>
          then_do (if swaps_of block (ws_tx_hash watched) = [] then receipt_status env (ws_tx_hash watched) else pure None) (\<lambda>status.
          then_do (raised (verify_included (we_libm env) watched block (int tx_index) config (scan_params (we_settings env)) status now)) (\<lambda>updated.
            pure (Some updated)))
      | None \<Rightarrow>
          if number - ws_seen_head_block watched \<ge> s_mempool_resolve_blocks (we_settings env)
          then then_do (nonce_of env watched number) (\<lambda>answer.
                 case answer of
                   Defer \<Rightarrow> pure None
                 | NonceIs nonce \<Rightarrow> pure (Some (resolve_unincluded watched number nonce now)))
          else pure None)"

definition forget_watched :: "WatchedSwap \<Rightarrow> ('x, unit) step" where
  "forget_watched watched =
     then_do (reading (\<lambda>s. dict_get (mw_watched s) (ws_tx_hash watched))) (\<lambda>found.
       if found = None then throw KeyError
       else updating (\<lambda>s. s\<lparr> mw_watched := dict_pop (ws_tx_hash watched) (mw_watched s),
              mw_by_nonce := (case (ws_sender watched, ws_nonce watched) of
                                (Some sender, Some nonce) \<Rightarrow> dict_pop (sender, nonce) (mw_by_nonce s)
                              | _ \<Rightarrow> mw_by_nonce s) \<rparr>))"

text \<open>The pairs of the swaps settled and what they became.\<close>

primrec settle_all :: "'x WatcherEnv \<Rightarrow> PoolConfig \<Rightarrow> BlockState \<Rightarrow> datetime \<Rightarrow> WatchedSwap list
    \<Rightarrow> ('x, (WatchedSwap \<times> WatchedSwap) list) step" where
  "settle_all env config block now [] = pure []"
| "settle_all env config block now (watched # others) =
     then_do (settlement env config block now watched) (\<lambda>updated.
     case updated of
       None \<Rightarrow> settle_all env config block now others
     | Some u \<Rightarrow>
         after (forget_watched watched)
         (then_do (settle_all env config block now others) (\<lambda>pairs. pure ((watched, u) # pairs))))"

definition likely_backrun :: "WatchedSwap \<Rightarrow> bool" where
  "likely_backrun w = (case ws_outcome w of None \<Rightarrow> False | Some out \<Rightarrow> so_likely_backrun out = Some True)"

definition count_included :: "WatchedSwap list \<Rightarrow> int" where
  "count_included swaps = int (length (filter (\<lambda>w. ws_status w = included) swaps))"

definition count_backruns :: "WatchedSwap list \<Rightarrow> int" where
  "count_backruns swaps = int (length (filter likely_backrun swaps))"

text \<open>The records of the replay, but not of a transaction that was watched live.\<close>

definition replayed_swaps :: "'x WatcherEnv \<Rightarrow> PoolConfig \<Rightarrow> BlockState \<Rightarrow> datetime \<Rightarrow> WatchedSwap list \<Rightarrow> 'x MempoolWatcher
    \<Rightarrow> WatchedSwap list res" where
  "replayed_swaps env config block now resolved s =
     (if mw_mode s = replay_mode \<or> replays_alongside env s
      then rbind (replay_block (we_libm env) config block (scan_params (we_settings env)) now True) (\<lambda>records.
           let live_hashes = set (map ws_tx_hash resolved) \<union> set (dict_keys (mw_watched s))
           in ok (filter (\<lambda>r. ws_tx_hash r \<notin> live_hashes) records))
      else ok [])"

definition visibility_of :: "'x WatcherEnv \<Rightarrow> PoolConfig \<Rightarrow> BlockState \<Rightarrow> WatchedSwap list \<Rightarrow> WatchedSwap list \<Rightarrow> 'x MempoolWatcher
    \<Rightarrow> BlockVisibility res" where
  "visibility_of env config block resolved replayed s =
     (let counted = (if mw_mode s = live_mode then filter (\<lambda>w. ws_mode w = live_mode) resolved else resolved @ replayed)
      in rbind (block_visibility (we_libm env) config block (mw_mode s)
                  (if mw_mode s = live_mode then Some (dict_keys (mw_seen s)) else None)
                  (count_included counted) (count_backruns counted) (scan_params (we_settings env))) (\<lambda>v.
         ok (v\<lparr> bv_not_decoded := mw_not_decoded_since_block s \<rparr>)))"

definition replay_row :: "BlockVisibility \<Rightarrow> WatchedSwap list \<Rightarrow> BlockVisibility" where
  "replay_row visibility replayed =
     visibility\<lparr> bv_mode := replay_mode, bv_seen_pending := 0, bv_not_decoded := 0,
                 bv_watched_included := count_included replayed, bv_backruns := count_backruns replayed \<rparr>"

definition remember_resolved :: "int \<Rightarrow> WatchedSwap list \<Rightarrow> (int, WatchedSwap list) dict \<Rightarrow> (int, WatchedSwap list) dict" where
  "remember_resolved number originals resolved = filter (\<lambda>(n, swaps). \<not> n < number - 16) (dict_set number originals resolved)"

text \<open>From the settled swaps on: the replay, the visibility of the block, what is persisted and remembered.\<close>

definition finish_block :: "'x WatcherEnv \<Rightarrow> PoolConfig \<Rightarrow> BlockState \<Rightarrow> datetime \<Rightarrow> (WatchedSwap \<times> WatchedSwap) list \<Rightarrow> ('x, unit) step" where
  "finish_block env config block now pairs =
     (let number = bh_number (bs_header block); resolved = map snd pairs in
      then_do (\<lambda>s. (s, replayed_swaps env config block now resolved s)) (\<lambda>replayed.
      then_do (\<lambda>s. (s, visibility_of env config block resolved replayed s)) (\<lambda>visibility.
      after (updating (\<lambda>s. s\<lparr> mw_not_decoded_since_block := 0 \<rparr>))
      (after (persist_block env (resolved @ replayed) visibility)
      (then_do (reading (replays_alongside env)) (\<lambda>alongside.
       after (if alongside then persist_block env [] (replay_row visibility replayed) else pure ())
       (after (updating (\<lambda>s. s\<lparr> mw_resolved_by_block := remember_resolved number (map fst pairs) (mw_resolved_by_block s),
                                mw_last_block := Some number \<rparr>))
              (bump ''blocks_processed''))))))))"

definition after_block :: "'x WatcherEnv \<Rightarrow> BlockState \<Rightarrow> ('x, unit) step" where
  "after_block env block =
     then_do (\<lambda>s. case mw_tracker s of None \<Rightarrow> (s, Inl AttributeError) | Some t \<Rightarrow> (s, Inr (tr_config t))) (\<lambda>config.
     then_do (now_of env) (\<lambda>now.
     after (updating (\<lambda>s. s\<lparr> mw_budget_used := 0 \<rparr>))
     (then_do (reading (\<lambda>s. map snd (mw_watched s))) (\<lambda>watched.
      then_do (settle_all env config block now watched) (finish_block env config block now)))))"

section \<open>Rolling the state\<close>

definition roll_block :: "BlockHeader \<Rightarrow> PoolEvent list \<Rightarrow> ('x, BlockState) step" where
  "roll_block header events = (\<lambda>s.
     case mw_tracker s of
       None \<Rightarrow> (s, Inl AttributeError)
     | Some tracker \<Rightarrow>
         (case apply_block tracker header events of
            Inl e \<Rightarrow> (s, Inl e)
          | Inr (t, block) \<Rightarrow> (s\<lparr> mw_tracker := Some t \<rparr>, Inr block)))"

definition reanchor_if_needed :: "'x WatcherEnv \<Rightarrow> int \<Rightarrow> ('x, unit) step" where
  "reanchor_if_needed env number =
     then_do (\<lambda>s. case mw_tracker s of
                    None \<Rightarrow> (s, ok True)
                  | Some t \<Rightarrow> (s, needs_reanchor t (s_mempool_reanchor_blocks (we_settings env)))) (\<lambda>needed.
       if needed then anchor_at env (number - 1) else pure ())"

definition reanchored :: "'x WatcherEnv \<Rightarrow> int \<Rightarrow> BlockHeader \<Rightarrow> PoolEvent list \<Rightarrow> ('x, BlockState) step" where
  "reanchored env number header events =
     after (anchor_at env (number - 1)) (after (updating (restore_from (number - 1))) (roll_block header events))"

text \<open>
  \<open>_apply\<close> with the number of reorganisations it may still follow: the depth of the code is twelve less that number.
\<close>

fun apply_number :: "'x WatcherEnv \<Rightarrow> nat \<Rightarrow> int \<Rightarrow> ('x, BlockState) step" where
  "apply_number env follow number =
     then_do (get_header env number) (\<lambda>header.
     after (reanchor_if_needed env number)
     (then_do (ask_node (rpc_get_logs env (bh_hash header)
                 [dc_v2_pair (decoder_config (we_settings env)), dc_v3_pool (decoder_config (we_settings env))])) (\<lambda>logs.
      then_do (raised (parse_logs (we_abi env) (dc_v2_pair (decoder_config (we_settings env)))
                 (dc_v3_pool (decoder_config (we_settings env))) (case logs of None \<Rightarrow> [] | Some ls \<Rightarrow> ls))) (\<lambda>events.
      catching (roll_block header events) (\<lambda>e.
        if e = ReorgDetected then
          after (bump ''reorgs'')
          (then_do (reading (\<lambda>s. map_option (\<lambda>t. hash_at t (number - 2)) (mw_tracker s))) (\<lambda>known.
           case follow of
             0 \<Rightarrow> reanchored env number header events
           | Suc deeper \<Rightarrow>
               if known = None \<or> known = Some None then reanchored env number header events
               else
                 after (updating (\<lambda>s. s\<lparr> mw_tracker := map_option (\<lambda>t. rewind_to t (number - 2)) (mw_tracker s) \<rparr>))
                 (after (updating (restore_from (number - 1)))
                 (then_do (apply_number env deeper (number - 1)) (\<lambda>parent.
                  after (after_block env parent) (roll_block header events))))))
        else if e = StateGap then after (anchor_at env (number - 1)) (roll_block header events)
        else throw e)))))"

declare apply_number.simps [simp del]

definition process_block :: "'x WatcherEnv \<Rightarrow> int \<Rightarrow> ('x, BlockState) step" where
  "process_block env number =
     then_do (apply_number env MAX_REORG_DEPTH number) (\<lambda>block. after (after_block env block) (pure block))"

section \<open>The loops\<close>

definition check_grace :: "'x WatcherEnv \<Rightarrow> ('x, unit) step" where
  "check_grace env =
     then_do (reading (\<lambda>s. (mw_mode s, case mw_last_pending_at s of Some t \<Rightarrow> Some t | None \<Rightarrow> mw_started_at s))) (\<lambda>(mode, reference).
     case reference of
       None \<Rightarrow> pure ()
     | Some since \<Rightarrow>
         if s_mempool_mode (we_settings env) \<noteq> AutoMode \<or> mode \<noteq> live_mode then pure ()
         else then_do (now_of env) (\<lambda>now.
           let idle = total_seconds (now - since) in
           if idle > s_mempool_live_grace_sec (we_settings env)
           then set_mode env replay_mode (Some replay_source)
                  (''no pending transactions for '' @ int_str (int_of_float idle) @ '' s; replaying blocks'')
           else pure ()))"

text \<open>\<open>timedelta(days=x)\<close> in microseconds.\<close>

definition days_delta :: "f64 \<Rightarrow> int" where
  "days_delta x =
     (let whole = int_of_float x; day = 86400 * 10 ^ 6
      in whole * day + rne (val (float_of_int day * (x - float_of_int whole))))"

definition retention :: "'x WatcherEnv \<Rightarrow> ('x, unit) step" where
  "retention env =
     then_do (now_of env) (\<lambda>now.
       quietly (ask_node (rep_purge env (now - days_delta (s_mempool_retention_days (we_settings env))))))"

text \<open>The blocks up to the head; a block the node does not have yet ends the loop.\<close>

primrec process_blocks :: "'x WatcherEnv \<Rightarrow> int list \<Rightarrow> ('x, unit) step" where
  "process_blocks env [] = pure ()"
| "process_blocks env (number # numbers) =
     then_do (catching (then_do (process_block env number) (\<lambda>_. pure True))
                (\<lambda>e. if e = BlockNotReady then pure False else throw e)) (\<lambda>went_on.
       if went_on then process_blocks env numbers else pure ())"

definition read_blocks :: "'x WatcherEnv \<Rightarrow> ('x, unit) step" where
  "read_blocks env =
     then_do (then_do (ask_node (rpc_block_number env)) (\<lambda>v. raised (hex_int v))) (\<lambda>newest.
     let head_block = newest - we_head_lag env in
     after (updating (\<lambda>s.
        if (case mw_last_block s of None \<Rightarrow> True | Some b \<Rightarrow> head_block - b > MAX_CATCH_UP)
        then s\<lparr> mw_last_block := Some (head_block - 1) \<rparr> else s))
     (then_do (reading mw_last_block) (\<lambda>last_block.
      after (process_blocks env [the last_block + 1 .. head_block])
      (after (updating (\<lambda>s. s\<lparr> mw_block_errors := 0 \<rparr>))
      (after (updating (\<lambda>s.
         if mw_state s \<in> {starting_state, degraded_state, unavailable_state}
            \<and> \<not> (s_mempool_mode (we_settings env) = LiveMode \<and> mw_live_refused s)
         then s\<lparr> mw_state := ok_state, mw_reason := None \<rparr> else s))
      (then_do (reading (\<lambda>s. if mw_last_switch s = None \<and> mw_mode s = live_mode \<and> mw_last_pending_at s \<noteq> None
                             then Some (mw_source s) else None)) (\<lambda>connected.
       after (case connected of None \<Rightarrow> pure () | Some source \<Rightarrow> set_mode env live_mode source ''pending feed connected'')
       (after (check_grace env)
       (then_do (ask_node (\<lambda>w. case we_monotonic env w of (w', t) \<Rightarrow> (w', ok t))) (\<lambda>mono.
        then_do (reading mw_last_retention) (\<lambda>before.
          if mono - before > RETENTION_EVERY_SEC
          then then_do (ask_node (\<lambda>w. case we_monotonic env w of (w', t) \<Rightarrow> (w', ok t))) (\<lambda>mono.
               after (updating (\<lambda>s. s\<lparr> mw_last_retention := mono \<rparr>)) (retention env))
          else pure ())))))))))))"

text \<open>\<open>min(30.0, 2.0**errors)\<close>: the power of two raises beyond the largest float.\<close>

definition backoff_seconds :: "nat \<Rightarrow> f64 res" where
  "backoff_seconds errors = (if errors \<ge> 1024 then raise_error OverflowError else ok (min (lit 30) (lit (2 ^ errors))))"

text \<open>
  One pass of the loop of \<open>_block_loop\<close>: the seconds it sleeps at the end. An exception of the pass is the end of the
  task.
\<close>

definition block_pass :: "'x WatcherEnv \<Rightarrow> ('x, f64) step" where
  "block_pass env =
     catching (after (read_blocks env) (pure (we_head_poll_sec env))) (\<lambda>e.
       after (updating (\<lambda>s.
         let errors = mw_block_errors s + 1 in
         s\<lparr> mw_block_errors := errors, mw_state := (if errors < 5 then degraded_state else unavailable_state),
            mw_reason := Some (''block reads failing: '' @ error_name e) \<rparr>))
       (then_do (reading mw_block_errors) (\<lambda>errors. raised (backoff_seconds errors))))"

text \<open>
  The intake: the transactions a source streams until it ends or fails, and which source is next. A stream ends with an
  exception in any case.
\<close>

datatype StreamEnd = stream_ended | stream_refused | stream_failed

record Intake =
  ik_failures :: nat
  ik_index :: nat
  ik_refused :: "nat list"

definition intake_init :: Intake where
  "intake_init = \<lparr> ik_failures = 0, ik_index = 0, ik_refused = [] \<rparr>"

definition all_refused :: "'x WatcherEnv \<Rightarrow> ('x, f64) step" where
  "all_refused env =
     after (updating (\<lambda>s. s\<lparr> mw_live_refused := True \<rparr>))
     (then_do (reading mw_mode) (\<lambda>mode.
      after (if s_mempool_mode (we_settings env) = LiveMode
             then updating (\<lambda>s. s\<lparr> mw_state := unavailable_state, mw_reason := Some REFUSED_REASON \<rparr>)
             else if mode \<noteq> replay_mode then set_mode env replay_mode (Some replay_source) REFUSED_REASON
             else pure ())
            (pure (s_mempool_live_grace_sec (we_settings env)))))"

text \<open>The transactions of a stream one after the other, with the number of failures in a row at its end.\<close>

primrec take_stream :: "'x WatcherEnv \<Rightarrow> SourceName \<Rightarrow> nat \<Rightarrow> PendingTx list \<Rightarrow> ('x, nat \<times> bool) step" where
  "take_stream env source failures [] = pure (failures, True)"
| "take_stream env source failures (tx # txs) =
     after (updating (\<lambda>s. s\<lparr> mw_live_refused := False,
              mw_source := (if mw_mode s = live_mode \<and> mw_source s \<noteq> Some source then Some source else mw_source s) \<rparr>))
     (then_do (catching (after (on_pending env tx (Some source)) (pure True)) (\<lambda>e. pure False)) (\<lambda>went_on.
       if went_on then take_stream env source 0 txs else pure (0, False)))"

definition stream_over :: "nat \<Rightarrow> StreamEnd \<Rightarrow> nat \<Rightarrow> Intake \<Rightarrow> Intake \<times> f64 res" where
  "stream_over sources ending failures ik =
     (if ending = stream_refused
      then (ik\<lparr> ik_failures := failures, ik_refused := ik_index ik mod sources # ik_refused ik, ik_index := ik_index ik + 1 \<rparr>, ok 0)
      else
        let failures = failures + 1;
            (index, failures) = (if failures \<ge> 3 then (ik_index ik + 1, 0) else (ik_index ik, failures))
        in (ik\<lparr> ik_failures := failures, ik_index := index \<rparr>, backoff_seconds failures))"

text \<open>
  One pass of the loop of \<open>_intake_loop\<close>, given what the chosen source streams and how its stream ends: the seconds to
  sleep. An exception of \<open>on_pending\<close> counts as a failure of the stream.
\<close>

definition intake_pass :: "'x WatcherEnv \<Rightarrow> SourceName list \<Rightarrow> (SourceName \<Rightarrow> PendingTx list \<times> StreamEnd) \<Rightarrow> Intake
    \<Rightarrow> ('x, Intake \<times> f64) step" where
  "intake_pass env sources stream ik =
     (if card (set (ik_refused ik)) \<ge> length sources
      then then_do (all_refused env) (\<lambda>wait. pure (ik\<lparr> ik_refused := [] \<rparr>, wait))
      else
        let chosen = ik_index ik mod length sources in
        if chosen \<in> set (ik_refused ik) then pure (ik\<lparr> ik_index := ik_index ik + 1 \<rparr>, 0)
        else
          let source = sources ! chosen; (txs, ending) = stream source in
          then_do (take_stream env source (ik_failures ik) txs) (\<lambda>(failures, complete).
          case stream_over (length sources) (if complete then ending else stream_failed) failures ik of
            (ik, wait) \<Rightarrow> then_do (raised wait) (\<lambda>seconds. pure (ik, seconds))))"

end
