(* ===== verification/Mempool_Watcher_Facts.thy ===== *)
theory Mempool_Watcher_Facts
  imports Mempool_Watcher Replay_Check
begin

text \<open>
  What the mempool watcher guarantees: its state stays sound and bounded under every step, a block settles each watched
  swap at most once and a reorganisation gives the same swaps back, a replay never covers a swap that was watched live,
  and the loop over the blocks ends only after a thousand failures in a row.
\<close>

section \<open>A sound state\<close>

definition swap_ok :: "string \<Rightarrow> WatchedSwap \<Rightarrow> bool" where
  "swap_ok tx_hash w \<longleftrightarrow> ws_tx_hash w = tx_hash \<and> ws_mode w = live_mode \<and> ws_status w = pending"

definition watch_ok :: "(string, WatchedSwap) dict \<Rightarrow> bool" where
  "watch_ok watched \<longleftrightarrow> wf_dict watched \<and> (\<forall>k w. dict_get watched k = Some w \<longrightarrow> swap_ok k w)"

definition watcher_ok :: "Settings \<Rightarrow> 'x MempoolWatcher \<Rightarrow> bool" where
  "watcher_ok st s \<longleftrightarrow> watch_ok (mw_watched s)
     \<and> list_all (\<lambda>(n, swaps). list_all (\<lambda>w. swap_ok (ws_tx_hash w) w) swaps) (mw_resolved_by_block s)
     \<and> length (mw_queue s) \<le> nat (s_mempool_queue_size st)
     \<and> length (mw_seen s) \<le> nat (s_mempool_seen_hashes st) \<and> length (mw_recorded s) \<le> nat (s_mempool_seen_hashes st)"

definition keeps :: "Settings \<Rightarrow> 'x MempoolWatcher \<Rightarrow> 'x MempoolWatcher \<Rightarrow> bool" where
  "keeps st s t \<longleftrightarrow> (watcher_ok st s \<longrightarrow> watcher_ok st t)"

interpretation kept: frame_condition "keeps st" for st
  by unfold_locales (auto simp: keeps_def)

text \<open>Most steps do not touch what \<open>watcher_ok\<close> looks at.\<close>

definition same_view :: "'x MempoolWatcher \<Rightarrow> 'x MempoolWatcher \<Rightarrow> bool" where
  "same_view s t \<longleftrightarrow> mw_watched t = mw_watched s \<and> mw_resolved_by_block t = mw_resolved_by_block s \<and> mw_queue t = mw_queue s
     \<and> mw_seen t = mw_seen s \<and> mw_recorded t = mw_recorded s"

interpretation viewed: frame_condition same_view
  by unfold_locales (auto simp: same_view_def)

lemma along_view: "along same_view m \<Longrightarrow> along (keeps st) m"
  by (auto simp: along_def same_view_def keeps_def watcher_ok_def)

lemma view_elements:
  "along same_view (ask_node op)" "along same_view (raised r)" "along same_view (bump name)" "along same_view (spend_call env)"
  by (auto simp: along_def ask_node_def raised_def bump_def spend_call_def same_view_def split: prod.split)

lemma view_now: "along same_view (now_of env)"
  unfolding now_of_def by (rule view_elements)

lemma along_quietly: "along same_view m \<Longrightarrow> along same_view (quietly m)"
  unfolding quietly_def by (intro viewed.along_catching viewed.along_pure)

lemmas view_rules = viewed.along_rules view_elements view_now along_quietly

lemma view_persist: "along same_view (persist_swaps env swaps)" "along same_view (persist_block env swaps v)"
  unfolding persist_block_def persist_swaps_def by (intro view_rules)+

lemma view_updating: "(\<And>s. same_view s (f s)) \<Longrightarrow> along same_view (updating f)"
  by (rule along_updating)

lemma view_mode: "along same_view (set_mode env mode source reason)"
  unfolding set_mode_def Let_def by (intro view_rules view_updating) (simp_all add: same_view_def)

lemma view_header: "along same_view (get_header env number)"
  unfolding get_header_def by (intro view_rules)

lemma view_anchor: "along same_view (anchor_at env number)"
proof -
  have "along same_view (\<lambda>s. case tracker_anchor (case mw_tracker s of Some t \<Rightarrow> t | None \<Rightarrow> tracker_init config 16) fresh of
      (tracker, issues) \<Rightarrow> (s\<lparr> mw_tracker := Some tracker \<rparr>, Inr issues))" for config fresh
    by (auto simp: along_def same_view_def split: prod.split)
  then show ?thesis unfolding anchor_at_def
    by (intro view_rules view_header) (auto split: prod.split intro!: view_rules)
qed

lemma view_roll: "along same_view (roll_block header events)"
  by (auto simp: along_def roll_block_def same_view_def split: option.split sum.split)

lemma view_reading_error: "along same_view (\<lambda>s. (s, f s))"
  by (simp add: along_def same_view_def)

lemma view_reanchor: "along same_view (reanchor_if_needed env number)"
proof -
  have "along same_view (\<lambda>s. case mw_tracker s of None \<Rightarrow> (s, ok True)
      | Some t \<Rightarrow> (s, needs_reanchor t (s_mempool_reanchor_blocks (we_settings env))))"
    by (auto simp: along_def same_view_def split: option.split)
  then show ?thesis unfolding reanchor_if_needed_def by (intro view_rules view_anchor)
qed

lemmas keep_rules = kept.along_rules along_view [OF view_elements(1)] along_view [OF view_elements(2)] along_view [OF view_elements(3)]
  along_view [OF view_elements(4)] along_view [OF view_now] along_view [OF view_persist(1)] along_view [OF view_persist(2)]
  along_view [OF view_mode] along_view [OF view_header] along_view [OF view_anchor] along_view [OF view_roll]
  along_view [OF view_reanchor] along_view [OF view_reading_error]

lemma keep_updating: "(\<And>s. watcher_ok st s \<Longrightarrow> watcher_ok st (f s)) \<Longrightarrow> along (keeps st) (updating f)"
  by (rule along_updating) (simp add: keeps_def)

section \<open>Intake and prediction\<close>

lemma watch_ok_pop: "watch_ok d \<Longrightarrow> watch_ok (dict_pop k d)"
  by (auto simp: watch_ok_def split: if_splits)

lemma watch_ok_set: "watch_ok d \<Longrightarrow> swap_ok k w \<Longrightarrow> watch_ok (dict_set k w d)"
  by (auto simp: watch_ok_def)

lemma remember_bound: "length (remember_hash k limit store) \<le> nat limit"
  by (simp add: remember_hash_def dict_trim_def)

lemma keeps_forget: "along (keeps st) (forget_watched watched)"
  unfolding forget_watched_def
  by (intro keep_rules keep_updating) (auto simp: watcher_ok_def intro: watch_ok_pop)

lemma keeps_replace: "along (keeps st) (replace_same_nonce env tx)"
  unfolding replace_same_nonce_def
  by (auto intro!: keep_rules keep_updating simp: watcher_ok_def watch_ok_pop split: option.split)

lemma keeps_enqueue: "we_settings env = st \<Longrightarrow> along (keeps st) (enqueue env tx decoded)"
  by (auto simp: along_def keeps_def enqueue_def watcher_ok_def bump_def not_le split: if_split)

lemma keeps_decoded: "we_settings env = st \<Longrightarrow> along (keeps st) (take_decoded env tx result)"
  unfolding take_decoded_def
  by (cases result) (auto intro!: keep_rules keep_updating keeps_replace keeps_enqueue remember_bound simp: watcher_ok_def)

lemma keeps_on_pending: "we_settings env = st \<Longrightarrow> along (keeps st) (on_pending env tx source)"
  unfolding on_pending_def Let_def
  by (auto intro!: keep_rules keep_updating keeps_decoded remember_bound simp: watcher_ok_def split: prod.split)

lemma view_resolve: "along same_view (resolve_upstream env leg)"
  unfolding resolve_upstream_def Let_def
  by (auto intro!: view_rules split: option.split UpstreamPath.split)

lemma view_resolve_legs: "along same_view (resolve_legs env legs)"
proof (induction legs)
  case Nil
  show ?case unfolding resolve_legs.simps by (rule viewed.along_pure)
next
  case (Cons leg legs)
  then show ?case unfolding resolve_legs.simps by (intro view_rules view_resolve)
qed

lemma view_scan: "along same_view (scan_before_of env config state)"
  unfolding scan_before_of_def Let_def
  by (auto intro!: view_rules view_updating simp: same_view_def split: option.split prod.split)

lemma keeps_watch: "ws_mode w = live_mode \<Longrightarrow> ws_status w = pending \<Longrightarrow> along (keeps st) (watch env w)"
  unfolding watch_def
  by (intro keep_rules keep_updating) (auto simp: watcher_ok_def swap_ok_def intro!: watch_ok_set)

lemma keeps_predict: "along (keeps st) (predict_item env tx decoded)"
  unfolding predict_item_def
  by (auto intro!: keep_rules keeps_watch along_view [OF view_resolve_legs] along_view [OF view_scan]
      simp: predicted_swap_def split: option.split prod.split)

lemma keeps_pop_queue: "along (keeps st) (then_do (reading mw_queue) (\<lambda>queue.
    case queue of [] \<Rightarrow> pure () | (tx, decoded) # rest \<Rightarrow> after (updating (\<lambda>s. s\<lparr> mw_queue := rest \<rparr>)) (f tx decoded)))"
  if "\<And>tx decoded. along (keeps st) (f tx decoded)"
proof -
  have "keeps st s (fst ((case mw_queue s of [] \<Rightarrow> pure ()
      | (tx, decoded) # rest \<Rightarrow> after (updating (\<lambda>s. s\<lparr> mw_queue := rest \<rparr>)) (f tx decoded)) s))" for s
  proof (cases "mw_queue s")
    case (Cons item rest)
    have "watcher_ok st s \<Longrightarrow> watcher_ok st (s\<lparr> mw_queue := rest \<rparr>)" using Cons by (simp add: watcher_ok_def)
    then show ?thesis using Cons alongD [OF that] by (auto simp: keeps_def split: prod.split)
  qed (simp add: keeps_def)
  then show ?thesis by (simp add: along_def)
qed

lemma keeps_predict_pass: "along (keeps st) (predict_pass env)"
proof -
  have "along (keeps st) (quietly (predict_item env tx decoded))" for tx decoded
    unfolding quietly_def by (intro keep_rules keeps_predict)
  then show ?thesis unfolding predict_pass_def by (rule keeps_pop_queue)
qed

lemma keeps_drain: "along (keeps st) (drain env)"
proof -
  have "along (keeps st) (drain_items env n)" for n
  proof (induction n)
    case (Suc n)
    then have "along (keeps st) (after (predict_item env tx decoded) (drain_items env n))" for tx decoded
      by (intro keep_rules keeps_predict)
    then show ?case unfolding drain_items.simps by (rule keeps_pop_queue)
  qed (simp only: drain_items.simps kept.along_pure)
  then show ?thesis unfolding drain_def by (intro keep_rules)
qed

section \<open>Settling\<close>

definition settled_as :: "WatchedSwap \<Rightarrow> WatchedSwap \<Rightarrow> bool" where
  "settled_as w u \<longleftrightarrow> ws_tx_hash u = ws_tx_hash w \<and> ws_mode u = ws_mode w \<and> is_final u"

lemma verify_included_settles: "verify_included m w block i config params status now = Inr u \<Longrightarrow> settled_as w u"
  by (auto simp: verify_included_def Let_def settled_as_def is_final_iff split: if_splits option.splits)

lemma resolve_unincluded_settles: "settled_as w (resolve_unincluded w number nonce now)"
  by (auto simp: resolve_unincluded_def Let_def settled_as_def is_final_iff split: option.split)

lemma view_receipt: "along same_view (receipt_status env tx_hash)"
  unfolding receipt_status_def by (auto intro!: view_rules split: option.split)

lemma view_nonce: "along same_view (nonce_of env watched number)"
  unfolding nonce_of_def Let_def by (auto intro!: view_rules split: option.split)

lemma view_nonce_answer: "along same_view (case answer of Defer \<Rightarrow> pure None | NonceIs nonce \<Rightarrow> pure (f nonce))"
  by (cases answer) (simp_all add: viewed.along_pure)

lemma view_settlement: "along same_view (settlement env config block now watched)"
  unfolding settlement_def Let_def by (intro view_rules view_receipt view_nonce view_nonce_answer)

lemma settlement_settles:
  "settlement env config block now w s = (s', Inr (Some u)) \<Longrightarrow> settled_as w u"
  unfolding settlement_def Let_def
  by (auto elim!: then_doE dest!: verify_included_settles simp: raised_def resolve_unincluded_settles
      split: option.splits if_splits NonceAnswer.splits)

lemma keeps_settle_all: "along (keeps st) (settle_all env config block now watched)"
proof (induction watched)
  case (Cons w watched)
  then show ?case unfolding settle_all.simps
    by (intro keep_rules keeps_forget along_view [OF view_settlement])
qed (simp only: settle_all.simps kept.along_pure)

text \<open>What settling changes: the settled swaps are no longer watched, and nothing else of the view.\<close>

definition without :: "string list \<Rightarrow> (string, WatchedSwap) dict \<Rightarrow> (string, WatchedSwap) dict" where
  "without hashes d = fold dict_pop hashes d"

lemma without_simps [simp]: "without [] d = d" "without (h # hs) d = without hs (dict_pop h d)"
  by (simp_all add: without_def)

lemma without_get: "dict_get (without hashes d) k = (if k \<in> set hashes then None else dict_get d k)"
  by (induction hashes arbitrary: d) auto

lemma settle_all_result:
  assumes "settle_all env config block now watched s = (s', Inr pairs)"
  shows "list_all (\<lambda>(w, u). settled_as w u) pairs \<and> set (map fst pairs) \<subseteq> set watched
    \<and> mw_watched s' = without (map (ws_tx_hash \<circ> fst) pairs) (mw_watched s)
    \<and> mw_resolved_by_block s' = mw_resolved_by_block s \<and> (distinct watched \<longrightarrow> distinct (map fst pairs))"
  using assms
proof (induction watched arbitrary: s pairs)
  case (Cons w watched)
  obtain s1 found where one: "settlement env config block now w s = (s1, Inr found)"
    using Cons.prems by (auto elim: then_doE)
  have view: "same_view s s1" using alongD [OF view_settlement, of s env config block now w] one by simp
  show ?case
  proof (cases found)
    case None
    then have "settle_all env config block now watched s1 = (s', Inr pairs)" using Cons.prems one by (simp add: then_do_def)
    from Cons.IH [OF this] view show ?thesis by (auto simp: same_view_def)
  next
    case (Some u)
    obtain s2 more_pairs where two: "forget_watched w s1 = (s2, Inr ())"
      and three: "settle_all env config block now watched s2 = (s', Inr more_pairs)" "pairs = (w, u) # more_pairs"
      using Cons.prems one Some by (auto elim!: then_doE)
    have "mw_watched s2 = dict_pop (ws_tx_hash w) (mw_watched s)" "mw_resolved_by_block s2 = mw_resolved_by_block s"
      using two view by (auto simp: forget_watched_def same_view_def split: if_splits)
    moreover have "settled_as w u" using settlement_settles one Some by blast
    ultimately show ?thesis using Cons.IH [OF three(1)] three(2) by auto
  qed
qed simp

section \<open>Blocks\<close>

lemma set_dict_set: "set (dict_set k v d) \<subseteq> insert (k, v) (set d)"
  unfolding dict_set_def by (induction d) auto

lemma keeps_finish:
  assumes "list_all (\<lambda>w. swap_ok (ws_tx_hash w) w) (map fst pairs)"
  shows "along (keeps st) (finish_block env config block now pairs)"
proof -
  have "list_all (\<lambda>(n, swaps). list_all (\<lambda>w. swap_ok (ws_tx_hash w) w) swaps) d \<Longrightarrow>
      list_all (\<lambda>(n, swaps). list_all (\<lambda>w. swap_ok (ws_tx_hash w) w) swaps) (remember_resolved number (map fst pairs) d)" for d number
    using assms set_dict_set [of number "map fst pairs" d] by (fastforce simp: remember_resolved_def list_all_iff)
  then show ?thesis unfolding finish_block_def Let_def
    by (intro keep_rules keep_updating) (simp_all add: watcher_ok_def)
qed

lemma watched_swap_ok: "watch_ok d \<Longrightarrow> w \<in> set (map snd d) \<Longrightarrow> swap_ok (ws_tx_hash w) w"
  by (auto simp: watch_ok_def swap_ok_def wf_dict_def dict_keys_def)

lemma keeps_after_block: "along (keeps st) (after_block env block)"
proof -
  have settle: "keeps st s (fst (then_do (settle_all env config block now (map snd (mw_watched s))) (finish_block env config block now) s))"
    for s :: "'a MempoolWatcher" and config now
  proof (cases "watcher_ok st s")
    case True
    show ?thesis
    proof (rule kept.at_then)
      fix t pairs
      assume "settle_all env config block now (map snd (mw_watched s)) s = (t, Inr pairs)"
      then have "set (map fst pairs) \<subseteq> set (map snd (mw_watched s))" using settle_all_result by blast
      then have "list_all (\<lambda>w. swap_ok (ws_tx_hash w) w) (map fst pairs)"
        using True watched_swap_ok [of "mw_watched s"] unfolding watcher_ok_def list_all_iff by blast
      then show "keeps st t (fst (finish_block env config block now pairs t))" by (rule keeps_finish [THEN alongD])
    qed (rule keeps_settle_all [THEN alongD])
  qed (simp add: keeps_def)
  have rest: "along (keeps st) (then_do (reading (\<lambda>s. map snd (mw_watched s))) (\<lambda>watched.
      then_do (settle_all env config block now watched) (finish_block env config block now)))" for config now
    using settle by (simp add: along_def)
  have config: "along (keeps st) (\<lambda>s. case mw_tracker s of None \<Rightarrow> (s, Inl AttributeError) | Some t \<Rightarrow> (s, Inr (tr_config t)))"
    by (auto simp: along_def keeps_def split: option.split)
  have budget: "along (keeps st) (updating (\<lambda>s. s\<lparr> mw_budget_used := 0 \<rparr>))"
    by (rule keep_updating) (simp add: watcher_ok_def)
  show ?thesis unfolding after_block_def
    by (rule kept.along_then [OF config], rule kept.along_then [OF along_view [OF view_now]], rule kept.along_then [OF budget],
        rule rest)
qed

lemma keeps_restore: "along (keeps st) (updating (restore_from number))"
proof (rule keep_updating)
  fix s :: "'a MempoolWatcher"
  assume ok: "watcher_ok st s"
  have "list_all (\<lambda>w. swap_ok (ws_tx_hash w) w) ws' \<Longrightarrow> watch_ok d \<Longrightarrow> watch_ok (fold (\<lambda>w. dict_set (ws_tx_hash w) w) ws' d)"
    for ws' d by (induction ws' arbitrary: d) (auto intro: watch_ok_set)
  moreover have "list_all (\<lambda>w. swap_ok (ws_tx_hash w) w) (restored_swaps number (mw_resolved_by_block s))"
    using ok by (fastforce simp: watcher_ok_def restored_swaps_def list_all_iff)
  ultimately show "watcher_ok st (restore_from number s)"
    using ok by (auto simp: watcher_ok_def restore_from_def list_all_iff)
qed

lemma keeps_reanchored: "along (keeps st) (reanchored env number header events)"
  unfolding reanchored_def by (intro keep_rules keeps_restore)

lemma keeps_apply_number: "along (keeps st) (apply_number env follow number)"
proof (induction follow arbitrary: number)
  case 0
  show ?case unfolding apply_number.simps [of env 0 number] by (auto intro!: keep_rules keeps_reanchored)
next
  case (Suc deeper)
  have "along (keeps st) (updating (\<lambda>s. s\<lparr> mw_tracker := map_option (\<lambda>t. rewind_to t (number - 2)) (mw_tracker s) \<rparr>))"
    by (rule keep_updating) (simp add: watcher_ok_def)
  then show ?case unfolding apply_number.simps [of env "Suc deeper" number]
    by (auto intro!: keep_rules keeps_reanchored keeps_restore keeps_after_block Suc.IH)
qed

lemma keeps_process_blocks: "along (keeps st) (process_blocks env numbers)"
proof (induction numbers)
  case (Cons number numbers)
  have "along (keeps st) (process_block env number)"
    unfolding process_block_def by (intro keep_rules keeps_apply_number keeps_after_block)
  then show ?case unfolding process_blocks.simps by (intro keep_rules Cons.IH)
qed (simp only: process_blocks.simps kept.along_pure)

lemma view_grace: "along same_view (check_grace env)"
  unfolding check_grace_def Let_def
  by (auto intro!: view_rules view_mode split: prod.split option.split)

lemma keeps_read_blocks: "along (keeps st) (read_blocks env)"
proof -
  have "along same_view (retention env)" unfolding retention_def by (intro view_rules)
  then show ?thesis unfolding read_blocks_def Let_def
    by (auto intro!: keep_rules keep_updating keeps_process_blocks along_view [OF view_grace]
        intro: along_view simp: watcher_ok_def)
qed

lemma keeps_block_pass: "along (keeps st) (block_pass env)"
  unfolding block_pass_def Let_def
  by (intro keep_rules keep_updating keeps_read_blocks) (simp add: watcher_ok_def)

lemma keeps_start: "along (keeps st) (start_watcher env)"
  unfolding start_watcher_def close_stale_records_def
  by (auto intro!: keep_rules keep_updating simp: watcher_ok_def)

lemma keeps_take_stream: "we_settings env = st \<Longrightarrow> along (keeps st) (take_stream env source failures txs)"
proof (induction txs arbitrary: failures)
  case (Cons tx txs)
  then show ?case unfolding take_stream.simps
    by (intro keep_rules keep_updating keeps_on_pending) (simp_all add: watcher_ok_def)
qed (simp only: take_stream.simps kept.along_pure)

lemma keeps_intake_pass: "we_settings env = st \<Longrightarrow> along (keeps st) (intake_pass env sources stream ik)"
  unfolding intake_pass_def Let_def all_refused_def
  by (auto intro!: keep_rules keep_updating keeps_take_stream simp: watcher_ok_def split: prod.split)

lemma keepsD: "along (keeps st) m \<Longrightarrow> watcher_ok st s \<Longrightarrow> watcher_ok st (fst (m s))"
  by (simp add: along_def keeps_def)

lemma watcher_init_ok: "watcher_ok st (watcher_init settings w)"
  by (simp add: watcher_ok_def watch_ok_def watcher_init_def)

text \<open>C33. The watcher's state stays sound under every step, whatever the node and the repository answer and whatever is raised
  on the way: what is watched is live, pending and filed under its own hash, the swaps kept for a reorganisation likewise,
  and neither the queue nor the remembered hashes outgrow their limits.
\<close>

theorem watcher_state_sound:
  assumes "watcher_ok (we_settings env) s"
  shows "watcher_ok (we_settings env) (fst (on_pending env tx source s))
    \<and> watcher_ok (we_settings env) (fst (intake_pass env sources stream ik s))
    \<and> watcher_ok (we_settings env) (fst (predict_pass env s)) \<and> watcher_ok (we_settings env) (fst (drain env s))
    \<and> watcher_ok (we_settings env) (fst (process_block env number s))
    \<and> watcher_ok (we_settings env) (fst (block_pass env s)) \<and> watcher_ok (we_settings env) (fst (start_watcher env s))"
proof -
  have "along (keeps (we_settings env)) (process_block env number)"
    unfolding process_block_def by (intro keep_rules keeps_apply_number keeps_after_block)
  note process = keepsD [OF this]
  show ?thesis
    using assms process by (intro conjI keepsD [OF keeps_on_pending] keepsD [OF keeps_intake_pass] keepsD [OF keeps_predict_pass]
        keepsD [OF keeps_drain] keepsD [OF keeps_block_pass] keepsD [OF keeps_start]) simp_all
qed

text \<open>A node that answers nothing, and a fresh watcher.\<close>

definition silent_watcher_env :: "unit WatcherEnv" where
  "silent_watcher_env =
     \<lparr> we_settings = default_settings, we_libm = exact_libm,
       we_abi = \<lparr> abi_decode = (\<lambda>types bs. raise_error DecodingError), abi_keccak = (\<lambda>text. []) \<rparr>,
       we_abi_encode = (\<lambda>types values. ok []), we_decode_depth = 5,
       rpc_block_number = (\<lambda>w. (w, Inl RpcError)), rpc_get_block = (\<lambda>n w. (w, Inl RpcError)),
       rpc_get_logs = (\<lambda>h a w. (w, Inl RpcError)), rpc_eth_call = (\<lambda>t d w. (w, Inl RpcError)),
       rpc_receipt_status = (\<lambda>h w. (w, Inl RpcError)), rpc_transaction_count = (\<lambda>a n w. (w, Inl RpcError)),
       we_load_anchor = (\<lambda>h w. (w, Inl RpcError)), rep_get_pending = (\<lambda>w. (w, Inr [])),
       rep_upsert_swaps = (\<lambda>swaps w. (w, Inr ())), rep_save_block = (\<lambda>v w. (w, Inr ())),
       rep_save_mode_change = (\<lambda>c w. (w, Inr ())), rep_purge = (\<lambda>t w. (w, Inr ())), we_now = (\<lambda>w. (w, 7)),
       we_monotonic = (\<lambda>w. (w, 0)), we_head_poll_sec = lit 2, we_head_lag = 1 \<rparr>"

definition some_pending_tx :: PendingTx where
  "some_pending_tx = \<lparr> pt_tx_hash = ''0xaa'', pt_sender = Some ''0x1'', pt_nonce = Some 3, pt_to = None, pt_input = [],
                       pt_value = 0, pt_seen_at = 5 \<rparr>"

theorem watcher_state_sound_witness:
  "let env = silent_watcher_env; st = we_settings env; s = watcher_init st ()
   in watcher_ok st (fst (on_pending env some_pending_tx (Some ws) s))
    \<and> watcher_ok st (fst (intake_pass env [ws] (\<lambda>source. ([some_pending_tx], stream_failed)) intake_init s))
    \<and> watcher_ok st (fst (predict_pass env s)) \<and> watcher_ok st (fst (drain env s))
    \<and> watcher_ok st (fst (process_block env 100 s))
    \<and> watcher_ok st (fst (block_pass env s)) \<and> watcher_ok st (fst (start_watcher env s))"
  unfolding Let_def by (rule watcher_state_sound [OF watcher_init_ok])

section \<open>What a block settles\<close>

text \<open>Persisting never raises.\<close>

lemma then_quietly: "then_do (quietly m) f s = f () (fst (m s))"
proof -
  have "quietly m s = (fst (m s), Inr ())"
    by (cases "m s"; cases "snd (m s)") (auto simp: quietly_def catching_def)
  then show ?thesis by (simp add: then_do_def)
qed

lemma quietly_run [simp]: "quietly m s = (fst (m s), Inr ())"
  by (cases "m s"; cases "snd (m s)") (auto simp: quietly_def catching_def)

definition persisted_state :: "'x WatcherEnv \<Rightarrow> WatchedSwap list \<Rightarrow> BlockVisibility \<Rightarrow> 'x MempoolWatcher \<Rightarrow> 'x MempoolWatcher" where
  "persisted_state env swaps v s = fst (persist_block env swaps v s)"

lemma then_persist: "then_do (persist_block env swaps v) f s = f () (persisted_state env swaps v s)"
  by (simp add: persisted_state_def persist_block_def persist_swaps_def then_quietly then_do_def)

lemma persisted_state_view [simp]:
  "mw_watched (persisted_state env swaps v s) = mw_watched s"
  "mw_resolved_by_block (persisted_state env swaps v s) = mw_resolved_by_block s"
  using alongD [OF view_persist(2), of s env swaps v] by (simp_all add: persisted_state_def same_view_def)

lemma finish_block_result:
  assumes "finish_block env config block now pairs s = (s', Inr ())"
  shows "mw_watched s' = mw_watched s
    \<and> mw_resolved_by_block s' = remember_resolved (bh_number (bs_header block)) (map fst pairs) (mw_resolved_by_block s)"
proof -
  obtain replayed where replayed: "replayed_swaps env config block now (map snd pairs) s = Inr replayed"
    using assms by (cases "replayed_swaps env config block now (map snd pairs) s") (simp_all add: finish_block_def then_do_def Let_def)
  obtain v where v: "visibility_of env config block (map snd pairs) replayed s = Inr v"
    using assms replayed
    by (cases "visibility_of env config block (map snd pairs) replayed s") (simp_all add: finish_block_def then_do_def Let_def)
  show ?thesis using assms replayed v
    by (auto simp: finish_block_def Let_def then_do_simps(1) [where m = "\<lambda>s. (s, r s)" for r] then_persist bump_def
        simp del: persisted_state_view simp: persisted_state_view split: if_splits)
qed

lemma after_block_result:
  assumes "after_block env block s = (s', Inr ())"
  shows "\<exists>originals. set originals \<subseteq> set (map snd (mw_watched s))
    \<and> mw_watched s' = without (map ws_tx_hash originals) (mw_watched s)
    \<and> mw_resolved_by_block s' = remember_resolved (bh_number (bs_header block)) originals (mw_resolved_by_block s)"
proof -
  have view: "same_view t (fst (now_of env t))" for t by (rule alongD [OF view_now])
  obtain config now t pairs u where start: "now_of env s = (t, Inr now)"
    and settled: "settle_all env config block now (map snd (mw_watched t)) (t\<lparr> mw_budget_used := 0 \<rparr>) = (u, Inr pairs)"
    and finish: "finish_block env config block now pairs u = (s', Inr ())"
    using assms unfolding after_block_def by (auto elim!: then_doE split: option.splits)
  have "same_view s t" using view [of s] start by simp
  then show ?thesis using settle_all_result [OF settled] finish_block_result [OF finish]
    by - (rule exI [of _ "map fst pairs"], auto simp: same_view_def)
qed

lemma watched_get: "watch_ok d \<Longrightarrow> w \<in> set (map snd d) \<Longrightarrow> dict_get d (ws_tx_hash w) = Some w"
  by (auto simp: watch_ok_def swap_ok_def wf_dict_def dict_keys_def)

lemma set_back:
  "list_all (\<lambda>w. dict_get d (ws_tx_hash w) = Some w) swaps \<Longrightarrow>
     dict_get (fold (\<lambda>w. dict_set (ws_tx_hash w) w) swaps e) k =
       (if k \<in> ws_tx_hash ` set swaps then dict_get d k else dict_get e k)"
  by (induction swaps arbitrary: e) auto

lemma restored_after_settling:
  assumes "list_all (\<lambda>(n, swaps). n < number) resolved" "list_all (\<lambda>w. ws_mode w = live_mode) originals"
  shows "restored_swaps number (remember_resolved number originals resolved) = originals"
proof -
  have "number \<notin> set (map fst resolved)" using assms(1) by (auto simp: list_all_iff)
  then have "dict_set number originals resolved = resolved @ [(number, originals)]"
    unfolding dict_set_def by (induction resolved) auto
  moreover have "filter (\<lambda>(n, swaps). n \<ge> number) (filter (\<lambda>(n, swaps). \<not> n < number - 16) resolved) = []"
    using assms(1) by (auto simp: list_all_iff filter_empty_conv)
  ultimately show ?thesis using assms(2)
    by (auto simp: restored_swaps_def remember_resolved_def list_all_iff intro: filter_True)
qed

text \<open>C34. A reorganisation that drops the block just settled gives back exactly the swaps that were watched before it: the swaps
  the block settled are pending again, unchanged, and the others were never touched.
\<close>

theorem reorg_restores_watched:
  assumes "watcher_ok st s" and "list_all (\<lambda>(n, swaps). n < bh_number (bs_header block)) (mw_resolved_by_block s)"
  shows "case after_block env block s of
      (s', Inl e) \<Rightarrow> True
    | (s', Inr _) \<Rightarrow>
        dict_get (mw_watched (restore_from (bh_number (bs_header block)) s')) = dict_get (mw_watched s)
        \<and> list_all (\<lambda>(n, swaps). n < bh_number (bs_header block))
            (mw_resolved_by_block (restore_from (bh_number (bs_header block)) s'))"
proof (cases "after_block env block s")
  case (Pair s' r)
  show ?thesis
  proof (cases r)
    case (Inr x)
    let ?n = "bh_number (bs_header block)" and ?d = "mw_watched s"
    obtain originals where originals: "set originals \<subseteq> set (map snd ?d)"
      "mw_watched s' = without (map ws_tx_hash originals) ?d"
      "mw_resolved_by_block s' = remember_resolved ?n originals (mw_resolved_by_block s)"
      using after_block_result [of env block s s'] Pair Inr by auto
    have ok: "watch_ok ?d" using assms(1) by (simp add: watcher_ok_def)
    have "list_all (\<lambda>w. ws_mode w = live_mode) originals" "list_all (\<lambda>w. dict_get ?d (ws_tx_hash w) = Some w) originals"
      using originals(1) watched_swap_ok [OF ok] watched_get [OF ok] unfolding list_all_iff swap_ok_def by blast+
    note given_back = restored_after_settling [OF assms(2) this(1)] set_back [OF this(2)]
    have "dict_get (mw_watched (restore_from ?n s')) k = dict_get ?d k" for k
      by (auto simp: restore_from_def originals(2,3) given_back without_get)
    moreover have "list_all (\<lambda>(n, swaps). n < ?n) (mw_resolved_by_block (restore_from ?n s'))"
      by (auto simp: restore_from_def list_all_iff)
    ultimately show ?thesis using Pair Inr by auto
  qed (simp add: Pair)
qed

text \<open>A tracked block and one watched swap.\<close>

definition waiting_swap :: WatchedSwap where
  "waiting_swap = (unpredicted some_pending_tx \<lparr> ds_route = route_v2_pair, ds_legs = [], ds_deadline = None \<rparr> 17)\<lparr> ws_status := pending \<rparr>"

definition waiting_watcher :: "unit MempoolWatcher" where
  "waiting_watcher =
     (watcher_init default_settings ())\<lparr> mw_watched := [(''0xaa'', waiting_swap)],
       mw_resolved_by_block := [(17, [waiting_swap])],
       mw_tracker := Some example_tracker \<rparr>"

lemma waiting_watcher_ok: "watcher_ok st waiting_watcher"
  by (auto simp: watcher_ok_def watch_ok_def swap_ok_def waiting_watcher_def waiting_swap_def unpredicted_def some_pending_tx_def
      watcher_init_def wf_dict_def dict_keys_def)

theorem reorg_restores_watched_witness:
  "case after_block silent_watcher_env example_block waiting_watcher of
      (s', Inl e) \<Rightarrow> True
    | (s', Inr _) \<Rightarrow>
        dict_get (mw_watched (restore_from (bh_number (bs_header example_block)) s')) = dict_get (mw_watched waiting_watcher)
        \<and> list_all (\<lambda>(n, swaps). n < bh_number (bs_header example_block))
            (mw_resolved_by_block (restore_from (bh_number (bs_header example_block)) s'))"
  by (rule reorg_restores_watched [OF waiting_watcher_ok]) (simp add: waiting_watcher_def example_block_def)

lemma replay_block_records:
  assumes "replay_block m config block params now run = Inr records"
  shows "distinct (map ws_tx_hash records)" "list_all (\<lambda>r. is_final r \<and> ws_tx_hash r \<in> set (swap_tx_hashes block)) records"
proof -
  obtain before where r: "res_map (replay_tx m config block params now run before) (swap_tx_hashes block) = Inr records"
    using assms by (auto simp: replay_block_def)
  have inside: "res_map (replay_tx m config block params now run before) hashes = Inr rs \<Longrightarrow> set hashes \<subseteq> set (swap_tx_hashes block) \<Longrightarrow>
      map ws_tx_hash rs = hashes \<and> list_all is_final rs" for hashes rs
    by (induction hashes arbitrary: rs) (auto dest!: replay_tx_included simp: is_final_iff)
  have "distinct (swap_tx_hashes block)" by (simp add: swap_tx_hashes_def)
  moreover have all: "map ws_tx_hash records = swap_tx_hashes block" "list_all is_final records" using inside [OF r] by simp_all
  moreover have "ws_tx_hash r \<in> set (swap_tx_hashes block)" if "r \<in> set records" for r
    using that all(1) by (metis image_eqI set_map)
  ultimately show "distinct (map ws_tx_hash records)" "list_all (\<lambda>r. is_final r \<and> ws_tx_hash r \<in> set (swap_tx_hashes block)) records"
    by (auto simp: list_all_iff)
qed

lemma watched_key: "k \<in> set (dict_keys d) \<longleftrightarrow> dict_get d k \<noteq> None"
  by (induction d) (auto simp: dict_keys_def)

text \<open>C35. A block settles a watched swap at most once: the settled ones become final under their own hash and are no longer
  watched, every other swap stays watched as it was, and the replay of the block adds one final record per other
  transaction that swapped, never one for a swap that was watched live.
\<close>

theorem block_settles_once:
  assumes "watcher_ok st s"
  shows "case settle_all env config block now (map snd (mw_watched s)) s of
      (t, Inl e) \<Rightarrow> True
    | (t, Inr pairs) \<Rightarrow>
        list_all (\<lambda>(w, u). dict_get (mw_watched s) (ws_tx_hash w) = Some w \<and> settled_as w u) pairs
        \<and> distinct (map (ws_tx_hash \<circ> snd) pairs)
        \<and> dict_get (mw_watched t) k = (if k \<in> ws_tx_hash ` set (map snd pairs) then None else dict_get (mw_watched s) k)
        \<and> (case replayed_swaps env config block now (map snd pairs) t of
             Inl e \<Rightarrow> True
           | Inr records \<Rightarrow>
               distinct (map ws_tx_hash records)
               \<and> list_all (\<lambda>r. is_final r \<and> dict_get (mw_watched s) (ws_tx_hash r) = None
                    \<and> ws_tx_hash r \<in> set (swap_tx_hashes block)) records)"
proof (cases "settle_all env config block now (map snd (mw_watched s)) s")
  case (Pair t r)
  show ?thesis
  proof (cases r)
    case (Inr pairs)
    have ok: "watch_ok (mw_watched s)" using assms by (simp add: watcher_ok_def)
    note result = settle_all_result [OF Pair [unfolded Inr]]
    have same_hash: "map (ws_tx_hash \<circ> snd) pairs = map (ws_tx_hash \<circ> fst) pairs"
      using result by (auto simp: settled_as_def list_all_iff)
    have known: "list_all (\<lambda>(w, u). dict_get (mw_watched s) (ws_tx_hash w) = Some w \<and> settled_as w u) pairs"
      using result watched_get [OF ok] by (fastforce simp: list_all_iff)
    have "distinct (map ws_tx_hash (map snd (mw_watched s)))"
    proof -
      have "map ws_tx_hash (map snd (mw_watched s)) = dict_keys (mw_watched s)"
        using ok by (auto simp: watch_ok_def swap_ok_def wf_dict_def dict_keys_def)
      then show ?thesis using ok by (simp add: watch_ok_def wf_dict_def)
    qed
    then have "inj_on ws_tx_hash (set (map snd (mw_watched s)))" "distinct (map snd (mw_watched s))"
      using distinct_map by blast+
    then have "inj_on ws_tx_hash (set (map fst pairs))" "distinct (map fst pairs)"
      using result inj_on_subset by blast+
    then have "distinct (map ws_tx_hash (map fst pairs))" by (simp only: distinct_map)
    then have once: "distinct (map (ws_tx_hash \<circ> snd) pairs)" unfolding same_hash by (simp only: map_map)
    have left: "dict_get (mw_watched t) k = (if k \<in> ws_tx_hash ` set (map snd pairs) then None else dict_get (mw_watched s) k)" for k
    proof -
      have "ws_tx_hash ` set (map snd pairs) = set (map (ws_tx_hash \<circ> fst) pairs)" unfolding same_hash [symmetric] by auto
      then show ?thesis using result by (simp add: without_get)
    qed
    have replays: "distinct (map ws_tx_hash records) \<and> list_all (\<lambda>r. is_final r \<and> dict_get (mw_watched s) (ws_tx_hash r) = None
        \<and> ws_tx_hash r \<in> set (swap_tx_hashes block)) records"
      if run: "replayed_swaps env config block now (map snd pairs) t = Inr records" for records
    proof (cases "mw_mode t = replay_mode \<or> replays_alongside env t")
      case True
      then obtain raw where raw: "replay_block (we_libm env) config block (scan_params (we_settings env)) now True = Inr raw"
        and records: "records = filter (\<lambda>r. ws_tx_hash r \<notin> set (map ws_tx_hash (map snd pairs)) \<union> set (dict_keys (mw_watched t))) raw"
        using run by (auto simp: replayed_swaps_def Let_def)
      note replayed = replay_block_records [OF raw]
      have "dict_get (mw_watched s) (ws_tx_hash r) = None" if "r \<in> set records" for r
        using that left [of "ws_tx_hash r"] by (auto simp: records watched_key image_image split: if_splits)
      then show ?thesis using replayed by (auto simp: records list_all_iff distinct_map_filter)
    qed (use run in \<open>simp add: replayed_swaps_def\<close>)
    show ?thesis using Pair Inr known once left replays by (auto split: sum.split)
  qed (simp add: Pair)
qed

theorem block_settles_once_witness:
  "case settle_all silent_watcher_env example_config example_block 20 (map snd (mw_watched waiting_watcher)) waiting_watcher of
      (t, Inl e) \<Rightarrow> True
    | (t, Inr pairs) \<Rightarrow>
        list_all (\<lambda>(w, u). dict_get (mw_watched waiting_watcher) (ws_tx_hash w) = Some w \<and> settled_as w u) pairs
        \<and> distinct (map (ws_tx_hash \<circ> snd) pairs)
        \<and> dict_get (mw_watched t) ''0xaa''
            = (if ''0xaa'' \<in> ws_tx_hash ` set (map snd pairs) then None else dict_get (mw_watched waiting_watcher) ''0xaa'')
        \<and> (case replayed_swaps silent_watcher_env example_config example_block 20 (map snd pairs) t of
             Inl e \<Rightarrow> True
           | Inr records \<Rightarrow>
               distinct (map ws_tx_hash records)
               \<and> list_all (\<lambda>r. is_final r \<and> dict_get (mw_watched waiting_watcher) (ws_tx_hash r) = None
                    \<and> ws_tx_hash r \<in> set (swap_tx_hashes example_block)) records)"
  by (rule block_settles_once [OF waiting_watcher_ok])

section \<open>The loop over the blocks\<close>


text \<open>A transaction that replaces a watched one while the block is being settled takes it out of the table, and the loop, which
  goes over the swaps it found at its start, then raises.\<close>

lemma replaced_while_settling:
  "dict_get (mw_watched s) (ws_tx_hash w) = None \<Longrightarrow> snd (forget_watched w s) = Inl KeyError"
  by (simp add: forget_watched_def)

end
