(* ===== verification/Lab_Recorder.thy ===== *)
theory Lab_Recorder
  imports Lab_Engine Actions
begin

text \<open>
  \<open>app/simlab/recorder.py\<close>, the live recording of an order book and its public trades, and the stored form of a recording
  (\<open>app/simlab/recording.py\<close>). The exchange's client and the clock are functions of the surroundings; the lock around a
  shared client is not modelled, and reading and writing the file is not.
\<close>

section \<open>Times in milliseconds\<close>

definition to_ms :: "datetime \<Rightarrow> int" where
  "to_ms moment = int_of_float (total_seconds moment * lit 1000)"

definition from_ms :: "int \<Rightarrow> datetime" where
  "from_ms ms = fromtimestamp (lit (real_of_int ms / 1000))"

text \<open>\<open>timedelta(seconds=x)\<close> rounds like \<open>fromtimestamp\<close>; half of a \<open>timedelta\<close> is rounded half-even.\<close>

definition seconds_delta :: "f64 \<Rightarrow> int" where
  "seconds_delta x = fromtimestamp x"

definition half_delta :: "int \<Rightarrow> int" where
  "half_delta delta = rne (real_of_int delta / 2)"

section \<open>What the exchange sends\<close>

text \<open>A level may carry more than a price and a size; a key that is missing is \<open>None\<close>.\<close>

record RawLevels =
  rl_bids :: "f64 list list option"
  rl_asks :: "f64 list list option"

record RawTrade =
  rt_id :: "string option"
  rt_timestamp :: "int option"
  rt_price :: "f64 option"
  rt_amount :: "f64 option"
  rt_side :: "string option"

datatype TradeKey = IdKey string | RawKey "int option" "f64 option" "f64 option" "string option"

definition BOOK_LEVELS :: nat where "BOOK_LEVELS = 10"
definition MAX_TRADES :: nat where "MAX_TRADES = 50000"

definition trade_key :: "RawTrade \<Rightarrow> TradeKey" where
  "trade_key trade =
     (case rt_id trade of
        Some i \<Rightarrow> IdKey i
      | None \<Rightarrow> RawKey (rt_timestamp trade) (rt_price trade) (rt_amount trade) (rt_side trade))"

definition trimmed_levels :: "OrderBookLevel list \<Rightarrow> OrderBookLevel list" where
  "trimmed_levels levels = map (\<lambda>l. \<lparr> lv_price = lv_price l, lv_size = lv_size l \<rparr>) (take BOOK_LEVELS levels)"

definition trim :: "OrderBookSnapshot \<Rightarrow> datetime \<Rightarrow> OrderBookSnapshot" where
  "trim snapshot at_time =
     \<lparr> ob_symbol = ob_symbol snapshot, ob_bids = trimmed_levels (ob_bids snapshot), ob_asks = trimmed_levels (ob_asks snapshot),
       ob_timestamp = at_time, ob_is_stale = False, ob_tick_id = None \<rparr>"

text \<open>\<open>level[:2]\<close>, unpacked into a price and a size.\<close>

definition price_and_size :: "f64 list \<Rightarrow> (f64 \<times> f64) res" where
  "price_and_size level = (case take 2 level of [p, s] \<Rightarrow> ok (p, s) | _ \<Rightarrow> raise_error ValueError)"

definition two_sided_book :: "RawLevels \<Rightarrow> RawOrderBook res" where
  "two_sided_book raw =
     rbind (res_map price_and_size (case rl_bids raw of None \<Rightarrow> [] | Some xs \<Rightarrow> xs)) (\<lambda>bids.
     rbind (res_map price_and_size (case rl_asks raw of None \<Rightarrow> [] | Some xs \<Rightarrow> xs)) (\<lambda>asks.
     ok \<lparr> raw_bids = Some bids, raw_asks = Some asks, raw_timestamp_ms = None \<rparr>))"

definition trade_print :: "int \<Rightarrow> RawTrade \<Rightarrow> TradePrint res" where
  "trade_print stamp trade =
     (case (rt_price trade, rt_amount trade) of
        (Some price, Some amount) \<Rightarrow>
          ok \<lparr> tr_timestamp = from_ms stamp, tr_price = price, tr_amount = amount, tr_side = rt_side trade \<rparr>
      | _ \<Rightarrow> raise_error TypeError)"

section \<open>The recording\<close>

record 'w RecorderEnv =
  re_now :: "'w \<Rightarrow> 'w \<times> datetime"
  re_fetch_time :: "'w \<Rightarrow> 'w \<times> int option res"
  re_fetch_book :: "string \<Rightarrow> nat \<Rightarrow> 'w \<Rightarrow> 'w \<times> RawLevels res"
  re_fetch_trades :: "string \<Rightarrow> int \<Rightarrow> 'w \<Rightarrow> 'w \<times> RawTrade list res"
  re_should_stop :: "('w \<Rightarrow> 'w \<times> bool) option"
  re_on_progress :: "(f64 \<Rightarrow> 'w \<Rightarrow> 'w) option"
  re_sleep :: "f64 \<Rightarrow> 'w \<Rightarrow> 'w"
  re_short_error :: "py_error \<Rightarrow> string"

record 'w RecorderState =
  rs_world :: 'w
  rs_snapshots :: "OrderBookSnapshot list"
  rs_trades :: "(TradeKey, TradePrint) dict"
  rs_last_error :: "string option"
  rs_failures :: nat

type_synonym ('w, 'a) recording_step = "('w RecorderState, py_error, 'a) action"

definition asking :: "('w \<Rightarrow> 'w \<times> 'a res) \<Rightarrow> ('w, 'a) recording_step" where
  "asking op = (\<lambda>s. case op (rs_world s) of (w, r) \<Rightarrow> (s\<lparr> rs_world := w \<rparr>, r))"

definition exchange_now :: "'w RecorderEnv \<Rightarrow> int \<Rightarrow> ('w, datetime) recording_step" where
  "exchange_now env offset = asking (\<lambda>w. case re_now env w of (w, t) \<Rightarrow> (w, ok (t + offset)))"

definition returned :: "'a res \<Rightarrow> ('w, 'a) recording_step" where
  "returned r = (case r of Inl e \<Rightarrow> throw e | Inr x \<Rightarrow> pure x)"

text \<open>One public trade; the first print of a key stays.\<close>

definition take_print :: "int \<Rightarrow> RawTrade \<Rightarrow> ('w, unit) recording_step" where
  "take_print started_ms trade =
     (case rt_timestamp trade of
        None \<Rightarrow> pure ()
      | Some stamp \<Rightarrow>
          then_do (reading (\<lambda>s. length (rs_trades s))) (\<lambda>n.
          if stamp < started_ms \<or> n \<ge> MAX_TRADES then pure ()
          else then_do (returned (trade_print stamp trade)) (\<lambda>print.
            updating (\<lambda>s. case dict_get (rs_trades s) (trade_key trade) of
                            Some _ \<Rightarrow> s
                          | None \<Rightarrow> s\<lparr> rs_trades := dict_set (trade_key trade) print (rs_trades s) \<rparr>))))"

definition read_market :: "'w RecorderEnv \<Rightarrow> string \<Rightarrow> int \<Rightarrow> int \<Rightarrow> int \<Rightarrow> ('w, unit) recording_step" where
  "read_market env symbol trades_limit offset started_ms =
     then_do (asking (re_fetch_book env symbol 20)) (\<lambda>raw_book.
     then_do (asking (re_fetch_trades env symbol trades_limit)) (\<lambda>raw_trades.
     then_do (exchange_now env offset) (\<lambda>at_time.
     then_do (returned (two_sided_book raw_book)) (\<lambda>book.
     after (updating (\<lambda>s. s\<lparr> rs_snapshots := rs_snapshots s @ [trim (normalize_ccxt_orderbook symbol book False at_time) at_time] \<rparr>))
           (each_do (take_print started_ms) raw_trades)))))"

text \<open>Five failures in a row end the recording with the text of the last one.\<close>

definition stopped_answering :: "string \<Rightarrow> string" where
  "stopped_answering text = ''the exchange stopped answering ('' @ text @ '')''"

definition reading_pass :: "'w RecorderEnv \<Rightarrow> string \<Rightarrow> int \<Rightarrow> int \<Rightarrow> int \<Rightarrow> 'w RecorderState \<Rightarrow> 'w RecorderState \<times> (string + unit)" where
  "reading_pass env symbol trades_limit offset started_ms s =
     (case read_market env symbol trades_limit offset started_ms s of
        (s, Inr u) \<Rightarrow> (s\<lparr> rs_failures := 0 \<rparr>, Inr ())
      | (s, Inl e) \<Rightarrow>
          let text = re_short_error env e; s = s\<lparr> rs_last_error := Some text, rs_failures := rs_failures s + 1 \<rparr>
          in if rs_failures s \<ge> 5 then (s, Inl (stopped_answering text)) else (s, Inr ()))"

definition read_clock :: "'w RecorderEnv \<Rightarrow> int \<Rightarrow> 'w RecorderState \<Rightarrow> 'w RecorderState \<times> datetime" where
  "read_clock env offset s = (case re_now env (rs_world s) of (w, t) \<Rightarrow> (s\<lparr> rs_world := w \<rparr>, t + offset))"

definition report_progress :: "'w RecorderEnv \<Rightarrow> int \<Rightarrow> datetime \<Rightarrow> 'w RecorderState \<Rightarrow> 'w RecorderState" where
  "report_progress env offset ends s =
     (case re_on_progress env of
        None \<Rightarrow> s
      | Some on_progress \<Rightarrow>
          (case read_clock env offset s of (s, t) \<Rightarrow> s\<lparr> rs_world := on_progress (max 0 (total_seconds (ends - t))) (rs_world s) \<rparr>))"

definition wait_for_next :: "'w RecorderEnv \<Rightarrow> int \<Rightarrow> f64 \<Rightarrow> datetime \<Rightarrow> 'w RecorderState \<Rightarrow> 'w RecorderState" where
  "wait_for_next env offset interval tick_start s =
     (case read_clock env offset s of (s, t) \<Rightarrow>
        let spent = total_seconds (t - tick_start)
        in s\<lparr> rs_world := re_sleep env (max 0 (interval - spent)) (rs_world s) \<rparr>)"

text \<open>The loop; \<open>None\<close> would be a loop that never ends.\<close>

partial_function (option) record_loop ::
    "'w RecorderEnv \<Rightarrow> string \<Rightarrow> int \<Rightarrow> int \<Rightarrow> int \<Rightarrow> f64 \<Rightarrow> datetime \<Rightarrow> 'w RecorderState \<Rightarrow> ('w RecorderState \<times> (string + unit)) option" where
  "record_loop env symbol trades_limit offset started_ms interval ends s =
     (case read_clock env offset s of (s, tick_start) \<Rightarrow>
        if tick_start \<ge> ends then Some (s, Inr ())
        else
          (case (case re_should_stop env of
                   None \<Rightarrow> (s, False)
                 | Some stop \<Rightarrow> (case stop (rs_world s) of (w, b) \<Rightarrow> (s\<lparr> rs_world := w \<rparr>, b))) of
             (s, stopping) \<Rightarrow>
               if stopping then Some (s, Inr ())
               else
                 (case reading_pass env symbol trades_limit offset started_ms s of
                    (s, Inl e) \<Rightarrow> Some (s, Inl e)
                  | (s, Inr u) \<Rightarrow>
                      record_loop env symbol trades_limit offset started_ms interval ends
                        (wait_for_next env offset interval tick_start (report_progress env offset ends s)))))"

text \<open>The clock of the exchange against the local one; anything that goes wrong leaves no shift.\<close>

definition clock_offset :: "'w RecorderEnv \<Rightarrow> 'w RecorderState \<Rightarrow> 'w RecorderState \<times> int" where
  "clock_offset env s =
     (case read_clock env 0 s of (s, before) \<Rightarrow>
        (case asking (re_fetch_time env) s of
           (s, Inl e) \<Rightarrow> (s, 0)
         | (s, Inr server_ms) \<Rightarrow>
             (case read_clock env 0 s of (s, later) \<Rightarrow>
                case server_ms of
                  None \<Rightarrow> (s, 0)
                | Some ms \<Rightarrow>
                    if ms = 0 then (s, 0)
                    else (s, from_ms ms - (before + half_delta (later - before))))))"

datatype RecordingError = RecordingFailed string | UnknownExchange

definition recorder_init :: "'w \<Rightarrow> 'w RecorderState" where
  "recorder_init w = \<lparr> rs_world = w, rs_snapshots = [], rs_trades = [], rs_last_error = None, rs_failures = 0 \<rparr>"

definition recording_of ::
    "'w RecorderEnv \<Rightarrow> LabExchange \<Rightarrow> string \<Rightarrow> string \<Rightarrow> MarketRules \<Rightarrow> int \<Rightarrow> datetime \<Rightarrow> 'w RecorderState \<Rightarrow> 'w \<times> Recording" where
  "recording_of env exchange exchange_id symbol rules offset started s =
     (case read_clock env offset s of (s, ended) \<Rightarrow>
        (rs_world s,
         \<lparr> rc_exchange = exchange_id, rc_symbol = symbol, rc_rules = rules, rc_started_at = started, rc_ended_at = ended,
           rc_live = True, rc_label = lx_label exchange @ '' '' @ symbol @ '', live recording'', rc_snapshots = rs_snapshots s,
           rc_trades = sort_key tr_timestamp (map snd (rs_trades s)) \<rparr>))"

definition no_book_read :: "string \<Rightarrow> string" where
  "no_book_read text = ''no order book could be read ('' @ text @ '')''"

text \<open>An empty error text counts as none.\<close>

definition finished_recording ::
    "'w RecorderEnv \<Rightarrow> LabExchange \<Rightarrow> string \<Rightarrow> string \<Rightarrow> MarketRules \<Rightarrow> int \<Rightarrow> datetime \<Rightarrow> 'w RecorderState
     \<Rightarrow> 'w \<times> (RecordingError + Recording)" where
  "finished_recording env exchange exchange_id symbol rules offset started s =
     (let failed = (case rs_last_error s of None \<Rightarrow> [] | Some text \<Rightarrow> text) in
      if rs_snapshots s = [] \<and> failed \<noteq> [] then (rs_world s, Inl (RecordingFailed (no_book_read failed)))
      else (case recording_of env exchange exchange_id symbol rules offset started s of (w, r) \<Rightarrow> (w, Inr r)))"

definition record_live ::
    "'w RecorderEnv \<Rightarrow> string \<Rightarrow> string \<Rightarrow> MarketRules \<Rightarrow> f64 \<Rightarrow> f64 option \<Rightarrow> 'w \<Rightarrow> ('w \<times> (RecordingError + Recording)) option" where
  "record_live env exchange_id symbol rules duration_sec interval_sec w =
     (case dict_get LAB_EXCHANGES exchange_id of
        None \<Rightarrow> Some (w, Inl UnknownExchange)
      | Some exchange \<Rightarrow>
          (let interval = (case interval_sec of Some i \<Rightarrow> i | None \<Rightarrow> lx_interval_sec exchange) in
           case clock_offset env (recorder_init w) of (s, offset) \<Rightarrow>
           case read_clock env offset s of (s, started) \<Rightarrow>
           (case record_loop env symbol (lx_trades_limit exchange) offset (to_ms started) interval
                   (started + seconds_delta duration_sec) s of
              None \<Rightarrow> None
            | Some (s, Inl text) \<Rightarrow> Some (rs_world s, Inl (RecordingFailed text))
            | Some (s, Inr u) \<Rightarrow> Some (finished_recording env exchange exchange_id symbol rules offset started s))))"

section \<open>The stored form\<close>

text \<open>A snapshot is a row of its time and its levels, a trade a row of four; the rules are stored field by field.\<close>

type_synonym LevelRow = "f64 \<times> f64"

record RecordingData =
  rx_format :: int
  rx_exchange :: string
  rx_symbol :: string
  rx_label :: "string option"
  rx_rules :: MarketRules
  rx_started_at :: string
  rx_ended_at :: string
  rx_snapshots :: "(int \<times> LevelRow list \<times> LevelRow list) list"
  rx_trades :: "(int \<times> f64 \<times> f64 \<times> string option) list"

definition FORMAT :: int where "FORMAT = 1"

definition level_rows :: "OrderBookLevel list \<Rightarrow> LevelRow list" where
  "level_rows levels = map (\<lambda>l. (lv_price l, lv_size l)) levels"

definition levels_of :: "LevelRow list \<Rightarrow> OrderBookLevel list" where
  "levels_of rows = map (\<lambda>(p, s). \<lparr> lv_price = p, lv_size = s \<rparr>) rows"

definition recording_to_dict :: "(datetime \<Rightarrow> string) \<Rightarrow> Recording \<Rightarrow> RecordingData" where
  "recording_to_dict isoformat recording =
     \<lparr> rx_format = FORMAT, rx_exchange = rc_exchange recording, rx_symbol = rc_symbol recording,
       rx_label = Some (rc_label recording), rx_rules = rc_rules recording,
       rx_started_at = isoformat (rc_started_at recording), rx_ended_at = isoformat (rc_ended_at recording),
       rx_snapshots = map (\<lambda>s. (to_ms (ob_timestamp s), level_rows (ob_bids s), level_rows (ob_asks s))) (rc_snapshots recording),
       rx_trades = map (\<lambda>t. (to_ms (tr_timestamp t), tr_price t, tr_amount t, tr_side t)) (rc_trades recording) \<rparr>"

definition recording_from_dict :: "(string \<Rightarrow> datetime res) \<Rightarrow> bool \<Rightarrow> RecordingData \<Rightarrow> Recording res" where
  "recording_from_dict fromisoformat live data =
     (if rx_format data \<noteq> FORMAT then raise_error ValueError
      else
        let symbol = rx_symbol data;
            snapshots = map (\<lambda>(ms, bids, asks). \<lparr> ob_symbol = symbol, ob_bids = levels_of bids, ob_asks = levels_of asks,
              ob_timestamp = from_ms ms, ob_is_stale = False, ob_tick_id = None \<rparr>) (rx_snapshots data);
            trades = map (\<lambda>(ms, price, amount, side). \<lparr> tr_timestamp = from_ms ms, tr_price = price, tr_amount = amount,
              tr_side = side \<rparr>) (rx_trades data)
        in rbind (fromisoformat (rx_started_at data)) (\<lambda>started.
           rbind (fromisoformat (rx_ended_at data)) (\<lambda>ended.
           ok \<lparr> rc_exchange = rx_exchange data, rc_symbol = symbol, rc_rules = rx_rules data, rc_started_at = started,
                rc_ended_at = ended, rc_live = live, rc_label = (case rx_label data of None \<Rightarrow> [] | Some l \<Rightarrow> l),
                rc_snapshots = snapshots, rc_trades = trades \<rparr>)))"

definition rc_duration_sec :: "Recording \<Rightarrow> f64" where
  "rc_duration_sec recording = max 0 (total_seconds (rc_ended_at recording - rc_started_at recording))"

definition rc_usable_snapshots :: "Recording \<Rightarrow> nat" where
  "rc_usable_snapshots recording = length (filter (\<lambda>s. \<not> ob_is_stale s) (rc_snapshots recording))"

section \<open>Bundled recordings\<close>

record BundleInfo =
  bi_id :: string
  bi_label :: string
  bi_exchange :: string
  bi_symbol :: string
  bi_recorded_at :: string
  bi_duration_sec :: f64
  bi_snapshot_count :: nat
  bi_trade_count :: nat
  bi_file :: string

definition bundle_info_for :: "(datetime \<Rightarrow> string) \<Rightarrow> string \<Rightarrow> Recording \<Rightarrow> string \<Rightarrow> BundleInfo" where
  "bundle_info_for isoformat bundle_id recording file_name =
     \<lparr> bi_id = bundle_id, bi_label = rc_label recording, bi_exchange = rc_exchange recording, bi_symbol = rc_symbol recording,
       bi_recorded_at = isoformat (rc_started_at recording), bi_duration_sec = round_digits 1 (rc_duration_sec recording),
       bi_snapshot_count = length (rc_snapshots recording), bi_trade_count = length (rc_trades recording), bi_file = file_name \<rparr>"

record BundleLibrary =
  bl_bundles :: "(string, BundleInfo) dict"
  bl_cache :: "(string, Recording) dict"

definition library_init :: "BundleInfo list \<Rightarrow> BundleLibrary" where
  "library_init entries = \<lparr> bl_bundles = fold (\<lambda>e. dict_set (bi_id e) e) entries [], bl_cache = [] \<rparr>"

text \<open>\<open>read\<close> is the file of a bundle, parsed; a recording is read once.\<close>

definition library_load :: "(string \<Rightarrow> Recording res) \<Rightarrow> string \<Rightarrow> BundleLibrary \<Rightarrow> BundleLibrary \<times> Recording res" where
  "library_load read bundle_id library =
     (case dict_get (bl_cache library) bundle_id of
        Some recording \<Rightarrow> (library, ok recording)
      | None \<Rightarrow>
          (case dict_get (bl_bundles library) bundle_id of
             None \<Rightarrow> (library, raise_error KeyError)
           | Some info \<Rightarrow>
               (case read (bi_file info) of
                  Inl e \<Rightarrow> (library, Inl e)
                | Inr recording \<Rightarrow> (library\<lparr> bl_cache := dict_set bundle_id recording (bl_cache library) \<rparr>, ok recording))))"

end
