(* ===== verification/Lab_Recorder_Facts.thy ===== *)
theory Lab_Recorder_Facts
  imports Lab_Recorder
begin

text \<open>
  A live recording ends, within its limits, on any exchange and clock that moves on; and a recording survives being stored,
  with its times cut to the millisecond: the two roundings of a time in seconds never lose a millisecond.
\<close>

section \<open>Milliseconds in binary64\<close>

lemma fl_error: "\<bar>x\<bar> < 2 powi k \<Longrightarrow> - 1000 \<le> k \<Longrightarrow> \<bar>fl x - x\<bar> \<le> 2 powi (k - 54)"
proof (cases "x = 0")
  case False
  assume x: "\<bar>x\<bar> < 2 powi k" and k: "- 1000 \<le> k"
  have "binade \<bar>x\<bar> < k" using False x by (intro binade_less) simp_all
  then have "lsb_exponent x \<le> k - 53" using k by (simp add: lsb_exponent_def)
  then have "(2::real) powi lsb_exponent x \<le> 2 powi (k - 53)" by (intro power_int_increasing) simp_all
  moreover have "\<bar>fl x - x\<bar> \<le> 2 powi lsb_exponent x / 2" using False to_grid_error by (simp add: fl_def)
  moreover have "(2::real) powi (k - 53) = 2 powi (k - 54) * 2" using power_int_add_1 [of "2::real" "k - 54"] by simp
  ultimately show ?thesis by linarith
qed simp

text \<open>Errors add up and scale.\<close>

lemma near_trans: "\<bar>a - b\<bar> \<le> d \<Longrightarrow> \<bar>b - c\<bar> \<le> e \<Longrightarrow> d + e \<le> g \<Longrightarrow> \<bar>a - c\<bar> \<le> g" for a b c d e g :: real
  by linarith

lemma near_scaled: "\<bar>a - b\<bar> \<le> d \<Longrightarrow> 0 \<le> c \<Longrightarrow> \<bar>a * c - b * c\<bar> \<le> d * c" for a b c d :: real
  using mult_right_mono [of "\<bar>a - b\<bar>" d c] by (simp add: abs_mult flip: left_diff_distrib)

lemma rne_near: "\<bar>y - real_of_int n\<bar> < 1 / 2 \<Longrightarrow> rne y = n"
  using rne_bounds [of y] by linarith

text \<open>The times of the clock: after the year 2004 and before 2038, where seconds need 31 bits and milliseconds 41.\<close>

definition clock_ms :: "int \<Rightarrow> bool" where
  "clock_ms ms \<longleftrightarrow> 2 ^ 40 < ms \<and> ms < 1000 * 2 ^ 31 - 1"

lemma clock_range:
  assumes "clock_ms ms"
  shows "2 ^ 40 < real_of_int ms \<and> real_of_int ms + 1 < 1000 * 2 ^ 31"
proof -
  have "real_of_int (2 ^ 40) < real_of_int ms" "real_of_int (ms + 1) < real_of_int (1000 * 2 ^ 31)"
    using assms unfolding of_int_less_iff clock_ms_def by simp_all
  then show ?thesis by simp
qed

lemma seconds_error:
  assumes "2 ^ 40 < x" "x < 1000 * 2 ^ 31"
  shows "\<bar>fl (x / 1000) - x / 1000\<bar> \<le> 1 / 2 ^ 23"
  using assms fl_error [of "x / 1000" 31] by (simp add: power_int_minus)

lemma from_ms_exact:
  assumes "clock_ms ms"
  shows "from_ms ms = ms * 1000"
proof -
  let ?x = "real_of_int ms / 1000"
  define v where "v = fl ?x"
  define s where "s = \<lfloor>v\<rfloor>"
  have range: "2 ^ 40 < real_of_int ms" "real_of_int ms < 1000 * 2 ^ 31"
    using clock_range [OF assms] by simp_all
  from seconds_error [OF this] have v: "\<bar>v - ?x\<bar> \<le> 1 / 2 ^ 23" by (simp add: v_def)
  then have "v - ?x \<le> 1 / 2 ^ 23" "?x - v \<le> 1 / 2 ^ 23" by (simp_all only: abs_le_iff minus_diff_eq)
  with range have bounds: "0 < v" "v < 2 ^ 32" by (simp_all add: field_simps)
  then have s: "s = int_of_float (lit ?x)" "0 \<le> s" "s \<le> 2 ^ 32" "real_of_int s \<le> v" "v < real_of_int s + 1"
    by (simp_all add: s_def int_of_float_def val_lit v_def [symmetric])
  have whole: "val (float_of_int s) = real_of_int s" unfolding float_of_int_def using s(2,3) by (intro val_lit_int) simp
  have f: "\<bar>fl (v - real_of_int s) - (v - real_of_int s)\<bar> \<le> 1 / 2 ^ 54"
    using fl_error [of "v - real_of_int s" 0] s(4,5) by (simp add: power_int_minus)
  define f where "f = fl (v - real_of_int s)"
  have near: "\<bar>f - (?x - real_of_int s)\<bar> \<le> 1 / 2 ^ 22"
    unfolding f_def by (rule near_trans [OF f, of _ "1 / 2 ^ 23"]) (use v in simp_all)
  moreover have "\<bar>v - ?x\<bar> \<le> 1 / 2" by (rule order_trans [OF v]) simp
  then have "v - ?x \<le> 1 / 2" "?x - v \<le> 1 / 2" by (simp_all only: abs_le_iff minus_diff_eq)
  then have "\<bar>?x - real_of_int s\<bar> < 2" using s(4,5) by linarith
  moreover have "\<bar>f - (?x - real_of_int s)\<bar> \<le> 1" by (rule order_trans [OF near]) simp
  ultimately have "\<bar>f\<bar> < 3" by linarith
  then have "\<bar>f * 10 ^ 6\<bar> < 2 powi 22" by (simp add: abs_mult)
  then have "\<bar>fl (f * 10 ^ 6) - f * 10 ^ 6\<bar> \<le> 1 / 2 ^ 32" using fl_error [of "f * 10 ^ 6" 22] by (simp add: power_int_minus)
  moreover have "\<bar>f * 10 ^ 6 - real_of_int (1000 * ms - 10 ^ 6 * s)\<bar> \<le> 10 ^ 6 / 2 ^ 22"
    using near_scaled [OF near, of "10 ^ 6"] by (simp add: algebra_simps)
  ultimately have "\<bar>fl (f * 10 ^ 6) - real_of_int (1000 * ms - 10 ^ 6 * s)\<bar> \<le> 1 / 3" by (rule near_trans) simp
  then have "\<bar>fl (f * 10 ^ 6) - real_of_int (1000 * ms - 10 ^ 6 * s)\<bar> < 1 / 2" by simp
  then have "rne (fl (f * 10 ^ 6)) = 1000 * ms - 10 ^ 6 * s" by (rule rne_near)
  moreover have "val ((lit ?x - float_of_int s) * lit (10 ^ 6)) = fl (f * 10 ^ 6)"
    using val_lit_numeral [of "num.One"] by (simp add: val_ops val_lit whole f_def v_def fl_of_int [of "10 ^ 6", simplified])
  ultimately show ?thesis by (simp add: from_ms_def fromtimestamp_def Let_def s(1) [symmetric])
qed

text \<open>Cutting a time to its millisecond is exact, although it is computed from the seconds as a float.\<close>

lemma to_ms_exact:
  assumes "clock_ms (t div 1000)"
  shows "to_ms t = t div 1000"
proof -
  define k where "k = t div 1000"
  define r where "r = t mod 1000"
  have t: "t = 1000 * k + r" "0 \<le> r" "r < 1000" by (simp_all add: k_def r_def)
  let ?x = "real_of_int t / 1000"
  have x: "?x = real_of_int k + real_of_int r / 1000" by (simp add: t(1) add_divide_distrib)
  have k: "2 ^ 40 < real_of_int k" "real_of_int k + 1 < 1000 * 2 ^ 31" using clock_range assms k_def by simp_all
  define v where "v = fl (?x / 1000)"
  have range: "2 ^ 40 < ?x" "?x < 1000 * 2 ^ 31" using k x t(2,3) by linarith+
  from seconds_error [OF this] have "\<bar>v - ?x / 1000\<bar> \<le> 1 / 2 ^ 23" by (simp add: v_def)
  from near_scaled [OF this, of 1000] have z: "\<bar>v * 1000 - ?x\<bar> \<le> 1000 / 2 ^ 23" by simp
  have value_of: "val (total_seconds t * lit 1000) = fl (v * 1000)"
    using val_lit_numeral [of "num.Bit0 (num.Bit0 (num.Bit0 (num.Bit1 (num.Bit0 (num.Bit1 (num.Bit1 (num.Bit1 (num.Bit1 num.One))))))))"]
    by (simp add: val_ops total_seconds_def val_lit v_def)
  have "real_of_int k \<le> fl (v * 1000) \<and> fl (v * 1000) < real_of_int k + 1"
  proof (cases "r = 0")
    case True
    let ?z = "v * 1000"
    have near: "\<bar>?z - real_of_int k\<bar> \<le> 1000 / 2 ^ 23" using z x True by simp
    have z_range: "2 ^ 40 < ?z" "?z < 2 ^ 41"
    proof -
      have "2 ^ 40 + 1 \<le> k" using assms by (simp add: clock_ms_def k_def)
      then have "real_of_int (2 ^ 40 + 1) \<le> real_of_int k" unfolding of_int_le_iff .
      then have low: "2 ^ 40 + 1 \<le> real_of_int k" by simp
      have "\<bar>?z - real_of_int k\<bar> \<le> 1 / 2" by (rule order_trans [OF near]) simp
      then have "?z - real_of_int k \<le> 1 / 2" "real_of_int k - ?z \<le> 1 / 2" by (simp_all only: abs_le_iff minus_diff_eq)
      moreover have "1000 * 2 ^ 31 \<le> (2 ^ 41 :: real)" by simp
      ultimately show "2 ^ 40 < ?z" "?z < 2 ^ 41" using low k(2) by linarith+
    qed
    then have "binade ?z < 41" "40 < binade ?z + 1"
      using binade_less [of ?z 41] binade_bounds [of ?z] powi_less_cancel [of 40 "binade ?z + 1"] by simp_all
    then have grid: "lsb_exponent ?z = - 12" using z_range by (simp add: lsb_exponent_def)
    have "\<bar>?z * 2 ^ 12 - real_of_int (k * 2 ^ 12)\<bar> < 1 / 2" using near_scaled [OF near, of "2 ^ 12"] by simp
    then have "rne (?z * 2 ^ 12) = k * 2 ^ 12" by (rule rne_near)
    then have "fl ?z = real_of_int k" using z_range by (simp add: fl_def to_grid_def grid power_int_minus)
    then show ?thesis by simp
  next
    case False
    then have "1 \<le> r" "r \<le> 999" using t(2,3) by simp_all
    then have "1 / 1000 \<le> real_of_int r / 1000" "real_of_int r / 1000 \<le> 999 / 1000" by simp_all
    moreover have "\<bar>v * 1000 - ?x\<bar> \<le> 1 / 2000" by (rule order_trans [OF z]) simp
    then have "v * 1000 - ?x \<le> 1 / 2000" "?x - v * 1000 \<le> 1 / 2000" by (simp_all only: abs_le_iff minus_diff_eq)
    ultimately have "real_of_int k \<le> v * 1000" "v * 1000 \<le> real_of_int k + 1 - 1 / 4096" using x by linarith+
    then have between: "real_of_int k \<le> v * 1000" "v * 1000 \<le> real_of_int k + 1 - 1 / 2 ^ 12" by simp_all
    have k_int: "\<bar>k\<bar> \<le> 2 ^ 53" "\<bar>(k + 1) * 2 ^ 12 - 1\<bar> \<le> 2 ^ 53" using assms by (simp_all add: clock_ms_def k_def)
    have "real_of_int ((k + 1) * 2 ^ 12 - 1) * 2 powi (- 12) = real_of_int k + 1 - 1 / 2 ^ 12"
      by (simp add: power_int_minus algebra_simps)
    with fl_dyadic [OF k_int(2), of "- 12"] have "fl (real_of_int k + 1 - 1 / 2 ^ 12) = real_of_int k + 1 - 1 / 2 ^ 12"
      by (simp only:)
    then have "fl (v * 1000) \<le> real_of_int k + 1 - 1 / 2 ^ 12" using fl_mono [OF between(2)] by simp
    moreover have "real_of_int k \<le> fl (v * 1000)" using fl_mono [OF between(1)] fl_of_int [OF k_int(1)] by simp
    ultimately show ?thesis by simp
  qed
  then show ?thesis
    using k(1) unfolding to_ms_def int_of_float_def value_of k_def [symmetric] by (simp add: floor_eq_iff)
qed

section \<open>Storing a recording\<close>

definition floor_ms :: "datetime \<Rightarrow> datetime" where
  "floor_ms t = t div 1000 * 1000"

definition storable :: "Recording \<Rightarrow> bool" where
  "storable recording \<longleftrightarrow>
     list_all (\<lambda>s. ob_symbol s = rc_symbol recording \<and> \<not> ob_is_stale s \<and> ob_tick_id s = None \<and> clock_ms (ob_timestamp s div 1000))
       (rc_snapshots recording)
     \<and> list_all (\<lambda>t. clock_ms (tr_timestamp t div 1000)) (rc_trades recording)"

lemma levels_roundtrip [simp]: "levels_of (level_rows levels) = levels"
  by (induction levels) (simp_all add: levels_of_def level_rows_def)

lemma time_roundtrip: "clock_ms (t div 1000) \<Longrightarrow> from_ms (to_ms t) = floor_ms t"
  by (simp add: to_ms_exact from_ms_exact floor_ms_def)

text \<open>C38. A recording read back from its stored form is the recording: same levels, prices, sizes, sides, rules and times of
  start and end, with the times of the books and trades cut to the millisecond, and nothing moves to another millisecond
  although the times pass through floats twice. Times are those of 2004 to 2038.
\<close>

theorem recording_survives_storage:
  assumes "storable recording"
    and "parse_time (time_text (rc_started_at recording)) = ok (rc_started_at recording)"
    and "parse_time (time_text (rc_ended_at recording)) = ok (rc_ended_at recording)"
  shows "recording_from_dict parse_time live (recording_to_dict time_text recording)
    = ok (recording\<lparr> rc_live := live,
        rc_snapshots := map (\<lambda>s. s\<lparr> ob_timestamp := floor_ms (ob_timestamp s) \<rparr>) (rc_snapshots recording),
        rc_trades := map (\<lambda>t. t\<lparr> tr_timestamp := floor_ms (tr_timestamp t) \<rparr>) (rc_trades recording) \<rparr>)"
proof -
  have "map (\<lambda>s. \<lparr> ob_symbol = rc_symbol recording, ob_bids = ob_bids s, ob_asks = ob_asks s,
        ob_timestamp = from_ms (to_ms (ob_timestamp s)), ob_is_stale = False, ob_tick_id = None \<rparr>) (rc_snapshots recording)
      = map (\<lambda>s. s\<lparr> ob_timestamp := floor_ms (ob_timestamp s) \<rparr>) (rc_snapshots recording)"
    using assms(1) by (intro map_cong refl OrderBookSnapshot.equality) (auto simp: storable_def list_all_iff time_roundtrip)
  moreover have "map (\<lambda>t. \<lparr> tr_timestamp = from_ms (to_ms (tr_timestamp t)), tr_price = tr_price t, tr_amount = tr_amount t,
        tr_side = tr_side t \<rparr>) (rc_trades recording)
      = map (\<lambda>t. t\<lparr> tr_timestamp := floor_ms (tr_timestamp t) \<rparr>) (rc_trades recording)"
    using assms(1) by (intro map_cong refl TradePrint.equality) (auto simp: storable_def list_all_iff time_roundtrip)
  ultimately show ?thesis
    by (simp add: recording_to_dict_def recording_from_dict_def assms(2,3) o_def Let_def)
qed

text \<open>One book and one trade, microseconds apart, in November 2023; time texts are given by hand.\<close>

definition small_recording :: Recording where
  "small_recording =
     \<lparr> rc_exchange = ''kraken'', rc_symbol = ''BTC/USD'',
       rc_rules = \<lparr> mr_exchange = ''kraken'', mr_symbol = ''BTC/USD'', mr_price_step = None, mr_amount_step = None,
         mr_min_amount = None, mr_min_cost = None, mr_verified = True \<rparr>,
       rc_started_at = 1700000000000000, rc_ended_at = 1700000060000000, rc_live = True, rc_label = ''live'',
       rc_snapshots = [\<lparr> ob_symbol = ''BTC/USD'', ob_bids = [\<lparr> lv_price = 1, lv_size = 1 \<rparr>], ob_asks = [], ob_timestamp = 1700000001000999,
         ob_is_stale = False, ob_tick_id = None \<rparr>],
       rc_trades = [\<lparr> tr_timestamp = 1700000001001000, tr_price = 1, tr_amount = 1, tr_side = Some ''buy'' \<rparr>] \<rparr>"

theorem recording_survives_storage_witness:
  "recording_from_dict (\<lambda>text. if text = ''start'' then ok 1700000000000000 else ok 1700000060000000) False
     (recording_to_dict (\<lambda>t. if t = 1700000000000000 then ''start'' else ''end'') small_recording)
   = ok (small_recording\<lparr> rc_live := False,
       rc_snapshots := map (\<lambda>s. s\<lparr> ob_timestamp := 1700000001000000 \<rparr>) (rc_snapshots small_recording),
       rc_trades := map (\<lambda>t. t\<lparr> tr_timestamp := 1700000001001000 \<rparr>) (rc_trades small_recording) \<rparr>)"
proof -
  have "storable small_recording" by (simp add: storable_def small_recording_def clock_ms_def)
  from recording_survives_storage [OF this, of "\<lambda>text. if text = ''start'' then ok 1700000000000000 else ok 1700000060000000"
      "\<lambda>t. if t = 1700000000000000 then ''start'' else ''end''" False]
  show ?thesis by (simp add: small_recording_def floor_ms_def)
qed

section \<open>A live recording ends within its limits\<close>

text \<open>
  What the surroundings have to do: no call takes the clock back, and sleeping takes at least the microseconds asked for.
  \<open>clock\<close> is the time at a state of the surroundings.
\<close>

definition clock_moves :: "'w RecorderEnv \<Rightarrow> ('w \<Rightarrow> datetime) \<Rightarrow> bool" where
  "clock_moves env clock \<longleftrightarrow>
     (\<forall>w. clock w \<le> snd (re_now env w) \<and> snd (re_now env w) \<le> clock (fst (re_now env w)))
     \<and> (\<forall>w. clock w \<le> clock (fst (re_fetch_time env w)))
     \<and> (\<forall>symbol n w. clock w \<le> clock (fst (re_fetch_book env symbol n w)))
     \<and> (\<forall>symbol n w. clock w \<le> clock (fst (re_fetch_trades env symbol n w)))
     \<and> (\<forall>w. case re_should_stop env of None \<Rightarrow> True | Some stop \<Rightarrow> clock w \<le> clock (fst (stop w)))
     \<and> (\<forall>x w. case re_on_progress env of None \<Rightarrow> True | Some on_progress \<Rightarrow> clock w \<le> clock (on_progress x w))
     \<and> (\<forall>x w. clock w + \<lfloor>val x * 10 ^ 6\<rfloor> \<le> clock (re_sleep env x w))"

definition book_shown :: "OrderBookSnapshot \<Rightarrow> bool" where
  "book_shown s \<longleftrightarrow> length (ob_bids s) \<le> BOOK_LEVELS \<and> length (ob_asks s) \<le> BOOK_LEVELS
     \<and> sorted (rev (map lv_price (ob_bids s))) \<and> sorted (map lv_price (ob_asks s)) \<and> \<not> ob_is_stale s"

definition trades_bounded :: "int \<Rightarrow> TradePrint list \<Rightarrow> bool" where
  "trades_bounded started_ms trades \<longleftrightarrow> length trades \<le> MAX_TRADES
     \<and> list_all (\<lambda>t. \<exists>stamp. started_ms \<le> stamp \<and> tr_timestamp t = from_ms stamp) trades"

text \<open>What a recording in progress keeps, and the clock that does not go back.\<close>

definition in_limits :: "int \<Rightarrow> 'w RecorderState \<Rightarrow> bool" where
  "in_limits started_ms s \<longleftrightarrow> list_all book_shown (rs_snapshots s) \<and> wf_dict (rs_trades s)
     \<and> trades_bounded started_ms (map snd (rs_trades s)) \<and> rs_failures s < 5"

definition onward :: "('w \<Rightarrow> datetime) \<Rightarrow> int \<Rightarrow> 'w RecorderState \<Rightarrow> 'w RecorderState \<Rightarrow> bool" where
  "onward clock started_ms s t \<longleftrightarrow> clock (rs_world s) \<le> clock (rs_world t) \<and> (in_limits started_ms s \<longrightarrow> in_limits started_ms t)"

interpretation onwards: frame_condition "onward clock started_ms" for clock :: "'w \<Rightarrow> datetime" and started_ms
  by unfold_locales (auto simp: onward_def)

lemma asking_onward: "(\<And>w. clock w \<le> clock (fst (op w))) \<Longrightarrow> along (onward clock started_ms) (asking op)"
  by (auto simp: along_def asking_def onward_def in_limits_def split: prod.split) (metis fst_conv)

lemma now_onward: "clock_moves env clock \<Longrightarrow> along (onward clock started_ms) (exchange_now env offset)"
  unfolding exchange_now_def
  by (rule asking_onward) (auto simp: clock_moves_def split: prod.split, metis fst_conv snd_conv order_trans)

lemma returned_onward: "along (onward clock started_ms) (returned r)"
  unfolding returned_def by (cases r) (simp_all add: onwards.along_throw onwards.along_pure)

lemma trimmed_shown: "book_shown (trim (normalize_ccxt_orderbook symbol book False now) at_time)"
proof -
  have take_sorted: "sorted (rev (map lv_price (take n (rev (sort_key lv_price xs)))))" for n and xs :: "OrderBookLevel list"
  proof -
    have "rev (map lv_price (take n (rev (sort_key lv_price xs)))) = drop (length xs - n) (map lv_price (sort_key lv_price xs))"
      by (simp add: take_rev rev_map drop_map)
    then show ?thesis using sorted_wrt_drop [OF sorted_sort_key [of lv_price xs]] by simp
  qed
  have "sorted (take n (map lv_price (sort_key lv_price xs)))" for n and xs :: "OrderBookLevel list"
    by (intro sorted_wrt_take sorted_sort_key)
  note take_sorted = take_sorted this [unfolded take_map]
  show ?thesis
    by (simp add: book_shown_def trim_def normalize_ccxt_orderbook_def Let_def trimmed_levels_def o_def take_sorted)
qed

lemma take_print_onward: "along (onward clock started_ms) (take_print started_ms trade)"
proof -
  have "onward clock started_ms s (fst (take_print started_ms trade s))" for s
  proof (cases "rt_timestamp trade")
    case (Some stamp)
    show ?thesis
    proof (cases "stamp < started_ms \<or> length (rs_trades s) \<ge> MAX_TRADES \<or> (\<exists>e. trade_print stamp trade = Inl e)
        \<or> dict_get (rs_trades s) (trade_key trade) \<noteq> None")
      case False
      then obtain print where print: "trade_print stamp trade = Inr print" by (cases "trade_print stamp trade") auto
      then have "tr_timestamp print = from_ms stamp" by (auto simp: trade_print_def split: option.splits)
      then have "\<exists>st. started_ms \<le> st \<and> tr_timestamp print = from_ms st" using False by (intro exI [of _ stamp]) simp
      moreover have "dict_set (trade_key trade) print (rs_trades s) = rs_trades s @ [(trade_key trade, print)]"
        using False by (simp add: dict_set_new flip: dict_get_None_iff)
      ultimately show ?thesis using Some False print wf_dict_set [of "rs_trades s" "trade_key trade" print]
        by (auto simp: take_print_def returned_def onward_def in_limits_def trades_bounded_def)
    qed (use Some in \<open>auto simp: take_print_def returned_def onward_def in_limits_def then_do_def split: sum.split option.split\<close>)
  qed (simp add: take_print_def onwards.reflexive)
  then show ?thesis by (simp add: along_def)
qed

lemma read_market_onward:
  assumes "clock_moves env clock"
  shows "along (onward clock started_ms) (read_market env symbol limit offset started_ms)"
proof -
  have "along (onward clock started_ms) (updating (\<lambda>s. s\<lparr> rs_snapshots := rs_snapshots s
      @ [trim (normalize_ccxt_orderbook symbol book False at_time) at_time] \<rparr>))" for book at_time
    by (rule along_updating) (simp add: onward_def in_limits_def trimmed_shown)
  then show ?thesis
    unfolding read_market_def using assms
    by (intro onwards.along_then onwards.along_each asking_onward now_onward returned_onward take_print_onward)
      (auto simp: clock_moves_def)
qed

lemma reading_pass_onward:
  assumes "clock_moves env clock"
  shows "case reading_pass env symbol limit offset started_ms s of
      (t, Inl e) \<Rightarrow> \<exists>reason. e = stopped_answering reason | (t, Inr u) \<Rightarrow> onward clock started_ms s t"
proof -
  obtain t r where run: "read_market env symbol limit offset started_ms s = (t, r)" by fastforce
  have "onward clock started_ms s t" using alongD [OF read_market_onward [OF assms]] run by (metis fst_conv)
  then show ?thesis by (cases r) (auto simp: reading_pass_def run Let_def onward_def in_limits_def)
qed

lemma read_clock_onward:
  assumes "clock_moves env clock" "read_clock env offset s = (t, time)"
  shows "onward clock started_ms s t \<and> clock (rs_world s) + offset \<le> time \<and> time \<le> clock (rs_world t) + offset
    \<and> rs_snapshots t = rs_snapshots s \<and> rs_trades t = rs_trades s \<and> rs_last_error t = rs_last_error s"
proof -
  obtain w now where now: "re_now env (rs_world s) = (w, now)" by fastforce
  have "clock (rs_world s) \<le> now" "now \<le> clock w" using assms(1) now unfolding clock_moves_def by (metis fst_conv snd_conv)+
  then show ?thesis using assms(2) now by (auto simp: read_clock_def onward_def in_limits_def)
qed

lemma report_progress_onward:
  assumes "clock_moves env clock"
  shows "onward clock started_ms s (report_progress env offset ends s)"
proof (cases "re_on_progress env")
  case (Some on_progress)
  obtain t time where clock: "read_clock env offset s = (t, time)" by fastforce
  have "clock w \<le> clock (on_progress x w)" for x w using assms Some by (auto simp: clock_moves_def)
  then have "onward clock started_ms t (t\<lparr> rs_world := on_progress x (rs_world t) \<rparr>)" for x by (simp add: onward_def in_limits_def)
  then show ?thesis using read_clock_onward [OF assms clock] onwards.transitive by (simp add: report_progress_def Some clock) blast
qed (simp add: report_progress_def onwards.reflexive)

text \<open>A pass takes at least a microsecond: it was slow, or it sleeps for the interval.\<close>

lemma wait_for_next_onward:
  assumes "clock_moves env clock" "1 \<le> \<lfloor>val interval * 10 ^ 6\<rfloor>" "tick_start \<le> clock (rs_world s) + offset"
  shows "onward clock started_ms s (wait_for_next env offset interval tick_start s)
    \<and> tick_start < clock (rs_world (wait_for_next env offset interval tick_start s)) + offset"
proof -
  obtain t time where clock: "read_clock env offset s = (t, time)" by fastforce
  note onward = read_clock_onward [OF assms(1) clock, of started_ms]
  define rest where "rest = max 0 (interval - total_seconds (time - tick_start))"
  have slept: "clock (rs_world t) + \<lfloor>val rest * 10 ^ 6\<rfloor> \<le> clock (re_sleep env rest (rs_world t))"
    using assms(1) by (auto simp: clock_moves_def)
  have "0 \<le> rest" by (simp add: rest_def)
  then have nonneg: "0 \<le> \<lfloor>val rest * 10 ^ 6\<rfloor>" by (simp add: le_val)
  have "rest = interval" if "time = tick_start"
  proof -
    have "total_seconds 0 = 0" by (simp add: total_seconds_def)
    moreover have "1 \<le> val interval * 10 ^ 6" using assms(2) by (simp add: le_floor_iff)
    then have "0 \<le> val interval" by simp
    ultimately show ?thesis using that by (simp add: rest_def le_val max_def)
  qed
  then have "tick_start < clock (re_sleep env rest (rs_world t)) + offset"
  proof (cases "time = tick_start")
    case True
    then have "\<lfloor>val rest * 10 ^ 6\<rfloor> = \<lfloor>val interval * 10 ^ 6\<rfloor>" using \<open>time = tick_start \<Longrightarrow> rest = interval\<close> by simp
    then show ?thesis using slept onward assms(2) True by linarith
  next
    case False
    then show ?thesis using slept nonneg onward assms(3) by linarith
  qed
  moreover have "onward clock started_ms t (t\<lparr> rs_world := re_sleep env rest (rs_world t) \<rparr>)"
    using order_trans [OF _ slept, of "clock (rs_world t)"] nonneg by (simp add: onward_def in_limits_def)
  ultimately show ?thesis
    using onward onwards.transitive by (auto simp: wait_for_next_def clock rest_def [symmetric] Let_def)
qed

text \<open>The loop ends before its time is up, counted in microseconds.\<close>

lemma record_loop_ends:
  assumes "clock_moves env clock" "1 \<le> \<lfloor>val interval * 10 ^ 6\<rfloor>"
  shows "nat (ends - (clock (rs_world s) + offset)) \<le> n \<Longrightarrow> in_limits started_ms s
    \<Longrightarrow> \<exists>t r. record_loop env symbol limit offset started_ms interval ends s = Some (t, r)
      \<and> (case r of Inl e \<Rightarrow> \<exists>reason. e = stopped_answering reason | Inr u \<Rightarrow> in_limits started_ms t)"
proof (induction n arbitrary: s rule: less_induct)
  case (less n)
  obtain s1 tick_start where s1: "read_clock env offset s = (s1, tick_start)" by fastforce
  note one = read_clock_onward [OF assms(1) s1, of started_ms]
  show ?case
  proof (cases "tick_start \<ge> ends")
    case True
    then show ?thesis using one less.prems(2) s1 by (subst record_loop.simps) (simp add: onward_def)
  next
    case False
    obtain s2 stopping where s2: "(case re_should_stop env of None \<Rightarrow> (s1, False)
        | Some stop \<Rightarrow> (case stop (rs_world s1) of (w, b) \<Rightarrow> (s1\<lparr> rs_world := w \<rparr>, b))) = (s2, stopping)" by fastforce
    have two: "onward clock started_ms s1 s2"
    proof (cases "re_should_stop env")
      case (Some stop)
      moreover have "clock (rs_world s1) \<le> clock (fst (stop (rs_world s1)))" using assms(1) Some by (auto simp: clock_moves_def)
      ultimately show ?thesis using s2 by (auto simp: onward_def in_limits_def split: prod.splits)
    qed (use s2 in \<open>simp add: onwards.reflexive\<close>)
    obtain s3 r where s3: "reading_pass env symbol limit offset started_ms s2 = (s3, r)" by fastforce
    show ?thesis
    proof (cases "stopping \<or> (\<exists>e. r = Inl e)")
      case True
      then show ?thesis
        using one two less.prems(2) s1 s2 s3 False reading_pass_onward [OF assms(1), where started_ms = started_ms and symbol = symbol
          and limit = limit and offset = offset and s = s2]
        by (subst record_loop.simps) (auto simp: onward_def)
    next
      case going_on: False
      then have "r = Inr ()" by (cases r) auto
      define s4 where "s4 = report_progress env offset ends s3"
      define s5 where "s5 = wait_for_next env offset interval tick_start s4"
      have three: "onward clock started_ms s2 s3"
        using reading_pass_onward [OF assms(1), where started_ms = started_ms and symbol = symbol and limit = limit and offset = offset and s = s2] by (simp add: s3 \<open>r = Inr ()\<close>)
      have four: "onward clock started_ms s3 s4" unfolding s4_def by (rule report_progress_onward [OF assms(1)])
      have "tick_start \<le> clock (rs_world s4) + offset" using one two three four by (auto simp: onward_def)
      from wait_for_next_onward [OF assms this, of started_ms]
      have five: "onward clock started_ms s4 s5" "tick_start < clock (rs_world s5) + offset" by (simp_all add: s5_def)
      have step: "record_loop env symbol limit offset started_ms interval ends s
          = record_loop env symbol limit offset started_ms interval ends s5"
        using s1 s2 s3 going_on False \<open>r = Inr ()\<close> by (subst record_loop.simps) (simp add: s4_def s5_def)
      have "clock (rs_world s) + offset < clock (rs_world s5) + offset" using one five(2) by linarith
      moreover have "clock (rs_world s) + offset < ends" using one False by linarith
      ultimately have "nat (ends - (clock (rs_world s5) + offset)) < n" using less.prems(1) by linarith
      moreover have "in_limits started_ms s5" using less.prems(2) one two three four five(1) by (simp add: onward_def)
      ultimately show ?thesis using less.IH step by auto
    qed
  qed
qed

lemma lab_intervals: "dict_get LAB_EXCHANGES i = Some exchange \<Longrightarrow> 1 \<le> \<lfloor>val (lx_interval_sec exchange) * 10 ^ 6\<rfloor>"
  by (auto simp: LAB_EXCHANGES_def val_lit_numeral split: if_splits)

lemma sorted_trades_bounded: "trades_bounded m trades \<Longrightarrow> trades_bounded m (sort_key tr_timestamp trades)"
  by (simp add: trades_bounded_def list_all_iff)

text \<open>C39. On a clock that moves on, a live recording ends, whatever the exchange answers: with an error only for an unknown
  exchange, after five failed passes in a row or without any book read, and otherwise with books of at most ten levels a
  side in price order, at most fifty thousand trades in time order, and no trade from before the start.
\<close>

theorem live_recording_ends:
  assumes "clock_moves env clock" and "case interval_sec of None \<Rightarrow> True | Some i \<Rightarrow> 1 \<le> \<lfloor>val i * 10 ^ 6\<rfloor>"
  shows "\<exists>w' r. record_live env exchange_id symbol rules duration interval_sec w = Some (w', r)
    \<and> (case r of
         Inl UnknownExchange \<Rightarrow> dict_get LAB_EXCHANGES exchange_id = None
       | Inl (RecordingFailed message) \<Rightarrow> \<exists>reason. message = stopped_answering reason \<or> message = no_book_read reason
       | Inr rec \<Rightarrow> rc_exchange rec = exchange_id \<and> rc_symbol rec = symbol \<and> rc_live rec
           \<and> list_all book_shown (rc_snapshots rec) \<and> sorted (map tr_timestamp (rc_trades rec))
           \<and> trades_bounded (to_ms (rc_started_at rec)) (rc_trades rec))"
proof (cases "dict_get LAB_EXCHANGES exchange_id")
  case None
  then show ?thesis by (simp add: record_live_def)
next
  case (Some exchange)
  define interval where "interval = (case interval_sec of Some i \<Rightarrow> i | None \<Rightarrow> lx_interval_sec exchange)"
  have interval: "1 \<le> \<lfloor>val interval * 10 ^ 6\<rfloor>"
    using assms(2) lab_intervals [OF Some] by (auto simp: interval_def split: option.splits)
  obtain s offset where s: "clock_offset env (recorder_init w) = (s, offset)" by fastforce
  obtain s1 started where s1: "read_clock env offset s = (s1, started)" by fastforce
  have "in_limits (to_ms started) s1"
    using s s1 by (auto simp: clock_offset_def read_clock_def asking_def recorder_init_def in_limits_def trades_bounded_def
        split: prod.splits sum.splits option.splits if_splits)
  from record_loop_ends [OF assms(1) interval order_refl this]
  obtain t r where loop: "record_loop env symbol (lx_trades_limit exchange) offset (to_ms started) interval
        (started + seconds_delta duration) s1 = Some (t, r)"
      and limits: "case r of Inl e \<Rightarrow> \<exists>reason. e = stopped_answering reason | Inr u \<Rightarrow> in_limits (to_ms started) t" by blast
  moreover have "rs_snapshots t' = rs_snapshots t \<and> rs_trades t' = rs_trades t" if "read_clock env offset t = (t', ended)" for t' ended
    using read_clock_onward [OF assms(1) that] by simp
  ultimately show ?thesis
    using loop by (cases r) (auto simp: record_live_def Some s s1 interval_def [symmetric] finished_recording_def recording_of_def Let_def
        in_limits_def sorted_trades_bounded split: prod.split)
qed

text \<open>An exchange with one book and one trade, on a clock that only sleeping moves.\<close>

definition steady_exchange :: "int RecorderEnv" where
  "steady_exchange =
     \<lparr> re_now = (\<lambda>w. (w, w)), re_fetch_time = (\<lambda>w. (w, ok (Some 1700000000000))),
       re_fetch_book = (\<lambda>symbol n w. (w, ok \<lparr> rl_bids = Some [[1, 1]], rl_asks = Some [[1, 1]] \<rparr>)),
       re_fetch_trades = (\<lambda>symbol n w. (w, ok [\<lparr> rt_id = Some ''7'', rt_timestamp = Some 1700000000500, rt_price = Some 1,
         rt_amount = Some 1, rt_side = None \<rparr>])),
       re_should_stop = None, re_on_progress = None, re_sleep = (\<lambda>x w. w + \<lfloor>val x * 10 ^ 6\<rfloor>), re_short_error = (\<lambda>e. ''error'') \<rparr>"

theorem live_recording_ends_witness:
  "\<exists>w' r. record_live steady_exchange ''kraken'' ''BTC/USD'' (rc_rules small_recording) 1 None 1700000000000000 = Some (w', r)
    \<and> (case r of
         Inl UnknownExchange \<Rightarrow> dict_get LAB_EXCHANGES ''kraken'' = None
       | Inl (RecordingFailed message) \<Rightarrow> \<exists>reason. message = stopped_answering reason \<or> message = no_book_read reason
       | Inr rec \<Rightarrow> rc_exchange rec = ''kraken'' \<and> rc_symbol rec = ''BTC/USD'' \<and> rc_live rec
           \<and> list_all book_shown (rc_snapshots rec) \<and> sorted (map tr_timestamp (rc_trades rec))
           \<and> trades_bounded (to_ms (rc_started_at rec)) (rc_trades rec))"
proof (rule live_recording_ends)
  show "clock_moves steady_exchange (\<lambda>w. w)" by (simp add: clock_moves_def steady_exchange_def)
qed simp

end
