(* ===== verification/Backtest.thy ===== *)
theory Backtest
  imports Market_Loop Testnet_Shadow
begin

text \<open>
  Backtests: the metrics of a run (\<open>app/analytics/backtest_metrics.py\<close>), the replay of recorded order books through a
  strategy and the paper broker (\<open>app/services/backtest_runner.py\<close>), the comparison of the strategies
  (\<open>strategy_comparison.py\<close>), the replay of recorded pool observations through the liquidity book
  (\<open>lp_backtest_runner.py\<close>) and the comparison of the two books (\<open>book_comparison.py\<close>). Reading files and the data base is
  not modelled: the rows are arguments.
\<close>

section \<open>Metrics\<close>

definition SECONDS_PER_YEAR :: int where "SECONDS_PER_YEAR = 365 * 24 * 60 * 60"
definition DEFAULT_TICK_INTERVAL_SEC :: f64 where "DEFAULT_TICK_INTERVAL_SEC = lit 2"

record BacktestMetrics =
  bm_tick_count :: nat
  bm_fill_count :: nat
  bm_quote_count :: nat
  bm_fill_rate :: f64
  bm_total_pnl :: f64
  bm_max_drawdown :: f64
  bm_sharpe_ratio :: f64
  bm_final_base :: f64
  bm_final_quote :: f64

text \<open>The loop of \<open>_max_drawdown\<close>: the peak so far and the largest fall from it.\<close>

fun drawdown_pass :: "f64 \<Rightarrow> f64 \<Rightarrow> f64 list \<Rightarrow> f64" where
  "drawdown_pass peak max_dd [] = max_dd"
| "drawdown_pass peak max_dd (v # values) = drawdown_pass (max peak v) (max max_dd (max peak v - v)) values"

definition max_drawdown :: "f64 list \<Rightarrow> f64" where
  "max_drawdown pnl_series = (case pnl_series of [] \<Rightarrow> 0 | first # _ \<Rightarrow> drawdown_pass first 0 pnl_series)"

text \<open>The differences of neighbours.\<close>

definition steps_of :: "('a \<Rightarrow> 'a \<Rightarrow> 'b) \<Rightarrow> 'a list \<Rightarrow> 'b list" where
  "steps_of diff xs = map2 (\<lambda>later earlier. diff later earlier) (drop 1 xs) xs"

definition average_tick_interval_seconds :: "datetime list option \<Rightarrow> f64 res" where
  "average_tick_interval_seconds timestamps =
     (case timestamps of
        None \<Rightarrow> ok DEFAULT_TICK_INTERVAL_SEC
      | Some stamps \<Rightarrow>
          if length stamps < 2 then ok DEFAULT_TICK_INTERVAL_SEC
          else
            let deltas = steps_of (\<lambda>later earlier. total_seconds (later - earlier)) stamps;
                positive = filter (\<lambda>d. d > 0) deltas
            in if positive = [] then ok DEFAULT_TICK_INTERVAL_SEC
               else fdiv (py_sum positive) (float_of_int (int (length positive))))"

definition sharpe_ratio :: "Libm \<Rightarrow> f64 list \<Rightarrow> datetime list option \<Rightarrow> f64 \<Rightarrow> f64 res" where
  "sharpe_ratio m pnl_series timestamps risk_free_rate =
     (if length pnl_series < 2 then ok 0
      else
        let returns = steps_of (\<lambda>later earlier. later - earlier) pnl_series; n = float_of_int (int (length returns)) in
        rbind (fdiv (py_sum returns) n) (\<lambda>mean_return.
        rbind (fdiv (py_sum (map (\<lambda>v. libm_pow m (v - mean_return) (lit 2)) returns)) n) (\<lambda>variance.
        rbind (fsqrt variance) (\<lambda>std_dev.
        if std_dev = 0 then ok 0
        else
          let excess = mean_return - risk_free_rate in
          rbind (average_tick_interval_seconds timestamps) (\<lambda>average_tick_seconds.
          rbind (fdiv (float_of_int SECONDS_PER_YEAR) average_tick_seconds) (\<lambda>ticks_per_year.
          rbind (fdiv excess std_dev) (\<lambda>ratio.
          rbind (fsqrt ticks_per_year) (\<lambda>root. ok (ratio * root)))))))))"

definition compute_backtest_metrics ::
    "Libm \<Rightarrow> f64 list \<Rightarrow> nat \<Rightarrow> nat \<Rightarrow> nat \<Rightarrow> f64 \<Rightarrow> f64 \<Rightarrow> datetime list option \<Rightarrow> BacktestMetrics res" where
  "compute_backtest_metrics m pnl_series tick_count fill_count quote_count final_base final_quote timestamps =
     (let total_pnl = (if pnl_series = [] then 0 else last pnl_series);
          fill_rate = (if quote_count > 0 then lit (real fill_count / real quote_count) else 0)
      in rbind (sharpe_ratio m pnl_series timestamps 0) (\<lambda>sharpe.
         ok \<lparr> bm_tick_count = tick_count, bm_fill_count = fill_count, bm_quote_count = quote_count, bm_fill_rate = fill_rate,
              bm_total_pnl = total_pnl, bm_max_drawdown = max_drawdown pnl_series, bm_sharpe_ratio = sharpe,
              bm_final_base = final_base, bm_final_quote = final_quote \<rparr>))"

text \<open>\<open>f"{x:.2%}"\<close> is a hundred times the number with two decimals.\<close>

definition percent :: "nat \<Rightarrow> f64 \<Rightarrow> string" where
  "percent k x = fixed k (x * lit 100) @ ''%''"

definition format_backtest_report :: "BacktestMetrics \<Rightarrow> Fill list \<Rightarrow> string list" where
  "format_backtest_report metrics fills =
     [''=== Backtest Report ==='',
      ''Ticks: '' @ nat_str (bm_tick_count metrics),
      ''Fills: '' @ nat_str (bm_fill_count metrics),
      ''Quotes submitted: '' @ nat_str (bm_quote_count metrics),
      ''Fill rate: '' @ percent 2 (bm_fill_rate metrics),
      ''Total PnL: '' @ fixed 4 (bm_total_pnl metrics),
      ''Max drawdown: '' @ fixed 4 (bm_max_drawdown metrics),
      ''Sharpe ratio (annualized): '' @ fixed 4 (bm_sharpe_ratio metrics),
      ''Final base: '' @ fixed 6 (bm_final_base metrics),
      ''Final quote: '' @ fixed 2 (bm_final_quote metrics),
      ''Trade log entries: '' @ nat_str (length fills)]"

section \<open>Replaying order books\<close>

definition snapshot_from_row :: "string \<Rightarrow> f64 \<Rightarrow> f64 \<Rightarrow> datetime \<Rightarrow> bool \<Rightarrow> OrderBookSnapshot" where
  "snapshot_from_row symbol bid ask_price timestamp is_stale =
     (let spread = ask_price - bid in
      \<lparr> ob_symbol = symbol,
        ob_bids = [\<lparr> lv_price = bid, lv_size = 1 \<rparr>, \<lparr> lv_price = bid - spread * lit (1 / 10), lv_size = 1 \<rparr>],
        ob_asks = [\<lparr> lv_price = ask_price, lv_size = 1 \<rparr>, \<lparr> lv_price = ask_price + spread * lit (1 / 10), lv_size = 1 \<rparr>],
        ob_timestamp = timestamp, ob_is_stale = is_stale, ob_tick_id = None \<rparr>)"

text \<open>A row of the frame: best bid, best ask, whether it is stale, and the text of its time.\<close>

type_synonym BookRow = "f64 \<times> f64 \<times> bool \<times> string"

definition utc_suffix :: "string \<Rightarrow> string" where
  "utc_suffix t = concat (map (\<lambda>c. if c = CHR ''Z'' then ''+00:00'' else [c]) t)"

definition snapshots_from_rows :: "(string \<Rightarrow> datetime res) \<Rightarrow> string \<Rightarrow> BookRow list \<Rightarrow> OrderBookSnapshot list res" where
  "snapshots_from_rows fromisoformat symbol rows =
     res_map (\<lambda>(bid, ask_price, is_stale, timestamp).
       rbind (fromisoformat (utc_suffix timestamp)) (\<lambda>at_time. ok (snapshot_from_row symbol bid ask_price at_time is_stale))) rows"

record BacktestRunner =
  br_settings :: Settings
  br_strategy :: Strategy
  br_broker :: PaperBroker

record BacktestResult =
  bt_metrics :: BacktestMetrics
  bt_fills :: "Fill list"
  bt_pnl_series :: "f64 list"
  bt_report :: "string list"

definition backtest_init :: "Settings \<Rightarrow> FillCalibration option res \<Rightarrow> BacktestRunner res" where
  "backtest_init settings calibration =
     rbind calibration (\<lambda>c. ok \<lparr> br_settings = settings, br_strategy = build_strategy settings, br_broker = broker_of settings c \<rparr>)"

text \<open>What the loop over the snapshots collects.\<close>

record BacktestRun =
  bu_runner :: BacktestRunner
  bu_fills :: "Fill list"
  bu_pnl :: "f64 list"
  bu_quotes :: nat

definition shown_pnl :: "PaperBroker \<Rightarrow> OrderBookSnapshot \<Rightarrow> f64" where
  "shown_pnl broker snapshot = pn_total_pnl (compute_pnl_snapshot (pb_inventory broker) snapshot (ob_timestamp snapshot))"

definition backtest_step :: "Libm \<Rightarrow> Draws \<Rightarrow> (nat \<Rightarrow> string) \<Rightarrow> OrderBookSnapshot \<Rightarrow> BacktestRun \<Rightarrow> BacktestRun res" where
  "backtest_step m dr uuid snapshot run =
     (let runner = bu_runner run; now = ob_timestamp snapshot; settings = br_settings runner in
      if ob_is_stale snapshot then
        let broker = cancel_all_quotes (br_broker runner)
        in ok (run\<lparr> bu_runner := runner\<lparr> br_broker := broker \<rparr>, bu_pnl := bu_pnl run @ [shown_pnl broker snapshot] \<rparr>)
      else
        case apply_fills m dr (br_broker runner) snapshot of (broker, filled) \<Rightarrow>
        rbind filled (\<lambda>fills.
          let position = to_position (pb_inventory broker) now in
          case generate_quotes (br_strategy runner) snapshot position of (strategy, quotes) \<Rightarrow>
            let approved = filter_quotes_by_position_limit quotes position (s_max_position_base settings)
                             (s_max_position_notional settings) (s_maker_fee_bps settings)
            in ok (run\<lparr> bu_runner := runner\<lparr> br_strategy := strategy, br_broker := fst (submit_quotes uuid broker approved) \<rparr>,
                        bu_fills := bu_fills run @ fills, bu_pnl := bu_pnl run @ [shown_pnl broker snapshot],
                        bu_quotes := bu_quotes run + length approved \<rparr>)))"

text \<open>\<open>uuids i\<close> are the quote ids drawn at the \<open>i\<close>-th snapshot.\<close>

fun backtest_steps :: "Libm \<Rightarrow> Draws \<Rightarrow> (nat \<Rightarrow> nat \<Rightarrow> string) \<Rightarrow> nat \<Rightarrow> OrderBookSnapshot list \<Rightarrow> BacktestRun \<Rightarrow> BacktestRun res" where
  "backtest_steps m dr uuids i [] run = ok run"
| "backtest_steps m dr uuids i (s # ss) run = rbind (backtest_step m dr (uuids i) s run) (backtest_steps m dr uuids (i + 1) ss)"

definition run_snapshots ::
    "Libm \<Rightarrow> Draws \<Rightarrow> (nat \<Rightarrow> nat \<Rightarrow> string) \<Rightarrow> BacktestRunner \<Rightarrow> OrderBookSnapshot list \<Rightarrow> BacktestResult res" where
  "run_snapshots m dr uuids runner snapshots =
     (if snapshots = [] then
        rbind (compute_backtest_metrics m [] 0 0 0 0 (s_initial_quote_balance (br_settings runner)) None) (\<lambda>metrics.
          ok \<lparr> bt_metrics = metrics, bt_fills = [], bt_pnl_series = [], bt_report = format_backtest_report metrics [] \<rparr>)
      else
        rbind (backtest_steps m dr uuids 0 snapshots \<lparr> bu_runner = runner, bu_fills = [], bu_pnl = [], bu_quotes = 0 \<rparr>) (\<lambda>run.
          let account = pb_inventory (br_broker (bu_runner run)) in
          rbind (compute_backtest_metrics m (bu_pnl run) (length snapshots) (length (bu_fills run)) (bu_quotes run)
                   (iv_base_amount account) (iv_quote_amount account) (Some (map ob_timestamp snapshots))) (\<lambda>metrics.
            ok \<lparr> bt_metrics = metrics, bt_fills = bu_fills run, bt_pnl_series = bu_pnl run,
                 bt_report = format_backtest_report metrics (bu_fills run) \<rparr>)))"

definition run_from_rows ::
    "Libm \<Rightarrow> Draws \<Rightarrow> (nat \<Rightarrow> nat \<Rightarrow> string) \<Rightarrow> (string \<Rightarrow> datetime res) \<Rightarrow> BacktestRunner \<Rightarrow> BookRow list \<Rightarrow> BacktestResult res" where
  "run_from_rows m dr uuids fromisoformat runner rows =
     rbind (snapshots_from_rows fromisoformat (s_symbol (br_settings runner)) rows) (run_snapshots m dr uuids runner)"

section \<open>Comparing the strategies\<close>

definition DEFAULT_STRATEGIES :: "StrategyName list" where
  "DEFAULT_STRATEGIES = [pure_mm, inventory_skew, volatility_spread]"

record StrategyComparisonRow =
  sc_strategy :: StrategyName
  sc_metrics :: BacktestMetrics
  sc_result :: BacktestResult

text \<open>Building settings validates them again.\<close>

definition checked_settings :: "Settings \<Rightarrow> Settings res" where
  "checked_settings settings = (if settings_valid settings then ok settings else raise_error ValueError)"

definition compare_strategies ::
    "Settings \<Rightarrow> FillCalibration option res \<Rightarrow> (BacktestRunner \<Rightarrow> BacktestResult res) \<Rightarrow> StrategyName list \<Rightarrow> StrategyComparisonRow list res" where
  "compare_strategies settings calibration run strategies =
     res_map (\<lambda>name.
       rbind (checked_settings (settings\<lparr> s_strategy := name \<rparr>)) (\<lambda>st.
       rbind (backtest_init st calibration) (\<lambda>runner.
       rbind (run runner) (\<lambda>result.
       ok \<lparr> sc_strategy = name, sc_metrics = bt_metrics result, sc_result = result \<rparr>)))) strategies"

text \<open>\<open>max(rows, key=...)\<close>: the first of the largest.\<close>

fun first_largest :: "('a \<Rightarrow> f64) \<Rightarrow> 'a \<Rightarrow> 'a list \<Rightarrow> 'a" where
  "first_largest key best [] = best"
| "first_largest key best (x # xs) = first_largest key (if key x > key best then x else best) xs"

definition strategy_text :: "StrategyName \<Rightarrow> string" where
  "strategy_text name =
     (case name of pure_mm \<Rightarrow> ''pure_mm'' | inventory_skew \<Rightarrow> ''inventory_skew'' | volatility_spread \<Rightarrow> ''volatility_spread'')"

definition TABLE_HEADERS :: "string list" where
  "TABLE_HEADERS = [''strategy'', ''total_pnl'', ''max_dd'', ''sharpe'', ''fill_rate'', ''fills'', ''quotes'', ''ticks'']"

definition table_row :: "StrategyComparisonRow \<Rightarrow> string list" where
  "table_row row =
     (let metrics = sc_metrics row in
      [strategy_text (sc_strategy row), fixed 4 (bm_total_pnl metrics), fixed 4 (bm_max_drawdown metrics),
       fixed 4 (bm_sharpe_ratio metrics), percent 2 (bm_fill_rate metrics), nat_str (bm_fill_count metrics),
       nat_str (bm_quote_count metrics), nat_str (bm_tick_count metrics)])"

definition ljust :: "nat \<Rightarrow> string \<Rightarrow> string" where
  "ljust width t = t @ replicate (width - length t) CHR '' ''"

definition joined :: "string \<Rightarrow> string list \<Rightarrow> string" where
  "joined sep parts = (case parts of [] \<Rightarrow> [] | p # ps \<Rightarrow> p @ concat (map (\<lambda>q. sep @ q) ps))"

definition format_table_row :: "nat list \<Rightarrow> string list \<Rightarrow> string" where
  "format_table_row widths values = joined ''  '' (map2 ljust widths values)"

definition format_strategy_comparison_table :: "string \<Rightarrow> StrategyComparisonRow list \<Rightarrow> string list" where
  "format_strategy_comparison_table origin rows =
     (let table = TABLE_HEADERS # map table_row rows;
          widths = map (\<lambda>i. Max (set (map (\<lambda>row. length (row ! i)) table))) [0..<length TABLE_HEADERS]
      in [''=== Strategy Comparison ==='', ''Source: '' @ origin, format_table_row widths TABLE_HEADERS,
          joined ''  '' (map (\<lambda>w. replicate w CHR ''-'') widths)]
         @ map (format_table_row widths) (map table_row rows)
         @ (case rows of
              [] \<Rightarrow> []
            | row # more_rows \<Rightarrow>
                let best_pnl = first_largest (\<lambda>r. bm_total_pnl (sc_metrics r)) row more_rows;
                    best_sharpe = first_largest (\<lambda>r. bm_sharpe_ratio (sc_metrics r)) row more_rows
                in [[], ''Best total PnL: '' @ strategy_text (sc_strategy best_pnl) @ '' ('' @ fixed 4 (bm_total_pnl (sc_metrics best_pnl)) @ '')'',
                    ''Best Sharpe: '' @ strategy_text (sc_strategy best_sharpe) @ '' (''
                      @ fixed 4 (bm_sharpe_ratio (sc_metrics best_sharpe)) @ '')'']))"

section \<open>Replaying pool observations through the liquidity book\<close>

record LpResult =
  lpr_range_width_bps :: f64
  lpr_rebalance_threshold_bps :: f64
  lpr_cooldown_sec :: f64
  lpr_observation_count :: nat
  lpr_fees_quote :: f64
  lpr_il_quote :: f64
  lpr_hodl_pnl_quote :: f64
  lpr_swap_cost_quote :: f64
  lpr_gas_cost_quote :: f64
  lpr_net_pnl_quote :: f64
  lpr_capital_quote :: f64
  lpr_return_on_capital_pct :: f64
  lpr_rebalance_count :: int
  lpr_time_in_range_pct :: f64
  lpr_fee_accounting_exact_pct :: f64
  lpr_max_reconciliation_error_quote :: f64
  lpr_final_status :: LpStatus

record LpBacktestRun =
  lq_book :: LpPaperBook
  lq_state :: "LpPositionState option"
  lq_exact :: nat
  lq_accrued :: nat
  lq_worst :: f64

definition lp_backtest_book :: "Settings \<Rightarrow> f64 \<Rightarrow> f64 \<Rightarrow> LpPaperBook res" where
  "lp_backtest_book settings width_bps threshold_bps =
     rbind (checked_settings (settings\<lparr> s_lp_range_width_bps := width_bps, s_lp_rebalance_threshold_bps := threshold_bps \<rparr>))
       (\<lambda>st. ok (build_lp_book st))"

definition lp_backtest_step ::
    "Libm \<Rightarrow> (string \<Rightarrow> datetime res) \<Rightarrow> PoolMetadata \<Rightarrow> TickWindow option \<Rightarrow> Row \<Rightarrow> LpBacktestRun \<Rightarrow> LpBacktestRun res" where
  "lp_backtest_step m fromisoformat meta window row run =
     rbind (snapshot_from_observation m fromisoformat row meta window) (\<lambda>snapshot.
       case lp_step m (lq_book run) snapshot None False of (book, stepped) \<Rightarrow>
         rbind stepped (\<lambda>(state, events).
           let accrues = lp_fee_accounting state \<noteq> no_fees in
           ok \<lparr> lq_book = book, lq_state = Some state,
                lq_exact = lq_exact run + (if accrues \<and> lp_fee_accounting state = exact_fees then 1 else 0),
                lq_accrued = lq_accrued run + (if accrues then 1 else 0),
                lq_worst = max (lq_worst run) \<bar>lp_reconciliation_error_quote state\<bar> \<rparr>))"

primrec lp_backtest_steps ::
    "Libm \<Rightarrow> (string \<Rightarrow> datetime res) \<Rightarrow> PoolMetadata \<Rightarrow> TickWindow option \<Rightarrow> Row list \<Rightarrow> LpBacktestRun \<Rightarrow> LpBacktestRun res" where
  "lp_backtest_steps m fromisoformat meta window [] run = ok run"
| "lp_backtest_steps m fromisoformat meta window (row # rows) run =
     rbind (lp_backtest_step m fromisoformat meta window row run) (lp_backtest_steps m fromisoformat meta window rows)"

definition unopened_result :: "Settings \<Rightarrow> f64 \<Rightarrow> f64 \<Rightarrow> LpResult" where
  "unopened_result settings width_bps threshold_bps =
     \<lparr> lpr_range_width_bps = width_bps, lpr_rebalance_threshold_bps = threshold_bps, lpr_cooldown_sec = s_lp_rebalance_cooldown_sec settings,
       lpr_observation_count = 0, lpr_fees_quote = 0, lpr_il_quote = 0, lpr_hodl_pnl_quote = 0, lpr_swap_cost_quote = 0,
       lpr_gas_cost_quote = 0, lpr_net_pnl_quote = 0, lpr_capital_quote = s_lp_capital_quote settings, lpr_return_on_capital_pct = 0,
       lpr_rebalance_count = 0, lpr_time_in_range_pct = 0, lpr_fee_accounting_exact_pct = 0, lpr_max_reconciliation_error_quote = 0,
       lpr_final_status = not_opened \<rparr>"

definition share_pct :: "nat \<Rightarrow> nat \<Rightarrow> f64" where
  "share_pct k n = (if n = 0 then 0 else lit (real k / real n) * lit 100)"

definition run_lp_backtest ::
    "Libm \<Rightarrow> (string \<Rightarrow> datetime res) \<Rightarrow> Settings \<Rightarrow> Row list \<Rightarrow> PoolMetadata \<Rightarrow> TickWindow option \<Rightarrow> f64 \<Rightarrow> f64 \<Rightarrow> LpResult res" where
  "run_lp_backtest m fromisoformat settings observations meta window width_bps threshold_bps =
     rbind (lp_backtest_book settings width_bps threshold_bps) (\<lambda>book.
     rbind (lp_backtest_steps m fromisoformat meta window observations
              \<lparr> lq_book = book, lq_state = None, lq_exact = 0, lq_accrued = 0, lq_worst = 0 \<rparr>) (\<lambda>run.
       case lq_state run of
         None \<Rightarrow> ok (unopened_result settings width_bps threshold_bps)
       | Some state \<Rightarrow>
           rbind (fdiv (lp_net_pnl_quote state) (s_lp_capital_quote settings)) (\<lambda>share.
           ok \<lparr> lpr_range_width_bps = width_bps, lpr_rebalance_threshold_bps = threshold_bps,
                lpr_cooldown_sec = s_lp_rebalance_cooldown_sec settings, lpr_observation_count = length observations,
                lpr_fees_quote = lp_fees_quote state, lpr_il_quote = lp_il_quote state, lpr_hodl_pnl_quote = lp_hodl_pnl_quote state,
                lpr_swap_cost_quote = lp_swap_cost_quote state, lpr_gas_cost_quote = lp_gas_cost_quote state,
                lpr_net_pnl_quote = lp_net_pnl_quote state, lpr_capital_quote = s_lp_capital_quote settings,
                lpr_return_on_capital_pct = share * lit 100, lpr_rebalance_count = lp_rebalance_count state,
                lpr_time_in_range_pct = (if lp_time_tracked_sec state \<noteq> 0
                                        then lp_time_in_range_sec state / lp_time_tracked_sec state * lit 100 else 0),
                lpr_fee_accounting_exact_pct = share_pct (lq_exact run) (lq_accrued run),
                lpr_max_reconciliation_error_quote = lq_worst run, lpr_final_status = lp_status state \<rparr>)))"

text \<open>Every width with every threshold.\<close>

definition run_lp_sweep ::
    "Libm \<Rightarrow> (string \<Rightarrow> datetime res) \<Rightarrow> Settings \<Rightarrow> Row list \<Rightarrow> PoolMetadata \<Rightarrow> TickWindow option \<Rightarrow> f64 list \<Rightarrow> f64 list
     \<Rightarrow> LpResult list res" where
  "run_lp_sweep m fromisoformat settings observations meta window widths_bps thresholds_bps =
     res_map (\<lambda>(width, threshold). run_lp_backtest m fromisoformat settings observations meta window width threshold)
       (List.product widths_bps thresholds_bps)"

section \<open>The two books side by side\<close>

record BookSide =
  bs_label :: string
  bs_capital_quote :: f64
  bs_revenue_quote :: f64
  bs_costs_quote :: f64
  bs_inventory_effect_quote :: f64
  bs_net_pnl_quote :: f64
  bs_return_pct :: f64
  bs_details :: "(string, f64) dict"

datatype BookWinner = CexWins | LpWins | Tie

record BookComparison =
  bc_window_start :: "datetime option"
  bc_window_end :: "datetime option"
  bc_cex :: BookSide
  bc_lp :: BookSide
  bc_mismatch_notes :: "string list"
  bc_winner :: BookWinner

definition TIE_TOLERANCE_PCT :: f64 where "TIE_TOLERANCE_PCT = lit (1 / 10 ^ 6)"

text \<open>A start of \<open>None\<close> means since the beginning.\<close>

definition window_delta :: "('a \<Rightarrow> f64) \<Rightarrow> 'a option \<Rightarrow> 'a \<Rightarrow> f64" where
  "window_delta field start end_state = field end_state - (case start of None \<Rightarrow> 0 | Some s \<Rightarrow> field s)"

definition return_on :: "f64 \<Rightarrow> f64 \<Rightarrow> f64" where
  "return_on net capital = (if capital \<noteq> 0 then net / capital * lit 100 else 0)"

definition cex_side :: "PnLSnapshot option \<Rightarrow> PnLSnapshot option \<Rightarrow> f64 \<Rightarrow> string \<Rightarrow> BookSide" where
  "cex_side cex_start cex_end cex_capital cex_symbol =
     (let change = (\<lambda>field. case cex_end of None \<Rightarrow> 0 | Some e \<Rightarrow> window_delta field cex_start e);
          realized = change pn_realized_pnl; unrealized = change pn_unrealized_pnl; fees = change pn_total_fees; net = change pn_total_pnl
      in \<lparr> bs_label = ''CEX market making ('' @ cex_symbol @ '')'', bs_capital_quote = cex_capital, bs_revenue_quote = realized,
           bs_costs_quote = fees, bs_inventory_effect_quote = unrealized, bs_net_pnl_quote = net,
           bs_return_pct = return_on net cex_capital,
           bs_details = [(''realized_spread_capture_quote'', realized), (''maker_fees_quote'', fees),
                         (''unrealized_inventory_quote'', unrealized)] \<rparr>)"

definition lp_side :: "LpPositionState option \<Rightarrow> LpPositionState option \<Rightarrow> string \<Rightarrow> BookSide" where
  "lp_side lp_start lp_end lp_pool_label =
     (let change = (\<lambda>field. case lp_end of None \<Rightarrow> 0 | Some e \<Rightarrow> window_delta field lp_start e);
          fees = change lp_fees_quote; swap_cost = change lp_swap_cost_quote; gas = change lp_gas_cost_quote;
          il = change lp_il_quote; hodl = change lp_hodl_pnl_quote; net = change lp_net_pnl_quote;
          capital = (case lp_end of None \<Rightarrow> 0 | Some e \<Rightarrow> lp_capital_quote e)
      in \<lparr> bs_label = ''Uniswap V3 LP ('' @ lp_pool_label @ '')'', bs_capital_quote = capital, bs_revenue_quote = fees,
           bs_costs_quote = swap_cost + gas, bs_inventory_effect_quote = il + hodl, bs_net_pnl_quote = net,
           bs_return_pct = return_on net capital,
           bs_details = [(''fees_quote'', fees), (''swap_cost_quote'', swap_cost), (''gas_cost_quote'', gas),
                         (''impermanent_loss_quote'', il), (''hodl_revaluation_quote'', hodl)] \<rparr>)"

definition ends_with :: "string \<Rightarrow> string \<Rightarrow> bool" where
  "ends_with tail_part t \<longleftrightarrow> length tail_part \<le> length t \<and> drop (length t - length tail_part) t = tail_part"

definition mismatch_notes :: "string \<Rightarrow> string list" where
  "mismatch_notes cex_symbol =
     [''Returns are compared on each book'' @ [CHR 0x27] @ ''s own starting capital (return on capital).'',
      ''Both books are paper simulations; neither result predicts live performance.'']
     @ (if takeWhile (\<lambda>c. c \<noteq> CHR ''/'') cex_symbol \<notin> {''ETH'', ''WETH''}
        then [''Asset mismatch: CEX book trades '' @ cex_symbol @ '' while the LP book holds WETH/USDC; set SYMBOL=ETH/USDT for a closer comparison.'']
        else [])
     @ (if ends_with ''/USDT'' cex_symbol
        then [''Quote mismatch: CEX book is USDT-quoted, LP book is USDC-quoted (basis not hedged).''] else [])"

definition winner_of :: "f64 \<Rightarrow> f64 \<Rightarrow> BookWinner" where
  "winner_of cex_return lp_return =
     (let diff = cex_return - lp_return in
      if \<bar>diff\<bar> \<le> TIE_TOLERANCE_PCT then Tie else if diff > 0 then CexWins else LpWins)"

definition compare_books ::
    "PnLSnapshot option \<Rightarrow> PnLSnapshot option \<Rightarrow> f64 \<Rightarrow> string \<Rightarrow> LpPositionState option \<Rightarrow> LpPositionState option \<Rightarrow> string
     \<Rightarrow> datetime option \<Rightarrow> datetime option \<Rightarrow> BookComparison" where
  "compare_books cex_start cex_end cex_capital cex_symbol lp_start lp_end lp_pool_label window_start window_end =
     (let cex = cex_side cex_start cex_end cex_capital cex_symbol; lp = lp_side lp_start lp_end lp_pool_label
      in \<lparr> bc_window_start = window_start, bc_window_end = window_end, bc_cex = cex, bc_lp = lp,
           bc_mismatch_notes = mismatch_notes cex_symbol, bc_winner = winner_of (bs_return_pct cex) (bs_return_pct lp) \<rparr>)"

end
