(* ===== verification/Backtest_Facts.thy ===== *)
theory Backtest_Facts
  imports Backtest Lab_Engine_Facts
begin

text \<open>
  What a backtest reports: the largest fall from a peak is the largest of all the differences of an earlier and a later
  profit, the figures agree with the run they are computed from, and a strategy that never fills ends where it started.
  The comparison of the two books is fair: exchanging the books exchanges the winner.
\<close>

section \<open>The largest fall from a peak\<close>

definition falls :: "f64 list \<Rightarrow> f64 set" where
  "falls values = {values ! i - values ! j | i j. i \<le> j \<and> j < length values}"

lemma falls_Nil [simp]: "falls [] = {}"
  by (simp add: falls_def)

lemma finite_falls: "finite (falls values)"
proof -
  have "falls values \<subseteq> (\<lambda>(i, j). values ! i - values ! j) ` ({..<length values} \<times> {..<length values})"
    by (force simp: falls_def)
  then show ?thesis by (rule finite_subset) simp
qed

lemma falls_snoc: "falls (values @ [v]) = falls values \<union> (\<lambda>p. p - v) ` set (values @ [v])"
proof (intro equalityI subsetI)
  fix d
  assume "d \<in> falls (values @ [v])"
  then obtain i j where ij: "i \<le> j" "j < Suc (length values)" "d = (values @ [v]) ! i - (values @ [v]) ! j"
    by (auto simp: falls_def)
  show "d \<in> falls values \<union> (\<lambda>p. p - v) ` set (values @ [v])"
  proof (cases "j < length values")
    case True
    then show ?thesis using ij by (auto simp: falls_def nth_append)
  next
    case False
    then have "d = (values @ [v]) ! i - v" "(values @ [v]) ! i \<in> set (values @ [v])"
      using ij by (auto simp: nth_append intro: nth_mem)
    then show ?thesis by blast
  qed
next
  fix d
  assume "d \<in> falls values \<union> (\<lambda>p. p - v) ` set (values @ [v])"
  then consider "d \<in> falls values" | p where "p \<in> set (values @ [v])" "d = p - v" by auto
  then show "d \<in> falls (values @ [v])"
  proof cases
    case 1
    then obtain i j where "i \<le> j" "j < length values" "d = values ! i - values ! j" by (auto simp: falls_def)
    then have "d = (values @ [v]) ! i - (values @ [v]) ! j" "i \<le> j" "j < length (values @ [v])" by (auto simp: nth_append)
    then show ?thesis unfolding falls_def by blast
  next
    case 2
    then obtain i where "i < length (values @ [v])" "p = (values @ [v]) ! i" by (metis in_set_conv_nth)
    then have "d = (values @ [v]) ! i - (values @ [v]) ! length values" "i \<le> length values" using 2 by auto
    then show ?thesis unfolding falls_def by fastforce
  qed
qed

text \<open>The pass keeps the peak and the largest fall of what it has seen.\<close>

lemma Max_falls_snoc:
  "Max (insert 0 (falls (seen @ [v]))) = max (Max (insert 0 (falls seen))) (Max (set (seen @ [v])) - v)"
proof -
  let ?S = "set (seen @ [v])"
  have "mono (\<lambda>p::f64. p - v)" by (rule monoI) (simp add: f64_diff_mono)
  then have drop: "Max ((\<lambda>p. p - v) ` ?S) = Max ?S - v" by (intro mono_Max_commute [symmetric]) simp_all
  have "insert 0 (falls (seen @ [v])) = insert 0 (falls seen) \<union> (\<lambda>p. p - v) ` ?S" by (simp add: falls_snoc)
  moreover have "Max (insert 0 (falls seen) \<union> (\<lambda>p. p - v) ` ?S) = max (Max (insert 0 (falls seen))) (Max ((\<lambda>p. p - v) ` ?S))"
    by (rule Max_Un) (simp_all add: finite_falls)
  ultimately show ?thesis by (simp only: drop)
qed

lemma drawdown_pass_falls:
  "seen \<noteq> [] \<Longrightarrow> drawdown_pass (Max (set seen)) (Max (insert 0 (falls seen))) rest = Max (insert 0 (falls (seen @ rest)))"
proof (induction rest arbitrary: seen)
  case (Cons v rest)
  have "max (Max (set seen)) v = Max (set (seen @ [v]))" using Cons.prems by (simp add: max.commute)
  then have "drawdown_pass (Max (set seen)) (Max (insert 0 (falls seen))) (v # rest)
      = drawdown_pass (Max (set (seen @ [v]))) (Max (insert 0 (falls (seen @ [v])))) rest"
    by (simp only: drawdown_pass.simps Max_falls_snoc)
  also have "\<dots> = Max (insert 0 (falls ((seen @ [v]) @ rest)))" by (rule Cons.IH) simp
  finally show ?case by simp
qed simp

lemma max_drawdown_falls: "max_drawdown values = Max (insert 0 (falls values))"
proof (cases "values")
  case (Cons v rest)
  have "falls [v] = {0}" using falls_snoc [of "[]" v] by simp
  then show ?thesis using drawdown_pass_falls [of "[v]" rest] Cons by (simp add: max_drawdown_def)
qed (simp add: max_drawdown_def)

section \<open>A replay\<close>

text \<open>A run of a backtest against the account it started with: one profit per book, and without fills nothing changed.\<close>

definition flat_account :: "InventoryTracker \<Rightarrow> bool" where
  "flat_account account \<longleftrightarrow> iv_base_amount account = 0 \<and> iv_realized_pnl account = 0 \<and> iv_total_fees account = 0"

definition backtest_sound :: "InventoryTracker \<Rightarrow> BacktestRun \<Rightarrow> bool" where
  "backtest_sound account run \<longleftrightarrow>
     (bu_fills run = [] \<longrightarrow> pb_inventory (br_broker (bu_runner run)) = account \<and> set (bu_pnl run) \<subseteq> {0})"

lemma shown_pnl_flat: "flat_account (pb_inventory broker) \<Longrightarrow> shown_pnl broker snapshot = 0"
  by (simp add: shown_pnl_def compute_pnl_snapshot_def flat_account_def Let_def split: option.split)

lemma backtest_step_sound:
  assumes "backtest_step m dr uuid snapshot run = Inr run'" and "backtest_sound account run" and "flat_account account"
  shows "backtest_sound account run' \<and> length (bu_pnl run') = Suc (length (bu_pnl run))"
proof (cases "ob_is_stale snapshot")
  case True
  then show ?thesis
    using assms shown_pnl_flat [of "cancel_all_quotes (br_broker (bu_runner run))" snapshot]
    by (auto simp: backtest_step_def backtest_sound_def Let_def cancel_all_quotes_def)
next
  case False
  obtain broker filled where pair: "apply_fills m dr (br_broker (bu_runner run)) snapshot = (broker, filled)" by fastforce
  obtain strategy quotes where generated: "generate_quotes (br_strategy (bu_runner run)) snapshot
      (to_position (pb_inventory broker) (ob_timestamp snapshot)) = (strategy, quotes)" by fastforce
  show ?thesis
    using assms False pair generated apply_fills_silent [of m dr "br_broker (bu_runner run)" snapshot broker]
      shown_pnl_flat [of broker snapshot]
    by (auto simp: backtest_step_def backtest_sound_def Let_def submit_quotes_def)
qed

lemma backtest_steps_sound:
  "backtest_steps m dr uuids i ss run = Inr run' \<Longrightarrow> backtest_sound account run \<Longrightarrow> flat_account account
    \<Longrightarrow> backtest_sound account run' \<and> length (bu_pnl run') = length (bu_pnl run) + length ss"
proof (induction ss arbitrary: run i)
  case (Cons s ss)
  obtain mid where "backtest_step m dr (uuids i) s run = Inr mid" "backtest_steps m dr uuids (i + 1) ss mid = Inr run'"
    using Cons.prems(1) by auto
  then show ?case using Cons.IH [of "i + 1" mid] backtest_step_sound [of m dr "uuids i" s run mid account] Cons.prems by simp
qed simp

lemma compute_metrics_fields:
  "compute_backtest_metrics m pnl ticks fills quotes base quote stamps = Inr metrics \<Longrightarrow>
     bm_tick_count metrics = ticks \<and> bm_fill_count metrics = fills \<and> bm_quote_count metrics = quotes
     \<and> bm_total_pnl metrics = (if pnl = [] then 0 else last pnl) \<and> bm_max_drawdown metrics = max_drawdown pnl
     \<and> bm_final_base metrics = base \<and> bm_final_quote metrics = quote"
  by (auto simp: compute_backtest_metrics_def Let_def)

lemma broker_of_flat:
  "flat_account (pb_inventory (broker_of settings c))"
  "iv_quote_amount (pb_inventory (broker_of settings c)) = s_initial_quote_balance settings"
  by (simp_all add: broker_of_def broker_init_def flat_account_def inventory_init_def)

text \<open>C40. A backtest's figures are those of its run: one profit per recorded book, the last of them as the total, the
  largest fall between an earlier and a later profit as the drawdown, and the fills counted. A strategy that never
  filled has zero profit throughout and ends with the cash it started with.
\<close>

theorem backtest_reports_its_run:
  "case rbind (backtest_init settings calibration) (\<lambda>runner. run_snapshots m dr uuids runner snapshots) of
     Inl e \<Rightarrow> True
   | Inr r \<Rightarrow> length (bt_pnl_series r) = length snapshots \<and> bm_tick_count (bt_metrics r) = length snapshots
       \<and> bm_fill_count (bt_metrics r) = length (bt_fills r)
       \<and> bm_total_pnl (bt_metrics r) = (if snapshots = [] then 0 else last (bt_pnl_series r))
       \<and> bm_max_drawdown (bt_metrics r) = Max (insert 0 (falls (bt_pnl_series r)))
       \<and> (if bt_fills r = []
          then bt_pnl_series r = replicate (length snapshots) 0 \<and> bm_max_drawdown (bt_metrics r) = 0
             \<and> bm_final_base (bt_metrics r) = 0 \<and> bm_final_quote (bt_metrics r) = s_initial_quote_balance settings
          else True)"
proof (cases "rbind (backtest_init settings calibration) (\<lambda>runner. run_snapshots m dr uuids runner snapshots)")
  case (Inr r)
  then obtain c where ran: "run_snapshots m dr uuids \<lparr> br_settings = settings, br_strategy = build_strategy settings,
      br_broker = broker_of settings c \<rparr> snapshots = Inr r"
    by (auto simp: backtest_init_def)
  let ?runner = "\<lparr> br_settings = settings, br_strategy = build_strategy settings, br_broker = broker_of settings c \<rparr>"
  let ?run = "\<lparr> bu_runner = ?runner, bu_fills = [], bu_pnl = [], bu_quotes = 0 \<rparr>"
  let ?account = "pb_inventory (broker_of settings c)"
  have "length (bt_pnl_series r) = length snapshots \<and> bm_tick_count (bt_metrics r) = length snapshots
      \<and> bm_fill_count (bt_metrics r) = length (bt_fills r)
      \<and> bm_total_pnl (bt_metrics r) = (if snapshots = [] then 0 else last (bt_pnl_series r))
      \<and> bm_max_drawdown (bt_metrics r) = max_drawdown (bt_pnl_series r)
      \<and> (bt_fills r = [] \<longrightarrow> set (bt_pnl_series r) \<subseteq> {0} \<and> bm_final_base (bt_metrics r) = 0
           \<and> bm_final_quote (bt_metrics r) = s_initial_quote_balance settings)"
  proof (cases "snapshots = []")
    case True
    then show ?thesis using ran by (auto simp: run_snapshots_def dest!: compute_metrics_fields)
  next
    case False
    with ran obtain run where steps: "backtest_steps m dr uuids 0 snapshots ?run = Inr run"
      and r: "bt_fills r = bu_fills run" "bt_pnl_series r = bu_pnl run"
        "compute_backtest_metrics m (bu_pnl run) (length snapshots) (length (bu_fills run)) (bu_quotes run)
           (iv_base_amount (pb_inventory (br_broker (bu_runner run)))) (iv_quote_amount (pb_inventory (br_broker (bu_runner run))))
           (Some (map ob_timestamp snapshots)) = Inr (bt_metrics r)"
      by (auto simp: run_snapshots_def Let_def)
    have "backtest_sound ?account ?run" by (simp add: backtest_sound_def)
    from backtest_steps_sound [OF steps this broker_of_flat(1)]
    have run: "backtest_sound ?account run" "length (bu_pnl run) = length snapshots" by simp_all
    then have "bu_pnl run \<noteq> []" using False by auto
    then show ?thesis
      using run broker_of_flat [of settings c] compute_metrics_fields [OF r(3)] False
      by (auto simp: r(1,2) backtest_sound_def flat_account_def)
  qed
  moreover have "xs = replicate (length xs) 0" if "set xs \<subseteq> {0}" for xs :: "f64 list"
    using that by (intro replicate_eqI) auto
  moreover have "max_drawdown (replicate n 0) = 0" for n
  proof -
    have "insert 0 (falls (replicate n 0)) = {0}" by (auto simp: falls_def)
    then show ?thesis by (simp only: max_drawdown_falls Max_singleton)
  qed
  ultimately show ?thesis by (simp add: Inr max_drawdown_falls [symmetric]) metis
qed simp

section \<open>The comparison of the two books\<close>

lemma winner_exchanged:
  "winner_of a b = (case winner_of b a of CexWins \<Rightarrow> LpWins | LpWins \<Rightarrow> CexWins | Tie \<Rightarrow> Tie)"
proof -
  have "\<bar>a - b\<bar> = \<bar>b - a\<bar>" by (simp add: abs_f64_def minus_f64_def val_lit abs_minus_commute flip: fl_abs)
  moreover have "0 \<le> TIE_TOLERANCE_PCT" by (simp add: TIE_TOLERANCE_PCT_def lit_nonneg)
  ultimately show ?thesis by (auto simp: winner_of_def Let_def)
qed

end
