(* ===== verification/Spec2Isabelle.thy ===== *)
theory Spec2Isabelle
  imports V3_Swap_Simulator V3_Liquidity Dex_Arb Arbitrage Quoting Paper_Broker Pool_Liquidity Replay_Check Router_Facts Lp_Facts Flash_Arb_Facts Pool_Reader_Facts
    Market_Sources Market_Loop_Facts Lab_Engine_Facts Lab_Service_Results Testnet_Trader_Facts
    Testnet_Fills Testnet_Cancel Testnet_Comparison Testnet_Replay_Facts Mempool_Watcher_Facts Lab_Recorder_Facts Backtest_Facts
begin

text \<open>
  Verification library of the crypto-mm-lab repository (Python sources under \<open>src/app\<close>): a paper market maker and
  liquidity provider, an exact simulator of Uniswap pools, arbitrage scanners, a watcher of pending swaps, a public
  simulation lab and a trader on an exchange's test network.

  \<^bold>\<open>How the program is built.\<close> One \<open>MarketMakerLoop\<close> reads an order book and the V3 pool, lets a strategy quote, filters
  the quotes by the risk limits, rests them at a \<open>PaperBroker\<close>, books the fills the next book or the public trades give,
  steps a paper liquidity position and looks for arbitrage; a tick is persisted whole or undone. Beside it run the
  \<open>MempoolWatcher\<close> (pending swaps predicted on a pool state rolled forward block by block and checked against the block
  that includes them), the \<open>SimLab\<close> (visitors' runs in a waiting line with hourly limits, simulated by the same broker and
  strategies) and the \<open>TestnetTrader\<close> (real orders on a test exchange, shadowed by the paper fill models, recorded,
  replayed and compared). They share the settings, the kill switch, the fill models and the pool mathematics.

  \<^bold>\<open>Conventions.\<close> An object with mutable attributes is a record; a method is a function from the record to the record and
  its result. An exception is \<open>Inl\<close> of a result (\<open>Lab_Prelude\<close>); where state changed before the exception is kept, the
  state stands next to the result (\<open>sbind\<close>, and \<open>Actions\<close> for the coroutines of the trader and the watcher). Python's
  integers are \<open>int\<close>, with the 256-bit wrap-around of the fee counters written out (\<open>wrap_sub\<close>). Floats are
  IEEE binary64 with rounding to nearest even (\<open>Binary64\<close>): a float is a real number that rounds to itself. A dictionary
  is an association list with distinct keys in insertion order (\<open>Py_Dict\<close>). Times are integers of microseconds.
  What is outside the sources is an argument of the definitions: the C library's log, pow and exp (\<open>Libm\<close>), SHA-256, repr
  and isoformat (\<open>Draws\<close>), Keccak and the ABI decoder (\<open>Abi\<close>, \<open>Codec\<close>), the node, the exchange, the repository and the
  clock (fields of \<open>WatcherEnv\<close> and \<open>TraderEnv\<close>, functions of the surroundings' state that may raise).

  \<^bold>\<open>Theories and sources.\<close>
  \<^item> Exact pool mathematics, \<open>market_data/uniswap_v3\<close> and \<open>uniswap_v2_math.py\<close>: \<open>V3_Full_Math\<close> (512-bit products, fee
    growth), \<open>V3_Tick_Math\<close>, \<open>V3_Sqrt_Price\<close>, \<open>V3_Swap_Math\<close>, \<open>V3_Tick_Bitmap\<close>, \<open>V3_Swap_Simulator\<close>, \<open>V3_Liquidity\<close>,
    \<open>V2_Math\<close>, \<open>V3_Models\<close> (records, pricing). Lemmas: bounds of every rounding, a step's promise, the loop's
    invariant and termination, the exact next tick, minting within the budget.
  \<^item> Scanners: \<open>Dex_Arb\<close> (\<open>dex_arb_scanner.py\<close>), \<open>Amm_Pool\<close>, \<open>Arbitrage\<close> (\<open>arbitrage_scanner.py\<close>), \<open>Flash_Arb\<close> with
    \<open>Executor_Simulator\<close> (the read-only simulation of the executor contract) and its facts.
  \<^item> Trading: \<open>Lab_Domain\<close>, \<open>Lab_Settings\<close>, \<open>Risk_Limits\<close>, \<open>Quoting\<close> (\<open>strategies/\<close>), \<open>Inventory\<close>, \<open>Fill_Calibration\<close>,
    \<open>Fill_Model\<close>, \<open>Paper_Broker\<close>, \<open>Market_Sources\<close> (adapters of exchange and chain, fixtures, fallback), \<open>Lp_Strategy\<close>,
    \<open>Lp_Book\<close>, \<open>Lp_Facts\<close>, \<open>Market_Loop\<close>, \<open>Market_Loop_Facts\<close> (\<open>market_maker_loop.py\<close>). Lemmas: solvency, quotes that never
    cross, limits, checkpoints, what a failed tick undoes.
  \<^item> Pools followed on the chain: \<open>Pool_Reader\<close> (\<open>v3_pool_adapter.py\<close>, \<open>multicall.py\<close>), \<open>Pool_Events\<close>, \<open>Pool_State\<close>,
    \<open>Pool_Chain\<close>, \<open>Pool_Liquidity\<close> (refinement of the book of positions), \<open>Predictor\<close>, \<open>Verifier\<close>, \<open>Replay_Check\<close>,
    \<open>Router_Decoder\<close>, \<open>Router_Facts\<close>, \<open>Mempool_Models\<close>, \<open>Mempool_Watcher\<close>, \<open>Mempool_Watcher_Facts\<close>
    (\<open>services/mempool\<close>).
  \<^item> Simulation lab, \<open>simlab/\<close>: \<open>Lab_Markets\<close>, \<open>Lab_Engine\<close>, \<open>Lab_Engine_Facts\<close>, \<open>Lab_Service\<close>, \<open>Lab_Service_Facts\<close>,
    \<open>Lab_Service_Runs\<close>, \<open>Lab_Service_Results\<close>, and the recordings it simulates: \<open>Lab_Recorder\<close> (\<open>recorder.py\<close>,
    \<open>recording.py\<close>) with \<open>Lab_Recorder_Facts\<close>: a live recording ends, a stored one reads back.
  \<^item> Backtests: \<open>Backtest\<close> (\<open>backtest_metrics.py\<close>, \<open>backtest_runner.py\<close>, \<open>lp_backtest_runner.py\<close>,
    \<open>strategy_comparison.py\<close>, \<open>book_comparison.py\<close>) and \<open>Backtest_Facts\<close>: the figures are those of the run.
  \<^item> Test network, \<open>services/testnet\<close> and \<open>binance_testnet.py\<close>: \<open>Testnet_Models\<close>, \<open>Testnet_Client\<close>, \<open>Testnet_Shadow\<close>,
    \<open>Testnet_Trader\<close>, \<open>Testnet_Replay\<close>, and what they promise in \<open>Testnet_Trader_Facts\<close>, \<open>Testnet_Orders\<close>,
    \<open>Testnet_Fills\<close>, \<open>Testnet_Cancel\<close>, \<open>Testnet_Comparison\<close>, \<open>Testnet_Replay_Facts\<close>.
  \<^item> Shared: \<open>Lab_Prelude\<close>, \<open>Py_Dict\<close>, \<open>Py_Text\<close>, \<open>Py_Format\<close>, \<open>Py_Number\<close>, \<open>Binary64\<close>, \<open>State_Frames\<close>, \<open>Actions\<close>.

  \<^bold>\<open>Interfaces.\<close> Contracts between components are locales, each interpreted on the model's own definitions: \<open>rounding\<close>
  (binary64), \<open>monotone_table\<close> (ticks to prices), \<open>price_curve\<close> (amounts between prices), \<open>ordered_dict\<close> (a size-limited
  dictionary), \<open>quoting\<close> (a strategy), \<open>ledger\<close> (an account that bookings keep solvent), \<open>usable_source\<close> (market data),
  \<open>fed_machine\<close> (an object fed with observations) and \<open>frame_condition\<close> (a relation that steps keep).

  \<^bold>\<open>Bounds and fuel.\<close> The swap loop ends because each step crosses an initialized tick or a word of the bitmap toward the
  limit (a measure of the distance left). Bisections run the fixed number of rounds of the code: 50 for the slippage, 30 for
  the golden section, \<open>SEARCH_ITERATIONS = 200\<close> for the trade size, which is enough for reserves below \<open>2 ^ 112\<close>. The mint
  loop tries four times and needs one. Nested calls of a router are decoded with a fuel of the calldata's length, and more
  fuel changes nothing. Reorganisations are followed at most twelve blocks back, cancellations are confirmed at most five
  times, the queue of pending swaps is drained with a fuel of its length.

  \<^bold>\<open>Not modelled.\<close> Float overflow, NaN, infinities and signed zero, and the texts of such numbers; the exactness of the C
  library; malformed answers of the exchange; the interleaving of coroutines at awaits inside one step (a step of a model is
  one method run to its end; the race between the intake and the settling of a block is shown by
  \<open>replaced_while_settling\<close>); SQL, HTTP routes, websocket subscriptions, metrics, logging, JSON and CSV files, the
  reports and the command-line scripts, for the reasons given with the components of the manifest.
\<close>

end
